(* ===== verification/Prelude.thy ===== *)
theory Prelude
  imports Main "HOL-Library.List_Lexorder" "HOL-Library.Char_ord" "HOL-Library.AList"
begin

text \<open>
  Shared vocabulary of the development: how Go values are represented, the collections of
  simplification rules that the components extend, and generic facts about lists, maps and
  results.

  Go values. A Go string is the list of its bytes (type \<open>string\<close>); Go's byte-wise
  string order is the lexicographic order of \<open>List_Lexorder\<close> over \<open>Char_ord\<close>.
  A \<open>time.Time\<close> is the number of ticks since Go's zero time, so \<open>IsZero\<close> is
  equality with 0. A function that returns only an \<open>error\<close> returns an option
  (\<open>None\<close> is \<open>nil\<close>); a function that returns a value and an error returns a
  sum (\<open>Inl\<close> is the error).
\<close>

type_synonym time = int

definition is_zero_time :: "time \<Rightarrow> bool" where
  "is_zero_time t \<longleftrightarrow> t = 0"

named_theorems validity_simps \<open>unfolding rules of the validators\<close>
named_theorems step_simps \<open>unfolding rules of the operations\<close>

declare is_zero_time_def [validity_simps]

subsection \<open>Sequencing of checks and of fallible operations\<close>

text \<open>\<open>check c e k\<close> is \<open>if c { return e }; k\<close> for functions returning only an error.\<close>

definition check :: "bool \<Rightarrow> 'e \<Rightarrow> 'e option \<Rightarrow> 'e option" where
  "check c e k = (if c then Some e else k)"

text \<open>\<open>orelse a k\<close> is \<open>if err := a; err != nil { return err }; k\<close>.\<close>

definition orelse :: "'e option \<Rightarrow> 'e option \<Rightarrow> 'e option" where
  "orelse a k = (case a of Some e \<Rightarrow> Some e | None \<Rightarrow> k)"

text \<open>\<open>bind_result a f\<close> is \<open>v, err := a; if err != nil { return err }; f v\<close>.\<close>

definition bind_result :: "'e + 'a \<Rightarrow> ('a \<Rightarrow> 'e + 'b) \<Rightarrow> 'e + 'b" where
  "bind_result a f = (case a of Inl e \<Rightarrow> Inl e | Inr v \<Rightarrow> f v)"

lemma check_None [simp]: "check c e k = None \<longleftrightarrow> \<not> c \<and> k = None"
  by (simp add: check_def)

lemma orelse_None [simp]: "orelse a k = None \<longleftrightarrow> a = None \<and> k = None"
  by (simp add: orelse_def split: option.splits)

lemma check_simps [simp]: "check True e k = Some e" "check False e k = k"
  by (simp_all add: check_def)

lemma orelse_simps [simp]: "orelse None k = k" "orelse (Some e) k = Some e"
  by (simp_all add: orelse_def)

lemma bind_result_simps [simp]: "bind_result (Inl e) f = Inl e" "bind_result (Inr v) f = f v"
  by (simp_all add: bind_result_def)

lemma bind_result_Inr: "bind_result a f = Inr w \<longleftrightarrow> (\<exists>v. a = Inr v \<and> f v = Inr w)"
  by (cases a) simp_all

subsection \<open>First match in a list\<close>

text \<open>A \<open>for ... range\<close> loop that returns the first element satisfying a condition.\<close>

fun first_match :: "('a \<Rightarrow> bool) \<Rightarrow> 'a list \<Rightarrow> 'a option" where
  "first_match p [] = None"
| "first_match p (x # xs) = (if p x then Some x else first_match p xs)"

lemma first_match_None: "first_match p xs = None \<longleftrightarrow> (\<forall>x \<in> set xs. \<not> p x)"
  by (induction xs) auto

lemma first_match_Some: "first_match p xs = Some x \<Longrightarrow> x \<in> set xs \<and> p x"
  by (induction xs) (auto split: if_splits)

lemma first_match_filter:
  "first_match p xs = (case filter p xs of [] \<Rightarrow> None | y # _ \<Rightarrow> Some y)"
  by (induction xs) auto

lemma first_match_ex: "\<exists>x \<in> set xs. p x \<Longrightarrow> \<exists>y. first_match p xs = Some y"
  by (induction xs) auto

subsection \<open>Insertion without duplicates\<close>

text \<open>Go code that keeps a \<open>seen\<close> map next to a result slice appends an element once.\<close>

definition add_once :: "'a \<Rightarrow> 'a list \<Rightarrow> 'a list" where
  "add_once x xs = (if x \<in> set xs then xs else xs @ [x])"

lemma set_add_once [simp]: "set (add_once x xs) = insert x (set xs)"
  by (auto simp: add_once_def)

lemma distinct_add_once [simp]: "distinct xs \<Longrightarrow> distinct (add_once x xs)"
  by (simp add: add_once_def)

lemma add_once_not_Nil [simp]: "add_once x xs \<noteq> []"
  by (auto simp: add_once_def)

subsection \<open>Duplicate detection with a seen set\<close>

fun dup_free :: "'a list \<Rightarrow> 'a list \<Rightarrow> bool" where
  "dup_free seen [] = True"
| "dup_free seen (x # xs) = (if x \<in> set seen then False else dup_free (x # seen) xs)"

lemma dup_free_iff: "dup_free seen xs \<longleftrightarrow> distinct xs \<and> set xs \<inter> set seen = {}"
  by (induction seen xs rule: dup_free.induct) auto

subsection \<open>Association lists as finite maps\<close>

lemma map_of_AList_update: "map_of (AList.update k v al) = (map_of al)(k \<mapsto> v)"
  by (rule update_conv')

lemma map_of_AList_delete: "map_of (AList.delete k al) = (map_of al)(k := None)"
  by (rule delete_conv')

lemma map_of_filter_key:
  "map_of (filter (\<lambda>(k, v). P k) al) = (\<lambda>k. if P k then map_of al k else None)"
  by (induction al) auto

subsection \<open>Machines with a rank\<close>

text \<open>A run of a step relation from a state: each state is a step from the one before.\<close>

fun run_from :: "('s \<Rightarrow> 's \<Rightarrow> bool) \<Rightarrow> 's \<Rightarrow> 's list \<Rightarrow> bool" where
  "run_from step s [] = True"
| "run_from step s (t # ts) = (step s t \<and> run_from step t ts)"

text \<open>
  A status machine whose steps always raise a bounded rank: it has no cycles, and a run is
  never longer than the distance to the bound. The components' status machines interpret it.
\<close>

locale ranked_machine =
  fixes step :: "'s \<Rightarrow> 's \<Rightarrow> bool"
    and rank :: "'s \<Rightarrow> nat"
    and bound :: nat
  assumes step_rank: "step s t \<Longrightarrow> rank s < rank t"
    and rank_bound: "rank s \<le> bound"
begin

lemma run_rank: "run_from step s ts \<Longrightarrow> t \<in> set ts \<Longrightarrow> rank s < rank t"
proof (induction ts arbitrary: s)
  case (Cons u us)
  then show ?case using step_rank by (cases "t = u") (auto intro: less_trans)
qed simp

lemma run_bounded: "run_from step s ts \<Longrightarrow> length ts + rank s \<le> bound"
proof (induction ts arbitrary: s)
  case Nil
  then show ?case by (simp add: rank_bound)
next
  case (Cons t ts)
  then have "length ts + rank t \<le> bound" and "rank s < rank t"
    using step_rank by auto
  then show ?case by simp
qed

lemma run_no_repeat: "run_from step s ts \<Longrightarrow> distinct (s # ts)"
proof (induction ts arbitrary: s)
  case (Cons t ts)
  moreover from this have "s \<notin> set (t # ts)" using run_rank less_irrefl by blast
  ultimately show ?case by auto
qed simp

end

subsection \<open>Keyed stores with refusable writes\<close>

text \<open>A sequence of writes that stops at the first refusal.\<close>

fun save_all :: "('s \<Rightarrow> 'q \<Rightarrow> 's option) \<Rightarrow> 's \<Rightarrow> 'q list \<Rightarrow> 's option" where
  "save_all save s [] = Some s"
| "save_all save s (q # qs) =
     (case save s q of None \<Rightarrow> None | Some s' \<Rightarrow> save_all save s' qs)"

text \<open>
  The contract of a store whose write either is refused or changes exactly the record its
  request names. The operations table and the transaction directory both provide it, and the
  loops that write several records (interrupting installs, failing extra transactions) rest
  on its lemmas.
\<close>

locale keyed_store =
  fixes load :: "'s \<Rightarrow> 'k \<Rightarrow> 'v option"
    and save :: "'s \<Rightarrow> 'q \<Rightarrow> 's option"
    and key :: "'q \<Rightarrow> 'k"
    and written :: "'v option \<Rightarrow> 'q \<Rightarrow> 'v"
    and inv :: "'s \<Rightarrow> bool"
    and storable :: "'q \<Rightarrow> bool"
  assumes load_save: "inv s \<Longrightarrow> storable q \<Longrightarrow> save s q = Some s' \<Longrightarrow>
      load s' k = (if k = key q then Some (written (load s k) q) else load s k)"
    and save_inv: "inv s \<Longrightarrow> storable q \<Longrightarrow> save s q = Some s' \<Longrightarrow> inv s'"
begin

lemma save_all_inv:
  "inv s \<Longrightarrow> list_all storable qs \<Longrightarrow> save_all save s qs = Some s' \<Longrightarrow> inv s'"
  by (induction qs arbitrary: s) (auto split: option.splits dest: save_inv)

lemma save_all_frame:
  "inv s \<Longrightarrow> list_all storable qs \<Longrightarrow> save_all save s qs = Some s' \<Longrightarrow> k \<notin> key ` set qs
   \<Longrightarrow> load s' k = load s k"
proof (induction qs arbitrary: s)
  case (Cons q qs)
  then obtain t where t: "save s q = Some t" "save_all save t qs = Some s'"
    by (auto split: option.splits)
  with Cons.prems have "load s' k = load t k"
    by (intro Cons.IH) (auto dest: save_inv)
  with load_save [OF _ _ t(1), of k] Cons.prems show ?case by simp
qed simp

lemma save_all_written:
  "inv s \<Longrightarrow> list_all storable qs \<Longrightarrow> save_all save s qs = Some s' \<Longrightarrow> distinct (map key qs)
   \<Longrightarrow> q \<in> set qs \<Longrightarrow> load s' (key q) = Some (written (load s (key q)) q)"
proof (induction qs arbitrary: s)
  case (Cons p qs)
  then obtain t where t: "save s p = Some t" "save_all save t qs = Some s'"
    by (auto split: option.splits)
  with Cons.prems have inv: "inv t" by (auto dest: save_inv)
  show ?case
  proof (cases "q = p")
    case True
    with Cons.prems inv t have "load s' (key q) = load t (key q)"
      by (intro save_all_frame) auto
    with True load_save [OF _ _ t(1), of "key p"] Cons.prems show ?thesis by simp
  next
    case False
    with Cons.prems have q: "q \<in> set qs" "key q \<noteq> key p"
      by (auto simp: image_iff)
    with Cons inv t have "load s' (key q) = Some (written (load t (key q)) q)" by simp
    with q load_save [OF _ _ t(1), of "key q"] Cons.prems show ?thesis by simp
  qed
qed simp

end

end
