(* ===== verification/Operation_Domain.thy ===== *)
theory Operation_Domain
  imports Prelude
begin

text \<open>
  The operation record and its status machine (domain/operation/operation.go): the closed sets
  of types, targets, statuses and stages, the forward-only worker transitions, and the
  projection repair that lets the install transaction correct a wrongly terminal operation.
\<close>

datatype (plugins only: code) op_type =
    TypeRuntimeInstall | TypeHermesPrerequisites | TypeInstanceCreate | TypeInstanceDelete
  | TypeModelValidate | TypeModelProfileApply | TypeInstanceStart | TypeInstanceStop
  | TypeInstanceRestart | TypeChannelConnect | TypeChannelDisconnect | TypeSkillInstall
  | TypeSkillUpdate | TypeSkillEnable | TypeSkillDisable | TypeSkillRemove | TypeMCPInstall
  | TypeMCPAuthenticate | TypeMCPTest | TypeMCPConfigure | TypeMCPRemove | TypeBackupCreate
  | TypeBackupDelete | TypeBackupRestore | TypeRuntimeUpgrade | TypeRuntimeRollback

datatype target_type = TargetRuntimeKind | TargetRuntimeInstallation | TargetInstance

datatype status =
  StatusPending | StatusRunning | StatusSucceeded | StatusFailed | StatusCancelled

datatype (plugins only: size) stage =
    StagePreflight | StageSourceDownload | StageSourceVerify | StageProtocolVerify
  | StageInstallUV | StageInstallPython | StageInstallGit | StageInstallNode
  | StageInstallSystemPackages | StageInstallRepository | StageInstallVenv
  | StageInstallDependencies | StageInstallNodeDeps | StageInstallNPM | StageInstallPath
  | StageInstallConfigTemplates | StageInstallBootstrapMarker | StagePostcheckDiscovery
  | StageCleanup | StageInstanceCreate | StageInstanceDelete | StageInstanceReconcile
  | StageModelValidate | StageModelProfileApply | StageInstanceStart | StageInstanceStop
  | StageInstanceRestart | StageLifecycleReconcile | StageChannelPreparing | StageChannelQRReady
  | StageChannelWaiting | StageChannelVerifying | StageChannelCommitting | StageChannelDisconnect
  | StageSkillPreflight | StageSkillProject | StageSkillUnproject | StageSkillReconcile
  | StageMCPPreflight | StageMCPConfigure | StageMCPTest | StageMCPReconcile
  | StageBackupPreflight | StageBackupSnapshot | StageBackupEncrypt | StageBackupPublish
  | StageBackupDelete | StageBackupReconcile | StageRestorePreflight | StageRestoreProtection
  | StageRestoreApply | StageRestoreReconcile | StageUpgradePreflight | StageUpgradeBuild
  | StageUpgradeActivate | StageUpgradeReconcile

text \<open>Error codes are an open string type in the code (transaction codes are cast to it).\<close>

type_synonym error_code = string

record operation =
  op_id :: string
  op_kind :: op_type
  op_target_type :: target_type
  op_target_id :: string
  op_status :: status
  op_stage :: stage
  op_progress :: "int option"
  op_message :: string
  op_error_code :: error_code
  op_error_message :: string
  op_retryable :: bool
  op_idempotency_key :: string
  op_correlation_id :: string
  op_source_pin :: string
  op_ownership_nonce :: string
  op_transaction_id :: string
  op_created_at :: time
  op_started_at :: "time option"
  op_completed_at :: "time option"
  op_updated_at :: time

definition IsTerminal :: "status \<Rightarrow> bool" where
  "IsTerminal s \<longleftrightarrow> s = StatusSucceeded \<or> s = StatusFailed \<or> s = StatusCancelled"

definition ValidTransition :: "status \<Rightarrow> status \<Rightarrow> bool" where
  "ValidTransition from to =
     (if from = to then False
      else case from of
        StatusPending \<Rightarrow> to = StatusRunning \<or> to = StatusFailed \<or> to = StatusCancelled
      | StatusRunning \<Rightarrow> to = StatusSucceeded \<or> to = StatusFailed \<or> to = StatusCancelled
      | _ \<Rightarrow> False)"

definition ValidProjectionRepair :: "status \<Rightarrow> status \<Rightarrow> bool" where
  "ValidProjectionRepair from to =
     (if from = to \<or> \<not> IsTerminal from then False
      else to = StatusSucceeded \<or> to = StatusRunning)"

definition ValidStatusChange :: "status \<Rightarrow> status \<Rightarrow> bool" where
  "ValidStatusChange from to \<longleftrightarrow>
     from = to \<or> ValidTransition from to \<or> ValidProjectionRepair from to"

lemmas status_machine_defs =
  IsTerminal_def ValidTransition_def ValidProjectionRepair_def ValidStatusChange_def

subsection \<open>The worker's machine is ranked\<close>

definition status_rank :: "status \<Rightarrow> nat" where
  "status_rank s = (case s of StatusPending \<Rightarrow> 0 | StatusRunning \<Rightarrow> 1 | _ \<Rightarrow> 2)"

interpretation worker: ranked_machine ValidTransition status_rank 2
  by unfold_locales
    (auto simp: ValidTransition_def status_rank_def split: status.splits if_splits)

lemma terminal_no_transition: "IsTerminal s \<Longrightarrow> \<not> ValidTransition s t"
  by (auto simp: status_machine_defs)

lemma run_from_terminal: "IsTerminal s \<Longrightarrow> run_from ValidTransition s ts \<Longrightarrow> ts = []"
  by (cases ts) (auto dest: terminal_no_transition)

text \<open>
  A worker that follows the forward-only transitions makes at most two of them, never
  returns to a status it left, and once the operation is terminal makes no further transition.
\<close>

theorem worker_run_bounded:
  assumes "run_from ValidTransition s ts"
  shows "length ts \<le> 2 \<and> distinct (s # ts) \<and> (IsTerminal s \<longrightarrow> ts = [])
    \<and> (\<forall>t \<in> set ts. t \<noteq> StatusPending)"
proof -
  have "length ts \<le> 2" using worker.run_bounded [OF assms] by simp
  moreover have "distinct (s # ts)" using assms by (rule worker.run_no_repeat)
  moreover have "t \<noteq> StatusPending" if "t \<in> set ts" for t
    using worker.run_rank [OF assms that] by (auto simp: status_rank_def)
  ultimately show ?thesis using assms run_from_terminal by blast
qed

lemma worker_run_bounded_witness:
  "length [StatusRunning, StatusSucceeded] \<le> 2
   \<and> distinct [StatusPending, StatusRunning, StatusSucceeded]"
proof -
  have "run_from ValidTransition StatusPending [StatusRunning, StatusSucceeded]"
    by (simp add: ValidTransition_def)
  from worker_run_bounded [OF this] show ?thesis by simp
qed

text \<open>
  The status changes the database accepts, in full: the worker's six transitions, and the
  repair of a terminal status to RUNNING or SUCCEEDED. So no change re-enters PENDING, PENDING
  never jumps to SUCCEEDED, and a terminal operation is never re-marked FAILED or CANCELLED.
\<close>

theorem status_change_characterised:
  "ValidStatusChange from to \<longleftrightarrow>
     from = to
     \<or> (to = StatusRunning \<and> from \<noteq> StatusRunning)
     \<or> (to = StatusSucceeded \<and> from \<noteq> StatusPending)
     \<or> (to \<in> {StatusFailed, StatusCancelled} \<and> \<not> IsTerminal from)"
  by (cases "from"; cases "to") (simp_all add: status_machine_defs)

end
