(* ===== verification/Go_Time.thy ===== *)
theory Go_Time
  imports Prelude
begin

text \<open>
  The textual form of a time in the database (persistence/sqlite/node.go, formatTime): RFC 3339
  with nanoseconds, \<open>2006-01-02T15:04:05.999999999Z07:00\<close> in UTC. Trailing zeros of the
  fraction are dropped and an empty fraction loses its dot, as Go's \<open>.999999999\<close> layout
  does. A time is the number of nanoseconds since 0001-01-01T00:00:00Z.
\<close>

definition digit_char :: "int \<Rightarrow> char" where
  "digit_char n = char_of (48 + n mod 10)"

text \<open>\<open>pad w n\<close> writes \<open>n\<close> with exactly \<open>w\<close> decimal digits (the low ones).\<close>

fun pad :: "nat \<Rightarrow> int \<Rightarrow> string" where
  "pad 0 n = []"
| "pad (Suc w) n = pad w (n div 10) @ [digit_char n]"

fun drop_trailing_zeros :: "string \<Rightarrow> string" where
  "drop_trailing_zeros [] = []"
| "drop_trailing_zeros (c # s) =
     (let r = drop_trailing_zeros s in if c = CHR ''0'' \<and> r = [] then [] else c # r)"

text \<open>
  The proleptic Gregorian date of a day number (0 is 0001-01-01), by 400-year eras that start
  on the first of March.
\<close>

definition civil_date :: "int \<Rightarrow> int \<times> int \<times> int" where
  "civil_date days =
     (let z = days + 306;
          era = z div 146097;
          doe = z mod 146097;
          yoe = (doe - doe div 1460 + doe div 36524 - doe div 146096) div 365;
          doy = doe - (365 * yoe + yoe div 4 - yoe div 100);
          mp = (5 * doy + 2) div 153;
          d = doy - (153 * mp + 2) div 5 + 1;
          m = (if mp < 10 then mp + 3 else mp - 9);
          y = yoe + era * 400 + (if m \<le> 2 then 1 else 0)
      in (y, m, d))"

definition second_text :: "int \<Rightarrow> string" where
  "second_text secs =
     (let (y, m, d) = civil_date (secs div 86400); r = secs mod 86400
      in pad 4 y @ ''-'' @ pad 2 m @ ''-'' @ pad 2 d @ ''T''
         @ pad 2 (r div 3600) @ '':'' @ pad 2 (r div 60 mod 60) @ '':'' @ pad 2 (r mod 60))"

definition fraction_text :: "int \<Rightarrow> string" where
  "fraction_text nanos =
     (let f = drop_trailing_zeros (pad 9 nanos) in if f = [] then [] else CHR ''.'' # f)"

definition formatTime :: "time \<Rightarrow> string" where
  "formatTime t = second_text (t div 1000000000) @ fraction_text (t mod 1000000000) @ ''Z''"

lemma civil_date_epoch: "civil_date 0 = (1, 1, 1)" "civil_date 719162 = (1970, 1, 1)"
  "civil_date 730178 = (2000, 2, 29)"
  by code_simp+

end
