(* ===== verification/Go_Strings.thy ===== *)
theory Go_Strings
  imports Prelude
begin

text \<open>
  The parts of Go's string library that the modelled code uses, over byte strings: prefixes
  and suffixes, \<open>strings.Split\<close>, \<open>strings.TrimSpace\<close>, UTF-8 validity, \<open>path.Clean\<close> and the
  character classes of the program's regular expressions.
\<close>

definition HasPrefix :: "string \<Rightarrow> string \<Rightarrow> bool" where
  "HasPrefix s p \<longleftrightarrow> take (length p) s = p"

definition HasSuffix :: "string \<Rightarrow> string \<Rightarrow> bool" where
  "HasSuffix s p \<longleftrightarrow> length p \<le> length s \<and> drop (length s - length p) s = p"

definition TrimSuffix :: "string \<Rightarrow> string \<Rightarrow> string" where
  "TrimSuffix s p = (if HasSuffix s p then take (length s - length p) s else s)"

definition TrimPrefix :: "string \<Rightarrow> string \<Rightarrow> string" where
  "TrimPrefix s p = (if HasPrefix s p then drop (length p) s else s)"

lemma HasPrefix_append [simp]: "HasPrefix (p @ s) p"
  by (simp add: HasPrefix_def)

lemma HasPrefix_iff: "HasPrefix s p \<longleftrightarrow> (\<exists>r. s = p @ r)"
  by (metis HasPrefix_append HasPrefix_def append_take_drop_id)

lemma HasSuffix_append [simp]: "HasSuffix (s @ p) p"
  by (simp add: HasSuffix_def)

lemma TrimSuffix_append [simp]: "TrimSuffix (s @ p) p = s"
  by (simp add: TrimSuffix_def)

lemma HasSuffix_iff: "HasSuffix s p \<longleftrightarrow> (\<exists>r. s = r @ p)"
  by (metis HasSuffix_append HasSuffix_def append_take_drop_id)

text \<open>\<open>strings.Contains\<close> and \<open>strings.ContainsAny\<close>.\<close>

fun Contains :: "string \<Rightarrow> string \<Rightarrow> bool" where
  "Contains [] p = (p = [])"
| "Contains (c # s) p = (HasPrefix (c # s) p \<or> Contains s p)"

definition ContainsAny :: "string \<Rightarrow> char list \<Rightarrow> bool" where
  "ContainsAny s cs \<longleftrightarrow> (\<exists>c \<in> set s. c \<in> set cs)"

text \<open>\<open>strings.Split\<close> with a one-byte separator: always at least one part.\<close>

fun split_on :: "char \<Rightarrow> string \<Rightarrow> string list" where
  "split_on d [] = [[]]"
| "split_on d (c # s) =
     (if c = d then [] # split_on d s
      else (case split_on d s of [] \<Rightarrow> [[c]] | p # ps \<Rightarrow> (c # p) # ps))"

fun join_on :: "char \<Rightarrow> string list \<Rightarrow> string" where
  "join_on d [] = []"
| "join_on d [p] = p"
| "join_on d (p # q # ps) = p @ d # join_on d (q # ps)"

lemma split_on_not_Nil [simp]: "split_on d s \<noteq> []"
  by (induction s) (auto split: list.splits)

lemma split_on_no_sep: "p \<in> set (split_on d s) \<Longrightarrow> d \<notin> set p"
  by (induction s arbitrary: p) (auto split: if_splits list.splits)

lemma join_split [simp]: "join_on d (split_on d s) = s"
proof (induction s)
  case (Cons c s)
  obtain p ps where ps: "split_on d s = p # ps"
    by (cases "split_on d s") auto
  from Cons ps show ?case by (cases ps) auto
qed simp

lemma split_on_plain: "d \<notin> set s \<Longrightarrow> split_on d s = [s]"
  by (induction s) auto

lemma split_on_append_sep:
  "d \<notin> set s \<Longrightarrow> split_on d (s @ d # t) = s # split_on d t"
  by (induction s) auto

lemma split_join:
  "ps \<noteq> [] \<Longrightarrow> \<forall>p \<in> set ps. d \<notin> set p \<Longrightarrow> split_on d (join_on d ps) = ps"
proof (induction d ps rule: join_on.induct)
  case (2 d p)
  then show ?case by (simp add: split_on_plain)
next
  case (3 d p q ps)
  then show ?case by (simp add: split_on_append_sep)
qed simp

text \<open>
  \<open>strings.ReplaceAll\<close> for a non-empty pattern: the counter skips the bytes of a match that
  has just been replaced.
\<close>

fun replace_from :: "nat \<Rightarrow> string \<Rightarrow> string \<Rightarrow> string \<Rightarrow> string" where
  "replace_from k old new [] = []"
| "replace_from (Suc k) old new (c # s) = replace_from k old new s"
| "replace_from 0 old new (c # s) =
     (if HasPrefix (c # s) old then new @ replace_from (length old - 1) old new s
      else c # replace_from 0 old new s)"

definition ReplaceAll :: "string \<Rightarrow> string \<Rightarrow> string \<Rightarrow> string" where
  "ReplaceAll s old new = replace_from 0 old new s"

subsection \<open>White space\<close>

text \<open>
  The UTF-8 encodings of the code points for which \<open>unicode.IsSpace\<close> holds:
  tab to carriage return, space, U+0085, U+00A0, U+1680, U+2000 to U+200A, U+2028, U+2029,
  U+202F, U+205F and U+3000.
\<close>

definition space_runes :: "string list" where
  "space_runes =
     [[CHR 0x09], [CHR 0x0A], [CHR 0x0B], [CHR 0x0C],
      [CHR 0x0D], [CHR 0x20], [CHR 0xC2, CHR 0x85], [CHR 0xC2, CHR 0xA0],
      [CHR 0xE1, CHR 0x9A, CHR 0x80], [CHR 0xE2, CHR 0x80, CHR 0x80], [CHR 0xE2, CHR 0x80, CHR 0x81], [CHR 0xE2, CHR 0x80, CHR 0x82],
      [CHR 0xE2, CHR 0x80, CHR 0x83], [CHR 0xE2, CHR 0x80, CHR 0x84], [CHR 0xE2, CHR 0x80, CHR 0x85], [CHR 0xE2, CHR 0x80, CHR 0x86],
      [CHR 0xE2, CHR 0x80, CHR 0x87], [CHR 0xE2, CHR 0x80, CHR 0x88], [CHR 0xE2, CHR 0x80, CHR 0x89], [CHR 0xE2, CHR 0x80, CHR 0x8A],
      [CHR 0xE2, CHR 0x80, CHR 0xA8], [CHR 0xE2, CHR 0x80, CHR 0xA9], [CHR 0xE2, CHR 0x80, CHR 0xAF], [CHR 0xE2, CHR 0x81, CHR 0x9F],
      [CHR 0xE3, CHR 0x80, CHR 0x80]]"

definition leading_space :: "string \<Rightarrow> string option" where
  "leading_space s = first_match (\<lambda>r. HasPrefix s r) space_runes"

lemma space_runes_not_Nil: "r \<in> set space_runes \<Longrightarrow> r \<noteq> []"
  by (auto simp: space_runes_def)

function trim_left :: "string \<Rightarrow> string" where
  "trim_left s = (case leading_space s of None \<Rightarrow> s | Some r \<Rightarrow> trim_left (drop (length r) s))"
  by pat_completeness auto
termination
proof (relation "measure length", goal_cases)
  case (2 s r)
  then have r: "r \<in> set space_runes" "HasPrefix s r"
    unfolding leading_space_def by (auto dest: first_match_Some)
  then have "r \<noteq> []" by (simp add: space_runes_not_Nil)
  with r(2) show ?case by (auto simp: HasPrefix_iff)
qed simp

declare trim_left.simps [simp del, code del]

text \<open>Trimming at the end is trimming at the front of the reversed bytes.\<close>

definition trailing_space :: "string \<Rightarrow> string option" where
  "trailing_space s = first_match (\<lambda>r. HasSuffix s r) space_runes"

function trim_right :: "string \<Rightarrow> string" where
  "trim_right s =
     (case trailing_space s of None \<Rightarrow> s | Some r \<Rightarrow> trim_right (take (length s - length r) s))"
  by pat_completeness auto
termination
proof (relation "measure length", goal_cases)
  case (2 s r)
  then have r: "r \<in> set space_runes" "HasSuffix s r"
    unfolding trailing_space_def by (auto dest: first_match_Some)
  then have "r \<noteq> []" by (simp add: space_runes_not_Nil)
  with r(2) show ?case by (auto simp: HasSuffix_iff)
qed simp

declare trim_right.simps [simp del, code del]

definition TrimSpace :: "string \<Rightarrow> string" where
  "TrimSpace s = trim_right (trim_left s)"

lemma trim_left_Nil [simp]: "trim_left [] = []"
  by (simp add: trim_left.simps leading_space_def HasPrefix_def space_runes_def)

lemma trim_right_Nil [simp]: "trim_right [] = []"
  by (simp add: trim_right.simps trailing_space_def HasSuffix_def space_runes_def)

text \<open>Evaluation unfolds the two loops on explicit strings only.\<close>

lemma trim_left_code [code]:
  "trim_left [] = []"
  "trim_left (c # s) =
     (case leading_space (c # s) of None \<Rightarrow> c # s | Some r \<Rightarrow> trim_left (drop (length r) (c # s)))"
  by (simp, subst trim_left.simps, rule refl)

lemma trim_right_code [code]:
  "trim_right [] = []"
  "trim_right (c # s) =
     (case trailing_space (c # s) of
        None \<Rightarrow> c # s
      | Some r \<Rightarrow> trim_right (take (length (c # s) - length r) (c # s)))"
  by (simp, subst trim_right.simps, rule refl)

lemma TrimSpace_Nil [simp]: "TrimSpace [] = []"
  by (simp add: TrimSpace_def)

lemma trim_left_id: "leading_space s = None \<Longrightarrow> trim_left s = s"
  by (simp add: trim_left.simps)

lemma trim_right_id: "trailing_space s = None \<Longrightarrow> trim_right s = s"
  by (simp add: trim_right.simps)

lemma leading_trim_left: "leading_space (trim_left s) = None"
proof (induction s rule: trim_left.induct)
  case (1 s)
  then show ?case by (cases "leading_space s") (simp_all add: trim_left.simps [of s])
qed

lemma trailing_trim_right: "trailing_space (trim_right s) = None"
proof (induction s rule: trim_right.induct)
  case (1 s)
  then show ?case by (cases "trailing_space s") (simp_all add: trim_right.simps [of s])
qed

subsection \<open>UTF-8 validity\<close>

definition in_range :: "nat \<Rightarrow> nat \<Rightarrow> char \<Rightarrow> bool" where
  "in_range lo hi c \<longleftrightarrow> lo \<le> of_char c \<and> of_char c \<le> hi"

text \<open>A byte below 128 has its high bit clear.\<close>

fun is_ascii :: "char \<Rightarrow> bool" where
  "is_ascii (Char b0 b1 b2 b3 b4 b5 b6 b7) = (\<not> b7)"

fun valid_utf8_fuel :: "nat \<Rightarrow> string \<Rightarrow> bool" where
  "valid_utf8_fuel 0 s = (s = [])"
| "valid_utf8_fuel (Suc n) [] = True"
| "valid_utf8_fuel (Suc n) (a # s) =
     (if is_ascii a then valid_utf8_fuel n s
      else if in_range 194 223 a then
        (case s of b # t \<Rightarrow> in_range 128 191 b \<and> valid_utf8_fuel n t | _ \<Rightarrow> False)
      else if in_range 224 239 a then
        (case s of b # c # t \<Rightarrow>
           in_range (if of_char a = (224::nat) then 160 else 128)
                    (if of_char a = (237::nat) then 159 else 191) b
           \<and> in_range 128 191 c \<and> valid_utf8_fuel n t
         | _ \<Rightarrow> False)
      else if in_range 240 244 a then
        (case s of b # c # d # t \<Rightarrow>
           in_range (if of_char a = (240::nat) then 144 else 128)
                    (if of_char a = (244::nat) then 143 else 191) b
           \<and> in_range 128 191 c \<and> in_range 128 191 d \<and> valid_utf8_fuel n t
         | _ \<Rightarrow> False)
      else False)"

text \<open>Every unit of fuel reads at least one byte, so the length of the string is enough.\<close>

definition ValidString :: "string \<Rightarrow> bool" where
  "ValidString s = valid_utf8_fuel (length s) s"

lemma ascii_valid_fuel: "list_all is_ascii xs \<Longrightarrow> valid_utf8_fuel (length xs) xs"
  by (induction xs) simp_all

lemma ascii_valid: "list_all is_ascii xs \<Longrightarrow> ValidString xs"
  unfolding ValidString_def by (rule ascii_valid_fuel)

subsection \<open>Character classes\<close>

definition is_digit :: "char \<Rightarrow> bool" where
  "is_digit c \<longleftrightarrow> CHR ''0'' \<le> c \<and> c \<le> CHR ''9''"

definition is_lower :: "char \<Rightarrow> bool" where
  "is_lower c \<longleftrightarrow> CHR ''a'' \<le> c \<and> c \<le> CHR ''z''"

definition is_upper :: "char \<Rightarrow> bool" where
  "is_upper c \<longleftrightarrow> CHR ''A'' \<le> c \<and> c \<le> CHR ''Z''"

definition is_alnum :: "char \<Rightarrow> bool" where
  "is_alnum c \<longleftrightarrow> is_digit c \<or> is_lower c \<or> is_upper c"

definition is_lower_hex :: "char \<Rightarrow> bool" where
  "is_lower_hex c \<longleftrightarrow> is_digit c \<or> (CHR ''a'' \<le> c \<and> c \<le> CHR ''f'')"

text \<open>\<open>hex.DecodeString\<close> also accepts upper case digits.\<close>

definition is_hex :: "char \<Rightarrow> bool" where
  "is_hex c \<longleftrightarrow> is_lower_hex c \<or> (CHR ''A'' \<le> c \<and> c \<le> CHR ''F'')"

text \<open>The regular expression \<open>^[C]{n}$\<close>.\<close>

definition class_exact :: "(char \<Rightarrow> bool) \<Rightarrow> nat \<Rightarrow> string \<Rightarrow> bool" where
  "class_exact p n s \<longleftrightarrow> length s = n \<and> list_all p s"

text \<open>The regular expression \<open>^[A][B]{0,n}$\<close>.\<close>

definition class_head_tail :: "(char \<Rightarrow> bool) \<Rightarrow> (char \<Rightarrow> bool) \<Rightarrow> nat \<Rightarrow> string \<Rightarrow> bool" where
  "class_head_tail p q n s =
     (case s of [] \<Rightarrow> False | c # r \<Rightarrow> p c \<and> length r \<le> n \<and> list_all q r)"

definition class_plus :: "(char \<Rightarrow> bool) \<Rightarrow> string \<Rightarrow> bool" where
  "class_plus p s \<longleftrightarrow> s \<noteq> [] \<and> list_all p s"

subsection \<open>path.Clean\<close>

text \<open>
  \<open>path.Clean\<close> on the components between slashes: empty and \<open>.\<close> components vanish,
  \<open>..\<close> removes the component before it, and a leading \<open>..\<close> stays unless the path
  is rooted. The accumulator holds the components kept so far, last one first.
\<close>

fun clean_parts :: "bool \<Rightarrow> string list \<Rightarrow> string list \<Rightarrow> string list" where
  "clean_parts rooted acc [] = rev acc"
| "clean_parts rooted acc (p # ps) =
     (if p = [] \<or> p = ''.'' then clean_parts rooted acc ps
      else if p = ''..'' then
        (case acc of
           [] \<Rightarrow> clean_parts rooted (if rooted then [] else [''..'']) ps
         | q # qs \<Rightarrow> if q = ''..'' then clean_parts rooted (''..'' # acc) ps
                    else clean_parts rooted qs ps)
      else clean_parts rooted (p # acc) ps)"

definition path_clean :: "string \<Rightarrow> string" where
  "path_clean s =
     (let rooted = HasPrefix s ''/'';
          body = join_on CHR ''/'' (clean_parts rooted [] (split_on CHR ''/'' s))
      in if rooted then CHR ''/'' # body
         else if body = [] then ''.'' else body)"

end
