(* ===== verification/Operations_DB.thy ===== *)
theory Operations_DB
  imports Operation_Domain Go_Time Go_Strings
begin

text \<open>
  The operations table (persistence/sqlite/operations.go with the schema of
  persistence/sqlite/migrations): inserts and compare-and-swap updates under the table's CHECK
  constraint, unique indexes and triggers; the queries that find the active operation of a
  target; and the interruption of active installs at daemon start.

  A table is the list of its rows in insertion order, and SQL failures are values that the Go
  code maps to its own errors by looking at the engine's message text, which is a parameter
  (the engine is not part of the repository).
\<close>

record database =
  db_operations :: "operation list"
  db_instances :: "(string \<times> string) list" \<comment> \<open>instances: id, runtime\_installation\_id\<close>

datatype sql_failure =
    Fail_check
  | Fail_primary_key
  | Fail_idempotency_key
  | Fail_active_target
  | Fail_trigger

datatype db_error =
    ErrOperationNotFound
  | ErrDuplicateIdempotency
  | ErrActiveInstallExists
  | ErrActiveInstanceMutation
  | ErrInvalidStatusTransition
  | ErrProgressSet
  | ErrKeyRequired
  | ErrIdentityChange
  | ErrStoredProgress
  | ErrWriteOperation

subsection \<open>The schema\<close>

definition active :: "operation \<Rightarrow> bool" where
  "active r \<longleftrightarrow> op_status r = StatusPending \<or> op_status r = StatusRunning"

text \<open>The table CHECK: exactly the terminal rows have a completion time.\<close>

definition check_row :: "operation \<Rightarrow> bool" where
  "check_row r \<longleftrightarrow>
     (active r \<and> op_completed_at r = None)
     \<or> (op_status r \<in> {StatusSucceeded, StatusFailed, StatusCancelled} \<and> op_completed_at r \<noteq> None)"

definition host_mutation :: "operation \<Rightarrow> bool" where
  "host_mutation r \<longleftrightarrow> active r \<and> op_kind r \<in> {TypeRuntimeInstall, TypeHermesPrerequisites}"

definition installation_mutation :: "operation \<Rightarrow> bool" where
  "installation_mutation r \<longleftrightarrow>
     active r \<and> op_target_type r = TargetRuntimeInstallation
     \<and> op_kind r \<in> {TypeInstanceCreate, TypeInstanceDelete, TypeModelProfileApply, TypeBackupCreate,
                    TypeBackupDelete, TypeBackupRestore, TypeRuntimeUpgrade, TypeRuntimeRollback}"

definition instance_runtime_types :: "op_type list" where
  "instance_runtime_types =
     [TypeInstanceStart, TypeInstanceStop, TypeInstanceRestart, TypeChannelConnect,
      TypeChannelDisconnect, TypeSkillInstall, TypeSkillUpdate, TypeSkillEnable, TypeSkillDisable,
      TypeSkillRemove, TypeMCPInstall, TypeMCPAuthenticate, TypeMCPTest, TypeMCPConfigure,
      TypeMCPRemove]"

definition instance_mutation :: "operation \<Rightarrow> bool" where
  "instance_mutation r \<longleftrightarrow>
     active r \<and> op_target_type r = TargetInstance \<and> op_kind r \<in> set instance_runtime_types"

definition runtime_wide :: "operation \<Rightarrow> bool" where
  "runtime_wide r \<longleftrightarrow>
     active r \<and> op_target_type r = TargetRuntimeInstallation
     \<and> op_kind r \<in> {TypeModelProfileApply, TypeBackupCreate, TypeBackupRestore, TypeRuntimeUpgrade,
                    TypeRuntimeRollback}"

definition same_target :: "operation \<Rightarrow> operation \<Rightarrow> bool" where
  "same_target a b \<longleftrightarrow>
     op_target_type a = op_target_type b \<and> op_target_id a = op_target_id b"

text \<open>A partial unique index over (target\_type, target\_id) is violated by a new row.\<close>

definition index_violated :: "(operation \<Rightarrow> bool) \<Rightarrow> operation list \<Rightarrow> operation \<Rightarrow> bool" where
  "index_violated p rows r \<longleftrightarrow> p r \<and> (\<exists>q \<in> set rows. p q \<and> same_target q r)"

definition constraint_failure :: "operation list \<Rightarrow> operation \<Rightarrow> sql_failure option" where
  "constraint_failure rows r =
     check (\<not> check_row r) Fail_check
     (check (\<exists>q \<in> set rows. op_id q = op_id r) Fail_primary_key
     (check (\<exists>q \<in> set rows. op_idempotency_key q = op_idempotency_key r) Fail_idempotency_key
     (check (index_violated host_mutation rows r) Fail_active_target
     (check (index_violated installation_mutation rows r) Fail_active_target
     (check (index_violated instance_mutation rows r) Fail_active_target None)))))"

text \<open>The two BEFORE INSERT triggers, as migration 015 (and its repair, 016) leaves them.\<close>

definition block_runtime_wide :: "database \<Rightarrow> operation \<Rightarrow> bool" where
  "block_runtime_wide db r \<longleftrightarrow>
     runtime_wide r \<and>
     (\<exists>q \<in> set (db_operations db). instance_mutation q
        \<and> (\<exists>i \<in> set (db_instances db). fst i = op_target_id q \<and> snd i = op_target_id r))"

definition block_instance :: "database \<Rightarrow> operation \<Rightarrow> bool" where
  "block_instance db r \<longleftrightarrow>
     instance_mutation r \<and>
     (\<exists>i \<in> set (db_instances db). fst i = op_target_id r
        \<and> (\<exists>q \<in> set (db_operations db). runtime_wide q \<and> op_target_id q = snd i))"

definition insert_failure :: "database \<Rightarrow> operation \<Rightarrow> sql_failure option" where
  "insert_failure db r =
     check (block_runtime_wide db r \<or> block_instance db r) Fail_trigger
     (constraint_failure (db_operations db) r)"

subsection \<open>Errors from message text\<close>

text \<open>\<open>strings.ToLower\<close> on the ASCII letters of the engine's messages.\<close>

definition lower_char :: "char \<Rightarrow> char" where
  "lower_char c = (if is_upper c then char_of (of_char c + (32::nat)) else c)"

definition mapOperationWriteError :: "string \<Rightarrow> db_error" where
  "mapOperationWriteError err =
     (let message = map lower_char err in
      if Contains message ''operations_idempotency_key'' \<or> Contains message ''operations.idempotency_key''
      then ErrDuplicateIdempotency
      else if Contains message ''operations_one_active_instance_mutation''
      then ErrActiveInstanceMutation
      else if Contains message ''operations_one_active_instance_lifecycle''
      then ErrActiveInstanceMutation
      else if Contains message ''operations_one_active_instance_runtime_mutation''
      then ErrActiveInstanceMutation
      else if Contains message ''operations_one_active_hermes_host_mutation''
           \<or> Contains message ''operations_one_active_runtime_install''
           \<or> (Contains message ''operations.target_type'' \<and> Contains message ''operations.target_id'')
           \<or> (Contains message ''operations.operation_type'' \<and> Contains message ''operations.target_id'')
      then ErrActiveInstallExists
      else ErrWriteOperation)"

definition mapOperationCreateError :: "string \<Rightarrow> op_type \<Rightarrow> db_error" where
  "mapOperationCreateError err kind =
     (let mapped = mapOperationWriteError err in
      if mapped \<noteq> ErrActiveInstallExists then mapped
      else if kind \<in> {TypeInstanceCreate, TypeInstanceDelete, TypeInstanceStart, TypeInstanceStop,
                      TypeInstanceRestart, TypeChannelConnect, TypeChannelDisconnect,
                      TypeSkillInstall, TypeSkillUpdate, TypeSkillEnable, TypeSkillDisable,
                      TypeSkillRemove, TypeMCPInstall, TypeMCPAuthenticate, TypeMCPTest,
                      TypeMCPConfigure, TypeMCPRemove, TypeModelProfileApply, TypeBackupCreate,
                      TypeBackupDelete, TypeBackupRestore, TypeRuntimeUpgrade, TypeRuntimeRollback}
      then ErrActiveInstanceMutation
      else mapped)"

subsection \<open>Writes\<close>

text \<open>
  The statement writes \<open>progress = NULL\<close>; every other column is the operation's field.
\<close>

definition CreateOperation ::
  "(sql_failure \<Rightarrow> string) \<Rightarrow> database \<Rightarrow> operation \<Rightarrow> db_error + database" where
  "CreateOperation msg db v =
     (if op_progress v \<noteq> None then Inl ErrProgressSet
      else if op_idempotency_key v = [] then Inl ErrKeyRequired
      else (case insert_failure db v of
              Some f \<Rightarrow> Inl (mapOperationCreateError (msg f) (op_kind v))
            | None \<Rightarrow> Inr (db\<lparr>db_operations := db_operations db @ [v\<lparr>op_progress := None\<rparr>]\<rparr>)))"

text \<open>The columns that the UPDATE statement sets.\<close>

definition updated_row :: "operation \<Rightarrow> operation \<Rightarrow> operation" where
  "updated_row nxt r =
     r\<lparr>op_status := op_status nxt, op_stage := op_stage nxt, op_progress := None,
       op_message := op_message nxt, op_error_code := op_error_code nxt,
       op_error_message := op_error_message nxt, op_retryable := op_retryable nxt,
       op_started_at := op_started_at nxt, op_completed_at := op_completed_at nxt,
       op_updated_at := op_updated_at nxt\<rparr>"

definition update_matches :: "operation \<Rightarrow> operation \<Rightarrow> operation \<Rightarrow> bool" where
  "update_matches current nxt r \<longleftrightarrow> op_id r = op_id nxt \<and> op_status r = op_status current"

definition update_failure :: "operation list \<Rightarrow> operation \<Rightarrow> operation \<Rightarrow> sql_failure option" where
  "update_failure rows current nxt =
     (case first_match (update_matches current nxt) rows of
        None \<Rightarrow> None
      | Some r \<Rightarrow> constraint_failure (filter (\<lambda>q. op_id q \<noteq> op_id nxt) rows) (updated_row nxt r))"

definition UpdateOperation ::
  "(sql_failure \<Rightarrow> string) \<Rightarrow> database \<Rightarrow> operation \<Rightarrow> operation \<Rightarrow> db_error + database" where
  "UpdateOperation msg db current nxt =
     (if op_id current \<noteq> op_id nxt then Inl ErrIdentityChange
      else if op_status current \<noteq> op_status nxt
              \<and> \<not> ValidStatusChange (op_status current) (op_status nxt)
      then Inl ErrInvalidStatusTransition
      else if op_progress nxt \<noteq> None then Inl ErrProgressSet
      else (case update_failure (db_operations db) current nxt of
              Some f \<Rightarrow> Inl (mapOperationWriteError (msg f))
            | None \<Rightarrow>
                if length (filter (update_matches current nxt) (db_operations db)) \<noteq> 1
                then Inl ErrInvalidStatusTransition
                else Inr (db\<lparr>db_operations :=
                       map (\<lambda>r. if update_matches current nxt r then updated_row nxt r else r)
                         (db_operations db)\<rparr>)))"

subsection \<open>Queries\<close>

definition scanOperation :: "operation \<Rightarrow> db_error + operation" where
  "scanOperation r = (if op_progress r \<noteq> None then Inl ErrStoredProgress else Inr r)"

fun scan_all :: "operation list \<Rightarrow> db_error + operation list" where
  "scan_all [] = Inr []"
| "scan_all (r # rs) =
     bind_result (scanOperation r) (\<lambda>v. bind_result (scan_all rs) (\<lambda>vs. Inr (v # vs)))"

text \<open>\<open>ORDER BY created_at\<close> compares the stored text. Ties keep the insertion order.\<close>

definition order_asc :: "operation list \<Rightarrow> operation list" where
  "order_asc rows = sort_key (\<lambda>r. formatTime (op_created_at r)) rows"

definition order_desc :: "operation list \<Rightarrow> operation list" where
  "order_desc rows = rev (order_asc rows)"

text \<open>A query for one row: no row is \<open>(zero, false, nil)\<close>.\<close>

definition query_row :: "operation list \<Rightarrow> db_error + operation option" where
  "query_row rows =
     (case rows of [] \<Rightarrow> Inr None | r # _ \<Rightarrow> bind_result (scanOperation r) (\<lambda>v. Inr (Some v)))"

definition targets :: "target_type \<Rightarrow> string \<Rightarrow> operation \<Rightarrow> bool" where
  "targets tt tid r \<longleftrightarrow> op_target_type r = tt \<and> op_target_id r = tid"

definition GetOperation :: "database \<Rightarrow> string \<Rightarrow> db_error + operation" where
  "GetOperation db i =
     (case filter (\<lambda>r. op_id r = i) (db_operations db) of
        [] \<Rightarrow> Inl ErrOperationNotFound
      | r # _ \<Rightarrow> scanOperation r)"

definition GetOperationByIdempotencyKey :: "database \<Rightarrow> string \<Rightarrow> db_error + operation option" where
  "GetOperationByIdempotencyKey db k =
     query_row (filter (\<lambda>r. op_idempotency_key r = k) (db_operations db))"

definition ActiveRuntimeInstall :: "database \<Rightarrow> string \<Rightarrow> db_error + operation option" where
  "ActiveRuntimeInstall db kind =
     query_row (filter (\<lambda>r. op_kind r = TypeRuntimeInstall \<and> targets TargetRuntimeKind kind r \<and> active r)
       (db_operations db))"

definition ActiveInstanceMutation :: "database \<Rightarrow> string \<Rightarrow> db_error + operation option" where
  "ActiveInstanceMutation db inst =
     query_row (order_asc (filter
       (\<lambda>r. targets TargetRuntimeInstallation inst r \<and> active r
          \<and> op_kind r \<in> {TypeInstanceCreate, TypeInstanceDelete, TypeModelProfileApply,
                         TypeBackupCreate, TypeBackupRestore, TypeRuntimeUpgrade, TypeRuntimeRollback})
       (db_operations db)))"

definition ActiveInstanceLifecycle :: "database \<Rightarrow> string \<Rightarrow> db_error + operation option" where
  "ActiveInstanceLifecycle db i =
     query_row (filter
       (\<lambda>r. targets TargetInstance i r \<and> active r
          \<and> op_kind r \<in> {TypeInstanceStart, TypeInstanceStop, TypeInstanceRestart})
       (db_operations db))"

definition ActiveInstanceRuntimeMutation :: "database \<Rightarrow> string \<Rightarrow> db_error + operation option" where
  "ActiveInstanceRuntimeMutation db i =
     query_row (order_asc (filter
       (\<lambda>r. targets TargetInstance i r \<and> active r \<and> op_kind r \<in> set instance_runtime_types)
       (db_operations db)))"

definition ActiveModelValidation :: "database \<Rightarrow> string \<Rightarrow> db_error + operation option" where
  "ActiveModelValidation db i =
     query_row (order_desc (filter
       (\<lambda>r. op_kind r = TypeModelValidate \<and> targets TargetInstance i r \<and> active r)
       (db_operations db)))"

definition LatestCompletedModelValidation :: "database \<Rightarrow> string \<Rightarrow> db_error + operation option" where
  "LatestCompletedModelValidation db i =
     query_row (order_desc (filter
       (\<lambda>r. op_kind r = TypeModelValidate \<and> targets TargetInstance i r
          \<and> op_status r \<in> {StatusSucceeded, StatusFailed, StatusCancelled})
       (db_operations db)))"

definition list_active :: "database \<Rightarrow> op_type list \<Rightarrow> db_error + operation list" where
  "list_active db kinds =
     scan_all (order_asc (filter (\<lambda>r. op_kind r \<in> set kinds \<and> active r) (db_operations db)))"

definition ListActiveModelValidations :: "database \<Rightarrow> db_error + operation list" where
  "ListActiveModelValidations db = list_active db [TypeModelValidate]"

definition ListActiveOperationsByType :: "database \<Rightarrow> op_type \<Rightarrow> db_error + operation list" where
  "ListActiveOperationsByType db kind = list_active db [kind]"

definition ListActiveInstanceOperations :: "database \<Rightarrow> db_error + operation list" where
  "ListActiveInstanceOperations db = list_active db [TypeInstanceCreate, TypeInstanceDelete]"

definition ListActiveLifecycleOperations :: "database \<Rightarrow> db_error + operation list" where
  "ListActiveLifecycleOperations db =
     list_active db [TypeInstanceStart, TypeInstanceStop, TypeInstanceRestart]"

definition ListActiveChannelOperations :: "database \<Rightarrow> db_error + operation list" where
  "ListActiveChannelOperations db = list_active db [TypeChannelConnect, TypeChannelDisconnect]"

definition ListActiveSkillOperations :: "database \<Rightarrow> db_error + operation list" where
  "ListActiveSkillOperations db =
     list_active db [TypeSkillInstall, TypeSkillUpdate, TypeSkillEnable, TypeSkillDisable, TypeSkillRemove]"

definition ListActiveMCPOperations :: "database \<Rightarrow> db_error + operation list" where
  "ListActiveMCPOperations db =
     list_active db [TypeMCPInstall, TypeMCPAuthenticate, TypeMCPTest, TypeMCPConfigure, TypeMCPRemove]"

definition ListActiveBackupOperations :: "database \<Rightarrow> db_error + operation list" where
  "ListActiveBackupOperations db = list_active db [TypeBackupCreate, TypeBackupDelete, TypeBackupRestore]"

definition ListActiveRuntimeManagementOperations :: "database \<Rightarrow> db_error + operation list" where
  "ListActiveRuntimeManagementOperations db = list_active db [TypeRuntimeUpgrade, TypeRuntimeRollback]"

definition ActiveHermesPrerequisite :: "database \<Rightarrow> string \<Rightarrow> db_error + operation option" where
  "ActiveHermesPrerequisite db kind =
     query_row (filter
       (\<lambda>r. op_kind r = TypeHermesPrerequisites \<and> targets TargetRuntimeKind kind r \<and> active r)
       (db_operations db))"

definition ActiveHermesHostMutation :: "database \<Rightarrow> string \<Rightarrow> db_error + operation option" where
  "ActiveHermesHostMutation db kind =
     query_row (filter
       (\<lambda>r. targets TargetRuntimeKind kind r \<and> active r
          \<and> op_kind r \<in> {TypeRuntimeInstall, TypeHermesPrerequisites})
       (db_operations db))"

definition LatestRuntimeInstall :: "database \<Rightarrow> string \<Rightarrow> db_error + operation option" where
  "LatestRuntimeInstall db kind =
     query_row (order_desc (filter
       (\<lambda>r. op_kind r = TypeRuntimeInstall \<and> targets TargetRuntimeKind kind r)
       (db_operations db)))"

definition PreviousRuntimeInstall :: "database \<Rightarrow> string \<Rightarrow> string \<Rightarrow> db_error + operation option" where
  "PreviousRuntimeInstall db kind exclude =
     query_row (order_desc (filter
       (\<lambda>r. op_kind r = TypeRuntimeInstall \<and> targets TargetRuntimeKind kind r \<and> op_id r \<noteq> exclude)
       (db_operations db)))"

text \<open>An empty target type or target id does not filter; a limit outside 1..50 becomes 20.\<close>

definition ListOperations ::
  "database \<Rightarrow> target_type option \<Rightarrow> string \<Rightarrow> int \<Rightarrow> db_error + operation list" where
  "ListOperations db tt tid limit =
     (let n = (if limit \<le> 0 \<or> limit > 50 then 20 else limit)
      in scan_all (take (nat n) (order_desc (filter
           (\<lambda>r. (case tt of None \<Rightarrow> True | Some t \<Rightarrow> op_target_type r = t)
              \<and> (tid = [] \<or> op_target_id r = tid))
           (db_operations db)))))"

subsection \<open>Interrupting active installs\<close>

definition ErrorOperationInterrupted :: error_code where
  "ErrorOperationInterrupted = ''OPERATION_INTERRUPTED''"

definition interrupted_operation :: "time \<Rightarrow> operation \<Rightarrow> operation" where
  "interrupted_operation now current =
     current\<lparr>op_status := StatusFailed, op_error_code := ErrorOperationInterrupted,
             op_error_message := [], op_retryable := True,
             op_completed_at := Some now, op_updated_at := now\<rparr>"

text \<open>
  Each update is committed on its own, so an error in the middle of the loop leaves the updates
  made before it.
\<close>

fun interrupt_each ::
  "(sql_failure \<Rightarrow> string) \<Rightarrow> time \<Rightarrow> database \<Rightarrow> operation list \<Rightarrow>
     database \<times> (db_error + operation list)" where
  "interrupt_each msg now db [] = (db, Inr [])"
| "interrupt_each msg now db (c # cs) =
     (case UpdateOperation msg db c (interrupted_operation now c) of
        Inl e \<Rightarrow> (db, Inl e)
      | Inr db' \<Rightarrow>
          (case interrupt_each msg now db' cs of
             (db'', Inl e) \<Rightarrow> (db'', Inl e)
           | (db'', Inr ops) \<Rightarrow> (db'', Inr (interrupted_operation now c # ops))))"

definition InterruptActiveInstalls ::
  "(sql_failure \<Rightarrow> string) \<Rightarrow> database \<Rightarrow> time \<Rightarrow> database \<times> (db_error + operation list)" where
  "InterruptActiveInstalls msg db now =
     (case scan_all (filter host_mutation (db_operations db)) of
        Inl e \<Rightarrow> (db, Inl e)
      | Inr ops \<Rightarrow> interrupt_each msg now db ops)"

end
