(* ===== verification/Operations_Table.thy ===== *)
theory Operations_Table
  imports Operations_DB
begin

text \<open>
  What the operations table guarantees: its invariant (unique identifiers and idempotency keys,
  completion times exactly on terminal rows, at most one active operation per target in each of
  the three mutation classes), that every write keeps it, and the effect of a write on each row.
\<close>

definition target_key :: "operation \<Rightarrow> target_type \<times> string" where
  "target_key r = (op_target_type r, op_target_id r)"

definition one_active :: "(operation \<Rightarrow> bool) \<Rightarrow> operation list \<Rightarrow> bool" where
  "one_active p rows \<longleftrightarrow> distinct (map target_key (filter p rows))"

definition table_inv :: "operation list \<Rightarrow> bool" where
  "table_inv rows \<longleftrightarrow>
     distinct (map op_id rows) \<and> distinct (map op_idempotency_key rows)
     \<and> (\<forall>r \<in> set rows. check_row r \<and> op_progress r = None)
     \<and> one_active host_mutation rows \<and> one_active installation_mutation rows
     \<and> one_active instance_mutation rows"

lemma same_target_iff: "same_target a b \<longleftrightarrow> target_key a = target_key b"
  by (simp add: same_target_def target_key_def)

lemma index_violated_iff:
  "index_violated p rows r \<longleftrightarrow> p r \<and> target_key r \<in> target_key ` set (filter p rows)"
  by (auto simp: index_violated_def same_target_iff image_iff)

lemma constraint_failure_None:
  "constraint_failure rows r = None \<longleftrightarrow>
     check_row r \<and> op_id r \<notin> op_id ` set rows
     \<and> op_idempotency_key r \<notin> op_idempotency_key ` set rows
     \<and> \<not> index_violated host_mutation rows r \<and> \<not> index_violated installation_mutation rows r
     \<and> \<not> index_violated instance_mutation rows r"
  by (simp add: constraint_failure_def image_iff eq_commute [of "op_id r"]
      eq_commute [of "op_idempotency_key r"])

lemma one_active_insert:
  "one_active p (xs @ ys) \<Longrightarrow> \<not> index_violated p (xs @ ys) r \<Longrightarrow> one_active p (xs @ r # ys)"
  by (auto simp: one_active_def index_violated_iff)

lemma one_active_remove: "one_active p (xs @ r # ys) \<Longrightarrow> one_active p (xs @ ys)"
  by (auto simp: one_active_def split: if_splits)

lemma table_inv_insert:
  assumes "table_inv (xs @ ys)" and "constraint_failure (xs @ ys) r = None"
    and "op_progress r = None"
  shows "table_inv (xs @ r # ys)"
  using assms unfolding table_inv_def constraint_failure_None
  by (auto intro: one_active_insert)

lemma table_inv_remove: "table_inv (xs @ r # ys) \<Longrightarrow> table_inv (xs @ ys)"
  unfolding table_inv_def by (auto intro: one_active_remove)

lemma table_inv_Nil [simp]: "table_inv []"
  by (simp add: table_inv_def one_active_def)

lemma index_violated_progress [simp]:
  "index_violated p rows (r\<lparr>op_progress := x\<rparr>) \<longleftrightarrow> p (r\<lparr>op_progress := x\<rparr>)
     \<and> target_key r \<in> target_key ` set (filter p rows)"
  by (simp add: index_violated_iff target_key_def)

lemma row_class_progress [simp]:
  "active (r\<lparr>op_progress := x\<rparr>) = active r"
  "check_row (r\<lparr>op_progress := x\<rparr>) = check_row r"
  "host_mutation (r\<lparr>op_progress := x\<rparr>) = host_mutation r"
  "installation_mutation (r\<lparr>op_progress := x\<rparr>) = installation_mutation r"
  "instance_mutation (r\<lparr>op_progress := x\<rparr>) = instance_mutation r"
  by (simp_all add: active_def check_row_def host_mutation_def installation_mutation_def
      instance_mutation_def)

lemma constraint_failure_progress:
  "constraint_failure rows (r\<lparr>op_progress := x\<rparr>) = constraint_failure rows r"
  by (simp add: constraint_failure_def index_violated_iff target_key_def)

subsection \<open>The row an update rewrites\<close>

lemma updated_row_fields [simp]:
  "op_id (updated_row n r) = op_id r"
  "op_idempotency_key (updated_row n r) = op_idempotency_key r"
  "op_kind (updated_row n r) = op_kind r"
  "op_target_type (updated_row n r) = op_target_type r"
  "op_target_id (updated_row n r) = op_target_id r"
  "op_status (updated_row n r) = op_status n"
  "op_progress (updated_row n r) = None"
  "op_created_at (updated_row n r) = op_created_at r"
  "op_completed_at (updated_row n r) = op_completed_at n"
  "op_error_code (updated_row n r) = op_error_code n"
  "op_retryable (updated_row n r) = op_retryable n"
  by (simp_all add: updated_row_def)

lemma update_split:
  assumes "distinct (map op_id rows)"
    and "length (filter (update_matches c n) rows) = 1"
  obtains xs r ys where "rows = xs @ r # ys" and "update_matches c n r"
    and "map (\<lambda>r. if update_matches c n r then updated_row n r else r) rows
           = xs @ updated_row n r # ys"
    and "filter (\<lambda>q. op_id q \<noteq> op_id n) rows = xs @ ys"
    and "first_match (update_matches c n) rows = Some r"
proof -
  from assms(2) obtain r where f: "filter (update_matches c n) rows = [r]"
    by (auto simp: length_Suc_conv)
  then have r: "r \<in> set rows" "update_matches c n r"
    by (metis filter_eq_Cons_iff in_set_conv_decomp)+
  then obtain xs ys where rows: "rows = xs @ r # ys" by (meson split_list)
  from r have id: "op_id n = op_id r" by (simp add: update_matches_def)
  from assms(1) rows have other: "\<forall>q \<in> set (xs @ ys). op_id q \<noteq> op_id r"
    by (auto simp: image_iff)
  then have no: "\<forall>q \<in> set (xs @ ys). \<not> update_matches c n q"
    by (simp add: update_matches_def id)
  have "map (\<lambda>q. if update_matches c n q then updated_row n q else q) rows
         = xs @ updated_row n r # ys"
    using no r by (auto simp: rows intro!: map_idI)
  moreover have "filter (\<lambda>q. op_id q \<noteq> op_id n) rows = xs @ ys"
    using other by (auto simp: rows id filter_id_conv)
  moreover have "first_match (update_matches c n) rows = Some r"
    by (simp add: first_match_filter f)
  ultimately show ?thesis using that rows r(2) by blast
qed

lemma CreateOperation_Inr:
  "CreateOperation msg db v = Inr db' \<longleftrightarrow>
     op_progress v = None \<and> op_idempotency_key v \<noteq> [] \<and> insert_failure db v = None
     \<and> db' = db\<lparr>db_operations := db_operations db @ [v]\<rparr>"
  by (auto simp: CreateOperation_def split: option.splits)

lemma insert_failure_None:
  "insert_failure db v = None \<longleftrightarrow>
     \<not> block_runtime_wide db v \<and> \<not> block_instance db v
     \<and> constraint_failure (db_operations db) v = None"
  by (auto simp: insert_failure_def)

lemma UpdateOperation_Inr:
  assumes "UpdateOperation msg db c n = Inr db'" and "table_inv (db_operations db)"
  obtains xs r ys where "db_operations db = xs @ r # ys" and "op_id r = op_id n"
    and "op_status r = op_status c" and "op_id c = op_id n"
    and "ValidStatusChange (op_status r) (op_status n)"
    and "db' = db\<lparr>db_operations := xs @ updated_row n r # ys\<rparr>"
    and "constraint_failure (xs @ ys) (updated_row n r) = None"
proof -
  from assms(1) have id: "op_id c = op_id n"
    and st: "ValidStatusChange (op_status c) (op_status n)"
    and uf: "update_failure (db_operations db) c n = None"
    and len: "length (filter (update_matches c n) (db_operations db)) = 1"
    and db': "db' = db\<lparr>db_operations :=
      map (\<lambda>r. if update_matches c n r then updated_row n r else r) (db_operations db)\<rparr>"
    by (auto simp: UpdateOperation_def ValidStatusChange_def split: if_splits option.splits)
  from assms(2) have "distinct (map op_id (db_operations db))" by (simp add: table_inv_def)
  from this len obtain xs r ys where "db_operations db = xs @ r # ys" "update_matches c n r"
    and "map (\<lambda>r. if update_matches c n r then updated_row n r else r) (db_operations db)
           = xs @ updated_row n r # ys"
    and "filter (\<lambda>q. op_id q \<noteq> op_id n) (db_operations db) = xs @ ys"
    and "first_match (update_matches c n) (db_operations db) = Some r"
    by (rule update_split)
  with id st uf db' show ?thesis
    by (intro that) (auto simp: update_failure_def update_matches_def)
qed

subsection \<open>Every write keeps the invariant\<close>

lemma create_keeps_table:
  "table_inv (db_operations db) \<Longrightarrow> CreateOperation msg db v = Inr db'
   \<Longrightarrow> table_inv (db_operations db')"
  using table_inv_insert [of "db_operations db" "[]" v]
  by (simp add: CreateOperation_Inr insert_failure_None)

lemma update_keeps_table:
  assumes "table_inv (db_operations db)" and "UpdateOperation msg db c n = Inr db'"
  shows "table_inv (db_operations db')"
proof -
  from assms(2,1) obtain xs r ys where eq: "db_operations db = xs @ r # ys"
    "db' = db\<lparr>db_operations := xs @ updated_row n r # ys\<rparr>"
    "constraint_failure (xs @ ys) (updated_row n r) = None"
    by (rule UpdateOperation_Inr)
  with assms(1) have "table_inv (xs @ ys)" by (simp add: table_inv_remove)
  with eq show ?thesis by (simp add: table_inv_insert)
qed

text \<open>
  The steps of the database that concern operations: a create, an update, and any change of the
  instances table (which the triggers read).
\<close>

inductive db_step :: "(sql_failure \<Rightarrow> string) \<Rightarrow> database \<Rightarrow> database \<Rightarrow> bool"
  for msg :: "sql_failure \<Rightarrow> string" where
  create: "CreateOperation msg db v = Inr db' \<Longrightarrow> db_step msg db db'"
| update: "UpdateOperation msg db c n = Inr db' \<Longrightarrow> db_step msg db db'"
| instances: "db_step msg db (db\<lparr>db_instances := is\<rparr>)"

inductive db_reachable :: "(sql_failure \<Rightarrow> string) \<Rightarrow> database \<Rightarrow> bool"
  for msg :: "sql_failure \<Rightarrow> string" where
  empty: "db_reachable msg \<lparr>db_operations = [], db_instances = is\<rparr>"
| step: "db_reachable msg db \<Longrightarrow> db_step msg db db' \<Longrightarrow> db_reachable msg db'"

lemma db_step_table: "db_step msg db db' \<Longrightarrow> table_inv (db_operations db) \<Longrightarrow> table_inv (db_operations db')"
  by (induction rule: db_step.induct) (auto intro: create_keeps_table update_keeps_table)

lemma db_reachable_table: "db_reachable msg db \<Longrightarrow> table_inv (db_operations db)"
  by (induction rule: db_reachable.induct) (auto intro: db_step_table)

lemma one_active_unique:
  assumes "one_active p rows" and "distinct (map op_id rows)"
    and "a \<in> set rows" "b \<in> set rows" "p a" "p b" "same_target a b"
  shows "a = b"
proof -
  have "a \<in> set (filter p rows)" "b \<in> set (filter p rows)" using assms by auto
  then show ?thesis
    using assms(1,7) unfolding one_active_def same_target_iff
    by (auto simp: distinct_map inj_on_def)
qed

subsection \<open>The table as a keyed store\<close>

definition row_of :: "database \<Rightarrow> string \<Rightarrow> operation option" where
  "row_of db i = first_match (\<lambda>r. op_id r = i) (db_operations db)"

definition try_update ::
  "(sql_failure \<Rightarrow> string) \<Rightarrow> database \<Rightarrow> operation \<times> operation \<Rightarrow> database option" where
  "try_update msg db q =
     (case UpdateOperation msg db (fst q) (snd q) of Inl _ \<Rightarrow> None | Inr db' \<Rightarrow> Some db')"

definition rewritten :: "operation option \<Rightarrow> operation \<times> operation \<Rightarrow> operation" where
  "rewritten old q = (case old of None \<Rightarrow> snd q | Some r \<Rightarrow> updated_row (snd q) r)"

lemma first_match_append:
  "first_match p (xs @ ys) = (case first_match p xs of None \<Rightarrow> first_match p ys | Some x \<Rightarrow> Some x)"
  by (induction xs) auto

lemma row_of_split:
  assumes "distinct (map op_id (xs @ r # ys))" and "db_operations db = xs @ r' # ys"
    and "op_id r' = op_id r"
  shows "row_of db i = (if i = op_id r then Some r'
      else first_match (\<lambda>r. op_id r = i) (xs @ ys))"
proof -
  have "first_match (\<lambda>q. op_id q = op_id r) xs = None"
    using assms(1) by (auto simp: first_match_None image_iff)
  then show ?thesis
    using assms(2,3) by (auto simp: row_of_def first_match_append split: option.splits)
qed

interpretation op_rows: keyed_store row_of "try_update msg" "\<lambda>q. op_id (snd q)" rewritten
  "\<lambda>db. table_inv (db_operations db)" "\<lambda>q. True" for msg
proof
  fix db q db' k
  assume inv: "table_inv (db_operations db)" and "try_update msg db q = Some db'"
  then have up: "UpdateOperation msg db (fst q) (snd q) = Inr db'"
    by (auto simp: try_update_def split: sum.splits)
  then show "table_inv (db_operations db')" using inv update_keeps_table by blast
  from up inv obtain xs r ys where eq: "db_operations db = xs @ r # ys"
    "op_id r = op_id (snd q)" "db' = db\<lparr>db_operations := xs @ updated_row (snd q) r # ys\<rparr>"
    by (rule UpdateOperation_Inr)
  from inv have d: "distinct (map op_id (xs @ r # ys))" by (simp add: table_inv_def eq)
  show "row_of db' k = (if k = op_id (snd q) then Some (rewritten (row_of db k) q) else row_of db k)"
    using row_of_split [OF d, of db' "updated_row (snd q) r" k] row_of_split [OF d, of db r k] eq
    by (cases "k = op_id (snd q)") (simp_all add: rewritten_def)
qed

subsection \<open>Interrupting the active installs\<close>

lemma interrupted_row:
  "op_progress r = None \<Longrightarrow> updated_row (interrupted_operation now r) r = interrupted_operation now r"
  by (simp add: updated_row_def interrupted_operation_def)

lemma interrupted_fields [simp]:
  "op_id (interrupted_operation now r) = op_id r"
  "op_status (interrupted_operation now r) = StatusFailed"
  "op_progress (interrupted_operation now r) = op_progress r"
  "op_completed_at (interrupted_operation now r) = Some now"
  by (simp_all add: interrupted_operation_def)

lemma inactive_classes:
  "\<not> active r \<Longrightarrow> \<not> host_mutation r \<and> \<not> installation_mutation r \<and> \<not> instance_mutation r"
  by (simp add: host_mutation_def installation_mutation_def instance_mutation_def)

lemma interrupted_inactive: "\<not> active (updated_row (interrupted_operation now r) q)"
  by (simp add: active_def)

lemma interrupt_one:
  assumes "table_inv (xs @ r # ys)" and "active r"
  shows "UpdateOperation msg (db\<lparr>db_operations := xs @ r # ys\<rparr>) r (interrupted_operation now r)
    = Inr (db\<lparr>db_operations := xs @ interrupted_operation now r # ys\<rparr>)"
proof -
  let ?n = "interrupted_operation now r"
  let ?rows = "xs @ r # ys"
  from assms have d: "distinct (map op_id ?rows)" and prog: "op_progress r = None"
    by (simp_all add: table_inv_def)
  have other: "\<forall>q \<in> set (xs @ ys). op_id q \<noteq> op_id r" using d by (auto simp: image_iff)
  have "filter (update_matches r ?n) ?rows = [r]"
    using other by (auto simp: update_matches_def filter_empty_conv)
  then have len: "length (filter (update_matches r ?n) ?rows) = 1"
    and first: "first_match (update_matches r ?n) ?rows = Some r"
    by (simp_all add: first_match_filter)
  have others: "filter (\<lambda>q. op_id q \<noteq> op_id ?n) ?rows = xs @ ys"
    using other by (auto simp: filter_id_conv)
  have new: "map (\<lambda>q. if update_matches r ?n q then updated_row ?n q else q) ?rows = xs @ ?n # ys"
    using other prog by (auto simp: update_matches_def interrupted_row intro!: map_idI)
  have "check_row (updated_row ?n r)" by (simp add: check_row_def active_def)
  moreover have "op_id r \<notin> op_id ` set (xs @ ys)"
    "op_idempotency_key r \<notin> op_idempotency_key ` set (xs @ ys)"
    using assms(1) by (auto simp: table_inv_def)
  ultimately have "constraint_failure (xs @ ys) (updated_row ?n r) = None"
    using interrupted_inactive [of now r r]
    by (simp add: constraint_failure_None index_violated_def inactive_classes)
  then have "update_failure ?rows r ?n = None"
    unfolding update_failure_def first option.case others .
  moreover have "ValidStatusChange (op_status r) StatusFailed"
    using assms(2) by (auto simp: active_def ValidStatusChange_def ValidTransition_def)
  ultimately show ?thesis
    using len new prog by (simp add: UpdateOperation_def)
qed

text \<open>
  The loop of updates, from a table split into the rows already passed and the rows to come: it
  rewrites exactly the host mutations of the rest.
\<close>

lemma interrupt_rows:
  "table_inv (done @ rest) \<Longrightarrow>
   interrupt_each msg now (db\<lparr>db_operations := done @ rest\<rparr>) (filter host_mutation rest)
     = (db\<lparr>db_operations := done @ map (\<lambda>r. if host_mutation r then interrupted_operation now r else r) rest\<rparr>,
        Inr (map (interrupted_operation now) (filter host_mutation rest)))
   \<and> table_inv (done @ map (\<lambda>r. if host_mutation r then interrupted_operation now r else r) rest)"
proof (induction rest arbitrary: "done")
  case (Cons r rest)
  show ?case
  proof (cases "host_mutation r")
    case True
    then have act: "active r" by (simp add: host_mutation_def)
    have up: "UpdateOperation msg (db\<lparr>db_operations := done @ r # rest\<rparr>) r (interrupted_operation now r)
      = Inr (db\<lparr>db_operations := done @ interrupted_operation now r # rest\<rparr>)"
      using Cons.prems act by (rule interrupt_one)
    from Cons.prems have "table_inv (db_operations (db\<lparr>db_operations := done @ r # rest\<rparr>))" by simp
    from update_keeps_table [OF this up]
    have "table_inv ((done @ [interrupted_operation now r]) @ rest)" by simp
    from Cons.IH [OF this] up True show ?thesis by simp
  next
    case False
    from Cons.prems have "table_inv ((done @ [r]) @ rest)" by simp
    from Cons.IH [OF this] False show ?thesis by simp
  qed
qed simp

lemma scan_all_clean: "\<forall>r \<in> set rs. op_progress r = None \<Longrightarrow> scan_all rs = Inr rs"
  by (induction rs) (simp_all add: scanOperation_def)

lemma interrupt_installs_effect:
  assumes "table_inv (db_operations db)"
  shows "InterruptActiveInstalls msg db now =
     (db\<lparr>db_operations := map (\<lambda>r. if host_mutation r then interrupted_operation now r else r) (db_operations db)\<rparr>,
      Inr (map (interrupted_operation now) (filter host_mutation (db_operations db))))"
proof -
  have "\<forall>r \<in> set (filter host_mutation (db_operations db)). op_progress r = None"
    using assms by (simp add: table_inv_def)
  then have scan: "scan_all (filter host_mutation (db_operations db)) = Inr (filter host_mutation (db_operations db))"
    by (rule scan_all_clean)
  have same: "db\<lparr>db_operations := db_operations db\<rparr> = db" by simp
  have inv: "table_inv ([] @ db_operations db)" using assms by simp
  show ?thesis
    using interrupt_rows [OF inv, of msg now db, THEN conjunct1]
    unfolding InterruptActiveInstalls_def scan sum.case append_Nil same .
qed

definition sample_operation :: "string \<Rightarrow> op_type \<Rightarrow> target_type \<Rightarrow> time \<Rightarrow> operation" where
  "sample_operation i kind tt created =
     \<lparr>op_id = i, op_kind = kind, op_target_type = tt, op_target_id = ''hermes'',
      op_status = StatusPending, op_stage = StagePreflight, op_progress = None, op_message = [],
      op_error_code = [], op_error_message = [], op_retryable = False, op_idempotency_key = i,
      op_correlation_id = [], op_source_pin = [], op_ownership_nonce = [], op_transaction_id = [],
      op_created_at = created, op_started_at = None, op_completed_at = None, op_updated_at = created\<rparr>"

lemma install_on_empty:
  "CreateOperation msg \<lparr>db_operations = [], db_instances = []\<rparr> (sample_operation ''a'' TypeRuntimeInstall TargetRuntimeKind 1)
     = Inr \<lparr>db_operations = [sample_operation ''a'' TypeRuntimeInstall TargetRuntimeKind 1], db_instances = []\<rparr>"
  by (simp add: CreateOperation_Inr insert_failure_None constraint_failure_None sample_operation_def
      block_runtime_wide_def block_instance_def runtime_wide_def instance_mutation_def
      instance_runtime_types_def index_violated_def check_row_def host_mutation_def
      installation_mutation_def active_def)

lemma install_table:
  "table_inv [sample_operation ''a'' TypeRuntimeInstall TargetRuntimeKind 1]"
  "db_reachable msg \<lparr>db_operations = [sample_operation ''a'' TypeRuntimeInstall TargetRuntimeKind 1], db_instances = []\<rparr>"
proof -
  show "db_reachable msg \<lparr>db_operations = [sample_operation ''a'' TypeRuntimeInstall TargetRuntimeKind 1], db_instances = []\<rparr>"
    by (rule db_reachable.step [OF db_reachable.empty db_step.create [OF install_on_empty]])
  from db_reachable_table [OF this]
  show "table_inv [sample_operation ''a'' TypeRuntimeInstall TargetRuntimeKind 1]" by simp
qed

subsection \<open>Properties\<close>



text \<open>
  A successful update is a compare-and-swap on the status: the stored row still had the
  status the writer read, the change is a permitted one, only the mutable columns of that row
  change, and every other row is untouched. A second writer that still holds the old status is
  then refused.
\<close>

theorem update_is_compare_and_swap:
  assumes "table_inv (db_operations db)" and "UpdateOperation msg db c n = Inr db'"
  shows "\<exists>r. row_of db (op_id n) = Some r \<and> op_status r = op_status c
      \<and> ValidStatusChange (op_status r) (op_status n)
      \<and> row_of db' (op_id n) = Some (updated_row n r)
      \<and> (\<forall>i. i \<noteq> op_id n \<longrightarrow> row_of db' i = row_of db i)
      \<and> (op_status n \<noteq> op_status c \<and> op_id m = op_id n \<longrightarrow> (\<exists>e. UpdateOperation msg db' c m = Inl e))"
proof -
  from assms(2,1) obtain xs r ys where eq: "db_operations db = xs @ r # ys" "op_id r = op_id n"
    "op_status r = op_status c" "ValidStatusChange (op_status r) (op_status n)"
    "db' = db\<lparr>db_operations := xs @ updated_row n r # ys\<rparr>"
    by (rule UpdateOperation_Inr)
  have d: "distinct (map op_id (xs @ r # ys))" using assms(1) by (simp add: table_inv_def eq)
  have "try_update msg db (c, n) = Some db'" by (simp add: try_update_def assms(2))
  from op_rows.load_save [OF assms(1) TrueI this]
  have frame: "\<forall>i. i \<noteq> op_id n \<longrightarrow> row_of db' i = row_of db i" by simp
  have "op_status n \<noteq> op_status c \<Longrightarrow> op_id m = op_id n \<Longrightarrow> \<exists>e. UpdateOperation msg db' c m = Inl e"
  proof -
    assume st: "op_status n \<noteq> op_status c" and id: "op_id m = op_id n"
    have "\<forall>q \<in> set (xs @ updated_row n r # ys). \<not> update_matches c m q"
      using d st eq(2) by (auto simp: update_matches_def id image_iff)
    then have "filter (update_matches c m) (db_operations db') = []"
      by (simp add: eq(5) filter_empty_conv)
    then show "\<exists>e. UpdateOperation msg db' c m = Inl e"
      by (auto simp: UpdateOperation_def split: option.splits)
  qed
  then show ?thesis
    using frame row_of_split [OF d eq(1)] row_of_split [OF d, of db' "updated_row n r"] eq by simp
qed

theorem update_is_compare_and_swap_witness:
  "let a = sample_operation ''a'' TypeRuntimeInstall TargetRuntimeKind 1;
       db = \<lparr>db_operations = [a], db_instances = []\<rparr>;
       n = a\<lparr>op_status := StatusRunning, op_started_at := Some 2\<rparr>
   in UpdateOperation (\<lambda>_. []) db a n = Inr (db\<lparr>db_operations := [n]\<rparr>)
      \<and> (\<exists>e. UpdateOperation (\<lambda>_. []) (db\<lparr>db_operations := [n]\<rparr>) a n = Inl e)"
proof -
  let ?a = "sample_operation ''a'' TypeRuntimeInstall TargetRuntimeKind 1"
  let ?db = "\<lparr>db_operations = [?a], db_instances = []\<rparr>"
  let ?n = "?a\<lparr>op_status := StatusRunning, op_started_at := Some 2\<rparr>"
  have up: "UpdateOperation (\<lambda>_. []) ?db ?a ?n = Inr (?db\<lparr>db_operations := [?n]\<rparr>)"
    by (simp add: UpdateOperation_def update_failure_def update_matches_def updated_row_def
        sample_operation_def ValidStatusChange_def ValidTransition_def constraint_failure_def check_def
        active_def index_violated_def check_row_def)
  have "table_inv (db_operations ?db)" using install_table(1) by simp
  from update_is_compare_and_swap [OF this up, of ?n]
  have "\<exists>e. UpdateOperation (\<lambda>_. []) (?db\<lparr>db_operations := [?n]\<rparr>) ?a ?n = Inl e"
    unfolding sample_operation_def operation.simps by blast
  with up show ?thesis by (simp only: Let_def simp_thms)
qed

text \<open>
  At daemon start every install or prerequisite operation still PENDING or RUNNING becomes
  FAILED with OPERATION\_INTERRUPTED, retryable and completed now. The call cannot fail on a
  well-formed table, it changes no other row, it keeps the invariant, and it leaves no active
  host mutation.
\<close>

theorem interrupt_leaves_no_active_install:
  assumes "table_inv (db_operations db)"
  shows "\<exists>db' ops. InterruptActiveInstalls msg db now = (db', Inr ops)
      \<and> table_inv (db_operations db')
      \<and> (\<forall>r \<in> set (db_operations db'). \<not> host_mutation r)
      \<and> db_operations db' = map (\<lambda>r. if host_mutation r then interrupted_operation now r else r)
           (db_operations db)
      \<and> ops = map (interrupted_operation now) (filter host_mutation (db_operations db))"
proof -
  let ?f = "\<lambda>r. if host_mutation r then interrupted_operation now r else r"
  let ?rows = "map ?f (db_operations db)"
  have "table_inv ([] @ db_operations db)" using assms by simp
  from interrupt_rows [OF this, of msg now db, THEN conjunct2]
  have inv: "table_inv ?rows" by (simp only: append_Nil)
  have "\<not> host_mutation (?f r)" for r
    by (auto simp: host_mutation_def active_def)
  then have none: "\<forall>r \<in> set ?rows. \<not> host_mutation r" unfolding set_map by blast
  obtain rows where rows: "rows = ?rows" by blast
  have "db_operations (db\<lparr>db_operations := rows\<rparr>) = rows" by simp
  then show ?thesis
    using interrupt_installs_effect [OF assms, of msg now] inv none
    unfolding rows [symmetric] by metis
qed

theorem interrupt_leaves_no_active_install_witness:
  "let a = sample_operation ''a'' TypeRuntimeInstall TargetRuntimeKind 1;
       db = \<lparr>db_operations = [a], db_instances = []\<rparr>
   in host_mutation a
      \<and> (\<exists>db' ops. InterruptActiveInstalls (\<lambda>_. []) db 9 = (db', Inr ops)
           \<and> db_operations db' = [interrupted_operation 9 a] \<and> ops = [interrupted_operation 9 a])"
proof -
  let ?a = "sample_operation ''a'' TypeRuntimeInstall TargetRuntimeKind 1"
  let ?db = "\<lparr>db_operations = [?a], db_instances = []\<rparr>"
  have host: "host_mutation ?a" by (simp add: sample_operation_def host_mutation_def active_def)
  have "table_inv (db_operations ?db)" using install_table(1) by simp
  from interrupt_leaves_no_active_install [OF this, of "\<lambda>_. []" 9] host
  show ?thesis unfolding Let_def by (simp add: host) metis
qed

text \<open>
  "Latest" queries order by the stored text of the creation time, whose fraction has no
  trailing zeros. Within one second that order is not chronological: of two installs created at
  .10 s and .12 s the query for the latest install returns the older one.
\<close>

theorem latest_install_is_not_latest:
  "let old = sample_operation ''a'' TypeRuntimeInstall TargetRuntimeKind 63000000000100000000;
       new = sample_operation ''b'' TypeRuntimeInstall TargetRuntimeKind 63000000000120000000
   in op_created_at old < op_created_at new
      \<and> LatestRuntimeInstall \<lparr>db_operations = [old, new], db_instances = []\<rparr> ''hermes'' = Inr (Some old)"
proof -
  let ?old = "sample_operation ''a'' TypeRuntimeInstall TargetRuntimeKind 63000000000100000000"
  let ?new = "sample_operation ''b'' TypeRuntimeInstall TargetRuntimeKind 63000000000120000000"
  have "formatTime 63000000000120000000 < formatTime 63000000000100000000" by code_simp
  then have lt: "\<not> formatTime (op_created_at ?old) \<le> formatTime (op_created_at ?new)"
    unfolding sample_operation_def operation.simps by (rule not_le [THEN iffD2])
  have asc: "order_asc [?old, ?new] = [?new, ?old]"
    unfolding order_asc_def sort_key_simps insort_key.simps if_not_P [OF lt] ..
  have "filter (\<lambda>r. op_kind r = TypeRuntimeInstall \<and> targets TargetRuntimeKind ''hermes'' r) [?old, ?new]
      = [?old, ?new]"
    by (simp add: targets_def sample_operation_def)
  then have "LatestRuntimeInstall \<lparr>db_operations = [?old, ?new], db_instances = []\<rparr> ''hermes'' = Inr (Some ?old)"
    unfolding LatestRuntimeInstall_def order_desc_def
    by (simp add: asc query_row_def scanOperation_def) (simp add: sample_operation_def)
  then show ?thesis unfolding Let_def by (simp add: sample_operation_def)
qed

end
