(* ===== verification/Upgrade_Plan.thy ===== *)
theory Upgrade_Plan
  imports Go_Strings
begin

text \<open>
  Upgrade and rollback planning (runtime/hermes/upgrademanagement): exact snapshot identities,
  the evidence a plan is built from, the planner and the rollback assessment. Everything is a
  pure function of its evidence. A typed Go string that may hold any text has a constructor
  \<open>..Other\<close> for the values outside its closed set, which the code's default branches see.
\<close>

subsection \<open>Identities (identity.go)\<close>

record artifact_identity =
  SizeBytes :: int
  SHA256 :: string

record source_identity =
  Repository :: string
  ArchiveRoot :: string
  InstallerPath :: string
  Installer :: artifact_identity

record snapshot_identity =
  Version :: string
  Commit :: string
  Archive :: artifact_identity
  LicensePath :: string
  License :: artifact_identity
  Source :: source_identity

datatype identity_error = ErrIdentityInvalid | ErrIdentityUnknown

definition versionPattern :: "string \<Rightarrow> bool" where
  "versionPattern s =
     (case split_on CHR ''.'' s of
        [a, b, c] \<Rightarrow> class_plus is_digit a \<and> class_plus is_digit b \<and> class_plus is_digit c
      | _ \<Rightarrow> False)"

definition commitPattern :: "string \<Rightarrow> bool" where
  "commitPattern s = class_exact is_lower_hex 40 s"

definition sha256Pattern :: "string \<Rightarrow> bool" where
  "sha256Pattern s = class_exact is_lower_hex 64 s"

definition name_char :: "char \<Rightarrow> bool" where
  "name_char c \<longleftrightarrow> is_alnum c \<or> c \<in> set ''_.-''"

definition repositoryPattern :: "string \<Rightarrow> bool" where
  "repositoryPattern s =
     (case split_on CHR ''/'' s of
        [a, b] \<Rightarrow> class_plus name_char a \<and> class_plus name_char b
      | _ \<Rightarrow> False)"

definition rootPattern :: "string \<Rightarrow> bool" where
  "rootPattern s = class_head_tail is_alnum name_char 191 s"

definition relativePattern :: "string \<Rightarrow> bool" where
  "relativePattern s = class_head_tail is_alnum (\<lambda>c. name_char c \<or> c = CHR ''/'') 255 s"

definition safeRelativePath :: "string \<Rightarrow> bool" where
  "safeRelativePath v =
     (if v = [] \<or> TrimSpace v \<noteq> v \<or> \<not> relativePattern v
         \<or> ContainsAny v [char_of (92 :: nat)] \<or> ContainsAny v '':'' then False
      else (let cleaned = path_clean v in
            cleaned = v \<and> cleaned \<noteq> ''.'' \<and> \<not> HasPrefix cleaned ''/'' \<and> \<not> HasPrefix cleaned ''../''))"

definition artifact_validate :: "artifact_identity \<Rightarrow> identity_error option" where
  "artifact_validate a = check (SizeBytes a \<le> 0 \<or> \<not> sha256Pattern (SHA256 a)) ErrIdentityInvalid None"

definition source_validate :: "source_identity \<Rightarrow> identity_error option" where
  "source_validate s =
     check (length (Repository s) > 192 \<or> \<not> repositoryPattern (Repository s)
            \<or> \<not> rootPattern (ArchiveRoot s) \<or> \<not> safeRelativePath (InstallerPath s)) ErrIdentityInvalid
     (artifact_validate (Installer s))"

definition zero_artifact :: artifact_identity where
  "zero_artifact = \<lparr>SizeBytes = 0, SHA256 = []\<rparr>"

definition zero_identity :: snapshot_identity where
  "zero_identity =
     \<lparr>Version = [], Commit = [], Archive = zero_artifact, LicensePath = [], License = zero_artifact,
      Source = \<lparr>Repository = [], ArchiveRoot = [], InstallerPath = [], Installer = zero_artifact\<rparr>\<rparr>"

definition identity_Validate :: "snapshot_identity \<Rightarrow> identity_error option" where
  "identity_Validate i =
     check (i = zero_identity) ErrIdentityUnknown
     (check (length (Version i) > 32 \<or> \<not> versionPattern (Version i) \<or> \<not> commitPattern (Commit i)
             \<or> \<not> safeRelativePath (LicensePath i)) ErrIdentityInvalid
     (orelse (artifact_validate (Archive i))
     (orelse (artifact_validate (License i))
     (source_validate (Source i)))))"

definition identity_Equal :: "snapshot_identity \<Rightarrow> snapshot_identity \<Rightarrow> bool" where
  "identity_Equal i other \<longleftrightarrow> i = other"

subsection \<open>Evidence and policy (policy.go)\<close>

datatype evidence_state =
  EvidenceVerified | EvidenceMissing | EvidenceInvalid | EvidenceUnknown | EvidenceOther string

datatype managed_state = ManagedProven | ManagedNo | ManagedUnknown | ManagedOther string

datatype active_pointer_state =
    ActivePointerValid | ActivePointerMissing | ActivePointerInvalid | ActivePointerUnknown
  | ActivePointerOther string

record active_observation =
  ao_state :: active_pointer_state
  ao_generation :: string
  ao_seal :: string
  ao_manifest :: string

record sealed_observation =
  so_state :: evidence_state
  so_generation :: string
  so_seal :: string
  so_manifest :: string
  so_lineage_proven :: bool
  so_identity :: snapshot_identity

definition generationIDPattern :: "string \<Rightarrow> bool" where
  "generationIDPattern s \<longleftrightarrow>
     HasPrefix s ''gen_'' \<and> class_exact (\<lambda>c. is_lower c \<or> is_digit c) 22 (drop 4 s)"

definition closedIDPattern :: "string \<Rightarrow> bool" where
  "closedIDPattern s = class_head_tail is_alnum (\<lambda>c. name_char c \<or> c = CHR '':'') 127 s"

definition exact :: "sealed_observation \<Rightarrow> bool" where
  "exact g \<longleftrightarrow>
     so_state g = EvidenceVerified \<and> generationIDPattern (so_generation g)
     \<and> sha256Pattern (so_seal g) \<and> sha256Pattern (so_manifest g)
     \<and> so_lineage_proven g \<and> identity_Validate (so_identity g) = None"

definition names :: "active_observation \<Rightarrow> sealed_observation \<Rightarrow> bool" where
  "names a g \<longleftrightarrow>
     ao_state a = ActivePointerValid \<and> ao_generation a = so_generation g
     \<and> ao_seal a = so_seal g \<and> ao_manifest a = so_manifest g"

record target_observation =
  to_state :: evidence_state
  to_compiled :: snapshot_identity
  to_observed :: snapshot_identity

record feature_inventory =
  Models :: bool
  Gateways :: bool
  Channels :: bool
  Skills :: bool
  MCP :: bool

record inventory_observation =
  io_state :: evidence_state
  io_features :: feature_inventory

record protection_observation =
  po_state :: evidence_state
  po_id :: string

datatype compatibility_safety =
  CompatibilityProven | CompatibilityUnsafe | CompatibilityUnknown | CompatibilityOther string

definition safety_valid :: "compatibility_safety \<Rightarrow> bool" where
  "safety_valid s \<longleftrightarrow>
     s = CompatibilityProven \<or> s = CompatibilityUnsafe \<or> s = CompatibilityUnknown"

datatype migration_behavior =
  MigrationNone | MigrationAutomatic | MigrationDeferred | MigrationLazy | MigrationOther string

definition migration_valid :: "migration_behavior \<Rightarrow> bool" where
  "migration_valid m \<longleftrightarrow>
     m = MigrationNone \<or> m = MigrationAutomatic \<or> m = MigrationDeferred \<or> m = MigrationLazy"

record compatibility_record =
  cr_state :: evidence_state
  cr_id :: string
  cr_windows_evidence_id :: string
  cr_from :: snapshot_identity
  cr_to :: snapshot_identity
  cr_from_config_schema :: int
  cr_to_config_schema :: int
  cr_inventory_complete :: bool
  cr_migration :: migration_behavior
  cr_upgrade :: compatibility_safety
  cr_rollback :: compatibility_safety
  cr_protection_restore_required :: bool

datatype postcheck =
    PostcheckActiveSeal | PostcheckDualLaunchers | PostcheckDiscovery | PostcheckProfiles
  | PostcheckModels | PostcheckLifecycle | PostcheckChannels | PostcheckSkills | PostcheckMCP
  | PostcheckHealthSecurity | PostcheckOther string

definition postcheck_valid :: "postcheck \<Rightarrow> bool" where
  "postcheck_valid p = (case p of PostcheckOther _ \<Rightarrow> False | _ \<Rightarrow> True)"

record postcheck_qualification =
  pq_state :: evidence_state
  pq_qualified :: "postcheck list"

datatype conflict =
    ConflictInstall | ConflictPrerequisites | ConflictRestore | ConflictBackupMutation
  | ConflictInstanceMutation | ConflictLifecycleMutation | ConflictChannelMutation
  | ConflictSkillMutation | ConflictMCPMutation

definition conflicts :: "conflict list" where
  "conflicts =
     [ConflictInstall, ConflictPrerequisites, ConflictRestore, ConflictBackupMutation,
      ConflictInstanceMutation, ConflictLifecycleMutation, ConflictChannelMutation,
      ConflictSkillMutation, ConflictMCPMutation]"

definition requiredPostchecks :: "feature_inventory \<Rightarrow> postcheck list" where
  "requiredPostchecks f =
     [PostcheckActiveSeal, PostcheckDualLaunchers, PostcheckDiscovery, PostcheckProfiles]
     @ (if Models f then [PostcheckModels] else [])
     @ (if Gateways f then [PostcheckLifecycle] else [])
     @ (if Channels f then [PostcheckChannels] else [])
     @ (if Skills f then [PostcheckSkills] else [])
     @ (if MCP f then [PostcheckMCP] else [])
     @ [PostcheckHealthSecurity]"

fun qualified_loop :: "postcheck list \<Rightarrow> postcheck list \<Rightarrow> postcheck list option" where
  "qualified_loop seen [] = Some seen"
| "qualified_loop seen (c # cs) =
     (if \<not> postcheck_valid c then None
      else if c \<in> set seen then None
      else qualified_loop (c # seen) cs)"

definition postchecksQualified :: "postcheck_qualification \<Rightarrow> postcheck list \<Rightarrow> bool" where
  "postchecksQualified policy required =
     (if pq_state policy \<noteq> EvidenceVerified then False
      else (case qualified_loop [] (pq_qualified policy) of
              None \<Rightarrow> False
            | Some seen \<Rightarrow> list_all (\<lambda>c. c \<in> set seen) required))"

subsection \<open>The planner (plan.go)\<close>

datatype availability = UpgradeAvailable | UpgradeUpToDate | UpgradeBlocked | UpgradeUnknown

datatype reason =
    ReasonManagedUnknown | ReasonUnmanaged | ReasonActivePointerUnknown
  | ReasonActivePointerNotValid | ReasonCurrentSealUnknown | ReasonCurrentSealInvalid
  | ReasonCurrentIdentityInvalid | ReasonActiveGenerationMismatch | ReasonTargetUnknown
  | ReasonTargetIdentityInvalid | ReasonTargetIdentityMismatch | ReasonTargetAlreadyActive
  | ReasonInventoryUnknown | ReasonInventoryIncomplete | ReasonProtectionPointUnknown
  | ReasonProtectionPointUnavailable | ReasonCompatibilityUnknown | ReasonCompatibilityMissing
  | ReasonCompatibilityInvalid | ReasonCompatibilityPairMismatch | ReasonUpgradeCompatibilityUnknown
  | ReasonUpgradeCompatibilityUnsafe | ReasonRollbackCompatibilityUnknown
  | ReasonRollbackCompatibilityUnsafe | ReasonPostchecksUnknown | ReasonPostchecksUnqualified
  | ReasonPreviousGenerationUnknown | ReasonPreviousGenerationMissing
  | ReasonPreviousGenerationInvalid | ReasonPreviousGenerationSame | ReasonProtectionRestoreUnknown
  | ReasonProtectionRestoreIncomplete

text \<open>
  The planner's running state: the reason set (insertion order, no duplicates) and the flag
  that some evidence was unknown.
\<close>

type_synonym assessment = "reason list \<times> bool"

definition add_reason :: "reason \<Rightarrow> assessment \<Rightarrow> assessment" where
  "add_reason r a = (add_once r (fst a), snd a)"

definition add_unknown :: "reason \<Rightarrow> assessment \<Rightarrow> assessment" where
  "add_unknown r a = (add_once r (fst a), True)"

definition add_if :: "bool \<Rightarrow> reason \<Rightarrow> assessment \<Rightarrow> assessment" where
  "add_if c r a = (if c then add_reason r a else a)"

definition assess_managed :: "managed_state \<Rightarrow> assessment \<Rightarrow> assessment" where
  "assess_managed m a =
     (case m of
        ManagedProven \<Rightarrow> a
      | ManagedNo \<Rightarrow> add_reason ReasonUnmanaged a
      | _ \<Rightarrow> add_unknown ReasonManagedUnknown a)"

definition assess_active :: "active_pointer_state \<Rightarrow> assessment \<Rightarrow> assessment" where
  "assess_active s a =
     (case s of
        ActivePointerValid \<Rightarrow> a
      | ActivePointerUnknown \<Rightarrow> add_unknown ReasonActivePointerUnknown a
      | _ \<Rightarrow> add_reason ReasonActivePointerNotValid a)"

definition assess_current :: "sealed_observation \<Rightarrow> assessment \<Rightarrow> assessment" where
  "assess_current g a =
     (case so_state g of
        EvidenceVerified \<Rightarrow>
          add_if (\<not> exact g) ReasonCurrentSealInvalid
            (add_if (identity_Validate (so_identity g) \<noteq> None) ReasonCurrentIdentityInvalid a)
      | EvidenceUnknown \<Rightarrow> add_unknown ReasonCurrentSealUnknown a
      | _ \<Rightarrow> add_reason ReasonCurrentSealInvalid a)"

definition assess_mismatch ::
  "active_observation \<Rightarrow> sealed_observation \<Rightarrow> assessment \<Rightarrow> assessment" where
  "assess_mismatch act g a =
     add_if (ao_state act = ActivePointerValid \<and> so_state g = EvidenceVerified \<and> \<not> names act g)
       ReasonActiveGenerationMismatch a"

definition target_exact :: "target_observation \<Rightarrow> bool" where
  "target_exact t \<longleftrightarrow>
     to_state t = EvidenceVerified \<and> identity_Validate (to_compiled t) = None
     \<and> identity_Validate (to_observed t) = None \<and> identity_Equal (to_compiled t) (to_observed t)"

definition assess_target :: "target_observation \<Rightarrow> assessment \<Rightarrow> assessment" where
  "assess_target t a =
     (case to_state t of
        EvidenceVerified \<Rightarrow>
          (if identity_Validate (to_compiled t) \<noteq> None \<or> identity_Validate (to_observed t) \<noteq> None
           then add_reason ReasonTargetIdentityInvalid a
           else if \<not> identity_Equal (to_compiled t) (to_observed t)
           then add_reason ReasonTargetIdentityMismatch a
           else a)
      | EvidenceUnknown \<Rightarrow> add_unknown ReasonTargetUnknown a
      | _ \<Rightarrow> add_reason ReasonTargetIdentityInvalid a)"

definition assess_inventory :: "evidence_state \<Rightarrow> assessment \<Rightarrow> assessment" where
  "assess_inventory s a =
     (case s of
        EvidenceVerified \<Rightarrow> a
      | EvidenceUnknown \<Rightarrow> add_unknown ReasonInventoryUnknown a
      | _ \<Rightarrow> add_reason ReasonInventoryIncomplete a)"

definition assess_protection ::
  "reason \<Rightarrow> reason \<Rightarrow> protection_observation \<Rightarrow> assessment \<Rightarrow> assessment" where
  "assess_protection unavailable unknown p a =
     (case po_state p of
        EvidenceVerified \<Rightarrow> add_if (\<not> closedIDPattern (po_id p)) unavailable a
      | EvidenceUnknown \<Rightarrow> add_unknown unknown a
      | _ \<Rightarrow> add_reason unavailable a)"

definition assess_postchecks ::
  "postcheck_qualification \<Rightarrow> postcheck list \<Rightarrow> assessment \<Rightarrow> assessment" where
  "assess_postchecks policy required a =
     (case pq_state policy of
        EvidenceUnknown \<Rightarrow> add_unknown ReasonPostchecksUnknown a
      | EvidenceVerified \<Rightarrow> add_if (\<not> postchecksQualified policy required) ReasonPostchecksUnqualified a
      | _ \<Rightarrow> add_reason ReasonPostchecksUnqualified a)"

definition record_well_formed :: "compatibility_record \<Rightarrow> bool" where
  "record_well_formed r \<longleftrightarrow>
     closedIDPattern (cr_id r) \<and> closedIDPattern (cr_windows_evidence_id r)
     \<and> identity_Validate (cr_from r) = None \<and> identity_Validate (cr_to r) = None
     \<and> cr_from_config_schema r > 0 \<and> cr_to_config_schema r > 0
     \<and> cr_inventory_complete r \<and> migration_valid (cr_migration r)
     \<and> safety_valid (cr_upgrade r) \<and> safety_valid (cr_rollback r)"

definition assess_safety ::
  "reason \<Rightarrow> reason \<Rightarrow> compatibility_safety \<Rightarrow> assessment \<Rightarrow> assessment" where
  "assess_safety unknown unsafe s a =
     (case s of
        CompatibilityProven \<Rightarrow> a
      | CompatibilityUnknown \<Rightarrow> add_unknown unknown a
      | CompatibilityUnsafe \<Rightarrow> add_reason unsafe a
      | CompatibilityOther _ \<Rightarrow> add_reason ReasonCompatibilityInvalid a)"

text \<open>
  \<open>assessCompatibility\<close> returns whether no reason at all has been recorded so far (its
  first result) together with the updated state; its second result is folded into the
  \<open>unknown\<close> flag, as both callers do.
\<close>

definition assessCompatibility ::
  "compatibility_record \<Rightarrow> snapshot_identity \<Rightarrow> snapshot_identity \<Rightarrow> bool \<Rightarrow> assessment
     \<Rightarrow> bool \<times> assessment" where
  "assessCompatibility r from to requireUpgrade a =
     (case cr_state r of
        EvidenceVerified \<Rightarrow>
          (if \<not> record_well_formed r then (False, add_reason ReasonCompatibilityInvalid a)
           else
             (let a1 = add_if (\<not> identity_Equal (cr_from r) from \<or> \<not> identity_Equal (cr_to r) to)
                         ReasonCompatibilityPairMismatch a;
                  a2 = (if requireUpgrade
                        then assess_safety ReasonUpgradeCompatibilityUnknown
                               ReasonUpgradeCompatibilityUnsafe (cr_upgrade r) a1
                        else a1);
                  a3 = assess_safety ReasonRollbackCompatibilityUnknown
                         ReasonRollbackCompatibilityUnsafe (cr_rollback r) a2
              in (fst a3 = [], a3)))
      | EvidenceMissing \<Rightarrow> (False, add_reason ReasonCompatibilityMissing a)
      | EvidenceUnknown \<Rightarrow> (False, add_unknown ReasonCompatibilityUnknown a)
      | _ \<Rightarrow> (False, add_reason ReasonCompatibilityInvalid a))"

record upgrade_input =
  ui_managed :: managed_state
  ui_active :: active_observation
  ui_current :: sealed_observation
  ui_target :: target_observation
  ui_inventory :: inventory_observation
  ui_protection :: protection_observation
  ui_compatibility :: compatibility_record
  ui_postchecks :: postcheck_qualification

record upgrade_plan =
  up_availability :: availability
  up_current :: snapshot_identity
  up_target :: snapshot_identity
  up_complete :: bool
  up_rollback_eligible :: bool
  up_upgrade_qualified :: bool
  up_rollback_qualified :: bool
  up_reasons :: "reason list"
  up_conflicts :: "conflict list"
  up_required :: "postcheck list"

definition already_active :: "upgrade_input \<Rightarrow> bool" where
  "already_active i \<longleftrightarrow>
     ui_managed i = ManagedProven \<and> exact (ui_current i) \<and> names (ui_active i) (ui_current i)
     \<and> target_exact (ui_target i)
     \<and> identity_Equal (so_identity (ui_current i)) (to_compiled (ui_target i))"

text \<open>The evidence gathered before the early return, and the evidence after it.\<close>

definition assess_identity_evidence :: "upgrade_input \<Rightarrow> assessment" where
  "assess_identity_evidence i =
     assess_target (ui_target i)
     (assess_mismatch (ui_active i) (ui_current i)
     (assess_current (ui_current i)
     (assess_active (ao_state (ui_active i))
     (assess_managed (ui_managed i) ([], False)))))"

definition BuildUpgradePlan :: "upgrade_input \<Rightarrow> upgrade_plan" where
  "BuildUpgradePlan i =
     (let a1 = assess_identity_evidence i;
          required = requiredPostchecks (io_features (ui_inventory i))
      in if already_active i then
           \<lparr>up_availability = UpgradeUpToDate, up_current = so_identity (ui_current i),
            up_target = to_compiled (ui_target i), up_complete = False,
            up_rollback_eligible = False, up_upgrade_qualified = False,
            up_rollback_qualified = False, up_reasons = [ReasonTargetAlreadyActive],
            up_conflicts = conflicts, up_required = required\<rparr>
         else
           (let a2 = assess_inventory (io_state (ui_inventory i)) a1;
                a3 = assess_protection ReasonProtectionPointUnavailable ReasonProtectionPointUnknown
                       (ui_protection i) a2;
                (compatible, a4) = assessCompatibility (ui_compatibility i)
                       (so_identity (ui_current i)) (to_compiled (ui_target i)) True a3;
                (reasons, unknown) = assess_postchecks (ui_postchecks i) required a4
            in \<lparr>up_availability = (if reasons = [] then UpgradeAvailable
                                    else if unknown then UpgradeUnknown else UpgradeBlocked),
                up_current = so_identity (ui_current i), up_target = to_compiled (ui_target i),
                up_complete = (reasons = []),
                up_rollback_eligible = (reasons = [] \<and> compatible),
                up_upgrade_qualified = False, up_rollback_qualified = False,
                up_reasons = reasons, up_conflicts = conflicts, up_required = required\<rparr>))"

definition UpgradeExecutable :: "upgrade_plan \<Rightarrow> bool" where
  "UpgradeExecutable p \<longleftrightarrow> up_complete p \<and> up_upgrade_qualified p"

definition plan_RollbackExecutable :: "upgrade_plan \<Rightarrow> bool" where
  "plan_RollbackExecutable p \<longleftrightarrow> up_complete p \<and> up_rollback_eligible p \<and> up_rollback_qualified p"

subsection \<open>Rollback (rollback.go)\<close>

datatype eligibility = RollbackEligible | RollbackIneligible | RollbackUnknown

record rollback_input =
  ri_managed :: managed_state
  ri_active :: active_observation
  ri_current :: sealed_observation
  ri_previous :: sealed_observation
  ri_inventory :: inventory_observation
  ri_compatibility :: compatibility_record
  ri_protection_restore :: protection_observation
  ri_postchecks :: postcheck_qualification

record rollback_plan =
  rp_eligibility :: eligibility
  rp_complete :: bool
  rp_qualified :: bool
  rp_reasons :: "reason list"
  rp_conflicts :: "conflict list"
  rp_required :: "postcheck list"

definition assessRollbackGeneration ::
  "sealed_observation \<Rightarrow> bool \<Rightarrow> assessment \<Rightarrow> assessment" where
  "assessRollbackGeneration g previous a =
     (case so_state g of
        EvidenceVerified \<Rightarrow>
          (if exact g then a
           else if previous then add_reason ReasonPreviousGenerationInvalid a
           else add_reason ReasonCurrentSealInvalid
                  (add_if (identity_Validate (so_identity g) \<noteq> None) ReasonCurrentIdentityInvalid a))
      | EvidenceUnknown \<Rightarrow>
          add_unknown (if previous then ReasonPreviousGenerationUnknown else ReasonCurrentSealUnknown) a
      | EvidenceMissing \<Rightarrow>
          add_reason (if previous then ReasonPreviousGenerationMissing else ReasonCurrentSealInvalid) a
      | _ \<Rightarrow>
          add_reason (if previous then ReasonPreviousGenerationInvalid else ReasonCurrentSealInvalid) a)"

definition AssessRollback :: "rollback_input \<Rightarrow> rollback_plan" where
  "AssessRollback i =
     (let required = requiredPostchecks (io_features (ri_inventory i));
          a1 = assess_active (ao_state (ri_active i)) (assess_managed (ri_managed i) ([], False));
          a2 = assessRollbackGeneration (ri_previous i) True
                 (assessRollbackGeneration (ri_current i) False a1);
          a3 = assess_mismatch (ri_active i) (ri_current i) a2;
          a4 = add_if (so_generation (ri_current i) \<noteq> []
                       \<and> so_generation (ri_current i) = so_generation (ri_previous i))
                 ReasonPreviousGenerationSame a3;
          a5 = assess_inventory (io_state (ri_inventory i)) a4;
          (_, a6) = assessCompatibility (ri_compatibility i) (so_identity (ri_previous i))
                 (so_identity (ri_current i)) False a5;
          a7 = (if cr_state (ri_compatibility i) = EvidenceVerified
                   \<and> cr_protection_restore_required (ri_compatibility i)
                then assess_protection ReasonProtectionRestoreIncomplete ReasonProtectionRestoreUnknown
                       (ri_protection_restore i) a6
                else a6);
          (reasons, unknown) = assess_postchecks (ri_postchecks i) required a7
      in \<lparr>rp_eligibility = (if reasons = [] then RollbackEligible
                             else if unknown then RollbackUnknown else RollbackIneligible),
          rp_complete = (reasons = []), rp_qualified = False, rp_reasons = reasons,
          rp_conflicts = conflicts, rp_required = required\<rparr>)"

definition RollbackExecutable :: "rollback_plan \<Rightarrow> bool" where
  "RollbackExecutable p \<longleftrightarrow> rp_complete p \<and> rp_eligibility p = RollbackEligible \<and> rp_qualified p"

end
