(* ===== verification/Upgrade_Properties.thy ===== *)
theory Upgrade_Properties
  imports Upgrade_Plan
begin

text \<open>
  What the planner decides. Each assessment step is characterised by two facts, when it records
  no reason and when it sees unknown evidence; the plan's verdict then follows by rewriting, as
  a declarative specification of complete evidence.
\<close>

named_theorems no_reason \<open>when an assessment step records nothing\<close>
named_theorems saw_unknown \<open>when an assessment step sees unknown evidence\<close>

lemma add_reason_simps [simp]:
  "fst (add_reason r a) \<noteq> []" "snd (add_reason r a) = snd a"
  "fst (add_unknown r a) \<noteq> []" "snd (add_unknown r a)"
  by (simp_all add: add_reason_def add_unknown_def)

lemma no_reason_add_if [no_reason]: "fst (add_if c r a) = [] \<longleftrightarrow> \<not> c \<and> fst a = []"
  by (simp add: add_if_def)

lemma unknown_add_if [saw_unknown]: "snd (add_if c r a) = snd a"
  by (simp add: add_if_def)

lemma exact_identity: "exact g \<Longrightarrow> identity_Validate (so_identity g) = None"
  by (simp add: exact_def)

lemma exact_verified: "exact g \<Longrightarrow> so_state g = EvidenceVerified"
  by (simp add: exact_def)

lemma no_reason_managed [no_reason]:
  "fst (assess_managed m a) = [] \<longleftrightarrow> m = ManagedProven \<and> fst a = []"
  by (simp add: assess_managed_def split: managed_state.splits)

lemma unknown_managed [saw_unknown]:
  "snd (assess_managed m a) \<longleftrightarrow> snd a \<or> m \<noteq> ManagedProven \<and> m \<noteq> ManagedNo"
  by (simp add: assess_managed_def split: managed_state.splits)

lemma no_reason_active [no_reason]:
  "fst (assess_active s a) = [] \<longleftrightarrow> s = ActivePointerValid \<and> fst a = []"
  by (simp add: assess_active_def split: active_pointer_state.splits)

lemma unknown_active [saw_unknown]:
  "snd (assess_active s a) \<longleftrightarrow> snd a \<or> s = ActivePointerUnknown"
  by (simp add: assess_active_def split: active_pointer_state.splits)

lemma no_reason_current [no_reason]: "fst (assess_current g a) = [] \<longleftrightarrow> exact g \<and> fst a = []"
  by (auto simp: assess_current_def no_reason exact_def split: evidence_state.splits)

lemma unknown_current [saw_unknown]:
  "snd (assess_current g a) \<longleftrightarrow> snd a \<or> so_state g = EvidenceUnknown"
  by (simp add: assess_current_def saw_unknown split: evidence_state.splits)

lemma no_reason_mismatch [no_reason]:
  "fst (assess_mismatch act g a) = [] \<longleftrightarrow>
     \<not> (ao_state act = ActivePointerValid \<and> so_state g = EvidenceVerified \<and> \<not> names act g) \<and> fst a = []"
  by (simp add: assess_mismatch_def no_reason)

lemma unknown_mismatch [saw_unknown]: "snd (assess_mismatch act g a) = snd a"
  by (simp add: assess_mismatch_def saw_unknown)

lemma no_reason_target [no_reason]: "fst (assess_target t a) = [] \<longleftrightarrow> target_exact t \<and> fst a = []"
  by (auto simp: assess_target_def target_exact_def split: evidence_state.splits)

lemma unknown_target [saw_unknown]:
  "snd (assess_target t a) \<longleftrightarrow> snd a \<or> to_state t = EvidenceUnknown"
  by (simp add: assess_target_def split: evidence_state.splits)

lemma no_reason_inventory [no_reason]:
  "fst (assess_inventory s a) = [] \<longleftrightarrow> s = EvidenceVerified \<and> fst a = []"
  by (simp add: assess_inventory_def split: evidence_state.splits)

lemma unknown_inventory [saw_unknown]:
  "snd (assess_inventory s a) \<longleftrightarrow> snd a \<or> s = EvidenceUnknown"
  by (simp add: assess_inventory_def split: evidence_state.splits)

lemma no_reason_protection [no_reason]:
  "fst (assess_protection u v p a) = [] \<longleftrightarrow>
     po_state p = EvidenceVerified \<and> closedIDPattern (po_id p) \<and> fst a = []"
  by (auto simp: assess_protection_def no_reason split: evidence_state.splits)

lemma unknown_protection [saw_unknown]:
  "snd (assess_protection u v p a) \<longleftrightarrow> snd a \<or> po_state p = EvidenceUnknown"
  by (simp add: assess_protection_def saw_unknown split: evidence_state.splits)

lemma no_reason_postchecks [no_reason]:
  "fst (assess_postchecks q req a) = [] \<longleftrightarrow> postchecksQualified q req \<and> fst a = []"
  by (auto simp: assess_postchecks_def no_reason postchecksQualified_def split: evidence_state.splits)

lemma unknown_postchecks [saw_unknown]:
  "snd (assess_postchecks q req a) \<longleftrightarrow> snd a \<or> pq_state q = EvidenceUnknown"
  by (simp add: assess_postchecks_def saw_unknown split: evidence_state.splits)

lemma no_reason_safety [no_reason]:
  "fst (assess_safety u v s a) = [] \<longleftrightarrow> s = CompatibilityProven \<and> fst a = []"
  by (simp add: assess_safety_def split: compatibility_safety.splits)

lemma unknown_safety [saw_unknown]:
  "snd (assess_safety u v s a) \<longleftrightarrow> snd a \<or> s = CompatibilityUnknown"
  by (simp add: assess_safety_def split: compatibility_safety.splits)

definition compatible_pair ::
  "compatibility_record \<Rightarrow> snapshot_identity \<Rightarrow> snapshot_identity \<Rightarrow> bool \<Rightarrow> bool" where
  "compatible_pair r from to needs_upgrade \<longleftrightarrow>
     cr_state r = EvidenceVerified \<and> record_well_formed r \<and> cr_from r = from \<and> cr_to r = to
     \<and> (needs_upgrade \<longrightarrow> cr_upgrade r = CompatibilityProven) \<and> cr_rollback r = CompatibilityProven"

definition compatibility_unknown :: "compatibility_record \<Rightarrow> bool \<Rightarrow> bool" where
  "compatibility_unknown r needs_upgrade \<longleftrightarrow>
     cr_state r = EvidenceUnknown
     \<or> (cr_state r = EvidenceVerified \<and> record_well_formed r
        \<and> (needs_upgrade \<and> cr_upgrade r = CompatibilityUnknown \<or> cr_rollback r = CompatibilityUnknown))"

lemma no_reason_compatibility [no_reason]:
  "fst (snd (assessCompatibility r from to u a)) = [] \<longleftrightarrow> compatible_pair r from to u \<and> fst a = []"
  by (cases u)
    (auto simp: assessCompatibility_def compatible_pair_def identity_Equal_def Let_def no_reason
      split: evidence_state.splits)

lemma unknown_compatibility [saw_unknown]:
  "snd (snd (assessCompatibility r from to u a)) \<longleftrightarrow> snd a \<or> compatibility_unknown r u"
  by (cases u)
    (auto simp: assessCompatibility_def compatibility_unknown_def Let_def saw_unknown
      split: evidence_state.splits)

lemma compatibility_verdict:
  "fst (assessCompatibility r from to u a) \<longleftrightarrow>
     fst (snd (assessCompatibility r from to u a)) = []"
  by (simp add: assessCompatibility_def Let_def split: evidence_state.splits)

lemma no_reason_rollback_generation [no_reason]:
  "fst (assessRollbackGeneration g p a) = [] \<longleftrightarrow> exact g \<and> fst a = []"
  by (auto simp: assessRollbackGeneration_def exact_def split: evidence_state.splits)

lemma unknown_rollback_generation [saw_unknown]:
  "snd (assessRollbackGeneration g p a) \<longleftrightarrow> snd a \<or> so_state g = EvidenceUnknown"
  by (simp add: assessRollbackGeneration_def saw_unknown split: evidence_state.splits)

subsection \<open>Postchecks\<close>

lemma qualified_loop_Some:
  "qualified_loop seen cs = Some out \<longleftrightarrow>
     list_all postcheck_valid cs \<and> dup_free seen cs \<and> out = rev cs @ seen"
  by (induction seen cs rule: qualified_loop.induct) auto

lemma postchecksQualified_iff:
  "postchecksQualified q req \<longleftrightarrow>
     pq_state q = EvidenceVerified \<and> list_all postcheck_valid (pq_qualified q)
     \<and> distinct (pq_qualified q) \<and> set req \<subseteq> set (pq_qualified q)"
proof (cases "qualified_loop [] (pq_qualified q)")
  case None
  then have "\<not> (list_all postcheck_valid (pq_qualified q) \<and> distinct (pq_qualified q))"
    using qualified_loop_Some [of "[]" "pq_qualified q"] by (auto simp: dup_free_iff)
  with None show ?thesis by (auto simp: postchecksQualified_def)
next
  case (Some out)
  then have "list_all postcheck_valid (pq_qualified q)" "distinct (pq_qualified q)"
    and out: "set out = set (pq_qualified q)"
    by (auto simp: qualified_loop_Some dup_free_iff)
  then show ?thesis
    by (auto simp: postchecksQualified_def Some list_all_iff out)
qed

lemma requiredPostchecks_set:
  "set (requiredPostchecks f) =
     {PostcheckActiveSeal, PostcheckDualLaunchers, PostcheckDiscovery, PostcheckProfiles,
      PostcheckHealthSecurity}
     \<union> (if Models f then {PostcheckModels} else {}) \<union> (if Gateways f then {PostcheckLifecycle} else {})
     \<union> (if Channels f then {PostcheckChannels} else {}) \<union> (if Skills f then {PostcheckSkills} else {})
     \<union> (if MCP f then {PostcheckMCP} else {})"
  by (auto simp: requiredPostchecks_def)

subsection \<open>Specification of complete evidence\<close>

definition upgrade_evidence :: "upgrade_input \<Rightarrow> bool" where
  "upgrade_evidence i \<longleftrightarrow>
     ui_managed i = ManagedProven
     \<and> exact (ui_current i) \<and> names (ui_active i) (ui_current i)
     \<and> target_exact (ui_target i) \<and> to_compiled (ui_target i) \<noteq> so_identity (ui_current i)
     \<and> io_state (ui_inventory i) = EvidenceVerified
     \<and> po_state (ui_protection i) = EvidenceVerified \<and> closedIDPattern (po_id (ui_protection i))
     \<and> compatible_pair (ui_compatibility i) (so_identity (ui_current i)) (to_compiled (ui_target i)) True
     \<and> postchecksQualified (ui_postchecks i) (requiredPostchecks (io_features (ui_inventory i)))"

definition upgrade_unknown :: "upgrade_input \<Rightarrow> bool" where
  "upgrade_unknown i \<longleftrightarrow>
     ui_managed i \<noteq> ManagedProven \<and> ui_managed i \<noteq> ManagedNo
     \<or> ao_state (ui_active i) = ActivePointerUnknown
     \<or> so_state (ui_current i) = EvidenceUnknown \<or> to_state (ui_target i) = EvidenceUnknown
     \<or> io_state (ui_inventory i) = EvidenceUnknown \<or> po_state (ui_protection i) = EvidenceUnknown
     \<or> compatibility_unknown (ui_compatibility i) True
     \<or> pq_state (ui_postchecks i) = EvidenceUnknown"

definition final_assessment :: "upgrade_input \<Rightarrow> assessment" where
  "final_assessment i =
     assess_postchecks (ui_postchecks i) (requiredPostchecks (io_features (ui_inventory i)))
     (snd (assessCompatibility (ui_compatibility i) (so_identity (ui_current i))
             (to_compiled (ui_target i)) True
       (assess_protection ReasonProtectionPointUnavailable ReasonProtectionPointUnknown (ui_protection i)
       (assess_inventory (io_state (ui_inventory i)) (assess_identity_evidence i)))))"

lemma BuildUpgradePlan_fields:
  assumes "\<not> already_active i"
  shows "up_reasons (BuildUpgradePlan i) = fst (final_assessment i)"
    "up_availability (BuildUpgradePlan i) =
       (if fst (final_assessment i) = [] then UpgradeAvailable
        else if snd (final_assessment i) then UpgradeUnknown else UpgradeBlocked)"
    "up_complete (BuildUpgradePlan i) \<longleftrightarrow> fst (final_assessment i) = []"
  using assms
  by (simp_all add: BuildUpgradePlan_def final_assessment_def Let_def split_beta)

lemma final_no_reason:
  "fst (final_assessment i) = [] \<longleftrightarrow>
     ui_managed i = ManagedProven \<and> exact (ui_current i) \<and> names (ui_active i) (ui_current i)
     \<and> target_exact (ui_target i) \<and> io_state (ui_inventory i) = EvidenceVerified
     \<and> po_state (ui_protection i) = EvidenceVerified \<and> closedIDPattern (po_id (ui_protection i))
     \<and> compatible_pair (ui_compatibility i) (so_identity (ui_current i)) (to_compiled (ui_target i)) True
     \<and> postchecksQualified (ui_postchecks i) (requiredPostchecks (io_features (ui_inventory i)))"
  by (auto simp: final_assessment_def assess_identity_evidence_def no_reason names_def
      dest: exact_verified)

lemma final_unknown: "snd (final_assessment i) \<longleftrightarrow> upgrade_unknown i"
  by (auto simp: final_assessment_def assess_identity_evidence_def saw_unknown upgrade_unknown_def)

lemma unknown_blocks: "upgrade_unknown i \<Longrightarrow> fst (final_assessment i) \<noteq> []"
  by (auto simp: final_no_reason upgrade_unknown_def exact_def names_def target_exact_def
      compatible_pair_def compatibility_unknown_def postchecksQualified_def)


text \<open>
  Planning never authorises mutation: no evidence makes the planner's or the rollback
  assessment's own result executable, and planning completeness is claimed only together with
  AVAILABLE and an empty reason list (then rollback compatibility is proven too).
\<close>

theorem planning_is_not_mutation_authority:
  "\<not> UpgradeExecutable (BuildUpgradePlan i) \<and> \<not> plan_RollbackExecutable (BuildUpgradePlan i)
   \<and> \<not> RollbackExecutable (AssessRollback j)
   \<and> (up_complete (BuildUpgradePlan i) \<longleftrightarrow> up_availability (BuildUpgradePlan i) = UpgradeAvailable)
   \<and> (up_rollback_eligible (BuildUpgradePlan i) \<longleftrightarrow> up_complete (BuildUpgradePlan i))
   \<and> (up_complete (BuildUpgradePlan i) \<longleftrightarrow> up_reasons (BuildUpgradePlan i) = [])"
proof -
  have "up_rollback_eligible (BuildUpgradePlan i) \<longleftrightarrow> up_complete (BuildUpgradePlan i)"
  proof (cases "already_active i")
    case False
    let ?a = "assess_protection ReasonProtectionPointUnavailable ReasonProtectionPointUnknown
      (ui_protection i) (assess_inventory (io_state (ui_inventory i)) (assess_identity_evidence i))"
    let ?c = "assessCompatibility (ui_compatibility i) (so_identity (ui_current i))
      (to_compiled (ui_target i)) True ?a"
    have "fst (assess_postchecks (ui_postchecks i) (requiredPostchecks (io_features (ui_inventory i))) (snd ?c)) = []
      \<Longrightarrow> fst ?c"
      by (simp add: no_reason_postchecks compatibility_verdict)
    with False show ?thesis by (auto simp: BuildUpgradePlan_def Let_def split_beta)
  qed (simp add: BuildUpgradePlan_def Let_def)
  then show ?thesis
    by (simp add: UpgradeExecutable_def plan_RollbackExecutable_def RollbackExecutable_def
        BuildUpgradePlan_def AssessRollback_def Let_def split_beta)
qed

subsection \<open>Rollback\<close>

definition rollback_evidence :: "rollback_input \<Rightarrow> bool" where
  "rollback_evidence i \<longleftrightarrow>
     ri_managed i = ManagedProven
     \<and> exact (ri_current i) \<and> names (ri_active i) (ri_current i)
     \<and> exact (ri_previous i) \<and> so_generation (ri_previous i) \<noteq> so_generation (ri_current i)
     \<and> io_state (ri_inventory i) = EvidenceVerified
     \<and> compatible_pair (ri_compatibility i) (so_identity (ri_previous i)) (so_identity (ri_current i)) False
     \<and> (cr_protection_restore_required (ri_compatibility i) \<longrightarrow>
          po_state (ri_protection_restore i) = EvidenceVerified
          \<and> closedIDPattern (po_id (ri_protection_restore i)))
     \<and> postchecksQualified (ri_postchecks i) (requiredPostchecks (io_features (ri_inventory i)))"

definition rollback_unknown :: "rollback_input \<Rightarrow> bool" where
  "rollback_unknown i \<longleftrightarrow>
     ri_managed i \<noteq> ManagedProven \<and> ri_managed i \<noteq> ManagedNo
     \<or> ao_state (ri_active i) = ActivePointerUnknown
     \<or> so_state (ri_current i) = EvidenceUnknown \<or> so_state (ri_previous i) = EvidenceUnknown
     \<or> io_state (ri_inventory i) = EvidenceUnknown \<or> compatibility_unknown (ri_compatibility i) False
     \<or> (cr_state (ri_compatibility i) = EvidenceVerified
        \<and> cr_protection_restore_required (ri_compatibility i)
        \<and> po_state (ri_protection_restore i) = EvidenceUnknown)
     \<or> pq_state (ri_postchecks i) = EvidenceUnknown"

definition rollback_assessment :: "rollback_input \<Rightarrow> assessment" where
  "rollback_assessment i =
     (let c = snd (assessCompatibility (ri_compatibility i) (so_identity (ri_previous i))
                 (so_identity (ri_current i)) False
              (assess_inventory (io_state (ri_inventory i))
              (add_if (so_generation (ri_current i) \<noteq> []
                       \<and> so_generation (ri_current i) = so_generation (ri_previous i))
                 ReasonPreviousGenerationSame
              (assess_mismatch (ri_active i) (ri_current i)
              (assessRollbackGeneration (ri_previous i) True
              (assessRollbackGeneration (ri_current i) False
              (assess_active (ao_state (ri_active i)) (assess_managed (ri_managed i) ([], False)))))))))
      in assess_postchecks (ri_postchecks i) (requiredPostchecks (io_features (ri_inventory i)))
           (if cr_state (ri_compatibility i) = EvidenceVerified
               \<and> cr_protection_restore_required (ri_compatibility i)
            then assess_protection ReasonProtectionRestoreIncomplete ReasonProtectionRestoreUnknown
                   (ri_protection_restore i) c
            else c))"

lemma AssessRollback_fields:
  "rp_reasons (AssessRollback i) = fst (rollback_assessment i)"
  "rp_eligibility (AssessRollback i) =
     (if fst (rollback_assessment i) = [] then RollbackEligible
      else if snd (rollback_assessment i) then RollbackUnknown else RollbackIneligible)"
  by (simp_all add: AssessRollback_def rollback_assessment_def Let_def split_beta)

lemma exact_generation: "exact g \<Longrightarrow> so_generation g \<noteq> []"
  by (auto simp: exact_def generationIDPattern_def HasPrefix_def)

lemma rollback_no_reason: "fst (rollback_assessment i) = [] \<longleftrightarrow> rollback_evidence i"
  unfolding rollback_assessment_def rollback_evidence_def Let_def
  by (auto simp: no_reason names_def compatible_pair_def dest: exact_verified exact_generation)

lemma rollback_saw_unknown: "snd (rollback_assessment i) \<longleftrightarrow> rollback_unknown i"
  by (auto simp: rollback_assessment_def rollback_unknown_def saw_unknown Let_def)

text \<open>
  Rollback eligibility, in full: ELIGIBLE exactly when the current and a different previous
  generation are both exactly sealed, the active pointer names the current one, the reviewed
  record covers this pair with a proven downgrade, the protection restore is present when the
  record requires it, and every required postcheck is qualified; otherwise UNKNOWN when some
  evidence could not be observed and INELIGIBLE when it could.
\<close>

theorem rollback_eligibility_characterised:
  "rp_eligibility (AssessRollback i) =
     (if rollback_evidence i then RollbackEligible
      else if rollback_unknown i then RollbackUnknown else RollbackIneligible)"
  by (simp add: AssessRollback_fields rollback_no_reason rollback_saw_unknown)

text \<open>
  The policy gate on postchecks: evidence qualifies exactly when it is verified, names only
  known checks, names none twice and covers every required one; and the five base checks are
  required whatever features are installed.
\<close>

theorem postcheck_gate:
  "(postchecksQualified q (requiredPostchecks f) \<longleftrightarrow>
      pq_state q = EvidenceVerified \<and> list_all postcheck_valid (pq_qualified q)
      \<and> distinct (pq_qualified q) \<and> set (requiredPostchecks f) \<subseteq> set (pq_qualified q))
   \<and> {PostcheckActiveSeal, PostcheckDualLaunchers, PostcheckDiscovery, PostcheckProfiles,
      PostcheckHealthSecurity} \<subseteq> set (requiredPostchecks f)
   \<and> (PostcheckMCP \<in> set (requiredPostchecks f) \<longleftrightarrow> MCP f)"
  by (auto simp: postchecksQualified_iff requiredPostchecks_set)

end
