(* ===== verification/Install_Types.thy ===== *)
theory Install_Types
  imports Go_Strings "HOL-Library.Word"
begin

text \<open>
  The vocabulary of the install subsystem (install/types.go, ids.go, errors.go, transaction.go,
  active\_pointer.go, generation.go and the relative-path rules of paths.go): transaction states,
  recovery actions and gates, closed identifiers, the persisted records and their validators.
\<close>

subsection \<open>States, gates and actions (types.go)\<close>

datatype txn_state =
    StateNone | StateCreated | StateBuilding | StateSealed | StatePublished | StateActivating
  | StateCommitted | StateFailed | StateOther string

definition Terminal :: "txn_state \<Rightarrow> bool" where
  "Terminal s \<longleftrightarrow> s = StateCommitted \<or> s = StateFailed"

definition Nonterminal :: "txn_state \<Rightarrow> bool" where
  "Nonterminal s \<longleftrightarrow> s \<noteq> StateNone \<and> \<not> Terminal s"

datatype gate = GateNone | GateReady | GateReconciling | GateBlockedUnsafe

datatype action =
    ActionNone | ActionFailTransaction | ActionMoveStagingToFailed | ActionRemoveEmptyStaging
  | ActionRemoveEmptyGeneration | ActionPersistPublished | ActionPersistActivating | ActionActivate
  | ActionReconcileEnv | ActionCommit | ActionGCStaging | ActionDiagnoseRetain | ActionBlockUnsafe
  | ActionFailFailableExtras

definition CodeInterrupted :: string where "CodeInterrupted = ''OPERATION_INTERRUPTED''"
definition CodeBlockedUnsafe :: string where "CodeBlockedUnsafe = ''INSTALL_BLOCKED_UNSAFE''"
definition CodeNotReady :: string where "CodeNotReady = ''INSTALL_NOT_READY''"
definition CodeInconsistent :: string where "CodeInconsistent = ''INSTALL_STATE_INCONSISTENT''"
definition CodeSealInvalid :: string where "CodeSealInvalid = ''INSTALL_SEAL_INVALID''"
definition CodePublishConflict :: string where "CodePublishConflict = ''INSTALL_PUBLISH_CONFLICT''"

text \<open>The kind of active pointer that a transaction saw before it activated.\<close>

datatype before_kind = BeforeNone | ActiveBeforeAbsent | ActiveBeforeValid | BeforeOther string

record txn_view =
  tv_valid :: bool
  tv_occupies :: bool
  tv_id :: string
  tv_state :: txn_state
  tv_generation :: string
  tv_active_before :: string
  tv_active_before_digest :: string
  tv_active_before_kind :: before_kind
  tv_staging_rel :: string
  tv_generation_rel :: string

definition zero_view :: txn_view where
  "zero_view =
     \<lparr>tv_valid = False, tv_occupies = False, tv_id = [], tv_state = StateNone, tv_generation = [],
      tv_active_before = [], tv_active_before_digest = [], tv_active_before_kind = BeforeNone,
      tv_staging_rel = [], tv_generation_rel = []\<rparr>"

record tree_observation =
  tr_present :: bool
  tr_empty :: bool
  tr_sealed :: bool
  tr_lineage_match :: bool
  tr_lineage_id :: string

definition zero_tree :: tree_observation where
  "zero_tree =
     \<lparr>tr_present = False, tr_empty = False, tr_sealed = False, tr_lineage_match = False,
      tr_lineage_id = []\<rparr>"

datatype active_class = ClassNone | ActiveMissing | ActiveValid | ActiveInvalid

record active_pointer =
  ap_class :: active_class
  ap_present :: bool
  ap_valid :: bool
  ap_generation :: string
  ap_seal :: string
  ap_manifest :: string

definition pointer_Missing :: "active_pointer \<Rightarrow> bool" where
  "pointer_Missing p =
     (if ap_class p \<noteq> ClassNone then ap_class p = ActiveMissing
      else \<not> ap_present p \<and> \<not> ap_valid p)"

definition pointer_Invalid :: "active_pointer \<Rightarrow> bool" where
  "pointer_Invalid p =
     (if ap_class p \<noteq> ClassNone then ap_class p = ActiveInvalid
      else ap_present p \<and> \<not> ap_valid p)"

definition pointer_IsValid :: "active_pointer \<Rightarrow> bool" where
  "pointer_IsValid p =
     (if ap_class p \<noteq> ClassNone then ap_class p = ActiveValid else ap_valid p)"

definition missing_pointer :: active_pointer where
  "missing_pointer =
     \<lparr>ap_class = ActiveMissing, ap_present = False, ap_valid = False, ap_generation = [],
      ap_seal = [], ap_manifest = []\<rparr>"

definition invalid_pointer :: active_pointer where
  "invalid_pointer =
     \<lparr>ap_class = ActiveInvalid, ap_present = True, ap_valid = False, ap_generation = [],
      ap_seal = [], ap_manifest = []\<rparr>"

record environment_observation =
  eo_home_ok :: bool
  eo_path_ok :: bool

definition env_Complete :: "environment_observation \<Rightarrow> bool" where
  "env_Complete e \<longleftrightarrow> eo_home_ok e \<and> eo_path_ok e"

record observation =
  ob_transactions :: "txn_view list"
  ob_staging :: tree_observation
  ob_generation :: tree_observation
  ob_unknown :: "string list"
  ob_collision :: bool
  ob_active :: active_pointer
  ob_environment :: environment_observation

record decision =
  de_gate :: gate
  de_next :: txn_state
  de_action :: action
  de_code :: string

subsection \<open>Errors (errors.go)\<close>

text \<open>
  The package's sentinel errors, the operating system's errors (a missing file is told apart,
  as \<open>os.IsNotExist\<close> does), injected failures, and \<open>errors.New(code)\<close>.
\<close>

datatype install_error =
    ErrInvalidID | ErrInvalidRelativePath | ErrPathNotContained | ErrRevisionConflict
  | ErrInvalidRecord | ErrNotFound | ErrLockBusy | ErrAtomicReadback | ErrReparsePoint
  | ErrManagedRootUnset | ErrSealInvalid | ErrStagingOccupied | ErrGenerationOccupied
  | ErrPublishConflict | ErrBlockedUnsafe
  | ErrNotExist | ErrOS | ErrContext | ErrInjected string | ErrCode string

subsection \<open>Closed identifiers (ids.go)\<close>

definition idAlphabet :: string where
  "idAlphabet = ''abcdefghijklmnopqrstuvwxyz234567''"

definition idBodyLen :: nat where "idBodyLen = 22"
definition txnPrefix :: string where "txnPrefix = ''txn_''"
definition genPrefix :: string where "genPrefix = ''gen_''"
definition txnFileSuffix :: string where "txnFileSuffix = ''.json''"

text \<open>
  The random source is a parameter: the bytes it delivers, or \<open>None\<close> when
  \<open>rand.Read\<close> fails. Byte values are reduced modulo the 32 letters of the alphabet.
\<close>

definition newClosedID :: "nat list option \<Rightarrow> string \<Rightarrow> install_error + string" where
  "newClosedID bytes prefix =
     (case bytes of
        None \<Rightarrow> Inl ErrOS
      | Some bs \<Rightarrow> Inr (prefix @ map (\<lambda>b. idAlphabet ! (b mod length idAlphabet)) (take idBodyLen bs)))"

definition parseClosedID :: "string \<Rightarrow> string \<Rightarrow> install_error option" where
  "parseClosedID i prefix =
     (if length i \<noteq> length prefix + idBodyLen \<or> \<not> HasPrefix i prefix then Some ErrInvalidID
      else if \<not> list_all (\<lambda>c. c \<in> set idAlphabet) (drop (length prefix) i) then Some ErrInvalidID
      else None)"

definition ParseTransactionID :: "string \<Rightarrow> install_error option" where
  "ParseTransactionID i = parseClosedID i txnPrefix"

definition ParseGenerationID :: "string \<Rightarrow> install_error option" where
  "ParseGenerationID i = parseClosedID i genPrefix"

definition NewTransactionID :: "nat list option \<Rightarrow> install_error + string" where
  "NewTransactionID bytes = newClosedID bytes txnPrefix"

definition NewGenerationID :: "nat list option \<Rightarrow> install_error + string" where
  "NewGenerationID bytes = newClosedID bytes genPrefix"

definition OccupiesReservedTxnName :: "string \<Rightarrow> bool" where
  "OccupiesReservedTxnName name = HasPrefix name txnPrefix"

definition OccupiesReservedGenName :: "string \<Rightarrow> bool" where
  "OccupiesReservedGenName name = HasPrefix name genPrefix"

definition transactionFileName :: "string \<Rightarrow> string" where
  "transactionFileName i = i @ txnFileSuffix"

subsection \<open>Relative paths (paths.go)\<close>

definition dirControl :: string where "dirControl = ''control''"
definition dirTransactions :: string where "dirTransactions = ''transactions''"
definition dirGenerations :: string where "dirGenerations = ''generations''"
definition dirStaging :: string where "dirStaging = ''staging''"
definition dirFailed :: string where "dirFailed = ''failed''"
definition fileActive :: string where "fileActive = ''active.json''"
definition fileLock :: string where "fileLock = ''install.lock''"
definition fileManifest :: string where "fileManifest = ''manifest.json''"
definition fileGeneration :: string where "fileGeneration = ''generation.json''"
definition fileCandidate :: string where "fileCandidate = ''.yorva-candidate.json''"

lemmas dir_names = dirControl_def dirTransactions_def dirGenerations_def dirStaging_def dirFailed_def
  fileActive_def fileLock_def fileManifest_def fileGeneration_def fileCandidate_def

definition StagingRel :: "string \<Rightarrow> string" where
  "StagingRel i = dirStaging @ ''/'' @ i"

definition GenerationRel :: "string \<Rightarrow> string" where
  "GenerationRel i = dirGenerations @ ''/'' @ i"

definition rejectUnsafeRel :: "string \<Rightarrow> install_error option" where
  "rejectUnsafeRel rel =
     check (rel = []) ErrInvalidRelativePath
     (check (HasPrefix rel ''/'' \<or> HasPrefix rel [CHR 0x5C]) ErrPathNotContained
     (check (length rel \<ge> 2 \<and> rel ! 1 = CHR '':'') ErrPathNotContained
     (check (ContainsAny rel [CHR 0x5C, CHR 0x00]) ErrInvalidRelativePath
     (check (\<exists>part \<in> set (split_on CHR ''/'' rel). part = [] \<or> part = ''.'' \<or> part = ''..'')
        ErrInvalidRelativePath None))))"

definition requireExactRel :: "string \<Rightarrow> string \<Rightarrow> install_error option" where
  "requireExactRel rel want =
     orelse (rejectUnsafeRel rel) (check (rel \<noteq> want) ErrInvalidRelativePath None)"

definition ValidateStagingRel :: "string \<Rightarrow> string \<Rightarrow> install_error option" where
  "ValidateStagingRel rel i = orelse (ParseTransactionID i) (requireExactRel rel (StagingRel i))"

definition ValidateGenerationRel :: "string \<Rightarrow> string \<Rightarrow> install_error option" where
  "ValidateGenerationRel rel i = orelse (ParseGenerationID i) (requireExactRel rel (GenerationRel i))"

subsection \<open>The transaction record (transaction.go)\<close>

definition transactionSchema :: int where "transactionSchema = 1"

record transaction =
  tx_schema :: int
  tx_revision :: "64 word"
  tx_id :: string
  tx_runtime_kind :: string
  tx_operation_id :: string
  tx_generation :: string
  tx_state :: txn_state
  tx_step :: string
  tx_source_pin :: string
  tx_expected_version :: string
  tx_staging_rel :: string
  tx_generation_rel :: string
  tx_manifest_sha :: string
  tx_seal_sha :: string
  tx_before_kind :: before_kind
  tx_before_generation :: string
  tx_before_digest :: string
  tx_error_code :: string
  tx_created_at :: time
  tx_updated_at :: time
  tx_sealed_at :: "time option"
  tx_published_at :: "time option"
  tx_activated_at :: "time option"
  tx_committed_at :: "time option"

definition validState :: "txn_state \<Rightarrow> bool" where
  "validState s =
     (case s of
        StateCreated \<Rightarrow> True | StateBuilding \<Rightarrow> True | StateSealed \<Rightarrow> True | StatePublished \<Rightarrow> True
      | StateActivating \<Rightarrow> True | StateCommitted \<Rightarrow> True | StateFailed \<Rightarrow> True
      | _ \<Rightarrow> False)"

definition validSHA256Hex :: "string \<Rightarrow> bool" where
  "validSHA256Hex s = class_exact is_lower_hex 64 s"

definition validate_before :: "transaction \<Rightarrow> install_error option" where
  "validate_before t =
     (case tx_before_kind t of
        BeforeNone \<Rightarrow>
          orelse (if tx_before_generation t \<noteq> [] then ParseGenerationID (tx_before_generation t) else None)
          (check (tx_before_digest t \<noteq> [] \<and> \<not> validSHA256Hex (tx_before_digest t)) ErrInvalidRecord None)
      | ActiveBeforeAbsent \<Rightarrow>
          check (tx_before_generation t \<noteq> [] \<or> tx_before_digest t \<noteq> []) ErrInvalidRecord None
      | ActiveBeforeValid \<Rightarrow>
          orelse (ParseGenerationID (tx_before_generation t))
          (check (\<not> validSHA256Hex (tx_before_digest t)) ErrInvalidRecord None)
      | BeforeOther _ \<Rightarrow> Some ErrInvalidRecord)"

definition validateTransaction :: "transaction \<Rightarrow> install_error option" where
  "validateTransaction t =
     check (tx_schema t \<noteq> transactionSchema) ErrInvalidRecord
     (orelse (ParseTransactionID (tx_id t))
     (orelse (ParseGenerationID (tx_generation t))
     (check (\<not> validState (tx_state t)) ErrInvalidRecord
     (check (TrimSpace (tx_runtime_kind t) = []) ErrInvalidRecord
     (orelse (ValidateStagingRel (tx_staging_rel t) (tx_id t))
     (orelse (ValidateGenerationRel (tx_generation_rel t) (tx_generation t))
     (check (tx_manifest_sha t \<noteq> [] \<and> \<not> validSHA256Hex (tx_manifest_sha t)) ErrInvalidRecord
     (check (tx_seal_sha t \<noteq> [] \<and> \<not> validSHA256Hex (tx_seal_sha t)) ErrInvalidRecord
     (orelse (validate_before t)
     (check (is_zero_time (tx_created_at t) \<or> is_zero_time (tx_updated_at t)) ErrInvalidRecord None))))))))))"

definition View :: "transaction \<Rightarrow> txn_view" where
  "View t =
     \<lparr>tv_valid = True, tv_occupies = False, tv_id = tx_id t, tv_state = tx_state t,
      tv_generation = tx_generation t, tv_active_before = tx_before_generation t,
      tv_active_before_digest = tx_before_digest t, tv_active_before_kind = tx_before_kind t,
      tv_staging_rel = tx_staging_rel t, tv_generation_rel = tx_generation_rel t\<rparr>"

definition NewCreatedTransaction ::
  "nat list option \<Rightarrow> nat list option \<Rightarrow> time \<Rightarrow> string \<Rightarrow> string \<Rightarrow> string \<Rightarrow> string
     \<Rightarrow> install_error + transaction" where
  "NewCreatedTransaction rnd1 rnd2 now kind opid pin version =
     bind_result (NewTransactionID rnd1) (\<lambda>tid.
     bind_result (NewGenerationID rnd2) (\<lambda>gid.
       let t = \<lparr>tx_schema = transactionSchema, tx_revision = 0, tx_id = tid, tx_runtime_kind = kind,
                tx_operation_id = opid, tx_generation = gid, tx_state = StateCreated, tx_step = [],
                tx_source_pin = pin, tx_expected_version = version,
                tx_staging_rel = StagingRel tid, tx_generation_rel = GenerationRel gid,
                tx_manifest_sha = [], tx_seal_sha = [], tx_before_kind = BeforeNone,
                tx_before_generation = [], tx_before_digest = [], tx_error_code = [],
                tx_created_at = now, tx_updated_at = now, tx_sealed_at = None,
                tx_published_at = None, tx_activated_at = None, tx_committed_at = None\<rparr>
       in case validateTransaction t of Some e \<Rightarrow> Inl e | None \<Rightarrow> Inr t))"

subsection \<open>The active record (active\_pointer.go) and the generation files (generation.go)\<close>

definition activeSchema :: int where "activeSchema = 1"

record active_record =
  ar_schema :: int
  ar_runtime_kind :: string
  ar_generation :: string
  ar_generation_rel :: string
  ar_manifest_sha :: string
  ar_seal_sha :: string
  ar_source_pin :: string
  ar_version :: string
  ar_transaction :: string
  ar_activated_at :: time

definition validateActiveRecord :: "active_record \<Rightarrow> install_error option" where
  "validateActiveRecord r =
     check (ar_schema r \<noteq> activeSchema) ErrInvalidRecord
     (check (TrimSpace (ar_runtime_kind r) = [] \<or> TrimSpace (ar_source_pin r) = []
             \<or> TrimSpace (ar_version r) = []) ErrInvalidRecord
     (orelse (ParseGenerationID (ar_generation r))
     (orelse (ParseTransactionID (ar_transaction r))
     (orelse (ValidateGenerationRel (ar_generation_rel r) (ar_generation r))
     (check (\<not> validSHA256Hex (ar_manifest_sha r) \<or> \<not> validSHA256Hex (ar_seal_sha r)) ErrInvalidRecord
     (check (is_zero_time (ar_activated_at r)) ErrInvalidRecord None))))))"

definition record_Observation :: "active_record \<Rightarrow> active_pointer" where
  "record_Observation r =
     (if validateActiveRecord r \<noteq> None then invalid_pointer
      else \<lparr>ap_class = ActiveValid, ap_present = True, ap_valid = True,
            ap_generation = ar_generation r, ap_seal = ar_seal_sha r, ap_manifest = ar_manifest_sha r\<rparr>)"

record manifest_entry =
  me_path :: string
  me_size :: int
  me_sha :: string

record manifest_file =
  mf_schema :: int
  mf_entries :: "manifest_entry list"

record generation_record =
  gr_schema :: int
  gr_lineage :: string
  gr_transaction :: string
  gr_generation :: string
  gr_runtime_kind :: string
  gr_source_pin :: string
  gr_expected_version :: string
  gr_generation_rel :: string
  gr_manifest_sha :: string
  gr_created_at :: time
  gr_sealed_at :: time

record candidate_record =
  cd_schema :: int
  cd_transaction :: string
  cd_generation :: string
  cd_runtime_kind :: string
  cd_created_at :: time

definition candidateSchema :: int where "candidateSchema = 1"

definition candidate_of :: "transaction \<Rightarrow> candidate_record" where
  "candidate_of t =
     \<lparr>cd_schema = candidateSchema, cd_transaction = tx_id t, cd_generation = tx_generation t,
      cd_runtime_kind = tx_runtime_kind t, cd_created_at = tx_created_at t\<rparr>"

definition candidate_well_formed :: "candidate_record \<Rightarrow> bool" where
  "candidate_well_formed r \<longleftrightarrow>
     cd_schema r = candidateSchema \<and> ParseTransactionID (cd_transaction r) = None
     \<and> ParseGenerationID (cd_generation r) = None \<and> cd_runtime_kind r \<noteq> []
     \<and> \<not> is_zero_time (cd_created_at r)"

subsection \<open>Facts about identifiers and paths\<close>

lemma parseClosedID_None:
  "parseClosedID i prefix = None \<longleftrightarrow>
     (\<exists>body. i = prefix @ body \<and> length body = idBodyLen \<and> set body \<subseteq> set idAlphabet)"
proof -
  have "HasPrefix i prefix \<longleftrightarrow> (\<exists>body. i = prefix @ body)" by (rule HasPrefix_iff)
  then show ?thesis by (auto simp: parseClosedID_def list_all_iff)
qed

lemma alphabet_plain: "c \<in> set idAlphabet \<Longrightarrow> is_lower c \<or> is_digit c"
  by (auto simp: idAlphabet_def is_lower_def is_digit_def less_eq_char_def)

lemma alphabet_no_sep: "set body \<subseteq> set idAlphabet \<Longrightarrow>
    CHR ''/'' \<notin> set body \<and> CHR ''.'' \<notin> set body \<and> CHR '':'' \<notin> set body
    \<and> CHR 0x5C \<notin> set body \<and> CHR 0x00 \<notin> set body"
  by (auto simp: idAlphabet_def)

lemma newClosedID_parses:
  assumes "newClosedID (Some bs) prefix = Inr i" and "idBodyLen \<le> length bs"
  shows "parseClosedID i prefix = None"
proof -
  have len: "length idAlphabet = 32" by (simp add: idAlphabet_def)
  then have "idAlphabet ! (b mod length idAlphabet) \<in> set idAlphabet" for b
    by (intro nth_mem) simp
  then show ?thesis
    using assms unfolding parseClosedID_None newClosedID_def by auto
qed

end
