(* ===== verification/Install_Json.thy ===== *)
theory Install_Json
  imports Install_Types Go_Time
begin

text \<open>
  The documents the install subsystem stores, as JSON values: what \<open>encoding/json\<close> makes of
  the records of \<open>Install_Types\<close> (field names from the struct tags) and how it reads them back.

  A JSON string that is the RFC 3339 form of an instant is the value \<open>JTime\<close>; every other
  string is \<open>JStr\<close>. A key names a field when both agree up to ASCII case; a null leaves a
  field alone (and clears a pointer); the last value of a repeated key counts; unknown keys are
  ignored; a value of the wrong type is an error.
\<close>

datatype json =
    JNull | JBool bool | JNum int | JReal string | JStr string | JTime time
  | JArr "json list" | JObj "(string \<times> json) list"

subsection \<open>Strings: invalid UTF-8 is replaced\<close>

definition replacement :: string where
  "replacement = map (\<lambda>n. char_of (n :: nat)) [239, 191, 189]"

fun coerce_utf8 :: "nat \<Rightarrow> string \<Rightarrow> string" where
  "coerce_utf8 0 s = []"
| "coerce_utf8 (Suc n) [] = []"
| "coerce_utf8 (Suc n) (a # s) =
     (if is_ascii a then a # coerce_utf8 n s
      else
        case (if in_range 194 223 a then
                (case s of b # t \<Rightarrow> if in_range 128 191 b then Some ([a, b], t) else None | _ \<Rightarrow> None)
              else if in_range 224 239 a then
                (case s of b # c # t \<Rightarrow>
                   if in_range (if of_char a = (224::nat) then 160 else 128)
                               (if of_char a = (237::nat) then 159 else 191) b \<and> in_range 128 191 c
                   then Some ([a, b, c], t) else None
                 | _ \<Rightarrow> None)
              else if in_range 240 244 a then
                (case s of b # c # d # t \<Rightarrow>
                   if in_range (if of_char a = (240::nat) then 144 else 128)
                               (if of_char a = (244::nat) then 143 else 191) b
                      \<and> in_range 128 191 c \<and> in_range 128 191 d
                   then Some ([a, b, c, d], t) else None
                 | _ \<Rightarrow> None)
              else None) of
          Some (rune, t) \<Rightarrow> rune @ coerce_utf8 n t
        | None \<Rightarrow> replacement @ coerce_utf8 n s)"

lemma coerce_valid: "valid_utf8_fuel n s \<Longrightarrow> coerce_utf8 n s = s"
  by (induction n s rule: valid_utf8_fuel.induct) (auto simp: Let_def split: if_splits list.splits)

definition json_string :: "string \<Rightarrow> json" where
  "json_string s = JStr (coerce_utf8 (length s) s)"

lemma json_string_valid: "ValidString s \<Longrightarrow> json_string s = JStr s"
  by (simp add: json_string_def ValidString_def coerce_valid)

text \<open>\<open>Time.MarshalJSON\<close> refuses years outside 0 to 9999; times here start at year 1.\<close>

definition time_encodable :: "time \<Rightarrow> bool" where
  "time_encodable t \<longleftrightarrow> 0 \<le> t \<and> t < 3652059 * 86400 * 1000000000"

definition json_pointer :: "time option \<Rightarrow> json" where
  "json_pointer t = (case t of None \<Rightarrow> JNull | Some x \<Rightarrow> JTime x)"

definition pointer_encodable :: "time option \<Rightarrow> bool" where
  "pointer_encodable t = (case t of None \<Rightarrow> True | Some x \<Rightarrow> time_encodable x)"

subsection \<open>Reading fields\<close>

definition fold_char :: "char \<Rightarrow> char" where
  "fold_char c = (if is_upper c then char_of (of_char c + (32 :: nat)) else c)"

definition fold_key :: "string \<Rightarrow> string" where
  "fold_key k = map fold_char k"

fun same_key :: "string \<Rightarrow> string \<Rightarrow> bool" where
  "same_key [] [] = True"
| "same_key (a # k) (b # n) = (if a = b \<or> fold_char a = fold_char b then same_key k n else False)"
| "same_key _ _ = False"

lemma same_key_fold: "same_key k n \<longleftrightarrow> fold_key k = fold_key n"
  by (induction k n rule: same_key.induct) (auto simp: fold_key_def)

text \<open>Keys of different lengths are told apart before any character is folded.\<close>

definition names_field :: "string \<Rightarrow> string \<Rightarrow> bool" where
  "names_field k n = (if length k = length n then same_key k n else False)"

lemma names_field_fold: "names_field k n \<longleftrightarrow> fold_key k = fold_key n"
  by (auto simp: names_field_def same_key_fold fold_key_def dest: map_eq_imp_length_eq)

definition field_values :: "string \<Rightarrow> (string \<times> json) list \<Rightarrow> json list" where
  "field_values name obj = map snd (filter (\<lambda>kv. names_field (fst kv) name) obj)"

definition decode_field ::
  "(json \<Rightarrow> 'a option) \<Rightarrow> 'a \<Rightarrow> string \<Rightarrow> (string \<times> json) list \<Rightarrow> 'a option" where
  "decode_field dec zero name obj =
     (let vs = filter (\<lambda>v. v \<noteq> JNull) (field_values name obj)
      in if \<exists>v \<in> set vs. dec v = None then None
         else Some (if vs = [] then zero else the (dec (last vs))))"

definition decode_pointer :: "string \<Rightarrow> (string \<times> json) list \<Rightarrow> time option option" where
  "decode_pointer name obj =
     (let vs = field_values name obj;
          dec = (\<lambda>v. case v of JNull \<Rightarrow> Some None | JTime t \<Rightarrow> Some (Some t) | _ \<Rightarrow> None)
      in if \<exists>v \<in> set vs. dec v = None then None
         else Some (if vs = [] then None else the (dec (last vs))))"

definition as_string :: "json \<Rightarrow> string option" where
  "as_string v = (case v of JStr s \<Rightarrow> Some s | JTime t \<Rightarrow> Some (formatTime t) | _ \<Rightarrow> None)"

definition as_int :: "json \<Rightarrow> int option" where
  "as_int v = (case v of JNum n \<Rightarrow> if - (2 ^ 63) \<le> n \<and> n < 2 ^ 63 then Some n else None | _ \<Rightarrow> None)"

definition as_uint64 :: "json \<Rightarrow> 64 word option" where
  "as_uint64 v = (case v of JNum n \<Rightarrow> if 0 \<le> n \<and> n < 2 ^ 64 then Some (word_of_int n) else None | _ \<Rightarrow> None)"

definition as_time :: "json \<Rightarrow> time option" where
  "as_time v = (case v of JTime t \<Rightarrow> Some t | _ \<Rightarrow> None)"

definition "str_field = decode_field as_string []"
definition "int_field = decode_field as_int 0"
definition "uint_field = decode_field as_uint64 0"
definition "time_field = decode_field as_time 0"

text \<open>\<open>json.Unmarshal\<close> into a struct: an object, or null, which changes nothing.\<close>

definition as_struct :: "json \<Rightarrow> (string \<times> json) list option" where
  "as_struct v = (case v of JObj kvs \<Rightarrow> Some kvs | JNull \<Rightarrow> Some [] | _ \<Rightarrow> None)"

subsection \<open>Enumerations as strings\<close>

definition state_text :: "txn_state \<Rightarrow> string" where
  "state_text s =
     (case s of
        StateNone \<Rightarrow> [] | StateCreated \<Rightarrow> ''CREATED'' | StateBuilding \<Rightarrow> ''BUILDING''
      | StateSealed \<Rightarrow> ''SEALED'' | StatePublished \<Rightarrow> ''PUBLISHED''
      | StateActivating \<Rightarrow> ''ACTIVATING'' | StateCommitted \<Rightarrow> ''COMMITTED''
      | StateFailed \<Rightarrow> ''FAILED'' | StateOther t \<Rightarrow> t)"

definition state_of_text :: "string \<Rightarrow> txn_state" where
  "state_of_text t =
     (if t = [] then StateNone else if t = ''CREATED'' then StateCreated
      else if t = ''BUILDING'' then StateBuilding else if t = ''SEALED'' then StateSealed
      else if t = ''PUBLISHED'' then StatePublished else if t = ''ACTIVATING'' then StateActivating
      else if t = ''COMMITTED'' then StateCommitted else if t = ''FAILED'' then StateFailed
      else StateOther t)"

definition kind_text :: "before_kind \<Rightarrow> string" where
  "kind_text k =
     (case k of BeforeNone \<Rightarrow> [] | ActiveBeforeAbsent \<Rightarrow> ''ABSENT'' | ActiveBeforeValid \<Rightarrow> ''VALID''
      | BeforeOther t \<Rightarrow> t)"

definition kind_of_text :: "string \<Rightarrow> before_kind" where
  "kind_of_text t =
     (if t = [] then BeforeNone else if t = ''ABSENT'' then ActiveBeforeAbsent
      else if t = ''VALID'' then ActiveBeforeValid else BeforeOther t)"

lemma state_text_valid: "validState s \<Longrightarrow> state_of_text (state_text s) = s"
  by (cases s) (simp_all add: validState_def state_text_def state_of_text_def)

lemma state_text_utf8: "validState s \<Longrightarrow> ValidString (state_text s)"
  by (cases s) (simp_all add: validState_def state_text_def, (code_simp)+)

subsection \<open>The transaction record\<close>

definition transaction_json :: "transaction \<Rightarrow> json" where
  "transaction_json r =
     JObj
      [(''schema'', JNum (tx_schema r)),
       (''revision'', JNum (uint (tx_revision r))),
       (''id'', json_string (tx_id r)),
       (''runtimeKind'', json_string (tx_runtime_kind r)),
       (''operationId'', json_string (tx_operation_id r)),
       (''generationId'', json_string (tx_generation r)),
       (''state'', json_string (state_text (tx_state r))),
       (''step'', json_string (tx_step r)),
       (''sourcePin'', json_string (tx_source_pin r)),
       (''expectedVersion'', json_string (tx_expected_version r)),
       (''stagingRelativePath'', json_string (tx_staging_rel r)),
       (''generationRelativePath'', json_string (tx_generation_rel r)),
       (''manifestSha256'', json_string (tx_manifest_sha r)),
       (''sealSha256'', json_string (tx_seal_sha r)),
       (''activeBeforeKind'', json_string (kind_text (tx_before_kind r))),
       (''activeBeforeGeneration'', json_string (tx_before_generation r)),
       (''activeBeforeDigest'', json_string (tx_before_digest r)),
       (''errorCode'', json_string (tx_error_code r)),
       (''createdAt'', JTime (tx_created_at r)),
       (''updatedAt'', JTime (tx_updated_at r)),
       (''sealedAt'', json_pointer (tx_sealed_at r)),
       (''publishedAt'', json_pointer (tx_published_at r)),
       (''activatedAt'', json_pointer (tx_activated_at r)),
       (''committedAt'', json_pointer (tx_committed_at r))]"

definition marshal_transaction :: "transaction \<Rightarrow> install_error + json" where
  "marshal_transaction r =
     (if time_encodable (tx_created_at r) \<and> time_encodable (tx_updated_at r) \<and> pointer_encodable (tx_sealed_at r) \<and> pointer_encodable (tx_published_at r) \<and> pointer_encodable (tx_activated_at r) \<and> pointer_encodable (tx_committed_at r)
      then Inr (transaction_json r) else Inl ErrOS)"

definition unmarshal_transaction_fields :: "(string \<times> json) list \<Rightarrow> transaction option" where
  "unmarshal_transaction_fields o' =
     Option.bind (int_field ''schema'' o') (\<lambda>tx_schema'.
     Option.bind (uint_field ''revision'' o') (\<lambda>tx_revision'.
     Option.bind (str_field ''id'' o') (\<lambda>tx_id'.
     Option.bind (str_field ''runtimeKind'' o') (\<lambda>tx_runtime_kind'.
     Option.bind (str_field ''operationId'' o') (\<lambda>tx_operation_id'.
     Option.bind (str_field ''generationId'' o') (\<lambda>tx_generation'.
     Option.bind (map_option state_of_text (str_field ''state'' o')) (\<lambda>tx_state'.
     Option.bind (str_field ''step'' o') (\<lambda>tx_step'.
     Option.bind (str_field ''sourcePin'' o') (\<lambda>tx_source_pin'.
     Option.bind (str_field ''expectedVersion'' o') (\<lambda>tx_expected_version'.
     Option.bind (str_field ''stagingRelativePath'' o') (\<lambda>tx_staging_rel'.
     Option.bind (str_field ''generationRelativePath'' o') (\<lambda>tx_generation_rel'.
     Option.bind (str_field ''manifestSha256'' o') (\<lambda>tx_manifest_sha'.
     Option.bind (str_field ''sealSha256'' o') (\<lambda>tx_seal_sha'.
     Option.bind (map_option kind_of_text (str_field ''activeBeforeKind'' o')) (\<lambda>tx_before_kind'.
     Option.bind (str_field ''activeBeforeGeneration'' o') (\<lambda>tx_before_generation'.
     Option.bind (str_field ''activeBeforeDigest'' o') (\<lambda>tx_before_digest'.
     Option.bind (str_field ''errorCode'' o') (\<lambda>tx_error_code'.
     Option.bind (time_field ''createdAt'' o') (\<lambda>tx_created_at'.
     Option.bind (time_field ''updatedAt'' o') (\<lambda>tx_updated_at'.
     Option.bind (decode_pointer ''sealedAt'' o') (\<lambda>tx_sealed_at'.
     Option.bind (decode_pointer ''publishedAt'' o') (\<lambda>tx_published_at'.
     Option.bind (decode_pointer ''activatedAt'' o') (\<lambda>tx_activated_at'.
     Option.bind (decode_pointer ''committedAt'' o') (\<lambda>tx_committed_at'.
       Some \<lparr>tx_schema = tx_schema',
         tx_revision = tx_revision',
         tx_id = tx_id',
         tx_runtime_kind = tx_runtime_kind',
         tx_operation_id = tx_operation_id',
         tx_generation = tx_generation',
         tx_state = tx_state',
         tx_step = tx_step',
         tx_source_pin = tx_source_pin',
         tx_expected_version = tx_expected_version',
         tx_staging_rel = tx_staging_rel',
         tx_generation_rel = tx_generation_rel',
         tx_manifest_sha = tx_manifest_sha',
         tx_seal_sha = tx_seal_sha',
         tx_before_kind = tx_before_kind',
         tx_before_generation = tx_before_generation',
         tx_before_digest = tx_before_digest',
         tx_error_code = tx_error_code',
         tx_created_at = tx_created_at',
         tx_updated_at = tx_updated_at',
         tx_sealed_at = tx_sealed_at',
         tx_published_at = tx_published_at',
         tx_activated_at = tx_activated_at',
         tx_committed_at = tx_committed_at'\<rparr>))))))))))))))))))))))))"

definition unmarshal_transaction :: "json \<Rightarrow> transaction option" where
  "unmarshal_transaction v = Option.bind (as_struct v) unmarshal_transaction_fields"

subsection \<open>The active record\<close>

definition active_json :: "active_record \<Rightarrow> json" where
  "active_json r =
     JObj
      [(''schema'', JNum (ar_schema r)),
       (''runtimeKind'', json_string (ar_runtime_kind r)),
       (''generationId'', json_string (ar_generation r)),
       (''generationRelativePath'', json_string (ar_generation_rel r)),
       (''manifestSha256'', json_string (ar_manifest_sha r)),
       (''sealSha256'', json_string (ar_seal_sha r)),
       (''sourcePin'', json_string (ar_source_pin r)),
       (''version'', json_string (ar_version r)),
       (''transactionId'', json_string (ar_transaction r)),
       (''activatedAt'', JTime (ar_activated_at r))]"

definition marshal_active :: "active_record \<Rightarrow> install_error + json" where
  "marshal_active r =
     (if time_encodable (ar_activated_at r)
      then Inr (active_json r) else Inl ErrOS)"

definition unmarshal_active_fields :: "(string \<times> json) list \<Rightarrow> active_record option" where
  "unmarshal_active_fields o' =
     Option.bind (int_field ''schema'' o') (\<lambda>ar_schema'.
     Option.bind (str_field ''runtimeKind'' o') (\<lambda>ar_runtime_kind'.
     Option.bind (str_field ''generationId'' o') (\<lambda>ar_generation'.
     Option.bind (str_field ''generationRelativePath'' o') (\<lambda>ar_generation_rel'.
     Option.bind (str_field ''manifestSha256'' o') (\<lambda>ar_manifest_sha'.
     Option.bind (str_field ''sealSha256'' o') (\<lambda>ar_seal_sha'.
     Option.bind (str_field ''sourcePin'' o') (\<lambda>ar_source_pin'.
     Option.bind (str_field ''version'' o') (\<lambda>ar_version'.
     Option.bind (str_field ''transactionId'' o') (\<lambda>ar_transaction'.
     Option.bind (time_field ''activatedAt'' o') (\<lambda>ar_activated_at'.
       Some \<lparr>ar_schema = ar_schema',
         ar_runtime_kind = ar_runtime_kind',
         ar_generation = ar_generation',
         ar_generation_rel = ar_generation_rel',
         ar_manifest_sha = ar_manifest_sha',
         ar_seal_sha = ar_seal_sha',
         ar_source_pin = ar_source_pin',
         ar_version = ar_version',
         ar_transaction = ar_transaction',
         ar_activated_at = ar_activated_at'\<rparr>))))))))))"

definition unmarshal_active :: "json \<Rightarrow> active_record option" where
  "unmarshal_active v = Option.bind (as_struct v) unmarshal_active_fields"

subsection \<open>The candidate record\<close>

definition candidate_json :: "candidate_record \<Rightarrow> json" where
  "candidate_json r =
     JObj
      [(''schema'', JNum (cd_schema r)),
       (''transactionId'', json_string (cd_transaction r)),
       (''generationId'', json_string (cd_generation r)),
       (''runtimeKind'', json_string (cd_runtime_kind r)),
       (''createdAt'', JTime (cd_created_at r))]"

definition marshal_candidate :: "candidate_record \<Rightarrow> install_error + json" where
  "marshal_candidate r =
     (if time_encodable (cd_created_at r)
      then Inr (candidate_json r) else Inl ErrOS)"

definition unmarshal_candidate_fields :: "(string \<times> json) list \<Rightarrow> candidate_record option" where
  "unmarshal_candidate_fields o' =
     Option.bind (int_field ''schema'' o') (\<lambda>cd_schema'.
     Option.bind (str_field ''transactionId'' o') (\<lambda>cd_transaction'.
     Option.bind (str_field ''generationId'' o') (\<lambda>cd_generation'.
     Option.bind (str_field ''runtimeKind'' o') (\<lambda>cd_runtime_kind'.
     Option.bind (time_field ''createdAt'' o') (\<lambda>cd_created_at'.
       Some \<lparr>cd_schema = cd_schema',
         cd_transaction = cd_transaction',
         cd_generation = cd_generation',
         cd_runtime_kind = cd_runtime_kind',
         cd_created_at = cd_created_at'\<rparr>)))))"

definition unmarshal_candidate :: "json \<Rightarrow> candidate_record option" where
  "unmarshal_candidate v = Option.bind (as_struct v) unmarshal_candidate_fields"

subsection \<open>The generation record\<close>

definition generation_json :: "generation_record \<Rightarrow> json" where
  "generation_json r =
     JObj
      [(''schema'', JNum (gr_schema r)),
       (''lineageId'', json_string (gr_lineage r)),
       (''transactionId'', json_string (gr_transaction r)),
       (''generationId'', json_string (gr_generation r)),
       (''runtimeKind'', json_string (gr_runtime_kind r)),
       (''sourcePin'', json_string (gr_source_pin r)),
       (''expectedVersion'', json_string (gr_expected_version r)),
       (''generationRelativePath'', json_string (gr_generation_rel r)),
       (''manifestSha256'', json_string (gr_manifest_sha r)),
       (''createdAt'', JTime (gr_created_at r)),
       (''sealedAt'', JTime (gr_sealed_at r))]"

definition marshal_generation :: "generation_record \<Rightarrow> install_error + json" where
  "marshal_generation r =
     (if time_encodable (gr_created_at r) \<and> time_encodable (gr_sealed_at r)
      then Inr (generation_json r) else Inl ErrOS)"

definition unmarshal_generation_fields :: "(string \<times> json) list \<Rightarrow> generation_record option" where
  "unmarshal_generation_fields o' =
     Option.bind (int_field ''schema'' o') (\<lambda>gr_schema'.
     Option.bind (str_field ''lineageId'' o') (\<lambda>gr_lineage'.
     Option.bind (str_field ''transactionId'' o') (\<lambda>gr_transaction'.
     Option.bind (str_field ''generationId'' o') (\<lambda>gr_generation'.
     Option.bind (str_field ''runtimeKind'' o') (\<lambda>gr_runtime_kind'.
     Option.bind (str_field ''sourcePin'' o') (\<lambda>gr_source_pin'.
     Option.bind (str_field ''expectedVersion'' o') (\<lambda>gr_expected_version'.
     Option.bind (str_field ''generationRelativePath'' o') (\<lambda>gr_generation_rel'.
     Option.bind (str_field ''manifestSha256'' o') (\<lambda>gr_manifest_sha'.
     Option.bind (time_field ''createdAt'' o') (\<lambda>gr_created_at'.
     Option.bind (time_field ''sealedAt'' o') (\<lambda>gr_sealed_at'.
       Some \<lparr>gr_schema = gr_schema',
         gr_lineage = gr_lineage',
         gr_transaction = gr_transaction',
         gr_generation = gr_generation',
         gr_runtime_kind = gr_runtime_kind',
         gr_source_pin = gr_source_pin',
         gr_expected_version = gr_expected_version',
         gr_generation_rel = gr_generation_rel',
         gr_manifest_sha = gr_manifest_sha',
         gr_created_at = gr_created_at',
         gr_sealed_at = gr_sealed_at'\<rparr>)))))))))))"

definition unmarshal_generation :: "json \<Rightarrow> generation_record option" where
  "unmarshal_generation v = Option.bind (as_struct v) unmarshal_generation_fields"

subsection \<open>The manifest\<close>

definition entry_json :: "manifest_entry \<Rightarrow> json" where
  "entry_json r =
     JObj
      [(''path'', json_string (me_path r)),
       (''size'', JNum (me_size r)),
       (''sha256'', json_string (me_sha r))]"

definition unmarshal_entry_fields :: "(string \<times> json) list \<Rightarrow> manifest_entry option" where
  "unmarshal_entry_fields o' =
     Option.bind (str_field ''path'' o') (\<lambda>me_path'.
     Option.bind (int_field ''size'' o') (\<lambda>me_size'.
     Option.bind (str_field ''sha256'' o') (\<lambda>me_sha'.
       Some \<lparr>me_path = me_path',
         me_size = me_size',
         me_sha = me_sha'\<rparr>)))"

definition unmarshal_entry :: "json \<Rightarrow> manifest_entry option" where
  "unmarshal_entry v = Option.bind (as_struct v) unmarshal_entry_fields"


definition manifest_json :: "manifest_file \<Rightarrow> json" where
  "manifest_json m =
     JObj
      [(''schema'', JNum (mf_schema m)),
       (''entries'', if mf_entries m = [] then JNull else JArr (map entry_json (mf_entries m)))]"

fun option_list :: "'a option list \<Rightarrow> 'a list option" where
  "option_list [] = Some []"
| "option_list (None # xs) = None"
| "option_list (Some x # xs) = map_option (\<lambda>ys. x # ys) (option_list xs)"

definition as_entries :: "json \<Rightarrow> manifest_entry list option" where
  "as_entries v = (case v of JArr xs \<Rightarrow> option_list (map unmarshal_entry xs) | _ \<Rightarrow> None)"

definition unmarshal_manifest :: "json \<Rightarrow> manifest_file option" where
  "unmarshal_manifest v =
     Option.bind (as_struct v) (\<lambda>o'.
     Option.bind (int_field ''schema'' o') (\<lambda>s.
     Option.bind (decode_field as_entries [] ''entries'' o') (\<lambda>es.
       Some \<lparr>mf_schema = s, mf_entries = es\<rparr>)))"


subsection \<open>Round trips\<close>

lemma decode_field_single:
  assumes "field_values name obj = [v]" and "dec v = Some x" and "v \<noteq> JNull"
  shows "decode_field dec zero name obj = Some x"
  using assms by (simp add: decode_field_def)

lemma fold_keys:
  "fold_key ''schema'' = ''schema''"
  "fold_key ''revision'' = ''revision''"
  "fold_key ''id'' = ''id''"
  "fold_key ''runtimeKind'' = ''runtimekind''"
  "fold_key ''operationId'' = ''operationid''"
  "fold_key ''generationId'' = ''generationid''"
  "fold_key ''state'' = ''state''"
  "fold_key ''step'' = ''step''"
  "fold_key ''sourcePin'' = ''sourcepin''"
  "fold_key ''expectedVersion'' = ''expectedversion''"
  "fold_key ''stagingRelativePath'' = ''stagingrelativepath''"
  "fold_key ''generationRelativePath'' = ''generationrelativepath''"
  "fold_key ''manifestSha256'' = ''manifestsha256''"
  "fold_key ''sealSha256'' = ''sealsha256''"
  "fold_key ''activeBeforeKind'' = ''activebeforekind''"
  "fold_key ''activeBeforeGeneration'' = ''activebeforegeneration''"
  "fold_key ''activeBeforeDigest'' = ''activebeforedigest''"
  "fold_key ''errorCode'' = ''errorcode''"
  "fold_key ''createdAt'' = ''createdat''"
  "fold_key ''updatedAt'' = ''updatedat''"
  "fold_key ''sealedAt'' = ''sealedat''"
  "fold_key ''publishedAt'' = ''publishedat''"
  "fold_key ''activatedAt'' = ''activatedat''"
  "fold_key ''committedAt'' = ''committedat''"
  "fold_key ''version'' = ''version''"
  "fold_key ''transactionId'' = ''transactionid''"
  "fold_key ''lineageId'' = ''lineageid''"
  "fold_key ''path'' = ''path''"
  "fold_key ''size'' = ''size''"
  "fold_key ''sha256'' = ''sha256''"
  "fold_key ''entries'' = ''entries''"
  by code_simp+

lemma as_int_JNum: "- (2 ^ 63) \<le> n \<Longrightarrow> n < 2 ^ 63 \<Longrightarrow> as_int (JNum n) = Some n"
  by (simp add: as_int_def)

lemma as_uint64_JNum: "as_uint64 (JNum (uint w)) = Some w"
  using uint_bounded [of w] by (simp add: as_uint64_def)

lemma as_simps [simp]:
  "as_string (JStr s) = Some s" "as_time (JTime t) = Some t"
  by (simp_all add: as_string_def as_time_def)

lemma field_values_simps:
  "field_values name [] = []"
  "field_values name ((k, v) # obj) =
     (if fold_key k = fold_key name then v # field_values name obj else field_values name obj)"
  by (simp_all add: field_values_def names_field_fold)

definition transaction_text :: "transaction \<Rightarrow> bool" where
  "transaction_text t \<longleftrightarrow>
     - (2 ^ 63) \<le> tx_schema t \<and> tx_schema t < 2 ^ 63 \<and> validState (tx_state t)
     \<and> kind_of_text (kind_text (tx_before_kind t)) = tx_before_kind t
     \<and> list_all ValidString
         [tx_id t, tx_runtime_kind t, tx_operation_id t, tx_generation t, tx_step t, tx_source_pin t,
          tx_expected_version t, tx_staging_rel t, tx_generation_rel t, tx_manifest_sha t,
          tx_seal_sha t, kind_text (tx_before_kind t), tx_before_generation t, tx_before_digest t,
          tx_error_code t]"

lemma decode_pointer_single:
  "field_values name obj = [json_pointer t] \<Longrightarrow> decode_pointer name obj = Some t"
  by (simp add: decode_pointer_def json_pointer_def split: option.splits)

lemma transaction_roundtrip:
  assumes "transaction_text t"
  shows "unmarshal_transaction (transaction_json t) = Some t"
proof -
  note fields = assms [unfolded transaction_text_def]
  from fields have st: "json_string (state_text (tx_state t)) = JStr (state_text (tx_state t))"
    by (simp add: state_text_utf8 json_string_valid)
  show ?thesis
    using fields
    by (simp add: unmarshal_transaction_def transaction_json_def as_struct_def
        unmarshal_transaction_fields_def str_field_def int_field_def uint_field_def time_field_def
        decode_field_single decode_pointer_single field_values_simps fold_keys json_string_valid st
        as_int_JNum as_uint64_JNum state_text_valid)
qed

end
