(* ===== verification/Install_Fs.thy ===== *)
theory Install_Fs
  imports Install_Json
begin

text \<open>
  The file system under the managed root, the checks of install/paths.go that touch it, and the
  atomic record write of install/atomic.go (with atomic\_windows.go and atomic\_other.go).

  A path is the list of its components. A file's bytes are either a JSON document (in the
  encoder's own layout, with the final newline) or bytes that are not JSON. A link stands for a
  symbolic link or a reparse point: it has no children here, and reading through it gives the
  content of its target if that is a file.
\<close>

type_synonym path = "string list"

datatype file_bytes = Doc json | Bytes string

datatype node = Dir | File file_bytes | Link "file_bytes option"

type_synonym fs = "(path \<times> node) list"

definition is_under :: "path \<Rightarrow> path \<Rightarrow> bool" where
  "is_under p q \<longleftrightarrow> take (length p) q = p"

definition beyond_file :: "fs \<Rightarrow> path \<Rightarrow> bool" where
  "beyond_file fs p \<longleftrightarrow>
     list_ex (\<lambda>i. case map_of fs (take i p) of Some Dir \<Rightarrow> False | None \<Rightarrow> False | _ \<Rightarrow> True) [1..<length p]"

definition lstat :: "fs \<Rightarrow> path \<Rightarrow> install_error + node" where
  "lstat fs p =
     (if p = [] then Inr Dir
      else case map_of fs p of
             Some n \<Rightarrow> Inr n
           | None \<Rightarrow> Inl (if beyond_file fs p then ErrOS else ErrNotExist))"

definition children :: "fs \<Rightarrow> path \<Rightarrow> string list" where
  "children fs p = sort (map last (filter (\<lambda>q. q \<noteq> [] \<and> butlast q = p) (map fst fs)))"

definition read_dir :: "fs \<Rightarrow> path \<Rightarrow> install_error + string list" where
  "read_dir fs p =
     (case lstat fs p of Inl e \<Rightarrow> Inl e | Inr Dir \<Rightarrow> Inr (children fs p) | Inr _ \<Rightarrow> Inl ErrOS)"

definition read_file :: "fs \<Rightarrow> path \<Rightarrow> install_error + file_bytes" where
  "read_file fs p =
     (case lstat fs p of
        Inl e \<Rightarrow> Inl e
      | Inr (File c) \<Rightarrow> Inr c
      | Inr (Link (Some c)) \<Rightarrow> Inr c
      | Inr _ \<Rightarrow> Inl ErrOS)"

definition is_dir :: "fs \<Rightarrow> path \<Rightarrow> bool" where
  "is_dir fs p \<longleftrightarrow> lstat fs p = Inr Dir"

definition put :: "path \<Rightarrow> node \<Rightarrow> fs \<Rightarrow> fs" where
  "put p n fs = AList.update p n fs"

definition erase :: "path \<Rightarrow> fs \<Rightarrow> fs" where
  "erase p fs = filter (\<lambda>(q, n). \<not> is_under p q) fs"

text \<open>\<open>os.Remove\<close>: a file, a link or an empty directory.\<close>

definition remove :: "fs \<Rightarrow> path \<Rightarrow> fs \<times> install_error option" where
  "remove fs p =
     (case lstat fs p of
        Inl e \<Rightarrow> (fs, Some e)
      | Inr n \<Rightarrow>
          if p = [] \<or> n = Dir \<and> children fs p \<noteq> [] then (fs, Some ErrOS)
          else (erase p fs, None))"

text \<open>\<open>os.RemoveAll\<close>: a missing path is no error.\<close>

definition remove_all :: "fs \<Rightarrow> path \<Rightarrow> fs \<times> install_error option" where
  "remove_all fs p = (if p = [] then (fs, Some ErrOS) else (erase p fs, None))"

definition mkdir :: "fs \<Rightarrow> path \<Rightarrow> fs \<times> install_error option" where
  "mkdir fs p =
     (case lstat fs p of
        Inr _ \<Rightarrow> (fs, Some ErrOS)
      | Inl ErrNotExist \<Rightarrow>
          if is_dir fs (butlast p) then (put p Dir fs, None) else (fs, Some ErrNotExist)
      | Inl e \<Rightarrow> (fs, Some e))"

fun mkdir_parts :: "fs \<Rightarrow> path \<Rightarrow> string list \<Rightarrow> fs \<times> install_error option" where
  "mkdir_parts fs base [] = (fs, None)"
| "mkdir_parts fs base (c # cs) =
     (case lstat fs (base @ [c]) of
        Inr Dir \<Rightarrow> mkdir_parts fs (base @ [c]) cs
      | Inr _ \<Rightarrow> (fs, Some ErrOS)
      | Inl ErrNotExist \<Rightarrow> mkdir_parts (put (base @ [c]) Dir fs) (base @ [c]) cs
      | Inl e \<Rightarrow> (fs, Some e))"

definition mkdir_all :: "fs \<Rightarrow> path \<Rightarrow> fs \<times> install_error option" where
  "mkdir_all fs p = mkdir_parts fs [] p"

text \<open>\<open>os.Rename\<close>: a directory in the way is an error, anything else is replaced by a file.\<close>

definition move :: "path \<Rightarrow> path \<Rightarrow> fs \<Rightarrow> fs" where
  "move src dst fs =
     map (\<lambda>(q, n). (dst @ drop (length src) q, n)) (filter (\<lambda>(q, n). is_under src q) fs)
     @ filter (\<lambda>(q, n). \<not> is_under src q \<and> \<not> is_under dst q) fs"

definition rename :: "fs \<Rightarrow> path \<Rightarrow> path \<Rightarrow> fs \<times> install_error option" where
  "rename fs src dst =
     (case lstat fs src of
        Inl e \<Rightarrow> (fs, Some e)
      | Inr n \<Rightarrow>
          if src = [] \<or> is_under src dst \<or> is_under dst src \<or> \<not> is_dir fs (butlast dst)
          then (fs, Some ErrOS)
          else case lstat fs dst of
                 Inr m \<Rightarrow> if m = Dir \<or> n = Dir then (fs, Some ErrOS) else (move src dst fs, None)
               | Inl ErrNotExist \<Rightarrow> (move src dst fs, None)
               | Inl e \<Rightarrow> (fs, Some e))"

subsection \<open>Links on the way (paths.go, rejectReparse)\<close>

fun reject_reparse_up :: "nat \<Rightarrow> fs \<Rightarrow> path \<Rightarrow> install_error option" where
  "reject_reparse_up 0 fs p = None"
| "reject_reparse_up (Suc n) fs p =
     (case lstat fs p of
        Inl ErrNotExist \<Rightarrow> if p = [] then None else reject_reparse_up n fs (butlast p)
      | Inl e \<Rightarrow> Some e
      | Inr (Link _) \<Rightarrow> Some ErrReparsePoint
      | Inr _ \<Rightarrow> if p = [] then None else reject_reparse_up n fs (butlast p))"

definition rejectReparse :: "fs \<Rightarrow> path \<Rightarrow> install_error option" where
  "rejectReparse fs p = reject_reparse_up 16 fs p"

subsection \<open>The atomic record write (atomic.go)\<close>

datatype atomic_step =
    stepBeforeTempCreate | stepAfterTempCreate | stepAfterWrite | stepAfterFileSync | stepAfterClose
  | stepAfterPreReplaceDirSync | stepAfterReplace | stepAfterFinalDirSync | stepAfterReadback

text \<open>
  The injectable operations: a hook per step, a failure of each system call, the random names,
  what a failed write leaves in the temporary file, and what the read-back returns.
\<close>

record atomic_ops =
  ao_windows :: bool
  ao_hook :: "atomic_step \<Rightarrow> install_error option"
  ao_names :: "string option list"
  ao_create :: "install_error option"
  ao_write :: "install_error option"
  ao_partial :: file_bytes
  ao_sync :: "install_error option"
  ao_close :: "install_error option"
  ao_pre_sync :: "install_error option"
  ao_replace :: "install_error option"
  ao_final_sync :: "install_error option"
  ao_read :: "file_bytes \<Rightarrow> install_error + file_bytes"

definition atom_prefix :: string where "atom_prefix = ''.yorva-atom-''"

fun uniqueSibling :: "fs \<Rightarrow> path \<Rightarrow> string option list \<Rightarrow> install_error + path" where
  "uniqueSibling fs dir [] = Inl ErrOS"
| "uniqueSibling fs dir (None # ns) = Inl ErrOS"
| "uniqueSibling fs dir (Some h # ns) =
     (if lstat fs (dir @ [atom_prefix @ h]) = Inl ErrNotExist then Inr (dir @ [atom_prefix @ h])
      else uniqueSibling fs dir ns)"

definition create_exclusive :: "atomic_ops \<Rightarrow> fs \<Rightarrow> path \<Rightarrow> install_error + fs" where
  "create_exclusive ops fs tmp =
     (case ao_create ops of
        Some e \<Rightarrow> Inl e
      | None \<Rightarrow>
          (case lstat fs tmp of
             Inr _ \<Rightarrow> Inl ErrOS
           | Inl _ \<Rightarrow> if is_dir fs (butlast tmp) then Inr (put tmp (File (Bytes [])) fs) else Inl ErrNotExist))"

definition regular_file :: "fs \<Rightarrow> path \<Rightarrow> bool" where
  "regular_file fs p = (case lstat fs p of Inr (File _) \<Rightarrow> True | _ \<Rightarrow> False)"

definition fill_temp :: "atomic_ops \<Rightarrow> fs \<Rightarrow> path \<Rightarrow> file_bytes \<Rightarrow> fs \<times> install_error option" where
  "fill_temp ops fs tmp payload =
     (case ao_hook ops stepAfterTempCreate of
        Some e \<Rightarrow> (fs, Some e)
      | None \<Rightarrow>
          (case ao_write ops of
             Some e \<Rightarrow> (put tmp (File (ao_partial ops)) fs, Some e)
           | None \<Rightarrow>
               (let fs' = put tmp (File payload) fs in
                (fs',
                 orelse (ao_hook ops stepAfterWrite)
                 (orelse (ao_sync ops)
                 (orelse (ao_hook ops stepAfterFileSync)
                 (orelse (ao_close ops)
                 (orelse (ao_hook ops stepAfterClose)
                 (check (\<not> regular_file fs' tmp) ErrOS
                 (orelse (rejectReparse fs' tmp)
                 (orelse (ao_pre_sync ops) (ao_hook ops stepAfterPreReplaceDirSync)))))))))))) "

text \<open>
  On Windows one system call replaces the destination; elsewhere the destination is removed
  first (atomic\_other.go). \<open>ao_replace\<close> is the failure of the move itself.
\<close>

definition replaceFileAtomic :: "atomic_ops \<Rightarrow> fs \<Rightarrow> path \<Rightarrow> path \<Rightarrow> fs \<times> install_error option" where
  "replaceFileAtomic ops fs tmp dest =
     (let (fs1, e1) = (if ao_windows ops then (fs, None) else remove fs dest) in
      if e1 \<noteq> None \<and> e1 \<noteq> Some ErrNotExist then (fs1, e1)
      else case ao_replace ops of Some e \<Rightarrow> (fs1, Some e) | None \<Rightarrow> rename fs1 tmp dest)"

definition read_back :: "atomic_ops \<Rightarrow> fs \<Rightarrow> path \<Rightarrow> file_bytes \<Rightarrow> install_error option" where
  "read_back ops fs dest payload =
     orelse (ao_hook ops stepAfterReplace)
     (orelse (ao_hook ops stepAfterFinalDirSync)
       (case bind_result (read_file fs dest) (ao_read ops) of
          Inl e \<Rightarrow> (case ao_final_sync ops of Some s \<Rightarrow> Some s | None \<Rightarrow> Some e)
        | Inr got \<Rightarrow> if got \<noteq> payload then Some ErrAtomicReadback else ao_hook ops stepAfterReadback))"

definition writeAtomicRecord ::
  "atomic_ops \<Rightarrow> fs \<Rightarrow> path \<Rightarrow> file_bytes \<Rightarrow> fs \<times> install_error option" where
  "writeAtomicRecord ops fs dest payload =
     (case orelse (rejectReparse fs (butlast dest)) (ao_hook ops stepBeforeTempCreate) of
        Some e \<Rightarrow> (fs, Some e)
      | None \<Rightarrow>
     (case uniqueSibling fs (butlast dest) (take 8 (ao_names ops)) of
        Inl e \<Rightarrow> (fs, Some e)
      | Inr tmp \<Rightarrow>
     (case create_exclusive ops fs tmp of
        Inl e \<Rightarrow> (fs, Some e)
      | Inr fs1 \<Rightarrow>
     (case fill_temp ops fs1 tmp payload of
        (fs2, Some e) \<Rightarrow> (fst (remove fs2 tmp), Some e)
      | (fs2, None) \<Rightarrow>
     (case replaceFileAtomic ops fs2 tmp dest of
        (fs3, Some e) \<Rightarrow> (fst (remove fs3 tmp), Some e)
      | (fs3, None) \<Rightarrow> (fs3, read_back ops fs3 dest payload))))))"


subsection \<open>Well-formed trees\<close>

definition fs_ok :: "fs \<Rightarrow> bool" where
  "fs_ok fs \<longleftrightarrow>
     distinct (map fst fs) \<and> [] \<notin> set (map fst fs)
     \<and> list_all (\<lambda>p. is_dir fs (butlast p)) (map fst fs)"

lemma is_under_refl [simp]: "is_under p p"
  by (simp add: is_under_def)

lemma is_under_append [simp]: "is_under p (p @ q)"
  by (simp add: is_under_def)

lemma is_under_iff: "is_under p q \<longleftrightarrow> (\<exists>r. q = p @ r)"
  by (metis append_take_drop_id is_under_append is_under_def)

lemma is_under_Nil [simp]: "is_under [] q" "is_under p [] \<longleftrightarrow> p = []"
  by (auto simp: is_under_def)

lemma is_under_length: "is_under p q \<Longrightarrow> length p \<le> length q"
  by (auto simp: is_under_iff)

lemma is_under_butlast: "is_under p (butlast q) \<Longrightarrow> is_under p q"
proof (cases q rule: rev_cases)
  case (snoc r c)
  moreover assume "is_under p (butlast q)"
  ultimately show ?thesis by (auto simp: is_under_iff)
qed simp

lemma is_under_cases: "is_under p q \<longleftrightarrow> q = p \<or> (q \<noteq> [] \<and> is_under p (butlast q))"
proof (cases q rule: rev_cases)
  case (snoc r c)
  show ?thesis
  proof
    assume "is_under p q"
    then obtain s where s: "q = p @ s" by (auto simp: is_under_iff)
    show "q = p \<or> (q \<noteq> [] \<and> is_under p (butlast q))"
    proof (cases s rule: rev_cases)
      case (snoc t d)
      with s have "butlast q = p @ t" "q \<noteq> []" by (simp_all add: butlast_append)
      then show ?thesis by (simp add: is_under_iff)
    qed (use s in simp)
  next
    assume "q = p \<or> (q \<noteq> [] \<and> is_under p (butlast q))"
    then show "is_under p q" using is_under_butlast by auto
  qed
qed auto

lemma map_of_put: "map_of (put p n fs) = (map_of fs)(p \<mapsto> n)"
  by (simp add: put_def map_of_AList_update)

lemma map_of_erase: "map_of (erase p fs) q = (if is_under p q then None else map_of fs q)"
  unfolding erase_def map_of_filter_key [of "\<lambda>q. \<not> is_under p q"] by simp

lemma distinct_put: "distinct (map fst fs) \<Longrightarrow> distinct (map fst (put p n fs))"
  unfolding put_def by (rule distinct_update)

lemma keys_erase: "map fst (erase p fs) = filter (\<lambda>q. \<not> is_under p q) (map fst fs)"
  by (simp add: erase_def filter_map comp_def split_def)

lemma key_iff: "p \<in> set (map fst fs) \<longleftrightarrow> map_of fs p \<noteq> None"
  by (simp add: map_of_eq_None_iff)

lemma is_dir_iff: "is_dir fs p \<longleftrightarrow> p = [] \<or> map_of fs p = Some Dir"
  by (auto simp: is_dir_def lstat_def split: option.splits)

lemma fs_ok_iff:
  "fs_ok fs \<longleftrightarrow> distinct (map fst fs) \<and> map_of fs [] = None
     \<and> (\<forall>p n. map_of fs p = Some n \<longrightarrow> is_dir fs (butlast p))"
proof -
  have "[] \<notin> set (map fst fs) \<longleftrightarrow> map_of fs [] = None" by (simp only: key_iff) simp
  moreover have "list_all (\<lambda>p. is_dir fs (butlast p)) (map fst fs)
      \<longleftrightarrow> (\<forall>p n. map_of fs p = Some n \<longrightarrow> is_dir fs (butlast p))"
    unfolding list_all_iff Ball_def key_iff by auto
  ultimately show ?thesis unfolding fs_ok_def by simp
qed

lemma lstat_Inr: "lstat fs p = Inr n \<longleftrightarrow> (p = [] \<and> n = Dir) \<or> (p \<noteq> [] \<and> map_of fs p = Some n)"
  by (auto simp: lstat_def split: option.splits)

lemma lstat_Inl: "lstat fs p = Inl e \<Longrightarrow> p \<noteq> [] \<and> map_of fs p = None"
  by (auto simp: lstat_def split: option.splits if_splits)

lemma absent_below:
  assumes "fs_ok fs" and "p \<noteq> []" and "map_of fs p \<noteq> Some Dir"
  shows "is_under p q \<Longrightarrow> q \<noteq> p \<Longrightarrow> map_of fs q = None"
proof (induction q rule: length_induct)
  case (1 q)
  show ?case
  proof (rule ccontr)
    assume "map_of fs q \<noteq> None"
    with assms(1) have dir: "is_dir fs (butlast q)" by (auto simp: fs_ok_iff)
    from 1 have q: "q \<noteq> []" "is_under p (butlast q)" using is_under_cases by blast+
    show False
    proof (cases "butlast q = p")
      case True
      with dir assms show False by (simp add: is_dir_iff)
    next
      case False
      with q 1 have "map_of fs (butlast q) = None" by simp
      with dir have "butlast q = []" by (simp add: is_dir_iff)
      with q assms(2) show False by simp
    qed
  qed
qed

lemma children_iff: "c \<in> set (children fs p) \<longleftrightarrow> map_of fs (p @ [c]) \<noteq> None"
proof -
  have "c \<in> set (children fs p)
      \<longleftrightarrow> (\<exists>q. q \<in> set (map fst fs) \<and> q \<noteq> [] \<and> butlast q = p \<and> c = last q)"
    unfolding children_def by auto
  also have "\<dots> \<longleftrightarrow> p @ [c] \<in> set (map fst fs)"
    by (metis append_butlast_last_id butlast_snoc last_snoc snoc_eq_iff_butlast)
  finally show ?thesis by (simp only: key_iff)
qed

lemma distinct_children:
  assumes "distinct (map fst fs)"
  shows "distinct (children fs p)"
proof -
  have "inj_on last {q. q \<noteq> [] \<and> butlast q = p}"
    by (rule inj_onI) (metis (mono_tags) append_butlast_last_id mem_Collect_eq)
  then have "inj_on last (set (filter (\<lambda>q. q \<noteq> [] \<and> butlast q = p) (map fst fs)))"
    by (rule inj_on_subset) auto
  with assms show ?thesis unfolding children_def by (simp add: distinct_map)
qed

subsection \<open>Preservation of well-formed trees\<close>

lemma fs_okD:
  assumes "fs_ok fs"
  shows "distinct (map fst fs)" and "map_of fs [] = None"
    and "map_of fs p = Some n \<Longrightarrow> is_dir fs (butlast p)"
  using assms unfolding fs_ok_iff by blast+

lemma fs_okI:
  assumes "distinct (map fst fs)" and "map_of fs [] = None"
    and "\<And>p n. map_of fs p = Some n \<Longrightarrow> is_dir fs (butlast p)"
  shows "fs_ok fs"
  using assms unfolding fs_ok_iff by blast

lemma butlast_neq: "p \<noteq> [] \<Longrightarrow> butlast p \<noteq> p"
  by (metis append_butlast_last_id append_self_conv not_Cons_self2)

lemma fs_ok_put:
  assumes ok: "fs_ok fs" and "p \<noteq> []" and dir: "is_dir fs (butlast p)"
    and leaf: "n = Dir \<or> map_of fs p \<noteq> Some Dir"
  shows "fs_ok (put p n fs)"
proof (rule fs_okI)
  show "distinct (map fst (put p n fs))" using fs_okD(1) [OF ok] by (rule distinct_put)
  show "map_of (put p n fs) [] = None" using fs_okD(2) [OF ok] assms(2) by (simp add: map_of_put)
next
  fix q m assume q: "map_of (put p n fs) q = Some m"
  have par: "is_dir fs (butlast q)"
    using q dir fs_okD(3) [OF ok, of q m] by (cases "q = p") (simp_all add: map_of_put)
  show "is_dir (put p n fs) (butlast q)"
  proof (cases "butlast q = p")
    case True
    with par leaf assms(2) have "n = Dir" by (auto simp: is_dir_iff)
    with True show ?thesis by (simp add: is_dir_iff map_of_put)
  next
    case False
    with par show ?thesis by (auto simp: is_dir_iff map_of_put)
  qed
qed

lemma fs_ok_erase:
  assumes ok: "fs_ok fs" and "p \<noteq> []"
  shows "fs_ok (erase p fs)"
proof (rule fs_okI)
  show "distinct (map fst (erase p fs))"
    unfolding keys_erase using fs_okD(1) [OF ok] by (rule distinct_filter)
  show "map_of (erase p fs) [] = None" using fs_okD(2) [OF ok] by (simp add: map_of_erase)
next
  fix q m assume "map_of (erase p fs) q = Some m"
  then have q: "\<not> is_under p q" "map_of fs q = Some m"
    by (auto simp: map_of_erase split: if_splits)
  then have "is_dir fs (butlast q)" "\<not> is_under p (butlast q)"
    using fs_okD(3) [OF ok] is_under_butlast by auto
  then show "is_dir (erase p fs) (butlast q)" by (auto simp: is_dir_iff map_of_erase)
qed

lemma map_of_move:
  assumes "distinct (map fst fs)" and "\<not> is_under src dst" and "\<not> is_under dst src"
  shows "map_of (move src dst fs) q =
     (if is_under dst q then map_of fs (src @ drop (length dst) q)
      else if is_under src q then None else map_of fs q)"
proof -
  define moved where
    "moved = map (\<lambda>(q, n). (dst @ drop (length src) q, n)) (filter (\<lambda>(q, n). is_under src q) fs)"
  define kept where "kept = filter (\<lambda>(q, n). \<not> is_under src q \<and> \<not> is_under dst q) fs"
  have kept: "map_of kept q = (if \<not> is_under src q \<and> \<not> is_under dst q then map_of fs q else None)"
    unfolding kept_def map_of_filter_key [of "\<lambda>q. \<not> is_under src q \<and> \<not> is_under dst q"] by simp
  have moved: "map_of moved q = (if is_under dst q then map_of fs (src @ drop (length dst) q) else None)"
    unfolding moved_def
    by (induction fs) (auto simp: is_under_iff)
  have "map_of (move src dst fs) q = (map_of kept ++ map_of moved) q"
    unfolding move_def moved_def [symmetric] kept_def [symmetric] by simp
  then show ?thesis unfolding map_add_def kept moved by (auto split: option.splits)
qed

lemma fs_ok_move:
  assumes ok: "fs_ok fs" and "src \<noteq> []" and "dst \<noteq> []"
    and "\<not> is_under src dst" and "\<not> is_under dst src" and dir: "is_dir fs (butlast dst)"
  shows "fs_ok (move src dst fs)"
proof -
  note look = map_of_move [OF fs_okD(1) [OF ok] assms(4,5)]
  have same: "is_dir (move src dst fs) q" if "is_dir fs q" "\<not> is_under src q" "\<not> is_under dst q" for q
    using that by (auto simp: is_dir_iff look)
  have "\<not> is_under src (butlast dst)" using assms(4) is_under_butlast by blast
  moreover have "\<not> is_under dst (butlast dst)"
    using assms(3) is_under_length [of dst "butlast dst"] by (cases dst rule: rev_cases) auto
  ultimately have parent: "is_dir (move src dst fs) (butlast dst)" using same dir by blast
  show ?thesis
  proof (rule fs_okI)
    let ?moved = "map (\<lambda>(q, n). (dst @ drop (length src) q, n)) (filter (\<lambda>(q, n). is_under src q) fs)"
    let ?kept = "filter (\<lambda>(q, n). \<not> is_under src q \<and> \<not> is_under dst q) fs"
    have "inj_on (\<lambda>q. dst @ drop (length src) q) {q. is_under src q}"
      by (rule inj_onI) (auto simp: is_under_iff)
    moreover have "map fst ?moved
        = map (\<lambda>q. dst @ drop (length src) q) (filter (is_under src) (map fst fs))"
      by (simp add: filter_map comp_def split_def)
    moreover have "distinct (filter (is_under src) (map fst fs))"
      using fs_okD(1) [OF ok] by (rule distinct_filter)
    moreover have "inj_on (\<lambda>q. dst @ drop (length src) q) (set (filter (is_under src) (map fst fs)))"
      by (rule inj_on_subset) (fact, auto)
    ultimately have "distinct (map fst ?moved)" by (simp only: distinct_map)
    moreover have "map fst ?kept
        = filter (\<lambda>q. \<not> is_under src q \<and> \<not> is_under dst q) (map fst fs)"
      by (simp add: filter_map comp_def split_def)
    then have "distinct (map fst ?kept)" using fs_okD(1) [OF ok] by (simp only: distinct_filter)
    moreover have "set (map fst ?moved) \<inter> set (map fst ?kept) = {}" by auto
    ultimately show "distinct (map fst (move src dst fs))" unfolding move_def by simp
    show "map_of (move src dst fs) [] = None"
      using assms fs_okD(2) [OF ok] by (simp add: look)
  next
    fix q m assume q: "map_of (move src dst fs) q = Some m"
    show "is_dir (move src dst fs) (butlast q)"
    proof (cases "is_under dst q")
      case under: True
      then obtain r where r: "q = dst @ r" by (auto simp: is_under_iff)
      show ?thesis
      proof (cases r rule: rev_cases)
        case Nil
        with r parent show ?thesis by simp
      next
        case (snoc t c)
        with q r have "map_of fs (src @ t @ [c]) = Some m" by (simp add: look)
        then have "is_dir fs (src @ t)" using fs_okD(3) [OF ok] by (metis append_assoc butlast_snoc)
        then show ?thesis using snoc r assms(2) by (simp add: is_dir_iff look butlast_append)
      qed
    next
      case False
      with q have "\<not> is_under src q" "map_of fs q = Some m" by (auto simp: look split: if_splits)
      moreover from this have "\<not> is_under src (butlast q)" "\<not> is_under dst (butlast q)"
        using False is_under_butlast by blast+
      ultimately show ?thesis using same fs_okD(3) [OF ok] by blast
    qed
  qed
qed

lemma remove_cases:
  assumes "remove fs p = (fs', r)"
  obtains "fs' = fs" "r \<noteq> None"
  | "fs' = erase p fs" "r = None" "p \<noteq> []" "map_of fs p \<noteq> None"
    "map_of fs p = Some Dir \<Longrightarrow> children fs p = []"
  using assms unfolding remove_def
  by (auto split: sum.splits if_splits simp: lstat_Inr)

lemma fs_ok_remove: "fs_ok fs \<Longrightarrow> fs_ok (fst (remove fs p))"
  by (cases "remove fs p") (auto elim!: remove_cases intro: fs_ok_erase)

lemma fs_ok_remove_all: "fs_ok fs \<Longrightarrow> fs_ok (fst (remove_all fs p))"
  by (simp add: remove_all_def fs_ok_erase)

lemma fs_ok_mkdir: "fs_ok fs \<Longrightarrow> fs_ok (fst (mkdir fs p))"
  by (auto simp: mkdir_def split: sum.splits install_error.splits intro!: fs_ok_put dest: lstat_Inl)

lemma mkdir_parts_ok:
  "fs_ok fs \<Longrightarrow> is_dir fs base \<Longrightarrow> fs_ok (fst (mkdir_parts fs base cs))"
proof (induction fs base cs rule: mkdir_parts.induct)
  case (2 fs base c cs)
  show ?case
  proof (cases "lstat fs (base @ [c])")
    case (Inr n)
    with 2 show ?thesis by (cases n) (auto simp: is_dir_def)
  next
    case (Inl e)
    then have "map_of fs (base @ [c]) = None" by (auto dest: lstat_Inl)
    then have "fs_ok (put (base @ [c]) Dir fs)" "is_dir (put (base @ [c]) Dir fs) (base @ [c])"
      using 2 by (auto intro!: fs_ok_put simp: is_dir_iff map_of_put)
    with 2 Inl show ?thesis by (cases e) auto
  qed
qed simp

lemma fs_ok_mkdir_all: "fs_ok fs \<Longrightarrow> fs_ok (fst (mkdir_all fs p))"
  unfolding mkdir_all_def by (rule mkdir_parts_ok) (simp_all add: is_dir_iff)

text \<open>\<open>os.MkdirAll\<close> only adds directories, and on success the directory is there.\<close>

lemma mkdir_parts_spec:
  "mkdir_parts fs base cs = (fs', r) \<Longrightarrow>
     (\<forall>q. map_of fs' q = map_of fs q
        \<or> (map_of fs q = None \<and> map_of fs' q = Some Dir \<and> is_under q (base @ cs)))
     \<and> (r = None \<longrightarrow> is_dir fs base \<longrightarrow> is_dir fs' (base @ cs))"
proof (induction fs base cs rule: mkdir_parts.induct)
  case (2 fs base c cs)
  show ?case
  proof (cases "lstat fs (base @ [c])")
    case (Inr n)
    show ?thesis
    proof (cases "n = Dir")
      case True
      with Inr 2(3) have m: "mkdir_parts fs (base @ [c]) cs = (fs', r)" by simp
      from True Inr have "is_dir fs (base @ [c])" by (simp add: is_dir_def)
      with 2(2) [OF Inr True m] show ?thesis by simp
    next
      case False
      with Inr 2(3) show ?thesis by (cases n) auto
    qed
  next
    case (Inl e)
    show ?thesis
    proof (cases "e = ErrNotExist")
      case True
      with Inl 2(3) have m: "mkdir_parts (put (base @ [c]) Dir fs) (base @ [c]) cs = (fs', r)" by simp
      from Inl have none: "map_of fs (base @ [c]) = None" by (auto dest: lstat_Inl)
      have d: "is_dir (put (base @ [c]) Dir fs) (base @ [c])" by (simp add: is_dir_iff map_of_put)
      have u: "is_under (base @ [c]) (base @ c # cs)" by (auto simp: is_under_iff)
      note IH = 2(1) [OF Inl True m]
      have "map_of fs' q = map_of fs q
          \<or> (map_of fs q = None \<and> map_of fs' q = Some Dir \<and> is_under q (base @ c # cs))" for q
      proof (cases "q = base @ [c]")
        case True
        have "map_of fs' (base @ [c]) = Some Dir"
          using conjunct1 [OF IH, THEN spec, of "base @ [c]"] by (simp add: map_of_put)
        with True none u show ?thesis by simp
      next
        case False
        then have "map_of (put (base @ [c]) Dir fs) q = map_of fs q" by (simp add: map_of_put)
        with IH show ?thesis by (metis append_Cons append_Nil append_assoc)
      qed
      with IH d show ?thesis by auto
    next
      case False
      with Inl 2(3) show ?thesis by (cases e) auto
    qed
  qed
qed auto

lemma mkdir_all_frame: "mkdir_all fs p = (fs', r) \<Longrightarrow> map_of fs q \<noteq> None \<Longrightarrow> map_of fs' q = map_of fs q"
  using mkdir_parts_spec [of fs "[]" p fs' r] unfolding mkdir_all_def by metis

lemma mkdir_all_new:
  "mkdir_all fs p = (fs', r) \<Longrightarrow> map_of fs' q \<noteq> map_of fs q \<Longrightarrow> map_of fs' q = Some Dir \<and> is_under q p"
  using mkdir_parts_spec [of fs "[]" p fs' r] unfolding mkdir_all_def by auto

lemma mkdir_all_dir: "mkdir_all fs p = (fs', None) \<Longrightarrow> is_dir fs' p"
  using mkdir_parts_spec [of fs "[]" p fs' None] unfolding mkdir_all_def by (simp add: is_dir_iff)

subsection \<open>Renaming\<close>

lemma rename_cases:
  assumes "rename fs src dst = (fs', r)"
  obtains "fs' = fs" "r \<noteq> None"
  | n where "fs' = move src dst fs" "r = None" "map_of fs src = Some n" "src \<noteq> []" "dst \<noteq> []"
    "\<not> is_under src dst" "\<not> is_under dst src" "is_dir fs (butlast dst)" "map_of fs dst \<noteq> Some Dir"
    "n = Dir \<Longrightarrow> map_of fs dst = None"
proof (cases "r = None")
  case False
  moreover have "fs' = fs"
    using assms False unfolding rename_def by (auto split: sum.splits if_splits install_error.splits)
  ultimately show ?thesis using that(1) by simp
next
  case True
  with assms obtain n where n: "lstat fs src = Inr n" "src \<noteq> []" "\<not> is_under src dst"
      "\<not> is_under dst src" "is_dir fs (butlast dst)" "fs' = move src dst fs"
      "lstat fs dst = Inl ErrNotExist \<or> (\<exists>m. lstat fs dst = Inr m \<and> m \<noteq> Dir \<and> n \<noteq> Dir)"
    unfolding rename_def by (auto split: sum.splits if_splits install_error.splits)
  then have dst: "dst \<noteq> []" by (auto simp: is_under_iff)
  with n have "map_of fs dst \<noteq> Some Dir" "n = Dir \<Longrightarrow> map_of fs dst = None"
    by (auto simp: lstat_Inr dest!: lstat_Inl)
  with True n dst show ?thesis using that(2) by (simp add: lstat_Inr)
qed

lemma fs_ok_rename: "fs_ok fs \<Longrightarrow> fs_ok (fst (rename fs src dst))"
  by (cases "rename fs src dst") (auto elim!: rename_cases intro: fs_ok_move)

text \<open>Renaming a file changes just the two names.\<close>

lemma rename_file:
  assumes ok: "fs_ok fs" and ren: "rename fs src dst = (fs', None)" and src_file: "map_of fs src = Some (File c)"
  shows "map_of fs' = (map_of fs)(src := None, dst \<mapsto> File c)"
proof -
  from ren obtain mv: "fs' = move src dst fs" "src \<noteq> []" "dst \<noteq> []" "\<not> is_under src dst"
      "\<not> is_under dst src" "map_of fs dst \<noteq> Some Dir"
    by (auto elim: rename_cases)
  note look = map_of_move [OF fs_okD(1) [OF ok] mv(4,5)]
  have src: "map_of fs q = None" if "is_under src q" "q \<noteq> src" for q
    using absent_below [OF ok mv(2)] src_file that by simp
  have dst: "map_of fs q = None" if "is_under dst q" "q \<noteq> dst" for q
    using absent_below [OF ok mv(3)] mv(6) that by simp
  show ?thesis
  proof
    fix q
    show "map_of fs' q = ((map_of fs)(src := None, dst \<mapsto> File c)) q"
    proof (cases "is_under dst q")
      case True
      then obtain r where r: "q = dst @ r" by (auto simp: is_under_iff)
      then show ?thesis
        using src_file src [of "src @ r"] dst [of q] mv(5) unfolding mv(1) look
        by (cases "r = []") auto
    next
      case False
      then show ?thesis using src [of q] unfolding mv(1) look by auto
    qed
  qed
qed

subsection \<open>The atomic write\<close>

lemma uniqueSibling_fresh:
  "uniqueSibling fs dir ns = Inr tmp \<Longrightarrow>
     (\<exists>h. tmp = dir @ [atom_prefix @ h]) \<and> lstat fs tmp = Inl ErrNotExist"
  by (induction ns rule: uniqueSibling.induct [where ?a0.0 = fs and ?a1.0 = dir, case_names Nil None Some])
    (auto split: if_splits)

lemma fill_temp_fs:
  "fill_temp ops fs tmp payload = (fs', r) \<Longrightarrow>
     (\<exists>c. fs' = put tmp (File c) fs \<and> (r = None \<longrightarrow> c = payload)) \<or> (fs' = fs \<and> r \<noteq> None)"
  by (auto simp: fill_temp_def Let_def split: option.splits)

lemma children_file:
  assumes "fs_ok fs" and "p \<noteq> []" and "map_of fs p \<noteq> Some Dir"
  shows "children fs p = []"
proof -
  have "c \<notin> set (children fs p)" for c
    using absent_below [OF assms, of "p @ [c]"] by (simp add: children_iff)
  then show ?thesis by (metis list.set_intros(1) neq_Nil_conv)
qed

lemma remove_file:
  assumes ok: "fs_ok fs" and "p \<noteq> []" and "map_of fs p = Some n" and "n \<noteq> Dir"
  shows "remove fs p = (erase p fs, None)"
  using assms by (simp add: remove_def lstat_def)

lemma erase_file:
  assumes ok: "fs_ok fs" and "p \<noteq> []" and "map_of fs p \<noteq> Some Dir"
  shows "map_of (erase p fs) = (map_of fs)(p := None)"
proof
  fix q show "map_of (erase p fs) q = ((map_of fs)(p := None)) q"
    using absent_below [OF assms, of q] by (cases "q = p") (auto simp: map_of_erase)
qed

text \<open>
  The contract of the write, whatever operation fails: no other path changes, and the target
  either keeps its old content or holds the whole new record. Elsewhere than on Windows a
  failing move loses the old content, because the target was removed first.
\<close>

definition write_outcome ::
  "bool \<Rightarrow> fs \<Rightarrow> path \<Rightarrow> file_bytes \<Rightarrow> fs \<Rightarrow> install_error option \<Rightarrow> bool" where
  "write_outcome windows fs dest payload fs' r \<longleftrightarrow>
     fs_ok fs' \<and> (\<forall>q. q \<noteq> dest \<longrightarrow> map_of fs' q = map_of fs q)
     \<and> (map_of fs' dest = map_of fs dest \<and> r \<noteq> None
        \<or> map_of fs' dest = Some (File payload)
        \<or> (\<not> windows \<and> map_of fs' dest = None \<and> r \<noteq> None))"

lemma write_unchanged: "fs_ok fs \<Longrightarrow> e \<noteq> None \<Longrightarrow> write_outcome w fs dest payload fs e"
  by (simp add: write_outcome_def)

lemma temp_removed:
  assumes "fs_ok fs'" and "tmp \<noteq> []" and "map_of fs' tmp = Some (File c)"
    and "map_of fs tmp = None" and "\<And>q. q \<noteq> tmp \<Longrightarrow> q \<noteq> dest \<Longrightarrow> map_of fs' q = map_of fs q"
    and "tmp \<noteq> dest" and "map_of fs' dest = map_of fs dest \<or> (\<not> w \<and> map_of fs' dest = None)"
  shows "write_outcome w fs dest payload (fst (remove fs' tmp)) (Some e)"
proof -
  have "remove fs' tmp = (erase tmp fs', None)" using assms(1-3) by (intro remove_file) auto
  moreover have "map_of (erase tmp fs') = (map_of fs')(tmp := None)"
    using assms(1-3) by (intro erase_file) auto
  moreover have "fs_ok (erase tmp fs')" using assms(1,2) by (rule fs_ok_erase)
  ultimately show ?thesis using assms unfolding write_outcome_def by auto
qed

lemma put_put: "map_of (put p b (put p a fs)) = map_of (put p b fs)"
  by (simp add: map_of_put)

lemma replace_cases:
  assumes "replaceFileAtomic ops fs tmp dest = (fs', r)" and ok: "fs_ok fs"
    and tmp: "map_of fs tmp = Some (File c)" "tmp \<noteq> []" and neq: "tmp \<noteq> dest"
    and par: "butlast tmp = butlast dest" "dest \<noteq> []"
  obtains "r \<noteq> None" "fs_ok fs'" "map_of fs' = map_of fs"
  | "r \<noteq> None" "fs_ok fs'" "\<not> ao_windows ops" "map_of fs' = (map_of fs)(dest := None)"
  | "r = None" "fs_ok fs'" "map_of fs' = (map_of fs)(tmp := None, dest \<mapsto> File c)"
proof -
  obtain fs1 e1 where fs1: "(if ao_windows ops then (fs, None) else remove fs dest) = (fs1, e1)"
    by (meson surj_pair)
  have ok1: "fs_ok fs1" using fs1 ok fs_ok_remove [OF ok, of dest] by (auto split: if_splits)
  have under: "is_under dest tmp \<longleftrightarrow> False"
    using neq par tmp(2) by (metis is_under_cases is_under_length butlast_neq length_butlast
        diff_le_self le_antisym is_under_iff append_butlast_last_id append_eq_append_conv)
  have look1: "map_of fs1 = map_of fs \<or> (\<not> ao_windows ops \<and> map_of fs1 = (map_of fs)(dest := None))"
  proof (cases "ao_windows ops")
    case True
    with fs1 show ?thesis by simp
  next
    case False
    with fs1 have rem: "remove fs dest = (fs1, e1)" by simp
    then show ?thesis
    proof (cases rule: remove_cases)
      case 1
      then show ?thesis by simp
    next
      case 2
      have "map_of (erase dest fs) q = ((map_of fs)(dest := None)) q" for q
      proof (cases "is_under dest q \<and> q \<noteq> dest")
        case under: True
        have "map_of fs q = None"
        proof (cases "map_of fs dest = Some Dir")
          case False
          with absent_below [OF ok par(2)] under show ?thesis by simp
        next
          case True
          then have none: "map_of fs (dest @ [x]) = None" for x
            using 2(5) children_iff [of x fs dest] by simp
          from under obtain x r where q: "q = (dest @ [x]) @ r"
            by (auto simp: is_under_iff) (metis append_Cons append_Nil neq_Nil_conv append_Nil2)
          then show ?thesis
            using absent_below [OF ok, of "dest @ [x]" q] none [of x] is_under_append [of "dest @ [x]" r]
            by (cases "r = []") auto
        qed
        with under show ?thesis by (simp add: map_of_erase)
      qed (auto simp: map_of_erase)
      with 2 False show ?thesis by auto
    qed
  qed
  have tmp1: "map_of fs1 tmp = Some (File c)" using look1 tmp(1) neq by auto
  have "(fs' = fs1 \<and> r \<noteq> None) \<or> rename fs1 tmp dest = (fs', r)"
  proof (cases "e1 \<noteq> None \<and> e1 \<noteq> Some ErrNotExist")
    case True
    with assms(1) show ?thesis unfolding replaceFileAtomic_def fs1 Let_def prod.case by auto
  next
    case False
    from assms(1)
    have "(case ao_replace ops of Some e \<Rightarrow> (fs1, Some e) | None \<Rightarrow> rename fs1 tmp dest) = (fs', r)"
      unfolding replaceFileAtomic_def fs1 Let_def prod.case if_not_P [OF False] .
    then show ?thesis by (cases "ao_replace ops", simp_all) (metis option.distinct(1))
  qed
  then consider (early) "fs' = fs1" "r \<noteq> None" | (move) "rename fs1 tmp dest = (fs', r)"
    by blast
  then show ?thesis
  proof cases
    case early
    with look1 ok1 that(1,2) show ?thesis by metis
  next
    case move
    show ?thesis
    proof (cases "r = None")
      case False
      with move have "fs' = fs1" by (auto elim: rename_cases)
      with False look1 ok1 that(1,2) show ?thesis by metis
    next
      case True
      with move rename_file [OF ok1 _ tmp1, of dest fs']
      have "map_of fs' = (map_of fs1)(tmp := None, dest \<mapsto> File c)" by simp
      moreover from this look1
      have "map_of fs' = (map_of fs)(tmp := None, dest \<mapsto> File c)" by auto
      moreover have "fs_ok fs'" using fs_ok_rename [OF ok1, of tmp dest] move by simp
      ultimately show ?thesis using that(3) True by simp
    qed
  qed
qed

lemma writeAtomicRecord_outcome:
  assumes ok: "fs_ok fs" and dest: "dest \<noteq> []"
    and fresh: "\<not> HasPrefix (last dest) atom_prefix"
    and leaf: "map_of fs dest \<noteq> Some Dir"
    and run: "writeAtomicRecord ops fs dest payload = (fs', r)"
  shows "write_outcome (ao_windows ops) fs dest payload fs' r"
proof -
  define dir where "dir = butlast dest"
  show ?thesis
  proof (cases "orelse (rejectReparse fs dir) (ao_hook ops stepBeforeTempCreate)")
    case (Some e)
    with run have "fs' = fs" "r = Some e" by (auto simp: writeAtomicRecord_def dir_def)
    with ok show ?thesis by (simp add: write_unchanged)
  next
    case pre: None
    show ?thesis
    proof (cases "uniqueSibling fs dir (take 8 (ao_names ops))")
      case (Inl e)
      with run pre ok show ?thesis by (auto simp: writeAtomicRecord_def dir_def write_unchanged)
    next
      case (Inr tmp)
      then obtain h where h: "tmp = dir @ [atom_prefix @ h]" and "lstat fs tmp = Inl ErrNotExist"
        using uniqueSibling_fresh by blast
      then have none: "map_of fs tmp = None" and ne: "tmp \<noteq> []" by (auto dest: lstat_Inl)
      have par: "butlast tmp = butlast dest" using h dir_def by simp
      have neq: "tmp \<noteq> dest"
      proof
        assume "tmp = dest"
        then have "last dest = atom_prefix @ h" using h by auto
        with fresh show False by simp
      qed
      note tmp = Inr
      show ?thesis
      proof (cases "create_exclusive ops fs tmp")
        case (Inl e)
        with run pre tmp ok show ?thesis by (auto simp: writeAtomicRecord_def dir_def write_unchanged)
      next
        case (Inr fs1)
        then have dir: "is_dir fs (butlast tmp)" and fs1: "fs1 = put tmp (File (Bytes [])) fs"
          by (auto simp: create_exclusive_def split: option.splits sum.splits if_splits)
        note created = Inr
        obtain fs2 e2 where fill: "fill_temp ops fs1 tmp payload = (fs2, e2)" by (meson surj_pair)
        obtain c where c: "map_of fs2 = (map_of fs)(tmp \<mapsto> File c)" "e2 = None \<Longrightarrow> c = payload"
            "fs_ok fs2"
        proof -
          have ok1: "fs_ok fs1" unfolding fs1 using ok ne dir none by (intro fs_ok_put) auto
          have dir1: "is_dir fs1 (butlast tmp)" using dir unfolding fs1
            by (auto simp: is_dir_iff map_of_put none)
          from fill_temp_fs [OF fill] show thesis
          proof
            assume "\<exists>c. fs2 = put tmp (File c) fs1 \<and> (e2 = None \<longrightarrow> c = payload)"
            then obtain c where "fs2 = put tmp (File c) fs1" "e2 = None \<Longrightarrow> c = payload" by blast
            moreover have "fs_ok (put tmp (File c) fs1)"
              using ok1 ne dir1 by (intro fs_ok_put) (auto simp: fs1 map_of_put)
            ultimately show thesis using that [of c] by (simp add: fs1 put_put map_of_put)
          next
            assume "fs2 = fs1 \<and> e2 \<noteq> None"
            then have "fs2 = fs1" "e2 \<noteq> None" by simp_all
            then show thesis using that [of "Bytes []"] ok1 by (auto simp: fs1 map_of_put)
          qed
        qed
        show ?thesis
        proof (cases e2)
          case (Some e)
          then have "fs' = fst (remove fs2 tmp)" "r = Some e"
            using run pre tmp created fill unfolding writeAtomicRecord_def dir_def by auto
          moreover have "write_outcome (ao_windows ops) fs dest payload (fst (remove fs2 tmp)) (Some e)"
            using c ne none neq by (intro temp_removed) auto
          ultimately show ?thesis by simp
        next
          case None
          with c have pay: "map_of fs2 tmp = Some (File payload)" by simp
          obtain fs3 e3 where rep: "replaceFileAtomic ops fs2 tmp dest = (fs3, e3)" by (meson surj_pair)
          note step = run [unfolded writeAtomicRecord_def, folded dir_def] pre tmp created fill None rep
          from rep c(3) pay ne neq par dest show ?thesis
          proof (cases rule: replace_cases)
            case 1
            then obtain e where e: "e3 = Some e" by auto
            with step have "fs' = fst (remove fs3 tmp)" "r = Some e" by auto
            moreover have "write_outcome (ao_windows ops) fs dest payload (fst (remove fs3 tmp)) (Some e)"
              using 1 c ne none neq pay by (intro temp_removed) auto
            ultimately show ?thesis by simp
          next
            case 2
            then obtain e where e: "e3 = Some e" by auto
            with step have "fs' = fst (remove fs3 tmp)" "r = Some e" by auto
            moreover have "write_outcome (ao_windows ops) fs dest payload (fst (remove fs3 tmp)) (Some e)"
              using 2 c ne none neq pay by (intro temp_removed) auto
            ultimately show ?thesis by simp
          next
            case 3
            with step have "fs' = fs3" by auto
            with 3 c none show ?thesis unfolding write_outcome_def by auto
          qed
        qed
      qed
    qed
  qed
qed

text \<open>A write that reports no error has stored exactly the new record.\<close>

lemma writeAtomicRecord_success:
  assumes "fs_ok fs" and "dest \<noteq> []" and "\<not> HasPrefix (last dest) atom_prefix"
    and "map_of fs dest \<noteq> Some Dir" and "writeAtomicRecord ops fs dest payload = (fs', None)"
  shows "fs_ok fs' \<and> map_of fs' = (map_of fs)(dest \<mapsto> File payload)"
  using writeAtomicRecord_outcome [OF assms] unfolding write_outcome_def by auto

subsection \<open>Properties of the atomic write\<close>

text \<open>The default operations on a platform: no injected failure, one random name.\<close>

definition defaultAtomicOps :: "bool \<Rightarrow> string \<Rightarrow> atomic_ops" where
  "defaultAtomicOps windows name =
     \<lparr>ao_windows = windows, ao_hook = (\<lambda>_. None), ao_names = [Some name], ao_create = None,
      ao_write = None, ao_partial = Bytes [], ao_sync = None, ao_close = None, ao_pre_sync = None,
      ao_replace = None, ao_final_sync = None, ao_read = Inr\<rparr>"

definition sample_tree :: fs where
  "sample_tree = [([''control''], Dir), ([''control'', ''active.json''], File (Bytes ''old''))]"


lemma sample_tree_ok: "fs_ok sample_tree"
  by code_simp


text \<open>
  Elsewhere than on Windows the write is not atomic: the target is removed before the
  temporary file is moved, so when the move fails both the old record and the new one are gone.
  With the same failure on Windows the old record is still there.
\<close>

theorem replace_elsewhere_loses_record:
  "let write = (\<lambda>windows. writeAtomicRecord ((defaultAtomicOps windows ''a'')\<lparr>ao_replace := Some ErrOS\<rparr>)
                 sample_tree [''control'', ''active.json''] (Bytes ''new''))
   in map_of (fst (write False)) [''control'', ''active.json''] = None
      \<and> map_of (fst (write True)) [''control'', ''active.json''] = Some (File (Bytes ''old''))"
  by code_simp

end
