(* ===== verification/Install_Store.thy ===== *)
theory Install_Store
  imports Install_Fs
begin

text \<open>
  The install store (install/paths.go, transaction\_store.go, active\_pointer.go, generation.go,
  verify.go and seal.go): where records live under the managed root, how transactions are saved
  with a revision check and classified on reading, the active pointer, and the sealed
  generation trees with their integrity checks.

  The hash, the size of a document, a fresh lineage id, \<open>LOCALAPPDATA\<close>, \<open>filepath.Clean\<close> and
  the separators come from the platform record; reading the clock is an argument.
\<close>

record platform =
  pf_sha :: "file_bytes \<Rightarrow> string"
  pf_size :: "file_bytes \<Rightarrow> int"
  pf_lineage :: "string option"
  pf_local_app_data :: string
  pf_clean :: "string \<Rightarrow> string"
  pf_separator :: char
  pf_list_separator :: char

record store =
  st_root :: path
  st_ops :: atomic_ops
  st_platform :: platform

subsection \<open>Layout (paths.go)\<close>

definition ControlDir :: "store \<Rightarrow> path" where
  "ControlDir st = st_root st @ [dirControl]"

definition TransactionsDir :: "store \<Rightarrow> path" where
  "TransactionsDir st = ControlDir st @ [dirTransactions]"

definition ActivePath :: "store \<Rightarrow> path" where
  "ActivePath st = ControlDir st @ [fileActive]"

definition LockPath :: "store \<Rightarrow> path" where
  "LockPath st = ControlDir st @ [fileLock]"

definition StagingRoot :: "store \<Rightarrow> path" where
  "StagingRoot st = st_root st @ [dirStaging]"

definition FailedRoot :: "store \<Rightarrow> path" where
  "FailedRoot st = st_root st @ [dirFailed]"

definition GenerationsRoot :: "store \<Rightarrow> path" where
  "GenerationsRoot st = st_root st @ [dirGenerations]"

definition ResolveContained :: "store \<Rightarrow> string \<Rightarrow> install_error + path" where
  "ResolveContained st rel =
     (case rejectUnsafeRel rel of
        Some e \<Rightarrow> Inl e
      | None \<Rightarrow>
          (let clean = st_root st @ split_on CHR ''/'' rel
           in if is_under (st_root st) clean then Inr clean else Inl ErrPathNotContained))"

definition TransactionPath :: "store \<Rightarrow> string \<Rightarrow> install_error + path" where
  "TransactionPath st i =
     (case ParseTransactionID i of
        Some e \<Rightarrow> Inl e
      | None \<Rightarrow> ResolveContained st (dirControl @ ''/'' @ dirTransactions @ ''/'' @ transactionFileName i))"

definition StagingPath :: "store \<Rightarrow> string \<Rightarrow> install_error + path" where
  "StagingPath st i =
     (case ParseTransactionID i of Some e \<Rightarrow> Inl e | None \<Rightarrow> ResolveContained st (StagingRel i))"

definition FailedPath :: "store \<Rightarrow> string \<Rightarrow> install_error + path" where
  "FailedPath st i =
     (case ParseTransactionID i of Some e \<Rightarrow> Inl e | None \<Rightarrow> ResolveContained st (dirFailed @ ''/'' @ i))"

definition GenerationPath :: "store \<Rightarrow> string \<Rightarrow> install_error + path" where
  "GenerationPath st i =
     (case ParseGenerationID i of Some e \<Rightarrow> Inl e | None \<Rightarrow> ResolveContained st (GenerationRel i))"

definition EnsureControl :: "store \<Rightarrow> fs \<Rightarrow> fs \<times> install_error option" where
  "EnsureControl st fs =
     (case rejectReparse fs (st_root st) of
        Some e \<Rightarrow> (fs, Some e)
      | None \<Rightarrow>
          (case mkdir_all fs (TransactionsDir st) of
             (fs', Some e) \<Rightarrow> (fs', Some e)
           | (fs', None) \<Rightarrow> (fs', rejectReparse fs' (ControlDir st))))"

subsection \<open>Transactions (transaction\_store.go)\<close>

definition decodeTransaction :: "file_bytes \<Rightarrow> install_error + transaction" where
  "decodeTransaction payload =
     (case payload of
        Bytes _ \<Rightarrow> Inl ErrInvalidRecord
      | Doc j \<Rightarrow>
          (case unmarshal_transaction j of
             None \<Rightarrow> Inl ErrInvalidRecord
           | Some t \<Rightarrow> (case validateTransaction t of Some e \<Rightarrow> Inl e | None \<Rightarrow> Inr t)))"

definition LoadTransaction :: "store \<Rightarrow> fs \<Rightarrow> string \<Rightarrow> install_error + transaction" where
  "LoadTransaction st fs i =
     bind_result (TransactionPath st i) (\<lambda>dest.
       case read_file fs dest of
         Inl e \<Rightarrow> Inl (if e = ErrNotExist then ErrNotFound else e)
       | Inr payload \<Rightarrow> decodeTransaction payload)"

definition expected_revision :: "install_error + transaction \<Rightarrow> install_error + 64 word" where
  "expected_revision current =
     (case current of
        Inr t \<Rightarrow> Inr (tx_revision t)
      | Inl e \<Rightarrow> if e = ErrNotFound then Inr 0 else Inl e)"

definition SaveTransaction :: "store \<Rightarrow> fs \<Rightarrow> transaction \<Rightarrow> fs \<times> install_error option" where
  "SaveTransaction st fs t =
     (case validateTransaction t of
        Some e \<Rightarrow> (fs, Some e)
      | None \<Rightarrow>
     (case EnsureControl st fs of
        (fs1, Some e) \<Rightarrow> (fs1, Some e)
      | (fs1, None) \<Rightarrow>
     (case TransactionPath st (tx_id t) of
        Inl e \<Rightarrow> (fs1, Some e)
      | Inr dest \<Rightarrow>
     (case expected_revision (LoadTransaction st fs1 (tx_id t)) of
        Inl e \<Rightarrow> (fs1, Some e)
      | Inr expected \<Rightarrow>
          if tx_revision t \<noteq> expected then (fs1, Some ErrRevisionConflict)
          else case marshal_transaction (t\<lparr>tx_revision := expected + 1\<rparr>) of
                 Inl e \<Rightarrow> (fs1, Some e)
               | Inr j \<Rightarrow> writeAtomicRecord (st_ops st) fs1 dest (Doc j)))))"

definition malformed_view :: "string \<Rightarrow> txn_view" where
  "malformed_view i = zero_view\<lparr>tv_occupies := True, tv_id := i\<rparr>"

fun inspect_entries ::
  "store \<Rightarrow> fs \<Rightarrow> string list \<Rightarrow> bool \<Rightarrow> txn_view list \<Rightarrow> string list \<Rightarrow> txn_view list \<times> bool" where
  "inspect_entries st fs seen collision views [] = (views, collision)"
| "inspect_entries st fs seen collision views (name # names) =
     (if HasPrefix name atom_prefix \<or> \<not> OccupiesReservedTxnName name
      then inspect_entries st fs seen collision views names
      else
        let i = TrimSuffix name txnFileSuffix in
        if ParseTransactionID i \<noteq> None \<or> \<not> HasSuffix name txnFileSuffix
           \<or> is_dir fs (TransactionsDir st @ [name])
        then inspect_entries st fs seen collision (views @ [malformed_view i]) names
        else case LoadTransaction st fs i of
               Inl _ \<Rightarrow> inspect_entries st fs seen collision (views @ [malformed_view i]) names
             | Inr t \<Rightarrow>
                 if tx_id t \<noteq> i
                 then inspect_entries st fs seen collision (views @ [malformed_view i]) names
                 else if i \<in> set seen
                 then inspect_entries st fs seen True (views @ [malformed_view i]) names
                 else inspect_entries st fs (i # seen) collision (views @ [View t]) names)"

definition inspectTransactions :: "store \<Rightarrow> fs \<Rightarrow> install_error + (txn_view list \<times> bool)" where
  "inspectTransactions st fs =
     (case read_dir fs (TransactionsDir st) of
        Inl e \<Rightarrow> if e = ErrNotExist then Inr ([], False) else Inl e
      | Inr names \<Rightarrow> Inr (inspect_entries st fs [] False [] names))"

definition ListTransactionViews :: "store \<Rightarrow> fs \<Rightarrow> fs \<times> (install_error + (txn_view list \<times> bool))" where
  "ListTransactionViews st fs =
     (case EnsureControl st fs of
        (fs1, Some e) \<Rightarrow> (fs1, Inl e)
      | (fs1, None) \<Rightarrow> (fs1, inspectTransactions st fs1))"

definition HasNonterminal :: "store \<Rightarrow> fs \<Rightarrow> bool" where
  "HasNonterminal st fs =
     (case inspectTransactions st fs of
        Inl _ \<Rightarrow> True
      | Inr (views, _) \<Rightarrow> list_ex (\<lambda>v. tv_valid v \<and> Nonterminal (tv_state v)) views)"

definition failable_view :: "txn_view \<Rightarrow> bool" where
  "failable_view v \<longleftrightarrow> tv_valid v \<and> (tv_state v = StateCreated \<or> tv_state v = StateBuilding)"

fun fail_views :: "store \<Rightarrow> time \<Rightarrow> fs \<Rightarrow> txn_view list \<Rightarrow> fs \<times> install_error option" where
  "fail_views st now fs [] = (fs, None)"
| "fail_views st now fs (v # vs) =
     (if \<not> failable_view v then fail_views st now fs vs
      else case LoadTransaction st fs (tv_id v) of
             Inl e \<Rightarrow> (fs, Some e)
           | Inr t \<Rightarrow>
               (case SaveTransaction st fs
                       (t\<lparr>tx_state := StateFailed, tx_error_code := CodeInterrupted, tx_updated_at := now\<rparr>) of
                  (fs', Some e) \<Rightarrow> (fs', Some e)
                | (fs', None) \<Rightarrow> fail_views st now fs' vs))"

definition FailFailableNonterminals :: "store \<Rightarrow> time \<Rightarrow> fs \<Rightarrow> fs \<times> install_error option" where
  "FailFailableNonterminals st now fs =
     (case inspectTransactions st fs of
        Inl e \<Rightarrow> (fs, Some e)
      | Inr (views, _) \<Rightarrow> fail_views st now fs views)"

definition HasCommitted :: "store \<Rightarrow> fs \<Rightarrow> fs \<times> bool" where
  "HasCommitted st fs =
     (case ListTransactionViews st fs of
        (fs1, Inl _) \<Rightarrow> (fs1, False)
      | (fs1, Inr (views, _)) \<Rightarrow>
          (fs1, list_ex (\<lambda>v. tv_valid v \<and> tv_state v = StateCommitted) views))"

subsection \<open>Sealed trees (seal.go, verify.go)\<close>

definition manifestSchema :: int where "manifestSchema = 1"
definition generationSchema :: int where "generationSchema = 1"
definition maxActiveBytes :: int where "maxActiveBytes = 65536"
definition candidateRecordMaxBytes :: int where "candidateRecordMaxBytes = 4096"

definition rel_text :: "path \<Rightarrow> path \<Rightarrow> string" where
  "rel_text root p = (if p = root then ''.'' else join_on CHR ''/'' (drop (length root) p))"

text \<open>\<open>filepath.WalkDir\<close>: every path from the root down; links are not followed.\<close>

definition tree_paths :: "fs \<Rightarrow> path \<Rightarrow> path list" where
  "tree_paths fs root = sort (filter (is_under root) (map fst fs))"

fun walk_entries :: "platform \<Rightarrow> fs \<Rightarrow> path \<Rightarrow> path list \<Rightarrow> install_error + manifest_entry list" where
  "walk_entries pf fs root [] = Inr []"
| "walk_entries pf fs root (p # ps) =
     (case rejectReparse fs p of
        Some e \<Rightarrow> Inl e
      | None \<Rightarrow>
          (case lstat fs p of
             Inl e \<Rightarrow> Inl e
           | Inr Dir \<Rightarrow> walk_entries pf fs root ps
           | Inr (Link _) \<Rightarrow> Inl ErrReparsePoint
           | Inr (File c) \<Rightarrow>
               if rel_text root p = fileManifest \<or> rel_text root p = fileGeneration
               then walk_entries pf fs root ps
               else bind_result (walk_entries pf fs root ps) (\<lambda>es.
                      Inr (\<lparr>me_path = rel_text root p, me_size = pf_size pf c, me_sha = pf_sha pf c\<rparr> # es))))"

definition walkSealManifest :: "platform \<Rightarrow> fs \<Rightarrow> path \<Rightarrow> install_error + manifest_entry list" where
  "walkSealManifest pf fs root =
     bind_result (lstat fs root) (\<lambda>_.
     bind_result (walk_entries pf fs root (tree_paths fs root)) (\<lambda>es. Inr (sort_key me_path es)))"

fun manifestsEqual :: "manifest_entry list \<Rightarrow> manifest_entry list \<Rightarrow> bool" where
  "manifestsEqual [] [] = True"
| "manifestsEqual (a # as) (b # bs) = (a = b \<and> manifestsEqual as bs)"
| "manifestsEqual _ _ = False"

definition decode_doc :: "(json \<Rightarrow> 'a option) \<Rightarrow> file_bytes \<Rightarrow> 'a option" where
  "decode_doc dec b = (case b of Doc j \<Rightarrow> dec j | Bytes _ \<Rightarrow> None)"

definition loadPublishedSeal ::
  "platform \<Rightarrow> fs \<Rightarrow> path \<Rightarrow> string \<Rightarrow> string \<Rightarrow> string
     \<Rightarrow> install_error + (generation_record \<times> manifest_file)" where
  "loadPublishedSeal pf fs gen gid manifestSHA sealSHA =
     (case orelse (ParseGenerationID gid) (rejectReparse fs gen) of
        Some e \<Rightarrow> Inl e
      | None \<Rightarrow>
          if \<not> regular_file fs (gen @ [fileGeneration]) \<or> \<not> regular_file fs (gen @ [fileManifest])
          then Inl ErrSealInvalid
          else
            bind_result (read_file fs (gen @ [fileGeneration])) (\<lambda>genBytes.
            bind_result (read_file fs (gen @ [fileManifest])) (\<lambda>manBytes.
              if pf_sha pf manBytes \<noteq> manifestSHA \<or> pf_sha pf genBytes \<noteq> sealSHA then Inl ErrSealInvalid
              else case decode_doc unmarshal_generation genBytes of
                     None \<Rightarrow> Inl ErrSealInvalid
                   | Some rec \<Rightarrow>
                       if gr_generation rec \<noteq> gid \<or> gr_manifest_sha rec \<noteq> manifestSHA then Inl ErrSealInvalid
                       else case ValidateGenerationRel (gr_generation_rel rec) (gr_generation rec) of
                              Some e \<Rightarrow> Inl e
                            | None \<Rightarrow>
                                (case decode_doc unmarshal_manifest manBytes of
                                   None \<Rightarrow> Inl ErrSealInvalid
                                 | Some manifest \<Rightarrow> Inr (rec, manifest)))))"

definition error_of :: "install_error + 'a \<Rightarrow> install_error option" where
  "error_of r = (case r of Inl e \<Rightarrow> Some e | Inr _ \<Rightarrow> None)"

definition VerifyPublishedGeneration ::
  "platform \<Rightarrow> fs \<Rightarrow> path \<Rightarrow> string \<Rightarrow> string \<Rightarrow> string \<Rightarrow> install_error option" where
  "VerifyPublishedGeneration pf fs gen gid manifestSHA sealSHA =
     error_of (loadPublishedSeal pf fs gen gid manifestSHA sealSHA)"

definition VerifySealedTree ::
  "platform \<Rightarrow> fs \<Rightarrow> path \<Rightarrow> string \<Rightarrow> string \<Rightarrow> string \<Rightarrow> install_error option" where
  "VerifySealedTree pf fs gen gid manifestSHA sealSHA =
     (case loadPublishedSeal pf fs gen gid manifestSHA sealSHA of
        Inl e \<Rightarrow> Some e
      | Inr (_, manifest) \<Rightarrow>
          check (mf_schema manifest \<noteq> manifestSchema) ErrSealInvalid
            (case walkSealManifest pf fs gen of
               Inl _ \<Rightarrow> Some ErrSealInvalid
             | Inr entries \<Rightarrow> check (\<not> manifestsEqual entries (mf_entries manifest)) ErrSealInvalid None))"

record seal_input =
  si_root :: path
  si_transaction :: string
  si_generation :: string
  si_runtime_kind :: string
  si_source_pin :: string
  si_expected_version :: string
  si_generation_rel :: string
  si_created_at :: time

record seal_result =
  sr_manifest_sha :: string
  sr_seal_sha :: string
  sr_lineage :: string
  sr_sealed_at :: time

text \<open>The injection points of a seal may change the tree and may fail.\<close>

record seal_hooks =
  sh_after_walk :: "fs \<Rightarrow> fs \<times> install_error option"
  sh_after_manifest :: "fs \<Rightarrow> fs \<times> install_error option"
  sh_before_generation :: "fs \<Rightarrow> fs \<times> install_error option"
  sh_before_second_walk :: "fs \<Rightarrow> fs \<times> install_error option"

definition removeSealFiles :: "fs \<Rightarrow> path \<Rightarrow> fs" where
  "removeSealFiles fs root =
     fst (remove (fst (remove fs (root @ [fileManifest]))) (root @ [fileGeneration]))"

definition seal_record :: "platform \<Rightarrow> time \<Rightarrow> seal_input \<Rightarrow> string \<Rightarrow> file_bytes \<Rightarrow> generation_record" where
  "seal_record pf clock si lineage manifestBytes =
     (let now = (if is_zero_time (si_created_at si) then clock else si_created_at si)
      in \<lparr>gr_schema = generationSchema, gr_lineage = lineage, gr_transaction = si_transaction si,
          gr_generation = si_generation si, gr_runtime_kind = si_runtime_kind si,
          gr_source_pin = si_source_pin si, gr_expected_version = si_expected_version si,
          gr_generation_rel = si_generation_rel si, gr_manifest_sha = pf_sha pf manifestBytes,
          gr_created_at = now, gr_sealed_at = now\<rparr>)"

text \<open>After the manifest is written, every failure removes it again.\<close>

definition seal_generation_file ::
  "platform \<Rightarrow> time \<Rightarrow> atomic_ops \<Rightarrow> fs \<Rightarrow> seal_input \<Rightarrow> file_bytes
     \<Rightarrow> fs \<times> (install_error + generation_record)" where
  "seal_generation_file pf clock ops fs si manifestBytes =
     (let drop_manifest = (\<lambda>f e. (fst (remove f (si_root si @ [fileManifest])), Inl e)) in
      case pf_lineage pf of
        None \<Rightarrow> drop_manifest fs ErrOS
      | Some lineage \<Rightarrow>
          (let rec = seal_record pf clock si lineage manifestBytes in
           case ValidateGenerationRel (gr_generation_rel rec) (gr_generation rec) of
             Some e \<Rightarrow> drop_manifest fs e
           | None \<Rightarrow>
               (case marshal_generation rec of
                  Inl e \<Rightarrow> drop_manifest fs e
                | Inr j \<Rightarrow>
                    (case writeAtomicRecord ops fs (si_root si @ [fileGeneration]) (Doc j) of
                       (fs', Some e) \<Rightarrow> drop_manifest fs' e
                     | (fs', None) \<Rightarrow> (fs', Inr rec)))))"

definition second_walk ::
  "platform \<Rightarrow> seal_hooks \<Rightarrow> fs \<Rightarrow> path \<Rightarrow> manifest_entry list \<Rightarrow> fs \<times> install_error option" where
  "second_walk pf hooks fs root entries =
     (case sh_before_second_walk hooks fs of
        (fs1, Some e) \<Rightarrow> (removeSealFiles fs1 root, Some e)
      | (fs1, None) \<Rightarrow>
          (case walkSealManifest pf fs1 root of
             Inl e \<Rightarrow> (removeSealFiles fs1 root, Some e)
           | Inr again \<Rightarrow>
               if manifestsEqual entries again then (fs1, None)
               else (removeSealFiles fs1 root, Some ErrSealInvalid)))"

definition SealGeneration ::
  "platform \<Rightarrow> time \<Rightarrow> atomic_ops \<Rightarrow> seal_input \<Rightarrow> seal_hooks \<Rightarrow> fs
     \<Rightarrow> fs \<times> (install_error + seal_result)" where
  "SealGeneration pf clock ops si hooks fs =
     (case orelse (ValidateGenerationRel (si_generation_rel si) (si_generation si))
            (orelse (ParseTransactionID (si_transaction si)) (rejectReparse fs (si_root si))) of
        Some e \<Rightarrow> (fs, Inl e)
      | None \<Rightarrow>
     (case walkSealManifest pf fs (si_root si) of
        Inl e \<Rightarrow> (fs, Inl e)
      | Inr entries \<Rightarrow>
     (case sh_after_walk hooks fs of
        (fs1, Some e) \<Rightarrow> (fs1, Inl e)
      | (fs1, None) \<Rightarrow>
     (let manifestBytes = Doc (manifest_json \<lparr>mf_schema = manifestSchema, mf_entries = entries\<rparr>);
          manifestPath = si_root si @ [fileManifest];
          drop_manifest = (\<lambda>f e. (fst (remove f manifestPath), Inl e)) in
      case writeAtomicRecord ops fs1 manifestPath manifestBytes of
        (fs2, Some e) \<Rightarrow> (fs2, Inl e)
      | (fs2, None) \<Rightarrow>
     (case sh_after_manifest hooks fs2 of
        (fs3, Some e) \<Rightarrow> drop_manifest fs3 e
      | (fs3, None) \<Rightarrow>
     (case sh_before_generation hooks fs3 of
        (fs4, Some e) \<Rightarrow> drop_manifest fs4 e
      | (fs4, None) \<Rightarrow>
     (case seal_generation_file pf clock ops fs4 si manifestBytes of
        (fs5, Inl e) \<Rightarrow> (fs5, Inl e)
      | (fs5, Inr rec) \<Rightarrow>
     (case second_walk pf hooks fs5 (si_root si) entries of
        (fs6, Some e) \<Rightarrow> (fs6, Inl e)
      | (fs6, None) \<Rightarrow>
          (fs6, Inr \<lparr>sr_manifest_sha = gr_manifest_sha rec, sr_seal_sha = pf_sha pf (Doc (generation_json rec)),
                     sr_lineage = gr_lineage rec, sr_sealed_at = gr_sealed_at rec\<rparr>)))))))))"

subsection \<open>The active pointer (active\_pointer.go)\<close>

definition WriteActive :: "store \<Rightarrow> fs \<Rightarrow> active_record \<Rightarrow> fs \<times> install_error option" where
  "WriteActive st fs r =
     (case validateActiveRecord r of
        Some e \<Rightarrow> (fs, Some e)
      | None \<Rightarrow>
     (case EnsureControl st fs of
        (fs1, Some e) \<Rightarrow> (fs1, Some e)
      | (fs1, None) \<Rightarrow>
     (case ResolveContained st (ar_generation_rel r) of
        Inl e \<Rightarrow> (fs1, Some e)
      | Inr _ \<Rightarrow>
     (case marshal_active r of
        Inl e \<Rightarrow> (fs1, Some e)
      | Inr j \<Rightarrow> writeAtomicRecord (st_ops st) fs1 (ActivePath st) (Doc j)))))"

definition LoadActive :: "store \<Rightarrow> fs \<Rightarrow> install_error + active_record" where
  "LoadActive st fs =
     (case lstat fs (ActivePath st) of
        Inl e \<Rightarrow> Inl (if e = ErrNotExist then ErrNotFound else e)
      | Inr (File payload) \<Rightarrow>
          if pf_size (st_platform st) payload > maxActiveBytes then Inl ErrInvalidRecord
          else (case decode_doc unmarshal_active payload of
                  None \<Rightarrow> Inl ErrInvalidRecord
                | Some r \<Rightarrow> (case validateActiveRecord r of Some e \<Rightarrow> Inl e | None \<Rightarrow> Inr r))
      | Inr _ \<Rightarrow> Inl ErrInvalidRecord)"

definition ReadActive :: "store \<Rightarrow> fs \<Rightarrow> active_pointer" where
  "ReadActive st fs =
     (case LoadActive st fs of
        Inl e \<Rightarrow> if e = ErrNotFound then missing_pointer else invalid_pointer
      | Inr r \<Rightarrow>
          (case GenerationPath st (ar_generation r) of
             Inl _ \<Rightarrow> invalid_pointer
           | Inr gen \<Rightarrow>
               if VerifyPublishedGeneration (st_platform st) fs gen (ar_generation r)
                    (ar_manifest_sha r) (ar_seal_sha r) \<noteq> None
               then invalid_pointer
               else (let got = record_Observation r in if pointer_IsValid got then got else invalid_pointer)))"

subsection \<open>Candidate directories (generation.go)\<close>

definition writeCandidateRecord ::
  "atomic_ops \<Rightarrow> fs \<Rightarrow> path \<Rightarrow> transaction \<Rightarrow> fs \<times> install_error option" where
  "writeCandidateRecord ops fs root t =
     (case marshal_candidate (candidate_of t) of
        Inl e \<Rightarrow> (fs, Some e)
      | Inr j \<Rightarrow> writeAtomicRecord ops fs (root @ [fileCandidate]) (Doc j))"

definition readCandidateRecord :: "platform \<Rightarrow> fs \<Rightarrow> path \<Rightarrow> candidate_record option" where
  "readCandidateRecord pf fs root =
     (let p = root @ [fileCandidate] in
      case lstat fs p of
        Inr (File payload) \<Rightarrow>
          if pf_size pf payload > candidateRecordMaxBytes \<or> rejectReparse fs p \<noteq> None then None
          else (case decode_doc unmarshal_candidate payload of
                  None \<Rightarrow> None
                | Some r \<Rightarrow> if candidate_well_formed r then Some r else None)
      | _ \<Rightarrow> None)"

definition readGenerationFile :: "fs \<Rightarrow> path \<Rightarrow> generation_record option" where
  "readGenerationFile fs gen =
     (case read_file fs (gen @ [fileGeneration]) of
        Inl _ \<Rightarrow> None
      | Inr payload \<Rightarrow>
          (case decode_doc unmarshal_generation payload of
             None \<Rightarrow> None
           | Some r \<Rightarrow> if gr_generation r = [] then None else Some r))"

definition dirEmpty :: "fs \<Rightarrow> path \<Rightarrow> install_error + bool" where
  "dirEmpty fs p = (case read_dir fs p of Inl e \<Rightarrow> Inl e | Inr names \<Rightarrow> Inr (names = []))"

end
