(* ===== verification/Install_Env.thy ===== *)
theory Install_Env
  imports Install_Store
begin

text \<open>
  The user environment (install/environment.go and environment\_windows.go): the plan that makes
  HERMES\_HOME and PATH point at the active generation, and the registry it is applied to.
\<close>

record observed_environment =
  oe_home :: string
  oe_path :: "string list"

record environment_policy =
  ep_home :: string
  ep_bin :: string
  ep_removable :: "string list"
  ep_allow_remove :: bool

record environment_plan =
  pl_home :: string
  pl_set_home :: bool
  pl_path :: "string list"
  pl_path_changed :: bool
  pl_bin :: string

text \<open>The registry values HERMES\_HOME and Path of the user; a missing value reads as empty.\<close>

record registry =
  rg_home :: string
  rg_path :: string

text \<open>The injectable registry operations; \<open>None\<close> is a nil function.\<close>

record environment_store =
  es_read :: "(registry \<Rightarrow> install_error + observed_environment) option"
  es_write_home :: "(string \<Rightarrow> registry \<Rightarrow> registry \<times> install_error option) option"
  es_write_path :: "(string list \<Rightarrow> registry \<Rightarrow> registry \<times> install_error option) option"

definition expandEnvPath :: "platform \<Rightarrow> string \<Rightarrow> string" where
  "expandEnvPath pf s =
     (let local = TrimSpace (pf_local_app_data pf)
      in ReplaceAll (ReplaceAll s ''%LOCALAPPDATA%'' local) ''%LocalAppData%'' local)"

definition sameEnvPath :: "platform \<Rightarrow> string \<Rightarrow> string \<Rightarrow> bool" where
  "sameEnvPath pf a b \<longleftrightarrow> pf_clean pf (expandEnvPath pf a) = pf_clean pf (expandEnvPath pf b)"

definition isRemovableBin :: "platform \<Rightarrow> string \<Rightarrow> string list \<Rightarrow> bool" where
  "isRemovableBin pf entry removable \<longleftrightarrow> list_ex (sameEnvPath pf entry) removable"

definition pathHasDesiredPrefix :: "platform \<Rightarrow> string list \<Rightarrow> string \<Rightarrow> bool" where
  "pathHasDesiredPrefix pf entries desired =
     (case entries of [] \<Rightarrow> False | e # _ \<Rightarrow> sameEnvPath pf e desired)"

text \<open>\<open>stale\<close> is the condition of the first loop, which drops entries and notes that it did.\<close>

definition stale :: "platform \<Rightarrow> environment_policy \<Rightarrow> string \<Rightarrow> bool" where
  "stale pf p entry \<longleftrightarrow> ep_allow_remove p \<and> isRemovableBin pf entry (ep_removable p)"

definition ComputeEnvironmentPlan ::
  "platform \<Rightarrow> environment_policy \<Rightarrow> observed_environment \<Rightarrow> environment_plan" where
  "ComputeEnvironmentPlan pf p ob =
     (let set_home = (ep_home p \<noteq> [] \<and> \<not> sameEnvPath pf (oe_home ob) (ep_home p));
          kept = filter (\<lambda>e. \<not> stale pf p e) (oe_path ob);
          changed = list_ex (stale pf p) (oe_path ob);
          plan = (\<lambda>entries c. \<lparr>pl_home = ep_home p, pl_set_home = set_home, pl_path = entries,
                                pl_path_changed = c, pl_bin = ep_bin p\<rparr>)
      in if ep_bin p = [] then plan kept changed
         else if pathHasDesiredPrefix pf kept (ep_bin p) then plan kept changed
         else plan (ep_bin p # filter (\<lambda>e. \<not> sameEnvPath pf e (ep_bin p)) kept) True)"

definition plan_Observation ::
  "platform \<Rightarrow> environment_plan \<Rightarrow> observed_environment \<Rightarrow> environment_observation" where
  "plan_Observation pf pl ob =
     \<lparr>eo_home_ok = (pl_home pl = [] \<or> sameEnvPath pf (oe_home ob) (pl_home pl)),
      eo_path_ok = (pl_bin pl = [] \<or> pathHasDesiredPrefix pf (oe_path ob) (pl_bin pl))\<rparr>"

subsection \<open>The policy of the active generation\<close>

definition path_text :: "platform \<Rightarrow> path \<Rightarrow> string" where
  "path_text pf p = join_on (pf_separator pf) p"

definition RemovableBins :: "store \<Rightarrow> fs \<Rightarrow> string \<Rightarrow> string list" where
  "RemovableBins st fs activeGen =
     (case read_dir fs (GenerationsRoot st) of
        Inl _ \<Rightarrow> []
      | Inr names \<Rightarrow>
          map (\<lambda>n. path_text (st_platform st) (GenerationsRoot st @ [n, ''bin'']))
            (filter (\<lambda>n. is_dir fs (GenerationsRoot st @ [n]) \<and> ParseGenerationID n = None
                         \<and> n \<noteq> activeGen) names))"

definition PolicyFromActive ::
  "store \<Rightarrow> fs \<Rightarrow> active_record \<Rightarrow> bool \<Rightarrow> install_error + environment_policy" where
  "PolicyFromActive st fs r allowStale =
     bind_result (GenerationPath st (ar_generation r)) (\<lambda>gen.
       case VerifySealedTree (st_platform st) fs gen (ar_generation r) (ar_manifest_sha r) (ar_seal_sha r) of
         Some e \<Rightarrow> Inl e
       | None \<Rightarrow>
           Inr \<lparr>ep_home = path_text (st_platform st) (st_root st),
                ep_bin = path_text (st_platform st) (gen @ [''bin'']),
                ep_removable = RemovableBins st fs (ar_generation r),
                ep_allow_remove = allowStale\<rparr>)"

subsection \<open>The Windows registry (environment\_windows.go)\<close>

definition readUserEnvironment :: "platform \<Rightarrow> registry \<Rightarrow> install_error + observed_environment" where
  "readUserEnvironment pf rg =
     Inr \<lparr>oe_home = rg_home rg,
          oe_path = (if TrimSpace (rg_path rg) \<noteq> [] then split_on (pf_list_separator pf) (rg_path rg) else [])\<rparr>"

definition writeUserHermesHome :: "string \<Rightarrow> registry \<Rightarrow> registry \<times> install_error option" where
  "writeUserHermesHome home rg = (rg\<lparr>rg_home := home\<rparr>, None)"

definition writeUserPath :: "platform \<Rightarrow> string list \<Rightarrow> registry \<Rightarrow> registry \<times> install_error option" where
  "writeUserPath pf entries rg = (rg\<lparr>rg_path := join_on (pf_list_separator pf) entries\<rparr>, None)"

definition defaultEnvironmentStore :: "platform \<Rightarrow> environment_store" where
  "defaultEnvironmentStore pf =
     \<lparr>es_read = Some (readUserEnvironment pf), es_write_home = Some writeUserHermesHome,
      es_write_path = Some (writeUserPath pf)\<rparr>"

subsection \<open>Properties of the plan\<close>

text \<open>What the environment looks like once a plan has been written.\<close>

definition apply_plan :: "environment_plan \<Rightarrow> observed_environment \<Rightarrow> observed_environment" where
  "apply_plan pl ob =
     \<lparr>oe_home = (if pl_set_home pl then pl_home pl else oe_home ob),
      oe_path = (if pl_path_changed pl then pl_path pl else oe_path ob)\<rparr>"

lemma sameEnvPath_equiv [simp]: "sameEnvPath pf a a"
  by (simp add: sameEnvPath_def)

lemma isRemovableBin_same: "sameEnvPath pf a b \<Longrightarrow> isRemovableBin pf a bins = isRemovableBin pf b bins"
  unfolding isRemovableBin_def list_ex_iff sameEnvPath_def by simp

lemma filter_none: "\<not> list_ex P xs \<Longrightarrow> filter (\<lambda>x. \<not> P x) xs = xs"
  by (induction xs) auto

lemma settled_plan:
  assumes "\<not> list_ex (stale pf p) (oe_path ob)"
    and "ep_bin p = [] \<or> pathHasDesiredPrefix pf (oe_path ob) (ep_bin p)"
    and "ep_home p = [] \<or> sameEnvPath pf (oe_home ob) (ep_home p)"
  shows "\<not> pl_set_home (ComputeEnvironmentPlan pf p ob) \<and> \<not> pl_path_changed (ComputeEnvironmentPlan pf p ob)"
  using assms unfolding ComputeEnvironmentPlan_def Let_def filter_none [OF assms(1)] by auto

lemma plan_fields [simp]:
  "pl_home (ComputeEnvironmentPlan pf p ob) = ep_home p"
  "pl_bin (ComputeEnvironmentPlan pf p ob) = ep_bin p"
  "pl_set_home (ComputeEnvironmentPlan pf p ob) \<longleftrightarrow>
     ep_home p \<noteq> [] \<and> \<not> sameEnvPath pf (oe_home ob) (ep_home p)"
  by (simp_all add: ComputeEnvironmentPlan_def Let_def)

text \<open>
  The environment plan is sound, minimal and idempotent: once it has been applied, the
  environment is observed as complete and a new plan changes nothing; and every PATH entry that
  is neither stale nor another spelling of the desired directory is kept, in its order. The
  desired directory is not itself removable, as \<open>RemovableBins\<close> leaves the active generation out.
\<close>

theorem environment_plan_converges:
  assumes "\<not> isRemovableBin pf (ep_bin p) (ep_removable p)"
  shows "let plan = ComputeEnvironmentPlan pf p ob; ob' = apply_plan plan ob;
             again = ComputeEnvironmentPlan pf p ob'
    in env_Complete (plan_Observation pf plan ob') \<and> \<not> pl_set_home again \<and> \<not> pl_path_changed again
       \<and> filter (\<lambda>e. \<not> stale pf p e \<and> \<not> sameEnvPath pf e (ep_bin p)) (oe_path ob')
           = filter (\<lambda>e. \<not> stale pf p e \<and> \<not> sameEnvPath pf e (ep_bin p)) (oe_path ob)"
proof -
  define kept where "kept = filter (\<lambda>e. \<not> stale pf p e) (oe_path ob)"
  define rest where "rest = filter (\<lambda>e. \<not> sameEnvPath pf e (ep_bin p)) kept"
  define ob' where "ob' = apply_plan (ComputeEnvironmentPlan pf p ob) ob"
  have desired: "\<not> stale pf p (ep_bin p)" using assms by (simp add: stale_def)
  have home: "ep_home p = [] \<or> sameEnvPath pf (oe_home ob') (ep_home p)"
    by (auto simp: ob'_def apply_plan_def)
  let ?settled = "ep_bin p = [] \<or> pathHasDesiredPrefix pf kept (ep_bin p)"
  have path: "oe_path ob' = (if ?settled then kept else ep_bin p # rest)"
  proof (cases ?settled)
    case True
    then have "pl_path (ComputeEnvironmentPlan pf p ob) = kept"
      "pl_path_changed (ComputeEnvironmentPlan pf p ob) = list_ex (stale pf p) (oe_path ob)"
      by (auto simp: ComputeEnvironmentPlan_def Let_def kept_def)
    then show ?thesis
      using True filter_none [of "stale pf p" "oe_path ob"] by (simp add: ob'_def apply_plan_def kept_def)
  next
    case False
    then have "pl_path (ComputeEnvironmentPlan pf p ob) = ep_bin p # rest"
      "pl_path_changed (ComputeEnvironmentPlan pf p ob)"
      by (auto simp: ComputeEnvironmentPlan_def Let_def kept_def rest_def)
    with False show ?thesis by (simp add: ob'_def apply_plan_def)
  qed
  have clean: "\<not> list_ex (stale pf p) (oe_path ob')"
    unfolding path using desired by (auto simp: kept_def rest_def list_ex_iff)
  have front: "ep_bin p = [] \<or> pathHasDesiredPrefix pf (oe_path ob') (ep_bin p)"
    unfolding path by (auto simp: pathHasDesiredPrefix_def)
  have order: "filter (\<lambda>e. \<not> stale pf p e \<and> \<not> sameEnvPath pf e (ep_bin p)) (oe_path ob')
           = filter (\<lambda>e. \<not> stale pf p e \<and> \<not> sameEnvPath pf e (ep_bin p)) (oe_path ob)"
    unfolding path by (auto simp: kept_def rest_def intro!: filter_cong)
  show ?thesis
    using settled_plan [OF clean front home] home front order
    unfolding Let_def ob'_def [symmetric] by (simp add: plan_Observation_def env_Complete_def)
qed

text \<open>A concrete environment: a stale generation first, the desired directory later.\<close>

definition sample_env_platform :: platform where
  "sample_env_platform =
     \<lparr>pf_sha = (\<lambda>_. []), pf_size = (\<lambda>_. 0), pf_lineage = None, pf_local_app_data = ''/l'',
      pf_clean = path_clean, pf_separator = CHR ''/'', pf_list_separator = CHR '':''\<rparr>"

definition sample_policy :: environment_policy where
  "sample_policy =
     \<lparr>ep_home = ''/r'', ep_bin = ''/r/b/bin'', ep_removable = [''/r/a/bin''], ep_allow_remove = True\<rparr>"

definition sample_observed :: observed_environment where
  "sample_observed = \<lparr>oe_home = [], oe_path = [''/r/a/./bin'', ''/usr/bin'', ''/r/b/bin/'']\<rparr>"

theorem environment_plan_converges_witness:
  "oe_path (apply_plan (ComputeEnvironmentPlan sample_env_platform sample_policy sample_observed) sample_observed)
     = [''/r/b/bin'', ''/usr/bin'']
   \<and> env_Complete (plan_Observation sample_env_platform
       (ComputeEnvironmentPlan sample_env_platform sample_policy sample_observed)
       (apply_plan (ComputeEnvironmentPlan sample_env_platform sample_policy sample_observed) sample_observed))"
proof -
  have "\<not> isRemovableBin sample_env_platform (ep_bin sample_policy) (ep_removable sample_policy)"
    by code_simp
  moreover have "oe_path (apply_plan (ComputeEnvironmentPlan sample_env_platform sample_policy sample_observed)
      sample_observed) = [''/r/b/bin'', ''/usr/bin'']"
    by code_simp
  ultimately show ?thesis
    using environment_plan_converges [of sample_env_platform sample_policy sample_observed]
    by (simp add: Let_def)
qed

end
