(* ===== verification/Install_Store_Properties.thy ===== *)
theory Install_Store_Properties
  imports Install_Store
begin

text \<open>
  What the install store guarantees: identifiers resolve inside the managed root, a saved
  transaction reads back with the next revision and disturbs nothing else, saving is a
  compare-and-swap on the revision, a seal detects every later change of the tree, and the
  active pointer is only valid for an intact sealed generation.
\<close>

subsection \<open>Identifiers resolve to one place under the root\<close>

definition safe_part :: "string \<Rightarrow> bool" where
  "safe_part c \<longleftrightarrow> c \<noteq> [] \<and> c \<noteq> ''.'' \<and> c \<noteq> ''..''
     \<and> CHR ''/'' \<notin> set c \<and> CHR '':'' \<notin> set c \<and> CHR 0x5C \<notin> set c \<and> CHR 0x00 \<notin> set c"

lemma set_join_on: "set (join_on d ps) \<subseteq> insert d (\<Union>p \<in> set ps. set p)"
  by (induction d ps rule: join_on.induct) auto

lemma join_on_head: "ps \<noteq> [] \<Longrightarrow> hd ps \<noteq> [] \<Longrightarrow> join_on d ps \<noteq> [] \<and> hd (join_on d ps) = hd (hd ps)"
  by (cases "(d, ps)" rule: join_on.cases) auto

lemma safe_join:
  assumes "ps \<noteq> []" and "\<forall>p \<in> set ps. safe_part p"
  shows "rejectUnsafeRel (join_on CHR ''/'' ps) = None" and "split_on CHR ''/'' (join_on CHR ''/'' ps) = ps"
proof -
  let ?s = "join_on CHR ''/'' ps"
  have split: "split_on CHR ''/'' ?s = ps"
    using assms by (intro split_join) (auto simp: safe_part_def)
  then show "split_on CHR ''/'' ?s = ps" .
  have "safe_part (hd ps)" using assms by simp
  then have "hd ps \<noteq> []" "hd (hd ps) \<in> set (hd ps)" "CHR ''/'' \<notin> set (hd ps)" "CHR 0x5C \<notin> set (hd ps)"
    by (auto simp: safe_part_def)
  with join_on_head [OF assms(1), of "CHR ''/''"]
  have head: "?s \<noteq> []" "hd ?s \<noteq> CHR ''/''" "hd ?s \<noteq> CHR 0x5C" by metis+
  have "CHR '':'' \<notin> set ?s" "CHR 0x5C \<notin> set ?s" "CHR 0x00 \<notin> set ?s"
    using set_join_on [of "CHR ''/''" ps] assms(2) by (auto simp: safe_part_def)
  moreover from this(1) have "\<not> (length ?s \<ge> 2 \<and> ?s ! 1 = CHR '':'')"
    by (metis One_nat_def Suc_1 Suc_le_lessD nth_mem)
  moreover have "\<not> HasPrefix ?s ''/''" "\<not> HasPrefix ?s [CHR 0x5C]"
    using head by (auto simp: HasPrefix_iff)
  moreover have "\<not> (\<exists>part \<in> set ps. part = [] \<or> part = ''.'' \<or> part = ''..'')"
    using assms(2) by (auto simp: safe_part_def)
  ultimately show "rejectUnsafeRel ?s = None"
    using head split unfolding rejectUnsafeRel_def by (auto simp: ContainsAny_def)
qed

lemma safe_dirs [simp]:
  "safe_part dirControl" "safe_part dirTransactions" "safe_part dirStaging" "safe_part dirFailed"
  "safe_part dirGenerations" "safe_part fileActive"
  by code_simp+

lemma safe_id:
  assumes "parseClosedID i prefix = None" and "safe_part (prefix @ ''a'')"
    and "set ext \<subseteq> set ''.json''"
  shows "safe_part (i @ ext)"
proof -
  from assms(1) obtain body where b: "i = prefix @ body" "length body = idBodyLen"
      "set body \<subseteq> set idAlphabet"
    by (auto simp: parseClosedID_None)
  then have "length (i @ ext) > 2" by (simp add: idBodyLen_def)
  then have "i @ ext \<notin> {[], ''.'', ''..''}" by fastforce
  then have "i @ ext \<noteq> []" "i @ ext \<noteq> ''.''" "i @ ext \<noteq> ''..''" by simp_all
  moreover have "CHR ''/'' \<notin> set (i @ ext)" "CHR '':'' \<notin> set (i @ ext)"
      "CHR 0x5C \<notin> set (i @ ext)" "CHR 0x00 \<notin> set (i @ ext)"
    using alphabet_no_sep [OF b(3)] assms(2,3) b(1) by (auto simp: safe_part_def)
  ultimately show ?thesis by (simp add: safe_part_def)
qed

lemma safe_txn: "ParseTransactionID i = None \<Longrightarrow> safe_part i"
  using safe_id [of i txnPrefix "[]"] by (simp add: ParseTransactionID_def txnPrefix_def safe_part_def)

lemma safe_gen: "ParseGenerationID i = None \<Longrightarrow> safe_part i"
  using safe_id [of i genPrefix "[]"] by (simp add: ParseGenerationID_def genPrefix_def safe_part_def)

lemma safe_txn_file: "ParseTransactionID i = None \<Longrightarrow> safe_part (transactionFileName i)"
  using safe_id [of i txnPrefix "''.json''"]
  by (simp add: ParseTransactionID_def transactionFileName_def txnFileSuffix_def txnPrefix_def safe_part_def)

lemma resolve_parts:
  assumes "ps \<noteq> []" and "\<forall>p \<in> set ps. safe_part p"
  shows "ResolveContained st (join_on CHR ''/'' ps) = Inr (st_root st @ ps)"
  using safe_join [OF assms] by (simp add: ResolveContained_def)

lemma TransactionPath_ok:
  assumes "ParseTransactionID i = None"
  shows "TransactionPath st i = Inr (TransactionsDir st @ [transactionFileName i])"
  using resolve_parts [of "[dirControl, dirTransactions, transactionFileName i]" st] assms safe_txn_file
  by (simp add: TransactionPath_def TransactionsDir_def ControlDir_def)

lemma StagingPath_ok:
  assumes "ParseTransactionID i = None"
  shows "StagingPath st i = Inr (StagingRoot st @ [i])"
  using resolve_parts [of "[dirStaging, i]" st] assms safe_txn
  by (simp add: StagingPath_def StagingRoot_def StagingRel_def)

lemma FailedPath_ok:
  assumes "ParseTransactionID i = None"
  shows "FailedPath st i = Inr (FailedRoot st @ [i])"
  using resolve_parts [of "[dirFailed, i]" st] assms safe_txn
  by (simp add: FailedPath_def FailedRoot_def)

lemma GenerationPath_ok:
  assumes "ParseGenerationID i = None"
  shows "GenerationPath st i = Inr (GenerationsRoot st @ [i])"
  using resolve_parts [of "[dirGenerations, i]" st] assms safe_gen
  by (simp add: GenerationPath_def GenerationsRoot_def GenerationRel_def)

lemma TransactionPath_Inr:
  "TransactionPath st i = Inr p \<longleftrightarrow> ParseTransactionID i = None \<and> p = TransactionsDir st @ [transactionFileName i]"
  by (cases "ParseTransactionID i") (auto simp: TransactionPath_ok, auto simp: TransactionPath_def)

lemma GenerationPath_Inr:
  "GenerationPath st i = Inr p \<longleftrightarrow> ParseGenerationID i = None \<and> p = GenerationsRoot st @ [i]"
  by (cases "ParseGenerationID i") (auto simp: GenerationPath_ok, auto simp: GenerationPath_def)

lemma StagingPath_Inr:
  "StagingPath st i = Inr p \<longleftrightarrow> ParseTransactionID i = None \<and> p = StagingRoot st @ [i]"
  by (cases "ParseTransactionID i") (auto simp: StagingPath_ok, auto simp: StagingPath_def)

lemma FailedPath_Inr:
  "FailedPath st i = Inr p \<longleftrightarrow> ParseTransactionID i = None \<and> p = FailedRoot st @ [i]"
  by (cases "ParseTransactionID i") (auto simp: FailedPath_ok, auto simp: FailedPath_def)

text \<open>
  No relative path that the store resolves leaves the managed root: the result is the root
  followed by the path's own components, none of which is empty, \<open>.\<close> or \<open>..\<close>, or contains a
  separator, whatever string is given; and a path made from an identifier resolves exactly when
  the identifier is well formed, to that one entry of its own directory.
\<close>

theorem resolved_paths_are_contained:
  "(ResolveContained st rel = Inr p \<longleftrightarrow>
      rejectUnsafeRel rel = None \<and> p = st_root st @ split_on CHR ''/'' rel
      \<and> (\<forall>c \<in> set (split_on CHR ''/'' rel). c \<noteq> [] \<and> c \<noteq> ''.'' \<and> c \<noteq> ''..'' \<and> CHR ''/'' \<notin> set c))
   \<and> (TransactionPath st i = Inr q
       \<longleftrightarrow> ParseTransactionID i = None \<and> q = TransactionsDir st @ [transactionFileName i])
   \<and> (StagingPath st i = Inr q \<longleftrightarrow> ParseTransactionID i = None \<and> q = StagingRoot st @ [i])
   \<and> (FailedPath st i = Inr q \<longleftrightarrow> ParseTransactionID i = None \<and> q = FailedRoot st @ [i])
   \<and> (GenerationPath st i = Inr q \<longleftrightarrow> ParseGenerationID i = None \<and> q = GenerationsRoot st @ [i])"
proof -
  have "\<forall>c \<in> set (split_on CHR ''/'' rel). c \<noteq> [] \<and> c \<noteq> ''.'' \<and> c \<noteq> ''..'' \<and> CHR ''/'' \<notin> set c"
    if "rejectUnsafeRel rel = None"
    using that split_on_no_sep by (auto simp: rejectUnsafeRel_def)
  then have "ResolveContained st rel = Inr p \<longleftrightarrow>
      rejectUnsafeRel rel = None \<and> p = st_root st @ split_on CHR ''/'' rel
      \<and> (\<forall>c \<in> set (split_on CHR ''/'' rel). c \<noteq> [] \<and> c \<noteq> ''.'' \<and> c \<noteq> ''..'' \<and> CHR ''/'' \<notin> set c)"
    by (cases "rejectUnsafeRel rel") (auto simp: ResolveContained_def)
  then show ?thesis
    by (simp only: TransactionPath_Inr StagingPath_Inr FailedPath_Inr GenerationPath_Inr simp_thms)
qed

subsection \<open>Reading through directories\<close>

lemma dir_prefix: "fs_ok fs \<Longrightarrow> is_dir fs (p @ q) \<Longrightarrow> is_dir fs p"
  using absent_below [of fs p "p @ q"] by (cases "q = []") (auto simp: is_dir_iff)

lemma lstat_in_dir:
  assumes "fs_ok fs" and "is_dir fs p"
  shows "lstat fs (p @ [c]) = (case map_of fs (p @ [c]) of Some n \<Rightarrow> Inr n | None \<Rightarrow> Inl ErrNotExist)"
proof -
  have "\<not> beyond_file fs (p @ [c])"
  proof
    assume "beyond_file fs (p @ [c])"
    then obtain i where i: "1 \<le> i" "i \<le> length p"
        "(case map_of fs (take i (p @ [c])) of Some Dir \<Rightarrow> False | None \<Rightarrow> False | _ \<Rightarrow> True)"
      by (auto simp: beyond_file_def list_ex_iff)
    moreover have "is_dir fs (take i p)"
      using dir_prefix [OF assms(1), of "take i p" "drop i p"] assms(2) by simp
    moreover from i(1,2) have "take i p \<noteq> []" by auto
    ultimately show False by (simp add: is_dir_iff)
  qed
  then show ?thesis by (simp add: lstat_def split: option.splits)
qed

lemma mkdir_all_lstat:
  assumes ok: "fs_ok fs" and mk: "mkdir_all fs p = (fs', None)"
  shows "lstat fs (p @ [c]) = lstat fs' (p @ [c])"
proof -
  have ok': "fs_ok fs'" using fs_ok_mkdir_all [OF ok, of p] mk by simp
  have dir: "is_dir fs' p" using mkdir_all_dir [OF mk] .
  have same: "map_of fs (p @ [c]) = map_of fs' (p @ [c])"
    using mkdir_all_new [OF mk, of "p @ [c]"] is_under_length [of "p @ [c]" p] by force
  have "\<not> beyond_file fs (p @ [c])"
  proof
    assume "beyond_file fs (p @ [c])"
    then obtain i where i: "1 \<le> i" "i \<le> length p"
        "(case map_of fs (take i (p @ [c])) of Some Dir \<Rightarrow> False | None \<Rightarrow> False | _ \<Rightarrow> True)"
      by (auto simp: beyond_file_def list_ex_iff)
    then obtain n where n: "map_of fs (take i p) = Some n" "n \<noteq> Dir"
      by (cases "map_of fs (take i p)") (auto split: node.splits)
    then have "map_of fs' (take i p) = Some n" using mkdir_all_frame [OF mk, of "take i p"] by simp
    moreover have "is_dir fs' (take i p)"
      using dir_prefix [OF ok', of "take i p" "drop i p"] dir by simp
    moreover from i(1,2) have "take i p \<noteq> []" by auto
    ultimately show False using n by (simp add: is_dir_iff)
  qed
  then show ?thesis
    unfolding lstat_in_dir [OF ok' dir] same [symmetric] by (simp add: lstat_def split: option.splits)
qed

lemma read_file_cong: "lstat fs p = lstat fs' p \<Longrightarrow> read_file fs p = read_file fs' p"
  by (simp add: read_file_def)

lemma read_file_in_dir:
  assumes "fs_ok fs" and "is_dir fs p"
  shows "read_file fs (p @ [c]) =
    (case map_of fs (p @ [c]) of
       None \<Rightarrow> Inl ErrNotExist | Some (File b) \<Rightarrow> Inr b | Some (Link (Some b)) \<Rightarrow> Inr b | Some _ \<Rightarrow> Inl ErrOS)"
  unfolding read_file_def lstat_in_dir [OF assms] by (simp split: option.splits node.splits)

subsection \<open>Saving a transaction\<close>

lemma EnsureControl_cases:
  assumes "EnsureControl st fs = (fs', r)" and ok: "fs_ok fs"
  shows "fs_ok fs' \<and> (\<forall>q. map_of fs' q = map_of fs q \<or>
      (map_of fs q = None \<and> map_of fs' q = Some Dir \<and> is_under q (TransactionsDir st)))
    \<and> (r = None \<longrightarrow> is_dir fs' (TransactionsDir st)
        \<and> (\<forall>c. lstat fs (TransactionsDir st @ [c]) = lstat fs' (TransactionsDir st @ [c])))"
proof (cases "rejectReparse fs (st_root st)")
  case (Some e)
  with assms show ?thesis by (auto simp: EnsureControl_def)
next
  case None
  obtain fs1 e1 where mk: "mkdir_all fs (TransactionsDir st) = (fs1, e1)" by (meson surj_pair)
  have fs': "fs' = fs1" "r = None \<longrightarrow> e1 = None"
    using assms(1) None mk by (auto simp: EnsureControl_def split: option.splits)
  have "fs_ok fs1" using fs_ok_mkdir_all [OF ok, of "TransactionsDir st"] mk by simp
  moreover have "map_of fs1 q = map_of fs q \<or>
      (map_of fs q = None \<and> map_of fs1 q = Some Dir \<and> is_under q (TransactionsDir st))" for q
    using mkdir_all_new [OF mk, of q] mkdir_all_frame [OF mk, of q] by metis
  moreover have "is_dir fs1 (TransactionsDir st)
        \<and> (\<forall>c. lstat fs (TransactionsDir st @ [c]) = lstat fs1 (TransactionsDir st @ [c]))" if "r = None"
    using mkdir_all_dir mkdir_all_lstat [OF ok] mk fs'(2) that by metis
  ultimately show ?thesis using fs' by metis
qed

lemma LoadTransaction_cong:
  assumes "\<And>c. lstat fs (TransactionsDir st @ [c]) = lstat fs' (TransactionsDir st @ [c])"
  shows "LoadTransaction st fs i = LoadTransaction st fs' i"
proof (cases "TransactionPath st i")
  case (Inr p)
  then have "read_file fs p = read_file fs' p"
    using assms by (auto simp: TransactionPath_Inr intro: read_file_cong)
  with Inr show ?thesis by (simp add: LoadTransaction_def)
qed (simp add: LoadTransaction_def)

lemma transactionFileName_inj: "transactionFileName i = transactionFileName j \<longleftrightarrow> i = j"
  by (simp add: transactionFileName_def)

lemma txn_file_not_temp:
  assumes "ParseTransactionID i = None"
  shows "\<not> HasPrefix (transactionFileName i) atom_prefix"
proof -
  obtain body where "i = txnPrefix @ body"
    using assms by (auto simp: ParseTransactionID_def parseClosedID_None)
  then show ?thesis
    by (auto simp: HasPrefix_iff transactionFileName_def txnPrefix_def atom_prefix_def)
qed

lemma validate_before_revision [simp]:
  "validate_before (t\<lparr>tx_revision := r\<rparr>) = validate_before t"
  by (cases "tx_before_kind t") (simp_all add: validate_before_def)

lemma validate_update_revision [simp]:
  "validateTransaction (t\<lparr>tx_revision := r\<rparr>) = validateTransaction t"
  by (simp add: validateTransaction_def)

lemma transaction_text_revision [simp]:
  "transaction_text (t\<lparr>tx_revision := r\<rparr>) = transaction_text t"
  by (simp add: transaction_text_def)

lemma marshal_Inr: "marshal_transaction t = Inr j \<Longrightarrow> j = transaction_json t"
  by (simp add: marshal_transaction_def split: if_splits)

lemma save_success:
  assumes ok: "fs_ok fs" and utf: "transaction_text t"
    and save: "SaveTransaction st fs t = (fs', None)"
  shows "fs_ok fs'"
    and "expected_revision (LoadTransaction st fs (tx_id t)) = Inr (tx_revision t)"
    and "LoadTransaction st fs' i =
      (if i = tx_id t then Inr (t\<lparr>tx_revision := tx_revision t + 1\<rparr>) else LoadTransaction st fs i)"
    and "\<forall>q. q \<noteq> TransactionsDir st @ [transactionFileName (tx_id t)] \<longrightarrow>
      map_of fs' q = map_of fs q \<or> (map_of fs q = None \<and> map_of fs' q = Some Dir)"
proof -
  define dest where "dest = TransactionsDir st @ [transactionFileName (tx_id t)]"
  from save have val: "validateTransaction t = None"
    by (auto simp: SaveTransaction_def split: option.splits)
  then have tid: "ParseTransactionID (tx_id t) = None" by (simp add: validateTransaction_def)
  from save val obtain fs1 where ens: "EnsureControl st fs = (fs1, None)"
    by (auto simp: SaveTransaction_def split: prod.splits option.splits)
  from EnsureControl_cases [OF ens ok]
  have ok1: "fs_ok fs1" and dir1: "is_dir fs1 (TransactionsDir st)"
    and same1: "\<And>c. lstat fs (TransactionsDir st @ [c]) = lstat fs1 (TransactionsDir st @ [c])"
    and new1: "\<And>q. map_of fs1 q = map_of fs q \<or> (map_of fs q = None \<and> map_of fs1 q = Some Dir)"
    by auto
  have load1: "LoadTransaction st fs1 i = LoadTransaction st fs i" for i
    using LoadTransaction_cong [OF same1] by simp
  from save val ens tid obtain expected where
      ex: "expected_revision (LoadTransaction st fs1 (tx_id t)) = Inr expected"
      "tx_revision t = expected"
      "\<exists>j. marshal_transaction (t\<lparr>tx_revision := expected + 1\<rparr>) = Inr j
         \<and> writeAtomicRecord (st_ops st) fs1 dest (Doc j) = (fs', None)"
    by (auto simp: SaveTransaction_def TransactionPath_ok dest_def split: sum.splits if_splits)
  then show "expected_revision (LoadTransaction st fs (tx_id t)) = Inr (tx_revision t)"
    by (simp add: load1)
  define t' where "t' = t\<lparr>tx_revision := tx_revision t + 1\<rparr>"
  from ex have wr: "writeAtomicRecord (st_ops st) fs1 dest (Doc (transaction_json t')) = (fs', None)"
    by (auto simp: t'_def dest: marshal_Inr)
  have "map_of fs1 dest \<noteq> Some Dir"
  proof
    assume "map_of fs1 dest = Some Dir"
    then have "read_file fs1 dest = Inl ErrOS"
      unfolding dest_def read_file_in_dir [OF ok1 dir1] by simp
    with ex(1) show False
      by (simp add: LoadTransaction_def TransactionPath_ok [OF tid] dest_def [symmetric] expected_revision_def)
  qed
  moreover have "\<not> HasPrefix (last dest) atom_prefix"
    using txn_file_not_temp [OF tid] by (simp add: dest_def)
  ultimately have wrote: "fs_ok fs'" "map_of fs' = (map_of fs1)(dest \<mapsto> File (Doc (transaction_json t')))"
    using writeAtomicRecord_success [OF ok1 _ _ _ wr] by (auto simp: dest_def)
  then show "fs_ok fs'" by simp
  have dir': "is_dir fs' (TransactionsDir st)"
    using fs_okD(3) [OF wrote(1), of dest] wrote(2) by (simp add: dest_def)
  show "LoadTransaction st fs' i =
      (if i = tx_id t then Inr (t\<lparr>tx_revision := tx_revision t + 1\<rparr>) else LoadTransaction st fs i)"
  proof (cases "i = tx_id t")
    case True
    have "read_file fs' dest = Inr (Doc (transaction_json t'))"
      unfolding dest_def read_file_in_dir [OF wrote(1) dir'] using wrote(2) by (simp add: dest_def)
    moreover have "unmarshal_transaction (transaction_json t') = Some t'"
      using transaction_roundtrip utf by (simp add: t'_def)
    ultimately show ?thesis
      using True tid val
      by (simp add: LoadTransaction_def TransactionPath_ok dest_def [symmetric] decodeTransaction_def t'_def)
  next
    case False
    show ?thesis
    proof (cases "ParseTransactionID i")
      case None
      have "read_file fs' (TransactionsDir st @ [transactionFileName i])
          = read_file fs1 (TransactionsDir st @ [transactionFileName i])"
        unfolding read_file_in_dir [OF wrote(1) dir'] read_file_in_dir [OF ok1 dir1] wrote(2)
        using False by (simp add: dest_def transactionFileName_inj)
      with None False show ?thesis
        unfolding load1 [of i, symmetric] by (simp add: LoadTransaction_def TransactionPath_ok)
    qed (use False in \<open>simp add: LoadTransaction_def TransactionPath_def\<close>)
  qed
  show "\<forall>q. q \<noteq> TransactionsDir st @ [transactionFileName (tx_id t)] \<longrightarrow>
      map_of fs' q = map_of fs q \<or> (map_of fs q = None \<and> map_of fs' q = Some Dir)"
    using wrote(2) new1 by (auto simp: dest_def)
qed

subsection \<open>Failed saves\<close>

lemma mkdir_parts_blocked:
  "mkdir_parts fs base cs = (fs', Some e) \<Longrightarrow> fs_ok fs \<Longrightarrow> is_dir fs base \<Longrightarrow>
     \<exists>i n. 0 < i \<and> i \<le> length cs \<and> map_of fs (base @ take i cs) = Some n
       \<and> map_of fs' (base @ take i cs) = Some n \<and> n \<noteq> Dir"
proof (induction fs base cs rule: mkdir_parts.induct)
  case (2 fs base c cs)
  have shift: "\<exists>i n. 0 < i \<and> i \<le> length (c # cs) \<and> map_of fs (base @ take i (c # cs)) = Some n
       \<and> map_of fs' (base @ take i (c # cs)) = Some n \<and> n \<noteq> Dir"
    if "\<exists>i n. 0 < i \<and> i \<le> length cs \<and> map_of f (base @ [c] @ take i cs) = Some n
       \<and> map_of fs' (base @ [c] @ take i cs) = Some n \<and> n \<noteq> Dir"
      and "f = fs \<or> f = put (base @ [c]) Dir fs" for f
  proof -
    from that(1) obtain i n where i: "0 < i" "i \<le> length cs" "map_of f (base @ [c] @ take i cs) = Some n"
        "map_of fs' (base @ [c] @ take i cs) = Some n" "n \<noteq> Dir" by blast
    moreover from i(1,2) have "take i cs \<noteq> []" by auto
    ultimately have "map_of fs (base @ take (Suc i) (c # cs)) = Some n"
      using that(2) by (auto simp: map_of_put)
    with i show ?thesis by (intro exI [of _ "Suc i"] exI [of _ n]) simp
  qed
  note look = lstat_in_dir [OF 2(4,5), of c]
  show ?case
  proof (cases "map_of fs (base @ [c])")
    case None
    then have "lstat fs (base @ [c]) = Inl ErrNotExist" by (simp add: look)
    moreover have "fs_ok (put (base @ [c]) Dir fs)" "is_dir (put (base @ [c]) Dir fs) (base @ [c])"
      using 2(4,5) by (auto intro!: fs_ok_put simp: is_dir_iff map_of_put)
    ultimately show ?thesis using 2(1,3) shift [of "put (base @ [c]) Dir fs"] by simp
  next
    case (Some n)
    then have l: "lstat fs (base @ [c]) = Inr n" by (simp add: look)
    show ?thesis
    proof (cases "n = Dir")
      case True
      then have "is_dir fs (base @ [c])" using l by (simp add: is_dir_def)
      then show ?thesis using 2(2) [OF l True] 2(3,4) l True shift [of fs] by simp
    next
      case False
      with l 2(3) have "fs' = fs" by (cases n) auto
      with Some False show ?thesis by (intro exI [of _ 1] exI [of _ n]) simp
    qed
  qed
qed simp

lemma lstat_blocked:
  assumes "fs_ok fs" and "0 < i" and "i \<le> length p" and "map_of fs (take i p) = Some n" and "n \<noteq> Dir"
  shows "lstat fs (p @ [c]) = Inl ErrOS"
proof -
  have "beyond_file fs (p @ [c])"
    using assms(2-5) unfolding beyond_file_def list_ex_iff
    by (intro bexI [of _ i]) (auto split: node.splits)
  moreover have "map_of fs (p @ [c]) = None"
  proof (rule absent_below [OF assms(1)])
    show "take i p \<noteq> []" using assms(2,3) by auto
    show "map_of fs (take i p) \<noteq> Some Dir" using assms(4,5) by simp
    have "p @ [c] = take i p @ (drop i p @ [c])" by simp
    then show "is_under (take i p) (p @ [c])" unfolding is_under_iff by blast
    have "length (p @ [c]) \<noteq> length (take i p)" by simp
    then show "p @ [c] \<noteq> take i p" by metis
  qed
  ultimately show ?thesis by (simp add: lstat_def)
qed

lemma EnsureControl_lstat:
  assumes ens: "EnsureControl st fs = (fs', r)" and ok: "fs_ok fs"
  shows "lstat fs (TransactionsDir st @ [c]) = lstat fs' (TransactionsDir st @ [c])"
proof (cases "rejectReparse fs (st_root st)")
  case (Some e)
  with ens show ?thesis by (auto simp: EnsureControl_def)
next
  case None
  obtain fs1 e1 where mk: "mkdir_all fs (TransactionsDir st) = (fs1, e1)" by (meson surj_pair)
  have fs': "fs' = fs1"
    using ens None mk by (auto simp: EnsureControl_def split: option.splits)
  have ok1: "fs_ok fs1" using fs_ok_mkdir_all [OF ok, of "TransactionsDir st"] mk by simp
  show ?thesis
  proof (cases e1)
    case None
    with mkdir_all_lstat [OF ok] mk fs' show ?thesis by simp
  next
    case (Some e)
    with mk obtain i n where "0 < i" "i \<le> length (TransactionsDir st)" "n \<noteq> Dir"
        "map_of fs (take i (TransactionsDir st)) = Some n"
        "map_of fs1 (take i (TransactionsDir st)) = Some n"
      using mkdir_parts_blocked [of fs "[]" "TransactionsDir st" fs1 e] ok
      by (auto simp: mkdir_all_def is_dir_iff)
    with ok ok1 fs' show ?thesis by (metis lstat_blocked)
  qed
qed

lemma save_failure:
  assumes ok: "fs_ok fs" and utf: "transaction_text t" and win: "ao_windows (st_ops st)"
    and save: "SaveTransaction st fs t = (fs', Some e)"
  shows "fs_ok fs'"
    and "(\<forall>i. LoadTransaction st fs' i = LoadTransaction st fs i)
      \<or> (expected_revision (LoadTransaction st fs (tx_id t)) = Inr (tx_revision t)
         \<and> (\<forall>i. LoadTransaction st fs' i =
              (if i = tx_id t then Inr (t\<lparr>tx_revision := tx_revision t + 1\<rparr>) else LoadTransaction st fs i)))"
proof -
  let ?goal = "fs_ok fs' \<and> ((\<forall>i. LoadTransaction st fs' i = LoadTransaction st fs i)
      \<or> (expected_revision (LoadTransaction st fs (tx_id t)) = Inr (tx_revision t)
         \<and> (\<forall>i. LoadTransaction st fs' i =
              (if i = tx_id t then Inr (t\<lparr>tx_revision := tx_revision t + 1\<rparr>) else LoadTransaction st fs i))))"
  obtain fs1 e1 where ens: "EnsureControl st fs = (fs1, e1)" by (meson surj_pair)
  have ok1: "fs_ok fs1" using EnsureControl_cases [OF ens ok] by blast
  have load1: "LoadTransaction st fs1 i = LoadTransaction st fs i" for i
    using LoadTransaction_cong [OF EnsureControl_lstat [OF ens ok]] by simp
  define dest where "dest = TransactionsDir st @ [transactionFileName (tx_id t)]"
  define t' where "t' = t\<lparr>tx_revision := tx_revision t + 1\<rparr>"
  have ?goal
  proof (cases "\<exists>expected. validateTransaction t = None \<and> e1 = None
      \<and> expected_revision (LoadTransaction st fs1 (tx_id t)) = Inr expected
      \<and> tx_revision t = expected \<and> writeAtomicRecord (st_ops st) fs1 dest (Doc (transaction_json t')) = (fs', Some e)")
    case False
    have "fs' = fs \<or> fs' = fs1"
      using save False unfolding SaveTransaction_def ens
      by (auto split: option.splits sum.splits if_splits prod.splits
          simp: TransactionPath_Inr dest_def t'_def dest!: marshal_Inr)
    with ok ok1 load1 show ?thesis by auto
  next
    case True
    then have val: "validateTransaction t = None"
      and rev: "expected_revision (LoadTransaction st fs1 (tx_id t)) = Inr (tx_revision t)"
      and wr: "writeAtomicRecord (st_ops st) fs1 dest (Doc (transaction_json t')) = (fs', Some e)"
      and dir1: "is_dir fs1 (TransactionsDir st)"
      using EnsureControl_cases [OF ens ok] by auto
    from val have tid: "ParseTransactionID (tx_id t) = None" by (simp add: validateTransaction_def)
    have "map_of fs1 dest \<noteq> Some Dir"
    proof
      assume "map_of fs1 dest = Some Dir"
      then have "read_file fs1 dest = Inl ErrOS"
        unfolding dest_def read_file_in_dir [OF ok1 dir1] by simp
      with rev show False
        by (simp add: LoadTransaction_def TransactionPath_ok [OF tid] dest_def [symmetric] expected_revision_def)
    qed
    moreover have "\<not> HasPrefix (last dest) atom_prefix"
      using txn_file_not_temp [OF tid] by (simp add: dest_def)
    ultimately have out: "fs_ok fs'" "\<And>q. q \<noteq> dest \<Longrightarrow> map_of fs' q = map_of fs1 q"
        "map_of fs' dest = map_of fs1 dest \<or> map_of fs' dest = Some (File (Doc (transaction_json t')))"
      using writeAtomicRecord_outcome [OF ok1 _ _ _ wr] win by (auto simp: dest_def write_outcome_def)
    have "TransactionsDir st \<noteq> dest" by (simp add: dest_def)
    then have dir': "is_dir fs' (TransactionsDir st)" using dir1 out(2) by (simp add: is_dir_iff)
    have read: "read_file fs' (TransactionsDir st @ [c])
        = (if TransactionsDir st @ [c] = dest \<and> map_of fs' dest \<noteq> map_of fs1 dest
           then Inr (Doc (transaction_json t')) else read_file fs1 (TransactionsDir st @ [c]))" for c
      unfolding read_file_in_dir [OF out(1) dir'] read_file_in_dir [OF ok1 dir1]
      using out(2) [of "TransactionsDir st @ [c]"] out(3)
      by (cases "TransactionsDir st @ [c] = dest") auto
    have dec: "decodeTransaction (Doc (transaction_json t')) = Inr t'"
      using transaction_roundtrip utf val by (simp add: decodeTransaction_def t'_def)
    have "LoadTransaction st fs' i =
        (if i = tx_id t \<and> map_of fs' dest \<noteq> map_of fs1 dest then Inr t' else LoadTransaction st fs1 i)" for i
    proof (cases "ParseTransactionID i")
      case None
      have "TransactionsDir st @ [transactionFileName i] = dest \<longleftrightarrow> i = tx_id t"
        by (simp add: dest_def transactionFileName_inj)
      then show ?thesis
        using None read [of "transactionFileName i"] dec by (auto simp: LoadTransaction_def TransactionPath_ok)
    next
      case (Some x)
      with tid show ?thesis by (auto simp: LoadTransaction_def TransactionPath_def)
    qed
    with out(1) rev show ?thesis
      by (cases "map_of fs' dest = map_of fs1 dest") (simp_all add: load1 t'_def)
  qed
  then show "fs_ok fs'"
    and "(\<forall>i. LoadTransaction st fs' i = LoadTransaction st fs i)
      \<or> (expected_revision (LoadTransaction st fs (tx_id t)) = Inr (tx_revision t)
         \<and> (\<forall>i. LoadTransaction st fs' i =
              (if i = tx_id t then Inr (t\<lparr>tx_revision := tx_revision t + 1\<rparr>) else LoadTransaction st fs i)))"
    by blast+
qed

subsection \<open>The transaction directory as a keyed store\<close>

definition stored :: "store \<Rightarrow> fs \<Rightarrow> string \<Rightarrow> transaction option" where
  "stored st fs i = (case LoadTransaction st fs i of Inl _ \<Rightarrow> None | Inr t \<Rightarrow> Some t)"

definition try_save :: "store \<Rightarrow> fs \<Rightarrow> transaction \<Rightarrow> fs option" where
  "try_save st fs t = (case SaveTransaction st fs t of (fs', None) \<Rightarrow> Some fs' | (fs', Some _) \<Rightarrow> None)"

lemma try_save_Some: "try_save st fs t = Some fs' \<longleftrightarrow> SaveTransaction st fs t = (fs', None)"
  by (auto simp: try_save_def split: prod.splits option.splits)

interpretation txn_files: keyed_store "stored st" "try_save st" tx_id
  "\<lambda>old t. t\<lparr>tx_revision := tx_revision t + 1\<rparr>" fs_ok transaction_text for st
proof
  fix fs q fs' k
  assume "fs_ok fs" "transaction_text q" "try_save st fs q = Some fs'"
  then show "stored st fs' k = (if k = tx_id q then Some (q\<lparr>tx_revision := tx_revision q + 1\<rparr>) else stored st fs k)"
    unfolding try_save_Some stored_def by (simp add: save_success(3))
next
  fix fs q fs'
  assume "fs_ok fs" "transaction_text q" "try_save st fs q = Some fs'"
  then show "fs_ok fs'" unfolding try_save_Some by (rule save_success(1))
qed


subsection \<open>The scan of the transaction directory\<close>

definition entry_view :: "store \<Rightarrow> fs \<Rightarrow> string \<Rightarrow> txn_view list" where
  "entry_view st fs name =
     (if HasPrefix name atom_prefix \<or> \<not> OccupiesReservedTxnName name then []
      else
        let i = TrimSuffix name txnFileSuffix in
        if ParseTransactionID i \<noteq> None \<or> \<not> HasSuffix name txnFileSuffix
           \<or> is_dir fs (TransactionsDir st @ [name]) then [malformed_view i]
        else case LoadTransaction st fs i of
               Inl _ \<Rightarrow> [malformed_view i]
             | Inr t \<Rightarrow> [if tx_id t \<noteq> i then malformed_view i else View t])"

lemma inspect_entries_spec:
  "distinct names \<Longrightarrow> \<forall>i \<in> set seen. transactionFileName i \<notin> set names \<Longrightarrow>
     inspect_entries st fs seen c vs names = (vs @ concat (map (entry_view st fs) names), c)"
proof (induction st fs seen c vs names rule: inspect_entries.induct)
  case (2 st fs seen c vs name names)
  let ?i = "TrimSuffix name txnFileSuffix"
  show ?case
  proof (cases "HasPrefix name atom_prefix \<or> \<not> OccupiesReservedTxnName name")
    case True
    with 2 show ?thesis by (auto simp: entry_view_def)
  next
    case reserved: False
    show ?thesis
    proof (cases "ParseTransactionID ?i \<noteq> None \<or> \<not> HasSuffix name txnFileSuffix
              \<or> is_dir fs (TransactionsDir st @ [name])")
      case True
      with reserved 2 show ?thesis by (auto simp: entry_view_def Let_def)
    next
      case plain: False
      then have name: "name = transactionFileName ?i"
        by (auto simp: HasSuffix_iff transactionFileName_def)
      with 2(8) have unseen: "?i \<notin> set seen" by auto
      show ?thesis
      proof (cases "LoadTransaction st fs ?i")
        case (Inl e)
        with reserved plain 2 show ?thesis by (auto simp: entry_view_def Let_def)
      next
        case (Inr t)
        show ?thesis
        proof (cases "tx_id t = ?i")
          case False
          with Inr reserved plain 2 show ?thesis by (auto simp: entry_view_def Let_def)
        next
          case True
          have "\<forall>i \<in> set (?i # seen). transactionFileName i \<notin> set names"
            using 2(7,8) name by auto
          then have "inspect_entries st fs (?i # seen) c (vs @ [View t]) names
              = ((vs @ [View t]) @ concat (map (entry_view st fs) names), c)"
            using 2(6) [OF reserved refl plain Inr] True unseen 2(7) by simp
          with True Inr reserved plain unseen show ?thesis
            by (simp add: entry_view_def [of st fs name] Let_def)
        qed
      qed
    qed
  qed
qed simp

lemma inspect_spec:
  assumes "fs_ok fs" and "read_dir fs (TransactionsDir st) = Inr names"
  shows "inspectTransactions st fs = Inr (concat (map (entry_view st fs) names), False)"
proof -
  have "names = children fs (TransactionsDir st)"
    using assms(2) by (auto simp: read_dir_def split: sum.splits node.splits)
  then have "distinct names" using distinct_children fs_okD(1) [OF assms(1)] by simp
  with assms(2) show ?thesis by (simp add: inspectTransactions_def inspect_entries_spec)
qed

text \<open>
  The scan never reports a collision of reserved identifiers: file names in a directory are
  distinct and a transaction only counts under the file named after it, so the collision branch
  of \<open>inspectTransactions\<close>, and with it the collision test of \<open>DecideRecovery\<close>, is not reached on
  an observed tree.
\<close>

theorem scan_reports_no_collision:
  assumes "fs_ok fs" and "inspectTransactions st fs = Inr (views, collision)"
  shows "\<not> collision"
proof (cases "read_dir fs (TransactionsDir st)")
  case (Inl e)
  with assms(2) show ?thesis by (auto simp: inspectTransactions_def split: if_splits)
next
  case (Inr names)
  with inspect_spec [OF assms(1) Inr] assms(2) show ?thesis by simp
qed

lemma entry_view_valid:
  assumes "v \<in> set (entry_view st fs name)" and "tv_valid v"
  shows "\<exists>t. name = transactionFileName (tx_id t) \<and> LoadTransaction st fs (tx_id t) = Inr t \<and> v = View t"
proof -
  have "\<not> tv_valid (malformed_view i)" for i by (simp add: malformed_view_def zero_view_def)
  with assms show ?thesis
    by (auto simp: entry_view_def Let_def HasSuffix_iff transactionFileName_def
        split: if_splits sum.splits)
qed

lemma txn_file_reserved:
  assumes "ParseTransactionID i = None"
  shows "OccupiesReservedTxnName (transactionFileName i)"
proof -
  obtain body where "i = txnPrefix @ body"
    using assms by (auto simp: ParseTransactionID_def parseClosedID_None)
  then show ?thesis by (simp add: OccupiesReservedTxnName_def transactionFileName_def)
qed

lemma load_parses: "LoadTransaction st fs i = Inr t \<Longrightarrow> ParseTransactionID i = None"
  by (cases "ParseTransactionID i") (auto simp: LoadTransaction_def TransactionPath_def)

lemma load_listed:
  assumes ok: "fs_ok fs" and names: "read_dir fs (TransactionsDir st) = Inr names"
    and load: "LoadTransaction st fs i = Inr t"
  shows "transactionFileName i \<in> set names" and "\<not> is_dir fs (TransactionsDir st @ [transactionFileName i])"
proof -
  have dir: "is_dir fs (TransactionsDir st)" and nm: "names = children fs (TransactionsDir st)"
    using names by (auto simp: read_dir_def is_dir_def split: sum.splits node.splits)
  from load have "\<exists>b. read_file fs (TransactionsDir st @ [transactionFileName i]) = Inr b"
    using load_parses [OF load] by (auto simp: LoadTransaction_def TransactionPath_ok split: sum.splits)
  then have "map_of fs (TransactionsDir st @ [transactionFileName i]) \<notin> {None, Some Dir}"
    unfolding read_file_in_dir [OF ok dir] by (auto split: option.splits)
  then show "transactionFileName i \<in> set names" "\<not> is_dir fs (TransactionsDir st @ [transactionFileName i])"
    unfolding nm children_iff by (auto simp: is_dir_iff)
qed

lemma views_of_loads:
  assumes ok: "fs_ok fs" and ins: "inspectTransactions st fs = Inr (views, c)"
    and load: "LoadTransaction st fs (tx_id t) = Inr t"
  shows "View t \<in> set views"
proof (cases "read_dir fs (TransactionsDir st)")
  case (Inr names)
  note listed = load_listed [OF ok Inr load]
  have "View t \<in> set (entry_view st fs (transactionFileName (tx_id t)))"
    using load load_parses [OF load] txn_file_not_temp txn_file_reserved listed(2)
    by (simp add: entry_view_def Let_def transactionFileName_def)
  with listed(1) inspect_spec [OF ok Inr] ins show ?thesis by auto
next
  case (Inl e)
  have "\<not> is_dir fs (TransactionsDir st)"
    using Inl by (auto simp: read_dir_def is_dir_def split: sum.splits)
  have "\<exists>b. read_file fs (TransactionsDir st @ [transactionFileName (tx_id t)]) = Inr b"
    using load load_parses [OF load] by (auto simp: LoadTransaction_def TransactionPath_ok split: sum.splits)
  then obtain n where "map_of fs (TransactionsDir st @ [transactionFileName (tx_id t)]) = Some n"
    by (auto simp: read_file_def lstat_Inr split: sum.splits)
  then have "is_dir fs (TransactionsDir st)" using fs_okD(3) [OF ok] by fastforce
  with \<open>\<not> is_dir fs (TransactionsDir st)\<close> show ?thesis by simp
qed

subsection \<open>Failing the failable transactions\<close>

definition interrupted_txn :: "time \<Rightarrow> transaction \<Rightarrow> transaction" where
  "interrupted_txn now t =
     t\<lparr>tx_state := StateFailed, tx_error_code := CodeInterrupted, tx_updated_at := now\<rparr>"

definition failable :: "transaction \<Rightarrow> bool" where
  "failable t \<longleftrightarrow> tx_state t = StateCreated \<or> tx_state t = StateBuilding"

lemma failable_View: "failable_view (View t) \<longleftrightarrow> failable t"
  by (simp add: failable_view_def failable_def View_def)

text \<open>The loop saves, in order, the interrupted form of each failable transaction listed.\<close>

definition fail_requests :: "store \<Rightarrow> time \<Rightarrow> fs \<Rightarrow> txn_view list \<Rightarrow> transaction list" where
  "fail_requests st now fs vs =
     map (\<lambda>v. interrupted_txn now (the (stored st fs (tv_id v)))) (filter failable_view vs)"

lemma interrupted_text: "transaction_text t \<Longrightarrow> transaction_text (interrupted_txn now t)"
proof -
  have "ValidString CodeInterrupted" by code_simp
  then show "transaction_text t \<Longrightarrow> transaction_text (interrupted_txn now t)"
    by (simp add: transaction_text_def interrupted_txn_def validState_def)
qed

lemma interrupted_id [simp]: "tx_id (interrupted_txn now t) = tx_id t"
  by (simp add: interrupted_txn_def)

lemma fail_views_saves:
  assumes "fs_ok fs" and "fail_views st now fs vs = (fs', None)"
    and "\<forall>v \<in> set vs. failable_view v \<longrightarrow>
           (\<exists>t. stored st fs (tv_id v) = Some t \<and> tx_id t = tv_id v \<and> transaction_text t)"
    and "distinct (map tv_id (filter failable_view vs))"
  shows "save_all (try_save st) fs (fail_requests st now fs vs) = Some fs'"
  using assms
proof (induction st now fs vs rule: fail_views.induct)
  case (2 st now fs v vs)
  show ?case
  proof (cases "failable_view v")
    case False
    with 2 show ?thesis by (simp add: fail_requests_def)
  next
    case True
    with 2(5) obtain t where t: "stored st fs (tv_id v) = Some t" "tx_id t = tv_id v" "transaction_text t"
      by auto
    then have load: "LoadTransaction st fs (tv_id v) = Inr t"
      by (auto simp: stored_def split: sum.splits)
    obtain fs1 where save: "SaveTransaction st fs (interrupted_txn now t) = (fs1, None)"
        and rest: "fail_views st now fs1 vs = (fs', None)"
      using 2(4) True load by (auto simp: interrupted_txn_def split: prod.splits option.splits)
    have saved: "try_save st fs (interrupted_txn now t) = Some fs1" using save by (simp add: try_save_Some)
    have frame: "stored st fs1 (tv_id w) = stored st fs (tv_id w)" if "w \<in> set vs" "failable_view w" for w
      using txn_files.load_save [OF 2(3) interrupted_text [OF t(3)] saved, of "tv_id w"] that 2(6) True t(2)
      by (auto simp: image_iff)
    have ok1: "fs_ok fs1" using txn_files.save_inv [OF 2(3) interrupted_text [OF t(3)] saved] .
    have req: "fail_requests st now fs1 vs = fail_requests st now fs vs"
      unfolding fail_requests_def using frame by (auto intro: map_cong)
    have "\<not> \<not> failable_view v" using True by simp
    note IH = 2(2) [OF this load save [unfolded interrupted_txn_def, symmetric] refl ok1 rest]
    have "save_all (try_save st) fs1 (fail_requests st now fs1 vs) = Some fs'"
      using 2(5,6) frame True by (intro IH) auto
    moreover have "fail_requests st now fs (v # vs) = interrupted_txn now t # fail_requests st now fs vs"
      using True t by (simp add: fail_requests_def)
    ultimately show ?thesis using saved req by simp
  qed
qed (simp add: fail_requests_def)

lemma views_distinct:
  "distinct names \<Longrightarrow>
     distinct (map tv_id (filter failable_view (concat (map (entry_view st fs) names))))
     \<and> (\<forall>v \<in> set (filter failable_view (concat (map (entry_view st fs) names))).
          transactionFileName (tv_id v) \<in> set names)"
proof (induction names)
  case (Cons name names)
  have file_name: "transactionFileName (tv_id v) = name" if "v \<in> set (entry_view st fs name)" "failable_view v" for v
    using entry_view_valid [OF that(1)] that(2) by (auto simp: failable_view_def View_def)
  have "length (entry_view st fs name) \<le> 1"
    by (auto simp: entry_view_def Let_def split: sum.splits)
  then have "length (filter failable_view (entry_view st fs name)) \<le> 1"
    by (metis le_trans length_filter_le)
  then have "distinct (map tv_id (filter failable_view (entry_view st fs name)))"
    by (cases "filter failable_view (entry_view st fs name)") auto
  with Cons file_name show ?case by (auto simp: transactionFileName_inj) (metis file_name)
qed simp

lemma views_stored:
  assumes "fs_ok fs" and "inspectTransactions st fs = Inr (views, c)"
  shows "\<forall>v \<in> set views. failable_view v \<longrightarrow>
      (\<exists>t. stored st fs (tv_id v) = Some t \<and> tx_id t = tv_id v \<and> failable t)"
    and "distinct (map tv_id (filter failable_view views))"
proof -
  have "(\<forall>v \<in> set views. failable_view v \<longrightarrow>
      (\<exists>t. stored st fs (tv_id v) = Some t \<and> tx_id t = tv_id v \<and> failable t))
    \<and> distinct (map tv_id (filter failable_view views))"
  proof (cases "read_dir fs (TransactionsDir st)")
    case (Inl e)
    with assms(2) show ?thesis by (auto simp: inspectTransactions_def split: if_splits)
  next
    case (Inr names)
    then have views: "views = concat (map (entry_view st fs) names)"
      using inspect_spec [OF assms(1) Inr] assms(2) by simp
    have "names = children fs (TransactionsDir st)"
      using Inr by (auto simp: read_dir_def split: sum.splits node.splits)
    then have "distinct names" using distinct_children fs_okD(1) [OF assms(1)] by simp
    then have "distinct (map tv_id (filter failable_view views))"
      using views_distinct unfolding views by blast
    moreover have "\<exists>t. stored st fs (tv_id v) = Some t \<and> tx_id t = tv_id v \<and> failable t"
      if v: "v \<in> set views" "failable_view v" for v
    proof -
      from v views obtain name where "v \<in> set (entry_view st fs name)" by auto
      moreover have "tv_valid v" using v(2) by (simp add: failable_view_def)
      ultimately obtain t where "LoadTransaction st fs (tx_id t) = Inr t" "v = View t"
        using entry_view_valid by blast
      with v(2) show ?thesis by (auto simp: stored_def failable_View) (simp add: View_def)
    qed
    ultimately show ?thesis by blast
  qed
  then show "\<forall>v \<in> set views. failable_view v \<longrightarrow>
      (\<exists>t. stored st fs (tv_id v) = Some t \<and> tx_id t = tv_id v \<and> failable t)"
    and "distinct (map tv_id (filter failable_view views))" by blast+
qed

lemma failing_effect:
  assumes ok: "fs_ok fs"
    and disk: "\<forall>i t. stored st fs i = Some t \<longrightarrow> tx_id t = i \<and> transaction_text t"
    and run: "FailFailableNonterminals st now fs = (fs', None)"
  shows "fs_ok fs'" and "stored st fs' i =
    map_option (\<lambda>t. if failable t then (interrupted_txn now t)\<lparr>tx_revision := tx_revision t + 1\<rparr> else t)
      (stored st fs i)"
proof -
  from run obtain views c where ins: "inspectTransactions st fs = Inr (views, c)"
      and fail: "fail_views st now fs views = (fs', None)"
    by (auto simp: FailFailableNonterminals_def split: sum.splits)
  let ?reqs = "fail_requests st now fs views"
  have saves: "save_all (try_save st) fs ?reqs = Some fs'"
    using views_stored [OF ok ins] disk by (intro fail_views_saves [OF ok fail]) (blast+)
  have form: "\<exists>t. q = interrupted_txn now t \<and> stored st fs (tx_id t) = Some t \<and> failable t"
    if "q \<in> set ?reqs" for q
    using that views_stored(1) [OF ok ins] unfolding fail_requests_def by fastforce
  then have text_ok: "list_all transaction_text ?reqs"
    unfolding list_all_iff using disk interrupted_text by metis
  have "map tx_id ?reqs = map tv_id (filter failable_view views)"
    unfolding fail_requests_def using views_stored(1) [OF ok ins] by fastforce
  then have dist: "distinct (map tx_id ?reqs)" using views_stored(2) [OF ok ins] by simp
  show "fs_ok fs'" using ok text_ok saves by (rule txn_files.save_all_inv)
  show "stored st fs' i =
    map_option (\<lambda>t. if failable t then (interrupted_txn now t)\<lparr>tx_revision := tx_revision t + 1\<rparr> else t)
      (stored st fs i)"
  proof (cases "stored st fs i")
    case None
    have "i \<notin> tx_id ` set ?reqs"
    proof
      assume "i \<in> tx_id ` set ?reqs"
      then obtain q where "q \<in> set ?reqs" "i = tx_id q" by blast
      with form [of q] None show False by auto
    qed
    with None txn_files.save_all_frame [OF ok text_ok saves, of i] show ?thesis by simp
  next
    case (Some t)
    with disk have tid: "tx_id t = i" "LoadTransaction st fs i = Inr t"
      by (auto simp: stored_def split: sum.splits)
    show ?thesis
    proof (cases "failable t")
      case False
      have "i \<notin> tx_id ` set ?reqs"
      proof
        assume "i \<in> tx_id ` set ?reqs"
        then obtain q where "q \<in> set ?reqs" "i = tx_id q" by blast
        with form [of q] Some False show False by auto
      qed
      with Some False txn_files.save_all_frame [OF ok text_ok saves, of i] show ?thesis by simp
    next
      case True
      have "View t \<in> set (filter failable_view views)"
        using views_of_loads [OF ok ins, of t] tid True by (simp add: failable_View)
      then have "interrupted_txn now (the (stored st fs (tv_id (View t)))) \<in> set ?reqs"
        unfolding fail_requests_def by (metis (no_types, lifting) image_eqI set_map)
      then have "interrupted_txn now t \<in> set ?reqs" using Some tid by (simp add: View_def)
      from txn_files.save_all_written [OF ok text_ok saves dist this] Some True tid
      show ?thesis by (simp add: interrupted_txn_def)
    qed
  qed
qed

text \<open>
  When the daemon fails the interrupted transactions and reports success, then every stored
  transaction that was CREATED or BUILDING is FAILED with the interruption code and the next
  revision, every other stored transaction is untouched, and none appears or disappears.
\<close>

theorem failing_interrupts_every_failable:
  assumes ok: "fs_ok fs"
    and disk: "\<forall>i t. stored st fs i = Some t \<longrightarrow> tx_id t = i \<and> transaction_text t"
    and run: "FailFailableNonterminals st now fs = (fs', None)"
  shows "stored st fs' i =
    map_option (\<lambda>t. if failable t then (interrupted_txn now t)\<lparr>tx_revision := tx_revision t + 1\<rparr> else t)
      (stored st fs i)"
  using assms by (rule failing_effect)

subsection \<open>The active pointer\<close>

lemma load_active_valid: "LoadActive st fs = Inr r \<Longrightarrow> validateActiveRecord r = None"
  by (auto simp: LoadActive_def split: sum.splits node.splits if_splits option.splits)

text \<open>A valid pointer is the observation of a valid record whose generation is intact.\<close>

lemma active_valid:
  assumes "ap_valid (ReadActive st fs)"
  obtains r where "LoadActive st fs = Inr r" "validateActiveRecord r = None"
    "ReadActive st fs = record_Observation r"
    "VerifyPublishedGeneration (st_platform st) fs (GenerationsRoot st @ [ar_generation r])
       (ar_generation r) (ar_manifest_sha r) (ar_seal_sha r) = None"
proof (cases "LoadActive st fs")
  case (Inl e)
  with assms have False
    by (auto simp: ReadActive_def missing_pointer_def invalid_pointer_def split: if_splits)
  then show thesis ..
next
  case (Inr r)
  note val = load_active_valid [OF Inr]
  then have "GenerationPath st (ar_generation r) = Inr (GenerationsRoot st @ [ar_generation r])"
    by (simp add: GenerationPath_ok validateActiveRecord_def)
  with Inr assms val show thesis
    by (intro that [OF Inr val])
      (auto simp: ReadActive_def invalid_pointer_def Let_def split: if_splits)
qed

subsection \<open>A concrete store\<close>

definition sample_platform :: platform where
  "sample_platform =
     \<lparr>pf_sha = (\<lambda>b. replicate 64 (case b of Doc (JObj kvs) \<Rightarrow> if length kvs = 2 then CHR ''a'' else CHR ''b'' | _ \<Rightarrow> CHR ''c'')),
      pf_size = (\<lambda>_. 10), pf_lineage = Some ''00'', pf_local_app_data = ''L'',
      pf_clean = path_clean, pf_separator = CHR ''/'', pf_list_separator = CHR '':''\<rparr>"

definition sample_store :: store where
  "sample_store =
     \<lparr>st_root = [''r''], st_ops = defaultAtomicOps True ''a'', st_platform = sample_platform\<rparr>"

definition sample_txn_id :: string where "sample_txn_id = ''txn_'' @ replicate 22 CHR ''a''"
definition sample_gen_id :: string where "sample_gen_id = ''gen_'' @ replicate 22 CHR ''a''"

definition sample_txn :: transaction where
  "sample_txn =
     \<lparr>tx_schema = 1, tx_revision = 0, tx_id = sample_txn_id, tx_runtime_kind = ''hermes'',
      tx_operation_id = ''op'', tx_generation = sample_gen_id, tx_state = StateCreated, tx_step = [],
      tx_source_pin = ''pin'', tx_expected_version = ''1'',
      tx_staging_rel = StagingRel sample_txn_id, tx_generation_rel = GenerationRel sample_gen_id,
      tx_manifest_sha = [], tx_seal_sha = [], tx_before_kind = BeforeNone,
      tx_before_generation = [], tx_before_digest = [], tx_error_code = [],
      tx_created_at = 1, tx_updated_at = 1, tx_sealed_at = None,
      tx_published_at = None, tx_activated_at = None, tx_committed_at = None\<rparr>"

definition sample_root :: fs where
  "sample_root = [([''r''], Dir)]"

definition sample_saved :: fs where
  "sample_saved = fst (SaveTransaction sample_store sample_root sample_txn)"

lemma sample_root_ok: "fs_ok sample_root"
  by code_simp

lemma sample_txn_text: "transaction_text sample_txn"
  by code_simp

theorem resolved_paths_are_contained_witness:
  "ResolveContained sample_store ''staging/x'' = Inr [''r'', ''staging'', ''x'']
   \<and> ResolveContained sample_store ''staging/../../x'' \<noteq> Inr [''r'', ''staging'', ''..'', ''..'', ''x'']
   \<and> StagingPath sample_store sample_txn_id = Inr [''r'', ''staging'', sample_txn_id]
   \<and> StagingPath sample_store ''..'' \<noteq> Inr [''r'', ''staging'', ''..'']"
proof -
  have roots: "StagingRoot sample_store = [''r'', ''staging'']" "st_root sample_store = [''r'']" by code_simp+
  have ids: "ParseTransactionID sample_txn_id = None" "ParseTransactionID ''..'' \<noteq> None"
    "rejectUnsafeRel ''staging/x'' = None" "rejectUnsafeRel ''staging/../../x'' \<noteq> None"
    "split_on CHR ''/'' ''staging/x'' = [''staging'', ''x'']" by code_simp+
  show ?thesis
    using ids roots resolved_paths_are_contained [of sample_store "''staging/x''" "[''r'', ''staging'', ''x'']"]
      resolved_paths_are_contained [of sample_store "''staging/../../x''" "[''r'', ''staging'', ''..'', ''..'', ''x'']"]
      resolved_paths_are_contained [of sample_store _ _ sample_txn_id "[''r'', ''staging'', sample_txn_id]"]
      resolved_paths_are_contained [of sample_store _ _ "''..''" "[''r'', ''staging'', ''..'']"]
    by simp
qed

lemma sample_saves: "snd (SaveTransaction sample_store sample_root sample_txn) = None"
  by code_simp

lemma sample_windows: "ao_windows (st_ops sample_store)"
  by (simp add: sample_store_def defaultAtomicOps_def)

lemma sample_save_run: "SaveTransaction sample_store sample_root sample_txn = (sample_saved, None)"
  using sample_saves by (simp add: sample_saved_def prod_eq_iff)


lemma sample_root_stored: "stored sample_store sample_root i = None"
proof -
  have "read_file sample_root (TransactionsDir sample_store @ [c]) = Inl ErrNotExist" for c
    unfolding read_file_def lstat_def beyond_file_def
    by (simp add: sample_root_def TransactionsDir_def ControlDir_def sample_store_def dirControl_def
        dirTransactions_def numeral_2_eq_2 upt_rec)
  then show ?thesis
    by (auto simp: stored_def LoadTransaction_def TransactionPath_Inr bind_result_def split: sum.splits)
qed

lemma sample_saved_stored:
  "fs_ok sample_saved"
  "stored sample_store sample_saved i = (if i = sample_txn_id then Some (sample_txn\<lparr>tx_revision := 1\<rparr>) else None)"
proof -
  have "try_save sample_store sample_root sample_txn = Some sample_saved"
    by (simp add: try_save_Some sample_save_run)
  note saved = txn_files.load_save [OF sample_root_ok sample_txn_text this]
    txn_files.save_inv [OF sample_root_ok sample_txn_text this]
  show "fs_ok sample_saved" by (rule saved(2))
  have "tx_revision sample_txn = 0" by (simp add: sample_txn_def)
  then show "stored sample_store sample_saved i
      = (if i = sample_txn_id then Some (sample_txn\<lparr>tx_revision := 1\<rparr>) else None)"
    using saved(1) [of i] by (simp add: sample_root_stored) (simp add: sample_txn_def)
qed

theorem failing_interrupts_every_failable_witness:
  "\<exists>fs'. FailFailableNonterminals sample_store 5 sample_saved = (fs', None)
     \<and> stored sample_store fs' sample_txn_id
         = Some ((interrupted_txn 5 sample_txn)\<lparr>tx_revision := 2\<rparr>)"
proof -
  have "snd (FailFailableNonterminals sample_store 5 sample_saved) = None" by code_simp
  then obtain fs' where run: "FailFailableNonterminals sample_store 5 sample_saved = (fs', None)"
    by (metis prod.collapse)
  have disk: "\<forall>i t. stored sample_store sample_saved i = Some t \<longrightarrow> tx_id t = i \<and> transaction_text t"
    using sample_txn_text by (simp add: sample_saved_stored) (simp add: sample_txn_def)
  have "failable (sample_txn\<lparr>tx_revision := 1\<rparr>)" by (simp add: failable_def sample_txn_def)
  then have "stored sample_store fs' sample_txn_id = Some ((interrupted_txn 5 sample_txn)\<lparr>tx_revision := 2\<rparr>)"
    using failing_interrupts_every_failable [OF sample_saved_stored(1) disk run, of sample_txn_id]
    by (simp add: sample_saved_stored interrupted_txn_def)
  with run show ?thesis by blast
qed

theorem scan_reports_no_collision_witness:
  "\<exists>views. inspectTransactions sample_store sample_saved = Inr (views, False)"
proof -
  have "case inspectTransactions sample_store sample_saved of Inl _ \<Rightarrow> False | Inr _ \<Rightarrow> True"
    by code_simp
  then obtain views c where ins: "inspectTransactions sample_store sample_saved = Inr (views, c)"
    by (auto split: sum.splits)
  with scan_reports_no_collision [OF sample_saved_stored(1) ins] show ?thesis by simp
qed

end
