(* ===== verification/Install_Gc.thy ===== *)
theory Install_Gc
  imports Install_Store_Properties
begin

text \<open>
  Garbage collection of staging, failed and generation directories (install/gc.go): the set of
  directories to retain, the candidates with proven lineage, and the deletion loop with its
  second look at the active pointer.
\<close>

record gc_report =
  gc_deleted :: "string list"
  gc_kept :: "string list"

record gc_hooks =
  gh_before_delete :: "path \<Rightarrow> fs \<Rightarrow> fs \<times> install_error option"
  gh_during_delete :: "path \<Rightarrow> fs \<Rightarrow> fs \<times> install_error option"

definition no_gc_hooks :: gc_hooks where
  "no_gc_hooks = \<lparr>gh_before_delete = (\<lambda>_ fs. (fs, None)), gh_during_delete = (\<lambda>_ fs. (fs, None))\<rparr>"

definition FailGCBeforeDelete :: string where "FailGCBeforeDelete = ''gc-before-delete''"
definition FailGCDuringDelete :: string where "FailGCDuringDelete = ''gc-during-delete''"
definition errInjectedGC :: install_error where "errInjectedGC = ErrInjected ''gc''"

definition load_listed_view :: "store \<Rightarrow> fs \<Rightarrow> txn_view \<Rightarrow> transaction list" where
  "load_listed_view st fs v =
     (if \<not> tv_valid v then []
      else case LoadTransaction st fs (tv_id v) of Inl _ \<Rightarrow> [] | Inr t \<Rightarrow> [t])"

definition loadValidTransactions :: "store \<Rightarrow> fs \<Rightarrow> install_error + transaction list" where
  "loadValidTransactions st fs =
     (case inspectTransactions st fs of
        Inl e \<Rightarrow> Inl e
      | Inr (views, _) \<Rightarrow> Inr (concat (map (load_listed_view st fs) views)))"

definition txnTime :: "transaction \<Rightarrow> time" where
  "txnTime t =
     (case tx_committed_at t of
        Some c \<Rightarrow> c
      | None \<Rightarrow> if \<not> is_zero_time (tx_updated_at t) then tx_updated_at t else tx_created_at t)"

definition lineageProven :: "store \<Rightarrow> fs \<Rightarrow> path \<Rightarrow> transaction \<Rightarrow> bool" where
  "lineageProven st fs p t =
     (case lstat fs p of
        Inl _ \<Rightarrow> False
      | Inr _ \<Rightarrow>
          if tx_manifest_sha t \<noteq> [] \<and> tx_seal_sha t \<noteq> []
          then VerifyPublishedGeneration (st_platform st) fs p (tx_generation t) (tx_manifest_sha t)
                 (tx_seal_sha t) = None
          else case readGenerationFile fs p of
                 Some r \<Rightarrow> gr_generation r = tx_generation t \<and> gr_transaction r = tx_id t
               | None \<Rightarrow>
                   (case readCandidateRecord (st_platform st) fs p of
                      Some c \<Rightarrow> cd_generation c = tx_generation t \<and> cd_transaction c = tx_id t
                    | None \<Rightarrow> False))"

definition ok_path :: "install_error + path \<Rightarrow> path list" where
  "ok_path r = (case r of Inl _ \<Rightarrow> [] | Inr p \<Rightarrow> [p])"

definition failedTreePaths :: "store \<Rightarrow> transaction \<Rightarrow> path list" where
  "failedTreePaths st t =
     ok_path (StagingPath st (tx_id t)) @ ok_path (FailedPath st (tx_id t))
     @ ok_path (GenerationPath st (tx_generation t))"

text \<open>Newest first; equal times keep their order.\<close>

definition latestPreviousCommitted :: "store \<Rightarrow> fs \<Rightarrow> transaction list \<Rightarrow> string \<Rightarrow> path option" where
  "latestPreviousCommitted st fs txns activeGen =
     (case sort_key (\<lambda>t. - txnTime t)
             (filter (\<lambda>t. tx_state t = StateCommitted \<and> tx_generation t \<noteq> activeGen) txns) of
        [] \<Rightarrow> None
      | t # _ \<Rightarrow>
          (case GenerationPath st (tx_generation t) of
             Inl _ \<Rightarrow> None
           | Inr p \<Rightarrow> (case lstat fs p of Inl _ \<Rightarrow> None | Inr _ \<Rightarrow> Some p)))"

definition latestFailedProven :: "store \<Rightarrow> fs \<Rightarrow> transaction list \<Rightarrow> path option" where
  "latestFailedProven st fs txns =
     (case sort_key (\<lambda>hit. - snd hit)
             (concat (map (\<lambda>t. map (\<lambda>p. (p, txnTime t)) (filter (\<lambda>p. lineageProven st fs p t) (failedTreePaths st t)))
                (filter (\<lambda>t. tx_state t = StateFailed) txns))) of
        [] \<Rightarrow> None
      | (p, _) # _ \<Rightarrow> Some p)"

definition option_list_of :: "'a option \<Rightarrow> 'a list" where
  "option_list_of x = (case x of None \<Rightarrow> [] | Some y \<Rightarrow> [y])"

definition nonterminal_paths :: "store \<Rightarrow> transaction \<Rightarrow> path list" where
  "nonterminal_paths st t =
     (if Nonterminal (tx_state t)
      then ok_path (StagingPath st (tx_id t)) @ ok_path (GenerationPath st (tx_generation t)) else [])"

definition retentionSet :: "store \<Rightarrow> fs \<Rightarrow> install_error + path list" where
  "retentionSet st fs =
     bind_result (loadValidTransactions st fs) (\<lambda>txns.
       let active = ReadActive st fs in
       Inr ((if ap_valid active then ok_path (GenerationPath st (ap_generation active)) else [])
            @ option_list_of (latestPreviousCommitted st fs txns (ap_generation active))
            @ option_list_of (latestFailedProven st fs txns)
            @ concat (map (nonterminal_paths st) txns)))"

text \<open>The maps of known identifiers: of several transactions with one key the last one counts.\<close>

definition listedKnownDirs :: "store \<Rightarrow> fs \<Rightarrow> path \<Rightarrow> (transaction \<Rightarrow> string) \<Rightarrow> transaction list \<Rightarrow> path list" where
  "listedKnownDirs st fs root key txns =
     (case read_dir fs root of
        Inl _ \<Rightarrow> []
      | Inr names \<Rightarrow>
          concat (map (\<lambda>n.
            if \<not> is_dir fs (root @ [n]) then []
            else case first_match (\<lambda>t. key t = n) (rev txns) of
                   None \<Rightarrow> []
                 | Some t \<Rightarrow> if lineageProven st fs (root @ [n]) t then [root @ [n]] else []) names))"

definition root_text :: "store \<Rightarrow> path \<Rightarrow> string" where
  "root_text st p = join_on (pf_separator (st_platform st)) p"

definition gcCandidates :: "store \<Rightarrow> fs \<Rightarrow> install_error + path list" where
  "gcCandidates st fs =
     bind_result (loadValidTransactions st fs) (\<lambda>txns.
       Inr (sort_key (root_text st)
              (listedKnownDirs st fs (StagingRoot st) tx_id txns
               @ listedKnownDirs st fs (FailedRoot st) tx_id txns
               @ listedKnownDirs st fs (GenerationsRoot st) tx_generation txns)))"

definition hasDirPrefix :: "string \<Rightarrow> string \<Rightarrow> bool" where
  "hasDirPrefix rel dir \<longleftrightarrow>
     rel = dir \<or> (length rel > length dir \<and> take (length dir + 1) rel = dir @ ''/'')"

definition slash_rel :: "store \<Rightarrow> path \<Rightarrow> string" where
  "slash_rel st p = join_on CHR ''/'' (drop (length (st_root st)) p)"

definition gcSafePath :: "store \<Rightarrow> fs \<Rightarrow> path \<Rightarrow> bool" where
  "gcSafePath st fs p =
     (if \<not> is_under (st_root st) p then False
      else if \<not> is_dir fs p then False
      else if rejectReparse fs p \<noteq> None then False
      else hasDirPrefix (slash_rel st p) dirStaging \<or> hasDirPrefix (slash_rel st p) dirFailed
         \<or> hasDirPrefix (slash_rel st p) dirGenerations \<or> hasDirPrefix (slash_rel st p) ''cache'')"

definition keep_path :: "store \<Rightarrow> path \<Rightarrow> gc_report \<Rightarrow> gc_report" where
  "keep_path st p r = r\<lparr>gc_kept := gc_kept r @ [slash_rel st p]\<rparr>"

definition active_tree :: "store \<Rightarrow> fs \<Rightarrow> path \<Rightarrow> bool" where
  "active_tree st fs p \<longleftrightarrow>
     ap_valid (ReadActive st fs) \<and> GenerationPath st (ap_generation (ReadActive st fs)) = Inr p"

fun collect_loop ::
  "store \<Rightarrow> gc_hooks \<Rightarrow> string \<Rightarrow> path list \<Rightarrow> fs \<Rightarrow> gc_report \<Rightarrow> path list
     \<Rightarrow> fs \<times> gc_report \<times> install_error option" where
  "collect_loop st hooks failAt protected fs r [] = (fs, r, None)"
| "collect_loop st hooks failAt protected fs r (p # ps) =
     (if p \<in> set protected then collect_loop st hooks failAt protected fs (keep_path st p r) ps
      else if failAt = FailGCBeforeDelete then (fs, r, Some errInjectedGC)
      else case gh_before_delete hooks p fs of
             (fs1, Some e) \<Rightarrow> (fs1, r, Some e)
           | (fs1, None) \<Rightarrow>
               if active_tree st fs1 p
               then collect_loop st hooks failAt protected fs1 (keep_path st p r) ps
               else if \<not> gcSafePath st fs1 p
               then collect_loop st hooks failAt protected fs1 (keep_path st p r) ps
               else if failAt = FailGCDuringDelete then (fs1, r, Some errInjectedGC)
               else case gh_during_delete hooks p fs1 of
                      (fs2, Some e) \<Rightarrow> (fs2, r, Some e)
                    | (fs2, None) \<Rightarrow>
                        (case remove_all fs2 p of
                           (fs3, Some e) \<Rightarrow> (fs3, r, Some e)
                         | (fs3, None) \<Rightarrow>
                             collect_loop st hooks failAt protected fs3
                               (r\<lparr>gc_deleted := gc_deleted r @ [slash_rel st p]\<rparr>) ps))"

definition collectWithFail ::
  "store \<Rightarrow> gc_hooks \<Rightarrow> string \<Rightarrow> fs \<Rightarrow> fs \<times> gc_report \<times> install_error option" where
  "collectWithFail st hooks failAt fs =
     (let empty = \<lparr>gc_deleted = [], gc_kept = []\<rparr> in
      case retentionSet st fs of
        Inl e \<Rightarrow> (fs, empty, Some e)
      | Inr protected \<Rightarrow>
          (case gcCandidates st fs of
             Inl e \<Rightarrow> (fs, empty, Some e)
           | Inr candidates \<Rightarrow> collect_loop st hooks failAt protected fs empty candidates))"

definition Collect :: "store \<Rightarrow> gc_hooks \<Rightarrow> fs \<Rightarrow> fs \<times> gc_report \<times> install_error option" where
  "Collect st hooks fs = collectWithFail st hooks [] fs"

subsection \<open>What collection retains\<close>

lemma same_length_under: "is_under p q \<Longrightarrow> length q = length p \<Longrightarrow> q = p"
  by (auto simp: is_under_iff)

lemma under_common:
  assumes "is_under p r" and "is_under q r" and "length p = length q"
  shows "p = q"
  using assms unfolding is_under_def by metis

lemma collect_loop_frame:
  assumes "collect_loop st no_gc_hooks failAt protected fs r ps = (fs', r', e)" and "fs_ok fs"
    and "\<forall>p \<in> set ps. length p = n"
  shows "fs_ok fs' \<and> (\<forall>q. map_of fs' q \<noteq> map_of fs q \<longrightarrow>
      map_of fs' q = None \<and> (\<exists>p \<in> set ps. p \<notin> set protected \<and> is_under p q))"
  using assms
proof (induction ps arbitrary: fs r)
  case (Cons p ps)
  show ?case
  proof (cases "p \<in> set protected \<or> failAt = FailGCBeforeDelete \<or> active_tree st fs p
      \<or> \<not> gcSafePath st fs p \<or> failAt = FailGCDuringDelete \<or> p = []")
    case True
    then obtain r1 where "collect_loop st no_gc_hooks failAt protected fs r1 ps = (fs', r', e) \<or> fs' = fs"
      using Cons.prems(1) by (auto simp: no_gc_hooks_def remove_all_def split: if_splits)
    with Cons.IH [of fs r1] Cons.prems show ?thesis by auto
  next
    case False
    then have "collect_loop st no_gc_hooks failAt protected (erase p fs)
        (r\<lparr>gc_deleted := gc_deleted r @ [slash_rel st p]\<rparr>) ps = (fs', r', e)"
      using Cons.prems(1) by (simp add: no_gc_hooks_def remove_all_def)
    from Cons.IH [OF this] Cons.prems False fs_ok_erase
    have IH: "fs_ok fs'" "\<And>q. map_of fs' q \<noteq> map_of (erase p fs) q \<Longrightarrow>
        map_of fs' q = None \<and> (\<exists>p \<in> set ps. p \<notin> set protected \<and> is_under p q)"
      by auto
    have "map_of fs' q = None \<and> (\<exists>p' \<in> set (p # ps). p' \<notin> set protected \<and> is_under p' q)"
      if "map_of fs' q \<noteq> map_of fs q" for q
      using IH(2) [of q] that False
      by (cases "map_of fs' q"; cases "is_under p q") (auto simp: map_of_erase)
    with IH(1) show ?thesis by blast
  qed
qed simp

lemma listedKnownDirs_parent: "p \<in> set (listedKnownDirs st fs root key txns) \<Longrightarrow> butlast p = root \<and> p \<noteq> []"
  by (auto simp: listedKnownDirs_def split: sum.splits option.splits if_splits)

lemma candidates_parent:
  assumes "gcCandidates st fs = Inr ps" and "p \<in> set ps"
  shows "p \<noteq> [] \<and> butlast p \<in> {StagingRoot st, FailedRoot st, GenerationsRoot st}"
  using assms by (auto simp: gcCandidates_def bind_result_Inr dest!: listedKnownDirs_parent)

lemma candidate_length:
  assumes "gcCandidates st fs = Inr ps" and "p \<in> set ps"
  shows "length p = length (st_root st) + 2"
proof -
  from candidates_parent [OF assms] have "p \<noteq> []" "length (butlast p) = length (st_root st) + 1"
    by (auto simp: StagingRoot_def FailedRoot_def GenerationsRoot_def simp del: length_butlast)
  then show ?thesis by (cases p rule: rev_cases) auto
qed

lemma loadValid_stored:
  assumes "fs_ok fs" and "loadValidTransactions st fs = Inr txns" and "LoadTransaction st fs (tx_id t) = Inr t"
  shows "t \<in> set txns"
proof -
  obtain views c where ins: "inspectTransactions st fs = Inr (views, c)"
    using assms(2) by (auto simp: loadValidTransactions_def split: sum.splits)
  from views_of_loads [OF assms(1) ins assms(3)] have "View t \<in> set views" .
  moreover have "t \<in> set (load_listed_view st fs (View t))"
    using assms(3) by (simp add: load_listed_view_def View_def)
  ultimately show ?thesis using assms(2) ins by (auto simp: loadValidTransactions_def)
qed

text \<open>
  C33. Garbage collection only removes what it may: it creates and rewrites nothing, everything
  it removes lies below a direct child of the staging, failed or generations directory (so the
  transaction records and the active pointer stay), and it removes nothing of the active
  generation nor of the staging and generation trees of any unfinished transaction, whichever
  point it fails at.
\<close>

theorem collection_retains_live_trees:
  assumes ok: "fs_ok fs" and run: "collectWithFail st no_gc_hooks failAt fs = (fs', report, e)"
    and changed: "map_of fs' q \<noteq> map_of fs q"
  shows "map_of fs' q = None
    \<and> (\<exists>p. butlast p \<in> {StagingRoot st, FailedRoot st, GenerationsRoot st} \<and> p \<noteq> [] \<and> is_under p q)
    \<and> \<not> (ap_valid (ReadActive st fs) \<and> is_under (GenerationsRoot st @ [ap_generation (ReadActive st fs)]) q)
    \<and> (\<forall>t. LoadTransaction st fs (tx_id t) = Inr t \<and> Nonterminal (tx_state t) \<longrightarrow>
         \<not> is_under (StagingRoot st @ [tx_id t]) q \<and> \<not> is_under (GenerationsRoot st @ [tx_generation t]) q)"
proof -
  from run changed obtain protected candidates where
      prot: "retentionSet st fs = Inr protected" and cand: "gcCandidates st fs = Inr candidates"
      and loop: "collect_loop st no_gc_hooks failAt protected fs \<lparr>gc_deleted = [], gc_kept = []\<rparr> candidates
        = (fs', report, e)"
    by (auto simp: collectWithFail_def Let_def split: sum.splits)
  have len: "\<forall>p \<in> set candidates. length p = length (st_root st) + 2"
    using candidate_length [OF cand] by blast
  from collect_loop_frame [OF loop ok len] changed
  obtain p where none: "map_of fs' q = None" and p: "p \<in> set candidates" "p \<notin> set protected" "is_under p q"
    by blast
  from prot obtain txns where txns: "loadValidTransactions st fs = Inr txns"
    and prot_eq: "protected =
      (if ap_valid (ReadActive st fs) then ok_path (GenerationPath st (ap_generation (ReadActive st fs))) else [])
      @ option_list_of (latestPreviousCommitted st fs txns (ap_generation (ReadActive st fs)))
      @ option_list_of (latestFailedProven st fs txns) @ concat (map (nonterminal_paths st) txns)"
    by (auto simp: retentionSet_def bind_result_Inr Let_def)
  have differ: "\<not> is_under s q" if "s \<in> set protected" "length s = length (st_root st) + 2" for s
    using under_common [OF p(3)] that p len by metis
  have "\<not> is_under (GenerationsRoot st @ [ap_generation (ReadActive st fs)]) q" if act: "ap_valid (ReadActive st fs)"
  proof -
    obtain r where "ReadActive st fs = record_Observation r" and val: "validateActiveRecord r = None"
      using active_valid [OF act] by blast
    then have "ap_generation (ReadActive st fs) = ar_generation r" by (simp add: record_Observation_def)
    moreover have "ParseGenerationID (ar_generation r) = None"
      using val by (simp add: validateActiveRecord_def)
    ultimately have "ParseGenerationID (ap_generation (ReadActive st fs)) = None" by simp
    then have "GenerationsRoot st @ [ap_generation (ReadActive st fs)] \<in> set protected"
      using act by (simp add: prot_eq ok_path_def GenerationPath_ok)
    then show ?thesis by (rule differ) (simp add: GenerationsRoot_def)
  qed
  moreover have "\<not> is_under (StagingRoot st @ [tx_id t]) q \<and> \<not> is_under (GenerationsRoot st @ [tx_generation t]) q"
    if t: "LoadTransaction st fs (tx_id t) = Inr t" "Nonterminal (tx_state t)" for t
  proof -
    have mem: "t \<in> set txns" by (rule loadValid_stored [OF ok txns t(1)])
    have "validateTransaction t = None"
      using t(1) by (auto simp: LoadTransaction_def decodeTransaction_def bind_result_def
          split: sum.splits file_bytes.splits option.splits if_splits)
    then have ids: "ParseTransactionID (tx_id t) = None" "ParseGenerationID (tx_generation t) = None"
      by (simp_all add: validateTransaction_def)
    have "set (nonterminal_paths st t) = {StagingRoot st @ [tx_id t], GenerationsRoot st @ [tx_generation t]}"
      using t(2) ids by (simp add: nonterminal_paths_def ok_path_def StagingPath_ok GenerationPath_ok)
    then have "StagingRoot st @ [tx_id t] \<in> set protected" "GenerationsRoot st @ [tx_generation t] \<in> set protected"
      using mem unfolding prot_eq by auto
    then show ?thesis using differ by (simp add: StagingRoot_def GenerationsRoot_def)
  qed
  moreover have "butlast p \<in> {StagingRoot st, FailedRoot st, GenerationsRoot st} \<and> p \<noteq> []"
    using candidates_parent [OF cand p(1)] by blast
  ultimately show ?thesis using none p(3) by blast
qed

text \<open>A failed transaction with two proven trees: the staging one is kept as evidence.\<close>

definition failed_txn :: transaction where
  "failed_txn = sample_txn\<lparr>tx_state := StateFailed\<rparr>"

definition sample_gc_tree :: fs where
  "sample_gc_tree =
     (let candidate = File (Doc (candidate_json (candidate_of failed_txn))) in
      [([''r''], Dir), ([''r'', ''control''], Dir), ([''r'', ''control'', ''transactions''], Dir),
       ([''r'', ''control'', ''transactions'', transactionFileName sample_txn_id],
          File (Doc (transaction_json failed_txn))),
       ([''r'', ''staging''], Dir), ([''r'', ''staging'', sample_txn_id], Dir),
       ([''r'', ''staging'', sample_txn_id, fileCandidate], candidate),
       ([''r'', ''failed''], Dir), ([''r'', ''failed'', sample_txn_id], Dir),
       ([''r'', ''failed'', sample_txn_id, fileCandidate], candidate)])"

theorem collection_retains_live_trees_witness:
  "map_of (fst (collectWithFail sample_store no_gc_hooks [] sample_gc_tree)) [''r'', ''failed'', sample_txn_id] = None
   \<and> map_of sample_gc_tree [''r'', ''failed'', sample_txn_id] = Some Dir
   \<and> map_of (fst (collectWithFail sample_store no_gc_hooks [] sample_gc_tree)) [''r'', ''staging'', sample_txn_id] = Some Dir"
proof -
  let ?q = "[''r'', ''failed'', sample_txn_id]"
  obtain fs' report e where run: "collectWithFail sample_store no_gc_hooks [] sample_gc_tree = (fs', report, e)"
    by (metis prod_cases3)
  have ok: "fs_ok sample_gc_tree" by code_simp
  have before: "map_of sample_gc_tree ?q = Some Dir" by code_simp
  have "case collectWithFail sample_store no_gc_hooks [] sample_gc_tree of
      (f, _) \<Rightarrow> map_of f ?q \<noteq> Some Dir \<and> map_of f [''r'', ''staging'', sample_txn_id] = Some Dir"
    by code_simp
  with run have after: "map_of fs' ?q \<noteq> Some Dir" "map_of fs' [''r'', ''staging'', sample_txn_id] = Some Dir"
    by simp_all
  then have "map_of fs' ?q \<noteq> map_of sample_gc_tree ?q" using before by simp
  from collection_retains_live_trees [OF ok run this] show ?thesis using before after run by simp
qed

end
