(* ===== verification/Recovery_Decide.thy ===== *)
theory Recovery_Decide
  imports Install_Types
begin

text \<open>
  The recovery decision (install/recovery\_decide.go) and the step control of the recovery loop
  (install/recover.go): a pure function from what was observed on disk to the single next
  action, the state to record and the gate to install requests.
\<close>

definition mk_decision :: "gate \<Rightarrow> txn_state \<Rightarrow> action \<Rightarrow> string \<Rightarrow> decision" where
  "mk_decision g s a c = \<lparr>de_gate = g, de_next = s, de_action = a, de_code = c\<rparr>"

definition failTxn :: "string \<Rightarrow> action \<Rightarrow> decision" where
  "failTxn code act = mk_decision GateReady StateFailed act code"

definition failClosed :: "string \<Rightarrow> decision" where
  "failClosed code = mk_decision GateBlockedUnsafe StateNone ActionBlockUnsafe code"

definition blocked :: decision where
  "blocked = mk_decision GateBlockedUnsafe StateNone ActionBlockUnsafe CodeBlockedUnsafe"

definition ready :: "action \<Rightarrow> decision" where
  "ready act = mk_decision GateReady StateNone act []"

definition forward :: "txn_state \<Rightarrow> action \<Rightarrow> decision" where
  "forward next act = mk_decision GateReconciling next act []"

subsection \<open>Helpers\<close>

definition tree_complete :: "tree_observation \<Rightarrow> bool" where
  "tree_complete t \<longleftrightarrow> tr_present t \<and> tr_sealed t \<and> tr_lineage_match t"

definition leftoverStaging :: "observation \<Rightarrow> action option" where
  "leftoverStaging obs =
     (if \<not> tr_present (ob_staging obs) \<or> \<not> tree_complete (ob_generation obs) then None
      else if tr_empty (ob_staging obs) then Some ActionRemoveEmptyStaging
      else if tr_lineage_match (ob_staging obs) then Some ActionGCStaging
      else None)"

definition activeNames :: "observation \<Rightarrow> string \<Rightarrow> bool" where
  "activeNames obs gid \<longleftrightarrow>
     pointer_IsValid (ob_active obs) \<and> gid \<noteq> [] \<and> ap_generation (ob_active obs) = gid"

definition effective_before :: "before_kind \<Rightarrow> string \<Rightarrow> before_kind" where
  "effective_before kind before =
     (if kind = BeforeNone then (if before = [] then ActiveBeforeAbsent else ActiveBeforeValid) else kind)"

definition expectedPredecessorOrAbsent :: "observation \<Rightarrow> txn_view \<Rightarrow> bool" where
  "expectedPredecessorOrAbsent obs t =
     (if pointer_Invalid (ob_active obs) then False
      else case effective_before (tv_active_before_kind t) (tv_active_before t) of
             ActiveBeforeAbsent \<Rightarrow> pointer_Missing (ob_active obs)
           | ActiveBeforeValid \<Rightarrow>
               (if \<not> pointer_IsValid (ob_active obs) \<or> ap_generation (ob_active obs) \<noteq> tv_active_before t
                then False
                else if tv_active_before_digest t \<noteq> [] \<and> ap_seal (ob_active obs) \<noteq> tv_active_before_digest t
                then False
                else True)
           | _ \<Rightarrow> False)"

definition committedActive :: "observation \<Rightarrow> txn_view list \<Rightarrow> txn_view option" where
  "committedActive obs valid =
     first_match (\<lambda>t. tv_state t = StateCommitted \<and> pointer_IsValid (ob_active obs)
                    \<and> ap_generation (ob_active obs) = tv_generation t) valid"

definition failedButActive :: "observation \<Rightarrow> txn_view list \<Rightarrow> txn_view option" where
  "failedButActive obs valid =
     first_match (\<lambda>t. tv_state t = StateFailed \<and> pointer_IsValid (ob_active obs)
                    \<and> ap_generation (ob_active obs) = tv_generation t) valid"

definition pointerUnrelatedToHistory :: "observation \<Rightarrow> txn_view list \<Rightarrow> bool" where
  "pointerUnrelatedToHistory obs valid =
     (if \<not> pointer_IsValid (ob_active obs) then False
      else if list_ex (\<lambda>t. tv_generation t = ap_generation (ob_active obs)) valid then False
      else valid \<noteq> [])"

definition hasFailableNonterminal :: "txn_view list \<Rightarrow> bool" where
  "hasFailableNonterminal txns =
     list_ex (\<lambda>t. tv_state t = StateCreated \<or> tv_state t = StateBuilding) txns"

subsection \<open>One decision per transaction state\<close>

definition decideCreated :: "observation \<Rightarrow> decision" where
  "decideCreated obs =
     (let s = ob_staging obs; g = ob_generation obs in
      if \<not> tr_present s \<and> tr_present g then
        (if tr_empty g then failTxn [] ActionRemoveEmptyGeneration
         else if tr_lineage_match g then failTxn [] ActionNone
         else failClosed CodeInconsistent)
      else if \<not> tr_present s \<and> \<not> tr_present g then failTxn [] ActionNone
      else if tr_present s \<and> \<not> tr_present g then
        (if tr_empty s then failTxn [] ActionRemoveEmptyStaging
         else failTxn [] ActionMoveStagingToFailed)
      else failClosed CodeInconsistent)"

definition decideBuilding :: "observation \<Rightarrow> decision" where
  "decideBuilding obs =
     (let s = ob_staging obs; g = ob_generation obs in
      if \<not> tr_present s \<and> tr_present g then
        (if tr_empty g then failTxn CodeInterrupted ActionRemoveEmptyGeneration
         else if tr_lineage_match g then failTxn CodeInterrupted ActionNone
         else failClosed CodeInconsistent)
      else if \<not> tr_present s \<and> \<not> tr_present g then failTxn CodeInterrupted ActionNone
      else if tr_present s \<and> \<not> tr_present g then
        (if tr_empty s then failTxn CodeInterrupted ActionRemoveEmptyStaging
         else failTxn CodeInterrupted ActionMoveStagingToFailed)
      else failClosed CodeInconsistent)"

definition decideSealed :: "observation \<Rightarrow> decision" where
  "decideSealed obs =
     (let s = ob_staging obs; g = ob_generation obs in
      if tree_complete g \<and> tr_present s \<and> \<not> tr_empty s \<and> tr_sealed s \<and> tr_lineage_match s then blocked
      else if tr_present g \<and> tr_lineage_id g \<noteq> [] \<and> \<not> tr_lineage_match g then blocked
      else if \<not> tr_present s \<and> tree_complete g then forward StatePublished ActionPersistPublished
      else if tr_present s \<and> tr_empty s \<and> tree_complete g then forward StatePublished ActionRemoveEmptyStaging
      else if tr_present s \<and> tr_sealed s \<and> tr_lineage_match s \<and> \<not> tr_present g
      then failTxn CodeInterrupted ActionMoveStagingToFailed
      else if tr_present s \<and> \<not> tr_sealed s \<and> \<not> tr_present g
      then failTxn CodeSealInvalid ActionMoveStagingToFailed
      else failClosed CodeInconsistent)"

definition decidePublished :: "observation \<Rightarrow> txn_view \<Rightarrow> decision" where
  "decidePublished obs t =
     (if \<not> tree_complete (ob_generation obs) then failClosed CodeInconsistent
      else case leftoverStaging obs of
             Some act \<Rightarrow> forward StateNone act
           | None \<Rightarrow>
               if activeNames obs (tv_generation t) then forward StateActivating ActionReconcileEnv
               else if expectedPredecessorOrAbsent obs t then forward StateActivating ActionPersistActivating
               else if pointer_IsValid (ob_active obs) then blocked
               else failClosed CodeInconsistent)"

definition decideActivating :: "observation \<Rightarrow> txn_view \<Rightarrow> decision" where
  "decideActivating obs t =
     (if \<not> tree_complete (ob_generation obs) then failClosed CodeInconsistent
      else if pointer_IsValid (ob_active obs) \<and> \<not> activeNames obs (tv_generation t)
              \<and> \<not> expectedPredecessorOrAbsent obs t then blocked
      else if activeNames obs (tv_generation t) then
        (if env_Complete (ob_environment obs) then forward StateCommitted ActionCommit
         else forward StateNone ActionReconcileEnv)
      else if expectedPredecessorOrAbsent obs t then forward StateNone ActionActivate
      else failClosed CodeInconsistent)"

definition decideOne :: "observation \<Rightarrow> txn_view \<Rightarrow> decision" where
  "decideOne obs t =
     (case tv_state t of
        StateCreated \<Rightarrow> decideCreated obs
      | StateBuilding \<Rightarrow> decideBuilding obs
      | StateSealed \<Rightarrow> decideSealed obs
      | StatePublished \<Rightarrow> decidePublished obs t
      | StateActivating \<Rightarrow> decideActivating obs t
      | _ \<Rightarrow> blocked)"

definition decideTerminalWorld :: "observation \<Rightarrow> txn_view list \<Rightarrow> decision" where
  "decideTerminalWorld obs valid =
     (if pointerUnrelatedToHistory obs valid then ready ActionNone
      else if failedButActive obs valid \<noteq> None then
        (if env_Complete (ob_environment obs)
         then mk_decision GateReady StateCommitted ActionCommit []
         else forward StateActivating ActionReconcileEnv)
      else if committedActive obs valid \<noteq> None then
        (case leftoverStaging obs of
           Some act \<Rightarrow> ready act
         | None \<Rightarrow>
             if \<not> env_Complete (ob_environment obs) \<and> pointer_IsValid (ob_active obs)
             then ready ActionReconcileEnv
             else ready ActionNone)
      else if ob_unknown obs \<noteq> [] then ready ActionDiagnoseRetain
      else ready ActionNone)"

text \<open>The loop over the transactions stops at the first malformed record on a reserved name.\<close>

definition DecideRecovery :: "observation \<Rightarrow> decision" where
  "DecideRecovery obs =
     (if pointer_Invalid (ob_active obs) then blocked
      else if ob_collision obs then blocked
      else if list_ex (\<lambda>t. \<not> tv_valid t \<and> tv_occupies t) (ob_transactions obs) then blocked
      else
        let valid = filter tv_valid (ob_transactions obs);
            nonterminal = filter (\<lambda>t. Nonterminal (tv_state t)) valid
        in case nonterminal of
             [] \<Rightarrow> decideTerminalWorld obs valid
           | [t] \<Rightarrow> decideOne obs t
           | _ \<Rightarrow>
               if hasFailableNonterminal nonterminal
               then mk_decision GateReconciling StateNone ActionFailFailableExtras CodeInterrupted
               else blocked)"

subsection \<open>Step control (recover.go)\<close>

definition maxRecoverSteps :: nat where "maxRecoverSteps = 8"

definition finalGate :: "decision \<Rightarrow> gate" where
  "finalGate d =
     (if de_gate d = GateBlockedUnsafe then GateBlockedUnsafe
      else if de_gate d = GateReconciling then GateReconciling else GateReady)"

definition rankState :: "txn_state \<Rightarrow> int" where
  "rankState s =
     (case s of
        StateCreated \<Rightarrow> 1 | StateBuilding \<Rightarrow> 2 | StateSealed \<Rightarrow> 3 | StatePublished \<Rightarrow> 4
      | StateActivating \<Rightarrow> 5 | StateCommitted \<Rightarrow> 6 | StateFailed \<Rightarrow> 0 | _ \<Rightarrow> 0)"

definition forwardOrNoop :: "decision \<Rightarrow> decision \<Rightarrow> bool" where
  "forwardOrNoop prev next =
     (if de_gate next = GateBlockedUnsafe \<or> de_action next = ActionBlockUnsafe then False
      else if de_action next = ActionNone \<or> de_action next = ActionDiagnoseRetain then True
      else if de_action next = ActionReconcileEnv then True
      else if de_action prev \<noteq> de_action next then True
      else if de_next prev \<noteq> StateNone \<and> de_next next \<noteq> StateNone \<and> de_next prev \<noteq> de_next next
      then rankState (de_next next) > rankState (de_next prev)
      else False)"

lemmas decision_defs = mk_decision_def failTxn_def failClosed_def blocked_def ready_def forward_def

lemmas decide_state_defs = decideCreated_def decideBuilding_def decideSealed_def decidePublished_def
  decideActivating_def

end
