(* ===== verification/Install_Manager.thy ===== *)
theory Install_Manager
  imports Install_Env Install_Gc Recovery_Decide
begin

text \<open>
  The install manager (install/manager.go, publish.go, activate.go and environment\_apply.go): it
  takes one transaction through CREATED, BUILDING, SEALED, PUBLISHED, ACTIVATING and COMMITTED.

  A step takes the tree and the transaction in memory and returns both with an error or none, so
  that what was written before a failure stays written. Building and validating a candidate are
  parameters that may change the tree. The clock stands still during one call.
\<close>

record manager =
  mg_store :: store
  mg_build :: "(path \<Rightarrow> path \<Rightarrow> fs \<Rightarrow> fs \<times> install_error option) option"
  mg_validate :: "(path \<Rightarrow> string \<Rightarrow> fs \<Rightarrow> fs \<times> install_error option) option"
  mg_now :: time
  mg_fail_at :: string
  mg_env :: environment_store

text \<open>\<open>step_result\<close>: the tree, the transaction in memory, and the error returned.\<close>

type_synonym step_result = "fs \<times> transaction \<times> install_error option"

definition FailBeforeGenerationMkdir :: string where "FailBeforeGenerationMkdir = ''before-generation-mkdir''"
definition FailAfterGenerationMkdir :: string where "FailAfterGenerationMkdir = ''after-generation-mkdir''"
definition FailAfterBuild :: string where "FailAfterBuild = ''after-build''"
definition FailBeforeValidate :: string where "FailBeforeValidate = ''before-validate''"
definition FailDuringManifestWalk :: string where "FailDuringManifestWalk = ''during-manifest-walk''"
definition FailAfterManifest :: string where "FailAfterManifest = ''after-manifest''"
definition FailBeforeGenerationJSON :: string where "FailBeforeGenerationJSON = ''before-generation-json''"
definition FailAfterSealBeforeSecondWalk :: string where
  "FailAfterSealBeforeSecondWalk = ''after-seal-before-second-walk''"
definition FailBeforePublishVerify :: string where "FailBeforePublishVerify = ''before-publish-verify''"
definition FailAfterPublishVerify :: string where "FailAfterPublishVerify = ''after-publish-verify''"
definition FailAfterPublished :: string where "FailAfterPublished = ''after-published''"
definition FailBeforeActivatingPersist :: string where
  "FailBeforeActivatingPersist = ''before-activating-persist''"
definition FailAfterActivatingPersist :: string where
  "FailAfterActivatingPersist = ''after-activating-persist''"
definition FailDuringActiveWrite :: string where "FailDuringActiveWrite = ''during-active-write''"
definition FailAfterActiveWrite :: string where "FailAfterActiveWrite = ''after-active-write''"

definition failpoint :: "manager \<Rightarrow> string \<Rightarrow> install_error option" where
  "failpoint m name = (if mg_fail_at m = name then Some (ErrInjected name) else None)"

subsection \<open>Persisting (manager.go)\<close>

definition persist :: "manager \<Rightarrow> fs \<Rightarrow> transaction \<Rightarrow> step_result" where
  "persist m fs t =
     (case SaveTransaction (mg_store m) fs t of
        (fs1, Some e) \<Rightarrow>
          (case LoadTransaction (mg_store m) fs1 (tx_id t) of
             Inr loaded \<Rightarrow>
               if tx_id loaded = tx_id t \<and> tx_revision loaded > tx_revision t then (fs1, loaded, None)
               else (fs1, t, Some e)
           | Inl _ \<Rightarrow> (fs1, t, Some e))
      | (fs1, None) \<Rightarrow>
          (case LoadTransaction (mg_store m) fs1 (tx_id t) of
             Inl e \<Rightarrow> (fs1, t, Some e)
           | Inr loaded \<Rightarrow> (fs1, loaded, None)))"

text \<open>\<open>persist_then\<close>: persist, return on an error, go on with the stored record otherwise.\<close>

definition persist_then ::
  "manager \<Rightarrow> fs \<Rightarrow> transaction \<Rightarrow> (fs \<Rightarrow> transaction \<Rightarrow> step_result) \<Rightarrow> step_result" where
  "persist_then m fs t k =
     (case persist m fs t of
        (fs1, t1, Some e) \<Rightarrow> (fs1, t1, Some e)
      | (fs1, t1, None) \<Rightarrow> k fs1 t1)"

definition fail :: "manager \<Rightarrow> fs \<Rightarrow> transaction \<Rightarrow> string \<Rightarrow> step_result" where
  "fail m fs t code =
     (let active_owned = (case LoadActive (mg_store m) fs of
                            Inl _ \<Rightarrow> False | Inr r \<Rightarrow> ar_generation r = tx_generation t)
      in if active_owned
         then persist_then m fs (t\<lparr>tx_state := StateActivating, tx_error_code := [], tx_updated_at := mg_now m\<rparr>)
                (\<lambda>fs1 t1. (fs1, t1, Some (ErrCode code)))
         else persist_then m fs (t\<lparr>tx_state := StateFailed, tx_error_code := code, tx_updated_at := mg_now m\<rparr>)
                (\<lambda>fs1 t1. (fs1, t1, Some (ErrCode code))))"

subsection \<open>Building and sealing (manager.go)\<close>

definition createFreshGenerationCandidate ::
  "manager \<Rightarrow> fs \<Rightarrow> transaction \<Rightarrow> fs \<times> (install_error + path)" where
  "createFreshGenerationCandidate m fs t =
     (let st = mg_store m in
      case mkdir_all fs (GenerationsRoot st) of
        (fs1, Some e) \<Rightarrow> (fs1, Inl e)
      | (fs1, None) \<Rightarrow>
          (case rejectReparse fs1 (GenerationsRoot st) of
             Some e \<Rightarrow> (fs1, Inl e)
           | None \<Rightarrow>
          (case GenerationPath st (tx_generation t) of
             Inl e \<Rightarrow> (fs1, Inl e)
           | Inr gen \<Rightarrow>
          (case lstat fs1 gen of
             Inr _ \<Rightarrow> (fs1, Inl ErrGenerationOccupied)
           | Inl e \<Rightarrow>
               if e \<noteq> ErrNotExist then (fs1, Inl e)
               else case mkdir fs1 gen of
                 (fs2, Some e2) \<Rightarrow> (fs2, Inl e2)
               | (fs2, None) \<Rightarrow>
                   (case rejectReparse fs2 gen of
                      Some e3 \<Rightarrow> (fst (remove fs2 gen), Inl e3)
                    | None \<Rightarrow>
                        (case writeCandidateRecord (st_ops st) fs2 gen t of
                           (fs3, Some e4) \<Rightarrow> (fst (remove_all fs3 gen), Inl e4)
                         | (fs3, None) \<Rightarrow> (fs3, Inr gen)))))))"

definition hook_of :: "manager \<Rightarrow> string \<Rightarrow> fs \<Rightarrow> fs \<times> install_error option" where
  "hook_of m name fs = (fs, failpoint m name)"

definition manager_seal_hooks :: "manager \<Rightarrow> seal_hooks" where
  "manager_seal_hooks m =
     \<lparr>sh_after_walk = hook_of m FailDuringManifestWalk,
      sh_after_manifest = hook_of m FailAfterManifest,
      sh_before_generation = hook_of m FailBeforeGenerationJSON,
      sh_before_second_walk = hook_of m FailAfterSealBeforeSecondWalk\<rparr>"

definition seal_input_of :: "manager \<Rightarrow> path \<Rightarrow> transaction \<Rightarrow> seal_input" where
  "seal_input_of m gen t =
     \<lparr>si_root = gen, si_transaction = tx_id t, si_generation = tx_generation t,
      si_runtime_kind = tx_runtime_kind t, si_source_pin = tx_source_pin t,
      si_expected_version = tx_expected_version t, si_generation_rel = tx_generation_rel t,
      si_created_at = mg_now m\<rparr>"

definition candidate_matches :: "platform \<Rightarrow> fs \<Rightarrow> path \<Rightarrow> transaction \<Rightarrow> bool" where
  "candidate_matches pf fs gen t =
     (case readCandidateRecord pf fs gen of
        None \<Rightarrow> False
      | Some c \<Rightarrow> cd_transaction c = tx_id t \<and> cd_generation c = tx_generation t
                 \<and> cd_runtime_kind c = tx_runtime_kind t)"

text \<open>The part of \<open>SealNew\<close> after the build: validate, check ownership, seal, record SEALED.\<close>

definition seal_built :: "manager \<Rightarrow> path \<Rightarrow> fs \<Rightarrow> transaction \<Rightarrow> step_result" where
  "seal_built m gen fs t =
     (if failpoint m FailAfterBuild \<noteq> None then fail m fs t CodeInterrupted
      else if failpoint m FailBeforeValidate \<noteq> None then fail m fs t CodeSealInvalid
      else case (case mg_validate m of None \<Rightarrow> (fs, None) | Some v \<Rightarrow> v gen (tx_expected_version t) fs) of
             (fs1, Some e) \<Rightarrow> fail m fs1 t CodeSealInvalid
           | (fs1, None) \<Rightarrow>
               if \<not> candidate_matches (st_platform (mg_store m)) fs1 gen t then fail m fs1 t CodeSealInvalid
               else case SealGeneration (st_platform (mg_store m)) (mg_now m) (st_ops (mg_store m))
                           (seal_input_of m gen t) (manager_seal_hooks m) fs1 of
                      (fs2, Inl e) \<Rightarrow> fail m fs2 t CodeSealInvalid
                    | (fs2, Inr s) \<Rightarrow>
                        persist m fs2
                          (t\<lparr>tx_state := StateSealed, tx_step := ''sealed'',
                             tx_manifest_sha := sr_manifest_sha s, tx_seal_sha := sr_seal_sha s,
                             tx_sealed_at := Some (mg_now m), tx_updated_at := mg_now m,
                             tx_error_code := []\<rparr>))"

text \<open>The part of \<open>SealNew\<close> after BUILDING is recorded, up to the end of the build.\<close>

definition build_candidate :: "manager \<Rightarrow> install_error option \<Rightarrow> fs \<Rightarrow> transaction \<Rightarrow> step_result" where
  "build_candidate m ctx fs t =
     (if failpoint m FailBeforeGenerationMkdir \<noteq> None then fail m fs t CodeInterrupted
      else case createFreshGenerationCandidate m fs t of
             (fs1, Inl e) \<Rightarrow> fail m fs1 t CodeInterrupted
           | (fs1, Inr gen) \<Rightarrow>
               if failpoint m FailAfterGenerationMkdir \<noteq> None then fail m fs1 t CodeInterrupted
               else if ctx \<noteq> None then fail m fs1 t CodeInterrupted
               else case (case mg_build m of None \<Rightarrow> (fs1, None)
                          | Some b \<Rightarrow> b gen (st_root (mg_store m)) fs1) of
                      (fs2, Some e) \<Rightarrow> fail m fs2 t CodeInterrupted
                    | (fs2, None) \<Rightarrow> seal_built m gen fs2 t)"

definition SealNew :: "manager \<Rightarrow> install_error option \<Rightarrow> fs \<Rightarrow> transaction \<Rightarrow> step_result" where
  "SealNew m ctx fs t =
     (let to_building = (\<lambda>fs1 t1.
            persist_then m fs1 (t1\<lparr>tx_state := StateBuilding, tx_step := ''build'', tx_updated_at := mg_now m\<rparr>)
              (build_candidate m ctx))
      in if tx_state t \<noteq> StateCreated then (fs, t, Some ErrInvalidRecord)
         else if tx_revision t = 0 then persist_then m fs t to_building
         else case LoadTransaction (mg_store m) fs (tx_id t) of
                Inl e \<Rightarrow> (fs, t, Some e)
              | Inr loaded \<Rightarrow>
                  if tx_state loaded \<noteq> StateCreated then (fs, loaded, Some ErrInvalidRecord)
                  else to_building fs loaded)"

subsection \<open>Publishing (publish.go)\<close>

record published_tree =
  pt_present :: bool
  pt_empty :: bool
  pt_sealed :: bool

definition observePublishedTree :: "store \<Rightarrow> fs \<Rightarrow> path \<Rightarrow> transaction \<Rightarrow> published_tree" where
  "observePublishedTree st fs p t =
     (case lstat fs p of
        Inl _ \<Rightarrow> \<lparr>pt_present = False, pt_empty = False, pt_sealed = False\<rparr>
      | Inr n \<Rightarrow>
          if rejectReparse fs p \<noteq> None \<or> n \<noteq> Dir
          then \<lparr>pt_present = True, pt_empty = False, pt_sealed = False\<rparr>
          else \<lparr>pt_present = True, pt_empty = (dirEmpty fs p = Inr True),
                pt_sealed = (VerifySealedTree (st_platform st) fs p (tx_generation t) (tx_manifest_sha t)
                               (tx_seal_sha t) = None)\<rparr>)"

text \<open>A legacy staging directory: an empty one is removed, any other blocks.\<close>

definition clear_staging :: "store \<Rightarrow> fs \<Rightarrow> path \<Rightarrow> transaction \<Rightarrow> fs \<times> install_error option" where
  "clear_staging st fs staging t =
     (let s = observePublishedTree st fs staging t in
      if \<not> pt_present s then (fs, None)
      else if \<not> pt_empty s then (fs, Some ErrBlockedUnsafe)
      else case remove fs staging of
             (fs1, None) \<Rightarrow> (fs1, None)
           | (fs1, Some e) \<Rightarrow> (fs1, if e = ErrNotExist then None else Some e))"

definition verify_published :: "manager \<Rightarrow> path \<Rightarrow> fs \<Rightarrow> transaction \<Rightarrow> install_error option" where
  "verify_published m dest fs t =
     (let st = mg_store m; d = observePublishedTree st fs dest t in
      check (\<not> pt_present d) ErrSealInvalid
      (check (\<not> pt_sealed d) ErrPublishConflict
      (orelse (failpoint m FailBeforePublishVerify)
      (orelse (VerifySealedTree (st_platform st) fs dest (tx_generation t) (tx_manifest_sha t) (tx_seal_sha t))
        (failpoint m FailAfterPublishVerify)))))"

definition publish :: "manager \<Rightarrow> fs \<Rightarrow> transaction \<Rightarrow> step_result" where
  "publish m fs t =
     (let st = mg_store m in
      if tx_state t = StatePublished \<or> tx_state t = StateActivating then (fs, t, None)
      else if tx_state t \<noteq> StateSealed then (fs, t, Some ErrInvalidRecord)
      else case GenerationPath st (tx_generation t) of
             Inl e \<Rightarrow> (fs, t, Some e)
           | Inr dest \<Rightarrow>
          (case mkdir_all fs (GenerationsRoot st) of
             (fs1, Some e) \<Rightarrow> (fs1, t, Some e)
           | (fs1, None) \<Rightarrow>
          (case rejectReparse fs1 (GenerationsRoot st) of
             Some e \<Rightarrow> (fs1, t, Some e)
           | None \<Rightarrow>
          (case StagingPath st (tx_id t) of
             Inl e \<Rightarrow> (fs1, t, Some e)
           | Inr staging \<Rightarrow>
          (case clear_staging st fs1 staging t of
             (fs2, Some e) \<Rightarrow> (fs2, t, Some e)
           | (fs2, None) \<Rightarrow>
          (case verify_published m dest fs2 t of
             Some e \<Rightarrow> (fs2, t, Some e)
           | None \<Rightarrow>
               persist_then m fs2
                 (t\<lparr>tx_state := StatePublished, tx_step := ''published'',
                    tx_published_at := Some (mg_now m), tx_updated_at := mg_now m\<rparr>)
                 (\<lambda>fs3 t3. (fs3, t3, failpoint m FailAfterPublished))))))))"

definition renameDirectory :: "fs \<Rightarrow> path \<Rightarrow> path \<Rightarrow> fs \<times> install_error option" where
  "renameDirectory fs src dst =
     (case orelse (rejectReparse fs src) (rejectReparse fs (butlast dst)) of
        Some e \<Rightarrow> (fs, Some e)
      | None \<Rightarrow>
          (case lstat fs dst of
             Inr _ \<Rightarrow> (fs, Some ErrPublishConflict)
           | Inl e \<Rightarrow>
               if e \<noteq> ErrNotExist then (fs, Some e)
               else case rename fs src dst of
                      (fs1, Some e1) \<Rightarrow> (fs1, Some e1)
                    | (fs1, None) \<Rightarrow> (fs1, rejectReparse fs1 dst)))"

subsection \<open>Activating (activate.go)\<close>

definition pointerNamesTxn :: "active_pointer \<Rightarrow> transaction \<Rightarrow> bool" where
  "pointerNamesTxn p t \<longleftrightarrow>
     pointer_IsValid p \<and> ap_generation p = tx_generation t \<and> ap_seal p = tx_seal_sha t"

definition snapshotActiveBefore :: "transaction \<Rightarrow> active_pointer \<Rightarrow> install_error + transaction" where
  "snapshotActiveBefore t p =
     (if pointer_Invalid p then Inl ErrBlockedUnsafe
      else if pointer_Missing p then
        Inr (t\<lparr>tx_before_kind := ActiveBeforeAbsent, tx_before_generation := [], tx_before_digest := []\<rparr>)
      else if \<not> pointer_IsValid p then Inl ErrBlockedUnsafe
      else Inr (t\<lparr>tx_before_kind := ActiveBeforeValid, tx_before_generation := ap_generation p,
                  tx_before_digest := ap_seal p\<rparr>))"

definition casAllowsActivate :: "transaction \<Rightarrow> active_pointer \<Rightarrow> install_error option" where
  "casAllowsActivate t p =
     (if pointer_Invalid p then Some ErrBlockedUnsafe
      else if pointerNamesTxn p t then None
      else case effective_before (tx_before_kind t) (tx_before_generation t) of
             ActiveBeforeAbsent \<Rightarrow> check (\<not> pointer_Missing p) ErrBlockedUnsafe None
           | ActiveBeforeValid \<Rightarrow>
               check (\<not> pointer_IsValid p \<or> ap_generation p \<noteq> tx_before_generation t) ErrBlockedUnsafe
               (check (tx_before_digest t \<noteq> [] \<and> ap_seal p \<noteq> tx_before_digest t) ErrBlockedUnsafe None)
           | _ \<Rightarrow> Some ErrBlockedUnsafe)"

definition markActivating :: "manager \<Rightarrow> fs \<Rightarrow> transaction \<Rightarrow> step_result" where
  "markActivating m fs t =
     (if tx_state t = StateActivating \<and> tx_activated_at t \<noteq> None then (fs, t, None)
      else persist m fs
        (t\<lparr>tx_state := StateActivating, tx_step := ''activating'', tx_updated_at := mg_now m,
           tx_activated_at := (case tx_activated_at t of None \<Rightarrow> Some (mg_now m) | Some a \<Rightarrow> Some a)\<rparr>))"

text \<open>The clock of the process is not the manager's: it only replaces a zero time.\<close>

definition active_record_of :: "manager \<Rightarrow> time \<Rightarrow> transaction \<Rightarrow> active_record" where
  "active_record_of m wall t =
     \<lparr>ar_schema = activeSchema, ar_runtime_kind = tx_runtime_kind t, ar_generation = tx_generation t,
      ar_generation_rel = tx_generation_rel t, ar_manifest_sha = tx_manifest_sha t,
      ar_seal_sha = tx_seal_sha t, ar_source_pin = tx_source_pin t, ar_version = tx_expected_version t,
      ar_transaction = tx_id t,
      ar_activated_at = (if is_zero_time (mg_now m) then wall else mg_now m)\<rparr>"

definition verify_tree :: "manager \<Rightarrow> fs \<Rightarrow> path \<Rightarrow> transaction \<Rightarrow> install_error option" where
  "verify_tree m fs dest t =
     VerifySealedTree (st_platform (mg_store m)) fs dest (tx_generation t) (tx_manifest_sha t) (tx_seal_sha t)"

text \<open>The pointer write: re-read, compare, write, read back, verify, record the time.\<close>

definition write_pointer :: "manager \<Rightarrow> time \<Rightarrow> path \<Rightarrow> fs \<Rightarrow> transaction \<Rightarrow> step_result" where
  "write_pointer m wall dest fs t =
     (let st = mg_store m; pointer = ReadActive st fs in
      if pointer_Invalid pointer then (fs, t, Some ErrBlockedUnsafe)
      else if pointerNamesTxn pointer t then (fs, t, None)
      else case orelse (casAllowsActivate t pointer) (failpoint m FailDuringActiveWrite) of
             Some e \<Rightarrow> (fs, t, Some e)
           | None \<Rightarrow>
          (case WriteActive st fs (active_record_of m wall t) of
             (fs1, Some e) \<Rightarrow> (fs1, t, Some e)
           | (fs1, None) \<Rightarrow>
               if failpoint m FailAfterActiveWrite \<noteq> None then (fs1, t, failpoint m FailAfterActiveWrite)
               else if \<not> pointerNamesTxn (ReadActive st fs1) t then (fs1, t, Some ErrInvalidRecord)
               else case verify_tree m fs1 dest t of
                      Some e \<Rightarrow> (fs1, t, Some e)
                    | None \<Rightarrow>
                        if tx_activated_at t = None
                        then persist_then m fs1
                               (t\<lparr>tx_activated_at := Some (mg_now m), tx_updated_at := mg_now m\<rparr>)
                               (\<lambda>fs2 t2. (fs2, t2, None))
                        else (fs1, t, None)))"

definition activate :: "manager \<Rightarrow> time \<Rightarrow> fs \<Rightarrow> transaction \<Rightarrow> step_result" where
  "activate m wall fs t =
     (let st = mg_store m in
      if tx_state t \<noteq> StatePublished \<and> tx_state t \<noteq> StateActivating then (fs, t, Some ErrInvalidRecord)
      else case GenerationPath st (tx_generation t) of
             Inl e \<Rightarrow> (fs, t, Some e)
           | Inr dest \<Rightarrow>
          (case verify_tree m fs dest t of
             Some e \<Rightarrow> (fs, t, Some e)
           | None \<Rightarrow>
               if pointer_Invalid (ReadActive st fs) then (fs, t, Some ErrBlockedUnsafe)
               else if pointerNamesTxn (ReadActive st fs) t then markActivating m fs t
               else if tx_state t = StatePublished then
                 (if failpoint m FailBeforeActivatingPersist \<noteq> None
                  then (fs, t, failpoint m FailBeforeActivatingPersist)
                  else case snapshotActiveBefore t (ReadActive st fs) of
                         Inl e \<Rightarrow> (fs, t, Some e)
                       | Inr t1 \<Rightarrow>
                      (case markActivating m fs t1 of
                         (fs2, t2, Some e) \<Rightarrow> (fs2, t2, Some e)
                       | (fs2, t2, None) \<Rightarrow>
                           if failpoint m FailAfterActivatingPersist \<noteq> None
                           then (fs2, t2, failpoint m FailAfterActivatingPersist)
                           else write_pointer m wall dest fs2 t2))
               else write_pointer m wall dest fs t))"

definition publishError :: "manager \<Rightarrow> fs \<Rightarrow> transaction \<Rightarrow> install_error \<Rightarrow> step_result" where
  "publishError m fs t e =
     (if e = ErrBlockedUnsafe then (fs, t, Some e)
      else if e = ErrPublishConflict \<or> e = ErrSealInvalid then fail m fs t CodePublishConflict
      else (fs, t, Some e))"

definition activateError :: "manager \<Rightarrow> fs \<Rightarrow> transaction \<Rightarrow> install_error \<Rightarrow> step_result" where
  "activateError m fs t e = (fs, t, Some e)"

definition PublishAndActivate ::
  "manager \<Rightarrow> time \<Rightarrow> install_error option \<Rightarrow> fs \<Rightarrow> transaction \<Rightarrow> step_result" where
  "PublishAndActivate m wall ctx fs t =
     (case ctx of
        Some e \<Rightarrow> (fs, t, Some e)
      | None \<Rightarrow>
     (case LoadTransaction (mg_store m) fs (tx_id t) of
        Inl e \<Rightarrow> (fs, t, Some e)
      | Inr loaded \<Rightarrow>
          if tx_state loaded \<notin> {StateSealed, StatePublished, StateActivating}
          then (fs, loaded, Some ErrInvalidRecord)
          else case publish m fs loaded of
                 (fs1, t1, Some e) \<Rightarrow> publishError m fs1 t1 e
               | (fs1, t1, None) \<Rightarrow>
                   (case activate m wall fs1 t1 of
                      (fs2, t2, Some e) \<Rightarrow> activateError m fs2 t2 e
                    | (fs2, t2, None) \<Rightarrow> (fs2, t2, None))))"

subsection \<open>Reconciling the environment (environment\_apply.go)\<close>

text \<open>From here on a step also changes the user's registry.\<close>

record world =
  w_fs :: fs
  w_registry :: registry

definition FailEnvRead :: string where "FailEnvRead = ''env-read''"
definition FailAfterHermesHome :: string where "FailAfterHermesHome = ''after-hermes-home''"
definition FailDuringPath :: string where "FailDuringPath = ''during-path''"
definition FailAfterPathBeforeReadback :: string where
  "FailAfterPathBeforeReadback = ''after-path-before-readback''"
definition FailBroadcast :: string where "FailBroadcast = ''env-broadcast''"

definition envStore :: "manager \<Rightarrow> environment_store" where
  "envStore m =
     (if es_read (mg_env m) \<noteq> None then mg_env m else defaultEnvironmentStore (st_platform (mg_store m)))"

definition readObserved :: "manager \<Rightarrow> registry \<Rightarrow> install_error + observed_environment" where
  "readObserved m rg =
     (case es_read (envStore m) of None \<Rightarrow> Inl (ErrCode ''reader missing'') | Some f \<Rightarrow> f rg)"

definition write_home :: "manager \<Rightarrow> environment_plan \<Rightarrow> registry \<Rightarrow> registry \<times> install_error option" where
  "write_home m plan rg =
     (if \<not> pl_set_home plan then (rg, None)
      else case es_write_home (envStore m) of
             None \<Rightarrow> (rg, Some (ErrCode ''home writer missing''))
           | Some f \<Rightarrow>
               (case f (pl_home plan) rg of
                  (rg1, Some e) \<Rightarrow> (rg1, Some e)
                | (rg1, None) \<Rightarrow> (rg1, failpoint m FailAfterHermesHome)))"

definition write_path :: "manager \<Rightarrow> environment_plan \<Rightarrow> registry \<Rightarrow> registry \<times> install_error option" where
  "write_path m plan rg =
     (if \<not> pl_path_changed plan then (rg, None)
      else case failpoint m FailDuringPath of
             Some e \<Rightarrow> (rg, Some e)
           | None \<Rightarrow>
          (case es_write_path (envStore m) of
             None \<Rightarrow> (rg, Some (ErrCode ''path writer missing''))
           | Some f \<Rightarrow>
               (case f (pl_path plan) rg of
                  (rg1, Some e) \<Rightarrow> (rg1, Some e)
                | (rg1, None) \<Rightarrow> (rg1, failpoint m FailAfterPathBeforeReadback))))"

text \<open>The broadcast is advisory: neither its failure nor its failpoint is an error.\<close>

definition reconcileOnce ::
  "manager \<Rightarrow> fs \<Rightarrow> registry \<Rightarrow> active_record \<Rightarrow> bool \<Rightarrow> registry \<times> install_error option" where
  "reconcileOnce m fs rg r allowStale =
     (let pf = st_platform (mg_store m) in
      case PolicyFromActive (mg_store m) fs r allowStale of
        Inl e \<Rightarrow> (rg, Some e)
      | Inr policy \<Rightarrow>
     (case failpoint m FailEnvRead of
        Some e \<Rightarrow> (rg, Some e)
      | None \<Rightarrow>
     (case readObserved m rg of
        Inl e \<Rightarrow> (rg, Some e)
      | Inr observed \<Rightarrow>
     (let plan = ComputeEnvironmentPlan pf policy observed in
      case write_home m plan rg of
        (rg1, Some e) \<Rightarrow> (rg1, Some e)
      | (rg1, None) \<Rightarrow>
     (case write_path m plan rg1 of
        (rg2, Some e) \<Rightarrow> (rg2, Some e)
      | (rg2, None) \<Rightarrow>
     (case readObserved m rg2 of
        Inl e \<Rightarrow> (rg2, Some e)
      | Inr readback \<Rightarrow>
          (rg2, check (\<not> env_Complete (plan_Observation pf plan readback))
                  (ErrCode ''read-back mismatch'') None)))))))"

definition commit_observed :: "manager \<Rightarrow> fs \<Rightarrow> registry \<Rightarrow> active_record \<Rightarrow> install_error option" where
  "commit_observed m fs rg r =
     (case readObserved m rg of
        Inl e \<Rightarrow> Some e
      | Inr ob \<Rightarrow>
          (case PolicyFromActive (mg_store m) fs r False of
             Inl e \<Rightarrow> Some e
           | Inr policy \<Rightarrow>
               (let pf = st_platform (mg_store m) in
                check (\<not> env_Complete (plan_Observation pf (ComputeEnvironmentPlan pf policy ob) ob))
                  (ErrCode ''environment not yet observed'') None)))"

type_synonym world_result = "world \<times> transaction \<times> install_error option"

text \<open>A last pass removes stale entries; its outcome is ignored.\<close>

definition final_pass :: "manager \<Rightarrow> active_record \<Rightarrow> world \<Rightarrow> transaction \<Rightarrow> world_result" where
  "final_pass m r w t =
     (w\<lparr>w_registry := fst (reconcileOnce m (w_fs w) (w_registry w) r True)\<rparr>, t, None)"

definition ReconcileEnvironment ::
  "manager \<Rightarrow> install_error option \<Rightarrow> world \<Rightarrow> transaction \<Rightarrow> world_result" where
  "ReconcileEnvironment m ctx w t =
     (let st = mg_store m in
      case ctx of
        Some e \<Rightarrow> (w, t, Some e)
      | None \<Rightarrow>
     (case LoadTransaction st (w_fs w) (tx_id t) of
        Inl e \<Rightarrow> (w, t, Some e)
      | Inr loaded \<Rightarrow>
          if tx_state loaded \<noteq> StateActivating \<and> tx_state loaded \<noteq> StateCommitted
          then (w, loaded, Some ErrInvalidRecord)
          else case LoadActive st (w_fs w) of
             Inl e \<Rightarrow> (w, loaded, Some e)
           | Inr r \<Rightarrow>
          (if ar_generation r \<noteq> tx_generation loaded \<and> tx_state loaded = StateActivating
           then (w, loaded, Some ErrInvalidRecord)
           else
             let (fs1, committed) =
               (if tx_state loaded = StateCommitted then (w_fs w, True) else HasCommitted st (w_fs w))
             in case reconcileOnce m fs1 (w_registry w) r committed of
                  (rg1, Some e) \<Rightarrow> (\<lparr>w_fs = fs1, w_registry = rg1\<rparr>, loaded, Some e)
                | (rg1, None) \<Rightarrow>
                    if tx_state loaded \<noteq> StateActivating
                    then final_pass m r \<lparr>w_fs = fs1, w_registry = rg1\<rparr> loaded
                    else case commit_observed m fs1 rg1 r of
                           Some e \<Rightarrow> (\<lparr>w_fs = fs1, w_registry = rg1\<rparr>, loaded, Some e)
                         | None \<Rightarrow>
                        (case persist m fs1
                                (loaded\<lparr>tx_state := StateCommitted, tx_step := ''committed'',
                                        tx_committed_at := Some (mg_now m), tx_updated_at := mg_now m\<rparr>) of
                           (fs2, t2, Some e) \<Rightarrow> (\<lparr>w_fs = fs2, w_registry = rg1\<rparr>, t2, Some e)
                         | (fs2, t2, None) \<Rightarrow>
                             final_pass m r
                               \<lparr>w_fs = fst (Collect st no_gc_hooks fs2), w_registry = rg1\<rparr> t2))))"

text \<open>The daemon's start-up hook.\<close>

definition NewManager :: "store \<Rightarrow> time \<Rightarrow> manager" where
  "NewManager st now =
     \<lparr>mg_store = st, mg_build = None, mg_validate = None, mg_now = now, mg_fail_at = [],
      mg_env = defaultEnvironmentStore (st_platform st)\<rparr>"

definition ReconcileManagedEnvironment :: "store \<Rightarrow> time \<Rightarrow> world \<Rightarrow> world \<times> install_error option" where
  "ReconcileManagedEnvironment st now w =
     (let m = NewManager st now;
          once = (\<lambda>r fs stale.
            let (rg, e) = reconcileOnce m fs (w_registry w) r stale in (\<lparr>w_fs = fs, w_registry = rg\<rparr>, e))
      in case LoadActive st (w_fs w) of
           Inl e \<Rightarrow> (w, if e = ErrNotFound then None else Some e)
         | Inr r \<Rightarrow>
             (case LoadTransaction st (w_fs w) (ar_transaction r) of
                Inl _ \<Rightarrow> (let (fs1, committed) = HasCommitted st (w_fs w) in once r fs1 committed)
              | Inr t \<Rightarrow>
                  if tx_state t = StateActivating \<or> tx_state t = StateCommitted
                  then (let (w1, _, e) = ReconcileEnvironment m None w t in (w1, e))
                  else let (fs1, committed) = HasCommitted st (w_fs w) in once r fs1 committed))"

end
