(* ===== verification/Recovery_Run.thy ===== *)
theory Recovery_Run
  imports Install_Manager
begin

text \<open>
  Recovery at daemon start: what is observed (install/observe.go), how one decision is carried
  out (install/recovery\_execute.go), and the bounded loop under the install lock that ends by
  setting the gate for new installs (install/recover.go, lock.go).

  The result of the operating system's lock call is a parameter.
\<close>

subsection \<open>Observing (observe.go)\<close>

definition officialRootNames :: "string list" where
  "officialRootNames =
     [dirControl, dirGenerations, dirStaging, dirFailed, ''cache'', ''node'', ''.env'', ''config.yaml'',
      ''SOUL.md'', ''cron'', ''sessions'', ''logs'', ''pairing'', ''hooks'', ''image_cache'',
      ''audio_cache'', ''memories'', ''skills'']"

definition primaryTxn :: "txn_view list \<Rightarrow> active_pointer \<Rightarrow> txn_view" where
  "primaryTxn views active =
     (let nonterminal = filter (\<lambda>v. tv_valid v \<and> Nonterminal (tv_state v)) views in
      case nonterminal of
        [v] \<Rightarrow> v
      | _ \<Rightarrow>
          if pointer_IsValid active
          then (case first_match (\<lambda>v. tv_valid v \<and> tv_generation v = ap_generation active) views of
                  Some v \<Rightarrow> v | None \<Rightarrow> zero_view)
          else zero_view)"

definition tree_lineage :: "store \<Rightarrow> fs \<Rightarrow> path \<Rightarrow> transaction \<Rightarrow> tree_observation \<Rightarrow> tree_observation" where
  "tree_lineage st fs p t ob =
     (case readGenerationFile fs p of
        Some r \<Rightarrow> ob\<lparr>tr_lineage_id := gr_generation r, tr_lineage_match := (gr_generation r = tx_generation t)\<rparr>
      | None \<Rightarrow>
          (case readCandidateRecord (st_platform st) fs p of
             Some c \<Rightarrow> ob\<lparr>tr_lineage_id := cd_generation c,
                          tr_lineage_match := (cd_generation c = tx_generation t \<and> cd_transaction c = tx_id t)\<rparr>
           | None \<Rightarrow> ob))"

definition observeTree :: "store \<Rightarrow> fs \<Rightarrow> path \<Rightarrow> transaction \<Rightarrow> tree_observation" where
  "observeTree st fs p t =
     (case lstat fs p of
        Inl _ \<Rightarrow> zero_tree
      | Inr n \<Rightarrow>
          (let present = zero_tree\<lparr>tr_present := True\<rparr> in
           if rejectReparse fs p \<noteq> None \<or> n \<noteq> Dir then present
           else
             let ob = tree_lineage st fs p t (present\<lparr>tr_empty := (dirEmpty fs p = Inr True)\<rparr>)
             in if tx_manifest_sha t \<noteq> [] \<and> tx_seal_sha t \<noteq> []
                   \<and> VerifySealedTree (st_platform st) fs p (tx_generation t) (tx_manifest_sha t) (tx_seal_sha t) = None
                then ob\<lparr>tr_sealed := True, tr_lineage_match := True, tr_lineage_id := tx_generation t\<rparr>
                else ob))"

definition observe_path :: "store \<Rightarrow> fs \<Rightarrow> install_error + path \<Rightarrow> transaction \<Rightarrow> tree_observation" where
  "observe_path st fs r t = (case r of Inl _ \<Rightarrow> zero_tree | Inr p \<Rightarrow> observeTree st fs p t)"

text \<open>The error of a failed load is dropped; the record is then the zero record.\<close>

definition observeEnvironment ::
  "store \<Rightarrow> environment_store \<Rightarrow> world \<Rightarrow> install_error + active_record \<Rightarrow> fs \<times> environment_observation" where
  "observeEnvironment st env w loaded =
     (let nothing = \<lparr>eo_home_ok = False, eo_path_ok = False\<rparr> in
      case (loaded, es_read env) of
        (Inr r, Some f) \<Rightarrow>
          (let (fs1, committed) = HasCommitted st (w_fs w) in
           (fs1,
            case PolicyFromActive st fs1 r committed of
              Inl _ \<Rightarrow> nothing
            | Inr policy \<Rightarrow>
                (case f (w_registry w) of
                   Inl _ \<Rightarrow> nothing
                 | Inr ob \<Rightarrow>
                     plan_Observation (st_platform st) (ComputeEnvironmentPlan (st_platform st) policy ob) ob)))
      | _ \<Rightarrow> (w_fs w, nothing))"

definition unknown_children :: "fs \<Rightarrow> path \<Rightarrow> string \<Rightarrow> string list \<Rightarrow> string list" where
  "unknown_children fs root prefix known =
     (case read_dir fs root of
        Inl _ \<Rightarrow> []
      | Inr names \<Rightarrow>
          map (\<lambda>n. prefix @ ''/'' @ n) (filter (\<lambda>n. is_dir fs (root @ [n]) \<and> n \<notin> set known) names))"

definition scanUnknownDirectories :: "store \<Rightarrow> fs \<Rightarrow> txn_view list \<Rightarrow> install_error + string list" where
  "scanUnknownDirectories st fs views =
     (let valid = filter tv_valid views in
      case read_dir fs (st_root st) of
        Inl e \<Rightarrow> if e = ErrNotExist then Inr [] else Inl e
      | Inr names \<Rightarrow>
          Inr (sort (filter (\<lambda>n. n \<notin> set officialRootNames \<and> is_dir fs (st_root st @ [n])) names
                @ unknown_children fs (GenerationsRoot st) dirGenerations (map tv_generation valid)
                @ unknown_children fs (StagingRoot st) dirStaging (map tv_id valid))))"

definition Observe :: "store \<Rightarrow> environment_store \<Rightarrow> world \<Rightarrow> fs \<times> (install_error + observation)" where
  "Observe st env w =
     (let fs = w_fs w in
      case inspectTransactions st fs of
        Inl e \<Rightarrow> (fs, Inl e)
      | Inr (views, collision) \<Rightarrow>
     (let active = ReadActive st fs;
          primary = primaryTxn views active;
          trees =
            (if \<not> tv_valid primary then (zero_tree, zero_tree)
             else case LoadTransaction st fs (tv_id primary) of
                    Inl _ \<Rightarrow> (zero_tree, zero_tree)
                  | Inr t \<Rightarrow> (observe_path st fs (StagingPath st (tx_id t)) t,
                              observe_path st fs (GenerationPath st (tx_generation t)) t))
      in case scanUnknownDirectories st fs views of
           Inl e \<Rightarrow> (fs, Inl e)
         | Inr unknown \<Rightarrow>
             (let (fs1, environment) = observeEnvironment st env w (LoadActive st fs) in
              (fs1, Inr \<lparr>ob_transactions = views, ob_staging = fst trees, ob_generation = snd trees,
                         ob_unknown = unknown, ob_collision = collision, ob_active = active,
                         ob_environment = environment\<rparr>))))"

subsection \<open>Carrying out one decision (recovery\_execute.go)\<close>

definition stamp_once :: "time \<Rightarrow> time option \<Rightarrow> time option" where
  "stamp_once now at = (case at of None \<Rightarrow> Some now | Some a \<Rightarrow> Some a)"

definition moved_to :: "time \<Rightarrow> txn_state \<Rightarrow> string \<Rightarrow> transaction \<Rightarrow> transaction" where
  "moved_to now s code t =
     (let t1 = t\<lparr>tx_state := s, tx_error_code := code, tx_updated_at := now\<rparr> in
      case s of
        StatePublished \<Rightarrow> t1\<lparr>tx_published_at := stamp_once now (tx_published_at t)\<rparr>
      | StateActivating \<Rightarrow> t1\<lparr>tx_activated_at := stamp_once now (tx_activated_at t)\<rparr>
      | StateCommitted \<Rightarrow> t1\<lparr>tx_committed_at := stamp_once now (tx_committed_at t)\<rparr>
      | _ \<Rightarrow> t1)"

definition persistTxnState ::
  "store \<Rightarrow> time \<Rightarrow> fs \<Rightarrow> string \<Rightarrow> txn_state \<Rightarrow> string \<Rightarrow> fs \<times> install_error option" where
  "persistTxnState st now fs i s code =
     (case LoadTransaction st fs i of
        Inl e \<Rightarrow> (fs, Some e)
      | Inr t \<Rightarrow>
          if tx_state t = s \<and> tx_error_code t = code then (fs, None)
          else SaveTransaction st fs (moved_to now s code t))"

definition primary_of :: "observation \<Rightarrow> txn_view" where
  "primary_of obs = primaryTxn (ob_transactions obs) (ob_active obs)"

definition persistPrimaryState ::
  "store \<Rightarrow> time \<Rightarrow> fs \<Rightarrow> observation \<Rightarrow> decision \<Rightarrow> fs \<times> install_error option" where
  "persistPrimaryState st now fs obs d =
     (if de_next d = StateNone then (fs, None)
      else if \<not> tv_valid (primary_of obs) then (fs, None)
      else persistTxnState st now fs (tv_id (primary_of obs)) (de_next d) (de_code d))"

definition persistActivating :: "store \<Rightarrow> time \<Rightarrow> fs \<Rightarrow> observation \<Rightarrow> fs \<times> install_error option" where
  "persistActivating st now fs obs =
     (if \<not> tv_valid (primary_of obs) then (fs, Some ErrInvalidRecord)
      else case LoadTransaction st fs (tv_id (primary_of obs)) of
             Inl e \<Rightarrow> (fs, Some e)
           | Inr t \<Rightarrow>
          (case snapshotActiveBefore t (ob_active obs) of
             Inl e \<Rightarrow> (fs, Some e)
           | Inr t1 \<Rightarrow>
               SaveTransaction st fs
                 (t1\<lparr>tx_state := StateActivating, tx_step := ''activating'', tx_updated_at := now\<rparr>)))"

fun fail_extra_views :: "store \<Rightarrow> time \<Rightarrow> fs \<Rightarrow> txn_view list \<Rightarrow> fs \<times> install_error option" where
  "fail_extra_views st now fs [] = (fs, None)"
| "fail_extra_views st now fs (v # vs) =
     (if \<not> failable_view v then fail_extra_views st now fs vs
      else case persistTxnState st now fs (tv_id v) StateFailed CodeInterrupted of
             (fs1, Some e) \<Rightarrow> (fs1, Some e)
           | (fs1, None) \<Rightarrow> fail_extra_views st now fs1 vs)"

definition failFailableExtras :: "store \<Rightarrow> time \<Rightarrow> fs \<Rightarrow> observation \<Rightarrow> fs \<times> install_error option" where
  "failFailableExtras st now fs obs = fail_extra_views st now fs (ob_transactions obs)"

definition remove_if_empty :: "fs \<Rightarrow> path \<Rightarrow> install_error \<Rightarrow> fs \<times> install_error option" where
  "remove_if_empty fs p occupied =
     (case dirEmpty fs p of
        Inl e \<Rightarrow> (fs, if e = ErrNotExist then None else Some e)
      | Inr none \<Rightarrow> if \<not> none then (fs, Some occupied) else remove fs p)"

definition removeEmptyStaging :: "store \<Rightarrow> fs \<Rightarrow> observation \<Rightarrow> fs \<times> install_error option" where
  "removeEmptyStaging st fs obs =
     (if \<not> tv_valid (primary_of obs) then (fs, None)
      else case StagingPath st (tv_id (primary_of obs)) of
             Inl e \<Rightarrow> (fs, Some e)
           | Inr p \<Rightarrow> remove_if_empty fs p ErrStagingOccupied)"

definition removeEmptyGeneration :: "store \<Rightarrow> fs \<Rightarrow> observation \<Rightarrow> fs \<times> install_error option" where
  "removeEmptyGeneration st fs obs =
     (if \<not> tv_valid (primary_of obs) then (fs, None)
      else case GenerationPath st (tv_generation (primary_of obs)) of
             Inl e \<Rightarrow> (fs, Some e)
           | Inr p \<Rightarrow> remove_if_empty fs p ErrGenerationOccupied)"

definition moveStagingToFailed :: "store \<Rightarrow> fs \<Rightarrow> observation \<Rightarrow> fs \<times> install_error option" where
  "moveStagingToFailed st fs obs =
     (if \<not> tv_valid (primary_of obs) then (fs, None)
      else case StagingPath st (tv_id (primary_of obs)) of
             Inl e \<Rightarrow> (fs, Some e)
           | Inr src \<Rightarrow>
          (if lstat fs src = Inl ErrNotExist then (fs, None)
           else case mkdir_all fs (FailedRoot st) of
             (fs1, Some e) \<Rightarrow> (fs1, Some e)
           | (fs1, None) \<Rightarrow>
               (case rejectReparse fs1 (FailedRoot st) of
                  Some e \<Rightarrow> (fs1, Some e)
                | None \<Rightarrow>
                    (case FailedPath st (tv_id (primary_of obs)) of
                       Inl e \<Rightarrow> (fs1, Some e)
                     | Inr dest \<Rightarrow> renameDirectory fs1 src dest))))"

definition removeProvenStaging :: "store \<Rightarrow> fs \<Rightarrow> observation \<Rightarrow> fs \<times> install_error option" where
  "removeProvenStaging st fs obs =
     (if \<not> tv_valid (primary_of obs) \<or> \<not> tr_lineage_match (ob_staging obs) \<or> \<not> tr_sealed (ob_generation obs)
      then (fs, None)
      else case StagingPath st (tv_id (primary_of obs)) of
             Inl e \<Rightarrow> (fs, Some e)
           | Inr p \<Rightarrow> remove_all fs p)"

definition on_fs :: "world \<Rightarrow> fs \<times> install_error option \<Rightarrow> world \<times> install_error option" where
  "on_fs w r = (w\<lparr>w_fs := fst r\<rparr>, snd r)"

definition then_persist ::
  "store \<Rightarrow> time \<Rightarrow> observation \<Rightarrow> decision \<Rightarrow> fs \<times> install_error option \<Rightarrow> fs \<times> install_error option" where
  "then_persist st now obs d r =
     (case r of (fs1, Some e) \<Rightarrow> (fs1, Some e) | (fs1, None) \<Rightarrow> persistPrimaryState st now fs1 obs d)"

definition invokeOnPrimary ::
  "store \<Rightarrow> world \<Rightarrow> observation \<Rightarrow> (transaction \<Rightarrow> world \<times> install_error option)
     \<Rightarrow> world \<times> install_error option" where
  "invokeOnPrimary st w obs f =
     (if \<not> tv_valid (primary_of obs) then (w, Some ErrInvalidRecord)
      else case LoadTransaction st (w_fs w) (tv_id (primary_of obs)) of
             Inl e \<Rightarrow> (w, Some e)
           | Inr t \<Rightarrow> f t)"

definition reconcile_primary ::
  "store \<Rightarrow> manager \<Rightarrow> install_error option \<Rightarrow> world \<Rightarrow> observation \<Rightarrow> world \<times> install_error option" where
  "reconcile_primary st m ctx w obs =
     invokeOnPrimary st w obs (\<lambda>t. let (w1, _, e) = ReconcileEnvironment m ctx w t in (w1, e))"

definition Execute ::
  "store \<Rightarrow> manager \<Rightarrow> time \<Rightarrow> install_error option \<Rightarrow> world \<Rightarrow> observation \<Rightarrow> decision
     \<Rightarrow> world \<times> install_error option" where
  "Execute st m now ctx w obs d =
     (case ctx of
        Some e \<Rightarrow> (w, Some e)
      | None \<Rightarrow>
     (let fs = w_fs w in
      case de_action d of
        ActionNone \<Rightarrow> on_fs w (persistPrimaryState st now fs obs d)
      | ActionRemoveEmptyStaging \<Rightarrow> on_fs w (then_persist st now obs d (removeEmptyStaging st fs obs))
      | ActionRemoveEmptyGeneration \<Rightarrow> on_fs w (then_persist st now obs d (removeEmptyGeneration st fs obs))
      | ActionMoveStagingToFailed \<Rightarrow> on_fs w (then_persist st now obs d (moveStagingToFailed st fs obs))
      | ActionGCStaging \<Rightarrow> on_fs w (removeProvenStaging st fs obs)
      | ActionPersistPublished \<Rightarrow> on_fs w (persistPrimaryState st now fs obs d)
      | ActionPersistActivating \<Rightarrow> on_fs w (persistActivating st now fs obs)
      | ActionActivate \<Rightarrow>
          invokeOnPrimary st w obs (\<lambda>t. let (fs1, _, e) = activate m now fs t in (w\<lparr>w_fs := fs1\<rparr>, e))
      | ActionFailFailableExtras \<Rightarrow> on_fs w (failFailableExtras st now fs obs)
      | ActionReconcileEnv \<Rightarrow>
          (if de_next d \<noteq> StateNone
           then (case persistPrimaryState st now fs obs d of
                   (fs1, Some e) \<Rightarrow> (w\<lparr>w_fs := fs1\<rparr>, Some e)
                 | (fs1, None) \<Rightarrow> reconcile_primary st m ctx (w\<lparr>w_fs := fs1\<rparr>) obs)
           else reconcile_primary st m ctx w obs)
      | ActionCommit \<Rightarrow> on_fs w (persistPrimaryState st now fs obs (d\<lparr>de_next := StateCommitted\<rparr>))
      | _ \<Rightarrow> (w, None)))"

subsection \<open>The lock and the recovery loop (lock.go, recover.go)\<close>

definition AcquireLock :: "store \<Rightarrow> install_error option \<Rightarrow> fs \<Rightarrow> fs \<times> install_error option" where
  "AcquireLock st os_lock fs =
     (case EnsureControl st fs of
        (fs1, Some e) \<Rightarrow> (fs1, Some e)
      | (fs1, None) \<Rightarrow>
          (case rejectReparse fs1 (LockPath st) of
             Some e \<Rightarrow> if e \<noteq> ErrNotExist then (fs1, Some e) else (fs1, os_lock)
           | None \<Rightarrow>
               (case lstat fs1 (LockPath st) of
                  Inr (File _) \<Rightarrow> (fs1, os_lock)
                | Inr _ \<Rightarrow> (fs1, Some ErrOS)
                | Inl ErrNotExist \<Rightarrow> (put (LockPath st) (File (Bytes [])) fs1, os_lock)
                | Inl e \<Rightarrow> (fs1, Some e))))"

text \<open>The gate holder: a nil holder is always ready, and so is an unset gate.\<close>

definition gate_get :: "gate option \<Rightarrow> gate" where
  "gate_get g = (case g of None \<Rightarrow> GateReady | Some GateNone \<Rightarrow> GateReady | Some x \<Rightarrow> x)"

definition gate_set :: "gate \<Rightarrow> gate option \<Rightarrow> gate option" where
  "gate_set x g = map_option (\<lambda>_. x) g"

definition NewGateHolder :: "gate option" where
  "NewGateHolder = Some GateReconciling"

definition lock_error_decision :: decision where
  "lock_error_decision = mk_decision GateReconciling StateNone ActionNone CodeNotReady"

type_synonym recovery_result = "world \<times> gate option \<times> decision \<times> install_error option"

text \<open>\<open>fuel\<close> is the number of steps left of \<open>maxRecoverSteps\<close>; \<open>prev\<close> the decision carried out last.\<close>

fun recover_loop ::
  "nat \<Rightarrow> store \<Rightarrow> manager \<Rightarrow> time \<Rightarrow> install_error option \<Rightarrow> environment_store \<Rightarrow> decision option
     \<Rightarrow> gate option \<Rightarrow> world \<Rightarrow> recovery_result" where
  "recover_loop 0 st m now ctx env prev g w =
     (w, gate_set GateBlockedUnsafe g, blocked, Some ErrBlockedUnsafe)"
| "recover_loop (Suc fuel) st m now ctx env prev g w =
     (case Observe st env w of
        (fs1, Inl e) \<Rightarrow> (w\<lparr>w_fs := fs1\<rparr>, gate_set GateBlockedUnsafe g, blocked, Some e)
      | (fs1, Inr obs) \<Rightarrow>
     (let w1 = w\<lparr>w_fs := fs1\<rparr>; d = DecideRecovery obs in
      if de_gate d = GateBlockedUnsafe \<or> de_action d = ActionBlockUnsafe
      then (w1, gate_set GateBlockedUnsafe g, d, None)
      else if (de_action d = ActionNone \<and> de_next d = StateNone) \<or> de_action d = ActionDiagnoseRetain
      then (if gate_get (gate_set (finalGate d) g) = GateReady
            then (w1\<lparr>w_fs := fst (Collect st no_gc_hooks fs1)\<rparr>, gate_set (finalGate d) g, d, None)
            else (w1, gate_set (finalGate d) g, d, None))
      else if (case prev of None \<Rightarrow> False | Some p \<Rightarrow> \<not> forwardOrNoop p d)
      then (w1, gate_set GateBlockedUnsafe g, d, Some ErrBlockedUnsafe)
      else case Execute st m now ctx w1 obs d of
             (w2, Some e) \<Rightarrow>
               if de_action d = ActionReconcileEnv then (w2, gate_set GateReconciling g, d, Some e)
               else (w2, gate_set GateBlockedUnsafe g, d, Some e)
           | (w2, None) \<Rightarrow> recover_loop fuel st m now ctx env (Some d) g w2))"

definition RecoverWith ::
  "store \<Rightarrow> time \<Rightarrow> install_error option \<Rightarrow> environment_store \<Rightarrow> install_error option
     \<Rightarrow> gate option \<Rightarrow> world \<Rightarrow> recovery_result" where
  "RecoverWith st now ctx env os_lock g w =
     (case AcquireLock st os_lock (w_fs w) of
        (fs1, Some e) \<Rightarrow>
          if e = ErrLockBusy
          then (w\<lparr>w_fs := fs1\<rparr>, gate_set GateReconciling g, lock_error_decision, Some e)
          else (w\<lparr>w_fs := fs1\<rparr>, gate_set GateBlockedUnsafe g, blocked, Some e)
      | (fs1, None) \<Rightarrow>
          recover_loop maxRecoverSteps st ((NewManager st now)\<lparr>mg_env := env\<rparr>) now ctx env None
            (gate_set GateReconciling g) (w\<lparr>w_fs := fs1\<rparr>))"

end
