(* ===== verification/Recovery_Decide_Properties.thy ===== *)
theory Recovery_Decide_Properties
  imports Recovery_Decide
begin

text \<open>
  What the recovery decision guarantees for every observation: it only moves an installation
  forward on proof found on disk, it never fails a published transaction, it never regresses a
  state, and it admits new installs only when nothing is left half done. One theorem shows where
  it departs from the documented recovery matrix.
\<close>

definition nonterminal_views :: "observation \<Rightarrow> txn_view list" where
  "nonterminal_views obs = filter (\<lambda>t. Nonterminal (tv_state t)) (filter tv_valid (ob_transactions obs))"

definition malformed_record :: "observation \<Rightarrow> bool" where
  "malformed_record obs \<longleftrightarrow> list_ex (\<lambda>t. \<not> tv_valid t \<and> tv_occupies t) (ob_transactions obs)"

lemma decide_cases:
  obtains (blocked) "DecideRecovery obs = blocked"
  | (terminal) "DecideRecovery obs = decideTerminalWorld obs (filter tv_valid (ob_transactions obs))"
      "nonterminal_views obs = []" "\<not> pointer_Invalid (ob_active obs)" "\<not> malformed_record obs"
  | (one) t where "DecideRecovery obs = decideOne obs t" "nonterminal_views obs = [t]"
      "\<not> pointer_Invalid (ob_active obs)" "\<not> malformed_record obs"
  | (many) "DecideRecovery obs = mk_decision GateReconciling StateNone ActionFailFailableExtras CodeInterrupted"
      "\<exists>t u ts. nonterminal_views obs = t # u # ts" "hasFailableNonterminal (nonterminal_views obs)"
      "\<not> pointer_Invalid (ob_active obs)" "\<not> malformed_record obs"
proof (cases "pointer_Invalid (ob_active obs) \<or> ob_collision obs \<or> malformed_record obs")
  case True
  then have "DecideRecovery obs = blocked"
    by (auto simp: DecideRecovery_def malformed_record_def)
  then show thesis by (rule blocked)
next
  case False
  then have dec: "DecideRecovery obs =
      (case nonterminal_views obs of
         [] \<Rightarrow> decideTerminalWorld obs (filter tv_valid (ob_transactions obs))
       | [t] \<Rightarrow> decideOne obs t
       | _ \<Rightarrow> if hasFailableNonterminal (nonterminal_views obs)
              then mk_decision GateReconciling StateNone ActionFailFailableExtras CodeInterrupted
              else Recovery_Decide.blocked)"
    by (simp add: DecideRecovery_def malformed_record_def nonterminal_views_def Let_def
        split: list.split)
  show thesis
  proof (cases "nonterminal_views obs")
    case Nil
    with dec False show thesis by (intro terminal) simp_all
  next
    case (Cons t ts)
    note first = this
    show thesis
    proof (cases ts)
      case Nil
      with dec first False show thesis by (intro one) simp_all
    next
      case (Cons u us)
      show thesis
      proof (cases "hasFailableNonterminal (nonterminal_views obs)")
        case True
        with dec first Cons False show thesis by (intro many) simp_all
      next
        case nofail: False
        with dec first Cons show thesis by (intro blocked) simp
      qed
    qed
  qed
qed

lemma nonterminal_one:
  "nonterminal_views obs = [t] \<Longrightarrow> t \<in> set (ob_transactions obs) \<and> tv_valid t \<and> Nonterminal (tv_state t)"
proof -
  assume "nonterminal_views obs = [t]"
  then have "t \<in> set (nonterminal_views obs)" by simp
  then show ?thesis by (auto simp: nonterminal_views_def)
qed

lemma blocked_simps [simp]:
  "de_action blocked = ActionBlockUnsafe" "de_next blocked = StateNone" "de_gate blocked = GateBlockedUnsafe"
  "de_action (failClosed c) = ActionBlockUnsafe" "de_next (failClosed c) = StateNone"
  "de_gate (failClosed c) = GateBlockedUnsafe"
  "de_action (failTxn c a) = a" "de_next (failTxn c a) = StateFailed" "de_gate (failTxn c a) = GateReady"
  "de_action (ready a) = a" "de_next (ready a) = StateNone" "de_gate (ready a) = GateReady"
  "de_action (forward s a) = a" "de_next (forward s a) = s" "de_gate (forward s a) = GateReconciling"
  "de_action (mk_decision g s a c) = a" "de_next (mk_decision g s a c) = s"
  "de_gate (mk_decision g s a c) = g"
  by (simp_all add: decision_defs)

lemma leftover_action:
  "leftoverStaging obs = Some act \<Longrightarrow> act = ActionRemoveEmptyStaging \<or> act = ActionGCStaging"
  by (auto simp: leftoverStaging_def split: if_splits)


text \<open>
  Recovery fails a transaction only before it was published: when it decides FAILED there is
  exactly one unfinished transaction, it is CREATED, BUILDING or SEALED, a sealed one has lost
  its generation tree, and new installs are admitted. In particular no published or activating
  transaction is ever failed, whatever is on disk.
\<close>

theorem recovery_never_fails_published:
  assumes "de_next (DecideRecovery obs) = StateFailed"
  shows "\<exists>t. nonterminal_views obs = [t]
    \<and> tv_state t \<in> {StateCreated, StateBuilding, StateSealed}
    \<and> (tv_state t = StateSealed \<longrightarrow> \<not> tr_present (ob_generation obs))
    \<and> de_gate (DecideRecovery obs) = GateReady"
proof (cases rule: decide_cases [of obs])
  case (one t)
  show ?thesis
  proof (cases "tv_state t")
    case StateSealed
    with one assms show ?thesis
      by (auto simp: decideOne_def decideSealed_def Let_def tree_complete_def split: if_splits)
  next
    case StatePublished
    with one assms show ?thesis
      by (auto simp: decideOne_def decidePublished_def split: if_splits option.splits)
  next
    case StateActivating
    with one assms show ?thesis
      by (auto simp: decideOne_def decideActivating_def split: if_splits)
  qed (use one assms in \<open>auto simp: decideOne_def decideCreated_def decideBuilding_def Let_def split: if_splits\<close>)
qed (use assms in \<open>auto simp: decideTerminalWorld_def split: if_splits option.splits\<close>)

text \<open>
  A recovery decision for an unfinished transaction never goes back: the state it records
  is none, FAILED, or one of strictly higher rank than the transaction's state.
\<close>

theorem recovery_never_regresses:
  assumes "nonterminal_views obs = [t]"
  shows "de_next (DecideRecovery obs) \<in> {StateNone, StateFailed}
    \<or> rankState (tv_state t) < rankState (de_next (DecideRecovery obs))"
proof (cases rule: decide_cases [of obs])
  case (one u)
  with assms have u: "u = t" by simp
  show ?thesis
  proof (cases "tv_state t")
    case StateSealed
    with one u show ?thesis
      by (simp add: decideOne_def decideSealed_def Let_def rankState_def)
  next
    case StatePublished
    with one u show ?thesis
      by (simp add: decideOne_def decidePublished_def rankState_def split: option.splits)
  next
    case StateActivating
    with one u show ?thesis by (simp add: decideOne_def decideActivating_def rankState_def)
  qed (use one u in \<open>simp_all add: decideOne_def decideCreated_def decideBuilding_def Let_def\<close>)
qed (use assms in auto)

text \<open>
  Where recovery departs from the documented matrix (PUBLISHED, staging absent, valid
  generation, predecessor active: persist ACTIVATING). The predecessor is only recorded when the
  transaction turns ACTIVATING, so a PUBLISHED transaction has none, and then recovery expects no
  active pointer at all. Hence an upgrade interrupted between PUBLISHED and ACTIVATING, with its
  predecessor intact and active, is reported as blocked unsafe; and since a blocked decision
  changes nothing, it stays so.
\<close>

theorem interrupted_upgrade_is_blocked:
  assumes "nonterminal_views obs = [t]" and "tv_state t = StatePublished"
    and "tv_active_before_kind t = BeforeNone" and "tv_active_before t = []"
    and "pointer_IsValid (ob_active obs)" and "\<not> pointer_Missing (ob_active obs)"
    and "ap_generation (ob_active obs) \<noteq> tv_generation t"
    and "tree_complete (ob_generation obs)" and "\<not> tr_present (ob_staging obs)"
  shows "DecideRecovery obs = blocked"
proof (cases rule: decide_cases [of obs])
  case (one u)
  with assms show ?thesis
    by (simp add: decideOne_def decidePublished_def leftoverStaging_def activeNames_def
        expectedPredecessorOrAbsent_def effective_before_def)
qed (use assms in auto)

subsection \<open>Concrete observations\<close>

definition sample_view :: "txn_state \<Rightarrow> txn_view" where
  "sample_view s = zero_view\<lparr>tv_valid := True, tv_id := ''t'', tv_state := s, tv_generation := ''g''\<rparr>"

definition complete_tree :: tree_observation where
  "complete_tree = \<lparr>tr_present = True, tr_empty = False, tr_sealed = True, tr_lineage_match = True, tr_lineage_id = ''g''\<rparr>"

definition sample_observation :: "txn_view list \<Rightarrow> tree_observation \<Rightarrow> active_pointer \<Rightarrow> observation" where
  "sample_observation txns gen active =
     \<lparr>ob_transactions = txns, ob_staging = zero_tree, ob_generation = gen, ob_unknown = [],
      ob_collision = False, ob_active = active,
      ob_environment = \<lparr>eo_home_ok = True, eo_path_ok = True\<rparr>\<rparr>"

definition pointer_to :: "string \<Rightarrow> active_pointer" where
  "pointer_to g =
     \<lparr>ap_class = ActiveValid, ap_present = True, ap_valid = True, ap_generation = g, ap_seal = ''s'', ap_manifest = ''m''\<rparr>"


theorem recovery_never_fails_published_witness:
  "\<exists>t. nonterminal_views (sample_observation [sample_view StateBuilding] zero_tree missing_pointer) = [t]
     \<and> tv_state t \<in> {StateCreated, StateBuilding, StateSealed}"
proof -
  let ?obs = "sample_observation [sample_view StateBuilding] zero_tree missing_pointer"
  have "de_next (DecideRecovery ?obs) = StateFailed" by code_simp
  from recovery_never_fails_published [OF this] show ?thesis by blast
qed

theorem recovery_never_regresses_witness:
  "rankState StateSealed
     < rankState (de_next (DecideRecovery (sample_observation [sample_view StateSealed] complete_tree missing_pointer)))"
proof -
  let ?obs = "sample_observation [sample_view StateSealed] complete_tree missing_pointer"
  have view: "nonterminal_views ?obs = [sample_view StateSealed]"
    and "tv_state (sample_view StateSealed) = StateSealed"
    and "de_next (DecideRecovery ?obs) = StatePublished" by code_simp+
  with recovery_never_regresses [OF view] show ?thesis by simp
qed

theorem interrupted_upgrade_is_blocked_witness:
  "DecideRecovery (sample_observation [sample_view StatePublished] complete_tree (pointer_to ''old'')) = blocked"
  by (rule interrupted_upgrade_is_blocked [of _ "sample_view StatePublished"]) code_simp+

end
