(* ===== verification/Event_Broker.thy ===== *)
theory Event_Broker
  imports Install_Json Operation_Domain Go_Format "HOL-Library.Sublist"
begin

text \<open>
  The event broker and the operation events (events/broker.go, events/operation.go). A
  subscription is a bounded channel; publishing never waits: a subscriber whose channel is full
  misses the event. The map of subscribers is an association list from identifiers to the
  events that wait in the channel, oldest first.
\<close>

definition subscriberBuffer :: nat where "subscriberBuffer = 16"

record event =
  ev_id :: string
  ev_type :: string
  ev_occurred_at :: time
  ev_data :: json

record broker =
  br_next_id :: "64 word"
  br_next_event :: "64 word"
  br_subscribers :: "(64 word \<times> event list) list"

record subscription =
  su_id :: "64 word"
  su_closed :: bool

definition NewBroker :: broker where
  "NewBroker = \<lparr>br_next_id = 0, br_next_event = 0, br_subscribers = []\<rparr>"

definition Subscribe :: "broker \<Rightarrow> broker \<times> subscription" where
  "Subscribe b =
     (b\<lparr>br_next_id := br_next_id b + 1,
        br_subscribers := AList.update (br_next_id b) [] (br_subscribers b)\<rparr>,
      \<lparr>su_id = br_next_id b, su_closed = False\<rparr>)"

text \<open>\<open>Close\<close> removes the channel from the broker once; what it holds can still be read.\<close>

definition Close :: "broker \<Rightarrow> subscription \<Rightarrow> broker \<times> subscription" where
  "Close b s =
     (if su_closed s then (b, s)
      else (b\<lparr>br_subscribers := AList.delete (su_id s) (br_subscribers b)\<rparr>, s\<lparr>su_closed := True\<rparr>))"

definition formatEventID :: "64 word \<Rightarrow> string" where
  "formatEventID seq = ''evt_'' @ decimal (unat seq)"

text \<open>The non-blocking send of \<open>Publish\<close>'s select.\<close>

definition offer :: "event \<Rightarrow> event list \<Rightarrow> event list" where
  "offer e q = (if length q < subscriberBuffer then q @ [e] else q)"

definition stamp_event :: "time \<Rightarrow> broker \<Rightarrow> event \<Rightarrow> broker \<times> event" where
  "stamp_event now b e =
     (let (b1, e1) = (if ev_id e = []
                      then (b\<lparr>br_next_event := br_next_event b + 1\<rparr>,
                            e\<lparr>ev_id := formatEventID (br_next_event b + 1)\<rparr>)
                      else (b, e))
      in (b1, if is_zero_time (ev_occurred_at e1) then e1\<lparr>ev_occurred_at := now\<rparr> else e1))"

definition Publish :: "time \<Rightarrow> broker option \<Rightarrow> event \<Rightarrow> broker option" where
  "Publish now b e =
     (case b of
        None \<Rightarrow> None
      | Some b0 \<Rightarrow>
          (let (b1, e1) = stamp_event now b0 e
           in Some (b1\<lparr>br_subscribers := map (\<lambda>(i, q). (i, offer e1 q)) (br_subscribers b1)\<rparr>)))"

definition SubscriberCount :: "broker \<Rightarrow> nat" where
  "SubscriberCount b = length (br_subscribers b)"

text \<open>A subscriber takes the oldest waiting event from its channel.\<close>

definition receive :: "broker \<Rightarrow> 64 word \<Rightarrow> (broker \<times> event) option" where
  "receive b i =
     (case map_of (br_subscribers b) i of
        Some (e # q) \<Rightarrow> Some (b\<lparr>br_subscribers := AList.update i q (br_subscribers b)\<rparr>, e)
      | _ \<Rightarrow> None)"

subsection \<open>Operation events (operation.go)\<close>

definition TypeOperationStarted :: string where "TypeOperationStarted = ''operation.started''"
definition TypeOperationProgress :: string where "TypeOperationProgress = ''operation.progress''"
definition TypeOperationCompleted :: string where "TypeOperationCompleted = ''operation.completed''"
definition TypeOperationFailed :: string where "TypeOperationFailed = ''operation.failed''"
definition TypeOperationCancelled :: string where "TypeOperationCancelled = ''operation.cancelled''"
definition TypeChannelQRReady :: string where "TypeChannelQRReady = ''channel.qr.ready''"

record operation_payload =
  py_operation_id :: string
  py_type :: string
  py_status :: string
  py_stage :: string
  py_error_code :: string
  py_correlation_id :: string

definition payload_json :: "operation_payload \<Rightarrow> json" where
  "payload_json p =
     JObj ([(''operationId'', json_string (py_operation_id p)), (''type'', json_string (py_type p)),
            (''status'', json_string (py_status p)), (''stage'', json_string (py_stage p))]
           @ (if py_error_code p = [] then [] else [(''errorCode'', json_string (py_error_code p))])
           @ [(''correlationId'', json_string (py_correlation_id p))])"

definition NewChannelQRReadyEvent :: "string \<Rightarrow> time \<Rightarrow> time \<Rightarrow> event" where
  "NewChannelQRReadyEvent operationID expiresAt now =
     \<lparr>ev_id = [], ev_type = TypeChannelQRReady, ev_occurred_at = now,
      ev_data = (if time_encodable expiresAt
                 then JObj [(''operationId'', json_string operationID), (''expiresAt'', JTime expiresAt)]
                 else JObj [])\<rparr>"

definition NewOperationEvent :: "time \<Rightarrow> string \<Rightarrow> operation_payload \<Rightarrow> time \<Rightarrow> event" where
  "NewOperationEvent wall eventType p now =
     \<lparr>ev_id = [], ev_type = eventType,
      ev_occurred_at = (if is_zero_time now then wall else now), ev_data = payload_json p\<rparr>"

definition TypeForCommittedOperation :: "bool \<Rightarrow> string \<Rightarrow> string \<Rightarrow> string" where
  "TypeForCommittedOperation created previousStatus nextStatus =
     (if nextStatus = ''SUCCEEDED'' then TypeOperationCompleted
      else if nextStatus = ''FAILED'' then TypeOperationFailed
      else if nextStatus = ''CANCELLED'' then TypeOperationCancelled
      else if created then TypeOperationStarted
      else TypeOperationProgress)"

subsection \<open>Runs of the broker\<close>

text \<open>
  A broker with its history, for each subscriber: the events published since it subscribed, those
  it has taken, and how many were published while its channel was full.
\<close>

record broker_run =
  rn_broker :: broker
  rn_since :: "64 word \<Rightarrow> event list"
  rn_taken :: "64 word \<Rightarrow> event list"
  rn_missed :: "64 word \<Rightarrow> nat"

definition full_channel :: "broker \<Rightarrow> 64 word \<Rightarrow> bool" where
  "full_channel b i =
     (case map_of (br_subscribers b) i of None \<Rightarrow> False | Some q \<Rightarrow> length q \<ge> subscriberBuffer)"

definition run_publish :: "time \<Rightarrow> event \<Rightarrow> broker_run \<Rightarrow> broker_run" where
  "run_publish now e r =
     (let e1 = snd (stamp_event now (rn_broker r) e)
      in r\<lparr>rn_broker := the (Publish now (Some (rn_broker r)) e),
           rn_since := (\<lambda>i. rn_since r i @ [e1]),
           rn_missed := (\<lambda>i. if full_channel (rn_broker r) i then Suc (rn_missed r i) else rn_missed r i)\<rparr>)"

inductive broker_step :: "broker_run \<Rightarrow> broker_run \<Rightarrow> bool" where
  subscribe: "Subscribe (rn_broker r) = (b, s) \<Longrightarrow>
    broker_step r (r\<lparr>rn_broker := b, rn_since := (rn_since r)(su_id s := []),
      rn_taken := (rn_taken r)(su_id s := []), rn_missed := (rn_missed r)(su_id s := 0)\<rparr>)"
| close: "Close (rn_broker r) s = (b, s') \<Longrightarrow> broker_step r (r\<lparr>rn_broker := b\<rparr>)"
| publish: "broker_step r (run_publish now e r)"
| receive: "receive (rn_broker r) i = Some (b, e) \<Longrightarrow>
    broker_step r (r\<lparr>rn_broker := b, rn_taken := (rn_taken r)(i := rn_taken r i @ [e])\<rparr>)"

inductive broker_reachable :: "broker_run \<Rightarrow> bool" where
  start: "broker_reachable \<lparr>rn_broker = NewBroker, rn_since = \<lambda>_. [], rn_taken = \<lambda>_. [], rn_missed = \<lambda>_. 0\<rparr>"
| step: "broker_reachable r \<Longrightarrow> broker_step r r' \<Longrightarrow> broker_reachable r'"

definition channel_ok :: "broker_run \<Rightarrow> 64 word \<Rightarrow> event list \<Rightarrow> bool" where
  "channel_ok r i q \<longleftrightarrow>
     length q \<le> subscriberBuffer \<and> subseq (rn_taken r i @ q) (rn_since r i)
     \<and> length (rn_since r i) = length (rn_taken r i @ q) + rn_missed r i"

definition run_ok :: "broker_run \<Rightarrow> bool" where
  "run_ok r \<longleftrightarrow> (\<forall>i q. map_of (br_subscribers (rn_broker r)) i = Some q \<longrightarrow> channel_ok r i q)"

lemma stamp_event_subscribers [simp]:
  "br_subscribers (fst (stamp_event now b e)) = br_subscribers b"
  by (simp add: stamp_event_def split: prod.splits)

lemma map_of_map_offer: "map_of (map (\<lambda>(i, q). (i, f q)) xs) i = map_option f (map_of xs i)"
  by (induction xs) auto

lemma publish_subscribers:
  "map_of (br_subscribers (the (Publish now (Some b) e))) i
     = map_option (offer (snd (stamp_event now b e))) (map_of (br_subscribers b) i)"
  by (simp add: Publish_def map_of_map_offer split: prod.splits)
    (metis fst_conv snd_conv stamp_event_subscribers)

lemma offer_ok:
  assumes "channel_ok r i q" and "map_of (br_subscribers (rn_broker r)) i = Some q"
  shows "channel_ok (run_publish now e r) i (offer (snd (stamp_event now (rn_broker r) e)) q)"
proof (cases "length q < subscriberBuffer")
  case True
  have "subseq ((rn_taken r i @ q) @ [x]) (rn_since r i @ [x])" for x
    using assms(1) by (intro list_emb_append_mono) (auto simp: channel_ok_def)
  with True assms show ?thesis
    by (simp add: channel_ok_def run_publish_def offer_def full_channel_def Let_def)
next
  case False
  have "subseq (rn_taken r i @ q) (rn_since r i @ [x])" for x
    using assms(1) list_emb_append2 [of "(=)" "rn_taken r i @ q" "rn_since r i" "[x]"]
    by (auto simp: channel_ok_def intro: list_emb_prefix)
  with False assms show ?thesis
    by (simp add: channel_ok_def run_publish_def offer_def full_channel_def Let_def)
qed

lemma broker_step_ok: "broker_step r r' \<Longrightarrow> run_ok r \<Longrightarrow> run_ok r'"
proof (induction rule: broker_step.induct)
  case (subscribe r b s)
  then show ?case
    by (auto simp: run_ok_def Subscribe_def map_of_AList_update channel_ok_def)
next
  case (close r s b s')
  then show ?case
    by (auto simp: run_ok_def Close_def map_of_AList_delete channel_ok_def split: if_splits)
next
  case (publish r now e)
  have "rn_broker (run_publish now e r) = the (Publish now (Some (rn_broker r)) e)"
    by (simp add: run_publish_def Let_def)
  with publish show ?case
    by (auto simp: run_ok_def publish_subscribers intro: offer_ok)
next
  case (receive r i b e)
  from receive(1) obtain q where q: "map_of (br_subscribers (rn_broker r)) i = Some (e # q)"
    and b: "b = rn_broker r\<lparr>br_subscribers := AList.update i q (br_subscribers (rn_broker r))\<rparr>"
    by (auto simp: receive_def split: option.splits list.splits)
  from receive(2) q have "channel_ok r i (e # q)" by (simp add: run_ok_def)
  then have "channel_ok (r\<lparr>rn_broker := b, rn_taken := (rn_taken r)(i := rn_taken r i @ [e])\<rparr>) i q"
    by (simp add: channel_ok_def)
  with receive(2) show ?case
    by (auto simp: run_ok_def b map_of_AList_update channel_ok_def)
qed

lemma broker_reachable_ok: "broker_reachable r \<Longrightarrow> run_ok r"
proof (induction rule: broker_reachable.induct)
  case start
  show ?case by (simp add: run_ok_def NewBroker_def)
next
  case (step r r')
  then show ?case by (blast intro: broker_step_ok)
qed

text \<open>A subscriber that reads at most \<open>n\<close> events and stops when none waits.\<close>

fun drain :: "nat \<Rightarrow> broker \<Rightarrow> 64 word \<Rightarrow> broker \<times> event list" where
  "drain 0 b i = (b, [])"
| "drain (Suc n) b i =
     (case receive b i of
        None \<Rightarrow> (b, [])
      | Some (b1, e) \<Rightarrow> (case drain n b1 i of (b2, es) \<Rightarrow> (b2, e # es)))"

lemma drain_all:
  "map_of (br_subscribers b) i = Some q \<Longrightarrow> length q \<le> n \<Longrightarrow>
   \<exists>b'. drain n b i = (b', q) \<and> map_of (br_subscribers b') = (map_of (br_subscribers b))(i \<mapsto> [])"
proof (induction n arbitrary: b q)
  case 0
  then show ?case by (auto simp: fun_upd_idem)
next
  case (Suc n)
  show ?case
  proof (cases q)
    case Nil
    with Suc.prems have "receive b i = None" by (simp add: receive_def)
    with Nil Suc.prems show ?thesis by (auto simp: fun_upd_idem)
  next
    case (Cons e es)
    let ?b = "b\<lparr>br_subscribers := AList.update i es (br_subscribers b)\<rparr>"
    have "receive b i = Some (?b, e)" using Suc.prems Cons by (simp add: receive_def)
    moreover obtain b' where "drain n ?b i = (b', es)"
      "map_of (br_subscribers b') = (map_of (br_subscribers ?b))(i \<mapsto> [])"
    proof -
      have "map_of (br_subscribers ?b) i = Some es" "length es \<le> n"
        using Suc.prems(2) Cons by (simp_all add: map_of_AList_update)
      from Suc.IH [OF this] show ?thesis using that by blast
    qed
    moreover have "(map_of (br_subscribers ?b))(i \<mapsto> []) = (map_of (br_subscribers b))(i \<mapsto> [])"
      by (simp add: map_of_AList_update)
    ultimately show ?thesis using Cons by (simp add: fun_upd_def)
  qed
qed

subsection \<open>Properties\<close>


definition sample_event :: "string \<Rightarrow> event" where
  "sample_event i = \<lparr>ev_id = i, ev_type = TypeOperationStarted, ev_occurred_at = 1, ev_data = JObj []\<rparr>"


text \<open>
  Reading makes progress: in every reachable state a subscriber that reads sixteen times
  gets everything that waits for it, oldest first, and leaves its channel empty and every other
  channel as it was.
\<close>

theorem reading_drains_channel:
  assumes "broker_reachable r" and "map_of (br_subscribers (rn_broker r)) i = Some q"
  shows "\<exists>b. drain subscriberBuffer (rn_broker r) i = (b, q)
    \<and> map_of (br_subscribers b) = (map_of (br_subscribers (rn_broker r)))(i \<mapsto> [])"
  using assms broker_reachable_ok by (intro drain_all) (auto simp: run_ok_def channel_ok_def)

theorem reading_drains_channel_witness:
  "let b = fst (Subscribe NewBroker)
   in \<exists>b'. drain subscriberBuffer b 0 = (b', []) \<and> map_of (br_subscribers b') 0 = Some []"
proof -
  from broker_step.subscribe [of "\<lparr>rn_broker = NewBroker, rn_since = \<lambda>_. [], rn_taken = \<lambda>_. [], rn_missed = \<lambda>_. 0\<rparr>"
      "fst (Subscribe NewBroker)" "snd (Subscribe NewBroker)"]
  obtain r where r: "broker_reachable r" "rn_broker r = fst (Subscribe NewBroker)"
    using broker_reachable.step [OF broker_reachable.start] by fastforce
  have "map_of (br_subscribers (rn_broker r)) 0 = Some []"
    by (simp add: r(2) Subscribe_def NewBroker_def)
  from reading_drains_channel [OF r(1) this] show ?thesis unfolding r(2) Let_def by auto
qed

end
