(* ===== verification/Operation_Text.thy ===== *)
theory Operation_Text
  imports Operation_Domain
begin

text \<open>
  The stored texts of the closed sets of operation.go. Rows and events carry these strings, so
  that they are unambiguous is what makes the datatypes of Operation\_Domain faithful.
\<close>

definition op_type_text :: "op_type \<Rightarrow> string" where
  "op_type_text t =
     (case t of
        TypeRuntimeInstall \<Rightarrow> ''runtime.install'' | TypeHermesPrerequisites \<Rightarrow> ''hermes.prerequisites''
      | TypeInstanceCreate \<Rightarrow> ''instance.create'' | TypeInstanceDelete \<Rightarrow> ''instance.delete''
      | TypeModelValidate \<Rightarrow> ''model.validate'' | TypeModelProfileApply \<Rightarrow> ''model.profile.apply''
      | TypeInstanceStart \<Rightarrow> ''instance.start'' | TypeInstanceStop \<Rightarrow> ''instance.stop''
      | TypeInstanceRestart \<Rightarrow> ''instance.restart'' | TypeChannelConnect \<Rightarrow> ''channel.connect''
      | TypeChannelDisconnect \<Rightarrow> ''channel.disconnect'' | TypeSkillInstall \<Rightarrow> ''skill.install''
      | TypeSkillUpdate \<Rightarrow> ''skill.update'' | TypeSkillEnable \<Rightarrow> ''skill.enable''
      | TypeSkillDisable \<Rightarrow> ''skill.disable'' | TypeSkillRemove \<Rightarrow> ''skill.remove''
      | TypeMCPInstall \<Rightarrow> ''mcp.install'' | TypeMCPAuthenticate \<Rightarrow> ''mcp.authenticate''
      | TypeMCPTest \<Rightarrow> ''mcp.test'' | TypeMCPConfigure \<Rightarrow> ''mcp.configure''
      | TypeMCPRemove \<Rightarrow> ''mcp.remove'' | TypeBackupCreate \<Rightarrow> ''backup.create''
      | TypeBackupDelete \<Rightarrow> ''backup.delete'' | TypeBackupRestore \<Rightarrow> ''backup.restore''
      | TypeRuntimeUpgrade \<Rightarrow> ''runtime.upgrade'' | TypeRuntimeRollback \<Rightarrow> ''runtime.rollback'')"

definition target_type_text :: "target_type \<Rightarrow> string" where
  "target_type_text t =
     (case t of
        TargetRuntimeKind \<Rightarrow> ''runtime-kind'' | TargetRuntimeInstallation \<Rightarrow> ''runtime-installation''
      | TargetInstance \<Rightarrow> ''instance'')"

definition status_text :: "status \<Rightarrow> string" where
  "status_text s =
     (case s of
        StatusPending \<Rightarrow> ''PENDING'' | StatusRunning \<Rightarrow> ''RUNNING'' | StatusSucceeded \<Rightarrow> ''SUCCEEDED''
      | StatusFailed \<Rightarrow> ''FAILED'' | StatusCancelled \<Rightarrow> ''CANCELLED'')"

definition stage_text :: "stage \<Rightarrow> string" where
  "stage_text s =
     (case s of
        StagePreflight \<Rightarrow> ''preflight'' | StageSourceDownload \<Rightarrow> ''source.download''
      | StageSourceVerify \<Rightarrow> ''source.verify'' | StageProtocolVerify \<Rightarrow> ''protocol.verify''
      | StageInstallUV \<Rightarrow> ''install.uv'' | StageInstallPython \<Rightarrow> ''install.python''
      | StageInstallGit \<Rightarrow> ''install.git'' | StageInstallNode \<Rightarrow> ''install.node''
      | StageInstallSystemPackages \<Rightarrow> ''install.system-packages''
      | StageInstallRepository \<Rightarrow> ''install.repository'' | StageInstallVenv \<Rightarrow> ''install.venv''
      | StageInstallDependencies \<Rightarrow> ''install.dependencies''
      | StageInstallNodeDeps \<Rightarrow> ''install.node-deps'' | StageInstallNPM \<Rightarrow> ''install.npm''
      | StageInstallPath \<Rightarrow> ''install.path''
      | StageInstallConfigTemplates \<Rightarrow> ''install.config-templates''
      | StageInstallBootstrapMarker \<Rightarrow> ''install.bootstrap-marker''
      | StagePostcheckDiscovery \<Rightarrow> ''postcheck.discovery'' | StageCleanup \<Rightarrow> ''cleanup''
      | StageInstanceCreate \<Rightarrow> ''instance.create'' | StageInstanceDelete \<Rightarrow> ''instance.delete''
      | StageInstanceReconcile \<Rightarrow> ''instance.reconcile'' | StageModelValidate \<Rightarrow> ''model.validate''
      | StageModelProfileApply \<Rightarrow> ''model.profile.apply'' | StageInstanceStart \<Rightarrow> ''instance.start''
      | StageInstanceStop \<Rightarrow> ''instance.stop'' | StageInstanceRestart \<Rightarrow> ''instance.restart''
      | StageLifecycleReconcile \<Rightarrow> ''lifecycle.reconcile''
      | StageChannelPreparing \<Rightarrow> ''channel.preparing'' | StageChannelQRReady \<Rightarrow> ''channel.qr-ready''
      | StageChannelWaiting \<Rightarrow> ''channel.waiting'' | StageChannelVerifying \<Rightarrow> ''channel.verifying''
      | StageChannelCommitting \<Rightarrow> ''channel.committing''
      | StageChannelDisconnect \<Rightarrow> ''channel.disconnect'' | StageSkillPreflight \<Rightarrow> ''skill.preflight''
      | StageSkillProject \<Rightarrow> ''skill.project'' | StageSkillUnproject \<Rightarrow> ''skill.unproject''
      | StageSkillReconcile \<Rightarrow> ''skill.reconcile'' | StageMCPPreflight \<Rightarrow> ''mcp.preflight''
      | StageMCPConfigure \<Rightarrow> ''mcp.configure'' | StageMCPTest \<Rightarrow> ''mcp.test''
      | StageMCPReconcile \<Rightarrow> ''mcp.reconcile'' | StageBackupPreflight \<Rightarrow> ''backup.preflight''
      | StageBackupSnapshot \<Rightarrow> ''backup.snapshot'' | StageBackupEncrypt \<Rightarrow> ''backup.encrypt''
      | StageBackupPublish \<Rightarrow> ''backup.publish'' | StageBackupDelete \<Rightarrow> ''backup.delete''
      | StageBackupReconcile \<Rightarrow> ''backup.reconcile'' | StageRestorePreflight \<Rightarrow> ''restore.preflight''
      | StageRestoreProtection \<Rightarrow> ''restore.protection'' | StageRestoreApply \<Rightarrow> ''restore.apply''
      | StageRestoreReconcile \<Rightarrow> ''restore.reconcile'' | StageUpgradePreflight \<Rightarrow> ''upgrade.preflight''
      | StageUpgradeBuild \<Rightarrow> ''upgrade.build'' | StageUpgradeActivate \<Rightarrow> ''upgrade.activate''
      | StageUpgradeReconcile \<Rightarrow> ''upgrade.reconcile'')"

subsection \<open>The texts are unambiguous\<close>

definition all_types :: "op_type list" where
  "all_types =
     [TypeRuntimeInstall, TypeHermesPrerequisites, TypeInstanceCreate, TypeInstanceDelete,
      TypeModelValidate, TypeModelProfileApply, TypeInstanceStart, TypeInstanceStop,
      TypeInstanceRestart, TypeChannelConnect, TypeChannelDisconnect, TypeSkillInstall,
      TypeSkillUpdate, TypeSkillEnable, TypeSkillDisable, TypeSkillRemove, TypeMCPInstall,
      TypeMCPAuthenticate, TypeMCPTest, TypeMCPConfigure, TypeMCPRemove, TypeBackupCreate,
      TypeBackupDelete, TypeBackupRestore, TypeRuntimeUpgrade, TypeRuntimeRollback]"

definition all_stages :: "stage list" where
  "all_stages =
     [StagePreflight, StageSourceDownload, StageSourceVerify, StageProtocolVerify, StageInstallUV,
      StageInstallPython, StageInstallGit, StageInstallNode, StageInstallSystemPackages,
      StageInstallRepository, StageInstallVenv, StageInstallDependencies, StageInstallNodeDeps,
      StageInstallNPM, StageInstallPath, StageInstallConfigTemplates, StageInstallBootstrapMarker,
      StagePostcheckDiscovery, StageCleanup, StageInstanceCreate, StageInstanceDelete,
      StageInstanceReconcile, StageModelValidate, StageModelProfileApply, StageInstanceStart,
      StageInstanceStop, StageInstanceRestart, StageLifecycleReconcile, StageChannelPreparing,
      StageChannelQRReady, StageChannelWaiting, StageChannelVerifying, StageChannelCommitting,
      StageChannelDisconnect, StageSkillPreflight, StageSkillProject, StageSkillUnproject,
      StageSkillReconcile, StageMCPPreflight, StageMCPConfigure, StageMCPTest, StageMCPReconcile,
      StageBackupPreflight, StageBackupSnapshot, StageBackupEncrypt, StageBackupPublish,
      StageBackupDelete, StageBackupReconcile, StageRestorePreflight, StageRestoreProtection,
      StageRestoreApply, StageRestoreReconcile, StageUpgradePreflight, StageUpgradeBuild,
      StageUpgradeActivate, StageUpgradeReconcile]"

lemma all_types_complete: "t \<in> set all_types"
  by (cases t) (simp_all add: all_types_def)

lemma all_stages_complete: "s \<in> set all_stages"
  by (cases s) (simp_all add: all_stages_def)

lemma type_texts_distinct: "distinct (map op_type_text all_types)"
  by code_simp

lemma stage_texts_distinct: "distinct (map stage_text all_stages)"
  by (simp add: all_stages_def stage_text_def)

lemma map_distinct_inj: "distinct (map f xs) \<Longrightarrow> (\<And>x. x \<in> set xs) \<Longrightarrow> f a = f b \<longleftrightarrow> a = b"
  unfolding distinct_map inj_on_def by blast


end
