(* ===== verification/Runtime_Codes.thy ===== *)
theory Runtime_Codes
  imports Operations_DB
begin

text \<open>
  The data of Runtime discovery and the closed set of error codes (runtime/discovery.go). A code is
  the text that reaches rows, events and responses. \<open>ErrorOperationInterrupted\<close> is declared
  with the operations table, which writes it.
\<close>

datatype discovery_state =
    DiscoveryNotInstalled | DiscoverySupported | DiscoveryUnsupported | DiscoveryBrokenExecutable
  | DiscoveryMalformedVersion | DiscoveryTimedOut | DiscoveryAmbiguous | DiscoveryNone

text \<open>\<open>DiscoveryNone\<close> is the empty text, the state of the zero \<open>Discovery\<close>.\<close>

record candidate =
  cn_path :: string
  cn_version :: string
  cn_state :: discovery_state
  cn_error_code :: error_code

record discovery_warning =
  dw_code :: string
  dw_message :: string

record discovery =
  di_kind :: string
  di_state :: discovery_state
  di_error_code :: error_code
  di_selected :: "candidate option"
  di_candidates :: "candidate list"
  di_warnings :: "discovery_warning list"
  di_detected_at :: time
  di_supported_range :: string

definition zero_discovery :: discovery where
  "zero_discovery =
     \<lparr>di_kind = [], di_state = DiscoveryNone, di_error_code = [], di_selected = None,
      di_candidates = [], di_warnings = [], di_detected_at = 0, di_supported_range = []\<rparr>"

subsection \<open>Error codes\<close>

definition ErrorRuntimeNotInstalled :: error_code where "ErrorRuntimeNotInstalled = ''RUNTIME_NOT_INSTALLED''"
definition ErrorRuntimeUnsupported :: error_code where "ErrorRuntimeUnsupported = ''RUNTIME_UNSUPPORTED''"
definition ErrorRuntimeExecutableBroken :: error_code where "ErrorRuntimeExecutableBroken = ''RUNTIME_EXECUTABLE_BROKEN''"
definition ErrorRuntimeVersionMalformed :: error_code where "ErrorRuntimeVersionMalformed = ''RUNTIME_VERSION_MALFORMED''"
definition ErrorRuntimeDiscoveryTimeout :: error_code where "ErrorRuntimeDiscoveryTimeout = ''RUNTIME_DISCOVERY_TIMEOUT''"
definition ErrorRuntimeDiscoveryCancelled :: error_code where "ErrorRuntimeDiscoveryCancelled = ''RUNTIME_DISCOVERY_CANCELLED''"
definition ErrorRuntimeCommandOutputLimit :: error_code where "ErrorRuntimeCommandOutputLimit = ''RUNTIME_COMMAND_OUTPUT_LIMIT''"
definition ErrorRuntimeDiscoveryAmbiguous :: error_code where "ErrorRuntimeDiscoveryAmbiguous = ''RUNTIME_DISCOVERY_AMBIGUOUS''"
definition ErrorRuntimeInstallPlatformUnsupported :: error_code where "ErrorRuntimeInstallPlatformUnsupported = ''RUNTIME_INSTALL_PLATFORM_UNSUPPORTED''"
definition ErrorRuntimeInstallAlreadyPresent :: error_code where "ErrorRuntimeInstallAlreadyPresent = ''RUNTIME_INSTALL_ALREADY_PRESENT''"
definition ErrorRuntimeInstallStateConflict :: error_code where "ErrorRuntimeInstallStateConflict = ''RUNTIME_INSTALL_STATE_CONFLICT''"
definition ErrorRuntimeInstallInProgress :: error_code where "ErrorRuntimeInstallInProgress = ''RUNTIME_INSTALL_IN_PROGRESS''"
definition ErrorRuntimeInstallTargetOccupied :: error_code where "ErrorRuntimeInstallTargetOccupied = ''RUNTIME_INSTALL_TARGET_OCCUPIED''"
definition ErrorRuntimeInstallSourceUnavailable :: error_code where "ErrorRuntimeInstallSourceUnavailable = ''RUNTIME_INSTALL_SOURCE_UNAVAILABLE''"
definition ErrorRuntimeInstallInsufficientDisk :: error_code where "ErrorRuntimeInstallInsufficientDisk = ''RUNTIME_INSTALL_INSUFFICIENT_DISK''"
definition ErrorRuntimeInstallIntegrityFailed :: error_code where "ErrorRuntimeInstallIntegrityFailed = ''RUNTIME_INSTALL_INTEGRITY_FAILED''"
definition ErrorRuntimeInstallProtocolUnsupported :: error_code where "ErrorRuntimeInstallProtocolUnsupported = ''RUNTIME_INSTALL_PROTOCOL_UNSUPPORTED''"
definition ErrorRuntimeInstallManifestMismatch :: error_code where "ErrorRuntimeInstallManifestMismatch = ''RUNTIME_INSTALL_MANIFEST_MISMATCH''"
definition ErrorRuntimeInstallStageFailed :: error_code where "ErrorRuntimeInstallStageFailed = ''RUNTIME_INSTALL_STAGE_FAILED''"
definition ErrorRuntimeInstallPrivilegeRequired :: error_code where "ErrorRuntimeInstallPrivilegeRequired = ''RUNTIME_INSTALL_PRIVILEGE_REQUIRED''"
definition ErrorRuntimeInstallTimeout :: error_code where "ErrorRuntimeInstallTimeout = ''RUNTIME_INSTALL_TIMEOUT''"
definition ErrorRuntimeInstallOutputLimit :: error_code where "ErrorRuntimeInstallOutputLimit = ''RUNTIME_INSTALL_OUTPUT_LIMIT''"
definition ErrorRuntimeInstallPostcheckFailed :: error_code where "ErrorRuntimeInstallPostcheckFailed = ''RUNTIME_INSTALL_POSTCHECK_FAILED''"
definition ErrorRuntimeInstallCancelled :: error_code where "ErrorRuntimeInstallCancelled = ''RUNTIME_INSTALL_CANCELLED''"
definition ErrorRuntimeInstallNotReady :: error_code where "ErrorRuntimeInstallNotReady = ''INSTALL_NOT_READY''"
definition ErrorRuntimeInstallBlockedUnsafe :: error_code where "ErrorRuntimeInstallBlockedUnsafe = ''INSTALL_BLOCKED_UNSAFE''"
definition ErrorOperationNotCancellable :: error_code where "ErrorOperationNotCancellable = ''OPERATION_NOT_CANCELLABLE''"
definition ErrorIdempotencyKeyConflict :: error_code where "ErrorIdempotencyKeyConflict = ''IDEMPOTENCY_KEY_CONFLICT''"
definition ErrorHermesNodeMissing :: error_code where "ErrorHermesNodeMissing = ''RUNTIME_HERMES_NODE_MISSING''"
definition ErrorHermesNodeUnsupported :: error_code where "ErrorHermesNodeUnsupported = ''RUNTIME_HERMES_NODE_UNSUPPORTED''"
definition ErrorHermesNPMMissing :: error_code where "ErrorHermesNPMMissing = ''RUNTIME_HERMES_NPM_MISSING''"
definition ErrorHermesNPMUnsupported :: error_code where "ErrorHermesNPMUnsupported = ''RUNTIME_HERMES_NPM_UNSUPPORTED''"
definition ErrorHermesNodeArchiveIntegrityFailed :: error_code where "ErrorHermesNodeArchiveIntegrityFailed = ''RUNTIME_HERMES_NODE_ARCHIVE_INTEGRITY_FAILED''"
definition ErrorHermesNPMArchiveIntegrityFailed :: error_code where "ErrorHermesNPMArchiveIntegrityFailed = ''RUNTIME_HERMES_NPM_ARCHIVE_INTEGRITY_FAILED''"
definition ErrorHermesNodeDepsFailed :: error_code where "ErrorHermesNodeDepsFailed = ''RUNTIME_HERMES_NODE_DEPS_FAILED''"
definition ErrorHermesNodeDepsTimeout :: error_code where "ErrorHermesNodeDepsTimeout = ''RUNTIME_HERMES_NODE_DEPS_TIMEOUT''"
definition ErrorRuntimeNotSupported :: error_code where "ErrorRuntimeNotSupported = ''RUNTIME_NOT_SUPPORTED''"
definition ErrorInstanceInvalidName :: error_code where "ErrorInstanceInvalidName = ''INSTANCE_INVALID_NAME''"
definition ErrorInstanceAlreadyExists :: error_code where "ErrorInstanceAlreadyExists = ''INSTANCE_ALREADY_EXISTS''"
definition ErrorInstanceNotFound :: error_code where "ErrorInstanceNotFound = ''INSTANCE_NOT_FOUND''"
definition ErrorInstanceNotAvailable :: error_code where "ErrorInstanceNotAvailable = ''INSTANCE_NOT_AVAILABLE''"
definition ErrorInstanceProtected :: error_code where "ErrorInstanceProtected = ''INSTANCE_PROTECTED''"
definition ErrorInstanceConfirmationMismatch :: error_code where "ErrorInstanceConfirmationMismatch = ''INSTANCE_CONFIRMATION_MISMATCH''"
definition ErrorInstanceRecordNotRemoved :: error_code where "ErrorInstanceRecordNotRemoved = ''INSTANCE_RECORD_NOT_REMOVED''"
definition ErrorInstanceConflict :: error_code where "ErrorInstanceConflict = ''INSTANCE_CONFLICT''"
definition ErrorInstanceQueryFailed :: error_code where "ErrorInstanceQueryFailed = ''INSTANCE_QUERY_FAILED''"
definition ErrorInstanceOutputUnrecognized :: error_code where "ErrorInstanceOutputUnrecognized = ''INSTANCE_OUTPUT_UNRECOGNIZED''"
definition ErrorInstanceOperationTimedOut :: error_code where "ErrorInstanceOperationTimedOut = ''INSTANCE_OPERATION_TIMED_OUT''"
definition ErrorCapabilityNotSupported :: error_code where "ErrorCapabilityNotSupported = ''CAPABILITY_NOT_SUPPORTED''"
definition ErrorModelProviderUnsupported :: error_code where "ErrorModelProviderUnsupported = ''MODEL_PROVIDER_UNSUPPORTED''"
definition ErrorModelConfigInvalid :: error_code where "ErrorModelConfigInvalid = ''MODEL_CONFIG_INVALID''"
definition ErrorModelConfigQueryFailed :: error_code where "ErrorModelConfigQueryFailed = ''MODEL_CONFIG_QUERY_FAILED''"
definition ErrorModelConfigApplyFailed :: error_code where "ErrorModelConfigApplyFailed = ''MODEL_CONFIG_APPLY_FAILED''"
definition ErrorModelConfigIncomplete :: error_code where "ErrorModelConfigIncomplete = ''MODEL_CONFIG_INCOMPLETE''"
definition ErrorModelCredentialRequired :: error_code where "ErrorModelCredentialRequired = ''MODEL_CREDENTIAL_REQUIRED''"
definition ErrorModelCredentialQueryFailed :: error_code where "ErrorModelCredentialQueryFailed = ''MODEL_CREDENTIAL_QUERY_FAILED''"
definition ErrorModelCredentialWriteFailed :: error_code where "ErrorModelCredentialWriteFailed = ''MODEL_CREDENTIAL_WRITE_FAILED''"
definition ErrorModelCredentialDeleteFailed :: error_code where "ErrorModelCredentialDeleteFailed = ''MODEL_CREDENTIAL_DELETE_FAILED''"
definition ErrorModelCatalogFetchFailed :: error_code where "ErrorModelCatalogFetchFailed = ''MODEL_CATALOG_FETCH_FAILED''"
definition ErrorModelValidationFailed :: error_code where "ErrorModelValidationFailed = ''MODEL_VALIDATION_FAILED''"
definition ErrorModelValidationTimedOut :: error_code where "ErrorModelValidationTimedOut = ''MODEL_VALIDATION_TIMED_OUT''"
definition ErrorModelValidationCancelled :: error_code where "ErrorModelValidationCancelled = ''MODEL_VALIDATION_CANCELLED''"
definition ErrorModelValidationOutputLimit :: error_code where "ErrorModelValidationOutputLimit = ''MODEL_VALIDATION_OUTPUT_LIMIT''"
definition ErrorModelValidationUnsafe :: error_code where "ErrorModelValidationUnsafe = ''MODEL_VALIDATION_UNSAFE''"
definition ErrorModelValidationUnknown :: error_code where "ErrorModelValidationUnknown = ''MODEL_VALIDATION_UNKNOWN''"
definition ErrorInstanceConfigConflict :: error_code where "ErrorInstanceConfigConflict = ''INSTANCE_CONFIG_CONFLICT''"
definition ErrorLifecycleQueryFailed :: error_code where "ErrorLifecycleQueryFailed = ''LIFECYCLE_QUERY_FAILED''"
definition ErrorLifecycleOutputUnrecognized :: error_code where "ErrorLifecycleOutputUnrecognized = ''LIFECYCLE_OUTPUT_UNRECOGNIZED''"
definition ErrorLifecycleStartFailed :: error_code where "ErrorLifecycleStartFailed = ''LIFECYCLE_START_FAILED''"
definition ErrorLifecycleStopFailed :: error_code where "ErrorLifecycleStopFailed = ''LIFECYCLE_STOP_FAILED''"
definition ErrorLifecycleRestartFailed :: error_code where "ErrorLifecycleRestartFailed = ''LIFECYCLE_RESTART_FAILED''"
definition ErrorLifecyclePostconditionFailed :: error_code where "ErrorLifecyclePostconditionFailed = ''LIFECYCLE_POSTCONDITION_FAILED''"
definition ErrorLifecycleResultUnknown :: error_code where "ErrorLifecycleResultUnknown = ''LIFECYCLE_RESULT_UNKNOWN''"
definition ErrorInstanceNotRunning :: error_code where "ErrorInstanceNotRunning = ''INSTANCE_NOT_RUNNING''"
definition ErrorChannelNotSupported :: error_code where "ErrorChannelNotSupported = ''CHANNEL_NOT_SUPPORTED''"
definition ErrorChannelConflict :: error_code where "ErrorChannelConflict = ''CHANNEL_CONFLICT''"
definition ErrorChannelAuthFailed :: error_code where "ErrorChannelAuthFailed = ''CHANNEL_AUTH_FAILED''"
definition ErrorChannelAuthTimeout :: error_code where "ErrorChannelAuthTimeout = ''CHANNEL_AUTH_TIMEOUT''"
definition ErrorChannelAuthCancelled :: error_code where "ErrorChannelAuthCancelled = ''CHANNEL_AUTH_CANCELLED''"
definition ErrorChannelStateUnknown :: error_code where "ErrorChannelStateUnknown = ''CHANNEL_STATE_UNKNOWN''"
definition ErrorChannelDisconnectFailed :: error_code where "ErrorChannelDisconnectFailed = ''CHANNEL_DISCONNECT_FAILED''"
definition ErrorChannelDependencyMissing :: error_code where "ErrorChannelDependencyMissing = ''CHANNEL_DEPENDENCY_MISSING''"
definition ErrorChannelPairingQueryFailed :: error_code where "ErrorChannelPairingQueryFailed = ''CHANNEL_PAIRING_QUERY_FAILED''"
definition ErrorChannelPairingCodeInvalid :: error_code where "ErrorChannelPairingCodeInvalid = ''CHANNEL_PAIRING_CODE_INVALID''"
definition ErrorChannelPairingLocked :: error_code where "ErrorChannelPairingLocked = ''CHANNEL_PAIRING_LOCKED''"
definition ErrorChannelPairingApprovalFailed :: error_code where "ErrorChannelPairingApprovalFailed = ''CHANNEL_PAIRING_APPROVAL_FAILED''"
definition ErrorSkillSourceNotApproved :: error_code where "ErrorSkillSourceNotApproved = ''SKILL_SOURCE_NOT_APPROVED''"
definition ErrorSkillOwnershipConflict :: error_code where "ErrorSkillOwnershipConflict = ''SKILL_OWNERSHIP_CONFLICT''"
definition ErrorSkillDriftDetected :: error_code where "ErrorSkillDriftDetected = ''SKILL_DRIFT_DETECTED''"
definition ErrorSkillMutationConflict :: error_code where "ErrorSkillMutationConflict = ''SKILL_MUTATION_CONFLICT''"
definition ErrorSkillAcquireFailed :: error_code where "ErrorSkillAcquireFailed = ''SKILL_ACQUIRE_FAILED''"
definition ErrorSkillProjectFailed :: error_code where "ErrorSkillProjectFailed = ''SKILL_PROJECT_FAILED''"
definition ErrorSkillUnprojectFailed :: error_code where "ErrorSkillUnprojectFailed = ''SKILL_UNPROJECT_FAILED''"
definition ErrorSkillReadbackFailed :: error_code where "ErrorSkillReadbackFailed = ''SKILL_READBACK_FAILED''"
definition ErrorMCPMutationConflict :: error_code where "ErrorMCPMutationConflict = ''MCP_MUTATION_CONFLICT''"
definition ErrorMCPConfigurationFailed :: error_code where "ErrorMCPConfigurationFailed = ''MCP_CONFIGURATION_FAILED''"
definition ErrorMCPAuthenticationFailed :: error_code where "ErrorMCPAuthenticationFailed = ''MCP_AUTHENTICATION_FAILED''"
definition ErrorMCPTestFailed :: error_code where "ErrorMCPTestFailed = ''MCP_TEST_FAILED''"
definition ErrorBackupDestinationInvalid :: error_code where "ErrorBackupDestinationInvalid = ''BACKUP_DESTINATION_INVALID''"
definition ErrorBackupMutationConflict :: error_code where "ErrorBackupMutationConflict = ''BACKUP_MUTATION_CONFLICT''"
definition ErrorBackupRuntimeNotStopped :: error_code where "ErrorBackupRuntimeNotStopped = ''BACKUP_SOURCE_RUNTIME_NOT_STOPPED''"
definition ErrorBackupSourceChanged :: error_code where "ErrorBackupSourceChanged = ''BACKUP_SOURCE_CHANGED''"
definition ErrorBackupSourceUnsafe :: error_code where "ErrorBackupSourceUnsafe = ''BACKUP_SOURCE_UNSAFE''"
definition ErrorBackupSourceIncomplete :: error_code where "ErrorBackupSourceIncomplete = ''BACKUP_SOURCE_INCOMPLETE''"
definition ErrorBackupInsufficientSpace :: error_code where "ErrorBackupInsufficientSpace = ''BACKUP_DESTINATION_INSUFFICIENT_SPACE''"
definition ErrorBackupStagingFailed :: error_code where "ErrorBackupStagingFailed = ''BACKUP_STAGING_FAILED''"
definition ErrorBackupEncryptionFailed :: error_code where "ErrorBackupEncryptionFailed = ''BACKUP_ENCRYPTION_FAILED''"
definition ErrorBackupCreateFailed :: error_code where "ErrorBackupCreateFailed = ''BACKUP_CREATE_FAILED''"
definition ErrorBackupDeleteFailed :: error_code where "ErrorBackupDeleteFailed = ''BACKUP_DELETE_FAILED''"
definition ErrorBackupRestoreFailed :: error_code where "ErrorBackupRestoreFailed = ''BACKUP_RESTORE_FAILED''"
definition ErrorRuntimeUpgradeFailed :: error_code where "ErrorRuntimeUpgradeFailed = ''RUNTIME_UPGRADE_FAILED''"
definition ErrorRuntimeRollbackFailed :: error_code where "ErrorRuntimeRollbackFailed = ''RUNTIME_ROLLBACK_FAILED''"

end
