(* ===== verification/Inventory_DB.thy ===== *)
theory Inventory_DB
  imports Runtime_Codes Operations_Table Go_Format
begin

text \<open>
  The tables of accepted Runtime installations and of their instances
  (persistence/sqlite/installations.go, instances.go, domain/instance/instance.go, with the
  schema of migrations 002 and 007). A snapshot of the instances that a Runtime reports is
  applied in one SQL transaction: it either fails and changes nothing, or rewrites the rows of
  that installation.

  Random bytes are parameters: what the successive calls of \<open>rand.Read\<close> deliver, with
  \<open>None\<close> (or an exhausted list) for a call that fails.
\<close>

subsection \<open>Identifiers\<close>

text \<open>\<open>base64.RawURLEncoding\<close>: the URL alphabet, without padding.\<close>

definition url_alphabet :: string where
  "url_alphabet = ''ABCDEFGHIJKLMNOPQRSTUVWXYZabcdefghijklmnopqrstuvwxyz0123456789-_''"

fun RawURLEncoding :: "nat list \<Rightarrow> string" where
  "RawURLEncoding [] = []"
| "RawURLEncoding [a] = [url_alphabet ! (a div 4), url_alphabet ! (a mod 4 * 16)]"
| "RawURLEncoding [a, b] =
     [url_alphabet ! (a div 4), url_alphabet ! (a mod 4 * 16 + b div 16), url_alphabet ! (b mod 16 * 4)]"
| "RawURLEncoding (a # b # c # r) =
     url_alphabet ! (a div 4) # url_alphabet ! (a mod 4 * 16 + b div 16)
     # url_alphabet ! (b mod 16 * 4 + c div 64) # url_alphabet ! (c mod 64) # RawURLEncoding r"

definition NewID :: "string \<Rightarrow> string" where
  "NewID random = ''inst_'' @ random"

definition NewInstanceID :: "nat list option \<Rightarrow> string option" where
  "NewInstanceID rnd = map_option (\<lambda>bs. NewID (RawURLEncoding (take 18 bs))) rnd"

definition NewInstallationID :: "nat list option \<Rightarrow> string option" where
  "NewInstallationID rnd = map_option (\<lambda>bs. ''rtinst_'' @ RawURLEncoding (take 18 bs)) rnd"

subsection \<open>Rows\<close>

record accepted_installation =
  ai_id :: string
  ai_node_id :: string
  ai_kind :: string
  ai_path :: string
  ai_version :: string
  ai_support :: discovery_state
  ai_status :: string
  ai_detected_at :: time
  ai_created_at :: time
  ai_updated_at :: time

datatype availability = Available | Missing | Unknown

record instance_row =
  in_id :: string
  in_installation :: string
  in_native :: string
  in_name :: string
  in_default :: bool
  in_protected :: bool
  in_availability :: availability
  in_last_synced :: "time option"
  in_created_at :: time
  in_updated_at :: time

record inventory =
  iv_nodes :: "string list"
  iv_installations :: "accepted_installation list"
  iv_instances :: "instance_row list"

record snapshot_entry =
  se_native :: string
  se_default :: bool

datatype inventory_error =
    ErrPathAndVersionRequired
  | ErrNoRows
  | ErrForeignKey
  | ErrUnique
  | ErrEmptyNativeIdentity
  | ErrDuplicateNativeIdentity
  | ErrRandomSource
  | ErrCompleteOperation sql_failure
  | ErrCompleteTransition

text \<open>\<open>LifecycleSupported\<close> of instance.go: no instance of this domain type supports it.\<close>

definition LifecycleSupported :: "instance_row \<Rightarrow> bool" where
  "LifecycleSupported i = False"

subsection \<open>Accepted installations (installations.go)\<close>

definition installation_key :: "accepted_installation \<Rightarrow> string \<times> string \<times> string" where
  "installation_key v = (ai_node_id v, ai_kind v, ai_path v)"

text \<open>The columns that \<open>ON CONFLICT DO UPDATE\<close> takes from the new values.\<close>

definition upserted_row :: "accepted_installation \<Rightarrow> accepted_installation \<Rightarrow> accepted_installation" where
  "upserted_row v r =
     r\<lparr>ai_version := ai_version v, ai_support := ai_support v, ai_status := ai_status v,
       ai_detected_at := ai_detected_at v, ai_updated_at := ai_updated_at v\<rparr>"

definition upsert_installation :: "inventory \<Rightarrow> accepted_installation \<Rightarrow> inventory_error + inventory" where
  "upsert_installation iv v =
     (if \<exists>r \<in> set (iv_installations iv). ai_id r = ai_id v \<and> installation_key r \<noteq> installation_key v
      then Inl ErrUnique
      else if \<exists>r \<in> set (iv_installations iv). installation_key r = installation_key v
      then Inr (iv\<lparr>iv_installations :=
             map (\<lambda>r. if installation_key r = installation_key v then upserted_row v r else r)
               (iv_installations iv)\<rparr>)
      else if ai_node_id v \<notin> set (iv_nodes iv) then Inl ErrForeignKey
      else Inr (iv\<lparr>iv_installations := iv_installations iv @ [v]\<rparr>))"

definition UpsertAcceptedInstallation ::
  "inventory \<Rightarrow> accepted_installation \<Rightarrow> inventory_error + inventory" where
  "UpsertAcceptedInstallation iv v =
     (if ai_path v = [] \<or> ai_version v = [] then Inl ErrPathAndVersionRequired
      else upsert_installation iv v)"

definition one_row :: "'a list \<Rightarrow> inventory_error + 'a" where
  "one_row rows = (case rows of [] \<Rightarrow> Inl ErrNoRows | r # _ \<Rightarrow> Inr r)"

definition GetAcceptedInstallation ::
  "inventory \<Rightarrow> string \<Rightarrow> string \<Rightarrow> string \<Rightarrow> inventory_error + accepted_installation" where
  "GetAcceptedInstallation iv node kind p =
     one_row (filter (\<lambda>r. installation_key r = (node, kind, p)) (iv_installations iv))"

definition GetAcceptedInstallationByID ::
  "inventory \<Rightarrow> string \<Rightarrow> inventory_error + accepted_installation" where
  "GetAcceptedInstallationByID iv i = one_row (filter (\<lambda>r. ai_id r = i) (iv_installations iv))"

text \<open>\<open>ORDER BY updated_at DESC LIMIT 1\<close> compares the stored text.\<close>

definition GetAcceptedInstallationByKind ::
  "inventory \<Rightarrow> string \<Rightarrow> string \<Rightarrow> inventory_error + accepted_installation" where
  "GetAcceptedInstallationByKind iv node kind =
     one_row (rev (sort_key (\<lambda>r. formatTime (ai_updated_at r))
       (filter (\<lambda>r. ai_node_id r = node \<and> ai_kind r = kind) (iv_installations iv))))"

definition CountAcceptedInstallations :: "inventory \<Rightarrow> nat" where
  "CountAcceptedInstallations iv = length (iv_installations iv)"

text \<open>
  The operation becomes SUCCEEDED and the installation is recorded in one SQL transaction: an
  error leaves both tables as they were.
\<close>

definition CompleteInstallSuccess ::
  "database \<Rightarrow> inventory \<Rightarrow> operation \<Rightarrow> operation \<Rightarrow> accepted_installation
     \<Rightarrow> inventory_error + database \<times> inventory" where
  "CompleteInstallSuccess db iv current nxt v =
     (if op_status current \<noteq> op_status nxt \<and> \<not> ValidStatusChange (op_status current) (op_status nxt)
      then Inl ErrCompleteTransition
      else case update_failure (db_operations db) current nxt of
             Some f \<Rightarrow> Inl (ErrCompleteOperation f)
           | None \<Rightarrow>
          (if length (filter (update_matches current nxt) (db_operations db)) \<noteq> 1
           then Inl ErrCompleteTransition
           else case upsert_installation iv v of
                  Inl e \<Rightarrow> Inl e
                | Inr iv' \<Rightarrow>
                    Inr (db\<lparr>db_operations :=
                           map (\<lambda>r. if update_matches current nxt r then updated_row nxt r else r)
                             (db_operations db)\<rparr>, iv')))"

subsection \<open>Instances (instances.go)\<close>

definition insert_instance :: "inventory \<Rightarrow> instance_row \<Rightarrow> inventory_error + inventory" where
  "insert_instance iv r =
     (if \<exists>q \<in> set (iv_instances iv). in_id q = in_id r
         \<or> (in_installation q = in_installation r \<and> in_native q = in_native r)
      then Inl ErrUnique
      else if in_installation r \<notin> set (map ai_id (iv_installations iv)) then Inl ErrForeignKey
      else Inr (iv\<lparr>iv_instances := iv_instances iv @ [r]\<rparr>))"

definition update_instance ::
  "string \<Rightarrow> (instance_row \<Rightarrow> instance_row) \<Rightarrow> inventory \<Rightarrow> inventory" where
  "update_instance i f iv =
     iv\<lparr>iv_instances := map (\<lambda>r. if in_id r = i then f r else r) (iv_instances iv)\<rparr>"

definition new_instance :: "string \<Rightarrow> string \<Rightarrow> time \<Rightarrow> snapshot_entry \<Rightarrow> instance_row" where
  "new_instance i installation now e =
     \<lparr>in_id = i, in_installation = installation, in_native = se_native e, in_name = se_native e,
      in_default = se_default e, in_protected = se_default e, in_availability = Available,
      in_last_synced = Some now, in_created_at = now, in_updated_at = now\<rparr>"

definition seen_again :: "time \<Rightarrow> snapshot_entry \<Rightarrow> instance_row \<Rightarrow> instance_row" where
  "seen_again now e r =
     r\<lparr>in_name := se_native e, in_default := se_default e, in_protected := se_default e,
       in_availability := Available, in_last_synced := Some now, in_updated_at := now\<rparr>"

definition gone_missing :: "time \<Rightarrow> instance_row \<Rightarrow> instance_row" where
  "gone_missing now r =
     r\<lparr>in_availability := Missing, in_last_synced := Some now, in_updated_at := now\<rparr>"

definition instances_of :: "inventory \<Rightarrow> string \<Rightarrow> instance_row list" where
  "instances_of iv installation = filter (\<lambda>r. in_installation r = installation) (iv_instances iv)"

text \<open>
  The loop over the reported entries. \<open>existing\<close> is the table before the snapshot
  (\<open>listInstancesTx\<close>); each new native identity takes a fresh identifier.
\<close>

fun snapshot_entries ::
  "string \<Rightarrow> time \<Rightarrow> instance_row list \<Rightarrow> nat list option list \<Rightarrow> string list \<Rightarrow> inventory
     \<Rightarrow> snapshot_entry list \<Rightarrow> inventory_error + inventory" where
  "snapshot_entries installation now existing rnd seen iv [] = Inr iv"
| "snapshot_entries installation now existing rnd seen iv (e # es) =
     (if se_native e = [] then Inl ErrEmptyNativeIdentity
      else if se_native e \<in> set seen then Inl ErrDuplicateNativeIdentity
      else case first_match (\<lambda>r. in_native r = se_native e) existing of
             Some row \<Rightarrow>
               snapshot_entries installation now existing rnd (se_native e # seen)
                 (update_instance (in_id row) (seen_again now e) iv) es
           | None \<Rightarrow>
               (case rnd of
                  [] \<Rightarrow> Inl ErrRandomSource
                | x # rnd' \<Rightarrow>
               (case NewInstanceID x of
                  None \<Rightarrow> Inl ErrRandomSource
                | Some i \<Rightarrow>
               (case insert_instance iv (new_instance i installation now e) of
                  Inl err \<Rightarrow> Inl err
                | Inr iv' \<Rightarrow>
                    snapshot_entries installation now existing rnd' (se_native e # seen) iv' es))))"

fun mark_missing ::
  "time \<Rightarrow> string list \<Rightarrow> inventory \<Rightarrow> instance_row list \<Rightarrow> inventory" where
  "mark_missing now seen iv [] = iv"
| "mark_missing now seen iv (row # rows) =
     mark_missing now seen
       (if in_native row \<in> set seen then iv else update_instance (in_id row) (gone_missing now) iv) rows"

definition ApplyInstanceSnapshot ::
  "inventory \<Rightarrow> nat list option list \<Rightarrow> string \<Rightarrow> snapshot_entry list \<Rightarrow> time
     \<Rightarrow> inventory_error + inventory" where
  "ApplyInstanceSnapshot iv rnd installation present now =
     (let existing = instances_of iv installation in
      case snapshot_entries installation now existing rnd [] iv present of
        Inl e \<Rightarrow> Inl e
      | Inr iv' \<Rightarrow> Inr (mark_missing now (map se_native present) iv' existing))"

definition MarkInstancesUnknown :: "inventory \<Rightarrow> string \<Rightarrow> time \<Rightarrow> inventory" where
  "MarkInstancesUnknown iv installation now =
     iv\<lparr>iv_instances :=
       map (\<lambda>r. if in_installation r = installation
                then r\<lparr>in_availability := Unknown, in_updated_at := now\<rparr> else r) (iv_instances iv)\<rparr>"

text \<open>\<open>ORDER BY is_default DESC, native_id ASC\<close>.\<close>

definition ListInstances :: "inventory \<Rightarrow> string \<Rightarrow> instance_row list" where
  "ListInstances iv installation =
     (let rows = sort_key in_native (instances_of iv installation)
      in filter in_default rows @ filter (\<lambda>r. \<not> in_default r) rows)"

definition removable_tombstone :: "string \<Rightarrow> instance_row \<Rightarrow> bool" where
  "removable_tombstone i r \<longleftrightarrow>
     in_id r = i \<and> in_availability r = Missing \<and> \<not> in_default r \<and> \<not> in_protected r"

definition DeleteMissingInstanceRecord :: "inventory \<Rightarrow> string \<Rightarrow> inventory \<times> bool" where
  "DeleteMissingInstanceRecord iv i =
     (iv\<lparr>iv_instances := filter (\<lambda>r. \<not> removable_tombstone i r) (iv_instances iv)\<rparr>,
      length (filter (removable_tombstone i) (iv_instances iv)) = 1)"

definition GetInstance :: "inventory \<Rightarrow> string \<Rightarrow> inventory_error + instance_row" where
  "GetInstance iv i = one_row (filter (\<lambda>r. in_id r = i) (iv_instances iv))"

end
