(* ===== verification/Inventory_Table.thy ===== *)
theory Inventory_Table
  imports Inventory_DB
begin

text \<open>
  What the installation and instance tables guarantee: the keyed store of installations, the
  uniqueness of instance identities, the exact effect of a snapshot, and the deletion of
  tombstones.
\<close>

subsection \<open>Installations as a keyed store\<close>

definition installation_of ::
  "inventory \<Rightarrow> string \<times> string \<times> string \<Rightarrow> accepted_installation option" where
  "installation_of iv k = first_match (\<lambda>r. installation_key r = k) (iv_installations iv)"

definition try_upsert :: "inventory \<Rightarrow> accepted_installation \<Rightarrow> inventory option" where
  "try_upsert iv v = (case upsert_installation iv v of Inl _ \<Rightarrow> None | Inr iv' \<Rightarrow> Some iv')"

definition upserted ::
  "accepted_installation option \<Rightarrow> accepted_installation \<Rightarrow> accepted_installation" where
  "upserted old v = (case old of None \<Rightarrow> v | Some r \<Rightarrow> upserted_row v r)"

definition installations_ok :: "inventory \<Rightarrow> bool" where
  "installations_ok iv \<longleftrightarrow>
     distinct (map ai_id (iv_installations iv)) \<and> distinct (map installation_key (iv_installations iv))"

lemma upserted_row_key [simp]:
  "installation_key (upserted_row v r) = installation_key r"
  "ai_id (upserted_row v r) = ai_id r"
  by (simp_all add: upserted_row_def installation_key_def)

lemma map_upsert_keys:
  "map installation_key (map (\<lambda>r. if installation_key r = k then upserted_row v r else r) rows)
     = map installation_key rows"
  "map ai_id (map (\<lambda>r. if installation_key r = k then upserted_row v r else r) rows) = map ai_id rows"
  by (induction rows) simp_all

lemma first_match_upsert:
  "first_match (\<lambda>r. installation_key r = k') (map (\<lambda>r. if installation_key r = k then upserted_row v r else r) rows)
     = map_option (\<lambda>r. if k' = k then upserted_row v r else r)
         (first_match (\<lambda>r. installation_key r = k') rows)"
  by (induction rows) auto

lemma first_match_snoc:
  "first_match p (xs @ [x]) = (case first_match p xs of None \<Rightarrow> if p x then Some x else None | Some y \<Rightarrow> Some y)"
  by (simp add: first_match_append split: option.splits)

lemma try_upsert_cases:
  assumes "try_upsert iv v = Some iv'"
  shows "(installation_of iv (installation_key v) = None \<and> ai_id v \<notin> set (map ai_id (iv_installations iv))
          \<and> iv' = iv\<lparr>iv_installations := iv_installations iv @ [v]\<rparr>)
    \<or> (installation_of iv (installation_key v) \<noteq> None
       \<and> iv' = iv\<lparr>iv_installations :=
            map (\<lambda>r. if installation_key r = installation_key v then upserted_row v r else r)
              (iv_installations iv)\<rparr>)"
  using assms
  by (auto simp: try_upsert_def upsert_installation_def installation_of_def first_match_None
      split: if_splits)

interpretation accepted: keyed_store installation_of try_upsert installation_key upserted
  installations_ok "\<lambda>v. True"
proof
  fix iv v iv' k
  assume ok: "installations_ok iv" and up: "try_upsert iv v = Some iv'"
  note cases = try_upsert_cases [OF up]
  show "installation_of iv' k
      = (if k = installation_key v then Some (upserted (installation_of iv k) v) else installation_of iv k)"
    using cases
    by (auto simp: installation_of_def first_match_snoc first_match_upsert upserted_def option.map_ident
        split: option.splits)
  have "installation_key v \<notin> installation_key ` set (iv_installations iv)"
    if "installation_of iv (installation_key v) = None"
    using that by (auto simp: installation_of_def first_match_None)
  moreover have "iv_installations (iv\<lparr>iv_installations := rows\<rparr>) = rows" for rows by simp
  ultimately show "installations_ok iv'"
    using cases ok unfolding installations_ok_def
    by (elim disjE) (simp_all only: map_upsert_keys map_append distinct_append conj_assoc, auto)
qed

subsection \<open>Instances\<close>

definition native_key :: "instance_row \<Rightarrow> string \<times> string" where
  "native_key r = (in_installation r, in_native r)"

definition instances_ok :: "inventory \<Rightarrow> bool" where
  "instances_ok iv \<longleftrightarrow>
     distinct (map in_id (iv_instances iv)) \<and> distinct (map native_key (iv_instances iv))"

lemma instance_update_keys [simp]:
  "in_id (seen_again now e r) = in_id r" "in_id (gone_missing now r) = in_id r"
  "in_installation (seen_again now e r) = in_installation r"
  "in_installation (gone_missing now r) = in_installation r"
  "in_native (seen_again now e r) = in_native r" "in_native (gone_missing now r) = in_native r"
  by (simp_all add: seen_again_def gone_missing_def)

lemma insert_instance_Inr:
  "insert_instance iv r = Inr iv' \<longleftrightarrow>
     in_id r \<notin> in_id ` set (iv_instances iv) \<and> native_key r \<notin> native_key ` set (iv_instances iv)
     \<and> in_installation r \<in> ai_id ` set (iv_installations iv)
     \<and> iv' = iv\<lparr>iv_instances := iv_instances iv @ [r]\<rparr>"
  unfolding insert_instance_def native_key_def
  by (cases "in_installation r \<in> ai_id ` set (iv_installations iv)")
    (simp_all add: image_iff eq_commute [of "in_id r"] eq_commute [of "in_installation r"]
      eq_commute [of "in_native r"] eq_commute [of iv'] Ball_def Bex_def, blast+)

text \<open>What the entries handled so far have made of a row that existed before.\<close>

definition touched :: "string \<Rightarrow> time \<Rightarrow> snapshot_entry list \<Rightarrow> instance_row \<Rightarrow> instance_row" where
  "touched installation now es r =
     (if in_installation r \<noteq> installation then r
      else case first_match (\<lambda>e. se_native e = in_native r) es of
             None \<Rightarrow> r | Some e \<Rightarrow> seen_again now e r)"

definition reconciled :: "string \<Rightarrow> time \<Rightarrow> snapshot_entry list \<Rightarrow> instance_row \<Rightarrow> instance_row" where
  "reconciled installation now es r =
     (if in_installation r \<noteq> installation then r
      else case first_match (\<lambda>e. se_native e = in_native r) es of
             None \<Rightarrow> gone_missing now r | Some e \<Rightarrow> seen_again now e r)"

definition newly_seen :: "inventory \<Rightarrow> string \<Rightarrow> snapshot_entry list \<Rightarrow> snapshot_entry list" where
  "newly_seen iv installation es =
     filter (\<lambda>e. \<not> (\<exists>r \<in> set (instances_of iv installation). in_native r = se_native e)) es"

lemma touched_keys [simp]:
  "in_id (touched inst now es r) = in_id r" "native_key (touched inst now es r) = native_key r"
  by (auto simp: touched_def native_key_def split: option.splits)

lemma reconciled_keys [simp]:
  "in_id (reconciled inst now es r) = in_id r" "native_key (reconciled inst now es r) = native_key r"
  by (auto simp: reconciled_def native_key_def split: option.splits)

lemma touched_snoc_other:
  "native_key r \<noteq> (inst, se_native e) \<Longrightarrow> touched inst now (es @ [e]) r = touched inst now es r"
  by (auto simp: touched_def native_key_def first_match_snoc split: option.splits)

lemma touched_snoc_same:
  "native_key r = (inst, se_native e) \<Longrightarrow> se_native e \<notin> se_native ` set es
   \<Longrightarrow> touched inst now (es @ [e]) r = seen_again now e (touched inst now es r)"
proof -
  assume key: "native_key r = (inst, se_native e)" and new: "se_native e \<notin> se_native ` set es"
  from new have "first_match (\<lambda>x. se_native x = se_native e) es = None"
    by (auto simp: first_match_None image_iff)
  with key show ?thesis by (simp add: touched_def native_key_def first_match_snoc)
qed

text \<open>The table while a snapshot runs: the old rows as touched so far, then the new rows.\<close>

definition snapshot_state ::
  "string \<Rightarrow> time \<Rightarrow> inventory \<Rightarrow> snapshot_entry list \<Rightarrow> instance_row list \<Rightarrow> inventory" where
  "snapshot_state inst now iv es news =
     iv\<lparr>iv_instances := map (touched inst now es) (iv_instances iv) @ news\<rparr>"

definition fresh_rows :: "string \<Rightarrow> time \<Rightarrow> string list \<Rightarrow> snapshot_entry list \<Rightarrow> instance_row list" where
  "fresh_rows inst now ids es = map (\<lambda>(i, e). new_instance i inst now e) (zip ids es)"

lemma key_rows_unique:
  assumes "instances_ok iv" and "r \<in> set (iv_instances iv)" "q \<in> set (iv_instances iv)"
  shows "in_id r = in_id q \<longleftrightarrow> r = q" and "native_key r = native_key q \<longleftrightarrow> r = q"
  using assms by (auto simp: instances_ok_def distinct_map inj_on_def)

lemma update_touched:
  assumes ok: "instances_ok iv" and row: "row \<in> set (instances_of iv inst)" "in_native row = se_native e"
    and new: "se_native e \<notin> se_native ` set es" and free: "in_id row \<notin> in_id ` set news"
  shows "update_instance (in_id row) (seen_again now e) (snapshot_state inst now iv es news)
    = snapshot_state inst now iv (es @ [e]) news"
proof -
  have row': "row \<in> set (iv_instances iv)" "native_key row = (inst, se_native e)"
    using row by (auto simp: instances_of_def native_key_def)
  let ?f = "\<lambda>r. if in_id r = in_id row then seen_again now e r else r"
  have "?f (touched inst now es r) = touched inst now (es @ [e]) r" if "r \<in> set (iv_instances iv)" for r
    using key_rows_unique [OF ok that row'(1)] row'(2) new touched_snoc_same touched_snoc_other
    by (metis touched_keys(1))
  then have "map (?f \<circ> touched inst now es) (iv_instances iv) = map (touched inst now (es @ [e])) (iv_instances iv)"
    by simp
  moreover have "map ?f news = news" using free by (intro map_idI) (metis imageI)
  ultimately show ?thesis
    by (simp add: update_instance_def snapshot_state_def)
qed

lemma insert_touched:
  assumes "insert_instance (snapshot_state inst now iv es news) (new_instance i inst now e) = Inr iv'"
  shows "iv' = snapshot_state inst now iv (es @ [e]) (news @ [new_instance i inst now e])"
    and "i \<notin> in_id ` set (iv_instances iv @ news)"
    and "(inst, se_native e) \<notin> native_key ` set (iv_instances iv @ news)"
proof -
  have key: "native_key (new_instance i inst now e) = (inst, se_native e)" "in_id (new_instance i inst now e) = i"
    by (simp_all add: new_instance_def native_key_def)
  from assms show ids: "i \<notin> in_id ` set (iv_instances iv @ news)"
    and keys: "(inst, se_native e) \<notin> native_key ` set (iv_instances iv @ news)"
    by (simp_all add: insert_instance_Inr snapshot_state_def key image_Un image_image)
  from keys have "touched inst now es r = touched inst now (es @ [e]) r" if "r \<in> set (iv_instances iv)" for r
    using that touched_snoc_other [of r inst e] by force
  with assms show "iv' = snapshot_state inst now iv (es @ [e]) (news @ [new_instance i inst now e])"
    by (auto simp: insert_instance_Inr snapshot_state_def)
qed

lemma existing_row:
  "first_match (\<lambda>r. in_native r = n) (instances_of iv inst) = Some row
   \<Longrightarrow> row \<in> set (instances_of iv inst) \<and> in_native row = n"
  by (rule first_match_Some)

lemma snapshot_entries_effect:
  assumes "instances_ok iv"
  shows "snapshot_entries inst now (instances_of iv inst) rnd seen (snapshot_state inst now iv done news) es = Inr iv'
    \<Longrightarrow> set seen = se_native ` set done
    \<Longrightarrow> distinct (map in_id (iv_instances iv @ news)) \<Longrightarrow> distinct (map native_key (iv_instances iv @ news))
    \<Longrightarrow> \<exists>ids. iv' = snapshot_state inst now iv (done @ es) (news @ fresh_rows inst now ids (newly_seen iv inst es))
        \<and> length ids = length (newly_seen iv inst es)
        \<and> distinct (map in_id (iv_instances iv @ news) @ ids)
        \<and> distinct (map native_key (iv_instances iv @ news @ fresh_rows inst now ids (newly_seen iv inst es)))
        \<and> [] \<notin> se_native ` set es \<and> distinct (map se_native es) \<and> se_native ` set es \<inter> set seen = {}"
proof (induction es arbitrary: rnd seen "done" news)
  case Nil
  then show ?case by (intro exI [of _ "[]"]) (simp add: newly_seen_def fresh_rows_def)
next
  case (Cons e es)
  let ?ex = "first_match (\<lambda>r. in_native r = se_native e) (instances_of iv inst)"
  from Cons.prems(1,2) have e: "se_native e \<noteq> []" "se_native e \<notin> set seen" "se_native e \<notin> se_native ` set done"
    by (auto split: if_splits)
  show ?case
  proof (cases ?ex)
    case (Some row)
    note row = existing_row [OF Some]
    have "in_id row \<notin> in_id ` set news" using row Cons.prems(3) by (auto simp: instances_of_def)
    note upd = update_touched [OF assms conjunct1 [OF row] conjunct2 [OF row] e(3) this]
    have skip: "newly_seen iv inst (e # es) = newly_seen iv inst es"
      using row by (auto simp: newly_seen_def)
    from Cons.prems(1) e Some upd
    have run: "snapshot_entries inst now (instances_of iv inst) rnd (se_native e # seen)
        (snapshot_state inst now iv (done @ [e]) news) es = Inr iv'" by simp
    have "set (se_native e # seen) = se_native ` set (done @ [e])" using Cons.prems(2) by auto
    from Cons.IH [OF run this Cons.prems(3,4)] e(1,2) show ?thesis
      unfolding skip by (auto simp: image_iff)
  next
    case None
    have add: "newly_seen iv inst (e # es) = e # newly_seen iv inst es"
      using None by (auto simp: newly_seen_def first_match_None)
    from Cons.prems(1) e None obtain x rnd' i iv1 where
      ins: "insert_instance (snapshot_state inst now iv done news) (new_instance i inst now e) = Inr iv1"
      and run: "snapshot_entries inst now (instances_of iv inst) rnd' (se_native e # seen) iv1 es = Inr iv'"
      by (auto split: list.splits option.splits sum.splits)
    note new = insert_touched [OF ins]
    let ?n = "new_instance i inst now e"
    have key: "native_key ?n = (inst, se_native e)" "in_id ?n = i"
      by (simp_all add: new_instance_def native_key_def)
    have seen: "set (se_native e # seen) = se_native ` set (done @ [e])" using Cons.prems(2) by auto
    have ids: "distinct (map in_id (iv_instances iv @ news @ [?n]))"
      and keys: "distinct (map native_key (iv_instances iv @ news @ [?n]))"
      using Cons.prems(3,4) new(2,3) by (auto simp: key)
    from Cons.IH [OF run [unfolded new(1)] seen ids keys] obtain ids where ids:
      "iv' = snapshot_state inst now iv ((done @ [e]) @ es) ((news @ [?n]) @ fresh_rows inst now ids (newly_seen iv inst es))"
      "length ids = length (newly_seen iv inst es)"
      "distinct (map in_id (iv_instances iv @ news @ [?n]) @ ids)"
      "distinct (map native_key (iv_instances iv @ (news @ [?n]) @ fresh_rows inst now ids (newly_seen iv inst es)))"
      "[] \<notin> se_native ` set es" "distinct (map se_native es)" "se_native ` set es \<inter> set (se_native e # seen) = {}"
      by blast
    then show ?thesis
      unfolding add using e by (intro exI [of _ "i # ids"]) (auto simp: fresh_rows_def key)
  qed
qed

lemma mark_missing_rows:
  "iv_instances (mark_missing now seen iv rows) =
     map (\<lambda>r. if \<exists>q \<in> set rows. in_native q \<notin> set seen \<and> in_id q = in_id r then gone_missing now r else r)
       (iv_instances iv)
   \<and> iv_installations (mark_missing now seen iv rows) = iv_installations iv
   \<and> iv_nodes (mark_missing now seen iv rows) = iv_nodes iv"
proof (induction rows arbitrary: iv)
  case (Cons q rows)
  have twice: "gone_missing now (gone_missing now r) = gone_missing now r" for r
    by (simp add: gone_missing_def)
  show ?case
    unfolding mark_missing.simps using Cons by (auto simp: update_instance_def twice)
qed simp

lemma snapshot_start: "snapshot_state inst now iv [] [] = iv"
  by (simp add: snapshot_state_def touched_def map_idI)

lemma fresh_rows_native:
  "length ids = length es \<Longrightarrow> r \<in> set (fresh_rows inst now ids es) \<Longrightarrow>
     \<exists>e \<in> set es. native_key r = (inst, se_native e) \<and> in_availability r = Available"
  by (auto simp: fresh_rows_def new_instance_def native_key_def dest: set_zip_rightD)

lemma fresh_rows_ids: "length ids = length es \<Longrightarrow> map in_id (fresh_rows inst now ids es) = ids"
  by (induction ids es rule: list_induct2) (simp_all add: fresh_rows_def new_instance_def)

lemma snapshot_effect:
  assumes "instances_ok iv" and "ApplyInstanceSnapshot iv rnd inst present now = Inr iv'"
  shows "instances_ok iv' \<and> iv_installations iv' = iv_installations iv
    \<and> [] \<notin> se_native ` set present \<and> distinct (map se_native present)
    \<and> (\<exists>ids. length ids = length (newly_seen iv inst present)
        \<and> iv_instances iv' = map (reconciled inst now present) (iv_instances iv)
            @ fresh_rows inst now ids (newly_seen iv inst present))"
proof -
  from assms(2) obtain iv1 where run:
      "snapshot_entries inst now (instances_of iv inst) rnd [] (snapshot_state inst now iv [] []) present = Inr iv1"
    and iv': "iv' = mark_missing now (map se_native present) iv1 (instances_of iv inst)"
    by (auto simp: ApplyInstanceSnapshot_def snapshot_start Let_def split: sum.splits)
  have d: "distinct (map in_id (iv_instances iv @ []))" "distinct (map native_key (iv_instances iv @ []))"
    using assms(1) by (simp_all add: instances_ok_def)
  let ?new = "newly_seen iv inst present"
  from snapshot_entries_effect [OF assms(1) run _ d] obtain ids where
    iv1: "iv1 = snapshot_state inst now iv present (fresh_rows inst now ids ?new)"
    and len: "length ids = length ?new"
    and ids: "distinct (map in_id (iv_instances iv) @ ids)"
    and keys: "distinct (map native_key (iv_instances iv @ fresh_rows inst now ids ?new))"
    and names: "[] \<notin> se_native ` set present" "distinct (map se_native present)"
    by auto
  let ?gone = "\<lambda>r. \<exists>q \<in> set (instances_of iv inst). in_native q \<notin> set (map se_native present) \<and> in_id q = in_id r"
  have old: "(if ?gone r then gone_missing now (touched inst now present r) else touched inst now present r)
      = reconciled inst now present r" if "r \<in> set (iv_instances iv)" for r
  proof -
    have "?gone r \<longleftrightarrow> in_installation r = inst \<and> in_native r \<notin> se_native ` set present"
      using that key_rows_unique [OF assms(1)] by (auto simp: instances_of_def)
    moreover have "in_native r \<notin> se_native ` set present
        \<longleftrightarrow> first_match (\<lambda>e. se_native e = in_native r) present = None"
      by (auto simp: first_match_None image_iff)
    ultimately show ?thesis by (auto simp: touched_def reconciled_def split: option.splits)
  qed
  have new: "\<not> ?gone r" if "r \<in> set (fresh_rows inst now ids ?new)" for r
  proof -
    have "in_id r \<in> set ids" using that fresh_rows_ids [OF len] by (metis image_eqI set_map)
    with ids show ?thesis by (auto simp: instances_of_def)
  qed
  have rows: "iv_instances iv' = map (reconciled inst now present) (iv_instances iv) @ fresh_rows inst now ids ?new"
  proof -
    let ?f = "\<lambda>r. if ?gone r then gone_missing now r else r"
    have "map (?f \<circ> touched inst now present) (iv_instances iv) = map (reconciled inst now present) (iv_instances iv)"
      using old by simp
    moreover have "map ?f (fresh_rows inst now ids ?new) = fresh_rows inst now ids ?new"
      using new by (intro map_idI) (metis (lifting))
    moreover have "iv_instances (iv\<lparr>iv_instances := rows\<rparr>) = rows" for rows by simp
    ultimately show ?thesis
      by (simp only: iv' mark_missing_rows iv1 snapshot_state_def map_append map_map)
  qed
  have "in_id \<circ> reconciled inst now present = in_id"
    "native_key \<circ> reconciled inst now present = native_key"
    by (simp_all add: fun_eq_iff)
  then have "instances_ok iv'"
    using ids keys by (simp add: instances_ok_def rows fresh_rows_ids [OF len])
  then show ?thesis
    using names len rows by (auto simp: iv' mark_missing_rows iv1 snapshot_state_def)
qed

text \<open>
  C29. Applying a snapshot reconciles the table with what the Runtime reports, exactly: rows of
  other installations are untouched; a row of this installation keeps its identifier, native
  identity and creation time and becomes AVAILABLE with the reported flags when it is reported,
  MISSING when it is not; each reported identity without a row gets exactly one new row with a
  fresh identifier; identifiers and native identities stay unique; and the snapshot had neither an
  empty nor a repeated identity.
\<close>

theorem snapshot_reconciles_instances:
  assumes "instances_ok iv" and "ApplyInstanceSnapshot iv rnd inst present now = Inr iv'"
  shows "instances_ok iv' \<and> iv_installations iv' = iv_installations iv
    \<and> [] \<notin> se_native ` set present \<and> distinct (map se_native present)
    \<and> (\<exists>ids. length ids = length (newly_seen iv inst present)
        \<and> iv_instances iv' = map (reconciled inst now present) (iv_instances iv)
            @ fresh_rows inst now ids (newly_seen iv inst present))"
  using assms by (rule snapshot_effect)

definition sample_inventory :: inventory where
  "sample_inventory =
     (let r = new_instance ''inst_a'' ''rt'' 1 \<lparr>se_native = ''default'', se_default = True\<rparr>;
          q = new_instance ''inst_b'' ''rt'' 1 \<lparr>se_native = ''old'', se_default = False\<rparr>
      in \<lparr>iv_nodes = [''n''],
          iv_installations = [\<lparr>ai_id = ''rt'', ai_node_id = ''n'', ai_kind = ''hermes'', ai_path = ''p'',
            ai_version = ''1'', ai_support = DiscoverySupported, ai_status = ''ACCEPTED'',
            ai_detected_at = 1, ai_created_at = 1, ai_updated_at = 1\<rparr>],
          iv_instances = [r, q]\<rparr>)"

theorem snapshot_reconciles_instances_witness:
  "\<exists>iv'. ApplyInstanceSnapshot sample_inventory [Some (replicate 18 0)] ''rt''
       [\<lparr>se_native = ''default'', se_default = True\<rparr>, \<lparr>se_native = ''new'', se_default = False\<rparr>] 5 = Inr iv'
     \<and> instances_ok iv' \<and> map in_availability (iv_instances iv') = [Available, Missing, Available]"
proof -
  let ?es = "[\<lparr>se_native = ''default'', se_default = True\<rparr>, \<lparr>se_native = ''new'', se_default = False\<rparr>]"
  let ?run = "ApplyInstanceSnapshot sample_inventory [Some (replicate 18 0)] ''rt'' ?es 5"
  have "case ?run of Inl _ \<Rightarrow> False
      | Inr iv' \<Rightarrow> map in_availability (iv_instances iv') = [Available, Missing, Available]"
    by code_simp
  then obtain iv' where run: "?run = Inr iv'"
    and av: "map in_availability (iv_instances iv') = [Available, Missing, Available]"
    by (auto split: sum.splits)
  have "instances_ok sample_inventory" by code_simp
  from snapshot_reconciles_instances [OF this run, THEN conjunct1] run av show ?thesis
    by (intro exI [of _ iv'] conjI)
qed

text \<open>
  Deleting a record only ever removes a tombstone: the one row with that identifier, and only
  when it is MISSING and neither the default nor a protected instance. The answer says whether it
  did, every other row survives in order, and the table stays well formed.
\<close>

theorem only_tombstones_are_deleted:
  assumes "instances_ok iv" and "DeleteMissingInstanceRecord iv i = (iv', deleted)"
  shows "instances_ok iv'
    \<and> (deleted \<longleftrightarrow> (\<exists>r \<in> set (iv_instances iv). in_id r = i \<and> in_availability r = Missing
           \<and> \<not> in_default r \<and> \<not> in_protected r))
    \<and> (\<not> deleted \<longrightarrow> iv' = iv)
    \<and> (deleted \<longrightarrow> iv_instances iv' = filter (\<lambda>r. in_id r \<noteq> i) (iv_instances iv)
         \<and> length (iv_instances iv) = Suc (length (iv_instances iv')))"
proof -
  let ?p = "removable_tombstone i"
  have at_most: "length (filter ?p (iv_instances iv)) \<le> 1"
  proof -
    have "\<forall>a \<in> set (filter ?p (iv_instances iv)). in_id a = i" by (simp add: removable_tombstone_def)
    moreover have "distinct (map in_id (filter ?p (iv_instances iv)))"
      using assms(1) by (simp add: instances_ok_def distinct_map_filter)
    ultimately show ?thesis
      by (cases "filter ?p (iv_instances iv)" rule: remdups_adj.cases) auto
  qed
  have iv': "iv' = iv\<lparr>iv_instances := filter (\<lambda>r. \<not> ?p r) (iv_instances iv)\<rparr>"
    and del: "deleted \<longleftrightarrow> length (filter ?p (iv_instances iv)) = 1"
    using assms(2) by (auto simp: DeleteMissingInstanceRecord_def)
  have ex: "deleted \<longleftrightarrow> (\<exists>r \<in> set (iv_instances iv). ?p r)"
    using at_most filter_empty_conv [of ?p "iv_instances iv"] unfolding del
    by (cases "filter ?p (iv_instances iv)") auto
  have "instances_ok iv'"
    using assms(1) by (simp add: iv' instances_ok_def distinct_map_filter)
  moreover have "iv' = iv" if "\<not> deleted"
    using that ex by (simp add: iv' filter_id_conv)
  moreover have "iv_instances iv' = filter (\<lambda>r. in_id r \<noteq> i) (iv_instances iv)" if "deleted"
  proof -
    from that ex obtain r where r: "r \<in> set (iv_instances iv)" "?p r" by blast
    have "\<not> ?p q \<longleftrightarrow> in_id q \<noteq> i" if "q \<in> set (iv_instances iv)" for q
      using key_rows_unique(1) [OF assms(1) r(1) that] r(2) by (auto simp: removable_tombstone_def)
    then show ?thesis by (simp add: iv' cong: filter_cong)
  qed
  moreover have "length (iv_instances iv) = Suc (length (iv_instances iv'))" if "deleted"
    using that sum_length_filter_compl [of ?p "iv_instances iv"] by (simp add: del iv')
  ultimately show ?thesis using ex by (auto simp: removable_tombstone_def)
qed

theorem only_tombstones_are_deleted_witness:
  "let iv = sample_inventory\<lparr>iv_instances := map (gone_missing 3) (iv_instances sample_inventory)\<rparr>
   in snd (DeleteMissingInstanceRecord iv ''inst_b'') \<and> \<not> snd (DeleteMissingInstanceRecord iv ''inst_a'')"
proof -
  let ?iv = "sample_inventory\<lparr>iv_instances := map (gone_missing 3) (iv_instances sample_inventory)\<rparr>"
  have ok: "instances_ok ?iv" by code_simp
  have "\<exists>r \<in> set (iv_instances ?iv). in_id r = ''inst_b'' \<and> in_availability r = Missing
      \<and> \<not> in_default r \<and> \<not> in_protected r" by code_simp
  moreover have "\<not> (\<exists>r \<in> set (iv_instances ?iv). in_id r = ''inst_a'' \<and> in_availability r = Missing
      \<and> \<not> in_default r \<and> \<not> in_protected r)" by code_simp
  ultimately show ?thesis
    using only_tombstones_are_deleted [OF ok surjective_pairing] unfolding Let_def by blast
qed

text \<open>
  Completing an install is atomic: on an error neither table changes (no tables are returned);
  on success the operation's row went from the status the worker held to its final one by a
  permitted change, only that row changed, and the installation of that node, kind and path is
  recorded with the version, support state and status given. An existing record keeps its
  identifier and creation time, so instances that refer to it stay attached.
\<close>

theorem install_completion_is_atomic:
  assumes "table_inv (db_operations db)" and "installations_ok iv"
    and "op_id c = op_id n" and "op_progress n = None"
    and "CompleteInstallSuccess db iv c n v = Inr (db', iv')"
  shows "table_inv (db_operations db') \<and> installations_ok iv'
    \<and> (\<exists>r. row_of db (op_id n) = Some r \<and> op_status r = op_status c
        \<and> ValidStatusChange (op_status r) (op_status n) \<and> row_of db' (op_id n) = Some (updated_row n r))
    \<and> (\<forall>i. i \<noteq> op_id n \<longrightarrow> row_of db' i = row_of db i)
    \<and> installation_of iv' (installation_key v) = Some (upserted (installation_of iv (installation_key v)) v)
    \<and> (\<forall>k. k \<noteq> installation_key v \<longrightarrow> installation_of iv' k = installation_of iv k)"
proof -
  from assms(5) have uf: "update_failure (db_operations db) c n = None"
    and len: "length (filter (update_matches c n) (db_operations db)) = 1"
    and st: "op_status c \<noteq> op_status n \<longrightarrow> ValidStatusChange (op_status c) (op_status n)"
    and db': "db' = db\<lparr>db_operations :=
      map (\<lambda>r. if update_matches c n r then updated_row n r else r) (db_operations db)\<rparr>"
    and up: "upsert_installation iv v = Inr iv'"
    by (auto simp: CompleteInstallSuccess_def split: if_splits option.splits sum.splits)
  have change: "op_status c = op_status n \<or> ValidStatusChange (op_status c) (op_status n)"
    using st by blast
  then have "UpdateOperation msg db c n = Inr db'" for msg
    unfolding UpdateOperation_def using assms(3,4) uf len db' by auto
  note update = this
  have "try_update (\<lambda>_. []) db (c, n) = Some db'" by (simp add: try_update_def update)
  note op = op_rows.load_save [OF assms(1) TrueI this]
  from UpdateOperation_Inr [OF update assms(1)] obtain xs r ys where
    eq: "db_operations db = xs @ r # ys" "op_id r = op_id n" "op_status r = op_status c"
      "ValidStatusChange (op_status r) (op_status n)" by metis
  have d: "distinct (map op_id (xs @ r # ys))" using assms(1) by (simp add: table_inv_def eq)
  have row: "row_of db (op_id n) = Some r" using row_of_split [OF d eq(1)] eq(2) by simp
  have "try_upsert iv v = Some iv'" by (simp add: try_upsert_def up)
  note ins = accepted.load_save [OF assms(2) TrueI this] accepted.save_inv [OF assms(2) TrueI this]
  have "row_of db' (op_id n) = Some (updated_row n r)" using op row by (simp add: rewritten_def)
  moreover have "\<forall>i. i \<noteq> op_id n \<longrightarrow> row_of db' i = row_of db i" using op by simp
  ultimately show ?thesis
    using ins row eq(3,4) update_keeps_table [OF assms(1) update] by auto
qed

definition sample_installation :: accepted_installation where
  "sample_installation =
     \<lparr>ai_id = ''rt2'', ai_node_id = ''n'', ai_kind = ''hermes'', ai_path = ''p'', ai_version = ''2'',
      ai_support = DiscoverySupported, ai_status = ''accepted'', ai_detected_at = 7, ai_created_at = 7,
      ai_updated_at = 7\<rparr>"

theorem install_completion_is_atomic_witness:
  "let a = (sample_operation ''a'' TypeRuntimeInstall TargetRuntimeKind 1)\<lparr>op_status := StatusRunning\<rparr>;
       n = a\<lparr>op_status := StatusSucceeded, op_completed_at := Some 7\<rparr>;
       db = \<lparr>db_operations = [a], db_instances = []\<rparr>
   in \<exists>db' iv'. CompleteInstallSuccess db sample_inventory a n sample_installation = Inr (db', iv')
      \<and> row_of db' ''a'' = Some n
      \<and> installation_of iv' (''n'', ''hermes'', ''p'')
          = Some (upserted_row sample_installation (hd (iv_installations sample_inventory)))"
proof -
  let ?a = "(sample_operation ''a'' TypeRuntimeInstall TargetRuntimeKind 1)\<lparr>op_status := StatusRunning\<rparr>"
  let ?n = "?a\<lparr>op_status := StatusSucceeded, op_completed_at := Some 7\<rparr>"
  let ?db = "\<lparr>db_operations = [?a], db_instances = []\<rparr>"
  have inv: "table_inv (db_operations ?db)"
    by (simp add: table_inv_def one_active_def check_row_def active_def sample_operation_def)
  have ok: "installations_ok sample_inventory" by code_simp
  have "update_failure [?a] ?a ?n = None" "filter (update_matches ?a ?n) [?a] = [?a]"
    by (simp_all add: update_failure_def update_matches_def sample_operation_def updated_row_def
        constraint_failure_None check_row_def active_def index_violated_def)
  moreover obtain iv' where "upsert_installation sample_inventory sample_installation = Inr iv'"
    by (simp add: upsert_installation_def sample_inventory_def sample_installation_def installation_key_def Let_def)
  ultimately obtain db' where run: "CompleteInstallSuccess ?db sample_inventory ?a ?n sample_installation = Inr (db', iv')"
    by (simp add: CompleteInstallSuccess_def ValidStatusChange_def ValidTransition_def)
  have "op_id ?a = op_id ?n" "op_progress ?n = None" by (simp_all add: sample_operation_def)
  note atomic = install_completion_is_atomic [OF inv ok this run]
  have key: "installation_key sample_installation = (''n'', ''hermes'', ''p'')"
    by (simp add: sample_installation_def installation_key_def)
  have old: "installation_of sample_inventory (''n'', ''hermes'', ''p'') = Some (hd (iv_installations sample_inventory))"
    by (simp add: installation_of_def sample_inventory_def installation_key_def Let_def)
  have "row_of ?db ''a'' = Some ?a" by (simp add: row_of_def sample_operation_def)
  moreover have "updated_row ?n ?a = ?n" by (simp add: updated_row_def sample_operation_def)
  moreover have "op_id ?n = ''a''" by (simp add: sample_operation_def)
  ultimately have "row_of db' ''a'' = Some ?n" using atomic by auto
  moreover have "installation_of iv' (''n'', ''hermes'', ''p'')
      = Some (upserted_row sample_installation (hd (iv_installations sample_inventory)))"
    using atomic by (simp add: key old upserted_def)
  ultimately show ?thesis using run unfolding Let_def by blast
qed

end
