(* ===== verification/Install_Service.thy ===== *)
theory Install_Service
  imports Recovery_Run Event_Broker Operation_Text Inventory_DB
begin

text \<open>
  The install service (app/runtime\_install.go, runtime\_install\_run.go,
  runtime\_install\_events.go, hermes\_prerequisites.go): starting, reading, cancelling and
  interrupting install operations, the worker that carries one out, and the projection by which
  the install transaction on disk, not the operation row, decides the outcome.

  The service's fields that never change while it runs are a configuration record; the tables,
  the file tree, the gate, the broker and the running workers are its state. The clock is read
  once per handler call and does not advance within it. Random identifiers, the
  operating-system lock, the host applier and Runtime discovery are parameters: what the calls
  return.
\<close>

subsection \<open>Configuration, state and errors\<close>

record applier =
  ap_platform_supported :: bool
  ap_expected_pin :: string
  ap_expected_version :: string
  ap_launcher :: string
  ap_managed :: "string \<Rightarrow> bool"

record service_config =
  sc_store :: "store option" \<comment> \<open>\<open>None\<close> for an empty managed root\<close>
  sc_applier :: "applier option"
  sc_prereq :: bool
  sc_completer :: bool
  sc_node_id :: string
  sc_windows :: bool
  sc_allow_non_windows :: bool
  sc_fail_after_txn :: bool
  sc_fail_stage_projection :: bool
  sc_fail_after_committed :: bool
  sc_clean :: "string \<Rightarrow> string" \<comment> \<open>\<open>filepath.Clean\<close> in the host's path convention\<close>
  sc_abs :: "string \<Rightarrow> string option" \<comment> \<open>\<open>filepath.Abs\<close>, which asks for the working directory\<close>
  sc_message :: "sql_failure \<Rightarrow> string"

record service_state =
  ss_db :: database
  ss_inventory :: inventory
  ss_fs :: fs
  ss_gate :: "gate option"
  ss_events :: "broker option"
  ss_workers :: "(string \<times> bool) list" \<comment> \<open>running workers, with their cancel flag\<close>

datatype service_error =
    Rejected error_code bool string \<comment> \<open>\<open>InstallRejection\<close>: code, retryable, active operation\<close>
  | ErrInvalidIdempotencyKey
  | ErrRuntimeKindNotFound
  | ErrContextCanceled
  | ErrContextDeadline
  | ErrDiscoveryFailed
  | ErrIDGeneration
  | ErrInjectedCreated
  | ErrInjectedProjection
  | ErrDatabase db_error
  | ErrInstall install_error

text \<open>An error of the host: its message, the code it carries, and what \<open>errors.Is\<close> says of it.\<close>

record host_error =
  he_message :: string
  he_code :: "error_code option"
  he_deadline :: bool
  he_canceled :: bool

record start_inputs =
  si_now :: time
  si_rnd_id :: "nat list option"
  si_rnd_correlation :: "nat list option"
  si_rnd_txn :: "nat list option"
  si_rnd_gen :: "nat list option"
  si_lock :: "install_error option"
  si_detect :: "service_error + discovery"

subsection \<open>Persisting and emitting (runtime\_install\_events.go)\<close>

definition operation_payload_of :: "operation \<Rightarrow> operation_payload" where
  "operation_payload_of nxt =
     \<lparr>py_operation_id = op_id nxt, py_type = op_type_text (op_kind nxt),
      py_status = status_text (op_status nxt), py_stage = stage_text (op_stage nxt),
      py_error_code = op_error_code nxt, py_correlation_id = op_correlation_id nxt\<rparr>"

text \<open>\<open>previous\<close> is the status text of the row before, empty for a zero operation.\<close>

definition emitOperation ::
  "time \<Rightarrow> string \<Rightarrow> operation \<Rightarrow> bool \<Rightarrow> service_state \<Rightarrow> service_state" where
  "emitOperation now previous nxt created s =
     (let eventType = TypeForCommittedOperation created previous (status_text (op_status nxt)) in
      if eventType = [] then s
      else s\<lparr>ss_events := Publish now (ss_events s)
              (NewOperationEvent now eventType (operation_payload_of nxt) now)\<rparr>)"

definition persistCreate ::
  "service_config \<Rightarrow> time \<Rightarrow> service_state \<Rightarrow> operation \<Rightarrow> service_state \<times> db_error option" where
  "persistCreate c now s created =
     (case CreateOperation (sc_message c) (ss_db s) created of
        Inl e \<Rightarrow> (s, Some e)
      | Inr db \<Rightarrow> (emitOperation now [] created True (s\<lparr>ss_db := db\<rparr>), None))"

definition persistUpdate ::
  "service_config \<Rightarrow> time \<Rightarrow> service_state \<Rightarrow> operation \<Rightarrow> operation
     \<Rightarrow> service_state \<times> service_error option" where
  "persistUpdate c now s current nxt =
     (if sc_fail_stage_projection c \<and> op_status current = op_status nxt
      then (s, Some ErrInjectedProjection)
      else case UpdateOperation (sc_message c) (ss_db s) current nxt of
             Inl e \<Rightarrow> (s, Some (ErrDatabase e))
           | Inr db \<Rightarrow>
               (emitOperation now (status_text (op_status current)) nxt False (s\<lparr>ss_db := db\<rparr>), None))"

subsection \<open>The transaction behind an operation\<close>

definition StageFromTransaction :: "transaction \<Rightarrow> stage" where
  "StageFromTransaction t =
     (case tx_state t of
        StateCreated \<Rightarrow> StagePreflight
      | StateBuilding \<Rightarrow> StageSourceDownload
      | StateSealed \<Rightarrow> StageInstallBootstrapMarker
      | StatePublished \<Rightarrow> StageInstallPath
      | StateActivating \<Rightarrow> StageInstallPath
      | StateCommitted \<Rightarrow> StageCleanup
      | _ \<Rightarrow> StagePreflight)"

definition loadLinkedTransaction ::
  "service_config \<Rightarrow> service_state \<Rightarrow> operation \<Rightarrow> transaction option" where
  "loadLinkedTransaction c s v =
     (case sc_store c of
        None \<Rightarrow> None
      | Some st \<Rightarrow>
          if op_transaction_id v = [] then None
          else (case LoadTransaction st (ss_fs s) (op_transaction_id v) of
                  Inl _ \<Rightarrow> None | Inr t \<Rightarrow> Some t))"

definition filesystemOwnsOperation :: "service_config \<Rightarrow> service_state \<Rightarrow> operation \<Rightarrow> bool" where
  "filesystemOwnsOperation c s v =
     (case loadLinkedTransaction c s v of
        None \<Rightarrow> False
      | Some t \<Rightarrow> tx_state t = StateActivating \<or> tx_state t = StateCommitted)"

definition started_at_or :: "time \<Rightarrow> operation \<Rightarrow> operation" where
  "started_at_or now v = v\<lparr>op_started_at := stamp_once now (op_started_at v)\<rparr>"

text \<open>The COMMITTED branch. A PENDING row passes through RUNNING, which the database requires.\<close>

definition project_succeeded ::
  "service_config \<Rightarrow> time \<Rightarrow> service_state \<Rightarrow> operation \<Rightarrow> service_state \<times> operation" where
  "project_succeeded c now s v =
     (let nxt = started_at_or now
            (v\<lparr>op_status := StatusSucceeded, op_stage := StageCleanup, op_error_code := [],
               op_retryable := False, op_completed_at := Some now, op_updated_at := now\<rparr>)
      in (fst (persistUpdate c now s v nxt), nxt))"

definition project_committed ::
  "service_config \<Rightarrow> time \<Rightarrow> service_state \<Rightarrow> operation \<Rightarrow> service_state \<times> operation" where
  "project_committed c now s v =
     (if op_status v = StatusSucceeded \<and> op_stage v = StageCleanup then (s, v)
      else if op_status v = StatusPending
      then (let running = v\<lparr>op_stage := StageCleanup, op_status := StatusRunning,
                            op_started_at := Some now, op_updated_at := now\<rparr>
            in case persistUpdate c now s v running of
                 (s1, Some _) \<Rightarrow> (s1, running\<lparr>op_status := StatusSucceeded, op_completed_at := Some now\<rparr>)
               | (s1, None) \<Rightarrow> project_succeeded c now s1 running)
      else project_succeeded c now s v)"

definition projectOperation ::
  "service_config \<Rightarrow> time \<Rightarrow> service_state \<Rightarrow> operation \<Rightarrow> service_state \<times> operation" where
  "projectOperation c now s v =
     (case loadLinkedTransaction c s v of
        None \<Rightarrow> (s, v)
      | Some t \<Rightarrow>
     (let staged = v\<lparr>op_stage := StageFromTransaction t\<rparr> in
      if tx_state t = StateCommitted then project_committed c now s v
      else if tx_state t = StateActivating
      then (if op_status v = StatusRunning \<and> op_stage staged = op_stage v then (s, v)
            else let nxt = started_at_or now
                       (staged\<lparr>op_status := StatusRunning, op_error_code := [], op_retryable := False,
                               op_completed_at := None, op_updated_at := now\<rparr>)
                 in (fst (persistUpdate c now s v nxt), nxt))
      else if tx_state t = StateFailed \<and> \<not> IsTerminal (op_status v)
      then (let nxt = staged\<lparr>op_status := StatusFailed,
                             op_error_code := (if tx_error_code t \<noteq> [] then tx_error_code t
                                               else op_error_code staged),
                             op_retryable := True, op_completed_at := Some now, op_updated_at := now\<rparr>
            in (fst (persistUpdate c now s v nxt), nxt))
      else if op_stage staged \<noteq> op_stage v \<and> \<not> IsTerminal (op_status v)
      then (let nxt = staged\<lparr>op_updated_at := now\<rparr> in (fst (persistUpdate c now s v nxt), nxt))
      else (s, staged)))"

fun project_each :: "service_config \<Rightarrow> time \<Rightarrow> service_state \<Rightarrow> operation list \<Rightarrow> service_state" where
  "project_each c now s [] = s"
| "project_each c now s (v # vs) =
     project_each c now (if op_kind v = TypeRuntimeInstall then fst (projectOperation c now s v) else s) vs"

definition projectOpenInstalls :: "service_config \<Rightarrow> time \<Rightarrow> service_state \<Rightarrow> service_state" where
  "projectOpenInstalls c now s =
     (case ListOperations (ss_db s) (Some TargetRuntimeKind) [] 50 of
        Inl _ \<Rightarrow> s | Inr ops \<Rightarrow> project_each c now s ops)"

subsection \<open>The gate and the CREATED transaction\<close>

definition rejectInstallGate :: "service_config \<Rightarrow> service_state \<Rightarrow> service_state \<times> service_error option" where
  "rejectInstallGate c s =
     (if (case sc_store c of None \<Rightarrow> False | Some st \<Rightarrow> pointer_Invalid (ReadActive st (ss_fs s)))
      then (s\<lparr>ss_gate := gate_set GateBlockedUnsafe (ss_gate s)\<rparr>,
            Some (Rejected ErrorRuntimeInstallBlockedUnsafe False []))
      else case gate_get (ss_gate s) of
             GateReady \<Rightarrow> (s, None)
           | GateNone \<Rightarrow> (s, None)
           | GateReconciling \<Rightarrow> (s, Some (Rejected ErrorRuntimeInstallNotReady True []))
           | GateBlockedUnsafe \<Rightarrow> (s, Some (Rejected ErrorRuntimeInstallBlockedUnsafe False [])))"

text \<open>\<open>Inr None\<close> is the zero transaction: nothing was recorded.\<close>

definition create_transaction ::
  "service_config \<Rightarrow> store \<Rightarrow> start_inputs \<Rightarrow> operation \<Rightarrow> fs \<Rightarrow> fs \<times> (service_error + transaction option)" where
  "create_transaction c st si v fs =
     (case NewCreatedTransaction (si_rnd_txn si) (si_rnd_gen si) (si_now si) (op_target_id v) (op_id v)
             (op_source_pin v) (case sc_applier c of None \<Rightarrow> [] | Some a \<Rightarrow> ap_expected_version a) of
        Inl e \<Rightarrow> (fs, Inl (ErrInstall e))
      | Inr t \<Rightarrow>
          (case SaveTransaction st fs t of
             (fs1, Some e) \<Rightarrow> (fs1, Inl (ErrInstall e))
           | (fs1, None) \<Rightarrow>
               (case LoadTransaction st fs1 (tx_id t) of
                  Inl e \<Rightarrow> (fs1, Inl (ErrInstall e))
                | Inr t1 \<Rightarrow> (fs1, Inr (Some t1)))))"

definition create_locked ::
  "service_config \<Rightarrow> store \<Rightarrow> start_inputs \<Rightarrow> operation \<Rightarrow> fs \<Rightarrow> fs \<times> (service_error + transaction option)" where
  "create_locked c st si v fs =
     (if pointer_Invalid (ReadActive st fs)
      then (fs, Inl (Rejected ErrorRuntimeInstallBlockedUnsafe False []))
      else case FailFailableNonterminals st (si_now si) fs of
             (fs1, Some e) \<Rightarrow> (fs1, Inl (ErrInstall e))
           | (fs1, None) \<Rightarrow>
               if HasNonterminal st fs1 then (fs1, Inl (Rejected ErrorRuntimeInstallNotReady True []))
               else create_transaction c st si v fs1)"

definition persistCreatedTransaction ::
  "service_config \<Rightarrow> start_inputs \<Rightarrow> service_state \<Rightarrow> operation
     \<Rightarrow> service_state \<times> (service_error + transaction option)" where
  "persistCreatedTransaction c si s v =
     (case sc_store c of
        None \<Rightarrow> (s, Inr None)
      | Some st \<Rightarrow>
          if op_kind v \<noteq> TypeRuntimeInstall then (s, Inr None)
          else (case AcquireLock st (si_lock si) (ss_fs s) of
                  (fs1, Some e) \<Rightarrow>
                    (s\<lparr>ss_fs := fs1\<rparr>,
                     Inl (if e = ErrLockBusy then Rejected ErrorRuntimeInstallNotReady True []
                          else ErrInstall e))
                | (fs1, None) \<Rightarrow>
                    (let (fs2, r) = create_locked c st si v fs1 in (s\<lparr>ss_fs := fs2\<rparr>, r))))"

definition markTransactionFailed ::
  "service_config \<Rightarrow> time \<Rightarrow> service_state \<Rightarrow> transaction option \<Rightarrow> service_state" where
  "markTransactionFailed c now s t =
     (case (sc_store c, t) of
        (Some st, Some txn) \<Rightarrow>
          (case LoadTransaction st (ss_fs s) (tx_id txn) of
             Inl _ \<Rightarrow> s
           | Inr loaded \<Rightarrow>
               if Terminal (tx_state loaded) then s
               else s\<lparr>ss_fs := fst (SaveTransaction st (ss_fs s)
                      (loaded\<lparr>tx_state := StateFailed, tx_error_code := CodeInterrupted, tx_updated_at := now\<rparr>))\<rparr>)
      | _ \<Rightarrow> s)"

subsection \<open>Admission of a new install\<close>

definition ValidateIdempotencyKey :: "string \<Rightarrow> bool" where
  "ValidateIdempotencyKey value \<longleftrightarrow>
     1 \<le> length value \<and> length value \<le> 128
     \<and> list_all (\<lambda>ch. 33 \<le> (of_char ch :: nat) \<and> (of_char ch :: nat) \<le> 126) value"

definition newOperationID :: "nat list option \<Rightarrow> string option" where
  "newOperationID rnd = map_option (\<lambda>bs. ''op_'' @ RawURLEncoding (take 18 bs)) rnd"

definition newCorrelationID :: "nat list option \<Rightarrow> string option" where
  "newCorrelationID rnd = map_option (\<lambda>bs. ''cor_'' @ RawURLEncoding (take 12 bs)) rnd"

definition newOwnershipNonce :: "nat list option \<Rightarrow> string option" where
  "newOwnershipNonce rnd = map_option (\<lambda>bs. ''own_'' @ RawURLEncoding (take 18 bs)) rnd"

text \<open>The latest install is absent, or a row; the zero operation of the code has no identifier.\<close>

definition RetryEligible :: "operation option \<Rightarrow> bool" where
  "RetryEligible latest =
     (case latest of
        None \<Rightarrow> False
      | Some v \<Rightarrow>
          if op_id v = [] \<or> op_kind v \<noteq> TypeRuntimeInstall then False
          else if op_status v \<noteq> StatusFailed \<and> op_status v \<noteq> StatusCancelled then False
          else op_retryable v)"

definition RetryEligibleForPin :: "operation option \<Rightarrow> string \<Rightarrow> bool" where
  "RetryEligibleForPin latest expectedPin =
     (if \<not> RetryEligible latest then False
      else case latest of
             None \<Rightarrow> False
           | Some v \<Rightarrow> \<not> (expectedPin = [] \<or> op_source_pin v = [] \<or> op_ownership_nonce v = []
                            \<or> op_source_pin v \<noteq> expectedPin))"

record preflight_decision =
  pd_allow :: bool
  pd_code :: error_code
  pd_retryable :: bool

definition DecideInstallPreflight :: "discovery \<Rightarrow> operation option \<Rightarrow> preflight_decision" where
  "DecideInstallPreflight d latest =
     (let allow = \<lparr>pd_allow = True, pd_code = [], pd_retryable = False\<rparr>;
          deny = (\<lambda>code retry. \<lparr>pd_allow = False, pd_code = code, pd_retryable = retry\<rparr>) in
      case di_state d of
        DiscoveryNotInstalled \<Rightarrow> allow
      | DiscoverySupported \<Rightarrow> deny ErrorRuntimeInstallAlreadyPresent False
      | DiscoveryBrokenExecutable \<Rightarrow>
          if RetryEligible latest then allow else deny ErrorRuntimeInstallStateConflict False
      | DiscoveryTimedOut \<Rightarrow> deny ErrorRuntimeDiscoveryTimeout True
      | _ \<Rightarrow> deny ErrorRuntimeInstallStateConflict False)"

type_synonym start_result = "service_error + operation \<times> bool"

definition replayIdempotent :: "operation \<Rightarrow> op_type \<Rightarrow> string \<Rightarrow> start_result" where
  "replayIdempotent existing wantType targetID =
     (if op_kind existing \<noteq> wantType \<or> op_target_type existing \<noteq> TargetRuntimeKind
         \<or> op_target_id existing \<noteq> targetID
      then Inl (Rejected ErrorIdempotencyKeyConflict False [])
      else Inr (existing, False))"

definition rejectActiveHermesMutation :: "service_state \<Rightarrow> string \<Rightarrow> service_error option" where
  "rejectActiveHermesMutation s kind =
     (case ActiveHermesHostMutation (ss_db s) kind of
        Inl e \<Rightarrow> Some (ErrDatabase e)
      | Inr None \<Rightarrow> None
      | Inr (Some holder) \<Rightarrow> Some (Rejected ErrorRuntimeInstallInProgress True (op_id holder)))"

definition replayIfCurrentKey ::
  "service_state \<Rightarrow> string \<Rightarrow> op_type \<Rightarrow> string \<Rightarrow> service_error \<Rightarrow> start_result" where
  "replayIfCurrentKey s key wantType targetID err =
     (case err of
        Rejected code _ _ \<Rightarrow>
          if code \<noteq> ErrorRuntimeInstallInProgress then Inl err
          else (case GetOperationByIdempotencyKey (ss_db s) key of
                  Inl e \<Rightarrow> Inl (ErrDatabase e)
                | Inr (Some existing) \<Rightarrow> replayIdempotent existing wantType targetID
                | Inr None \<Rightarrow> Inl err)
      | _ \<Rightarrow> Inl err)"

definition normalizeCreateConflict :: "service_state \<Rightarrow> string \<Rightarrow> db_error \<Rightarrow> service_error" where
  "normalizeCreateConflict s kind err =
     (case ActiveHermesHostMutation (ss_db s) kind of
        Inr (Some holder) \<Rightarrow> Rejected ErrorRuntimeInstallInProgress True (op_id holder)
      | _ \<Rightarrow> ErrDatabase err)"

definition recoverCreate :: "service_state \<Rightarrow> operation \<Rightarrow> db_error \<Rightarrow> start_result" where
  "recoverCreate s intended err =
     (case GetOperationByIdempotencyKey (ss_db s) (op_idempotency_key intended) of
        Inl e \<Rightarrow> Inl (ErrDatabase e)
      | Inr (Some existing) \<Rightarrow> replayIdempotent existing (op_kind intended) (op_target_id intended)
      | Inr None \<Rightarrow>
          if err = ErrDuplicateIdempotency then Inl (Rejected ErrorIdempotencyKeyConflict False [])
          else Inl (normalizeCreateConflict s (op_target_id intended) err))"

definition new_operation ::
  "op_type \<Rightarrow> string \<Rightarrow> string \<Rightarrow> string \<Rightarrow> string \<Rightarrow> time \<Rightarrow> operation" where
  "new_operation kind target i key correlation now =
     \<lparr>op_id = i, op_kind = kind, op_target_type = TargetRuntimeKind, op_target_id = target,
      op_status = StatusPending, op_stage = StagePreflight, op_progress = None, op_message = [],
      op_error_code = [], op_error_message = [], op_retryable = False, op_idempotency_key = key,
      op_correlation_id = correlation, op_source_pin = [], op_ownership_nonce = [],
      op_transaction_id = [], op_created_at = now, op_started_at = None, op_completed_at = None,
      op_updated_at = now\<rparr>"

definition bind_worker :: "string \<Rightarrow> service_state \<Rightarrow> service_state" where
  "bind_worker i s = s\<lparr>ss_workers := AList.update i False (ss_workers s)\<rparr>"

text \<open>The transaction first, then the row: a failed row marks the transaction FAILED again.\<close>

definition start_created ::
  "service_config \<Rightarrow> start_inputs \<Rightarrow> service_state \<Rightarrow> operation \<Rightarrow> service_state \<times> start_result" where
  "start_created c si s created0 =
     (case persistCreatedTransaction c si s created0 of
        (s1, Inl e) \<Rightarrow> (s1, Inl e)
      | (s1, Inr t) \<Rightarrow>
     (let created = (case t of None \<Rightarrow> created0 | Some txn \<Rightarrow> created0\<lparr>op_transaction_id := tx_id txn\<rparr>) in
      if sc_fail_after_txn c
      then (markTransactionFailed c (si_now si) s1 t, Inl ErrInjectedCreated)
      else case persistCreate c (si_now si) s1 created of
             (s2, Some err) \<Rightarrow>
               (let s3 = markTransactionFailed c (si_now si) s2 t in (s3, recoverCreate s3 created err))
           | (s2, None) \<Rightarrow>
               ((if sc_applier c = None then s2 else bind_worker (op_id created) s2), Inr (created, True))))"

definition start_admitted ::
  "service_config \<Rightarrow> start_inputs \<Rightarrow> service_state \<Rightarrow> string \<Rightarrow> string \<Rightarrow> service_state \<times> start_result" where
  "start_admitted c si s kind key =
     (case newOperationID (si_rnd_id si) of
        None \<Rightarrow> (s, Inl ErrIDGeneration)
      | Some i \<Rightarrow>
     (case newCorrelationID (si_rnd_correlation si) of
        None \<Rightarrow> (s, Inl ErrIDGeneration)
      | Some correlation \<Rightarrow>
          start_created c si s
            ((new_operation TypeRuntimeInstall kind i key correlation (si_now si))
               \<lparr>op_source_pin := (case sc_applier c of None \<Rightarrow> [] | Some a \<Rightarrow> ap_expected_pin a)\<rparr>)))"

definition start_preflight ::
  "service_config \<Rightarrow> start_inputs \<Rightarrow> service_state \<Rightarrow> string \<Rightarrow> string \<Rightarrow> service_state \<times> start_result" where
  "start_preflight c si s kind key =
     (case si_detect si of
        Inl e \<Rightarrow>
          (s, Inl (if e = ErrContextCanceled \<or> e = ErrRuntimeKindNotFound then e
                   else Rejected ErrorRuntimeDiscoveryTimeout True []))
      | Inr d \<Rightarrow>
     (case LatestRuntimeInstall (ss_db s) kind of
        Inl e \<Rightarrow> (s, Inl (ErrDatabase e))
      | Inr latest \<Rightarrow>
          (let decision = DecideInstallPreflight d latest in
           if \<not> pd_allow decision
           then (s, Inl (Rejected (pd_code decision) (pd_retryable decision) []))
           else start_admitted c si s kind key)))"

definition Start ::
  "service_config \<Rightarrow> start_inputs \<Rightarrow> service_state \<Rightarrow> string \<Rightarrow> string \<Rightarrow> service_state \<times> start_result" where
  "Start c si s kind key =
     (case rejectInstallGate c s of
        (s1, Some e) \<Rightarrow> (s1, Inl e)
      | (s1, None) \<Rightarrow>
     (if \<not> ValidateIdempotencyKey key then (s1, Inl ErrInvalidIdempotencyKey)
      else case GetOperationByIdempotencyKey (ss_db s1) key of
             Inl e \<Rightarrow> (s1, Inl (ErrDatabase e))
           | Inr (Some existing) \<Rightarrow> (s1, replayIdempotent existing TypeRuntimeInstall kind)
           | Inr None \<Rightarrow>
          (case rejectActiveHermesMutation s1 kind of
             Some e \<Rightarrow> (s1, replayIfCurrentKey s1 key TypeRuntimeInstall kind e)
           | None \<Rightarrow> start_preflight c si s1 kind key)))"

subsection \<open>Reading, cancelling, interrupting\<close>

definition Get ::
  "service_config \<Rightarrow> time \<Rightarrow> service_state \<Rightarrow> string \<Rightarrow> service_state \<times> (service_error + operation)" where
  "Get c now s i =
     (case GetOperation (ss_db s) i of
        Inl e \<Rightarrow> (s, Inl (ErrDatabase e))
      | Inr v \<Rightarrow> (let (s1, v1) = projectOperation c now s v in (s1, Inr v1)))"

definition service_List ::
  "service_state \<Rightarrow> target_type option \<Rightarrow> string \<Rightarrow> int \<Rightarrow> service_error + operation list" where
  "service_List s tt tid limit =
     (case ListOperations (ss_db s) tt tid limit of Inl e \<Rightarrow> Inl (ErrDatabase e) | Inr ops \<Rightarrow> Inr ops)"

definition cancelled_operation :: "time \<Rightarrow> operation \<Rightarrow> operation" where
  "cancelled_operation now v =
     v\<lparr>op_status := StatusCancelled, op_error_code := ErrorRuntimeInstallCancelled,
       op_retryable := True, op_completed_at := Some now, op_updated_at := now\<rparr>"

definition not_cancellable :: service_error where
  "not_cancellable = Rejected ErrorOperationNotCancellable False []"

text \<open>
  A cancel of an operation with a worker asks the worker to stop and waits for it, or for a
  timeout; other handlers run meanwhile, and \<open>cancel_observe\<close> then reads the row again.
\<close>

datatype cancel_outcome = Finished "service_error + operation" | Waiting

definition cancel_directly ::
  "service_config \<Rightarrow> time \<Rightarrow> service_state \<Rightarrow> operation \<Rightarrow> service_state \<times> (service_error + operation)" where
  "cancel_directly c now s current =
     (case persistUpdate c now s current (cancelled_operation now current) of
        (s1, None) \<Rightarrow> (s1, Inr (cancelled_operation now current))
      | (s1, Some err) \<Rightarrow>
          (s1, case GetOperation (ss_db s1) (op_id current) of
                 Inr latest \<Rightarrow> if op_status latest = StatusCancelled then Inr latest else Inl err
               | Inl _ \<Rightarrow> Inl err))"

definition Cancel ::
  "service_config \<Rightarrow> time \<Rightarrow> service_state \<Rightarrow> string \<Rightarrow> service_state \<times> cancel_outcome" where
  "Cancel c now s i =
     (case GetOperation (ss_db s) i of
        Inl e \<Rightarrow> (s, Finished (Inl (ErrDatabase e)))
      | Inr current \<Rightarrow>
          if filesystemOwnsOperation c s current
          then (let (s1, v) = projectOperation c now s current in (s1, Finished (Inr v)))
          else if IsTerminal (op_status current) then (s, Finished (Inl not_cancellable))
          else (case map_of (ss_workers s) i of
                  Some _ \<Rightarrow> (s\<lparr>ss_workers := AList.update i True (ss_workers s)\<rparr>, Waiting)
                | None \<Rightarrow> (let (s1, r) = cancel_directly c now s current in (s1, Finished r))))"

definition cancel_observe :: "service_state \<Rightarrow> string \<Rightarrow> service_error + operation" where
  "cancel_observe s i =
     (case GetOperation (ss_db s) i of
        Inl e \<Rightarrow> Inl (ErrDatabase e)
      | Inr latest \<Rightarrow>
          if op_status latest = StatusCancelled then Inr latest
          else if IsTerminal (op_status latest) then Inl not_cancellable
          else Inr latest)"

fun interrupt_stale ::
  "service_config \<Rightarrow> time \<Rightarrow> service_state \<Rightarrow> operation list
     \<Rightarrow> service_state \<times> operation list \<times> service_error option" where
  "interrupt_stale c now s [] = (s, [], None)"
| "interrupt_stale c now s (v # vs) =
     (if op_kind v \<noteq> TypeRuntimeInstall \<and> op_kind v \<noteq> TypeHermesPrerequisites then interrupt_stale c now s vs
      else if IsTerminal (op_status v) then interrupt_stale c now s vs
      else if op_kind v = TypeRuntimeInstall \<and> filesystemOwnsOperation c s v then interrupt_stale c now s vs
      else case persistUpdate c now s v (interrupted_operation now v) of
             (s1, Some e) \<Rightarrow> (s1, [], Some e)
           | (s1, None) \<Rightarrow>
               (let (s2, ops, e) = interrupt_stale c now
                      (emitOperation now [] (interrupted_operation now v) False s1) vs
                in (s2, interrupted_operation now v # ops, e)))"

definition InterruptStale ::
  "service_config \<Rightarrow> time \<Rightarrow> service_state \<Rightarrow> service_state \<times> operation list \<times> service_error option" where
  "InterruptStale c now s =
     (let s1 = projectOpenInstalls c now s in
      case ListOperations (ss_db s1) (Some TargetRuntimeKind) [] 50 of
        Inl e \<Rightarrow> (s1, [], Some (ErrDatabase e))
      | Inr ops \<Rightarrow> interrupt_stale c now s1 ops)"

subsection \<open>The worker (runtime\_install\_run.go)\<close>

definition coded_failures :: "error_code list" where
  "coded_failures =
     [ErrorRuntimeInstallIntegrityFailed, ErrorRuntimeInstallInsufficientDisk,
      ErrorRuntimeInstallSourceUnavailable, ErrorRuntimeInstallProtocolUnsupported,
      ErrorRuntimeInstallManifestMismatch, ErrorRuntimeInstallTimeout, ErrorRuntimeInstallOutputLimit,
      ErrorRuntimeInstallPrivilegeRequired, ErrorRuntimeInstallTargetOccupied,
      ErrorRuntimeInstallStageFailed, ErrorHermesNodeMissing, ErrorHermesNodeUnsupported,
      ErrorHermesNPMMissing, ErrorHermesNPMUnsupported, ErrorHermesNodeArchiveIntegrityFailed,
      ErrorHermesNPMArchiveIntegrityFailed, ErrorHermesNodeDepsFailed, ErrorHermesNodeDepsTimeout]"

definition installErrorCodeOr :: "host_error \<Rightarrow> error_code \<Rightarrow> error_code" where
  "installErrorCodeOr err fallback =
     (case first_match (Contains (he_message err)) coded_failures of
        Some code \<Rightarrow> code
      | None \<Rightarrow> (case he_code err of Some code \<Rightarrow> code | None \<Rightarrow> fallback))"

definition isRetryableInstall :: "host_error \<Rightarrow> bool" where
  "isRetryableInstall err \<longleftrightarrow>
     installErrorCodeOr err [] \<in> {ErrorRuntimeInstallSourceUnavailable, ErrorRuntimeInstallTimeout,
       ErrorRuntimeInstallPostcheckFailed, ErrorRuntimeInstallInsufficientDisk}"

definition failed_operation :: "time \<Rightarrow> error_code \<Rightarrow> bool \<Rightarrow> operation \<Rightarrow> operation" where
  "failed_operation now code retryable v =
     v\<lparr>op_status := StatusFailed, op_error_code := code, op_retryable := retryable,
       op_completed_at := Some now, op_updated_at := now\<rparr>"

text \<open>The \<open>fail\<close> closure of \<open>execute\<close>.\<close>

definition fail_install ::
  "service_config \<Rightarrow> time \<Rightarrow> service_state \<Rightarrow> string \<Rightarrow> error_code \<Rightarrow> bool \<Rightarrow> service_state" where
  "fail_install c now s i code retryable =
     (case GetOperation (ss_db s) i of
        Inl _ \<Rightarrow> s
      | Inr latest \<Rightarrow>
          if filesystemOwnsOperation c s latest then fst (projectOperation c now s latest)
          else if IsTerminal (op_status latest) then s
          else fst (persistUpdate c now s latest (failed_operation now code retryable latest)))"

definition stopWorker :: "string \<Rightarrow> service_state \<Rightarrow> service_state" where
  "stopWorker i s = s\<lparr>ss_workers := AList.delete i (ss_workers s)\<rparr>"

definition running_operation :: "time \<Rightarrow> operation \<Rightarrow> operation" where
  "running_operation now v =
     v\<lparr>op_status := StatusRunning, op_started_at := Some now, op_updated_at := now\<rparr>"

text \<open>
  The first part of the worker, to the call of the applier: \<open>None\<close> means that the worker has
  ended, \<open>Some\<close> is its own copy of the row. \<open>target\<close> is what \<open>ValidateTarget\<close> returned.
\<close>

definition execute_begin ::
  "service_config \<Rightarrow> time \<Rightarrow> host_error option \<Rightarrow> service_state \<Rightarrow> operation
     \<Rightarrow> service_state \<times> operation option" where
  "execute_begin c now target s started =
     (case sc_applier c of
        None \<Rightarrow> (stopWorker (op_id started) s, None)
      | Some a \<Rightarrow>
          if \<not> ap_platform_supported a \<or> (\<not> sc_windows c \<and> \<not> sc_allow_non_windows c)
          then (stopWorker (op_id started)
                  (fail_install c now s (op_id started) ErrorRuntimeInstallPlatformUnsupported False), None)
          else (case target of
                  Some err \<Rightarrow>
                    (stopWorker (op_id started)
                       (fail_install c now s (op_id started)
                         (installErrorCodeOr err ErrorRuntimeInstallTargetOccupied) False), None)
                | None \<Rightarrow>
                    (case persistUpdate c now s started (running_operation now started) of
                       (s1, Some _) \<Rightarrow> (stopWorker (op_id started) s1, None)
                     | (s1, None) \<Rightarrow> (s1, Some (running_operation now started)))))"

definition reported_operation :: "time \<Rightarrow> stage \<Rightarrow> string \<Rightarrow> operation \<Rightarrow> operation" where
  "reported_operation now g warning v =
     v\<lparr>op_stage := g, op_message := (if warning \<noteq> [] then warning else op_message v), op_updated_at := now\<rparr>"

text \<open>The \<open>report\<close> closure: the worker's copy moves only when the row did.\<close>

definition execute_report ::
  "service_config \<Rightarrow> time \<Rightarrow> stage \<Rightarrow> string \<Rightarrow> service_state \<Rightarrow> operation \<Rightarrow> service_state \<times> operation" where
  "execute_report c now g warning s current =
     (case persistUpdate c now s current (reported_operation now g warning current) of
        (s1, None) \<Rightarrow> (s1, reported_operation now g warning current)
      | (s1, Some _) \<Rightarrow> (s1, current))"

definition execute_apply_failed ::
  "service_config \<Rightarrow> time \<Rightarrow> host_error \<Rightarrow> service_state \<Rightarrow> string \<Rightarrow> service_state" where
  "execute_apply_failed c now err s i =
     stopWorker i
       (let latest = GetOperation (ss_db s) i in
        if (case latest of Inr v \<Rightarrow> filesystemOwnsOperation c s v | Inl _ \<Rightarrow> False)
        then (case latest of Inr v \<Rightarrow> fst (projectOperation c now s v) | Inl _ \<Rightarrow> s)
        else if he_deadline err then fail_install c now s i ErrorRuntimeInstallTimeout True
        else if he_canceled err
        then (case latest of
                Inl _ \<Rightarrow> s
              | Inr v \<Rightarrow> if IsTerminal (op_status v) then s
                          else fst (persistUpdate c now s v (cancelled_operation now v)))
        else fail_install c now s i (installErrorCodeOr err ErrorRuntimeInstallStageFailed)
               (isRetryableInstall err))"

text \<open>\<open>EqualFold\<close> folds the ASCII letters here; letters outside ASCII are compared as they are.\<close>

definition sameInstallPath :: "service_config \<Rightarrow> string \<Rightarrow> string \<Rightarrow> bool" where
  "sameInstallPath c left right =
     (if sc_clean c left = sc_clean c right then True
      else case (sc_abs c left, sc_abs c right) of
             (Some absLeft, Some absRight) \<Rightarrow>
               if sc_windows c
               then map lower_char (sc_clean c absLeft) = map lower_char (sc_clean c absRight)
               else sc_clean c absLeft = sc_clean c absRight
           | _ \<Rightarrow> False)"

definition postcheckAccepted :: "service_config \<Rightarrow> discovery \<Rightarrow> applier \<Rightarrow> bool" where
  "postcheckAccepted c d a =
     (case di_selected d of
        None \<Rightarrow> False
      | Some sel \<Rightarrow>
          if di_state d \<noteq> DiscoverySupported then False
          else if cn_version sel \<noteq> ap_expected_version a then False
          else if ap_launcher a = [] \<or> \<not> sameInstallPath c (cn_path sel) (ap_launcher a) then False
          else ap_managed a (cn_path sel))"

definition succeeded_operation :: "time \<Rightarrow> operation \<Rightarrow> operation" where
  "succeeded_operation now v =
     v\<lparr>op_status := StatusSucceeded, op_completed_at := Some now, op_updated_at := now\<rparr>"

definition accepted_of ::
  "service_config \<Rightarrow> time \<Rightarrow> string \<Rightarrow> operation \<Rightarrow> discovery \<Rightarrow> candidate \<Rightarrow> accepted_installation" where
  "accepted_of c now i started d sel =
     \<lparr>ai_id = i, ai_node_id = sc_node_id c, ai_kind = op_target_id started, ai_path = cn_path sel,
      ai_version = cn_version sel, ai_support = di_state d, ai_status = ''accepted'',
      ai_detected_at = di_detected_at d, ai_created_at = now, ai_updated_at = now\<rparr>"

definition execute_complete ::
  "service_config \<Rightarrow> time \<Rightarrow> nat list option \<Rightarrow> discovery \<Rightarrow> candidate \<Rightarrow> service_state \<Rightarrow> operation
     \<Rightarrow> service_state" where
  "execute_complete c now rnd d sel s current =
     (let nxt = succeeded_operation now current; i = op_id current in
      if \<not> sc_completer c then fst (persistUpdate c now s current nxt)
      else case NewInstallationID rnd of
             None \<Rightarrow> fail_install c now s i ErrorRuntimeInstallPostcheckFailed True
           | Some instID \<Rightarrow>
               (case CompleteInstallSuccess (ss_db s) (ss_inventory s) current nxt
                       (accepted_of c now instID current d sel) of
                  Inl _ \<Rightarrow> fail_install c now s i ErrorRuntimeInstallPostcheckFailed True
                | Inr (db, iv) \<Rightarrow>
                    emitOperation now (status_text (op_status current)) nxt False
                      (s\<lparr>ss_db := db, ss_inventory := iv\<rparr>)))"

text \<open>
  The last part of the worker, after the applier returned without an error. \<open>detected\<close> is what
  the check of the installed Runtime returned.
\<close>

definition execute_finish ::
  "service_config \<Rightarrow> time \<Rightarrow> nat list option \<Rightarrow> (service_error + discovery) \<Rightarrow> service_state \<Rightarrow> operation
     \<Rightarrow> service_state" where
  "execute_finish c now rnd detected s current =
     stopWorker (op_id current)
       (if sc_fail_after_committed c then s
        else
          let (s1, current1) = execute_report c now StagePostcheckDiscovery [] s current;
              failed = fail_install c now s1 (op_id current) ErrorRuntimeInstallPostcheckFailed True
          in case (detected, sc_applier c) of
               (Inr d, Some a) \<Rightarrow>
                 if \<not> postcheckAccepted c d a then failed
                 else (case di_selected d of
                         None \<Rightarrow> failed
                       | Some sel \<Rightarrow>
                           (let (s2, current2) = execute_report c now StageCleanup [] s1 current1
                            in execute_complete c now rnd d sel s2 current2))
             | _ \<Rightarrow> failed)"

subsection \<open>Hermes prerequisites (hermes\_prerequisites.go)\<close>

record prerequisite_snapshot =
  ps_node_state :: string
  ps_node_version :: string
  ps_node_code :: error_code
  ps_npm_state :: string
  ps_npm_version :: string
  ps_npm_code :: error_code
  ps_deps_state :: string
  ps_deps_code :: error_code
  ps_retryable :: bool
  ps_checked_at :: time
  ps_active_operation :: string

definition kind_hermes :: string where "kind_hermes = ''hermes''"

fun latest_of_kind :: "operation option \<Rightarrow> operation list \<Rightarrow> operation option" where
  "latest_of_kind found [] = found"
| "latest_of_kind found (v # vs) =
     latest_of_kind
       (if op_kind v \<noteq> TypeHermesPrerequisites then found
        else case found of
               None \<Rightarrow> Some v
             | Some w \<Rightarrow> if op_created_at w < op_created_at v then Some v else found) vs"

definition latestHermesPrerequisite :: "database \<Rightarrow> db_error + operation option" where
  "latestHermesPrerequisite db =
     (case ListOperations db (Some TargetRuntimeKind) kind_hermes 20 of
        Inl e \<Rightarrow> Inl e
      | Inr values \<Rightarrow> Inr (latest_of_kind None values))"

definition InspectPrerequisites ::
  "service_config \<Rightarrow> service_state \<Rightarrow> prerequisite_snapshot \<Rightarrow> service_error + prerequisite_snapshot" where
  "InspectPrerequisites c s inspected =
     (if \<not> sc_prereq c then Inl ErrRuntimeKindNotFound
      else
        let snap = (case ActiveHermesHostMutation (ss_db s) kind_hermes of
                      Inr (Some v) \<Rightarrow> if op_kind v = TypeHermesPrerequisites
                                       then inspected\<lparr>ps_active_operation := op_id v\<rparr> else inspected
                    | _ \<Rightarrow> inspected)
        in Inr (if ps_deps_state snap = ''READY'' then snap
                else case latestHermesPrerequisite (ss_db s) of
                       Inr (Some latest) \<Rightarrow>
                         if op_error_code latest = ErrorHermesNodeDepsTimeout
                         then snap\<lparr>ps_deps_state := ''TIMED_OUT'', ps_deps_code := op_error_code latest\<rparr>
                         else if op_error_code latest = ErrorHermesNodeDepsFailed
                         then snap\<lparr>ps_deps_state := ''FAILED'', ps_deps_code := op_error_code latest\<rparr>
                         else snap
                     | _ \<Rightarrow> snap))"

definition start_prerequisites_created ::
  "service_config \<Rightarrow> time \<Rightarrow> service_state \<Rightarrow> operation \<Rightarrow> service_state \<times> start_result" where
  "start_prerequisites_created c now s created =
     (case persistCreate c now s created of
        (s1, Some err) \<Rightarrow> (s1, recoverCreate s1 created err)
      | (s1, None) \<Rightarrow> ((if sc_prereq c then bind_worker (op_id created) s1 else s1), Inr (created, True)))"

definition StartPrerequisites ::
  "service_config \<Rightarrow> start_inputs \<Rightarrow> service_state \<Rightarrow> string \<Rightarrow> service_state \<times> start_result" where
  "StartPrerequisites c si s key =
     (case rejectInstallGate c s of
        (s1, Some e) \<Rightarrow> (s1, Inl e)
      | (s1, None) \<Rightarrow>
     (if \<not> ValidateIdempotencyKey key then (s1, Inl ErrInvalidIdempotencyKey)
      else case GetOperationByIdempotencyKey (ss_db s1) key of
             Inl e \<Rightarrow> (s1, Inl (ErrDatabase e))
           | Inr (Some existing) \<Rightarrow> (s1, replayIdempotent existing TypeHermesPrerequisites kind_hermes)
           | Inr None \<Rightarrow>
          (case rejectActiveHermesMutation s1 kind_hermes of
             Some e \<Rightarrow> (s1, replayIfCurrentKey s1 key TypeHermesPrerequisites kind_hermes e)
           | None \<Rightarrow>
               (case newOperationID (si_rnd_id si) of
                  None \<Rightarrow> (s1, Inl ErrIDGeneration)
                | Some i \<Rightarrow>
                    (case newCorrelationID (si_rnd_correlation si) of
                       None \<Rightarrow> (s1, Inl ErrIDGeneration)
                     | Some correlation \<Rightarrow>
                         start_prerequisites_created c (si_now si) s1
                           (new_operation TypeHermesPrerequisites kind_hermes i key correlation (si_now si)))))))"

text \<open>The \<open>fail\<close> closure of \<open>executePrerequisites\<close>: no transaction stands behind these.\<close>

definition fail_prerequisites ::
  "service_config \<Rightarrow> time \<Rightarrow> service_state \<Rightarrow> string \<Rightarrow> error_code \<Rightarrow> bool \<Rightarrow> service_state" where
  "fail_prerequisites c now s i code retryable =
     (case GetOperation (ss_db s) i of
        Inl _ \<Rightarrow> s
      | Inr latest \<Rightarrow>
          if IsTerminal (op_status latest) then s
          else fst (persistUpdate c now s latest (failed_operation now code retryable latest)))"

definition prerequisites_begin ::
  "service_config \<Rightarrow> time \<Rightarrow> service_state \<Rightarrow> operation \<Rightarrow> service_state \<times> operation option" where
  "prerequisites_begin c now s started =
     (case persistUpdate c now s started (running_operation now started) of
        (s1, Some _) \<Rightarrow> (stopWorker (op_id started) s1, None)
      | (s1, None) \<Rightarrow>
          if \<not> sc_prereq c
          then (stopWorker (op_id started)
                  (fail_prerequisites c now s1 (op_id started) ErrorHermesNodeMissing False), None)
          else (s1, Some (running_operation now started)))"

text \<open>Reports of a prerequisite run carry no warning.\<close>

definition prerequisites_report ::
  "service_config \<Rightarrow> time \<Rightarrow> stage \<Rightarrow> service_state \<Rightarrow> operation \<Rightarrow> service_state \<times> operation" where
  "prerequisites_report c now g s current = execute_report c now g [] s current"

definition prerequisites_finish ::
  "service_config \<Rightarrow> time \<Rightarrow> host_error option \<Rightarrow> service_state \<Rightarrow> operation \<Rightarrow> service_state" where
  "prerequisites_finish c now outcome s current =
     stopWorker (op_id current)
       (case outcome of
          None \<Rightarrow> fst (persistUpdate c now s current (succeeded_operation now current))
        | Some err \<Rightarrow>
            if he_deadline err
            then fail_prerequisites c now s (op_id current) ErrorRuntimeInstallTimeout True
            else if he_canceled err
            then (case GetOperation (ss_db s) (op_id current) of
                    Inl _ \<Rightarrow> s
                  | Inr v \<Rightarrow> if IsTerminal (op_status v) then s
                              else fst (persistUpdate c now s v (cancelled_operation now v)))
            else (let code = installErrorCodeOr err ErrorHermesNodeDepsFailed
                  in fail_prerequisites c now s (op_id current) code
                       (code = ErrorHermesNodeDepsTimeout \<or> code = ErrorHermesNodeMissing)))"

end
