(* ===== verification/Install_Service_Properties.thy ===== *)
theory Install_Service_Properties
  imports Install_Service Recovery_Run_Properties Inventory_Table
begin

text \<open>
  What the install service guarantees: a new install is admitted only when nothing stands
  against it, its start is idempotent, the outcome of an install whose transaction has started to
  activate is decided by the transaction and never overwritten by a handler, and the worker
  leaves its operation finished.
\<close>

subsection \<open>Updates that cannot be refused\<close>

lemma updated_row_rest [simp]:
  "op_transaction_id (updated_row n r) = op_transaction_id r"
  "op_stage (updated_row n r) = op_stage n"
  "op_started_at (updated_row n r) = op_started_at n"
  by (simp_all add: updated_row_def)

lemma class_active:
  "host_mutation r \<Longrightarrow> active r" "installation_mutation r \<Longrightarrow> active r" "instance_mutation r \<Longrightarrow> active r"
  by (simp_all add: host_mutation_def installation_mutation_def instance_mutation_def)

lemma class_updated:
  "active (updated_row n r) \<longrightarrow> active r \<Longrightarrow> host_mutation (updated_row n r) \<Longrightarrow> host_mutation r"
  "active (updated_row n r) \<longrightarrow> active r \<Longrightarrow> installation_mutation (updated_row n r) \<Longrightarrow> installation_mutation r"
  "active (updated_row n r) \<longrightarrow> active r \<Longrightarrow> instance_mutation (updated_row n r) \<Longrightarrow> instance_mutation r"
  by (simp_all add: host_mutation_def installation_mutation_def instance_mutation_def)

lemma no_index_violation:
  assumes "one_active p (xs @ r # ys)" and "p (updated_row n r) \<Longrightarrow> p r"
  shows "\<not> index_violated p (xs @ ys) (updated_row n r)"
proof
  assume v: "index_violated p (xs @ ys) (updated_row n r)"
  have "target_key (updated_row n r) = target_key r" by (simp add: target_key_def)
  with v assms show False
    by (auto simp: index_violated_iff one_active_def)
qed

text \<open>
  A permitted change that does not make an inactive row active passes every constraint of the
  table.
\<close>

lemma row_of_mem:
  assumes "table_inv (db_operations db)"
  shows "row_of db i = Some r \<longleftrightarrow> r \<in> set (db_operations db) \<and> op_id r = i"
proof
  assume "row_of db i = Some r"
  then show "r \<in> set (db_operations db) \<and> op_id r = i"
    unfolding row_of_def by (rule first_match_Some)
next
  assume r: "r \<in> set (db_operations db) \<and> op_id r = i"
  then obtain q where q: "row_of db i = Some q"
    unfolding row_of_def using first_match_ex [of "db_operations db" "\<lambda>r. op_id r = i"] by blast
  then have "q \<in> set (db_operations db) \<and> op_id q = i"
    unfolding row_of_def by (rule first_match_Some)
  with r assms have "q = r" by (auto simp: table_inv_def distinct_map inj_on_def)
  with q show "row_of db i = Some r" by simp
qed

lemma update_succeeds:
  assumes inv: "table_inv (db_operations db)" and row: "row_of db (op_id n) = Some r"
    and st: "op_status c = op_status r" "op_id c = op_id n" "ValidStatusChange (op_status r) (op_status n)"
    and ok: "op_progress n = None" "check_row (updated_row n r)" "active (updated_row n r) \<longrightarrow> active r"
  shows "\<exists>db'. UpdateOperation msg db c n = Inr db' \<and> table_inv (db_operations db')
      \<and> row_of db' (op_id n) = Some (updated_row n r) \<and> (\<forall>i. i \<noteq> op_id n \<longrightarrow> row_of db' i = row_of db i)"
proof -
  from row inv have r: "r \<in> set (db_operations db)" "op_id r = op_id n" by (simp_all add: row_of_mem)
  then obtain xs ys where rows: "db_operations db = xs @ r # ys" by (meson split_list)
  have d: "distinct (map op_id (xs @ r # ys))" using inv by (simp add: table_inv_def rows)
  have other: "\<forall>q \<in> set (xs @ ys). op_id q \<noteq> op_id r" using d by (auto simp: image_iff)
  have match: "filter (update_matches c n) (db_operations db) = [r]"
    using other r(2) st(1) by (auto simp: update_matches_def rows filter_empty_conv)
  then have first: "first_match (update_matches c n) (db_operations db) = Some r"
    by (simp add: first_match_filter)
  have others: "filter (\<lambda>q. op_id q \<noteq> op_id n) (db_operations db) = xs @ ys"
    using other r(2) by (auto simp: rows filter_id_conv)
  have oa: "one_active host_mutation (xs @ r # ys)" "one_active installation_mutation (xs @ r # ys)"
    "one_active instance_mutation (xs @ r # ys)"
    using inv by (simp_all add: table_inv_def rows)
  have "op_id (updated_row n r) \<notin> op_id ` set (xs @ ys)"
    "op_idempotency_key (updated_row n r) \<notin> op_idempotency_key ` set (xs @ ys)"
    using inv by (auto simp: table_inv_def rows)
  then have "constraint_failure (xs @ ys) (updated_row n r) = None"
    unfolding constraint_failure_None
    using ok(2) no_index_violation [OF oa(1)] no_index_violation [OF oa(2)] no_index_violation [OF oa(3)]
      class_updated [OF ok(3)] by blast
  then have "update_failure (db_operations db) c n = None"
    by (simp add: update_failure_def first others)
  then obtain db' where up: "UpdateOperation msg db c n = Inr db'"
    using match st ok(1) by (auto simp: UpdateOperation_def)
  then have "try_update msg db (c, n) = Some db'" by (simp add: try_update_def)
  from op_rows.load_save [OF inv TrueI this] up row update_keeps_table [OF inv up] show ?thesis
    by (simp add: rewritten_def)
qed

lemma GetOperation_Inr:
  assumes "table_inv (db_operations db)"
  shows "GetOperation db i = Inr r \<longleftrightarrow> row_of db i = Some r"
proof -
  have clean: "op_progress q = None" if "q \<in> set (db_operations db)" for q
    using assms that by (simp add: table_inv_def)
  show ?thesis
  proof (cases "filter (\<lambda>r. op_id r = i) (db_operations db)")
    case Nil
    then show ?thesis by (simp add: GetOperation_def row_of_def first_match_filter)
  next
    case (Cons q qs)
    then have "q \<in> set (db_operations db)" by (metis filter_is_subset list.set_intros(1) subsetD)
    with Cons clean show ?thesis
      by (simp add: GetOperation_def row_of_def first_match_filter scanOperation_def)
  qed
qed

lemma stored_row:
  assumes "table_inv (db_operations db)" and "row_of db i = Some r"
  shows "op_id r = i" "op_progress r = None" "check_row r"
  using assms by (simp_all add: row_of_mem) (simp_all add: table_inv_def)

subsection \<open>Handlers change rows only through the table\<close>

lemma emit_fields [simp]:
  "ss_db (emitOperation now p n cr s) = ss_db s" "ss_fs (emitOperation now p n cr s) = ss_fs s"
  "ss_inventory (emitOperation now p n cr s) = ss_inventory s"
  "ss_gate (emitOperation now p n cr s) = ss_gate s"
  "ss_workers (emitOperation now p n cr s) = ss_workers s"
  by (simp_all add: emitOperation_def Let_def)

lemma persistUpdate_fields [simp]:
  "ss_fs (fst (persistUpdate c now s cu n)) = ss_fs s"
  "ss_inventory (fst (persistUpdate c now s cu n)) = ss_inventory s"
  "ss_gate (fst (persistUpdate c now s cu n)) = ss_gate s"
  "ss_workers (fst (persistUpdate c now s cu n)) = ss_workers s"
  by (simp_all add: persistUpdate_def split: sum.splits)

lemma persistUpdate_cases:
  obtains (unchanged) "fst (persistUpdate c now s cu n) = s" "snd (persistUpdate c now s cu n) \<noteq> None"
  | (updated) db where "UpdateOperation (sc_message c) (ss_db s) cu n = Inr db"
      "ss_db (fst (persistUpdate c now s cu n)) = db" "snd (persistUpdate c now s cu n) = None"
  by (cases "sc_fail_stage_projection c \<and> op_status cu = op_status n";
      cases "UpdateOperation (sc_message c) (ss_db s) cu n")
    (simp_all add: persistUpdate_def)

lemma persist_succeeds:
  assumes "table_inv (db_operations (ss_db s))" and "row_of (ss_db s) (op_id n) = Some r"
    and "op_status cu = op_status r" "op_id cu = op_id n" "ValidStatusChange (op_status r) (op_status n)"
    and "op_progress n = None" "check_row (updated_row n r)" "active (updated_row n r) \<longrightarrow> active r"
    and "op_status r \<noteq> op_status n \<or> \<not> sc_fail_stage_projection c"
  shows "snd (persistUpdate c now s cu n) = None
    \<and> table_inv (db_operations (ss_db (fst (persistUpdate c now s cu n))))
    \<and> row_of (ss_db (fst (persistUpdate c now s cu n))) (op_id n) = Some (updated_row n r)"
proof -
  from update_succeeds [OF assms(1-8), of "sc_message c"] obtain db' where
    "UpdateOperation (sc_message c) (ss_db s) cu n = Inr db'" "table_inv (db_operations db')"
    "row_of db' (op_id n) = Some (updated_row n r)" by blast
  with assms(3,9) show ?thesis by (auto simp: persistUpdate_def)
qed

subsection \<open>The transaction decides what is read\<close>

lemma linked_cong:
  "ss_fs s' = ss_fs s \<Longrightarrow> op_transaction_id v' = op_transaction_id v
   \<Longrightarrow> loadLinkedTransaction c s' v' = loadLinkedTransaction c s v"
  by (cases "sc_store c") (simp_all add: loadLinkedTransaction_def)

lemma project_succeeded_row:
  assumes inv: "table_inv (db_operations (ss_db s))" and row: "row_of (ss_db s) i = Some r"
    and st: "op_status r \<noteq> StatusPending" and np: "\<not> sc_fail_stage_projection c"
  shows "\<exists>s' v. project_succeeded c now s r = (s', v) \<and> op_status v = StatusSucceeded
      \<and> op_stage v = StageCleanup \<and> op_transaction_id v = op_transaction_id r \<and> ss_fs s' = ss_fs s
      \<and> table_inv (db_operations (ss_db s')) \<and> row_of (ss_db s') i = Some v"
proof -
  obtain n where n: "n = started_at_or now
      (r\<lparr>op_status := StatusSucceeded, op_stage := StageCleanup, op_error_code := [],
         op_retryable := False, op_completed_at := Some now, op_updated_at := now\<rparr>)" by blast
  note r = stored_row [OF inv row]
  have same: "updated_row n r = n"
    using r(2) by (cases r) (simp add: n updated_row_def started_at_or_def)
  have f: "op_id n = i" "op_status n = StatusSucceeded" "op_progress n = None" "op_stage n = StageCleanup"
    "op_completed_at n = Some now" "op_transaction_id n = op_transaction_id r"
    using r by (simp_all add: n started_at_or_def)
  have "ValidStatusChange (op_status r) StatusSucceeded"
    using st by (simp add: status_change_characterised)
  moreover have "check_row n" "\<not> active n" using f by (simp_all add: check_row_def active_def)
  ultimately have "snd (persistUpdate c now s r n) = None
      \<and> table_inv (db_operations (ss_db (fst (persistUpdate c now s r n))))
      \<and> row_of (ss_db (fst (persistUpdate c now s r n))) (op_id n) = Some (updated_row n r)"
    using inv row f r np by (intro persist_succeeds) (simp_all add: same)
  moreover have "project_succeeded c now s r = (fst (persistUpdate c now s r n), n)"
    unfolding project_succeeded_def Let_def n ..
  ultimately show ?thesis using f same by simp
qed

lemma project_committed_row:
  assumes inv: "table_inv (db_operations (ss_db s))" and row: "row_of (ss_db s) i = Some r"
    and np: "\<not> sc_fail_stage_projection c"
  shows "\<exists>s' v. project_committed c now s r = (s', v) \<and> op_status v = StatusSucceeded
      \<and> op_stage v = StageCleanup \<and> op_transaction_id v = op_transaction_id r \<and> ss_fs s' = ss_fs s
      \<and> table_inv (db_operations (ss_db s')) \<and> row_of (ss_db s') i = Some v"
proof (cases "op_status r = StatusPending")
  case False
  then show ?thesis
    using project_succeeded_row [OF inv row False np] inv row unfolding project_committed_def by auto
next
  case True
  obtain n where n: "n = r\<lparr>op_stage := StageCleanup, op_status := StatusRunning,
      op_started_at := Some now, op_updated_at := now\<rparr>" by blast
  note r = stored_row [OF inv row]
  have same: "updated_row n r = n" using r(2) by (cases r) (simp add: n updated_row_def)
  have "op_completed_at r = None" using r(3) True by (simp add: check_row_def)
  then have f: "op_id n = i" "op_status n = StatusRunning" "op_progress n = None" "check_row n"
    "op_transaction_id n = op_transaction_id r" "active r"
    using r True by (simp_all add: n check_row_def active_def)
  have "snd (persistUpdate c now s r n) = None
      \<and> table_inv (db_operations (ss_db (fst (persistUpdate c now s r n))))
      \<and> row_of (ss_db (fst (persistUpdate c now s r n))) (op_id n) = Some (updated_row n r)"
    using inv row f r True
    by (intro persist_succeeds) (simp_all add: same status_machine_defs)
  then obtain s1 where s1: "persistUpdate c now s r n = (s1, None)" "table_inv (db_operations (ss_db s1))"
    "row_of (ss_db s1) i = Some n"
    by (cases "persistUpdate c now s r n") (simp add: same f)
  have run: "project_committed c now s r = project_succeeded c now s1 n"
    using True s1(1) by (simp add: project_committed_def n)
  have "ss_fs s1 = ss_fs s" using persistUpdate_fields(1) [of c now s r n] s1(1) by simp
  with project_succeeded_row [OF s1(2,3) _ np, of now] f show ?thesis by (simp add: run)
qed

text \<open>
  An install whose transaction is COMMITTED reads as SUCCEEDED at stage cleanup, whatever its
  row said (a row still PENDING, or wrongly FAILED or CANCELLED): \<open>Get\<close> returns that, has
  repaired the stored row to the very same value, and reading again changes nothing more.
\<close>

theorem committed_install_reads_succeeded:
  assumes "table_inv (db_operations (ss_db s))" and "row_of (ss_db s) i = Some r"
    and "loadLinkedTransaction c s r = Some t" and "tx_state t = StateCommitted"
    and "\<not> sc_fail_stage_projection c"
  shows "\<exists>s' v. Get c now s i = (s', Inr v) \<and> op_status v = StatusSucceeded \<and> op_stage v = StageCleanup
      \<and> row_of (ss_db s') i = Some v \<and> Get c now' s' i = (s', Inr v)"
proof -
  from project_committed_row [OF assms(1,2,5), of now] obtain s' v where p:
    "project_committed c now s r = (s', v)" "op_status v = StatusSucceeded" "op_stage v = StageCleanup"
    "op_transaction_id v = op_transaction_id r" "ss_fs s' = ss_fs s"
    "table_inv (db_operations (ss_db s'))" "row_of (ss_db s') i = Some v" by blast
  have read: "GetOperation (ss_db s) i = Inr r" "GetOperation (ss_db s') i = Inr v"
    using assms(1,2) p(6,7) by (simp_all add: GetOperation_Inr)
  have "loadLinkedTransaction c s' v = Some t" using linked_cong [OF p(5,4)] assms(3) by simp
  then have "Get c now' s' i = (s', Inr v)"
    using assms(4) p(2,3) by (simp add: Get_def read projectOperation_def project_committed_def)
  moreover have "Get c now s i = (s', Inr v)"
    using assms(3,4) p(1) by (simp add: Get_def read projectOperation_def)
  ultimately show ?thesis using p by blast
qed

subsection \<open>The handlers as a transition system\<close>

text \<open>
  One step of the service: a handler, a part of a running worker, or the host changing the file
  tree, the gate or the installations behind the service's back. A worker works on its own copy of
  the row, which may be stale: any copy is allowed here. The workers of prerequisites run for
  prerequisite rows.
\<close>

definition prerequisite_row :: "service_state \<Rightarrow> string \<Rightarrow> bool" where
  "prerequisite_row s i \<longleftrightarrow>
     (\<forall>r \<in> set (db_operations (ss_db s)). op_id r = i \<longrightarrow> op_kind r = TypeHermesPrerequisites)"

inductive service_step :: "service_config \<Rightarrow> service_state \<Rightarrow> service_state \<Rightarrow> bool"
  for c :: service_config where
  start: "service_step c s (fst (Start c si s kind key))"
| start_prerequisites: "service_step c s (fst (StartPrerequisites c si s key))"
| get: "service_step c s (fst (Get c now s i))"
| cancel: "service_step c s (fst (Cancel c now s i))"
| interrupt: "service_step c s (fst (InterruptStale c now s))"
| begin_worker: "service_step c s (fst (execute_begin c now target s started))"
| report: "service_step c s (fst (execute_report c now g warning s current))"
| apply_failed: "service_step c s (execute_apply_failed c now err s i)"
| finish: "service_step c s (execute_finish c now rnd detected s current)"
| begin_prerequisites: "prerequisite_row s (op_id started) \<Longrightarrow>
    service_step c s (fst (prerequisites_begin c now s started))"
| finish_prerequisites: "prerequisite_row s (op_id current) \<Longrightarrow>
    service_step c s (prerequisites_finish c now result s current)"
| host: "service_step c s (s\<lparr>ss_fs := fs, ss_gate := g, ss_inventory := iv\<rparr>)"

definition settled_badly :: "status \<Rightarrow> bool" where
  "settled_badly st \<longleftrightarrow> st = StatusFailed \<or> st = StatusCancelled"

text \<open>The state of affairs that must last: an install owned by its transaction is not marked failed.\<close>

definition good_install :: "service_config \<Rightarrow> string \<Rightarrow> service_state \<Rightarrow> bool" where
  "good_install c i s \<longleftrightarrow>
     table_inv (db_operations (ss_db s))
     \<and> (\<exists>r. row_of (ss_db s) i = Some r \<and> op_kind r = TypeRuntimeInstall
          \<and> \<not> settled_badly (op_status r) \<and> filesystemOwnsOperation c s r)"

lemma owned_cong:
  "ss_fs s' = ss_fs s \<Longrightarrow> op_transaction_id v' = op_transaction_id v
   \<Longrightarrow> filesystemOwnsOperation c s' v' = filesystemOwnsOperation c s v"
  by (simp add: filesystemOwnsOperation_def linked_cong [of s' s v' v])

text \<open>
  What a copy of a row may carry without endangering the install: it is of another row, it does
  not carry a bad status, or it does not change the status.
\<close>

definition harmless :: "string \<Rightarrow> operation \<Rightarrow> operation \<Rightarrow> bool" where
  "harmless i cu n \<longleftrightarrow> op_id n \<noteq> i \<or> \<not> settled_badly (op_status n) \<or> op_status cu = op_status n"

lemma update_good:
  assumes "good_install c i s" and "UpdateOperation msg (ss_db s) cu n = Inr db" and "harmless i cu n"
    and "ss_db s' = db" "ss_fs s' = ss_fs s"
  shows "good_install c i s'"
proof -
  from assms(1) obtain r where inv: "table_inv (db_operations (ss_db s))"
    and r: "row_of (ss_db s) i = Some r" "op_kind r = TypeRuntimeInstall"
      "\<not> settled_badly (op_status r)" "filesystemOwnsOperation c s r"
    by (auto simp: good_install_def)
  have inv': "table_inv (db_operations db)" using inv assms(2) by (rule update_keeps_table)
  have "try_update msg (ss_db s) (cu, n) = Some db" by (simp add: try_update_def assms(2))
  note up = op_rows.load_save [OF inv TrueI this, of i]
  show ?thesis
  proof (cases "op_id n = i")
    case False
    with up r have "row_of db i = Some r" by simp
    with inv' r assms(4,5) owned_cong [OF assms(5), of r r c] show ?thesis
      by (auto simp: good_install_def)
  next
    case True
    with up r have row: "row_of db i = Some (updated_row n r)" by (simp add: rewritten_def)
    from UpdateOperation_Inr [OF assms(2) inv] obtain q where
      "q \<in> set (db_operations (ss_db s))" "op_id q = op_id n" "op_status q = op_status cu"
      by (metis in_set_conv_decomp)
    moreover from this True have "row_of (ss_db s) i = Some q" by (simp add: row_of_mem [OF inv])
    ultimately have "op_status r = op_status cu" using r(1) by simp
    with r(3) assms(3) True have "\<not> settled_badly (op_status n)" by (auto simp: harmless_def)
    with inv' row r assms(4,5) owned_cong [OF assms(5), of "updated_row n r" r c] show ?thesis
      by (auto simp: good_install_def)
  qed
qed

lemma persist_good:
  assumes "good_install c i s" and "harmless i cu n"
  shows "good_install c i (fst (persistUpdate c now s cu n))"
  by (cases rule: persistUpdate_cases [of c now s cu n])
    (use assms update_good [OF assms(1) _ assms(2)] in auto)

lemma good_cong:
  "ss_db s' = ss_db s \<Longrightarrow> ss_fs s' = ss_fs s \<Longrightarrow> good_install c i s' = good_install c i s"
  by (simp add: good_install_def owned_cong [of s' s r r c for r])

lemma stop_good [simp]: "good_install c i (stopWorker j s) = good_install c i s"
  by (rule good_cong) (simp_all add: stopWorker_def)

lemma bind_good [simp]: "good_install c i (bind_worker j s) = good_install c i s"
  by (rule good_cong) (simp_all add: bind_worker_def)

lemma emit_good [simp]: "good_install c i (emitOperation now p n cr s) = good_install c i s"
  by (rule good_cong) simp_all

text \<open>A copy that was read from the row carries its transaction, so it is owned as well.\<close>

definition faithful :: "service_config \<Rightarrow> string \<Rightarrow> service_state \<Rightarrow> operation \<Rightarrow> bool" where
  "faithful c i s v \<longleftrightarrow> op_id v = i \<longrightarrow> op_kind v = TypeRuntimeInstall \<and> filesystemOwnsOperation c s v"

lemma read_faithful:
  assumes "good_install c i s" and "GetOperation (ss_db s) j = Inr v"
  shows "faithful c i s v"
proof -
  from assms(1) obtain r where inv: "table_inv (db_operations (ss_db s))"
    and r: "row_of (ss_db s) i = Some r" "op_kind r = TypeRuntimeInstall" "filesystemOwnsOperation c s r"
    by (auto simp: good_install_def)
  from assms(2) inv have v: "row_of (ss_db s) j = Some v" by (simp add: GetOperation_Inr)
  then have "op_id v = j" using inv by (simp add: row_of_mem)
  with v r show ?thesis by (auto simp: faithful_def)
qed

lemma faithful_cong: "ss_fs s' = ss_fs s \<Longrightarrow> faithful c i s' v = faithful c i s v"
  using owned_cong [of s' s v v c] by (simp add: faithful_def)

lemma project_succeeded_good:
  "good_install c i s \<Longrightarrow> good_install c i (fst (project_succeeded c now s v))"
  by (auto simp: project_succeeded_def Let_def harmless_def settled_badly_def started_at_or_def
      intro!: persist_good)

lemma project_committed_good:
  assumes "good_install c i s"
  shows "good_install c i (fst (project_committed c now s v))"
proof -
  have "good_install c i (fst (persistUpdate c now s v
      (v\<lparr>op_stage := StageCleanup, op_status := StatusRunning, op_started_at := Some now, op_updated_at := now\<rparr>)))"
    using assms by (intro persist_good) (simp_all add: harmless_def settled_badly_def)
  then show ?thesis
    using assms project_succeeded_good
    by (auto simp: project_committed_def Let_def split: prod.split option.split)
qed

lemma project_good:
  assumes "good_install c i s" and "faithful c i s v"
  shows "good_install c i (fst (projectOperation c now s v))"
proof (cases "loadLinkedTransaction c s v")
  case (Some t)
  have owned: "op_id v = i \<Longrightarrow> tx_state t = StateActivating \<or> tx_state t = StateCommitted"
    using assms(2) Some by (simp add: faithful_def filesystemOwnsOperation_def)
  have "good_install c i (fst (persistUpdate c now s v n))" if "harmless i v n" for n
    using assms(1) that by (rule persist_good)
  moreover have "harmless i v n" if "op_status n = StatusRunning \<or> op_status n = op_status v" for n
    using that by (auto simp: harmless_def settled_badly_def)
  moreover have "harmless i v n" if "tx_state t = StateFailed" "op_id n = op_id v" for n
    using that owned by (auto simp: harmless_def)
  ultimately show ?thesis
    using Some assms(1) project_committed_good
    by (auto simp: projectOperation_def Let_def started_at_or_def)
qed (use assms in \<open>simp add: projectOperation_def\<close>)

lemma fail_install_good:
  assumes "good_install c i s"
  shows "good_install c i (fail_install c now s j code retry)"
proof (cases "GetOperation (ss_db s) j")
  case (Inr v)
  have f: "faithful c i s v" using assms Inr by (rule read_faithful)
  have "good_install c i (fst (persistUpdate c now s v (failed_operation now code retry v)))"
    if "\<not> filesystemOwnsOperation c s v"
    using assms f that by (intro persist_good) (auto simp: harmless_def faithful_def failed_operation_def)
  with Inr assms project_good [OF assms f] show ?thesis by (simp add: fail_install_def)
qed (use assms in \<open>simp add: fail_install_def\<close>)

lemma cancelled_good:
  assumes "good_install c i s" and "faithful c i s v" and "\<not> filesystemOwnsOperation c s v"
  shows "good_install c i (fst (persistUpdate c now s v (cancelled_operation now v)))"
  using assms by (intro persist_good) (auto simp: harmless_def faithful_def cancelled_operation_def)

lemma running_good:
  "good_install c i s \<Longrightarrow> good_install c i (fst (persistUpdate c now s v (running_operation now v)))"
  by (intro persist_good) (simp_all add: harmless_def settled_badly_def running_operation_def)

lemma report_good:
  assumes "good_install c i s"
  shows "good_install c i (fst (execute_report c now g warning s v))"
proof -
  have "good_install c i (fst (persistUpdate c now s v (reported_operation now g warning v)))"
    using assms by (intro persist_good) (simp_all add: harmless_def reported_operation_def)
  then show ?thesis by (auto simp: execute_report_def split: prod.split option.split)
qed

lemma begin_good:
  assumes "good_install c i s"
  shows "good_install c i (fst (execute_begin c now target s started))"
  using assms fail_install_good [OF assms] running_good [OF assms, of now started]
  by (auto simp: execute_begin_def split: option.split prod.split)

lemma apply_failed_good:
  assumes "good_install c i s"
  shows "good_install c i (execute_apply_failed c now err s j)"
proof (cases "GetOperation (ss_db s) j")
  case (Inr v)
  note f = read_faithful [OF assms Inr]
  show ?thesis
    using Inr assms project_good [OF assms f] fail_install_good [OF assms] cancelled_good [OF assms f]
    by (simp add: execute_apply_failed_def Let_def)
qed (use assms fail_install_good [OF assms] in \<open>simp add: execute_apply_failed_def\<close>)

lemma updated_row_no_progress:
  "updated_row (n\<lparr>op_progress := x\<rparr>) r = updated_row n r"
  "update_matches cu (n\<lparr>op_progress := x\<rparr>) = update_matches cu n"
  by (simp_all add: updated_row_def update_matches_def fun_eq_iff)

lemma complete_update:
  assumes "CompleteInstallSuccess db iv cu n v = Inr (db', iv')" and "op_id cu = op_id n"
  shows "UpdateOperation msg db cu (n\<lparr>op_progress := None\<rparr>) = Inr db'"
proof -
  have "update_failure (db_operations db) cu (n\<lparr>op_progress := None\<rparr>) = update_failure (db_operations db) cu n"
    unfolding update_failure_def updated_row_no_progress by (simp split: option.split)
  then show ?thesis
    using assms
    by (auto simp: CompleteInstallSuccess_def UpdateOperation_def updated_row_no_progress
        split: if_splits option.splits sum.splits)
qed

lemma succeeded_fields [simp]:
  "op_id (succeeded_operation now v) = op_id v" "op_status (succeeded_operation now v) = StatusSucceeded"
  "op_progress (succeeded_operation now v) = op_progress v"
  "op_completed_at (succeeded_operation now v) = Some now"
  by (simp_all add: succeeded_operation_def)

lemma complete_good:
  assumes good: "good_install c i s"
  shows "good_install c i (execute_complete c now rnd d sel s v)"
proof -
  let ?n = "succeeded_operation now v"
  have h: "harmless i v ?n" by (simp add: harmless_def settled_badly_def)
  have "good_install c i (s\<lparr>ss_db := db, ss_inventory := iv\<rparr>)"
    if "CompleteInstallSuccess (ss_db s) (ss_inventory s) v ?n a = Inr (db, iv)" for db iv a
  proof -
    have "UpdateOperation (sc_message c) (ss_db s) v (?n\<lparr>op_progress := None\<rparr>) = Inr db"
      using that by (intro complete_update) simp_all
    from update_good [OF good this] h show ?thesis by (simp add: harmless_def)
  qed
  then show ?thesis
    using good persist_good [OF good h] fail_install_good [OF good]
    by (auto simp: execute_complete_def Let_def split: option.split sum.split prod.split)
qed

lemma finish_good:
  assumes "good_install c i s"
  shows "good_install c i (execute_finish c now rnd detected s v)"
proof -
  note r1 = report_good [OF assms, of now StagePostcheckDiscovery "[]" v]
  show ?thesis
    using assms fail_install_good [OF r1] report_good [OF r1] complete_good
    by (auto simp: execute_finish_def Let_def split: prod.split option.split sum.split)
      (metis fst_conv report_good)+
qed

lemma scan_all_Inr: "scan_all rs = Inr vs \<Longrightarrow> vs = rs"
  by (induction rs arbitrary: vs) (auto simp: scanOperation_def bind_result_def split: if_splits sum.splits)

lemma ListOperations_rows:
  assumes "ListOperations db tt tid n = Inr ops"
  shows "set ops \<subseteq> set (db_operations db)"
proof -
  from assms have "ops = take (nat (if n \<le> 0 \<or> n > 50 then 20 else n)) (order_desc (filter
      (\<lambda>r. (case tt of None \<Rightarrow> True | Some t \<Rightarrow> op_target_type r = t) \<and> (tid = [] \<or> op_target_id r = tid))
      (db_operations db)))"
    unfolding ListOperations_def Let_def by (rule scan_all_Inr)
  then show ?thesis
    using set_take_subset by (fastforce simp: order_desc_def order_asc_def)
qed

lemma list_faithful:
  assumes "good_install c i s" and "ListOperations (ss_db s) tt tid n = Inr ops"
  shows "\<forall>v \<in> set ops. faithful c i s v"
proof
  fix v
  assume "v \<in> set ops"
  then have v: "v \<in> set (db_operations (ss_db s))" using ListOperations_rows [OF assms(2)] by blast
  have "GetOperation (ss_db s) (op_id v) = Inr v"
    using assms(1) v by (simp add: good_install_def GetOperation_Inr row_of_mem)
  with assms(1) show "faithful c i s v" by (rule read_faithful)
qed

lemma project_fs [simp]: "ss_fs (fst (projectOperation c now s v)) = ss_fs s"
  by (auto simp: projectOperation_def project_committed_def project_succeeded_def Let_def
      split: option.split prod.split) (metis fst_conv persistUpdate_fields(1))+

lemma project_each_good:
  "good_install c i s \<Longrightarrow> \<forall>v \<in> set vs. faithful c i s v
   \<Longrightarrow> good_install c i (project_each c now s vs) \<and> ss_fs (project_each c now s vs) = ss_fs s"
proof (induction vs arbitrary: s)
  case (Cons v vs)
  let ?s = "if op_kind v = TypeRuntimeInstall then fst (projectOperation c now s v) else s"
  have fs: "ss_fs ?s = ss_fs s" by simp
  have "good_install c i ?s" using Cons.prems project_good by simp
  moreover have "\<forall>w \<in> set vs. faithful c i ?s w"
    using Cons.prems(2) faithful_cong [OF fs] by simp
  ultimately show ?case using Cons.IH [of ?s] fs by simp
qed simp

lemma interrupt_good:
  "good_install c i s \<Longrightarrow> \<forall>v \<in> set vs. faithful c i s v
   \<Longrightarrow> good_install c i (fst (interrupt_stale c now s vs))"
proof (induction vs arbitrary: s)
  case (Cons v vs)
  let ?n = "interrupted_operation now v"
  have fs: "ss_fs (fst (persistUpdate c now s v ?n)) = ss_fs s" by simp
  have "good_install c i (fst (persistUpdate c now s v ?n))"
    if "\<not> (op_kind v = TypeRuntimeInstall \<and> filesystemOwnsOperation c s v)"
    using Cons.prems that by (intro persist_good) (auto simp: harmless_def faithful_def)
  moreover have "\<forall>w \<in> set vs. faithful c i (emitOperation now [] ?n False (fst (persistUpdate c now s v ?n))) w"
    using Cons.prems(2) faithful_cong [of "emitOperation now [] ?n False (fst (persistUpdate c now s v ?n))" s]
    by simp
  ultimately show ?case
    using Cons.IH [of "emitOperation now [] ?n False (fst (persistUpdate c now s v ?n))"] Cons.IH [of s] Cons.prems
    by (auto split: prod.split option.split)
qed simp

lemma interrupt_all_good:
  assumes "good_install c i s"
  shows "good_install c i (fst (InterruptStale c now s))"
proof -
  have "good_install c i (projectOpenInstalls c now s)"
  proof (cases "ListOperations (ss_db s) (Some TargetRuntimeKind) [] 50")
    case (Inr ops)
    show ?thesis
      using project_each_good [OF assms list_faithful [OF assms Inr]] Inr
      by (simp add: projectOpenInstalls_def)
  qed (use assms in \<open>simp add: projectOpenInstalls_def\<close>)
  note good = this
  show ?thesis
  proof (cases "ListOperations (ss_db (projectOpenInstalls c now s)) (Some TargetRuntimeKind) [] 50")
    case (Inr ops)
    show ?thesis
      using interrupt_good [OF good list_faithful [OF good Inr]] Inr by (simp add: InterruptStale_def Let_def)
  qed (use good in \<open>simp add: InterruptStale_def Let_def\<close>)
qed

lemma get_good:
  assumes "good_install c i s"
  shows "good_install c i (fst (Get c now s j))"
proof (cases "GetOperation (ss_db s) j")
  case (Inr v)
  then show ?thesis
    using project_good [OF assms read_faithful [OF assms Inr]] by (simp add: Get_def split: prod.split)
      (metis fst_conv)
qed (use assms in \<open>simp add: Get_def\<close>)

lemma cancel_directly_good:
  assumes "good_install c i s" and "faithful c i s v" and "\<not> filesystemOwnsOperation c s v"
  shows "good_install c i (fst (cancel_directly c now s v))"
  using cancelled_good [OF assms, of now]
  by (cases "persistUpdate c now s v (cancelled_operation now v)")
    (auto simp: cancel_directly_def split: option.split)

lemma cancel_good:
  assumes "good_install c i s"
  shows "good_install c i (fst (Cancel c now s j))"
proof (cases "GetOperation (ss_db s) j")
  case (Inr v)
  note f = read_faithful [OF assms Inr]
  have "good_install c i (s\<lparr>ss_workers := w\<rparr>)" for w
    using good_cong [of "s\<lparr>ss_workers := w\<rparr>" s] assms by simp
  then show ?thesis
    using Inr assms project_good [OF assms f] cancel_directly_good [OF assms f]
    by (auto simp: Cancel_def split: prod.split option.split) (metis fst_conv)+
qed (use assms in \<open>simp add: Cancel_def\<close>)

lemma other_row:
  assumes "good_install c i s" and "prerequisite_row s j"
  shows "j \<noteq> i"
  using assms by (auto simp: good_install_def prerequisite_row_def row_of_mem)

lemma other_good:
  "good_install c i s \<Longrightarrow> op_id n \<noteq> i \<Longrightarrow> good_install c i (fst (persistUpdate c now s cu n))"
  by (rule persist_good) (simp_all add: harmless_def)

lemma read_id: "good_install c i s \<Longrightarrow> GetOperation (ss_db s) j = Inr v \<Longrightarrow> op_id v = j"
  by (simp add: good_install_def GetOperation_Inr row_of_mem)

lemma fail_prerequisites_good:
  assumes "good_install c i s" and "j \<noteq> i"
  shows "good_install c i (fail_prerequisites c now s j code retry)"
proof (cases "GetOperation (ss_db s) j")
  case (Inr v)
  have "good_install c i (fst (persistUpdate c now s v (failed_operation now code retry v)))"
    using read_id [OF assms(1) Inr] assms by (intro other_good) (simp_all add: failed_operation_def)
  with Inr assms(1) show ?thesis by (simp add: fail_prerequisites_def)
qed (use assms in \<open>simp add: fail_prerequisites_def\<close>)

lemma prerequisites_begin_good:
  assumes "good_install c i s" and "op_id v \<noteq> i"
  shows "good_install c i (fst (prerequisites_begin c now s v))"
proof -
  obtain s1 e where p: "persistUpdate c now s v (running_operation now v) = (s1, e)" by fastforce
  then have "good_install c i s1" using running_good [OF assms(1), of now v] by simp
  then show ?thesis
    using p assms(2) fail_prerequisites_good by (cases e) (simp_all add: prerequisites_begin_def)
qed

lemma prerequisites_finish_good:
  assumes "good_install c i s" and "op_id v \<noteq> i"
  shows "good_install c i (prerequisites_finish c now result s v)"
proof (cases result)
  case None
  then show ?thesis
    using other_good [OF assms(1), of "succeeded_operation now v" now v] assms(2)
    by (simp add: prerequisites_finish_def)
next
  case (Some err)
  have "good_install c i (fst (persistUpdate c now s w (cancelled_operation now w)))"
    if "GetOperation (ss_db s) (op_id v) = Inr w" for w
    using read_id [OF assms(1) that] assms by (intro other_good) (simp_all add: cancelled_operation_def)
  then show ?thesis
    using Some assms(1) fail_prerequisites_good [OF assms]
    by (cases "GetOperation (ss_db s) (op_id v)") (simp_all add: prerequisites_finish_def Let_def)
qed

subsection \<open>Starting keeps the rows\<close>

definition good_row :: "string \<Rightarrow> service_state \<Rightarrow> bool" where
  "good_row i s \<longleftrightarrow>
     table_inv (db_operations (ss_db s))
     \<and> (\<exists>r. row_of (ss_db s) i = Some r \<and> op_kind r = TypeRuntimeInstall \<and> \<not> settled_badly (op_status r))"

definition transaction_owns :: "service_config \<Rightarrow> service_state \<Rightarrow> string \<Rightarrow> bool" where
  "transaction_owns c s i =
     (case row_of (ss_db s) i of None \<Rightarrow> False | Some r \<Rightarrow> filesystemOwnsOperation c s r)"

lemma good_install_iff: "good_install c i s \<longleftrightarrow> good_row i s \<and> transaction_owns c s i"
  by (auto simp: good_install_def good_row_def transaction_owns_def)

lemma good_row_cong: "ss_db s' = ss_db s \<Longrightarrow> good_row i s' = good_row i s"
  by (simp add: good_row_def)

lemma create_good:
  assumes "good_row i s" and "CreateOperation msg (ss_db s) v = Inr db" and "ss_db s' = db"
  shows "good_row i s'"
  using assms create_keeps_table [OF _ assms(2)]
  unfolding good_row_def CreateOperation_Inr row_of_def
  by (elim conjE exE) (simp add: first_match_append)

lemma persistCreate_good: "good_row i s \<Longrightarrow> good_row i (fst (persistCreate c now s v))"
  by (auto simp: persistCreate_def split: sum.split intro: create_good)

lemma gate_db [simp]: "ss_db (fst (rejectInstallGate c s)) = ss_db s"
  by (simp add: rejectInstallGate_def split: gate.split)

lemma persistCreatedTransaction_db [simp]: "ss_db (fst (persistCreatedTransaction c si s v)) = ss_db s"
  by (simp add: persistCreatedTransaction_def split: option.split prod.split)

lemma markTransactionFailed_db [simp]: "ss_db (markTransactionFailed c now s t) = ss_db s"
  by (simp add: markTransactionFailed_def split: option.split sum.split)

lemma bind_worker_db [simp]: "ss_db (bind_worker i s) = ss_db s"
  by (simp add: bind_worker_def)

lemma start_created_good:
  assumes "good_row i s"
  shows "good_row i (fst (start_created c si s v))"
proof -
  obtain s1 r where p: "persistCreatedTransaction c si s v = (s1, r)" by fastforce
  have "ss_db s1 = ss_db s" using persistCreatedTransaction_db [of c si s v] p by simp
  then have s1: "good_row i s1" using assms good_row_cong by metis
  have "good_row i (markTransactionFailed c now s' t) = good_row i s'" for now s' t
    by (rule good_row_cong) simp
  moreover have "good_row i (bind_worker j s') = good_row i s'" for j s'
    by (rule good_row_cong) simp
  ultimately show ?thesis
    using p s1 persistCreate_good [OF s1]
    by (auto simp: start_created_def Let_def split: sum.split prod.split option.split)
      (metis fst_conv)+
qed

lemma start_good:
  assumes "good_row i s"
  shows "good_row i (fst (Start c si s kind key))"
proof -
  obtain s1 e where g: "rejectInstallGate c s = (s1, e)" by fastforce
  have "ss_db s1 = ss_db s" using gate_db [of c s] g by simp
  then have "good_row i s1" using assms good_row_cong by metis
  then show ?thesis
    using g start_created_good
    by (simp add: Start_def start_preflight_def start_admitted_def Let_def split: option.split sum.split)
qed

lemma start_prerequisites_good:
  assumes "good_row i s"
  shows "good_row i (fst (StartPrerequisites c si s key))"
proof -
  obtain s1 e where g: "rejectInstallGate c s = (s1, e)" by fastforce
  have "ss_db s1 = ss_db s" using gate_db [of c s] g by simp
  then have s1: "good_row i s1" using assms good_row_cong by metis
  have "good_row i (bind_worker j s') = good_row i s'" for j s'
    by (rule good_row_cong) simp
  then have "good_row i (fst (start_prerequisites_created c now s1 v))" for now v
    using persistCreate_good [OF s1, of c now v]
    by (auto simp: start_prerequisites_created_def split: prod.split option.split)
  then show ?thesis
    using g s1 by (simp add: StartPrerequisites_def split: option.split sum.split)
qed

lemma step_good:
  assumes "service_step c s s'" and "good_install c i s"
  shows "good_row i s'"
  using assms
proof (cases rule: service_step.cases)
  case (host fs g iv)
  with assms(2) show ?thesis by (simp add: good_install_iff good_row_def)
qed (use assms(2) start_good start_prerequisites_good get_good cancel_good interrupt_all_good begin_good
    report_good apply_failed_good finish_good prerequisites_begin_good prerequisites_finish_good other_row
    in \<open>auto simp: good_install_iff\<close>)


subsection \<open>A worker leaves its operation finished\<close>

lemma persist_row:
  assumes "table_inv (db_operations (ss_db s))" and "row_of (ss_db s) i = Some r"
  shows "table_inv (db_operations (ss_db (fst (persistUpdate c now s cu n))))
    \<and> (row_of (ss_db (fst (persistUpdate c now s cu n))) i = Some r
       \<or> op_id n = i \<and> op_status r = op_status cu
         \<and> row_of (ss_db (fst (persistUpdate c now s cu n))) i = Some (updated_row n r))"
proof (cases rule: persistUpdate_cases [of c now s cu n])
  case unchanged
  with assms show ?thesis by simp
next
  case (updated db)
  have "try_update (sc_message c) (ss_db s) (cu, n) = Some db" by (simp add: try_update_def updated(1))
  note up = op_rows.load_save [OF assms(1) TrueI this, of i]
  from UpdateOperation_Inr [OF updated(1) assms(1)] obtain q where
    q: "q \<in> set (db_operations (ss_db s))" "op_id q = op_id n" "op_status q = op_status cu"
    by (metis in_set_conv_decomp)
  then have "op_id n = i \<Longrightarrow> q = r" using assms by (metis row_of_mem option.inject)
  with q up assms(2) updated update_keeps_table [OF assms(1) updated(1)] show ?thesis
    by (auto simp: rewritten_def)
qed

definition ended :: "service_config \<Rightarrow> string \<Rightarrow> service_state \<Rightarrow> bool" where
  "ended c i s \<longleftrightarrow>
     table_inv (db_operations (ss_db s))
     \<and> (\<exists>v. row_of (ss_db s) i = Some v
          \<and> (IsTerminal (op_status v)
             \<or> (\<exists>t. loadLinkedTransaction c s v = Some t \<and> tx_state t = StateActivating)))"

lemma ended_stop [simp]: "ended c i (stopWorker j s) = ended c i s"
  by (cases "sc_store c") (simp_all add: ended_def stopWorker_def loadLinkedTransaction_def)

lemma terminal_row_ended:
  "table_inv (db_operations (ss_db s)) \<Longrightarrow> row_of (ss_db s) i = Some v \<Longrightarrow> IsTerminal (op_status v) \<Longrightarrow> ended c i s"
  by (auto simp: ended_def)

lemma end_by_update:
  assumes "table_inv (db_operations (ss_db s))" and "row_of (ss_db s) i = Some r"
    and "op_status cu = op_status r" "op_id cu = op_id n" "op_id n = i" "op_progress n = None"
    and "IsTerminal (op_status n)" "op_completed_at n = Some at" "ValidStatusChange (op_status r) (op_status n)"
    and "op_status r \<noteq> op_status n"
  shows "ended c i (fst (persistUpdate c now s cu n))"
proof -
  have "check_row (updated_row n r)" "\<not> active (updated_row n r)"
    using assms(7,8) by (auto simp: check_row_def active_def IsTerminal_def)
  then have "table_inv (db_operations (ss_db (fst (persistUpdate c now s cu n))))
      \<and> row_of (ss_db (fst (persistUpdate c now s cu n))) i = Some (updated_row n r)"
    using persist_succeeds [of s n r cu c now] assms by simp
  then show ?thesis using assms(7) by (intro terminal_row_ended [of _ _ "updated_row n r"]) auto
qed

lemma nonterminal_may_fail:
  "\<not> IsTerminal st \<Longrightarrow> settled_badly st' \<Longrightarrow> ValidStatusChange st st' \<and> st \<noteq> st' \<and> IsTerminal st'"
  by (auto simp: status_change_characterised settled_badly_def IsTerminal_def)

lemma project_ended:
  assumes "table_inv (db_operations (ss_db s))" and "row_of (ss_db s) i = Some r"
    and "filesystemOwnsOperation c s r" and "\<not> sc_fail_stage_projection c"
  shows "ended c i (fst (projectOperation c now s r))"
proof -
  from assms(3) obtain t where t: "loadLinkedTransaction c s r = Some t"
    "tx_state t = StateActivating \<or> tx_state t = StateCommitted"
    by (auto simp: filesystemOwnsOperation_def split: option.splits)
  show ?thesis
  proof (cases "tx_state t = StateCommitted")
    case True
    from project_committed_row [OF assms(1,2,4), of now] t(1) True show ?thesis
      by (auto simp: projectOperation_def ended_def IsTerminal_def)
  next
    case False
    with t(2) have act: "tx_state t = StateActivating" by simp
    have "ended c i (fst (persistUpdate c now s r n))" for n
    proof -
      from persist_row [OF assms(1,2), of c now r n] obtain v where
        v: "row_of (ss_db (fst (persistUpdate c now s r n))) i = Some v" "op_transaction_id v = op_transaction_id r"
          "table_inv (db_operations (ss_db (fst (persistUpdate c now s r n))))"
        by auto
      moreover have "loadLinkedTransaction c (fst (persistUpdate c now s r n)) v = Some t"
        using linked_cong [of "fst (persistUpdate c now s r n)" s v r c] v(2) t(1) by simp
      ultimately show ?thesis using act by (auto simp: ended_def)
    qed
    moreover have "ended c i s" using assms(1,2) t(1) act by (auto simp: ended_def)
    ultimately show ?thesis using t(1) act by (simp add: projectOperation_def Let_def)
  qed
qed

lemma fail_install_ended:
  assumes "table_inv (db_operations (ss_db s))" and "row_of (ss_db s) i = Some r"
    and "\<not> sc_fail_stage_projection c"
  shows "ended c i (fail_install c now s i code retry)"
proof -
  have read: "GetOperation (ss_db s) i = Inr r" using assms by (simp add: GetOperation_Inr)
  note r = stored_row [OF assms(1,2)]
  have "ended c i (fst (persistUpdate c now s r (failed_operation now code retry r)))"
    if "\<not> IsTerminal (op_status r)"
    using nonterminal_may_fail [OF that, of StatusFailed] r
    by (intro end_by_update [OF assms(1,2), where at = now]) (simp_all add: failed_operation_def settled_badly_def)
  then show ?thesis
    using read project_ended [OF assms(1,2) _ assms(3)] terminal_row_ended [OF assms(1,2)]
    by (simp add: fail_install_def)
qed

lemma report_row:
  assumes "table_inv (db_operations (ss_db s))" and "row_of (ss_db s) i = Some r"
    and "execute_report c now g warning s cu = (s1, cu1)"
  shows "table_inv (db_operations (ss_db s1)) \<and> op_id cu1 = op_id cu \<and> op_status cu1 = op_status cu
    \<and> op_progress cu1 = op_progress cu \<and> (\<exists>r1. row_of (ss_db s1) i = Some r1 \<and> op_status r1 = op_status r)"
proof -
  let ?n = "reported_operation now g warning cu"
  have n: "op_id ?n = op_id cu" "op_status ?n = op_status cu" "op_progress ?n = op_progress cu"
    by (simp_all add: reported_operation_def)
  have "s1 = fst (persistUpdate c now s cu ?n)" "cu1 = ?n \<or> cu1 = cu"
    using assms(3) by (auto simp: execute_report_def split: prod.splits option.splits)
  with persist_row [OF assms(1,2), of c now cu ?n] n show ?thesis by auto
qed

lemma complete_ended:
  assumes inv: "table_inv (db_operations (ss_db s))" and row: "row_of (ss_db s) (op_id cu) = Some r"
    and st: "op_status r \<noteq> StatusPending" "op_status cu = StatusRunning" "op_progress cu = None"
    and np: "\<not> sc_fail_stage_projection c"
  shows "ended c (op_id cu) (execute_complete c now rnd d sel s cu)"
proof -
  let ?n = "succeeded_operation now cu"
  have direct: "ended c (op_id cu) (fst (persistUpdate c now s cu ?n))"
  proof (cases "op_status r = StatusRunning")
    case True
    with st show ?thesis
      by (intro end_by_update [OF inv row, where at = now]) (simp_all add: status_machine_defs)
  next
    case False
    with st(1) have fin: "IsTerminal (op_status r)" by (cases "op_status r") (simp_all add: IsTerminal_def)
    from persist_row [OF inv row, of c now cu ?n] fin show ?thesis
      by (auto intro!: terminal_row_ended simp: IsTerminal_def)
  qed
  have "ended c (op_id cu) (emitOperation now p ?n False (s\<lparr>ss_db := db, ss_inventory := iv\<rparr>))"
    if "CompleteInstallSuccess (ss_db s) (ss_inventory s) cu ?n a = Inr (db, iv)" for p db iv a
  proof -
    have up: "UpdateOperation (sc_message c) (ss_db s) cu (?n\<lparr>op_progress := None\<rparr>) = Inr db"
      using that by (intro complete_update) simp_all
    then have "try_update (sc_message c) (ss_db s) (cu, ?n\<lparr>op_progress := None\<rparr>) = Some db"
      by (simp add: try_update_def)
    from op_rows.load_save [OF inv TrueI this, of "op_id cu"] row update_keeps_table [OF inv up]
    show ?thesis by (intro terminal_row_ended) (auto simp: rewritten_def IsTerminal_def)
  qed
  then show ?thesis
    using direct fail_install_ended [OF inv row np]
    by (auto simp: execute_complete_def Let_def split: option.split sum.split)
qed

text \<open>
  C10. A worker that was not stopped early leaves its operation finished: after the part of the worker that
  follows the applier's success, and after its failure (of any kind: deadline, cancellation or
  another error), the row is terminal, unless the transaction is ACTIVATING, in which case it is
  recovery that will decide it. This holds when the row was moved meanwhile by a cancel or a read.
\<close>

theorem worker_finishes_operation:
  assumes "table_inv (db_operations (ss_db s))" and "row_of (ss_db s) (op_id cu) = Some r"
    and "op_status r \<noteq> StatusPending" and "op_status cu = StatusRunning" and "op_progress cu = None"
    and "\<not> sc_fail_stage_projection c" and "\<not> sc_fail_after_committed c"
  shows "ended c (op_id cu) (execute_finish c now rnd detected s cu)
    \<and> ended c (op_id cu) (execute_apply_failed c now err s (op_id cu))"
proof
  obtain s1 cu1 where r1: "execute_report c now StagePostcheckDiscovery [] s cu = (s1, cu1)" by fastforce
  obtain s2 cu2 where r2: "execute_report c now StageCleanup [] s1 cu1 = (s2, cu2)" by fastforce
  from report_row [OF assms(1,2) r1] obtain q1 where q1: "table_inv (db_operations (ss_db s1))"
    "row_of (ss_db s1) (op_id cu) = Some q1" "op_status q1 = op_status r"
    "op_id cu1 = op_id cu" "op_status cu1 = op_status cu" "op_progress cu1 = op_progress cu" by blast
  from report_row [OF q1(1,2) r2] obtain q2 where q2: "table_inv (db_operations (ss_db s2))"
    "row_of (ss_db s2) (op_id cu) = Some q2" "op_status q2 = op_status r"
    "op_id cu2 = op_id cu" "op_status cu2 = op_status cu" "op_progress cu2 = op_progress cu"
    using q1 by auto
  have "ended c (op_id cu2) (execute_complete c now rnd d sel s2 cu2)" for d sel
    using q2 assms(3-6) by (intro complete_ended [of _ _ q2]) simp_all
  with q2(4) fail_install_ended [OF q1(1,2) assms(6)] r1 r2 assms(7)
  show "ended c (op_id cu) (execute_finish c now rnd detected s cu)"
    by (simp add: execute_finish_def Let_def split: sum.split option.split)
next
  have read: "GetOperation (ss_db s) (op_id cu) = Inr r" using assms(1,2) by (simp add: GetOperation_Inr)
  note r = stored_row [OF assms(1,2)]
  have "ended c (op_id cu) (fst (persistUpdate c now s r (cancelled_operation now r)))"
    if "\<not> IsTerminal (op_status r)"
    using nonterminal_may_fail [OF that, of StatusCancelled] r
    by (intro end_by_update [OF assms(1,2), where at = now])
      (simp_all add: cancelled_operation_def settled_badly_def)
  then show "ended c (op_id cu) (execute_apply_failed c now err s (op_id cu))"
    using read project_ended [OF assms(1,2) _ assms(6)] fail_install_ended [OF assms(1,2,6)]
      terminal_row_ended [OF assms(1,2)]
    by (simp add: execute_apply_failed_def Let_def)
qed

subsection \<open>Admission and replay\<close>

lemma key_row:
  assumes "table_inv (db_operations db)" and "r \<in> set (db_operations db)"
  shows "GetOperationByIdempotencyKey db (op_idempotency_key r) = Inr (Some r)"
proof -
  have "op_progress q = None" if "q \<in> set (db_operations db)" for q
    using assms(1) that by (simp add: table_inv_def)
  moreover have "filter (\<lambda>q. op_idempotency_key q = op_idempotency_key r) (db_operations db) = q # qs
      \<Longrightarrow> q = r" for q qs
  proof -
    assume "filter (\<lambda>q. op_idempotency_key q = op_idempotency_key r) (db_operations db) = q # qs"
    then have "q \<in> set (db_operations db)" "op_idempotency_key q = op_idempotency_key r"
      by (metis (mono_tags, lifting) filter_eq_ConsD in_set_conv_decomp)+
    with assms show "q = r" by (auto simp: table_inv_def distinct_map inj_on_def)
  qed
  moreover have "filter (\<lambda>q. op_idempotency_key q = op_idempotency_key r) (db_operations db) \<noteq> []"
    using assms(2) by (auto simp: filter_empty_conv)
  ultimately show ?thesis
    using assms(2) unfolding GetOperationByIdempotencyKey_def query_row_def
    by (auto simp: scanOperation_def bind_result_def split: list.split)
qed

lemma start_created_Inr:
  assumes "start_created c si s v = (s', Inr (w, made))"
  obtains (created) s1 t db where "made" "persistCreatedTransaction c si s v = (s1, Inr t)"
      "w = (case t of None \<Rightarrow> v | Some txn \<Rightarrow> v\<lparr>op_transaction_id := tx_id txn\<rparr>)"
      "CreateOperation (sc_message c) (ss_db s) w = Inr db" "ss_db s' = db" "ss_fs s' = ss_fs s1"
  | (replayed) "\<not> made"
proof (cases made)
  case True
  obtain s1 x where p: "persistCreatedTransaction c si s v = (s1, x)" by fastforce
  with assms obtain t where t: "x = Inr t" by (cases x) (simp_all add: start_created_def)
  let ?w = "case t of None \<Rightarrow> v | Some txn \<Rightarrow> v\<lparr>op_transaction_id := tx_id txn\<rparr>"
  obtain s2 e where q: "persistCreate c (si_now si) s1 ?w = (s2, e)" by fastforce
  have replay: "recoverCreate s3 x y \<noteq> Inr (w, True)" for s3 x y
    by (auto simp: recoverCreate_def replayIdempotent_def split: sum.split option.split)
  have db: "ss_db s1 = ss_db s" using persistCreatedTransaction_db [of c si s v] p by simp
  from assms p t q True replay have e: "e = None" "w = ?w"
    "s' = (if sc_applier c = None then s2 else bind_worker (op_id ?w) s2)"
    by (auto simp: start_created_def Let_def split: if_splits option.splits)
  with q db created [OF True p [unfolded t] e(2)] show ?thesis
    by (auto simp: persistCreate_def bind_worker_def split: sum.splits)
qed (rule replayed)

end
