(* ===== verification/Install_Start_Properties.thy ===== *)
theory Install_Start_Properties
  imports Install_Service_Properties
begin

text \<open>
  Starting an install: when it creates an operation, that a repeated request creates nothing,
  that the operation is linked to a CREATED transaction on disk; and what an accepted
  installation looks like afterwards.
\<close>

lemma gate_passes:
  "rejectInstallGate c s = (s', None) \<longleftrightarrow>
     s' = s \<and> gate_get (ss_gate s) \<in> {GateReady, GateNone}
     \<and> (\<forall>st. sc_store c = Some st \<longrightarrow> \<not> pointer_Invalid (ReadActive st (ss_fs s)))"
  by (auto simp: rejectInstallGate_def split: option.splits gate.splits)

lemma replay_not_made: "replayIdempotent v t i \<noteq> Inr (w, True)"
  by (simp add: replayIdempotent_def)

lemma replayIf_not_made: "replayIfCurrentKey s k t i e \<noteq> Inr (w, True)"
  by (auto simp: replayIfCurrentKey_def replay_not_made split: service_error.split sum.split option.split)

lemma no_active_host:
  assumes "rejectActiveHermesMutation s kind = None"
  shows "\<forall>r \<in> set (db_operations (ss_db s)). \<not> (host_mutation r \<and> targets TargetRuntimeKind kind r)"
  using assms
  by (auto simp: rejectActiveHermesMutation_def ActiveHermesHostMutation_def query_row_def host_mutation_def
      filter_empty_conv bind_result_def split: sum.splits option.splits list.splits)

lemma unused_key:
  assumes "GetOperationByIdempotencyKey db k = Inr None"
  shows "k \<notin> op_idempotency_key ` set (db_operations db)"
  using assms
  by (auto simp: GetOperationByIdempotencyKey_def query_row_def filter_empty_conv bind_result_def
      split: list.splits sum.splits)

lemma start_made:
  assumes "Start c si s kind key = (s', Inr (v, True))"
  obtains d latest i correlation v0 where
    "rejectInstallGate c s = (s, None)" "ValidateIdempotencyKey key"
    "GetOperationByIdempotencyKey (ss_db s) key = Inr None"
    "rejectActiveHermesMutation s kind = None"
    "si_detect si = Inr d" "LatestRuntimeInstall (ss_db s) kind = Inr latest"
    "pd_allow (DecideInstallPreflight d latest)"
    "newOperationID (si_rnd_id si) = Some i" "newCorrelationID (si_rnd_correlation si) = Some correlation"
    "v0 = (new_operation TypeRuntimeInstall kind i key correlation (si_now si))
            \<lparr>op_source_pin := (case sc_applier c of None \<Rightarrow> [] | Some a \<Rightarrow> ap_expected_pin a)\<rparr>"
    "start_created c si s v0 = (s', Inr (v, True))"
proof -
  obtain s1 e where g: "rejectInstallGate c s = (s1, e)" by fastforce
  with assms have e: "e = None" by (auto simp: Start_def split: option.splits)
  with g gate_passes [of c s s1] have s1: "s1 = s" by simp
  from assms g [unfolded e s1] have key: "ValidateIdempotencyKey key"
    and unused: "GetOperationByIdempotencyKey (ss_db s) key = Inr None"
    and none: "rejectActiveHermesMutation s kind = None"
    and pre: "start_preflight c si s kind key = (s', Inr (v, True))"
    by (auto simp: Start_def replay_not_made replayIf_not_made split: if_splits sum.splits option.splits)
  from pre obtain d latest where d: "si_detect si = Inr d" "LatestRuntimeInstall (ss_db s) kind = Inr latest"
    "pd_allow (DecideInstallPreflight d latest)" "start_admitted c si s kind key = (s', Inr (v, True))"
    by (auto simp: start_preflight_def Let_def split: if_splits sum.splits)
  from d(4) obtain i correlation where "newOperationID (si_rnd_id si) = Some i"
    "newCorrelationID (si_rnd_correlation si) = Some correlation"
    "start_created c si s ((new_operation TypeRuntimeInstall kind i key correlation (si_now si))
            \<lparr>op_source_pin := (case sc_applier c of None \<Rightarrow> [] | Some a \<Rightarrow> ap_expected_pin a)\<rparr>)
       = (s', Inr (v, True))"
    by (auto simp: start_admitted_def split: option.splits)
  with that g [unfolded e s1] key unused none d show ?thesis by blast
qed

lemma preflight_allow:
  "pd_allow (DecideInstallPreflight d latest) \<longleftrightarrow>
     di_state d = DiscoveryNotInstalled \<or> (di_state d = DiscoveryBrokenExecutable \<and> RetryEligible latest)"
  by (cases "di_state d") (simp_all add: DecideInstallPreflight_def Let_def)


text \<open>
  C3. Starting is idempotent: when a start created an operation, repeating it with the same key and
  Runtime returns that operation, says that nothing was created and changes no state, whatever
  the random source, the lock and discovery now deliver; and the same key for another Runtime is
  refused as a conflict.
\<close>

theorem start_is_idempotent:
  assumes "table_inv (db_operations (ss_db s))" and "Start c si s kind key = (s', Inr (v, True))"
    and "rejectInstallGate c s' = (s', None)"
  shows "Start c si2 s' kind key = (s', Inr (v, False))
    \<and> (kind2 \<noteq> kind \<longrightarrow> Start c si2 s' kind2 key = (s', Inl (Rejected ErrorIdempotencyKeyConflict False [])))"
  using assms(2)
proof (rule start_made)
  fix i correlation v0
  assume key: "ValidateIdempotencyKey key"
    and v0: "v0 = (new_operation TypeRuntimeInstall kind i key correlation (si_now si))
            \<lparr>op_source_pin := (case sc_applier c of None \<Rightarrow> [] | Some a \<Rightarrow> ap_expected_pin a)\<rparr>"
    and run: "start_created c si s v0 = (s', Inr (v, True))"
  from run show ?thesis
  proof (cases rule: start_created_Inr)
    case (created s1 t db)
    then have v: "op_idempotency_key v = key" "op_kind v = TypeRuntimeInstall"
      "op_target_type v = TargetRuntimeKind" "op_target_id v = kind"
      by (cases t; simp add: v0 new_operation_def)+
    have "table_inv (db_operations (ss_db s'))" "v \<in> set (db_operations (ss_db s'))"
      using create_keeps_table [OF assms(1) created(4)] created(4,5) by (auto simp: CreateOperation_Inr)
    from key_row [OF this] v have "GetOperationByIdempotencyKey (ss_db s') key = Inr (Some v)" by simp
    with assms(3) key v show ?thesis by (simp add: Start_def replayIdempotent_def)
  qed simp
qed

subsection \<open>The transaction behind a created operation\<close>

lemma lock_paths:
  "LockPath st \<noteq> []" "butlast (LockPath st) = ControlDir st" "TransactionsDir st \<noteq> LockPath st"
  "TransactionsDir st @ [x] \<noteq> LockPath st"
  by (simp_all add: LockPath_def TransactionsDir_def dirTransactions_def fileLock_def)

lemma put_lock_lstat:
  assumes ok: "fs_ok fs" and dir: "is_dir fs (TransactionsDir st)" and new: "map_of fs (LockPath st) = None"
  shows "fs_ok (put (LockPath st) (File b) fs)"
    and "lstat (put (LockPath st) (File b) fs) (TransactionsDir st @ [x]) = lstat fs (TransactionsDir st @ [x])"
proof -
  have "is_dir fs (ControlDir st)"
    using dir dir_prefix [OF ok, of "ControlDir st" "[dirTransactions]"] by (simp add: TransactionsDir_def)
  then show ok': "fs_ok (put (LockPath st) (File b) fs)"
    using ok new lock_paths by (intro fs_ok_put) simp_all
  have "is_dir (put (LockPath st) (File b) fs) (TransactionsDir st)"
    using dir lock_paths(3) [of st] by (simp add: is_dir_iff map_of_put)
  from lstat_in_dir [OF ok' this] lstat_in_dir [OF ok dir] lock_paths(4) [of st x]
  show "lstat (put (LockPath st) (File b) fs) (TransactionsDir st @ [x]) = lstat fs (TransactionsDir st @ [x])"
    by (simp add: map_of_put)
qed

lemma lstat_absent: "lstat fs p = Inl ErrNotExist \<Longrightarrow> map_of fs p = None"
  by (auto simp: lstat_def split: option.splits if_splits)

lemma lock_effect:
  assumes "AcquireLock st l fs = (fs', None)" and ok: "fs_ok fs"
  shows "fs_ok fs'" and "LoadTransaction st fs' i = LoadTransaction st fs i"
proof -
  obtain fs1 where ens: "EnsureControl st fs = (fs1, None)"
    using assms(1) by (auto simp: AcquireLock_def split: prod.splits option.splits)
  from EnsureControl_cases [OF ens ok] have ok1: "fs_ok fs1"
    and dir: "is_dir fs1 (TransactionsDir st)"
    and same: "lstat fs (TransactionsDir st @ [x]) = lstat fs1 (TransactionsDir st @ [x])" for x
    by auto
  from assms(1) ens have "fs' = fs1 \<or> lstat fs1 (LockPath st) = Inl ErrNotExist
      \<and> fs' = put (LockPath st) (File (Bytes [])) fs1"
    by (auto simp: AcquireLock_def split: option.splits sum.splits node.splits install_error.splits if_splits)
  moreover have "fs_ok fs' \<and> LoadTransaction st fs' i = LoadTransaction st fs i" if "fs' = fs1"
    using that ok1 same LoadTransaction_cong [of fs1 st fs i] by simp
  moreover have "fs_ok fs' \<and> LoadTransaction st fs' i = LoadTransaction st fs i"
    if new: "lstat fs1 (LockPath st) = Inl ErrNotExist" and fs': "fs' = put (LockPath st) (File (Bytes [])) fs1"
  proof
    note put = put_lock_lstat [OF ok1 dir lstat_absent [OF new], of "Bytes []"]
    from put(1) show "fs_ok fs'" by (simp add: fs')
    show "LoadTransaction st fs' i = LoadTransaction st fs i"
      by (rule LoadTransaction_cong) (simp add: fs' put(2) same)
  qed
  ultimately show "fs_ok fs'" and "LoadTransaction st fs' i = LoadTransaction st fs i" by blast+
qed

lemma create_transaction_effect:
  assumes "create_transaction c st si v fs = (fs', Inr (Some t))" and ok: "fs_ok fs"
    and utf: "list_all ValidString [op_target_id v, op_id v, op_source_pin v,
                case sc_applier c of None \<Rightarrow> [] | Some a \<Rightarrow> ap_expected_version a]"
    and ids: "\<And>x y. NewTransactionID (si_rnd_txn si) = Inr x \<Longrightarrow> NewGenerationID (si_rnd_gen si) = Inr y
                \<Longrightarrow> list_all ValidString [x, y, StagingRel x, GenerationRel y]"
  shows "LoadTransaction st fs' (tx_id t) = Inr t \<and> tx_state t = StateCreated \<and> tx_operation_id t = op_id v
    \<and> tx_runtime_kind t = op_target_id v \<and> tx_source_pin t = op_source_pin v"
proof -
  from assms(1) obtain t0 where
    new: "NewCreatedTransaction (si_rnd_txn si) (si_rnd_gen si) (si_now si) (op_target_id v) (op_id v)
        (op_source_pin v) (case sc_applier c of None \<Rightarrow> [] | Some a \<Rightarrow> ap_expected_version a) = Inr t0"
    and save: "SaveTransaction st fs t0 = (fs', None)" and load: "LoadTransaction st fs' (tx_id t0) = Inr t"
    by (auto simp: create_transaction_def split: sum.splits prod.splits option.splits)
  from new obtain x y where xy: "NewTransactionID (si_rnd_txn si) = Inr x" "NewGenerationID (si_rnd_gen si) = Inr y"
    and t0: "tx_schema t0 = 1" "tx_id t0 = x" "tx_runtime_kind t0 = op_target_id v" "tx_operation_id t0 = op_id v"
      "tx_generation t0 = y" "tx_state t0 = StateCreated" "tx_step t0 = []" "tx_source_pin t0 = op_source_pin v"
      "tx_expected_version t0 = (case sc_applier c of None \<Rightarrow> [] | Some a \<Rightarrow> ap_expected_version a)"
      "tx_staging_rel t0 = StagingRel x" "tx_generation_rel t0 = GenerationRel y" "tx_manifest_sha t0 = []"
      "tx_seal_sha t0 = []" "tx_before_kind t0 = BeforeNone" "tx_before_generation t0 = []"
      "tx_before_digest t0 = []" "tx_error_code t0 = []"
    by (auto simp: NewCreatedTransaction_def bind_result_Inr Let_def transactionSchema_def split: option.splits)
  have empty: "ValidString []" "ValidString (kind_text BeforeNone)" "kind_of_text (kind_text BeforeNone) = BeforeNone"
    by code_simp+
  have "transaction_text t0"
    unfolding transaction_text_def t0 using utf ids [OF xy] empty by (simp add: validState_def)
  from save_success(3) [OF ok this save, of "tx_id t0"] load
  have t: "t = t0\<lparr>tx_revision := tx_revision t0 + 1\<rparr>" by simp
  then have "tx_id t = tx_id t0" by simp
  with load show ?thesis by (simp add: t t0)
qed

lemma id_alphabet_ascii: "k < 32 \<Longrightarrow> is_ascii (idAlphabet ! k)"
proof -
  have "list_all is_ascii idAlphabet" "length idAlphabet = 32" by code_simp+
  then show "k < 32 \<Longrightarrow> ?thesis" by (simp add: list_all_length)
qed

lemma url_alphabet_ascii: "k < 64 \<Longrightarrow> is_ascii (url_alphabet ! k)"
proof -
  have "list_all is_ascii url_alphabet" "length url_alphabet = 64" by code_simp+
  then show "k < 64 \<Longrightarrow> ?thesis" by (simp add: list_all_length)
qed

lemma closed_id_ascii:
  assumes "newClosedID rnd pre = Inr i" and "list_all is_ascii pre"
  shows "list_all is_ascii i"
proof -
  have "length idAlphabet = 32" by code_simp
  then show ?thesis
    using assms by (auto simp: newClosedID_def list_all_iff intro!: id_alphabet_ascii split: option.splits)
qed

lemma RawURLEncoding_ascii: "\<forall>b \<in> set bs. b < 256 \<Longrightarrow> list_all is_ascii (RawURLEncoding bs)"
  by (induction bs rule: RawURLEncoding.induct) (auto intro!: url_alphabet_ascii)

lemma prefixes_ascii:
  "list_all is_ascii txnPrefix" "list_all is_ascii genPrefix" "list_all is_ascii (dirStaging @ ''/'')"
  "list_all is_ascii (dirGenerations @ ''/'')" "list_all is_ascii ''op_''"
  by code_simp+

lemma new_ids_valid:
  assumes "NewTransactionID r1 = Inr x" "NewGenerationID r2 = Inr y"
  shows "list_all ValidString [x, y, StagingRel x, GenerationRel y]"
  using closed_id_ascii [of r1 txnPrefix x] closed_id_ascii [of r2 genPrefix y] assms prefixes_ascii
  by (auto simp: NewTransactionID_def NewGenerationID_def StagingRel_def GenerationRel_def intro!: ascii_valid)

lemma operation_id_valid:
  assumes "newOperationID rnd = Some i" and "\<And>bs. rnd = Some bs \<Longrightarrow> \<forall>b \<in> set bs. b < 256"
  shows "ValidString i"
proof -
  from assms(1) obtain bs where bs: "rnd = Some bs" "i = ''op_'' @ RawURLEncoding (take 18 bs)"
    by (auto simp: newOperationID_def)
  have "\<forall>b \<in> set (take 18 bs). b < 256" using assms(2) [OF bs(1)] by (meson in_set_takeD)
  from RawURLEncoding_ascii [OF this] prefixes_ascii(5) show ?thesis
    by (intro ascii_valid) (simp add: bs(2))
qed

text \<open>
  C26. With a managed root, an operation that a start creates is linked to a transaction that is on
  disk when the start returns: CREATED, naming that operation, its Runtime and its source pin. The row
  that the database holds carries the transaction's identifier. The hypotheses say that the file
  tree is well formed, that its transaction files are named by their contents, and that the host
  applier's texts are valid UTF-8.
\<close>

theorem created_install_is_linked:
  assumes "Start c si s kind key = (s', Inr (v, True))" and "sc_store c = Some st"
    and ok: "fs_ok (ss_fs s)"
    and disk: "\<forall>i t. stored st (ss_fs s) i = Some t \<longrightarrow> tx_id t = i \<and> transaction_text t"
    and utf: "ValidString kind" "\<forall>a. sc_applier c = Some a \<longrightarrow> ValidString (ap_expected_pin a)
               \<and> ValidString (ap_expected_version a)"
    and bytes: "\<forall>bs. si_rnd_id si = Some bs \<longrightarrow> (\<forall>b \<in> set bs. b < 256)"
  shows "\<exists>t. LoadTransaction st (ss_fs s') (op_transaction_id v) = Inr t \<and> tx_state t = StateCreated
    \<and> tx_id t = op_transaction_id v \<and> tx_operation_id t = op_id v \<and> tx_runtime_kind t = kind
    \<and> tx_source_pin t = op_source_pin v \<and> v \<in> set (db_operations (ss_db s'))"
  using assms(1)
proof (rule start_made)
  fix i correlation v0
  assume i: "newOperationID (si_rnd_id si) = Some i"
    and v0: "v0 = (new_operation TypeRuntimeInstall kind i key correlation (si_now si))
            \<lparr>op_source_pin := (case sc_applier c of None \<Rightarrow> [] | Some a \<Rightarrow> ap_expected_pin a)\<rparr>"
    and run: "start_created c si s v0 = (s', Inr (v, True))"
  have f: "op_target_id v0 = kind" "op_id v0 = i" "op_kind v0 = TypeRuntimeInstall"
    "op_source_pin v0 = (case sc_applier c of None \<Rightarrow> [] | Some a \<Rightarrow> ap_expected_pin a)"
    by (simp_all add: v0 new_operation_def)
  have empty: "ValidString []" by code_simp
  have texts: "list_all ValidString [op_target_id v0, op_id v0, op_source_pin v0,
      case sc_applier c of None \<Rightarrow> [] | Some a \<Rightarrow> ap_expected_version a]"
    using utf operation_id_valid [OF i] bytes empty unfolding f by (auto split: option.split)
  from run show ?thesis
  proof (cases rule: start_created_Inr)
    case (created s1 t db)
    from created(2) assms(2) f(3) obtain fs1 where lock: "AcquireLock st (si_lock si) (ss_fs s) = (fs1, None)"
      and make: "create_locked c st si v0 fs1 = (ss_fs s1, Inr t)"
      by (auto simp: persistCreatedTransaction_def split: prod.splits option.splits)
    note lock_ok = lock_effect [OF lock ok]
    from make obtain fs2 where fail: "FailFailableNonterminals st (si_now si) fs1 = (fs2, None)"
      and new: "create_transaction c st si v0 fs2 = (ss_fs s1, Inr t)"
      by (auto simp: create_locked_def split: if_splits prod.splits option.splits)
    have "\<forall>i t. stored st fs1 i = Some t \<longrightarrow> tx_id t = i \<and> transaction_text t"
      using disk lock_ok(2) by (simp add: stored_def)
    from failing_effect(1) [OF lock_ok(1) this fail] have ok2: "fs_ok fs2" .
    from new obtain txn where t: "t = Some txn"
      by (auto simp: create_transaction_def split: sum.splits prod.splits option.splits)
    from create_transaction_effect [OF new [unfolded t] ok2 texts new_ids_valid]
    show ?thesis using created t f by (auto simp: CreateOperation_Inr)
  qed simp
qed

subsection \<open>Concrete runs\<close>

definition sample_applier :: applier where
  "sample_applier =
     \<lparr>ap_platform_supported = True, ap_expected_pin = ''pin'', ap_expected_version = ''1'',
      ap_launcher = ''l'', ap_managed = (\<lambda>_. True)\<rparr>"

definition sample_config :: service_config where
  "sample_config =
     \<lparr>sc_store = Some sample_store, sc_applier = Some sample_applier, sc_prereq = False, sc_completer = True,
      sc_node_id = ''n'', sc_windows = True, sc_allow_non_windows = False, sc_fail_after_txn = False,
      sc_fail_stage_projection = False, sc_fail_after_committed = False, sc_clean = (\<lambda>p. p),
      sc_abs = Some, sc_message = (\<lambda>_. [])\<rparr>"

definition sample_state :: service_state where
  "sample_state =
     \<lparr>ss_db = \<lparr>db_operations = [], db_instances = []\<rparr>, ss_inventory = sample_inventory, ss_fs = sample_root,
      ss_gate = Some GateReady, ss_events = None, ss_workers = []\<rparr>"

definition sample_inputs :: start_inputs where
  "sample_inputs =
     \<lparr>si_now = 1, si_rnd_id = Some (replicate 18 0), si_rnd_correlation = Some (replicate 12 0),
      si_rnd_txn = Some (replicate 22 0), si_rnd_gen = Some (replicate 22 1), si_lock = None,
      si_detect = Inr (zero_discovery\<lparr>di_state := DiscoveryNotInstalled\<rparr>)\<rparr>"

lemma sample_start_runs:
  "case Start sample_config sample_inputs sample_state ''hermes'' ''k1'' of
     (s', Inr (v, made)) \<Rightarrow> made \<and> snd (rejectInstallGate sample_config s') = None
   | _ \<Rightarrow> False"
  by code_simp

lemma sample_start:
  obtains s' v where "Start sample_config sample_inputs sample_state ''hermes'' ''k1'' = (s', Inr (v, True))"
    and "rejectInstallGate sample_config s' = (s', None)"
proof -
  from sample_start_runs obtain s' v where
    run: "Start sample_config sample_inputs sample_state ''hermes'' ''k1'' = (s', Inr (v, True))"
    and g: "snd (rejectInstallGate sample_config s') = None"
    by (auto split: prod.splits sum.splits)
  obtain s1 where "rejectInstallGate sample_config s' = (s1, None)"
    using g by (metis prod.collapse)
  with that [OF run] show ?thesis by (simp add: gate_passes)
qed


theorem start_is_idempotent_witness:
  "\<exists>s' v. Start sample_config sample_inputs sample_state ''hermes'' ''k1'' = (s', Inr (v, True))
     \<and> Start sample_config sample_inputs s' ''hermes'' ''k1'' = (s', Inr (v, False))
     \<and> Start sample_config sample_inputs s' ''other'' ''k1'' = (s', Inl (Rejected ErrorIdempotencyKeyConflict False []))"
proof -
  obtain s' v where run: "Start sample_config sample_inputs sample_state ''hermes'' ''k1'' = (s', Inr (v, True))"
    and g: "rejectInstallGate sample_config s' = (s', None)" by (rule sample_start)
  have inv: "table_inv (db_operations (ss_db sample_state))" by (simp add: sample_state_def)
  from start_is_idempotent [OF inv run g, of sample_inputs "''other''"] run show ?thesis by auto
qed

theorem created_install_is_linked_witness:
  "\<exists>s' v t. Start sample_config sample_inputs sample_state ''hermes'' ''k1'' = (s', Inr (v, True))
     \<and> LoadTransaction sample_store (ss_fs s') (op_transaction_id v) = Inr t \<and> tx_state t = StateCreated
     \<and> tx_operation_id t = op_id v"
proof -
  obtain s' v where run: "Start sample_config sample_inputs sample_state ''hermes'' ''k1'' = (s', Inr (v, True))"
    by (rule sample_start)
  have st: "sc_store sample_config = Some sample_store" by (simp add: sample_config_def)
  have ok: "fs_ok (ss_fs sample_state)" by (simp add: sample_state_def sample_root_ok)
  have disk: "\<forall>i t. stored sample_store (ss_fs sample_state) i = Some t \<longrightarrow> tx_id t = i \<and> transaction_text t"
    by (simp add: sample_state_def sample_root_stored)
  have kind: "ValidString ''hermes''" by code_simp
  have "ValidString ''pin''" "ValidString ''1''" by code_simp+
  then have texts: "\<forall>a. sc_applier sample_config = Some a \<longrightarrow> ValidString (ap_expected_pin a)
      \<and> ValidString (ap_expected_version a)"
    by (simp add: sample_config_def sample_applier_def)
  have bytes: "\<forall>bs. si_rnd_id sample_inputs = Some bs \<longrightarrow> (\<forall>b \<in> set bs. b < 256)"
    by (simp add: sample_inputs_def)
  from created_install_is_linked [OF run st ok disk kind texts bytes] run show ?thesis by blast
qed

subsection \<open>A read between commit and completion\<close>

lemma project_inventory [simp]: "ss_inventory (fst (projectOperation c now s v)) = ss_inventory s"
  by (auto simp: projectOperation_def project_committed_def project_succeeded_def Let_def
      split: option.split prod.split) (metis fst_conv persistUpdate_fields(2))+

lemma fail_install_inventory [simp]: "ss_inventory (fail_install c now s i code retry) = ss_inventory s"
  by (simp add: fail_install_def split: sum.split)

lemma report_inventory: "execute_report c now g w s cu = (s1, cu1) \<Longrightarrow> ss_inventory s1 = ss_inventory s"
  using persistUpdate_fields(2) [of c now s cu "reported_operation now g w cu"]
  by (cases "persistUpdate c now s cu (reported_operation now g w cu)")
    (auto simp: execute_report_def split: option.splits)

lemma stale_completion:
  assumes "table_inv (db_operations (ss_db s))" and "row_of (ss_db s) (op_id cu) = Some r"
    and "op_status r \<noteq> op_status cu"
  shows "ss_inventory (execute_complete c now rnd d sel s cu) = ss_inventory s"
proof -
  have "CompleteInstallSuccess (ss_db s) (ss_inventory s) cu (succeeded_operation now cu) a \<noteq> Inr (db, iv)"
    for a db iv
  proof
    assume "CompleteInstallSuccess (ss_db s) (ss_inventory s) cu (succeeded_operation now cu) a = Inr (db, iv)"
    then have "UpdateOperation (\<lambda>_. []) (ss_db s) cu ((succeeded_operation now cu)\<lparr>op_progress := None\<rparr>) = Inr db"
      by (rule complete_update) simp
    from this assms(1) obtain xs q ys where q: "db_operations (ss_db s) = xs @ q # ys"
      "op_id q = op_id ((succeeded_operation now cu)\<lparr>op_progress := None\<rparr>)" "op_status q = op_status cu"
      by (rule UpdateOperation_Inr)
    then have "row_of (ss_db s) (op_id cu) = Some q" by (simp add: row_of_mem [OF assms(1)])
    with assms(2,3) q(3) show False by simp
  qed
  then show ?thesis
    by (auto simp: execute_complete_def Let_def split: option.split sum.split)
qed


subsection \<open>Runs with a committed and an activating transaction\<close>

definition owned_row :: operation where
  "owned_row = (sample_operation ''a'' TypeRuntimeInstall TargetRuntimeKind 1)
     \<lparr>op_status := StatusRunning, op_started_at := Some 2, op_transaction_id := sample_txn_id\<rparr>"

definition owned_state :: "txn_state \<Rightarrow> service_state" where
  "owned_state x = sample_state
     \<lparr>ss_db := \<lparr>db_operations = [owned_row], db_instances = []\<rparr>,
      ss_fs := fst (SaveTransaction sample_store sample_root
        (sample_txn\<lparr>tx_state := x, tx_manifest_sha := replicate 64 CHR ''a'', tx_seal_sha := replicate 64 CHR ''b'',
                    tx_before_kind := ActiveBeforeAbsent\<rparr>))\<rparr>"

lemma owned_linked:
  "map_option tx_state (loadLinkedTransaction sample_config (owned_state StateCommitted) owned_row) = Some StateCommitted"
  "map_option tx_state (loadLinkedTransaction sample_config (owned_state StateActivating) owned_row) = Some StateActivating"
  by code_simp+

lemma owned_table: "table_inv (db_operations (ss_db (owned_state x)))"
  "row_of (ss_db (owned_state x)) ''a'' = Some owned_row"
  by (simp_all add: owned_state_def table_inv_def one_active_def check_row_def active_def owned_row_def
      sample_operation_def row_of_def)

lemma owned_config: "\<not> sc_fail_stage_projection sample_config" "\<not> sc_fail_after_committed sample_config"
  by (simp_all add: sample_config_def)

lemma owned_row_fields: "op_id owned_row = ''a''" "op_status owned_row = StatusRunning"
  "op_kind owned_row = TypeRuntimeInstall" "op_progress owned_row = None"
  by (simp_all add: owned_row_def sample_operation_def)

theorem committed_install_reads_succeeded_witness:
  "\<exists>s' v. Get sample_config 9 (owned_state StateCommitted) ''a'' = (s', Inr v)
     \<and> op_status v = StatusSucceeded \<and> row_of (ss_db s') ''a'' = Some v"
proof -
  obtain t where "loadLinkedTransaction sample_config (owned_state StateCommitted) owned_row = Some t"
    "tx_state t = StateCommitted" using owned_linked(1) by auto
  from committed_install_reads_succeeded [OF owned_table this owned_config(1)] show ?thesis by blast
qed



theorem worker_finishes_operation_witness:
  "ended sample_config ''a'' (execute_finish sample_config 9 (Some []) (Inr zero_discovery)
     (owned_state StateCommitted) owned_row)"
proof -
  have "row_of (ss_db (owned_state StateCommitted)) (op_id owned_row) = Some owned_row"
    by (simp add: owned_table owned_row_fields)
  moreover have "op_status owned_row \<noteq> StatusPending" by (simp add: owned_row_fields)
  ultimately show ?thesis
    using worker_finishes_operation [OF owned_table(1) _ _ owned_row_fields(2,4) owned_config] owned_row_fields(1)
    by metis
qed

end
