(* ===== verification/Management_Contracts.thy ===== *)
theory Management_Contracts
  imports Runtime_Codes
begin

text \<open>
  The Runtime management contracts (runtime/management\_validation.go, management\_skills.go,
  management\_mcp.go, management\_health.go, management\_backup.go, management\_upgrade.go) and the
  registry of Runtime bundles (runtime/registry.go): the closed enumerations, the records that
  cross the boundary to an adapter, and their validation.

  Every validator fails with \<open>ErrInvalidManagementContract\<close> or a wrapping of it, so a validator
  is a predicate. An enumeration of Go strings stays a string here, because its \<open>Valid\<close> method
  is what closes it. \<open>url.Parse\<close> is a parameter.
\<close>

subsection \<open>Shared validation (management\_validation.go)\<close>

definition managementIDMaxBytes :: nat where "managementIDMaxBytes = 128"
definition managementSecretMaxBytes :: nat where "managementSecretMaxBytes = 16 * 1024"
definition managementTextMaxBytes :: nat where "managementTextMaxBytes = 4 * 1024"
definition managementCollectionLimit :: nat where "managementCollectionLimit = 256"

text \<open>
  The loop over the runes of the value. The bytes of a rune beyond ASCII are all at least 128,
  so the value has a rune outside the class exactly if it has a byte outside it.
\<close>

definition management_char :: "char \<Rightarrow> bool" where
  "management_char r \<longleftrightarrow>
     is_lower r \<or> is_upper r \<or> is_digit r \<or> r = CHR ''.'' \<or> r = CHR ''_'' \<or> r = CHR ''-''"

definition validateManagementID :: "string \<Rightarrow> bool" where
  "validateManagementID v \<longleftrightarrow>
     v \<noteq> [] \<and> length v \<le> managementIDMaxBytes \<and> ValidString v \<and> TrimSpace v = v
     \<and> list_all management_char v
     \<and> v \<noteq> ''.'' \<and> v \<noteq> ''..''"

definition validateBoundedText :: "string \<Rightarrow> bool" where
  "validateBoundedText v \<longleftrightarrow> length v \<le> managementTextMaxBytes \<and> ValidString v \<and> CHR 0x00 \<notin> set v"

definition validateSecret :: "string \<Rightarrow> bool" where
  "validateSecret v \<longleftrightarrow> length v \<noteq> 0 \<and> length v \<le> managementSecretMaxBytes"

fun unique_ids :: "string list \<Rightarrow> string list \<Rightarrow> bool" where
  "unique_ids seen [] = True"
| "unique_ids seen (v # vs) =
     (validateManagementID v \<and> v \<notin> set seen \<and> unique_ids (v # seen) vs)"

definition validateUniqueIDs :: "string list \<Rightarrow> bool" where
  "validateUniqueIDs vs \<longleftrightarrow> length vs \<le> managementCollectionLimit \<and> unique_ids [] vs"

subsection \<open>Skills (management\_skills.go)\<close>

type_synonym skill_ownership = string

definition SkillOwnershipYORVAManaged :: skill_ownership where "SkillOwnershipYORVAManaged = ''YORVA_MANAGED''"
definition SkillOwnershipExternal :: skill_ownership where "SkillOwnershipExternal = ''EXTERNAL''"
definition SkillOwnershipRuntimeBundled :: skill_ownership where "SkillOwnershipRuntimeBundled = ''RUNTIME_BUNDLED''"
definition SkillOwnershipUnknown :: skill_ownership where "SkillOwnershipUnknown = ''UNKNOWN''"

definition skill_ownership_Valid :: "skill_ownership \<Rightarrow> bool" where
  "skill_ownership_Valid s \<longleftrightarrow>
     s \<in> {SkillOwnershipYORVAManaged, SkillOwnershipExternal,
            SkillOwnershipRuntimeBundled, SkillOwnershipUnknown}"

type_synonym skill_projection_state = string

definition SkillProjectionProjected :: skill_projection_state where "SkillProjectionProjected = ''PROJECTED''"
definition SkillProjectionNotProjected :: skill_projection_state where "SkillProjectionNotProjected = ''NOT_PROJECTED''"
definition SkillProjectionDriftMissing :: skill_projection_state where "SkillProjectionDriftMissing = ''DRIFT_MISSING''"
definition SkillProjectionDriftModified :: skill_projection_state where "SkillProjectionDriftModified = ''DRIFT_MODIFIED''"
definition SkillProjectionConflict :: skill_projection_state where "SkillProjectionConflict = ''CONFLICT''"
definition SkillProjectionUnknown :: skill_projection_state where "SkillProjectionUnknown = ''UNKNOWN''"

definition skill_projection_state_Valid :: "skill_projection_state \<Rightarrow> bool" where
  "skill_projection_state_Valid s \<longleftrightarrow>
     s \<in> {SkillProjectionProjected, SkillProjectionNotProjected,
            SkillProjectionDriftMissing, SkillProjectionDriftModified,
            SkillProjectionConflict, SkillProjectionUnknown}"

type_synonym skill_installation_state = string

definition SkillInstalled :: skill_installation_state where "SkillInstalled = ''INSTALLED''"
definition SkillNotInstalled :: skill_installation_state where "SkillNotInstalled = ''NOT_INSTALLED''"
definition SkillInstallationUnknown :: skill_installation_state where "SkillInstallationUnknown = ''UNKNOWN''"

definition skill_installation_state_Valid :: "skill_installation_state \<Rightarrow> bool" where
  "skill_installation_state_Valid s \<longleftrightarrow>
     s \<in> {SkillInstalled, SkillNotInstalled, SkillInstallationUnknown}"

type_synonym skill_enabled_state = string

definition SkillEnabled :: skill_enabled_state where "SkillEnabled = ''ENABLED''"
definition SkillDisabled :: skill_enabled_state where "SkillDisabled = ''DISABLED''"
definition SkillEnabledUnknown :: skill_enabled_state where "SkillEnabledUnknown = ''UNKNOWN''"

definition skill_enabled_state_Valid :: "skill_enabled_state \<Rightarrow> bool" where
  "skill_enabled_state_Valid s \<longleftrightarrow>
     s \<in> {SkillEnabled, SkillDisabled, SkillEnabledUnknown}"

type_synonym skill_scan_state = string

definition SkillScanClean :: skill_scan_state where "SkillScanClean = ''CLEAN''"
definition SkillScanWarning :: skill_scan_state where "SkillScanWarning = ''WARNING''"
definition SkillScanBlocked :: skill_scan_state where "SkillScanBlocked = ''BLOCKED''"
definition SkillScanNotScanned :: skill_scan_state where "SkillScanNotScanned = ''NOT_SCANNED''"
definition SkillScanUnknown :: skill_scan_state where "SkillScanUnknown = ''UNKNOWN''"

definition skill_scan_state_Valid :: "skill_scan_state \<Rightarrow> bool" where
  "skill_scan_state_Valid s \<longleftrightarrow>
     s \<in> {SkillScanClean, SkillScanWarning, SkillScanBlocked, SkillScanNotScanned,
            SkillScanUnknown}"

record skill =
  sk_id :: string
  sk_source_id :: string
  sk_version :: string
  sk_description :: string
  sk_preview :: string
  sk_ownership :: skill_ownership
  sk_projection :: skill_projection_state
  sk_installation :: skill_installation_state
  sk_enabled :: skill_enabled_state
  sk_scan :: skill_scan_state
  sk_update_available :: bool

definition skill_Validate :: "skill \<Rightarrow> bool" where
  "skill_Validate s \<longleftrightarrow>
     validateManagementID (sk_id s)
     \<and> (sk_source_id s \<noteq> [] \<longrightarrow> validateManagementID (sk_source_id s))
     \<and> validateBoundedText (sk_version s)
     \<and> validateBoundedText (sk_description s)
     \<and> validateBoundedText (sk_preview s)
     \<and> \<not> ((sk_ownership s \<noteq> [] \<and> \<not> skill_ownership_Valid (sk_ownership s))
        \<or> (sk_projection s \<noteq> [] \<and> \<not> skill_projection_state_Valid (sk_projection s))
        \<or> \<not> skill_installation_state_Valid (sk_installation s)
        \<or> \<not> skill_enabled_state_Valid (sk_enabled s) \<or> \<not> skill_scan_state_Valid (sk_scan s))"

record skill_install_request =
  sir_source_id :: string

definition skill_install_Validate :: "skill_install_request \<Rightarrow> bool" where
  "skill_install_Validate r = validateManagementID (sir_source_id r)"

record skill_configure_request =
  scr_skill_id :: string
  scr_enabled :: bool

definition skill_configure_Validate :: "skill_configure_request \<Rightarrow> bool" where
  "skill_configure_Validate r = validateManagementID (scr_skill_id r)"

record native_capability =
  nc_supported :: bool
  nc_reason :: string

definition native_capability_Validate :: "native_capability \<Rightarrow> bool" where
  "native_capability_Validate c = validateBoundedText (nc_reason c)"

record native_capabilities =
  nk_inventory :: native_capability
  nk_install :: native_capability
  nk_update :: native_capability
  nk_remove :: native_capability
  nk_enable_disable :: native_capability
  nk_profile_binding :: native_capability

definition native_capabilities_Validate :: "native_capabilities \<Rightarrow> bool" where
  "native_capabilities_Validate c =
     list_all native_capability_Validate
       [nk_inventory c, nk_install c, nk_update c, nk_remove c, nk_enable_disable c,
        nk_profile_binding c]"

record skill_project_request =
  spr_skill_id :: string
  spr_source_dir :: string
  spr_source_id :: string
  spr_version :: string
  spr_content_sha256 :: string
  spr_deployment_id :: string

text \<open>\<open>hex.DecodeString\<close> of 64 bytes yields 32 bytes exactly if all are hexadecimal digits.\<close>

definition skill_project_Validate :: "skill_project_request \<Rightarrow> bool" where
  "skill_project_Validate r \<longleftrightarrow>
     validateManagementID (spr_skill_id r)
     \<and> validateBoundedText (spr_source_dir r) \<and> spr_source_dir r \<noteq> []
     \<and> validateManagementID (spr_source_id r)
     \<and> validateBoundedText (spr_version r) \<and> spr_version r \<noteq> []
     \<and> validateManagementID (spr_deployment_id r)
     \<and> class_exact is_hex 64 (spr_content_sha256 r)
     \<and> (\<forall>c \<in> set (spr_content_sha256 r). \<not> (CHR ''A'' \<le> c \<and> c \<le> CHR ''F''))"

subsection \<open>MCP servers (management\_mcp.go)\<close>

type_synonym mcp_state = string

definition MCPNotConfigured :: mcp_state where "MCPNotConfigured = ''NOT_CONFIGURED''"
definition MCPConfigured :: mcp_state where "MCPConfigured = ''CONFIGURED''"
definition MCPAuthRequired :: mcp_state where "MCPAuthRequired = ''AUTH_REQUIRED''"
definition MCPReady :: mcp_state where "MCPReady = ''READY''"
definition MCPFailed :: mcp_state where "MCPFailed = ''FAILED''"
definition MCPUnknown :: mcp_state where "MCPUnknown = ''UNKNOWN''"

definition mcp_state_Valid :: "mcp_state \<Rightarrow> bool" where
  "mcp_state_Valid s \<longleftrightarrow>
     s \<in> {MCPNotConfigured, MCPConfigured, MCPAuthRequired, MCPReady, MCPFailed,
            MCPUnknown}"

record mcp_preset =
  mp_id :: string
  mp_display_name :: string
  mp_description :: string
  mp_homepage :: string
  mp_documentation :: string
  mp_allowed_tools :: "string list"
  mp_credential_required :: bool

text \<open>What the code reads of a parsed URL.\<close>

record parsed_url =
  pu_scheme :: string
  pu_host :: string
  pu_user :: bool \<comment> \<open>user information is present\<close>
  pu_fragment :: string

definition validMCPMetadataURL :: "(string \<Rightarrow> parsed_url option) \<Rightarrow> string \<Rightarrow> bool" where
  "validMCPMetadataURL parse v \<longleftrightarrow>
     v = [] \<or>
     (case parse v of
        None \<Rightarrow> False
      | Some u \<Rightarrow> pu_scheme u = ''https'' \<and> pu_host u \<noteq> [] \<and> \<not> pu_user u \<and> pu_fragment u = [])"

definition mcp_preset_Validate :: "(string \<Rightarrow> parsed_url option) \<Rightarrow> mcp_preset \<Rightarrow> bool" where
  "mcp_preset_Validate parse p \<longleftrightarrow>
     validateManagementID (mp_id p)
     \<and> validateBoundedText (mp_display_name p)
     \<and> (mp_description p \<noteq> [] \<longrightarrow> validateBoundedText (mp_description p))
     \<and> validMCPMetadataURL parse (mp_homepage p) \<and> validMCPMetadataURL parse (mp_documentation p)
     \<and> validateUniqueIDs (mp_allowed_tools p)"

record mcp_server =
  ms_id :: string
  ms_preset_id :: string
  ms_managed :: bool
  ms_enabled_tools :: "string list"
  ms_state :: mcp_state
  ms_ready_at :: "time option"
  ms_observed_at :: time

text \<open>Ready evidence: a time exactly when the state is READY, and never the zero time.\<close>

definition ready_evidence :: "mcp_state \<Rightarrow> time option \<Rightarrow> bool" where
  "ready_evidence st at \<longleftrightarrow>
     \<not> (st = MCPReady \<and> (case at of None \<Rightarrow> True | Some t \<Rightarrow> is_zero_time t))
     \<and> \<not> (st \<noteq> MCPReady \<and> at \<noteq> None)"

definition mcp_server_Validate :: "mcp_server \<Rightarrow> bool" where
  "mcp_server_Validate s \<longleftrightarrow>
     validateManagementID (ms_id s)
     \<and> validateManagementID (ms_preset_id s)
     \<and> mcp_state_Valid (ms_state s) \<and> \<not> is_zero_time (ms_observed_at s)
     \<and> validateUniqueIDs (ms_enabled_tools s)
     \<and> ready_evidence (ms_state s) (ms_ready_at s)"

record mcp_install_request =
  mir_preset_id :: string

definition mcp_install_Validate :: "mcp_install_request \<Rightarrow> bool" where
  "mcp_install_Validate r = validateManagementID (mir_preset_id r)"

record mcp_authenticate_request =
  mar_server_id :: string
  mar_credential :: string

definition mcp_authenticate_Validate :: "mcp_authenticate_request \<Rightarrow> bool" where
  "mcp_authenticate_Validate r \<longleftrightarrow>
     validateManagementID (mar_server_id r) \<and> validateSecret (mar_credential r)"

record mcp_configure_request =
  mcr_server_id :: string
  mcr_enabled_tools :: "string list"

definition mcp_configure_Validate :: "mcp_configure_request \<Rightarrow> bool" where
  "mcp_configure_Validate r \<longleftrightarrow>
     validateManagementID (mcr_server_id r) \<and> validateUniqueIDs (mcr_enabled_tools r)"

record mcp_test_result =
  mt_server_id :: string
  mt_state :: mcp_state
  mt_tools :: "string list"
  mt_ready_at :: "time option"
  mt_tested_at :: time

definition mcp_test_Validate :: "mcp_test_result \<Rightarrow> bool" where
  "mcp_test_Validate r \<longleftrightarrow>
     validateManagementID (mt_server_id r)
     \<and> mcp_state_Valid (mt_state r) \<and> \<not> is_zero_time (mt_tested_at r)
     \<and> validateUniqueIDs (mt_tools r)
     \<and> ready_evidence (mt_state r) (mt_ready_at r)"

subsection \<open>Health, logs and security (management\_health.go)\<close>

type_synonym health_state = string

definition HealthHealthy :: health_state where "HealthHealthy = ''HEALTHY''"
definition HealthDegraded :: health_state where "HealthDegraded = ''DEGRADED''"
definition HealthUnhealthy :: health_state where "HealthUnhealthy = ''UNHEALTHY''"
definition HealthUnknown :: health_state where "HealthUnknown = ''UNKNOWN''"

definition health_state_Valid :: "health_state \<Rightarrow> bool" where
  "health_state_Valid s \<longleftrightarrow>
     s \<in> {HealthHealthy, HealthDegraded, HealthUnhealthy, HealthUnknown}"

record health_finding =
  hf_code :: string
  hf_state :: health_state

record health_observation =
  ho_state :: health_state
  ho_findings :: "health_finding list"
  ho_partial :: bool
  ho_observed_at :: time

definition health_Validate :: "health_observation \<Rightarrow> bool" where
  "health_Validate h \<longleftrightarrow>
     health_state_Valid (ho_state h) \<and> \<not> is_zero_time (ho_observed_at h)
     \<and> length (ho_findings h) \<le> managementCollectionLimit
     \<and> (\<forall>f \<in> set (ho_findings h). validateManagementID (hf_code f) \<and> health_state_Valid (hf_state f))"

type_synonym log_category = string

definition LogCategoryRuntime :: log_category where "LogCategoryRuntime = ''RUNTIME''"
definition LogCategoryErrors :: log_category where "LogCategoryErrors = ''ERRORS''"
definition LogCategoryGateway :: log_category where "LogCategoryGateway = ''GATEWAY''"
definition LogCategoryMCP :: log_category where "LogCategoryMCP = ''MCP''"

definition log_category_Valid :: "log_category \<Rightarrow> bool" where
  "log_category_Valid s \<longleftrightarrow>
     s \<in> {LogCategoryRuntime, LogCategoryErrors, LogCategoryGateway, LogCategoryMCP}"

record log_entry =
  le_timestamp :: time
  le_message :: string

record log_snapshot =
  ls_category :: log_category
  ls_entries :: "log_entry list"
  ls_truncated :: bool
  ls_observed_at :: time

fun log_entries_ok :: "nat \<Rightarrow> log_entry list \<Rightarrow> bool" where
  "log_entries_ok sofar [] = True"
| "log_entries_ok sofar (e # es) =
     (\<not> is_zero_time (le_timestamp e) \<and> validateBoundedText (le_message e)
      \<and> sofar + length (le_message e) \<le> 64 * 1024
      \<and> log_entries_ok (sofar + length (le_message e)) es)"

definition log_snapshot_Validate :: "log_snapshot \<Rightarrow> bool" where
  "log_snapshot_Validate s \<longleftrightarrow>
     log_category_Valid (ls_category s) \<and> \<not> is_zero_time (ls_observed_at s)
     \<and> length (ls_entries s) \<le> managementCollectionLimit
     \<and> log_entries_ok 0 (ls_entries s)"

type_synonym security_audit_state = string

definition SecurityAuditClean :: security_audit_state where "SecurityAuditClean = ''CLEAN''"
definition SecurityAuditWarning :: security_audit_state where "SecurityAuditWarning = ''WARNING''"
definition SecurityAuditBlocked :: security_audit_state where "SecurityAuditBlocked = ''BLOCKED''"
definition SecurityAuditUnknown :: security_audit_state where "SecurityAuditUnknown = ''UNKNOWN''"

definition security_audit_state_Valid :: "security_audit_state \<Rightarrow> bool" where
  "security_audit_state_Valid s \<longleftrightarrow>
     s \<in> {SecurityAuditClean, SecurityAuditWarning, SecurityAuditBlocked,
            SecurityAuditUnknown}"

type_synonym security_severity = string

definition SecuritySeverityLow :: security_severity where "SecuritySeverityLow = ''LOW''"
definition SecuritySeverityMedium :: security_severity where "SecuritySeverityMedium = ''MEDIUM''"
definition SecuritySeverityHigh :: security_severity where "SecuritySeverityHigh = ''HIGH''"
definition SecuritySeverityCritical :: security_severity where "SecuritySeverityCritical = ''CRITICAL''"
definition SecuritySeverityUnknown :: security_severity where "SecuritySeverityUnknown = ''UNKNOWN''"

definition security_severity_Valid :: "security_severity \<Rightarrow> bool" where
  "security_severity_Valid s \<longleftrightarrow>
     s \<in> {SecuritySeverityLow, SecuritySeverityMedium, SecuritySeverityHigh,
            SecuritySeverityCritical, SecuritySeverityUnknown}"

record security_finding =
  sf_id :: string
  sf_component :: string
  sf_severity :: security_severity

record security_audit_result =
  sa_state :: security_audit_state
  sa_findings :: "security_finding list"
  sa_partial :: bool
  sa_observed_at :: time

definition security_Validate :: "security_audit_result \<Rightarrow> bool" where
  "security_Validate r \<longleftrightarrow>
     security_audit_state_Valid (sa_state r) \<and> \<not> is_zero_time (sa_observed_at r)
     \<and> length (sa_findings r) \<le> managementCollectionLimit
     \<and> (\<forall>f \<in> set (sa_findings r).
          validateManagementID (sf_id f) \<and> validateBoundedText (sf_component f)
          \<and> security_severity_Valid (sf_severity f))"

subsection \<open>Backups (management\_backup.go)\<close>

type_synonym backup_state = string

definition BackupCreating :: backup_state where "BackupCreating = ''CREATING''"
definition BackupAvailable :: backup_state where "BackupAvailable = ''AVAILABLE''"
definition BackupRestoring :: backup_state where "BackupRestoring = ''RESTORING''"
definition BackupFailed :: backup_state where "BackupFailed = ''FAILED''"
definition BackupDeleting :: backup_state where "BackupDeleting = ''DELETING''"
definition BackupMissing :: backup_state where "BackupMissing = ''MISSING''"
definition BackupChanged :: backup_state where "BackupChanged = ''CHANGED''"
definition BackupUndecryptable :: backup_state where "BackupUndecryptable = ''UNDECRYPTABLE''"
definition BackupMalformed :: backup_state where "BackupMalformed = ''MALFORMED''"
definition BackupUnknown :: backup_state where "BackupUnknown = ''UNKNOWN''"

text \<open>\<open>Indexed\<close>: the last-observed states that the backup index stores.\<close>

definition backup_state_Indexed :: "backup_state \<Rightarrow> bool" where
  "backup_state_Indexed s \<longleftrightarrow>
     s \<in> {BackupAvailable, BackupMissing, BackupChanged, BackupUndecryptable, BackupMalformed,
          BackupUnknown}"

definition backup_state_Valid :: "backup_state \<Rightarrow> bool" where
  "backup_state_Valid s \<longleftrightarrow>
     s \<in> {BackupCreating, BackupAvailable, BackupRestoring, BackupFailed, BackupDeleting}
     \<or> backup_state_Indexed s"

type_synonym backup_key_mode = string

definition BackupKeyDevice :: backup_key_mode where "BackupKeyDevice = ''DEVICE''"
definition BackupKeyPassphrase :: backup_key_mode where "BackupKeyPassphrase = ''PASSPHRASE''"

definition backup_key_mode_Valid :: "backup_key_mode \<Rightarrow> bool" where
  "backup_key_mode_Valid s \<longleftrightarrow>
     s \<in> {BackupKeyDevice, BackupKeyPassphrase}"

definition validSHA256 :: "string \<Rightarrow> bool" where
  "validSHA256 v = class_exact is_hex 64 v"

record backup =
  bk_id :: string
  bk_state :: backup_state
  bk_format_version :: string
  bk_runtime_version :: string
  bk_size :: int \<comment> \<open>an \<open>int64\<close>, read and compared only\<close>
  bk_checksum :: string
  bk_created_at :: time
  bk_verified_at :: time
  bk_key_mode :: backup_key_mode

definition backup_Validate :: "backup \<Rightarrow> bool" where
  "backup_Validate b \<longleftrightarrow>
     validateManagementID (bk_id b)
     \<and> backup_state_Valid (bk_state b) \<and> \<not> bk_size b < 0
     \<and> (backup_state_Indexed (bk_state b) \<longrightarrow>
          bk_format_version b \<noteq> [] \<and> bk_runtime_version b \<noteq> [] \<and> bk_size b \<noteq> 0
          \<and> \<not> is_zero_time (bk_created_at b) \<and> \<not> is_zero_time (bk_verified_at b)
          \<and> backup_key_mode_Valid (bk_key_mode b) \<and> validSHA256 (bk_checksum b))"

text \<open>The regular expression \<open>^[A-Za-z0-9_-]{43}$\<close>.\<close>

definition ValidateBackupDestinationRef :: "string \<Rightarrow> bool" where
  "ValidateBackupDestinationRef v =
     class_exact (\<lambda>c. is_alnum c \<or> c = CHR ''_'' \<or> c = CHR ''-'') 43 v"

record backup_create_request =
  bcr_destination_ref :: string
  bcr_operation_id :: string
  bcr_installation_id :: string

definition backup_create_Validate :: "backup_create_request \<Rightarrow> bool" where
  "backup_create_Validate r \<longleftrightarrow>
     (bcr_destination_ref r \<noteq> [] \<longrightarrow> ValidateBackupDestinationRef (bcr_destination_ref r))
     \<and> validateManagementID (bcr_operation_id r)
     \<and> validateManagementID (bcr_installation_id r)"

record backup_restore_request =
  brr_backup_id :: string

definition backup_restore_Validate :: "backup_restore_request \<Rightarrow> bool" where
  "backup_restore_Validate r = validateManagementID (brr_backup_id r)"

type_synonym restore_outcome_state = string

definition RestoreSucceeded :: restore_outcome_state where "RestoreSucceeded = ''SUCCEEDED''"
definition RestoreRolledBack :: restore_outcome_state where "RestoreRolledBack = ''ROLLED_BACK''"
definition RestoreRecoveryRequired :: restore_outcome_state where "RestoreRecoveryRequired = ''RECOVERY_REQUIRED''"
definition RestoreUnknown :: restore_outcome_state where "RestoreUnknown = ''UNKNOWN''"

definition restore_outcome_state_Valid :: "restore_outcome_state \<Rightarrow> bool" where
  "restore_outcome_state_Valid s \<longleftrightarrow>
     s \<in> {RestoreSucceeded, RestoreRolledBack, RestoreRecoveryRequired, RestoreUnknown}"

record restore_result =
  rr_state :: restore_outcome_state
  rr_observed_at :: time

definition restore_Validate :: "restore_result \<Rightarrow> bool" where
  "restore_Validate r \<longleftrightarrow> restore_outcome_state_Valid (rr_state r) \<and> \<not> is_zero_time (rr_observed_at r)"

subsection \<open>Upgrade plans (management\_upgrade.go)\<close>

type_synonym upgrade_availability_state = string

definition UpgradeUpToDate :: upgrade_availability_state where "UpgradeUpToDate = ''UP_TO_DATE''"
definition UpgradeAvailable :: upgrade_availability_state where "UpgradeAvailable = ''AVAILABLE''"
definition UpgradeBlocked :: upgrade_availability_state where "UpgradeBlocked = ''BLOCKED''"
definition UpgradeUnknown :: upgrade_availability_state where "UpgradeUnknown = ''UNKNOWN''"

definition upgrade_availability_state_Valid :: "upgrade_availability_state \<Rightarrow> bool" where
  "upgrade_availability_state_Valid s \<longleftrightarrow>
     s \<in> {UpgradeUpToDate, UpgradeAvailable, UpgradeBlocked, UpgradeUnknown}"

type_synonym rollback_eligibility_state = string

definition RollbackEligible :: rollback_eligibility_state where "RollbackEligible = ''ELIGIBLE''"
definition RollbackIneligible :: rollback_eligibility_state where "RollbackIneligible = ''INELIGIBLE''"
definition RollbackUnknown :: rollback_eligibility_state where "RollbackUnknown = ''UNKNOWN''"

definition rollback_eligibility_state_Valid :: "rollback_eligibility_state \<Rightarrow> bool" where
  "rollback_eligibility_state_Valid s \<longleftrightarrow>
     s \<in> {RollbackEligible, RollbackIneligible, RollbackUnknown}"

type_synonym upgrade_compatibility_state = string

definition UpgradeCompatibilityNotRequired :: upgrade_compatibility_state where "UpgradeCompatibilityNotRequired = ''NOT_REQUIRED''"
definition UpgradeCompatibilityProven :: upgrade_compatibility_state where "UpgradeCompatibilityProven = ''PROVEN''"
definition UpgradeCompatibilityUnsafe :: upgrade_compatibility_state where "UpgradeCompatibilityUnsafe = ''UNSAFE''"
definition UpgradeCompatibilityUnknown :: upgrade_compatibility_state where "UpgradeCompatibilityUnknown = ''UNKNOWN''"

definition upgrade_compatibility_state_Valid :: "upgrade_compatibility_state \<Rightarrow> bool" where
  "upgrade_compatibility_state_Valid s \<longleftrightarrow>
     s \<in> {UpgradeCompatibilityNotRequired, UpgradeCompatibilityProven,
            UpgradeCompatibilityUnsafe, UpgradeCompatibilityUnknown}"

type_synonym upgrade_plan_reason = string

definition UpgradeReasonManagedEvidenceUnknown :: upgrade_plan_reason where "UpgradeReasonManagedEvidenceUnknown = ''MANAGED_EVIDENCE_UNKNOWN''"
definition UpgradeReasonCurrentIdentityUnknown :: upgrade_plan_reason where "UpgradeReasonCurrentIdentityUnknown = ''CURRENT_IDENTITY_UNKNOWN''"
definition UpgradeReasonInventoryUnknown :: upgrade_plan_reason where "UpgradeReasonInventoryUnknown = ''INVENTORY_UNKNOWN''"
definition UpgradeReasonProtectionRequired :: upgrade_plan_reason where "UpgradeReasonProtectionRequired = ''PROTECTION_POINT_REQUIRED''"
definition UpgradeReasonCompatibilityUnknown :: upgrade_plan_reason where "UpgradeReasonCompatibilityUnknown = ''COMPATIBILITY_UNKNOWN''"
definition UpgradeReasonPostchecksUnqualified :: upgrade_plan_reason where "UpgradeReasonPostchecksUnqualified = ''POSTCHECKS_UNQUALIFIED''"

definition upgrade_plan_reason_Valid :: "upgrade_plan_reason \<Rightarrow> bool" where
  "upgrade_plan_reason_Valid s \<longleftrightarrow>
     s \<in> {UpgradeReasonManagedEvidenceUnknown, UpgradeReasonCurrentIdentityUnknown,
            UpgradeReasonInventoryUnknown, UpgradeReasonProtectionRequired,
            UpgradeReasonCompatibilityUnknown, UpgradeReasonPostchecksUnqualified}"

record runtime_upgrade_plan =
  rp_state :: upgrade_availability_state
  rp_rollback :: rollback_eligibility_state
  rp_current_version :: string
  rp_target_version :: string
  rp_candidate_label :: string
  rp_compatibility :: upgrade_compatibility_state
  rp_reasons :: "upgrade_plan_reason list"
  rp_managed :: bool
  rp_inventory_complete :: bool
  rp_protection_required :: bool
  rp_protection_ready :: bool
  rp_evidence_complete :: bool
  rp_upgrade_qualified :: bool
  rp_rollback_qualified :: bool
  rp_observed_at :: time

fun plan_reasons_ok :: "upgrade_plan_reason list \<Rightarrow> upgrade_plan_reason list \<Rightarrow> bool" where
  "plan_reasons_ok seen [] = True"
| "plan_reasons_ok seen (r # rs) =
     (upgrade_plan_reason_Valid r \<and> r \<notin> set seen \<and> plan_reasons_ok (r # seen) rs)"

definition runtime_plan_Validate :: "runtime_upgrade_plan \<Rightarrow> bool" where
  "runtime_plan_Validate p \<longleftrightarrow>
     upgrade_availability_state_Valid (rp_state p) \<and> rollback_eligibility_state_Valid (rp_rollback p)
     \<and> \<not> is_zero_time (rp_observed_at p)
     \<and> validateBoundedText (rp_current_version p)
     \<and> validateBoundedText (rp_target_version p)
     \<and> validateBoundedText (rp_candidate_label p)
     \<and> upgrade_compatibility_state_Valid (rp_compatibility p) \<and> length (rp_reasons p) \<le> 16
     \<and> plan_reasons_ok [] (rp_reasons p)
     \<and> \<not> (rp_state p = UpgradeAvailable \<and> (rp_current_version p = [] \<or> rp_target_version p = []))
     \<and> \<not> (rp_state p = UpgradeAvailable \<and> \<not> rp_evidence_complete p)
     \<and> (rp_evidence_complete p \<longrightarrow>
          \<not> (rp_state p \<noteq> UpgradeAvailable \<or> \<not> rp_managed p \<or> \<not> rp_inventory_complete p
             \<or> rp_rollback p \<noteq> RollbackEligible
             \<or> (rp_protection_required p \<and> \<not> rp_protection_ready p)
             \<or> rp_compatibility p \<noteq> UpgradeCompatibilityProven \<or> length (rp_reasons p) \<noteq> 0))
     \<and> \<not> (rp_state p = UpgradeUpToDate \<and> rp_compatibility p \<noteq> UpgradeCompatibilityNotRequired)
     \<and> \<not> (rp_upgrade_qualified p \<and> \<not> rp_evidence_complete p)
     \<and> \<not> (rp_rollback_qualified p
           \<and> (\<not> rp_evidence_complete p \<or> rp_rollback p \<noteq> RollbackEligible))"

definition runtime_plan_UpgradeExecutable :: "runtime_upgrade_plan \<Rightarrow> bool" where
  "runtime_plan_UpgradeExecutable p \<longleftrightarrow>
     rp_evidence_complete p \<and> rp_upgrade_qualified p \<and> rp_state p = UpgradeAvailable
     \<and> rp_managed p \<and> rp_inventory_complete p \<and> rp_rollback p = RollbackEligible
     \<and> (\<not> rp_protection_required p \<or> rp_protection_ready p)"

definition runtime_plan_RollbackExecutable :: "runtime_upgrade_plan \<Rightarrow> bool" where
  "runtime_plan_RollbackExecutable p \<longleftrightarrow>
     rp_evidence_complete p \<and> rp_rollback_qualified p \<and> rp_state p = UpgradeAvailable
     \<and> rp_managed p \<and> rp_inventory_complete p \<and> rp_rollback p = RollbackEligible
     \<and> (\<not> rp_protection_required p \<or> rp_protection_ready p)"

type_synonym upgrade_outcome_state = string

definition UpgradeSucceeded :: upgrade_outcome_state where "UpgradeSucceeded = ''SUCCEEDED''"
definition UpgradeRolledBack :: upgrade_outcome_state where "UpgradeRolledBack = ''ROLLED_BACK''"
definition UpgradeRecoveryRequired :: upgrade_outcome_state where "UpgradeRecoveryRequired = ''RECOVERY_REQUIRED''"
definition UpgradeOutcomeUnknown :: upgrade_outcome_state where "UpgradeOutcomeUnknown = ''UNKNOWN''"

definition upgrade_outcome_state_Valid :: "upgrade_outcome_state \<Rightarrow> bool" where
  "upgrade_outcome_state_Valid s \<longleftrightarrow>
     s \<in> {UpgradeSucceeded, UpgradeRolledBack, UpgradeRecoveryRequired,
            UpgradeOutcomeUnknown}"

record upgrade_result =
  ur_state :: upgrade_outcome_state
  ur_observed_at :: time

definition upgrade_result_Validate :: "upgrade_result \<Rightarrow> bool" where
  "upgrade_result_Validate r \<longleftrightarrow>
     upgrade_outcome_state_Valid (ur_state r) \<and> \<not> is_zero_time (ur_observed_at r)"

subsection \<open>Installations, bundles and the registry (install.go, registry.go)\<close>

record installation =
  is_kind :: string
  is_path :: string
  is_version :: string
  is_support :: discovery_state

record descriptor =
  ds_kind :: string
  ds_name :: string
  ds_description :: string

text \<open>
  An interface value of a bundle is an optional handle, \<open>None\<close> for \<open>nil\<close>. What the methods of a
  handle do is the adapter's affair: the definitions that call one take its behaviour as an
  argument.
\<close>

record 'h runtime_bundle =
  bn_descriptor :: descriptor
  bn_discoverer :: "'h option"
  bn_models :: "'h option"
  bn_lifecycle :: "'h option"
  bn_channels :: "'h option"
  bn_health :: "'h option"
  bn_logs :: "'h option"
  bn_security :: "'h option"
  bn_skill_read :: "'h option"
  bn_skill_mutate :: "'h option"
  bn_skill_projection :: "'h option"
  bn_native_skills :: native_capabilities
  bn_mcp_read :: "'h option"
  bn_mcp_mutate :: "'h option"
  bn_backup_read :: "'h option"
  bn_backup_mutate :: "'h option"
  bn_restore :: "'h option"
  bn_upgrade_plan :: "'h option"
  bn_upgrade :: "'h option"
  bn_rollback :: "'h option"
  bn_instance_management :: "'h option"

record 'h instance_features =
  fe_health :: "'h option"
  fe_logs :: "'h option"
  fe_security :: "'h option"
  fe_skill_read :: "'h option"
  fe_mcp_read :: "'h option"

text \<open>\<open>resolve\<close> is the resolver's method: \<open>None\<close> for an error.\<close>

definition ResolveInstanceManagement ::
  "('h \<Rightarrow> installation \<Rightarrow> string \<Rightarrow> 'h instance_features option) \<Rightarrow> 'h runtime_bundle \<Rightarrow> installation
     \<Rightarrow> string \<Rightarrow> 'h runtime_bundle" where
  "ResolveInstanceManagement resolve b inst native =
     (case bn_instance_management b of
        None \<Rightarrow> b
      | Some r \<Rightarrow>
          (case resolve r inst native of
             None \<Rightarrow> b
           | Some f \<Rightarrow>
               b\<lparr>bn_health := fe_health f, bn_logs := fe_logs f, bn_security := fe_security f,
                 bn_skill_read := fe_skill_read f, bn_mcp_read := fe_mcp_read f\<rparr>))"

record capabilities =
  cp_health_read :: bool
  cp_logs_read :: bool
  cp_security_audit :: bool
  cp_skill_read :: bool
  cp_skill_mutate :: bool
  cp_mcp_read :: bool
  cp_mcp_mutate :: bool
  cp_mcp_test :: bool
  cp_backup_read :: bool
  cp_backup_mutate :: bool
  cp_restore :: bool
  cp_upgrade_plan :: bool
  cp_upgrade :: bool
  cp_rollback :: bool

definition ManagementCapabilities :: "'h runtime_bundle \<Rightarrow> capabilities" where
  "ManagementCapabilities b =
     \<lparr>cp_health_read = bn_health b \<noteq> None, cp_logs_read = bn_logs b \<noteq> None,
      cp_security_audit = bn_security b \<noteq> None, cp_skill_read = bn_skill_read b \<noteq> None,
      cp_skill_mutate = bn_skill_projection b \<noteq> None, cp_mcp_read = bn_mcp_read b \<noteq> None,
      cp_mcp_mutate = bn_mcp_mutate b \<noteq> None, cp_mcp_test = bn_mcp_mutate b \<noteq> None,
      cp_backup_read = bn_backup_read b \<noteq> None, cp_backup_mutate = bn_backup_mutate b \<noteq> None,
      cp_restore = bn_restore b \<noteq> None, cp_upgrade_plan = bn_upgrade_plan b \<noteq> None,
      cp_upgrade = bn_upgrade b \<noteq> None, cp_rollback = bn_rollback b \<noteq> None\<rparr>"

text \<open>The map of bundles is an association list with distinct keys.\<close>

type_synonym 'h runtime_registry = "(string \<times> 'h runtime_bundle) list"

definition NewRegistry :: "'h runtime_registry" where
  "NewRegistry = []"

datatype registry_error = ErrInvalidRegistration | ErrKindRegistered

definition Register :: "'h runtime_registry \<Rightarrow> string \<Rightarrow> 'h runtime_bundle \<Rightarrow> registry_error + 'h runtime_registry" where
  "Register r kind b =
     (if kind = [] \<or> ds_kind (bn_descriptor b) \<noteq> kind \<or> ds_name (bn_descriptor b) = []
      then Inl ErrInvalidRegistration
      else case map_of r kind of
             Some _ \<Rightarrow> Inl ErrKindRegistered
           | None \<Rightarrow> Inr (AList.update kind b r))"

definition registry_Get :: "'h runtime_registry \<Rightarrow> string \<Rightarrow> 'h runtime_bundle option" where
  "registry_Get r kind = map_of r kind"

definition registry_Kinds :: "'h runtime_registry \<Rightarrow> string list" where
  "registry_Kinds r = sort (map fst r)"

end
