(* ===== verification/Backup_Index.thy ===== *)
theory Backup_Index
  imports Management_Contracts Inventory_DB
begin

text \<open>
  The index of Runtime backups (persistence/sqlite/runtime\_backups.go, migration 011) and its
  reader (runtime\_backup\_reader.go). A row describes one encrypted artifact; after its insert
  only its state and two times change.

  The CHECK constraints of the table (lengths, the classes of the digest and of the state, the
  key reference that belongs to the key mode) follow from what
  \<open>InsertVerifiedRuntimeBackup\<close> and \<open>ReconcileRuntimeBackupState\<close> validate before the
  statement, so a statement only fails on the primary key, the unique pair of installation and
  path, or the foreign key.
\<close>

subsection \<open>Rows\<close>

type_synonym index_state = string
type_synonym index_key_mode = string

definition RuntimeBackupAvailable :: index_state where "RuntimeBackupAvailable = ''AVAILABLE''"
definition RuntimeBackupMissing :: index_state where "RuntimeBackupMissing = ''MISSING''"
definition RuntimeBackupChanged :: index_state where "RuntimeBackupChanged = ''CHANGED''"
definition RuntimeBackupUndecryptable :: index_state where "RuntimeBackupUndecryptable = ''UNDECRYPTABLE''"
definition RuntimeBackupMalformed :: index_state where "RuntimeBackupMalformed = ''MALFORMED''"
definition RuntimeBackupUnknown :: index_state where "RuntimeBackupUnknown = ''UNKNOWN''"
definition RuntimeBackupDeviceKey :: index_key_mode where "RuntimeBackupDeviceKey = ''DEVICE''"
definition RuntimeBackupPassphrase :: index_key_mode where "RuntimeBackupPassphrase = ''PASSPHRASE''"

definition index_state_valid :: "index_state \<Rightarrow> bool" where
  "index_state_valid s \<longleftrightarrow>
     s \<in> {RuntimeBackupAvailable, RuntimeBackupMissing, RuntimeBackupChanged,
          RuntimeBackupUndecryptable, RuntimeBackupMalformed, RuntimeBackupUnknown}"

record backup_row =
  br_id :: string
  br_installation :: string
  br_format_version :: string
  br_runtime_version :: string
  br_path :: string
  br_size :: int
  br_checksum :: string
  br_state :: index_state
  br_key_mode :: index_key_mode
  br_key_ref :: string
  br_created_at :: time
  br_verified_at :: time
  br_updated_at :: time

text \<open>The table beside the accepted installations that its foreign key names.\<close>

record backup_table =
  bt_installations :: "string list"
  bt_rows :: "backup_row list"

datatype backup_error =
    ErrBackupInvalid | ErrBackupUnique | ErrBackupForeignKey | ErrBackupNoRows
  | ErrBackupContract | ErrBackupMissing

subsection \<open>Validation\<close>

definition boundedMetadata :: "string \<Rightarrow> nat \<Rightarrow> bool" where
  "boundedMetadata v n \<longleftrightarrow> v \<noteq> [] \<and> length v \<le> n \<and> TrimSpace v = v \<and> CHR 0x00 \<notin> set v"

definition validLowerSHA256 :: "string \<Rightarrow> bool" where
  "validLowerSHA256 v \<longleftrightarrow> length v = 64 \<and> v = map lower_char v \<and> list_all is_hex v"

definition validateVerifiedRuntimeBackup :: "backup_row \<Rightarrow> bool" where
  "validateVerifiedRuntimeBackup v \<longleftrightarrow>
     \<not> (br_id v = [] \<or> length (br_id v) > 256 \<or> br_installation v = [] \<or> length (br_installation v) > 256)
     \<and> boundedMetadata (br_format_version v) 64 \<and> boundedMetadata (br_runtime_version v) 64
     \<and> \<not> (br_path v = [] \<or> length (br_path v) > 32767 \<or> CHR 0x00 \<in> set (br_path v))
     \<and> \<not> (br_size v \<le> 0 \<or> \<not> validLowerSHA256 (br_checksum v))
     \<and> br_state v = RuntimeBackupAvailable
     \<and> (if br_key_mode v = RuntimeBackupDeviceKey
        then \<not> (br_key_ref v = [] \<or> length (br_key_ref v) > 256 \<or> CHR 0x00 \<in> set (br_key_ref v))
        else if br_key_mode v = RuntimeBackupPassphrase then br_key_ref v = []
        else False)
     \<and> \<not> (is_zero_time (br_created_at v) \<or> is_zero_time (br_verified_at v)
           \<or> is_zero_time (br_updated_at v))"

subsection \<open>Statements\<close>

definition InsertVerifiedRuntimeBackup :: "backup_table \<Rightarrow> backup_row \<Rightarrow> backup_error + backup_table" where
  "InsertVerifiedRuntimeBackup t v =
     (if \<not> validateVerifiedRuntimeBackup v then Inl ErrBackupInvalid
      else if \<exists>r \<in> set (bt_rows t). br_id r = br_id v
              \<or> (br_installation r = br_installation v \<and> br_path r = br_path v)
      then Inl ErrBackupUnique
      else if br_installation v \<notin> set (bt_installations t) then Inl ErrBackupForeignKey
      else Inr (t\<lparr>bt_rows := bt_rows t @ [v\<lparr>br_state := RuntimeBackupAvailable\<rparr>]\<rparr>))"

definition first_row :: "backup_row list \<Rightarrow> backup_error + backup_row" where
  "first_row rows = (case rows of [] \<Rightarrow> Inl ErrBackupNoRows | r # _ \<Rightarrow> Inr r)"

definition GetRuntimeBackup :: "backup_table \<Rightarrow> string \<Rightarrow> string \<Rightarrow> backup_error + backup_row" where
  "GetRuntimeBackup t inst i =
     first_row (filter (\<lambda>r. br_installation r = inst \<and> br_id r = i) (bt_rows t))"

definition GetRuntimeBackupByID :: "backup_table \<Rightarrow> string \<Rightarrow> backup_error + backup_row" where
  "GetRuntimeBackupByID t i = first_row (filter (\<lambda>r. br_id r = i) (bt_rows t))"

text \<open>\<open>ORDER BY created_at DESC, id ASC\<close>: the stored text of the time decides.\<close>

definition ListRuntimeBackups :: "backup_table \<Rightarrow> string \<Rightarrow> backup_row list" where
  "ListRuntimeBackups t inst =
     rev (sort_key (\<lambda>r. formatTime (br_created_at r))
       (rev (sort_key br_id (filter (\<lambda>r. br_installation r = inst) (bt_rows t)))))"

definition delete_where ::
  "(backup_row \<Rightarrow> bool) \<Rightarrow> backup_table \<Rightarrow> backup_table \<times> backup_error option" where
  "delete_where p t =
     (t\<lparr>bt_rows := filter (\<lambda>r. \<not> p r) (bt_rows t)\<rparr>,
      if length (filter p (bt_rows t)) \<noteq> 1 then Some ErrBackupNoRows else None)"

definition DeleteRuntimeBackup ::
  "backup_table \<Rightarrow> string \<Rightarrow> string \<Rightarrow> backup_table \<times> backup_error option" where
  "DeleteRuntimeBackup t inst i =
     (if inst = [] \<or> i = [] then (t, Some ErrBackupInvalid)
      else delete_where (\<lambda>r. br_installation r = inst \<and> br_id r = i) t)"

definition DeleteRuntimeBackupByID :: "backup_table \<Rightarrow> string \<Rightarrow> backup_table \<times> backup_error option" where
  "DeleteRuntimeBackupByID t i =
     (if i = [] then (t, Some ErrBackupInvalid) else delete_where (\<lambda>r. br_id r = i) t)"

record reconciliation =
  rc_installation :: string
  rc_id :: string
  rc_state :: index_state
  rc_verified_at :: "time option"
  rc_updated_at :: time

definition reconciled_row :: "reconciliation \<Rightarrow> backup_row \<Rightarrow> backup_row" where
  "reconciled_row c r =
     (case rc_verified_at c of
        Some v \<Rightarrow> if rc_state c = RuntimeBackupAvailable
                  then r\<lparr>br_state := rc_state c, br_verified_at := v, br_updated_at := rc_updated_at c\<rparr>
                  else r\<lparr>br_state := rc_state c, br_updated_at := rc_updated_at c\<rparr>
      | None \<Rightarrow> r\<lparr>br_state := rc_state c, br_updated_at := rc_updated_at c\<rparr>)"

definition ReconcileRuntimeBackupState ::
  "backup_table \<Rightarrow> reconciliation \<Rightarrow> backup_table \<times> backup_error option" where
  "ReconcileRuntimeBackupState t c =
     (if rc_installation c = [] \<or> rc_id c = [] \<or> \<not> index_state_valid (rc_state c)
         \<or> is_zero_time (rc_updated_at c) then (t, Some ErrBackupInvalid)
      else if rc_state c = RuntimeBackupAvailable
              \<and> (case rc_verified_at c of None \<Rightarrow> True | Some v \<Rightarrow> is_zero_time v)
      then (t, Some ErrBackupInvalid)
      else if rc_state c \<noteq> RuntimeBackupAvailable \<and> rc_verified_at c \<noteq> None
      then (t, Some ErrBackupInvalid)
      else (let hit = (\<lambda>r. br_installation r = rc_installation c \<and> br_id r = rc_id c)
            in (t\<lparr>bt_rows := map (\<lambda>r. if hit r then reconciled_row c r else r) (bt_rows t)\<rparr>,
                if length (filter hit (bt_rows t)) \<noteq> 1 then Some ErrBackupNoRows else None)))"

subsection \<open>The reader\<close>

definition NewRuntimeBackupReader :: "(string \<Rightarrow> 'h) \<Rightarrow> string \<Rightarrow> 'h option" where
  "NewRuntimeBackupReader reader inst = (if inst = [] then None else Some (reader inst))"

definition reader_validate :: "string \<Rightarrow> installation \<Rightarrow> bool" where
  "reader_validate inst i \<longleftrightarrow>
     \<not> (inst = [] \<or> is_kind i = [] \<or> is_path i = [] \<or> is_version i = []
        \<or> is_support i \<noteq> DiscoverySupported)"

definition projectRuntimeBackup :: "backup_row \<Rightarrow> backup_error + backup" where
  "projectRuntimeBackup r =
     (let b = \<lparr>bk_id = br_id r, bk_state = br_state r, bk_format_version = br_format_version r,
               bk_runtime_version = br_runtime_version r, bk_size = br_size r,
               bk_checksum = br_checksum r, bk_created_at = br_created_at r,
               bk_verified_at = br_verified_at r, bk_key_mode = br_key_mode r\<rparr>
      in if \<not> backup_Validate b \<or> \<not> backup_state_Indexed (bk_state b) then Inl ErrBackupContract
         else Inr b)"

fun project_all :: "backup_row list \<Rightarrow> backup_error + backup list" where
  "project_all [] = Inr []"
| "project_all (r # rs) =
     bind_result (projectRuntimeBackup r) (\<lambda>b. bind_result (project_all rs) (\<lambda>bs. Inr (b # bs)))"

definition ListBackups :: "backup_table \<Rightarrow> string \<Rightarrow> installation \<Rightarrow> backup_error + backup list" where
  "ListBackups t inst i =
     (if \<not> reader_validate inst i then Inl ErrBackupContract
      else project_all (ListRuntimeBackups t inst))"

definition GetBackup :: "backup_table \<Rightarrow> string \<Rightarrow> installation \<Rightarrow> string \<Rightarrow> backup_error + backup" where
  "GetBackup t inst i b =
     (if \<not> reader_validate inst i then Inl ErrBackupContract
      else case GetRuntimeBackup t inst b of
             Inl e \<Rightarrow> Inl (if e = ErrBackupNoRows then ErrBackupMissing else e)
           | Inr r \<Rightarrow> projectRuntimeBackup r)"

end
