(* ===== verification/Management_Target.thy ===== *)
theory Management_Target
  imports Backup_Index
begin

text \<open>
  Resolving the target of a management use case and reading its health, logs and security
  (app/management\_target.go, app/management\_health.go), with the closed sets of actors and
  actions (app/management\_actions.go). Runtime discovery, the adapter's methods and faults of
  the database connection are parameters. A context is what its \<open>Err\<close> returns when the code
  asks; a call that asks twice has two such parameters.
\<close>

subsection \<open>Actors and actions (management\_actions.go)\<close>

definition ManagementActorLocalDesktop :: string where
  "ManagementActorLocalDesktop = ''LOCAL_DESKTOP''"

definition actor_Valid :: "string \<Rightarrow> bool" where
  "actor_Valid a \<longleftrightarrow> a = ManagementActorLocalDesktop"

datatype management_action =
    ActionRuntimeHealthRead | ActionRuntimeLogsRead | ActionRuntimeSecurityAudit
  | ActionSkillRead | ActionSkillInstall | ActionSkillUpdate | ActionSkillRemove | ActionSkillConfigure
  | ActionMCPRead | ActionMCPInstall | ActionMCPAuthenticate | ActionMCPTest | ActionMCPRemove
  | ActionMCPConfigure
  | ActionBackupRead | ActionBackupCreate | ActionBackupRestore | ActionBackupDelete
  | ActionRuntimeUpgradePlan | ActionRuntimeUpgrade | ActionRuntimeRollback

primrec action_text :: "management_action \<Rightarrow> string" where
  "action_text ActionRuntimeHealthRead = ''runtime.health.read''"
| "action_text ActionRuntimeLogsRead = ''runtime.logs.read''"
| "action_text ActionRuntimeSecurityAudit = ''runtime.security.audit''"
| "action_text ActionSkillRead = ''skill.read''"
| "action_text ActionSkillInstall = ''skill.install''"
| "action_text ActionSkillUpdate = ''skill.update''"
| "action_text ActionSkillRemove = ''skill.remove''"
| "action_text ActionSkillConfigure = ''skill.configure''"
| "action_text ActionMCPRead = ''mcp.read''"
| "action_text ActionMCPInstall = ''mcp.install''"
| "action_text ActionMCPAuthenticate = ''mcp.authenticate''"
| "action_text ActionMCPTest = ''mcp.test''"
| "action_text ActionMCPRemove = ''mcp.remove''"
| "action_text ActionMCPConfigure = ''mcp.configure''"
| "action_text ActionBackupRead = ''backup.read''"
| "action_text ActionBackupCreate = ''backup.create''"
| "action_text ActionBackupRestore = ''backup.restore''"
| "action_text ActionBackupDelete = ''backup.delete''"
| "action_text ActionRuntimeUpgradePlan = ''runtime.upgrade.plan''"
| "action_text ActionRuntimeUpgrade = ''runtime.upgrade''"
| "action_text ActionRuntimeRollback = ''runtime.rollback''"

definition ManagementActions :: "string list" where
  "ManagementActions = map action_text
     [ActionRuntimeHealthRead, ActionRuntimeLogsRead, ActionRuntimeSecurityAudit, ActionSkillRead,
      ActionSkillInstall, ActionSkillUpdate, ActionSkillRemove, ActionSkillConfigure, ActionMCPRead,
      ActionMCPInstall, ActionMCPAuthenticate, ActionMCPTest, ActionMCPRemove, ActionMCPConfigure,
      ActionBackupRead, ActionBackupCreate, ActionBackupRestore, ActionBackupDelete,
      ActionRuntimeUpgradePlan, ActionRuntimeUpgrade, ActionRuntimeRollback]"

definition action_Valid :: "string \<Rightarrow> bool" where
  "action_Valid a \<longleftrightarrow> first_match (\<lambda>c. a = c) ManagementActions \<noteq> None"

subsection \<open>Errors\<close>

datatype context_error = Canceled | DeadlineExceeded

datatype management_error =
    ErrInstanceNotFound
  | ErrInstanceNotAvailable
  | ErrRuntimeNotSupported
  | ErrManagementCapabilityUnsupported
  | ErrManagementQueryFailed
  | ErrManagementContext context_error

text \<open>A query of the table fails by the context or otherwise.\<close>

datatype query_fault = FaultContext context_error | FaultOther

definition managementTargetError :: "context_error option \<Rightarrow> query_fault \<Rightarrow> management_error" where
  "managementTargetError ctx e =
     (case ctx of
        Some c \<Rightarrow> ErrManagementContext c
      | None \<Rightarrow> (case e of FaultContext c \<Rightarrow> ErrManagementContext c | FaultOther \<Rightarrow> ErrManagementQueryFailed))"

definition with_fault ::
  "query_fault option \<Rightarrow> inventory_error + 'a \<Rightarrow> query_fault option + 'a" where
  "with_fault f q =
     (case f of
        Some x \<Rightarrow> Inl (Some x)
      | None \<Rightarrow> (case q of
                   Inl e \<Rightarrow> Inl (if e = ErrNoRows then None else Some FaultOther)
                 | Inr v \<Rightarrow> Inr v))"

text \<open>\<open>None\<close> stands for \<open>sql.ErrNoRows\<close> in the error of \<open>with_fault\<close>.\<close>

subsection \<open>Targets (management\_target.go)\<close>

record 'h target_service =
  ts_db :: "inventory option" \<comment> \<open>\<open>None\<close> for a nil database\<close>
  ts_registry :: "'h runtime_registry option" \<comment> \<open>\<open>None\<close> for a nil discovery or registry\<close>
  ts_node_id :: string

record 'h management_target =
  mg_installation :: installation
  mg_native :: string
  mg_bundle :: "'h runtime_bundle"

record 'h runtime_target =
  rt_installation :: installation
  rt_installation_id :: string
  rt_bundle :: "'h runtime_bundle"

definition context_or ::
  "context_error option \<Rightarrow> management_error \<Rightarrow> management_error" where
  "context_or ctx e = (case ctx of Some c \<Rightarrow> ErrManagementContext c | None \<Rightarrow> e)"

text \<open>The conditions on what discovery selected, shared by both resolvers.\<close>

definition supported_selection :: "string \<Rightarrow> discovery \<Rightarrow> candidate option" where
  "supported_selection kind d =
     (if di_kind d \<noteq> kind \<or> di_state d \<noteq> DiscoverySupported then None
      else case di_selected d of
             None \<Rightarrow> None
           | Some sel \<Rightarrow>
               if cn_state sel \<noteq> DiscoverySupported \<or> cn_path sel = [] \<or> cn_version sel = [] then None
               else Some sel)"

definition detected_installation :: "string \<Rightarrow> discovery \<Rightarrow> candidate \<Rightarrow> installation" where
  "detected_installation kind d sel =
     \<lparr>is_kind = kind, is_path = cn_path sel, is_version = cn_version sel, is_support = di_state d\<rparr>"

definition resolve_detected ::
  "(string \<Rightarrow> 'e + discovery) \<Rightarrow> ('h \<Rightarrow> installation \<Rightarrow> string \<Rightarrow> 'h instance_features option)
     \<Rightarrow> context_error option \<Rightarrow> 'h runtime_registry \<Rightarrow> instance_row \<Rightarrow> accepted_installation
     \<Rightarrow> management_error + 'h management_target" where
  "resolve_detected detect resolve ctx reg row acc =
     (case detect (ai_kind acc) of
        Inl _ \<Rightarrow> Inl (context_or ctx ErrRuntimeNotSupported)
      | Inr d \<Rightarrow>
     (case supported_selection (ai_kind acc) d of
        None \<Rightarrow> Inl (context_or ctx ErrRuntimeNotSupported)
      | Some sel \<Rightarrow>
          if cn_path sel \<noteq> ai_path acc then Inl (context_or ctx ErrRuntimeNotSupported)
          else case registry_Get reg (ai_kind acc) of
                 None \<Rightarrow> Inl ErrRuntimeNotSupported
               | Some b \<Rightarrow>
                   if ds_kind (bn_descriptor b) \<noteq> ai_kind acc then Inl ErrRuntimeNotSupported
                   else (let inst = detected_installation (ai_kind acc) d sel
                         in Inr \<lparr>mg_installation = inst, mg_native = in_native row,
                                 mg_bundle = ResolveInstanceManagement resolve b inst (in_native row)\<rparr>)))"

definition ResolveManagementTarget ::
  "(string \<Rightarrow> 'e + discovery) \<Rightarrow> ('h \<Rightarrow> installation \<Rightarrow> string \<Rightarrow> 'h instance_features option)
     \<Rightarrow> query_fault option \<Rightarrow> query_fault option \<Rightarrow> context_error option \<Rightarrow> 'h target_service
     \<Rightarrow> string \<Rightarrow> management_error + 'h management_target" where
  "ResolveManagementTarget detect resolve f1 f2 ctx s i =
     (case (ts_db s, ts_registry s) of
        (Some iv, Some reg) \<Rightarrow>
          if i = [] then Inl ErrInstanceNotFound
          else (case with_fault f1 (GetInstance iv i) of
                  Inl None \<Rightarrow> Inl ErrInstanceNotFound
                | Inl (Some e) \<Rightarrow> Inl (managementTargetError ctx e)
                | Inr row \<Rightarrow>
               if in_availability row \<noteq> Available \<or> in_native row = [] then Inl ErrInstanceNotAvailable
               else (case with_fault f2 (GetAcceptedInstallationByID iv (in_installation row)) of
                       Inl None \<Rightarrow> Inl ErrRuntimeNotSupported
                     | Inl (Some e) \<Rightarrow> Inl (managementTargetError ctx e)
                     | Inr acc \<Rightarrow>
                    if ai_id acc \<noteq> in_installation row \<or> ai_node_id acc \<noteq> ts_node_id s
                       \<or> ai_status acc \<noteq> ''ACCEPTED'' \<or> ai_support acc \<noteq> DiscoverySupported
                       \<or> ai_kind acc = [] \<or> ai_path acc = [] \<or> ai_version acc = []
                    then Inl ErrRuntimeNotSupported
                    else resolve_detected detect resolve ctx reg row acc))
      | _ \<Rightarrow> Inl ErrInstanceNotFound)"

definition ResolveRuntimeManagementTarget ::
  "(string \<Rightarrow> 'e + discovery) \<Rightarrow> (string \<Rightarrow> 'h) \<Rightarrow> query_fault option \<Rightarrow> context_error option
     \<Rightarrow> 'h target_service \<Rightarrow> string \<Rightarrow> management_error + 'h runtime_target" where
  "ResolveRuntimeManagementTarget detect reader f ctx s kind =
     (case (ts_db s, ts_registry s) of
        (Some iv, Some reg) \<Rightarrow>
          if kind = [] then Inl ErrRuntimeNotSupported
          else (case detect kind of
                  Inl _ \<Rightarrow> Inl (context_or ctx ErrRuntimeNotSupported)
                | Inr d \<Rightarrow>
               (case supported_selection kind d of
                  None \<Rightarrow> Inl (context_or ctx ErrRuntimeNotSupported)
                | Some sel \<Rightarrow>
               (case with_fault f (GetAcceptedInstallation iv (ts_node_id s) kind (cn_path sel)) of
                  Inl None \<Rightarrow> Inl ErrRuntimeNotSupported
                | Inl (Some e) \<Rightarrow> Inl (managementTargetError ctx e)
                | Inr acc \<Rightarrow>
               if ai_node_id acc \<noteq> ts_node_id s \<or> ai_kind acc \<noteq> kind \<or> ai_path acc \<noteq> cn_path sel
                  \<or> ai_status acc \<noteq> ''ACCEPTED'' \<or> ai_support acc \<noteq> DiscoverySupported
               then Inl ErrRuntimeNotSupported
               else case registry_Get reg kind of
                      None \<Rightarrow> Inl ErrRuntimeNotSupported
                    | Some b \<Rightarrow>
                        if ds_kind (bn_descriptor b) \<noteq> kind then Inl ErrRuntimeNotSupported
                        else Inr \<lparr>rt_installation = detected_installation kind d sel,
                                  rt_installation_id = ai_id acc,
                                  rt_bundle = b\<lparr>bn_backup_read := NewRuntimeBackupReader reader (ai_id acc)\<rparr>\<rparr>)))
      | _ \<Rightarrow> Inl ErrRuntimeNotSupported)"

subsection \<open>Health, logs and security (app/management\_health.go)\<close>

text \<open>\<open>None\<close> is an error that none of the package's own errors matches.\<close>

definition managementQueryError ::
  "context_error option \<Rightarrow> management_error option \<Rightarrow> management_error" where
  "managementQueryError ctx e =
     (case ctx of
        Some c \<Rightarrow> ErrManagementContext c
      | None \<Rightarrow>
          (case e of
             Some ErrInstanceNotFound \<Rightarrow> ErrInstanceNotFound
           | Some ErrInstanceNotAvailable \<Rightarrow> ErrInstanceNotAvailable
           | Some ErrRuntimeNotSupported \<Rightarrow> ErrRuntimeNotSupported
           | Some ErrManagementCapabilityUnsupported \<Rightarrow> ErrManagementCapabilityUnsupported
           | Some ErrManagementQueryFailed \<Rightarrow> ErrManagementQueryFailed
           | _ \<Rightarrow> ErrManagementQueryFailed))"

type_synonym 'h target_resolver = "string \<Rightarrow> management_error + 'h management_target"

definition management_resolve ::
  "'h target_resolver option \<Rightarrow> context_error option \<Rightarrow> string \<Rightarrow> management_error + 'h management_target" where
  "management_resolve tgts ctx i =
     (case tgts of
        None \<Rightarrow> Inl ErrManagementQueryFailed
      | Some r \<Rightarrow>
          if i = [] then Inl ErrInstanceNotFound
          else case r i of
                 Inl e \<Rightarrow> Inl (managementQueryError ctx (Some e))
               | Inr t \<Rightarrow> Inr t)"

text \<open>What the three reads share: the capability, the adapter's call, the validation.\<close>

definition management_read ::
  "('h runtime_bundle \<Rightarrow> 'h option) \<Rightarrow> ('h \<Rightarrow> installation \<Rightarrow> string \<Rightarrow> management_error option + 'r)
     \<Rightarrow> ('r \<Rightarrow> bool) \<Rightarrow> 'h target_resolver option \<Rightarrow> context_error option \<Rightarrow> string
     \<Rightarrow> management_error + 'r" where
  "management_read capability call valid tgts ctx i =
     bind_result (management_resolve tgts ctx i) (\<lambda>t.
       case capability (mg_bundle t) of
         None \<Rightarrow> Inl ErrManagementCapabilityUnsupported
       | Some h \<Rightarrow>
           (case call h (mg_installation t) (mg_native t) of
              Inl e \<Rightarrow> Inl (managementQueryError ctx e)
            | Inr r \<Rightarrow> if \<not> valid r then Inl ErrManagementQueryFailed else Inr r))"

definition GetInstanceHealth ::
  "('h \<Rightarrow> installation \<Rightarrow> string \<Rightarrow> management_error option + health_observation)
     \<Rightarrow> 'h target_resolver option \<Rightarrow> context_error option \<Rightarrow> string
     \<Rightarrow> management_error + health_observation" where
  "GetInstanceHealth inspect = management_read bn_health inspect health_Validate"

definition GetInstanceLogSnapshot ::
  "('h \<Rightarrow> installation \<Rightarrow> string \<Rightarrow> log_category \<Rightarrow> management_error option + log_snapshot)
     \<Rightarrow> 'h target_resolver option \<Rightarrow> context_error option \<Rightarrow> string \<Rightarrow> log_category
     \<Rightarrow> management_error + log_snapshot" where
  "GetInstanceLogSnapshot read tgts ctx i category =
     (if \<not> log_category_Valid category then Inl ErrManagementQueryFailed
      else management_read bn_logs (\<lambda>h inst native. read h inst native category)
             (\<lambda>r. log_snapshot_Validate r \<and> ls_category r = category) tgts ctx i)"

definition GetInstanceSecurityAudit ::
  "('h \<Rightarrow> installation \<Rightarrow> string \<Rightarrow> management_error option + security_audit_result)
     \<Rightarrow> 'h target_resolver option \<Rightarrow> context_error option \<Rightarrow> string
     \<Rightarrow> management_error + security_audit_result" where
  "GetInstanceSecurityAudit audit = management_read bn_security audit security_Validate"

end
