(* ===== verification/Management_Properties.thy ===== *)
theory Management_Properties
  imports Management_Target Install_Start_Properties
begin

text \<open>
  What the management contracts guarantee: the form of a management identifier, the agreement
  of an upgrade plan's evidence with its executability, the registry as a keyed store, and what
  a resolved target has been checked against.
\<close>

subsection \<open>Management identifiers\<close>

lemma management_char_ascii: "management_char c \<Longrightarrow> is_ascii c"
proof -
  have "\<forall>c. management_char c \<longrightarrow> is_ascii c"
  proof
    fix c :: char
    have "of_char c < (128::nat)" if "management_char c"
      using that by (auto simp: management_char_def is_lower_def is_upper_def is_digit_def less_eq_char_def)
    then show "management_char c \<longrightarrow> is_ascii c"
      by (cases c) auto
  qed
  then show "management_char c \<Longrightarrow> is_ascii c" by blast
qed

lemma space_rune_ends:
  "r \<in> set space_runes \<Longrightarrow> r \<noteq> [] \<and> \<not> management_char (hd r) \<and> \<not> management_char (last r)"
proof -
  have "list_all (\<lambda>r. r \<noteq> [] \<and> \<not> management_char (hd r) \<and> \<not> management_char (last r)) space_runes"
    by code_simp
  then show "r \<in> set space_runes \<Longrightarrow> r \<noteq> [] \<and> \<not> management_char (hd r) \<and> \<not> management_char (last r)"
    by (simp add: list_all_iff)
qed

lemma management_trim: "list_all management_char v \<Longrightarrow> TrimSpace v = v"
proof -
  assume v: "list_all management_char v"
  have "leading_space v = None"
    unfolding leading_space_def first_match_None
  proof
    fix r assume "r \<in> set space_runes"
    then have r: "r \<noteq> []" "\<not> management_char (hd r)" using space_rune_ends by auto
    show "\<not> HasPrefix v r"
    proof
      assume "HasPrefix v r"
      then obtain w where "v = r @ w" by (auto simp: HasPrefix_iff)
      with r v show False by (cases r) auto
    qed
  qed
  moreover have "trailing_space v = None"
    unfolding trailing_space_def first_match_None
  proof
    fix r assume "r \<in> set space_runes"
    then have r: "r \<noteq> []" "\<not> management_char (last r)" using space_rune_ends by auto
    show "\<not> HasSuffix v r"
    proof
      assume "HasSuffix v r"
      then obtain w where "v = w @ r" by (auto simp: HasSuffix_iff)
      with v have "list_all management_char r" by simp
      with r show False by (simp add: list_all_iff)
    qed
  qed
  ultimately show "TrimSpace v = v" by (simp add: TrimSpace_def trim_left_id trim_right_id)
qed

text \<open>
  A management identifier is exactly what the CHECK constraints of the skill tables describe:
  1 to 128 bytes of letters, digits, dot, underscore and hyphen, other than \<open>.\<close> and \<open>..\<close>; the
  UTF-8 and white-space tests reject nothing more. Such an identifier is a single path component
  that cleaning a path keeps where it is.
\<close>

theorem management_id_characterised:
  "(validateManagementID v \<longleftrightarrow>
      1 \<le> length v \<and> length v \<le> 128
      \<and> set v \<subseteq> {c. is_alnum c \<or> c = CHR ''.'' \<or> c = CHR ''_'' \<or> c = CHR ''-''}
      \<and> v \<noteq> ''.'' \<and> v \<noteq> ''..'')
   \<and> (validateManagementID v \<longrightarrow>
      (\<forall>rooted acc. clean_parts rooted acc (split_on CHR ''/'' v) = rev acc @ [v]))"
proof -
  have cls: "list_all management_char v \<longleftrightarrow>
      set v \<subseteq> {c. is_alnum c \<or> c = CHR ''.'' \<or> c = CHR ''_'' \<or> c = CHR ''-''}"
    by (auto simp: list_all_iff management_char_def is_alnum_def)
  have "ValidString v" "TrimSpace v = v" if "list_all management_char v"
    using that management_trim ascii_valid [of v]
    by (auto simp: list_all_iff management_char_ascii)
  then have eq: "validateManagementID v \<longleftrightarrow> 1 \<le> length v \<and> length v \<le> 128
      \<and> list_all management_char v \<and> v \<noteq> ''.'' \<and> v \<noteq> ''..''"
    by (auto simp: validateManagementID_def managementIDMaxBytes_def Suc_le_eq)
  have "\<not> management_char CHR ''/''" by code_simp
  then have "CHR ''/'' \<notin> set v" if "list_all management_char v"
    using that by (auto simp: list_all_iff)
  then have "clean_parts rooted acc (split_on CHR ''/'' v) = rev acc @ [v]"
    if "validateManagementID v" for rooted acc
    using that by (auto simp: eq split_on_plain)
  with eq cls show ?thesis by blast
qed

theorem management_id_characterised_witness:
  "validateManagementID ''writer-1.0'' \<and> \<not> validateManagementID ''../x''
   \<and> clean_parts True [''skills''] (split_on CHR ''/'' ''writer-1.0'') = [''skills'', ''writer-1.0'']"
proof -
  have "set ''writer-1.0'' \<subseteq> {c. is_alnum c \<or> c = CHR ''.'' \<or> c = CHR ''_'' \<or> c = CHR ''-''}"
    by (simp add: is_alnum_def is_digit_def is_lower_def less_eq_char_def)
  then have ok: "validateManagementID ''writer-1.0''"
    using management_id_characterised [of "''writer-1.0''"] by simp
  have "\<not> set ''../x'' \<subseteq> {c. is_alnum c \<or> c = CHR ''.'' \<or> c = CHR ''_'' \<or> c = CHR ''-''}"
    by (simp add: is_alnum_def is_digit_def is_lower_def is_upper_def less_eq_char_def)
  then have "\<not> validateManagementID ''../x''"
    using management_id_characterised [of "''../x''"] by blast
  with ok management_id_characterised [of "''writer-1.0''"] show ?thesis by simp
qed

subsection \<open>Upgrade plans\<close>

lemma plan_reasons_iff:
  "plan_reasons_ok seen rs \<longleftrightarrow>
     distinct rs \<and> set rs \<inter> set seen = {} \<and> (\<forall>r \<in> set rs. upgrade_plan_reason_Valid r)"
  by (induction seen rs rule: plan_reasons_ok.induct) auto

text \<open>
  In a plan that passes validation the evidence flag and the availability are one and the
  same, complete evidence leaves no reason against it and proves compatibility, and the two
  mutation flags decide executability alone: an upgrade or rollback is executable exactly if its
  mutation is qualified.
\<close>

theorem valid_plan_executable_iff_qualified:
  assumes "runtime_plan_Validate p"
  shows "(rp_evidence_complete p \<longleftrightarrow> rp_state p = UpgradeAvailable)
    \<and> (runtime_plan_UpgradeExecutable p \<longleftrightarrow> rp_upgrade_qualified p)
    \<and> (runtime_plan_RollbackExecutable p \<longleftrightarrow> rp_rollback_qualified p)
    \<and> (rp_evidence_complete p \<longrightarrow> rp_reasons p = [] \<and> rp_compatibility p = UpgradeCompatibilityProven
         \<and> rp_current_version p \<noteq> [] \<and> rp_target_version p \<noteq> [])
    \<and> distinct (rp_reasons p)"
  using assms
  by (auto simp: runtime_plan_Validate_def runtime_plan_UpgradeExecutable_def
      runtime_plan_RollbackExecutable_def plan_reasons_iff)

definition sample_plan :: runtime_upgrade_plan where
  "sample_plan =
     \<lparr>rp_state = UpgradeAvailable, rp_rollback = RollbackEligible, rp_current_version = ''0.20.2'',
      rp_target_version = ''0.20.5'', rp_candidate_label = ''packaged'',
      rp_compatibility = UpgradeCompatibilityProven, rp_reasons = [], rp_managed = True,
      rp_inventory_complete = True, rp_protection_required = True, rp_protection_ready = True,
      rp_evidence_complete = True, rp_upgrade_qualified = True, rp_rollback_qualified = False,
      rp_observed_at = 7\<rparr>"

lemma sample_plan_valid: "runtime_plan_Validate sample_plan"
proof -
  have "validateBoundedText ''0.20.2''" "validateBoundedText ''0.20.5''" "validateBoundedText ''packaged''"
    by (simp_all add: validateBoundedText_def managementTextMaxBytes_def ValidString_def)
  then show ?thesis
    by (simp add: runtime_plan_Validate_def sample_plan_def upgrade_availability_state_Valid_def
        rollback_eligibility_state_Valid_def upgrade_compatibility_state_Valid_def is_zero_time_def
        UpgradeAvailable_def UpgradeUpToDate_def)
qed

theorem valid_plan_executable_iff_qualified_witness:
  "runtime_plan_UpgradeExecutable sample_plan \<and> \<not> runtime_plan_RollbackExecutable sample_plan"
  using valid_plan_executable_iff_qualified [OF sample_plan_valid] by (simp add: sample_plan_def)

subsection \<open>The registry\<close>

definition try_register :: "'h runtime_registry \<Rightarrow> string \<times> 'h runtime_bundle \<Rightarrow> 'h runtime_registry option" where
  "try_register r q = (case Register r (fst q) (snd q) of Inl _ \<Rightarrow> None | Inr r' \<Rightarrow> Some r')"

definition registry_ok :: "'h runtime_registry \<Rightarrow> bool" where
  "registry_ok r \<longleftrightarrow> distinct (map fst r)
     \<and> (\<forall>(k, b) \<in> set r. k \<noteq> [] \<and> ds_kind (bn_descriptor b) = k \<and> ds_name (bn_descriptor b) \<noteq> [])"

lemma try_register_Some:
  "try_register r (k, b) = Some r' \<longleftrightarrow>
     k \<noteq> [] \<and> ds_kind (bn_descriptor b) = k \<and> ds_name (bn_descriptor b) \<noteq> []
     \<and> registry_Get r k = None \<and> r' = AList.update k b r"
  by (auto simp: try_register_def Register_def registry_Get_def split: option.splits)

lemma update_new: "map_of r k = None \<Longrightarrow> AList.update k b r = r @ [(k, b)]"
  by (induction r) (auto split: if_splits)

interpretation bundles: keyed_store registry_Get try_register fst "\<lambda>old q. snd q" registry_ok "\<lambda>q. True"
proof
  fix r :: "'h runtime_registry" and q r' k
  assume "registry_ok r" "try_register r q = Some r'"
  then show "registry_Get r' k = (if k = fst q then Some (snd q) else registry_Get r k)"
    by (cases q) (auto simp: try_register_Some registry_Get_def update_conv')
next
  fix r :: "'h runtime_registry" and q r'
  assume "registry_ok r" "try_register r q = Some r'"
  then show "registry_ok r'"
    by (cases q) (auto simp: try_register_Some registry_Get_def update_new registry_ok_def
        map_of_eq_None_iff)
qed

lemma registered_kind:
  "registry_ok r \<Longrightarrow> registry_Get r k = Some b \<Longrightarrow> ds_kind (bn_descriptor b) = k"
  by (auto simp: registry_ok_def registry_Get_def dest: map_of_SomeD)

lemma registrations_ok: "save_all try_register NewRegistry qs = Some r \<Longrightarrow> registry_ok r"
  by (rule bundles.save_all_inv [of NewRegistry qs]) (simp_all add: NewRegistry_def registry_ok_def list_all_iff)

subsection \<open>Targets\<close>

lemma with_fault_Inr: "with_fault f q = Inr v \<longleftrightarrow> f = None \<and> q = Inr v"
  by (auto simp: with_fault_def split: option.splits sum.splits)

lemma one_row_filter: "one_row (filter p rows) = Inr r \<Longrightarrow> r \<in> set rows \<and> p r"
proof -
  assume "one_row (filter p rows) = Inr r"
  then have "r \<in> set (filter p rows)" by (cases "filter p rows") (simp_all add: one_row_def)
  then show "r \<in> set rows \<and> p r" by simp
qed

lemma supported_selection_Some:
  "supported_selection kind d = Some sel \<longleftrightarrow>
     di_kind d = kind \<and> di_state d = DiscoverySupported \<and> di_selected d = Some sel
     \<and> cn_state sel = DiscoverySupported \<and> cn_path sel \<noteq> [] \<and> cn_version sel \<noteq> []"
  by (auto simp: supported_selection_def split: option.splits)

lemma resolved_bundle:
  "bn_mcp_mutate (ResolveInstanceManagement resolve b inst i) = bn_mcp_mutate b"
  "bn_skill_mutate (ResolveInstanceManagement resolve b inst i) = bn_skill_mutate b"
  "bn_skill_projection (ResolveInstanceManagement resolve b inst i) = bn_skill_projection b"
  "bn_backup_mutate (ResolveInstanceManagement resolve b inst i) = bn_backup_mutate b"
  "bn_restore (ResolveInstanceManagement resolve b inst i) = bn_restore b"
  "bn_upgrade (ResolveInstanceManagement resolve b inst i) = bn_upgrade b"
  "bn_rollback (ResolveInstanceManagement resolve b inst i) = bn_rollback b"
  by (simp_all add: ResolveInstanceManagement_def split: option.splits)

lemma resolve_detected_Inr:
  assumes "resolve_detected detect resolve ctx reg row acc = Inr t"
  obtains d sel b where "detect (ai_kind acc) = Inr d" "supported_selection (ai_kind acc) d = Some sel"
    "cn_path sel = ai_path acc" "registry_Get reg (ai_kind acc) = Some b"
    "t = \<lparr>mg_installation = detected_installation (ai_kind acc) d sel, mg_native = in_native row,
          mg_bundle = ResolveInstanceManagement resolve b
            (detected_installation (ai_kind acc) d sel) (in_native row)\<rparr>"
  using assms by (auto simp: resolve_detected_def Let_def split: sum.splits option.splits if_splits)

text \<open>
  A resolved management target has been checked against all its sources: the instance is an
  available row with a native identity, its installation an accepted and supported row of this
  node, discovery selects the same path as supported now, and every capability that mutates is
  the one registered for that Runtime kind, whatever the per-instance resolver answers.
\<close>

theorem resolved_target_is_backed:
  assumes "ResolveManagementTarget detect resolve f1 f2 ctx s i = Inr t"
    and "ts_db s = Some iv" and "ts_registry s = Some reg"
  shows "\<exists>row acc d sel b. row \<in> set (iv_instances iv) \<and> in_id row = i \<and> in_availability row = Available
    \<and> mg_native t = in_native row \<and> in_native row \<noteq> []
    \<and> acc \<in> set (iv_installations iv) \<and> ai_id acc = in_installation row \<and> ai_node_id acc = ts_node_id s
    \<and> ai_status acc = ''ACCEPTED'' \<and> ai_support acc = DiscoverySupported
    \<and> detect (ai_kind acc) = Inr d \<and> di_selected d = Some sel \<and> di_state d = DiscoverySupported
    \<and> mg_installation t = \<lparr>is_kind = ai_kind acc, is_path = ai_path acc, is_version = cn_version sel,
                          is_support = DiscoverySupported\<rparr>
    \<and> registry_Get reg (ai_kind acc) = Some b
    \<and> bn_mcp_mutate (mg_bundle t) = bn_mcp_mutate b
    \<and> bn_skill_projection (mg_bundle t) = bn_skill_projection b
    \<and> bn_backup_mutate (mg_bundle t) = bn_backup_mutate b \<and> bn_restore (mg_bundle t) = bn_restore b
    \<and> bn_upgrade (mg_bundle t) = bn_upgrade b \<and> bn_rollback (mg_bundle t) = bn_rollback b"
proof -
  from assms obtain row acc where
    rows: "GetInstance iv i = Inr row" "GetAcceptedInstallationByID iv (in_installation row) = Inr acc"
    and row: "in_availability row = Available" "in_native row \<noteq> []"
    and acc: "ai_id acc = in_installation row" "ai_node_id acc = ts_node_id s"
      "ai_status acc = ''ACCEPTED''" "ai_support acc = DiscoverySupported"
    and rest: "resolve_detected detect resolve ctx reg row acc = Inr t"
    by (auto simp: ResolveManagementTarget_def with_fault_Inr
        split: if_splits option.splits sum.splits)
  from rest obtain d sel b where "detect (ai_kind acc) = Inr d"
    "supported_selection (ai_kind acc) d = Some sel" "cn_path sel = ai_path acc"
    "registry_Get reg (ai_kind acc) = Some b"
    "t = \<lparr>mg_installation = detected_installation (ai_kind acc) d sel, mg_native = in_native row,
          mg_bundle = ResolveInstanceManagement resolve b
            (detected_installation (ai_kind acc) d sel) (in_native row)\<rparr>"
    by (rule resolve_detected_Inr)
  moreover from rows have "row \<in> set (iv_instances iv)" "in_id row = i" "acc \<in> set (iv_installations iv)"
    unfolding GetInstance_def GetAcceptedInstallationByID_def by (auto dest: one_row_filter)
  ultimately show ?thesis
    using row acc by (force simp: supported_selection_Some detected_installation_def resolved_bundle)
qed

subsection \<open>A fresh install\<close>

lemma upserted_status:
  assumes "upsert_installation iv v = Inr iv'" and "r \<in> set (iv_installations iv')"
    and "installation_key r = installation_key v"
  shows "ai_status r = ai_status v"
  using assms by (auto simp: upsert_installation_def upserted_row_def installation_key_def split: if_splits)

text \<open>
  A Runtime that an install has just recorded cannot be managed: the install writes the status
  \<open>accepted\<close> and the resolvers ask for \<open>ACCEPTED\<close>, so resolving the installation, and any instance
  of it, fails although discovery selects the very path that was installed.
\<close>

theorem fresh_install_is_not_manageable:
  assumes "upsert_installation iv (accepted_of c now i v d0 sel) = Inr iv'"
    and "ts_db s = Some iv'" and "ts_registry s = Some reg" and "ts_node_id s = sc_node_id c"
    and "detect (op_target_id v) = Inr d" and "di_selected d = Some sel"
  shows "ResolveRuntimeManagementTarget detect reader None None s (op_target_id v) = Inl ErrRuntimeNotSupported
    \<and> (\<forall>k row acc. GetInstance iv' k = Inr row \<and> GetAcceptedInstallationByID iv' (in_installation row) = Inr acc
          \<and> installation_key acc = (sc_node_id c, op_target_id v, cn_path sel) \<longrightarrow>
         (\<exists>e. ResolveManagementTarget detect resolve None None None s k = Inl e))"
proof
  let ?v = "accepted_of c now i v d0 sel"
  have lower: "ai_status r \<noteq> ''ACCEPTED''"
    if "r \<in> set (iv_installations iv')" "installation_key r = installation_key ?v" for r
    using upserted_status [OF assms(1) that] by (simp add: accepted_of_def)
  show "ResolveRuntimeManagementTarget detect reader None None s (op_target_id v) = Inl ErrRuntimeNotSupported"
  proof (cases "supported_selection (op_target_id v) d")
    case None
    then show ?thesis by (simp add: ResolveRuntimeManagementTarget_def assms context_or_def)
  next
    case (Some sel')
    then have [simp]: "sel' = sel" using assms(6) by (simp add: supported_selection_Some)
    show ?thesis
    proof (cases "GetAcceptedInstallation iv' (sc_node_id c) (op_target_id v) (cn_path sel)")
      case (Inl e)
      then have "e = ErrNoRows"
        by (auto simp: GetAcceptedInstallation_def one_row_def split: list.splits)
      with Inl Some show ?thesis
        by (simp add: ResolveRuntimeManagementTarget_def assms with_fault_def)
    next
      case (Inr acc)
      then have "ai_status acc \<noteq> ''ACCEPTED''"
        unfolding GetAcceptedInstallation_def
        by (intro lower) (auto dest!: one_row_filter simp: installation_key_def accepted_of_def)
      with Inr Some show ?thesis
        by (simp add: ResolveRuntimeManagementTarget_def assms with_fault_def)
    qed
  qed
  show "\<forall>k row acc. GetInstance iv' k = Inr row \<and> GetAcceptedInstallationByID iv' (in_installation row) = Inr acc
      \<and> installation_key acc = (sc_node_id c, op_target_id v, cn_path sel) \<longrightarrow>
      (\<exists>e. ResolveManagementTarget detect resolve None None None s k = Inl e)"
  proof (intro allI impI, elim conjE)
    fix k row acc
    assume rows: "GetInstance iv' k = Inr row" "GetAcceptedInstallationByID iv' (in_installation row) = Inr acc"
      and key: "installation_key acc = (sc_node_id c, op_target_id v, cn_path sel)"
    have "acc \<in> set (iv_installations iv')"
      using rows(2) unfolding GetAcceptedInstallationByID_def by (auto dest: one_row_filter)
    then have "ai_status acc \<noteq> ''ACCEPTED''"
      using key by (intro lower) (auto simp: installation_key_def accepted_of_def)
    with rows show "\<exists>e. ResolveManagementTarget detect resolve None None None s k = Inl e"
      by (auto simp: ResolveManagementTarget_def assms with_fault_def)
  qed
qed

subsection \<open>A node with one manageable and one fresh installation\<close>

definition no_native_skill :: native_capability where
  "no_native_skill = \<lparr>nc_supported = False, nc_reason = []\<rparr>"

definition sample_bundle :: "nat runtime_bundle" where
  "sample_bundle =
      \<lparr>bn_descriptor = \<lparr>ds_kind = ''hermes'', ds_name = ''Hermes'', ds_description = []\<rparr>,
       bn_discoverer = Some 0, bn_models = None, bn_lifecycle = None, bn_channels = None,
       bn_health = None, bn_logs = None, bn_security = None, bn_skill_read = None,
       bn_skill_mutate = None, bn_skill_projection = None,
       bn_native_skills = \<lparr>nk_inventory = no_native_skill, nk_install = no_native_skill,
         nk_update = no_native_skill, nk_remove = no_native_skill, nk_enable_disable = no_native_skill,
         nk_profile_binding = no_native_skill\<rparr>,
       bn_mcp_read = None, bn_mcp_mutate = Some 1, bn_backup_read = None, bn_backup_mutate = None,
       bn_restore = None, bn_upgrade_plan = None, bn_upgrade = None, bn_rollback = None,
       bn_instance_management = None\<rparr>"

definition sample_selected :: candidate where
  "sample_selected =
     \<lparr>cn_path = ''/h'', cn_version = ''0.20.5'', cn_state = DiscoverySupported, cn_error_code = []\<rparr>"

definition sample_discovery :: discovery where
  "sample_discovery =
     zero_discovery\<lparr>di_kind := ''hermes'', di_state := DiscoverySupported, di_selected := Some sample_selected\<rparr>"

definition sample_accepted :: "string \<Rightarrow> accepted_installation" where
  "sample_accepted status =
     \<lparr>ai_id = ''rtinst_a'', ai_node_id = ''node'', ai_kind = ''hermes'', ai_path = ''/h'',
      ai_version = ''0.20.5'', ai_support = DiscoverySupported, ai_status = status,
      ai_detected_at = 1, ai_created_at = 1, ai_updated_at = 1\<rparr>"

definition sample_node :: "string \<Rightarrow> inventory" where
  "sample_node status =
     \<lparr>iv_nodes = [''node''], iv_installations = [sample_accepted status],
      iv_instances = [\<lparr>in_id = ''inst'', in_installation = ''rtinst_a'', in_native = ''default'',
        in_name = ''default'', in_default = True, in_protected = True, in_availability = Available,
        in_last_synced = None, in_created_at = 1, in_updated_at = 1\<rparr>]\<rparr>"

definition sample_targets :: "string \<Rightarrow> nat target_service" where
  "sample_targets status =
     \<lparr>ts_db = Some (sample_node status), ts_registry = Some [(''hermes'', sample_bundle)],
      ts_node_id = ''node''\<rparr>"

lemmas sample_target_defs = sample_targets_def sample_node_def sample_accepted_def
  sample_discovery_def sample_selected_def sample_bundle_def zero_discovery_def

theorem resolved_target_is_backed_witness:
  "\<exists>t. ResolveManagementTarget (\<lambda>k. Inr sample_discovery :: unit + discovery) (\<lambda>h i n. None) None None None
       (sample_targets ''ACCEPTED'') ''inst'' = Inr t
     \<and> is_path (mg_installation t) = ''/h'' \<and> bn_mcp_mutate (mg_bundle t) = Some 1"
proof -
  let ?r = "ResolveManagementTarget (\<lambda>k. Inr sample_discovery :: unit + discovery) (\<lambda>h i n. None) None None None
       (sample_targets ''ACCEPTED'') ''inst''"
  obtain t where t: "?r = Inr t"
    by (simp add: ResolveManagementTarget_def resolve_detected_def sample_target_defs GetInstance_def
        GetAcceptedInstallationByID_def one_row_def with_fault_def supported_selection_def registry_Get_def Let_def)
  have db: "ts_db (sample_targets ''ACCEPTED'') = Some (sample_node ''ACCEPTED'')"
    and reg: "ts_registry (sample_targets ''ACCEPTED'') = Some [(''hermes'', sample_bundle)]"
    by (simp_all add: sample_targets_def)
  have "\<forall>a \<in> set (iv_installations (sample_node ''ACCEPTED'')). a = sample_accepted ''ACCEPTED''"
    by (simp add: sample_node_def)
  moreover have "is_path \<lparr>is_kind = k, is_path = p, is_version = w, is_support = u\<rparr> = p" for k p w u by simp
  ultimately have "is_path (mg_installation t) = ''/h'' \<and> bn_mcp_mutate (mg_bundle t) = Some 1"
    using resolved_target_is_backed [OF t db reg]
    by (auto simp: sample_accepted_def registry_Get_def split: if_splits) (simp add: sample_bundle_def)
  with t show ?thesis by blast
qed

theorem fresh_install_is_not_manageable_witness:
  "let v = (sample_operation ''op'' TypeRuntimeInstall TargetRuntimeKind 1)\<lparr>op_target_id := ''hermes''\<rparr>;
       fresh = accepted_of (sample_config\<lparr>sc_node_id := ''node''\<rparr>) 2 ''rtinst_b'' v sample_discovery sample_selected
   in case upsert_installation ((sample_node [])\<lparr>iv_installations := []\<rparr>) fresh of
        Inl e \<Rightarrow> False
      | Inr iv' \<Rightarrow> ResolveRuntimeManagementTarget (\<lambda>k. Inr sample_discovery :: unit + discovery) (\<lambda>i. 9) None None
                     ((sample_targets [])\<lparr>ts_db := Some iv'\<rparr>) ''hermes'' = Inl ErrRuntimeNotSupported"
proof -
  let ?v = "(sample_operation ''op'' TypeRuntimeInstall TargetRuntimeKind 1)\<lparr>op_target_id := ''hermes''\<rparr>"
  let ?c = "sample_config\<lparr>sc_node_id := ''node''\<rparr>"
  let ?iv = "(sample_node [])\<lparr>iv_installations := []\<rparr>"
  let ?a = "accepted_of ?c 2 ''rtinst_b'' ?v sample_discovery sample_selected"
  obtain iv' where up: "upsert_installation ?iv ?a = Inr iv'"
    by (simp add: upsert_installation_def sample_node_def accepted_of_def)
  have sel: "di_selected sample_discovery = Some sample_selected"
    by (simp add: sample_discovery_def)
  have "ResolveRuntimeManagementTarget (\<lambda>k. Inr sample_discovery :: unit + discovery) (\<lambda>i. 9) None None
      ((sample_targets [])\<lparr>ts_db := Some iv'\<rparr>) (op_target_id ?v) = Inl ErrRuntimeNotSupported"
    using fresh_install_is_not_manageable [OF up, of "(sample_targets [])\<lparr>ts_db := Some iv'\<rparr>"
        "[(''hermes'', sample_bundle)]" "\<lambda>k. Inr sample_discovery :: unit + discovery" sample_discovery "\<lambda>i. 9"]
    by (simp add: sample_targets_def sel)
  then show ?thesis by (simp add: Let_def up)
qed

end
