(* ===== verification/Backup_Index_Properties.thy ===== *)
theory Backup_Index_Properties
  imports Backup_Index
begin

text \<open>
  What the backup index guarantees: the table invariant and its preservation, the artifact
  identity that no statement changes, and that the reader can project every row whose
  identifier is a management identifier.
\<close>

subsection \<open>Invariant\<close>

definition row_ok :: "backup_row \<Rightarrow> bool" where
  "row_ok r \<longleftrightarrow>
     validateVerifiedRuntimeBackup (r\<lparr>br_state := RuntimeBackupAvailable\<rparr>)
     \<and> index_state_valid (br_state r)"

definition backup_inv :: "backup_table \<Rightarrow> bool" where
  "backup_inv t \<longleftrightarrow>
     distinct (map br_id (bt_rows t))
     \<and> distinct (map (\<lambda>r. (br_installation r, br_path r)) (bt_rows t))
     \<and> (\<forall>r \<in> set (bt_rows t). row_ok r \<and> br_installation r \<in> set (bt_installations t))"

text \<open>Everything of a row but its state and the two times that reconciliation writes.\<close>

definition artifact :: "backup_row \<Rightarrow> backup_row" where
  "artifact r = r\<lparr>br_state := [], br_verified_at := 0, br_updated_at := 0\<rparr>"

definition backup_of :: "backup_table \<Rightarrow> string \<Rightarrow> backup_row option" where
  "backup_of t i = first_match (\<lambda>r. br_id r = i) (bt_rows t)"

inductive backup_step :: "backup_table \<Rightarrow> backup_table \<Rightarrow> bool" where
  insert: "InsertVerifiedRuntimeBackup t v = Inr t' \<Longrightarrow> backup_step t t'"
| reconcile: "ReconcileRuntimeBackupState t c = (t', e) \<Longrightarrow> backup_step t t'"
| delete: "DeleteRuntimeBackup t inst i = (t', e) \<Longrightarrow> backup_step t t'"
| delete_by_id: "DeleteRuntimeBackupByID t i = (t', e) \<Longrightarrow> backup_step t t'"

lemma reconciled_row_simps [simp]:
  "br_id (reconciled_row c r) = br_id r"
  "br_installation (reconciled_row c r) = br_installation r"
  "br_path (reconciled_row c r) = br_path r"
  "artifact (reconciled_row c r) = artifact r"
  by (simp_all add: reconciled_row_def artifact_def split: option.splits)

lemma first_match_distinct:
  "distinct (map f xs) \<Longrightarrow> x \<in> set xs \<Longrightarrow> first_match (\<lambda>y. f y = f x) xs = Some x"
  by (induction xs) (auto simp: image_iff)

lemma first_match_map:
  "(\<And>x. p (f x) = p x) \<Longrightarrow> first_match p (map f xs) = map_option f (first_match p xs)"
  by (induction xs) auto

lemma first_match_filter_Some:
  "distinct (map f xs) \<Longrightarrow> first_match (\<lambda>y. f y = k) (filter q xs) = Some x
   \<Longrightarrow> first_match (\<lambda>y. f y = k) xs = Some x"
  by (induction xs) (auto split: if_splits dest!: first_match_Some simp: image_iff)

text \<open>The cases of a step: a new row, rewritten rows, or fewer rows.\<close>

lemma backup_step_cases:
  assumes "backup_step t t'"
  obtains
    (new) v where "validateVerifiedRuntimeBackup v" "br_installation v \<in> set (bt_installations t)"
      "\<forall>r \<in> set (bt_rows t). br_id r \<noteq> br_id v
          \<and> (br_installation r, br_path r) \<noteq> (br_installation v, br_path v)"
      "t' = t\<lparr>bt_rows := bt_rows t @ [v\<lparr>br_state := RuntimeBackupAvailable\<rparr>]\<rparr>"
  | (rewritten) c p where "index_state_valid (rc_state c)" "\<not> is_zero_time (rc_updated_at c)"
      "rc_state c = RuntimeBackupAvailable \<longleftrightarrow> rc_verified_at c \<noteq> None" "rc_verified_at c \<noteq> Some 0"
      "t' = t\<lparr>bt_rows := map (\<lambda>r. if p r then reconciled_row c r else r) (bt_rows t)\<rparr>"
  | (fewer) p where "t' = t\<lparr>bt_rows := filter p (bt_rows t)\<rparr>"
  using assms
proof cases
  case (insert v)
  then show ?thesis
    by (intro new [of v]) (auto simp: InsertVerifiedRuntimeBackup_def split: if_splits)
next
  case (reconcile c e)
  show ?thesis
  proof (cases "t' = t")
    case True
    then show ?thesis using fewer [of "\<lambda>_. True"] by simp
  next
    case False
    with reconcile show ?thesis
      by (intro rewritten [of c "\<lambda>r. br_installation r = rc_installation c \<and> br_id r = rc_id c"])
        (auto simp: ReconcileRuntimeBackupState_def Let_def is_zero_time_def split: if_splits option.splits)
  qed
next
  case (delete inst i e)
  then show ?thesis
    using fewer [of "\<lambda>_. True"] fewer [of "\<lambda>r. \<not> (br_installation r = inst \<and> br_id r = i)"]
    by (auto simp: DeleteRuntimeBackup_def delete_where_def split: if_splits)
next
  case (delete_by_id i e)
  then show ?thesis
    using fewer [of "\<lambda>_. True"] fewer [of "\<lambda>r. br_id r \<noteq> i"]
    by (auto simp: DeleteRuntimeBackupByID_def delete_where_def split: if_splits)
qed

lemma row_ok_inserted: "validateVerifiedRuntimeBackup v \<Longrightarrow> row_ok (v\<lparr>br_state := RuntimeBackupAvailable\<rparr>)"
  by (auto simp: row_ok_def validateVerifiedRuntimeBackup_def index_state_valid_def split: if_splits)

lemma row_ok_reconciled:
  "row_ok r \<Longrightarrow> index_state_valid (rc_state c) \<Longrightarrow> \<not> is_zero_time (rc_updated_at c)
   \<Longrightarrow> rc_verified_at c \<noteq> Some 0 \<Longrightarrow> row_ok (reconciled_row c r)"
  by (auto simp: row_ok_def reconciled_row_def validateVerifiedRuntimeBackup_def is_zero_time_def
      split: option.splits if_splits)

lemma distinct_map_filter_key: "distinct (map f xs) \<Longrightarrow> distinct (map f (filter p xs))"
  by (induction xs) auto

lemma backup_step_inv: "backup_step t t' \<Longrightarrow> backup_inv t \<Longrightarrow> backup_inv t'"
proof (erule backup_step_cases)
  fix v
  assume "backup_inv t" "validateVerifiedRuntimeBackup v" "br_installation v \<in> set (bt_installations t)"
    "\<forall>r \<in> set (bt_rows t). br_id r \<noteq> br_id v
        \<and> (br_installation r, br_path r) \<noteq> (br_installation v, br_path v)"
    "t' = t\<lparr>bt_rows := bt_rows t @ [v\<lparr>br_state := RuntimeBackupAvailable\<rparr>]\<rparr>"
  then show "backup_inv t'" by (auto simp: backup_inv_def row_ok_inserted)
next
  fix c p
  assume inv: "backup_inv t" and c: "index_state_valid (rc_state c)" "\<not> is_zero_time (rc_updated_at c)"
    "rc_verified_at c \<noteq> Some 0"
    and t': "t' = t\<lparr>bt_rows := map (\<lambda>r. if p r then reconciled_row c r else r) (bt_rows t)\<rparr>"
  have "map br_id (bt_rows t') = map br_id (bt_rows t)"
    "map (\<lambda>r. (br_installation r, br_path r)) (bt_rows t')
     = map (\<lambda>r. (br_installation r, br_path r)) (bt_rows t)"
    by (simp_all add: t')
  moreover have "\<forall>r \<in> set (bt_rows t'). row_ok r \<and> br_installation r \<in> set (bt_installations t')"
    using inv by (auto simp: t' backup_inv_def intro: row_ok_reconciled [OF _ c])
  ultimately show "backup_inv t'" using inv by (simp add: backup_inv_def)
next
  fix p
  assume "backup_inv t" "t' = t\<lparr>bt_rows := filter p (bt_rows t)\<rparr>"
  then show "backup_inv t'" by (auto simp: backup_inv_def distinct_map_filter_key)
qed

lemma backup_step_artifact:
  assumes "backup_step t t'" "backup_inv t" "backup_of t i = Some r" "backup_of t' i = Some r'"
  shows "artifact r' = artifact r"
  using assms(1)
proof (cases rule: backup_step_cases)
  case (new v)
  from assms(3) new(3) have "br_id v \<noteq> i" by (auto simp: backup_of_def dest!: first_match_Some)
  then have "backup_of t' i = backup_of t i"
    unfolding backup_of_def new(4) by (induction "bt_rows t") (simp_all add: first_match_filter)
  with assms show ?thesis by simp
next
  case (rewritten c p)
  have "backup_of t' i = map_option (\<lambda>r. if p r then reconciled_row c r else r) (backup_of t i)"
    unfolding backup_of_def rewritten(5) by (simp add: first_match_map)
  with assms show ?thesis by auto
next
  case (fewer p)
  with assms(2,4) have "backup_of t i = Some r'"
    by (auto simp: backup_of_def backup_inv_def intro: first_match_filter_Some)
  with assms show ?thesis by simp
qed

lemma backup_of_row_ok: "backup_inv t \<Longrightarrow> backup_of t i = Some r \<Longrightarrow> row_ok r"
  by (auto simp: backup_inv_def backup_of_def dest!: first_match_Some)

lemma artifact_eqD:
  "artifact r' = artifact r \<Longrightarrow>
   r' = r\<lparr>br_state := br_state r', br_verified_at := br_verified_at r', br_updated_at := br_updated_at r'\<rparr>"
  by (cases r, cases r') (simp add: artifact_def)

text \<open>
  Along any sequence of inserts, reconciliations and deletions, as long as a backup stays in
  the index, its row keeps the path, size, digest, format, version and key authority of the
  verified artifact it was inserted for; only its state and two times change, and it stays a row
  that the insert would accept.
\<close>

theorem backup_identity_immutable:
  assumes "run_from backup_step t ts" and "backup_inv t" and "backup_of t i = Some r"
    and "\<forall>x \<in> set ts. backup_of x i \<noteq> None"
  shows "\<exists>r'. backup_of (last (t # ts)) i = Some r' \<and> row_ok r'
    \<and> r' = r\<lparr>br_state := br_state r', br_verified_at := br_verified_at r',
             br_updated_at := br_updated_at r'\<rparr>"
proof -
  have "\<exists>r'. backup_of (last (t # ts)) i = Some r' \<and> row_ok r' \<and> artifact r' = artifact r"
    using assms
  proof (induction ts arbitrary: t r)
    case (Cons u us)
    then obtain q where q: "backup_of u i = Some q" by auto
    with Cons.prems have "backup_inv u" "artifact q = artifact r"
      by (auto intro: backup_step_inv backup_step_artifact)
    with Cons.IH [OF _ _ q] Cons.prems show ?case by auto
  qed (simp add: backup_of_row_ok)
  then show ?thesis by (metis artifact_eqD)
qed

subsection \<open>The reader\<close>

lemma lower_hex: "validLowerSHA256 v \<Longrightarrow> validSHA256 v"
  by (simp add: validLowerSHA256_def validSHA256_def class_exact_def)

lemma index_state_indexed: "index_state_valid s = backup_state_Indexed s"
  by (simp add: index_state_valid_def backup_state_Indexed_def RuntimeBackupAvailable_def
      RuntimeBackupMissing_def RuntimeBackupChanged_def RuntimeBackupUndecryptable_def
      RuntimeBackupMalformed_def RuntimeBackupUnknown_def BackupAvailable_def BackupMissing_def
      BackupChanged_def BackupUndecryptable_def BackupMalformed_def BackupUnknown_def)

lemma project_row:
  assumes "row_ok r"
  shows "(\<exists>b. projectRuntimeBackup r = Inr b \<and> bk_id b = br_id r \<and> bk_checksum b = br_checksum r
      \<and> bk_state b = br_state r) \<longleftrightarrow> validateManagementID (br_id r)"
    and "projectRuntimeBackup r = Inl e \<Longrightarrow> e = ErrBackupContract"
proof -
  have "backup_key_mode_Valid (br_key_mode r)"
    using assms by (auto simp: row_ok_def validateVerifiedRuntimeBackup_def backup_key_mode_Valid_def
        RuntimeBackupDeviceKey_def RuntimeBackupPassphrase_def BackupKeyDevice_def
        BackupKeyPassphrase_def split: if_splits)
  moreover have "validSHA256 (br_checksum r)" "br_format_version r \<noteq> []" "br_runtime_version r \<noteq> []"
    "0 < br_size r" "br_created_at r \<noteq> 0" "br_verified_at r \<noteq> 0"
    using assms by (auto simp: row_ok_def validateVerifiedRuntimeBackup_def boundedMetadata_def
        is_zero_time_def intro: lower_hex)
  ultimately show "(\<exists>b. projectRuntimeBackup r = Inr b \<and> bk_id b = br_id r \<and> bk_checksum b = br_checksum r
      \<and> bk_state b = br_state r) \<longleftrightarrow> validateManagementID (br_id r)"
    using assms by (auto simp: projectRuntimeBackup_def Let_def backup_Validate_def row_ok_def
        index_state_indexed backup_state_Valid_def is_zero_time_def)
  show "projectRuntimeBackup r = Inl e \<Longrightarrow> e = ErrBackupContract"
    by (auto simp: projectRuntimeBackup_def Let_def split: if_splits)
qed

lemma project_all_cases:
  assumes "\<forall>r \<in> set rs. row_ok r"
  shows "if \<forall>r \<in> set rs. validateManagementID (br_id r)
    then \<exists>bs. project_all rs = Inr bs \<and> map bk_id bs = map br_id rs
      \<and> map bk_checksum bs = map br_checksum rs \<and> map bk_state bs = map br_state rs
    else project_all rs = Inl ErrBackupContract"
  using assms
proof (induction rs)
  case (Cons r rs)
  then have r: "row_ok r" by simp
  show ?case
  proof (cases "projectRuntimeBackup r")
    case (Inl e)
    with project_row [OF r] show ?thesis by auto
  next
    case (Inr b)
    then have b: "bk_id b = br_id r" "bk_checksum b = br_checksum r" "bk_state b = br_state r"
      "validateManagementID (br_id r)"
      using project_row(1) [OF r] by (auto simp: projectRuntimeBackup_def Let_def split: if_splits)
    from Cons show ?thesis by (auto simp: Inr b split: if_splits)
  qed
qed simp

lemma set_ListRuntimeBackups:
  "set (ListRuntimeBackups t inst) = {r \<in> set (bt_rows t). br_installation r = inst}"
  by (auto simp: ListRuntimeBackups_def)

text \<open>
  What the index stores is what the reader shows: for a supported installation the list has
  one entry per indexed backup, in the index's order, with the row's digest and state. The single
  exception: one row whose identifier is not a management identifier (the insert only bounds its
  length) makes the whole list fail.
\<close>

theorem indexed_backups_readable:
  assumes "backup_inv t" and "reader_validate inst i"
  shows "if \<forall>r \<in> set (bt_rows t). br_installation r = inst \<longrightarrow> validateManagementID (br_id r)
    then \<exists>bs. ListBackups t inst i = Inr bs \<and> map bk_id bs = map br_id (ListRuntimeBackups t inst)
      \<and> map bk_checksum bs = map br_checksum (ListRuntimeBackups t inst)
      \<and> map bk_state bs = map br_state (ListRuntimeBackups t inst)
    else ListBackups t inst i = Inl ErrBackupContract"
proof -
  have "\<forall>r \<in> set (ListRuntimeBackups t inst). row_ok r"
    using assms(1) by (auto simp: set_ListRuntimeBackups backup_inv_def)
  from project_all_cases [OF this] assms(2) show ?thesis
    by (auto simp: ListBackups_def set_ListRuntimeBackups split: if_splits)
qed

subsection \<open>A table with two backups\<close>

definition sample_backup :: "string \<Rightarrow> string \<Rightarrow> backup_row" where
  "sample_backup i p =
     \<lparr>br_id = i, br_installation = ''rtinst_a'', br_format_version = ''1'', br_runtime_version = ''0.20.5'',
      br_path = p, br_size = 1024, br_checksum = replicate 64 CHR ''a'', br_state = RuntimeBackupAvailable,
      br_key_mode = RuntimeBackupDeviceKey, br_key_ref = ''key_a'', br_created_at = 5,
      br_verified_at = 6, br_updated_at = 6\<rparr>"

definition sample_backups :: backup_table where
  "sample_backups =
     \<lparr>bt_installations = [''rtinst_a''],
      bt_rows = [sample_backup ''backup-1'' ''/b/1'', sample_backup ''backup-2'' ''/b/2'']\<rparr>"

lemma sample_row_ok:
  assumes "i \<noteq> []" "length i \<le> 256" "p \<noteq> []" "length p \<le> 32767" "CHR 0x00 \<notin> set p"
  shows "row_ok (sample_backup i p)"
proof -
  have "TrimSpace ''1'' = ''1''" "TrimSpace ''0.20.5'' = ''0.20.5''" by code_simp+
  moreover have "lower_char CHR ''a'' = CHR ''a''" "is_hex CHR ''a''" by code_simp+
  ultimately show ?thesis
    using assms by (simp add: row_ok_def validateVerifiedRuntimeBackup_def sample_backup_def
        boundedMetadata_def validLowerSHA256_def list_all_iff is_zero_time_def index_state_valid_def)
qed

lemma sample_backups_inv: "backup_inv sample_backups"
  by (simp add: backup_inv_def sample_backups_def sample_row_ok) (simp add: sample_backup_def)

theorem backup_identity_immutable_witness:
  "let t' = fst (ReconcileRuntimeBackupState sample_backups
      \<lparr>rc_installation = ''rtinst_a'', rc_id = ''backup-1'', rc_state = RuntimeBackupMissing,
       rc_verified_at = None, rc_updated_at = 9\<rparr>)
   in \<exists>r'. backup_of t' ''backup-1'' = Some r' \<and> row_ok r'
        \<and> br_path r' = ''/b/1'' \<and> br_state r' = RuntimeBackupMissing"
proof -
  let ?c = "\<lparr>rc_installation = ''rtinst_a'', rc_id = ''backup-1'', rc_state = RuntimeBackupMissing,
       rc_verified_at = None, rc_updated_at = 9\<rparr>"
  let ?t = "fst (ReconcileRuntimeBackupState sample_backups ?c)"
  have step: "run_from backup_step sample_backups [?t]"
    by (simp add: backup_step.reconcile [OF surjective_pairing])
  have old: "backup_of sample_backups ''backup-1'' = Some (sample_backup ''backup-1'' ''/b/1'')"
    by code_simp
  have new: "map_option br_state (backup_of ?t ''backup-1'') = Some RuntimeBackupMissing" by code_simp
  then have "\<forall>x \<in> set [?t]. backup_of x ''backup-1'' \<noteq> None" by auto
  from backup_identity_immutable [OF step sample_backups_inv old this] obtain r' where
    r': "backup_of ?t ''backup-1'' = Some r'" "row_ok r'"
      "r' = (sample_backup ''backup-1'' ''/b/1'')\<lparr>br_state := br_state r',
         br_verified_at := br_verified_at r', br_updated_at := br_updated_at r'\<rparr>"
    by auto
  from r'(3) have "br_path r' = br_path ((sample_backup ''backup-1'' ''/b/1'')\<lparr>br_state := br_state r',
         br_verified_at := br_verified_at r', br_updated_at := br_updated_at r'\<rparr>)"
    by (rule arg_cong)
  then have "br_path r' = ''/b/1''" by (simp add: sample_backup_def)
  moreover from new r'(1) have "br_state r' = RuntimeBackupMissing" by simp
  ultimately show ?thesis using r'(1,2) unfolding Let_def by blast
qed

theorem indexed_backups_readable_witness:
  "\<exists>bs. ListBackups sample_backups ''rtinst_a''
      \<lparr>is_kind = ''hermes'', is_path = ''/h'', is_version = ''0.20.5'', is_support = DiscoverySupported\<rparr>
      = Inr bs \<and> map bk_id bs = [''backup-1'', ''backup-2'']"
proof -
  let ?i = "\<lparr>is_kind = ''hermes'', is_path = ''/h'', is_version = ''0.20.5'', is_support = DiscoverySupported\<rparr>"
  have ok: "reader_validate ''rtinst_a'' ?i" by code_simp
  have ids: "\<forall>r \<in> set (bt_rows sample_backups). br_installation r = ''rtinst_a''
      \<longrightarrow> validateManagementID (br_id r)" by code_simp
  have rows: "map br_id (ListRuntimeBackups sample_backups ''rtinst_a'') = [''backup-1'', ''backup-2'']"
    by (simp add: ListRuntimeBackups_def sample_backups_def sample_backup_def)
  from indexed_backups_readable [OF sample_backups_inv ok] ids rows show ?thesis by auto
qed

end
