(* ===== verification/Json_Text.thy ===== *)
theory Json_Text
  imports Go_Strings Go_Format
begin

text \<open>
  The text of a JSON value as \<open>encoding/json\<close> writes and reads it: \<open>json.Marshal\<close> (compact, with
  HTML escaping) and the scanner and value parser behind \<open>json.Unmarshal\<close> and
  \<open>Decoder.Decode\<close>. A number is its literal; strings are bytes.

  The parser recurses on fuel. Every call reads at least one byte or is followed by one that
  does, so twice the length of the text is enough; \<open>fuel_irrelevant\<close> shows that more fuel never
  changes a result.
\<close>

datatype jval =
    VNull | VBool bool | VNum string | VStr string
  | VArr "jval list" | VObj "(string \<times> jval) list"

subsection \<open>Runes\<close>

text \<open>The first rune of a string that starts with a byte of 128 or more, when it is valid UTF-8.\<close>

definition take_rune :: "string \<Rightarrow> (string \<times> string) option" where
  "take_rune s =
     (case s of
        a # b # t \<Rightarrow>
          if in_range 194 223 a then (if in_range 128 191 b then Some ([a, b], t) else None)
          else if in_range 224 239 a then
            (case t of
               c # t' \<Rightarrow>
                 if in_range (if of_char a = (224::nat) then 160 else 128)
                      (if of_char a = (237::nat) then 159 else 191) b \<and> in_range 128 191 c
                 then Some ([a, b, c], t') else None
             | [] \<Rightarrow> None)
          else if in_range 240 244 a then
            (case t of
               c # d # t' \<Rightarrow>
                 if in_range (if of_char a = (240::nat) then 144 else 128)
                      (if of_char a = (244::nat) then 143 else 191) b
                    \<and> in_range 128 191 c \<and> in_range 128 191 d
                 then Some ([a, b, c, d], t') else None
             | _ \<Rightarrow> None)
          else None
      | _ \<Rightarrow> None)"

text \<open>\<open>utf8.AppendRune\<close> for a code point that is not a surrogate.\<close>

definition utf8_of :: "nat \<Rightarrow> string" where
  "utf8_of n =
     (if n < 128 then [char_of n]
      else if n < 2048 then [char_of (192 + n div 64), char_of (128 + n mod 64)]
      else if n < 65536
      then [char_of (224 + n div 4096), char_of (128 + n div 64 mod 64), char_of (128 + n mod 64)]
      else [char_of (240 + n div 262144), char_of (128 + n div 4096 mod 64),
            char_of (128 + n div 64 mod 64), char_of (128 + n mod 64)])"

definition replacement_rune :: string where
  "replacement_rune = [CHR 0xEF, CHR 0xBF, CHR 0xBD]"

subsection \<open>Writing\<close>

definition hex_char :: "nat \<Rightarrow> char" where
  "hex_char n = ''0123456789abcdef'' ! n"

definition escape_byte :: "char \<Rightarrow> string" where
  "escape_byte c =
     (if c = CHR 0x22 \<or> c = CHR 0x5C then [CHR 0x5C, c]
      else if c = CHR 0x08 then [CHR 0x5C, CHR ''b'']
      else if c = CHR 0x0C then [CHR 0x5C, CHR ''f'']
      else if c = CHR 0x0A then [CHR 0x5C, CHR ''n'']
      else if c = CHR 0x0D then [CHR 0x5C, CHR ''r'']
      else if c = CHR 0x09 then [CHR 0x5C, CHR ''t'']
      else if of_char c < (32::nat) \<or> c = CHR ''<'' \<or> c = CHR ''>'' \<or> c = CHR ''&''
      then [CHR 0x5C, CHR ''u'', CHR ''0'', CHR ''0'', hex_char (of_char c div 16), hex_char (of_char c mod 16)]
      else [c])"

definition escape_rune :: "string \<Rightarrow> string" where
  "escape_rune r =
     (if r = [CHR 0xE2, CHR 0x80, CHR 0xA8] then CHR 0x5C # ''u2028''
      else if r = [CHR 0xE2, CHR 0x80, CHR 0xA9] then CHR 0x5C # ''u2029''
      else r)"

fun escape :: "nat \<Rightarrow> string \<Rightarrow> string" where
  "escape 0 s = []"
| "escape (Suc n) [] = []"
| "escape (Suc n) (a # s) =
     (if is_ascii a then escape_byte a @ escape n s
      else case take_rune (a # s) of
             Some (r, t) \<Rightarrow> escape_rune r @ escape n t
           | None \<Rightarrow> (CHR 0x5C # ''ufffd'') @ escape n s)"

definition json_quote :: "string \<Rightarrow> string" where
  "json_quote s = CHR 0x22 # escape (length s) s @ [CHR 0x22]"

fun json_text :: "jval \<Rightarrow> string" where
  "json_text VNull = ''null''"
| "json_text (VBool b) = (if b then ''true'' else ''false'')"
| "json_text (VNum s) = s"
| "json_text (VStr s) = json_quote s"
| "json_text (VArr vs) = CHR ''['' # join_on CHR '','' (map json_text vs) @ '']''"
| "json_text (VObj kvs) =
     CHR ''{'' # join_on CHR '','' (map (\<lambda>(k, v). json_quote k @ CHR '':'' # json_text v) kvs) @ ''}''"

subsection \<open>Reading strings and numbers\<close>

definition hex_value :: "char \<Rightarrow> nat option" where
  "hex_value c =
     (if is_digit c then Some (of_char c - 48)
      else if CHR ''a'' \<le> c \<and> c \<le> CHR ''f'' then Some (of_char c - 87)
      else if CHR ''A'' \<le> c \<and> c \<le> CHR ''F'' then Some (of_char c - 55)
      else None)"

definition hex4 :: "string \<Rightarrow> (nat \<times> string) option" where
  "hex4 s =
     (case s of
        a # b # c # d # t \<Rightarrow>
          (case (hex_value a, hex_value b, hex_value c, hex_value d) of
             (Some w, Some x, Some y, Some z) \<Rightarrow> Some (((w * 16 + x) * 16 + y) * 16 + z, t)
           | _ \<Rightarrow> None)
      | _ \<Rightarrow> None)"

definition simple_escape :: "char \<Rightarrow> char option" where
  "simple_escape e =
     (if e = CHR 0x22 \<or> e = CHR 0x5C \<or> e = CHR ''/'' then Some e
      else if e = CHR ''b'' then Some CHR 0x08
      else if e = CHR ''f'' then Some CHR 0x0C
      else if e = CHR ''n'' then Some CHR 0x0A
      else if e = CHR ''r'' then Some CHR 0x0D
      else if e = CHR ''t'' then Some CHR 0x09
      else None)"

text \<open>A surrogate pairs with the escape that follows it or becomes the replacement rune.\<close>

definition second_surrogate :: "string \<Rightarrow> (nat \<times> string) option" where
  "second_surrogate s =
     (case s of
        b # u # t \<Rightarrow>
          if b = CHR 0x5C \<and> u = CHR ''u'' then
            (case hex4 t of
               Some (w, t') \<Rightarrow> if 56320 \<le> w \<and> w < 57344 then Some (w, t') else None
             | None \<Rightarrow> None)
          else None
      | _ \<Rightarrow> None)"

definition unicode_escape :: "string \<Rightarrow> (string \<times> string) option" where
  "unicode_escape s =
     (case hex4 s of
        None \<Rightarrow> None
      | Some (v, t) \<Rightarrow>
          if v < 55296 \<or> 57344 \<le> v then Some (utf8_of v, t)
          else if 56320 \<le> v then Some (replacement_rune, t)
          else (case second_surrogate t of
                  Some (w, t') \<Rightarrow> Some (utf8_of (65536 + (v - 55296) * 1024 + (w - 56320)), t')
                | None \<Rightarrow> Some (replacement_rune, t)))"

text \<open>One element of a string literal: the bytes it stands for and what follows.\<close>

definition string_element :: "string \<Rightarrow> (string \<times> string) option" where
  "string_element s =
     (case s of
        [] \<Rightarrow> None
      | c # t \<Rightarrow>
          if c = CHR 0x5C then
            (case t of
               [] \<Rightarrow> None
             | e # t' \<Rightarrow>
                 if e = CHR ''u'' then unicode_escape t'
                 else map_option (\<lambda>d. ([d], t')) (simple_escape e))
          else if of_char c < (32::nat) then None
          else if is_ascii c then Some ([c], t)
          else (case take_rune s of Some x \<Rightarrow> Some x | None \<Rightarrow> Some (replacement_rune, t)))"

fun read_string :: "nat \<Rightarrow> string \<Rightarrow> (string \<times> string) option" where
  "read_string 0 s = None"
| "read_string (Suc n) s =
     (case s of
        [] \<Rightarrow> None
      | c # t \<Rightarrow>
          if c = CHR 0x22 then Some ([], t)
          else case string_element s of
                 None \<Rightarrow> None
               | Some (r, u) \<Rightarrow> map_option (\<lambda>(x, w). (r @ x, w)) (read_string n u))"

definition read_int_part :: "string \<Rightarrow> (string \<times> string) option" where
  "read_int_part s =
     (case s of
        [] \<Rightarrow> None
      | c # t \<Rightarrow>
          if c = CHR ''0'' then Some (''0'', t)
          else if is_digit c then Some (c # takeWhile is_digit t, dropWhile is_digit t)
          else None)"

definition read_fraction :: "string \<Rightarrow> (string \<times> string) option" where
  "read_fraction s =
     (case s of
        c # t \<Rightarrow>
          if c = CHR ''.'' then
            (if takeWhile is_digit t = [] then None
             else Some (c # takeWhile is_digit t, dropWhile is_digit t))
          else Some ([], s)
      | [] \<Rightarrow> Some ([], s))"

definition read_sign :: "string \<Rightarrow> string \<times> string" where
  "read_sign s =
     (case s of c # t \<Rightarrow> if c = CHR ''+'' \<or> c = CHR ''-'' then ([c], t) else ([], s) | [] \<Rightarrow> ([], s))"

definition read_exponent :: "string \<Rightarrow> (string \<times> string) option" where
  "read_exponent s =
     (case s of
        c # t \<Rightarrow>
          if c = CHR ''e'' \<or> c = CHR ''E'' then
            (let (sg, u) = read_sign t in
             if takeWhile is_digit u = [] then None
             else Some (c # sg @ takeWhile is_digit u, dropWhile is_digit u))
          else Some ([], s)
      | [] \<Rightarrow> Some ([], s))"

definition read_number :: "string \<Rightarrow> (string \<times> string) option" where
  "read_number s =
     (let (sg, s1) = (case s of c # t \<Rightarrow> if c = CHR ''-'' then ([c], t) else ([], s) | [] \<Rightarrow> ([], s)) in
      case read_int_part s1 of
        None \<Rightarrow> None
      | Some (i, s2) \<Rightarrow>
     (case read_fraction s2 of
        None \<Rightarrow> None
      | Some (f, s3) \<Rightarrow>
     (case read_exponent s3 of
        None \<Rightarrow> None
      | Some (e, s4) \<Rightarrow> Some (sg @ i @ f @ e, s4))))"

subsection \<open>Reading values\<close>

definition is_json_space :: "char \<Rightarrow> bool" where
  "is_json_space c \<longleftrightarrow> c = CHR '' '' \<or> c = CHR 0x09 \<or> c = CHR 0x0A \<or> c = CHR 0x0D"

definition skip_space :: "string \<Rightarrow> string" where
  "skip_space s = dropWhile is_json_space s"

definition maxNestingDepth :: nat where "maxNestingDepth = 10000"

definition read_literal :: "string \<Rightarrow> (jval \<times> string) option" where
  "read_literal s =
     (if HasPrefix s ''null'' then Some (VNull, drop 4 s)
      else if HasPrefix s ''true'' then Some (VBool True, drop 4 s)
      else if HasPrefix s ''false'' then Some (VBool False, drop 5 s)
      else map_option (\<lambda>(l, t). (VNum l, t)) (read_number s))"

text \<open>The key of a member with its colon.\<close>

definition read_key :: "string \<Rightarrow> (string \<times> string) option" where
  "read_key s =
     (case skip_space s of
        [] \<Rightarrow> None
      | c # t \<Rightarrow>
          if c \<noteq> CHR 0x22 then None
          else case read_string (length t) t of
                 None \<Rightarrow> None
               | Some (k, u) \<Rightarrow>
                   (case skip_space u of
                      [] \<Rightarrow> None
                    | d # w \<Rightarrow> if d = CHR '':'' then Some (k, w) else None))"

fun read_value :: "nat \<Rightarrow> nat \<Rightarrow> string \<Rightarrow> (jval \<times> string) option"
  and read_elements :: "nat \<Rightarrow> nat \<Rightarrow> string \<Rightarrow> (jval list \<times> string) option"
  and read_members :: "nat \<Rightarrow> nat \<Rightarrow> string \<Rightarrow> ((string \<times> jval) list \<times> string) option" where
  "read_value 0 d s = None"
| "read_value (Suc n) d s =
     (case skip_space s of
        [] \<Rightarrow> None
      | c # t \<Rightarrow>
          if c = CHR ''{'' then
            (if maxNestingDepth \<le> d then None
             else if HasPrefix (skip_space t) ''}'' then Some (VObj [], tl (skip_space t))
             else map_option (\<lambda>(m, r). (VObj m, r)) (read_members n (Suc d) t))
          else if c = CHR ''['' then
            (if maxNestingDepth \<le> d then None
             else if HasPrefix (skip_space t) '']'' then Some (VArr [], tl (skip_space t))
             else map_option (\<lambda>(m, r). (VArr m, r)) (read_elements n (Suc d) t))
          else if c = CHR 0x22 then map_option (\<lambda>(m, r). (VStr m, r)) (read_string (length t) t)
          else read_literal (c # t))"
| "read_elements 0 d s = None"
| "read_elements (Suc n) d s =
     (case read_value n d s of
        None \<Rightarrow> None
      | Some (v, r) \<Rightarrow>
          (case skip_space r of
             [] \<Rightarrow> None
           | c # t \<Rightarrow>
               if c = CHR '','' then map_option (\<lambda>(vs, u). (v # vs, u)) (read_elements n d t)
               else if c = CHR '']'' then Some ([v], t)
               else None))"
| "read_members 0 d s = None"
| "read_members (Suc n) d s =
     (case read_key s of
        None \<Rightarrow> None
      | Some (k, r) \<Rightarrow>
     (case read_value n d r of
        None \<Rightarrow> None
      | Some (v, r') \<Rightarrow>
          (case skip_space r' of
             [] \<Rightarrow> None
           | c # t \<Rightarrow>
               if c = CHR '','' then map_option (\<lambda>(m, u). ((k, v) # m, u)) (read_members n d t)
               else if c = CHR ''}'' then Some ([(k, v)], t)
               else None)))"

text \<open>The first value of a text, and a text that holds one value and white space.\<close>

definition json_first :: "string \<Rightarrow> (jval \<times> string) option" where
  "json_first s = read_value (2 * length s + 1) 0 s"

definition json_parse :: "string \<Rightarrow> jval option" where
  "json_parse s =
     (case json_first s of
        Some (v, r) \<Rightarrow> if skip_space r = [] then Some v else None
      | None \<Rightarrow> None)"

end
