(* ===== verification/Backup_Manifest.thy ===== *)
theory Backup_Manifest
  imports Json_Text
begin

text \<open>
  The manifest of a backup container (runtime/hermes/backupmanagement/manifest.go) and the
  error codes of the package (errors.go): validation, the canonical bytes and the parser that
  accepts only them. A category is its text, as in the code; an \<open>int\<close> or \<open>int64\<close> is an integer
  whose range the decoder checks.
\<close>

subsection \<open>Error codes (errors.go)\<close>

datatype backup_code =
    ErrorInputInvalid | ErrorManifestInvalid | ErrorManifestNotCanonical | ErrorFormatUnsupported
  | ErrorScopeUnsupported | ErrorRuntimeUnsupported | ErrorArchiveInvalid | ErrorArchiveMemberLimit
  | ErrorArchiveMemberSizeLimit | ErrorArchiveTotalSizeLimit | ErrorArchiveCompressionLimit
  | ErrorArchivePathUnsafe | ErrorArchiveTypeUnsafe | ErrorArchiveDuplicateMember
  | ErrorArchiveCaseCollision | ErrorArchiveRootUnsupported | ErrorPayloadMissing
  | ErrorPayloadSizeMismatch | ErrorPayloadChecksumMismatch | ErrorPayloadMemberCountMismatch
  | ErrorPayloadExpandedMismatch | ErrorEncryptionFailed | ErrorDecryptionFailed
  | ErrorCredentialInvalid | ErrorEncryptedArtifactLimit | ErrorOperationCanceled
  | ErrorDestinationInvalid | ErrorDestinationConflict | ErrorDestinationUnsafe
  | ErrorInsufficientSpace | ErrorStagingFailed | ErrorPublicationFailed | ErrorPublicationReconcile

primrec backup_code_text :: "backup_code \<Rightarrow> string" where
  "backup_code_text ErrorInputInvalid = ''BACKUP_VERIFIER_INPUT_INVALID''"
| "backup_code_text ErrorManifestInvalid = ''BACKUP_MANIFEST_INVALID''"
| "backup_code_text ErrorManifestNotCanonical = ''BACKUP_MANIFEST_NOT_CANONICAL''"
| "backup_code_text ErrorFormatUnsupported = ''BACKUP_FORMAT_UNSUPPORTED''"
| "backup_code_text ErrorScopeUnsupported = ''BACKUP_SCOPE_UNSUPPORTED''"
| "backup_code_text ErrorRuntimeUnsupported = ''BACKUP_RUNTIME_UNSUPPORTED''"
| "backup_code_text ErrorArchiveInvalid = ''BACKUP_ARCHIVE_TRUNCATED_OR_MALFORMED''"
| "backup_code_text ErrorArchiveMemberLimit = ''BACKUP_ARCHIVE_MEMBER_LIMIT''"
| "backup_code_text ErrorArchiveMemberSizeLimit = ''BACKUP_ARCHIVE_MEMBER_SIZE_LIMIT''"
| "backup_code_text ErrorArchiveTotalSizeLimit = ''BACKUP_ARCHIVE_TOTAL_SIZE_LIMIT''"
| "backup_code_text ErrorArchiveCompressionLimit = ''BACKUP_ARCHIVE_COMPRESSION_RATIO_LIMIT''"
| "backup_code_text ErrorArchivePathUnsafe = ''BACKUP_ARCHIVE_PATH_UNSAFE''"
| "backup_code_text ErrorArchiveTypeUnsafe = ''BACKUP_ARCHIVE_TYPE_UNSAFE''"
| "backup_code_text ErrorArchiveDuplicateMember = ''BACKUP_ARCHIVE_DUPLICATE_MEMBER''"
| "backup_code_text ErrorArchiveCaseCollision = ''BACKUP_ARCHIVE_CASE_COLLISION''"
| "backup_code_text ErrorArchiveRootUnsupported = ''BACKUP_ARCHIVE_ROOT_UNSUPPORTED''"
| "backup_code_text ErrorPayloadMissing = ''BACKUP_PAYLOAD_MISSING''"
| "backup_code_text ErrorPayloadSizeMismatch = ''BACKUP_PAYLOAD_SIZE_MISMATCH''"
| "backup_code_text ErrorPayloadChecksumMismatch = ''BACKUP_PAYLOAD_CHECKSUM_MISMATCH''"
| "backup_code_text ErrorPayloadMemberCountMismatch = ''BACKUP_PAYLOAD_MEMBER_COUNT_MISMATCH''"
| "backup_code_text ErrorPayloadExpandedMismatch = ''BACKUP_PAYLOAD_EXPANDED_SIZE_MISMATCH''"
| "backup_code_text ErrorEncryptionFailed = ''BACKUP_ENCRYPTION_FAILED''"
| "backup_code_text ErrorDecryptionFailed = ''BACKUP_DECRYPTION_FAILED''"
| "backup_code_text ErrorCredentialInvalid = ''BACKUP_DECRYPTION_CREDENTIAL_INVALID''"
| "backup_code_text ErrorEncryptedArtifactLimit = ''BACKUP_ENCRYPTED_ARTIFACT_LIMIT''"
| "backup_code_text ErrorOperationCanceled = ''BACKUP_CRYPTO_OPERATION_CANCELED''"
| "backup_code_text ErrorDestinationInvalid = ''BACKUP_DESTINATION_INVALID''"
| "backup_code_text ErrorDestinationConflict = ''BACKUP_DESTINATION_CONFLICT''"
| "backup_code_text ErrorDestinationUnsafe = ''BACKUP_DESTINATION_UNSAFE''"
| "backup_code_text ErrorInsufficientSpace = ''BACKUP_DESTINATION_INSUFFICIENT_SPACE''"
| "backup_code_text ErrorStagingFailed = ''BACKUP_STAGING_FAILED''"
| "backup_code_text ErrorPublicationFailed = ''BACKUP_PUBLICATION_FAILED''"
| "backup_code_text ErrorPublicationReconcile = ''BACKUP_PUBLICATION_RECONCILE_REQUIRED''"

primrec errorMessage :: "backup_code \<Rightarrow> string" where
  "errorMessage ErrorInputInvalid = ''the verifier input or limits are invalid''"
| "errorMessage ErrorManifestInvalid = ''the backup manifest is invalid''"
| "errorMessage ErrorManifestNotCanonical = ''the backup manifest is not canonical''"
| "errorMessage ErrorFormatUnsupported = ''the backup format or policy is unsupported''"
| "errorMessage ErrorScopeUnsupported = ''the backup scope is unsupported''"
| "errorMessage ErrorRuntimeUnsupported = ''the backup runtime identity or version is unsupported''"
| "errorMessage ErrorArchiveInvalid = ''the backup archive is truncated or malformed''"
| "errorMessage ErrorArchiveMemberLimit = ''the backup archive member limit was exceeded''"
| "errorMessage ErrorArchiveMemberSizeLimit = ''a backup archive member exceeded its size limit''"
| "errorMessage ErrorArchiveTotalSizeLimit = ''the backup archive expanded-size limit was exceeded''"
| "errorMessage ErrorArchiveCompressionLimit = ''the backup archive compression-ratio limit was exceeded''"
| "errorMessage ErrorArchivePathUnsafe = ''the backup archive contains an unsafe member path''"
| "errorMessage ErrorArchiveTypeUnsafe = ''the backup archive contains an unsafe member type''"
| "errorMessage ErrorArchiveDuplicateMember = ''the backup archive contains a duplicate member''"
| "errorMessage ErrorArchiveCaseCollision = ''the backup archive contains a case-folding collision''"
| "errorMessage ErrorArchiveRootUnsupported = ''the backup archive contains an unsupported root''"
| "errorMessage ErrorPayloadMissing = ''the backup payload is missing''"
| "errorMessage ErrorPayloadSizeMismatch = ''the backup payload size does not match its manifest''"
| "errorMessage ErrorPayloadChecksumMismatch = ''the backup payload checksum does not match its manifest''"
| "errorMessage ErrorPayloadMemberCountMismatch = ''the backup payload member count does not match its manifest''"
| "errorMessage ErrorPayloadExpandedMismatch = ''the backup payload expanded size does not match its manifest''"
| "errorMessage ErrorEncryptionFailed = ''the backup artifact could not be encrypted''"
| "errorMessage ErrorDecryptionFailed = ''the backup artifact could not be authenticated and decrypted''"
| "errorMessage ErrorCredentialInvalid = ''the backup decryption credential did not match''"
| "errorMessage ErrorEncryptedArtifactLimit = ''the encrypted backup artifact exceeds its size limit''"
| "errorMessage ErrorOperationCanceled = ''the backup cryptographic operation was canceled''"
| "errorMessage ErrorDestinationInvalid = ''the selected local backup destination is invalid''"
| "errorMessage ErrorDestinationConflict = ''the selected local backup destination already exists''"
| "errorMessage ErrorDestinationUnsafe = ''the selected local backup destination is unsafe''"
| "errorMessage ErrorInsufficientSpace = ''the selected local backup destination has insufficient free space''"
| "errorMessage ErrorStagingFailed = ''private backup staging could not be completed''"
| "errorMessage ErrorPublicationFailed = ''the encrypted backup artifact could not be published''"
| "errorMessage ErrorPublicationReconcile = ''the encrypted backup artifact was published but requires reconciliation''"

definition verification_error_text :: "backup_code \<Rightarrow> string" where
  "verification_error_text c = backup_code_text c @ '': '' @ errorMessage c"

subsection \<open>Constants and records (manifest.go)\<close>

definition FormatVersion :: string where "FormatVersion = ''yorva.hermes.runtime-backup.v1''"
definition ManifestSchemaVersion :: int where "ManifestSchemaVersion = 2"
definition ManifestPolicyVersion :: int where "ManifestPolicyVersion = 1"
definition RuntimeScope :: string where "RuntimeScope = ''runtime''"
definition RuntimeKind :: string where "RuntimeKind = ''hermes''"
definition InclusionPolicyID :: string where "InclusionPolicyID = ''hermes-runtime-user-data-v1''"
definition ExclusionPolicyID :: string where "ExclusionPolicyID = ''hermes-runtime-non-user-data-v1''"
definition PayloadArchivePath :: string where "PayloadArchivePath = ''payload/hermes-runtime.zip''"
definition PayloadArchiveRoot :: string where "PayloadArchiveRoot = ''hermes-runtime''"
definition MaxManifestBytes :: nat where "MaxManifestBytes = 65536"
definition backupIDPrefix :: string where "backupIDPrefix = ''backup_''"
definition backupIDBodyLength :: nat where "backupIDBodyLength = 22"
definition generationIDPrefix :: string where "generationIDPrefix = ''gen_''"
definition generationIDBodyLength :: nat where "generationIDBodyLength = 22"

definition InstallationManaged :: string where "InstallationManaged = ''MANAGED''"
definition InstallationUnmanaged :: string where "InstallationUnmanaged = ''UNMANAGED''"
definition InstallationUnknown :: string where "InstallationUnknown = ''UNKNOWN''"

definition completeRuntimeSnapshotCategories :: "string list" where
  "completeRuntimeSnapshotCategories =
     [''account-state'', ''channel-state'', ''configuration'', ''conversations'', ''credentials'',
      ''databases'', ''mcp-oauth'', ''pairing-state'', ''sessions'', ''skills'']"

definition knownCategories :: "string list" where
  "knownCategories = completeRuntimeSnapshotCategories"

definition completeRuntimeSnapshotExcludedCategories :: "string list" where
  "completeRuntimeSnapshotExcludedCategories =
     [''browser-profiles'', ''installation-binaries'', ''prior-backups'', ''regenerable-dependencies'',
      ''runtime-temporary-state'', ''yorva-management-state'']"

definition knownExcludedCategories :: "string list" where
  "knownExcludedCategories = completeRuntimeSnapshotExcludedCategories"

text \<open>Hard limits of verify.go that validation refers to.\<close>

definition hardMaxPayloadBytes :: int where "hardMaxPayloadBytes = 2 * 2 ^ 30"
definition hardMaxPayloadMembers :: int where "hardMaxPayloadMembers = 20000"
definition hardMaxTotalExpandedBytes :: int where "hardMaxTotalExpandedBytes = 4 * 2 ^ 30"

record installation_identity =
  ii_state :: string
  ii_generation :: string
  ii_source_pin :: string

record payload =
  pl_path :: string
  pl_size :: int
  pl_sha :: string
  pl_members :: int
  pl_expanded :: int

record manifest =
  mf_format :: string
  mf_schema_version :: int
  mf_policy_version :: int
  mf_backup_id :: string
  mf_created_at :: string
  mf_scope :: string
  mf_runtime_kind :: string
  mf_runtime_version :: string
  mf_installation :: installation_identity
  mf_inclusion :: string
  mf_included :: "string list"
  mf_exclusion :: string
  mf_excluded :: "string list"
  mf_payload :: payload
  mf_complete :: bool

subsection \<open>Validation\<close>

definition ascii_lower :: "char \<Rightarrow> char" where
  "ascii_lower c = (if is_upper c then char_of (of_char c + (32::nat)) else c)"

definition validCanonicalSHA256 :: "string \<Rightarrow> bool" where
  "validCanonicalSHA256 v \<longleftrightarrow> length v = 64 \<and> v = map ascii_lower v \<and> list_all is_hex v"

definition validSourcePin :: "string \<Rightarrow> bool" where
  "validSourcePin v \<longleftrightarrow> length v = 40 \<and> v = map ascii_lower v \<and> list_all is_hex v"

definition validClosedID :: "string \<Rightarrow> string \<Rightarrow> nat \<Rightarrow> bool" where
  "validClosedID v pre n \<longleftrightarrow>
     length v = length pre + n \<and> HasPrefix v pre
     \<and> list_all (\<lambda>c. is_lower c \<or> (CHR ''2'' \<le> c \<and> c \<le> CHR ''7'')) (drop (length pre) v)"

definition days_in_month :: "nat \<Rightarrow> nat \<Rightarrow> nat" where
  "days_in_month y m =
     (if m = 2 then (if y mod 4 = 0 \<and> (y mod 100 \<noteq> 0 \<or> y mod 400 = 0) then 29 else 28)
      else if m \<in> {4, 6, 9, 11} then 30 else 31)"

text \<open>
  A text that \<open>time.Parse(time.RFC3339, _)\<close> accepts in UTC without a fraction and that formats
  back to itself: \<open>YYYY-MM-DDTHH:MM:SSZ\<close> with a date and a time of day that exist.
\<close>

definition validCanonicalCreatedAt :: "string \<Rightarrow> bool" where
  "validCanonicalCreatedAt v \<longleftrightarrow>
     length v = 20
     \<and> list_all (\<lambda>i. is_digit (v ! i)) [0, 1, 2, 3, 5, 6, 8, 9, 11, 12, 14, 15, 17, 18]
     \<and> v ! 4 = CHR ''-'' \<and> v ! 7 = CHR ''-'' \<and> v ! 10 = CHR ''T'' \<and> v ! 13 = CHR '':''
     \<and> v ! 16 = CHR '':'' \<and> v ! 19 = CHR ''Z''
     \<and> (let y = digits_value (take 4 v); m = digits_value (take 2 (drop 5 v));
            d = digits_value (take 2 (drop 8 v)); h = digits_value (take 2 (drop 11 v));
            mi = digits_value (take 2 (drop 14 v)); s = digits_value (take 2 (drop 17 v))
        in 1 \<le> m \<and> m \<le> 12 \<and> 1 \<le> d \<and> d \<le> days_in_month y m \<and> h < 24 \<and> mi < 60 \<and> s < 60)"

definition valid_version_part :: "string \<Rightarrow> bool" where
  "valid_version_part p \<longleftrightarrow>
     \<not> (p = [] \<or> (length p > 1 \<and> p ! 0 = CHR ''0''))
     \<and> list_all is_digit p \<and> digits_value p < 2 ^ 32"

definition validRuntimeVersion :: "string \<Rightarrow> bool" where
  "validRuntimeVersion v \<longleftrightarrow>
     \<not> (length v = 0 \<or> length v > 64)
     \<and> length (split_on CHR ''.'' v) = 3
     \<and> list_all valid_version_part (split_on CHR ''.'' v)"

definition identity_valid :: "installation_identity \<Rightarrow> bool" where
  "identity_valid i =
     (if ii_state i = InstallationManaged
      then validClosedID (ii_generation i) generationIDPrefix generationIDBodyLength
           \<and> validSourcePin (ii_source_pin i)
      else if ii_state i = InstallationUnmanaged \<or> ii_state i = InstallationUnknown
      then ii_generation i = [] \<and> ii_source_pin i = []
      else False)"

text \<open>The loop over categories: every one known, none equal to its predecessor.\<close>

fun categories_known :: "string list \<Rightarrow> string option \<Rightarrow> string list \<Rightarrow> bool" where
  "categories_known known prev [] = True"
| "categories_known known prev (c # cs) =
     (c \<in> set known \<and> prev \<noteq> Some c \<and> categories_known known (Some c) cs)"

definition manifest_Validate :: "manifest \<Rightarrow> backup_code option" where
  "manifest_Validate m =
     check (mf_format m \<noteq> FormatVersion \<or> mf_schema_version m \<noteq> ManifestSchemaVersion
            \<or> mf_policy_version m \<noteq> ManifestPolicyVersion) ErrorFormatUnsupported
     (check (mf_scope m \<noteq> RuntimeScope) ErrorScopeUnsupported
     (check (mf_runtime_kind m \<noteq> RuntimeKind \<or> \<not> validRuntimeVersion (mf_runtime_version m))
        ErrorRuntimeUnsupported
     (check (\<not> validClosedID (mf_backup_id m) backupIDPrefix backupIDBodyLength
             \<or> \<not> validCanonicalCreatedAt (mf_created_at m) \<or> \<not> identity_valid (mf_installation m))
        ErrorManifestInvalid
     (check (mf_inclusion m \<noteq> InclusionPolicyID \<or> mf_exclusion m \<noteq> ExclusionPolicyID)
        ErrorFormatUnsupported
     (check (length (mf_included m) = 0 \<or> length (mf_included m) > length knownCategories)
        ErrorManifestInvalid
     (check (\<not> sorted (mf_included m)) ErrorManifestInvalid
     (check (\<not> categories_known knownCategories None (mf_included m)) ErrorManifestInvalid
     (check (mf_included m \<noteq> completeRuntimeSnapshotCategories) ErrorManifestInvalid
     (check (length (mf_excluded m) = 0 \<or> length (mf_excluded m) > length knownExcludedCategories
             \<or> \<not> sorted (mf_excluded m)) ErrorManifestInvalid
     (check (\<not> categories_known knownExcludedCategories None (mf_excluded m)) ErrorManifestInvalid
     (check (mf_excluded m \<noteq> completeRuntimeSnapshotExcludedCategories) ErrorManifestInvalid
     (check (let p = mf_payload m in
             pl_path p \<noteq> PayloadArchivePath \<or> pl_size p \<le> 0 \<or> pl_size p > hardMaxPayloadBytes
             \<or> pl_members p \<le> 0 \<or> pl_members p > hardMaxPayloadMembers
             \<or> pl_expanded p < 0 \<or> pl_expanded p > hardMaxTotalExpandedBytes
             \<or> \<not> validCanonicalSHA256 (pl_sha p) \<or> \<not> mf_complete m)
        ErrorManifestInvalid None))))))))))))"

subsection \<open>The canonical bytes\<close>

definition int_text :: "int \<Rightarrow> string" where
  "int_text n = (if n < 0 then CHR ''-'' # decimal (nat (- n)) else decimal (nat n))"

text \<open>\<open>omitempty\<close> drops the member when the string is empty.\<close>

definition omit_empty :: "string \<Rightarrow> string \<Rightarrow> (string \<times> jval) list" where
  "omit_empty k v = (if v = [] then [] else [(k, VStr v)])"

definition identity_value :: "installation_identity \<Rightarrow> jval" where
  "identity_value i =
     VObj ([(''state'', VStr (ii_state i))] @ omit_empty ''generationId'' (ii_generation i)
           @ omit_empty ''sourcePin'' (ii_source_pin i))"

definition payload_value :: "payload \<Rightarrow> jval" where
  "payload_value p =
     VObj [(''path'', VStr (pl_path p)), (''sizeBytes'', VNum (int_text (pl_size p))),
           (''sha256'', VStr (pl_sha p)), (''memberCount'', VNum (int_text (pl_members p))),
           (''totalExpandedBytes'', VNum (int_text (pl_expanded p)))]"

definition strings_value :: "string list \<Rightarrow> jval" where
  "strings_value ss = VArr (map VStr ss)"

definition manifest_value :: "manifest \<Rightarrow> jval" where
  "manifest_value m =
     VObj [(''formatVersion'', VStr (mf_format m)),
           (''schemaVersion'', VNum (int_text (mf_schema_version m))),
           (''policyVersion'', VNum (int_text (mf_policy_version m))),
           (''backupId'', VStr (mf_backup_id m)),
           (''createdAt'', VStr (mf_created_at m)),
           (''scope'', VStr (mf_scope m)),
           (''runtimeKind'', VStr (mf_runtime_kind m)),
           (''runtimeVersion'', VStr (mf_runtime_version m)),
           (''installation'', identity_value (mf_installation m)),
           (''inclusionPolicy'', VStr (mf_inclusion m)),
           (''includedCategories'', strings_value (mf_included m)),
           (''exclusionPolicy'', VStr (mf_exclusion m)),
           (''excludedCategories'', strings_value (mf_excluded m)),
           (''payload'', payload_value (mf_payload m)),
           (''complete'', VBool (mf_complete m))]"

definition MarshalCanonical :: "manifest \<Rightarrow> backup_code + string" where
  "MarshalCanonical m =
     (case manifest_Validate m of
        Some e \<Rightarrow> Inl e
      | None \<Rightarrow>
          (let t = json_text (manifest_value m)
           in if length t > MaxManifestBytes then Inl ErrorManifestInvalid else Inr t))"

subsection \<open>Decoding\<close>

text \<open>
  \<open>foldName\<close> of encoding/json: ASCII letters, and the two other runes that fold to one
  (U+017F to s, U+212A to k).
\<close>

fun fold_name :: "string \<Rightarrow> string" where
  "fold_name [] = []"
| "fold_name (a # s) =
     (if a = CHR 0xC5 \<and> take 1 s = [CHR 0xBF] then CHR ''s'' # fold_name (drop 1 s)
      else if a = CHR 0xE2 \<and> take 2 s = [CHR 0x84, CHR 0xAA] then CHR ''k'' # fold_name (drop 2 s)
      else ascii_lower a # fold_name s)"

type_synonym 'a field_setter = "jval \<Rightarrow> 'a \<Rightarrow> 'a option"

definition find_field :: "(string \<times> 'a field_setter) list \<Rightarrow> string \<Rightarrow> 'a field_setter option" where
  "find_field fs k =
     (case map_of fs k of
        Some f \<Rightarrow> Some f
      | None \<Rightarrow> map_option snd (first_match (\<lambda>f. fold_name (fst f) = fold_name k) fs))"

text \<open>
  A struct takes the members in order; with \<open>DisallowUnknownFields\<close> a key that names no field is
  an error. A repeated key writes the field again.
\<close>

fun decode_struct ::
  "(string \<times> 'a field_setter) list \<Rightarrow> (string \<times> jval) list \<Rightarrow> 'a \<Rightarrow> 'a option" where
  "decode_struct fs [] x = Some x"
| "decode_struct fs ((k, v) # kvs) x =
     (case find_field fs k of
        None \<Rightarrow> None
      | Some f \<Rightarrow> Option.bind (f v x) (decode_struct fs kvs))"

text \<open>A null leaves everything but a slice alone.\<close>

definition set_string :: "(string \<Rightarrow> 'a \<Rightarrow> 'a) \<Rightarrow> 'a field_setter" where
  "set_string upd v x =
     (case v of VStr s \<Rightarrow> Some (upd s x) | VNull \<Rightarrow> Some x | _ \<Rightarrow> None)"

definition set_bool :: "(bool \<Rightarrow> 'a \<Rightarrow> 'a) \<Rightarrow> 'a field_setter" where
  "set_bool upd v x =
     (case v of VBool b \<Rightarrow> Some (upd b x) | VNull \<Rightarrow> Some x | _ \<Rightarrow> None)"

text \<open>\<open>strconv.ParseInt(_, 10, 64)\<close> of a number literal.\<close>

definition int_of_literal :: "string \<Rightarrow> int option" where
  "int_of_literal l =
     (let (neg, ds) = (case l of c # t \<Rightarrow> if c = CHR ''-'' then (True, t) else (False, l) | [] \<Rightarrow> (False, l));
          n = int (digits_value ds) * (if neg then -1 else 1)
      in if ds = [] \<or> \<not> list_all is_digit ds then None
         else if - (2 ^ 63) \<le> n \<and> n < 2 ^ 63 then Some n else None)"

definition set_int :: "(int \<Rightarrow> 'a \<Rightarrow> 'a) \<Rightarrow> 'a field_setter" where
  "set_int upd v x =
     (case v of
        VNum l \<Rightarrow> map_option (\<lambda>n. upd n x) (int_of_literal l)
      | VNull \<Rightarrow> Some x
      | _ \<Rightarrow> None)"

text \<open>An array decodes into the elements already there, so a null keeps the old element.\<close>

fun decode_strings :: "jval list \<Rightarrow> string list \<Rightarrow> string list option" where
  "decode_strings [] old = Some []"
| "decode_strings (v # vs) old =
     (case v of
        VStr s \<Rightarrow> map_option ((#) s) (decode_strings vs (tl old))
      | VNull \<Rightarrow> map_option ((#) (if old = [] then [] else hd old)) (decode_strings vs (tl old))
      | _ \<Rightarrow> None)"

definition set_strings :: "('a \<Rightarrow> string list) \<Rightarrow> (string list \<Rightarrow> 'a \<Rightarrow> 'a) \<Rightarrow> 'a field_setter" where
  "set_strings get upd v x =
     (case v of
        VArr vs \<Rightarrow> map_option (\<lambda>ss. upd ss x) (decode_strings vs (get x))
      | VNull \<Rightarrow> Some (upd [] x)
      | _ \<Rightarrow> None)"

definition set_struct ::
  "(string \<times> 'b field_setter) list \<Rightarrow> ('a \<Rightarrow> 'b) \<Rightarrow> ('b \<Rightarrow> 'a \<Rightarrow> 'a) \<Rightarrow> 'a field_setter" where
  "set_struct fs get upd v x =
     (case v of
        VObj kvs \<Rightarrow> map_option (\<lambda>y. upd y x) (decode_struct fs kvs (get x))
      | VNull \<Rightarrow> Some x
      | _ \<Rightarrow> None)"

definition identity_fields :: "(string \<times> installation_identity field_setter) list" where
  "identity_fields =
     [(''state'', set_string (\<lambda>s. ii_state_update (\<lambda>_. s))),
      (''generationId'', set_string (\<lambda>s. ii_generation_update (\<lambda>_. s))),
      (''sourcePin'', set_string (\<lambda>s. ii_source_pin_update (\<lambda>_. s)))]"

definition payload_fields :: "(string \<times> payload field_setter) list" where
  "payload_fields =
     [(''path'', set_string (\<lambda>s. pl_path_update (\<lambda>_. s))),
      (''sizeBytes'', set_int (\<lambda>n. pl_size_update (\<lambda>_. n))),
      (''sha256'', set_string (\<lambda>s. pl_sha_update (\<lambda>_. s))),
      (''memberCount'', set_int (\<lambda>n. pl_members_update (\<lambda>_. n))),
      (''totalExpandedBytes'', set_int (\<lambda>n. pl_expanded_update (\<lambda>_. n)))]"

definition manifest_fields :: "(string \<times> manifest field_setter) list" where
  "manifest_fields =
     [(''formatVersion'', set_string (\<lambda>s. mf_format_update (\<lambda>_. s))),
      (''schemaVersion'', set_int (\<lambda>n. mf_schema_version_update (\<lambda>_. n))),
      (''policyVersion'', set_int (\<lambda>n. mf_policy_version_update (\<lambda>_. n))),
      (''backupId'', set_string (\<lambda>s. mf_backup_id_update (\<lambda>_. s))),
      (''createdAt'', set_string (\<lambda>s. mf_created_at_update (\<lambda>_. s))),
      (''scope'', set_string (\<lambda>s. mf_scope_update (\<lambda>_. s))),
      (''runtimeKind'', set_string (\<lambda>s. mf_runtime_kind_update (\<lambda>_. s))),
      (''runtimeVersion'', set_string (\<lambda>s. mf_runtime_version_update (\<lambda>_. s))),
      (''installation'', set_struct identity_fields mf_installation (\<lambda>y. mf_installation_update (\<lambda>_. y))),
      (''inclusionPolicy'', set_string (\<lambda>s. mf_inclusion_update (\<lambda>_. s))),
      (''includedCategories'', set_strings mf_included (\<lambda>y. mf_included_update (\<lambda>_. y))),
      (''exclusionPolicy'', set_string (\<lambda>s. mf_exclusion_update (\<lambda>_. s))),
      (''excludedCategories'', set_strings mf_excluded (\<lambda>y. mf_excluded_update (\<lambda>_. y))),
      (''payload'', set_struct payload_fields mf_payload (\<lambda>y. mf_payload_update (\<lambda>_. y))),
      (''complete'', set_bool (\<lambda>b. mf_complete_update (\<lambda>_. b)))]"

definition zero_identity :: installation_identity where
  "zero_identity = \<lparr>ii_state = [], ii_generation = [], ii_source_pin = []\<rparr>"

definition zero_payload :: payload where
  "zero_payload = \<lparr>pl_path = [], pl_size = 0, pl_sha = [], pl_members = 0, pl_expanded = 0\<rparr>"

definition zero_manifest :: manifest where
  "zero_manifest =
     \<lparr>mf_format = [], mf_schema_version = 0, mf_policy_version = 0, mf_backup_id = [],
      mf_created_at = [], mf_scope = [], mf_runtime_kind = [], mf_runtime_version = [],
      mf_installation = zero_identity, mf_inclusion = [], mf_included = [], mf_exclusion = [],
      mf_excluded = [], mf_payload = zero_payload, mf_complete = False\<rparr>"

definition decode_manifest :: "jval \<Rightarrow> manifest option" where
  "decode_manifest v =
     (case v of
        VObj kvs \<Rightarrow> decode_struct manifest_fields kvs zero_manifest
      | VNull \<Rightarrow> Some zero_manifest
      | _ \<Rightarrow> None)"

definition ParseCanonicalManifest :: "string \<Rightarrow> backup_code + manifest" where
  "ParseCanonicalManifest t =
     (if t = [] \<or> length t > MaxManifestBytes then Inl ErrorManifestInvalid
      else case json_first t of
             None \<Rightarrow> Inl ErrorManifestInvalid
           | Some (v, r) \<Rightarrow>
          (case decode_manifest v of
             None \<Rightarrow> Inl ErrorManifestInvalid
           | Some m \<Rightarrow>
               if skip_space r \<noteq> [] then Inl ErrorManifestInvalid
               else (case MarshalCanonical m of
                       Inl e \<Rightarrow> Inl e
                     | Inr c \<Rightarrow> if t \<noteq> c then Inl ErrorManifestNotCanonical else Inr m)))"

end
