(* ===== verification/Backup_Verify.thy ===== *)
theory Backup_Verify
  imports Backup_Manifest "HOL-Library.Word"
begin

unbundle bit_operations_syntax

text \<open>
  Structural verification of a decrypted backup container (runtime/hermes/backupmanagement/verify.go)
  and its result (artifact.go). An \<open>io.ReaderAt\<close> is a function from offset and length to the bytes
  read; the reader of archives (\<open>zip.NewReader\<close>), SHA-256 and \<open>strings.ToLower\<close> are parameters.
  A 64-bit size that is only compared is an integer; the ones that are added and multiplied are
  words.
\<close>

subsection \<open>Zip members and their mode (archive/zip, io/fs)\<close>

record zip_member =
  zm_name :: string
  zm_creator :: "16 word"
  zm_attrs :: "32 word"
  zm_method :: "16 word"
  zm_csize :: "64 word"
  zm_usize :: "64 word"
  zm_read :: "int \<Rightarrow> string option"
  zm_offset :: "int option"

text \<open>
  \<open>zm_read n\<close> is what opening the member, reading it through a \<open>LimitReader\<close> of \<open>n\<close> bytes and
  closing it gives: \<open>None\<close> when one of the three fails. \<open>zm_offset\<close> is \<open>DataOffset\<close>.
\<close>

definition ModeDir :: "32 word" where "ModeDir = 0x80000000"
definition ModeSymlink :: "32 word" where "ModeSymlink = 0x08000000"
definition ModeDevice :: "32 word" where "ModeDevice = 0x04000000"
definition ModeNamedPipe :: "32 word" where "ModeNamedPipe = 0x02000000"
definition ModeSocket :: "32 word" where "ModeSocket = 0x01000000"
definition ModeCharDevice :: "32 word" where "ModeCharDevice = 0x00200000"
definition ModeIrregular :: "32 word" where "ModeIrregular = 0x00080000"

definition ModeType :: "32 word" where
  "ModeType = ModeDir OR ModeSymlink OR ModeNamedPipe OR ModeSocket OR ModeDevice
     OR ModeCharDevice OR ModeIrregular"

definition unix_mode :: "32 word \<Rightarrow> 32 word" where
  "unix_mode m =
     (m AND 0x1FF) OR
     (let t = m AND 0xF000
      in if t = 0x6000 then ModeDevice
         else if t = 0x2000 then ModeDevice OR ModeCharDevice
         else if t = 0x4000 then ModeDir
         else if t = 0x1000 then ModeNamedPipe
         else if t = 0xA000 then ModeSymlink
         else if t = 0xC000 then ModeSocket
         else 0) OR
     (if m AND 0x400 \<noteq> 0 then 0x00400000 else 0) OR
     (if m AND 0x800 \<noteq> 0 then 0x00800000 else 0) OR
     (if m AND 0x200 \<noteq> 0 then 0x00100000 else 0)"

definition msdos_mode :: "32 word \<Rightarrow> 32 word" where
  "msdos_mode m =
     (let d = (if m AND 0x10 \<noteq> 0 then ModeDir OR 0x1FF else 0x1B6)
      in if m AND 1 \<noteq> 0 then d AND NOT 0x92 else d)"

definition member_mode :: "zip_member \<Rightarrow> 32 word" where
  "member_mode m =
     (let c = drop_bit 8 (zm_creator m);
          mode = (if c = 3 \<or> c = 19 then unix_mode (drop_bit 16 (zm_attrs m))
                  else if c = 11 \<or> c = 14 \<or> c = 0 then msdos_mode (zm_attrs m)
                  else 0)
      in if HasSuffix (zm_name m) ''/'' then mode OR ModeDir else mode)"

definition member_is_dir :: "zip_member \<Rightarrow> bool" where
  "member_is_dir m \<longleftrightarrow> member_mode m AND ModeDir \<noteq> 0"

definition mode_is_regular :: "32 word \<Rightarrow> bool" where
  "mode_is_regular m \<longleftrightarrow> m AND ModeType = 0"

definition zip_Store :: "16 word" where "zip_Store = 0"
definition zip_Deflate :: "16 word" where "zip_Deflate = 8"

subsection \<open>Limits\<close>

definition hardMaxContainerBytes :: int where "hardMaxContainerBytes = 2 * 2 ^ 30"
definition hardMaxMemberExpandedBytes :: int where "hardMaxMemberExpandedBytes = 512 * 2 ^ 20"
definition hardMaxCompressionRatio :: "64 word" where "hardMaxCompressionRatio = 200"
definition maxContainerMembers :: nat where "maxContainerMembers = 3"
definition dosReparsePointAttribute :: "32 word" where "dosReparsePointAttribute = 0x400"

record limits =
  lm_container :: int
  lm_payload :: int
  lm_members :: int
  lm_member :: int
  lm_total :: int
  lm_ratio :: "64 word"

definition DefaultLimits :: limits where
  "DefaultLimits =
     \<lparr>lm_container = hardMaxContainerBytes, lm_payload = hardMaxPayloadBytes,
      lm_members = hardMaxPayloadMembers, lm_member = hardMaxMemberExpandedBytes,
      lm_total = hardMaxTotalExpandedBytes, lm_ratio = hardMaxCompressionRatio\<rparr>"

definition limits_valid :: "limits \<Rightarrow> bool" where
  "limits_valid l \<longleftrightarrow>
     lm_container l > 0 \<and> lm_container l \<le> hardMaxContainerBytes
     \<and> lm_payload l > 0 \<and> lm_payload l \<le> hardMaxPayloadBytes
     \<and> lm_members l > 0 \<and> lm_members l \<le> hardMaxPayloadMembers
     \<and> lm_member l > 0 \<and> lm_member l \<le> hardMaxMemberExpandedBytes
     \<and> lm_total l > 0 \<and> lm_total l \<le> hardMaxTotalExpandedBytes
     \<and> lm_ratio l > 0 \<and> lm_ratio l \<le> hardMaxCompressionRatio"

subsection \<open>Results (artifact.go)\<close>

definition EncryptionQualified :: bool where "EncryptionQualified = False"
definition RestoreMutationQualified :: bool where "RestoreMutationQualified = False"

datatype artifact_state = ArtifactUnverified | ArtifactStructureVerified | ArtifactInvalid

primrec artifact_state_text :: "artifact_state \<Rightarrow> string" where
  "artifact_state_text ArtifactUnverified = ''UNVERIFIED''"
| "artifact_state_text ArtifactStructureVerified = ''STRUCTURE_VERIFIED_ONLY''"
| "artifact_state_text ArtifactInvalid = ''INVALID''"

record artifact_metadata =
  am_size :: int
  am_format :: string
  am_schema_version :: int
  am_policy_version :: int
  am_backup_id :: string
  am_created_at :: string
  am_scope :: string
  am_runtime_kind :: string
  am_runtime_version :: string
  am_installation :: installation_identity
  am_inclusion :: string
  am_included :: "string list"
  am_exclusion :: string
  am_excluded :: "string list"
  am_payload_size :: int
  am_payload_sha :: string
  am_payload_members :: int
  am_expanded :: int

definition zero_metadata :: artifact_metadata where
  "zero_metadata =
     \<lparr>am_size = 0, am_format = [], am_schema_version = 0, am_policy_version = 0, am_backup_id = [],
      am_created_at = [], am_scope = [], am_runtime_kind = [], am_runtime_version = [],
      am_installation = zero_identity, am_inclusion = [], am_included = [], am_exclusion = [],
      am_excluded = [], am_payload_size = 0, am_payload_sha = [], am_payload_members = 0,
      am_expanded = 0\<rparr>"

record verification_result =
  vr_state :: artifact_state
  vr_metadata :: artifact_metadata
  vr_error :: "backup_code option"
  vr_encryption :: bool
  vr_restore :: bool

definition unverifiedResult :: verification_result where
  "unverifiedResult =
     \<lparr>vr_state = ArtifactUnverified, vr_metadata = zero_metadata, vr_error = None,
      vr_encryption = EncryptionQualified, vr_restore = RestoreMutationQualified\<rparr>"

definition failedResult :: "backup_code \<Rightarrow> verification_result" where
  "failedResult c = unverifiedResult\<lparr>vr_state := ArtifactInvalid, vr_error := Some c\<rparr>"

type_synonym verification = "verification_result \<times> backup_code option"

definition fail :: "backup_code \<Rightarrow> verification" where
  "fail c = (failedResult c, Some c)"

subsection \<open>Member names\<close>

definition ascii_upper :: "char \<Rightarrow> char" where
  "ascii_upper c = (if is_lower c then char_of (of_char c - (32::nat)) else c)"

text \<open>
  \<open>strings.ToUpper\<close> on the part before the first dot. The only runes outside ASCII that it maps
  into ASCII give I and S, which no device name has, so the ASCII letters decide.
\<close>

definition windowsDeviceName :: "string \<Rightarrow> bool" where
  "windowsDeviceName part =
     (let base = map ascii_upper (takeWhile (\<lambda>c. c \<noteq> CHR ''.'') part)
      in if base \<in> {''CON'', ''PRN'', ''AUX'', ''NUL'', ''CLOCK$''} then True
         else if length base = 4 \<and> (HasPrefix base ''COM'' \<or> HasPrefix base ''LPT'')
         then CHR ''1'' \<le> base ! 3 \<and> base ! 3 \<le> CHR ''9''
         else False)"

definition safe_component :: "string \<Rightarrow> bool" where
  "safe_component c \<longleftrightarrow>
     \<not> (c = [] \<or> c = ''.'' \<or> c = ''..'' \<or> ContainsAny c (''<>:'' @ [CHR 0x22, CHR 0x5C] @ ''|?*'')
        \<or> HasSuffix c ''.'' \<or> HasSuffix c '' '')
     \<and> list_all (\<lambda>x. \<not> (of_char x < (32::nat) \<or> x = CHR 0x7F)) c
     \<and> \<not> windowsDeviceName c"

definition safeMemberName :: "string \<Rightarrow> bool" where
  "safeMemberName name =
     (if name = [] \<or> \<not> ValidString name \<or> CHR 0x00 \<in> set name \<or> Contains name [CHR 0x5C]
         \<or> HasPrefix name ''/'' then False
      else let trimmed = TrimSuffix name ''/''
           in if trimmed = [] \<or> path_clean trimmed \<noteq> trimmed then False
              else list_all safe_component (split_on CHR ''/'' trimmed))"

text \<open>The two maps of names already seen: exact keys, and folded key to key.\<close>

record seen_names =
  sn_exact :: "string list"
  sn_folded :: "(string \<times> string) list"

definition no_names :: seen_names where
  "no_names = \<lparr>sn_exact = [], sn_folded = []\<rparr>"

definition unsafe_mode :: "zip_member \<Rightarrow> bool" where
  "unsafe_mode m \<longleftrightarrow>
     zm_attrs m AND dosReparsePointAttribute \<noteq> 0
     \<or> member_mode m AND ModeSymlink \<noteq> 0 \<or> member_mode m AND ModeSocket \<noteq> 0
     \<or> member_mode m AND ModeNamedPipe \<noteq> 0 \<or> member_mode m AND ModeDevice \<noteq> 0
     \<or> member_mode m AND ModeCharDevice \<noteq> 0 \<or> member_mode m AND ModeIrregular \<noteq> 0"

definition validateMember ::
  "(string \<Rightarrow> string) \<Rightarrow> zip_member \<Rightarrow> seen_names \<Rightarrow> backup_code + seen_names" where
  "validateMember to_lower m seen =
     (if \<not> safeMemberName (zm_name m) then Inl ErrorArchivePathUnsafe
      else let key = TrimSuffix (zm_name m) ''/''; folded = to_lower key
      in if key \<in> set (sn_exact seen) then Inl ErrorArchiveDuplicateMember
      else if (case map_of (sn_folded seen) folded of Some p \<Rightarrow> p \<noteq> key | None \<Rightarrow> False)
      then Inl ErrorArchiveCaseCollision
      else if unsafe_mode m then Inl ErrorArchiveTypeUnsafe
      else if member_is_dir m \<noteq> HasSuffix (zm_name m) ''/'' then Inl ErrorArchiveTypeUnsafe
      else if \<not> member_is_dir m \<and> \<not> mode_is_regular (member_mode m) then Inl ErrorArchiveTypeUnsafe
      else if zm_method m \<noteq> zip_Store \<and> zm_method m \<noteq> zip_Deflate then Inl ErrorArchiveTypeUnsafe
      else if member_is_dir m \<and> (zm_csize m \<noteq> 0 \<or> zm_usize m \<noteq> 0) then Inl ErrorArchiveTypeUnsafe
      else Inr \<lparr>sn_exact = key # sn_exact seen, sn_folded = (folded, key) # sn_folded seen\<rparr>)"

subsection \<open>Sizes and ratios\<close>

definition exceedsRatio :: "64 word \<Rightarrow> 64 word \<Rightarrow> 64 word \<Rightarrow> bool" where
  "exceedsRatio expanded compressed maxRatio =
     (if expanded = 0 then False
      else if compressed = 0 then True
      else if compressed > (- 1) div maxRatio then False
      else expanded > compressed * maxRatio)"

text \<open>The running totals: expanded and compressed bytes.\<close>

definition addArchiveBounds ::
  "zip_member \<Rightarrow> 64 word \<times> 64 word \<Rightarrow> 64 word \<Rightarrow> 64 word \<Rightarrow> 64 word
    \<Rightarrow> backup_code + (64 word \<times> 64 word)" where
  "addArchiveBounds m totals maxTotal maxMember maxRatio =
     (let (expanded, compressed) = totals in
      if zm_usize m > maxMember then Inl ErrorArchiveMemberSizeLimit
      else if zm_usize m > (- 1) - expanded then Inl ErrorArchiveTotalSizeLimit
      else let expanded' = expanded + zm_usize m in
      if expanded' > maxTotal then Inl ErrorArchiveTotalSizeLimit
      else if zm_csize m > (- 1) - compressed then Inl ErrorArchiveInvalid
      else let compressed' = compressed + zm_csize m in
      if exceedsRatio (zm_usize m) (zm_csize m) maxRatio then Inl ErrorArchiveCompressionLimit
      else Inr (expanded', compressed'))"

definition consumeMember :: "zip_member \<Rightarrow> int \<Rightarrow> backup_code option" where
  "consumeMember m limit =
     (case zm_read m (limit + 1) of
        None \<Rightarrow> Some ErrorArchiveInvalid
      | Some b \<Rightarrow>
          if int (length b) \<noteq> sint (zm_usize m) then Some ErrorArchiveInvalid
          else if int (length b) > limit then Some ErrorArchiveMemberSizeLimit
          else None)"

definition readMemberBounded :: "zip_member \<Rightarrow> int \<Rightarrow> backup_code + string" where
  "readMemberBounded m limit =
     (if sint (zm_usize m) > limit then Inl ErrorManifestInvalid
      else case zm_read m (limit + 1) of
             None \<Rightarrow> Inl ErrorArchiveInvalid
           | Some b \<Rightarrow>
               if int (length b) \<noteq> sint (zm_usize m) then Inl ErrorArchiveInvalid
               else if int (length b) > limit then Inl ErrorManifestInvalid
               else Inr b)"

subsection \<open>Readers\<close>

text \<open>\<open>ReadAt\<close>: offset and length to exactly that many bytes, or an error.\<close>

type_synonym reader = "int \<Rightarrow> int \<Rightarrow> string option"

definition bytes_reader :: "string \<Rightarrow> reader" where
  "bytes_reader b off n =
     (if 0 \<le> off \<and> 0 \<le> n \<and> off + n \<le> int (length b) then Some (take (nat n) (drop (nat off) b)) else None)"

definition section_reader :: "reader \<Rightarrow> int \<Rightarrow> int \<Rightarrow> reader" where
  "section_reader r off len o' n = (if 0 \<le> o' \<and> o' + n \<le> len then r (off + o') n else None)"

definition hasTerminalEOCD :: "reader \<Rightarrow> int \<Rightarrow> bool" where
  "hasTerminalEOCD r len =
     (if len < 22 then False
      else case r (len - 22) 22 of
             None \<Rightarrow> False
           | Some rec \<Rightarrow> take 4 rec = [CHR ''P'', CHR ''K'', CHR 0x05, CHR 0x06]
               \<and> take 2 (drop 20 rec) = [CHR 0x00, CHR 0x00])"

text \<open>\<open>zip.NewReader\<close>: the members of the central directory, or an error.\<close>

type_synonym zip_open = "reader \<Rightarrow> int \<Rightarrow> zip_member list option"

subsection \<open>The payload archive\<close>

record archive_stats =
  as_members :: int
  as_expanded :: int

definition payload_root :: string where
  "payload_root = PayloadArchiveRoot @ ''/''"

fun payload_members ::
  "(string \<Rightarrow> string) \<Rightarrow> limits \<Rightarrow> zip_member list \<Rightarrow> seen_names \<Rightarrow> 64 word \<times> 64 word \<Rightarrow> nat
    \<Rightarrow> backup_code + ((64 word \<times> 64 word) \<times> nat)" where
  "payload_members to_lower l [] seen totals files = Inr (totals, files)"
| "payload_members to_lower l (m # ms) seen totals files =
     (case validateMember to_lower m seen of
        Inl c \<Rightarrow> Inl c
      | Inr seen' \<Rightarrow>
          if zm_name m \<noteq> payload_root \<and> \<not> HasPrefix (zm_name m) payload_root
          then Inl ErrorArchiveRootUnsupported
          else if zm_name m = payload_root then
            (if \<not> member_is_dir m then Inl ErrorArchiveTypeUnsafe
             else payload_members to_lower l ms seen' totals files)
          else
            (case addArchiveBounds m totals (word_of_int (lm_total l)) (word_of_int (lm_member l))
                    (lm_ratio l) of
               Inl c \<Rightarrow> Inl c
             | Inr totals' \<Rightarrow>
                 if member_is_dir m then payload_members to_lower l ms seen' totals' files
                 else (case consumeMember m (lm_member l) of
                         Some c \<Rightarrow> Inl c
                       | None \<Rightarrow> payload_members to_lower l ms seen' totals' (Suc files))))"

definition verifyPayloadArchive ::
  "zip_open \<Rightarrow> (string \<Rightarrow> string) \<Rightarrow> reader \<Rightarrow> int \<Rightarrow> limits \<Rightarrow> backup_code + archive_stats" where
  "verifyPayloadArchive zopen to_lower r len l =
     (if \<not> hasTerminalEOCD r len then Inl ErrorArchiveInvalid
      else case zopen r len of
        None \<Rightarrow> Inl ErrorArchiveInvalid
      | Some ms \<Rightarrow>
          if length ms = 0 \<or> int (length ms) > lm_members l then Inl ErrorArchiveMemberLimit
          else case payload_members to_lower l ms no_names (0, 0) 0 of
            Inl c \<Rightarrow> Inl c
          | Inr ((expanded, compressed), files) \<Rightarrow>
              if files = 0 then Inl ErrorPayloadMissing
              else if exceedsRatio expanded compressed (lm_ratio l) then Inl ErrorArchiveCompressionLimit
              else Inr \<lparr>as_members = int (length ms), as_expanded = sint expanded\<rparr>)"

subsection \<open>The container\<close>

record container_scan =
  cs_seen :: seen_names
  cs_totals :: "64 word \<times> 64 word"
  cs_manifest :: "zip_member option"
  cs_payload :: "zip_member option"

definition empty_scan :: container_scan where
  "empty_scan = \<lparr>cs_seen = no_names, cs_totals = (0, 0), cs_manifest = None, cs_payload = None\<rparr>"

definition container_slot :: "zip_member \<Rightarrow> container_scan \<Rightarrow> backup_code + container_scan" where
  "container_slot m s =
     (if zm_name m = ''manifest.json'' then
        (if member_is_dir m then Inl ErrorArchiveTypeUnsafe else Inr (s\<lparr>cs_manifest := Some m\<rparr>))
      else if zm_name m = ''payload/'' then
        (if \<not> member_is_dir m then Inl ErrorArchiveTypeUnsafe else Inr s)
      else if zm_name m = PayloadArchivePath then
        (if member_is_dir m \<or> zm_method m \<noteq> zip_Store then Inl ErrorArchiveTypeUnsafe
         else Inr (s\<lparr>cs_payload := Some m\<rparr>))
      else Inl ErrorArchiveRootUnsupported)"

fun container_members ::
  "(string \<Rightarrow> string) \<Rightarrow> limits \<Rightarrow> zip_member list \<Rightarrow> container_scan \<Rightarrow> backup_code + container_scan" where
  "container_members to_lower l [] s = Inr s"
| "container_members to_lower l (m # ms) s =
     (case validateMember to_lower m (cs_seen s) of
        Inl c \<Rightarrow> Inl c
      | Inr seen \<Rightarrow>
          (case addArchiveBounds m (cs_totals s)
                  (word_of_int (int MaxManifestBytes) + word_of_int (lm_payload l))
                  (word_of_int (lm_payload l)) (lm_ratio l) of
             Inl c \<Rightarrow> Inl c
           | Inr totals \<Rightarrow>
               (case container_slot m (s\<lparr>cs_seen := seen, cs_totals := totals\<rparr>) of
                  Inl c \<Rightarrow> Inl c
                | Inr s' \<Rightarrow> container_members to_lower l ms s')))"

definition artifact_metadata_of :: "int \<Rightarrow> manifest \<Rightarrow> artifact_metadata" where
  "artifact_metadata_of len m =
     \<lparr>am_size = len, am_format = mf_format m, am_schema_version = mf_schema_version m,
      am_policy_version = mf_policy_version m, am_backup_id = mf_backup_id m,
      am_created_at = mf_created_at m, am_scope = mf_scope m, am_runtime_kind = mf_runtime_kind m,
      am_runtime_version = mf_runtime_version m, am_installation = mf_installation m,
      am_inclusion = mf_inclusion m, am_included = mf_included m, am_exclusion = mf_exclusion m,
      am_excluded = mf_excluded m, am_payload_size = pl_size (mf_payload m),
      am_payload_sha = pl_sha (mf_payload m), am_payload_members = pl_members (mf_payload m),
      am_expanded = pl_expanded (mf_payload m)\<rparr>"

text \<open>The part after the manifest is parsed: the payload against the manifest.\<close>

definition verify_payload ::
  "zip_open \<Rightarrow> (string \<Rightarrow> string) \<Rightarrow> (string \<Rightarrow> string) \<Rightarrow> reader \<Rightarrow> int \<Rightarrow> limits \<Rightarrow> manifest
    \<Rightarrow> zip_member \<Rightarrow> backup_code option" where
  "verify_payload zopen to_lower sha r len l m f =
     (if sint (zm_usize f) \<noteq> pl_size (mf_payload m) \<or> sint (zm_usize f) > lm_payload l
      then Some ErrorPayloadSizeMismatch
      else if zm_csize f \<noteq> zm_usize f then Some ErrorArchiveTypeUnsafe
      else case zm_offset f of
        None \<Rightarrow> Some ErrorArchiveInvalid
      | Some off \<Rightarrow>
          if off < 0 \<or> pl_size (mf_payload m) > len - off then Some ErrorArchiveInvalid
          else case r off (pl_size (mf_payload m)) of
            None \<Rightarrow> Some ErrorArchiveInvalid
          | Some bytes \<Rightarrow>
              if sha bytes \<noteq> pl_sha (mf_payload m) then Some ErrorPayloadChecksumMismatch
              else case verifyPayloadArchive zopen to_lower
                          (section_reader r off (pl_size (mf_payload m))) (pl_size (mf_payload m)) l of
                Inl c \<Rightarrow> Some c
              | Inr st \<Rightarrow>
                  if as_members st \<noteq> pl_members (mf_payload m) then Some ErrorPayloadMemberCountMismatch
                  else if as_expanded st \<noteq> pl_expanded (mf_payload m) then Some ErrorPayloadExpandedMismatch
                  else None)"

definition VerifyArtifact ::
  "zip_open \<Rightarrow> (string \<Rightarrow> string) \<Rightarrow> (string \<Rightarrow> string) \<Rightarrow> reader option \<Rightarrow> int \<Rightarrow> limits
    \<Rightarrow> verification" where
  "VerifyArtifact zopen to_lower sha reader len l =
     (case reader of
        None \<Rightarrow> fail ErrorInputInvalid
      | Some r \<Rightarrow>
          if len \<le> 0 \<or> \<not> limits_valid l then fail ErrorInputInvalid
          else if len > lm_container l then fail ErrorArchiveTotalSizeLimit
          else if \<not> hasTerminalEOCD r len then fail ErrorArchiveInvalid
          else case zopen r len of
            None \<Rightarrow> fail ErrorArchiveInvalid
          | Some ms \<Rightarrow>
              if length ms = 0 \<or> length ms > maxContainerMembers then fail ErrorArchiveMemberLimit
              else case container_members to_lower l ms empty_scan of
                Inl c \<Rightarrow> fail c
              | Inr s \<Rightarrow>
                  (case cs_manifest s of
                     None \<Rightarrow> fail ErrorManifestInvalid
                   | Some mfile \<Rightarrow>
                  (case cs_payload s of
                     None \<Rightarrow> fail ErrorPayloadMissing
                   | Some pfile \<Rightarrow>
                  (case readMemberBounded mfile (int MaxManifestBytes) of
                     Inl c \<Rightarrow> fail c
                   | Inr t \<Rightarrow>
                  (case ParseCanonicalManifest t of
                     Inl c \<Rightarrow> fail c
                   | Inr m \<Rightarrow>
                  (case verify_payload zopen to_lower sha r len l m pfile of
                     Some c \<Rightarrow> fail c
                   | None \<Rightarrow>
                       (unverifiedResult\<lparr>vr_state := ArtifactStructureVerified,
                          vr_metadata := artifact_metadata_of len m\<rparr>, None)))))))"

definition VerifyArtifactBytes ::
  "zip_open \<Rightarrow> (string \<Rightarrow> string) \<Rightarrow> (string \<Rightarrow> string) \<Rightarrow> string \<Rightarrow> limits \<Rightarrow> verification" where
  "VerifyArtifactBytes zopen to_lower sha b l =
     VerifyArtifact zopen to_lower sha (Some (bytes_reader b)) (int (length b)) l"

end
