(* ===== verification/Json_Text_Properties.thy ===== *)
theory Json_Text_Properties
  imports Json_Text
begin

text \<open>
  The JSON text codec: the parser always moves forward, so its fuel never decides a result; and
  what \<open>json.Marshal\<close> writes, the parser reads back.
\<close>

subsection \<open>Progress\<close>

lemma take_rune_split: "take_rune s = Some (r, t) \<Longrightarrow> s = r @ t \<and> r \<noteq> []"
  by (auto simp: take_rune_def split: list.splits if_splits)

lemma hex4_shorter: "hex4 s = Some (v, t) \<Longrightarrow> length t < length s"
  by (auto simp: hex4_def split: list.splits option.splits)

lemma second_surrogate_shorter: "second_surrogate s = Some (v, t) \<Longrightarrow> length t < length s"
  by (auto simp: second_surrogate_def split: list.splits option.splits if_splits dest: hex4_shorter)

lemma unicode_escape_shorter: "unicode_escape s = Some (v, t) \<Longrightarrow> length t < length s"
  by (auto simp: unicode_escape_def split: option.splits if_splits
      dest!: hex4_shorter second_surrogate_shorter)

lemma string_element_shorter: "string_element s = Some (r, t) \<Longrightarrow> length t < length s"
proof (cases s)
  case (Cons c s')
  assume e: "string_element s = Some (r, t)"
  show ?thesis
  proof (cases "c = CHR 0x5C")
    case True
    with e Cons show ?thesis
      by (auto simp: string_element_def split: list.splits if_splits dest: unicode_escape_shorter)
  next
    case False
    with e Cons show ?thesis
      by (auto simp: string_element_def split: if_splits option.splits dest!: take_rune_split)
        (metis length_Cons length_append length_greater_0_conv less_add_same_cancel2)
  qed
qed (simp add: string_element_def)

lemma read_string_shorter: "read_string n s = Some (x, t) \<Longrightarrow> length t < length s"
proof (induction n s arbitrary: x t rule: read_string.induct)
  case (2 n s)
  show ?case
  proof (cases s)
    case (Cons c s')
    show ?thesis
    proof (cases "c = CHR 0x22")
      case False
      with "2.prems" Cons obtain r u y where "string_element s = Some (r, u)"
        "read_string n u = Some (y, t)"
        by (auto split: option.splits)
      with "2.IH" [OF Cons False] string_element_shorter show ?thesis
        by (metis less_trans)
    qed (use "2.prems" Cons in simp)
  qed (use "2.prems" in simp)
qed simp

lemma read_int_part_shorter: "read_int_part s = Some (x, t) \<Longrightarrow> length t < length s"
  by (auto simp: read_int_part_def le_imp_less_Suc length_dropWhile_le split: list.splits if_splits)

lemma read_fraction_le: "read_fraction s = Some (x, t) \<Longrightarrow> length t \<le> length s"
  by (auto simp: read_fraction_def length_dropWhile_le le_SucI split: list.splits if_splits)

lemma read_sign_le: "length (snd (read_sign s)) \<le> length s"
  by (simp add: read_sign_def split: list.splits)

lemma read_exponent_le: "read_exponent s = Some (x, t) \<Longrightarrow> length t \<le> length s"
proof (cases s)
  case (Cons c u)
  have "length (dropWhile is_digit (snd (read_sign u))) \<le> length u"
    using length_dropWhile_le read_sign_le le_trans by blast
  then show "read_exponent s = Some (x, t) \<Longrightarrow> length t \<le> length s"
    by (auto simp: Cons read_exponent_def Let_def split_beta split: if_splits)
qed (simp add: read_exponent_def)

lemma read_number_shorter: "read_number s = Some (x, t) \<Longrightarrow> length t < length s"
  by (auto simp: read_number_def Let_def split: list.splits if_splits option.splits prod.splits
      dest!: read_int_part_shorter read_fraction_le read_exponent_le)

lemma read_literal_shorter: "read_literal s = Some (x, t) \<Longrightarrow> length t < length s"
  by (auto simp: read_literal_def HasPrefix_iff split: if_splits dest: read_number_shorter)

lemma skip_space_le: "length (skip_space s) \<le> length s"
  by (simp add: skip_space_def length_dropWhile_le)

lemma skip_space_Cons_le: "skip_space s = c # t \<Longrightarrow> length t < length s"
  using skip_space_le [of s] by simp

lemma read_key_shorter: "read_key s = Some (k, t) \<Longrightarrow> length t < length s"
  by (auto simp: read_key_def split: list.splits if_splits option.splits
      dest!: read_string_shorter skip_space_Cons_le)

lemma read_shorter:
  "read_value n d s = Some (v, t) \<Longrightarrow> length t < length s"
  "read_elements n d s = Some (vs, t) \<Longrightarrow> length t < length s"
  "read_members n d s = Some (ms, t) \<Longrightarrow> length t < length s"
proof (induction n d s and n d s and n d s arbitrary: v t and vs t and ms t
    rule: read_value_read_elements_read_members.induct)
  case (2 n d s)
  then obtain c u where s: "skip_space s = c # u" by (cases "skip_space s") auto
  have u: "Suc (length u) \<le> length s" using skip_space_le [of s] s by simp
  have sk: "length (tl (skip_space u)) < length s" using skip_space_le [of u] u by simp
  show ?case
  proof (cases "c = CHR ''{''")
    case obj: True
    show ?thesis
    proof (cases "HasPrefix (skip_space u) ''}''")
      case True
      with "2.prems" s obj sk show ?thesis by (auto split: if_splits)
    next
      case False
      with "2.prems" s obj obtain ms where "\<not> maxNestingDepth \<le> d" "read_members n (Suc d) u = Some (ms, t)"
        by (auto split: if_splits)
      with "2.IH"(1) [OF s obj _ False] u show ?thesis by fastforce
    qed
  next
    case obj: False
    show ?thesis
    proof (cases "c = CHR ''[''")
      case arr: True
      show ?thesis
      proof (cases "HasPrefix (skip_space u) '']''")
        case True
        with "2.prems" s arr sk show ?thesis by (auto split: if_splits)
      next
        case False
        with "2.prems" s arr obtain vs where "\<not> maxNestingDepth \<le> d" "read_elements n (Suc d) u = Some (vs, t)"
          by (auto split: if_splits)
        with "2.IH"(2) [OF s obj arr _ False] u show ?thesis by fastforce
      qed
    next
      case arr: False
      show ?thesis
      proof (cases "c = CHR 0x22")
        case True
        with "2.prems" s obj arr obtain x where "read_string (length u) u = Some (x, t)" by auto
        then show ?thesis using read_string_shorter u by fastforce
      next
        case False
        with "2.prems" s obj arr have "read_literal (c # u) = Some (v, t)" by simp
        then show ?thesis using read_literal_shorter u by fastforce
      qed
    qed
  qed
next
  case (4 n d s)
  then show ?case
    by (auto split: option.splits list.splits if_splits dest!: skip_space_Cons_le) (meson less_trans)+
next
  case (6 n d s)
  then show ?case
    by (auto split: option.splits list.splits if_splits dest!: skip_space_Cons_le read_key_shorter)
      (meson less_trans)+
qed simp_all

subsection \<open>Fuel\<close>

lemma fuel_enough:
  "2 * length s < n \<Longrightarrow> 2 * length s < m \<Longrightarrow> read_value n d s = read_value m d s"
  "2 * length s + 1 < n \<Longrightarrow> 2 * length s + 1 < m \<Longrightarrow> read_elements n d s = read_elements m d s"
  "2 * length s < n \<Longrightarrow> 2 * length s < m \<Longrightarrow> read_members n d s = read_members m d s"
proof (induction n d s and n d s and n d s arbitrary: m and m and m
    rule: read_value_read_elements_read_members.induct)
  case (2 n d s)
  obtain m' where m: "m = Suc m'" using "2.prems" by (cases m) auto
  show ?case
  proof (cases "skip_space s")
    case (Cons c u)
    have "length u < length s" using Cons by (rule skip_space_Cons_le)
    then have len: "2 * length u + 1 < n" "2 * length u + 1 < m'" "2 * length u < n" "2 * length u < m'"
      using "2.prems" m by auto
    have el: "read_elements n (Suc d) u = read_elements m' (Suc d) u"
      if "c \<noteq> CHR ''{''" "c = CHR ''[''" "\<not> maxNestingDepth \<le> d" "\<not> HasPrefix (skip_space u) '']''"
      by (rule "2.IH"(2) [OF Cons that len(1,2)])
    have me: "read_members n (Suc d) u = read_members m' (Suc d) u"
      if "c = CHR ''{''" "\<not> maxNestingDepth \<le> d" "\<not> HasPrefix (skip_space u) ''}''"
      by (rule "2.IH"(1) [OF Cons that len(3,4)])
    show ?thesis
    proof (cases "c = CHR ''{''")
      case True
      with me show ?thesis
        by (cases "maxNestingDepth \<le> d"; cases "HasPrefix (skip_space u) ''}''") (simp_all add: m Cons)
    next
      case False
      with el show ?thesis
        by (cases "c = CHR ''[''"; cases "maxNestingDepth \<le> d"; cases "HasPrefix (skip_space u) '']''")
          (simp_all add: m Cons)
    qed
  qed (simp add: m)
next
  case (4 n d s)
  obtain m' where m: "m = Suc m'" using "4.prems" by (cases m) auto
  have len: "2 * length s < n" "2 * length s < m'" using "4.prems" m by simp_all
  then have v: "read_value n d s = read_value m' d s" by (rule "4.IH"(1))
  show ?case
  proof (cases "read_value n d s")
    case (Some x)
    obtain w r where x: "x = (w, r)" by fastforce
    show ?thesis
    proof (cases "skip_space r")
      case (Cons c t)
      have "length t < length r" "length r < length s"
        using Cons Some x by (auto dest: skip_space_Cons_le read_shorter)
      then have "2 * length t + 1 < n" "2 * length t + 1 < m'" using len by simp_all
      then have "read_elements n d t = read_elements m' d t" if "c = CHR '',''"
        by (rule "4.IH"(2) [OF Some x [symmetric] Cons that])
      with Some x Cons v show ?thesis by (simp add: m)
    qed (use Some x v in \<open>simp add: m\<close>)
  qed (use v in \<open>simp add: m\<close>)
next
  case (6 n d s)
  obtain m' where m: "m = Suc m'" using "6.prems" by (cases m) auto
  show ?case
  proof (cases "read_key s")
    case k: (Some kx)
    obtain k r where kx: "kx = (k, r)" by fastforce
    have r: "length r < length s" using k kx by (auto dest: read_key_shorter)
    have len: "2 * length s \<le> n" "2 * length s \<le> m'" using "6.prems" m by simp_all
    have "2 * length r < n" "2 * length r < m'" using r len by simp_all
    then have v: "read_value n d r = read_value m' d r" by (rule "6.IH"(1) [OF k kx [symmetric]])
    show ?thesis
    proof (cases "read_value n d r")
      case (Some x)
      obtain w r' where x: "x = (w, r')" by fastforce
      show ?thesis
      proof (cases "skip_space r'")
        case (Cons c t)
        have "length t < length r'" "length r' < length r"
          using Cons Some x by (auto dest: skip_space_Cons_le read_shorter)
        then have "2 * length t < n" "2 * length t < m'" using r len by simp_all
        then have "read_members n d t = read_members m' d t" if "c = CHR '',''"
          by (rule "6.IH"(2) [OF k kx [symmetric] Some x [symmetric] Cons that])
        with Some x Cons v k kx show ?thesis by (simp add: m)
      qed (use Some x v k kx in \<open>simp add: m\<close>)
    qed (use v k kx in \<open>simp add: m\<close>)
  qed (simp add: m)
qed simp_all

lemma json_first_fuel: "2 * length s < n \<Longrightarrow> read_value n 0 s = json_first s"
  unfolding json_first_def by (rule fuel_enough) simp_all

subsection \<open>Strings read back\<close>

lemma ascii_code: "is_ascii c \<longleftrightarrow> of_char c < (128::nat)"
  by (cases c) auto

lemma hex_value_char: "k < 16 \<Longrightarrow> hex_value (hex_char k) = Some k"
proof -
  have "list_all (\<lambda>k. hex_value (hex_char k) = Some k) [0..<16]" by code_simp
  then show "k < 16 \<Longrightarrow> hex_value (hex_char k) = Some k" by (simp add: list_all_iff)
qed

lemma hex4_low_byte:
  "n < 256 \<Longrightarrow> hex4 (CHR ''0'' # CHR ''0'' # hex_char (n div 16) # hex_char (n mod 16) # u) = Some (n, u)"
proof -
  have z: "hex_value CHR ''0'' = Some 0" by code_simp
  show "n < 256 \<Longrightarrow> hex4 (CHR ''0'' # CHR ''0'' # hex_char (n div 16) # hex_char (n mod 16) # u) = Some (n, u)"
    by (simp add: hex4_def z hex_value_char)
qed

lemma unicode_escape_low_byte:
  "n < 128 \<Longrightarrow> unicode_escape (CHR ''0'' # CHR ''0'' # hex_char (n div 16) # hex_char (n mod 16) # u)
    = Some ([char_of n], u)"
  by (simp add: unicode_escape_def hex4_low_byte utf8_of_def)

lemma element_escape_byte:
  assumes "is_ascii a"
  shows "string_element (escape_byte a @ u) = Some ([a], u)"
proof (cases "escape_byte a = [a]")
  case True
  have "\<not> (of_char a < (32::nat))" "a \<noteq> CHR 0x5C"
    using True by (auto simp: escape_byte_def split: if_splits)
  with assms show ?thesis by (simp add: True string_element_def)
next
  case False
  show ?thesis
  proof (cases "a \<in> {CHR 0x22, CHR 0x5C, CHR 0x08, CHR 0x0C, CHR 0x0A, CHR 0x0D, CHR 0x09}")
    case True
    then show ?thesis
      by (auto simp: escape_byte_def string_element_def simple_escape_def)
  next
    case neq: False
    have "escape_byte a = [CHR 0x5C, CHR ''u'', CHR ''0'', CHR ''0'', hex_char (of_char a div 16),
        hex_char (of_char a mod 16)]"
      using False neq by (auto simp: escape_byte_def split: if_splits)
    moreover have "of_char a < (128::nat)" using assms by (simp add: ascii_code)
    ultimately show ?thesis by (simp add: string_element_def unicode_escape_low_byte)
  qed
qed

lemma escape_byte_ne: "escape_byte a \<noteq> []" "hd (escape_byte a) \<noteq> CHR 0x22"
  by (auto simp: escape_byte_def)

lemma take_rune_more:
  assumes "take_rune s = Some (r, t)"
  shows "take_rune (r @ u) = Some (r, u)"
proof -
  from assms obtain a b w where s: "s = a # b # w"
    by (cases s; cases "tl s") (auto simp: take_rune_def)
  show ?thesis
  proof (cases "in_range 194 223 a")
    case True
    with assms show ?thesis
      by (cases "in_range 128 191 b") (auto simp: take_rune_def s)
  next
    case two: False
    show ?thesis
    proof (cases "in_range 224 239 a")
      case True
      with assms two obtain c w' where "w = c # w'" by (cases w) (auto simp: take_rune_def s)
      with assms two True show ?thesis
        by (cases "in_range (if of_char a = (224::nat) then 160 else 128)
             (if of_char a = (237::nat) then 159 else 191) b \<and> in_range 128 191 c")
          (simp_all add: take_rune_def s, auto)
    next
      case three: False
      with assms two obtain c d w' where "w = c # d # w'" and "in_range 240 244 a"
        by (cases w; cases "tl w") (auto simp: take_rune_def s split: if_splits)
      with assms two three show ?thesis
        by (cases "in_range (if of_char a = (240::nat) then 144 else 128)
             (if of_char a = (244::nat) then 143 else 191) b
            \<and> in_range 128 191 c \<and> in_range 128 191 d")
          (simp_all add: take_rune_def s, auto)
    qed
  qed
qed

lemma not_ascii_high: "\<not> is_ascii a \<Longrightarrow> \<not> of_char a < (32::nat) \<and> a \<noteq> CHR 0x5C \<and> a \<noteq> CHR 0x22"
  by (auto simp: ascii_code)

lemma element_escape_rune:
  assumes "take_rune (a # s) = Some (r, t)" and "\<not> is_ascii a"
  shows "string_element (escape_rune r @ u) = Some (r, u)"
    and "escape_rune r \<noteq> []" and "hd (escape_rune r) \<noteq> CHR 0x22"
proof -
  from assms(1) obtain r' where r: "r = a # r'"
    by (auto simp: take_rune_def split: list.splits if_splits)
  have plain: "string_element (r @ u) = Some (r, u)"
    using take_rune_more [OF assms(1), of u] not_ascii_high [OF assms(2)] assms(2)
    by (simp add: r string_element_def)
  have "char_of (226::nat) = CHR 0xE2" "char_of (128::nat) = CHR 0x80" "char_of (168::nat) = CHR 0xA8"
    "char_of (169::nat) = CHR 0xA9"
    by code_simp+
  then have "utf8_of 8232 = [CHR 0xE2, CHR 0x80, CHR 0xA8]" "utf8_of 8233 = [CHR 0xE2, CHR 0x80, CHR 0xA9]"
    by (simp_all add: utf8_of_def)
  then have "unicode_escape (''2028'' @ u) = Some ([CHR 0xE2, CHR 0x80, CHR 0xA8], u)"
    "unicode_escape (''2029'' @ u) = Some ([CHR 0xE2, CHR 0x80, CHR 0xA9], u)"
    by (simp_all add: unicode_escape_def hex4_def hex_value_def is_digit_def less_eq_char_def)
  with plain show "string_element (escape_rune r @ u) = Some (r, u)"
    by (simp add: escape_rune_def string_element_def)
  show "escape_rune r \<noteq> []" "hd (escape_rune r) \<noteq> CHR 0x22"
    using not_ascii_high [OF assms(2)] by (auto simp: escape_rune_def r)
qed

lemma read_string_step:
  assumes "e \<noteq> []" "hd e \<noteq> CHR 0x22" "string_element (e @ u) = Some (r, u)"
  shows "read_string (Suc n) (e @ u) = map_option (\<lambda>(x, w). (r @ x, w)) (read_string n u)"
proof -
  obtain c e' where e: "e = c # e'" using assms(1) by (cases e) auto
  with assms show ?thesis by simp
qed

lemma valid_rune:
  assumes "valid_utf8_fuel (Suc n) (a # s)" "\<not> is_ascii a"
  obtains r t where "take_rune (a # s) = Some (r, t)" "valid_utf8_fuel n t"
  using assms by (auto simp: take_rune_def split: if_splits list.splits)

lemma read_escape:
  "valid_utf8_fuel n s \<Longrightarrow> length (escape n s) < m
   \<Longrightarrow> read_string m (escape n s @ CHR 0x22 # rest) = Some (s, rest)"
proof (induction n s arbitrary: m rule: escape.induct)
  case (1 s)
  then show ?case by (cases m) simp_all
next
  case (2 n)
  then show ?case by (cases m) simp_all
next
  case (3 n a s)
  obtain m' where m: "m = Suc m'" using "3.prems" by (cases m) auto
  show ?case
  proof (cases "is_ascii a")
    case True
    have "length (escape_byte a) \<noteq> 0" using escape_byte_ne by simp
    moreover have "length (escape_byte a) + length (escape n s) < Suc m'" using "3.prems" True m by simp
    ultimately have "length (escape n s) < m'" by linarith
    with "3.prems" True have "read_string m' (escape n s @ CHR 0x22 # rest) = Some (s, rest)"
      by (intro "3.IH"(1)) simp_all
    with read_string_step [OF escape_byte_ne element_escape_byte [OF True]] True show ?thesis
      by (simp add: m)
  next
    case False
    with "3.prems"(1) obtain r t where rt: "take_rune (a # s) = Some (r, t)" "valid_utf8_fuel n t"
      by (rule valid_rune)
    note e = element_escape_rune [OF rt(1) False]
    have "length (escape_rune r) \<noteq> 0" using e(2) by simp
    moreover have "length (escape_rune r) + length (escape n t) < Suc m'" using "3.prems" False m rt by simp
    ultimately have "length (escape n t) < m'" by linarith
    with False rt have "read_string m' (escape n t @ CHR 0x22 # rest) = Some (t, rest)"
      by (intro "3.IH"(3) [OF False rt(1) refl]) simp_all
    then have "read_string m (escape_rune r @ (escape n t @ CHR 0x22 # rest)) = Some (r @ t, rest)"
      unfolding m by (subst read_string_step [OF e(2,3,1)]) simp
    moreover have "escape (Suc n) (a # s) = escape_rune r @ escape n t" using False rt(1) by simp
    moreover have "a # s = r @ t" using take_rune_split [OF rt(1)] by simp
    ultimately show ?thesis by simp
  qed
qed

lemma read_quoted:
  assumes "ValidString s" and "length (escape (length s) s) < m"
  shows "read_string m (escape (length s) s @ CHR 0x22 # rest) = Some (s, rest)"
  using assms by (simp add: ValidString_def read_escape)

lemma json_quote_read:
  assumes "ValidString s"
  shows "json_quote s @ rest = CHR 0x22 # (escape (length s) s @ CHR 0x22 # rest)
    \<and> read_string (length (escape (length s) s @ CHR 0x22 # rest)) (escape (length s) s @ CHR 0x22 # rest)
        = Some (s, rest)"
proof
  show "json_quote s @ rest = CHR 0x22 # (escape (length s) s @ CHR 0x22 # rest)"
    by (simp add: json_quote_def)
qed (rule read_quoted [OF assms], simp)

subsection \<open>Values read back\<close>

text \<open>A text that cannot continue a number.\<close>

definition stops :: "string \<Rightarrow> bool" where
  "stops r \<longleftrightarrow> (case r of [] \<Rightarrow> True | c # _ \<Rightarrow> \<not> is_digit c \<and> c \<noteq> CHR ''.'' \<and> c \<noteq> CHR ''e'' \<and> c \<noteq> CHR ''E'')"

lemma stops_takeWhile:
  "stops r \<Longrightarrow> takeWhile is_digit (s @ r) = takeWhile is_digit s"
  "stops r \<Longrightarrow> dropWhile is_digit (s @ r) = dropWhile is_digit s @ r"
  by (induction s) (auto simp: stops_def split: list.splits)

lemma int_part_append:
  "read_int_part s = Some (x, t) \<Longrightarrow> stops r \<Longrightarrow> read_int_part (s @ r) = Some (x, t @ r)"
  by (auto simp: read_int_part_def stops_takeWhile split: list.splits if_splits)

lemma fraction_append:
  "read_fraction s = Some (x, t) \<Longrightarrow> stops r \<Longrightarrow> read_fraction (s @ r) = Some (x, t @ r)"
proof (cases s)
  case Nil
  then show "read_fraction s = Some (x, t) \<Longrightarrow> stops r \<Longrightarrow> read_fraction (s @ r) = Some (x, t @ r)"
    by (cases r) (auto simp: read_fraction_def stops_def)
qed (auto simp: read_fraction_def stops_takeWhile split: if_splits)

lemma sign_append: "s \<noteq> [] \<Longrightarrow> read_sign (s @ r) = (fst (read_sign s), snd (read_sign s) @ r)"
  by (cases s) (auto simp: read_sign_def)

lemma exponent_append:
  "read_exponent s = Some (x, t) \<Longrightarrow> stops r \<Longrightarrow> read_exponent (s @ r) = Some (x, t @ r)"
proof (cases s)
  case Nil
  then show "read_exponent s = Some (x, t) \<Longrightarrow> stops r \<Longrightarrow> read_exponent (s @ r) = Some (x, t @ r)"
    by (cases r) (auto simp: read_exponent_def stops_def)
next
  case (Cons c u)
  show "read_exponent s = Some (x, t) \<Longrightarrow> stops r \<Longrightarrow> read_exponent (s @ r) = Some (x, t @ r)"
  proof (cases "u = []")
    case True
    then show "read_exponent s = Some (x, t) \<Longrightarrow> stops r \<Longrightarrow> read_exponent (s @ r) = Some (x, t @ r)"
      by (auto simp: Cons read_exponent_def read_sign_def split: if_splits)
  next
    case False
    then show "read_exponent s = Some (x, t) \<Longrightarrow> stops r \<Longrightarrow> read_exponent (s @ r) = Some (x, t @ r)"
      by (auto simp: Cons read_exponent_def Let_def split_beta sign_append stops_takeWhile split: if_splits)
  qed
qed

definition number_literal :: "string \<Rightarrow> bool" where
  "number_literal l \<longleftrightarrow> read_number l = Some (l, [])"

lemma number_read:
  assumes "number_literal l" and "stops r"
  shows "read_number (l @ r) = Some (l, r)"
proof -
  obtain sg s1 where sg: "(case l of c # t \<Rightarrow> if c = CHR ''-'' then ([c], t) else ([], l) | [] \<Rightarrow> ([], l)) = (sg, s1)"
    by fastforce
  from assms(1) sg obtain i s2 f s3 e where parts: "read_int_part s1 = Some (i, s2)"
    "read_fraction s2 = Some (f, s3)" "read_exponent s3 = Some (e, [])" "l = sg @ i @ f @ e"
    by (auto simp: number_literal_def read_number_def Let_def split: option.splits prod.splits)
  then have "l \<noteq> []" using sg by (auto simp: read_int_part_def split: list.splits if_splits)
  then have "(case l @ r of c # t \<Rightarrow> if c = CHR ''-'' then ([c], t) else ([], l @ r) | [] \<Rightarrow> ([], l @ r))
      = (sg, s1 @ r)"
    using sg by (cases l) (auto split: if_splits)
  then have "read_number (l @ r) = Some (sg @ i @ f @ e, r)"
    unfolding read_number_def Let_def
    using int_part_append [OF parts(1) assms(2)] fraction_append [OF parts(2) assms(2)]
      exponent_append [OF parts(3) assms(2)] by simp
  with parts(4) show ?thesis by simp
qed

lemma number_literal_head:
  assumes "number_literal l"
  shows "\<exists>c t. l = c # t \<and> (c = CHR ''-'' \<or> is_digit c)"
proof -
  have "is_digit CHR ''0''" by code_simp
  with assms show ?thesis
    by (cases l) (auto simp: number_literal_def read_number_def read_int_part_def Let_def
        split: list.splits if_splits option.splits)
qed

text \<open>Values nested no deeper than the scanner allows below depth \<open>d\<close>.\<close>

fun fits :: "nat \<Rightarrow> jval \<Rightarrow> bool" where
  "fits d (VArr vs) \<longleftrightarrow> d < maxNestingDepth \<and> list_all (fits (Suc d)) vs"
| "fits d (VObj kvs) \<longleftrightarrow> d < maxNestingDepth \<and> list_all (\<lambda>(k, v). fits (Suc d) v) kvs"
| "fits d _ = True"

text \<open>Values that \<open>json.Marshal\<close> can be given: valid UTF-8 and well-formed number literals.\<close>

fun wf_value :: "jval \<Rightarrow> bool" where
  "wf_value (VNum l) = number_literal l"
| "wf_value (VStr s) = ValidString s"
| "wf_value (VArr vs) = list_all wf_value vs"
| "wf_value (VObj kvs) = list_all (\<lambda>(k, v). ValidString k \<and> wf_value v) kvs"
| "wf_value _ = True"

lemma literal_chars:
  "is_json_space c \<Longrightarrow> \<not> is_digit c \<and> c \<noteq> CHR ''-'' \<and> c \<noteq> CHR ''{'' \<and> c \<noteq> CHR ''['' \<and> c \<noteq> CHR 0x22"
  by (auto simp: is_json_space_def is_digit_def less_eq_char_def)

lemma digit_chars:
  "is_digit c \<Longrightarrow> c \<noteq> CHR ''{'' \<and> c \<noteq> CHR ''['' \<and> c \<noteq> CHR 0x22 \<and> c \<noteq> CHR '']'' \<and> c \<noteq> CHR ''}''
     \<and> c \<noteq> CHR ''n'' \<and> c \<noteq> CHR ''t'' \<and> c \<noteq> CHR ''f''"
  by (auto simp: is_digit_def less_eq_char_def)

lemma json_text_head:
  assumes "wf_value v"
  shows "\<exists>c t. json_text v = c # t \<and> \<not> is_json_space c \<and> c \<noteq> CHR '']'' \<and> c \<noteq> CHR ''}''"
proof (cases v)
  case (VNum l)
  with assms have "number_literal l" by simp
  then obtain c t where l: "l = c # t" "c = CHR ''-'' \<or> is_digit c"
    using number_literal_head by blast
  then have "\<not> is_json_space c" "c \<noteq> CHR '']''" "c \<noteq> CHR ''}''"
    using literal_chars [of c] digit_chars [of c] by auto
  with l VNum show ?thesis by simp
qed (auto simp: json_quote_def is_json_space_def)

lemma skip_space_text:
  "wf_value v \<Longrightarrow> skip_space (json_text v @ r) = json_text v @ r"
  using json_text_head [of v] by (auto simp: skip_space_def)

lemma read_number_value:
  assumes "number_literal l" "stops r"
  shows "read_value (Suc n) d (l @ r) = Some (VNum l, r)"
proof -
  obtain c t where l: "l = c # t" "c = CHR ''-'' \<or> is_digit c" using number_literal_head [OF assms(1)] by blast
  then have c: "\<not> is_json_space c" "c \<noteq> CHR ''{''" "c \<noteq> CHR ''[''" "c \<noteq> CHR 0x22"
    "c \<noteq> CHR ''n''" "c \<noteq> CHR ''t''" "c \<noteq> CHR ''f''"
    using literal_chars [of c] digit_chars [of c] by auto
  have "skip_space (l @ r) = c # (t @ r)" using c(1) by (simp add: skip_space_def l(1))
  moreover have "read_literal (c # (t @ r)) = Some (VNum l, r)"
    using number_read [OF assms] c(5-7) by (simp add: read_literal_def HasPrefix_def l(1))
  ultimately show ?thesis using c(2-4) by simp
qed

lemma read_key_quote:
  assumes "ValidString k"
  shows "read_key (json_quote k @ CHR '':'' # r) = Some (k, r)"
proof -
  let ?t = "escape (length k) k @ CHR 0x22 # CHR '':'' # r"
  from json_quote_read [OF assms, of "CHR '':'' # r"]
  have q: "json_quote k @ CHR '':'' # r = CHR 0x22 # ?t" "read_string (length ?t) ?t = Some (k, CHR '':'' # r)"
    by simp_all
  have "skip_space (CHR 0x22 # ?t) = CHR 0x22 # ?t" "skip_space (CHR '':'' # r) = CHR '':'' # r"
    by (simp_all add: skip_space_def is_json_space_def)
  then show ?thesis unfolding q(1) read_key_def using q(2) by simp
qed

lemma stops_delimiter:
  "stops (CHR '','' # r)" "stops (CHR '']'' # r)" "stops (CHR ''}'' # r)" "stops []"
  by (simp_all add: stops_def is_digit_def less_eq_char_def)

lemma delimiter_space [simp]:
  "skip_space (CHR '','' # r) = CHR '','' # r" "skip_space (CHR '']'' # r) = CHR '']'' # r"
  "skip_space (CHR ''}'' # r) = CHR ''}'' # r"
  by (simp_all add: skip_space_def is_json_space_def)

definition reads_back :: "jval \<Rightarrow> bool" where
  "reads_back v \<longleftrightarrow> (\<forall>n d r. fits d v \<longrightarrow> stops r \<longrightarrow> 2 * length (json_text v) \<le> n
     \<longrightarrow> read_value n d (json_text v @ r) = Some (v, r))"

lemma elements_read:
  assumes "vs \<noteq> []" and "\<forall>v \<in> set vs. reads_back v \<and> fits d v"
    and "2 * length (join_on CHR '','' (map json_text vs)) < n"
  shows "read_elements n d (join_on CHR '','' (map json_text vs) @ CHR '']'' # r) = Some (vs, r)"
  using assms
proof (induction vs arbitrary: n rule: list_nonempty_induct)
  case (single v)
  obtain n' where n: "n = Suc n'" using single.prems by (cases n) auto
  have "read_value n' d (json_text v @ CHR '']'' # r) = Some (v, CHR '']'' # r)"
    using single.prems n stops_delimiter by (auto simp: reads_back_def)
  then show ?case by (simp add: n)
next
  case (cons v vs)
  obtain n' where n: "n = Suc n'" using cons.prems by (cases n) auto
  obtain w ws where vs: "vs = w # ws" using cons.hyps(1) by (cases vs) auto
  let ?t = "join_on CHR '','' (map json_text vs)"
  have join: "join_on CHR '','' (map json_text (v # vs)) = json_text v @ CHR '','' # ?t"
    by (simp add: vs)
  have len: "2 * length (json_text v) \<le> n'" "2 * length ?t < n'"
    using cons.prems(2) n join by auto
  have "read_value n' d (json_text v @ (CHR '','' # ?t @ CHR '']'' # r))
      = Some (v, CHR '','' # ?t @ CHR '']'' # r)"
    using cons.prems(1) len(1) stops_delimiter by (auto simp: reads_back_def)
  moreover have "read_elements n' d (?t @ CHR '']'' # r) = Some (vs, r)"
    using cons.IH cons.prems(1) len(2) by simp
  ultimately show ?case unfolding n join by simp
qed

definition member_text :: "string \<times> jval \<Rightarrow> string" where
  "member_text kv = json_quote (fst kv) @ CHR '':'' # json_text (snd kv)"

lemma members_read:
  assumes "ms \<noteq> []" and "\<forall>(k, v) \<in> set ms. ValidString k \<and> reads_back v \<and> fits d v"
    and "2 * length (join_on CHR '','' (map member_text ms)) < n"
  shows "read_members n d (join_on CHR '','' (map member_text ms) @ CHR ''}'' # r) = Some (ms, r)"
  using assms
proof (induction ms arbitrary: n rule: list_nonempty_induct)
  case (single m)
  obtain n' where n: "n = Suc n'" using single.prems by (cases n) auto
  obtain k v where m: "m = (k, v)" by fastforce
  have "read_value n' d (json_text v @ CHR ''}'' # r) = Some (v, CHR ''}'' # r)"
    using single.prems n m stops_delimiter by (auto simp: reads_back_def member_text_def)
  moreover have "read_key (json_quote k @ CHR '':'' # json_text v @ CHR ''}'' # r)
      = Some (k, json_text v @ CHR ''}'' # r)"
    using single.prems m by (intro read_key_quote) simp
  ultimately show ?case by (simp add: n m member_text_def)
next
  case (cons m ms)
  obtain n' where n: "n = Suc n'" using cons.prems by (cases n) auto
  obtain k v where m: "m = (k, v)" by fastforce
  obtain w ws where ms: "ms = w # ws" using cons.hyps(1) by (cases ms) auto
  let ?t = "join_on CHR '','' (map member_text ms)"
  have join: "join_on CHR '','' (map member_text (m # ms)) = member_text m @ CHR '','' # ?t"
    by (simp add: ms)
  have "length (json_text v) \<le> length (member_text m)" by (simp add: m member_text_def)
  then have len: "2 * length (json_text v) \<le> n'" "2 * length ?t < n'"
    using cons.prems(2) [unfolded join n] by simp_all
  have "read_value n' d (json_text v @ (CHR '','' # ?t @ CHR ''}'' # r))
      = Some (v, CHR '','' # ?t @ CHR ''}'' # r)"
    using cons.prems(1) len(1) m stops_delimiter by (auto simp: reads_back_def)
  moreover have "read_key (json_quote k @ CHR '':'' # json_text v @ CHR '','' # ?t @ CHR ''}'' # r)
      = Some (k, json_text v @ CHR '','' # ?t @ CHR ''}'' # r)"
    using cons.prems(1) m by (intro read_key_quote) simp
  moreover have "read_members n' d (?t @ CHR ''}'' # r) = Some (ms, r)"
    using cons.IH cons.prems(1) len(2) by simp
  moreover have "join_on CHR '','' (map member_text (m # ms)) @ CHR ''}'' # r
      = json_quote k @ CHR '':'' # json_text v @ CHR '','' # ?t @ CHR ''}'' # r"
    unfolding join by (simp add: m member_text_def)
  ultimately show ?case unfolding n m by simp
qed

lemma object_text: "json_text (VObj ms) = CHR ''{'' # join_on CHR '','' (map member_text ms) @ ''}''"
proof -
  have "(\<lambda>(k, v). json_quote k @ CHR '':'' # json_text v) = member_text"
    by (simp add: fun_eq_iff member_text_def split: prod.splits)
  then show ?thesis by simp
qed

lemma open_space [simp]:
  "skip_space (CHR ''{'' # r) = CHR ''{'' # r" "skip_space (CHR ''['' # r) = CHR ''['' # r"
  "skip_space (CHR 0x22 # r) = CHR 0x22 # r"
  by (simp_all add: skip_space_def is_json_space_def)

lemma value_reads_back: "wf_value v \<Longrightarrow> reads_back v"
proof (induction v)
  case VNull
  show ?case
    unfolding reads_back_def
  proof (intro allI impI)
    fix n d r assume "2 * length (json_text VNull) \<le> n"
    then obtain n' where "n = Suc n'" by (cases n) auto
    then show "read_value n d (json_text VNull @ r) = Some (VNull, r)"
      by (simp add: skip_space_def is_json_space_def read_literal_def HasPrefix_def)
  qed
next
  case (VBool b)
  show ?case
    unfolding reads_back_def
  proof (intro allI impI)
    fix n d r assume "2 * length (json_text (VBool b)) \<le> n"
    then obtain n' where "n = Suc n'" by (cases n) (auto split: if_splits)
    then show "read_value n d (json_text (VBool b) @ r) = Some (VBool b, r)"
      by (simp add: skip_space_def is_json_space_def read_literal_def HasPrefix_def)
  qed
next
  case (VNum l)
  show ?case
    unfolding reads_back_def
  proof (intro allI impI)
    fix n d r assume "2 * length (json_text (VNum l)) \<le> n" "stops r"
    moreover have "l \<noteq> []" using VNum number_literal_head by fastforce
    ultimately obtain n' where "n = Suc n'" by (cases n) auto
    then show "read_value n d (json_text (VNum l) @ r) = Some (VNum l, r)"
      using VNum \<open>stops r\<close> by (simp add: read_number_value del: read_value.simps)
  qed
next
  case (VStr s)
  show ?case
    unfolding reads_back_def
  proof (intro allI impI)
    fix n d r assume "2 * length (json_text (VStr s)) \<le> n"
    then obtain n' where n: "n = Suc n'" by (cases n) (auto simp: json_quote_def)
    from VStr have "ValidString s" by simp
    from json_quote_read [OF this, of r] show "read_value n d (json_text (VStr s) @ r) = Some (VStr s, r)"
      by (simp add: n del: read_string.simps)
  qed
next
  case (VArr vs)
  show ?case
    unfolding reads_back_def
  proof (intro allI impI)
    fix n d r assume n: "2 * length (json_text (VArr vs)) \<le> n" and fit: "fits d (VArr vs)"
    obtain n' where n': "n = Suc n'" using n by (cases n) auto
    show "read_value n d (json_text (VArr vs) @ r) = Some (VArr vs, r)"
    proof (cases vs)
      case Nil
      with fit show ?thesis by (simp add: n' HasPrefix_def)
    next
      case (Cons w ws)
      let ?t = "join_on CHR '','' (map json_text vs)"
      have "wf_value w" using VArr.prems Cons by simp
      then obtain c t where w: "json_text w = c # t" "\<not> is_json_space c" "c \<noteq> CHR '']''"
        using json_text_head by blast
      then obtain u where t: "?t = c # u" by (cases ws) (auto simp: Cons)
      then have "\<not> HasPrefix (skip_space (?t @ CHR '']'' # r)) '']''"
        using w by (simp add: skip_space_def HasPrefix_def)
      moreover have "read_elements n' (Suc d) (?t @ CHR '']'' # r) = Some (vs, r)"
        using VArr fit n n' by (intro elements_read) (auto simp: Cons list_all_iff)
      ultimately show ?thesis using fit by (simp add: n')
    qed
  qed
next
  case (VObj ms)
  show ?case
    unfolding reads_back_def
  proof (intro allI impI)
    fix n d r assume n: "2 * length (json_text (VObj ms)) \<le> n" and fit: "fits d (VObj ms)"
    obtain n' where n': "n = Suc n'" using n by (cases n) auto
    show "read_value n d (json_text (VObj ms) @ r) = Some (VObj ms, r)"
    proof (cases ms)
      case Nil
      with fit show ?thesis by (simp add: n' HasPrefix_def)
    next
      case (Cons m ms')
      let ?t = "join_on CHR '','' (map member_text ms)"
      obtain u where t: "?t = CHR 0x22 # u"
        by (cases ms') (auto simp: Cons member_text_def json_quote_def)
      then have "\<not> HasPrefix (skip_space (?t @ CHR ''}'' # r)) ''}''"
        by (simp add: HasPrefix_def)
      moreover have "\<forall>(k, v) \<in> set ms. ValidString k \<and> reads_back v \<and> fits (Suc d) v"
      proof clarify
        fix k v assume kv: "(k, v) \<in> set ms"
        with VObj.prems fit have "ValidString k" "wf_value v" "fits (Suc d) v"
          by (auto simp: list_all_iff)
        moreover from kv this(2) have "reads_back v" by (intro VObj.IH [of "(k, v)"]) simp_all
        ultimately show "ValidString k \<and> reads_back v \<and> fits (Suc d) v" by simp
      qed
      moreover have "2 * length ?t < n'" using n n' by (simp add: object_text del: json_text.simps)
      moreover have "ms \<noteq> []" by (simp add: Cons)
      ultimately have "read_members n' (Suc d) (?t @ CHR ''}'' # r) = Some (ms, r)"
        "\<not> HasPrefix (skip_space (?t @ CHR ''}'' # r)) ''}''"
        using members_read by blast+
      then show ?thesis using fit by (simp add: n' object_text del: json_text.simps)
    qed
  qed
qed

lemma json_roundtrip:
  assumes "wf_value v" and "fits 0 v"
  shows "json_parse (json_text v) = Some v"
proof -
  have "read_value (2 * length (json_text v) + 1) 0 (json_text v @ []) = Some (v, [])"
    using value_reads_back [OF assms(1)] assms(2) stops_delimiter(4)
    by (simp add: reads_back_def del: append_Nil2 read_value.simps)
  then show ?thesis by (simp add: json_parse_def json_first_def skip_space_def)
qed

end
