(* ===== verification/Backup_Manifest_Properties.thy ===== *)
theory Backup_Manifest_Properties
  imports Backup_Manifest Json_Text_Properties
begin

text \<open>
  The manifest's canonical bytes: what passes validation is plain ASCII, what \<open>MarshalCanonical\<close>
  writes the parser reads back, and nothing else is accepted.
\<close>

subsection \<open>Numbers read back\<close>

lemma decimal_head: "0 < n \<Longrightarrow> \<exists>c t. decimal n = c # t \<and> is_digit c \<and> c \<noteq> CHR ''0''"
proof (induction n rule: decimal.induct)
  case (1 n)
  show ?case
  proof (cases "n < 10")
    case True
    have "char_of (48 + n) \<noteq> CHR ''0''"
    proof
      assume "char_of (48 + n) = CHR ''0''"
      then have "of_char (char_of (48 + n)) = (of_char CHR ''0'' :: nat)" by simp
      with True "1.prems" show False by (simp add: of_char_of)
    qed
    moreover have "is_digit (char_of (48 + n))"
      using True by (simp add: is_digit_def less_eq_char_def of_char_of)
    ultimately show ?thesis using True by (simp add: decimal.simps [of n])
  next
    case False
    then have "0 < n div 10" by simp
    from "1.IH" [OF False this] obtain c t where "decimal (n div 10) = c # t" "is_digit c" "c \<noteq> CHR ''0''"
      by blast
    with False show ?thesis by (simp add: decimal.simps [of n])
  qed
qed

lemma all_digits_decimal: "list_all is_digit (decimal n)"
  using decimal_digits [of n] by (auto simp: list_all_iff)

lemma takeWhile_all: "list_all p xs \<Longrightarrow> takeWhile p xs = xs \<and> dropWhile p xs = []"
  by (induction xs) simp_all

lemma decimal_literal: "number_literal (decimal n)"
proof (cases "n = 0")
  case True
  have "number_literal ''0''" by code_simp
  moreover have "decimal 0 = ''0''" by code_simp
  ultimately show ?thesis by (simp only: True)
next
  case False
  then obtain c t where d: "decimal n = c # t" "is_digit c" "c \<noteq> CHR ''0''"
    using decimal_head by blast
  have "list_all is_digit t" using all_digits_decimal [of n] d(1) by simp
  moreover have "c \<noteq> CHR ''-''" using d(2) by (auto simp: is_digit_def less_eq_char_def)
  moreover from \<open>list_all is_digit t\<close> have "takeWhile is_digit t = t" "dropWhile is_digit t = []"
    using takeWhile_all [of is_digit t] by blast+
  ultimately show ?thesis
    using d by (simp add: number_literal_def read_number_def read_int_part_def
        read_fraction_def read_exponent_def del: takeWhile_eq_all_conv dropWhile_eq_Nil_conv)
qed

lemma int_text_nonneg: "0 \<le> n \<Longrightarrow> int_text n = decimal (nat n)"
  by (simp add: int_text_def)

lemma int_literal: "0 \<le> n \<Longrightarrow> number_literal (int_text n)"
  by (simp add: int_text_nonneg decimal_literal)

lemma int_reads_back:
  assumes "0 \<le> n" and "n < 2 ^ 63"
  shows "int_of_literal (int_text n) = Some n"
proof -
  obtain c t where d: "decimal (nat n) = c # t" by (cases "decimal (nat n)") auto
  with all_digits_decimal [of "nat n"] have "is_digit c" by simp
  then have "c \<noteq> CHR ''-''" by (auto simp: is_digit_def less_eq_char_def)
  then have s: "(case decimal (nat n) of c # t \<Rightarrow> if c = CHR ''-'' then (True, t) else (False, decimal (nat n))
      | [] \<Rightarrow> (False, decimal (nat n))) = (False, decimal (nat n))"
    by (simp add: d)
  show ?thesis
    using assms all_digits_decimal [of "nat n"]
    by (simp add: int_of_literal_def int_text_nonneg s Let_def)
qed

subsection \<open>Validated texts are ASCII\<close>

lemma ascii_digit: "is_digit c \<Longrightarrow> is_ascii c"
  by (simp add: is_digit_def less_eq_char_def ascii_code)

lemma ascii_lower_letter: "is_lower c \<Longrightarrow> is_ascii c"
  by (simp add: is_lower_def less_eq_char_def ascii_code)

lemma ascii_hex: "is_hex c \<Longrightarrow> is_ascii c"
  by (auto simp: is_hex_def is_lower_hex_def is_digit_def less_eq_char_def ascii_code)

lemma hex_text_valid: "list_all is_hex s \<Longrightarrow> ValidString s"
  by (rule ascii_valid) (auto simp: list_all_iff ascii_hex)

lemma closed_id_valid:
  assumes "validClosedID v pre n" and "list_all is_ascii pre"
  shows "ValidString v"
proof (rule ascii_valid)
  from assms(1) obtain r where v: "v = pre @ r" by (auto simp: validClosedID_def HasPrefix_iff)
  have "is_ascii c" if "CHR ''2'' \<le> c \<and> c \<le> CHR ''7''" for c
    using that by (simp add: less_eq_char_def ascii_code)
  with assms show "list_all is_ascii v"
    by (auto simp: v validClosedID_def list_all_iff ascii_lower_letter)
qed

lemma join_chars: "set (join_on d ps) \<subseteq> {d} \<union> (\<Union>p \<in> set ps. set p)"
  by (induction d ps rule: join_on.induct) auto

lemma version_valid: "validRuntimeVersion v \<Longrightarrow> ValidString v"
proof (rule ascii_valid)
  assume v: "validRuntimeVersion v"
  have dot: "is_ascii CHR ''.''" by simp
  have "list_all is_digit p" if "p \<in> set (split_on CHR ''.'' v)" for p
    using v that by (auto simp: validRuntimeVersion_def valid_version_part_def list_all_iff)
  then have "\<forall>c \<in> set (join_on CHR ''.'' (split_on CHR ''.'' v)). is_ascii c"
    using join_chars [of "CHR ''.''" "split_on CHR ''.'' v"] dot
    by (fastforce simp: list_all_iff ascii_digit)
  then show "list_all is_ascii v" by (simp add: list_all_iff)
qed

lemma created_at_valid:
  assumes "validCanonicalCreatedAt v"
  shows "ValidString v"
proof (rule ascii_valid)
  have n: "length v = 20"
    and d: "list_all (\<lambda>i. is_digit (v ! i)) [0, 1, 2, 3, 5, 6, 8, 9, 11, 12, 14, 15, 17, 18]"
    and p: "v ! 4 = CHR ''-''" "v ! 7 = CHR ''-''" "v ! 10 = CHR ''T''" "v ! 13 = CHR '':''"
      "v ! 16 = CHR '':''" "v ! 19 = CHR ''Z''"
    using assms unfolding validCanonicalCreatedAt_def by blast+
  have "is_ascii (v ! i)" if "i < 20" for i
  proof -
    have "[0..<20] = [0, 1, 2, 3, 4, 5, 6, 7, 8, 9, 10, 11, 12, 13, 14, 15, 16, 17, 18, 19]" by code_simp
    moreover have "list_all (\<lambda>i. is_ascii (v ! i))
        [0, 1, 2, 3, 4, 5, 6, 7, 8, 9, 10, 11, 12, 13, 14, 15, 16, 17, 18, 19]"
      using d p ascii_digit by simp
    ultimately have "list_all (\<lambda>i. is_ascii (v ! i)) [0..<20]" by simp
    with that show ?thesis by (simp add: list_all_iff)
  qed
  then show "list_all is_ascii v" by (simp add: list_all_length n)
qed

subsection \<open>A validated manifest\<close>

lemma manifest_ValidateD:
  assumes "manifest_Validate m = None"
  shows "mf_format m = FormatVersion" "mf_schema_version m = ManifestSchemaVersion"
    "mf_policy_version m = ManifestPolicyVersion" "mf_scope m = RuntimeScope"
    "mf_runtime_kind m = RuntimeKind" "validRuntimeVersion (mf_runtime_version m)"
    "validClosedID (mf_backup_id m) backupIDPrefix backupIDBodyLength"
    "validCanonicalCreatedAt (mf_created_at m)" "identity_valid (mf_installation m)"
    "mf_inclusion m = InclusionPolicyID" "mf_exclusion m = ExclusionPolicyID"
    "mf_included m = completeRuntimeSnapshotCategories"
    "mf_excluded m = completeRuntimeSnapshotExcludedCategories"
    "pl_path (mf_payload m) = PayloadArchivePath"
    "0 < pl_size (mf_payload m)" "pl_size (mf_payload m) \<le> hardMaxPayloadBytes"
    "0 < pl_members (mf_payload m)" "pl_members (mf_payload m) \<le> hardMaxPayloadMembers"
    "0 \<le> pl_expanded (mf_payload m)" "pl_expanded (mf_payload m) \<le> hardMaxTotalExpandedBytes"
    "validCanonicalSHA256 (pl_sha (mf_payload m))" "mf_complete m"
  using assms unfolding manifest_Validate_def Let_def by (simp_all split: if_splits)

lemma plain_text: "list_all is_ascii s \<Longrightarrow> wf_value (VStr s)"
  by (simp add: ascii_valid)

lemma identity_strings:
  assumes "identity_valid i"
  shows "ValidString (ii_state i)" "ValidString (ii_generation i)" "ValidString (ii_source_pin i)"
proof -
  have e: "ValidString []" by (rule ascii_valid) simp
  have s: "ValidString InstallationManaged" "ValidString InstallationUnmanaged" "ValidString InstallationUnknown"
    by (rule ascii_valid, simp add: InstallationManaged_def InstallationUnmanaged_def InstallationUnknown_def)+
  have g: "list_all is_ascii generationIDPrefix" by (simp add: generationIDPrefix_def)
  show "ValidString (ii_state i)" "ValidString (ii_generation i)" "ValidString (ii_source_pin i)"
    using assms e s closed_id_valid [OF _ g] hex_text_valid
    by (auto simp: identity_valid_def validSourcePin_def split: if_splits)
qed

lemma categories_wf:
  "wf_value (strings_value completeRuntimeSnapshotCategories)"
  "wf_value (strings_value completeRuntimeSnapshotExcludedCategories)"
  by (simp_all add: strings_value_def completeRuntimeSnapshotCategories_def
      completeRuntimeSnapshotExcludedCategories_def ascii_valid)

lemma manifest_value_wf:
  assumes "manifest_Validate m = None"
  shows "wf_value (manifest_value m)"
proof -
  note v = manifest_ValidateD [OF assms]
  have ids: "ValidString (mf_backup_id m)"
    using closed_id_valid [OF v(7)] by (simp add: backupIDPrefix_def)
  have sha: "ValidString (pl_sha (mf_payload m))"
    using v(21) by (simp add: validCanonicalSHA256_def hex_text_valid)
  have idv: "wf_value (identity_value (mf_installation m))"
    using identity_strings [OF v(9)]
    by (simp add: identity_value_def omit_empty_def ascii_valid)
  have pv: "wf_value (payload_value (mf_payload m))"
    using v(15,17,19) sha
    by (simp add: payload_value_def v(14) PayloadArchivePath_def ascii_valid int_literal)
  show ?thesis
    using ids idv pv categories_wf version_valid [OF v(6)] created_at_valid [OF v(8)]
    by (simp add: manifest_value_def v(1-5) v(10-13) FormatVersion_def RuntimeScope_def RuntimeKind_def
        InclusionPolicyID_def ExclusionPolicyID_def ManifestSchemaVersion_def ManifestPolicyVersion_def
        ascii_valid int_literal)
qed

lemma manifest_value_fits: "fits 0 (manifest_value m)"
  by (simp add: manifest_value_def identity_value_def payload_value_def strings_value_def omit_empty_def
      maxNestingDepth_def list_all_iff)

subsection \<open>Fields decode into the record they came from\<close>

lemma decode_strings_texts: "decode_strings (map VStr ss) old = Some ss"
  by (induction ss arbitrary: old) simp_all

lemma set_strings_value: "set_strings get upd (strings_value ss) x = Some (upd ss x)"
  by (simp add: set_strings_def strings_value_def decode_strings_texts)

lemma set_int_value: "0 \<le> n \<Longrightarrow> n < 2 ^ 63 \<Longrightarrow> set_int upd (VNum (int_text n)) x = Some (upd n x)"
  by (simp add: set_int_def int_reads_back)

lemma set_string_value [simp]: "set_string upd (VStr s) x = Some (upd s x)"
  by (simp add: set_string_def)

lemma set_bool_value [simp]: "set_bool upd (VBool b) x = Some (upd b x)"
  by (simp add: set_bool_def)

lemma identity_decodes:
  "decode_struct identity_fields
     ([(''state'', VStr (ii_state i))] @ omit_empty ''generationId'' (ii_generation i)
      @ omit_empty ''sourcePin'' (ii_source_pin i)) zero_identity = Some i"
  by (simp add: omit_empty_def find_field_def identity_fields_def zero_identity_def)

lemma payload_decodes:
  assumes "0 \<le> pl_size p" "pl_size p < 2 ^ 63" "0 \<le> pl_members p" "pl_members p < 2 ^ 63"
    "0 \<le> pl_expanded p" "pl_expanded p < 2 ^ 63" and "get x = zero_payload"
  shows "set_struct payload_fields get upd (payload_value p) x = Some (upd p x)"
proof -
  have p: "\<lparr>pl_path = pl_path p, pl_size = pl_size p, pl_sha = pl_sha p, pl_members = pl_members p,
    pl_expanded = pl_expanded p\<rparr> = p" by (cases p) simp
  show ?thesis
    using assms
    by (simp add: set_struct_def payload_value_def find_field_def payload_fields_def zero_payload_def
        set_int_value p)
qed

lemma identity_set:
  "get x = zero_identity \<Longrightarrow> set_struct identity_fields get upd (identity_value i) x = Some (upd i x)"
  using identity_decodes [of i] by (simp add: set_struct_def identity_value_def)

lemma manifest_decodes:
  assumes "manifest_Validate m = None"
  shows "decode_manifest (manifest_value m) = Some m"
proof -
  note v = manifest_ValidateD [OF assms]
  have size: "pl_size (mf_payload m) < 2 ^ 63" "pl_members (mf_payload m) < 2 ^ 63"
    "pl_expanded (mf_payload m) < 2 ^ 63"
    using v(16,18,20)
    by (simp_all add: hardMaxPayloadBytes_def hardMaxPayloadMembers_def hardMaxTotalExpandedBytes_def)
  have ver: "0 \<le> mf_schema_version m" "mf_schema_version m < 2 ^ 63" "0 \<le> mf_policy_version m"
    "mf_policy_version m < 2 ^ 63"
    by (simp_all add: v(2,3) ManifestSchemaVersion_def ManifestPolicyVersion_def)
  note payload = payload_decodes [of "mf_payload m" mf_payload _ "\<lambda>y. mf_payload_update (\<lambda>_. y)",
      OF less_imp_le [OF v(15)] size(1) less_imp_le [OF v(17)] size(2) v(19) size(3)]
  note identity = identity_set [of mf_installation _ "\<lambda>y. mf_installation_update (\<lambda>_. y)"]
  show ?thesis
    unfolding decode_manifest_def manifest_value_def
    by (simp add: find_field_def manifest_fields_def zero_manifest_def set_strings_value
        set_int_value ver [simplified] payload identity)
qed

subsection \<open>The size of a valid manifest\<close>

lemma length_escape_byte: "length (escape_byte c) \<le> 6"
  by (simp add: escape_byte_def)

lemma length_escape: "length (escape n s) \<le> 6 * length s"
proof (induction n s rule: escape.induct)
  case (3 n a s)
  show ?case
  proof (cases "is_ascii a")
    case True
    with 3 length_escape_byte [of a] show ?thesis by simp
  next
    case na: False
    show ?thesis
    proof (cases "take_rune (a # s)")
      case None
      with 3 na show ?thesis by simp
    next
      case (Some x)
      obtain r t where x: "x = (r, t)" by fastforce
      with Some have split: "a # s = r @ t" "r \<noteq> []" using take_rune_split [of "a # s" r t] by simp_all
      have "length (escape_rune r) \<le> 6 * length r"
        using split(2) by (cases r) (simp_all add: escape_rune_def)
      moreover have "length (escape n t) \<le> 6 * length t" using "3.IH" na Some x by simp
      moreover have "length (a # s) = length r + length t" by (simp only: split(1) length_append)
      ultimately show ?thesis using na Some x by simp
    qed
  qed
qed simp_all

fun text_bound :: "jval \<Rightarrow> nat" where
  "text_bound VNull = 4"
| "text_bound (VBool b) = 5"
| "text_bound (VNum l) = length l"
| "text_bound (VStr s) = 6 * length s + 2"
| "text_bound (VArr vs) = 2 + sum_list (map (\<lambda>v. text_bound v + 1) vs)"
| "text_bound (VObj kvs) = 2 + sum_list (map (\<lambda>(k, v). 6 * length k + 4 + text_bound v) kvs)"

lemma length_join: "length (join_on d ps) \<le> sum_list (map (\<lambda>p. length p + 1) ps)"
  by (induction d ps rule: join_on.induct) auto

lemma length_quote: "length (json_quote s) \<le> 6 * length s + 2"
  using length_escape [of "length s" s] by (simp add: json_quote_def)

lemma length_json_text: "length (json_text v) \<le> text_bound v"
proof (induction v)
  case (VStr s)
  then show ?case using length_quote by simp
next
  case (VArr vs)
  have "sum_list (map (\<lambda>p. length p + 1) (map json_text vs)) \<le> sum_list (map (\<lambda>v. text_bound v + 1) vs)"
    using VArr by (simp add: comp_def) (rule sum_list_mono, simp)
  with length_join [of "CHR '',''" "map json_text vs"] show ?case by simp
next
  case (VObj kvs)
  have "length (member_text kv) + 1 \<le> (case kv of (k, v) \<Rightarrow> 6 * length k + 4 + text_bound v)"
    if "kv \<in> set kvs" for kv
    using VObj [OF that] length_quote [of "fst kv"]
    by (cases kv) (simp add: member_text_def)
  then have "sum_list (map (\<lambda>kv. length (member_text kv) + 1) kvs)
      \<le> sum_list (map (\<lambda>(k, v). 6 * length k + 4 + text_bound v) kvs)"
    by (rule sum_list_mono)
  with length_join [of "CHR '',''" "map member_text kvs"] show ?case
    by (simp add: object_text comp_def del: json_text.simps)
qed simp_all

lemma length_decimal: "n < 10 ^ Suc k \<Longrightarrow> length (decimal n) \<le> Suc k"
proof (induction k arbitrary: n)
  case 0
  then show ?case by (simp add: decimal.simps [of n])
next
  case (Suc k)
  show ?case
  proof (cases "n < 10")
    case False
    from Suc.prems have "n div 10 < 10 ^ Suc k" by (simp add: less_mult_imp_div_less mult.commute)
    then show ?thesis using Suc.IH [of "n div 10"] False by (simp add: decimal.simps [of n])
  qed (simp add: decimal.simps [of n])
qed

lemma length_int_text: "0 \<le> n \<Longrightarrow> n < 10 ^ Suc k \<Longrightarrow> length (int_text n) \<le> Suc k"
  using length_decimal [of "nat n" k] by (simp add: int_text_nonneg nat_less_iff del: power_Suc)

lemma length_state: "identity_valid i \<Longrightarrow> length (ii_state i) \<le> 9"
  by (auto simp: identity_valid_def InstallationManaged_def InstallationUnmanaged_def
      InstallationUnknown_def split: if_splits)

lemma length_identity:
  assumes "identity_valid i"
  shows "length (ii_generation i) \<le> 26" "length (ii_source_pin i) \<le> 40"
  using assms
  by (auto simp: identity_valid_def validClosedID_def validSourcePin_def generationIDPrefix_def
      generationIDBodyLength_def split: if_splits)

lemma omit_empty_bound:
  "sum_list (map (\<lambda>(k, v). 6 * length k + 4 + text_bound v) (omit_empty k v)) \<le> 6 * length k + 6 + 6 * length v"
  by (simp add: omit_empty_def)

lemma identity_bound: "identity_valid i \<Longrightarrow> text_bound (identity_value i) \<le> 1000"
  using length_state [of i] length_identity [of i] omit_empty_bound [of "''generationId''" "ii_generation i"]
    omit_empty_bound [of "''sourcePin''" "ii_source_pin i"]
  by (simp add: identity_value_def)

lemma payload_bound:
  assumes "manifest_Validate m = None"
  shows "text_bound (payload_value (mf_payload m)) \<le> 2000"
proof -
  note v = manifest_ValidateD [OF assms]
  have "length (int_text (pl_size (mf_payload m))) \<le> Suc 11" "length (int_text (pl_members (mf_payload m))) \<le> Suc 11"
    "length (int_text (pl_expanded (mf_payload m))) \<le> Suc 11"
    using v(15-20) length_int_text [of "pl_size (mf_payload m)" 11]
      length_int_text [of "pl_members (mf_payload m)" 11] length_int_text [of "pl_expanded (mf_payload m)" 11]
    by (simp_all add: hardMaxPayloadBytes_def hardMaxPayloadMembers_def hardMaxTotalExpandedBytes_def)
  moreover have "length (pl_sha (mf_payload m)) = 64" using v(21) by (simp add: validCanonicalSHA256_def)
  ultimately show ?thesis by (simp add: payload_value_def v(14) PayloadArchivePath_def)
qed

lemma manifest_bound:
  assumes "manifest_Validate m = None"
  shows "text_bound (manifest_value m) \<le> 16000"
proof -
  note v = manifest_ValidateD [OF assms]
  have nums: "length (int_text (mf_schema_version m)) \<le> Suc 0" "length (int_text (mf_policy_version m)) \<le> Suc 0"
    by (rule length_int_text; simp add: v(2,3) ManifestSchemaVersion_def ManifestPolicyVersion_def)+
  have "length (mf_backup_id m) = 29"
    using v(7) by (simp add: validClosedID_def backupIDPrefix_def backupIDBodyLength_def)
  moreover have "length (mf_created_at m) = 20" using v(8) by (simp add: validCanonicalCreatedAt_def)
  moreover have "length (mf_runtime_version m) \<le> 64" using v(6) by (auto simp: validRuntimeVersion_def)
  moreover have "text_bound (strings_value (mf_included m)) \<le> 1000"
    "text_bound (strings_value (mf_excluded m)) \<le> 1100"
    by (simp_all add: v(12,13) strings_value_def completeRuntimeSnapshotCategories_def
        completeRuntimeSnapshotExcludedCategories_def)
  ultimately show ?thesis
    using nums payload_bound [OF assms] identity_bound [OF v(9)]
    by (simp add: manifest_value_def v(1,4,5,10,11) FormatVersion_def RuntimeScope_def RuntimeKind_def
        InclusionPolicyID_def ExclusionPolicyID_def)
qed

lemma canonical_fits: "manifest_Validate m = None \<Longrightarrow> length (json_text (manifest_value m)) \<le> MaxManifestBytes"
  using length_json_text [of "manifest_value m"] manifest_bound [of m] by (simp add: MaxManifestBytes_def)

lemma canonical_not_Nil: "json_text (manifest_value m) \<noteq> []"
  by (simp add: manifest_value_def)

subsection \<open>The properties\<close>

text \<open>
  The size cap of \<open>MarshalCanonical\<close> never refuses a valid manifest: a manifest is written exactly
  when it validates, and the bytes are then its JSON text.
\<close>

theorem valid_manifest_is_written:
  "MarshalCanonical m =
     (case manifest_Validate m of None \<Rightarrow> Inr (json_text (manifest_value m)) | Some e \<Rightarrow> Inl e)"
proof (cases "manifest_Validate m")
  case None
  then have "\<not> MaxManifestBytes < length (json_text (manifest_value m))" using canonical_fits [of m] by simp
  with None show ?thesis by (simp add: MarshalCanonical_def)
qed (simp add: MarshalCanonical_def)

lemma MarshalCanonical_Inr:
  "MarshalCanonical m = Inr t \<longleftrightarrow> manifest_Validate m = None \<and> t = json_text (manifest_value m)"
  using canonical_fits [of m] by (auto simp: MarshalCanonical_def Let_def split: option.splits)

lemma json_first_manifest:
  assumes "manifest_Validate m = None"
  shows "json_first (json_text (manifest_value m)) = Some (manifest_value m, [])"
proof -
  let ?t = "json_text (manifest_value m)"
  have "read_value (2 * length ?t + 1) 0 (?t @ []) = Some (manifest_value m, [])"
    using value_reads_back [OF manifest_value_wf [OF assms]] manifest_value_fits [of m] stops_delimiter(4)
    by (simp add: reads_back_def del: append_Nil2 read_value.simps)
  then show ?thesis by (simp add: json_first_def)
qed

definition sample_manifest :: manifest where
  "sample_manifest =
     \<lparr>mf_format = FormatVersion, mf_schema_version = ManifestSchemaVersion,
      mf_policy_version = ManifestPolicyVersion, mf_backup_id = ''backup_aaaaaaaaaaaaaaaaaaaaaa'',
      mf_created_at = ''2026-02-28T12:00:00Z'', mf_scope = RuntimeScope, mf_runtime_kind = RuntimeKind,
      mf_runtime_version = ''0.18.2'',
      mf_installation = \<lparr>ii_state = InstallationUnmanaged, ii_generation = [], ii_source_pin = []\<rparr>,
      mf_inclusion = InclusionPolicyID, mf_included = completeRuntimeSnapshotCategories,
      mf_exclusion = ExclusionPolicyID, mf_excluded = completeRuntimeSnapshotExcludedCategories,
      mf_payload = \<lparr>pl_path = PayloadArchivePath, pl_size = 30, pl_sha = replicate 64 CHR ''a'',
        pl_members = 2, pl_expanded = 3\<rparr>,
      mf_complete = True\<rparr>"

lemma sample_manifest_valid: "manifest_Validate sample_manifest = None"
proof -
  have id: "validClosedID ''backup_aaaaaaaaaaaaaaaaaaaaaa'' backupIDPrefix backupIDBodyLength"
    by (simp add: validClosedID_def HasPrefix_def backupIDPrefix_def backupIDBodyLength_def is_lower_def
        less_eq_char_def)
  have at: "validCanonicalCreatedAt ''2026-02-28T12:00:00Z''"
    by (simp add: validCanonicalCreatedAt_def is_digit_def less_eq_char_def digits_value_def
        digit_value_def days_in_month_def)
  have ver: "validRuntimeVersion ''0.18.2''"
    by (simp add: validRuntimeVersion_def valid_version_part_def is_digit_def less_eq_char_def
        digits_value_def digit_value_def)
  have "is_hex CHR ''a''" "ascii_lower CHR ''a'' = CHR ''a''" by code_simp+
  then have sha: "validCanonicalSHA256 (replicate 64 CHR ''a'')"
    by (simp add: validCanonicalSHA256_def list_all_iff map_replicate_const)
  have sorted: "sorted completeRuntimeSnapshotCategories" "sorted completeRuntimeSnapshotExcludedCategories"
    "categories_known knownCategories None completeRuntimeSnapshotCategories"
    "categories_known knownExcludedCategories None completeRuntimeSnapshotExcludedCategories"
    by code_simp+
  show ?thesis
    using id at ver sha sorted
    by (simp add: manifest_Validate_def sample_manifest_def identity_valid_def InstallationManaged_def
        InstallationUnmanaged_def knownCategories_def knownExcludedCategories_def hardMaxPayloadBytes_def
        hardMaxPayloadMembers_def hardMaxTotalExpandedBytes_def)
      (simp add: completeRuntimeSnapshotCategories_def completeRuntimeSnapshotExcludedCategories_def)
qed

lemma sample_manifest_length: "length (json_text (manifest_value sample_manifest)) = 883"
  by code_simp

lemma parse_marshal_iff:
  "ParseCanonicalManifest t = Inr m \<longleftrightarrow> MarshalCanonical m = Inr t"
proof
  assume "ParseCanonicalManifest t = Inr m"
  then show "MarshalCanonical m = Inr t"
    by (auto simp: ParseCanonicalManifest_def split: if_splits option.splits sum.splits)
next
  assume m: "MarshalCanonical m = Inr t"
  then have v: "manifest_Validate m = None" and t: "t = json_text (manifest_value m)"
    by (simp_all add: MarshalCanonical_Inr)
  have "\<not> (t = [] \<or> length t > MaxManifestBytes)"
    using canonical_fits [OF v] canonical_not_Nil by (simp add: t)
  moreover have "skip_space [] = []" by (simp add: skip_space_def)
  ultimately show "ParseCanonicalManifest t = Inr m"
    unfolding ParseCanonicalManifest_def
    using json_first_manifest [OF v] manifest_decodes [OF v] m by (simp add: t)
qed

text \<open>
  C28. The parser of manifests accepts exactly the bytes that the writer produces, and returns the
  manifest they were written from: no other byte string decodes, whatever white space, field
  order, repeated or unknown field it has.
\<close>

theorem manifest_roundtrip:
  "ParseCanonicalManifest t = Inr m \<longleftrightarrow> MarshalCanonical m = Inr t"
  by (rule parse_marshal_iff)

end
