(* ===== verification/Backup_Verify_Properties.thy ===== *)
theory Backup_Verify_Properties
  imports Backup_Verify Backup_Manifest_Properties
begin

text \<open>
  Structural verification: the 64-bit arithmetic is exact, a safe member name stays below the
  directory it is extracted to, and a verified artifact is what its manifest says.
\<close>

subsection \<open>Arithmetic on words\<close>

lemma unat_max64: "unat (- 1 :: 64 word) = 2 ^ 64 - 1"
  by (simp add: unsigned_minus_1_eq_mask mask_eq_exp_minus_1)

lemma unat_less64: "unat (w :: 64 word) < 2 ^ 64"
  using unsigned_less [of w, where ?'a = nat] by simp

lemma word_mult_exact:
  fixes c r :: "64 word"
  assumes "r \<noteq> 0" and "\<not> c > (- 1) div r"
  shows "unat (c * r) = unat c * unat r"
proof -
  have "unat c \<le> unat ((- 1 :: 64 word) div r)" using assms(2) by (simp only: not_less word_le_nat_alt)
  also have "\<dots> = (2 ^ 64 - 1) div unat r" by (simp only: unat_div_distrib unat_max64)
  finally have "unat c * unat r \<le> (2 ^ 64 - 1) div unat r * unat r" by (rule mult_le_mono1)
  also have "\<dots> \<le> 2 ^ 64 - 1" by simp
  finally have "unat c * unat r < 2 ^ 64" by simp
  then show ?thesis by (simp add: unat_word_ariths)
qed

lemma exceedsRatio_exact:
  assumes "r \<noteq> 0"
  shows "exceedsRatio e c r \<longleftrightarrow> unat e > unat c * unat r"
proof (cases "c > (- 1) div r")
  case True
  have "unat c > unat ((- 1 :: 64 word) div r)" using True by (simp add: word_less_nat_alt)
  then have "unat c > (2 ^ 64 - 1) div unat r" by (simp only: unat_div_distrib unat_max64)
  moreover have "0 < unat r" using assms by (simp add: unat_gt_0)
  ultimately have "2 ^ 64 - 1 < unat c * unat r"
    by (metis div_less_iff_less_mult)
  moreover have "unat e < 2 ^ 64" by (rule unat_less64)
  ultimately have "\<not> unat e > unat c * unat r" by simp
  moreover have "c \<noteq> 0" using True by auto
  ultimately show ?thesis using True by (simp add: exceedsRatio_def)
next
  case False
  have "exceedsRatio e c r \<longleftrightarrow> e \<noteq> 0 \<and> (c = 0 \<or> e > c * r)"
    using False by (auto simp: exceedsRatio_def)
  moreover have "e > c * r \<longleftrightarrow> unat e > unat c * unat r"
    by (simp add: word_less_nat_alt word_mult_exact [OF assms False])
  ultimately show ?thesis by (auto simp: unat_gt_0 word_less_nat_alt)
qed

lemma word_add_exact:
  fixes a b :: "64 word"
  assumes "\<not> b > (- 1) - a"
  shows "unat (a + b) = unat a + unat b"
proof -
  have a: "unat a < 2 ^ 64" by (rule unat_less64)
  have "a \<le> - 1" by simp
  then have "unat (- 1 - a) = 2 ^ 64 - 1 - unat a" by (simp only: unat_sub unat_max64)
  moreover have "unat b \<le> unat (- 1 - a)" using assms by (simp only: not_less word_le_nat_alt)
  ultimately have "unat a + unat b < 2 ^ 64" using a by simp
  then show ?thesis by (simp add: unat_word_ariths)
qed

lemma word_add_overflow:
  fixes a b :: "64 word"
  assumes "b > (- 1) - a"
  shows "2 ^ 64 \<le> unat a + unat b"
proof -
  have a: "unat a < 2 ^ 64" by (rule unat_less64)
  have "a \<le> - 1" by simp
  then have "unat (- 1 - a) = 2 ^ 64 - 1 - unat a" by (simp only: unat_sub unat_max64)
  with assms a show ?thesis by (simp add: word_less_nat_alt)
qed

lemma archive_bounds_iff:
  assumes "r \<noteq> 0"
  shows "addArchiveBounds m (e, c) maxTotal maxMember r = Inr (e', c') \<longleftrightarrow>
    unat (zm_usize m) \<le> unat maxMember \<and> unat e + unat (zm_usize m) \<le> unat maxTotal
    \<and> unat c + unat (zm_csize m) < 2 ^ 64
    \<and> unat (zm_usize m) \<le> unat (zm_csize m) * unat r
    \<and> unat e' = unat e + unat (zm_usize m) \<and> unat c' = unat c + unat (zm_csize m)"
proof (cases "zm_usize m > (- 1) - e \<or> zm_csize m > (- 1) - c")
  case True
  have "unat maxTotal < 2 ^ 64" by (rule unat_less64)
  with True word_add_overflow [of e "zm_usize m"] word_add_overflow [of c "zm_csize m"]
  show ?thesis by (auto simp: addArchiveBounds_def Let_def)
next
  case False
  have sums: "unat (e + zm_usize m) = unat e + unat (zm_usize m)"
    "unat (c + zm_csize m) = unat c + unat (zm_csize m)"
    using False word_add_exact by blast+
  have "unat (c + zm_csize m) < 2 ^ 64" by (rule unat_less64)
  moreover have "e' = e + zm_usize m \<longleftrightarrow> unat e' = unat e + unat (zm_usize m)"
    "c' = c + zm_csize m \<longleftrightarrow> unat c' = unat c + unat (zm_csize m)"
    by (simp_all only: sums(1) [symmetric] sums(2) [symmetric] word_unat_eq_iff)
  ultimately show ?thesis
    using False
    by (auto simp: addArchiveBounds_def Let_def exceedsRatio_exact [OF assms] word_less_nat_alt
        sums not_less)
qed


lemma archive_bounds_step:
  assumes "r \<noteq> 0" and "addArchiveBounds m (e, c) maxTotal maxMember r = Inr (e', c')"
  shows "unat e' = unat e + unat (zm_usize m)" "unat e' \<le> unat maxTotal"
  using assms by (simp_all add: archive_bounds_iff)

text \<open>
  The running totals of an archive never wrap: a member is accepted exactly when its size is
  within the member limit, the true sum of sizes is within the total limit, the true sum of
  compressed sizes fits 64 bits and its true compression ratio is within the limit; and the new
  totals are the true sums.
\<close>

theorem archive_bounds_exact:
  assumes "r \<noteq> 0"
  shows "addArchiveBounds m (e, c) maxTotal maxMember r = Inr (e', c') \<longleftrightarrow>
    unat (zm_usize m) \<le> unat maxMember \<and> unat e + unat (zm_usize m) \<le> unat maxTotal
    \<and> unat c + unat (zm_csize m) < 2 ^ 64
    \<and> unat (zm_usize m) \<le> unat (zm_csize m) * unat r
    \<and> unat e' = unat e + unat (zm_usize m) \<and> unat c' = unat c + unat (zm_csize m)"
  by (rule archive_bounds_iff [OF assms])

definition sample_member :: "string \<Rightarrow> string \<Rightarrow> zip_member" where
  "sample_member name content =
     \<lparr>zm_name = name, zm_creator = 0x0300, zm_attrs = (if HasSuffix name ''/'' then 0x41C00000 else 0x81800000),
      zm_method = zip_Store, zm_csize = of_nat (length content), zm_usize = of_nat (length content),
      zm_read = (\<lambda>n. Some (take (nat n) content)), zm_offset = Some 100\<rparr>"

lemma archive_bounds_exact_witness:
  "addArchiveBounds (sample_member ''a'' ''xyz'') (5, 5) 10 10 200 = Inr (8, 8)"
  using archive_bounds_exact [of 200 "sample_member ''a'' ''xyz''" 5 5 10 10 8 8]
  by (simp add: sample_member_def)

subsection \<open>Member names\<close>

lemma split_on_append: "split_on d (s @ d # t) = split_on d s @ split_on d t"
proof (induction s)
  case (Cons c s)
  then show ?case by (cases "split_on d s") auto
qed simp

lemma clean_parts_append:
  "clean_parts rooted acc (xs @ ys) = clean_parts rooted (rev (clean_parts rooted acc xs)) ys"
  by (induction rooted acc xs rule: clean_parts.induct) (auto split: list.splits)

definition plain_part :: "string \<Rightarrow> bool" where
  "plain_part p \<longleftrightarrow> p \<noteq> [] \<and> p \<noteq> ''.'' \<and> p \<noteq> ''..''"

lemma clean_plain: "list_all plain_part ps \<Longrightarrow> clean_parts rooted acc ps = rev acc @ ps"
  by (induction ps arbitrary: acc) (auto simp: plain_part_def)

lemma safe_component_plain: "safe_component p \<Longrightarrow> plain_part p"
  by (auto simp: safe_component_def plain_part_def)

lemma safe_parts:
  "safeMemberName n \<Longrightarrow> list_all safe_component (split_on CHR ''/'' (TrimSuffix n ''/''))"
  by (auto simp: safeMemberName_def Let_def split: if_splits)

lemma join_on_append:
  "xs \<noteq> [] \<Longrightarrow> ys \<noteq> [] \<Longrightarrow> join_on d (xs @ ys) = join_on d xs @ d # join_on d ys"
proof (induction xs)
  case (Cons x xs)
  then show ?case by (cases xs; cases ys) auto
qed simp

lemma trim_cases: "n = TrimSuffix n ''/'' \<or> n = TrimSuffix n ''/'' @ ''/''"
  by (auto simp: TrimSuffix_def HasSuffix_iff)

text \<open>
  A member whose name passes the check lands below the directory it is joined to: cleaning the
  joined path neither leaves the directory nor changes a component.
\<close>

theorem safe_name_stays_below:
  assumes "safeMemberName n" and root: "HasPrefix r ''/''" "path_clean r = r" "r \<noteq> ''/''"
  shows "path_clean (r @ ''/'' @ n) = r @ ''/'' @ TrimSuffix n ''/''"
proof -
  let ?t = "TrimSuffix n ''/''"
  let ?cs = "split_on CHR ''/'' ?t"
  have plain: "list_all plain_part ?cs"
    using safe_parts [OF assms(1)] safe_component_plain by (auto simp: list_all_iff)
  define rs where "rs = clean_parts True [] (split_on CHR ''/'' r)"
  have r: "r = CHR ''/'' # join_on CHR ''/'' rs"
    using root(1,2) by (simp add: path_clean_def Let_def rs_def)
  with root(3) have "rs \<noteq> []" by auto
  have split: "clean_parts True [] (split_on CHR ''/'' (r @ CHR ''/'' # n)) = rs @ ?cs"
  proof -
    have n: "split_on CHR ''/'' n = ?cs \<or> split_on CHR ''/'' n = ?cs @ [[]]"
      using trim_cases [of n] split_on_append [of "CHR ''/''" ?t "[]"] by auto
    have "clean_parts True (rev rs) (split_on CHR ''/'' n) = clean_parts True (rev rs) ?cs"
      using n by (auto simp: clean_parts_append)
    then show ?thesis
      using clean_plain [OF plain, of True "rev rs"]
      by (simp add: split_on_append clean_parts_append rs_def)
  qed
  have "join_on CHR ''/'' (rs @ ?cs) = join_on CHR ''/'' rs @ CHR ''/'' # ?t"
    using join_on_append [OF \<open>rs \<noteq> []\<close>, of ?cs] by simp
  moreover have "HasPrefix (r @ ''/'' @ n) ''/''" using r by (simp add: HasPrefix_def)
  ultimately have "path_clean (r @ ''/'' @ n) = CHR ''/'' # join_on CHR ''/'' rs @ CHR ''/'' # ?t"
    using split by (simp add: path_clean_def Let_def)
  then show ?thesis using r by simp
qed

lemma safe_name_stays_below_witness:
  "path_clean (''/var/restore'' @ ''/'' @ ''hermes-runtime/skills/'') = ''/var/restore/hermes-runtime/skills''"
proof -
  have "safeMemberName ''hermes-runtime/skills/''" "HasPrefix ''/var/restore'' ''/''"
    "path_clean ''/var/restore'' = ''/var/restore''" by code_simp+
  from safe_name_stays_below [OF this] show ?thesis by (simp add: TrimSuffix_def HasSuffix_def)
qed

subsection \<open>Accepted members\<close>

definition member_key :: "zip_member \<Rightarrow> string" where
  "member_key m = TrimSuffix (zm_name m) ''/''"

definition seen_ok :: "(string \<Rightarrow> string) \<Rightarrow> seen_names \<Rightarrow> bool" where
  "seen_ok to_lower s \<longleftrightarrow> snd ` set (sn_folded s) \<subseteq> set (sn_exact s)"

lemma validateMember_Inr:
  assumes "validateMember to_lower m s = Inr s'" and "seen_ok to_lower s"
  shows "safeMemberName (zm_name m)" "to_lower (member_key m) \<notin> fst ` set (sn_folded s)"
    "sn_folded s' = (to_lower (member_key m), member_key m) # sn_folded s" "seen_ok to_lower s'"
    "\<not> unsafe_mode m" "member_is_dir m \<longleftrightarrow> HasSuffix (zm_name m) ''/''"
    "member_is_dir m \<Longrightarrow> zm_usize m = 0"
proof -
  let ?f = "to_lower (member_key m)"
  from assms(1) have ok: "safeMemberName (zm_name m)" "member_key m \<notin> set (sn_exact s)"
    "\<not> (case map_of (sn_folded s) ?f of Some p \<Rightarrow> p \<noteq> member_key m | None \<Rightarrow> False)"
    "\<not> unsafe_mode m" "member_is_dir m \<longleftrightarrow> HasSuffix (zm_name m) ''/''"
    "\<not> (member_is_dir m \<and> (zm_csize m \<noteq> 0 \<or> zm_usize m \<noteq> 0))"
    "s' = \<lparr>sn_exact = member_key m # sn_exact s, sn_folded = (?f, member_key m) # sn_folded s\<rparr>"
    unfolding validateMember_def Let_def member_key_def by (simp_all split: if_splits)
  have "map_of (sn_folded s) ?f = None"
  proof (cases "map_of (sn_folded s) ?f")
    case (Some p)
    then have "p = member_key m" using ok(3) by simp
    moreover have "p \<in> snd ` set (sn_folded s)" using Some by (force dest: map_of_SomeD)
    ultimately show ?thesis using assms(2) ok(2) by (auto simp: seen_ok_def)
  qed simp
  then show "?f \<notin> fst ` set (sn_folded s)" by (simp add: map_of_eq_None_iff)
  show "safeMemberName (zm_name m)" "\<not> unsafe_mode m" "member_is_dir m \<longleftrightarrow> HasSuffix (zm_name m) ''/''"
    "member_is_dir m \<Longrightarrow> zm_usize m = 0" "sn_folded s' = (?f, member_key m) # sn_folded s"
    using ok by simp_all
  show "seen_ok to_lower s'" using assms(2) ok(7) by (auto simp: seen_ok_def)
qed

definition expanded_bytes :: "zip_member list \<Rightarrow> nat" where
  "expanded_bytes ms = sum_list (map (\<lambda>m. unat (zm_usize m)) ms)"

text \<open>What the loop over the payload checks of every member.\<close>

definition member_checked :: "limits \<Rightarrow> zip_member \<Rightarrow> bool" where
  "member_checked l m \<longleftrightarrow>
     safeMemberName (zm_name m) \<and> HasPrefix (zm_name m) payload_root \<and> \<not> unsafe_mode m
     \<and> (\<not> member_is_dir m \<longrightarrow>
          (\<exists>b. zm_read m (lm_member l + 1) = Some b \<and> length b = unat (zm_usize m)
               \<and> int (length b) \<le> lm_member l))"

lemma word_limit: "0 < x \<Longrightarrow> x \<le> 4 * 2 ^ 30 \<Longrightarrow> uint (word_of_int x :: 64 word) = x"
  by (simp add: uint_word_of_int_eq take_bit_int_eq_self)

lemma sint_nonneg:
  fixes w :: "64 word"
  assumes "0 \<le> sint w"
  shows "sint w = uint w"
proof -
  have "sint w < 2 ^ 63" using sint_lt [of w] by simp
  with assms have "take_bit 64 (sint w) = sint w" by (intro take_bit_int_eq_self) simp_all
  moreover have "uint w = take_bit 64 (sint w)"
    using uint_word_of_int_eq [where ?'a = 64, of "sint w"] by (simp del: take_bit_int_eq_self_iff)
  ultimately show ?thesis by simp
qed

lemma sint_small:
  fixes w :: "64 word"
  assumes "uint w \<le> 4 * 2 ^ 30"
  shows "sint w = uint w"
proof -
  have "- (2 ^ 63) \<le> (0 :: int)" by simp
  also have "0 \<le> uint w" by simp
  finally have lo: "- (2 ^ 63) \<le> uint w" .
  have "sint w = signed_take_bit 63 (uint w)" by (simp add: sint_uint)
  also have "\<dots> = uint w" using assms lo by (simp add: signed_take_bit_int_eq_self_iff)
  finally show ?thesis .
qed

lemma consumeMember_None:
  assumes "consumeMember m n = None"
  shows "\<exists>b. zm_read m (n + 1) = Some b \<and> length b = unat (zm_usize m) \<and> int (length b) \<le> n"
proof -
  from assms obtain b where b: "zm_read m (n + 1) = Some b" "int (length b) = sint (zm_usize m)"
    "int (length b) \<le> n"
    by (cases "zm_read m (n + 1)") (simp_all add: consumeMember_def split: if_splits)
  then have "int (length b) = uint (zm_usize m)" using sint_nonneg [of "zm_usize m"] by simp
  then have "length b = unat (zm_usize m)" by (metis nat_int unat_eq_nat_uint)
  with b show ?thesis by blast
qed

lemma payload_root_dir: "zm_name m = payload_root \<Longrightarrow> HasPrefix (zm_name m) payload_root"
  by (simp add: HasPrefix_def)

lemma payload_members_Inr:
  assumes "payload_members to_lower l ms s (e, c) k = Inr ((e', c'), k')" and "seen_ok to_lower s"
    and "lm_ratio l \<noteq> 0"
  shows "list_all (member_checked l) ms \<and> unat e' = unat e + expanded_bytes ms
    \<and> distinct (map (to_lower \<circ> member_key) ms)
    \<and> (to_lower \<circ> member_key) ` set ms \<inter> fst ` set (sn_folded s) = {}
    \<and> (unat e \<le> unat (word_of_int (lm_total l) :: 64 word)
         \<longrightarrow> unat e' \<le> unat (word_of_int (lm_total l) :: 64 word))"
  using assms
proof (induction ms arbitrary: s e c k)
  case Nil
  then show ?case by (simp add: expanded_bytes_def)
next
  case (Cons m ms)
  from Cons.prems(1) obtain s' where v: "validateMember to_lower m s = Inr s'"
    by (auto split: sum.splits)
  note m = validateMember_Inr [OF v Cons.prems(2)]
  have pre: "HasPrefix (zm_name m) payload_root"
    using Cons.prems(1) v payload_root_dir [of m] by (auto split: if_splits)
  show ?case
  proof (cases "zm_name m = payload_root")
    case True
    then have dir: "member_is_dir m" and
      rest: "payload_members to_lower l ms s' (e, c) k = Inr ((e', c'), k')"
      using Cons.prems(1) v by (auto split: if_splits)
    have "zm_usize m = 0" by (rule m(7) [OF dir])
    moreover have "member_checked l m" using m dir pre by (simp add: member_checked_def)
    ultimately show ?thesis
      using Cons.IH [OF rest m(4) Cons.prems(3)] m(2,3) by (auto simp: expanded_bytes_def)
  next
    case False
    then obtain e1 c1 where b: "addArchiveBounds m (e, c) (word_of_int (lm_total l))
        (word_of_int (lm_member l)) (lm_ratio l) = Inr (e1, c1)"
      using Cons.prems(1) v pre by (auto split: sum.splits)
    note sum = archive_bounds_step [OF Cons.prems(3) b]
    obtain k1 where rest: "payload_members to_lower l ms s' (e1, c1) k1 = Inr ((e', c'), k')"
      and read: "\<not> member_is_dir m \<Longrightarrow> consumeMember m (lm_member l) = None"
      using Cons.prems(1) v pre False b by (auto split: if_splits option.splits)
    have "member_checked l m"
      using m(1,5) pre read consumeMember_None [of m "lm_member l"] by (auto simp: member_checked_def)
    then show ?thesis
      using Cons.IH [OF rest m(4) Cons.prems(3)] m(2,3) sum by (auto simp: expanded_bytes_def)
  qed
qed

subsection \<open>A verified artifact\<close>

lemma seen_ok_none: "seen_ok to_lower no_names"
  by (simp add: seen_ok_def no_names_def)

lemma limits_validD:
  assumes "limits_valid l"
  shows "lm_ratio l \<noteq> 0" "int (unat (word_of_int (lm_total l) :: 64 word)) = lm_total l"
    "lm_total l \<le> 4 * 2 ^ 30"
  using assms word_limit [of "lm_total l"]
  by (auto simp: limits_valid_def hardMaxTotalExpandedBytes_def)

lemma verifyPayloadArchive_Inr:
  assumes "verifyPayloadArchive zopen to_lower r n l = Inr st" and "limits_valid l"
  shows "\<exists>ms. zopen r n = Some ms \<and> as_members st = int (length ms)
    \<and> as_expanded st = int (expanded_bytes ms) \<and> as_expanded st \<le> lm_total l
    \<and> int (length ms) \<le> lm_members l
    \<and> list_all (member_checked l) ms \<and> distinct (map (to_lower \<circ> member_key) ms)"
proof -
  from assms(1) obtain ms e c k where z: "zopen r n = Some ms" "int (length ms) \<le> lm_members l"
    and p: "payload_members to_lower l ms no_names (0, 0) 0 = Inr ((e, c), k)"
    and st: "st = \<lparr>as_members = int (length ms), as_expanded = sint e\<rparr>"
    by (auto simp: verifyPayloadArchive_def split: if_splits option.splits sum.splits)
  note lim = limits_validD [OF assms(2)]
  note inv = payload_members_Inr [OF p seen_ok_none lim(1)]
  have e: "unat e = expanded_bytes ms" "unat e \<le> unat (word_of_int (lm_total l) :: 64 word)"
    using inv by simp_all
  then have le: "int (unat e) \<le> lm_total l" using lim(2) by linarith
  then have "uint e \<le> 4 * 2 ^ 30" using lim(3) by simp
  then have "sint e = int (expanded_bytes ms)" using sint_small e(1) by (metis uint_nat)
  then show ?thesis using z st inv le e(1) by auto
qed

lemma VerifyArtifact_ok:
  assumes "VerifyArtifact zopen to_lower sha (Some r) n l = (res, None)"
  obtains t m f where "limits_valid l" "n \<le> lm_container l" "ParseCanonicalManifest t = Inr m"
    "verify_payload zopen to_lower sha r n l m f = None"
    "res = unverifiedResult\<lparr>vr_state := ArtifactStructureVerified,
       vr_metadata := artifact_metadata_of n m\<rparr>"
  using assms
  by (auto simp: VerifyArtifact_def fail_def split: if_splits option.splits sum.splits)

lemma verify_payload_None:
  assumes "verify_payload zopen to_lower sha r n l m f = None"
  obtains off bytes st where "0 \<le> off" "pl_size (mf_payload m) \<le> n - off"
    "r off (pl_size (mf_payload m)) = Some bytes" "sha bytes = pl_sha (mf_payload m)"
    "verifyPayloadArchive zopen to_lower (section_reader r off (pl_size (mf_payload m)))
       (pl_size (mf_payload m)) l = Inr st"
    "as_members st = pl_members (mf_payload m)" "as_expanded st = pl_expanded (mf_payload m)"
  using assms
  by (auto simp: verify_payload_def not_less split: if_splits option.splits sum.splits)

text \<open>
  C27. When an artifact verifies, the metadata reported are those of a canonical manifest; the payload
  bytes at their place in the container have the manifest's checksum; and the payload archive has
  as many members and expanded bytes as the manifest says, within the limits, every member under
  the payload root with a safe name, no link or device, with real contents of the declared
  length, and no two names alike up to case. The result grants neither encryption nor restore
  authority.
\<close>

theorem verified_artifact_matches_manifest:
  assumes "VerifyArtifact zopen to_lower sha (Some r) n l = (res, None)"
  shows "\<exists>t m off bytes ms. ParseCanonicalManifest t = Inr m
    \<and> vr_metadata res = artifact_metadata_of n m
    \<and> 0 \<le> off \<and> off + pl_size (mf_payload m) \<le> n
    \<and> r off (pl_size (mf_payload m)) = Some bytes \<and> sha bytes = pl_sha (mf_payload m)
    \<and> zopen (section_reader r off (pl_size (mf_payload m))) (pl_size (mf_payload m)) = Some ms
    \<and> int (length ms) = pl_members (mf_payload m)
    \<and> int (expanded_bytes ms) = pl_expanded (mf_payload m)
    \<and> int (expanded_bytes ms) \<le> lm_total l \<and> int (length ms) \<le> lm_members l
    \<and> list_all (member_checked l) ms \<and> distinct (map (to_lower \<circ> member_key) ms)
    \<and> \<not> vr_encryption res \<and> \<not> vr_restore res"
proof -
  obtain t m f where v: "limits_valid l" "ParseCanonicalManifest t = Inr m"
    "verify_payload zopen to_lower sha r n l m f = None"
    "res = unverifiedResult\<lparr>vr_state := ArtifactStructureVerified,
       vr_metadata := artifact_metadata_of n m\<rparr>"
    using VerifyArtifact_ok [OF assms] by metis
  obtain off bytes st where p: "0 \<le> off" "pl_size (mf_payload m) \<le> n - off"
    "r off (pl_size (mf_payload m)) = Some bytes" "sha bytes = pl_sha (mf_payload m)"
    "verifyPayloadArchive zopen to_lower (section_reader r off (pl_size (mf_payload m)))
       (pl_size (mf_payload m)) l = Inr st"
    "as_members st = pl_members (mf_payload m)" "as_expanded st = pl_expanded (mf_payload m)"
    using verify_payload_None [OF v(3)] by metis
  obtain ms where a: "zopen (section_reader r off (pl_size (mf_payload m))) (pl_size (mf_payload m)) = Some ms"
    "as_members st = int (length ms)" "as_expanded st = int (expanded_bytes ms)"
    "as_expanded st \<le> lm_total l" "int (length ms) \<le> lm_members l"
    "list_all (member_checked l) ms" "distinct (map (to_lower \<circ> member_key) ms)"
    using verifyPayloadArchive_Inr [OF p(5) v(1)] by blast
  have auth: "\<not> vr_encryption res" "\<not> vr_restore res"
    by (simp_all add: v(4) unverifiedResult_def EncryptionQualified_def RestoreMutationQualified_def)
  have meta: "vr_metadata res = artifact_metadata_of n m" by (simp add: v(4))
  have place: "off + pl_size (mf_payload m) \<le> n" using p(2) by simp
  have counts: "int (length ms) = pl_members (mf_payload m)" "int (expanded_bytes ms) = pl_expanded (mf_payload m)"
    "int (expanded_bytes ms) \<le> lm_total l"
    using a(2-4) p(6,7) by simp_all
  show ?thesis
    using v(2) meta p(1,3,4) place a(1,5-7) counts auth by blast
qed

text \<open>A small artifact that verifies.\<close>

definition eocd_bytes :: string where
  "eocd_bytes = [CHR ''P'', CHR ''K'', CHR 0x05, CHR 0x06] @ replicate 18 CHR 0x00"

definition sample_reader :: reader where
  "sample_reader off n = Some (replicate (nat n - 22) CHR 0x00 @ eocd_bytes)"

definition sample_payload :: "zip_member list" where
  "sample_payload = [sample_member ''hermes-runtime/'' [], sample_member ''hermes-runtime/a'' ''xyz'']"

definition sample_container :: "zip_member list" where
  "sample_container =
     [sample_member ''manifest.json'' (json_text (manifest_value sample_manifest)),
      sample_member ''payload/'' [], sample_member PayloadArchivePath (replicate 30 CHR 0x00)]"

definition sample_open :: zip_open where
  "sample_open r n = Some (if n = 30 then sample_payload else sample_container)"

lemma sample_mode:
  "member_mode (sample_member n c) = (if HasSuffix n ''/'' then 0x800001C0 else 0x180)"
  by (simp add: member_mode_def sample_member_def unix_mode_def ModeDir_def ModeDevice_def
      ModeCharDevice_def ModeNamedPipe_def ModeSymlink_def ModeSocket_def Let_def)

lemma sample_validate:
  assumes "safeMemberName n" "TrimSuffix n ''/'' \<notin> set (sn_exact s)"
    "map_of (sn_folded s) (TrimSuffix n ''/'') = None" "HasSuffix n ''/'' \<Longrightarrow> c = []"
  shows "validateMember id (sample_member n c) s
    = Inr \<lparr>sn_exact = TrimSuffix n ''/'' # sn_exact s,
           sn_folded = (TrimSuffix n ''/'', TrimSuffix n ''/'') # sn_folded s\<rparr>"
proof -
  have nm: "zm_name (sample_member n c) = n" by (simp add: sample_member_def)
  have dir: "member_is_dir (sample_member n c) \<longleftrightarrow> HasSuffix n ''/''"
    by (simp add: member_is_dir_def sample_mode ModeDir_def)
  have attrs: "zm_attrs (sample_member n c) AND 0x400 = 0" by (simp add: sample_member_def)
  have safe: "\<not> unsafe_mode (sample_member n c)"
    by (simp add: unsafe_mode_def sample_mode attrs dosReparsePointAttribute_def
        ModeSymlink_def ModeSocket_def ModeNamedPipe_def ModeDevice_def ModeCharDevice_def
        ModeIrregular_def)
  have reg: "\<not> HasSuffix n ''/'' \<Longrightarrow> mode_is_regular (member_mode (sample_member n c))"
    by (simp add: mode_is_regular_def sample_mode ModeType_def ModeDir_def ModeSymlink_def
        ModeSocket_def ModeNamedPipe_def ModeDevice_def ModeCharDevice_def ModeIrregular_def)
  have rest: "zm_method (sample_member n c) = zip_Store"
    "zm_csize (sample_member n c) = of_nat (length c)" "zm_usize (sample_member n c) = of_nat (length c)"
    by (simp_all add: sample_member_def)
  show ?thesis
    using assms dir safe reg
    by (auto simp: validateMember_def Let_def nm rest)
qed


lemma sample_bounds:
  assumes "length c < 2 ^ 63" "a + length c < 2 ^ 64" "a + length c \<le> unat T" "length c \<le> unat M"
  shows "addArchiveBounds (sample_member n c) (of_nat a, of_nat a) T M 200
    = Inr (of_nat (a + length c), of_nat (a + length c))"
proof -
  have u: "unat (of_nat k :: 64 word) = k" if "k < 2 ^ 64" for k
    using that by (simp add: unat_of_nat)
  show ?thesis
    using assms u [of a] u [of "length c"] u [of "a + length c"]
    by (subst archive_bounds_iff) (simp_all add: sample_member_def)
qed

lemma sample_names:
  "safeMemberName ''manifest.json''" "safeMemberName ''payload/''" "safeMemberName PayloadArchivePath"
  "safeMemberName ''hermes-runtime/''" "safeMemberName ''hermes-runtime/a''"
  by code_simp+

lemma sample_dirs:
  "member_is_dir (sample_member n c) \<longleftrightarrow> HasSuffix n ''/''"
  "zm_name (sample_member n c) = n" "zm_method (sample_member n c) = zip_Store"
  "zm_usize (sample_member n c) = of_nat (length c)" "zm_csize (sample_member n c) = of_nat (length c)"
  "zm_offset (sample_member n c) = Some 100" "zm_read (sample_member n c) k = Some (take (nat k) c)"
  by (simp add: member_is_dir_def sample_mode ModeDir_def) (simp_all add: sample_member_def)

lemma sint_of_length: "k < 2 ^ 63 \<Longrightarrow> sint (of_nat k :: 64 word) = int k"
  by (simp add: sint_uint signed_take_bit_int_eq_self uint_nat unat_of_nat)

lemma sample_scan:
  "\<exists>s. container_members id DefaultLimits sample_container empty_scan = Inr s
    \<and> cs_manifest s = Some (sample_member ''manifest.json'' (json_text (manifest_value sample_manifest)))
    \<and> cs_payload s = Some (sample_member PayloadArchivePath (replicate 30 CHR 0x00))"
proof -
  let ?t = "json_text (manifest_value sample_manifest)"
  let ?T = "of_nat MaxManifestBytes + word_of_int (lm_payload DefaultLimits) :: 64 word"
  let ?M = "word_of_int (lm_payload DefaultLimits) :: 64 word"
  have lim: "unat ?T = 2147549184" "unat ?M = 2147483648" "lm_ratio DefaultLimits = 200"
    by (simp_all add: DefaultLimits_def MaxManifestBytes_def hardMaxPayloadBytes_def hardMaxCompressionRatio_def)
  have b1: "addArchiveBounds (sample_member n ?t) (0, 0) ?T ?M 200 = Inr (883, 883)" for n
    using sample_bounds [of ?t 0 ?T ?M n] by (simp add: lim sample_manifest_length)
  have b2: "addArchiveBounds (sample_member n []) (883, 883) ?T ?M 200 = Inr (883, 883)" for n
    using sample_bounds [of "[]" 883 ?T ?M n] by (simp add: lim)
  have b3: "addArchiveBounds (sample_member n (replicate 30 CHR 0x00)) (883, 883) ?T ?M 200 = Inr (913, 913)" for n
    using sample_bounds [of "replicate 30 CHR 0x00" 883 ?T ?M n] by (simp add: lim)
  let ?k1 = "(''manifest.json'', ''manifest.json'')" and ?k2 = "(''payload'', ''payload'')"
  have v1: "validateMember id (sample_member ''manifest.json'' c) \<lparr>sn_exact = [], sn_folded = []\<rparr>
      = Inr \<lparr>sn_exact = [''manifest.json''], sn_folded = [?k1]\<rparr>" for c
    using sample_validate [of "''manifest.json''" "\<lparr>sn_exact = [], sn_folded = []\<rparr>" c] sample_names
    by (simp add: TrimSuffix_def HasSuffix_def)
  have v2: "validateMember id (sample_member ''payload/'' []) \<lparr>sn_exact = [''manifest.json''], sn_folded = [?k1]\<rparr>
      = Inr \<lparr>sn_exact = [''payload'', ''manifest.json''], sn_folded = [?k2, ?k1]\<rparr>"
    using sample_validate [of "''payload/''" "\<lparr>sn_exact = [''manifest.json''], sn_folded = [?k1]\<rparr>" "[]"]
      sample_names
    by (simp add: TrimSuffix_def HasSuffix_def)
  have v3: "\<exists>seen. validateMember id (sample_member PayloadArchivePath c)
      \<lparr>sn_exact = [''payload'', ''manifest.json''], sn_folded = [?k2, ?k1]\<rparr> = Inr seen" for c
    using sample_validate [of PayloadArchivePath
        "\<lparr>sn_exact = [''payload'', ''manifest.json''], sn_folded = [?k2, ?k1]\<rparr>" c] sample_names
    by (simp add: TrimSuffix_def HasSuffix_def PayloadArchivePath_def)
  have names: "PayloadArchivePath \<noteq> ''manifest.json''" "PayloadArchivePath \<noteq> ''payload/''"
    "\<not> HasSuffix PayloadArchivePath ''/''" "\<not> HasSuffix ''manifest.json'' ''/''" "HasSuffix ''payload/'' ''/''"
    by (simp_all add: PayloadArchivePath_def HasSuffix_def)
  obtain seen where "validateMember id (sample_member PayloadArchivePath (replicate 30 CHR 0x00))
      \<lparr>sn_exact = [''payload'', ''manifest.json''], sn_folded = [?k2, ?k1]\<rparr> = Inr seen"
    using v3 by blast
  then show ?thesis
    unfolding sample_container_def
    by (simp add: v1 v2 b1 b2 b3 lim(3) names empty_scan_def no_names_def container_slot_def sample_dirs)
qed

lemma sample_eocd: "hasTerminalEOCD sample_reader n \<longleftrightarrow> 22 \<le> n"
  by (simp add: hasTerminalEOCD_def sample_reader_def eocd_bytes_def numeral_2_eq_2)

lemma sample_section_eocd: "hasTerminalEOCD (section_reader sample_reader 100 30) 30"
  by (simp add: hasTerminalEOCD_def section_reader_def sample_reader_def eocd_bytes_def numeral_2_eq_2)

lemma sample_payload_archive:
  "verifyPayloadArchive sample_open id (section_reader sample_reader 100 30) 30 DefaultLimits
     = Inr \<lparr>as_members = 2, as_expanded = 3\<rparr>"
proof -
  let ?T = "word_of_int (lm_total DefaultLimits) :: 64 word"
  let ?M = "word_of_int (lm_member DefaultLimits) :: 64 word"
  have lim: "unat ?T = 4294967296" "unat ?M = 536870912" "lm_ratio DefaultLimits = 200"
    "lm_member DefaultLimits = 536870912" "lm_members DefaultLimits = 20000"
    by (simp_all add: DefaultLimits_def hardMaxTotalExpandedBytes_def hardMaxMemberExpandedBytes_def
        hardMaxCompressionRatio_def hardMaxPayloadMembers_def)
  have b: "addArchiveBounds (sample_member n ''xyz'') (0, 0) ?T ?M 200 = Inr (3, 3)" for n
    using sample_bounds [of "''xyz''" 0 ?T ?M n] by (simp add: lim)
  have read: "consumeMember (sample_member n ''xyz'') (lm_member DefaultLimits) = None" for n
    using sint_of_length [of 3] by (simp add: consumeMember_def sample_dirs lim)
  let ?k = "(''hermes-runtime'', ''hermes-runtime'')"
  have v1: "validateMember id (sample_member ''hermes-runtime/'' []) no_names
      = Inr \<lparr>sn_exact = [''hermes-runtime''], sn_folded = [?k]\<rparr>"
    using sample_validate [of "''hermes-runtime/''" no_names "[]"] sample_names
    by (simp add: TrimSuffix_def HasSuffix_def no_names_def)
  have v2: "\<exists>seen. validateMember id (sample_member ''hermes-runtime/a'' ''xyz'')
      \<lparr>sn_exact = [''hermes-runtime''], sn_folded = [?k]\<rparr> = Inr seen"
    using sample_validate [of "''hermes-runtime/a''" "\<lparr>sn_exact = [''hermes-runtime''], sn_folded = [?k]\<rparr>" "''xyz''"]
      sample_names
    by (simp add: TrimSuffix_def HasSuffix_def)
  have root: "payload_root = ''hermes-runtime/''" by (simp add: payload_root_def PayloadArchiveRoot_def)
  have scan: "payload_members id DefaultLimits sample_payload no_names (0, 0) 0 = Inr ((3, 3), 1)"
    unfolding sample_payload_def
    using v2 by (auto simp: v1 b read lim(3) sample_dirs HasSuffix_def HasPrefix_def root)
  have "\<not> exceedsRatio 3 3 200" by (simp add: exceedsRatio_exact)
  moreover have "length sample_payload = 2" by (simp add: sample_payload_def)
  moreover have "sint (3 :: 64 word) = 3" using sint_of_length [of 3] by simp
  ultimately show ?thesis
    by (simp add: verifyPayloadArchive_def sample_section_eocd sample_open_def scan lim)
qed

definition sample_verification :: verification where
  "sample_verification =
     VerifyArtifact sample_open id (\<lambda>_. replicate 64 CHR ''a'') (Some sample_reader) 2000 DefaultLimits"

lemma sample_limits: "limits_valid DefaultLimits"
  by (simp add: limits_valid_def DefaultLimits_def hardMaxContainerBytes_def hardMaxPayloadBytes_def
      hardMaxPayloadMembers_def hardMaxMemberExpandedBytes_def hardMaxTotalExpandedBytes_def
      hardMaxCompressionRatio_def)

lemma sample_verifies:
  "sample_verification = (unverifiedResult\<lparr>vr_state := ArtifactStructureVerified,
     vr_metadata := artifact_metadata_of 2000 sample_manifest\<rparr>, None)"
proof -
  let ?t = "json_text (manifest_value sample_manifest)"
  obtain s where s: "container_members id DefaultLimits sample_container empty_scan = Inr s"
    "cs_manifest s = Some (sample_member ''manifest.json'' ?t)"
    "cs_payload s = Some (sample_member PayloadArchivePath (replicate 30 CHR 0x00))"
    using sample_scan by blast
  have pl: "pl_size (mf_payload sample_manifest) = 30" "pl_sha (mf_payload sample_manifest) = replicate 64 CHR ''a''"
    "pl_members (mf_payload sample_manifest) = 2" "pl_expanded (mf_payload sample_manifest) = 3"
    by (simp_all add: sample_manifest_def)
  have lim: "lm_payload DefaultLimits = 2147483648" "lm_container DefaultLimits = 2147483648"
    by (simp_all add: DefaultLimits_def hardMaxPayloadBytes_def hardMaxContainerBytes_def)
  have manifest: "readMemberBounded (sample_member ''manifest.json'' ?t) (int MaxManifestBytes) = Inr ?t"
    using sint_of_length [of 883] sample_manifest_length
    by (simp add: readMemberBounded_def sample_dirs MaxManifestBytes_def)
  have parse: "ParseCanonicalManifest ?t = Inr sample_manifest"
    by (simp add: parse_marshal_iff MarshalCanonical_Inr sample_manifest_valid)
  have payload: "verify_payload sample_open id (\<lambda>_. replicate 64 CHR ''a'') sample_reader 2000 DefaultLimits
      sample_manifest (sample_member PayloadArchivePath (replicate 30 CHR 0x00)) = None"
    using sint_of_length [of 30]
    by (simp add: verify_payload_def sample_dirs pl lim sample_payload_archive sample_reader_def)
  have "length sample_container = 3" by (simp add: sample_container_def)
  then show ?thesis
    using s by (simp add: sample_verification_def VerifyArtifact_def sample_limits lim sample_eocd
        sample_open_def maxContainerMembers_def manifest parse payload)
qed

lemma verified_artifact_matches_manifest_witness:
  "\<exists>t m. ParseCanonicalManifest t = Inr m
     \<and> vr_metadata (fst sample_verification) = artifact_metadata_of 2000 m"
  using verified_artifact_matches_manifest [of sample_open id "\<lambda>_. replicate 64 CHR ''a''" sample_reader
      2000 DefaultLimits "fst sample_verification"] sample_verifies
  unfolding sample_verification_def by auto

end
