(* ===== verification/Hermes_Version.thy ===== *)
theory Hermes_Version
  imports Go_Format
begin

text \<open>The version of the Hermes package (runtime/hermes/version.go): reading the banner, the text
  of a version, and the versions that are supported.\<close>

subsection \<open>Regular expressions\<close>

text \<open>
  The part of Go's regexp that the program uses: classes, concatenation, alternation, options and
  greedy repetition of a class, line anchors and capturing groups. A match prefers what a
  backtracking search finds first, which is the rule of \<open>regexp\<close> without \<open>Longest\<close>.
\<close>

text \<open>A class says how many bytes of a text its next rune takes when it belongs to the class, or 0.\<close>

type_synonym rune_class = "string \<Rightarrow> nat"

definition byte_class :: "(char \<Rightarrow> bool) \<Rightarrow> rune_class" where
  "byte_class p s = (case s of [] \<Rightarrow> 0 | c # _ \<Rightarrow> if p c then 1 else 0)"

definition with_rune :: "string \<Rightarrow> rune_class \<Rightarrow> rune_class" where
  "with_rune r cls s = (if HasPrefix s r then length r else cls s)"

datatype rx =
    One rune_class
  | Many rune_class        \<comment> \<open>as many as there are first\<close>
  | Cat rx rx
  | Alt rx rx              \<comment> \<open>the left one first\<close>
  | Group rx
  | LineStart
  | LineEnd
  | Nothing

text \<open>A position: the byte before it, the text after it, and the groups closed so far.\<close>

type_synonym rx_pos = "char option \<times> string \<times> string list"

fun rx_skip :: "nat \<Rightarrow> rx_pos \<Rightarrow> rx_pos" where
  "rx_skip n (b, s, g) = (if n = 0 then b else Some (s ! (n - 1)), drop n s, g)"

text \<open>How far a class repeats: the lengths after each round, longest first.\<close>

fun run_lengths :: "nat \<Rightarrow> rune_class \<Rightarrow> string \<Rightarrow> nat \<Rightarrow> nat list" where
  "run_lengths 0 cls s n = [n]"
| "run_lengths (Suc k) cls s n =
     (let m = cls s in if m = 0 then [n] else run_lengths k cls (drop m s) (n + m) @ [n])"

fun rx_match :: "rx \<Rightarrow> rx_pos \<Rightarrow> rx_pos list" where
  "rx_match (One cls) (b, s, g) = (let m = cls s in if m = 0 then [] else [rx_skip m (b, s, g)])"
| "rx_match (Many cls) (b, s, g) =
     map (\<lambda>n. rx_skip n (b, s, g)) (run_lengths (length s) cls s 0)"
| "rx_match (Cat p q) x = concat (map (rx_match q) (rx_match p x))"
| "rx_match (Alt p q) x = rx_match p x @ rx_match q x"
| "rx_match (Group p) (b, s, g) =
     map (\<lambda>(b', s', g'). (b', s', g' @ [take (length s - length s') s])) (rx_match p (b, s, g))"
| "rx_match LineStart (b, s, g) = (if b = None \<or> b = Some (CHR 0x0A) then [(b, s, g)] else [])"
| "rx_match LineEnd (b, s, g) = (if s = [] \<or> hd s = CHR 0x0A then [(b, s, g)] else [])"
| "rx_match Nothing x = [x]"

definition Plus :: "rune_class \<Rightarrow> rx" where
  "Plus cls = Cat (One cls) (Many cls)"

definition Opt :: "rx \<Rightarrow> rx" where
  "Opt p = Alt p Nothing"

text \<open>A group that did not take part in the match reads as the empty text.\<close>

definition OptGroup :: "rx \<Rightarrow> rx" where
  "OptGroup p = Alt (Group p) (Group Nothing)"

text \<open>\<open>FindAllStringSubmatch\<close> for a pattern that never matches the empty text: the groups of each match.\<close>

function rx_find_all :: "rx \<Rightarrow> char option \<Rightarrow> string \<Rightarrow> string list list" where
  "rx_find_all r b [] = (case rx_match r (b, [], []) of [] \<Rightarrow> [] | (_, _, g) # _ \<Rightarrow> [g])"
| "rx_find_all r b (c # s) =
     (case rx_match r (b, c # s, []) of
        [] \<Rightarrow> rx_find_all r (Some c) s
      | (b', s', g) # _ \<Rightarrow>
          if length s' < length (c # s) then g # rx_find_all r b' s'
          else g # rx_find_all r (Some c) s)"
  by pat_completeness auto
termination by (relation "measure (\<lambda>(r, b, s). length s)") auto

subsection \<open>The supported versions\<close>

definition supportedRange :: string where "supportedRange = ''>=0.20.2 <0.21.0''"

subsection \<open>The banner pattern\<close>

text \<open>
  \<open>(?i)\<close> also folds the long s (U+017F) onto s and, in the range a-z, the Kelvin sign (U+212A)
  onto k. \<open>\s\<close> is white space of ASCII.
\<close>

definition long_s :: string where "long_s = [CHR 0xC5, CHR 0xBF]"
definition kelvin :: string where "kelvin = [CHR 0xE2, CHR 0x84, CHR 0xAA]"

definition rx_space :: rune_class where
  "rx_space = byte_class (\<lambda>c. c \<in> {CHR 0x09, CHR 0x0A, CHR 0x0C, CHR 0x0D, CHR 0x20})"

definition letter :: "char \<Rightarrow> char \<Rightarrow> rx" where
  "letter l u = One (byte_class (\<lambda>c. c = l \<or> c = u))"

definition rx_digits :: rx where
  "rx_digits = Plus (byte_class is_digit)"

definition rx_dot :: rx where
  "rx_dot = One (byte_class (\<lambda>c. c = CHR ''.''))"

definition prerelease_class :: rune_class where
  "prerelease_class =
     with_rune long_s (with_rune kelvin (byte_class (\<lambda>c. is_alnum c \<or> c = CHR ''.'' \<or> c = CHR ''-'')))"

fun Cats :: "rx list \<Rightarrow> rx" where
  "Cats [] = Nothing"
| "Cats [r] = r"
| "Cats (r # rs) = Cat r (Cats rs)"

definition word_hermes :: rx where
  "word_hermes =
     Cats [letter CHR ''h'' CHR ''H'', letter CHR ''e'' CHR ''E'', letter CHR ''r'' CHR ''R'',
           letter CHR ''m'' CHR ''M'', letter CHR ''e'' CHR ''E'',
           One (with_rune long_s (byte_class (\<lambda>c. c = CHR ''s'' \<or> c = CHR ''S'')))]"

definition word_agent :: rx where
  "word_agent =
     Cats [letter CHR ''a'' CHR ''A'', letter CHR ''g'' CHR ''G'', letter CHR ''e'' CHR ''E'',
           letter CHR ''n'' CHR ''N'', letter CHR ''t'' CHR ''T'']"

definition versionBannerPattern :: rx where
  "versionBannerPattern =
     Cats [LineStart, Many rx_space, word_hermes, Opt (Cat (Plus rx_space) word_agent), Plus rx_space,
           Opt (letter CHR ''v'' CHR ''V''), Group rx_digits, rx_dot, Group rx_digits, rx_dot,
           Group rx_digits,
           OptGroup (Cat (One (byte_class (\<lambda>c. c = CHR ''-''))) (Plus prerelease_class)),
           Alt (One rx_space) (Alt (One (byte_class (\<lambda>c. c = CHR ''(''))) LineEnd)]"

subsection \<open>Versions\<close>

record version =
  vs_major :: nat
  vs_minor :: nat
  vs_patch :: nat
  vs_prerelease :: string

text \<open>The pattern leaves digits only; \<open>strconv.ParseUint(_, 10, 32)\<close> checks the range.\<close>

definition parseVersionNumber :: "string \<Rightarrow> nat option" where
  "parseVersionNumber value =
     (if 1 < length value \<and> value ! 0 = CHR ''0'' then None
      else if value = [] \<or> \<not> list_all is_digit value then None
      else if digits_value value < 2 ^ 32 then Some (digits_value value) else None)"

definition valid_identifier :: "string \<Rightarrow> bool" where
  "valid_identifier i \<longleftrightarrow>
     i \<noteq> [] \<and> list_all (\<lambda>c. is_alnum c \<or> c = CHR ''-'') i
     \<and> \<not> (list_all is_digit i \<and> 1 < length i \<and> i ! 0 = CHR ''0'')"

definition validPrerelease :: "string \<Rightarrow> bool" where
  "validPrerelease value = list_all valid_identifier (split_on CHR ''.'' value)"

definition version_of_groups :: "string list \<Rightarrow> version option" where
  "version_of_groups g =
     (case parseVersionNumber (g ! 0) of
        None \<Rightarrow> None
      | Some major \<Rightarrow>
     (case parseVersionNumber (g ! 1) of
        None \<Rightarrow> None
      | Some minor \<Rightarrow>
     (case parseVersionNumber (g ! 2) of
        None \<Rightarrow> None
      | Some patch \<Rightarrow>
          (let prerelease = TrimPrefix (g ! 3) ''-'' in
           if prerelease \<noteq> [] \<and> \<not> validPrerelease prerelease then None
           else Some \<lparr>vs_major = major, vs_minor = minor, vs_patch = patch, vs_prerelease = prerelease\<rparr>))))"

definition parseVersionBanner :: "string \<Rightarrow> version option" where
  "parseVersionBanner output =
     (case rx_find_all versionBannerPattern None output of
        [g] \<Rightarrow> version_of_groups g
      | _ \<Rightarrow> None)"

definition version_String :: "version \<Rightarrow> string" where
  "version_String v =
     (let value = decimal (vs_major v) @ ''.'' @ decimal (vs_minor v) @ ''.'' @ decimal (vs_patch v)
      in if vs_prerelease v \<noteq> [] then value @ ''-'' @ vs_prerelease v else value)"

definition version_supported :: "version \<Rightarrow> bool" where
  "version_supported v \<longleftrightarrow>
     vs_major v = 0 \<and> vs_minor v = 20 \<and> vs_patch v \<ge> 2 \<and> vs_prerelease v = []"

definition isSupportedHermesVersion :: "string \<Rightarrow> bool" where
  "isSupportedHermesVersion value \<longleftrightarrow>
     (case parseVersionBanner (''Hermes Agent v'' @ TrimSpace value) of
        None \<Rightarrow> False
      | Some v \<Rightarrow> version_supported v)"

end
