(* ===== verification/Hermes_Profiles.thy ===== *)
theory Hermes_Profiles
  imports Go_Strings
begin

text \<open>
  The contract with Hermes' profile command (runtime/hermes/profile_contract.go): names and
  argument vectors; and the parser of the table that \<open>hermes profile list\<close> prints
  (profile_list_parse.go) with the classification of a run (profile_list.go). Running the
  command, the file system and the path convention are parameters.
\<close>

subsection \<open>Names and arguments (profile_contract.go)\<close>

definition officialProfileNameMaxLen :: nat where "officialProfileNameMaxLen = 64"

definition officialReservedProfileNames :: "string list" where
  "officialReservedProfileNames = [''hermes'', ''default'', ''test'', ''tmp'', ''root'', ''sudo'']"

definition profile_tail :: "char \<Rightarrow> bool" where
  "profile_tail c \<longleftrightarrow> is_lower c \<or> is_digit c \<or> c = CHR ''_'' \<or> c = CHR ''-''"

definition officialProfileNamePattern :: "string \<Rightarrow> bool" where
  "officialProfileNamePattern = class_head_tail (\<lambda>c. is_lower c \<or> is_digit c) profile_tail 63"

definition yorvaCreateProfileNamePattern :: "string \<Rightarrow> bool" where
  "yorvaCreateProfileNamePattern = class_head_tail is_lower profile_tail 63"

definition profileListArgs :: "string list" where
  "profileListArgs = [''profile'', ''list'']"

definition profileCreateArgs :: "string \<Rightarrow> string list" where
  "profileCreateArgs name = [''profile'', ''create'', name, ''--no-alias'', ''--no-skills'']"

definition profileDeleteArgs :: "string \<Rightarrow> string list" where
  "profileDeleteArgs native = [''profile'', ''delete'', native, ''--yes'']"

text \<open>
  \<open>strings.EqualFold\<close> with an ASCII word that has no k or s, and \<open>strings.ToLower\<close> on ASCII;
  other runes of \<open>ToLower\<close> come from the parameter.
\<close>

definition ascii_fold :: "char \<Rightarrow> char" where
  "ascii_fold c = (if is_upper c then char_of (of_char c + (32::nat)) else c)"

definition officialNormalizeProfileName :: "(string \<Rightarrow> string) \<Rightarrow> string \<Rightarrow> string option" where
  "officialNormalizeProfileName to_lower name =
     (let stripped = TrimSpace name in
      if stripped = [] then None
      else if map ascii_fold stripped = ''default'' then Some ''default''
      else Some (to_lower stripped))"

text \<open>A name that matches the pattern is ASCII, so its runes are its bytes.\<close>

definition officialValidateProfileName :: "string \<Rightarrow> bool" where
  "officialValidateProfileName name =
     (if name = ''default'' then True
      else if \<not> officialProfileNamePattern name then False
      else if name \<in> set officialReservedProfileNames then False
      else \<not> length name > officialProfileNameMaxLen)"

definition validateYORVACreateProfileName :: "string \<Rightarrow> bool" where
  "validateYORVACreateProfileName name =
     (if name = [] then False
      else if \<not> yorvaCreateProfileNamePattern name then False
      else name \<notin> set officialReservedProfileNames)"

definition ValidateCreateProfileName :: "string \<Rightarrow> bool" where
  "ValidateCreateProfileName name = validateYORVACreateProfileName name"

subsection \<open>The table (profile_list_parse.go)\<close>

datatype profile_error =
    errProfileListUnrecognized | errProfileListOversized | errProfileListDuplicateName
  | errProfileListEmptyTable

record parsed_profile =
  pp_name :: string
  pp_default :: bool
  pp_active :: bool

definition commandOutputLimit :: nat where "commandOutputLimit = 65536"

definition officialListEmptyMessage :: string where
  "officialListEmptyMessage = ''No profiles found.''"

text \<open>The runes U+25C6 (active marker) and U+2500 (rule) in UTF-8.\<close>

definition active_marker :: string where
  "active_marker = [CHR 0xE2, CHR 0x97, CHR 0x86]"

definition rule_rune :: string where
  "rule_rune = [CHR 0xE2, CHR 0x94, CHR 0x80]"

lemma leading_space_pos: "leading_space s = Some r \<Longrightarrow> 0 < length r"
  using space_runes_not_Nil by (auto simp: leading_space_def dest: first_match_Some)

text \<open>\<open>strings.Fields\<close>: the maximal runs without white space.\<close>

function go_fields :: "string \<Rightarrow> string \<Rightarrow> string list" where
  "go_fields acc [] = (if acc = [] then [] else [rev acc])"
| "go_fields acc (c # s) =
     (case leading_space (c # s) of
        Some r \<Rightarrow> (if acc = [] then [] else [rev acc]) @ go_fields [] (drop (length r) (c # s))
      | None \<Rightarrow> go_fields (c # acc) s)"
  by pat_completeness auto
termination
  by (relation "measure (\<lambda>(acc, s). length s)") (auto dest: leading_space_pos)

definition Fields :: "string \<Rightarrow> string list" where
  "Fields s = go_fields [] s"

text \<open>Carriage returns become line ends, alone or with the line feed that follows.\<close>

fun normalize_lines :: "string \<Rightarrow> string" where
  "normalize_lines [] = []"
| "normalize_lines (c # s) =
     (if c = CHR 0x0D then CHR 0x0A # normalize_lines (if take 1 s = [CHR 0x0A] then drop 1 s else s)
      else c # normalize_lines s)"

definition splitProfileListLines :: "string \<Rightarrow> string list" where
  "splitProfileListLines output = split_on CHR 0x0A (normalize_lines output)"

definition blank :: "string \<Rightarrow> bool" where
  "blank line \<longleftrightarrow> TrimSpace line = []"

definition anyNonEmpty :: "string list \<Rightarrow> bool" where
  "anyNonEmpty ls \<longleftrightarrow> \<not> list_all blank ls"

definition isOfficialProfileListHeader :: "string \<Rightarrow> bool" where
  "isOfficialProfileListHeader line \<longleftrightarrow>
     Fields line = [''Profile'', ''Model'', ''Gateway'', ''Alias'', ''Distribution'']"

text \<open>Only rules and spaces, and at least one rule.\<close>

fun rules_and_spaces :: "nat \<Rightarrow> string \<Rightarrow> bool" where
  "rules_and_spaces 0 s = (s = [])"
| "rules_and_spaces (Suc n) s =
     (if s = [] then True
      else if HasPrefix s rule_rune then rules_and_spaces n (drop 3 s)
      else if HasPrefix s '' '' then rules_and_spaces n (drop 1 s)
      else False)"

definition isOfficialProfileListSeparator :: "string \<Rightarrow> bool" where
  "isOfficialProfileListSeparator line =
     (let trimmed = TrimSpace line
      in trimmed \<noteq> [] \<and> rules_and_spaces (length trimmed) trimmed \<and> Contains trimmed rule_rune)"

definition officialValidateListedProfileName :: "string \<Rightarrow> bool" where
  "officialValidateListedProfileName name =
     (if name = ''default'' then True
      else if \<not> officialProfileNamePattern name then False
      else \<not> length name > officialProfileNameMaxLen)"

text \<open>
  The first two runes of a row: a space, then the marker or a space; what follows. A row of two
  runes has no name and fails like one of fewer than three. (Bytes that are not UTF-8 after the
  second rune become U+FFFD in the code; no field that is tested accepts either.)
\<close>

definition row_marker :: "string \<Rightarrow> (bool \<times> string) option" where
  "row_marker line =
     (case line of
        [] \<Rightarrow> None
      | c # s \<Rightarrow>
          if c \<noteq> CHR '' '' then None
          else if HasPrefix s active_marker then Some (True, drop 3 s)
          else if HasPrefix s '' '' then Some (False, drop 1 s)
          else None)"

definition parseOfficialProfileListRow :: "string \<Rightarrow> parsed_profile option" where
  "parseOfficialProfileListRow line =
     (case row_marker line of
        None \<Rightarrow> None
      | Some (act, rest) \<Rightarrow>
          (let fields = Fields rest in
           if length fields < 5 then None
           else if fields ! 2 \<noteq> ''running'' \<and> fields ! 2 \<noteq> ''stopped'' then None
           else if \<not> officialValidateListedProfileName (fields ! 0) then None
           else Some \<lparr>pp_name = fields ! 0, pp_default = (fields ! 0 = ''default''), pp_active = act\<rparr>))"

text \<open>The rows up to the first blank line; nothing but blank lines may follow it.\<close>

fun profile_rows :: "string list \<Rightarrow> string list \<Rightarrow> profile_error + parsed_profile list" where
  "profile_rows seen [] = Inr []"
| "profile_rows seen (line # rest) =
     (if blank line then (if anyNonEmpty rest then Inl errProfileListUnrecognized else Inr [])
      else case parseOfficialProfileListRow line of
             None \<Rightarrow> Inl errProfileListUnrecognized
           | Some row \<Rightarrow>
               if pp_name row \<in> set seen then Inl errProfileListDuplicateName
               else (case profile_rows (pp_name row # seen) rest of
                       Inl e \<Rightarrow> Inl e
                     | Inr rows \<Rightarrow> Inr (row # rows)))"

definition parse_table :: "string list \<Rightarrow> profile_error + parsed_profile list" where
  "parse_table ls =
     (let before = takeWhile (\<lambda>l. \<not> isOfficialProfileListHeader l) ls;
          after = dropWhile (\<lambda>l. \<not> isOfficialProfileListHeader l) ls
      in if after = [] then Inl errProfileListUnrecognized
         else if anyNonEmpty before then Inl errProfileListUnrecognized
         else case dropWhile blank (tl after) of
                [] \<Rightarrow> Inl errProfileListUnrecognized
              | sep # rest \<Rightarrow>
                  if \<not> isOfficialProfileListSeparator sep then Inl errProfileListUnrecognized
                  else (case dropWhile blank rest of
                          [] \<Rightarrow> Inl errProfileListEmptyTable
                        | rows \<Rightarrow>
                            (case profile_rows [] rows of
                               Inl e \<Rightarrow> Inl e
                             | Inr ps \<Rightarrow> if ps = [] then Inl errProfileListEmptyTable else Inr ps)))"

definition parseOfficialProfileList :: "string \<Rightarrow> profile_error + parsed_profile list" where
  "parseOfficialProfileList output =
     (if length output > commandOutputLimit then Inl errProfileListOversized
      else if CHR 0x00 \<in> set output then Inl errProfileListUnrecognized
      else if TrimSpace output = officialListEmptyMessage then Inr []
      else parse_table (splitProfileListLines output))"

subsection \<open>A run of the command (profile_list.go)\<close>

datatype run_error = RunCanceled | RunDeadline | RunOther

record command_result =
  cr_limited :: bool
  cr_timed_out :: bool
  cr_error :: "run_error option"
  cr_exit :: int
  cr_stdout :: string

datatype list_profiles_error =
    errProfileExecutableUnsafe
  | errProfileHomeUnavailable
  | errProfileQueryFailed
  | errProfileQueryLimited
  | errProfileQueryDeadline
  | errProfileRun run_error
  | errProfileParse profile_error

record native_profile =
  np_native :: string
  np_default :: bool

definition listProfilesWith ::
  "(string \<Rightarrow> bool) \<Rightarrow> string \<Rightarrow> string \<Rightarrow> (string \<Rightarrow> string \<Rightarrow> command_result)
     \<Rightarrow> list_profiles_error + native_profile list" where
  "listProfilesWith is_abs home executable run =
     (if executable = [] \<or> \<not> is_abs executable then Inl errProfileExecutableUnsafe
      else if home = [] \<or> \<not> is_abs home then Inl errProfileHomeUnavailable
      else let result = run executable home in
      if cr_limited result then Inl errProfileQueryLimited
      else if cr_timed_out result \<or> cr_error result = Some RunDeadline then Inl errProfileQueryDeadline
      else if cr_error result \<noteq> None \<and> cr_error result \<noteq> Some RunCanceled then Inl errProfileQueryFailed
      else case cr_error result of
             Some e \<Rightarrow> Inl (errProfileRun e)
           | None \<Rightarrow>
               if cr_exit result \<noteq> 0 then Inl errProfileQueryFailed
               else (case parseOfficialProfileList (cr_stdout result) of
                       Inl e \<Rightarrow> Inl (errProfileParse e)
                     | Inr ps \<Rightarrow>
                         Inr (map (\<lambda>r. \<lparr>np_native = pp_name r, np_default = pp_default r\<rparr>) ps)))"

definition IsProfileQueryFailure :: "list_profiles_error \<Rightarrow> bool" where
  "IsProfileQueryFailure e \<longleftrightarrow>
     e \<in> {errProfileQueryFailed, errProfileQueryLimited, errProfileQueryDeadline,
          errProfileHomeUnavailable, errProfileExecutableUnsafe, errProfileRun RunDeadline,
          errProfileRun RunCanceled}"

definition IsProfileOutputUnrecognized :: "list_profiles_error \<Rightarrow> bool" where
  "IsProfileOutputUnrecognized e = (case e of errProfileParse _ \<Rightarrow> True | _ \<Rightarrow> False)"

definition profileEnvHasSecret :: "string list \<Rightarrow> string \<Rightarrow> bool" where
  "profileEnvHasSecret env secret \<longleftrightarrow> list_ex (\<lambda>e. Contains e secret) env"

end
