(* ===== verification/Instance_Service.thy ===== *)
theory Instance_Service
  imports Install_Service Management_Target Hermes_Profiles
begin

text \<open>
  The instance service (app/instance\_inventory.go): the inventory refreshed from what Hermes
  reports, creating and deleting instances through operations and their workers, and recovery
  after a restart. Runtime discovery, Hermes' profile commands, random bytes and the clock are
  parameters: a record holds what the calls of one handler return. The clock is read once per
  handler. The locks make a handler and a worker's body one step each, except where the code
  lets a cancellation in.
\<close>

subsection \<open>Configuration, state and errors\<close>

definition hermesRuntimeID :: string where "hermesRuntimeID = ''hermes''"

text \<open>What the adapter's calls return.\<close>

datatype profile_list_error = ProfileOutputUnrecognized | ProfileTimedOut | ProfileFailed

record profile_snapshot =
  ps_native :: string
  ps_default :: bool

datatype instance_error =
    ErrTarget management_error
  | ErrInstanceQueryFailed
  | ErrInstanceOutputUnrecognized
  | ErrInstanceOperationTimedOut
  | ErrInstanceRuntimeNotFound
  | ErrInstanceInvalidName
  | ErrInstanceAlreadyExists
  | ErrInstanceConflict
  | ErrInstanceNotCancellable
  | ErrInstanceProtected
  | ErrInstanceConfirmationMismatch
  | ErrInstanceRecordNotRemoved
  | ErrInstanceKey
  | ErrInstanceRandom
  | ErrInstanceDetect
  | ErrInstanceTable inventory_error
  | ErrInstanceOperations db_error

definition instance_not_found :: instance_error where
  "instance_not_found = ErrTarget ErrInstanceNotFound"

definition runtime_not_supported :: instance_error where
  "runtime_not_supported = ErrTarget ErrRuntimeNotSupported"

record 'h inst_config =
  ic_node_id :: string
  ic_registry :: "'h runtime_registry option" \<comment> \<open>\<open>None\<close> for a nil discovery\<close>
  ic_source :: bool
  ic_mutator :: bool
  ic_message :: "sql_failure \<Rightarrow> string"
  ic_resolve :: "'h \<Rightarrow> installation \<Rightarrow> string \<Rightarrow> 'h instance_features option"

text \<open>
  The service's state: the two tables, the workers with their cancel flag, and the operations
  whose worker has started.
\<close>

record inst_state =
  iz_db :: database
  iz_inventory :: inventory
  iz_workers :: "(string \<times> bool) list"
  iz_started :: "string list"

text \<open>The trigger of the operations table reads the instances table.\<close>

definition put_inventory :: "inventory \<Rightarrow> inst_state \<Rightarrow> inst_state" where
  "put_inventory iv s =
     s\<lparr>iz_inventory := iv,
       iz_db := (iz_db s)\<lparr>db_instances := map (\<lambda>r. (in_id r, in_installation r)) (iv_instances iv)\<rparr>\<rparr>"

definition put_db :: "database \<Rightarrow> inst_state \<Rightarrow> inst_state" where
  "put_db db s = s\<lparr>iz_db := db\<rparr>"

record inst_world =
  wd_now :: time
  wd_detect :: "unit + discovery"
  wd_profiles :: "profile_list_error + profile_snapshot list"
  wd_rnd_instances :: "nat list option list"
  wd_rnd_installation :: "nat list option"
  wd_rnd_id :: "nat list option"
  wd_rnd_correlation :: "nat list option"

subsection \<open>Capabilities and views\<close>

record instance_capabilities =
  ix_instances :: bool
  ix_lifecycle :: bool
  ix_health_read :: bool
  ix_logs_read :: bool
  ix_security_audit :: bool
  ix_skill_read :: bool
  ix_skill_mutate :: bool
  ix_native_skills :: native_capabilities
  ix_mcp_read :: bool
  ix_mcp_mutate :: bool
  ix_mcp_test :: bool
  ix_backup_read :: bool
  ix_backup_mutate :: bool
  ix_restore :: bool
  ix_upgrade_plan :: bool
  ix_upgrade :: bool
  ix_rollback :: bool

definition no_native_capability :: native_capability where
  "no_native_capability = \<lparr>nc_supported = False, nc_reason = []\<rparr>"

definition no_native_skills :: native_capabilities where
  "no_native_skills =
     \<lparr>nk_inventory = no_native_capability, nk_install = no_native_capability,
      nk_update = no_native_capability, nk_remove = no_native_capability,
      nk_enable_disable = no_native_capability, nk_profile_binding = no_native_capability\<rparr>"

definition instanceCapabilities :: "capabilities \<Rightarrow> bool \<Rightarrow> instance_capabilities" where
  "instanceCapabilities m lifecycle =
     \<lparr>ix_instances = True, ix_lifecycle = lifecycle, ix_health_read = cp_health_read m,
      ix_logs_read = cp_logs_read m, ix_security_audit = cp_security_audit m,
      ix_skill_read = cp_skill_read m, ix_skill_mutate = cp_skill_mutate m,
      ix_native_skills = no_native_skills, ix_mcp_read = cp_mcp_read m,
      ix_mcp_mutate = cp_mcp_mutate m, ix_mcp_test = cp_mcp_test m,
      ix_backup_read = cp_backup_read m, ix_backup_mutate = cp_backup_mutate m,
      ix_restore = cp_restore m, ix_upgrade_plan = cp_upgrade_plan m, ix_upgrade = cp_upgrade m,
      ix_rollback = cp_rollback m\<rparr>"

definition unionNativeSkillCapability ::
  "native_capability \<Rightarrow> native_capability \<Rightarrow> native_capability" where
  "unionNativeSkillCapability l r = (if nc_supported l \<or> nc_reason l \<noteq> [] then l else r)"

definition unionNativeSkillCapabilities ::
  "native_capabilities \<Rightarrow> native_capabilities \<Rightarrow> native_capabilities" where
  "unionNativeSkillCapabilities l r =
     \<lparr>nk_inventory = unionNativeSkillCapability (nk_inventory l) (nk_inventory r),
      nk_install = unionNativeSkillCapability (nk_install l) (nk_install r),
      nk_update = unionNativeSkillCapability (nk_update l) (nk_update r),
      nk_remove = unionNativeSkillCapability (nk_remove l) (nk_remove r),
      nk_enable_disable = unionNativeSkillCapability (nk_enable_disable l) (nk_enable_disable r),
      nk_profile_binding = unionNativeSkillCapability (nk_profile_binding l) (nk_profile_binding r)\<rparr>"

definition unionInstanceCapabilities ::
  "instance_capabilities \<Rightarrow> instance_capabilities \<Rightarrow> instance_capabilities" where
  "unionInstanceCapabilities l r =
     \<lparr>ix_instances = (ix_instances l \<or> ix_instances r), ix_lifecycle = (ix_lifecycle l \<or> ix_lifecycle r),
      ix_health_read = (ix_health_read l \<or> ix_health_read r),
      ix_logs_read = (ix_logs_read l \<or> ix_logs_read r),
      ix_security_audit = (ix_security_audit l \<or> ix_security_audit r),
      ix_skill_read = (ix_skill_read l \<or> ix_skill_read r),
      ix_skill_mutate = (ix_skill_mutate l \<or> ix_skill_mutate r),
      ix_native_skills = unionNativeSkillCapabilities (ix_native_skills l) (ix_native_skills r),
      ix_mcp_read = (ix_mcp_read l \<or> ix_mcp_read r), ix_mcp_mutate = (ix_mcp_mutate l \<or> ix_mcp_mutate r),
      ix_mcp_test = (ix_mcp_test l \<or> ix_mcp_test r),
      ix_backup_read = (ix_backup_read l \<or> ix_backup_read r),
      ix_backup_mutate = (ix_backup_mutate l \<or> ix_backup_mutate r),
      ix_restore = (ix_restore l \<or> ix_restore r),
      ix_upgrade_plan = (ix_upgrade_plan l \<or> ix_upgrade_plan r),
      ix_upgrade = (ix_upgrade l \<or> ix_upgrade r), ix_rollback = (ix_rollback l \<or> ix_rollback r)\<rparr>"

record instance_view =
  ivw_id :: string
  ivw_installation :: string
  ivw_name :: string
  ivw_default :: bool
  ivw_protected :: bool
  ivw_availability :: availability
  ivw_last_synced :: "time option"
  ivw_created_at :: time
  ivw_updated_at :: time
  ivw_capabilities :: instance_capabilities

definition instanceView :: "instance_row \<Rightarrow> instance_capabilities \<Rightarrow> instance_view" where
  "instanceView row c =
     \<lparr>ivw_id = in_id row, ivw_installation = in_installation row, ivw_name = in_name row,
      ivw_default = in_default row, ivw_protected = in_protected row,
      ivw_availability = in_availability row, ivw_last_synced = in_last_synced row,
      ivw_created_at = in_created_at row, ivw_updated_at = in_updated_at row, ivw_capabilities = c\<rparr>"

record instance_list =
  il_installation :: string
  il_fresh :: bool
  il_last_synced :: "time option"
  il_instances :: "instance_view list"
  il_capabilities :: instance_capabilities
  il_error :: "error_code option"

text \<open>The zero bundle that \<open>Get\<close> returns beside \<open>false\<close> has no handle.\<close>

definition bundle_capabilities :: "'h runtime_bundle \<Rightarrow> instance_capabilities" where
  "bundle_capabilities b = instanceCapabilities (ManagementCapabilities b) (bn_lifecycle b \<noteq> None)"

definition no_capabilities :: instance_capabilities where
  "no_capabilities =
     instanceCapabilities
       \<lparr>cp_health_read = False, cp_logs_read = False, cp_security_audit = False, cp_skill_read = False,
        cp_skill_mutate = False, cp_mcp_read = False, cp_mcp_mutate = False, cp_mcp_test = False,
        cp_backup_read = False, cp_backup_mutate = False, cp_restore = False, cp_upgrade_plan = False,
        cp_upgrade = False, cp_rollback = False\<rparr> False"

definition hermes_bundle :: "'h inst_config \<Rightarrow> 'h runtime_bundle option" where
  "hermes_bundle c =
     (case ic_registry c of None \<Rightarrow> None | Some reg \<Rightarrow> registry_Get reg hermesRuntimeID)"

text \<open>\<open>capabilities\<close>; the service always has its database.\<close>

definition service_capabilities :: "'h inst_config \<Rightarrow> instance_capabilities" where
  "service_capabilities c =
     (case hermes_bundle c of
        None \<Rightarrow> no_capabilities
      | Some b \<Rightarrow>
          (bundle_capabilities b)\<lparr>ix_native_skills := bn_native_skills b, ix_backup_read := True\<rparr>)"

definition lifecycleCapable :: "'h inst_config \<Rightarrow> bool" where
  "lifecycleCapable c = ix_lifecycle (service_capabilities c)"

subsection \<open>Classifying errors\<close>

definition classifyProfileListError :: "profile_list_error \<Rightarrow> instance_error" where
  "classifyProfileListError e =
     (case e of
        ProfileOutputUnrecognized \<Rightarrow> ErrInstanceOutputUnrecognized
      | ProfileTimedOut \<Rightarrow> ErrInstanceOperationTimedOut
      | ProfileFailed \<Rightarrow> ErrInstanceQueryFailed)"

definition errorCodeFrom :: "instance_error \<Rightarrow> error_code" where
  "errorCodeFrom e =
     (case e of
        ErrInstanceOutputUnrecognized \<Rightarrow> ErrorInstanceOutputUnrecognized
      | ErrInstanceOperationTimedOut \<Rightarrow> ErrorInstanceOperationTimedOut
      | _ \<Rightarrow> ErrorInstanceQueryFailed)"

definition instanceQueryError :: "error_code option \<Rightarrow> instance_error" where
  "instanceQueryError code =
     (if code = Some ErrorInstanceOutputUnrecognized then ErrInstanceOutputUnrecognized
      else if code = Some ErrorInstanceOperationTimedOut then ErrInstanceOperationTimedOut
      else ErrInstanceQueryFailed)"

subsection \<open>Refreshing the inventory\<close>

definition snapshot_of :: "profile_snapshot \<Rightarrow> snapshot_entry" where
  "snapshot_of p =
     \<lparr>se_native = ps_native p, se_default = (ps_default p \<or> ps_native p = ''default'')\<rparr>"

definition redetected_installation ::
  "time \<Rightarrow> discovery \<Rightarrow> candidate \<Rightarrow> accepted_installation \<Rightarrow> accepted_installation" where
  "redetected_installation now d sel a =
     a\<lparr>ai_version := cn_version sel, ai_support := di_state d, ai_detected_at := now, ai_updated_at := now\<rparr>"

definition new_installation ::
  "'h inst_config \<Rightarrow> time \<Rightarrow> string \<Rightarrow> discovery \<Rightarrow> candidate \<Rightarrow> accepted_installation" where
  "new_installation c now i d sel =
     \<lparr>ai_id = i, ai_node_id = ic_node_id c, ai_kind = hermesRuntimeID, ai_path = cn_path sel,
      ai_version = cn_version sel, ai_support = di_state d, ai_status = ''ACCEPTED'',
      ai_detected_at = now, ai_created_at = now, ai_updated_at = now\<rparr>"

definition ensureInstallation ::
  "'h inst_config \<Rightarrow> inst_world \<Rightarrow> discovery \<Rightarrow> candidate \<Rightarrow> inst_state
     \<Rightarrow> inst_state \<times> (instance_error + accepted_installation)" where
  "ensureInstallation c w d sel s =
     (let iv = iz_inventory s; now = wd_now w in
      case GetAcceptedInstallation iv (ic_node_id c) hermesRuntimeID (cn_path sel) of
        Inr a \<Rightarrow>
          (let existing = redetected_installation now d sel a in
           case UpsertAcceptedInstallation iv existing of
             Inl e \<Rightarrow> (s, Inl (ErrInstanceTable e))
           | Inr iv' \<Rightarrow> (put_inventory iv' s, Inr existing))
      | Inl e \<Rightarrow>
          if e \<noteq> ErrNoRows then (s, Inl (ErrInstanceTable e))
          else (case NewInstallationID (wd_rnd_installation w) of
                  None \<Rightarrow> (s, Inl ErrInstanceRandom)
                | Some i \<Rightarrow>
               (case UpsertAcceptedInstallation iv (new_installation c now i d sel) of
                  Inl e \<Rightarrow> (s, Inl (ErrInstanceTable e))
                | Inr iv' \<Rightarrow>
                    (case GetAcceptedInstallation iv' (ic_node_id c) hermesRuntimeID (cn_path sel) of
                       Inl e \<Rightarrow> (put_inventory iv' s, Inl (ErrInstanceTable e))
                     | Inr held \<Rightarrow> (put_inventory iv' s, Inr held)))))"

text \<open>The profiles are listed and the table is reconciled with them.\<close>

definition reconcile_inventory ::
  "inst_world \<Rightarrow> string \<Rightarrow> inst_state \<Rightarrow> inst_state \<times> instance_error option" where
  "reconcile_inventory w inst s =
     (case wd_profiles w of
        Inl e \<Rightarrow>
          (put_inventory (MarkInstancesUnknown (iz_inventory s) inst (wd_now w)) s,
           Some (classifyProfileListError e))
      | Inr natives \<Rightarrow>
          (case ApplyInstanceSnapshot (iz_inventory s) (wd_rnd_instances w) inst
                  (map snapshot_of natives) (wd_now w) of
             Inl e \<Rightarrow> (s, Some (ErrInstanceTable e))
           | Inr iv \<Rightarrow> (put_inventory iv s, None)))"

definition later :: "time option \<Rightarrow> time option \<Rightarrow> time option" where
  "later l t =
     (case t of
        None \<Rightarrow> l
      | Some x \<Rightarrow> (case l of None \<Rightarrow> Some x | Some y \<Rightarrow> if x > y then Some x else Some y))"

definition detected_target :: "discovery \<Rightarrow> candidate \<Rightarrow> installation" where
  "detected_target d sel =
     \<lparr>is_kind = hermesRuntimeID, is_path = cn_path sel, is_version = cn_version sel, is_support = di_state d\<rparr>"

definition row_capabilities ::
  "'h inst_config \<Rightarrow> installation \<Rightarrow> instance_row \<Rightarrow> instance_capabilities" where
  "row_capabilities c inst row =
     (case hermes_bundle c of
        None \<Rightarrow> no_capabilities
      | Some b \<Rightarrow> bundle_capabilities (ResolveInstanceManagement (ic_resolve c) b inst (in_native row)))"

definition listed_of ::
  "'h inst_config \<Rightarrow> installation \<Rightarrow> string \<Rightarrow> error_code option \<Rightarrow> bool \<Rightarrow> instance_row list
     \<Rightarrow> instance_list" where
  "listed_of c inst i code fresh rows =
     \<lparr>il_installation = i, il_fresh = fresh,
      il_last_synced = fold (\<lambda>r l. later l (in_last_synced r)) rows None,
      il_instances = map (\<lambda>r. instanceView r (row_capabilities c inst r)) rows,
      il_capabilities =
        fold (\<lambda>r acc. unionInstanceCapabilities acc (row_capabilities c inst r)) rows
          (case hermes_bundle c of None \<Rightarrow> no_capabilities | Some b \<Rightarrow> bundle_capabilities b),
      il_error = code\<rparr>"

definition usable_selection :: "discovery \<Rightarrow> candidate option" where
  "usable_selection d =
     (case di_selected d of
        None \<Rightarrow> None
      | Some sel \<Rightarrow>
          if di_state d \<noteq> DiscoverySupported \<or> cn_path sel = [] then None else Some sel)"

text \<open>
  A failed listing is no error of the handler: the rows are marked unknown and the list carries
  the code. A table error is one.
\<close>

definition service_ListInstances ::
  "'h inst_config \<Rightarrow> inst_world \<Rightarrow> string \<Rightarrow> inst_state \<Rightarrow> inst_state \<times> (instance_error + instance_list)" where
  "service_ListInstances c w runtimeID s =
     (if runtimeID \<noteq> hermesRuntimeID then (s, Inl ErrInstanceRuntimeNotFound)
      else if ic_registry c = None \<or> \<not> ic_source c then (s, Inl runtime_not_supported)
      else case wd_detect w of
        Inl _ \<Rightarrow> (s, Inl ErrInstanceDetect)
      | Inr d \<Rightarrow>
     (case usable_selection d of
        None \<Rightarrow> (s, Inl runtime_not_supported)
      | Some sel \<Rightarrow>
     (case ensureInstallation c w d sel s of
        (s1, Inl e) \<Rightarrow> (s1, Inl e)
      | (s1, Inr a) \<Rightarrow>
     (case reconcile_inventory w (ai_id a) s1 of
        (s2, Some (ErrInstanceTable e)) \<Rightarrow> (s2, Inl (ErrInstanceTable e))
      | (s2, failure) \<Rightarrow>
          (s2, Inr (listed_of c (detected_target d sel) (ai_id a) (map_option errorCodeFrom failure)
             (failure = None) (ListInstances (iz_inventory s2) (ai_id a))))))))"

definition service_GetInstance ::
  "'h inst_config \<Rightarrow> (string \<Rightarrow> management_error + 'h management_target) \<Rightarrow> context_error option
     \<Rightarrow> string \<Rightarrow> inst_state \<Rightarrow> instance_error + instance_view" where
  "service_GetInstance c resolve ctx i s =
     (if i = [] then Inl instance_not_found
      else case GetInstance (iz_inventory s) i of
        Inl e \<Rightarrow> Inl (if e = ErrNoRows then instance_not_found else ErrInstanceTable e)
      | Inr row \<Rightarrow>
          (case resolve i of
             Inr t \<Rightarrow> Inr (instanceView row (bundle_capabilities (mg_bundle t)))
           | Inl _ \<Rightarrow>
               (case ctx of
                  Some x \<Rightarrow> Inl (ErrTarget (ErrManagementContext x))
                | None \<Rightarrow> Inr (instanceView row (service_capabilities c)))))"

definition reconcileLocked ::
  "'h inst_config \<Rightarrow> inst_world \<Rightarrow> string \<Rightarrow> inst_state \<Rightarrow> inst_state \<times> (instance_error + instance_list)" where
  "reconcileLocked c w inst s =
     (case reconcile_inventory w inst s of
        (s1, Some e) \<Rightarrow> (s1, Inl e)
      | (s1, None) \<Rightarrow>
          (s1, Inr \<lparr>il_installation = inst, il_fresh = True, il_last_synced = None,
                    il_instances = map (\<lambda>r. instanceView r (service_capabilities c))
                      (ListInstances (iz_inventory s1) inst),
                    il_capabilities = service_capabilities c, il_error = None\<rparr>))"

definition instanceAvailable :: "instance_list \<Rightarrow> string \<Rightarrow> bool" where
  "instanceAvailable l native \<longleftrightarrow>
     list_ex (\<lambda>v. ivw_name v = native \<and> ivw_availability v = Available) (il_instances l)"

definition profilePresent :: "inst_state \<Rightarrow> string \<Rightarrow> string \<Rightarrow> bool" where
  "profilePresent s inst name \<longleftrightarrow>
     list_ex (\<lambda>r. in_native r = name \<and> in_availability r = Available) (ListInstances (iz_inventory s) inst)"

subsection \<open>Operations of an installation\<close>

text \<open>The row that both start handlers insert.\<close>

definition instance_operation ::
  "time \<Rightarrow> string \<Rightarrow> string \<Rightarrow> op_type \<Rightarrow> target_type \<Rightarrow> string \<Rightarrow> string \<Rightarrow> string \<Rightarrow> operation" where
  "instance_operation now i cor kind tt tid msg key =
     \<lparr>op_id = i, op_kind = kind, op_target_type = tt, op_target_id = tid, op_status = StatusPending,
      op_stage = StagePreflight, op_progress = None, op_message = msg, op_error_code = [],
      op_error_message = [], op_retryable = False, op_idempotency_key = key,
      op_correlation_id = cor, op_source_pin = [], op_ownership_nonce = [], op_transaction_id = [],
      op_created_at = now, op_started_at = None, op_completed_at = None, op_updated_at = now\<rparr>"

definition start_worker :: "string \<Rightarrow> inst_state \<Rightarrow> inst_state" where
  "start_worker i s = s\<lparr>iz_workers := (i, False) # filter (\<lambda>q. fst q \<noteq> i) (iz_workers s)\<rparr>"

type_synonym started = "operation \<times> bool"

text \<open>
  Inserting the operation; \<open>replay\<close> says what a row with the same key, written in between, must
  look like to be returned, and \<open>foreign\<close> is the answer when there is none that does.
\<close>

definition insert_operation ::
  "'h inst_config \<Rightarrow> inst_world \<Rightarrow> (operation \<Rightarrow> bool)
     \<Rightarrow> (string \<Rightarrow> string \<Rightarrow> operation) \<Rightarrow> inst_state \<Rightarrow> inst_state \<times> (instance_error + started)" where
  "insert_operation c w replay mk s =
     (case newOperationID (wd_rnd_id w) of
        None \<Rightarrow> (s, Inl ErrInstanceRandom)
      | Some i \<Rightarrow>
     (case newCorrelationID (wd_rnd_correlation w) of
        None \<Rightarrow> (s, Inl ErrInstanceRandom)
      | Some cor \<Rightarrow>
          (let v = mk i cor in
           case CreateOperation (ic_message c) (iz_db s) v of
             Inr db \<Rightarrow> (start_worker i (put_db db s), Inr (v, True))
           | Inl e \<Rightarrow>
               if e = ErrDuplicateIdempotency then
                 (case GetOperationByIdempotencyKey (iz_db s) (op_idempotency_key v) of
                    Inr (Some existing) \<Rightarrow>
                      if replay existing then (s, Inr (existing, False)) else (s, Inl ErrInstanceConflict)
                  | _ \<Rightarrow>
                      (s, Inl (if op_kind v = TypeInstanceCreate then ErrInstanceOperations e
                               else ErrInstanceConflict)))
               else if e = ErrActiveInstanceMutation then (s, Inl ErrInstanceConflict)
               else (s, Inl (ErrInstanceOperations e)))))"

definition StartCreate ::
  "'h inst_config \<Rightarrow> inst_world \<Rightarrow> string \<Rightarrow> string \<Rightarrow> string \<Rightarrow> inst_state
     \<Rightarrow> inst_state \<times> (instance_error + started)" where
  "StartCreate c w runtimeID name key s =
     (if \<not> ValidateIdempotencyKey key then (s, Inl ErrInstanceKey)
      else if \<not> ValidateCreateProfileName name then (s, Inl ErrInstanceInvalidName)
      else if \<not> ic_mutator c then (s, Inl runtime_not_supported)
      else case service_ListInstances c w runtimeID s of
        (s1, Inl e) \<Rightarrow> (s1, Inl e)
      | (s1, Inr listed) \<Rightarrow>
     (case GetOperationByIdempotencyKey (iz_db s1) key of
        Inl e \<Rightarrow> (s1, Inl (ErrInstanceOperations e))
      | Inr (Some existing) \<Rightarrow>
          if op_kind existing \<noteq> TypeInstanceCreate \<or> op_message existing \<noteq> name
          then (s1, Inl ErrInstanceConflict) else (s1, Inr (existing, False))
      | Inr None \<Rightarrow>
          if instanceAvailable listed name then (s1, Inl ErrInstanceAlreadyExists)
          else (case ActiveInstanceMutation (iz_db s1) (il_installation listed) of
                  Inl e \<Rightarrow> (s1, Inl (ErrInstanceOperations e))
                | Inr (Some _) \<Rightarrow> (s1, Inl ErrInstanceConflict)
                | Inr None \<Rightarrow>
                    insert_operation c w (\<lambda>r. op_message r = name)
                      (\<lambda>i cor. instance_operation (wd_now w) i cor TypeInstanceCreate TargetRuntimeInstallation
                         (il_installation listed) name key) s1)))"

text \<open>
  \<open>StartDelete\<close> asks for the lifecycle state of the instance when the Runtime has one; the
  parameter is the answer of \<open>GetLifecycle\<close>: whether it reports the instance stopped.
\<close>

definition StartDelete ::
  "'h inst_config \<Rightarrow> inst_world \<Rightarrow> (inst_state \<Rightarrow> inst_state \<times> bool) \<Rightarrow> string \<Rightarrow> string \<Rightarrow> string
     \<Rightarrow> inst_state \<Rightarrow> inst_state \<times> (instance_error + started)" where
  "StartDelete c w is_stopped i confirmation key s =
     (if \<not> ValidateIdempotencyKey key then (s, Inl ErrInstanceKey)
      else case GetInstance (iz_inventory s) i of
        Inl e \<Rightarrow> (s, Inl (if e = ErrNoRows then instance_not_found else ErrInstanceTable e))
      | Inr row \<Rightarrow>
      if in_default row \<or> in_protected row \<or> in_native row = ''default'' then (s, Inl ErrInstanceProtected)
      else if confirmation \<noteq> in_native row then (s, Inl ErrInstanceConfirmationMismatch)
      else case GetOperationByIdempotencyKey (iz_db s) key of
        Inl e \<Rightarrow> (s, Inl (ErrInstanceOperations e))
      | Inr (Some existing) \<Rightarrow>
          if op_kind existing \<noteq> TypeInstanceDelete \<or> op_message existing \<noteq> confirmation
             \<or> op_target_id existing \<noteq> in_installation row
          then (s, Inl ErrInstanceConflict) else (s, Inr (existing, False))
      | Inr None \<Rightarrow>
     (case service_ListInstances c w hermesRuntimeID s of
        (s1, Inl e) \<Rightarrow> (s1, Inl e)
      | (s1, Inr listed) \<Rightarrow>
          if il_installation listed \<noteq> in_installation row then (s1, Inl instance_not_found)
          else if \<not> il_fresh listed then (s1, Inl (instanceQueryError (il_error listed)))
          else
          (let (s2, stopped) = (if lifecycleCapable c then is_stopped s1 else (s1, True)) in
           if lifecycleCapable c \<and> \<not> stopped then (s2, Inl ErrInstanceConflict)
           else case (if lifecycleCapable c then ActiveInstanceRuntimeMutation (iz_db s2) i else Inr None) of
             Inl e \<Rightarrow> (s2, Inl (ErrInstanceOperations e))
           | Inr (Some _) \<Rightarrow> (s2, Inl ErrInstanceConflict)
           | Inr None \<Rightarrow>
          (case ActiveInstanceMutation (iz_db s2) (in_installation row) of
             Inl e \<Rightarrow> (s2, Inl (ErrInstanceOperations e))
           | Inr (Some _) \<Rightarrow> (s2, Inl ErrInstanceConflict)
           | Inr None \<Rightarrow>
               insert_operation c w (\<lambda>r. op_message r = confirmation)
                 (\<lambda>i cor. instance_operation (wd_now w) i cor TypeInstanceDelete TargetRuntimeInstallation
                    (in_installation row) confirmation key) s2))))"

subsection \<open>Cancelling\<close>

definition cancelled_instance_operation :: "time \<Rightarrow> operation \<Rightarrow> operation" where
  "cancelled_instance_operation now current =
     current\<lparr>op_status := StatusCancelled, op_completed_at := Some now, op_updated_at := now\<rparr>"

text \<open>
  The three cancel handlers share their body: \<open>CancelCreate\<close>, \<open>CancelDelete\<close> and
  \<open>CancelLifecycle\<close> differ in the types they accept. The call of a worker's cancel function
  raises its flag.
\<close>

definition cancel_instance_operation ::
  "'h inst_config \<Rightarrow> (op_type \<Rightarrow> bool) \<Rightarrow> time \<Rightarrow> string \<Rightarrow> inst_state
     \<Rightarrow> inst_state \<times> (instance_error + operation)" where
  "cancel_instance_operation c ofType now i s =
     (case GetOperation (iz_db s) i of
        Inl e \<Rightarrow> (s, Inl (ErrInstanceOperations e))
      | Inr current \<Rightarrow>
          if \<not> ofType (op_kind current) then (s, Inl instance_not_found)
          else if i \<in> set (iz_started s) \<or> op_status current = StatusRunning
          then (s, Inl ErrInstanceNotCancellable)
          else
          (let s1 = s\<lparr>iz_workers := map (\<lambda>(j, b). (j, b \<or> j = i)) (iz_workers s)\<rparr> in
           if IsTerminal (op_status current) then (s1, Inr current)
           else case UpdateOperation (ic_message c) (iz_db s1) current (cancelled_instance_operation now current) of
                  Inl e \<Rightarrow> (s1, Inl (ErrInstanceOperations e))
                | Inr db \<Rightarrow> (put_db db s1, Inr (cancelled_instance_operation now current))))"

definition CancelCreate ::
  "'h inst_config \<Rightarrow> time \<Rightarrow> string \<Rightarrow> inst_state \<Rightarrow> inst_state \<times> (instance_error + operation)" where
  "CancelCreate c = cancel_instance_operation c (\<lambda>t. t = TypeInstanceCreate)"

definition CancelDelete ::
  "'h inst_config \<Rightarrow> time \<Rightarrow> string \<Rightarrow> inst_state \<Rightarrow> inst_state \<times> (instance_error + operation)" where
  "CancelDelete c = cancel_instance_operation c (\<lambda>t. t = TypeInstanceDelete)"

subsection \<open>Workers\<close>

definition worker_cancelled :: "string \<Rightarrow> inst_state \<Rightarrow> bool" where
  "worker_cancelled i s \<longleftrightarrow> (i, True) \<in> set (iz_workers s)"

definition stop_worker :: "string \<Rightarrow> inst_state \<Rightarrow> inst_state" where
  "stop_worker i s = s\<lparr>iz_workers := filter (\<lambda>q. fst q \<noteq> i) (iz_workers s)\<rparr>"

definition running_instance_operation :: "time \<Rightarrow> stage \<Rightarrow> operation \<Rightarrow> operation" where
  "running_instance_operation now stg current =
     current\<lparr>op_status := StatusRunning, op_stage := stg, op_started_at := Some now, op_updated_at := now\<rparr>"

text \<open>
  What every worker does first: a cancelled context fails the read; a terminal row ends the
  worker; otherwise the row turns RUNNING and the worker counts as started.
\<close>

definition begin_running ::
  "'h inst_config \<Rightarrow> time \<Rightarrow> stage \<Rightarrow> string \<Rightarrow> inst_state \<Rightarrow> inst_state \<times> operation option" where
  "begin_running c now stg i s =
     (if worker_cancelled i s then (s, None)
      else case GetOperation (iz_db s) i of
        Inl _ \<Rightarrow> (s, None)
      | Inr current \<Rightarrow>
          if IsTerminal (op_status current) then (s, None)
          else (let running = running_instance_operation now stg current in
                case UpdateOperation (ic_message c) (iz_db s) current running of
                  Inl _ \<Rightarrow> (s, None)
                | Inr db \<Rightarrow> ((put_db db s)\<lparr>iz_started := i # iz_started s\<rparr>, Some running)))"

definition instance_succeeded :: "time \<Rightarrow> stage \<Rightarrow> operation \<Rightarrow> operation" where
  "instance_succeeded now stg current =
     current\<lparr>op_status := StatusSucceeded, op_stage := stg, op_completed_at := Some now, op_updated_at := now\<rparr>"

definition instance_failed :: "time \<Rightarrow> error_code \<Rightarrow> bool \<Rightarrow> operation \<Rightarrow> operation" where
  "instance_failed now code retry current =
     current\<lparr>op_status := StatusFailed, op_error_code := code, op_retryable := retry,
             op_completed_at := Some now, op_updated_at := now\<rparr>"

text \<open>The error of the final update is dropped.\<close>

definition settle :: "'h inst_config \<Rightarrow> operation \<Rightarrow> operation \<Rightarrow> inst_state \<Rightarrow> inst_state" where
  "settle c current nxt s =
     (case UpdateOperation (ic_message c) (iz_db s) current nxt of Inl _ \<Rightarrow> s | Inr db \<Rightarrow> put_db db s)"

definition succeedCreate :: "'h inst_config \<Rightarrow> time \<Rightarrow> operation \<Rightarrow> inst_state \<Rightarrow> inst_state" where
  "succeedCreate c now current = settle c current (instance_succeeded now StageInstanceReconcile current)"

definition failCreate ::
  "'h inst_config \<Rightarrow> time \<Rightarrow> operation \<Rightarrow> error_code \<Rightarrow> bool \<Rightarrow> inst_state \<Rightarrow> inst_state" where
  "failCreate c now current code retry = settle c current (instance_failed now code retry current)"

definition succeedDelete :: "'h inst_config \<Rightarrow> time \<Rightarrow> operation \<Rightarrow> inst_state \<Rightarrow> inst_state" where
  "succeedDelete c now current = settle c current (instance_succeeded now StageInstanceReconcile current)"

text \<open>
  \<open>created\<close>: whether Hermes' create command succeeded; \<open>late\<close>: whether the worker's context was
  cancelled by the time \<open>profilePresent\<close> reads the table (a cancellation may slip in between the
  first read and the started mark).
\<close>

definition create_body ::
  "'h inst_config \<Rightarrow> inst_world \<Rightarrow> bool \<Rightarrow> bool \<Rightarrow> string \<Rightarrow> string \<Rightarrow> operation \<Rightarrow> inst_state \<Rightarrow> inst_state" where
  "create_body c w created late inst name running s =
     (case wd_detect w of
        Inl _ \<Rightarrow> failCreate c (wd_now w) running ErrorRuntimeNotSupported False s
      | Inr d \<Rightarrow>
          if di_selected d = None then failCreate c (wd_now w) running ErrorRuntimeNotSupported False s
          else
          (let s1 = fst (reconcileLocked c w inst s) in
           if \<not> late \<and> profilePresent s1 inst name then
             (if \<not> created then failCreate c (wd_now w) running ErrorInstanceAlreadyExists False s1
              else succeedCreate c (wd_now w) running s1)
           else failCreate c (wd_now w) running ErrorInstanceQueryFailed True s1))"

definition runCreate ::
  "'h inst_config \<Rightarrow> inst_world \<Rightarrow> bool \<Rightarrow> bool \<Rightarrow> string \<Rightarrow> string \<Rightarrow> string \<Rightarrow> inst_state \<Rightarrow> inst_state" where
  "runCreate c w created late i inst name s =
     stop_worker i
       (case begin_running c (wd_now w) StageInstanceCreate i s of
          (s1, None) \<Rightarrow> s1
        | (s1, Some running) \<Rightarrow> create_body c w created late inst name running s1)"

text \<open>
  The delete worker reconciles before and after the command; \<open>w'\<close> holds what the second
  listing returns, \<open>failed\<close> the error of the command, with whether it is a cancellation.
\<close>

definition delete_body ::
  "'h inst_config \<Rightarrow> inst_world \<Rightarrow> inst_world \<Rightarrow> instance_error option \<Rightarrow> bool \<Rightarrow> string \<Rightarrow> string
     \<Rightarrow> operation \<Rightarrow> inst_state \<Rightarrow> inst_state" where
  "delete_body c w w' failed canceled inst native running s =
     (let now = wd_now w in
      case wd_detect w of
        Inl _ \<Rightarrow> failCreate c now running ErrorRuntimeNotSupported False s
      | Inr d \<Rightarrow>
      if di_selected d = None then failCreate c now running ErrorRuntimeNotSupported False s
      else case reconcileLocked c w inst s of
        (s1, Inl e) \<Rightarrow> failCreate c now running (errorCodeFrom e) True s1
      | (s1, Inr listed) \<Rightarrow>
      if \<not> instanceAvailable listed native then succeedDelete c now running s1
      else case reconcileLocked c w' inst s1 of
        (s2, Inl e) \<Rightarrow> failCreate c now running (errorCodeFrom e) True s2
      | (s2, Inr post) \<Rightarrow>
      if \<not> instanceAvailable post native then succeedDelete c now running s2
      else (case failed of
              Some e \<Rightarrow>
                if \<not> canceled then failCreate c now running (errorCodeFrom e) True s2
                else failCreate c now running ErrorInstanceQueryFailed True s2
            | None \<Rightarrow> failCreate c now running ErrorInstanceQueryFailed True s2))"

definition runDelete ::
  "'h inst_config \<Rightarrow> inst_world \<Rightarrow> inst_world \<Rightarrow> instance_error option \<Rightarrow> bool \<Rightarrow> string \<Rightarrow> string \<Rightarrow> string
     \<Rightarrow> inst_state \<Rightarrow> inst_state" where
  "runDelete c w w' failed canceled i inst native s =
     stop_worker i
       (case begin_running c (wd_now w) StageInstanceDelete i s of
          (s1, None) \<Rightarrow> s1
        | (s1, Some running) \<Rightarrow> delete_body c w w' failed canceled inst native running s1)"

subsection \<open>Clearing a removed instance\<close>

definition ClearRemovedInstance ::
  "'h inst_config \<Rightarrow> inst_world \<Rightarrow> string \<Rightarrow> inst_state \<Rightarrow> inst_state \<times> instance_error option" where
  "ClearRemovedInstance c w i s =
     (case GetInstance (iz_inventory s) i of
        Inl e \<Rightarrow> (s, Some (if e = ErrNoRows then instance_not_found else ErrInstanceTable e))
      | Inr row \<Rightarrow>
      if in_default row \<or> in_protected row \<or> in_native row = ''default'' then (s, Some ErrInstanceProtected)
      else case wd_detect w of
        Inl _ \<Rightarrow> (s, Some ErrInstanceDetect)
      | Inr d \<Rightarrow>
     (case usable_selection d of
        None \<Rightarrow> (s, Some runtime_not_supported)
      | Some sel \<Rightarrow>
     (case reconcileLocked c w (in_installation row) s of
        (s1, Inl e) \<Rightarrow> (s1, Some e)
      | (s1, Inr _) \<Rightarrow>
     (case GetInstance (iz_inventory s1) i of
        Inl e \<Rightarrow> (s1, Some (if e = ErrNoRows then instance_not_found else ErrInstanceTable e))
      | Inr current \<Rightarrow>
          if in_availability current \<noteq> Missing then (s1, Some ErrInstanceRecordNotRemoved)
          else (case ActiveInstanceRuntimeMutation (iz_db s1) i of
                  Inl e \<Rightarrow> (s1, Some (ErrInstanceOperations e))
                | Inr (Some _) \<Rightarrow> (s1, Some ErrInstanceConflict)
                | Inr None \<Rightarrow>
                    (let (iv, deleted) = DeleteMissingInstanceRecord (iz_inventory s1) i in
                     if \<not> deleted then (s1, Some ErrInstanceRecordNotRemoved)
                     else (put_inventory iv s1, None)))))))"

subsection \<open>Recovery after a restart\<close>

definition persistRecoveredSucceed ::
  "'h inst_config \<Rightarrow> time \<Rightarrow> operation \<Rightarrow> inst_state \<Rightarrow> inst_state \<times> (instance_error + operation)" where
  "persistRecoveredSucceed c now current s =
     (let running = current\<lparr>op_status := StatusRunning, op_started_at := Some now, op_updated_at := now\<rparr>;
          finish = (\<lambda>v s.
            let nxt = instance_succeeded now StageInstanceReconcile v in
            case UpdateOperation (ic_message c) (iz_db s) v nxt of
              Inl e \<Rightarrow> (s, Inl (ErrInstanceOperations e))
            | Inr db \<Rightarrow> (put_db db s, Inr nxt))
      in if op_status current = StatusPending then
           (case UpdateOperation (ic_message c) (iz_db s) current running of
              Inl e \<Rightarrow> (s, Inl (ErrInstanceOperations e))
            | Inr db \<Rightarrow> finish running (put_db db s))
         else finish current s)"

definition persistRecoveredFail ::
  "'h inst_config \<Rightarrow> time \<Rightarrow> operation \<Rightarrow> error_code \<Rightarrow> bool \<Rightarrow> inst_state
     \<Rightarrow> inst_state \<times> (instance_error + operation)" where
  "persistRecoveredFail c now current code retry s =
     (let nxt = instance_failed now code retry current in
      case UpdateOperation (ic_message c) (iz_db s) current nxt of
        Inl e \<Rightarrow> (s, Inl (ErrInstanceOperations e))
      | Inr db \<Rightarrow> (put_db db s, Inr nxt))"

definition queryAuthoritative ::
  "'h inst_config \<Rightarrow> inst_world \<Rightarrow> string \<Rightarrow> inst_state \<Rightarrow> inst_state \<times> (instance_error + instance_list)" where
  "queryAuthoritative c w inst s =
     (let unknown = put_inventory (MarkInstancesUnknown (iz_inventory s) inst (wd_now w)) s in
      if ic_registry c = None \<or> \<not> ic_source c then (unknown, Inl ErrInstanceQueryFailed)
      else case wd_detect w of
        Inl _ \<Rightarrow> (unknown, Inl runtime_not_supported)
      | Inr d \<Rightarrow>
          (case di_selected d of
             None \<Rightarrow> (unknown, Inl runtime_not_supported)
           | Some sel \<Rightarrow>
               if cn_path sel = [] then (unknown, Inl runtime_not_supported) else reconcileLocked c w inst s))"

definition recoverOneLocked ::
  "'h inst_config \<Rightarrow> inst_world \<Rightarrow> operation \<Rightarrow> inst_state \<Rightarrow> inst_state \<times> (instance_error + operation)" where
  "recoverOneLocked c w current s =
     (case queryAuthoritative c w (op_target_id current) s of
        (s1, Inl e) \<Rightarrow> persistRecoveredFail c (wd_now w) current (errorCodeFrom e) True s1
      | (s1, Inr listed) \<Rightarrow>
          (let present = instanceAvailable listed (op_message current) in
           if op_kind current = TypeInstanceCreate then
             (if present then persistRecoveredSucceed c (wd_now w) current s1
              else persistRecoveredFail c (wd_now w) current ErrorOperationInterrupted True s1)
           else if op_kind current = TypeInstanceDelete then
             (if \<not> present then persistRecoveredSucceed c (wd_now w) current s1
              else persistRecoveredFail c (wd_now w) current ErrorOperationInterrupted True s1)
           else (s1, Inr current)))"

text \<open>One world per active operation.\<close>

fun recover_stale ::
  "'h inst_config \<Rightarrow> (operation \<Rightarrow> inst_world) \<Rightarrow> operation list \<Rightarrow> inst_state
     \<Rightarrow> inst_state \<times> operation list \<times> instance_error option" where
  "recover_stale c w [] s = (s, [], None)"
| "recover_stale c w (v # vs) s =
     (case GetOperation (iz_db s) (op_id v) of
        Inl e \<Rightarrow> (s, [], Some (ErrInstanceOperations e))
      | Inr current \<Rightarrow>
          if IsTerminal (op_status current) then recover_stale c w vs s
          else (case recoverOneLocked c (w v) current s of
                  (s1, Inl e) \<Rightarrow> (s1, [], Some e)
                | (s1, Inr nxt) \<Rightarrow>
                    (case recover_stale c w vs s1 of (s2, rest, e) \<Rightarrow> (s2, nxt # rest, e))))"

definition RecoverStale ::
  "'h inst_config \<Rightarrow> (operation \<Rightarrow> inst_world) \<Rightarrow> inst_state
     \<Rightarrow> inst_state \<times> operation list \<times> instance_error option" where
  "RecoverStale c w s =
     (case ListActiveInstanceOperations (iz_db s) of
        Inl e \<Rightarrow> (s, [], Some (ErrInstanceOperations e))
      | Inr ops \<Rightarrow> if ops = [] then (s, [], None) else recover_stale c w ops s)"

end
