(* ===== verification/Lifecycle_Service.thy ===== *)
theory Lifecycle_Service
  imports Instance_Service
begin

text \<open>
  Starting, stopping and restarting an instance (app/lifecycle.go, with the types of
  runtime/lifecycle.go). The handlers belong to the instance service and share its state; the
  lifecycle manager of the adapter is a parameter: what its \<open>Status\<close>, \<open>Start\<close>, \<open>Stop\<close> and
  \<open>Restart\<close> return. A done context makes every query of a handler fail.
\<close>

subsection \<open>Types (runtime/lifecycle.go)\<close>

datatype lifecycle_state = LifecycleRunning | LifecycleStopped | LifecycleUnknown

record lifecycle_installation =
  li_executable :: string
  li_version :: string

datatype lifecycle_error =
    ErrLifecycleQueryFailed | ErrLifecycleOutputUnrecognized | ErrLifecycleMutationFailed
  | ErrLifecyclePostcondition | ErrInstanceNotRunning | ErrLifecycleContext context_error

type_synonym lifecycle_status = "lifecycle_state \<times> lifecycle_error option"

subsection \<open>Actions and error codes\<close>

definition LifecycleStart :: string where "LifecycleStart = ''start''"
definition LifecycleStop :: string where "LifecycleStop = ''stop''"
definition LifecycleRestart :: string where "LifecycleRestart = ''restart''"

definition validLifecycleAction :: "string \<Rightarrow> bool" where
  "validLifecycleAction a \<longleftrightarrow> a = LifecycleStart \<or> a = LifecycleStop \<or> a = LifecycleRestart"

definition lifecycleOperationShape :: "string \<Rightarrow> op_type \<times> stage" where
  "lifecycleOperationShape a =
     (if a = LifecycleStop then (TypeInstanceStop, StageInstanceStop)
      else if a = LifecycleRestart then (TypeInstanceRestart, StageInstanceRestart)
      else (TypeInstanceStart, StageInstanceStart))"

definition isLifecycleOperation :: "op_type \<Rightarrow> bool" where
  "isLifecycleOperation t \<longleftrightarrow> t = TypeInstanceStart \<or> t = TypeInstanceStop \<or> t = TypeInstanceRestart"

text \<open>An error reaches the handlers from the manager or from resolving the target, or is nil.\<close>

datatype lifecycle_failure = NoFailure | FromManager lifecycle_error | FromTarget instance_error

definition lifecycleErrorCode :: "lifecycle_failure \<Rightarrow> string \<Rightarrow> error_code" where
  "lifecycleErrorCode e action =
     (if e = FromManager ErrInstanceNotRunning then ErrorInstanceNotRunning
      else if e = FromManager ErrLifecycleOutputUnrecognized then ErrorLifecycleOutputUnrecognized
      else if e = FromManager ErrLifecyclePostcondition then ErrorLifecyclePostconditionFailed
      else if e = FromManager ErrLifecycleQueryFailed \<or> e = FromTarget (ErrTarget ErrInstanceNotAvailable)
              \<or> e = FromTarget runtime_not_supported then ErrorLifecycleQueryFailed
      else if action = LifecycleStop then ErrorLifecycleStopFailed
      else if action = LifecycleRestart then ErrorLifecycleRestartFailed
      else ErrorLifecycleStartFailed)"

definition lifecycleRetryable :: "lifecycle_error \<Rightarrow> bool" where
  "lifecycleRetryable e \<longleftrightarrow> e \<noteq> ErrInstanceNotRunning \<and> e \<noteq> ErrLifecycleOutputUnrecognized"

subsection \<open>Resolving the target\<close>

text \<open>
  The installation is detected again and stored, whatever its path, before the row's owner is
  compared. \<open>ctx\<close> is the error of a context that is done.
\<close>

definition resolveLifecycleTarget ::
  "'h inst_config \<Rightarrow> inst_world \<Rightarrow> context_error option \<Rightarrow> string \<Rightarrow> inst_state
     \<Rightarrow> inst_state \<times> (instance_error + instance_row \<times> 'h \<times> lifecycle_installation)" where
  "resolveLifecycleTarget c w ctx i s =
     (if ic_registry c = None \<or> i = [] then (s, Inl instance_not_found)
      else case ctx of
        Some e \<Rightarrow> (s, Inl (ErrTarget (ErrManagementContext e)))
      | None \<Rightarrow>
     (case GetInstance (iz_inventory s) i of
        Inl e \<Rightarrow> (s, Inl (if e = ErrNoRows then instance_not_found else ErrInstanceTable e))
      | Inr row \<Rightarrow>
      if in_availability row \<noteq> Available then (s, Inl (ErrTarget ErrInstanceNotAvailable))
      else case wd_detect w of
        Inl _ \<Rightarrow> (s, Inl runtime_not_supported)
      | Inr d \<Rightarrow>
     (case di_selected d of
        None \<Rightarrow> (s, Inl runtime_not_supported)
      | Some sel \<Rightarrow>
      if di_state d \<noteq> DiscoverySupported then (s, Inl runtime_not_supported)
      else case ensureInstallation c w d sel s of
        (s1, Inl _) \<Rightarrow> (s1, Inl (ErrTarget ErrInstanceNotAvailable))
      | (s1, Inr accepted) \<Rightarrow>
          if ai_id accepted \<noteq> in_installation row then (s1, Inl (ErrTarget ErrInstanceNotAvailable))
          else (case hermes_bundle c of
                  None \<Rightarrow> (s1, Inl runtime_not_supported)
                | Some b \<Rightarrow>
                    (case bn_lifecycle b of
                       None \<Rightarrow> (s1, Inl runtime_not_supported)
                     | Some m \<Rightarrow>
                         (s1, Inr (row, m, \<lparr>li_executable = cn_path sel, li_version = cn_version sel\<rparr>)))))))"

subsection \<open>Reading, starting, cancelling\<close>

record lifecycle_view =
  lv_state :: lifecycle_state
  lv_active :: "string option"
  lv_observed_at :: time
  lv_error :: error_code

definition GetLifecycle ::
  "'h inst_config \<Rightarrow> inst_world \<Rightarrow> lifecycle_status \<Rightarrow> string \<Rightarrow> inst_state
     \<Rightarrow> inst_state \<times> (instance_error + lifecycle_view)" where
  "GetLifecycle c w status i s =
     (case resolveLifecycleTarget c w None i s of
        (s1, Inl e) \<Rightarrow> (s1, Inl e)
      | (s1, Inr (row, _, _)) \<Rightarrow>
          (case ActiveInstanceLifecycle (iz_db s1) (in_id row) of
             Inl e \<Rightarrow> (s1, Inl (ErrInstanceOperations e))
           | Inr found \<Rightarrow>
               (let view = \<lparr>lv_state = fst status, lv_active = map_option op_id found,
                            lv_observed_at = wd_now w, lv_error = []\<rparr>
                in case snd status of
                     None \<Rightarrow> (s1, Inr view)
                   | Some e \<Rightarrow>
                       (s1, Inr (view\<lparr>lv_state := LifecycleUnknown,
                                      lv_error := lifecycleErrorCode (FromManager e) []\<rparr>)))))"

text \<open>What \<open>StartDelete\<close> asks: whether the lifecycle is read and reported stopped.\<close>

definition lifecycle_stopped ::
  "'h inst_config \<Rightarrow> inst_world \<Rightarrow> lifecycle_status \<Rightarrow> string \<Rightarrow> inst_state \<Rightarrow> inst_state \<times> bool" where
  "lifecycle_stopped c w status i s =
     (case GetLifecycle c w status i s of
        (s1, Inl _) \<Rightarrow> (s1, False)
      | (s1, Inr v) \<Rightarrow> (s1, lv_state v = LifecycleStopped))"

definition StartLifecycle ::
  "'h inst_config \<Rightarrow> inst_world \<Rightarrow> string \<Rightarrow> string \<Rightarrow> string \<Rightarrow> inst_state
     \<Rightarrow> inst_state \<times> (instance_error + started)" where
  "StartLifecycle c w i action key s =
     (if \<not> ValidateIdempotencyKey key then (s, Inl ErrInstanceKey)
      else if \<not> validLifecycleAction action then (s, Inl runtime_not_supported)
      else case resolveLifecycleTarget c w None i s of
        (s1, Inl e) \<Rightarrow> (s1, Inl e)
      | (s1, Inr (row, _, _)) \<Rightarrow>
     (case GetOperationByIdempotencyKey (iz_db s1) key of
        Inl e \<Rightarrow> (s1, Inl (ErrInstanceOperations e))
      | Inr (Some existing) \<Rightarrow>
          if op_kind existing \<noteq> fst (lifecycleOperationShape action) \<or> op_target_id existing \<noteq> in_id row
          then (s1, Inl ErrInstanceConflict) else (s1, Inr (existing, False))
      | Inr None \<Rightarrow>
     (case ActiveInstanceMutation (iz_db s1) (in_installation row) of
        Inl e \<Rightarrow> (s1, Inl (ErrInstanceOperations e))
      | Inr (Some _) \<Rightarrow> (s1, Inl ErrInstanceConflict)
      | Inr None \<Rightarrow>
     (case ActiveInstanceLifecycle (iz_db s1) (in_id row) of
        Inl e \<Rightarrow> (s1, Inl (ErrInstanceOperations e))
      | Inr (Some _) \<Rightarrow> (s1, Inl ErrInstanceConflict)
      | Inr None \<Rightarrow>
     (case newOperationID (wd_rnd_id w) of
        None \<Rightarrow> (s1, Inl ErrInstanceRandom)
      | Some oid \<Rightarrow>
     (case newCorrelationID (wd_rnd_correlation w) of
        None \<Rightarrow> (s1, Inl ErrInstanceRandom)
      | Some cor \<Rightarrow>
          (let v = instance_operation (wd_now w) oid cor (fst (lifecycleOperationShape action))
                     TargetInstance (in_id row) action key in
           case CreateOperation (ic_message c) (iz_db s1) v of
             Inl e \<Rightarrow>
               (s1, Inl (if e = ErrDuplicateIdempotency \<or> e = ErrActiveInstanceMutation
                         then ErrInstanceConflict else ErrInstanceOperations e))
           | Inr db \<Rightarrow> (start_worker oid (put_db db s1), Inr (v, True)))))))))"

definition CancelLifecycle ::
  "'h inst_config \<Rightarrow> time \<Rightarrow> string \<Rightarrow> inst_state \<Rightarrow> inst_state \<times> (instance_error + operation)" where
  "CancelLifecycle c = cancel_instance_operation c isLifecycleOperation"

subsection \<open>The worker\<close>

definition lifecycle_succeeded :: "time \<Rightarrow> operation \<Rightarrow> operation" where
  "lifecycle_succeeded now current = instance_succeeded now StageLifecycleReconcile current"

definition lifecycle_failed :: "time \<Rightarrow> error_code \<Rightarrow> bool \<Rightarrow> operation \<Rightarrow> operation" where
  "lifecycle_failed now code retry current =
     (instance_failed now code retry current)\<lparr>op_stage := StageLifecycleReconcile\<rparr>"

definition succeedLifecycle :: "'h inst_config \<Rightarrow> time \<Rightarrow> operation \<Rightarrow> inst_state \<Rightarrow> inst_state" where
  "succeedLifecycle c now current = settle c current (lifecycle_succeeded now current)"

definition failLifecycle ::
  "'h inst_config \<Rightarrow> time \<Rightarrow> operation \<Rightarrow> error_code \<Rightarrow> bool \<Rightarrow> inst_state \<Rightarrow> inst_state" where
  "failLifecycle c now current code retry = settle c current (lifecycle_failed now code retry current)"

text \<open>
  \<open>ctx\<close>: the worker's context, done when a cancellation slipped in before the started mark;
  \<open>outcome\<close>: what the manager's call for the action returns.
\<close>

definition lifecycle_body ::
  "'h inst_config \<Rightarrow> inst_world \<Rightarrow> context_error option \<Rightarrow> lifecycle_error option \<Rightarrow> string \<Rightarrow> string
     \<Rightarrow> string \<Rightarrow> string \<Rightarrow> operation \<Rightarrow> inst_state \<Rightarrow> inst_state" where
  "lifecycle_body c w ctx outcome target inst native action running s =
     (case resolveLifecycleTarget c w ctx target s of
        (s1, Inl e) \<Rightarrow> failLifecycle c (wd_now w) running (lifecycleErrorCode (FromTarget e) action) True s1
      | (s1, Inr (row, _, _)) \<Rightarrow>
          if in_installation row \<noteq> inst \<or> in_native row \<noteq> native
          then failLifecycle c (wd_now w) running (lifecycleErrorCode NoFailure action) True s1
          else (case outcome of
                  Some e \<Rightarrow>
                    failLifecycle c (wd_now w) running (lifecycleErrorCode (FromManager e) action)
                      (lifecycleRetryable e) s1
                | None \<Rightarrow> succeedLifecycle c (wd_now w) running s1))"

definition runLifecycle ::
  "'h inst_config \<Rightarrow> inst_world \<Rightarrow> context_error option \<Rightarrow> lifecycle_error option \<Rightarrow> operation \<Rightarrow> string
     \<Rightarrow> string \<Rightarrow> string \<Rightarrow> stage \<Rightarrow> inst_state \<Rightarrow> inst_state" where
  "runLifecycle c w ctx outcome v inst native action stg s =
     (case begin_running c (wd_now w) stg (op_id v) s of
        (s1, None) \<Rightarrow> s1
      | (s1, Some running) \<Rightarrow> lifecycle_body c w ctx outcome (op_target_id v) inst native action running s1)"

text \<open>The worker's deferred function forgets the operation, its started mark included.\<close>

definition startLifecycleWorker ::
  "'h inst_config \<Rightarrow> inst_world \<Rightarrow> context_error option \<Rightarrow> lifecycle_error option \<Rightarrow> operation \<Rightarrow> string
     \<Rightarrow> string \<Rightarrow> string \<Rightarrow> stage \<Rightarrow> inst_state \<Rightarrow> inst_state" where
  "startLifecycleWorker c w ctx outcome v inst native action stg s =
     (let s1 = stop_worker (op_id v) (runLifecycle c w ctx outcome v inst native action stg s)
      in s1\<lparr>iz_started := filter (\<lambda>j. j \<noteq> op_id v) (iz_started s1)\<rparr>)"

subsection \<open>Recovery\<close>

definition recover_one_lifecycle ::
  "'h inst_config \<Rightarrow> inst_world \<Rightarrow> lifecycle_status \<Rightarrow> operation \<Rightarrow> inst_state
     \<Rightarrow> inst_state \<times> (instance_error + operation)" where
  "recover_one_lifecycle c w status current s =
     (if op_kind current = TypeInstanceRestart
      then persistRecoveredFail c (wd_now w) current ErrorLifecycleResultUnknown True s
      else case GetLifecycle c w status (op_target_id current) s of
        (s1, Inl _) \<Rightarrow> persistRecoveredFail c (wd_now w) current ErrorLifecycleResultUnknown True s1
      | (s1, Inr view) \<Rightarrow>
          if lv_state view = LifecycleUnknown
          then persistRecoveredFail c (wd_now w) current ErrorLifecycleResultUnknown True s1
          else if lv_state view =
                  (if op_kind current = TypeInstanceStop then LifecycleStopped else LifecycleRunning)
          then persistRecoveredSucceed c (wd_now w) current s1
          else persistRecoveredFail c (wd_now w) current ErrorOperationInterrupted True s1)"

fun recover_lifecycle ::
  "'h inst_config \<Rightarrow> (operation \<Rightarrow> inst_world \<times> lifecycle_status) \<Rightarrow> operation list \<Rightarrow> inst_state
     \<Rightarrow> inst_state \<times> operation list \<times> instance_error option" where
  "recover_lifecycle c w [] s = (s, [], None)"
| "recover_lifecycle c w (v # vs) s =
     (case GetOperation (iz_db s) (op_id v) of
        Inl e \<Rightarrow> (s, [], Some (ErrInstanceOperations e))
      | Inr current \<Rightarrow>
          if IsTerminal (op_status current) then recover_lifecycle c w vs s
          else (case recover_one_lifecycle c (fst (w v)) (snd (w v)) current s of
                  (s1, Inl e) \<Rightarrow> (s1, [], Some e)
                | (s1, Inr nxt) \<Rightarrow>
                    (case recover_lifecycle c w vs s1 of (s2, rest, e) \<Rightarrow> (s2, nxt # rest, e))))"

definition RecoverLifecycle ::
  "'h inst_config \<Rightarrow> (operation \<Rightarrow> inst_world \<times> lifecycle_status) \<Rightarrow> inst_state
     \<Rightarrow> inst_state \<times> operation list \<times> instance_error option" where
  "RecoverLifecycle c w s =
     (case ListActiveLifecycleOperations (iz_db s) of
        Inl e \<Rightarrow> (s, [], Some (ErrInstanceOperations e))
      | Inr ops \<Rightarrow> recover_lifecycle c w ops s)"

end
