(* ===== verification/Hermes_Lifecycle.thy ===== *)
theory Hermes_Lifecycle
  imports Hermes_Version Hermes_Profiles Lifecycle_Service
begin

text \<open>
  The Hermes lifecycle manager (runtime/hermes/lifecycle.go, lifecycle_contract.go): reading the
  gateway's status from the text of \<open>hermes gateway status\<close>, and starting, stopping and
  restarting it. Running a command is a parameter that turns the world into a new one; the timers
  of a wait are a schedule of what its \<open>select\<close> receives.
\<close>

subsection \<open>Arguments (lifecycle_contract.go)\<close>

definition lifecycleStatusRunning :: string where "lifecycleStatusRunning = ''Gateway process running''"
definition lifecycleStatusStopped :: string where "lifecycleStatusStopped = ''No gateway process detected''"
definition lifecycleManualStopped :: string where "lifecycleManualStopped = ''Gateway is not running''"
definition lifecycleTaskInstalled :: string where "lifecycleTaskInstalled = ''Scheduled Task registered''"
definition lifecycleStartupInstalled :: string where "lifecycleStartupInstalled = ''Windows login item installed''"
definition lifecycleServiceMissing :: string where "lifecycleServiceMissing = ''Gateway service not installed''"

definition lifecycleProfileArgs :: "string \<Rightarrow> string list \<Rightarrow> string list" where
  "lifecycleProfileArgs native args =
     (if native \<noteq> ''default'' then [''--profile'', native] else []) @ args"

definition lifecycleStatusArgs :: "string \<Rightarrow> string list" where
  "lifecycleStatusArgs native = lifecycleProfileArgs native [''gateway'', ''status'']"

definition lifecycleStartArgs :: "string \<Rightarrow> bool \<Rightarrow> string list" where
  "lifecycleStartArgs native present =
     (if present then lifecycleProfileArgs native [''gateway'', ''start'']
      else lifecycleProfileArgs native [''gateway'', ''install'', ''--no-start-on-login'', ''--start-now''])"

definition lifecycleStopArgs :: "string \<Rightarrow> string list" where
  "lifecycleStopArgs native = lifecycleProfileArgs native [''gateway'', ''stop'']"

definition lifecycleRestartArgs :: "string \<Rightarrow> string list" where
  "lifecycleRestartArgs native = lifecycleProfileArgs native [''gateway'', ''restart'']"

subsection \<open>The status text\<close>

record lifecycle_observation =
  lo_state :: lifecycle_state
  lo_login_item :: bool

text \<open>The runes U+2713 and U+2717 and a space.\<close>

definition check_mark :: string where "check_mark = [CHR 0xE2, CHR 0x9C, CHR 0x93, CHR 0x20]"
definition cross_mark :: string where "cross_mark = [CHR 0xE2, CHR 0x9C, CHR 0x97, CHR 0x20]"

text \<open>The four patterns, on a line without a line feed.\<close>

definition after_prefix :: "string \<Rightarrow> string \<Rightarrow> string option" where
  "after_prefix p line = (if HasPrefix line p then Some (drop (length p) line) else None)"

definition lifecycleTaskInstalledLine :: "string \<Rightarrow> bool" where
  "lifecycleTaskInstalledLine line \<longleftrightarrow>
     (case after_prefix (check_mark @ ''Scheduled Task registered: '') line of
        None \<Rightarrow> False
      | Some r \<Rightarrow> class_plus (\<lambda>c. is_alnum c \<or> c = CHR ''_'' \<or> c = CHR ''.'' \<or> c = CHR ''-'') r)"

definition lifecycleStartupInstalledLine :: "string \<Rightarrow> bool" where
  "lifecycleStartupInstalledLine line \<longleftrightarrow>
     (case after_prefix (check_mark @ ''Windows login item installed: '') line of
        None \<Rightarrow> False
      | Some r \<Rightarrow> r \<noteq> [] \<and> hd r \<notin> {CHR 0x09, CHR 0x0A, CHR 0x0C, CHR 0x0D, CHR 0x20})"

definition pid_tail :: "string \<Rightarrow> bool" where
  "pid_tail r \<longleftrightarrow>
     (let ds = takeWhile is_digit r
      in ds \<noteq> [] \<and> hd ds \<noteq> CHR ''0'' \<and> dropWhile is_digit r = '')'')"

definition lifecycleProcessRunningLine :: "string \<Rightarrow> bool" where
  "lifecycleProcessRunningLine line \<longleftrightarrow>
     (case after_prefix (check_mark @ ''Gateway process running (PID: '') line of
        None \<Rightarrow> False | Some r \<Rightarrow> pid_tail r)"

definition lifecycleManualRunningLine :: "string \<Rightarrow> bool" where
  "lifecycleManualRunningLine line \<longleftrightarrow>
     (case after_prefix (check_mark @ ''Gateway is running (PID: '') line of
        None \<Rightarrow> False | Some r \<Rightarrow> pid_tail r)"

definition containsLifecycleSignal :: "string \<Rightarrow> bool" where
  "containsLifecycleSignal line \<longleftrightarrow>
     list_ex (Contains line)
       [lifecycleStatusRunning, lifecycleStatusStopped, ''Gateway is running'', lifecycleManualStopped,
        lifecycleTaskInstalled, lifecycleStartupInstalled, lifecycleServiceMissing]"

record signal_counts =
  sc_running :: nat
  sc_stopped :: nat
  sc_installed :: nat
  sc_missing :: nat
  sc_manual_running :: nat
  sc_manual_stopped :: nat
  sc_invalid :: bool

definition count_line :: "string \<Rightarrow> signal_counts \<Rightarrow> signal_counts" where
  "count_line raw k =
     (let line = TrimSpace raw in
      if line = [] then k
      else if lifecycleTaskInstalledLine line \<or> lifecycleStartupInstalledLine line
      then k\<lparr>sc_installed := sc_installed k + 1\<rparr>
      else if line = cross_mark @ lifecycleServiceMissing then k\<lparr>sc_missing := sc_missing k + 1\<rparr>
      else if lifecycleProcessRunningLine line then k\<lparr>sc_running := sc_running k + 1\<rparr>
      else if line = cross_mark @ lifecycleStatusStopped then k\<lparr>sc_stopped := sc_stopped k + 1\<rparr>
      else if lifecycleManualRunningLine line then k\<lparr>sc_manual_running := sc_manual_running k + 1\<rparr>
      else if line = cross_mark @ lifecycleManualStopped
      then k\<lparr>sc_manual_stopped := sc_manual_stopped k + 1\<rparr>
      else k\<lparr>sc_invalid := (sc_invalid k \<or> containsLifecycleSignal line)\<rparr>)"

definition no_signals :: signal_counts where
  "no_signals =
     \<lparr>sc_running = 0, sc_stopped = 0, sc_installed = 0, sc_missing = 0, sc_manual_running = 0,
      sc_manual_stopped = 0, sc_invalid = False\<rparr>"

type_synonym observed = "lifecycle_observation \<times> lifecycle_error option"

definition unknown_observation :: "lifecycle_error \<Rightarrow> observed" where
  "unknown_observation e = (\<lparr>lo_state = LifecycleUnknown, lo_login_item = False\<rparr>, Some e)"

definition parseLifecycleStatus :: "string \<Rightarrow> observed" where
  "parseLifecycleStatus output =
     (let k = fold count_line
                (split_on CHR 0x0A (ReplaceAll output [CHR 0x0D, CHR 0x0A] [CHR 0x0A])) no_signals in
      if sc_invalid k then unknown_observation ErrLifecycleOutputUnrecognized
      else if sc_running k + sc_stopped k = 1 \<and> sc_installed k + sc_missing k = 1
              \<and> sc_manual_running k + sc_manual_stopped k = 0
      then (\<lparr>lo_state = (if sc_running k = 1 then LifecycleRunning else LifecycleStopped),
             lo_login_item = (sc_installed k = 1)\<rparr>, None)
      else if sc_running k + sc_stopped k + sc_installed k + sc_missing k = 0
              \<and> sc_manual_running k + sc_manual_stopped k = 1
      then (\<lparr>lo_state = (if sc_manual_running k = 1 then LifecycleRunning else LifecycleStopped),
             lo_login_item = False\<rparr>, None)
      else unknown_observation ErrLifecycleOutputUnrecognized)"

subsection \<open>Commands\<close>

text \<open>
  The manager: the command runner over a world \<open>'w\<close>, whether a path is absolute, and
  \<open>strings.ToLower\<close> on text that is not ASCII.
\<close>

record run_result =
  rr_limited :: bool
  rr_timed_out :: bool
  rr_error :: "run_error option"
  rr_exit :: int
  rr_stdout :: string
  rr_stderr :: string

record 'w gateway =
  gw_run :: "string \<Rightarrow> string list \<Rightarrow> bool \<Rightarrow> 'w \<Rightarrow> 'w \<times> run_result"
  gw_is_abs :: "string \<Rightarrow> bool"
  gw_to_lower :: "string \<Rightarrow> string"

definition validateLifecycleTarget ::
  "'w gateway \<Rightarrow> lifecycle_installation \<Rightarrow> string \<Rightarrow> lifecycle_error option" where
  "validateLifecycleTarget m inst native =
     (if \<not> isSupportedHermesVersion (li_version inst) \<or> li_executable inst = []
         \<or> \<not> gw_is_abs m (li_executable inst) then Some ErrLifecycleQueryFailed
      else if officialNormalizeProfileName (gw_to_lower m) native \<noteq> Some native
              \<or> \<not> officialValidateProfileName native then Some ErrLifecycleQueryFailed
      else None)"

definition observe_gateway ::
  "'w gateway \<Rightarrow> lifecycle_installation \<Rightarrow> string \<Rightarrow> 'w \<Rightarrow> 'w \<times> observed" where
  "observe_gateway m inst native w =
     (case validateLifecycleTarget m inst native of
        Some e \<Rightarrow> (w, unknown_observation e)
      | None \<Rightarrow>
          (let (w1, r) = gw_run m (li_executable inst) (lifecycleStatusArgs native) False w in
           if rr_limited r then (w1, unknown_observation ErrLifecycleQueryFailed)
           else if rr_timed_out r \<or> rr_error r = Some RunDeadline
           then (w1, unknown_observation ErrLifecycleQueryFailed)
           else if rr_error r \<noteq> None \<or> rr_exit r \<noteq> 0 \<or> TrimSpace (rr_stderr r) \<noteq> []
           then (w1, unknown_observation ErrLifecycleQueryFailed)
           else (w1, parseLifecycleStatus (rr_stdout r))))"

definition mutate_gateway ::
  "'w gateway \<Rightarrow> lifecycle_installation \<Rightarrow> string \<Rightarrow> string list \<Rightarrow> bool \<Rightarrow> 'w \<Rightarrow> 'w \<times> lifecycle_error option" where
  "mutate_gateway m inst native args breakaway w =
     (case validateLifecycleTarget m inst native of
        Some e \<Rightarrow> (w, Some e)
      | None \<Rightarrow>
          (let (w1, r) = gw_run m (li_executable inst) args breakaway w in
           if rr_limited r \<or> rr_timed_out r \<or> rr_error r \<noteq> None \<or> rr_exit r \<noteq> 0
           then (w1, Some ErrLifecycleMutationFailed) else (w1, None)))"

definition gateway_Status ::
  "'w gateway \<Rightarrow> lifecycle_installation \<Rightarrow> string \<Rightarrow> 'w \<Rightarrow> 'w \<times> lifecycle_status" where
  "gateway_Status m inst native w =
     (let (w1, (ob, e)) = observe_gateway m inst native w in (w1, lo_state ob, e))"

subsection \<open>Waiting for a state\<close>

text \<open>
  After a reading that is not the expected one, the \<open>select\<close> takes a tick, the deadline or the
  end of the context. \<open>None\<close>: the schedule has run out and the wait goes on.
\<close>

datatype wait_event = WaitTick | WaitDeadline | WaitDone context_error

fun await_state ::
  "'w gateway \<Rightarrow> lifecycle_installation \<Rightarrow> string \<Rightarrow> lifecycle_state \<Rightarrow> wait_event list \<Rightarrow> 'w
     \<Rightarrow> ('w \<times> lifecycle_error option) option" where
  "await_state m inst native expected evs w =
     (case gateway_Status m inst native w of (w1, state, e) \<Rightarrow>
        if e = None \<and> state = expected then Some (w1, None)
        else case evs of
               [] \<Rightarrow> None
             | WaitDone x # _ \<Rightarrow> Some (w1, Some (ErrLifecycleContext x))
             | WaitDeadline # _ \<Rightarrow> Some (w1, Some ErrLifecyclePostcondition)
             | WaitTick # rest \<Rightarrow> await_state m inst native expected rest w1)"

declare await_state.simps [simp del]

definition mutate_and_await ::
  "'w gateway \<Rightarrow> lifecycle_installation \<Rightarrow> string \<Rightarrow> string list \<Rightarrow> bool \<Rightarrow> lifecycle_state
     \<Rightarrow> wait_event list \<Rightarrow> 'w \<Rightarrow> ('w \<times> lifecycle_error option) option" where
  "mutate_and_await m inst native args breakaway expected evs w =
     (case mutate_gateway m inst native args breakaway w of
        (w1, Some e) \<Rightarrow> Some (w1, Some e)
      | (w1, None) \<Rightarrow> await_state m inst native expected evs w1)"

definition gateway_Start ::
  "'w gateway \<Rightarrow> lifecycle_installation \<Rightarrow> string \<Rightarrow> wait_event list \<Rightarrow> 'w
     \<Rightarrow> ('w \<times> lifecycle_error option) option" where
  "gateway_Start m inst native evs w =
     (case observe_gateway m inst native w of
        (w1, _, Some e) \<Rightarrow> Some (w1, Some e)
      | (w1, before, None) \<Rightarrow>
          if lo_state before = LifecycleRunning then Some (w1, None)
          else mutate_and_await m inst native (lifecycleStartArgs native (lo_login_item before)) True
                 LifecycleRunning evs w1)"

definition gateway_Stop ::
  "'w gateway \<Rightarrow> lifecycle_installation \<Rightarrow> string \<Rightarrow> wait_event list \<Rightarrow> 'w
     \<Rightarrow> ('w \<times> lifecycle_error option) option" where
  "gateway_Stop m inst native evs w =
     (case observe_gateway m inst native w of
        (w1, _, Some e) \<Rightarrow> Some (w1, Some e)
      | (w1, before, None) \<Rightarrow>
          if lo_state before = LifecycleStopped then Some (w1, None)
          else mutate_and_await m inst native (lifecycleStopArgs native) False LifecycleStopped evs w1)"

definition gateway_Restart ::
  "'w gateway \<Rightarrow> lifecycle_installation \<Rightarrow> string \<Rightarrow> wait_event list \<Rightarrow> wait_event list \<Rightarrow> 'w
     \<Rightarrow> ('w \<times> lifecycle_error option) option" where
  "gateway_Restart m inst native evs evs' w =
     (case observe_gateway m inst native w of
        (w1, _, Some e) \<Rightarrow> Some (w1, Some e)
      | (w1, before, None) \<Rightarrow>
          if lo_state before \<noteq> LifecycleRunning then Some (w1, Some ErrInstanceNotRunning)
          else (case mutate_and_await m inst native (lifecycleStopArgs native) False LifecycleStopped evs w1 of
                  None \<Rightarrow> None
                | Some (w2, Some e) \<Rightarrow> Some (w2, Some e)
                | Some (w2, None) \<Rightarrow>
                    mutate_and_await m inst native (lifecycleStartArgs native (lo_login_item before)) True
                      LifecycleRunning evs' w2))"

definition containsLifecycleVerb :: "string list \<Rightarrow> string \<Rightarrow> bool" where
  "containsLifecycleVerb args verb \<longleftrightarrow>
     list_ex (\<lambda>i. args ! i = ''gateway'' \<and> args ! (i + 1) = verb) [0..<length args - 1]"

text \<open>Seconds that a command of the given arguments may take (\<open>runLifecycleCommand\<close>).\<close>

definition lifecycle_timeout :: "string list \<Rightarrow> nat" where
  "lifecycle_timeout args =
     (if containsLifecycleVerb args ''stop'' \<or> containsLifecycleVerb args ''restart'' then 55 else 35)"

end
