(* ===== verification/Hermes_Protocol.thy ===== *)
theory Hermes_Protocol
  imports Backup_Manifest Runtime_Codes
begin

text \<open>
  The protocol with the official installer script (runtime/hermes/protocol.go): the reviewed
  manifest, the stages that may run, and the reading of the frames the script prints. An error
  keeps its code only.
\<close>

definition stageResultLimit :: nat where "stageResultLimit = 64 * 1024"

definition officialProtocol :: int where "officialProtocol = 1"

record manifest_stage =
  sg_name :: string
  sg_title :: string
  sg_category :: string
  sg_needs_input :: bool

record installer_manifest =
  im_protocol :: int
  im_stages :: "manifest_stage list"

record stage_result =
  sr_stage :: string
  sr_ok :: bool
  sr_skipped :: bool
  sr_reason :: string
  sr_duration :: int

definition stage_of :: "string \<Rightarrow> string \<Rightarrow> string \<Rightarrow> bool \<Rightarrow> manifest_stage" where
  "stage_of name title category input =
     \<lparr>sg_name = name, sg_title = title, sg_category = category, sg_needs_input = input\<rparr>"

definition reviewedManifest :: installer_manifest where
  "reviewedManifest =
     \<lparr>im_protocol = officialProtocol,
      im_stages =
       [stage_of ''uv'' ''Installing uv package manager'' ''prereqs'' False,
        stage_of ''python'' ''Verifying Python'' ''prereqs'' False,
        stage_of ''git'' ''Installing Git'' ''prereqs'' False,
        stage_of ''node'' ''Detecting Node.js'' ''prereqs'' False,
        stage_of ''system-packages'' ''Installing ripgrep and ffmpeg'' ''prereqs'' False,
        stage_of ''repository'' ''Cloning Hermes repository'' ''install'' False,
        stage_of ''venv'' ''Creating Python virtual environment'' ''install'' False,
        stage_of ''dependencies'' ''Installing Python dependencies'' ''install'' False,
        stage_of ''node-deps'' ''Installing Node.js dependencies'' ''install'' False,
        stage_of ''path'' ''Adding Hermes to PATH'' ''finalize'' False,
        stage_of ''config-templates'' ''Writing configuration templates'' ''finalize'' False,
        stage_of ''platform-sdks'' ''Installing messaging platform SDKs'' ''finalize'' False,
        stage_of ''bootstrap-marker'' ''Marking install complete'' ''finalize'' False,
        stage_of ''configure'' ''Configuring API keys and models'' ''post-install'' True,
        stage_of ''gateway'' ''Starting messaging gateway'' ''post-install'' True]\<rparr>"

definition approvedInstallStages :: "string list" where
  "approvedInstallStages =
     [''uv'', ''python'', ''git'', ''node'', ''system-packages'', ''repository'', ''venv'',
      ''dependencies'', ''node-deps'', ''path'', ''config-templates'', ''bootstrap-marker'']"

definition excludedInstallStages :: "string list" where
  "excludedInstallStages = [''desktop'', ''platform-sdks'', ''configure'', ''gateway'']"

definition yorvaOwnedOfficialStages :: "string list" where
  "yorvaOwnedOfficialStages = [''node'', ''node-deps'']"

definition isApprovedStage :: "string \<Rightarrow> bool" where
  "isApprovedStage name \<longleftrightarrow> name \<in> set approvedInstallStages"

definition isExcludedStage :: "string \<Rightarrow> bool" where
  "isExcludedStage name \<longleftrightarrow> name \<in> set excludedInstallStages"

definition isYorvaOwnedOfficialStage :: "string \<Rightarrow> bool" where
  "isYorvaOwnedOfficialStage name \<longleftrightarrow> name \<in> set yorvaOwnedOfficialStages"

subsection \<open>The last frame\<close>

text \<open>The last line that is not blank must be a JSON object; \<open>None\<close> is any of the three errors.\<close>

fun last_frame :: "string list \<Rightarrow> string option" where
  "last_frame [] = None"
| "last_frame (line # ls) =
     (let cand = TrimSpace line in
      if cand = [] then last_frame ls
      else if json_parse cand = None \<or> \<not> HasPrefix cand ''{'' then None
      else Some cand)"

definition lastJSONObject :: "string \<Rightarrow> string option" where
  "lastJSONObject output =
     (if length output > stageResultLimit then None
      else let trimmed = TrimSpace output in
           if trimmed = [] then None else last_frame (rev (split_on CHR 0x0A trimmed)))"

subsection \<open>Frames\<close>

definition zero_stage :: manifest_stage where
  "zero_stage = stage_of [] [] [] False"

definition stage_fields :: "(string \<times> manifest_stage field_setter) list" where
  "stage_fields =
     [(''name'', set_string (\<lambda>v x. x\<lparr>sg_name := v\<rparr>)),
      (''title'', set_string (\<lambda>v x. x\<lparr>sg_title := v\<rparr>)),
      (''category'', set_string (\<lambda>v x. x\<lparr>sg_category := v\<rparr>)),
      (''needs_user_input'', set_bool (\<lambda>v x. x\<lparr>sg_needs_input := v\<rparr>))]"

text \<open>
  A slice keeps its backing array when a repeated key decodes into it again, so a target holds the
  elements written so far and the length.
\<close>

record manifest_target =
  mt_protocol :: int
  mt_backing :: "manifest_stage list"
  mt_length :: nat

fun decode_stages :: "jval list \<Rightarrow> manifest_stage list \<Rightarrow> manifest_stage list option" where
  "decode_stages [] old = Some old"
| "decode_stages (v # vs) old =
     (let x = (if old = [] then zero_stage else hd old)
      in case v of
           VObj kvs \<Rightarrow>
             Option.bind (decode_struct stage_fields kvs x)
               (\<lambda>y. map_option ((#) y) (decode_stages vs (tl old)))
         | VNull \<Rightarrow> map_option ((#) x) (decode_stages vs (tl old))
         | _ \<Rightarrow> None)"

definition set_stages :: "manifest_target field_setter" where
  "set_stages v x =
     (case v of
        VArr vs \<Rightarrow>
          if vs = [] then Some (x\<lparr>mt_backing := [], mt_length := 0\<rparr>)
          else map_option (\<lambda>b. x\<lparr>mt_backing := b, mt_length := length vs\<rparr>)
                 (decode_stages vs (mt_backing x))
      | VNull \<Rightarrow> Some (x\<lparr>mt_backing := [], mt_length := 0\<rparr>)
      | _ \<Rightarrow> None)"

definition target_fields :: "(string \<times> manifest_target field_setter) list" where
  "target_fields =
     [(''protocol_version'', set_int (\<lambda>v x. x\<lparr>mt_protocol := v\<rparr>)), (''stages'', set_stages)]"

definition decode_installer_manifest :: "string \<Rightarrow> installer_manifest option" where
  "decode_installer_manifest frame =
     (case json_first frame of
        Some (VObj kvs, _) \<Rightarrow>
          map_option (\<lambda>x. \<lparr>im_protocol = mt_protocol x, im_stages = take (mt_length x) (mt_backing x)\<rparr>)
            (decode_struct target_fields kvs \<lparr>mt_protocol = 0, mt_backing = [], mt_length = 0\<rparr>)
      | _ \<Rightarrow> None)"

text \<open>The loop over the stages; the expected one is at the same index.\<close>

fun stages_match :: "string list \<Rightarrow> manifest_stage list \<Rightarrow> manifest_stage list \<Rightarrow> bool" where
  "stages_match seen [] want = True"
| "stages_match seen (g # gs) want =
     (if sg_name g \<in> set seen \<or> sg_name g = [] then False
      else case want of
        [] \<Rightarrow> False
      | w # ws \<Rightarrow>
          if sg_name g \<noteq> sg_name w \<or> sg_category g \<noteq> sg_category w
             \<or> sg_needs_input g \<noteq> sg_needs_input w then False
          else stages_match (sg_name g # seen) gs ws)"

text \<open>\<open>None\<close> is success, as a nil error.\<close>

definition parseAndValidateManifest :: "string \<Rightarrow> error_code option" where
  "parseAndValidateManifest output =
     (case lastJSONObject output of
        None \<Rightarrow> Some ErrorRuntimeInstallManifestMismatch
      | Some frame \<Rightarrow>
     (case decode_installer_manifest frame of
        None \<Rightarrow> Some ErrorRuntimeInstallManifestMismatch
      | Some m \<Rightarrow>
          if im_protocol m \<noteq> im_protocol reviewedManifest
             \<or> length (im_stages m) \<noteq> length (im_stages reviewedManifest)
          then Some ErrorRuntimeInstallManifestMismatch
          else if \<not> stages_match [] (im_stages m) (im_stages reviewedManifest)
          then Some ErrorRuntimeInstallManifestMismatch
          else if ''desktop'' \<in> sg_name ` set (im_stages m)
          then Some ErrorRuntimeInstallManifestMismatch
          else None))"

definition parseProtocolVersion :: "string \<Rightarrow> error_code option" where
  "parseProtocolVersion output =
     (if TrimSpace output \<noteq> ''1'' then Some ErrorRuntimeInstallProtocolUnsupported else None)"

definition result_fields :: "(string \<times> stage_result field_setter) list" where
  "result_fields =
     [(''stage'', set_string (\<lambda>v x. x\<lparr>sr_stage := v\<rparr>)),
      (''ok'', set_bool (\<lambda>v x. x\<lparr>sr_ok := v\<rparr>)),
      (''skipped'', set_bool (\<lambda>v x. x\<lparr>sr_skipped := v\<rparr>)),
      (''reason'', set_string (\<lambda>v x. x\<lparr>sr_reason := v\<rparr>)),
      (''duration_ms'', set_int (\<lambda>v x. x\<lparr>sr_duration := v\<rparr>))]"

text \<open>\<open>json.Unmarshal\<close> ignores members that name no field.\<close>

definition known_members :: "(string \<times> 'a field_setter) list \<Rightarrow> (string \<times> jval) list \<Rightarrow> (string \<times> jval) list" where
  "known_members fs = filter (\<lambda>(k, _). \<not> Option.is_none (find_field fs k))"

definition zero_result :: stage_result where
  "zero_result = \<lparr>sr_stage = [], sr_ok = False, sr_skipped = False, sr_reason = [], sr_duration = 0\<rparr>"

definition decode_result :: "string \<Rightarrow> stage_result option" where
  "decode_result frame =
     (case json_parse frame of
        Some (VObj kvs) \<Rightarrow> decode_struct result_fields (known_members result_fields kvs) zero_result
      | _ \<Rightarrow> None)"

definition parseStageResult :: "string \<Rightarrow> string \<Rightarrow> error_code + stage_result" where
  "parseStageResult requested output =
     (case lastJSONObject output of
        None \<Rightarrow> Inl ErrorRuntimeInstallStageFailed
      | Some frame \<Rightarrow>
     (case decode_result frame of
        None \<Rightarrow> Inl ErrorRuntimeInstallStageFailed
      | Some r \<Rightarrow>
          if sr_stage r \<noteq> requested then Inl ErrorRuntimeInstallStageFailed else Inr r))"

end
