(* ===== verification/Hermes_Properties.thy ===== *)
theory Hermes_Properties
  imports Hermes_Lifecycle Hermes_Protocol
begin

text \<open>
  What the adapter of the Hermes runtime reads and waits for: the accepted profile tables as a
  grammar, and that starting, stopping and restarting the gateway end, with success only after
  the expected state was observed.
\<close>

subsection \<open>Waiting\<close>

definition observed_in :: "'w gateway \<Rightarrow> lifecycle_installation \<Rightarrow> string \<Rightarrow> lifecycle_state \<Rightarrow> 'w \<Rightarrow> bool" where
  "observed_in m inst native state w \<longleftrightarrow>
     (\<exists>w0 ob. observe_gateway m inst native w0 = (w, ob, None) \<and> lo_state ob = state)"

lemma status_observed:
  "gateway_Status m inst native w = (w', state, None) \<Longrightarrow> observed_in m inst native state w'"
  by (auto simp: gateway_Status_def observed_in_def split: prod.splits)

text \<open>The wait ends at the latest with the first event that is not a tick.\<close>

lemma await_returns:
  "\<exists>e \<in> set evs. e \<noteq> WaitTick \<Longrightarrow>
   \<exists>w' r. await_state m inst native expected evs w = Some (w', r)
     \<and> (r = None \<longrightarrow> observed_in m inst native expected w')"
proof (induction evs arbitrary: w)
  case (Cons e evs)
  obtain w1 state err where st: "gateway_Status m inst native w = (w1, state, err)"
    by (cases "gateway_Status m inst native w") auto
  show ?case
  proof (cases "err = None \<and> state = expected")
    case True
    then show ?thesis using status_observed [of m inst native w w1 state] st
      by (subst await_state.simps) simp
  next
    case False
    then have step: "await_state m inst native expected (e # evs) w =
       (case e of WaitDone x \<Rightarrow> Some (w1, Some (ErrLifecycleContext x))
        | WaitDeadline \<Rightarrow> Some (w1, Some ErrLifecyclePostcondition)
        | WaitTick \<Rightarrow> await_state m inst native expected evs w1)"
      by (subst await_state.simps) (auto simp: st split: wait_event.splits)
    show ?thesis using Cons.IH [of w1] Cons.prems step by (cases e) auto
  qed
qed simp

lemma mutate_and_await_returns:
  "\<exists>e \<in> set evs. e \<noteq> WaitTick \<Longrightarrow>
   \<exists>w' r. mutate_and_await m inst native args b expected evs w = Some (w', r)
     \<and> (r = None \<longrightarrow> observed_in m inst native expected w')"
  using await_returns [of evs m inst native expected]
  by (auto simp: mutate_and_await_def split: prod.splits option.splits)

text \<open>
  C12. Starting, stopping and restarting the gateway end: as soon as the timers deliver the
  deadline or the end of the context, whatever the commands print, the call returns; and it
  returns without an error only when the last thing it did was to observe the state it was asked
  for (after a restart, having observed the gateway stopped before).
\<close>

theorem gateway_calls_return:
  assumes "\<exists>e \<in> set evs. e \<noteq> WaitTick" and "\<exists>e \<in> set evs'. e \<noteq> WaitTick"
  shows "(\<exists>w' r. gateway_Start m inst native evs w = Some (w', r)
            \<and> (r = None \<longrightarrow> observed_in m inst native LifecycleRunning w'))
    \<and> (\<exists>w' r. gateway_Stop m inst native evs w = Some (w', r)
            \<and> (r = None \<longrightarrow> observed_in m inst native LifecycleStopped w'))
    \<and> (\<exists>w' r. gateway_Restart m inst native evs evs' w = Some (w', r)
            \<and> (r = None \<longrightarrow> observed_in m inst native LifecycleRunning w'
                             \<and> (\<exists>w1. observed_in m inst native LifecycleStopped w1)))"
proof -
  obtain w1 ob err where ob: "observe_gateway m inst native w = (w1, ob, err)"
    by (cases "observe_gateway m inst native w") auto
  have seen: "observed_in m inst native (lo_state ob) w1" if "err = None"
    using ob that by (auto simp: observed_in_def)
  note wait = mutate_and_await_returns [OF assms(1), of m inst native]
  note wait' = mutate_and_await_returns [OF assms(2), of m inst native]
  have "\<exists>w' r. gateway_Start m inst native evs w = Some (w', r)
      \<and> (r = None \<longrightarrow> observed_in m inst native LifecycleRunning w')"
    using seen wait by (auto simp: gateway_Start_def ob split: option.splits)
  moreover have "\<exists>w' r. gateway_Stop m inst native evs w = Some (w', r)
      \<and> (r = None \<longrightarrow> observed_in m inst native LifecycleStopped w')"
    using seen wait by (auto simp: gateway_Stop_def ob split: option.splits)
  moreover have "\<exists>w' r. gateway_Restart m inst native evs evs' w = Some (w', r)
      \<and> (r = None \<longrightarrow> observed_in m inst native LifecycleRunning w'
                       \<and> (\<exists>w1. observed_in m inst native LifecycleStopped w1))"
  proof (cases "err = None \<and> lo_state ob = LifecycleRunning")
    case True
    obtain w2 r2 where stop: "mutate_and_await m inst native (lifecycleStopArgs native) False
        LifecycleStopped evs w1 = Some (w2, r2)" "r2 = None \<longrightarrow> observed_in m inst native LifecycleStopped w2"
      using wait by blast
    obtain w3 r3 where start: "mutate_and_await m inst native (lifecycleStartArgs native (lo_login_item ob))
        True LifecycleRunning evs' w2 = Some (w3, r3)" "r3 = None \<longrightarrow> observed_in m inst native LifecycleRunning w3"
      using wait' by blast
    show ?thesis using True stop start by (cases r2) (auto simp: gateway_Restart_def ob)
  qed (auto simp: gateway_Restart_def ob split: option.splits)
  ultimately show ?thesis by blast
qed

definition gateway_sample :: "nat gateway" where
  "gateway_sample =
     \<lparr>gw_run = (\<lambda>_ args _ w. (w + 1, \<lparr>rr_limited = False, rr_timed_out = False, rr_error = None, rr_exit = 0,
         rr_stdout = (if w < 3 then cross_mark @ ''Gateway is not running''
                      else check_mark @ ''Gateway is running (PID: 7)''), rr_stderr = []\<rparr>)),
      gw_is_abs = (\<lambda>_. True), gw_to_lower = (\<lambda>s. s)\<rparr>"

theorem gateway_calls_return_witness:
  "\<exists>w' r. gateway_Start gateway_sample \<lparr>li_executable = ''hermes'', li_version = ''0.20.2''\<rparr> ''default''
     [WaitTick, WaitTick, WaitDeadline] 0 = Some (w', r)
     \<and> (r = None \<longrightarrow> observed_in gateway_sample \<lparr>li_executable = ''hermes'', li_version = ''0.20.2''\<rparr>
                        ''default'' LifecycleRunning w')"
  by (rule gateway_calls_return [of "[WaitTick, WaitTick, WaitDeadline]" "[WaitDeadline]", THEN conjunct1])
    simp_all

subsection \<open>The profile table\<close>

text \<open>The rows of a table: lines that are not blank, each of them a profile, then only blank lines.\<close>

definition rows_of :: "string list \<Rightarrow> parsed_profile list \<Rightarrow> string list \<Rightarrow> bool" where
  "rows_of rows ps post \<longleftrightarrow>
     (\<forall>l \<in> set rows. \<not> blank l) \<and> (\<forall>l \<in> set post. blank l)
     \<and> map parseOfficialProfileListRow rows = map Some ps"

lemma rows_of_Nil: "rows_of [] ps post \<longleftrightarrow> ps = [] \<and> (\<forall>l \<in> set post. blank l)"
  by (auto simp: rows_of_def)

lemma rows_of_Cons:
  "rows_of (l # rows) ps post \<longleftrightarrow>
     (\<exists>p ps'. ps = p # ps' \<and> \<not> blank l \<and> parseOfficialProfileListRow l = Some p \<and> rows_of rows ps' post)"
  by (cases ps) (auto simp: rows_of_def)

lemma profile_rows_sound:
  "profile_rows seen ls = Inr ps \<Longrightarrow>
   \<exists>rows post. ls = rows @ post \<and> rows_of rows ps post
     \<and> distinct (map pp_name ps) \<and> set (map pp_name ps) \<inter> set seen = {}"
proof (induction seen ls arbitrary: ps rule: profile_rows.induct)
  case (2 seen line rest)
  show ?case
  proof (cases "blank line")
    case True
    with 2 have "ps = []" "\<forall>l \<in> set (line # rest). blank l"
      by (auto simp: anyNonEmpty_def list_all_iff split: if_splits)
    then show ?thesis by (intro exI [of _ "[]"] exI [of _ "line # rest"]) (simp add: rows_of_Nil)
  next
    case False
    with 2 obtain p ps' where p: "parseOfficialProfileListRow line = Some p" "pp_name p \<notin> set seen"
      and rest: "profile_rows (pp_name p # seen) rest = Inr ps'" and ps: "ps = p # ps'"
      by (auto split: option.splits if_splits sum.splits)
    from "2.IH" [OF False p rest] obtain rows post where "rest = rows @ post" "rows_of rows ps' post"
      "distinct (map pp_name ps')" "set (map pp_name ps') \<inter> set (pp_name p # seen) = {}" by blast
    with False p ps show ?thesis
      by (intro exI [of _ "line # rows"] exI [of _ post]) (auto simp: rows_of_Cons)
  qed
qed (auto simp: rows_of_Nil)

lemma profile_rows_complete:
  "rows_of rows ps post \<Longrightarrow> distinct (map pp_name ps) \<Longrightarrow> set (map pp_name ps) \<inter> set seen = {}
   \<Longrightarrow> profile_rows seen (rows @ post) = Inr ps"
proof (induction rows arbitrary: ps seen)
  case Nil
  then show ?case by (cases post) (auto simp: rows_of_Nil anyNonEmpty_def list_all_iff)
next
  case (Cons l rows)
  then obtain p ps' where "ps = p # ps'" "\<not> blank l" "parseOfficialProfileListRow l = Some p"
    "rows_of rows ps' post" by (auto simp: rows_of_Cons)
  with Cons.IH [of ps' "pp_name p # seen"] Cons.prems show ?case by auto
qed

definition profile_grammar :: "string list \<Rightarrow> parsed_profile list \<Rightarrow> bool" where
  "profile_grammar ls ps \<longleftrightarrow>
     (\<exists>pre h gap sep gap' rows post. ls = pre @ h # gap @ sep # gap' @ rows @ post
        \<and> (\<forall>l \<in> set pre. blank l \<and> \<not> isOfficialProfileListHeader l) \<and> isOfficialProfileListHeader h
        \<and> (\<forall>l \<in> set gap. blank l) \<and> isOfficialProfileListSeparator sep \<and> (\<forall>l \<in> set gap'. blank l)
        \<and> rows_of rows ps post \<and> ps \<noteq> [] \<and> distinct (map pp_name ps))"

lemma separator_not_blank: "isOfficialProfileListSeparator l \<Longrightarrow> \<not> blank l"
  by (auto simp: isOfficialProfileListSeparator_def blank_def Let_def)

lemma drop_blank: "\<forall>l \<in> set gap. blank l \<Longrightarrow> \<not> blank x \<Longrightarrow> dropWhile blank (gap @ x # xs) = x # xs"
  by (induction gap) auto

lemma blank_split: "\<exists>gap. ls = gap @ dropWhile blank ls \<and> (\<forall>l \<in> set gap. blank l)"
  by (metis set_takeWhileD takeWhile_dropWhile_id)

lemma parse_table_sound:
  assumes "parse_table ls = Inr ps"
  shows "profile_grammar ls ps"
proof -
  let ?h = "\<lambda>l. \<not> isOfficialProfileListHeader l"
  let ?pre = "takeWhile ?h ls"
  from assms obtain h ls1 where h: "dropWhile ?h ls = h # ls1" and pre: "\<not> anyNonEmpty ?pre"
    by (cases "dropWhile ?h ls") (auto simp: parse_table_def Let_def split: if_splits)
  have hd: "isOfficialProfileListHeader h" using h by (metis hd_dropWhile list.sel(1) list.distinct(1))
  from assms h pre obtain sep ls2 where sep: "dropWhile blank ls1 = sep # ls2"
    "isOfficialProfileListSeparator sep"
    by (auto simp: parse_table_def Let_def split: list.splits if_splits)
  from assms h pre sep obtain r rs where rows: "dropWhile blank ls2 = r # rs"
    "profile_rows [] (r # rs) = Inr ps" "ps \<noteq> []"
    by (auto simp: parse_table_def Let_def split: list.splits if_splits sum.splits)
  from profile_rows_sound [OF rows(2)] obtain rows post where rp: "r # rs = rows @ post"
    "rows_of rows ps post" "distinct (map pp_name ps)" by blast
  obtain gap gap' where gaps: "ls1 = gap @ sep # ls2" "\<forall>l \<in> set gap. blank l"
    "ls2 = gap' @ rows @ post" "\<forall>l \<in> set gap'. blank l"
    using blank_split [of ls1] blank_split [of ls2] sep(1) rows(1) rp(1) by metis
  have "ls = ?pre @ h # ls1" using h by (metis takeWhile_dropWhile_id)
  with gaps have "ls = ?pre @ h # gap @ sep # gap' @ rows @ post" by simp
  moreover have "\<forall>l \<in> set ?pre. blank l \<and> ?h l"
    using pre by (auto simp: anyNonEmpty_def list_all_iff dest: set_takeWhileD)
  ultimately show ?thesis
    unfolding profile_grammar_def using hd sep(2) rows(3) rp(2,3) gaps(2,4) by blast
qed

lemma parse_table_complete:
  assumes "profile_grammar ls ps"
  shows "parse_table ls = Inr ps"
proof -
  from assms obtain pre h gap sep gap' rows post where
    ls: "ls = pre @ h # gap @ sep # gap' @ rows @ post"
    and pre: "\<forall>l \<in> set pre. blank l \<and> \<not> isOfficialProfileListHeader l" and h: "isOfficialProfileListHeader h"
    and gap: "\<forall>l \<in> set gap. blank l" and sep: "isOfficialProfileListSeparator sep"
    and gap': "\<forall>l \<in> set gap'. blank l" and rows: "rows_of rows ps post" "ps \<noteq> []" "distinct (map pp_name ps)"
    unfolding profile_grammar_def by blast
  let ?h = "\<lambda>l. \<not> isOfficialProfileListHeader l"
  have tw: "takeWhile ?h ls = pre" "dropWhile ?h ls = h # gap @ sep # gap' @ rows @ post"
    using pre h by (simp_all add: ls takeWhile_append2 dropWhile_append2)
  have "\<not> anyNonEmpty pre" using pre by (simp add: anyNonEmpty_def list_all_iff)
  moreover have "dropWhile blank (gap @ sep # gap' @ rows @ post) = sep # gap' @ rows @ post"
    using gap separator_not_blank [OF sep] by (rule drop_blank)
  moreover obtain r rs where r: "rows = r # rs" "\<not> blank r"
    using rows(1,2) by (cases rows) (auto simp: rows_of_Nil rows_of_Cons)
  moreover have "dropWhile blank (gap' @ rows @ post) = rows @ post"
    using drop_blank [OF gap' r(2), of "rs @ post"] r(1) by simp
  moreover have "profile_rows [] (rows @ post) = Inr ps"
    using profile_rows_complete [OF rows(1,3)] by simp
  ultimately show ?thesis using sep rows(2) by (simp add: parse_table_def tw Let_def)
qed

lemma parse_table_iff: "parse_table ls = Inr ps \<longleftrightarrow> profile_grammar ls ps"
  using parse_table_sound parse_table_complete by blast

text \<open>
  C25. The parser of the profile list accepts exactly one grammar: output within the limit and
  without a NUL that is either the message for no profiles, or blank lines, the header, the rule,
  and one row per profile, with blank lines only before, between and after these parts. The
  profiles are the rows in their order, and no two have one name. Anything else is refused.
\<close>

theorem profile_list_grammar:
  "parseOfficialProfileList output = Inr ps \<longleftrightarrow>
     length output \<le> 65536 \<and> CHR 0x00 \<notin> set output
     \<and> (if TrimSpace output = ''No profiles found.'' then ps = []
        else profile_grammar (splitProfileListLines output) ps)"
  unfolding parseOfficialProfileList_def commandOutputLimit_def officialListEmptyMessage_def
    parse_table_iff [symmetric]
  by (cases "length output \<le> 65536"; cases "CHR 0x00 \<in> set output") (simp_all only: not_less if_True if_False
      simp_thms split: if_split, auto)

end
