(* ===== verification/Operation_Service.thy ===== *)
theory Operation_Service
  imports Install_Service Management_Target
begin

text \<open>
  What the management services of the application share (app/management_upgrade.go,
  management_backup.go, management_skills.go, management_mcp.go): every mutation is a row of the
  operations table; a start handler returns the row of an idempotency key it knows and otherwise
  creates one; a worker turns it RUNNING, does its work and settles it; committed rows are
  published; and a restart fails what was left active.

  A worker is two steps, before and after its call of the adapter, so that other handlers may come
  in between. A handler's context is live unless said otherwise.
\<close>

subsection \<open>State and errors\<close>

record op_service =
  os_db :: database
  os_events :: "broker option"

datatype mutation_error =
    ErrManagement management_error
  | ErrInvalidKey
  | ErrInvalidManagementContract
  | ErrRuntimeMutationConflict
  | ErrBackupMutationConflict
  | ErrSkillMutationConflict
  | ErrMCPMutationConflict
  | ErrBackupNotFound
  | ErrSkillSourceNotApproved
  | ErrSkillOwnershipConflict
  | ErrNotCancellable

abbreviation mutation_unsupported :: mutation_error where
  "mutation_unsupported \<equiv> ErrManagement ErrManagementCapabilityUnsupported"

abbreviation mutation_query_failed :: mutation_error where
  "mutation_query_failed \<equiv> ErrManagement ErrManagementQueryFailed"

text \<open>What the calls of one handler draw: the clock and random bytes.\<close>

record op_inputs =
  oi_now :: time
  oi_rnd_id :: "nat list option"
  oi_rnd_correlation :: "nat list option"
  oi_rnd_deployment :: "nat list option"

type_synonym 'a start_result = "'a \<times> (mutation_error + operation \<times> bool)"

subsection \<open>Persisting and publishing\<close>

definition emit_operation ::
  "time \<Rightarrow> string \<Rightarrow> operation \<Rightarrow> bool \<Rightarrow> 'a op_service_scheme \<Rightarrow> 'a op_service_scheme" where
  "emit_operation now previous nxt created s =
     (let eventType = TypeForCommittedOperation created previous (status_text (op_status nxt)) in
      if eventType = [] then s
      else s\<lparr>os_events := Publish now (os_events s)
              (NewOperationEvent now eventType (operation_payload_of nxt) now)\<rparr>)"

definition persist_operation ::
  "(sql_failure \<Rightarrow> string) \<Rightarrow> time \<Rightarrow> operation \<Rightarrow> operation \<Rightarrow> 'a op_service_scheme
     \<Rightarrow> 'a op_service_scheme \<times> db_error option" where
  "persist_operation msg now current nxt s =
     (case UpdateOperation msg (os_db s) current nxt of
        Inl e \<Rightarrow> (s, Some e)
      | Inr db \<Rightarrow> (emit_operation now (status_text (op_status current)) nxt False (s\<lparr>os_db := db\<rparr>), None))"

subsection \<open>Starting\<close>

definition new_operation ::
  "time \<Rightarrow> op_type \<Rightarrow> target_type \<Rightarrow> string \<Rightarrow> stage \<Rightarrow> string \<Rightarrow> string \<Rightarrow> string \<Rightarrow> string \<Rightarrow> operation" where
  "new_operation now kind tt tid stg msg key i cor =
     \<lparr>op_id = i, op_kind = kind, op_target_type = tt, op_target_id = tid, op_status = StatusPending,
      op_stage = stg, op_progress = None, op_message = msg, op_error_code = [],
      op_error_message = [], op_retryable = False, op_idempotency_key = key,
      op_correlation_id = cor, op_source_pin = [], op_ownership_nonce = [], op_transaction_id = [],
      op_created_at = now, op_started_at = None, op_completed_at = None, op_updated_at = now\<rparr>"

text \<open>
  \<open>mk\<close> builds the row from its two identifiers, or fails when it cannot draw a third; \<open>conflict\<close>
  lists the table errors that mean a conflict.
\<close>

definition create_operation ::
  "(sql_failure \<Rightarrow> string) \<Rightarrow> op_inputs \<Rightarrow> (db_error \<Rightarrow> bool) \<Rightarrow> mutation_error
     \<Rightarrow> (string \<Rightarrow> string \<Rightarrow> operation option) \<Rightarrow> 'a op_service_scheme \<Rightarrow> 'a op_service_scheme start_result" where
  "create_operation msg w conflict refused mk s =
     (case newOperationID (oi_rnd_id w) of
        None \<Rightarrow> (s, Inl mutation_query_failed)
      | Some i \<Rightarrow>
     (case newCorrelationID (oi_rnd_correlation w) of
        None \<Rightarrow> (s, Inl mutation_query_failed)
      | Some cor \<Rightarrow>
     (case mk i cor of
        None \<Rightarrow> (s, Inl mutation_query_failed)
      | Some v \<Rightarrow>
     (case CreateOperation msg (os_db s) v of
        Inl e \<Rightarrow> (s, Inl (if conflict e then refused else mutation_query_failed))
      | Inr db \<Rightarrow> (emit_operation (oi_now w) [] v True (s\<lparr>os_db := db\<rparr>), Inr (v, True))))))"

text \<open>\<open>same\<close>: what the row of a known key must look like; \<open>foreign\<close>: the answer when it does not.\<close>

definition replay_or_create ::
  "(sql_failure \<Rightarrow> string) \<Rightarrow> op_inputs \<Rightarrow> string \<Rightarrow> (operation \<Rightarrow> bool) \<Rightarrow> mutation_error
     \<Rightarrow> (db_error \<Rightarrow> bool) \<Rightarrow> mutation_error \<Rightarrow> (string \<Rightarrow> string \<Rightarrow> operation option)
     \<Rightarrow> 'a op_service_scheme \<Rightarrow> 'a op_service_scheme start_result" where
  "replay_or_create msg w key same foreign conflict refused mk s =
     (case GetOperationByIdempotencyKey (os_db s) key of
        Inl _ \<Rightarrow> (s, Inl mutation_query_failed)
      | Inr (Some existing) \<Rightarrow>
          if \<not> same existing then (s, Inl foreign) else (s, Inr (existing, False))
      | Inr None \<Rightarrow> create_operation msg w conflict refused mk s)"

definition mutation_conflict :: "db_error \<Rightarrow> bool" where
  "mutation_conflict e \<longleftrightarrow> e = ErrDuplicateIdempotency \<or> e = ErrActiveInstanceMutation"

subsection \<open>Working\<close>

definition running_operation :: "time \<Rightarrow> stage \<Rightarrow> operation \<Rightarrow> operation" where
  "running_operation now stg current =
     current\<lparr>op_status := StatusRunning, op_stage := stg, op_started_at := Some now, op_updated_at := now\<rparr>"

definition begin_work ::
  "(sql_failure \<Rightarrow> string) \<Rightarrow> time \<Rightarrow> stage \<Rightarrow> string \<Rightarrow> 'a op_service_scheme
     \<Rightarrow> 'a op_service_scheme \<times> operation option" where
  "begin_work msg now stg i s =
     (case GetOperation (os_db s) i of
        Inl _ \<Rightarrow> (s, None)
      | Inr current \<Rightarrow>
          if IsTerminal (op_status current) then (s, None)
          else (case persist_operation msg now current (running_operation now stg current) s of
                  (s1, Some _) \<Rightarrow> (s1, None)
                | (s1, None) \<Rightarrow> (s1, Some (running_operation now stg current))))"

definition settled_operation ::
  "time \<Rightarrow> stage \<Rightarrow> status \<Rightarrow> error_code \<Rightarrow> bool \<Rightarrow> operation \<Rightarrow> operation" where
  "settled_operation now stg st code retry current =
     current\<lparr>op_status := st, op_stage := stg, op_error_code := code, op_retryable := retry,
             op_completed_at := Some now, op_updated_at := now\<rparr>"

text \<open>The error of the final update is dropped.\<close>

definition settle_operation ::
  "(sql_failure \<Rightarrow> string) \<Rightarrow> time \<Rightarrow> operation \<Rightarrow> operation \<Rightarrow> 'a op_service_scheme \<Rightarrow> 'a op_service_scheme" where
  "settle_operation msg now current nxt s = fst (persist_operation msg now current nxt s)"

subsection \<open>Cancelling\<close>

text \<open>The functions that cancel a worker's context, with a flag once they were called.\<close>

record cancel_service = op_service +
  cs_cancels :: "(string \<times> bool) list"

definition registerCancel :: "string \<Rightarrow> 'a cancel_service_scheme \<Rightarrow> 'a cancel_service_scheme option" where
  "registerCancel i s =
     (if i \<in> fst ` set (cs_cancels s) then None
      else Some (s\<lparr>cs_cancels := (i, False) # cs_cancels s\<rparr>))"

definition unregisterCancel :: "string \<Rightarrow> 'a cancel_service_scheme \<Rightarrow> 'a cancel_service_scheme" where
  "unregisterCancel i s = s\<lparr>cs_cancels := filter (\<lambda>q. fst q \<noteq> i) (cs_cancels s)\<rparr>"

definition raise_cancel :: "string \<Rightarrow> 'a cancel_service_scheme \<Rightarrow> 'a cancel_service_scheme" where
  "raise_cancel i s = s\<lparr>cs_cancels := map (\<lambda>(j, b). (j, b \<or> j = i)) (cs_cancels s)\<rparr>"

definition is_cancelled :: "string \<Rightarrow> 'a cancel_service_scheme \<Rightarrow> bool" where
  "is_cancelled i s \<longleftrightarrow> (i, True) \<in> set (cs_cancels s)"

definition cancelled_operation :: "time \<Rightarrow> operation \<Rightarrow> operation" where
  "cancelled_operation now current =
     current\<lparr>op_status := StatusCancelled, op_error_code := [], op_retryable := False,
             op_completed_at := Some now, op_updated_at := now\<rparr>"

subsection \<open>Recovering\<close>

text \<open>The rows are updated one by one until one fails; the error is returned with those done.\<close>

fun recover_each ::
  "(sql_failure \<Rightarrow> string) \<Rightarrow> time \<Rightarrow> (operation \<Rightarrow> operation) \<Rightarrow> operation list \<Rightarrow> 'a op_service_scheme
     \<Rightarrow> 'a op_service_scheme \<times> operation list \<times> db_error option" where
  "recover_each msg now next_of [] s = (s, [], None)"
| "recover_each msg now next_of (c # cs) s =
     (case persist_operation msg now c (next_of c) s of
        (s1, Some e) \<Rightarrow> (s1, [], Some e)
      | (s1, None) \<Rightarrow> (case recover_each msg now next_of cs s1 of (s2, ops, e) \<Rightarrow> (s2, next_of c # ops, e)))"

definition recover_interrupted ::
  "(sql_failure \<Rightarrow> string) \<Rightarrow> time \<Rightarrow> stage \<Rightarrow> bool \<Rightarrow> (database \<Rightarrow> db_error + operation list)
     \<Rightarrow> 'a op_service_scheme \<Rightarrow> 'a op_service_scheme \<times> operation list \<times> db_error option" where
  "recover_interrupted msg now stg retry active_rows s =
     (case active_rows (os_db s) of
        Inl e \<Rightarrow> (s, [], Some e)
      | Inr ops \<Rightarrow>
          recover_each msg now (settled_operation now stg StatusFailed ErrorOperationInterrupted retry) ops s)"

end
