(* ===== verification/Operation_Service_Properties.thy ===== *)
theory Operation_Service_Properties
  imports Operation_Service Install_Service_Properties
begin

text \<open>
  What the shared steps of the management services guarantee about the operations table: the
  moves a handler may make, that none of them touches a settled row, what the two writes of a
  worker leave, the replay of an idempotency key, and the recovery of what a restart interrupted.
\<close>

subsection \<open>Moves on the table\<close>

text \<open>
  A handler of a service creates rows, and updates rows it read while they were not terminal.
\<close>

inductive db_move :: "(sql_failure \<Rightarrow> string) \<Rightarrow> database \<Rightarrow> database \<Rightarrow> bool"
  for msg :: "sql_failure \<Rightarrow> string" where
  stay: "db_move msg db db"
| made: "db_move msg db db1 \<Longrightarrow> CreateOperation msg db1 v = Inr db2 \<Longrightarrow> db_move msg db db2"
| moved: "db_move msg db db1 \<Longrightarrow> UpdateOperation msg db1 c n = Inr db2
    \<Longrightarrow> \<not> IsTerminal (op_status c) \<Longrightarrow> db_move msg db db2"

lemma db_move_trans: "db_move msg db1 db2 \<Longrightarrow> db_move msg db db1 \<Longrightarrow> db_move msg db db2"
  by (induction rule: db_move.induct) (auto intro: db_move.intros)

lemma db_move_table:
  "db_move msg db db' \<Longrightarrow> table_inv (db_operations db) \<Longrightarrow> table_inv (db_operations db')"
  by (induction rule: db_move.induct) (auto intro: create_keeps_table update_keeps_table)

lemma update_row:
  assumes "table_inv (db_operations db)" and "UpdateOperation msg db c n = Inr db'"
  shows "row_of db' i = (if i = op_id n then map_option (updated_row n) (row_of db i) else row_of db i)
    \<and> (\<exists>r. row_of db (op_id n) = Some r \<and> op_status r = op_status c)"
proof -
  from assms(2,1) obtain xs r ys where rows: "db_operations db = xs @ r # ys" and id: "op_id r = op_id n"
    and st: "op_status r = op_status c" and db': "db' = db\<lparr>db_operations := xs @ updated_row n r # ys\<rparr>"
    by (rule UpdateOperation_Inr)
  have r: "row_of db (op_id n) = Some r" using assms(1) rows id by (simp add: row_of_mem)
  from assms have "try_update msg db (c, n) = Some db'" by (simp add: try_update_def)
  from op_rows.load_save [OF assms(1) TrueI this] r st show ?thesis
    by (auto simp: rewritten_def)
qed

lemma create_row:
  assumes "table_inv (db_operations db)" and "CreateOperation msg db v = Inr db'"
  shows "row_of db' i = (if i = op_id v then Some v else row_of db i) \<and> row_of db (op_id v) = None"
proof -
  from assms(2) have db': "db' = db\<lparr>db_operations := db_operations db @ [v]\<rparr>"
    and fresh: "op_id v \<notin> op_id ` set (db_operations db)"
    by (simp_all add: CreateOperation_Inr insert_failure_None constraint_failure_None)
  from fresh have "row_of db (op_id v) = None"
    by (auto simp: row_of_def first_match_None image_iff)
  then show ?thesis by (auto simp: db' row_of_def first_match_append split: option.splits)
qed

text \<open>No move rewrites a settled row or removes one.\<close>

lemma db_move_settled:
  "db_move msg db db' \<Longrightarrow> table_inv (db_operations db) \<Longrightarrow> row_of db i = Some r
   \<Longrightarrow> IsTerminal (op_status r) \<Longrightarrow> row_of db' i = Some r"
proof (induction rule: db_move.induct)
  case (made db db1 v db2)
  then have inv: "table_inv (db_operations db1)" by (blast intro: db_move_table)
  from create_row [OF inv made.hyps(2)] made show ?case by auto
next
  case (moved db db1 c n db2)
  then have inv: "table_inv (db_operations db1)" by (blast intro: db_move_table)
  from update_row [OF inv moved.hyps(2), of i] moved show ?case by auto
qed simp

lemma db_move_keeps:
  "db_move msg db db' \<Longrightarrow> table_inv (db_operations db) \<Longrightarrow> row_of db i = Some r
   \<Longrightarrow> \<exists>r'. row_of db' i = Some r' \<and> op_kind r' = op_kind r \<and> op_idempotency_key r' = op_idempotency_key r
        \<and> target_key r' = target_key r"
proof (induction rule: db_move.induct)
  case (made db db1 v db2)
  then have inv: "table_inv (db_operations db1)" by (blast intro: db_move_table)
  from create_row [OF inv made.hyps(2)] made show ?case by auto
next
  case (moved db db1 c n db2)
  then have inv: "table_inv (db_operations db1)" by (blast intro: db_move_table)
  from update_row [OF inv moved.hyps(2), of i] moved show ?case by (auto simp: target_key_def)
qed simp

text \<open>
  The contract of a service: each of its steps is a move on the table.
\<close>

locale operation_handlers =
  fixes db_of :: "'s \<Rightarrow> database"
    and step :: "'s \<Rightarrow> 's \<Rightarrow> bool"
    and msg :: "sql_failure \<Rightarrow> string"
  assumes step_moves: "step s s' \<Longrightarrow> db_move msg (db_of s) (db_of s')"
begin

lemma run_moves: "step\<^sup>*\<^sup>* s s' \<Longrightarrow> db_move msg (db_of s) (db_of s')"
  by (induction rule: rtranclp_induct) (auto intro: db_move.stay db_move_trans step_moves)

lemma run_table:
  "step\<^sup>*\<^sup>* s s' \<Longrightarrow> table_inv (db_operations (db_of s)) \<Longrightarrow> table_inv (db_operations (db_of s'))"
  using run_moves db_move_table by blast

lemma run_settled:
  "step\<^sup>*\<^sup>* s s' \<Longrightarrow> table_inv (db_operations (db_of s)) \<Longrightarrow> row_of (db_of s) i = Some r
   \<Longrightarrow> IsTerminal (op_status r) \<Longrightarrow> row_of (db_of s') i = Some r"
  using run_moves db_move_settled by blast

end


subsection \<open>The shared steps as moves\<close>

lemma emit_operation_db [simp]:
  "os_db (emit_operation now p n cr s) = os_db s"
  by (simp_all add: emit_operation_def Let_def)

lemma cancels_db [simp]:
  "os_db (unregisterCancel i s) = os_db s" "os_db (raise_cancel i s) = os_db s"
  "registerCancel i s = Some s' \<Longrightarrow> os_db s' = os_db s"
  by (auto simp: unregisterCancel_def raise_cancel_def registerCancel_def split: if_splits)

lemma persist_move:
  assumes "\<not> IsTerminal (op_status c)"
  shows "db_move msg (os_db s) (os_db (fst (persist_operation msg now c n s)))"
proof (cases "UpdateOperation msg (os_db s) c n")
  case (Inl e)
  then show ?thesis by (simp add: persist_operation_def db_move.stay)
next
  case (Inr db)
  from db_move.moved [OF db_move.stay this assms] Inr show ?thesis
    by (simp add: persist_operation_def)
qed

lemma create_move: "db_move msg (os_db s) (os_db (fst (create_operation msg w conflict refused mk s)))"
  by (auto simp: create_operation_def split: option.splits sum.splits
      intro: db_move.stay db_move.made [OF db_move.stay])

lemma replay_move:
  "db_move msg (os_db s) (os_db (fst (replay_or_create msg w key same foreign conflict refused mk s)))"
  by (auto simp: replay_or_create_def split: option.splits sum.splits intro: db_move.stay create_move)

lemma begin_work_move: "db_move msg (os_db s) (os_db (fst (begin_work msg now stg i s)))"
proof (cases "GetOperation (os_db s) i")
  case (Inr current)
  then show ?thesis
    using persist_move [of current msg s now "running_operation now stg current"]
    by (cases "IsTerminal (op_status current)")
      (auto simp: begin_work_def db_move.stay split: prod.splits option.splits)
qed (simp add: begin_work_def db_move.stay)

lemma settle_move:
  "\<not> IsTerminal (op_status c) \<Longrightarrow> db_move msg (os_db s) (os_db (settle_operation msg now c n s))"
  by (simp add: settle_operation_def persist_move)

lemma recover_each_move:
  "\<forall>c \<in> set cs. \<not> IsTerminal (op_status c) \<Longrightarrow>
   db_move msg (os_db s) (os_db (fst (recover_each msg now f cs s)))"
proof (induction cs arbitrary: s)
  case (Cons c cs)
  then have one: "db_move msg (os_db s) (os_db (fst (persist_operation msg now c (f c) s)))"
    by (simp add: persist_move)
  show ?case
  proof (cases "persist_operation msg now c (f c) s")
    case (Pair s1 e)
    with Cons.IH [of s1] Cons.prems one show ?thesis
      by (cases e) (auto split: prod.splits intro: db_move_trans)
  qed
qed (simp add: db_move.stay)

lemma scan_all_Inr_same: "scan_all rs = Inr vs \<Longrightarrow> vs = rs"
  by (induction rs arbitrary: vs) (auto simp: bind_result_Inr scanOperation_def split: if_splits)

lemma list_active_mem:
  "list_active db kinds = Inr vs \<Longrightarrow>
   v \<in> set vs \<longleftrightarrow> v \<in> set (db_operations db) \<and> op_kind v \<in> set kinds \<and> active v"
  by (auto simp: list_active_def order_asc_def dest!: scan_all_Inr_same)

lemma active_not_terminal: "active v \<longleftrightarrow> \<not> IsTerminal (op_status v)"
  by (cases "op_status v") (simp_all add: active_def IsTerminal_def)

lemma recover_move:
  assumes "\<And>db. listing db = list_active db kinds"
  shows "db_move msg (os_db s) (os_db (fst (recover_interrupted msg now stg retry listing s)))"
proof (cases "list_active (os_db s) kinds")
  case (Inr ops)
  then have "\<forall>c \<in> set ops. \<not> IsTerminal (op_status c)"
    using list_active_mem active_not_terminal by blast
  then show ?thesis using Inr by (simp add: recover_interrupted_def assms recover_each_move)
qed (simp add: recover_interrupted_def assms db_move.stay)

subsection \<open>The two writes of a worker\<close>

lemma persist_refused:
  assumes "table_inv (db_operations (os_db s))" and "row_of (os_db s) (op_id n) = Some r"
    and "op_status r \<noteq> op_status c"
  shows "\<exists>e. persist_operation msg now c n s = (s, Some e)"
proof (cases "UpdateOperation msg (os_db s) c n")
  case (Inr db)
  from update_row [OF assms(1) this] assms(2,3) show ?thesis by simp
qed (simp add: persist_operation_def)

lemma persist_done:
  assumes "persist_operation msg now c n s = (s', None)"
  shows "UpdateOperation msg (os_db s) c n = Inr (os_db s')"
  using assms by (auto simp: persist_operation_def split: sum.splits)

lemma begin_work_row:
  assumes inv: "table_inv (db_operations (os_db s))" and work: "begin_work msg now stg i s = (s', Some v)"
  shows "row_of (os_db s') i = Some v \<and> op_id v = i \<and> op_status v = StatusRunning
    \<and> table_inv (db_operations (os_db s'))
    \<and> (\<exists>r. row_of (os_db s) i = Some r \<and> \<not> IsTerminal (op_status r) \<and> v = running_operation now stg r)"
proof -
  from work obtain r where get: "GetOperation (os_db s) i = Inr r" and live: "\<not> IsTerminal (op_status r)"
    and v: "v = running_operation now stg r"
    and per: "persist_operation msg now r v s = (s', None)"
    by (auto simp: begin_work_def split: sum.splits if_splits prod.splits option.splits)
  from get inv have row: "row_of (os_db s) i = Some r" by (simp add: GetOperation_Inr)
  note st = stored_row [OF inv row]
  from persist_done [OF per] have up: "UpdateOperation msg (os_db s) r v = Inr (os_db s')" .
  have "updated_row v r = v"
    using st(2) by (simp add: v running_operation_def updated_row_def)
  then show ?thesis
    using update_row [OF inv up, of i] update_keeps_table [OF inv up] row st(1) live v
    by (auto simp: running_operation_def)
qed

text \<open>The final write goes through exactly while the row is still the one the worker made RUNNING.\<close>

lemma settle_writes:
  assumes inv: "table_inv (db_operations (os_db s))" and row: "row_of (os_db s) (op_id v) = Some v"
    and run: "op_status v = StatusRunning" and n: "op_id n = op_id v" "op_progress n = op_progress v"
    and fin: "IsTerminal (op_status n)" "op_completed_at n \<noteq> None" "ValidStatusChange StatusRunning (op_status n)"
  shows "row_of (os_db (settle_operation msg now v n s)) (op_id v) = Some (updated_row n v)
    \<and> table_inv (db_operations (os_db (settle_operation msg now v n s)))"
proof -
  note st = stored_row [OF inv row]
  have "\<not> active (updated_row n v)" using fin(1) by (simp add: active_not_terminal)
  moreover have "check_row (updated_row n v)"
    using fin(1,2) by (cases "op_status n") (simp_all add: check_row_def active_def IsTerminal_def)
  moreover have "row_of (os_db s) (op_id n) = Some v" using row n(1) by simp
  moreover have "op_id v = op_id n" "op_progress n = None" using n st(2) by simp_all
  moreover have "ValidStatusChange (op_status v) (op_status n)" using run fin(3) by simp
  ultimately obtain db where "UpdateOperation msg (os_db s) v n = Inr db"
    "table_inv (db_operations db)" "row_of db (op_id n) = Some (updated_row n v)"
    using update_succeeds [OF inv, of n v v msg] by blast
  then show ?thesis using n(1) by (simp add: settle_operation_def persist_operation_def)
qed

subsection \<open>Recovering what a restart interrupted\<close>

lemma settled_fields [simp]:
  "op_id (settled_operation now stg st code retry r) = op_id r"
  "op_kind (settled_operation now stg st code retry r) = op_kind r"
  "op_progress (settled_operation now stg st code retry r) = op_progress r"
  "op_status (settled_operation now stg st code retry r) = st"
  "op_completed_at (settled_operation now stg st code retry r) = Some now"
  by (simp_all add: settled_operation_def)

lemma updated_settled:
  "op_progress r = None \<Longrightarrow> updated_row (settled_operation now stg st code retry r) r
     = settled_operation now stg st code retry r"
  by (simp add: settled_operation_def updated_row_def)

lemma settle_active:
  assumes inv: "table_inv (db_operations (os_db s))" and row: "row_of (os_db s) (op_id r) = Some r"
    and act: "\<not> IsTerminal (op_status r)" and n: "n = settled_operation now stg StatusFailed code retry r"
  obtains s' where "persist_operation msg t r n s = (s', None)" and "table_inv (db_operations (os_db s'))"
    and "\<And>i. row_of (os_db s') i = (if i = op_id r then Some n else row_of (os_db s) i)"
proof -
  note st = stored_row [OF inv row]
  have up: "updated_row n r = n" using st(2) by (simp add: n updated_settled)
  have id: "op_id n = op_id r" by (simp add: n)
  have "row_of (os_db s) (op_id n) = Some r" using row by (simp add: id)
  moreover have "op_id r = op_id n" "op_progress n = None" using st(2) by (simp_all add: n)
  moreover have "ValidStatusChange (op_status r) (op_status n)"
    using act by (cases "op_status r")
      (simp_all add: n IsTerminal_def ValidStatusChange_def ValidTransition_def)
  moreover have "check_row (updated_row n r)" by (simp add: up n check_row_def active_def)
  moreover have "active (updated_row n r) \<longrightarrow> active r" by (simp add: up n active_def)
  ultimately obtain db where db: "UpdateOperation msg (os_db s) r n = Inr db"
    "table_inv (db_operations db)" "row_of db (op_id n) = Some (updated_row n r)"
    "\<forall>i. i \<noteq> op_id n \<longrightarrow> row_of db i = row_of (os_db s) i"
    using update_succeeds [OF inv, of n r r msg] by blast
  let ?s = "emit_operation t (status_text (op_status r)) n False (s\<lparr>os_db := db\<rparr>)"
  have db_of: "os_db ?s = db" by simp
  have "persist_operation msg t r n s = (?s, None)" by (simp add: persist_operation_def db(1))
  moreover have "row_of (os_db ?s) i = (if i = op_id r then Some n else row_of (os_db s) i)" for i
    unfolding db_of using db(3,4) up id by simp
  ultimately show ?thesis using that [of ?s] db(2) db_of by simp
qed

lemma recover_each_effect:
  fixes s :: "'a op_service_scheme"
  assumes "f = settled_operation now stg StatusFailed code retry"
  shows "table_inv (db_operations (os_db s)) \<Longrightarrow> distinct (map op_id cs)
    \<Longrightarrow> \<forall>c \<in> set cs. row_of (os_db s) (op_id c) = Some c \<and> \<not> IsTerminal (op_status c)
    \<Longrightarrow> \<exists>s'. recover_each msg t f cs s = (s', map f cs, None) \<and> table_inv (db_operations (os_db s'))
        \<and> (\<forall>i. row_of (os_db s') i
              = (if i \<in> op_id ` set cs then map_option f (row_of (os_db s) i) else row_of (os_db s) i))"
proof (induction cs arbitrary: s)
  case (Cons c cs)
  then have c: "row_of (os_db s) (op_id c) = Some c" "\<not> IsTerminal (op_status c)" by simp_all
  obtain s1 where s1: "persist_operation msg t c (f c) s = (s1, None)" "table_inv (db_operations (os_db s1))"
    and rows: "\<And>i. row_of (os_db s1) i = (if i = op_id c then Some (f c) else row_of (os_db s) i)"
    by (rule settle_active [OF Cons.prems(1) c, of "f c" now stg code retry msg t]) (simp_all add: assms)
  have notin: "op_id c \<notin> op_id ` set cs" and d: "distinct (map op_id cs)"
    using Cons.prems(2) by simp_all
  have "row_of (os_db s1) (op_id q) = Some q \<and> \<not> IsTerminal (op_status q)" if q: "q \<in> set cs" for q
  proof -
    have "op_id q \<noteq> op_id c" using q notin by (metis imageI)
    then show ?thesis using rows [of "op_id q"] Cons.prems(3) q by simp
  qed
  then have "\<forall>q \<in> set cs. row_of (os_db s1) (op_id q) = Some q \<and> \<not> IsTerminal (op_status q)" by blast
  from Cons.IH [OF s1(2) d this] obtain s2 where s2: "recover_each msg t f cs s1 = (s2, map f cs, None)"
    "table_inv (db_operations (os_db s2))" and rows2: "\<forall>i. row_of (os_db s2) i
      = (if i \<in> op_id ` set cs then map_option f (row_of (os_db s1) i) else row_of (os_db s1) i)"
    by blast
  have "row_of (os_db s2) i = (if i \<in> op_id ` set (c # cs) then map_option f (row_of (os_db s) i)
          else row_of (os_db s) i)" for i
  proof (cases "i = op_id c")
    case True
    then show ?thesis using rows2 [rule_format, of i] rows [of i] notin c(1) by simp
  next
    case False
    then show ?thesis using rows2 [rule_format, of i] rows [of i] by simp
  qed
  with s1(1) s2(1,2) show ?case by simp
qed simp

text \<open>The rows of a table that turn into others, and only they.\<close>

definition rows_changed ::
  "(operation \<Rightarrow> bool) \<Rightarrow> (operation \<Rightarrow> operation) \<Rightarrow> database \<Rightarrow> database \<Rightarrow> bool" where
  "rows_changed p f db db' \<longleftrightarrow>
     (\<forall>i. row_of db' i = map_option (\<lambda>r. if p r then f r else r) (row_of db i))"

lemma recover_effect:
  fixes s :: "'a op_service_scheme"
  assumes inv: "table_inv (db_operations (os_db s))" and ls: "\<And>db. listing db = list_active db kinds"
  shows "\<exists>s' ops. recover_interrupted msg now stg retry listing s = (s', ops, None)
    \<and> table_inv (db_operations (os_db s'))
    \<and> rows_changed (\<lambda>r. op_kind r \<in> set kinds \<and> active r)
        (settled_operation now stg StatusFailed ErrorOperationInterrupted retry) (os_db s) (os_db s')"
proof -
  let ?f = "settled_operation now stg StatusFailed ErrorOperationInterrupted retry"
  let ?rows = "order_asc (filter (\<lambda>r. op_kind r \<in> set kinds \<and> active r) (db_operations (os_db s)))"
  have mem: "r \<in> set ?rows \<longleftrightarrow> r \<in> set (db_operations (os_db s)) \<and> op_kind r \<in> set kinds \<and> active r" for r
    unfolding order_asc_def set_sort set_filter by blast
  have "\<forall>r \<in> set ?rows. op_progress r = None" using inv mem by (simp add: table_inv_def)
  then have listed: "listing (os_db s) = Inr ?rows" unfolding ls list_active_def by (rule scan_all_clean)
  have "distinct (map op_id (filter (\<lambda>r. op_kind r \<in> set kinds \<and> active r) (db_operations (os_db s))))"
    using inv by (simp add: table_inv_def distinct_map_filter)
  then have d: "distinct (map op_id ?rows)"
    by (simp only: order_asc_def distinct_map distinct_sort set_sort)
  have "\<forall>c \<in> set ?rows. row_of (os_db s) (op_id c) = Some c \<and> \<not> IsTerminal (op_status c)"
    using mem row_of_mem [OF inv] active_not_terminal by blast
  from recover_each_effect [OF refl inv d this] obtain s' where s': "table_inv (db_operations (os_db s'))"
    "recover_each msg now ?f ?rows s = (s', map ?f ?rows, None)"
    and rows: "\<forall>i. row_of (os_db s') i = (if i \<in> op_id ` set ?rows then map_option ?f (row_of (os_db s) i)
                                        else row_of (os_db s) i)" by blast
  have "row_of (os_db s') i = map_option (\<lambda>r. if op_kind r \<in> set kinds \<and> active r then ?f r else r)
          (row_of (os_db s) i)" for i
  proof (cases "row_of (os_db s) i")
    case (Some r)
    then have "r \<in> set (db_operations (os_db s))" "op_id r = i" using inv by (simp_all add: row_of_mem)
    moreover have "q = r" if "q \<in> set (db_operations (os_db s))" "op_id q = i" for q
      using that inv Some row_of_mem [OF inv, of i q] by simp
    ultimately have "i \<in> op_id ` set ?rows \<longleftrightarrow> op_kind r \<in> set kinds \<and> active r"
      unfolding image_iff using mem by metis
    with rows Some show ?thesis by simp
  qed (use rows in simp)
  then show ?thesis using s' by (auto simp: recover_interrupted_def listed rows_changed_def)
qed

subsection \<open>Replaying a key\<close>

lemma key_lookup:
  assumes "table_inv (db_operations db)"
  shows "GetOperationByIdempotencyKey db key = Inr (first_match (\<lambda>r. op_idempotency_key r = key) (db_operations db))"
proof (cases "filter (\<lambda>r. op_idempotency_key r = key) (db_operations db)")
  case Nil
  then show ?thesis by (simp add: GetOperationByIdempotencyKey_def query_row_def first_match_filter)
next
  case (Cons r rs)
  then have "r \<in> set (db_operations db)" by (metis filter_is_subset list.set_intros(1) subsetD)
  then have "op_progress r = None" using assms by (simp add: table_inv_def)
  with Cons show ?thesis
    by (simp add: GetOperationByIdempotencyKey_def query_row_def first_match_filter scanOperation_def)
qed

text \<open>A known key is answered from its row, and changes nothing.\<close>

lemma replay_known:
  assumes inv: "table_inv (db_operations (os_db s))" and row: "row_of (os_db s) i = Some r"
    and key: "op_idempotency_key r = key"
  shows "replay_or_create msg w key same foreign conflict refused mk s
     = (s, if same r then Inr (r, False) else Inl foreign)"
proof -
  from row inv have r: "r \<in> set (db_operations (os_db s))" by (simp add: row_of_mem)
  then obtain q where q: "first_match (\<lambda>r. op_idempotency_key r = key) (db_operations (os_db s)) = Some q"
    using key first_match_ex [of "db_operations (os_db s)" "\<lambda>r. op_idempotency_key r = key"] by blast
  from first_match_Some [OF this] have "q = r"
    using r key inv by (auto simp: table_inv_def distinct_map inj_on_def)
  with q show ?thesis by (simp add: replay_or_create_def key_lookup [OF inv])
qed

lemma running_fields [simp]:
  "op_id (running_operation now stg r) = op_id r"
  "op_status (running_operation now stg r) = StatusRunning"
  "op_progress (running_operation now stg r) = op_progress r"
  "op_message (running_operation now stg r) = op_message r"
  "op_target_id (running_operation now stg r) = op_target_id r"
  "op_completed_at (running_operation now stg r) = op_completed_at r"
  by (simp_all add: running_operation_def)

lemma begin_work_ok:
  fixes s :: "'a op_service_scheme"
  assumes inv: "table_inv (db_operations (os_db s))" and row: "row_of (os_db s) i = Some q"
    and act: "\<not> IsTerminal (op_status q)"
  obtains db where "begin_work msg now stg i s
      = (emit_operation now (status_text (op_status q)) (running_operation now stg q) False (s\<lparr>os_db := db\<rparr>),
         Some (running_operation now stg q))"
    and "table_inv (db_operations db)" and "row_of db i = Some (running_operation now stg q)"
proof -
  let ?n = "running_operation now stg q"
  note st = stored_row [OF inv row]
  have up: "updated_row ?n q = ?n" using st(2) by (simp add: running_operation_def updated_row_def)
  have "row_of (os_db s) (op_id ?n) = Some q" using row st(1) by simp
  moreover have "op_id q = op_id ?n" "op_progress ?n = None" using st(2) by simp_all
  moreover have "ValidStatusChange (op_status q) (op_status ?n)"
    using act by (cases "op_status q")
      (simp_all add: IsTerminal_def ValidStatusChange_def ValidTransition_def)
  moreover have "check_row (updated_row ?n q)"
    using st(3) act unfolding up by (simp add: check_row_def active_not_terminal IsTerminal_def)
  moreover have "active (updated_row ?n q) \<longrightarrow> active q" using act by (simp add: active_not_terminal)
  ultimately obtain db where "UpdateOperation msg (os_db s) q ?n = Inr db"
    "table_inv (db_operations db)" "row_of db (op_id ?n) = Some (updated_row ?n q)"
    using update_succeeds [OF inv, of ?n q q msg] by blast
  moreover have "GetOperation (os_db s) i = Inr q" using row inv by (simp add: GetOperation_Inr)
  ultimately show ?thesis using that st(1) act up
    by (simp add: begin_work_def persist_operation_def)
qed

end
