(* ===== verification/Upgrade_Service.thy ===== *)
theory Upgrade_Service
  imports Operation_Service
begin

text \<open>
  The service behind Runtime upgrades and rollbacks (app/management\_upgrade.go). The resolver of
  targets and the adapter's planner, upgrader and rollbacker are parameters: what their calls
  return. A call may return a result beside an error.
\<close>

record 'h upgrade_config =
  uc_targets :: "(string \<Rightarrow> management_error + 'h runtime_target) option" \<comment> \<open>\<open>None\<close> for nil\<close>
  uc_db :: bool
  uc_message :: "sql_failure \<Rightarrow> string"

type_synonym plan_answer = "management_error option + runtime_upgrade_plan"
type_synonym upgrade_answer = "upgrade_result \<times> management_error option option"

definition zero_upgrade_result :: upgrade_result where
  "zero_upgrade_result = \<lparr>ur_state = [], ur_observed_at = 0\<rparr>"

subsection \<open>Targets and plans\<close>

definition upgrade_resolve ::
  "'h upgrade_config \<Rightarrow> context_error option \<Rightarrow> string \<Rightarrow> management_error + 'h runtime_target" where
  "upgrade_resolve c ctx runtimeID =
     (case uc_targets c of
        None \<Rightarrow> Inl ErrManagementQueryFailed
      | Some resolve \<Rightarrow>
          if runtimeID = [] then Inl ErrRuntimeNotSupported
          else (case resolve runtimeID of
                  Inl e \<Rightarrow> Inl (managementQueryError ctx (Some e))
                | Inr t \<Rightarrow>
                    (let inst = rt_installation t in
                     if is_kind inst \<noteq> runtimeID \<or> is_path inst = [] \<or> is_version inst = []
                        \<or> is_support inst \<noteq> DiscoverySupported
                        \<or> ds_kind (bn_descriptor (rt_bundle t)) \<noteq> is_kind inst
                     then Inl ErrManagementQueryFailed else Inr t)))"

definition managedUpgradePlanningEvidenceComplete :: "runtime_upgrade_plan \<Rightarrow> bool" where
  "managedUpgradePlanningEvidenceComplete p \<longleftrightarrow>
     rp_state p = UpgradeAvailable \<and> rp_managed p \<and> rp_inventory_complete p
     \<and> rp_rollback p = RollbackEligible \<and> (\<not> rp_protection_required p \<or> rp_protection_ready p)"

definition validManagedUpgradePlan :: "runtime_upgrade_plan \<Rightarrow> installation \<Rightarrow> bool" where
  "validManagedUpgradePlan p inst =
     (if \<not> runtime_plan_Validate p \<or> rp_current_version p \<noteq> is_version inst then False
      else if rp_state p = UpgradeAvailable
      then \<not> (\<not> rp_evidence_complete p \<or> \<not> managedUpgradePlanningEvidenceComplete p)
      else if rp_state p = UpgradeUpToDate
      then \<not> (rp_evidence_complete p \<or> rp_upgrade_qualified p \<or> rp_rollback_qualified p
              \<or> rp_current_version p = [] \<or> rp_target_version p = []
              \<or> rp_current_version p \<noteq> rp_target_version p
              \<or> rp_compatibility p \<noteq> UpgradeCompatibilityNotRequired \<or> rp_reasons p \<noteq> [])
      else if rp_state p = UpgradeBlocked \<or> rp_state p = UpgradeUnknown
      then \<not> (rp_evidence_complete p \<or> rp_upgrade_qualified p \<or> rp_rollback_qualified p)
      else False)"

definition plan_executable :: "bool \<Rightarrow> runtime_upgrade_plan \<Rightarrow> bool" where
  "plan_executable rollback p =
     (if rollback then runtime_plan_RollbackExecutable p else runtime_plan_UpgradeExecutable p)"

definition mutation_handle :: "bool \<Rightarrow> 'h runtime_bundle \<Rightarrow> 'h option" where
  "mutation_handle rollback b = (if rollback then bn_rollback b else bn_upgrade b)"

definition PlanUpgrade ::
  "'h upgrade_config \<Rightarrow> context_error option \<Rightarrow> ('h \<Rightarrow> installation \<Rightarrow> plan_answer) \<Rightarrow> string
     \<Rightarrow> management_error + runtime_upgrade_plan" where
  "PlanUpgrade c ctx plan runtimeID =
     bind_result (upgrade_resolve c ctx runtimeID) (\<lambda>t.
       case bn_upgrade_plan (rt_bundle t) of
         None \<Rightarrow> Inl ErrManagementCapabilityUnsupported
       | Some h \<Rightarrow>
           (case plan h (rt_installation t) of
              Inl e \<Rightarrow> Inl (managementQueryError ctx e)
            | Inr p \<Rightarrow>
                if \<not> validManagedUpgradePlan p (rt_installation t) then Inl ErrManagementQueryFailed
                else Inr p))"

text \<open>\<open>ExecuteUpgradeOperation\<close> and \<open>ExecuteRollbackOperation\<close>: the plan is made again first.\<close>

definition execute_mutation ::
  "bool \<Rightarrow> 'h upgrade_config \<Rightarrow> context_error option \<Rightarrow> ('h \<Rightarrow> installation \<Rightarrow> plan_answer)
     \<Rightarrow> ('h \<Rightarrow> installation \<Rightarrow> upgrade_answer) \<Rightarrow> string \<Rightarrow> management_error + upgrade_result" where
  "execute_mutation rollback c ctx plan call runtimeID =
     bind_result (upgrade_resolve c ctx runtimeID) (\<lambda>t.
       case (bn_upgrade_plan (rt_bundle t), mutation_handle rollback (rt_bundle t)) of
         (Some h, Some m) \<Rightarrow>
           (case plan h (rt_installation t) of
              Inl e \<Rightarrow> Inl (managementQueryError ctx e)
            | Inr p \<Rightarrow>
                if \<not> validManagedUpgradePlan p (rt_installation t) then Inl ErrManagementQueryFailed
                else if \<not> plan_executable rollback p then Inl ErrManagementCapabilityUnsupported
                else (case call m (rt_installation t) of
                        (_, Some e) \<Rightarrow> Inl (managementQueryError ctx e)
                      | (r, None) \<Rightarrow>
                          if \<not> upgrade_result_Validate r
                             \<or> ur_state r \<noteq> (if rollback then UpgradeRolledBack else UpgradeSucceeded)
                          then Inl ErrManagementQueryFailed else Inr r))
       | _ \<Rightarrow> Inl ErrManagementCapabilityUnsupported)"

definition ExecuteUpgradeOperation ::
  "'h upgrade_config \<Rightarrow> context_error option \<Rightarrow> ('h \<Rightarrow> installation \<Rightarrow> plan_answer)
     \<Rightarrow> ('h \<Rightarrow> installation \<Rightarrow> upgrade_answer) \<Rightarrow> string \<Rightarrow> management_error + upgrade_result" where
  "ExecuteUpgradeOperation = execute_mutation False"

definition ExecuteRollbackOperation ::
  "'h upgrade_config \<Rightarrow> context_error option \<Rightarrow> ('h \<Rightarrow> installation \<Rightarrow> plan_answer)
     \<Rightarrow> ('h \<Rightarrow> installation \<Rightarrow> upgrade_answer) \<Rightarrow> string \<Rightarrow> management_error + upgrade_result" where
  "ExecuteRollbackOperation = execute_mutation True"

subsection \<open>Starting\<close>

definition upgrade_type :: "bool \<Rightarrow> op_type" where
  "upgrade_type rollback = (if rollback then TypeRuntimeRollback else TypeRuntimeUpgrade)"

definition plan_allows ::
  "bool \<Rightarrow> ('h \<Rightarrow> installation \<Rightarrow> plan_answer) \<Rightarrow> 'h \<Rightarrow> installation \<Rightarrow> bool" where
  "plan_allows rollback plan h inst =
     (case plan h inst of
        Inl _ \<Rightarrow> False
      | Inr p \<Rightarrow> validManagedUpgradePlan p inst \<and> plan_executable rollback p)"

definition startMutation ::
  "'h upgrade_config \<Rightarrow> op_inputs \<Rightarrow> ('h \<Rightarrow> installation \<Rightarrow> plan_answer) \<Rightarrow> string \<Rightarrow> string \<Rightarrow> bool
     \<Rightarrow> op_service \<Rightarrow> op_service start_result" where
  "startMutation c w plan runtimeID key rollback s =
     (if \<not> uc_db c then (s, Inl mutation_unsupported)
      else if \<not> ValidateIdempotencyKey key then (s, Inl ErrInvalidKey)
      else case upgrade_resolve c None runtimeID of
        Inl e \<Rightarrow> (s, Inl (ErrManagement e))
      | Inr t \<Rightarrow>
     (case (bn_upgrade_plan (rt_bundle t), mutation_handle rollback (rt_bundle t)) of
        (Some h, Some _) \<Rightarrow>
          if \<not> plan_allows rollback plan h (rt_installation t) then (s, Inl mutation_unsupported)
          else replay_or_create (uc_message c) w key
                 (\<lambda>v. op_kind v = upgrade_type rollback \<and> op_target_id v = rt_installation_id t)
                 ErrRuntimeMutationConflict mutation_conflict ErrRuntimeMutationConflict
                 (\<lambda>i cor. Some (new_operation (oi_now w) (upgrade_type rollback) TargetRuntimeInstallation
                    (rt_installation_id t) StageUpgradePreflight [] key i cor)) s
      | _ \<Rightarrow> (s, Inl mutation_unsupported)))"

definition StartUpgrade ::
  "'h upgrade_config \<Rightarrow> op_inputs \<Rightarrow> ('h \<Rightarrow> installation \<Rightarrow> plan_answer) \<Rightarrow> string \<Rightarrow> string
     \<Rightarrow> op_service \<Rightarrow> op_service start_result" where
  "StartUpgrade c w plan runtimeID key = startMutation c w plan runtimeID key False"

definition StartRollback ::
  "'h upgrade_config \<Rightarrow> op_inputs \<Rightarrow> ('h \<Rightarrow> installation \<Rightarrow> plan_answer) \<Rightarrow> string \<Rightarrow> string
     \<Rightarrow> op_service \<Rightarrow> op_service start_result" where
  "StartRollback c w plan runtimeID key = startMutation c w plan runtimeID key True"

subsection \<open>Working\<close>

text \<open>The plan is made once more; without it the adapter is not called and the result is zero.\<close>

definition mutation_answer ::
  "bool \<Rightarrow> ('h \<Rightarrow> installation \<Rightarrow> plan_answer) \<Rightarrow> ('h \<Rightarrow> installation \<Rightarrow> upgrade_answer)
     \<Rightarrow> 'h \<Rightarrow> 'h \<Rightarrow> installation \<Rightarrow> upgrade_answer" where
  "mutation_answer rollback plan call h m inst =
     (if \<not> plan_allows rollback plan h inst
      then (zero_upgrade_result, Some (Some ErrManagementCapabilityUnsupported))
      else call m inst)"

definition upgrade_settled :: "bool \<Rightarrow> time \<Rightarrow> upgrade_answer \<Rightarrow> operation \<Rightarrow> operation" where
  "upgrade_settled rollback now answer running =
     (let (r, e) = answer;
          final = running\<lparr>op_message := (if upgrade_outcome_state_Valid (ur_state r) then ur_state r
                                         else op_message running)\<rparr>;
          expected = (if rollback then UpgradeRolledBack else UpgradeSucceeded)
      in if e \<noteq> None \<or> \<not> upgrade_result_Validate r \<or> ur_state r \<noteq> expected
         then settled_operation now StageUpgradeReconcile StatusFailed
                (if rollback then ErrorRuntimeRollbackFailed else ErrorRuntimeUpgradeFailed)
                (ur_state r \<noteq> UpgradeRecoveryRequired) final
         else settled_operation now StageUpgradeReconcile StatusSucceeded (op_error_code final)
                (op_retryable final) final)"

definition begin_mutation ::
  "'h upgrade_config \<Rightarrow> time \<Rightarrow> operation \<Rightarrow> op_service \<Rightarrow> op_service \<times> operation option" where
  "begin_mutation c now v = begin_work (uc_message c) now StageUpgradeBuild (op_id v)"

definition finish_mutation ::
  "'h upgrade_config \<Rightarrow> time \<Rightarrow> bool \<Rightarrow> upgrade_answer \<Rightarrow> operation \<Rightarrow> op_service \<Rightarrow> op_service" where
  "finish_mutation c now rollback answer running =
     settle_operation (uc_message c) now running (upgrade_settled rollback now answer running)"

text \<open>The target was resolved by the start handler, which found both handles.\<close>

definition runMutation ::
  "'h upgrade_config \<Rightarrow> time \<Rightarrow> time \<Rightarrow> ('h \<Rightarrow> installation \<Rightarrow> plan_answer)
     \<Rightarrow> ('h \<Rightarrow> installation \<Rightarrow> upgrade_answer) \<Rightarrow> operation \<Rightarrow> 'h \<Rightarrow> 'h \<Rightarrow> installation \<Rightarrow> bool
     \<Rightarrow> op_service \<Rightarrow> op_service" where
  "runMutation c now completed plan call v h m inst rollback s =
     (case begin_mutation c now v s of
        (s1, None) \<Rightarrow> s1
      | (s1, Some running) \<Rightarrow>
          finish_mutation c completed rollback (mutation_answer rollback plan call h m inst) running s1)"

definition upgrade_RecoverInterrupted ::
  "'h upgrade_config \<Rightarrow> time \<Rightarrow> op_service \<Rightarrow> op_service \<times> operation list \<times> db_error option" where
  "upgrade_RecoverInterrupted c now s =
     (if \<not> uc_db c then (s, [], None)
      else recover_interrupted (uc_message c) now StageUpgradeReconcile False
             ListActiveRuntimeManagementOperations s)"

end
