(* ===== verification/Backup_Service.thy ===== *)
theory Backup_Service
  imports Operation_Service
begin

text \<open>
  The service behind Runtime backups (app/management\_backup.go): reading the index, and creating,
  deleting and restoring a backup through operations. The resolver of targets and the adapter's
  calls are parameters.
\<close>

subsection \<open>Configuration, state and views\<close>

definition managementBackupCollectionLimit :: nat where "managementBackupCollectionLimit = 256"
definition managementBackupMetadataMaxBytes :: nat where "managementBackupMetadataMaxBytes = 64"

type_synonym backup_service = cancel_service

record 'h backup_config =
  bc_targets :: "(string \<Rightarrow> management_error + 'h runtime_target) option"
  bc_db :: bool
  bc_message :: "sql_failure \<Rightarrow> string"

record backup_view =
  bv_id :: string
  bv_state :: backup_state
  bv_format_version :: string
  bv_runtime_version :: string
  bv_size :: int
  bv_checksum :: string
  bv_created_at :: time
  bv_verified_at :: time
  bv_key_mode :: backup_key_mode

text \<open>An error of the adapter: a context's, one of the package's own, not found, or another.\<close>

datatype backup_failure = BackupOwn management_error | BackupNotFound | BackupOther

definition managementBackupError :: "context_error option \<Rightarrow> backup_failure \<Rightarrow> mutation_error" where
  "managementBackupError ctx e =
     (case ctx of
        Some x \<Rightarrow> ErrManagement (ErrManagementContext x)
      | None \<Rightarrow>
          (case e of
             BackupNotFound \<Rightarrow> ErrBackupNotFound
           | BackupOwn (ErrManagementContext x) \<Rightarrow> ErrManagement (ErrManagementContext x)
           | BackupOwn ErrRuntimeNotSupported \<Rightarrow> ErrManagement ErrRuntimeNotSupported
           | BackupOwn ErrManagementCapabilityUnsupported \<Rightarrow> mutation_unsupported
           | _ \<Rightarrow> mutation_query_failed))"

definition validManagementBackupID :: "string \<Rightarrow> bool" where
  "validManagementBackupID i =
     backup_Validate
       \<lparr>bk_id = i, bk_state = BackupFailed, bk_format_version = [], bk_runtime_version = [], bk_size = 0,
        bk_checksum = [], bk_created_at = 0, bk_verified_at = 0, bk_key_mode = []\<rparr>"

definition validManagementBackupMetadata :: "string \<Rightarrow> bool" where
  "validManagementBackupMetadata v =
     (if v = [] \<or> length v > managementBackupMetadataMaxBytes \<or> TrimSpace v \<noteq> v then False
      else list_all (\<lambda>c. is_alnum c \<or> c = CHR ''.'' \<or> c = CHR ''_'' \<or> c = CHR ''-'' \<or> c = CHR ''+'') v)"

definition validatedBackupView :: "backup \<Rightarrow> mutation_error + backup_view" where
  "validatedBackupView b =
     (if \<not> backup_Validate b \<or> \<not> backup_state_Indexed (bk_state b) then Inl mutation_query_failed
      else if \<not> validManagementBackupMetadata (bk_format_version b)
              \<or> \<not> validManagementBackupMetadata (bk_runtime_version b) then Inl mutation_query_failed
      else Inr \<lparr>bv_id = bk_id b, bv_state = bk_state b, bv_format_version = bk_format_version b,
                bv_runtime_version = bk_runtime_version b, bv_size = bk_size b,
                bv_checksum = bk_checksum b, bv_created_at = bk_created_at b,
                bv_verified_at = bk_verified_at b, bv_key_mode = bk_key_mode b\<rparr>)"

definition backup_resolve ::
  "'h backup_config \<Rightarrow> context_error option \<Rightarrow> string \<Rightarrow> mutation_error + 'h runtime_target" where
  "backup_resolve c ctx runtimeID =
     (case bc_targets c of
        None \<Rightarrow> Inl mutation_unsupported
      | Some resolve \<Rightarrow>
          (case resolve runtimeID of
             Inl e \<Rightarrow> Inl (managementBackupError ctx (BackupOwn e))
           | Inr t \<Rightarrow> Inr t))"

subsection \<open>Reading\<close>

fun backup_views :: "string list \<Rightarrow> backup list \<Rightarrow> mutation_error + backup_view list" where
  "backup_views seen [] = Inr []"
| "backup_views seen (b # bs) =
     (case validatedBackupView b of
        Inl e \<Rightarrow> Inl e
      | Inr v \<Rightarrow>
          if bv_id v \<in> set seen then Inl mutation_query_failed
          else (case backup_views (bv_id v # seen) bs of
                  Inl e \<Rightarrow> Inl e
                | Inr vs \<Rightarrow> Inr (v # vs)))"

definition service_ListBackups ::
  "'h backup_config \<Rightarrow> context_error option \<Rightarrow> ('h \<Rightarrow> installation \<Rightarrow> backup_failure + backup list) \<Rightarrow> string
     \<Rightarrow> mutation_error + backup_view list" where
  "service_ListBackups c ctx read runtimeID =
     bind_result (backup_resolve c ctx runtimeID) (\<lambda>t.
       case bn_backup_read (rt_bundle t) of
         None \<Rightarrow> Inl mutation_unsupported
       | Some h \<Rightarrow>
           (case read h (rt_installation t) of
              Inl e \<Rightarrow> Inl (managementBackupError ctx e)
            | Inr bs \<Rightarrow>
                if length bs > managementBackupCollectionLimit then Inl mutation_query_failed
                else backup_views [] bs))"

definition InspectBackup ::
  "'h backup_config \<Rightarrow> context_error option \<Rightarrow> ('h \<Rightarrow> installation \<Rightarrow> string \<Rightarrow> backup_failure + backup)
     \<Rightarrow> string \<Rightarrow> string \<Rightarrow> mutation_error + backup_view" where
  "InspectBackup c ctx read runtimeID i =
     (if \<not> validManagementBackupID i then Inl ErrBackupNotFound
      else bind_result (backup_resolve c ctx runtimeID) (\<lambda>t.
        case bn_backup_read (rt_bundle t) of
          None \<Rightarrow> Inl mutation_unsupported
        | Some h \<Rightarrow>
            (case read h (rt_installation t) i of
               Inl e \<Rightarrow> Inl (managementBackupError ctx e)
             | Inr b \<Rightarrow> if bk_id b \<noteq> i then Inl mutation_query_failed else validatedBackupView b)))"

subsection \<open>The adapter's calls\<close>

definition CreateBackup ::
  "'h backup_config \<Rightarrow> context_error option
     \<Rightarrow> ('h \<Rightarrow> installation \<Rightarrow> backup_create_request \<Rightarrow> backup_failure + backup) \<Rightarrow> string
     \<Rightarrow> backup_create_request \<Rightarrow> mutation_error + backup_view" where
  "CreateBackup c ctx create runtimeID request =
     (if \<not> backup_create_Validate request then Inl mutation_query_failed
      else bind_result (backup_resolve c ctx runtimeID) (\<lambda>t.
        case bn_backup_mutate (rt_bundle t) of
          None \<Rightarrow> Inl mutation_unsupported
        | Some h \<Rightarrow>
            (case create h (rt_installation t) request of
               Inl e \<Rightarrow> Inl (managementBackupError ctx e)
             | Inr b \<Rightarrow>
                 if bk_state b \<noteq> BackupAvailable then Inl mutation_query_failed else validatedBackupView b)))"

definition DeleteBackup ::
  "'h backup_config \<Rightarrow> context_error option \<Rightarrow> ('h \<Rightarrow> installation \<Rightarrow> string \<Rightarrow> backup_failure option)
     \<Rightarrow> string \<Rightarrow> string \<Rightarrow> mutation_error option" where
  "DeleteBackup c ctx delete runtimeID i =
     (if \<not> validManagementBackupID i then Some ErrBackupNotFound
      else case backup_resolve c ctx runtimeID of
        Inl e \<Rightarrow> Some e
      | Inr t \<Rightarrow>
          (case bn_backup_mutate (rt_bundle t) of
             None \<Rightarrow> Some mutation_unsupported
           | Some h \<Rightarrow> map_option (managementBackupError ctx) (delete h (rt_installation t) i)))"

subsection \<open>Starting\<close>

definition backup_row_matches :: "op_type \<Rightarrow> string \<Rightarrow> string \<Rightarrow> operation \<Rightarrow> bool" where
  "backup_row_matches kind inst msg v \<longleftrightarrow>
     op_kind v = kind \<and> op_target_id v = inst \<and> (kind = TypeBackupCreate \<or> op_message v = msg)"

definition StartCreateBackup ::
  "'h backup_config \<Rightarrow> op_inputs \<Rightarrow> string \<Rightarrow> string \<Rightarrow> backup_service \<Rightarrow> backup_service start_result" where
  "StartCreateBackup c w runtimeID key s =
     (if \<not> bc_db c \<or> \<not> ValidateIdempotencyKey key then (s, Inl mutation_query_failed)
      else case backup_resolve c None runtimeID of
        Inl e \<Rightarrow> (s, Inl e)
      | Inr t \<Rightarrow>
          if bn_backup_mutate (rt_bundle t) = None then (s, Inl mutation_unsupported)
          else replay_or_create (bc_message c) w key
                 (backup_row_matches TypeBackupCreate (rt_installation_id t) []) mutation_query_failed
                 (\<lambda>e. mutation_conflict e \<or> e = ErrActiveInstallExists) ErrBackupMutationConflict
                 (\<lambda>i cor. Some (new_operation (oi_now w) TypeBackupCreate TargetRuntimeInstallation
                    (rt_installation_id t) StageBackupPreflight [] key i cor)) s)"

text \<open>Deleting and restoring name a backup, which must be readable before the key is looked up.\<close>

definition start_on_backup ::
  "op_type \<Rightarrow> stage \<Rightarrow> ('h runtime_bundle \<Rightarrow> 'h option) \<Rightarrow> 'h backup_config
     \<Rightarrow> ('h \<Rightarrow> installation \<Rightarrow> string \<Rightarrow> backup_failure + backup) \<Rightarrow> op_inputs \<Rightarrow> string \<Rightarrow> string \<Rightarrow> string
     \<Rightarrow> backup_service \<Rightarrow> backup_service start_result" where
  "start_on_backup kind stg capability c read w runtimeID i key s =
     (if \<not> bc_db c \<or> \<not> ValidateIdempotencyKey key \<or> \<not> validManagementBackupID i
      then (s, Inl mutation_query_failed)
      else case backup_resolve c None runtimeID of
        Inl e \<Rightarrow> (s, Inl e)
      | Inr t \<Rightarrow>
          if capability (rt_bundle t) = None then (s, Inl mutation_unsupported)
          else (case InspectBackup c None read runtimeID i of
                  Inl e \<Rightarrow> (s, Inl e)
                | Inr _ \<Rightarrow>
                    replay_or_create (bc_message c) w key
                      (backup_row_matches kind (rt_installation_id t) i) ErrBackupMutationConflict
                      mutation_conflict ErrBackupMutationConflict
                      (\<lambda>j cor. Some (new_operation (oi_now w) kind TargetRuntimeInstallation
                         (rt_installation_id t) stg i key j cor)) s))"

definition StartDeleteBackup ::
  "'h backup_config \<Rightarrow> ('h \<Rightarrow> installation \<Rightarrow> string \<Rightarrow> backup_failure + backup) \<Rightarrow> op_inputs
     \<Rightarrow> string \<Rightarrow> string \<Rightarrow> string \<Rightarrow> backup_service \<Rightarrow> backup_service start_result" where
  "StartDeleteBackup = start_on_backup TypeBackupDelete StageBackupPreflight bn_backup_mutate"

definition StartRestoreBackup ::
  "'h backup_config \<Rightarrow> ('h \<Rightarrow> installation \<Rightarrow> string \<Rightarrow> backup_failure + backup) \<Rightarrow> op_inputs
     \<Rightarrow> string \<Rightarrow> string \<Rightarrow> string \<Rightarrow> backup_service \<Rightarrow> backup_service start_result" where
  "StartRestoreBackup = start_on_backup TypeBackupRestore StageRestorePreflight bn_restore"

subsection \<open>Cancelling\<close>

definition CancelBackupOperation ::
  "'h backup_config \<Rightarrow> time \<Rightarrow> string \<Rightarrow> backup_service \<Rightarrow> backup_service \<times> (mutation_error + operation)" where
  "CancelBackupOperation c now i s =
     (if \<not> bc_db c then (s, Inl mutation_unsupported)
      else case GetOperation (os_db s) i of
        Inl _ \<Rightarrow> (s, Inl mutation_query_failed)
      | Inr current \<Rightarrow>
          if op_kind current \<notin> {TypeBackupCreate, TypeBackupDelete, TypeBackupRestore}
          then (s, Inl mutation_unsupported)
          else if IsTerminal (op_status current) then (s, Inl ErrNotCancellable)
          else (case persist_operation (bc_message c) now current (cancelled_operation now current)
                       (raise_cancel i s) of
                  (s1, Some _) \<Rightarrow> (s1, Inl ErrNotCancellable)
                | (s1, None) \<Rightarrow> (s1, Inr (cancelled_operation now current))))"

subsection \<open>Working\<close>

text \<open>The first half of every worker; a context cancelled meanwhile fails the read.\<close>

definition begin_backup ::
  "'h backup_config \<Rightarrow> time \<Rightarrow> stage \<Rightarrow> string \<Rightarrow> backup_service \<Rightarrow> backup_service \<times> operation option" where
  "begin_backup c now stg i s =
     (case registerCancel i s of
        None \<Rightarrow> (s, None)
      | Some s1 \<Rightarrow>
          (case begin_work (bc_message c) now stg i s1 of
             (s2, None) \<Rightarrow> (unregisterCancel i s2, None)
           | (s2, Some running) \<Rightarrow> (s2, Some running)))"

definition finish_backup ::
  "'h backup_config \<Rightarrow> time \<Rightarrow> operation \<Rightarrow> operation \<Rightarrow> backup_service \<Rightarrow> backup_service" where
  "finish_backup c now running final s =
     unregisterCancel (op_id running) (settle_operation (bc_message c) now running final s)"

text \<open>What the adapter says when a backup cannot be created, by the first code that matches.\<close>

datatype backup_create_failure =
    BackupRuntimeNotStopped | BackupSourceChanged | BackupSourceUnsafe | BackupSourceIncomplete
  | BackupInsufficientSpace | BackupStagingFailed | BackupEncryptionFailed | BackupCreateOther

definition backupCreateOperationError :: "backup_create_failure \<Rightarrow> error_code" where
  "backupCreateOperationError e =
     (case e of
        BackupRuntimeNotStopped \<Rightarrow> ErrorBackupRuntimeNotStopped
      | BackupSourceChanged \<Rightarrow> ErrorBackupSourceChanged
      | BackupSourceUnsafe \<Rightarrow> ErrorBackupSourceUnsafe
      | BackupSourceIncomplete \<Rightarrow> ErrorBackupSourceIncomplete
      | BackupInsufficientSpace \<Rightarrow> ErrorBackupInsufficientSpace
      | BackupStagingFailed \<Rightarrow> ErrorBackupStagingFailed
      | BackupEncryptionFailed \<Rightarrow> ErrorBackupEncryptionFailed
      | BackupCreateOther \<Rightarrow> ErrorBackupCreateFailed)"

text \<open>A worker that succeeds leaves code and retry flag as they were.\<close>

definition worker_settled :: "time \<Rightarrow> stage \<Rightarrow> (error_code \<times> bool) option \<Rightarrow> operation \<Rightarrow> operation" where
  "worker_settled now stg failure v =
     (case failure of
        Some (code, retry) \<Rightarrow> settled_operation now stg StatusFailed code retry v
      | None \<Rightarrow> settled_operation now stg StatusSucceeded (op_error_code v) (op_retryable v) v)"

definition create_settled :: "time \<Rightarrow> backup_create_failure option \<Rightarrow> operation \<Rightarrow> operation" where
  "create_settled now e =
     worker_settled now StageBackupReconcile (map_option (\<lambda>x. (backupCreateOperationError x, True)) e)"

definition delete_settled :: "time \<Rightarrow> bool \<Rightarrow> operation \<Rightarrow> operation" where
  "delete_settled now failed =
     worker_settled now StageBackupReconcile (if failed then Some (ErrorBackupDeleteFailed, True) else None)"

text \<open>The restore's outcome becomes the message; \<open>result\<close> is the zero state when there is none.\<close>

definition restore_settled :: "time \<Rightarrow> restore_outcome_state \<Rightarrow> bool \<Rightarrow> operation \<Rightarrow> operation" where
  "restore_settled now result failed running =
     worker_settled now StageRestoreReconcile
       (if failed \<or> result \<noteq> RestoreSucceeded
        then Some (ErrorBackupRestoreFailed, result \<noteq> RestoreRecoveryRequired) else None)
       (running\<lparr>op_message := (if restore_outcome_state_Valid result then result else op_message running)\<rparr>)"

definition run_backup ::
  "'h backup_config \<Rightarrow> stage \<Rightarrow> time \<Rightarrow> time \<Rightarrow> (operation \<Rightarrow> operation) \<Rightarrow> operation
     \<Rightarrow> backup_service \<Rightarrow> backup_service" where
  "run_backup c stg now completed final v s =
     (case begin_backup c now stg (op_id v) s of
        (s1, None) \<Rightarrow> s1
      | (s1, Some running) \<Rightarrow> finish_backup c completed running (final running) s1)"

definition runCreateBackup ::
  "'h backup_config \<Rightarrow> time \<Rightarrow> time \<Rightarrow> backup_create_failure option \<Rightarrow> operation
     \<Rightarrow> backup_service \<Rightarrow> backup_service" where
  "runCreateBackup c now completed e =
     run_backup c StageBackupSnapshot now completed (create_settled completed e)"

definition runDeleteBackup ::
  "'h backup_config \<Rightarrow> time \<Rightarrow> time \<Rightarrow> bool \<Rightarrow> operation \<Rightarrow> backup_service \<Rightarrow> backup_service" where
  "runDeleteBackup c now completed failed =
     run_backup c StageBackupDelete now completed (delete_settled completed failed)"

definition runRestoreBackup ::
  "'h backup_config \<Rightarrow> time \<Rightarrow> time \<Rightarrow> restore_outcome_state \<Rightarrow> bool \<Rightarrow> operation
     \<Rightarrow> backup_service \<Rightarrow> backup_service" where
  "runRestoreBackup c now completed result failed =
     run_backup c StageRestoreProtection now completed (restore_settled completed result failed)"

definition backup_RecoverInterrupted ::
  "'h backup_config \<Rightarrow> time \<Rightarrow> backup_service \<Rightarrow> backup_service \<times> operation list \<times> db_error option" where
  "backup_RecoverInterrupted c now s =
     (if \<not> bc_db c then (s, [], None)
      else recover_interrupted (bc_message c) now StageBackupReconcile True ListActiveBackupOperations s)"

end
