(* ===== verification/Skills_Table.thy ===== *)
theory Skills_Table
  imports Management_Contracts Backup_Index
begin

text \<open>
  The tables of managed skills and of managed MCP bindings (persistence/sqlite/managed_skills.go,
  managed_mcp_bindings.go, migrations 012 and 014) as lists of rows. A row refers to an instance,
  whose identifiers are a parameter of the inserts. The CHECK constraints of migration 012 follow
  from \<open>validateManagedSkill\<close>, which every insert and every replacement runs first.
\<close>

subsection \<open>Managed skills\<close>

datatype skill_error =
    ErrManagedSkillNotFound | ErrManagedSkillConflict | ErrManagedSkillOwnership
  | ErrManagedSkillStale | ErrInvalidManagedSkill
  | ErrManagedSkillWrite \<comment> \<open>any other failure of a write\<close>

record managed_skill =
  ks_id :: string
  ks_instance :: string
  ks_skill :: string
  ks_source :: string
  ks_source_version :: string
  ks_sha256 :: string
  ks_managed_path :: string
  ks_projection_path :: string
  ks_deployment :: string
  ks_desired_enabled :: bool
  ks_projection :: skill_projection_state
  ks_installed_at :: time
  ks_updated_at :: time

definition NewManagedSkillID :: "nat list option \<Rightarrow> string option" where
  "NewManagedSkillID rnd = map_option (\<lambda>bs. ''msk_'' @ RawURLEncoding (take 18 bs)) rnd"

definition validManagedSkillID :: "string \<Rightarrow> bool" where
  "validManagedSkillID v \<longleftrightarrow>
     \<not> (\<not> boundedMetadata v 128 \<or> v = ''.'' \<or> v = ''..'')
     \<and> list_all (\<lambda>c. is_alnum c \<or> c = CHR ''.'' \<or> c = CHR ''_'' \<or> c = CHR ''-'') v"

definition validManagedRelativePath :: "string \<Rightarrow> bool" where
  "validManagedRelativePath v \<longleftrightarrow>
     boundedMetadata v 4096 \<and> path_clean v = v \<and> v \<noteq> ''.''
     \<and> \<not> HasPrefix v ''/'' \<and> \<not> Contains v [CHR 0x5C]
     \<and> \<not> Contains v '':'' \<and> v \<noteq> ''..'' \<and> \<not> HasPrefix v ''../''
     \<and> \<not> Contains v ''/../'' \<and> \<not> HasSuffix v ''/..''"

definition validateManagedSkill :: "managed_skill \<Rightarrow> bool" where
  "validateManagedSkill v \<longleftrightarrow>
     \<not> (\<not> validManagedSkillID (ks_id v) \<or> \<not> boundedMetadata (ks_instance v) 128
        \<or> \<not> validManagedSkillID (ks_skill v) \<or> \<not> validManagedSkillID (ks_source v)
        \<or> \<not> boundedMetadata (ks_source_version v) 4096 \<or> \<not> validManagedSkillID (ks_deployment v)
        \<or> \<not> validLowerSHA256 (ks_sha256 v)
        \<or> \<not> validManagedRelativePath (ks_managed_path v)
        \<or> \<not> validManagedRelativePath (ks_projection_path v)
        \<or> \<not> skill_projection_state_Valid (ks_projection v)
        \<or> is_zero_time (ks_installed_at v) \<or> is_zero_time (ks_updated_at v))"

definition sameManagedSkillStableIdentity :: "managed_skill \<Rightarrow> managed_skill \<Rightarrow> bool" where
  "sameManagedSkillStableIdentity l r \<longleftrightarrow>
     ks_id l = ks_id r \<and> ks_instance l = ks_instance r \<and> ks_skill l = ks_skill r
     \<and> ks_source l = ks_source r \<and> ks_installed_at l = ks_installed_at r"

definition sameManagedSkillOwnership :: "managed_skill \<Rightarrow> managed_skill \<Rightarrow> bool" where
  "sameManagedSkillOwnership l r \<longleftrightarrow>
     sameManagedSkillStableIdentity l r
     \<and> ks_source_version l = ks_source_version r \<and> ks_sha256 l = ks_sha256 r
     \<and> ks_managed_path l = ks_managed_path r \<and> ks_projection_path l = ks_projection_path r
     \<and> ks_deployment l = ks_deployment r"

definition skill_key :: "managed_skill \<Rightarrow> string \<times> string" where
  "skill_key v = (ks_instance v, ks_skill v)"

text \<open>
  A violated unique key names its columns, which \<open>mapManagedSkillWriteError\<close> recognises; a
  violated foreign key does not.
\<close>

definition CreateManagedSkill ::
  "string list \<Rightarrow> managed_skill list \<Rightarrow> managed_skill \<Rightarrow> skill_error + managed_skill list" where
  "CreateManagedSkill instances rows v =
     (if \<not> validateManagedSkill v then Inl ErrInvalidManagedSkill
      else if list_ex (\<lambda>r. ks_id r = ks_id v \<or> ks_deployment r = ks_deployment v \<or> skill_key r = skill_key v) rows
      then Inl ErrManagedSkillConflict
      else if ks_instance v \<notin> set instances then Inl ErrManagedSkillWrite
      else Inr (rows @ [v]))"

definition GetManagedSkill :: "managed_skill list \<Rightarrow> string \<Rightarrow> string \<Rightarrow> skill_error + managed_skill" where
  "GetManagedSkill rows inst skill =
     (case first_match (\<lambda>r. skill_key r = (inst, skill)) rows of
        None \<Rightarrow> Inl ErrManagedSkillNotFound
      | Some r \<Rightarrow> Inr r)"

definition ListManagedSkills :: "managed_skill list \<Rightarrow> string \<Rightarrow> managed_skill list" where
  "ListManagedSkills rows inst = sort_key ks_skill (filter (\<lambda>r. ks_instance r = inst) rows)"

definition getManagedSkillByID :: "managed_skill list \<Rightarrow> string \<Rightarrow> skill_error + managed_skill" where
  "getManagedSkillByID rows i =
     (case first_match (\<lambda>r. ks_id r = i) rows of
        None \<Rightarrow> Inl ErrManagedSkillNotFound
      | Some r \<Rightarrow> Inr r)"

text \<open>An UPDATE that touches exactly one row, or fails as the caller says.\<close>

definition update_one ::
  "skill_error \<Rightarrow> (managed_skill \<Rightarrow> bool) \<Rightarrow> (managed_skill \<Rightarrow> managed_skill) \<Rightarrow> managed_skill list
     \<Rightarrow> skill_error + managed_skill list" where
  "update_one e p f rows =
     (if length (filter p rows) \<noteq> 1 then Inl e else Inr (map (\<lambda>r. if p r then f r else r) rows))"

definition UpdateManagedSkill :: "managed_skill list \<Rightarrow> managed_skill \<Rightarrow> skill_error + managed_skill list" where
  "UpdateManagedSkill rows v =
     (if \<not> validateManagedSkill v then Inl ErrInvalidManagedSkill
      else case getManagedSkillByID rows (ks_id v) of
        Inl e \<Rightarrow> Inl e
      | Inr stored \<Rightarrow>
          if \<not> sameManagedSkillOwnership stored v then Inl ErrManagedSkillOwnership
          else update_one ErrManagedSkillNotFound (\<lambda>r. ks_id r = ks_id v)
                 (\<lambda>r. r\<lparr>ks_desired_enabled := ks_desired_enabled v, ks_projection := ks_projection v,
                        ks_updated_at := ks_updated_at v\<rparr>) rows)"

text \<open>
  The whole previous value is the precondition. A new deployment identifier may clash with the
  unique key of another row.
\<close>

definition released_row :: "managed_skill \<Rightarrow> managed_skill \<Rightarrow> managed_skill" where
  "released_row nxt r =
     r\<lparr>ks_source_version := ks_source_version nxt, ks_sha256 := ks_sha256 nxt,
       ks_managed_path := ks_managed_path nxt, ks_projection_path := ks_projection_path nxt,
       ks_deployment := ks_deployment nxt, ks_desired_enabled := ks_desired_enabled nxt,
       ks_projection := ks_projection nxt, ks_updated_at := ks_updated_at nxt\<rparr>"

definition ReplaceManagedSkillRelease ::
  "managed_skill list \<Rightarrow> managed_skill \<Rightarrow> managed_skill \<Rightarrow> skill_error + managed_skill list" where
  "ReplaceManagedSkillRelease rows current nxt =
     (if \<not> validateManagedSkill current then Inl ErrInvalidManagedSkill
      else if \<not> validateManagedSkill nxt then Inl ErrInvalidManagedSkill
      else if \<not> sameManagedSkillStableIdentity current nxt then Inl ErrManagedSkillOwnership
      else if current \<in> set rows
              \<and> list_ex (\<lambda>r. r \<noteq> current \<and> ks_deployment r = ks_deployment nxt) rows
      then Inl ErrManagedSkillConflict
      else update_one ErrManagedSkillStale (\<lambda>r. r = current) (released_row nxt) rows)"

definition UpdateManagedSkillProjection ::
  "managed_skill list \<Rightarrow> string \<Rightarrow> string \<Rightarrow> bool \<Rightarrow> skill_projection_state \<Rightarrow> time
     \<Rightarrow> skill_error + managed_skill list" where
  "UpdateManagedSkillProjection rows inst skill enabled state now =
     (if inst = [] \<or> skill = [] \<or> \<not> skill_projection_state_Valid state \<or> is_zero_time now
      then Inl ErrInvalidManagedSkill
      else update_one ErrManagedSkillNotFound (\<lambda>r. skill_key r = (inst, skill))
             (\<lambda>r. r\<lparr>ks_desired_enabled := enabled, ks_projection := state, ks_updated_at := now\<rparr>) rows)"

definition DeleteManagedSkill ::
  "managed_skill list \<Rightarrow> string \<Rightarrow> string \<Rightarrow> skill_error + managed_skill list" where
  "DeleteManagedSkill rows inst skill =
     (if length (filter (\<lambda>r. skill_key r = (inst, skill)) rows) \<noteq> 1 then Inl ErrManagedSkillNotFound
      else Inr (filter (\<lambda>r. skill_key r \<noteq> (inst, skill)) rows))"

subsection \<open>Managed MCP bindings\<close>

record mcp_binding =
  mb_instance :: string
  mb_server :: string
  mb_preset :: string
  mb_created_at :: time
  mb_updated_at :: time

text \<open>The lengths that the CHECK constraints allow count characters; \<open>False\<close> is a failed write.\<close>

definition UpsertManagedMCPBinding ::
  "string list \<Rightarrow> (string \<Rightarrow> nat) \<Rightarrow> mcp_binding list \<Rightarrow> mcp_binding \<Rightarrow> mcp_binding list option" where
  "UpsertManagedMCPBinding instances chars rows v =
     (if \<not> (1 \<le> chars (mb_server v) \<and> chars (mb_server v) \<le> 128
             \<and> 1 \<le> chars (mb_preset v) \<and> chars (mb_preset v) \<le> 128)
         \<or> mb_instance v \<notin> set instances then None
      else if list_ex (\<lambda>r. mb_instance r = mb_instance v \<and> mb_server r = mb_server v) rows
      then Some (map (\<lambda>r. if mb_instance r = mb_instance v \<and> mb_server r = mb_server v
                          then r\<lparr>mb_preset := mb_preset v, mb_updated_at := mb_updated_at v\<rparr> else r) rows)
      else Some (rows @ [v]))"

definition ListManagedMCPBindings :: "mcp_binding list \<Rightarrow> string \<Rightarrow> mcp_binding list" where
  "ListManagedMCPBindings rows inst = sort_key mb_server (filter (\<lambda>r. mb_instance r = inst) rows)"

definition DeleteManagedMCPBinding :: "mcp_binding list \<Rightarrow> string \<Rightarrow> string \<Rightarrow> mcp_binding list" where
  "DeleteManagedMCPBinding rows inst server =
     filter (\<lambda>r. \<not> (mb_instance r = inst \<and> mb_server r = server)) rows"

end
