(* ===== verification/Skill_Service.thy ===== *)
theory Skill_Service
  imports Operation_Service Skills_Table Lifecycle_Service
begin

text \<open>
  The service behind managed skills (app/management\_skills.go). The package store, the adapter's
  projection of a skill and its lifecycle manager act on a world, which the model threads; a
  worker's context stays live. Table rows and the world change in the order of the code.
\<close>

subsection \<open>The adapter and the store\<close>

definition maxManagementSkillItems :: nat where "maxManagementSkillItems = 256"

record catalog_entry =
  ce_source :: string
  ce_skill :: string
  ce_display :: string
  ce_version :: string

record acquisition =
  aq_source :: string
  aq_skill :: string
  aq_version :: string
  aq_sha256 :: string
  aq_relative :: string
  aq_absolute :: string

text \<open>The errors that a worker meets, as \<open>managedSkillErrorCode\<close> tells them apart.\<close>

datatype skill_work_error =
    WorkSourceNotApproved
  | WorkCatalogNotFound
  | WorkCatalogInvalid
  | WorkOwnershipConflict
  | WorkDrift
  | WorkMutationConflict
  | WorkPathConflict
  | WorkBundleInvalid
  | WorkTable skill_error
  | WorkLifecycle lifecycle_error
  | WorkOther

record ('h, 'w) skill_adapter =
  sa_inspect :: "'h \<Rightarrow> installation \<Rightarrow> string \<Rightarrow> string \<Rightarrow> 'w \<Rightarrow> 'w \<times> (skill_work_error + skill)"
  sa_project :: "'h \<Rightarrow> installation \<Rightarrow> string \<Rightarrow> skill_project_request \<Rightarrow> 'w \<Rightarrow> 'w \<times> (skill_work_error + skill)"
  sa_unproject :: "'h \<Rightarrow> installation \<Rightarrow> string \<Rightarrow> string \<Rightarrow> string \<Rightarrow> 'w \<Rightarrow> 'w \<times> skill_work_error option"
  sa_status :: "'h \<Rightarrow> lifecycle_installation \<Rightarrow> string \<Rightarrow> 'w \<Rightarrow> 'w \<times> lifecycle_status"
  sa_restart :: "'h \<Rightarrow> lifecycle_installation \<Rightarrow> string \<Rightarrow> 'w \<Rightarrow> 'w \<times> lifecycle_error option"

record 'w skill_store =
  st_root :: string
  st_catalog :: "catalog_entry list"
  st_acquire :: "string \<Rightarrow> string \<Rightarrow> string \<Rightarrow> 'w \<Rightarrow> 'w \<times> (skill_work_error + acquisition)"
  st_import :: "string \<Rightarrow> string \<Rightarrow> string \<Rightarrow> 'w \<Rightarrow> 'w \<times> (skill_work_error + acquisition)"
  st_digest :: "string \<Rightarrow> 'w \<Rightarrow> string option" \<comment> \<open>\<open>InspectSourceDirectory\<close>\<close>
  st_join :: "string \<Rightarrow> string \<Rightarrow> string" \<comment> \<open>\<open>filepath.Join\<close> and \<open>FromSlash\<close>\<close>
  st_to_slash :: "string \<Rightarrow> string"

record ('h, 'w) skill_config =
  kc_targets :: "(string \<Rightarrow> management_error + 'h management_target) option"
  kc_db :: bool
  kc_store :: "'w skill_store option"
  kc_adapter :: "('h, 'w) skill_adapter"
  kc_message :: "sql_failure \<Rightarrow> string"

record 'w skill_service = op_service +
  kv_rows :: "managed_skill list"
  kv_instances :: "string list"
  kv_world :: 'w

definition skill_resolve ::
  "('h, 'w) skill_config \<Rightarrow> context_error option \<Rightarrow> string \<Rightarrow> management_error + 'h management_target" where
  "skill_resolve c ctx i = management_resolve (kc_targets c) ctx i"

subsection \<open>The merged list\<close>

definition isProjectionDrift :: "skill_projection_state \<Rightarrow> bool" where
  "isProjectionDrift st \<longleftrightarrow>
     st = SkillProjectionDriftMissing \<or> st = SkillProjectionDriftModified \<or> st = SkillProjectionConflict"

definition normalizeUnclassifiedSkill :: "skill \<Rightarrow> skill" where
  "normalizeUnclassifiedSkill v =
     v\<lparr>sk_ownership := (if sk_ownership v = [] then SkillOwnershipUnknown else sk_ownership v),
       sk_projection := (if sk_projection v = [] then SkillProjectionUnknown else sk_projection v)\<rparr>"

definition sourceUpdateAvailable :: "'w skill_store option \<Rightarrow> managed_skill \<Rightarrow> bool" where
  "sourceUpdateAvailable st r =
     (case st of
        None \<Rightarrow> False
      | Some x \<Rightarrow>
          (case first_match (\<lambda>e. ce_source e = ks_source r \<and> ce_skill e = ks_skill r) (st_catalog x) of
             None \<Rightarrow> False
           | Some e \<Rightarrow> ce_version e \<noteq> ks_source_version r))"

definition catalogContains :: "'w skill_store option \<Rightarrow> string \<Rightarrow> string \<Rightarrow> bool" where
  "catalogContains st skill source =
     (case st of
        None \<Rightarrow> False
      | Some x \<Rightarrow> list_ex (\<lambda>e. ce_skill e = skill \<and> ce_source e = source) (st_catalog x))"

text \<open>A native item only adds its enabled state, and a version where there is none, to one that is known.\<close>

definition native_into :: "skill \<Rightarrow> skill \<Rightarrow> skill" where
  "native_into item current =
     current\<lparr>sk_enabled := sk_enabled item,
             sk_version := (if sk_version current = [] then sk_version item else sk_version current)\<rparr>"

fun merge_items ::
  "bool \<Rightarrow> string list \<Rightarrow> skill list \<Rightarrow> (string \<times> skill) list \<Rightarrow> (string \<times> skill) list option" where
  "merge_items native seen [] m = Some m"
| "merge_items native seen (v # vs) m =
     (if \<not> skill_Validate v \<or> sk_id v \<in> set seen then None
      else merge_items native (sk_id v # seen) vs
             (case map_of m (sk_id v) of
                None \<Rightarrow> AList.update (sk_id v) v m
              | Some current \<Rightarrow>
                  AList.update (sk_id v) (if native then native_into v current else v) m))"

definition mergeSkillItems ::
  "bool \<Rightarrow> skill list \<Rightarrow> (string \<times> skill) list \<Rightarrow> (string \<times> skill) list option" where
  "mergeSkillItems native items m =
     (if length items > maxManagementSkillItems then None else merge_items native [] items m)"

definition zero_skill :: skill where
  "zero_skill =
     \<lparr>sk_id = [], sk_source_id = [], sk_version = [], sk_description = [], sk_preview = [],
      sk_ownership = [], sk_projection = [], sk_installation = [], sk_enabled = [], sk_scan = [],
      sk_update_available = False\<rparr>"

text \<open>The row of a managed skill decides identity, ownership and, with what is observed, the states.\<close>

definition record_into :: "'w skill_store option \<Rightarrow> managed_skill \<Rightarrow> skill option \<Rightarrow> skill" where
  "record_into st r found =
     (let item = (case found of None \<Rightarrow> zero_skill | Some v \<Rightarrow> v)
                   \<lparr>sk_id := ks_skill r, sk_source_id := ks_source r, sk_version := ks_source_version r,
                    sk_ownership := SkillOwnershipYORVAManaged, sk_installation := SkillInstalled,
                    sk_scan := SkillScanClean, sk_update_available := sourceUpdateAvailable st r\<rparr>;
          enabled = ks_desired_enabled r
      in if found = None
         then (if enabled
               then item\<lparr>sk_projection := SkillProjectionDriftMissing, sk_enabled := SkillEnabledUnknown\<rparr>
               else item\<lparr>sk_projection := SkillProjectionNotProjected, sk_enabled := SkillDisabled\<rparr>)
         else if sk_projection item = SkillProjectionProjected
         then (if enabled then item\<lparr>sk_enabled := SkillEnabled\<rparr>
               else item\<lparr>sk_projection := SkillProjectionConflict, sk_enabled := SkillEnabledUnknown\<rparr>)
         else if isProjectionDrift (sk_projection item) then item\<lparr>sk_enabled := SkillEnabledUnknown\<rparr>
         else if \<not> enabled then item\<lparr>sk_enabled := SkillDisabled\<rparr>
         else item)"

definition merge_records ::
  "'w skill_store option \<Rightarrow> managed_skill list \<Rightarrow> (string \<times> skill) list \<Rightarrow> (string \<times> skill) list" where
  "merge_records st rs m =
     fold (\<lambda>r m. AList.update (ks_skill r) (record_into st r (map_of m (ks_skill r))) m) rs m"

text \<open>What the two reads of the adapter return; each is made when the bundle has the capability.\<close>

definition skill_reads ::
  "context_error option \<Rightarrow> 'h runtime_bundle \<Rightarrow> management_error option + skill list
     \<Rightarrow> management_error option + skill list \<Rightarrow> management_error + (string \<times> skill) list" where
  "skill_reads ctx b projections natives =
     bind_result
       (if bn_skill_projection b = None then Inr []
        else case projections of
               Inl e \<Rightarrow> Inl (managementQueryError ctx e)
             | Inr vs \<Rightarrow> (case mergeSkillItems False vs [] of
                            None \<Rightarrow> Inl ErrManagementQueryFailed | Some m \<Rightarrow> Inr m))
       (\<lambda>m. if bn_skill_read b = None then Inr m
             else case natives of
                    Inl e \<Rightarrow> Inl (managementQueryError ctx e)
                  | Inr vs \<Rightarrow> (case mergeSkillItems True vs m of
                                 None \<Rightarrow> Inl ErrManagementQueryFailed | Some m' \<Rightarrow> Inr m'))"

definition ListSkills ::
  "('h, 'w) skill_config \<Rightarrow> context_error option \<Rightarrow> management_error option + skill list
     \<Rightarrow> management_error option + skill list \<Rightarrow> string \<Rightarrow> 'w skill_service
     \<Rightarrow> management_error + skill list" where
  "ListSkills c ctx projections natives i s =
     bind_result (skill_resolve c ctx i) (\<lambda>t.
       if bn_skill_read (mg_bundle t) = None \<and> bn_skill_projection (mg_bundle t) = None
       then Inl ErrManagementCapabilityUnsupported
       else bind_result (skill_reads ctx (mg_bundle t) projections natives) (\<lambda>m.
         let merged = (if kc_db c then merge_records (kc_store c) (ListManagedSkills (kv_rows s) i) m else m);
             items = map (normalizeUnclassifiedSkill \<circ> snd) merged
         in if length merged > maxManagementSkillItems then Inl ErrManagementQueryFailed
            else if \<not> list_all skill_Validate items then Inl ErrManagementQueryFailed
            else Inr (sort_key sk_id items)))"

definition validateSkillID :: "string \<Rightarrow> bool" where
  "validateSkillID i = skill_configure_Validate \<lparr>scr_skill_id = i, scr_enabled = False\<rparr>"

definition InspectSkill ::
  "('h, 'w) skill_config \<Rightarrow> context_error option \<Rightarrow> management_error option + skill list
     \<Rightarrow> management_error option + skill list \<Rightarrow> string \<Rightarrow> string \<Rightarrow> 'w skill_service
     \<Rightarrow> mutation_error + skill" where
  "InspectSkill c ctx projections natives i skill s =
     (if \<not> validateSkillID skill then Inl ErrInvalidManagementContract
      else case ListSkills c ctx projections natives i s of
        Inl e \<Rightarrow> Inl (ErrManagement e)
      | Inr vs \<Rightarrow>
          (case first_match (\<lambda>v. sk_id v = skill) vs of
             None \<Rightarrow> Inl mutation_query_failed
           | Some v \<Rightarrow> Inr v))"

definition ListSources ::
  "('h, 'w) skill_config \<Rightarrow> context_error option \<Rightarrow> string \<Rightarrow> management_error + catalog_entry list" where
  "ListSources c ctx i =
     (case kc_store c of
        None \<Rightarrow> Inl ErrManagementCapabilityUnsupported
      | Some st \<Rightarrow>
          bind_result (skill_resolve c ctx i) (\<lambda>t.
            if bn_skill_projection (mg_bundle t) = None then Inl ErrManagementCapabilityUnsupported
            else if length (st_catalog st) > maxManagementSkillItems then Inl ErrManagementQueryFailed
            else Inr (map (\<lambda>e. e\<lparr>ce_display := (if ce_display e = [] then ce_skill e else ce_display e)\<rparr>)
                        (st_catalog st))))"

subsection \<open>Starting\<close>

datatype skill_action = SkInstall | SkImport | SkUpdate | SkEnable | SkDisable | SkRemove

definition managedSkillOperationShape :: "skill_action \<Rightarrow> op_type \<times> stage" where
  "managedSkillOperationShape a =
     (case a of
        SkUpdate \<Rightarrow> (TypeSkillUpdate, StageSkillProject)
      | SkEnable \<Rightarrow> (TypeSkillEnable, StageSkillProject)
      | SkDisable \<Rightarrow> (TypeSkillDisable, StageSkillUnproject)
      | SkRemove \<Rightarrow> (TypeSkillRemove, StageSkillUnproject)
      | _ \<Rightarrow> (TypeSkillInstall, StageSkillProject))"

definition skill_operation ::
  "time \<Rightarrow> skill_action \<Rightarrow> string \<Rightarrow> string \<Rightarrow> string \<Rightarrow> string \<Rightarrow> string \<Rightarrow> string \<Rightarrow> string \<Rightarrow> operation" where
  "skill_operation now a inst skill source key deployment i cor =
     (new_operation now (fst (managedSkillOperationShape a)) TargetInstance inst
        (snd (managedSkillOperationShape a)) skill key i cor)
       \<lparr>op_source_pin := source, op_ownership_nonce := deployment\<rparr>"

definition skill_start ::
  "('h, 'w) skill_config \<Rightarrow> op_inputs \<Rightarrow> string \<Rightarrow> string \<Rightarrow> string \<Rightarrow> string \<Rightarrow> skill_action
     \<Rightarrow> 'w skill_service \<Rightarrow> 'w skill_service start_result" where
  "skill_start c w inst skill source key a s =
     (if \<not> kc_db c \<or> kc_store c = None then (s, Inl mutation_unsupported)
      else if \<not> ValidateIdempotencyKey key then (s, Inl ErrInvalidKey)
      else case skill_resolve c None inst of
        Inl e \<Rightarrow> (s, Inl (ErrManagement e))
      | Inr t \<Rightarrow>
          if bn_skill_projection (mg_bundle t) = None then (s, Inl mutation_unsupported)
          else if a = SkInstall \<and> \<not> catalogContains (kc_store c) skill source
          then (s, Inl ErrSkillSourceNotApproved)
          else replay_or_create (kc_message c) w key
                 (\<lambda>v. op_kind v = fst (managedSkillOperationShape a) \<and> op_target_id v = inst
                      \<and> op_message v = skill \<and> op_source_pin v = source)
                 ErrSkillMutationConflict mutation_conflict ErrSkillMutationConflict
                 (\<lambda>i cor. map_option (\<lambda>d. skill_operation (oi_now w) a inst skill source key d i cor)
                    (NewManagedSkillID (oi_rnd_deployment w))) s)"

definition startExisting ::
  "('h, 'w) skill_config \<Rightarrow> op_inputs \<Rightarrow> string \<Rightarrow> string \<Rightarrow> string \<Rightarrow> skill_action
     \<Rightarrow> 'w skill_service \<Rightarrow> 'w skill_service start_result" where
  "startExisting c w inst skill key a s =
     (if \<not> validateSkillID skill then (s, Inl ErrInvalidManagementContract)
      else if \<not> kc_db c then (s, Inl mutation_unsupported)
      else case GetManagedSkill (kv_rows s) inst skill of
        Inl e \<Rightarrow>
          (s, Inl (if e = ErrManagedSkillNotFound then ErrSkillOwnershipConflict else mutation_query_failed))
      | Inr r \<Rightarrow> skill_start c w inst skill (ks_source r) key a s)"

definition skill_StartInstall ::
  "('h, 'w) skill_config \<Rightarrow> op_inputs \<Rightarrow> string \<Rightarrow> string \<Rightarrow> string \<Rightarrow> string
     \<Rightarrow> 'w skill_service \<Rightarrow> 'w skill_service start_result" where
  "skill_StartInstall c w inst skill source key s =
     (if \<not> validateSkillID skill then (s, Inl ErrInvalidManagementContract)
      else if \<not> skill_install_Validate \<lparr>sir_source_id = source\<rparr> then (s, Inl ErrInvalidManagementContract)
      else skill_start c w inst skill source key SkInstall s)"

text \<open>The pattern \<open>^[A-Za-z0-9_-]{43}$\<close> of a staged import (managedskills/import.go).\<close>

definition ValidateImportSourceRef :: "string \<Rightarrow> bool" where
  "ValidateImportSourceRef r = class_exact (\<lambda>c. is_alnum c \<or> c = CHR ''_'' \<or> c = CHR ''-'') 43 r"

definition StartImport ::
  "('h, 'w) skill_config \<Rightarrow> op_inputs \<Rightarrow> string \<Rightarrow> string \<Rightarrow> string \<Rightarrow> string
     \<Rightarrow> 'w skill_service \<Rightarrow> 'w skill_service start_result" where
  "StartImport c w inst skill ref key s =
     (if \<not> validateSkillID skill then (s, Inl ErrInvalidManagementContract)
      else if \<not> ValidateImportSourceRef ref then (s, Inl ErrInvalidManagementContract)
      else skill_start c w inst skill ref key SkImport s)"

definition StartUpdate ::
  "('h, 'w) skill_config \<Rightarrow> op_inputs \<Rightarrow> string \<Rightarrow> string \<Rightarrow> string \<Rightarrow> 'w skill_service
     \<Rightarrow> 'w skill_service start_result" where
  "StartUpdate c w inst skill key = startExisting c w inst skill key SkUpdate"

definition StartEnable ::
  "('h, 'w) skill_config \<Rightarrow> op_inputs \<Rightarrow> string \<Rightarrow> string \<Rightarrow> string \<Rightarrow> 'w skill_service
     \<Rightarrow> 'w skill_service start_result" where
  "StartEnable c w inst skill key = startExisting c w inst skill key SkEnable"

definition StartDisable ::
  "('h, 'w) skill_config \<Rightarrow> op_inputs \<Rightarrow> string \<Rightarrow> string \<Rightarrow> string \<Rightarrow> 'w skill_service
     \<Rightarrow> 'w skill_service start_result" where
  "StartDisable c w inst skill key = startExisting c w inst skill key SkDisable"

definition skill_StartRemove ::
  "('h, 'w) skill_config \<Rightarrow> op_inputs \<Rightarrow> string \<Rightarrow> string \<Rightarrow> string \<Rightarrow> 'w skill_service
     \<Rightarrow> 'w skill_service start_result" where
  "skill_StartRemove c w inst skill key = startExisting c w inst skill key SkRemove"

end
