(* ===== verification/Skill_Worker.thy ===== *)
theory Skill_Worker
  imports Skill_Service
begin

text \<open>
  The worker of the skill service (app/management\_skills.go): installing, importing, updating,
  enabling, disabling and removing a managed skill, its settlement, and recovery after a restart.
  The worker holds the lock of its instance, and nothing else writes that instance's skill rows.
\<close>

subsection \<open>Requests and checks\<close>

definition projectRequest :: "acquisition \<Rightarrow> string \<Rightarrow> skill_project_request" where
  "projectRequest a deployment =
     \<lparr>spr_skill_id = aq_skill a, spr_source_dir = aq_absolute a, spr_source_id = aq_source a,
      spr_version = aq_version a, spr_content_sha256 = aq_sha256 a, spr_deployment_id = deployment\<rparr>"

definition verifyProjectedSkill :: "skill \<Rightarrow> managed_skill \<Rightarrow> bool" where
  "verifyProjectedSkill v r \<longleftrightarrow>
     \<not> (\<not> skill_Validate v \<or> sk_id v \<noteq> ks_skill r \<or> sk_source_id v \<noteq> ks_source r
        \<or> sk_version v \<noteq> ks_source_version r \<or> sk_ownership v \<noteq> SkillOwnershipYORVAManaged
        \<or> sk_projection v \<noteq> SkillProjectionProjected)"

definition managedSkillErrorCode :: "skill_work_error \<Rightarrow> error_code" where
  "managedSkillErrorCode e =
     (case e of
        WorkSourceNotApproved \<Rightarrow> ErrorSkillSourceNotApproved
      | WorkCatalogNotFound \<Rightarrow> ErrorSkillSourceNotApproved
      | WorkCatalogInvalid \<Rightarrow> ErrorSkillSourceNotApproved
      | WorkOwnershipConflict \<Rightarrow> ErrorSkillOwnershipConflict
      | WorkDrift \<Rightarrow> ErrorSkillDriftDetected
      | WorkMutationConflict \<Rightarrow> ErrorSkillMutationConflict
      | WorkPathConflict \<Rightarrow> ErrorSkillAcquireFailed
      | WorkBundleInvalid \<Rightarrow> ErrorSkillAcquireFailed
      | WorkTable t \<Rightarrow>
          (if t = ErrManagedSkillOwnership \<or> t = ErrManagedSkillConflict then ErrorSkillOwnershipConflict
           else if t = ErrManagedSkillStale then ErrorSkillDriftDetected
           else ErrorSkillProjectFailed)
      | WorkLifecycle l \<Rightarrow>
          (if l = ErrLifecycleMutationFailed \<or> l = ErrLifecyclePostcondition
           then ErrorLifecycleRestartFailed else ErrorSkillProjectFailed)
      | WorkOther \<Rightarrow> ErrorSkillProjectFailed)"

definition put_world :: "'w \<Rightarrow> 'w skill_service \<Rightarrow> 'w skill_service" where
  "put_world x s = s\<lparr>kv_world := x\<rparr>"

definition put_rows :: "managed_skill list \<Rightarrow> 'w skill_service \<Rightarrow> 'w skill_service" where
  "put_rows rs s = s\<lparr>kv_rows := rs\<rparr>"

type_synonym 'w work = "'w skill_service \<times> skill_work_error option"

definition restartIfRunning ::
  "('h, 'w) skill_config \<Rightarrow> 'h management_target \<Rightarrow> 'w skill_service \<Rightarrow> 'w work" where
  "restartIfRunning c t s =
     (case bn_lifecycle (mg_bundle t) of
        None \<Rightarrow> (s, None)
      | Some h \<Rightarrow>
          (let inst = \<lparr>li_executable = is_path (mg_installation t), li_version = is_version (mg_installation t)\<rparr>;
               (x, state, e) = sa_status (kc_adapter c) h inst (mg_native t) (kv_world s) in
           case e of
             Some l \<Rightarrow> (put_world x s, Some (WorkLifecycle l))
           | None \<Rightarrow>
               if state \<noteq> LifecycleRunning then (put_world x s, None)
               else (let (y, r) = sa_restart (kc_adapter c) h inst (mg_native t) x
                     in (put_world y s, map_option WorkLifecycle r))))"

text \<open>
  The owned row with the state observed of its projection; some errors come with the row, as the
  callers that go on after a drift need it. The adapter's own errors are none of the
  application's, so a failed inspection is no drift.
\<close>

definition requireOwnedProjection ::
  "('h, 'w) skill_config \<Rightarrow> 'h \<Rightarrow> 'h management_target \<Rightarrow> operation \<Rightarrow> bool \<Rightarrow> 'w skill_service
     \<Rightarrow> 'w skill_service \<times> managed_skill option \<times> skill_work_error option" where
  "requireOwnedProjection c h t v requireProjected s =
     (case GetManagedSkill (kv_rows s) (op_target_id v) (op_message v) of
        Inl e \<Rightarrow>
          (s, None, Some (if e = ErrManagedSkillNotFound then WorkOwnershipConflict else WorkTable e))
      | Inr held \<Rightarrow>
          (case sa_inspect (kc_adapter c) h (mg_installation t) (mg_native t) (ks_skill held) (kv_world s) of
             (x, Inl e) \<Rightarrow> (put_world x s, None, Some e)
           | (x, Inr seen) \<Rightarrow>
               (let s1 = put_world x s; r = held\<lparr>ks_projection := sk_projection seen\<rparr> in
                if sk_ownership seen = SkillOwnershipExternal \<or> sk_ownership seen = SkillOwnershipRuntimeBundled
                then (s1, Some r, Some WorkOwnershipConflict)
                else if sk_projection seen = SkillProjectionDriftModified
                        \<or> sk_projection seen = SkillProjectionConflict
                then (s1, Some r, Some WorkDrift)
                else if sk_projection seen = SkillProjectionProjected
                        \<and> sk_ownership seen \<noteq> SkillOwnershipYORVAManaged
                then (s1, Some r, Some WorkOwnershipConflict)
                else if requireProjected \<and> (sk_projection seen \<noteq> SkillProjectionProjected
                                            \<or> sk_ownership seen \<noteq> SkillOwnershipYORVAManaged)
                then (s1, Some r, Some WorkDrift)
                else (s1, Some r, None))))"

subsection \<open>Publishing a new skill\<close>

definition published_row :: "'w skill_store \<Rightarrow> time \<Rightarrow> operation \<Rightarrow> acquisition \<Rightarrow> managed_skill" where
  "published_row st now v a =
     \<lparr>ks_id = op_ownership_nonce v, ks_instance = op_target_id v, ks_skill = op_message v,
      ks_source = aq_source a, ks_source_version = aq_version a, ks_sha256 = aq_sha256 a,
      ks_managed_path = st_to_slash st (aq_relative a), ks_projection_path = aq_skill a,
      ks_deployment = op_ownership_nonce v, ks_desired_enabled = True,
      ks_projection = SkillProjectionNotProjected, ks_installed_at = now, ks_updated_at = now\<rparr>"

text \<open>The row is withdrawn when the projection fails, but not when a later step does.\<close>

definition withdraw_row :: "managed_skill \<Rightarrow> 'w skill_service \<Rightarrow> 'w skill_service" where
  "withdraw_row r s =
     (case DeleteManagedSkill (kv_rows s) (ks_instance r) (ks_skill r) of
        Inl _ \<Rightarrow> s | Inr rs \<Rightarrow> put_rows rs s)"

definition mark_projection ::
  "('h, 'w) skill_config \<Rightarrow> time \<Rightarrow> 'h management_target \<Rightarrow> managed_skill \<Rightarrow> bool \<Rightarrow> skill_projection_state
     \<Rightarrow> 'w skill_service \<Rightarrow> 'w work" where
  "mark_projection c now t r enabled state s =
     (case UpdateManagedSkillProjection (kv_rows s) (ks_instance r) (ks_skill r) enabled state now of
        Inl e \<Rightarrow> (s, Some (WorkTable e))
      | Inr rs \<Rightarrow> restartIfRunning c t (put_rows rs s))"

definition publishManaged ::
  "('h, 'w) skill_config \<Rightarrow> 'w skill_store \<Rightarrow> time \<Rightarrow> 'h \<Rightarrow> 'h management_target \<Rightarrow> operation \<Rightarrow> acquisition
     \<Rightarrow> 'w skill_service \<Rightarrow> 'w work" where
  "publishManaged c st now h t v a s =
     (let r = published_row st now v a in
      case CreateManagedSkill (kv_instances s) (kv_rows s) r of
        Inl e \<Rightarrow> (s, Some (WorkTable e))
      | Inr rs \<Rightarrow>
          (let s1 = put_rows rs s in
           case sa_project (kc_adapter c) h (mg_installation t) (mg_native t)
                  (projectRequest a (ks_deployment r)) (kv_world s1) of
             (x, Inl e) \<Rightarrow> (withdraw_row r (put_world x s1), Some e)
           | (x, Inr seen) \<Rightarrow>
               if \<not> verifyProjectedSkill seen r then (put_world x s1, Some WorkDrift)
               else mark_projection c now t r True SkillProjectionProjected (put_world x s1)))"

definition acquire_then_publish ::
  "(string \<Rightarrow> string \<Rightarrow> string \<Rightarrow> 'w \<Rightarrow> 'w \<times> (skill_work_error + acquisition))
     \<Rightarrow> ('h, 'w) skill_config \<Rightarrow> 'w skill_store \<Rightarrow> time \<Rightarrow> 'h \<Rightarrow> 'h management_target \<Rightarrow> operation
     \<Rightarrow> 'w skill_service \<Rightarrow> 'w work" where
  "acquire_then_publish acquire c st now h t v s =
     (case GetManagedSkill (kv_rows s) (op_target_id v) (op_message v) of
        Inr _ \<Rightarrow> (s, Some WorkOwnershipConflict)
      | Inl e \<Rightarrow>
          if e \<noteq> ErrManagedSkillNotFound then (s, Some (WorkTable e))
          else (case acquire (op_target_id v) (op_message v) (op_source_pin v) (kv_world s) of
                  (x, Inl e) \<Rightarrow> (put_world x s, Some e)
                | (x, Inr a) \<Rightarrow> publishManaged c st now h t v a (put_world x s)))"

definition installManaged ::
  "('h, 'w) skill_config \<Rightarrow> 'w skill_store \<Rightarrow> time \<Rightarrow> 'h \<Rightarrow> 'h management_target \<Rightarrow> operation
     \<Rightarrow> 'w skill_service \<Rightarrow> 'w work" where
  "installManaged c st = acquire_then_publish (st_acquire st) c st"

definition importManaged ::
  "('h, 'w) skill_config \<Rightarrow> 'w skill_store \<Rightarrow> time \<Rightarrow> 'h \<Rightarrow> 'h management_target \<Rightarrow> operation
     \<Rightarrow> 'w skill_service \<Rightarrow> 'w work" where
  "importManaged c st = acquire_then_publish (st_import st) c st"

subsection \<open>Changing a managed skill\<close>

definition updated_release ::
  "'w skill_store \<Rightarrow> time \<Rightarrow> acquisition \<Rightarrow> skill_projection_state \<Rightarrow> managed_skill \<Rightarrow> managed_skill" where
  "updated_release st now a state current =
     current\<lparr>ks_source_version := aq_version a, ks_sha256 := aq_sha256 a,
             ks_managed_path := st_to_slash st (aq_relative a), ks_updated_at := now, ks_projection := state\<rparr>"

text \<open>\<open>current\<close> carries the observed projection state, and the table compares it with the stored one.\<close>

definition replace_release ::
  "('h, 'w) skill_config \<Rightarrow> 'h management_target \<Rightarrow> managed_skill \<Rightarrow> managed_skill \<Rightarrow> 'w skill_service \<Rightarrow> 'w work" where
  "replace_release c t current nxt s =
     (case ReplaceManagedSkillRelease (kv_rows s) current nxt of
        Inl e \<Rightarrow> (s, Some (WorkTable e))
      | Inr rs \<Rightarrow> if ks_desired_enabled current then restartIfRunning c t (put_rows rs s)
                    else (put_rows rs s, None))"

definition updateManaged ::
  "('h, 'w) skill_config \<Rightarrow> 'w skill_store \<Rightarrow> time \<Rightarrow> 'h \<Rightarrow> 'h management_target \<Rightarrow> operation
     \<Rightarrow> 'w skill_service \<Rightarrow> 'w work" where
  "updateManaged c st now h t v s =
     (case requireOwnedProjection c h t v False s of
        (s1, _, Some e) \<Rightarrow> (s1, Some e)
      | (s1, None, None) \<Rightarrow> (s1, Some WorkOther)
      | (s1, Some current, None) \<Rightarrow>
     (case st_acquire st (ks_instance current) (ks_skill current) (ks_source current) (kv_world s1) of
        (x, Inl e) \<Rightarrow> (put_world x s1, Some e)
      | (x, Inr a) \<Rightarrow>
          (let s2 = put_world x s1 in
           if \<not> ks_desired_enabled current
           then replace_release c t current
                  (updated_release st now a SkillProjectionNotProjected current) s2
           else (let nxt = updated_release st now a SkillProjectionProjected current in
                 case sa_project (kc_adapter c) h (mg_installation t) (mg_native t)
                        (projectRequest a (ks_deployment current)) (kv_world s2) of
                   (y, Inl e) \<Rightarrow> (put_world y s2, Some e)
                 | (y, Inr seen) \<Rightarrow>
                     if \<not> verifyProjectedSkill seen nxt then (put_world y s2, Some WorkDrift)
                     else replace_release c t current nxt (put_world y s2)))))"

text \<open>Enabling and removing go on after a drift unless the content was modified or conflicts.\<close>

definition drift_blocks :: "managed_skill \<Rightarrow> bool" where
  "drift_blocks r \<longleftrightarrow>
     ks_projection r = SkillProjectionDriftModified \<or> ks_projection r = SkillProjectionConflict"

definition enableManaged ::
  "('h, 'w) skill_config \<Rightarrow> 'w skill_store \<Rightarrow> time \<Rightarrow> 'h \<Rightarrow> 'h management_target \<Rightarrow> operation
     \<Rightarrow> 'w skill_service \<Rightarrow> 'w work" where
  "enableManaged c st now h t v s =
     (case requireOwnedProjection c h t v False s of
        (s1, None, e) \<Rightarrow> (s1, Some (case e of Some x \<Rightarrow> x | None \<Rightarrow> WorkOther))
      | (s1, Some r, e) \<Rightarrow>
          if e \<noteq> None \<and> e \<noteq> Some WorkDrift then (s1, e)
          else if drift_blocks r then (s1, Some WorkDrift)
          else
          (let dir = st_join st (st_root st) (ks_managed_path r) in
           if st_digest st dir (kv_world s1) \<noteq> Some (ks_sha256 r) then (s1, Some WorkOwnershipConflict)
           else (case sa_project (kc_adapter c) h (mg_installation t) (mg_native t)
                        \<lparr>spr_skill_id = ks_skill r, spr_source_dir = dir, spr_source_id = ks_source r,
                         spr_version = ks_source_version r, spr_content_sha256 = ks_sha256 r,
                         spr_deployment_id = ks_deployment r\<rparr> (kv_world s1) of
                   (x, Inl e) \<Rightarrow> (put_world x s1, Some e)
                 | (x, Inr seen) \<Rightarrow>
                     if \<not> verifyProjectedSkill seen r then (put_world x s1, Some WorkDrift)
                     else mark_projection c now t r True SkillProjectionProjected (put_world x s1))))"

definition disableManaged ::
  "('h, 'w) skill_config \<Rightarrow> time \<Rightarrow> 'h \<Rightarrow> 'h management_target \<Rightarrow> operation
     \<Rightarrow> 'w skill_service \<Rightarrow> 'w work" where
  "disableManaged c now h t v s =
     (case requireOwnedProjection c h t v True s of
        (s1, _, Some e) \<Rightarrow> (s1, Some e)
      | (s1, None, None) \<Rightarrow> (s1, Some WorkOther)
      | (s1, Some r, None) \<Rightarrow>
          (case sa_unproject (kc_adapter c) h (mg_installation t) (mg_native t) (ks_skill r)
                  (ks_deployment r) (kv_world s1) of
             (x, Some e) \<Rightarrow> (put_world x s1, Some e)
           | (x, None) \<Rightarrow> mark_projection c now t r False SkillProjectionNotProjected (put_world x s1)))"

definition drop_row ::
  "('h, 'w) skill_config \<Rightarrow> 'h management_target \<Rightarrow> managed_skill \<Rightarrow> bool \<Rightarrow> 'w skill_service \<Rightarrow> 'w work" where
  "drop_row c t r projected s =
     (case DeleteManagedSkill (kv_rows s) (ks_instance r) (ks_skill r) of
        Inl e \<Rightarrow> (s, Some (WorkTable e))
      | Inr rs \<Rightarrow> if projected then restartIfRunning c t (put_rows rs s) else (put_rows rs s, None))"

definition removeManaged ::
  "('h, 'w) skill_config \<Rightarrow> 'h \<Rightarrow> 'h management_target \<Rightarrow> operation \<Rightarrow> 'w skill_service \<Rightarrow> 'w work" where
  "removeManaged c h t v s =
     (case requireOwnedProjection c h t v False s of
        (s1, None, e) \<Rightarrow> (s1, Some (case e of Some x \<Rightarrow> x | None \<Rightarrow> WorkOther))
      | (s1, Some r, e) \<Rightarrow>
          if e \<noteq> None \<and> e \<noteq> Some WorkDrift then (s1, e)
          else if drift_blocks r then (s1, Some WorkDrift)
          else if ks_projection r = SkillProjectionProjected
          then (case sa_unproject (kc_adapter c) h (mg_installation t) (mg_native t) (ks_skill r)
                       (ks_deployment r) (kv_world s1) of
                  (x, Some e) \<Rightarrow> (put_world x s1, Some e)
                | (x, None) \<Rightarrow> drop_row c t r True (put_world x s1))
          else drop_row c t r False s1)"

subsection \<open>The worker\<close>

definition skill_mutation ::
  "('h, 'w) skill_config \<Rightarrow> 'w skill_store \<Rightarrow> time \<Rightarrow> skill_action \<Rightarrow> 'h \<Rightarrow> 'h management_target \<Rightarrow> operation
     \<Rightarrow> 'w skill_service \<Rightarrow> 'w work" where
  "skill_mutation c st now a h t v s =
     (case a of
        SkInstall \<Rightarrow> installManaged c st now h t v s
      | SkImport \<Rightarrow> importManaged c st now h t v s
      | SkUpdate \<Rightarrow> updateManaged c st now h t v s
      | SkEnable \<Rightarrow> enableManaged c st now h t v s
      | SkDisable \<Rightarrow> disableManaged c now h t v s
      | SkRemove \<Rightarrow> removeManaged c h t v s)"

definition finish_skill ::
  "('h, 'w) skill_config \<Rightarrow> time \<Rightarrow> operation \<Rightarrow> status \<Rightarrow> error_code \<Rightarrow> bool
     \<Rightarrow> 'w skill_service \<Rightarrow> 'w skill_service" where
  "finish_skill c now current st code retry s =
     settle_operation (kc_message c) now current
       (settled_operation now StageSkillReconcile st code retry current) s"

definition runWorker ::
  "('h, 'w) skill_config \<Rightarrow> 'w skill_store \<Rightarrow> time \<Rightarrow> skill_action \<Rightarrow> 'h \<Rightarrow> 'h management_target \<Rightarrow> operation
     \<Rightarrow> 'w skill_service \<Rightarrow> 'w skill_service" where
  "runWorker c st now a h t v s =
     (case begin_work (kc_message c) now StageSkillPreflight (op_id v) s of
        (s1, None) \<Rightarrow> s1
      | (s1, Some running) \<Rightarrow>
          (case skill_mutation c st now a h t running s1 of
             (s2, Some e) \<Rightarrow> finish_skill c now running StatusFailed (managedSkillErrorCode e) True s2
           | (s2, None) \<Rightarrow> finish_skill c now running StatusSucceeded [] False s2))"

definition skill_RecoverInterrupted ::
  "('h, 'w) skill_config \<Rightarrow> time \<Rightarrow> 'w skill_service \<Rightarrow> 'w skill_service \<times> operation list \<times> db_error option" where
  "skill_RecoverInterrupted c now s =
     (if \<not> kc_db c then (s, [], None)
      else recover_interrupted (kc_message c) now StageSkillReconcile True ListActiveSkillOperations s)"

end
