(* ===== verification/MCP_Service.thy ===== *)
theory MCP_Service
  imports Operation_Service Skills_Table
begin

text \<open>
  The service behind MCP servers (app/management\_mcp.go): listing what the Runtime reports with
  the bindings that YORVA owns, and installing, authenticating, testing, configuring and removing
  a server through operations. The adapter acts on a world, which the model threads. Wiping a
  credential from memory is not modelled.
\<close>

subsection \<open>The adapter, configuration and state\<close>

definition managementMCPCollectionLimit :: nat where "managementMCPCollectionLimit = 256"

type_synonym 'r mcp_answer = "management_error option + 'r"

record ('h, 'w) mcp_adapter =
  ma_servers :: "'h \<Rightarrow> installation \<Rightarrow> string \<Rightarrow> 'w \<Rightarrow> 'w \<times> mcp_server list mcp_answer"
  ma_presets :: "'h \<Rightarrow> installation \<Rightarrow> string \<Rightarrow> 'w \<Rightarrow> mcp_preset list mcp_answer"
  ma_install :: "'h \<Rightarrow> installation \<Rightarrow> string \<Rightarrow> string \<Rightarrow> 'w \<Rightarrow> 'w \<times> mcp_server mcp_answer"
  ma_authenticate :: "'h \<Rightarrow> installation \<Rightarrow> string \<Rightarrow> string \<Rightarrow> string \<Rightarrow> 'w \<Rightarrow> 'w \<times> mcp_server mcp_answer"
  ma_configure :: "'h \<Rightarrow> installation \<Rightarrow> string \<Rightarrow> string \<Rightarrow> string list \<Rightarrow> 'w \<Rightarrow> 'w \<times> mcp_server mcp_answer"
  ma_test :: "'h \<Rightarrow> installation \<Rightarrow> string \<Rightarrow> string \<Rightarrow> 'w \<Rightarrow> 'w \<times> mcp_test_result mcp_answer"
  ma_remove :: "'h \<Rightarrow> installation \<Rightarrow> string \<Rightarrow> string \<Rightarrow> 'w \<Rightarrow> 'w \<times> mcp_server mcp_answer"

record ('h, 'w) mcp_config =
  mc_targets :: "(string \<Rightarrow> management_error + 'h management_target) option"
  mc_runtime_targets :: "(string \<Rightarrow> management_error + 'h runtime_target) option"
  mc_db :: bool
  mc_adapter :: "('h, 'w) mcp_adapter"
  mc_parse_url :: "string \<Rightarrow> parsed_url option"
  mc_chars :: "string \<Rightarrow> nat" \<comment> \<open>SQLite's \<open>length\<close> of a text\<close>
  mc_message :: "sql_failure \<Rightarrow> string"

record 'w mcp_service = cancel_service +
  mv_bindings :: "mcp_binding list"
  mv_instances :: "string list"
  mv_world :: 'w

definition managementMCPError ::
  "context_error option \<Rightarrow> management_error option \<Rightarrow> management_error" where
  "managementMCPError ctx e =
     (case ctx of
        Some x \<Rightarrow> ErrManagementContext x
      | None \<Rightarrow> (case e of Some x \<Rightarrow> x | None \<Rightarrow> ErrManagementQueryFailed))"

definition mcp_resolve ::
  "('h, 'w) mcp_config \<Rightarrow> context_error option \<Rightarrow> string \<Rightarrow> management_error + 'h management_target" where
  "mcp_resolve c ctx i =
     (case mc_targets c of
        None \<Rightarrow> Inl ErrManagementCapabilityUnsupported
      | Some resolve \<Rightarrow>
          (case resolve i of
             Inl e \<Rightarrow> Inl (managementMCPError ctx (Some e))
           | Inr t \<Rightarrow> Inr t))"

subsection \<open>Reading\<close>

record mcp_server_view =
  sw_id :: string
  sw_preset :: string
  sw_ownership :: string
  sw_tools :: "string list"
  sw_state :: mcp_state
  sw_ready_at :: "time option"
  sw_observed_at :: time

definition mcpOwnership :: "bool \<Rightarrow> string" where
  "mcpOwnership managed = (if managed then ''YORVA_MANAGED'' else ''EXTERNAL'')"

text \<open>\<open>None\<close> is the invalid answer.\<close>

definition validatedMCPReadyAt :: "mcp_state \<Rightarrow> time option \<Rightarrow> time \<Rightarrow> time option option" where
  "validatedMCPReadyAt state rdy observed =
     (if state \<noteq> MCPReady then (if rdy = None then Some None else None)
      else case rdy of
             None \<Rightarrow> None
           | Some r \<Rightarrow> if is_zero_time r \<or> r > observed then None else Some (Some r))"

definition managed_preset :: "mcp_binding list \<Rightarrow> string \<Rightarrow> string" where
  "managed_preset bs server =
     (case map_of (rev (map (\<lambda>b. (mb_server b, mb_preset b)) bs)) server of None \<Rightarrow> [] | Some p \<Rightarrow> p)"

fun server_views ::
  "mcp_binding list \<Rightarrow> string list \<Rightarrow> mcp_server list \<Rightarrow> mcp_server_view list option" where
  "server_views bs seen [] = Some []"
| "server_views bs seen (v # vs) =
     (if \<not> mcp_server_Validate v \<or> ms_id v \<in> set seen then None
      else case validatedMCPReadyAt (ms_state v) (ms_ready_at v) (ms_observed_at v) of
        None \<Rightarrow> None
      | Some rdy \<Rightarrow>
          map_option
            ((#) \<lparr>sw_id = ms_id v, sw_preset = ms_preset_id v,
                  sw_ownership = mcpOwnership (managed_preset bs (ms_id v) = ms_preset_id v),
                  sw_tools = ms_enabled_tools v, sw_state = ms_state v, sw_ready_at = rdy,
                  sw_observed_at = ms_observed_at v\<rparr>)
            (server_views bs (ms_id v # seen) vs))"

definition ListMCPServers ::
  "('h, 'w) mcp_config \<Rightarrow> context_error option \<Rightarrow> string \<Rightarrow> 'w mcp_service
     \<Rightarrow> management_error + mcp_server_view list" where
  "ListMCPServers c ctx i s =
     bind_result (mcp_resolve c ctx i) (\<lambda>t.
       case bn_mcp_read (mg_bundle t) of
         None \<Rightarrow> Inl ErrManagementCapabilityUnsupported
       | Some h \<Rightarrow>
           (case snd (ma_servers (mc_adapter c) h (mg_installation t) (mg_native t) (mv_world s)) of
              Inl e \<Rightarrow> Inl (managementMCPError ctx e)
            | Inr vs \<Rightarrow>
                if length vs > managementMCPCollectionLimit then Inl ErrManagementQueryFailed
                else (case server_views
                             (if mc_db c then ListManagedMCPBindings (mv_bindings s) i else []) [] vs of
                        None \<Rightarrow> Inl ErrManagementQueryFailed
                      | Some views \<Rightarrow> Inr views)))"

record mcp_preset_view =
  pw_id :: string
  pw_display_name :: string
  pw_description :: string
  pw_homepage :: string
  pw_documentation :: string
  pw_tools :: "string list"
  pw_credential :: bool
  pw_source :: string

fun preset_views ::
  "(string \<Rightarrow> parsed_url option) \<Rightarrow> string list \<Rightarrow> mcp_preset list \<Rightarrow> mcp_preset_view list option" where
  "preset_views url seen [] = Some []"
| "preset_views url seen (p # ps) =
     (if \<not> mcp_preset_Validate url p \<or> mp_id p \<in> set seen then None
      else map_option
             ((#) \<lparr>pw_id = mp_id p, pw_display_name = mp_display_name p, pw_description = mp_description p,
                   pw_homepage = mp_homepage p, pw_documentation = mp_documentation p,
                   pw_tools = mp_allowed_tools p, pw_credential = mp_credential_required p,
                   pw_source = ''BUILT_IN''\<rparr>)
             (preset_views url (mp_id p # seen) ps))"

definition validatedMCPPresetViews ::
  "(string \<Rightarrow> parsed_url option) \<Rightarrow> mcp_preset list \<Rightarrow> management_error + mcp_preset_view list" where
  "validatedMCPPresetViews url ps =
     (if length ps > managementMCPCollectionLimit then Inl ErrManagementQueryFailed
      else case preset_views url [] ps of
             None \<Rightarrow> Inl ErrManagementQueryFailed | Some vs \<Rightarrow> Inr vs)"

definition ListMCPPresets ::
  "('h, 'w) mcp_config \<Rightarrow> context_error option \<Rightarrow> string \<Rightarrow> 'w mcp_service
     \<Rightarrow> management_error + mcp_preset_view list" where
  "ListMCPPresets c ctx i s =
     bind_result (mcp_resolve c ctx i) (\<lambda>t.
       case bn_mcp_read (mg_bundle t) of
         None \<Rightarrow> Inl ErrManagementCapabilityUnsupported
       | Some h \<Rightarrow>
           (case ma_presets (mc_adapter c) h (mg_installation t) (mg_native t) (mv_world s) of
              Inl e \<Rightarrow> Inl (managementMCPError ctx e)
            | Inr ps \<Rightarrow> validatedMCPPresetViews (mc_parse_url c) ps))"

definition ListRuntimeMCPDefinitions ::
  "('h, 'w) mcp_config \<Rightarrow> context_error option \<Rightarrow> string \<Rightarrow> 'w mcp_service
     \<Rightarrow> management_error + mcp_preset_view list" where
  "ListRuntimeMCPDefinitions c ctx runtimeID s =
     (case mc_runtime_targets c of
        None \<Rightarrow> Inl ErrManagementCapabilityUnsupported
      | Some resolve \<Rightarrow>
     (case resolve runtimeID of
        Inl e \<Rightarrow> Inl e
      | Inr t \<Rightarrow>
     (case bn_mcp_read (rt_bundle t) of
        None \<Rightarrow> Inl ErrManagementCapabilityUnsupported
      | Some h \<Rightarrow>
          (case ma_presets (mc_adapter c) h (rt_installation t) [] (mv_world s) of
             Inl e \<Rightarrow> Inl (managementMCPError ctx e)
           | Inr ps \<Rightarrow>
               (case validatedMCPPresetViews (mc_parse_url c) ps of
                  Inl e \<Rightarrow> Inl e
                | Inr vs \<Rightarrow> Inr (map (\<lambda>v. v\<lparr>pw_source := ''BUILT_IN''\<rparr>) vs))))))"

text \<open>A test counts when it is valid, ready, and made between the two readings of the clock.\<close>

definition test_accepted :: "string \<Rightarrow> time \<Rightarrow> time \<Rightarrow> mcp_test_result \<Rightarrow> bool" where
  "test_accepted server t0 t1 r \<longleftrightarrow>
     \<not> (\<not> mcp_test_Validate r \<or> mt_server_id r \<noteq> server \<or> mt_state r \<noteq> MCPReady
        \<or> mt_ready_at r = None \<or> mt_ready_at r \<noteq> Some (mt_tested_at r)
        \<or> mt_tested_at r < t0 \<or> mt_tested_at r > t1)"

definition TestMCP ::
  "('h, 'w) mcp_config \<Rightarrow> context_error option \<Rightarrow> time \<Rightarrow> time \<Rightarrow> string \<Rightarrow> string \<Rightarrow> 'w mcp_service
     \<Rightarrow> 'w mcp_service \<times> (management_error + mcp_test_result)" where
  "TestMCP c ctx t0 t1 i server s =
     (if \<not> mcp_configure_Validate \<lparr>mcr_server_id = server, mcr_enabled_tools = []\<rparr>
      then (s, Inl ErrManagementQueryFailed)
      else case mcp_resolve c ctx i of
        Inl e \<Rightarrow> (s, Inl e)
      | Inr t \<Rightarrow>
     (case bn_mcp_mutate (mg_bundle t) of
        None \<Rightarrow> (s, Inl ErrManagementCapabilityUnsupported)
      | Some h \<Rightarrow>
          (case ma_test (mc_adapter c) h (mg_installation t) (mg_native t) server (mv_world s) of
             (x, Inl e) \<Rightarrow> (s\<lparr>mv_world := x\<rparr>, Inl (managementMCPError ctx e))
           | (x, Inr r) \<Rightarrow>
               (s\<lparr>mv_world := x\<rparr>,
                if test_accepted server t0 t1 r then Inr r else Inl ErrManagementQueryFailed))))"

subsection \<open>Starting\<close>

datatype mcp_action = McpInstall | McpAuthenticate | McpTest | McpConfigure | McpRemove

record mcp_input =
  mi_action :: mcp_action
  mi_preset :: string
  mi_server :: string
  mi_credential :: string
  mi_tools :: "string list"

definition mcpOperationShape :: "mcp_input \<Rightarrow> op_type \<times> stage \<times> string" where
  "mcpOperationShape v =
     (case mi_action v of
        McpInstall \<Rightarrow> (TypeMCPInstall, StageMCPConfigure, mi_preset v)
      | McpAuthenticate \<Rightarrow> (TypeMCPAuthenticate, StageMCPConfigure, mi_server v)
      | McpTest \<Rightarrow> (TypeMCPTest, StageMCPTest, mi_server v)
      | McpConfigure \<Rightarrow> (TypeMCPConfigure, StageMCPConfigure, mi_server v)
      | McpRemove \<Rightarrow> (TypeMCPRemove, StageMCPConfigure, mi_server v))"

definition managedBinding :: "('h, 'w) mcp_config \<Rightarrow> string \<Rightarrow> string \<Rightarrow> 'w mcp_service \<Rightarrow> bool" where
  "managedBinding c i server s \<longleftrightarrow>
     mc_db c \<and> list_ex (\<lambda>b. mb_server b = server \<and> mb_preset b = server)
                 (ListManagedMCPBindings (mv_bindings s) i)"

definition mcp_start ::
  "('h, 'w) mcp_config \<Rightarrow> op_inputs \<Rightarrow> string \<Rightarrow> string \<Rightarrow> mcp_input \<Rightarrow> 'w mcp_service
     \<Rightarrow> 'w mcp_service start_result" where
  "mcp_start c w i key v s =
     (if \<not> mc_db c then (s, Inl mutation_unsupported)
      else if mi_action v \<noteq> McpInstall \<and> \<not> managedBinding c i (mi_server v) s
      then (s, Inl mutation_unsupported)
      else if \<not> ValidateIdempotencyKey key then (s, Inl ErrInvalidKey)
      else case mcp_resolve c None i of
        Inl e \<Rightarrow> (s, Inl (ErrManagement e))
      | Inr t \<Rightarrow>
          if bn_mcp_mutate (mg_bundle t) = None then (s, Inl mutation_unsupported)
          else (case mcpOperationShape v of (kind, stg, subject) \<Rightarrow>
                  replay_or_create (mc_message c) w key
                    (\<lambda>r. op_kind r = kind \<and> op_target_id r = i \<and> op_message r = subject)
                    ErrMCPMutationConflict mutation_conflict ErrMCPMutationConflict
                    (\<lambda>j cor. Some (new_operation (oi_now w) kind TargetInstance i stg subject key j cor)) s))"

definition mcp_StartInstall ::
  "('h, 'w) mcp_config \<Rightarrow> op_inputs \<Rightarrow> string \<Rightarrow> string \<Rightarrow> string \<Rightarrow> string list \<Rightarrow> string
     \<Rightarrow> 'w mcp_service \<Rightarrow> 'w mcp_service start_result" where
  "mcp_StartInstall c w i preset credential tools key s =
     (if \<not> mcp_install_Validate \<lparr>mir_preset_id = preset\<rparr> then (s, Inl ErrInvalidManagementContract)
      else if credential \<noteq> []
              \<and> \<not> mcp_authenticate_Validate \<lparr>mar_server_id = preset, mar_credential = credential\<rparr>
      then (s, Inl ErrInvalidManagementContract)
      else if \<not> mcp_configure_Validate \<lparr>mcr_server_id = preset, mcr_enabled_tools = tools\<rparr>
      then (s, Inl ErrInvalidManagementContract)
      else mcp_start c w i key
             \<lparr>mi_action = McpInstall, mi_preset = preset, mi_server = [], mi_credential = credential,
              mi_tools = tools\<rparr> s)"

definition StartAuthenticate ::
  "('h, 'w) mcp_config \<Rightarrow> op_inputs \<Rightarrow> string \<Rightarrow> string \<Rightarrow> string \<Rightarrow> string
     \<Rightarrow> 'w mcp_service \<Rightarrow> 'w mcp_service start_result" where
  "StartAuthenticate c w i server credential key s =
     (if \<not> mcp_authenticate_Validate \<lparr>mar_server_id = server, mar_credential = credential\<rparr>
      then (s, Inl ErrInvalidManagementContract)
      else mcp_start c w i key
             \<lparr>mi_action = McpAuthenticate, mi_preset = [], mi_server = server,
              mi_credential = credential, mi_tools = []\<rparr> s)"

definition start_on_server ::
  "mcp_action \<Rightarrow> string list \<Rightarrow> ('h, 'w) mcp_config \<Rightarrow> op_inputs \<Rightarrow> string \<Rightarrow> string \<Rightarrow> string
     \<Rightarrow> 'w mcp_service \<Rightarrow> 'w mcp_service start_result" where
  "start_on_server a tools c w i server key s =
     (if \<not> mcp_configure_Validate \<lparr>mcr_server_id = server, mcr_enabled_tools = tools\<rparr>
      then (s, Inl ErrInvalidManagementContract)
      else mcp_start c w i key
             \<lparr>mi_action = a, mi_preset = [], mi_server = server, mi_credential = [], mi_tools = tools\<rparr> s)"

definition StartTest ::
  "('h, 'w) mcp_config \<Rightarrow> op_inputs \<Rightarrow> string \<Rightarrow> string \<Rightarrow> string \<Rightarrow> 'w mcp_service
     \<Rightarrow> 'w mcp_service start_result" where
  "StartTest = start_on_server McpTest []"

definition StartConfigure ::
  "('h, 'w) mcp_config \<Rightarrow> op_inputs \<Rightarrow> string \<Rightarrow> string \<Rightarrow> string list \<Rightarrow> string \<Rightarrow> 'w mcp_service
     \<Rightarrow> 'w mcp_service start_result" where
  "StartConfigure c w i server tools = start_on_server McpConfigure tools c w i server"

definition mcp_StartRemove ::
  "('h, 'w) mcp_config \<Rightarrow> op_inputs \<Rightarrow> string \<Rightarrow> string \<Rightarrow> string \<Rightarrow> 'w mcp_service
     \<Rightarrow> 'w mcp_service start_result" where
  "mcp_StartRemove = start_on_server McpRemove []"

end
