(* ===== verification/MCP_Worker.thy ===== *)
theory MCP_Worker
  imports MCP_Service
begin

text \<open>
  The worker of the MCP service (app/management\_mcp.go): the five mutations, their settlement,
  cancelling, and recovery after a restart.
\<close>

text \<open>
  What one run of a worker reads: the clock when the row turns RUNNING, around the test and at the
  end, and whether its context is done when the binding is written.
\<close>

record mcp_run =
  mr_now :: time
  mr_test_from :: time
  mr_test_through :: time
  mr_completed :: time
  mr_done :: bool

definition validateMCPServerMutation :: "mcp_server mcp_answer \<Rightarrow> string \<Rightarrow> string \<Rightarrow> bool" where
  "validateMCPServerMutation answer server preset =
     (case answer of
        Inl _ \<Rightarrow> False
      | Inr v \<Rightarrow>
          \<not> (\<not> mcp_server_Validate v \<or> (server \<noteq> [] \<and> ms_id v \<noteq> server)
             \<or> (preset \<noteq> [] \<and> ms_preset_id v \<noteq> preset)))"

definition mcpMutationErrorCode :: "mcp_action \<Rightarrow> error_code" where
  "mcpMutationErrorCode a =
     (case a of
        McpAuthenticate \<Rightarrow> ErrorMCPAuthenticationFailed
      | McpTest \<Rightarrow> ErrorMCPTestFailed
      | _ \<Rightarrow> ErrorMCPConfigurationFailed)"

subsection \<open>Installing\<close>

text \<open>A step runs when nothing has failed; \<open>False\<close> is the failure.\<close>

type_synonym 'w outcome = "'w \<times> bool"

definition next_step :: "('w \<Rightarrow> 'w outcome) \<Rightarrow> 'w outcome \<Rightarrow> 'w outcome" where
  "next_step f o1 = (if snd o1 then f (fst o1) else o1)"

definition mutate_server ::
  "('w \<Rightarrow> 'w \<times> mcp_server mcp_answer) \<Rightarrow> string \<Rightarrow> string \<Rightarrow> 'w \<Rightarrow> 'w outcome" where
  "mutate_server call server preset x =
     (let (y, r) = call x in (y, validateMCPServerMutation r server preset))"

definition test_server ::
  "('h, 'w) mcp_adapter \<Rightarrow> mcp_run \<Rightarrow> 'h \<Rightarrow> installation \<Rightarrow> string \<Rightarrow> string \<Rightarrow> 'w \<Rightarrow> 'w outcome" where
  "test_server m run h inst native server x =
     (case ma_test m h inst native server x of
        (y, Inl _) \<Rightarrow> (y, False)
      | (y, Inr r) \<Rightarrow> (y, test_accepted server (mr_test_from run) (mr_test_through run) r))"

text \<open>After the test, the live list must show the server ready.\<close>

definition read_back_server ::
  "('h, 'w) mcp_adapter \<Rightarrow> 'h option \<Rightarrow> installation \<Rightarrow> string \<Rightarrow> string \<Rightarrow> 'w \<Rightarrow> 'w outcome" where
  "read_back_server m reader inst native preset x =
     (case reader of
        None \<Rightarrow> (x, False)
      | Some h \<Rightarrow>
          (case ma_servers m h inst native x of
             (y, Inl _) \<Rightarrow> (y, False)
           | (y, Inr vs) \<Rightarrow>
               (y, list_ex (\<lambda>v. ms_id v = preset \<and> ms_preset_id v = preset \<and> ms_state v = MCPReady
                               \<and> ms_ready_at v \<noteq> None) vs)))"

definition install_steps ::
  "('h, 'w) mcp_adapter \<Rightarrow> mcp_run \<Rightarrow> 'h \<Rightarrow> 'h option \<Rightarrow> installation \<Rightarrow> string \<Rightarrow> mcp_input
     \<Rightarrow> 'w \<Rightarrow> 'w outcome" where
  "install_steps m run h reader inst native v x =
     (let p = mi_preset v in
      next_step (read_back_server m reader inst native p)
        (next_step (test_server m run h inst native p)
          (next_step (\<lambda>x. if mi_tools v = [] then (x, True)
                          else mutate_server (ma_configure m h inst native p (mi_tools v)) p p x)
            (next_step (\<lambda>x. if mi_credential v = [] then (x, True)
                            else mutate_server (ma_authenticate m h inst native p (mi_credential v)) p p x)
              (mutate_server (ma_install m h inst native p) [] p x)))))"

definition bind_server ::
  "('h, 'w) mcp_config \<Rightarrow> mcp_run \<Rightarrow> string \<Rightarrow> string \<Rightarrow> 'w mcp_service \<Rightarrow> 'w mcp_service option" where
  "bind_server c run i preset s =
     (if mr_done run then None
      else map_option (\<lambda>bs. s\<lparr>mv_bindings := bs\<rparr>)
             (UpsertManagedMCPBinding (mv_instances s) (mc_chars c) (mv_bindings s)
                \<lparr>mb_instance = i, mb_server = preset, mb_preset = preset,
                 mb_created_at = mr_completed run, mb_updated_at = mr_completed run\<rparr>))"

text \<open>Whatever fails, the server of that name is removed again.\<close>

definition install_server ::
  "('h, 'w) mcp_config \<Rightarrow> mcp_run \<Rightarrow> 'h \<Rightarrow> 'h management_target \<Rightarrow> mcp_input \<Rightarrow> string
     \<Rightarrow> 'w mcp_service \<Rightarrow> 'w mcp_service \<times> bool" where
  "install_server c run h t v i s =
     (let m = mc_adapter c; inst = mg_installation t; native = mg_native t;
          (x, ok) = install_steps m run h (bn_mcp_read (mg_bundle t)) inst native v (mv_world s);
          s1 = s\<lparr>mv_world := x\<rparr>;
          cleanup = (\<lambda>s. s\<lparr>mv_world := fst (ma_remove m h inst native (mi_preset v) (mv_world s))\<rparr>)
      in if \<not> ok then (cleanup s1, False)
         else case bind_server c run i (mi_preset v) s1 of
                None \<Rightarrow> (cleanup s1, False)
              | Some s2 \<Rightarrow> (s2, True))"

subsection \<open>The other mutations\<close>

definition on_world :: "('w \<Rightarrow> 'w outcome) \<Rightarrow> 'w mcp_service \<Rightarrow> 'w mcp_service \<times> bool" where
  "on_world f s = (let (x, ok) = f (mv_world s) in (s\<lparr>mv_world := x\<rparr>, ok))"

definition remove_server ::
  "('h, 'w) mcp_config \<Rightarrow> mcp_run \<Rightarrow> 'h \<Rightarrow> 'h management_target \<Rightarrow> mcp_input \<Rightarrow> string
     \<Rightarrow> 'w mcp_service \<Rightarrow> 'w mcp_service \<times> bool" where
  "remove_server c run h t v i s =
     (let (s1, ok) = on_world (mutate_server
                       (ma_remove (mc_adapter c) h (mg_installation t) (mg_native t) (mi_server v))
                       (mi_server v) []) s
      in if \<not> ok then (s1, False)
         else if mr_done run then (s1, False)
         else (s1\<lparr>mv_bindings := DeleteManagedMCPBinding (mv_bindings s1) i (mi_server v)\<rparr>, True))"

definition mcp_mutation ::
  "('h, 'w) mcp_config \<Rightarrow> mcp_run \<Rightarrow> 'h \<Rightarrow> 'h management_target \<Rightarrow> mcp_input \<Rightarrow> string
     \<Rightarrow> 'w mcp_service \<Rightarrow> 'w mcp_service \<times> bool" where
  "mcp_mutation c run h t v i s =
     (let m = mc_adapter c; inst = mg_installation t; native = mg_native t; server = mi_server v in
      case mi_action v of
        McpInstall \<Rightarrow> install_server c run h t v i s
      | McpAuthenticate \<Rightarrow>
          on_world (mutate_server (ma_authenticate m h inst native server (mi_credential v)) server []) s
      | McpTest \<Rightarrow> on_world (test_server m run h inst native server) s
      | McpConfigure \<Rightarrow>
          on_world (mutate_server (ma_configure m h inst native server (mi_tools v)) server []) s
      | McpRemove \<Rightarrow> remove_server c run h t v i s)"

subsection \<open>The worker\<close>

definition begin_mcp ::
  "('h, 'w) mcp_config \<Rightarrow> time \<Rightarrow> string \<Rightarrow> 'w mcp_service \<Rightarrow> 'w mcp_service \<times> operation option" where
  "begin_mcp c now i s =
     (case registerCancel i s of
        None \<Rightarrow> (s, None)
      | Some s1 \<Rightarrow>
          (case begin_work (mc_message c) now StageMCPPreflight i s1 of
             (s2, None) \<Rightarrow> (unregisterCancel i s2, None)
           | (s2, Some running) \<Rightarrow> (s2, Some running)))"

definition mcp_settled :: "time \<Rightarrow> mcp_action \<Rightarrow> bool \<Rightarrow> operation \<Rightarrow> operation" where
  "mcp_settled now a ok running =
     (if ok then settled_operation now StageMCPReconcile StatusSucceeded (op_error_code running)
                   (op_retryable running) running
      else settled_operation now StageMCPReconcile StatusFailed (mcpMutationErrorCode a) True running)"

definition finish_mcp ::
  "('h, 'w) mcp_config \<Rightarrow> time \<Rightarrow> mcp_action \<Rightarrow> bool \<Rightarrow> operation \<Rightarrow> 'w mcp_service \<Rightarrow> 'w mcp_service" where
  "finish_mcp c now a ok running s =
     unregisterCancel (op_id running)
       (settle_operation (mc_message c) now running (mcp_settled now a ok running) s)"

definition mcp_runMutation ::
  "('h, 'w) mcp_config \<Rightarrow> mcp_run \<Rightarrow> 'h \<Rightarrow> 'h management_target \<Rightarrow> mcp_input \<Rightarrow> operation
     \<Rightarrow> 'w mcp_service \<Rightarrow> 'w mcp_service" where
  "mcp_runMutation c run h t v r s =
     (case begin_mcp c (mr_now run) (op_id r) s of
        (s1, None) \<Rightarrow> s1
      | (s1, Some running) \<Rightarrow>
          (case mcp_mutation c run h t v (op_target_id r) s1 of
             (s2, ok) \<Rightarrow> finish_mcp c (mr_completed run) (mi_action v) ok running s2))"

subsection \<open>Cancelling and recovering\<close>

text \<open>The row is settled before the worker's context is cancelled.\<close>

definition CancelMCPOperation ::
  "('h, 'w) mcp_config \<Rightarrow> time \<Rightarrow> string \<Rightarrow> 'w mcp_service \<Rightarrow> 'w mcp_service \<times> (mutation_error + operation)" where
  "CancelMCPOperation c now i s =
     (if \<not> mc_db c then (s, Inl mutation_unsupported)
      else case GetOperation (os_db s) i of
        Inl _ \<Rightarrow> (s, Inl mutation_query_failed)
      | Inr current \<Rightarrow>
          if op_kind current \<notin> {TypeMCPInstall, TypeMCPAuthenticate, TypeMCPTest, TypeMCPConfigure, TypeMCPRemove}
          then (s, Inl mutation_unsupported)
          else if IsTerminal (op_status current) then (s, Inl ErrNotCancellable)
          else (case persist_operation (mc_message c) now current (cancelled_operation now current) s of
                  (s1, Some _) \<Rightarrow> (s1, Inl ErrNotCancellable)
                | (s1, None) \<Rightarrow> (raise_cancel i s1, Inr (cancelled_operation now current))))"

definition mcp_RecoverInterrupted ::
  "('h, 'w) mcp_config \<Rightarrow> time \<Rightarrow> 'w mcp_service \<Rightarrow> 'w mcp_service \<times> operation list \<times> db_error option" where
  "mcp_RecoverInterrupted c now s =
     (if \<not> mc_db c then (s, [], None)
      else recover_interrupted (mc_message c) now StageMCPReconcile True ListActiveMCPOperations s)"

end
