(* ===== verification/Service_Steps.thy ===== *)
theory Service_Steps
  imports Operation_Service_Properties Upgrade_Service Backup_Service Skill_Worker MCP_Worker
begin

text \<open>
  The steps of the four management services as relations on their states, and that each of them
  is a move on the operations table, by interpretations of \<open>operation_handlers\<close>. A worker's call
  of the adapter is a step of its own, so every handler may come between its two writes; a final
  write uses a row that an earlier step of the worker made RUNNING.
\<close>

subsection \<open>MCP servers\<close>

lemma on_world_db: "os_db (fst (on_world f s)) = os_db s"
  by (simp add: on_world_def split: prod.splits)

lemma mcp_mutation_db: "os_db (fst (mcp_mutation c run h t v i s)) = os_db s"
proof (cases "mi_action v")
  case McpInstall
  then show ?thesis
    by (simp add: mcp_mutation_def install_server_def bind_server_def Let_def split: prod.splits option.splits)
next
  case McpRemove
  then show ?thesis
    by (auto simp: mcp_mutation_def remove_server_def on_world_def split: prod.splits)
qed (simp_all add: mcp_mutation_def on_world_db Let_def)

lemma begin_mcp_some:
  assumes "begin_mcp c now i s = (s', Some v)"
  obtains s1 where "registerCancel i s = Some s1"
    and "begin_work (mc_message c) now StageMCPPreflight i s1 = (s', Some v)"
  using assms by (auto simp: begin_mcp_def split: option.splits prod.splits)

lemma begin_mcp_move: "db_move (mc_message c) (os_db s) (os_db (fst (begin_mcp c now i s)))"
proof (cases "registerCancel i s")
  case (Some s1)
  then show ?thesis
    using begin_work_move [of "mc_message c" s1 now StageMCPPreflight i]
    by (auto simp: begin_mcp_def split: prod.splits option.splits)
qed (simp add: begin_mcp_def db_move.stay)

inductive mcp_step :: "('h, 'w) mcp_config \<Rightarrow> 'w mcp_service \<Rightarrow> 'w mcp_service \<Rightarrow> bool"
  for c :: "('h, 'w) mcp_config" where
  start: "mcp_step c s (fst (mcp_start c w i key v s))"
| begin_worker: "mcp_step c s (fst (begin_mcp c now i s))"
| adapter: "mcp_step c s (fst (mcp_mutation c run h t v i s))"
| finish: "op_status running = StatusRunning \<Longrightarrow> mcp_step c s (finish_mcp c now a ok running s)"
| cancel: "mcp_step c s (fst (CancelMCPOperation c now i s))"
| recover: "mcp_step c s (fst (mcp_RecoverInterrupted c now s))"

lemma mcp_step_move: "mcp_step c s s' \<Longrightarrow> db_move (mc_message c) (os_db s) (os_db s')"
proof (induction rule: mcp_step.induct)
  case (start s w i key v)
  show ?case
    by (auto simp: mcp_start_def replay_move db_move.stay split: sum.splits prod.splits)
next
  case (begin_worker s now i)
  show ?case by (rule begin_mcp_move)
next
  case (adapter s run h t v i)
  show ?case by (simp add: mcp_mutation_db db_move.stay)
next
  case (finish running s now a ok)
  then show ?case by (simp add: finish_mcp_def settle_move IsTerminal_def)
next
  case (cancel s now i)
  show ?case
  proof (cases "GetOperation (os_db s) i")
    case (Inr r)
    show ?thesis
      using persist_move [of r "mc_message c" s now "cancelled_operation now r"] Inr
      by (auto simp: CancelMCPOperation_def db_move.stay split: prod.splits option.splits)
  qed (simp add: CancelMCPOperation_def db_move.stay)
next
  case (recover s now)
  show ?case
    by (auto simp: mcp_RecoverInterrupted_def db_move.stay ListActiveMCPOperations_def intro: recover_move)
qed

interpretation mcp: operation_handlers os_db "mcp_step c" "mc_message c" for c
  by unfold_locales (rule mcp_step_move)

subsection \<open>Backups\<close>

lemma begin_backup_move: "db_move (bc_message c) (os_db s) (os_db (fst (begin_backup c now stg i s)))"
proof (cases "registerCancel i s")
  case (Some s1)
  then show ?thesis
    using begin_work_move [of "bc_message c" s1 now stg i]
    by (auto simp: begin_backup_def split: prod.splits option.splits)
qed (simp add: begin_backup_def db_move.stay)

inductive backup_step :: "'h backup_config \<Rightarrow> backup_service \<Rightarrow> backup_service \<Rightarrow> bool"
  for c :: "'h backup_config" where
  create: "backup_step c s (fst (StartCreateBackup c w runtime key s))"
| on_backup: "backup_step c s (fst (start_on_backup kind stg capability c read w runtime i key s))"
| begin_worker: "backup_step c s (fst (begin_backup c now stg i s))"
| finish: "op_status running = StatusRunning \<Longrightarrow> backup_step c s (finish_backup c now running final s)"
| cancel: "backup_step c s (fst (CancelBackupOperation c now i s))"
| recover: "backup_step c s (fst (backup_RecoverInterrupted c now s))"

lemma backup_step_move: "backup_step c s s' \<Longrightarrow> db_move (bc_message c) (os_db s) (os_db s')"
proof (induction rule: backup_step.induct)
  case (create s w runtime key)
  show ?case by (auto simp: StartCreateBackup_def replay_move db_move.stay split: sum.splits)
next
  case (on_backup s kind stg capability read w runtime i key)
  show ?case by (auto simp: start_on_backup_def replay_move db_move.stay split: sum.splits)
next
  case (begin_worker s now stg i)
  show ?case by (rule begin_backup_move)
next
  case (finish running s now final)
  then show ?case by (simp add: finish_backup_def settle_move IsTerminal_def)
next
  case (cancel s now i)
  show ?case
  proof (cases "GetOperation (os_db s) i")
    case (Inr r)
    show ?thesis
      using persist_move [of r "bc_message c" "raise_cancel i s" now "cancelled_operation now r"] Inr
      by (auto simp: CancelBackupOperation_def db_move.stay split: prod.splits option.splits)
  qed (simp add: CancelBackupOperation_def db_move.stay)
next
  case (recover s now)
  show ?case
    by (auto simp: backup_RecoverInterrupted_def db_move.stay ListActiveBackupOperations_def intro: recover_move)
qed

interpretation backups: operation_handlers os_db "backup_step c" "bc_message c" for c
  by unfold_locales (rule backup_step_move)

subsection \<open>Upgrades\<close>

inductive upgrade_step :: "'h upgrade_config \<Rightarrow> op_service \<Rightarrow> op_service \<Rightarrow> bool"
  for c :: "'h upgrade_config" where
  start: "upgrade_step c s (fst (startMutation c w plan runtime key rollback s))"
| begin_worker: "upgrade_step c s (fst (begin_mutation c now v s))"
| finish: "op_status running = StatusRunning
    \<Longrightarrow> upgrade_step c s (finish_mutation c now rollback answer running s)"
| recover: "upgrade_step c s (fst (upgrade_RecoverInterrupted c now s))"

lemma upgrade_step_move: "upgrade_step c s s' \<Longrightarrow> db_move (uc_message c) (os_db s) (os_db s')"
proof (induction rule: upgrade_step.induct)
  case (start s w plan runtime key rollback)
  show ?case by (auto simp: startMutation_def replay_move db_move.stay split: sum.splits option.splits)
next
  case (begin_worker s now v)
  show ?case by (simp add: begin_mutation_def begin_work_move)
next
  case (finish running s now rollback answer)
  then show ?case by (simp add: finish_mutation_def settle_move IsTerminal_def)
next
  case (recover s now)
  show ?case
    by (auto simp: upgrade_RecoverInterrupted_def db_move.stay ListActiveRuntimeManagementOperations_def
        intro: recover_move)
qed

interpretation upgrades: operation_handlers os_db "upgrade_step c" "uc_message c" for c
  by unfold_locales (rule upgrade_step_move)

subsection \<open>Skills\<close>

lemma put_db [simp]: "os_db (put_world x s) = os_db s" "os_db (put_rows rs s) = os_db s"
  by (simp_all add: put_world_def put_rows_def)

lemma restart_db [simp]: "os_db (fst (restartIfRunning c t s)) = os_db s"
  by (auto simp: restartIfRunning_def Let_def split: option.splits prod.splits)

lemma mark_db [simp]: "os_db (fst (mark_projection c now t r b st s)) = os_db s"
  by (auto simp: mark_projection_def split: sum.splits)

lemma withdraw_db [simp]: "os_db (withdraw_row r s) = os_db s"
  by (auto simp: withdraw_row_def split: sum.splits)

lemma drop_db [simp]: "os_db (fst (drop_row c t r b s)) = os_db s"
  by (auto simp: drop_row_def split: sum.splits)

lemma replace_db [simp]: "os_db (fst (replace_release c t r n s)) = os_db s"
  by (auto simp: replace_release_def split: sum.splits)

lemma owned_db: "requireOwnedProjection c h t v b s = (s', r) \<Longrightarrow> os_db s' = os_db s"
  by (auto simp: requireOwnedProjection_def Let_def split: sum.splits prod.splits if_splits)

lemma publish_db [simp]: "os_db (fst (publishManaged c st now h t v a s)) = os_db s"
  by (auto simp: publishManaged_def Let_def split: sum.splits prod.splits)

lemma acquire_db [simp]: "os_db (fst (acquire_then_publish acquire c st now h t v s)) = os_db s"
  by (auto simp: acquire_then_publish_def split: sum.splits prod.splits)

lemma update_db [simp]: "os_db (fst (updateManaged c st now h t v s)) = os_db s"
  by (auto simp: updateManaged_def Let_def dest!: owned_db split: sum.splits prod.splits option.splits)

lemma enable_db [simp]: "os_db (fst (enableManaged c st now h t v s)) = os_db s"
  by (auto simp: enableManaged_def Let_def dest!: owned_db split: sum.splits prod.splits option.splits)

lemma disable_db [simp]: "os_db (fst (disableManaged c now h t v s)) = os_db s"
  by (auto simp: disableManaged_def dest!: owned_db split: sum.splits prod.splits option.splits)

lemma remove_db [simp]: "os_db (fst (removeManaged c h t v s)) = os_db s"
  by (auto simp: removeManaged_def dest!: owned_db split: sum.splits prod.splits option.splits)

lemma skill_mutation_db: "os_db (fst (skill_mutation c st now a h t v s)) = os_db s"
  by (cases a) (simp_all add: skill_mutation_def installManaged_def importManaged_def)

inductive skill_step :: "('h, 'w) skill_config \<Rightarrow> 'w skill_service \<Rightarrow> 'w skill_service \<Rightarrow> bool"
  for c :: "('h, 'w) skill_config" where
  start: "skill_step c s (fst (skill_start c w inst skill source key a s))"
| existing: "skill_step c s (fst (startExisting c w inst skill key a s))"
| begin_worker: "skill_step c s (fst (begin_work (kc_message c) now StageSkillPreflight i s))"
| adapter: "skill_step c s (fst (skill_mutation c st now a h t v s))"
| finish: "op_status running = StatusRunning \<Longrightarrow> skill_step c s (finish_skill c now running st code retry s)"
| recover: "skill_step c s (fst (skill_RecoverInterrupted c now s))"

lemma skill_start_move:
  "db_move (kc_message c) (os_db s) (os_db (fst (skill_start c w inst skill source key a s)))"
  by (auto simp: skill_start_def replay_move db_move.stay split: sum.splits)

lemma skill_step_move: "skill_step c s s' \<Longrightarrow> db_move (kc_message c) (os_db s) (os_db s')"
proof (induction rule: skill_step.induct)
  case (existing s w inst skill key a)
  show ?case by (auto simp: startExisting_def skill_start_move db_move.stay split: sum.splits)
next
  case (adapter s st now a h t v)
  show ?case by (simp add: skill_mutation_db db_move.stay)
next
  case (finish running s now st code retry)
  then show ?case by (simp add: finish_skill_def settle_move IsTerminal_def)
next
  case (recover s now)
  show ?case
    by (auto simp: skill_RecoverInterrupted_def db_move.stay ListActiveSkillOperations_def intro: recover_move)
qed (simp_all add: skill_start_move begin_work_move)

interpretation skills: operation_handlers os_db "skill_step c" "kc_message c" for c
  by unfold_locales (rule skill_step_move)

end
