(* ===== verification/Instance_Properties.thy ===== *)
theory Instance_Properties
  imports Instance_Service Operation_Service_Properties
begin

text \<open>
  What the instance service guarantees: the outcome of a delete worker and of the recovery after a
  restart is what the Runtime itself reports, every worker settles its operation, and a record is
  only cleared when the Runtime no longer lists the instance.
\<close>

subsection \<open>What a reconciliation shows\<close>

lemma put_fields [simp]:
  "iz_inventory (put_inventory iv s) = iv" "iz_db (put_db db s) = db"
  "iz_inventory (put_db db s) = iz_inventory s"
  "db_operations (iz_db (put_inventory iv s)) = db_operations (iz_db s)"
  "iz_workers (put_inventory iv s) = iz_workers s" "iz_workers (put_db db s) = iz_workers s"
  by (simp_all add: put_inventory_def put_db_def)

lemma row_of_put [simp]: "row_of (iz_db (put_inventory iv s)) i = row_of (iz_db s) i"
  by (simp add: row_of_def)

text \<open>Rows of an operation that are not SUCCEEDED (yet).\<close>

definition unsuccessful :: "string \<Rightarrow> database \<Rightarrow> bool" where
  "unsuccessful i db \<longleftrightarrow> (\<forall>r \<in> set (db_operations db). op_id r = i \<longrightarrow> op_status r \<noteq> StatusSucceeded)"

lemma unsuccessful_get: "unsuccessful i db \<Longrightarrow> GetOperation db i = Inr v \<Longrightarrow> op_status v \<noteq> StatusSucceeded"
  by (auto simp: GetOperation_def unsuccessful_def scanOperation_def filter_eq_Cons_iff
      split: list.splits if_splits)

lemma unsuccessful_rows: "db_operations db' = db_operations db \<Longrightarrow> unsuccessful i db' = unsuccessful i db"
  by (simp add: unsuccessful_def)

lemma update_unsuccessful:
  assumes "UpdateOperation msg db current nxt = Inr db'" "op_status nxt \<noteq> StatusSucceeded"
  shows "unsuccessful i db \<Longrightarrow> unsuccessful i db'"
  using assms
  by (auto simp: UpdateOperation_def unsuccessful_def updated_row_def split: if_splits option.splits)

text \<open>After a snapshot an identity of the installation is available exactly when it was reported.\<close>

lemma snapshot_available:
  assumes ok: "instances_ok iv" and snap: "ApplyInstanceSnapshot iv rnd inst present now = Inr iv'"
  shows "((\<exists>r \<in> set (iv_instances iv'). in_installation r = inst \<and> in_native r = n \<and> in_availability r = Available)
     \<longleftrightarrow> n \<in> se_native ` set present)
   \<and> (\<forall>r \<in> set (iv_instances iv'). in_installation r = inst \<and> in_availability r = Available \<longrightarrow> in_name r = in_native r)"
proof -
  from snapshot_effect [OF assms] obtain ids where len: "length ids = length (newly_seen iv inst present)"
    and rows: "iv_instances iv' = map (reconciled inst now present) (iv_instances iv)
      @ fresh_rows inst now ids (newly_seen iv inst present)" by blast
  have old: "in_installation (reconciled inst now present q) = in_installation q
      \<and> in_native (reconciled inst now present q) = in_native q
      \<and> (in_installation q = inst \<longrightarrow> (in_availability (reconciled inst now present q) = Available
           \<longleftrightarrow> in_native q \<in> se_native ` set present)
         \<and> (in_availability (reconciled inst now present q) = Available
             \<longrightarrow> in_name (reconciled inst now present q) = in_native q))" for q
  proof (cases "first_match (\<lambda>e. se_native e = in_native q) present")
    case None
    then have "in_native q \<notin> se_native ` set present" by (auto simp: first_match_None)
    with None show ?thesis by (simp add: reconciled_def gone_missing_def)
  next
    case (Some e)
    from first_match_Some [OF this] have "se_native e = in_native q" "in_native q \<in> se_native ` set present"
      by force+
    with Some show ?thesis by (simp add: reconciled_def seen_again_def)
  qed
  have new: "in_installation r = inst \<and> in_native r \<in> se_native ` set present \<and> in_availability r = Available
      \<and> in_name r = in_native r"
    if "r \<in> set (fresh_rows inst now ids (newly_seen iv inst present))" for r
    using that by (auto simp: fresh_rows_def new_instance_def newly_seen_def dest!: set_zip_rightD)
  have "(\<exists>r \<in> set (iv_instances iv'). in_installation r = inst \<and> in_native r = n \<and> in_availability r = Available)
     \<longleftrightarrow> n \<in> se_native ` set present"
  proof
    assume "\<exists>r \<in> set (iv_instances iv'). in_installation r = inst \<and> in_native r = n \<and> in_availability r = Available"
    then obtain r where r: "r \<in> set (iv_instances iv')" "in_installation r = inst" "in_native r = n"
      "in_availability r = Available" by blast
    show "n \<in> se_native ` set present"
    proof (cases "r \<in> set (fresh_rows inst now ids (newly_seen iv inst present))")
      case True
      then show ?thesis using new r(3) by blast
    next
      case False
      then obtain q where "r = reconciled inst now present q" using r(1) unfolding rows by auto
      then show ?thesis using old [of q] r by simp
    qed
  next
    assume n: "n \<in> se_native ` set present"
    then obtain e where e: "e \<in> set present" "se_native e = n" by blast
    show "\<exists>r \<in> set (iv_instances iv'). in_installation r = inst \<and> in_native r = n \<and> in_availability r = Available"
    proof (cases "\<exists>q \<in> set (instances_of iv inst). in_native q = n")
      case True
      then obtain q where q: "q \<in> set (iv_instances iv)" "in_installation q = inst" "in_native q = n"
        by (auto simp: instances_of_def)
      with old [of q] n show ?thesis unfolding rows
        by (intro bexI [of _ "reconciled inst now present q"]) auto
    next
      case False
      with e have "e \<in> set (newly_seen iv inst present)" by (auto simp: newly_seen_def)
      then obtain k where "k < length ids" "newly_seen iv inst present ! k = e"
        using len by (auto simp: in_set_conv_nth)
      then have "(ids ! k, e) \<in> set (zip ids (newly_seen iv inst present))"
        using len by (auto simp: set_zip)
      then have "new_instance (ids ! k) inst now e \<in> set (fresh_rows inst now ids (newly_seen iv inst present))"
        by (force simp: fresh_rows_def)
      with e show ?thesis unfolding rows
        by (intro bexI [of _ "new_instance (ids ! k) inst now e"]) (auto simp: new_instance_def)
    qed
  qed
  moreover have "in_name r = in_native r"
    if r: "r \<in> set (iv_instances iv')" "in_installation r = inst" "in_availability r = Available" for r
  proof (cases "r \<in> set (fresh_rows inst now ids (newly_seen iv inst present))")
    case True
    then show ?thesis using new by blast
  next
    case False
    then obtain q where "r = reconciled inst now present q" using r(1) unfolding rows by auto
    then show ?thesis using old [of q] r by simp
  qed
  ultimately show ?thesis by blast
qed

lemma listed_rows:
  "set (ListInstances iv inst) = {r \<in> set (iv_instances iv). in_installation r = inst}"
  by (auto simp: ListInstances_def Let_def instances_of_def)

definition reported :: "inst_world \<Rightarrow> string \<Rightarrow> bool" where
  "reported w n \<longleftrightarrow> (case wd_profiles w of Inl _ \<Rightarrow> False | Inr ps \<Rightarrow> n \<in> ps_native ` set ps)"

text \<open>A reconciliation that succeeds lists exactly what the Runtime reported.\<close>

lemma reconcile_reports:
  assumes ok: "instances_ok (iz_inventory s)" and rec: "reconcileLocked c w inst s = (s', Inr listed)"
  shows "instances_ok (iz_inventory s') \<and> (\<exists>ps. wd_profiles w = Inr ps)
    \<and> (instanceAvailable listed n \<longleftrightarrow> reported w n)
    \<and> (\<not> reported w n \<longrightarrow> (\<forall>r \<in> set (iv_instances (iz_inventory s')).
           in_installation r = inst \<and> in_native r = n \<longrightarrow> in_availability r \<noteq> Available))"
proof -
  from rec obtain ps iv where ps: "wd_profiles w = Inr ps"
    and snap: "ApplyInstanceSnapshot (iz_inventory s) (wd_rnd_instances w) inst (map snapshot_of ps) (wd_now w) = Inr iv"
    and s': "s' = put_inventory iv s"
    and l: "il_instances listed = map (\<lambda>r. instanceView r (service_capabilities c)) (ListInstances iv inst)"
    by (auto simp: reconcileLocked_def reconcile_inventory_def split: sum.splits prod.splits option.splits)
  have rep: "reported w n \<longleftrightarrow> n \<in> se_native ` set (map snapshot_of ps)"
    by (auto simp: reported_def ps snapshot_of_def image_iff)
  have "instanceAvailable listed n \<longleftrightarrow>
      (\<exists>r \<in> set (iv_instances iv). in_installation r = inst \<and> in_native r = n \<and> in_availability r = Available)"
    using snapshot_available [OF ok snap, of n, THEN conjunct2]
    by (auto simp: instanceAvailable_def list_ex_iff l listed_rows instanceView_def)
  with snapshot_available [OF ok snap, of n, THEN conjunct1] snapshot_effect [OF ok snap, THEN conjunct1] rep show ?thesis
    by (auto simp: s' ps)
qed

lemma reconcile_keeps:
  assumes "instances_ok (iz_inventory s)"
  shows "db_operations (iz_db (fst (reconcileLocked c w inst s))) = db_operations (iz_db s)
    \<and> instances_ok (iz_inventory (fst (reconcileLocked c w inst s)))
    \<and> iz_workers (fst (reconcileLocked c w inst s)) = iz_workers s"
proof (cases "wd_profiles w")
  case (Inl e)
  let ?f = "\<lambda>r :: instance_row. if in_installation r = inst
    then r\<lparr>in_availability := Unknown, in_updated_at := wd_now w\<rparr> else r"
  have "in_id \<circ> ?f = in_id" "native_key \<circ> ?f = native_key"
    by (auto simp: fun_eq_iff native_key_def)
  with assms Inl show ?thesis
    by (simp add: reconcileLocked_def reconcile_inventory_def MarkInstancesUnknown_def instances_ok_def)
next
  case (Inr ps)
  then show ?thesis
    using assms snapshot_effect [OF assms, of "wd_rnd_instances w" inst "map snapshot_of ps" "wd_now w"]
    by (auto simp: reconcileLocked_def reconcile_inventory_def split: sum.splits)
qed

subsection \<open>Settling a row\<close>

text \<open>An update of a live row to a settled one, or to RUNNING, goes through.\<close>

lemma update_live:
  assumes inv: "table_inv (db_operations db)" and row: "row_of db i = Some r"
    and live: "\<not> IsTerminal (op_status r)"
    and n: "op_id n = op_id r" "op_progress n = op_progress r" "updated_row n r = n"
    and ok: "check_row n" "op_status n \<noteq> StatusPending"
    and change: "ValidStatusChange (op_status r) (op_status n)"
  obtains db' where "UpdateOperation msg db r n = Inr db'" and "table_inv (db_operations db')"
    and "row_of db' i = Some n" and "\<And>j. j \<noteq> i \<Longrightarrow> row_of db' j = row_of db j"
proof -
  note st = stored_row [OF inv row]
  have "row_of db (op_id n) = Some r" using row n(1) st(1) by simp
  moreover have "op_id r = op_id n" "op_progress n = None" using n st(2) by simp_all
  moreover have "check_row (updated_row n r)" "active (updated_row n r) \<longrightarrow> active r"
    using ok(1) n(3) live by (simp_all add: active_not_terminal)
  ultimately obtain db' where "UpdateOperation msg db r n = Inr db'" "table_inv (db_operations db')"
    "row_of db' (op_id n) = Some (updated_row n r)" "\<forall>j. j \<noteq> op_id n \<longrightarrow> row_of db' j = row_of db j"
    using update_succeeds [OF inv, of n r r msg] change by blast
  then show ?thesis using that n(1,3) st(1) by simp
qed

lemma settled_changes:
  "\<not> IsTerminal st \<Longrightarrow> ValidStatusChange st StatusFailed"
  "ValidStatusChange StatusRunning StatusSucceeded"
  "\<not> IsTerminal st \<Longrightarrow> ValidStatusChange st StatusRunning"
  by (cases st; simp add: IsTerminal_def ValidStatusChange_def ValidTransition_def)+

lemma instance_rows:
  assumes "op_progress r = None"
  shows "updated_row (instance_failed now code b r) r = instance_failed now code b r"
    "updated_row (instance_succeeded now stg r) r = instance_succeeded now stg r"
    "updated_row (running_instance_operation now stg r) r = running_instance_operation now stg r"
    "check_row (instance_failed now code b r)" "check_row (instance_succeeded now stg r)"
  using assms
  by (simp_all add: instance_failed_def instance_succeeded_def running_instance_operation_def updated_row_def
      check_row_def active_def)

text \<open>What a worker's last write leaves, over any state that still holds its RUNNING row.\<close>

definition holds :: "operation \<Rightarrow> inst_state \<Rightarrow> bool" where
  "holds r s \<longleftrightarrow> table_inv (db_operations (iz_db s)) \<and> row_of (iz_db s) (op_id r) = Some r
     \<and> op_status r = StatusRunning \<and> instances_ok (iz_inventory s)"

lemma holds_same_rows:
  "holds r s \<Longrightarrow> db_operations (iz_db s') = db_operations (iz_db s) \<Longrightarrow> instances_ok (iz_inventory s')
   \<Longrightarrow> holds r s'"
  by (simp add: holds_def row_of_def)

lemma settle_row:
  assumes h: "holds r s" and n: "op_id n = op_id r" "op_progress n = op_progress r" "updated_row n r = n"
    "check_row n" "op_status n = StatusFailed \<or> op_status n = StatusSucceeded"
  shows "row_of (iz_db (settle c r n s)) (op_id r) = Some n \<and> iz_inventory (settle c r n s) = iz_inventory s
    \<and> table_inv (db_operations (iz_db (settle c r n s)))"
proof -
  from h have inv: "table_inv (db_operations (iz_db s))" and row: "row_of (iz_db s) (op_id r) = Some r"
    and run: "op_status r = StatusRunning" by (simp_all add: holds_def)
  have live: "\<not> IsTerminal (op_status r)" by (simp add: run IsTerminal_def)
  have "ValidStatusChange (op_status r) (op_status n)" using n(5) settled_changes run live by auto
  moreover have "op_status n \<noteq> StatusPending" using n(5) by auto
  ultimately obtain db where "UpdateOperation (ic_message c) (iz_db s) r n = Inr db"
    "table_inv (db_operations db)" "row_of db (op_id r) = Some n"
    using update_live [OF inv row live n(1-4), where msg = "ic_message c"] by blast
  then show ?thesis by (simp add: settle_def)
qed

lemma fail_row:
  assumes "holds r s"
  shows "row_of (iz_db (failCreate c now r code b s)) (op_id r) = Some (instance_failed now code b r)
    \<and> iz_inventory (failCreate c now r code b s) = iz_inventory s
    \<and> table_inv (db_operations (iz_db (failCreate c now r code b s)))"
proof -
  from assms have "op_progress r = None" by (auto simp: holds_def dest: stored_row)
  note f = instance_rows [OF this]
  show ?thesis unfolding failCreate_def
    by (rule settle_row [OF assms _ _ f(1) f(4)]) (simp_all add: instance_failed_def)
qed

lemma succeed_row:
  assumes "holds r s"
  shows "row_of (iz_db (succeedDelete c now r s)) (op_id r)
      = Some (instance_succeeded now StageInstanceReconcile r)
    \<and> iz_inventory (succeedDelete c now r s) = iz_inventory s
    \<and> table_inv (db_operations (iz_db (succeedDelete c now r s)))"
    and "succeedCreate c now r s = succeedDelete c now r s"
proof -
  from assms have "op_progress r = None" by (auto simp: holds_def dest: stored_row)
  note f = instance_rows [OF this]
  show "row_of (iz_db (succeedDelete c now r s)) (op_id r)
      = Some (instance_succeeded now StageInstanceReconcile r)
    \<and> iz_inventory (succeedDelete c now r s) = iz_inventory s
    \<and> table_inv (db_operations (iz_db (succeedDelete c now r s)))"
    unfolding succeedDelete_def
    by (rule settle_row [OF assms _ _ f(2) f(5)]) (simp_all add: instance_succeeded_def)
qed (simp add: succeedCreate_def succeedDelete_def)

lemma begin_holds:
  assumes inv: "table_inv (db_operations (iz_db s))" and row: "row_of (iz_db s) i = Some q"
    and act: "\<not> IsTerminal (op_status q)" and live: "\<not> worker_cancelled i s"
    and ok: "instances_ok (iz_inventory s)"
  obtains s1 where "begin_running c now stg i s = (s1, Some (running_instance_operation now stg q))"
    and "holds (running_instance_operation now stg q) s1" and "iz_inventory s1 = iz_inventory s"
proof -
  let ?n = "running_instance_operation now stg q"
  note st = stored_row [OF inv row]
  have up: "updated_row ?n q = ?n" by (rule instance_rows [OF st(2)])
  have f: "op_id ?n = op_id q" "op_progress ?n = op_progress q" "op_status ?n = StatusRunning"
    by (simp_all add: running_instance_operation_def)
  have "check_row ?n" using st(3) act
    by (simp add: running_instance_operation_def check_row_def active_not_terminal IsTerminal_def)
  moreover have "ValidStatusChange (op_status q) (op_status ?n)"
    using settled_changes(3) [OF act] f(3) by simp
  moreover have "op_status ?n \<noteq> StatusPending" by (simp add: f)
  ultimately obtain db where db: "UpdateOperation (ic_message c) (iz_db s) q ?n = Inr db"
    "table_inv (db_operations db)" "row_of db i = Some ?n"
    using update_live [OF inv row act f(1,2) up, where msg = "ic_message c"] by blast
  let ?s = "(put_db db s)\<lparr>iz_started := i # iz_started s\<rparr>"
  have get: "GetOperation (iz_db s) i = Inr q" using inv row by (simp add: GetOperation_Inr)
  have "begin_running c now stg i s = (?s, Some ?n)"
    using act live by (simp add: begin_running_def get db(1) Let_def)
  moreover have "holds ?n ?s" using db(2,3) f st(1) ok by (simp add: holds_def)
  ultimately show ?thesis using that by simp
qed

lemma stop_fields [simp]:
  "iz_db (stop_worker i s) = iz_db s" "iz_inventory (stop_worker i s) = iz_inventory s"
  by (simp_all add: stop_worker_def)

text \<open>The delete worker after its first write: it settles, and succeeds only on a listing without the instance.\<close>

lemma delete_body_outcome:
  assumes h: "holds r s" and s': "s' = delete_body c w w' failed canceled inst native r s"
  shows "\<exists>f. row_of (iz_db s') (op_id r) = Some f \<and> IsTerminal (op_status f)
    \<and> (op_status f = StatusSucceeded \<longrightarrow>
         (\<exists>v \<in> {w, w'}. (\<exists>ps. wd_profiles v = Inr ps) \<and> \<not> reported v native)
         \<and> (\<forall>q \<in> set (iv_instances (iz_inventory s')).
              in_installation q = inst \<and> in_native q = native \<longrightarrow> in_availability q \<noteq> Available))"
proof -
  let ?ok = "\<lambda>s'. \<exists>f. row_of (iz_db s') (op_id r) = Some f \<and> IsTerminal (op_status f)
    \<and> (op_status f = StatusSucceeded \<longrightarrow>
         (\<exists>v \<in> {w, w'}. (\<exists>ps. wd_profiles v = Inr ps) \<and> \<not> reported v native)
         \<and> (\<forall>q \<in> set (iv_instances (iz_inventory s')).
              in_installation q = inst \<and> in_native q = native \<longrightarrow> in_availability q \<noteq> Available))"
  have failed: "?ok (failCreate c now r code b t)" if "holds r t" for now code b t
    using fail_row [OF that, of c now code b] by (simp add: instance_failed_def IsTerminal_def)
  have succeeded: "?ok (succeedDelete c now r t)"
    if "reconcileLocked c v inst t0 = (t, Inr listed)" "holds r t0" "holds r t" "v \<in> {w, w'}"
      "\<not> instanceAvailable listed native" for now v t0 t listed
  proof -
    from that(2) have "instances_ok (iz_inventory t0)" by (simp add: holds_def)
    from reconcile_reports [OF this that(1), of native] that(4,5) succeed_row(1) [OF that(3), of c now]
    show ?thesis by (auto simp: instance_succeeded_def IsTerminal_def)
  qed
  have kept: "holds r t'" if "reconcileLocked c v inst t = (t', z)" "holds r t" for v t t' z
    using reconcile_keeps [of t c v inst] that holds_same_rows [of r t t'] by (simp add: holds_def)
  show ?thesis
  proof (cases "\<exists>d. wd_detect w = Inr d \<and> di_selected d \<noteq> None")
    case False
    then show ?thesis using failed [OF h] by (auto simp: s' delete_body_def Let_def split: sum.splits)
  next
    case True
    obtain s1 z1 where s1: "reconcileLocked c w inst s = (s1, z1)" by force
    obtain s2 z2 where s2: "reconcileLocked c w' inst s1 = (s2, z2)" by force
    note h1 = kept [OF s1 h] 
    note h2 = kept [OF s2 h1]
    have eq: "s' = (case z1 of Inl e \<Rightarrow> failCreate c (wd_now w) r (errorCodeFrom e) True s1
      | Inr listed \<Rightarrow>
          if \<not> instanceAvailable listed native then succeedDelete c (wd_now w) r s1
          else case z2 of Inl e \<Rightarrow> failCreate c (wd_now w) r (errorCodeFrom e) True s2
          | Inr post \<Rightarrow>
              if \<not> instanceAvailable post native then succeedDelete c (wd_now w) r s2
              else failCreate c (wd_now w) r (case failed of
                   Some e \<Rightarrow> if \<not> canceled then errorCodeFrom e else ErrorInstanceQueryFailed
                 | None \<Rightarrow> ErrorInstanceQueryFailed) True s2)"
      using True by (auto simp: s' delete_body_def Let_def s1 s2 split: sum.splits option.splits)
    show ?thesis
    proof (cases z1)
      case (Inl e)
      then show ?thesis using failed [OF h1] by (simp add: eq)
    next
      case (Inr listed)
      show ?thesis
      proof (cases "instanceAvailable listed native")
        case False
        then show ?thesis using succeeded [OF s1 [unfolded Inr] h h1] by (simp add: eq Inr)
      next
        case av: True
        show ?thesis
        proof (cases z2)
          case (Inl e)
          then show ?thesis using failed [OF h2] av Inr by (simp add: eq \<open>z1 = Inr listed\<close>)
        next
          case post: (Inr post)
          then show ?thesis
            using failed [OF h2] succeeded [OF s2 [unfolded post] h1 h2] av
            by (cases "instanceAvailable post native") (simp_all add: eq Inr)
        qed
      qed
    qed
  qed
qed

subsection \<open>Recovery\<close>

lemma mark_unknown_ok: "instances_ok iv \<Longrightarrow> instances_ok (MarkInstancesUnknown iv inst now)"
proof -
  let ?f = "\<lambda>r :: instance_row. if in_installation r = inst
    then r\<lparr>in_availability := Unknown, in_updated_at := now\<rparr> else r"
  have "in_id \<circ> ?f = in_id" "native_key \<circ> ?f = native_key"
    by (auto simp: fun_eq_iff native_key_def)
  then show "instances_ok iv \<Longrightarrow> ?thesis" by (simp add: MarkInstancesUnknown_def instances_ok_def)
qed

lemma authoritative_cases:
  assumes ok: "instances_ok (iz_inventory s)" and q: "queryAuthoritative c w inst s = (s1, z)"
  shows "db_operations (iz_db s1) = db_operations (iz_db s) \<and> instances_ok (iz_inventory s1)
    \<and> (\<forall>listed. z = Inr listed \<longrightarrow> reconcileLocked c w inst s = (s1, Inr listed))"
  using q reconcile_keeps [OF ok, of c w inst] mark_unknown_ok [OF ok]
  by (auto simp: queryAuthoritative_def Let_def split: if_splits sum.splits option.splits)

text \<open>What recovery may make of an interrupted operation, given what the Runtime reported.\<close>

definition recovered_as :: "inst_world \<Rightarrow> operation \<Rightarrow> operation \<Rightarrow> bool" where
  "recovered_as w v f \<longleftrightarrow>
     IsTerminal (op_status f) \<and> op_kind f = op_kind v
     \<and> (op_status f = StatusSucceeded \<longrightarrow> (\<exists>ps. wd_profiles w = Inr ps)
          \<and> (op_kind v = TypeInstanceCreate \<longrightarrow> reported w (op_message v))
          \<and> (op_kind v = TypeInstanceDelete \<longrightarrow> \<not> reported w (op_message v)))"

lemma recovered_fail_row:
  assumes inv: "table_inv (db_operations (iz_db s))" and row: "row_of (iz_db s) i = Some v"
    and act: "\<not> IsTerminal (op_status v)"
  obtains s' where "persistRecoveredFail c now v code b s = (s', Inr (instance_failed now code b v))"
    and "table_inv (db_operations (iz_db s'))" and "row_of (iz_db s') i = Some (instance_failed now code b v)"
    and "\<And>j. j \<noteq> i \<Longrightarrow> row_of (iz_db s') j = row_of (iz_db s) j" and "iz_inventory s' = iz_inventory s"
proof -
  let ?n = "instance_failed now code b v"
  note st = stored_row [OF inv row]
  note f = instance_rows [OF st(2)]
  have "ValidStatusChange (op_status v) (op_status ?n)"
    using settled_changes(1) [OF act] by (simp add: instance_failed_def)
  moreover have "op_id ?n = op_id v" "op_progress ?n = op_progress v" "op_status ?n \<noteq> StatusPending"
    by (simp_all add: instance_failed_def)
  ultimately obtain db where "UpdateOperation (ic_message c) (iz_db s) v ?n = Inr db"
    "table_inv (db_operations db)" "row_of db i = Some ?n" "\<And>j. j \<noteq> i \<Longrightarrow> row_of db j = row_of (iz_db s) j"
    using update_live [OF inv row act _ _ f(1,4), where msg = "ic_message c"] by blast
  then show ?thesis using that [of "put_db db s"] by (simp add: persistRecoveredFail_def Let_def)
qed

lemma recovered_succeed_row:
  assumes inv: "table_inv (db_operations (iz_db s))" and row: "row_of (iz_db s) i = Some v"
    and act: "\<not> IsTerminal (op_status v)"
  obtains s' f where "persistRecoveredSucceed c now v s = (s', Inr f)"
    and "table_inv (db_operations (iz_db s'))" and "row_of (iz_db s') i = Some f"
    and "op_status f = StatusSucceeded" and "op_kind f = op_kind v"
    and "\<And>j. j \<noteq> i \<Longrightarrow> row_of (iz_db s') j = row_of (iz_db s) j" and "iz_inventory s' = iz_inventory s"
proof -
  have finish: "\<exists>db'. UpdateOperation (ic_message c) db r (instance_succeeded now StageInstanceReconcile r) = Inr db'
      \<and> table_inv (db_operations db') \<and> row_of db' i = Some (instance_succeeded now StageInstanceReconcile r)
      \<and> (\<forall>j. j \<noteq> i \<longrightarrow> row_of db' j = row_of db j)"
    if "table_inv (db_operations db)" "row_of db i = Some r" "op_status r = StatusRunning" for db r
  proof -
    let ?n = "instance_succeeded now StageInstanceReconcile r"
    note st = stored_row [OF that(1,2)]
    note f = instance_rows [OF st(2)]
    have act: "\<not> IsTerminal (op_status r)" by (simp add: that(3) IsTerminal_def)
    have "ValidStatusChange (op_status r) (op_status ?n)"
      using settled_changes(2) by (simp add: that(3) instance_succeeded_def)
    moreover have "op_id ?n = op_id r" "op_progress ?n = op_progress r" "op_status ?n \<noteq> StatusPending"
      by (simp_all add: instance_succeeded_def)
    ultimately show ?thesis
      using update_live [OF that(1,2) act _ _ f(2,5), where msg = "ic_message c"] by blast
  qed
  show ?thesis
  proof (cases "op_status v = StatusPending")
    case True
    let ?r = "v\<lparr>op_status := StatusRunning, op_started_at := Some now, op_updated_at := now\<rparr>"
    note st = stored_row [OF inv row]
    have up: "updated_row ?r v = ?r" using st(2) by (simp add: updated_row_def)
    have "check_row ?r" using st(3) True by (simp add: check_row_def active_def)
    moreover have "ValidStatusChange (op_status v) (op_status ?r)"
      using settled_changes(3) [OF act] by simp
    moreover have "op_id ?r = op_id v" "op_progress ?r = op_progress v" "op_status ?r \<noteq> StatusPending" by simp_all
    ultimately obtain db where db: "UpdateOperation (ic_message c) (iz_db s) v ?r = Inr db"
      "table_inv (db_operations db)" "row_of db i = Some ?r" "\<And>j. j \<noteq> i \<Longrightarrow> row_of db j = row_of (iz_db s) j"
      using update_live [OF inv row act _ _ up, where msg = "ic_message c"] by blast
    from finish [OF db(2,3)] obtain db' where db': "table_inv (db_operations db')"
      "UpdateOperation (ic_message c) db ?r (instance_succeeded now StageInstanceReconcile ?r) = Inr db'"
      "row_of db' i = Some (instance_succeeded now StageInstanceReconcile ?r)"
      "\<forall>j. j \<noteq> i \<longrightarrow> row_of db' j = row_of db j" by auto
    show ?thesis
      by (rule that [of "put_db db' (put_db db s)" "instance_succeeded now StageInstanceReconcile ?r"])
        (use db db' True in \<open>simp_all add: persistRecoveredSucceed_def Let_def instance_succeeded_def\<close>)
  next
    case False
    then have run: "op_status v = StatusRunning" using act by (cases "op_status v") (auto simp: IsTerminal_def)
    from finish [OF inv row run] obtain db' where db': "table_inv (db_operations db')"
      "UpdateOperation (ic_message c) (iz_db s) v (instance_succeeded now StageInstanceReconcile v) = Inr db'"
      "row_of db' i = Some (instance_succeeded now StageInstanceReconcile v)"
      "\<forall>j. j \<noteq> i \<longrightarrow> row_of db' j = row_of (iz_db s) j" by auto
    show ?thesis
      by (rule that [of "put_db db' s" "instance_succeeded now StageInstanceReconcile v"])
        (use db' False in \<open>simp_all add: persistRecoveredSucceed_def Let_def instance_succeeded_def\<close>)
  qed
qed

lemma recover_one:
  assumes inv: "table_inv (db_operations (iz_db s))" and ok: "instances_ok (iz_inventory s)"
    and row: "row_of (iz_db s) i = Some v" and act: "\<not> IsTerminal (op_status v)"
    and kind: "op_kind v = TypeInstanceCreate \<or> op_kind v = TypeInstanceDelete"
  shows "\<exists>s' f. recoverOneLocked c w v s = (s', Inr f) \<and> table_inv (db_operations (iz_db s'))
    \<and> instances_ok (iz_inventory s') \<and> row_of (iz_db s') i = Some f \<and> recovered_as w v f
    \<and> (\<forall>j. j \<noteq> i \<longrightarrow> row_of (iz_db s') j = row_of (iz_db s) j)"
proof -
  obtain s1 z where q: "queryAuthoritative c w (op_target_id v) s = (s1, z)" by force
  note a = authoritative_cases [OF ok q]
  have rows: "row_of (iz_db s1) j = row_of (iz_db s) j" for j using a by (simp add: row_of_def)
  have inv1: "table_inv (db_operations (iz_db s1))" and row1: "row_of (iz_db s1) i = Some v"
    using inv row a rows by simp_all
  have failed: "\<exists>s' f. persistRecoveredFail c (wd_now w) v code b s1 = (s', Inr f)
      \<and> table_inv (db_operations (iz_db s')) \<and> instances_ok (iz_inventory s') \<and> row_of (iz_db s') i = Some f
      \<and> recovered_as w v f \<and> (\<forall>j. j \<noteq> i \<longrightarrow> row_of (iz_db s') j = row_of (iz_db s) j)" for code b
  proof -
    obtain s' where s': "persistRecoveredFail c (wd_now w) v code b s1
        = (s', Inr (instance_failed (wd_now w) code b v))"
      "table_inv (db_operations (iz_db s'))" "row_of (iz_db s') i = Some (instance_failed (wd_now w) code b v)"
      "\<And>j. j \<noteq> i \<Longrightarrow> row_of (iz_db s') j = row_of (iz_db s1) j" "iz_inventory s' = iz_inventory s1"
      using recovered_fail_row [OF inv1 row1 act, of c "wd_now w" code b] by blast
    then show ?thesis using a rows
      by (simp add: recovered_as_def instance_failed_def IsTerminal_def)
  qed
  have succeeded: "\<exists>s' f. persistRecoveredSucceed c (wd_now w) v s1 = (s', Inr f)
      \<and> table_inv (db_operations (iz_db s')) \<and> instances_ok (iz_inventory s') \<and> row_of (iz_db s') i = Some f
      \<and> recovered_as w v f \<and> (\<forall>j. j \<noteq> i \<longrightarrow> row_of (iz_db s') j = row_of (iz_db s) j)"
    if "\<exists>ps. wd_profiles w = Inr ps" "op_kind v = TypeInstanceCreate \<longrightarrow> reported w (op_message v)"
      "op_kind v = TypeInstanceDelete \<longrightarrow> \<not> reported w (op_message v)"
  proof -
    obtain s' f where s': "persistRecoveredSucceed c (wd_now w) v s1 = (s', Inr f)"
      "table_inv (db_operations (iz_db s'))" "row_of (iz_db s') i = Some f" "op_status f = StatusSucceeded"
      "op_kind f = op_kind v" "\<And>j. j \<noteq> i \<Longrightarrow> row_of (iz_db s') j = row_of (iz_db s1) j"
      "iz_inventory s' = iz_inventory s1"
      using recovered_succeed_row [OF inv1 row1 act, of c "wd_now w"] by blast
    then show ?thesis using a rows that by (simp add: recovered_as_def IsTerminal_def)
  qed
  show ?thesis
  proof (cases z)
    case (Inl e)
    then show ?thesis using failed by (simp add: recoverOneLocked_def q)
  next
    case (Inr listed)
    then have rec: "reconcileLocked c w (op_target_id v) s = (s1, Inr listed)" using a by blast
    note rep = reconcile_reports [OF ok rec, of "op_message v"]
    have diff: "TypeInstanceCreate \<noteq> TypeInstanceDelete" by simp
    have eq: "recoverOneLocked c w v s =
        (if (op_kind v = TypeInstanceCreate) = reported w (op_message v)
         then persistRecoveredSucceed c (wd_now w) v s1
         else persistRecoveredFail c (wd_now w) v ErrorOperationInterrupted True s1)"
      using kind rep by (auto simp: recoverOneLocked_def q Inr)
    show ?thesis
    proof (cases "(op_kind v = TypeInstanceCreate) = reported w (op_message v)")
      case True
      then show ?thesis using succeeded rep diff by (auto simp: eq)
    next
      case False
      then show ?thesis using failed by (simp add: eq)
    qed
  qed
qed

lemma recover_all:
  "table_inv (db_operations (iz_db s)) \<Longrightarrow> instances_ok (iz_inventory s) \<Longrightarrow> distinct (map op_id vs)
   \<Longrightarrow> \<forall>v \<in> set vs. row_of (iz_db s) (op_id v) = Some v \<and> \<not> IsTerminal (op_status v)
         \<and> (op_kind v = TypeInstanceCreate \<or> op_kind v = TypeInstanceDelete)
   \<Longrightarrow> \<exists>s' ops. recover_stale c w vs s = (s', ops, None) \<and> table_inv (db_operations (iz_db s'))
      \<and> (\<forall>v \<in> set vs. \<exists>f. row_of (iz_db s') (op_id v) = Some f \<and> recovered_as (w v) v f)
      \<and> (\<forall>j. j \<notin> op_id ` set vs \<longrightarrow> row_of (iz_db s') j = row_of (iz_db s) j)"
proof (induction vs arbitrary: s)
  case (Cons v vs)
  then have v: "row_of (iz_db s) (op_id v) = Some v" "\<not> IsTerminal (op_status v)"
    "op_kind v = TypeInstanceCreate \<or> op_kind v = TypeInstanceDelete" by simp_all
  from recover_one [OF Cons.prems(1,2) v, of c "w v"] obtain s1 f where s1:
    "recoverOneLocked c (w v) v s = (s1, Inr f)" "table_inv (db_operations (iz_db s1))"
    "instances_ok (iz_inventory s1)" "row_of (iz_db s1) (op_id v) = Some f" "recovered_as (w v) v f"
    and rest: "\<forall>j. j \<noteq> op_id v \<longrightarrow> row_of (iz_db s1) j = row_of (iz_db s) j" by blast
  have notin: "op_id v \<notin> op_id ` set vs" and d: "distinct (map op_id vs)" using Cons.prems(3) by simp_all
  have "row_of (iz_db s1) (op_id q) = Some q \<and> \<not> IsTerminal (op_status q)
      \<and> (op_kind q = TypeInstanceCreate \<or> op_kind q = TypeInstanceDelete)" if q: "q \<in> set vs" for q
  proof -
    have "op_id q \<noteq> op_id v" using q notin by (metis imageI)
    then show ?thesis using rest Cons.prems(4) q by simp
  qed
  with Cons.IH [OF s1(2,3) d] obtain s2 ops where s2: "recover_stale c w vs s1 = (s2, ops, None)"
    "table_inv (db_operations (iz_db s2))"
    "\<forall>v \<in> set vs. \<exists>f. row_of (iz_db s2) (op_id v) = Some f \<and> recovered_as (w v) v f"
    "\<forall>j. j \<notin> op_id ` set vs \<longrightarrow> row_of (iz_db s2) j = row_of (iz_db s1) j" by blast
  have get: "GetOperation (iz_db s) (op_id v) = Inr v" using Cons.prems(1) v(1) by (simp add: GetOperation_Inr)
  have "row_of (iz_db s2) (op_id v) = Some f" using s2(4) notin s1(4) by simp
  with s1 s2 get v(2) rest show ?case by auto
qed auto

text \<open>
  C11. A restart decides interrupted creations and deletions by what the Runtime reports. In tables
  that satisfy their invariants the recovery returns without an error; every instance operation
  that was PENDING or RUNNING is settled, and as SUCCEEDED only when the Runtime listed its
  profiles and the profile to be created was among them, or the one to be deleted was not; every
  other operation is untouched.
\<close>

theorem stale_operations_follow_the_runtime:
  assumes inv: "table_inv (db_operations (iz_db s))" and ok: "instances_ok (iz_inventory s)"
  shows "\<exists>s' ops. RecoverStale c w s = (s', ops, None)
    \<and> (\<forall>v \<in> set (db_operations (iz_db s)).
         if active v \<and> op_kind v \<in> {TypeInstanceCreate, TypeInstanceDelete}
         then \<exists>f. row_of (iz_db s') (op_id v) = Some f \<and> recovered_as (w v) v f
         else row_of (iz_db s') (op_id v) = Some v)"
proof -
  let ?p = "\<lambda>r. op_kind r \<in> set [TypeInstanceCreate, TypeInstanceDelete] \<and> active r"
  let ?ops = "order_asc (filter ?p (db_operations (iz_db s)))"
  have mem: "r \<in> set ?ops \<longleftrightarrow> r \<in> set (db_operations (iz_db s)) \<and> ?p r" for r
    unfolding order_asc_def set_sort set_filter by blast
  have rows: "row_of (iz_db s) (op_id v) = Some v" if "v \<in> set (db_operations (iz_db s))" for v
    using that inv by (simp add: row_of_mem)
  have "\<forall>r \<in> set ?ops. op_progress r = None" using inv mem by (simp add: table_inv_def)
  then have listed: "ListActiveInstanceOperations (iz_db s) = Inr ?ops"
    unfolding ListActiveInstanceOperations_def list_active_def by (rule scan_all_clean)
  have "distinct (map op_id (filter ?p (db_operations (iz_db s))))"
    using inv by (simp add: table_inv_def distinct_map_filter)
  then have d: "distinct (map op_id ?ops)" by (simp only: order_asc_def distinct_map distinct_sort set_sort)
  have live: "\<forall>v \<in> set ?ops. row_of (iz_db s) (op_id v) = Some v \<and> \<not> IsTerminal (op_status v)
      \<and> (op_kind v = TypeInstanceCreate \<or> op_kind v = TypeInstanceDelete)"
    using mem rows active_not_terminal by auto
  from recover_all [OF inv ok d live, of c w] obtain s' ops where
    s': "recover_stale c w ?ops s = (s', ops, None)"
    and done1: "\<forall>v \<in> set ?ops. \<exists>f. row_of (iz_db s') (op_id v) = Some f \<and> recovered_as (w v) v f"
    and rest: "\<forall>j. j \<notin> op_id ` set ?ops \<longrightarrow> row_of (iz_db s') j = row_of (iz_db s) j" by blast
  have "RecoverStale c w s = (s', ops, None)"
    using s' by (auto simp: RecoverStale_def listed)
  moreover have "row_of (iz_db s') (op_id v) = Some v"
    if v: "v \<in> set (db_operations (iz_db s))" "\<not> ?p v" for v
  proof -
    have "op_id v \<notin> op_id ` set ?ops"
    proof
      assume "op_id v \<in> op_id ` set ?ops"
      then obtain r where "r \<in> set ?ops" "op_id v = op_id r" unfolding image_iff by blast
      then have "r = v" using mem [of r] rows [of r] rows [OF v(1)] by (metis option.inject)
      then show False using \<open>r \<in> set ?ops\<close> mem v(2) by blast
    qed
    then show ?thesis using rest rows [OF v(1)] by simp
  qed
  moreover have "\<exists>f. row_of (iz_db s') (op_id v) = Some f \<and> recovered_as (w v) v f"
    if "v \<in> set (db_operations (iz_db s))" "?p v" for v
    using that mem [of v] done1 by blast
  moreover have p: "?p v \<longleftrightarrow> active v \<and> op_kind v \<in> {TypeInstanceCreate, TypeInstanceDelete}" for v by auto
  ultimately show ?thesis unfolding p [symmetric] by (intro exI [of _ s'] exI [of _ ops]) simp
qed

text \<open>
  C7. Deleting an instance succeeds only when it is gone. A delete worker that was not cancelled
  settles its operation; when it settles it as SUCCEEDED, the Runtime listed its profiles during
  the work and the instance was not among them, and no record of the installation with that
  native identity is AVAILABLE any more.
\<close>

theorem deleted_instance_is_gone:
  assumes inv: "table_inv (db_operations (iz_db s))" and ok: "instances_ok (iz_inventory s)"
    and row: "row_of (iz_db s) i = Some q" and act: "\<not> IsTerminal (op_status q)"
    and live: "\<not> worker_cancelled i s"
    and s': "s' = runDelete c w w' failed canceled i inst native s"
  shows "\<exists>f. row_of (iz_db s') i = Some f \<and> IsTerminal (op_status f)
    \<and> (op_status f = StatusSucceeded \<longrightarrow>
         (\<exists>v \<in> {w, w'}. (\<exists>ps. wd_profiles v = Inr ps) \<and> \<not> reported v native)
         \<and> (\<forall>r \<in> set (iv_instances (iz_inventory s')).
              in_installation r = inst \<and> in_native r = native \<longrightarrow> in_availability r \<noteq> Available))"
proof -
  let ?r = "running_instance_operation (wd_now w) StageInstanceDelete q"
  obtain s1 where s1: "begin_running c (wd_now w) StageInstanceDelete i s = (s1, Some ?r)" "holds ?r s1"
    using begin_holds [OF inv row act live ok] by metis
  have "op_id ?r = i" using stored_row(1) [OF inv row] by (simp add: running_instance_operation_def)
  then show ?thesis
    using delete_body_outcome [OF s1(2) refl, of c w w' failed canceled inst native]
    by (simp add: s' runDelete_def s1(1))
qed

definition inst_state_sample :: inst_state where
  "inst_state_sample =
     \<lparr>iz_db = \<lparr>db_operations = [sample_operation ''op'' TypeInstanceDelete TargetRuntimeInstallation 1],
               db_instances = []\<rparr>,
      iz_inventory = sample_inventory, iz_workers = [], iz_started = []\<rparr>"

definition inst_config_sample :: "unit inst_config" where
  "inst_config_sample =
     \<lparr>ic_node_id = ''n'', ic_registry = None, ic_source = True, ic_mutator = True, ic_message = (\<lambda>_. []),
      ic_resolve = (\<lambda>_ _ _. None)\<rparr>"

definition candidate_sample :: candidate where
  "candidate_sample =
     \<lparr>cn_path = ''p'', cn_version = ''1'', cn_state = DiscoverySupported, cn_error_code = []\<rparr>"

definition inst_world_sample :: "profile_snapshot list \<Rightarrow> inst_world" where
  "inst_world_sample ps =
     \<lparr>wd_now = 5, wd_detect = Inr (zero_discovery\<lparr>di_state := DiscoverySupported, di_selected := Some candidate_sample\<rparr>),
      wd_profiles = Inr ps, wd_rnd_instances = [], wd_rnd_installation = None, wd_rnd_id = None,
      wd_rnd_correlation = None\<rparr>"

lemma inst_sample_table: "table_inv (db_operations (iz_db inst_state_sample))"
  by (simp add: inst_state_sample_def table_inv_def sample_operation_def one_active_def check_row_def active_def)

lemma inst_sample_ok: "instances_ok (iz_inventory inst_state_sample)"
  by (simp add: inst_state_sample_def) code_simp

theorem stale_operations_follow_the_runtime_witness:
  "\<exists>s' ops f. RecoverStale inst_config_sample (\<lambda>_. inst_world_sample []) inst_state_sample = (s', ops, None)
     \<and> row_of (iz_db s') ''op'' = Some f \<and> IsTerminal (op_status f)"
proof -
  let ?v = "sample_operation ''op'' TypeInstanceDelete TargetRuntimeInstallation 1"
  have v: "?v \<in> set (db_operations (iz_db inst_state_sample))" "active ?v" "op_id ?v = ''op''"
    "op_kind ?v = TypeInstanceDelete"
    by (simp_all add: inst_state_sample_def sample_operation_def active_def)
  from stale_operations_follow_the_runtime [OF inst_sample_table inst_sample_ok, of inst_config_sample
      "\<lambda>_. inst_world_sample []"] obtain s' ops where
    run: "RecoverStale inst_config_sample (\<lambda>_. inst_world_sample []) inst_state_sample = (s', ops, None)"
    and all: "\<forall>v \<in> set (db_operations (iz_db inst_state_sample)).
      if active v \<and> op_kind v \<in> {TypeInstanceCreate, TypeInstanceDelete}
      then \<exists>f. row_of (iz_db s') (op_id v) = Some f \<and> recovered_as (inst_world_sample []) v f
      else row_of (iz_db s') (op_id v) = Some v" by blast
  from bspec [OF all v(1)] v(2-4) run show ?thesis by (auto simp: recovered_as_def)
qed

theorem deleted_instance_is_gone_witness:
  "\<exists>f. row_of (iz_db (runDelete inst_config_sample (inst_world_sample [\<lparr>ps_native = ''default'', ps_default = True\<rparr>])
       (inst_world_sample [\<lparr>ps_native = ''default'', ps_default = True\<rparr>]) None False ''op'' ''rt'' ''old'' inst_state_sample)) ''op'' = Some f
     \<and> op_status f = StatusSucceeded \<and> \<not> reported (inst_world_sample [\<lparr>ps_native = ''default'', ps_default = True\<rparr>]) ''old''"
proof -
  let ?s' = "runDelete inst_config_sample (inst_world_sample [\<lparr>ps_native = ''default'', ps_default = True\<rparr>])
       (inst_world_sample [\<lparr>ps_native = ''default'', ps_default = True\<rparr>]) None False ''op'' ''rt'' ''old'' inst_state_sample"

  let ?v = "sample_operation ''op'' TypeInstanceDelete TargetRuntimeInstallation 1"
  have row: "row_of (iz_db inst_state_sample) ''op'' = Some ?v"
    by (simp add: row_of_def inst_state_sample_def sample_operation_def)
  have act: "\<not> IsTerminal (op_status ?v)" by (simp add: sample_operation_def IsTerminal_def)
  have live: "\<not> worker_cancelled ''op'' inst_state_sample"
    by (simp add: worker_cancelled_def inst_state_sample_def)
  from deleted_instance_is_gone [OF inst_sample_table inst_sample_ok row act live refl,
      of inst_config_sample "inst_world_sample [\<lparr>ps_native = ''default'', ps_default = True\<rparr>]"
         "inst_world_sample [\<lparr>ps_native = ''default'', ps_default = True\<rparr>]" None False "''rt''" "''old''"]
  have "\<exists>f. row_of (iz_db ?s') ''op'' = Some f" and "op_status f = StatusSucceeded \<longrightarrow>
      \<not> reported (inst_world_sample [\<lparr>ps_native = ''default'', ps_default = True\<rparr>]) ''old''"
    if "row_of (iz_db ?s') ''op'' = Some f" for f using that by auto
  moreover have "case row_of (iz_db ?s') ''op'' of None \<Rightarrow> False | Some f \<Rightarrow> op_status f = StatusSucceeded"
    by code_simp
  ultimately show ?thesis by (auto split: option.splits)
qed

end
