(* ===== verification/Secret_Store.thy ===== *)
theory Secret_Store
  imports Json_Text "HOL-Library.AList"
begin

text \<open>
  The secret store (secrets/store.go, store\_windows.go, store\_other.go) and its two uses in the
  daemon (daemon/daemon.go): a write-once map from references to secrets. The store validates
  references and values, honours cancellation and calls a platform backend. The Windows backend
  keeps one file per reference in a private directory, each a magic line and the bytes that the
  Data Protection API made of the secret; other platforms refuse everything.

  Parameters are the Data Protection API with its entropy hash, and the outcome of each system
  call. Wiping buffers and access control lists are not modelled.
\<close>

subsection \<open>References, values and errors\<close>

definition maxReferenceLength :: nat where "maxReferenceLength = 128"
definition maxSecretBytes :: nat where "maxSecretBytes = 65536"
definition maxProtectedBytes :: nat where "maxProtectedBytes = 131072"

datatype secret_error =
    ErrUnsupported | ErrInvalidRoot | ErrInvalidReference | ErrSecretNotFound | ErrAlreadyExists
  | ErrUnsafeStorage | ErrUnavailable | ErrCorrupt | ErrSecretCanceled | ErrSecretInvalid
  | ErrGenerationFailed | ErrConsumerFailed

fun reference_chars :: "bool \<Rightarrow> string \<Rightarrow> bool" where
  "reference_chars inner [] = True"
| "reference_chars inner (c # s) =
     (if (CHR ''a'' \<le> c \<and> c \<le> CHR ''z'') \<or> is_digit c then reference_chars True s
      else if c = CHR ''-'' \<and> inner \<and> s \<noteq> [] then reference_chars True s
      else False)"

definition validReference :: "string \<Rightarrow> bool" where
  "validReference v \<longleftrightarrow> \<not> (length v = 0 \<or> length v > maxReferenceLength) \<and> reference_chars False v"

definition valid_secret :: "string \<Rightarrow> bool" where
  "valid_secret v \<longleftrightarrow> \<not> (length v = 0 \<or> length v > maxSecretBytes)"

definition ownedSecret :: "string \<Rightarrow> secret_error + string" where
  "ownedSecret v = (if \<not> valid_secret v then Inl ErrSecretInvalid else Inr v)"

subsection \<open>The backend's interface and the store\<close>

text \<open>\<open>'x\<close> is what the backend keeps; a failed write may leave something behind.\<close>

record 'x secret_backend =
  bk_inspect :: "string \<Rightarrow> 'x \<Rightarrow> secret_error + bool"
  bk_get :: "string \<Rightarrow> 'x \<Rightarrow> secret_error + string"
  bk_put :: "string \<Rightarrow> string \<Rightarrow> 'x \<Rightarrow> 'x \<times> secret_error option"
  bk_delete :: "string \<Rightarrow> 'x \<Rightarrow> 'x \<times> secret_error option"

text \<open>
  \<open>None\<close> is the nil store. \<open>canceled\<close> lists whether the context is done at each of the checks that
  the method makes, in order.
\<close>

definition store_Inspect ::
  "'x secret_backend option \<Rightarrow> bool \<Rightarrow> string \<Rightarrow> 'x \<Rightarrow> secret_error + string \<times> bool" where
  "store_Inspect b canceled ref x =
     (case b of
        None \<Rightarrow> Inl ErrInvalidReference
      | Some k \<Rightarrow>
          if \<not> validReference ref then Inl ErrInvalidReference
          else if canceled then Inl ErrSecretCanceled
          else bind_result (bk_inspect k ref x) (\<lambda>configured. Inr (ref, configured)))"

text \<open>The consumer acts on a state of its own and says whether it succeeded.\<close>

definition store_Get ::
  "'x secret_backend option \<Rightarrow> bool \<times> bool \<Rightarrow> string \<Rightarrow> (string \<Rightarrow> 'y \<Rightarrow> 'y \<times> bool) option \<Rightarrow> 'x \<Rightarrow> 'y
     \<Rightarrow> 'y \<times> secret_error option" where
  "store_Get b canceled ref consumer x y =
     (case b of
        None \<Rightarrow> (y, Some ErrInvalidReference)
      | Some k \<Rightarrow>
          if \<not> validReference ref then (y, Some ErrInvalidReference)
          else case consumer of
            None \<Rightarrow> (y, Some ErrConsumerFailed)
          | Some act \<Rightarrow>
              if fst canceled then (y, Some ErrSecretCanceled)
              else case bk_get k ref x of
                Inl e \<Rightarrow> (y, Some e)
              | Inr secret \<Rightarrow>
                  if snd canceled then (y, Some ErrSecretCanceled)
                  else (case act secret y of
                          (y', ok) \<Rightarrow> (y', if ok then None else Some ErrConsumerFailed)))"

definition store_Put ::
  "'x secret_backend option \<Rightarrow> bool \<Rightarrow> string \<Rightarrow> string \<Rightarrow> 'x \<Rightarrow> 'x \<times> secret_error option" where
  "store_Put b canceled ref secret x =
     (case b of
        None \<Rightarrow> (x, Some ErrInvalidReference)
      | Some k \<Rightarrow>
          if \<not> validReference ref then (x, Some ErrInvalidReference)
          else case ownedSecret secret of
            Inl e \<Rightarrow> (x, Some e)
          | Inr owned \<Rightarrow> if canceled then (x, Some ErrSecretCanceled) else bk_put k ref owned x)"

text \<open>A generator is nil, or fails, or makes a secret.\<close>

type_synonym generator = "string option option"

definition generated :: "bool \<times> bool \<Rightarrow> generator \<Rightarrow> secret_error + string" where
  "generated canceled generate =
     (case generate of
        None \<Rightarrow> Inl ErrGenerationFailed
      | Some None \<Rightarrow> Inl (if snd canceled then ErrSecretCanceled else ErrGenerationFailed)
      | Some (Some secret) \<Rightarrow> if \<not> valid_secret secret then Inl ErrSecretInvalid else Inr secret)"

definition store_Generate ::
  "'x secret_backend option \<Rightarrow> bool \<times> bool \<Rightarrow> string \<Rightarrow> generator \<Rightarrow> 'x \<Rightarrow> 'x \<times> secret_error option" where
  "store_Generate b canceled ref generate x =
     (case b of
        None \<Rightarrow> (x, Some ErrInvalidReference)
      | Some k \<Rightarrow>
          if \<not> validReference ref then (x, Some ErrInvalidReference)
          else if generate = None then (x, Some ErrGenerationFailed)
          else if fst canceled then (x, Some ErrSecretCanceled)
          else case generated canceled generate of
            Inl e \<Rightarrow> (x, Some e)
          | Inr secret \<Rightarrow> if snd canceled then (x, Some ErrSecretCanceled) else bk_put k ref secret x)"

text \<open>Once the secret is made, a rotation no longer asks the context.\<close>

definition store_Rotate ::
  "'x secret_backend option \<Rightarrow> bool \<times> bool \<Rightarrow> string \<Rightarrow> string \<Rightarrow> generator \<Rightarrow> 'x \<Rightarrow> 'x \<times> secret_error option" where
  "store_Rotate b canceled cur nxt generate x =
     (case b of
        None \<Rightarrow> (x, Some ErrInvalidReference)
      | Some k \<Rightarrow>
          if \<not> validReference cur \<or> \<not> validReference nxt \<or> cur = nxt then (x, Some ErrInvalidReference)
          else if generate = None then (x, Some ErrGenerationFailed)
          else if fst canceled then (x, Some ErrSecretCanceled)
          else case generated canceled generate of
            Inl e \<Rightarrow> (x, Some e)
          | Inr secret \<Rightarrow>
              (case bk_inspect k cur x of
                 Inl e \<Rightarrow> (x, Some e)
               | Inr configured \<Rightarrow>
                   if \<not> configured then (x, Some ErrSecretNotFound) else bk_put k nxt secret x))"

definition store_Delete ::
  "'x secret_backend option \<Rightarrow> bool \<Rightarrow> string \<Rightarrow> 'x \<Rightarrow> 'x \<times> secret_error option" where
  "store_Delete b canceled ref x =
     (case b of
        None \<Rightarrow> (x, Some ErrInvalidReference)
      | Some k \<Rightarrow>
          if \<not> validReference ref then (x, Some ErrInvalidReference)
          else if canceled then (x, Some ErrSecretCanceled)
          else bk_delete k ref x)"

subsection \<open>Other platforms\<close>

definition other_backend :: "'x secret_backend" where
  "other_backend =
     \<lparr>bk_inspect = (\<lambda>_ _. Inl ErrUnsupported), bk_get = (\<lambda>_ _. Inl ErrUnsupported),
      bk_put = (\<lambda>_ _ x. (x, Some ErrUnsupported)), bk_delete = (\<lambda>_ x. (x, Some ErrUnsupported))\<rparr>"

subsection \<open>Windows: the directory and the system calls\<close>

text \<open>A node of the directory that is no regular file is not opened.\<close>

datatype secret_node = SecretFile string | OtherNode

type_synonym secret_dir = "(string \<times> secret_node) list"

definition secretFileSuffix :: string where "secretFileSuffix = ''.dpapi''"

definition protectedFileMagic :: string where
  "protectedFileMagic = ''YORVA-SECRET-DPAPI-V1'' @ [CHR 0x0A]"

record dpapi =
  dp_protect :: "string \<Rightarrow> string \<Rightarrow> string option" \<comment> \<open>the entropy and the plaintext\<close>
  dp_unprotect :: "string \<Rightarrow> string \<Rightarrow> string option"
  dp_sha256 :: "string \<Rightarrow> string"

text \<open>
  What the system answers during one call: whether the chain of directories is sound (at the start
  and again before the move), whether a file opens, is created, read, written and flushed, moved
  and disposed of, and the random bytes of the temporary name.
\<close>

record win_calls =
  wc_chain :: bool
  wc_chain_again :: bool
  wc_open :: bool
  wc_read :: bool
  wc_create :: bool
  wc_write :: "nat option" \<comment> \<open>after how many bytes writing stops, \<open>None\<close> when it completes\<close>
  wc_move :: bool
  wc_dispose :: bool
  wc_random :: "nat list option"

definition hex_encode :: "nat list \<Rightarrow> string" where
  "hex_encode bs = concat (map (\<lambda>b. [hex_char (b mod 256 div 16), hex_char (b mod 16)]) bs)"

definition secret_path :: "string \<Rightarrow> string" where
  "secret_path ref = ref @ secretFileSuffix"

definition temporaryPath :: "nat list option \<Rightarrow> string option" where
  "temporaryPath rnd = map_option (\<lambda>bs. ''.tmp-'' @ hex_encode (take 16 bs)) rnd"

text \<open>\<open>Inr None\<close>: the file does not exist.\<close>

definition openSecretFile :: "win_calls \<Rightarrow> secret_dir \<Rightarrow> string \<Rightarrow> secret_error + string option" where
  "openSecretFile w d p =
     (case map_of d p of
        None \<Rightarrow> Inr None
      | Some n \<Rightarrow>
          if \<not> wc_open w then Inl ErrUnavailable
          else (case n of SecretFile t \<Rightarrow> Inr (Some t) | OtherNode \<Rightarrow> Inl ErrUnsafeStorage))"

definition createPrivateFile :: "win_calls \<Rightarrow> secret_dir \<Rightarrow> string \<Rightarrow> secret_error + secret_dir" where
  "createPrivateFile w d p =
     (if map_of d p \<noteq> None \<or> \<not> wc_create w then Inl ErrUnavailable
      else Inr ((p, SecretFile []) # d))"

definition moveNoReplace :: "win_calls \<Rightarrow> secret_dir \<Rightarrow> string \<Rightarrow> string \<Rightarrow> secret_dir \<times> secret_error option" where
  "moveNoReplace w d p q =
     (if map_of d q \<noteq> None then (d, Some ErrAlreadyExists)
      else if \<not> wc_move w then (d, Some ErrUnavailable)
      else case map_of d p of
             None \<Rightarrow> (d, Some ErrUnavailable)
           | Some n \<Rightarrow> (AList.update q n (AList.delete p d), None))"

definition deleteExactFile :: "win_calls \<Rightarrow> secret_dir \<Rightarrow> string \<Rightarrow> secret_dir \<times> secret_error option" where
  "deleteExactFile w d p =
     (case openSecretFile w d p of
        Inl e \<Rightarrow> (d, Some e)
      | Inr None \<Rightarrow> (d, Some ErrSecretNotFound)
      | Inr (Some _) \<Rightarrow>
          if \<not> wc_dispose w then (d, Some ErrUnavailable) else (AList.delete p d, None))"

subsection \<open>Windows: protecting\<close>

definition referenceEntropy :: "dpapi \<Rightarrow> string \<Rightarrow> string" where
  "referenceEntropy p ref = dp_sha256 p (''yorva-secretstore-dpapi-v1'' @ [CHR 0x00] @ ref)"

text \<open>What the API returns is copied when it is not empty and within the limits.\<close>

definition copyAndFreeBlob :: "string \<Rightarrow> nat \<Rightarrow> secret_error + string" where
  "copyAndFreeBlob blob limit =
     (if blob = [] \<or> length blob > maxProtectedBytes then Inl ErrUnavailable
      else if length blob > limit then Inl ErrUnavailable else Inr blob)"

definition protect :: "dpapi \<Rightarrow> string \<Rightarrow> string \<Rightarrow> secret_error + string" where
  "protect p ref plaintext =
     (case dp_protect p (referenceEntropy p ref) plaintext of
        None \<Rightarrow> Inl ErrUnavailable
      | Some blob \<Rightarrow> copyAndFreeBlob blob maxProtectedBytes)"

definition unprotect :: "dpapi \<Rightarrow> string \<Rightarrow> string \<Rightarrow> secret_error + string" where
  "unprotect p ref ciphertext =
     (case dp_unprotect p (referenceEntropy p ref) ciphertext of
        None \<Rightarrow> Inl ErrCorrupt
      | Some blob \<Rightarrow>
          (case copyAndFreeBlob blob maxSecretBytes of
             Inl _ \<Rightarrow> Inl ErrCorrupt
           | Inr plaintext \<Rightarrow> if plaintext = [] then Inl ErrCorrupt else Inr plaintext))"

subsection \<open>Windows: the backend\<close>

definition win_inspect :: "win_calls \<Rightarrow> string \<Rightarrow> secret_dir \<Rightarrow> secret_error + bool" where
  "win_inspect w ref d =
     (if \<not> wc_chain w then Inl ErrUnsafeStorage
      else case openSecretFile w d (secret_path ref) of
        Inl e \<Rightarrow> Inl e
      | Inr None \<Rightarrow> Inr False
      | Inr (Some t) \<Rightarrow>
          if \<not> wc_read w \<or> \<not> HasPrefix t protectedFileMagic then Inl ErrCorrupt else Inr True)"

definition win_get :: "dpapi \<Rightarrow> win_calls \<Rightarrow> string \<Rightarrow> secret_dir \<Rightarrow> secret_error + string" where
  "win_get p w ref d =
     (if \<not> wc_chain w then Inl ErrUnsafeStorage
      else case openSecretFile w d (secret_path ref) of
        Inl e \<Rightarrow> Inl e
      | Inr None \<Rightarrow> Inl ErrSecretNotFound
      | Inr (Some t) \<Rightarrow>
          if length t < length protectedFileMagic + 1 \<or> length t > maxProtectedBytes then Inl ErrCorrupt
          else if \<not> wc_read w \<or> \<not> HasPrefix t protectedFileMagic then Inl ErrCorrupt
          else unprotect p ref (drop (length protectedFileMagic) t))"

text \<open>The temporary file goes when a later step fails; its own deletion may fail too.\<close>

definition win_put ::
  "dpapi \<Rightarrow> win_calls \<Rightarrow> string \<Rightarrow> string \<Rightarrow> secret_dir \<Rightarrow> secret_dir \<times> secret_error option" where
  "win_put p w ref secret d =
     (if \<not> wc_chain w then (d, Some ErrUnsafeStorage)
      else case protect p ref secret of
        Inl e \<Rightarrow> (d, Some e)
      | Inr blob \<Rightarrow>
          if length blob + length protectedFileMagic > maxProtectedBytes then (d, Some ErrUnavailable)
          else (case temporaryPath (wc_random w) of
                  None \<Rightarrow> (d, Some ErrUnavailable)
                | Some temporary \<Rightarrow>
               (case createPrivateFile w d temporary of
                  Inl e \<Rightarrow> (d, Some e)
                | Inr d1 \<Rightarrow>
                    (let drop_temporary = (\<lambda>d'. fst (deleteExactFile w d' temporary)) in
                     case wc_write w of
                       Some n \<Rightarrow>
                         (drop_temporary
                            (AList.update temporary (SecretFile (take n (protectedFileMagic @ blob))) d1),
                          Some ErrUnavailable)
                     | None \<Rightarrow>
                         (let d2 = AList.update temporary (SecretFile (protectedFileMagic @ blob)) d1 in
                          if \<not> wc_chain_again w then (drop_temporary d2, Some ErrUnsafeStorage)
                          else case moveNoReplace w d2 temporary (secret_path ref) of
                                 (d3, Some e) \<Rightarrow> (drop_temporary d3, Some e)
                               | (d3, None) \<Rightarrow> (d3, None))))))"

definition win_delete :: "win_calls \<Rightarrow> string \<Rightarrow> secret_dir \<Rightarrow> secret_dir \<times> secret_error option" where
  "win_delete w ref d =
     (if \<not> wc_chain w then (d, Some ErrUnsafeStorage) else deleteExactFile w d (secret_path ref))"

definition win_backend :: "dpapi \<Rightarrow> win_calls \<Rightarrow> secret_dir secret_backend" where
  "win_backend p w =
     \<lparr>bk_inspect = win_inspect w, bk_get = win_get p w, bk_put = win_put p w, bk_delete = win_delete w\<rparr>"

text \<open>
  The root of the store: absolute, on a drive, without a second colon. \<open>filepath\<close>'s functions are
  parameters.
\<close>

definition validateRoot ::
  "(string \<Rightarrow> bool) \<Rightarrow> (string \<Rightarrow> string) \<Rightarrow> (string \<Rightarrow> string) \<Rightarrow> string \<Rightarrow> secret_error + string" where
  "validateRoot is_abs clean volume_name root =
     (if TrimSpace root = [] \<or> \<not> is_abs root then Inl ErrInvalidRoot
      else let c = clean root; v = volume_name c in
        if length v \<noteq> 2 \<or> v ! 1 \<noteq> CHR '':'' \<or> HasPrefix c [CHR 0x5C, CHR 0x5C]
           \<or> CHR '':'' \<in> set (drop (length v) c)
        then Inl ErrInvalidRoot else Inr c)"

subsection \<open>The daemon's two uses\<close>

text \<open>The store behind shared models: \<open>Use\<close> never fails in the consumer.\<close>

definition models_Put ::
  "'x secret_backend option \<Rightarrow> bool \<Rightarrow> string \<Rightarrow> string \<Rightarrow> 'x \<Rightarrow> 'x \<times> secret_error option" where
  "models_Put b canceled ref v x = store_Put b canceled ref v x"

definition models_Use ::
  "'x secret_backend option \<Rightarrow> bool \<times> bool \<Rightarrow> string \<Rightarrow> (string \<Rightarrow> 'y \<Rightarrow> 'y) \<Rightarrow> 'x \<Rightarrow> 'y
     \<Rightarrow> 'y \<times> secret_error option" where
  "models_Use b canceled ref act x y = store_Get b canceled ref (Some (\<lambda>v s. (act v s, True))) x y"

definition models_Delete ::
  "'x secret_backend option \<Rightarrow> bool \<Rightarrow> string \<Rightarrow> 'x \<Rightarrow> 'x \<times> secret_error option" where
  "models_Delete b canceled ref x = store_Delete b canceled ref x"

definition models_Configured ::
  "'x secret_backend option \<Rightarrow> bool \<Rightarrow> string \<Rightarrow> 'x \<Rightarrow> secret_error + bool" where
  "models_Configured b canceled ref x =
     bind_result (store_Inspect b canceled ref x) (\<lambda>m. Inr (snd m))"

text \<open>
  The device key of backups is generated on first use. Each of the three calls finds the backend
  as it is at that time; losing a race against another generation is no error.
\<close>

definition useDeviceKey ::
  "'x secret_backend option \<Rightarrow> 'x secret_backend option \<Rightarrow> 'x secret_backend option \<Rightarrow> bool \<times> bool \<Rightarrow> string
     \<Rightarrow> generator \<Rightarrow> (string \<Rightarrow> 'y \<Rightarrow> 'y \<times> bool) \<Rightarrow> 'x \<Rightarrow> 'y \<Rightarrow> 'x \<times> 'y \<times> secret_error option" where
  "useDeviceKey b1 b2 b3 canceled ref generate act x y =
     (case store_Inspect b1 (fst canceled) ref x of
        Inl e \<Rightarrow> (x, y, Some e)
      | Inr (_, configured) \<Rightarrow>
          (case (if configured then (x, None) else store_Generate b2 canceled ref generate x) of
             (x1, failed) \<Rightarrow>
               if failed \<noteq> None \<and> failed \<noteq> Some ErrAlreadyExists then (x1, y, failed)
               else (case store_Get b3 canceled ref (Some act) x1 y of (y1, e) \<Rightarrow> (x1, y1, e))))"

end
