(* ===== verification/Secret_Store_Properties.thy ===== *)
theory Secret_Store_Properties
  imports Secret_Store
begin

text \<open>
  The secret store refines a write-once map: whatever the calls and however the system fails, a
  reference keeps the secret it was first given until it is deleted. The store's lemmas are proved
  in a locale over any backend that keeps the contract, which the Windows backend and the refusing
  one are shown to do.
\<close>

subsection \<open>Calls and their abstract effect\<close>

datatype secret_call =
    PutCall bool string string
  | GenerateCall "bool \<times> bool" string generator
  | RotateCall "bool \<times> bool" string string generator
  | DeleteCall bool string

fun call_store :: "'x secret_backend \<Rightarrow> secret_call \<Rightarrow> 'x \<Rightarrow> 'x \<times> secret_error option" where
  "call_store b (PutCall c r v) x = store_Put (Some b) c r v x"
| "call_store b (GenerateCall c r g) x = store_Generate (Some b) c r g x"
| "call_store b (RotateCall c r r' g) x = store_Rotate (Some b) c r r' g x"
| "call_store b (DeleteCall c r) x = store_Delete (Some b) c r x"

text \<open>The reference that a call writes, and what a completed call does to the map.\<close>

fun call_writes :: "secret_call \<Rightarrow> (string \<times> string) option" where
  "call_writes (PutCall c r v) = Some (r, v)"
| "call_writes (GenerateCall c r g) = (case g of Some (Some v) \<Rightarrow> Some (r, v) | _ \<Rightarrow> None)"
| "call_writes (RotateCall c r r' g) = (case g of Some (Some v) \<Rightarrow> Some (r', v) | _ \<Rightarrow> None)"
| "call_writes (DeleteCall c r) = None"

fun call_deletes :: "secret_call \<Rightarrow> string option" where
  "call_deletes (DeleteCall c r) = Some r"
| "call_deletes c = None"

inductive secret_history :: "('i \<Rightarrow> 'x secret_backend) \<Rightarrow> (secret_call \<Rightarrow> bool) \<Rightarrow> 'x \<Rightarrow> 'x \<Rightarrow> bool"
  for bk P x where
  refl: "secret_history bk P x x"
| step: "secret_history bk P x y \<Longrightarrow> P c \<Longrightarrow> call_store (bk i) c y = (y', e) \<Longrightarrow> secret_history bk P x y'"

subsection \<open>The contract of a backend\<close>

text \<open>
  \<open>held\<close> is what the backend's state stands for; \<open>sound\<close> is what the backend needs of the code
  below it to give back what was put.
\<close>

locale secret_contract =
  fixes sound :: bool
    and bk :: "'i \<Rightarrow> 'x secret_backend"
    and held :: "'x \<Rightarrow> string \<Rightarrow> string option"
  assumes put_done:
      "sound \<Longrightarrow> valid_secret v \<Longrightarrow> bk_put (bk i) r v x = (x', None)
         \<Longrightarrow> held x r = None \<and> held x' = (held x)(r \<mapsto> v)"
    and put_failed: "bk_put (bk i) r v x = (x', Some e) \<Longrightarrow> held x' = held x"
    and delete_done: "bk_delete (bk i) r x = (x', None) \<Longrightarrow> held x' = (held x)(r := None)"
    and delete_failed: "bk_delete (bk i) r x = (x', Some e) \<Longrightarrow> held x' = held x"
    and get_held: "bk_get (bk i) r x = Inr v \<Longrightarrow> held x r = Some v"
begin

lemma put_cases:
  assumes "sound" "valid_secret v" "bk_put (bk i) r v x = (x', e)"
  shows "held x' = held x \<or> e = None \<and> held x r = None \<and> held x' = (held x)(r \<mapsto> v)"
  using assms put_done [of v i r x x'] put_failed [of i r v x x'] by (cases e) auto

lemma delete_cases:
  "bk_delete (bk i) r x = (x', e) \<Longrightarrow> held x' = held x \<or> e = None \<and> held x' = (held x)(r := None)"
  using delete_done [of i r x x'] delete_failed [of i r x x'] by (cases e) auto

text \<open>Every call leaves the map alone, or writes a free reference, or deletes its own.\<close>

lemma call_refines:
  assumes "sound" and run: "call_store (bk i) c x = (x', e)"
  shows "held x' = held x
    \<or> e = None \<and> (\<exists>r v. call_writes c = Some (r, v) \<and> held x r = None \<and> held x' = (held x)(r \<mapsto> v))
    \<or> e = None \<and> (\<exists>r. call_deletes c = Some r \<and> held x' = (held x)(r := None))"
proof (cases c)
  case (PutCall canceled r v)
  then show ?thesis
    using run put_cases [OF \<open>sound\<close>, of v i r x x' e]
    by (auto simp: store_Put_def ownedSecret_def split: if_splits)
next
  case (GenerateCall canceled r g)
  then show ?thesis
    using run put_cases [OF \<open>sound\<close>, of _ i r x x' e]
    by (auto simp: store_Generate_def generated_def split: if_splits option.splits sum.splits)
next
  case (RotateCall canceled r r' g)
  then show ?thesis
    using run put_cases [OF \<open>sound\<close>, of _ i r' x x' e]
    by (auto simp: store_Rotate_def generated_def split: if_splits option.splits sum.splits)
next
  case (DeleteCall canceled r)
  then show ?thesis
    using run delete_cases [of i r x x' e] by (auto simp: store_Delete_def split: if_splits)
qed

lemma history_keeps:
  assumes "sound" "secret_history bk (\<lambda>c. call_deletes c \<noteq> Some r) x y" "held x r = Some v"
  shows "held y r = Some v"
  using assms(2,3)
proof (induction rule: secret_history.induct)
  case (step y c i y' e)
  then show ?case using call_refines [OF \<open>sound\<close> step.hyps(3)] by auto
qed

lemma get_answers:
  assumes "store_Get (Some (bk i)) canceled r (Some act) x s = (s', None)"
  obtains v where "held x r = Some v" "s' = fst (act v s)"
  using assms get_held [of i r x]
  by (auto simp: store_Get_def split: if_splits sum.splits prod.splits)

lemma put_then_get:
  assumes "sound" "store_Put (Some (bk i)) c r v x = (x1, None)"
    "secret_history bk (\<lambda>c. call_deletes c \<noteq> Some r) x1 x2"
    "store_Get (Some (bk j)) canceled r (Some act) x2 s = (s', None)"
  shows "s' = fst (act v s)"
proof -
  have "held x1 r = Some v"
    using assms(2) put_done [OF \<open>sound\<close>, of v i r x x1]
    by (auto simp: store_Put_def ownedSecret_def split: if_splits)
  then have "held x2 r = Some v" by (rule history_keeps [OF assms(1,3)])
  moreover obtain u where "held x2 r = Some u" "s' = fst (act u s)" using assms(4) by (rule get_answers)
  ultimately show ?thesis by simp
qed

end

subsection \<open>The Windows backend keeps the contract\<close>

definition dpapi_law :: "dpapi \<Rightarrow> bool" where
  "dpapi_law p \<longleftrightarrow> (\<forall>e t c. dp_protect p e t = Some c \<longrightarrow> dp_unprotect p e c = Some t)"

definition held_secrets :: "dpapi \<Rightarrow> secret_dir \<Rightarrow> string \<Rightarrow> string option" where
  "held_secrets p d r =
     (case map_of d (secret_path r) of
        Some (SecretFile t) \<Rightarrow>
          if length t < length protectedFileMagic + 1 \<or> length t > maxProtectedBytes
             \<or> \<not> HasPrefix t protectedFileMagic then None
          else (case unprotect p r (drop (length protectedFileMagic) t) of Inr v \<Rightarrow> Some v | Inl _ \<Rightarrow> None)
      | _ \<Rightarrow> None)"

lemma hex_digit_not_i: "n < 16 \<Longrightarrow> hex_char n \<noteq> CHR ''i''"
  using nth_mem [of n "''0123456789abcdef''"] by (auto simp: hex_char_def)

lemma hex_byte_not_i:
  "hex_char (b mod 256 div 16) \<noteq> CHR ''i''" "hex_char (b mod 16) \<noteq> CHR ''i''"
  by (rule hex_digit_not_i, simp add: less_mult_imp_div_less)+

lemma hex_encode_not_i: "CHR ''i'' \<notin> set (hex_encode bs)"
  by (auto simp: hex_encode_def hex_byte_not_i [symmetric])

lemma temporary_not_secret:
  assumes "temporaryPath rnd = Some t"
  shows "secret_path r \<noteq> t" "t \<noteq> secret_path r"
proof -
  have "CHR ''i'' \<notin> set t" using assms hex_encode_not_i by (auto simp: temporaryPath_def)
  then show "secret_path r \<noteq> t" "t \<noteq> secret_path r"
    by (auto simp: secret_path_def secretFileSuffix_def)
qed

lemma secret_path_inj [simp]: "secret_path r = secret_path r' \<longleftrightarrow> r = r'"
  by (simp add: secret_path_def)

lemma held_cong:
  "(\<And>r. map_of d' (secret_path r) = map_of d (secret_path r)) \<Longrightarrow> held_secrets p d' = held_secrets p d"
  by (rule ext) (simp add: held_secrets_def)

lemma map_of_simps:
  "map_of (AList.update k v d) = (map_of d)(k \<mapsto> v)"
  "map_of (AList.delete k d) = (map_of d)(k := None)"
  by (simp_all add: update_conv' delete_conv')

lemma deleted_file:
  "deleteExactFile w d q = (d', e) \<Longrightarrow>
     d' = d \<and> e \<noteq> None \<or> e = None \<and> map_of d' = (map_of d)(q := None)"
  by (auto simp: deleteExactFile_def map_of_simps split: sum.splits option.splits if_splits)

lemma dropped_temporary:
  assumes "temporaryPath rnd = Some t"
  shows "held_secrets p (fst (deleteExactFile w d t)) = held_secrets p d"
  using deleted_file [of w d t "fst (deleteExactFile w d t)" "snd (deleteExactFile w d t)"]
  by (intro held_cong) (auto simp: temporary_not_secret [OF assms])

lemma held_temporary:
  assumes "temporaryPath rnd = Some t"
  shows "held_secrets p (AList.update t n d) = held_secrets p d"
    "held_secrets p ((t, n) # d) = held_secrets p d"
  by (auto intro!: held_cong simp: map_of_simps temporary_not_secret [OF assms])

lemma protect_unprotect:
  assumes "dpapi_law p" "protect p r v = Inr blob" "valid_secret v"
  shows "unprotect p r blob = Inr v" "blob \<noteq> []"
  using assms
  by (auto simp: dpapi_law_def protect_def unprotect_def copyAndFreeBlob_def valid_secret_def
      maxSecretBytes_def maxProtectedBytes_def split: option.splits if_splits)

lemma held_written:
  assumes "dpapi_law p" "protect p r v = Inr blob" "valid_secret v"
    "length blob + length protectedFileMagic \<le> maxProtectedBytes"
    "map_of d' (secret_path r) = Some (SecretFile (protectedFileMagic @ blob))"
  shows "held_secrets p d' r = Some v"
  using assms(4,5) protect_unprotect [OF assms(1-3)]
  by (auto simp: held_secrets_def HasPrefix_def Suc_le_eq)

lemma win_put_failed:
  assumes "win_put p w r v d = (d', Some e)"
  shows "held_secrets p d' = held_secrets p d"
  using assms
  by (auto simp: win_put_def Let_def createPrivateFile_def moveNoReplace_def dropped_temporary
      held_temporary split: if_splits sum.splits option.splits prod.splits)

lemma win_put_done:
  assumes "win_put p w r v d = (d', None)"
  obtains blob where "protect p r v = Inr blob" "map_of d (secret_path r) = None"
    "length blob + length protectedFileMagic \<le> maxProtectedBytes"
    "map_of d' (secret_path r) = Some (SecretFile (protectedFileMagic @ blob))"
    "\<And>r'. r' \<noteq> r \<Longrightarrow> map_of d' (secret_path r') = map_of d (secret_path r')"
proof -
  show ?thesis
    using assms that
    by (auto simp: win_put_def Let_def createPrivateFile_def moveNoReplace_def map_of_simps
        temporary_not_secret split: if_splits sum.splits option.splits prod.splits)
qed

interpretation win: secret_contract "dpapi_law p" "win_backend p" "held_secrets p" for p
proof unfold_locales
  fix v i r x x'
  assume a: "dpapi_law p" "valid_secret v" "bk_put (win_backend p i) r v x = (x', None)"
  then obtain blob where b: "protect p r v = Inr blob" "map_of x (secret_path r) = None"
    "length blob + length protectedFileMagic \<le> maxProtectedBytes"
    "map_of x' (secret_path r) = Some (SecretFile (protectedFileMagic @ blob))"
    "\<And>r'. r' \<noteq> r \<Longrightarrow> map_of x' (secret_path r') = map_of x (secret_path r')"
    by (auto simp: win_backend_def elim: win_put_done)
  have "held_secrets p x' r = Some v" by (rule held_written [OF a(1) b(1) a(2) b(3,4)])
  then show "held_secrets p x r = None \<and> held_secrets p x' = (held_secrets p x)(r \<mapsto> v)"
    using b(2,5) by (auto simp: held_secrets_def fun_eq_iff)
next
  show "bk_put (win_backend p i) r v x = (x', Some e) \<Longrightarrow> held_secrets p x' = held_secrets p x"
    for i r v x x' e by (auto simp: win_backend_def elim: win_put_failed)
next
  fix i r x x'
  assume "bk_delete (win_backend p i) r x = (x', None)"
  then have "map_of x' = (map_of x)(secret_path r := None)"
    using deleted_file [of i x "secret_path r" x' None]
    by (auto simp: win_backend_def win_delete_def split: if_splits)
  then show "held_secrets p x' = (held_secrets p x)(r := None)"
    by (auto simp: held_secrets_def fun_eq_iff)
next
  show "bk_delete (win_backend p i) r x = (x', Some e) \<Longrightarrow> held_secrets p x' = held_secrets p x"
    for i r x x' e
    using deleted_file [of i x "secret_path r" x' "Some e"]
    by (auto simp: win_backend_def win_delete_def split: if_splits)
next
  show "bk_get (win_backend p i) r x = Inr v \<Longrightarrow> held_secrets p x r = Some v" for i r x v
    by (auto simp: win_backend_def win_get_def openSecretFile_def held_secrets_def
        split: if_splits option.splits secret_node.splits sum.splits)
qed

interpretation other: secret_contract True "\<lambda>_::unit. other_backend" "\<lambda>_::unit. Map.empty"
  by unfold_locales (auto simp: other_backend_def)

subsection \<open>Properties\<close>

text \<open>
  C14. What was put under a reference is what every later successful read hands to its consumer,
  whatever other calls were made in between (puts, generations and rotations under the same
  reference among them) and however the system calls failed, as long as the reference was not
  deleted; the hypothesis on the Data Protection API is that it opens what it sealed.
\<close>

theorem secret_is_written_once:
  assumes "dpapi_law p"
    and "store_Put (Some (win_backend p w)) canceled r v d = (d1, None)"
    and "secret_history (win_backend p) (\<lambda>c. call_deletes c \<noteq> Some r) d1 d2"
    and "store_Get (Some (win_backend p w')) canceled' r (Some act) d2 s = (s', None)"
  shows "s' = fst (act v s)"
  by (rule win.put_then_get [OF assms])

definition sample_dpapi :: dpapi where
  "sample_dpapi =
     \<lparr>dp_protect = (\<lambda>e t. Some (CHR ''x'' # t)), dp_unprotect = (\<lambda>e c. Some (tl c)), dp_sha256 = (\<lambda>_. [])\<rparr>"

definition sample_calls :: win_calls where
  "sample_calls =
     \<lparr>wc_chain = True, wc_chain_again = True, wc_open = True, wc_read = True, wc_create = True,
      wc_write = None, wc_move = True, wc_dispose = True, wc_random = Some []\<rparr>"

definition sample_dir :: secret_dir where
  "sample_dir = [(''key.dpapi'', SecretFile (protectedFileMagic @ ''xold''))]"

lemmas sample_store_defs =
  sample_dpapi_def sample_calls_def sample_dir_def store_Put_def store_Get_def win_backend_def
  win_put_def win_get_def openSecretFile_def createPrivateFile_def moveNoReplace_def
  deleteExactFile_def protect_def unprotect_def copyAndFreeBlob_def temporaryPath_def hex_encode_def
  secret_path_def secretFileSuffix_def protectedFileMagic_def ownedSecret_def valid_secret_def
  maxSecretBytes_def maxProtectedBytes_def validReference_def maxReferenceLength_def is_digit_def
  HasPrefix_def

lemma sample_put:
  "store_Put (Some (win_backend sample_dpapi sample_calls)) False ''key'' ''old'' [] = (sample_dir, None)"
  "store_Put (Some (win_backend sample_dpapi sample_calls)) False ''key'' ''new'' sample_dir
     = (sample_dir, Some ErrAlreadyExists)"
  by (simp_all add: sample_store_defs)

lemma sample_get:
  "store_Get (Some (win_backend sample_dpapi sample_calls)) (False, False) ''key''
     (Some (\<lambda>v s. (v, True))) sample_dir [] = (''old'', None)"
  by (simp add: sample_store_defs)

theorem secret_is_written_once_witness:
  "fst (store_Get (Some (win_backend sample_dpapi sample_calls)) (False, False) ''key''
     (Some (\<lambda>v s. (v, True))) sample_dir []) = ''old''"
proof -
  have law: "dpapi_law sample_dpapi" by (simp add: dpapi_law_def sample_dpapi_def)
  have run: "call_store (win_backend sample_dpapi sample_calls) (PutCall False ''key'' ''new'') sample_dir
      = (sample_dir, Some ErrAlreadyExists)"
    by (simp add: sample_put(2))
  have history: "secret_history (win_backend sample_dpapi) (\<lambda>c. call_deletes c \<noteq> Some ''key'')
      sample_dir sample_dir"
    using secret_history.step [OF secret_history.refl, where bk = "win_backend sample_dpapi", OF _ run]
    by simp
  show ?thesis
    using secret_is_written_once [OF law sample_put(1) history, of sample_calls "(False, False)"
        "\<lambda>v s. (v, True)" "[]" "''old''"] sample_get
    by simp
qed

end
