(* ===== verification/Model_Service.thy ===== *)
theory Model_Service
  imports Instance_Service Event_Broker Backup_Manifest
begin

text \<open>
  The model configuration of an instance (app/models.go, runtime/model.go and
  persistence/sqlite/settings.go): reading and writing which Provider and model Hermes uses, the
  credential behind it, and the models that the user selected, which YORVA keeps as JSON in its
  settings table. The adapter acts on a world, which the model threads; SHA-256 is a parameter.

  The two locks make a handler one step. Its context is live.
\<close>

subsection \<open>The settings table\<close>

record app_setting =
  st_key :: string
  st_value :: string
  st_updated_at :: time

definition GetAppSetting :: "app_setting list \<Rightarrow> string \<Rightarrow> string option" where
  "GetAppSetting ts k = map_option st_value (first_match (\<lambda>t. st_key t = k) ts)"

text \<open>The key is the primary key, so an insert that meets it updates the row.\<close>

definition PutAppSetting :: "app_setting list \<Rightarrow> string \<Rightarrow> string \<Rightarrow> time \<Rightarrow> app_setting list" where
  "PutAppSetting ts k v now =
     (if \<exists>t \<in> set ts. st_key t = k
      then map (\<lambda>t. if st_key t = k then t\<lparr>st_value := v, st_updated_at := now\<rparr> else t) ts
      else ts @ [\<lparr>st_key = k, st_value = v, st_updated_at = now\<rparr>])"

definition DeleteAppSetting :: "app_setting list \<Rightarrow> string \<Rightarrow> app_setting list" where
  "DeleteAppSetting ts k = filter (\<lambda>t. st_key t \<noteq> k) ts"

subsection \<open>The adapter's contract\<close>

datatype model_region = ModelRegionChina | ModelRegionGlobal

record provider_preset =
  pp_id :: string
  pp_display_name :: string
  pp_region :: model_region
  pp_recommended :: "string list"
  pp_help :: string

record model_installation =
  mi_executable :: string
  mi_version :: string

text \<open>The state is a string, empty in the zero value.\<close>

definition ModelConfigurationUnconfigured :: string where
  "ModelConfigurationUnconfigured = ''UNCONFIGURED''"

definition ModelConfigurationConfigured :: string where
  "ModelConfigurationConfigured = ''CONFIGURED''"

record model_configuration =
  mf_preset :: string
  mf_model :: string
  mf_state :: string
  mf_credential :: bool

record credential_status =
  ct_preset :: string
  ct_configured :: bool

datatype validation_state = ModelValidationPassed | ModelValidationFailed | ModelValidationUnknown

record validation_result =
  vl_state :: validation_state
  vl_code :: error_code

datatype model_error =
    ErrModelInstance instance_error
  | ErrInstanceConfigConflict
  | ErrModelProviderUnsupported
  | ErrModelConfigInvalid
  | ErrModelConfigQueryFailed
  | ErrModelConfigApplyFailed
  | ErrModelConfigIncomplete
  | ErrModelCredentialRequired
  | ErrModelCredentialQueryFailed
  | ErrModelCredentialWriteFailed
  | ErrModelCredentialDeleteFailed
  | ErrModelCatalogFetchFailed
  | ErrModelAdapter

abbreviation model_context :: "context_error \<Rightarrow> model_error" where
  "model_context x \<equiv> ErrModelInstance (ErrTarget (ErrManagementContext x))"

abbreviation instance_not_available :: model_error where
  "instance_not_available \<equiv> ErrModelInstance (ErrTarget ErrInstanceNotAvailable)"

text \<open>
  A call may answer a value beside its error. The selection check is a function of its
  arguments; the catalogue is the optional interface \<open>ModelCatalogFetcher\<close>.
\<close>

record ('h, 'w) model_adapter =
  md_presets :: "'h \<Rightarrow> provider_preset list"
  md_selection :: "'h \<Rightarrow> string \<Rightarrow> string \<Rightarrow> bool"
  md_read :: "'h \<Rightarrow> model_installation \<Rightarrow> string \<Rightarrow> 'w \<Rightarrow> model_configuration \<times> model_error option"
  md_apply :: "'h \<Rightarrow> model_installation \<Rightarrow> string \<Rightarrow> string \<Rightarrow> string \<Rightarrow> 'w
     \<Rightarrow> 'w \<times> model_configuration \<times> model_error option"
  md_status :: "'h \<Rightarrow> model_installation \<Rightarrow> string \<Rightarrow> string \<Rightarrow> 'w \<Rightarrow> credential_status \<times> model_error option"
  md_set :: "'h \<Rightarrow> model_installation \<Rightarrow> string \<Rightarrow> string \<Rightarrow> string \<Rightarrow> 'w
     \<Rightarrow> 'w \<times> credential_status \<times> model_error option"
  md_delete :: "'h \<Rightarrow> model_installation \<Rightarrow> string \<Rightarrow> string \<Rightarrow> 'w
     \<Rightarrow> 'w \<times> credential_status \<times> model_error option"
  md_validate :: "'h \<Rightarrow> model_installation \<Rightarrow> string \<Rightarrow> string \<Rightarrow> string \<Rightarrow> 'w \<Rightarrow> 'w \<times> validation_result"
  md_fetch :: "'h \<Rightarrow> (string \<Rightarrow> string \<Rightarrow> 'w \<Rightarrow> model_error + string list) option"

subsection \<open>Configuration, state and views\<close>

record ('h, 'w) model_config =
  mo_inst :: "'h inst_config"
  mo_adapter :: "('h, 'w) model_adapter"
  mo_sha256 :: "string \<Rightarrow> string" \<comment> \<open>the digest in lower-case hexadecimal\<close>

record 'w model_service =
  ms_inst :: inst_state
  ms_settings :: "app_setting list"
  ms_events :: "broker option"
  ms_world :: 'w

record validation_summary =
  vs_state :: string
  vs_code :: error_code
  vs_completed_at :: "time option"

record model_view =
  vm_preset :: string
  vm_model :: string
  vm_selected :: "string list"
  vm_state :: string
  vm_credential :: bool
  vm_observed_at :: "time option" \<comment> \<open>\<open>None\<close> in the zero value\<close>
  vm_validation :: validation_summary

definition no_summary :: validation_summary where
  "no_summary = \<lparr>vs_state = [], vs_code = [], vs_completed_at = None\<rparr>"

definition no_model_view :: model_view where
  "no_model_view =
     \<lparr>vm_preset = [], vm_model = [], vm_selected = [], vm_state = [], vm_credential = False,
      vm_observed_at = None, vm_validation = no_summary\<rparr>"

record catalog_view =
  ct_view_preset :: string
  ct_items :: "string list"
  ct_fetched_at :: time

record credential_view =
  cv_preset :: string
  cv_configured :: bool
  cv_observed_at :: time

definition maxSelectedModels :: nat where "maxSelectedModels = 100"

definition modelConfigFingerprint :: "('h, 'w) model_config \<Rightarrow> string \<Rightarrow> string \<Rightarrow> string" where
  "modelConfigFingerprint c preset model =
     ''model-config-sha256:'' @ mo_sha256 c (preset @ [CHR 0x00] @ model)"

definition modelCredentialView :: "time \<Rightarrow> credential_status \<Rightarrow> credential_view" where
  "modelCredentialView now t =
     \<lparr>cv_preset = ct_preset t, cv_configured = ct_configured t, cv_observed_at = now\<rparr>"

definition modelValidationSummary :: "operation \<Rightarrow> validation_summary" where
  "modelValidationSummary v =
     (let r = \<lparr>vs_state = ''UNKNOWN'', vs_code = op_error_code v, vs_completed_at = op_completed_at v\<rparr> in
      if op_status v = StatusSucceeded then r\<lparr>vs_state := ''PASSED'', vs_code := []\<rparr>
      else if op_status v = StatusFailed \<and> op_error_code v = ErrorModelValidationFailed
      then r\<lparr>vs_state := ''FAILED''\<rparr>
      else r)"

text \<open>The summary is of the last completed validation, when it was of this configuration.\<close>

definition modelConfigurationView ::
  "('h, 'w) model_config \<Rightarrow> time \<Rightarrow> string \<Rightarrow> model_configuration \<Rightarrow> model_error option
     \<Rightarrow> 'w model_service \<Rightarrow> model_view \<times> model_error option" where
  "modelConfigurationView c now i config failed s =
     (let view = \<lparr>vm_preset = mf_preset config, vm_model = mf_model config, vm_selected = [],
                  vm_state = mf_state config, vm_credential = mf_credential config,
                  vm_observed_at = Some now, vm_validation = no_summary\<rparr>;
          not_run = view\<lparr>vm_validation := no_summary\<lparr>vs_state := ''NOT_RUN''\<rparr>\<rparr>
      in case LatestCompletedModelValidation (iz_db (ms_inst s)) i of
           Inl _ \<Rightarrow> if failed = None then (view, Some ErrModelConfigQueryFailed) else (not_run, failed)
         | Inr None \<Rightarrow> (not_run, failed)
         | Inr (Some latest) \<Rightarrow>
             if op_source_pin latest = modelConfigFingerprint c (mf_preset config) (mf_model config)
             then (view\<lparr>vm_validation := modelValidationSummary latest\<rparr>, failed)
             else (not_run, failed))"

subsection \<open>The selected models\<close>

text \<open>
  Every model is admissible and listed once, the default among them. \<open>seen\<close> are the models
  already passed.
\<close>

fun selection_loop ::
  "(string \<Rightarrow> bool) \<Rightarrow> string \<Rightarrow> bool \<Rightarrow> string list \<Rightarrow> string list \<Rightarrow> bool" where
  "selection_loop admits dflt found seen [] = found"
| "selection_loop admits dflt found seen (m # ms) =
     (if m \<in> set seen \<or> \<not> admits m then False
      else selection_loop admits dflt (found \<or> m = dflt) (m # seen) ms)"

definition validateSelectedModels ::
  "(string \<Rightarrow> string \<Rightarrow> bool) \<Rightarrow> string \<Rightarrow> string \<Rightarrow> string list \<Rightarrow> bool" where
  "validateSelectedModels admits preset dflt selected \<longleftrightarrow>
     \<not> (length selected = 0 \<or> length selected > maxSelectedModels)
     \<and> selection_loop (admits preset) dflt False [] selected"

record selected_setting =
  ss_preset :: string
  ss_models :: "string list"

definition selectedModelsSettingKey :: "string \<Rightarrow> string" where
  "selectedModelsSettingKey i = ''model-selection:'' @ i"

definition selected_text :: "string \<Rightarrow> string list \<Rightarrow> string" where
  "selected_text preset models =
     json_text (VObj [(''providerPresetId'', VStr preset), (''modelIds'', strings_value models)])"

definition selected_fields :: "(string \<times> selected_setting field_setter) list" where
  "selected_fields =
     [(''providerPresetId'', set_string (\<lambda>s. ss_preset_update (\<lambda>_. s))),
      (''modelIds'', set_strings ss_models (\<lambda>ms. ss_models_update (\<lambda>_. ms)))]"

text \<open>\<open>json.Unmarshal\<close>, which passes over a member that names no field.\<close>

fun unmarshal_struct ::
  "(string \<times> 'a field_setter) list \<Rightarrow> (string \<times> jval) list \<Rightarrow> 'a \<Rightarrow> 'a option" where
  "unmarshal_struct fs [] x = Some x"
| "unmarshal_struct fs ((k, v) # kvs) x =
     (case find_field fs k of
        None \<Rightarrow> unmarshal_struct fs kvs x
      | Some f \<Rightarrow> Option.bind (f v x) (unmarshal_struct fs kvs))"

definition selected_of_text :: "string \<Rightarrow> selected_setting option" where
  "selected_of_text t =
     (case json_parse t of
        Some (VObj kvs) \<Rightarrow> unmarshal_struct selected_fields kvs \<lparr>ss_preset = [], ss_models = []\<rparr>
      | Some VNull \<Rightarrow> Some \<lparr>ss_preset = [], ss_models = []\<rparr>
      | _ \<Rightarrow> None)"

text \<open>Anything unreadable, or written for another configuration, falls back to the model in use.\<close>

definition readSelectedModelIDs ::
  "(string \<Rightarrow> string \<Rightarrow> bool) \<Rightarrow> string \<Rightarrow> model_configuration \<Rightarrow> app_setting list \<Rightarrow> string list" where
  "readSelectedModelIDs admits i config ts =
     (let fallback = (if mf_model config = [] then [] else [mf_model config]) in
      case GetAppSetting ts (selectedModelsSettingKey i) of
        None \<Rightarrow> fallback
      | Some t \<Rightarrow>
          (case selected_of_text t of
             None \<Rightarrow> fallback
           | Some kept \<Rightarrow>
               if ss_preset kept \<noteq> mf_preset config
                  \<or> \<not> validateSelectedModels admits (ss_preset kept) (mf_model config) (ss_models kept)
               then fallback else ss_models kept))"

definition writeSelectedModelIDs ::
  "time \<Rightarrow> string \<Rightarrow> string \<Rightarrow> string list \<Rightarrow> app_setting list \<Rightarrow> app_setting list" where
  "writeSelectedModelIDs now i preset selected ts =
     PutAppSetting ts (selectedModelsSettingKey i) (selected_text preset selected) now"

subsection \<open>Resolving the target\<close>

text \<open>
  A mutation is refused while another of the installation or of the instance is active; \<open>own\<close> is
  the identifier of the operation on whose behalf the caller works.
\<close>

definition model_conflict :: "database \<Rightarrow> instance_row \<Rightarrow> string \<Rightarrow> model_error option" where
  "model_conflict db row own =
     (case ActiveInstanceMutation db (in_installation row) of
        Inl e \<Rightarrow> Some (ErrModelInstance (ErrInstanceOperations e))
      | Inr found \<Rightarrow>
          if (case found of None \<Rightarrow> False | Some v \<Rightarrow> op_id v \<noteq> own) then Some ErrInstanceConfigConflict
          else (case ActiveInstanceRuntimeMutation db (in_id row) of
                  Inl e \<Rightarrow> Some (ErrModelInstance (ErrInstanceOperations e))
                | Inr (Some _) \<Rightarrow> Some ErrInstanceConfigConflict
                | Inr None \<Rightarrow> None))"

type_synonym 'h model_target = "instance_row \<times> 'h \<times> model_installation"

definition resolveModelTargetForOperation ::
  "'h inst_config \<Rightarrow> inst_world \<Rightarrow> bool \<Rightarrow> string \<Rightarrow> string \<Rightarrow> inst_state
     \<Rightarrow> inst_state \<times> (model_error + 'h model_target)" where
  "resolveModelTargetForOperation c w mutation own i s =
     (if ic_registry c = None \<or> \<not> ic_source c \<or> i = [] then (s, Inl (ErrModelInstance instance_not_found))
      else case GetInstance (iz_inventory s) i of
        Inl e \<Rightarrow>
          (s, Inl (ErrModelInstance (if e = ErrNoRows then instance_not_found else ErrInstanceTable e)))
      | Inr row \<Rightarrow>
     (case (if mutation then model_conflict (iz_db s) row own else None) of
        Some e \<Rightarrow> (s, Inl e)
      | None \<Rightarrow>
     (case GetAcceptedInstallationByID (iz_inventory s) (in_installation row) of
        Inl _ \<Rightarrow> (s, Inl (ErrModelInstance runtime_not_supported))
      | Inr accepted \<Rightarrow>
     (case (case wd_detect w of Inl _ \<Rightarrow> None | Inr d \<Rightarrow> usable_selection d) of
        None \<Rightarrow> (s, Inl (ErrModelInstance runtime_not_supported))
      | Some sel \<Rightarrow>
          if cn_path sel \<noteq> ai_path accepted then (s, Inl (ErrModelInstance runtime_not_supported))
          else
     (case reconcileLocked c w (ai_id accepted) s of
        (s1, Inl _) \<Rightarrow> (s1, Inl instance_not_available)
      | (s1, Inr listed) \<Rightarrow>
          if \<not> il_fresh listed then (s1, Inl instance_not_available)
          else case GetInstance (iz_inventory s1) i of
            Inl _ \<Rightarrow> (s1, Inl instance_not_available)
          | Inr current \<Rightarrow>
              if in_availability current \<noteq> Available then (s1, Inl instance_not_available)
              else (case Option.bind (hermes_bundle c) bn_models of
                      None \<Rightarrow> (s1, Inl (ErrModelInstance runtime_not_supported))
                    | Some h \<Rightarrow>
                        (s1, Inr (current, h,
                           \<lparr>mi_executable = cn_path sel, mi_version = cn_version sel\<rparr>))))))))"

definition resolve_model ::
  "('h, 'w) model_config \<Rightarrow> inst_world \<Rightarrow> bool \<Rightarrow> string \<Rightarrow> string \<Rightarrow> 'w model_service
     \<Rightarrow> 'w model_service \<times> (model_error + 'h model_target)" where
  "resolve_model c w mutation own i s =
     (case resolveModelTargetForOperation (mo_inst c) w mutation own i (ms_inst s) of
        (n, r) \<Rightarrow> (s\<lparr>ms_inst := n\<rparr>, r))"

subsection \<open>The handlers\<close>

definition ListModelProviderPresets :: "('h, 'w) model_config \<Rightarrow> model_error + provider_preset list" where
  "ListModelProviderPresets c =
     (case Option.bind (hermes_bundle (mo_inst c)) bn_models of
        None \<Rightarrow> Inl (ErrModelInstance runtime_not_supported)
      | Some h \<Rightarrow> Inr (md_presets (mo_adapter c) h))"

definition GetModelConfiguration ::
  "('h, 'w) model_config \<Rightarrow> inst_world \<Rightarrow> string \<Rightarrow> 'w model_service
     \<Rightarrow> 'w model_service \<times> model_view \<times> model_error option" where
  "GetModelConfiguration c w i s =
     (case resolve_model c w False [] i s of
        (s1, Inl e) \<Rightarrow> (s1, no_model_view, Some e)
      | (s1, Inr (row, h, inst)) \<Rightarrow>
     (case md_read (mo_adapter c) h inst (in_native row) (ms_world s1) of
        (config, failed) \<Rightarrow>
     (case modelConfigurationView c (wd_now w) i config failed s1 of
        (view, Some e) \<Rightarrow> (s1, view, Some e)
      | (view, None) \<Rightarrow>
          (s1, view\<lparr>vm_selected :=
                 readSelectedModelIDs (md_selection (mo_adapter c) h) i config (ms_settings s1)\<rparr>, None))))"

text \<open>What both writing handlers do after the adapter wrote: the selection is kept and shown.\<close>

definition store_selection ::
  "time \<Rightarrow> string \<Rightarrow> string \<Rightarrow> string list \<Rightarrow> model_view \<times> model_error option \<Rightarrow> 'w model_service
     \<Rightarrow> 'w model_service \<times> model_view \<times> model_error option" where
  "store_selection now i preset selected r s =
     (case r of
        (view, Some e) \<Rightarrow> (s, view, Some e)
      | (view, None) \<Rightarrow>
          (s\<lparr>ms_settings := writeSelectedModelIDs now i preset selected (ms_settings s)\<rparr>,
           view\<lparr>vm_selected := selected\<rparr>, None))"

definition PatchModelConfiguration ::
  "('h, 'w) model_config \<Rightarrow> inst_world \<Rightarrow> string \<Rightarrow> string \<Rightarrow> string \<Rightarrow> string list \<Rightarrow> 'w model_service
     \<Rightarrow> 'w model_service \<times> model_view \<times> model_error option" where
  "PatchModelConfiguration c w i preset model selected s =
     (case resolve_model c w True [] i s of
        (s1, Inl e) \<Rightarrow> (s1, no_model_view, Some e)
      | (s1, Inr (row, h, inst)) \<Rightarrow>
          if \<not> validateSelectedModels (md_selection (mo_adapter c) h) preset model selected
          then (s1, no_model_view, Some ErrModelConfigInvalid)
          else
     (case md_apply (mo_adapter c) h inst (in_native row) preset model (ms_world s1) of
        (x, config, failed) \<Rightarrow>
          (let s2 = s1\<lparr>ms_world := x\<rparr> in
           store_selection (wd_now w) i preset selected
             (modelConfigurationView c (wd_now w) i config failed s2) s2)))"

definition FetchModelProviderCatalog ::
  "('h, 'w) model_config \<Rightarrow> inst_world \<Rightarrow> string \<Rightarrow> string \<Rightarrow> string \<Rightarrow> 'w model_service
     \<Rightarrow> 'w model_service \<times> (model_error + catalog_view)" where
  "FetchModelProviderCatalog c w i preset secret s =
     (case resolve_model c w False [] i s of
        (s1, Inl e) \<Rightarrow> (s1, Inl e)
      | (s1, Inr (row, h, inst)) \<Rightarrow>
     (case md_fetch (mo_adapter c) h of
        None \<Rightarrow> (s1, Inl ErrModelProviderUnsupported)
      | Some fetch \<Rightarrow>
     (case fetch preset secret (ms_world s1) of
        Inl e \<Rightarrow> (s1, Inl e)
      | Inr items \<Rightarrow>
          (s1, Inr \<lparr>ct_view_preset = preset, ct_items = items, ct_fetched_at = wd_now w\<rparr>))))"

definition no_credential_view :: "time \<Rightarrow> credential_view" where
  "no_credential_view now = \<lparr>cv_preset = [], cv_configured = False, cv_observed_at = now\<rparr>"

text \<open>A failed status query still answers its view, beside the error.\<close>

definition GetModelCredential ::
  "('h, 'w) model_config \<Rightarrow> inst_world \<Rightarrow> string \<Rightarrow> 'w model_service
     \<Rightarrow> 'w model_service \<times> credential_view option \<times> model_error option" where
  "GetModelCredential c w i s =
     (case resolve_model c w False [] i s of
        (s1, Inl e) \<Rightarrow> (s1, None, Some e)
      | (s1, Inr (row, h, inst)) \<Rightarrow>
     (case md_read (mo_adapter c) h inst (in_native row) (ms_world s1) of
        (_, Some e) \<Rightarrow> (s1, None, Some e)
      | (config, None) \<Rightarrow>
          if mf_preset config = [] then (s1, Some (no_credential_view (wd_now w)), None)
          else (case md_status (mo_adapter c) h inst (in_native row) (mf_preset config) (ms_world s1) of
                  (t, failed) \<Rightarrow> (s1, Some (modelCredentialView (wd_now w) t), failed))))"

text \<open>Once the credential is written, an error that says nothing else means a half-done change.\<close>

definition incomplete_error :: "model_error \<Rightarrow> model_error" where
  "incomplete_error e =
     (if e \<noteq> model_context Canceled \<and> e \<noteq> ErrInstanceConfigConflict \<and> e \<noteq> ErrModelConfigInvalid
         \<and> e \<noteq> ErrModelProviderUnsupported
      then ErrModelConfigIncomplete else e)"

definition saveModelCredentialConfiguration ::
  "('h, 'w) model_config \<Rightarrow> inst_world \<Rightarrow> string \<Rightarrow> string \<Rightarrow> string \<Rightarrow> string list \<Rightarrow> string \<Rightarrow> string
     \<Rightarrow> 'w model_service \<Rightarrow> 'w model_service \<times> model_view \<times> model_error option" where
  "saveModelCredentialConfiguration c w i preset model selected secret own s =
     (case resolve_model c w True own i s of
        (s1, Inl e) \<Rightarrow> (s1, no_model_view, Some e)
      | (s1, Inr (row, h, inst)) \<Rightarrow>
          if \<not> validateSelectedModels (md_selection (mo_adapter c) h) preset model selected
          then (s1, no_model_view, Some ErrModelConfigInvalid)
          else
     (case md_set (mo_adapter c) h inst (in_native row) preset secret (ms_world s1) of
        (x, _, Some e) \<Rightarrow> (s1\<lparr>ms_world := x\<rparr>, no_model_view, Some e)
      | (x, _, None) \<Rightarrow>
     (case md_apply (mo_adapter c) h inst (in_native row) preset model x of
        (y, config, failed) \<Rightarrow>
          (let s2 = s1\<lparr>ms_world := y\<rparr>;
               config' = (if failed \<noteq> None \<and> mf_state config = []
                          then config\<lparr>mf_state := ModelConfigurationUnconfigured\<rparr> else config)
           in store_selection (wd_now w) i preset selected
                (modelConfigurationView c (wd_now w) i config' (map_option incomplete_error failed) s2)
                s2))))"

definition SaveModelCredentialConfiguration ::
  "('h, 'w) model_config \<Rightarrow> inst_world \<Rightarrow> string \<Rightarrow> string \<Rightarrow> string \<Rightarrow> string list \<Rightarrow> string
     \<Rightarrow> 'w model_service \<Rightarrow> 'w model_service \<times> model_view \<times> model_error option" where
  "SaveModelCredentialConfiguration c w i preset model selected secret s =
     saveModelCredentialConfiguration c w i preset model selected secret [] s"

definition DeleteModelCredential ::
  "('h, 'w) model_config \<Rightarrow> inst_world \<Rightarrow> string \<Rightarrow> 'w model_service
     \<Rightarrow> 'w model_service \<times> credential_view option \<times> model_error option" where
  "DeleteModelCredential c w i s =
     (case resolve_model c w True [] i s of
        (s1, Inl e) \<Rightarrow> (s1, None, Some e)
      | (s1, Inr (row, h, inst)) \<Rightarrow>
     (case md_read (mo_adapter c) h inst (in_native row) (ms_world s1) of
        (_, Some e) \<Rightarrow> (s1, None, Some e)
      | (config, None) \<Rightarrow>
          if mf_preset config = [] then (s1, None, Some ErrModelConfigInvalid)
          else (case md_delete (mo_adapter c) h inst (in_native row) (mf_preset config) (ms_world s1) of
                  (x, t, failed) \<Rightarrow>
                    (s1\<lparr>ms_world := x\<rparr>, Some (modelCredentialView (wd_now w) t), failed))))"

end
