(* ===== verification/Model_Validation.thy ===== *)
theory Model_Validation
  imports Model_Service
begin

text \<open>
  Validating a model through an operation (app/model\_validation.go): the start handler, the worker
  with its three steps (claiming the row, checking the configuration under the locks, calling the
  Runtime and settling), cancellation that races with the worker, and recovery after a restart.
  The calls of one handler read the clock once.
\<close>

definition put_model_db :: "database \<Rightarrow> 'w model_service \<Rightarrow> 'w model_service" where
  "put_model_db db s = s\<lparr>ms_inst := put_db db (ms_inst s)\<rparr>"

abbreviation model_db :: "'w model_service \<Rightarrow> database" where
  "model_db s \<equiv> iz_db (ms_inst s)"

abbreviation model_message :: "('h, 'w) model_config \<Rightarrow> sql_failure \<Rightarrow> string" where
  "model_message c \<equiv> ic_message (mo_inst c)"

abbreviation model_db_error :: "db_error \<Rightarrow> model_error" where
  "model_db_error e \<equiv> ErrModelInstance (ErrInstanceOperations e)"

definition emitValidationOperation ::
  "time \<Rightarrow> string \<Rightarrow> operation \<Rightarrow> bool \<Rightarrow> 'w model_service \<Rightarrow> 'w model_service" where
  "emitValidationOperation now previous nxt created s =
     (let eventType = TypeForCommittedOperation created previous (status_text (op_status nxt)) in
      if eventType = [] then s
      else s\<lparr>ms_events := Publish now (ms_events s)
              (NewOperationEvent now eventType (operation_payload_of nxt) now)\<rparr>)"

text \<open>An update and, when it is committed, its event.\<close>

definition persist_validation ::
  "('h, 'w) model_config \<Rightarrow> time \<Rightarrow> operation \<Rightarrow> operation \<Rightarrow> 'w model_service
     \<Rightarrow> 'w model_service \<times> db_error option" where
  "persist_validation c now current nxt s =
     (case UpdateOperation (model_message c) (model_db s) current nxt of
        Inl e \<Rightarrow> (s, Some e)
      | Inr db \<Rightarrow>
          (emitValidationOperation now (status_text (op_status current)) nxt False (put_model_db db s), None))"

subsection \<open>Starting\<close>

definition validation_operation ::
  "time \<Rightarrow> string \<Rightarrow> string \<Rightarrow> string \<Rightarrow> string \<Rightarrow> string \<Rightarrow> operation" where
  "validation_operation now i cor inst key pin =
     \<lparr>op_id = i, op_kind = TypeModelValidate, op_target_type = TargetInstance, op_target_id = inst,
      op_status = StatusPending, op_stage = StagePreflight, op_progress = None, op_message = [],
      op_error_code = [], op_error_message = [], op_retryable = False, op_idempotency_key = key,
      op_correlation_id = cor, op_source_pin = pin, op_ownership_nonce = [], op_transaction_id = [],
      op_created_at = now, op_started_at = None, op_completed_at = None, op_updated_at = now\<rparr>"

definition is_configured :: "model_configuration \<Rightarrow> bool" where
  "is_configured config \<longleftrightarrow>
     \<not> (mf_state config \<noteq> ModelConfigurationConfigured \<or> mf_preset config = [] \<or> mf_model config = [])"

definition create_validation ::
  "('h, 'w) model_config \<Rightarrow> inst_world \<Rightarrow> string \<Rightarrow> string \<Rightarrow> string \<Rightarrow> 'w model_service
     \<Rightarrow> 'w model_service \<times> (model_error + started)" where
  "create_validation c w inst key pin s =
     (case newOperationID (wd_rnd_id w) of
        None \<Rightarrow> (s, Inl (ErrModelInstance ErrInstanceRandom))
      | Some i \<Rightarrow>
     (case newCorrelationID (wd_rnd_correlation w) of
        None \<Rightarrow> (s, Inl (ErrModelInstance ErrInstanceRandom))
      | Some cor \<Rightarrow>
          (let v = validation_operation (wd_now w) i cor inst key pin in
           case CreateOperation (model_message c) (model_db s) v of
             Inr db \<Rightarrow>
               (let s1 = emitValidationOperation (wd_now w) [] v True (put_model_db db s)
                in (s1\<lparr>ms_inst := start_worker i (ms_inst s1)\<rparr>, Inr (v, True)))
           | Inl e \<Rightarrow>
               if e = ErrDuplicateIdempotency then
                 (case GetOperationByIdempotencyKey (model_db s) key of
                    Inr (Some existing) \<Rightarrow>
                      if op_kind existing = TypeModelValidate \<and> op_target_id existing = inst
                      then (s, Inr (existing, False)) else (s, Inl ErrInstanceConfigConflict)
                  | _ \<Rightarrow> (s, Inl ErrInstanceConfigConflict))
               else (s, Inl (model_db_error e)))))"

definition StartModelValidation ::
  "('h, 'w) model_config \<Rightarrow> inst_world \<Rightarrow> string \<Rightarrow> string \<Rightarrow> 'w model_service
     \<Rightarrow> 'w model_service \<times> (model_error + started)" where
  "StartModelValidation c w i key s =
     (if \<not> ValidateIdempotencyKey key then (s, Inl (ErrModelInstance ErrInstanceKey))
      else case GetOperationByIdempotencyKey (model_db s) key of
        Inl e \<Rightarrow> (s, Inl (model_db_error e))
      | Inr (Some existing) \<Rightarrow>
          if op_kind existing \<noteq> TypeModelValidate \<or> op_target_type existing \<noteq> TargetInstance
             \<or> op_target_id existing \<noteq> i
          then (s, Inl ErrInstanceConfigConflict) else (s, Inr (existing, False))
      | Inr None \<Rightarrow>
     (case ActiveModelValidation (model_db s) i of
        Inl e \<Rightarrow> (s, Inl (model_db_error e))
      | Inr (Some _) \<Rightarrow> (s, Inl ErrInstanceConfigConflict)
      | Inr None \<Rightarrow>
     (case resolve_model c w True [] i s of
        (s1, Inl e) \<Rightarrow> (s1, Inl e)
      | (s1, Inr (row, h, inst)) \<Rightarrow>
     (case md_read (mo_adapter c) h inst (in_native row) (ms_world s1) of
        (_, Some e) \<Rightarrow> (s1, Inl e)
      | (config, None) \<Rightarrow>
          if \<not> is_configured config then (s1, Inl ErrModelCredentialRequired)
          else (case ActiveModelValidation (model_db s1) i of
                  Inl e \<Rightarrow> (s1, Inl (model_db_error e))
                | Inr (Some _) \<Rightarrow> (s1, Inl ErrInstanceConfigConflict)
                | Inr None \<Rightarrow>
                    create_validation c w i key
                      (modelConfigFingerprint c (mf_preset config) (mf_model config)) s1)))))"

subsection \<open>Cancelling\<close>

definition cancelled_validation :: "time \<Rightarrow> operation \<Rightarrow> operation" where
  "cancelled_validation now current =
     current\<lparr>op_status := StatusCancelled, op_error_code := ErrorModelValidationCancelled,
             op_retryable := True, op_completed_at := Some now, op_updated_at := now\<rparr>"

text \<open>
  At most three attempts. \<open>others n\<close> is what other steps do before the attempt with \<open>n\<close> more to
  come; a lost race reads the row again.
\<close>

fun cancel_attempts ::
  "('h, 'w) model_config \<Rightarrow> time \<Rightarrow> (nat \<Rightarrow> 'w model_service \<Rightarrow> 'w model_service) \<Rightarrow> nat \<Rightarrow> operation
     \<Rightarrow> 'w model_service \<Rightarrow> 'w model_service \<times> (model_error + operation)" where
  "cancel_attempts c now others 0 current s = (s, Inl (model_db_error ErrInvalidStatusTransition))"
| "cancel_attempts c now others (Suc n) current s =
     (if IsTerminal (op_status current) then (s, Inr current)
      else case persist_validation c now current (cancelled_validation now current) (others n s) of
        (s1, None) \<Rightarrow> (s1, Inr (cancelled_validation now current))
      | (s1, Some e) \<Rightarrow>
          if e \<noteq> ErrInvalidStatusTransition then (s1, Inl (model_db_error e))
          else (case GetOperation (model_db s1) (op_id current) of
                  Inl e' \<Rightarrow> (s1, Inl (model_db_error e'))
                | Inr latest \<Rightarrow> cancel_attempts c now others n latest s1))"

definition cancelModelValidationOperation ::
  "('h, 'w) model_config \<Rightarrow> time \<Rightarrow> (nat \<Rightarrow> 'w model_service \<Rightarrow> 'w model_service) \<Rightarrow> operation
     \<Rightarrow> 'w model_service \<Rightarrow> 'w model_service \<times> (model_error + operation)" where
  "cancelModelValidationOperation c now others current s = cancel_attempts c now others 3 current s"

text \<open>The worker's context is cancelled before the row is.\<close>

definition raise_worker_cancel :: "string \<Rightarrow> inst_state \<Rightarrow> inst_state" where
  "raise_worker_cancel i s = s\<lparr>iz_workers := map (\<lambda>(j, b). (j, b \<or> j = i)) (iz_workers s)\<rparr>"

definition CancelModelValidation ::
  "('h, 'w) model_config \<Rightarrow> time \<Rightarrow> (nat \<Rightarrow> 'w model_service \<Rightarrow> 'w model_service) \<Rightarrow> string
     \<Rightarrow> 'w model_service \<Rightarrow> 'w model_service \<times> (model_error + operation)" where
  "CancelModelValidation c now others i s =
     (case GetOperation (model_db s) i of
        Inl e \<Rightarrow> (s, Inl (model_db_error e))
      | Inr current \<Rightarrow>
          if op_kind current \<noteq> TypeModelValidate then (s, Inl (ErrModelInstance instance_not_found))
          else if IsTerminal (op_status current) then (s, Inr current)
          else cancelModelValidationOperation c now others current
                 (s\<lparr>ms_inst := raise_worker_cancel i (ms_inst s)\<rparr>))"

subsection \<open>The worker\<close>

definition running_validation :: "time \<Rightarrow> operation \<Rightarrow> operation" where
  "running_validation now current =
     current\<lparr>op_status := StatusRunning, op_stage := StageModelValidate, op_started_at := Some now,
             op_updated_at := now\<rparr>"

text \<open>The first step, under the worker's context: \<open>True\<close> when the row turned RUNNING.\<close>

definition claim_validation ::
  "('h, 'w) model_config \<Rightarrow> time \<Rightarrow> string \<Rightarrow> 'w model_service \<Rightarrow> 'w model_service \<times> bool" where
  "claim_validation c now i s =
     (if worker_cancelled i (ms_inst s) then (s, False)
      else case GetOperation (model_db s) i of
        Inl _ \<Rightarrow> (s, False)
      | Inr current \<Rightarrow>
          if IsTerminal (op_status current) then (s, False)
          else (case persist_validation c now current (running_validation now current) s of
                  (s1, Some _) \<Rightarrow> (s1, False)
                | (s1, None) \<Rightarrow> (s1, True)))"

definition finished_validation :: "time \<Rightarrow> validation_result \<Rightarrow> operation \<Rightarrow> operation" where
  "finished_validation now r current =
     (let nxt = current\<lparr>op_status := StatusFailed, op_error_code := vl_code r,
                        op_retryable := (vl_state r = ModelValidationUnknown)\<rparr>;
          nxt' = (if vl_state r = ModelValidationPassed
                  then nxt\<lparr>op_status := StatusSucceeded, op_error_code := [], op_retryable := False\<rparr>
                  else nxt)
      in nxt'\<lparr>op_completed_at := Some now, op_updated_at := now\<rparr>)"

text \<open>It runs without the worker's context; the error of the update is dropped.\<close>

definition finishModelValidation ::
  "('h, 'w) model_config \<Rightarrow> time \<Rightarrow> string \<Rightarrow> validation_result \<Rightarrow> 'w model_service \<Rightarrow> 'w model_service" where
  "finishModelValidation c now i r s =
     (case GetOperation (model_db s) i of
        Inl _ \<Rightarrow> s
      | Inr current \<Rightarrow>
          if IsTerminal (op_status current) then s
          else fst (persist_validation c now current (finished_validation now r current) s))"

definition validationResultForError :: "context_error option \<Rightarrow> model_error \<Rightarrow> validation_result" where
  "validationResultForError ctx e =
     (if ctx = Some Canceled \<or> e = model_context Canceled
      then \<lparr>vl_state = ModelValidationUnknown, vl_code = ErrorModelValidationCancelled\<rparr>
      else if ctx = Some DeadlineExceeded \<or> e = model_context DeadlineExceeded
      then \<lparr>vl_state = ModelValidationUnknown, vl_code = ErrorModelValidationTimedOut\<rparr>
      else if e = ErrModelCredentialRequired
      then \<lparr>vl_state = ModelValidationFailed, vl_code = ErrorModelValidationFailed\<rparr>
      else \<lparr>vl_state = ModelValidationUnknown, vl_code = ErrorModelValidationUnknown\<rparr>)"

text \<open>
  The second step: under the locks the target is resolved and its configuration compared with the
  one the operation was started for. \<open>ctx\<close> is the state of the worker's context, which ends by
  cancellation or after 45 seconds; once it has ended, reading the instance fails. \<open>Inr\<close> holds the
  arguments of the Runtime's call.
\<close>

definition check_validation ::
  "('h, 'w) model_config \<Rightarrow> inst_world \<Rightarrow> context_error option \<Rightarrow> operation \<Rightarrow> 'w model_service
     \<Rightarrow> 'w model_service \<times> (validation_result + 'h \<times> model_installation \<times> string \<times> string \<times> string)" where
  "check_validation c w ctx created s =
     (case ctx of
        Some x \<Rightarrow> (s, Inl (validationResultForError ctx (model_context x)))
      | None \<Rightarrow>
     (case resolve_model c w True [] (op_target_id created) s of
        (s1, Inl e) \<Rightarrow> (s1, Inl (validationResultForError None e))
      | (s1, Inr (row, h, inst)) \<Rightarrow>
     (case md_read (mo_adapter c) h inst (in_native row) (ms_world s1) of
        (_, Some e) \<Rightarrow> (s1, Inl (validationResultForError None e))
      | (config, None) \<Rightarrow>
          if \<not> is_configured config
          then (s1, Inl \<lparr>vl_state = ModelValidationFailed, vl_code = ErrorModelValidationFailed\<rparr>)
          else if modelConfigFingerprint c (mf_preset config) (mf_model config) \<noteq> op_source_pin created
          then (s1, Inl \<lparr>vl_state = ModelValidationUnknown, vl_code = ErrorInstanceConfigConflict\<rparr>)
          else (s1, Inr (h, inst, in_native row, mf_preset config, mf_model config)))))"

definition checked_validation ::
  "('h, 'w) model_config \<Rightarrow> inst_world \<Rightarrow> context_error option \<Rightarrow> operation \<Rightarrow> 'w model_service
     \<Rightarrow> 'w model_service \<times> ('h \<times> model_installation \<times> string \<times> string \<times> string) option" where
  "checked_validation c w ctx created s =
     (case check_validation c w ctx created s of
        (s1, Inl r) \<Rightarrow> (finishModelValidation c (wd_now w) (op_id created) r s1, None)
      | (s1, Inr call) \<Rightarrow> (s1, Some call))"

text \<open>The last step: the Runtime validates, outside the locks, and the row is settled.\<close>

definition call_validation ::
  "('h, 'w) model_config \<Rightarrow> time \<Rightarrow> operation \<Rightarrow> 'h \<times> model_installation \<times> string \<times> string \<times> string
     \<Rightarrow> 'w model_service \<Rightarrow> 'w model_service" where
  "call_validation c now created call s =
     (case call of
        (h, inst, native, preset, model) \<Rightarrow>
     (case md_validate (mo_adapter c) h inst native preset model (ms_world s) of
        (x, r) \<Rightarrow> finishModelValidation c now (op_id created) r (s\<lparr>ms_world := x\<rparr>)))"

definition stop_validation :: "string \<Rightarrow> 'w model_service \<Rightarrow> 'w model_service" where
  "stop_validation i s = s\<lparr>ms_inst := stop_worker i (ms_inst s)\<rparr>"

text \<open>The worker with what other handlers do between its steps.\<close>

definition runModelValidation ::
  "('h, 'w) model_config \<Rightarrow> inst_world \<Rightarrow> context_error option \<Rightarrow> ('w model_service \<Rightarrow> 'w model_service)
     \<Rightarrow> ('w model_service \<Rightarrow> 'w model_service) \<Rightarrow> operation \<Rightarrow> 'w model_service \<Rightarrow> 'w model_service" where
  "runModelValidation c w ctx between1 between2 created s =
     stop_validation (op_id created)
       (case claim_validation c (wd_now w) (op_id created) s of
          (s1, False) \<Rightarrow> s1
        | (s1, True) \<Rightarrow>
            (case checked_validation c w ctx created (between1 s1) of
               (s2, None) \<Rightarrow> s2
             | (s2, Some call) \<Rightarrow> call_validation c (wd_now w) created call (between2 s2)))"

subsection \<open>Recovery after a restart\<close>

definition interrupted_validation :: "time \<Rightarrow> operation \<Rightarrow> operation" where
  "interrupted_validation now current =
     current\<lparr>op_status := StatusFailed, op_error_code := ErrorOperationInterrupted,
             op_retryable := True, op_completed_at := Some now, op_updated_at := now\<rparr>"

fun recover_validations ::
  "('h, 'w) model_config \<Rightarrow> time \<Rightarrow> operation list \<Rightarrow> 'w model_service
     \<Rightarrow> 'w model_service \<times> operation list \<times> db_error option" where
  "recover_validations c now [] s = (s, [], None)"
| "recover_validations c now (v # vs) s =
     (case persist_validation c now v (interrupted_validation now v) s of
        (s1, Some e) \<Rightarrow> (s1, [], Some e)
      | (s1, None) \<Rightarrow>
          (case recover_validations c now vs s1 of
             (s2, rest, e) \<Rightarrow> (s2, interrupted_validation now v # rest, e)))"

definition RecoverModelValidations ::
  "('h, 'w) model_config \<Rightarrow> time \<Rightarrow> 'w model_service
     \<Rightarrow> 'w model_service \<times> operation list \<times> db_error option" where
  "RecoverModelValidations c now s =
     (case ListActiveModelValidations (model_db s) of
        Inl e \<Rightarrow> (s, [], Some e)
      | Inr ops \<Rightarrow> recover_validations c now ops s)"

end
