(* ===== verification/Shared_Models_Table.thy ===== *)
theory Shared_Models_Table
  imports Inventory_Table Backup_Manifest
begin

text \<open>
  The tables of shared model resources (persistence/sqlite/shared\_models.go, migration 015):
  provider connections, model profiles, the default profile of an installation and the profile an
  instance is bound to. The tables are lists of rows; every CHECK, UNIQUE and FOREIGN KEY is a
  reason to fail. \<open>chars\<close> is SQLite's \<open>length\<close> of a text. A profile keeps its selected models as
  JSON.
\<close>

subsection \<open>Rows\<close>

record provider_connection =
  pc_id :: string
  pc_installation :: string
  pc_preset :: string
  pc_name :: string
  pc_secret_ref :: string
  pc_status :: string
  pc_revision :: int
  pc_created_at :: time
  pc_updated_at :: time

record model_profile =
  pf_id :: string
  pf_installation :: string
  pf_connection :: string
  pf_name :: string
  pf_selected :: "string list"
  pf_default_model :: string
  pf_revision :: int
  pf_created_at :: time
  pf_updated_at :: time

record runtime_default =
  rd_installation :: string
  rd_profile :: string
  rd_revision :: int
  rd_updated_at :: time

record model_binding =
  bg_instance :: string
  bg_profile :: string
  bg_mode :: string
  bg_revision :: int
  bg_state :: string
  bg_code :: error_code
  bg_updated_at :: time

text \<open>The stored profile: its models are the text of the JSON column.\<close>

record profile_row =
  pr_profile :: model_profile
  pr_selected_json :: string

record shared_tables =
  sh_connections :: "provider_connection list"
  sh_profiles :: "profile_row list"
  sh_defaults :: "runtime_default list"
  sh_bindings :: "model_binding list"

datatype shared_error = ErrSharedNoRows | ErrSharedConstraint | ErrSharedJson

definition between :: "nat \<Rightarrow> nat \<Rightarrow> nat \<Rightarrow> bool" where
  "between l h n \<longleftrightarrow> l \<le> n \<and> n \<le> h"

definition installation_ids :: "inventory \<Rightarrow> string set" where
  "installation_ids iv = ai_id ` set (iv_installations iv)"

subsection \<open>Provider connections\<close>

definition connection_fits ::
  "(string \<Rightarrow> nat) \<Rightarrow> inventory \<Rightarrow> shared_tables \<Rightarrow> provider_connection \<Rightarrow> bool" where
  "connection_fits chars iv t v \<longleftrightarrow>
     between 1 64 (chars (pc_id v)) \<and> between 1 64 (chars (pc_preset v))
     \<and> between 1 80 (chars (pc_name v)) \<and> between 1 128 (chars (pc_secret_ref v))
     \<and> (pc_status v = ''CONFIGURED'' \<or> pc_status v = ''UNAVAILABLE'') \<and> pc_revision v > 0
     \<and> pc_installation v \<in> installation_ids iv
     \<and> \<not> list_ex (\<lambda>r. pc_id r = pc_id v \<or> pc_secret_ref r = pc_secret_ref v) (sh_connections t)"

definition InsertModelProviderConnection ::
  "(string \<Rightarrow> nat) \<Rightarrow> inventory \<Rightarrow> provider_connection \<Rightarrow> shared_tables \<Rightarrow> shared_error + shared_tables" where
  "InsertModelProviderConnection chars iv v t =
     (if \<not> connection_fits chars iv t v then Inl ErrSharedConstraint
      else Inr (t\<lparr>sh_connections := sh_connections t @ [v]\<rparr>))"

text \<open>\<open>ORDER BY created_at, id\<close> compares the stored texts.\<close>

definition ListModelProviderConnections :: "shared_tables \<Rightarrow> string \<Rightarrow> provider_connection list" where
  "ListModelProviderConnections t inst =
     sort_key (\<lambda>r. formatTime (pc_created_at r))
       (sort_key pc_id (filter (\<lambda>r. pc_installation r = inst) (sh_connections t)))"

definition GetModelProviderConnection ::
  "shared_tables \<Rightarrow> string \<Rightarrow> shared_error + provider_connection" where
  "GetModelProviderConnection t i =
     (case first_match (\<lambda>r. pc_id r = i) (sh_connections t) of
        None \<Rightarrow> Inl ErrSharedNoRows
      | Some r \<Rightarrow> Inr r)"

text \<open>\<open>ON DELETE RESTRICT\<close>: a connection that a profile refers to stays.\<close>

definition DeleteModelProviderConnection ::
  "string \<Rightarrow> shared_tables \<Rightarrow> shared_error + shared_tables" where
  "DeleteModelProviderConnection i t =
     (if list_ex (\<lambda>r. pf_connection (pr_profile r) = i) (sh_profiles t)
         \<and> list_ex (\<lambda>r. pc_id r = i) (sh_connections t)
      then Inl ErrSharedConstraint
      else if length (filter (\<lambda>r. pc_id r = i) (sh_connections t)) \<noteq> 1 then Inl ErrSharedNoRows
      else Inr (t\<lparr>sh_connections := filter (\<lambda>r. pc_id r \<noteq> i) (sh_connections t)\<rparr>))"

subsection \<open>Model profiles\<close>

definition profile_fits ::
  "(string \<Rightarrow> nat) \<Rightarrow> inventory \<Rightarrow> shared_tables \<Rightarrow> model_profile \<Rightarrow> bool" where
  "profile_fits chars iv t v \<longleftrightarrow>
     between 1 64 (chars (pf_id v)) \<and> between 1 80 (chars (pf_name v))
     \<and> between 1 200 (chars (pf_default_model v)) \<and> pf_revision v > 0
     \<and> pf_installation v \<in> installation_ids iv
     \<and> list_ex (\<lambda>r. pc_id r = pf_connection v) (sh_connections t)
     \<and> \<not> list_ex (\<lambda>r. pf_id (pr_profile r) = pf_id v) (sh_profiles t)"

definition models_text :: "string list \<Rightarrow> string" where
  "models_text ms = json_text (strings_value ms)"

definition stored_profile :: "model_profile \<Rightarrow> profile_row" where
  "stored_profile v =
     \<lparr>pr_profile = v\<lparr>pf_selected := []\<rparr>, pr_selected_json = models_text (pf_selected v)\<rparr>"

definition InsertModelProfile ::
  "(string \<Rightarrow> nat) \<Rightarrow> inventory \<Rightarrow> model_profile \<Rightarrow> shared_tables \<Rightarrow> shared_error + shared_tables" where
  "InsertModelProfile chars iv v t =
     (if \<not> profile_fits chars iv t v then Inl ErrSharedConstraint
      else Inr (t\<lparr>sh_profiles := sh_profiles t @ [stored_profile v]\<rparr>))"

text \<open>\<open>json.Unmarshal\<close> into a slice of strings.\<close>

definition models_of_text :: "string \<Rightarrow> string list option" where
  "models_of_text s =
     (case json_parse s of
        Some (VArr vs) \<Rightarrow> decode_strings vs []
      | Some VNull \<Rightarrow> Some []
      | _ \<Rightarrow> None)"

definition scanModelProfile :: "profile_row \<Rightarrow> shared_error + model_profile" where
  "scanModelProfile r =
     (case models_of_text (pr_selected_json r) of
        None \<Rightarrow> Inl ErrSharedJson
      | Some ms \<Rightarrow> Inr ((pr_profile r)\<lparr>pf_selected := ms\<rparr>))"

fun scan_profiles :: "profile_row list \<Rightarrow> shared_error + model_profile list" where
  "scan_profiles [] = Inr []"
| "scan_profiles (r # rs) =
     bind_result (scanModelProfile r) (\<lambda>v. bind_result (scan_profiles rs) (\<lambda>vs. Inr (v # vs)))"

definition ListModelProfiles :: "shared_tables \<Rightarrow> string \<Rightarrow> shared_error + model_profile list" where
  "ListModelProfiles t inst =
     scan_profiles
       (sort_key (\<lambda>r. formatTime (pf_created_at (pr_profile r)))
         (sort_key (\<lambda>r. pf_id (pr_profile r))
           (filter (\<lambda>r. pf_installation (pr_profile r) = inst) (sh_profiles t))))"

definition GetModelProfile :: "shared_tables \<Rightarrow> string \<Rightarrow> shared_error + model_profile" where
  "GetModelProfile t i =
     (case first_match (\<lambda>r. pf_id (pr_profile r) = i) (sh_profiles t) of
        None \<Rightarrow> Inl ErrSharedNoRows
      | Some r \<Rightarrow> scanModelProfile r)"

definition profile_in_use :: "string \<Rightarrow> shared_tables \<Rightarrow> bool" where
  "profile_in_use i t \<longleftrightarrow>
     list_ex (\<lambda>d. rd_profile d = i) (sh_defaults t) \<or> list_ex (\<lambda>b. bg_profile b = i) (sh_bindings t)"

definition DeleteModelProfile :: "string \<Rightarrow> shared_tables \<Rightarrow> shared_error + shared_tables" where
  "DeleteModelProfile i t =
     (if profile_in_use i t \<and> list_ex (\<lambda>r. pf_id (pr_profile r) = i) (sh_profiles t)
      then Inl ErrSharedConstraint
      else if length (filter (\<lambda>r. pf_id (pr_profile r) = i) (sh_profiles t)) \<noteq> 1 then Inl ErrSharedNoRows
      else Inr (t\<lparr>sh_profiles := filter (\<lambda>r. pf_id (pr_profile r) \<noteq> i) (sh_profiles t)\<rparr>))"

subsection \<open>Defaults\<close>

definition PutRuntimeModelDefault ::
  "inventory \<Rightarrow> runtime_default \<Rightarrow> shared_tables \<Rightarrow> shared_error + shared_tables" where
  "PutRuntimeModelDefault iv v t =
     (if rd_revision v \<le> 0 \<or> rd_installation v \<notin> installation_ids iv
         \<or> \<not> list_ex (\<lambda>r. pf_id (pr_profile r) = rd_profile v) (sh_profiles t)
      then Inl ErrSharedConstraint
      else Inr (t\<lparr>sh_defaults :=
             (if list_ex (\<lambda>d. rd_installation d = rd_installation v) (sh_defaults t)
              then map (\<lambda>d. if rd_installation d = rd_installation v then v else d) (sh_defaults t)
              else sh_defaults t @ [v])\<rparr>))"

definition GetRuntimeModelDefault :: "shared_tables \<Rightarrow> string \<Rightarrow> runtime_default option" where
  "GetRuntimeModelDefault t inst = first_match (\<lambda>d. rd_installation d = inst) (sh_defaults t)"

definition DeleteRuntimeModelDefault :: "string \<Rightarrow> shared_tables \<Rightarrow> shared_tables" where
  "DeleteRuntimeModelDefault inst t =
     t\<lparr>sh_defaults := filter (\<lambda>d. rd_installation d \<noteq> inst) (sh_defaults t)\<rparr>"

subsection \<open>Bindings\<close>

definition binding_fits :: "inventory \<Rightarrow> shared_tables \<Rightarrow> model_binding \<Rightarrow> bool" where
  "binding_fits iv t v \<longleftrightarrow>
     (bg_mode v = ''INHERIT'' \<or> bg_mode v = ''OVERRIDE'') \<and> bg_revision v > 0
     \<and> (bg_state v = ''PENDING'' \<or> bg_state v = ''SUCCEEDED'' \<or> bg_state v = ''FAILED'' \<or> bg_state v = ''SKIPPED'')
     \<and> list_ex (\<lambda>r. in_id r = bg_instance v) (iv_instances iv)
     \<and> list_ex (\<lambda>r. pf_id (pr_profile r) = bg_profile v) (sh_profiles t)"

definition UpsertInstanceModelBinding ::
  "inventory \<Rightarrow> model_binding \<Rightarrow> shared_tables \<Rightarrow> shared_error + shared_tables" where
  "UpsertInstanceModelBinding iv v t =
     (if \<not> binding_fits iv t v then Inl ErrSharedConstraint
      else Inr (t\<lparr>sh_bindings :=
             (if list_ex (\<lambda>b. bg_instance b = bg_instance v) (sh_bindings t)
              then map (\<lambda>b. if bg_instance b = bg_instance v then v else b) (sh_bindings t)
              else sh_bindings t @ [v])\<rparr>))"

text \<open>The join with the instances of an installation, \<open>ORDER BY i.native_id\<close>.\<close>

definition ListInstanceModelBindings ::
  "inventory \<Rightarrow> shared_tables \<Rightarrow> string \<Rightarrow> model_binding list" where
  "ListInstanceModelBindings iv t inst =
     concat (map (\<lambda>r. filter (\<lambda>b. bg_instance b = in_id r) (sh_bindings t))
       (sort_key in_native (filter (\<lambda>r. in_installation r = inst) (iv_instances iv))))"

end
