(* ===== verification/Shared_Model_Service.thy ===== *)
theory Shared_Model_Service
  imports Model_Validation Shared_Models_Table Secret_Store
begin

text \<open>
  Shared model resources (app/shared\_models.go): Provider connections whose credential lives in the
  secret store, model profiles over them, the default profile of an installation, and applying a
  profile to instances through an operation whose worker saves credential and configuration one
  instance after the other and records the outcome in a binding. Contexts are live where nothing
  is said of them.
\<close>

subsection \<open>Configuration, state and errors\<close>

record ('h, 'w, 'x) shared_config =
  so_model :: "('h, 'w) model_config"
  so_secrets :: "'x secret_backend option" \<comment> \<open>\<open>None\<close> when no store is set\<close>
  so_chars :: "string \<Rightarrow> nat"

record ('w, 'x) shared_service =
  sv_models :: "'w model_service"
  sv_tables :: shared_tables
  sv_secrets :: 'x

datatype resource_error =
    ErrModelResourceInvalid | ErrModelResourceNotFound | ErrModelResourceConflict
  | ErrModelSecretUnavailable
  | ErrResource model_error
  | ErrResourceTable shared_error
  | ErrResourceRandom

abbreviation shared_db :: "('w, 'x) shared_service \<Rightarrow> database" where
  "shared_db s \<equiv> model_db (sv_models s)"

abbreviation shared_inventory :: "('w, 'x) shared_service \<Rightarrow> inventory" where
  "shared_inventory s \<equiv> iz_inventory (ms_inst (sv_models s))"

abbreviation resource_db_error :: "db_error \<Rightarrow> resource_error" where
  "resource_db_error e \<equiv> ErrResource (model_db_error e)"

subsection \<open>Views\<close>

record connection_view =
  xc_id :: string
  xc_preset :: string
  xc_name :: string
  xc_credential :: bool
  xc_status :: string
  xc_revision :: int
  xc_created_at :: time
  xc_updated_at :: time

record profile_view =
  xp_id :: string
  xp_connection :: string
  xp_name :: string
  xp_selected :: "string list"
  xp_default_model :: string
  xp_revision :: int
  xp_created_at :: time
  xp_updated_at :: time

record default_view =
  xd_profile :: string
  xd_revision :: int
  xd_updated_at :: "time option" \<comment> \<open>\<open>None\<close> in the zero value\<close>

record binding_view =
  xb_instance :: string
  xb_name :: string
  xb_profile :: string
  xb_mode :: string
  xb_revision :: int
  xb_state :: string
  xb_code :: error_code
  xb_updated_at :: "time option"

definition connection_view_of :: "bool \<Rightarrow> string \<Rightarrow> provider_connection \<Rightarrow> connection_view" where
  "connection_view_of configured status r =
     \<lparr>xc_id = pc_id r, xc_preset = pc_preset r, xc_name = pc_name r, xc_credential = configured,
      xc_status = status, xc_revision = pc_revision r, xc_created_at = pc_created_at r,
      xc_updated_at = pc_updated_at r\<rparr>"

definition modelProfileView :: "model_profile \<Rightarrow> profile_view" where
  "modelProfileView r =
     \<lparr>xp_id = pf_id r, xp_connection = pf_connection r, xp_name = pf_name r,
      xp_selected = pf_selected r, xp_default_model = pf_default_model r, xp_revision = pf_revision r,
      xp_created_at = pf_created_at r, xp_updated_at = pf_updated_at r\<rparr>"

subsection \<open>Helpers\<close>

definition hasModelPreset :: "provider_preset list \<Rightarrow> string \<Rightarrow> bool" where
  "hasModelPreset presets i \<longleftrightarrow> list_ex (\<lambda>p. pp_id p = i) presets"

definition validModelResourceName :: "string \<Rightarrow> bool" where
  "validModelResourceName v \<longleftrightarrow> length (TrimSpace v) > 0 \<and> length (TrimSpace v) \<le> 80"

definition newModelResourceID :: "string \<Rightarrow> nat list option \<Rightarrow> string option" where
  "newModelResourceID pre rnd = map_option (\<lambda>bs. pre @ ''-'' @ hex_encode (take 12 bs)) rnd"

definition modelProfileApplicationFingerprint ::
  "('h, 'w, 'x) shared_config \<Rightarrow> model_profile \<Rightarrow> string list \<Rightarrow> string \<Rightarrow> string" where
  "modelProfileApplicationFingerprint c profile ids mode =
     ''model-profile-sha256:'' @ mo_sha256 (so_model c)
       (pf_id profile @ [CHR 0x00] @ int_text (pf_revision profile) @ [CHR 0x00] @ mode @ [CHR 0x00]
        @ join_on CHR 0x00 ids)"

definition sharedModelErrorCode :: "model_error \<Rightarrow> error_code" where
  "sharedModelErrorCode e =
     (if e = instance_not_available then ErrorInstanceNotAvailable
      else if e = ErrModelCredentialRequired \<or> e = ErrModelCredentialWriteFailed
      then ErrorModelCredentialWriteFailed
      else if e = ErrInstanceConfigConflict then ErrorInstanceConfigConflict
      else if e = ErrModelConfigInvalid then ErrorModelConfigInvalid
      else ErrorModelConfigIncomplete)"

text \<open>Listing the instances writes what the Runtime reports; the answer names their installation.\<close>

definition runtimeModelContext ::
  "('h, 'w, 'x) shared_config \<Rightarrow> inst_world \<Rightarrow> string \<Rightarrow> ('w, 'x) shared_service
     \<Rightarrow> ('w, 'x) shared_service \<times> (resource_error + string \<times> 'h \<times> instance_view list)" where
  "runtimeModelContext c w runtimeID s =
     (let ic = mo_inst (so_model c); m = sv_models s;
          unsupported = Inl (ErrResource (ErrModelInstance runtime_not_supported))
      in if runtimeID \<noteq> hermesRuntimeID \<or> ic_registry ic = None then (s, unsupported)
         else case service_ListInstances ic w runtimeID (ms_inst m) of
           (n, r) \<Rightarrow>
             (s\<lparr>sv_models := m\<lparr>ms_inst := n\<rparr>\<rparr>,
              (case r of
                 Inl e \<Rightarrow> Inl (ErrResource (ErrModelInstance e))
               | Inr listed \<Rightarrow>
                   (case Option.bind (hermes_bundle ic) bn_models of
                      None \<Rightarrow> unsupported
                    | Some h \<Rightarrow> Inr (il_installation listed, h, il_instances listed)))))"

subsection \<open>Provider connections\<close>

definition is_configured_secret :: "'x secret_backend option \<Rightarrow> 'x \<Rightarrow> string \<Rightarrow> secret_error + bool" where
  "is_configured_secret b x ref = (if b = None then Inr False else models_Configured b False ref x)"

fun connection_views ::
  "'x secret_backend option \<Rightarrow> 'x \<Rightarrow> provider_connection list \<Rightarrow> connection_view list option" where
  "connection_views b x [] = Some []"
| "connection_views b x (r # rs) =
     (case is_configured_secret b x (pc_secret_ref r) of
        Inl _ \<Rightarrow> None
      | Inr configured \<Rightarrow>
          map_option
            ((#) (connection_view_of configured (if configured then pc_status r else ''UNAVAILABLE'') r))
            (connection_views b x rs))"

definition service_ListConnections ::
  "('h, 'w, 'x) shared_config \<Rightarrow> inst_world \<Rightarrow> string \<Rightarrow> ('w, 'x) shared_service
     \<Rightarrow> ('w, 'x) shared_service \<times> (resource_error + connection_view list)" where
  "service_ListConnections c w runtimeID s =
     (case runtimeModelContext c w runtimeID s of
        (s1, Inl e) \<Rightarrow> (s1, Inl e)
      | (s1, Inr (inst, _, _)) \<Rightarrow>
          (s1, (case connection_views (so_secrets c) (sv_secrets s1)
                       (ListModelProviderConnections (sv_tables s1) inst) of
                  None \<Rightarrow> Inl ErrModelSecretUnavailable
                | Some vs \<Rightarrow> Inr vs)))"

definition new_connection ::
  "time \<Rightarrow> string \<Rightarrow> string \<Rightarrow> string \<Rightarrow> string \<Rightarrow> string \<Rightarrow> provider_connection" where
  "new_connection now i inst preset name ref =
     \<lparr>pc_id = i, pc_installation = inst, pc_preset = preset, pc_name = TrimSpace name,
      pc_secret_ref = ref, pc_status = ''CONFIGURED'', pc_revision = 1, pc_created_at = now,
      pc_updated_at = now\<rparr>"

text \<open>The secret is stored first and taken back when the row cannot be written.\<close>

definition service_CreateConnection ::
  "('h, 'w, 'x) shared_config \<Rightarrow> inst_world \<Rightarrow> nat list option \<Rightarrow> nat list option \<Rightarrow> string \<Rightarrow> string
     \<Rightarrow> string \<Rightarrow> string \<Rightarrow> ('w, 'x) shared_service
     \<Rightarrow> ('w, 'x) shared_service \<times> (resource_error + connection_view)" where
  "service_CreateConnection c w rnd_id rnd_ref runtimeID preset name secret s =
     (case runtimeModelContext c w runtimeID s of
        (s1, Inl e) \<Rightarrow> (s1, Inl e)
      | (s1, Inr (inst, h, _)) \<Rightarrow>
      if so_secrets c = None then (s1, Inl ErrModelSecretUnavailable)
      else if \<not> validModelResourceName name \<or> secret = []
              \<or> \<not> hasModelPreset (md_presets (mo_adapter (so_model c)) h) preset
      then (s1, Inl ErrModelResourceInvalid)
      else
     (case (newModelResourceID ''mpc'' rnd_id, newModelResourceID ''model-provider'' rnd_ref) of
        (Some i, Some ref) \<Rightarrow>
          (case models_Put (so_secrets c) False ref secret (sv_secrets s1) of
             (x, Some _) \<Rightarrow> (s1\<lparr>sv_secrets := x\<rparr>, Inl ErrModelSecretUnavailable)
           | (x, None) \<Rightarrow>
               (let row = new_connection (wd_now w) i inst preset name ref in
                case InsertModelProviderConnection (so_chars c) (shared_inventory s1) row (sv_tables s1) of
                  Inl e \<Rightarrow>
                    (s1\<lparr>sv_secrets := fst (models_Delete (so_secrets c) False ref x)\<rparr>,
                     Inl (ErrResourceTable e))
                | Inr t \<Rightarrow>
                    (s1\<lparr>sv_secrets := x, sv_tables := t\<rparr>,
                     Inr (connection_view_of True (pc_status row) row))))
      | _ \<Rightarrow> (s1, Inl ErrResourceRandom)))"

definition service_DeleteConnection ::
  "('h, 'w, 'x) shared_config \<Rightarrow> inst_world \<Rightarrow> string \<Rightarrow> string \<Rightarrow> ('w, 'x) shared_service
     \<Rightarrow> ('w, 'x) shared_service \<times> resource_error option" where
  "service_DeleteConnection c w runtimeID i s =
     (case runtimeModelContext c w runtimeID s of
        (s1, Inl e) \<Rightarrow> (s1, Some e)
      | (s1, Inr (inst, _, _)) \<Rightarrow>
     (case GetModelProviderConnection (sv_tables s1) i of
        Inl _ \<Rightarrow> (s1, Some ErrModelResourceNotFound)
      | Inr row \<Rightarrow>
      if pc_installation row \<noteq> inst then (s1, Some ErrModelResourceNotFound)
      else case ListModelProfiles (sv_tables s1) inst of
        Inl e \<Rightarrow> (s1, Some (ErrResourceTable e))
      | Inr profiles \<Rightarrow>
      if list_ex (\<lambda>p. pf_connection p = i) profiles then (s1, Some ErrModelResourceConflict)
      else if so_secrets c = None then (s1, Some ErrModelSecretUnavailable)
      else case models_Delete (so_secrets c) False (pc_secret_ref row) (sv_secrets s1) of
        (x, Some _) \<Rightarrow> (s1\<lparr>sv_secrets := x\<rparr>, Some ErrModelSecretUnavailable)
      | (x, None) \<Rightarrow>
          (let s2 = s1\<lparr>sv_secrets := x\<rparr> in
           case DeleteModelProviderConnection i (sv_tables s2) of
             Inl e \<Rightarrow> (s2, Some (ErrResourceTable e))
           | Inr t \<Rightarrow> (s2\<lparr>sv_tables := t\<rparr>, None))))"

subsection \<open>Profiles\<close>

definition service_ListProfiles ::
  "('h, 'w, 'x) shared_config \<Rightarrow> inst_world \<Rightarrow> string \<Rightarrow> ('w, 'x) shared_service
     \<Rightarrow> ('w, 'x) shared_service \<times> (resource_error + profile_view list)" where
  "service_ListProfiles c w runtimeID s =
     (case runtimeModelContext c w runtimeID s of
        (s1, Inl e) \<Rightarrow> (s1, Inl e)
      | (s1, Inr (inst, _, _)) \<Rightarrow>
          (s1, (case ListModelProfiles (sv_tables s1) inst of
                  Inl e \<Rightarrow> Inl (ErrResourceTable e)
                | Inr rows \<Rightarrow> Inr (map modelProfileView rows))))"

definition new_profile ::
  "time \<Rightarrow> string \<Rightarrow> string \<Rightarrow> string \<Rightarrow> string \<Rightarrow> string list \<Rightarrow> string \<Rightarrow> model_profile" where
  "new_profile now i inst connection name selected dflt =
     \<lparr>pf_id = i, pf_installation = inst, pf_connection = connection, pf_name = TrimSpace name,
      pf_selected = selected, pf_default_model = dflt, pf_revision = 1, pf_created_at = now,
      pf_updated_at = now\<rparr>"

definition service_CreateProfile ::
  "('h, 'w, 'x) shared_config \<Rightarrow> inst_world \<Rightarrow> nat list option \<Rightarrow> string \<Rightarrow> string \<Rightarrow> string \<Rightarrow> string
     \<Rightarrow> string list \<Rightarrow> ('w, 'x) shared_service \<Rightarrow> ('w, 'x) shared_service \<times> (resource_error + profile_view)" where
  "service_CreateProfile c w rnd runtimeID connection name dflt selected s =
     (case runtimeModelContext c w runtimeID s of
        (s1, Inl e) \<Rightarrow> (s1, Inl e)
      | (s1, Inr (inst, h, _)) \<Rightarrow>
     (case GetModelProviderConnection (sv_tables s1) connection of
        Inl _ \<Rightarrow> (s1, Inl ErrModelResourceNotFound)
      | Inr row \<Rightarrow>
      if pc_installation row \<noteq> inst then (s1, Inl ErrModelResourceNotFound)
      else if \<not> validModelResourceName name
              \<or> \<not> validateSelectedModels (md_selection (mo_adapter (so_model c)) h) (pc_preset row) dflt selected
      then (s1, Inl ErrModelResourceInvalid)
      else case newModelResourceID ''mpr'' rnd of
        None \<Rightarrow> (s1, Inl ErrResourceRandom)
      | Some i \<Rightarrow>
          (let v = new_profile (wd_now w) i inst connection name selected dflt in
           case InsertModelProfile (so_chars c) (shared_inventory s1) v (sv_tables s1) of
             Inl e \<Rightarrow> (s1, Inl (ErrResourceTable e))
           | Inr t \<Rightarrow> (s1\<lparr>sv_tables := t\<rparr>, Inr (modelProfileView v)))))"

text \<open>
  A profile of another installation is not found; neither is one whose models cannot be read,
  since the scan then answers the zero profile.
\<close>

definition profile_of :: "shared_tables \<Rightarrow> string \<Rightarrow> string \<Rightarrow> model_profile option" where
  "profile_of t inst i =
     (case GetModelProfile t i of
        Inl _ \<Rightarrow> None
      | Inr p \<Rightarrow> if pf_installation p \<noteq> inst then None else Some p)"

definition service_DeleteProfile ::
  "('h, 'w, 'x) shared_config \<Rightarrow> inst_world \<Rightarrow> string \<Rightarrow> string \<Rightarrow> ('w, 'x) shared_service
     \<Rightarrow> ('w, 'x) shared_service \<times> resource_error option" where
  "service_DeleteProfile c w runtimeID i s =
     (case runtimeModelContext c w runtimeID s of
        (s1, Inl e) \<Rightarrow> (s1, Some e)
      | (s1, Inr (inst, _, _)) \<Rightarrow>
     (case profile_of (sv_tables s1) inst i of
        None \<Rightarrow> (s1, Some ErrModelResourceNotFound)
      | Some _ \<Rightarrow>
      if (case GetRuntimeModelDefault (sv_tables s1) inst of None \<Rightarrow> False | Some d \<Rightarrow> rd_profile d = i)
         \<or> list_ex (\<lambda>b. bg_profile b = i)
             (ListInstanceModelBindings (shared_inventory s1) (sv_tables s1) inst)
      then (s1, Some ErrModelResourceConflict)
      else case DeleteModelProfile i (sv_tables s1) of
        Inl e \<Rightarrow> (s1, Some (ErrResourceTable e))
      | Inr t \<Rightarrow> (s1\<lparr>sv_tables := t\<rparr>, None)))"

subsection \<open>The default of an installation\<close>

definition service_GetDefault ::
  "('h, 'w, 'x) shared_config \<Rightarrow> inst_world \<Rightarrow> string \<Rightarrow> ('w, 'x) shared_service
     \<Rightarrow> ('w, 'x) shared_service \<times> (resource_error + default_view)" where
  "service_GetDefault c w runtimeID s =
     (case runtimeModelContext c w runtimeID s of
        (s1, Inl e) \<Rightarrow> (s1, Inl e)
      | (s1, Inr (inst, _, _)) \<Rightarrow>
          (s1, Inr (case GetRuntimeModelDefault (sv_tables s1) inst of
                      None \<Rightarrow> \<lparr>xd_profile = [], xd_revision = 0, xd_updated_at = None\<rparr>
                    | Some d \<Rightarrow>
                        \<lparr>xd_profile = rd_profile d, xd_revision = rd_revision d,
                         xd_updated_at = Some (rd_updated_at d)\<rparr>)))"

definition service_SetDefault ::
  "('h, 'w, 'x) shared_config \<Rightarrow> inst_world \<Rightarrow> string \<Rightarrow> string \<Rightarrow> ('w, 'x) shared_service
     \<Rightarrow> ('w, 'x) shared_service \<times> (resource_error + default_view)" where
  "service_SetDefault c w runtimeID i s =
     (case runtimeModelContext c w runtimeID s of
        (s1, Inl e) \<Rightarrow> (s1, Inl e)
      | (s1, Inr (inst, _, _)) \<Rightarrow>
     (case profile_of (sv_tables s1) inst i of
        None \<Rightarrow> (s1, Inl ErrModelResourceNotFound)
      | Some p \<Rightarrow>
     (case PutRuntimeModelDefault (shared_inventory s1)
             \<lparr>rd_installation = inst, rd_profile = i, rd_revision = pf_revision p, rd_updated_at = wd_now w\<rparr>
             (sv_tables s1) of
        Inl e \<Rightarrow> (s1, Inl (ErrResourceTable e))
      | Inr t \<Rightarrow>
          (s1\<lparr>sv_tables := t\<rparr>,
           Inr \<lparr>xd_profile = i, xd_revision = pf_revision p, xd_updated_at = Some (wd_now w)\<rparr>))))"

definition service_ClearDefault ::
  "('h, 'w, 'x) shared_config \<Rightarrow> inst_world \<Rightarrow> string \<Rightarrow> ('w, 'x) shared_service
     \<Rightarrow> ('w, 'x) shared_service \<times> resource_error option" where
  "service_ClearDefault c w runtimeID s =
     (case runtimeModelContext c w runtimeID s of
        (s1, Inl e) \<Rightarrow> (s1, Some e)
      | (s1, Inr (inst, _, _)) \<Rightarrow>
          (s1\<lparr>sv_tables := DeleteRuntimeModelDefault inst (sv_tables s1)\<rparr>, None))"

end
