(* ===== verification/Shared_Model_Worker.thy ===== *)
theory Shared_Model_Worker
  imports Shared_Model_Service
begin

text \<open>
  Applying a model profile to instances (the second half of app/shared\_models.go): the bindings'
  list, the start handler, the worker that writes one instance after the other, cancellation and
  recovery.
\<close>

subsection \<open>Reading bindings\<close>

definition binding_view_of :: "string \<Rightarrow> model_binding \<Rightarrow> binding_view" where
  "binding_view_of name r =
     \<lparr>xb_instance = bg_instance r, xb_name = name, xb_profile = bg_profile r, xb_mode = bg_mode r,
      xb_revision = bg_revision r, xb_state = bg_state r, xb_code = bg_code r,
      xb_updated_at = Some (bg_updated_at r)\<rparr>"

text \<open>
  An instance without a binding shows a configuration that was made elsewhere; reading it
  reconciles the inventory again, with the world of that call.
\<close>

fun binding_views ::
  "('h, 'w, 'x) shared_config \<Rightarrow> (string \<Rightarrow> inst_world) \<Rightarrow> model_binding list \<Rightarrow> instance_view list
     \<Rightarrow> ('w, 'x) shared_service \<Rightarrow> ('w, 'x) shared_service \<times> binding_view list" where
  "binding_views c ws rows [] s = (s, [])"
| "binding_views c ws rows (v # vs) s =
     (case first_match (\<lambda>r. bg_instance r = ivw_id v) rows of
        Some r \<Rightarrow>
          (case binding_views c ws rows vs s of (s1, rest) \<Rightarrow> (s1, binding_view_of (ivw_name v) r # rest))
      | None \<Rightarrow>
          (case GetModelConfiguration (so_model c) (ws (ivw_id v)) (ivw_id v) (sv_models s) of
             (m, view, failed) \<Rightarrow>
               (case binding_views c ws rows vs (s\<lparr>sv_models := m\<rparr>) of
                  (s1, rest) \<Rightarrow>
                    (s1,
                     if failed = None \<and> vm_state view = ModelConfigurationConfigured
                     then \<lparr>xb_instance = ivw_id v, xb_name = ivw_name v, xb_profile = [],
                           xb_mode = ''EXTERNAL_CONFIGURATION'', xb_revision = 0,
                           xb_state = ''SUCCEEDED'', xb_code = [], xb_updated_at = vm_observed_at view\<rparr>
                          # rest
                     else rest))))"

definition service_ListBindings ::
  "('h, 'w, 'x) shared_config \<Rightarrow> inst_world \<Rightarrow> (string \<Rightarrow> inst_world) \<Rightarrow> string \<Rightarrow> ('w, 'x) shared_service
     \<Rightarrow> ('w, 'x) shared_service \<times> (resource_error + binding_view list)" where
  "service_ListBindings c w ws runtimeID s =
     (case runtimeModelContext c w runtimeID s of
        (s1, Inl e) \<Rightarrow> (s1, Inl e)
      | (s1, Inr (inst, _, instances)) \<Rightarrow>
          (case binding_views c ws
                  (ListInstanceModelBindings (shared_inventory s1) (sv_tables s1) inst) instances s1 of
             (s2, vs) \<Rightarrow> (s2, Inr vs)))"

subsection \<open>Writing bindings and the operation\<close>

definition binding_for ::
  "time \<Rightarrow> model_profile \<Rightarrow> string \<Rightarrow> string \<Rightarrow> error_code \<Rightarrow> string \<Rightarrow> model_binding" where
  "binding_for now profile mode st code i =
     \<lparr>bg_instance = i, bg_profile = pf_id profile, bg_mode = mode, bg_revision = pf_revision profile,
      bg_state = st, bg_code = code, bg_updated_at = now\<rparr>"

definition put_binding ::
  "model_binding \<Rightarrow> ('w, 'x) shared_service \<Rightarrow> ('w, 'x) shared_service \<times> shared_error option" where
  "put_binding v s =
     (case UpsertInstanceModelBinding (shared_inventory s) v (sv_tables s) of
        Inl e \<Rightarrow> (s, Some e)
      | Inr t \<Rightarrow> (s\<lparr>sv_tables := t\<rparr>, None))"

text \<open>The errors of these writes are dropped.\<close>

definition put_bindings ::
  "time \<Rightarrow> model_profile \<Rightarrow> string \<Rightarrow> string \<Rightarrow> error_code \<Rightarrow> string list \<Rightarrow> ('w, 'x) shared_service
     \<Rightarrow> ('w, 'x) shared_service" where
  "put_bindings now profile mode st code ids s =
     fold (\<lambda>i s. fst (put_binding (binding_for now profile mode st code i) s)) ids s"

definition failAllModelBindings ::
  "time \<Rightarrow> model_profile \<Rightarrow> string list \<Rightarrow> string \<Rightarrow> error_code \<Rightarrow> ('w, 'x) shared_service
     \<Rightarrow> ('w, 'x) shared_service" where
  "failAllModelBindings now profile ids mode code s = put_bindings now profile mode ''FAILED'' code ids s"

definition skipRemainingModelBindings ::
  "time \<Rightarrow> model_profile \<Rightarrow> string list \<Rightarrow> string \<Rightarrow> ('w, 'x) shared_service \<Rightarrow> ('w, 'x) shared_service" where
  "skipRemainingModelBindings now profile ids mode s =
     put_bindings now profile mode ''SKIPPED'' ErrorModelValidationCancelled ids s"

definition finished_application :: "time \<Rightarrow> status \<Rightarrow> error_code \<Rightarrow> bool \<Rightarrow> operation \<Rightarrow> operation" where
  "finished_application now st code retry current =
     current\<lparr>op_status := st, op_error_code := code, op_retryable := retry,
             op_completed_at := Some now, op_updated_at := now\<rparr>"

definition finishSharedModelOperation ::
  "('h, 'w, 'x) shared_config \<Rightarrow> time \<Rightarrow> string \<Rightarrow> status \<Rightarrow> error_code \<Rightarrow> bool \<Rightarrow> ('w, 'x) shared_service
     \<Rightarrow> ('w, 'x) shared_service \<times> (db_error + operation)" where
  "finishSharedModelOperation c now i st code retry s =
     (case GetOperation (shared_db s) i of
        Inl e \<Rightarrow> (s, Inl e)
      | Inr current \<Rightarrow>
          if IsTerminal (op_status current) then (s, Inr current)
          else
          (let nxt = finished_application now st code retry current in
           case persist_validation (so_model c) now current nxt (sv_models s) of
             (m, Some e) \<Rightarrow> (s\<lparr>sv_models := m\<rparr>, Inl e)
           | (m, None) \<Rightarrow> (s\<lparr>sv_models := m\<rparr>, Inr nxt)))"

subsection \<open>Starting\<close>

definition application_operation ::
  "time \<Rightarrow> string \<Rightarrow> string \<Rightarrow> string \<Rightarrow> string \<Rightarrow> string \<Rightarrow> operation" where
  "application_operation now i cor inst key pin =
     (validation_operation now i cor inst key pin)
       \<lparr>op_kind := TypeModelProfileApply, op_target_type := TargetRuntimeInstallation\<rparr>"

text \<open>The pending bindings, until one cannot be written.\<close>

fun pending_bindings ::
  "time \<Rightarrow> model_profile \<Rightarrow> string \<Rightarrow> string list \<Rightarrow> ('w, 'x) shared_service
     \<Rightarrow> ('w, 'x) shared_service \<times> shared_error option" where
  "pending_bindings now profile mode [] s = (s, None)"
| "pending_bindings now profile mode (i # is) s =
     (case put_binding (binding_for now profile mode ''PENDING'' [] i) s of
        (s1, Some e) \<Rightarrow> (s1, Some e)
      | (s1, None) \<Rightarrow> pending_bindings now profile mode is s1)"

definition create_application ::
  "('h, 'w, 'x) shared_config \<Rightarrow> inst_world \<Rightarrow> string \<Rightarrow> model_profile \<Rightarrow> string list \<Rightarrow> string \<Rightarrow> string
     \<Rightarrow> string \<Rightarrow> ('w, 'x) shared_service \<Rightarrow> ('w, 'x) shared_service \<times> (resource_error + started)" where
  "create_application c w inst profile chosen mode key pin s =
     (case (newOperationID (wd_rnd_id w), newCorrelationID (wd_rnd_correlation w)) of
        (Some i, Some cor) \<Rightarrow>
          (let v = application_operation (wd_now w) i cor inst key pin; m = sv_models s in
           case CreateOperation (model_message (so_model c)) (model_db m) v of
             Inl e \<Rightarrow>
               (s, Inl (if e = ErrDuplicateIdempotency \<or> e = ErrActiveInstanceMutation
                        then ErrModelResourceConflict else resource_db_error e))
           | Inr db \<Rightarrow>
               (case pending_bindings (wd_now w) profile mode chosen
                       (s\<lparr>sv_models := put_model_db db m\<rparr>) of
                  (s1, Some e) \<Rightarrow>
                    (fst (finishSharedModelOperation c (wd_now w) i StatusFailed
                            ErrorModelConfigIncomplete True s1),
                     Inl (ErrResourceTable e))
                | (s1, None) \<Rightarrow>
                    (let m1 = emitValidationOperation (wd_now w) [] v True (sv_models s1)
                     in (s1\<lparr>sv_models := m1\<lparr>ms_inst := start_worker i (ms_inst m1)\<rparr>\<rparr>, Inr (v, True)))))
      | _ \<Rightarrow> (s, Inl ErrResourceRandom))"

text \<open>Sorted, so that duplicates meet; every target is one of the listed instances.\<close>

definition targets_ok :: "instance_view list \<Rightarrow> string list \<Rightarrow> bool" where
  "targets_ok instances chosen \<longleftrightarrow>
     list_all (\<lambda>i. i \<in> ivw_id ` set instances) chosen
     \<and> list_all (\<lambda>k. chosen ! k \<noteq> chosen ! Suc k) [0..<length chosen - 1]"

definition StartModelProfileApplication ::
  "('h, 'w, 'x) shared_config \<Rightarrow> inst_world \<Rightarrow> string \<Rightarrow> string \<Rightarrow> string list \<Rightarrow> string \<Rightarrow> string
     \<Rightarrow> ('w, 'x) shared_service \<Rightarrow> ('w, 'x) shared_service \<times> (resource_error + started)" where
  "StartModelProfileApplication c w runtimeID profileID ids mode key s =
     (if \<not> ValidateIdempotencyKey key \<or> (mode \<noteq> ''INHERIT'' \<and> mode \<noteq> ''OVERRIDE'')
         \<or> length ids = 0 \<or> length ids > 50
      then (s, Inl ErrModelResourceInvalid)
      else case runtimeModelContext c w runtimeID s of
        (s1, Inl e) \<Rightarrow> (s1, Inl e)
      | (s1, Inr (inst, _, instances)) \<Rightarrow>
     (case profile_of (sv_tables s1) inst profileID of
        None \<Rightarrow> (s1, Inl ErrModelResourceNotFound)
      | Some profile \<Rightarrow>
      if mode = ''INHERIT''
         \<and> (case GetRuntimeModelDefault (sv_tables s1) inst of
              None \<Rightarrow> True | Some d \<Rightarrow> rd_profile d \<noteq> pf_id profile)
      then (s1, Inl ErrModelResourceInvalid)
      else
      (let chosen = sort ids; pin = modelProfileApplicationFingerprint c profile chosen mode in
       if \<not> targets_ok instances chosen then (s1, Inl ErrModelResourceInvalid)
       else case GetOperationByIdempotencyKey (shared_db s1) key of
         Inl e \<Rightarrow> (s1, Inl (resource_db_error e))
       | Inr (Some existing) \<Rightarrow>
           if op_kind existing \<noteq> TypeModelProfileApply \<or> op_target_id existing \<noteq> inst
              \<or> op_source_pin existing \<noteq> pin
           then (s1, Inl (ErrResource ErrInstanceConfigConflict)) else (s1, Inr (existing, False))
       | Inr None \<Rightarrow>
           (case ActiveInstanceMutation (shared_db s1) inst of
              Inl e \<Rightarrow> (s1, Inl (resource_db_error e))
            | Inr (Some _) \<Rightarrow> (s1, Inl ErrModelResourceConflict)
            | Inr None \<Rightarrow> create_application c w inst profile chosen mode key pin s1))))"

subsection \<open>Cancelling and recovering\<close>

definition CancelModelProfileApplication ::
  "('h, 'w, 'x) shared_config \<Rightarrow> time \<Rightarrow> string \<Rightarrow> ('w, 'x) shared_service
     \<Rightarrow> ('w, 'x) shared_service \<times> (resource_error + operation)" where
  "CancelModelProfileApplication c now i s =
     (let missing = Inl (ErrResource (ErrModelInstance instance_not_found)) in
      case GetOperation (shared_db s) i of
        Inl _ \<Rightarrow> (s, missing)
      | Inr current \<Rightarrow>
          if op_kind current \<noteq> TypeModelProfileApply then (s, missing)
          else if IsTerminal (op_status current) then (s, Inr current)
          else
          (let m = sv_models s; m1 = m\<lparr>ms_inst := raise_worker_cancel i (ms_inst m)\<rparr> in
           case finishSharedModelOperation c now i StatusCancelled ErrorModelValidationCancelled True
                  (s\<lparr>sv_models := m1\<rparr>) of
             (s1, Inl e) \<Rightarrow> (s1, Inl (resource_db_error e))
           | (s1, Inr v) \<Rightarrow> (s1, Inr v)))"

fun recover_applications ::
  "('h, 'w, 'x) shared_config \<Rightarrow> time \<Rightarrow> operation list \<Rightarrow> ('w, 'x) shared_service
     \<Rightarrow> ('w, 'x) shared_service \<times> operation list \<times> db_error option" where
  "recover_applications c now [] s = (s, [], None)"
| "recover_applications c now (v # vs) s =
     (case finishSharedModelOperation c now (op_id v) StatusFailed ErrorOperationInterrupted True s of
        (s1, Inl e) \<Rightarrow> (s1, [], Some e)
      | (s1, Inr u) \<Rightarrow>
          (case recover_applications c now vs s1 of (s2, rest, e) \<Rightarrow> (s2, u # rest, e)))"

definition RecoverModelProfileApplications ::
  "('h, 'w, 'x) shared_config \<Rightarrow> time \<Rightarrow> ('w, 'x) shared_service
     \<Rightarrow> ('w, 'x) shared_service \<times> operation list \<times> db_error option" where
  "RecoverModelProfileApplications c now s =
     (case ListActiveOperationsByType (shared_db s) TypeModelProfileApply of
        Inl e \<Rightarrow> (s, [], Some e)
      | Inr ops \<Rightarrow> recover_applications c now ops s)"

subsection \<open>The worker\<close>

definition running_application :: "time \<Rightarrow> operation \<Rightarrow> operation" where
  "running_application now current =
     current\<lparr>op_status := StatusRunning, op_stage := StageModelProfileApply, op_started_at := Some now,
             op_updated_at := now\<rparr>"

definition claim_application ::
  "('h, 'w, 'x) shared_config \<Rightarrow> time \<Rightarrow> string \<Rightarrow> ('w, 'x) shared_service
     \<Rightarrow> ('w, 'x) shared_service \<times> bool" where
  "claim_application c now i s =
     (if worker_cancelled i (ms_inst (sv_models s)) then (s, False)
      else case GetOperation (shared_db s) i of
        Inl _ \<Rightarrow> (s, False)
      | Inr current \<Rightarrow>
          if IsTerminal (op_status current) then (s, False)
          else (case persist_validation (so_model c) now current (running_application now current)
                       (sv_models s) of
                  (m, failed) \<Rightarrow> (s\<lparr>sv_models := m\<rparr>, failed = None)))"

text \<open>
  One instance: credential and configuration are saved on behalf of the operation, then the
  binding records the outcome. The flag says whether anything failed.
\<close>

definition apply_to_instance ::
  "('h, 'w, 'x) shared_config \<Rightarrow> inst_world \<Rightarrow> string \<Rightarrow> model_profile \<Rightarrow> string \<Rightarrow> string \<Rightarrow> string \<Rightarrow> string
     \<Rightarrow> ('w, 'x) shared_service \<Rightarrow> ('w, 'x) shared_service \<times> bool" where
  "apply_to_instance c w own profile mode preset secret i s =
     (case saveModelCredentialConfiguration (so_model c) w i preset (pf_default_model profile)
             (pf_selected profile) secret own (sv_models s) of
        (m, _, failed) \<Rightarrow>
          (let st = (case failed of
                       None \<Rightarrow> ''SUCCEEDED''
                     | Some e \<Rightarrow> if e = instance_not_available then ''SKIPPED'' else ''FAILED'');
               code = (case failed of None \<Rightarrow> [] | Some e \<Rightarrow> sharedModelErrorCode e)
           in case put_binding (binding_for (wd_now w) profile mode st code i) (s\<lparr>sv_models := m\<rparr>) of
                (s1, unbound) \<Rightarrow> (s1, failed \<noteq> None \<or> unbound \<noteq> None)))"

text \<open>
  The loop inside the secret's callback. \<open>ctx n\<close> is the state of the worker's context at the
  \<open>n\<close>-th instance, \<open>others n\<close> what other handlers did before it and \<open>ws n\<close> the world of its calls.
\<close>

fun apply_loop ::
  "('h, 'w, 'x) shared_config \<Rightarrow> (nat \<Rightarrow> inst_world) \<Rightarrow> (nat \<Rightarrow> context_error option)
     \<Rightarrow> (nat \<Rightarrow> ('w, 'x) shared_service \<Rightarrow> ('w, 'x) shared_service) \<Rightarrow> string \<Rightarrow> model_profile \<Rightarrow> string
     \<Rightarrow> string \<Rightarrow> string \<Rightarrow> nat \<Rightarrow> string list \<Rightarrow> ('w, 'x) shared_service \<times> bool
     \<Rightarrow> ('w, 'x) shared_service \<times> bool" where
  "apply_loop c ws ctx others own profile mode preset secret n [] (s, failed) = (s, failed)"
| "apply_loop c ws ctx others own profile mode preset secret n (i # is) (s, failed) =
     (let s0 = others n s in
      if ctx n \<noteq> None then (skipRemainingModelBindings (wd_now (ws n)) profile (i # is) mode s0, True)
      else case apply_to_instance c (ws n) own profile mode preset secret i s0 of
        (s1, bad) \<Rightarrow>
          apply_loop c ws ctx others own profile mode preset secret (Suc n) is (s1, failed \<or> bad))"

text \<open>How the operation ends: the context first, then whether anything failed.\<close>

definition application_outcome :: "context_error option \<Rightarrow> bool \<Rightarrow> status \<times> error_code \<times> bool" where
  "application_outcome ctx failed =
     (case ctx of
        Some DeadlineExceeded \<Rightarrow> (StatusFailed, ErrorModelValidationTimedOut, True)
      | Some Canceled \<Rightarrow> (StatusCancelled, ErrorModelValidationCancelled, True)
      | None \<Rightarrow>
          if failed then (StatusFailed, ErrorModelConfigIncomplete, True) else (StatusSucceeded, [], False))"

definition finish_application ::
  "('h, 'w, 'x) shared_config \<Rightarrow> time \<Rightarrow> string \<Rightarrow> status \<times> error_code \<times> bool \<Rightarrow> ('w, 'x) shared_service
     \<Rightarrow> ('w, 'x) shared_service" where
  "finish_application c now i r s =
     (case r of (st, code, retry) \<Rightarrow> fst (finishSharedModelOperation c now i st code retry s))"

text \<open>
  The connection is read and its secret used after the row is claimed. \<open>late\<close> says whether the
  context is done when the connection is read, \<open>opened\<close> whether it is at the two checks of the
  store; the last entry of \<open>ctx\<close> is its state at the end.
\<close>

definition apply_profile ::
  "('h, 'w, 'x) shared_config \<Rightarrow> time \<Rightarrow> (nat \<Rightarrow> inst_world) \<Rightarrow> (nat \<Rightarrow> context_error option)
     \<Rightarrow> (nat \<Rightarrow> ('w, 'x) shared_service \<Rightarrow> ('w, 'x) shared_service) \<Rightarrow> bool \<Rightarrow> bool \<times> bool \<Rightarrow> string
     \<Rightarrow> model_profile \<Rightarrow> string list \<Rightarrow> string \<Rightarrow> ('w, 'x) shared_service \<Rightarrow> ('w, 'x) shared_service" where
  "apply_profile c now ws ctx others late opened i profile ids mode s =
     (let unreadable = (\<lambda>s. failAllModelBindings now profile ids mode ErrorModelCredentialQueryFailed s) in
      case (if late then Inl ErrSharedNoRows
            else GetModelProviderConnection (sv_tables s) (pf_connection profile)) of
        Inl _ \<Rightarrow>
          finish_application c now i (StatusFailed, ErrorModelCredentialQueryFailed, True) (unreadable s)
      | Inr connection \<Rightarrow>
      if so_secrets c = None
      then finish_application c now i (StatusFailed, ErrorModelCredentialQueryFailed, True) (unreadable s)
      else
     (case models_Use (so_secrets c) opened (pc_secret_ref connection)
             (\<lambda>secret y. apply_loop c ws ctx others i profile mode (pc_preset connection) secret 0 ids y)
             (sv_secrets s) (s, False) of
        ((s1, failed), None) \<Rightarrow>
          finish_application c now i (application_outcome (ctx (length ids)) failed) s1
      | ((s1, failed), Some _) \<Rightarrow>
          finish_application c now i (application_outcome (ctx (length ids)) True) (unreadable s1)))"

definition runModelProfileApplication ::
  "('h, 'w, 'x) shared_config \<Rightarrow> time \<Rightarrow> (nat \<Rightarrow> inst_world) \<Rightarrow> (nat \<Rightarrow> context_error option)
     \<Rightarrow> (nat \<Rightarrow> ('w, 'x) shared_service \<Rightarrow> ('w, 'x) shared_service) \<Rightarrow> bool \<Rightarrow> bool \<times> bool \<Rightarrow> operation
     \<Rightarrow> model_profile \<Rightarrow> string list \<Rightarrow> string \<Rightarrow> ('w, 'x) shared_service \<Rightarrow> ('w, 'x) shared_service" where
  "runModelProfileApplication c now ws ctx others late opened created profile ids mode s =
     (let s' = (case claim_application c now (op_id created) s of
                  (s1, False) \<Rightarrow> s1
                | (s1, True) \<Rightarrow> apply_profile c now ws ctx others late opened (op_id created) profile ids mode s1)
      in s'\<lparr>sv_models := stop_validation (op_id created) (sv_models s')\<rparr>)"

end
