(* ===== verification/Model_Properties.thy ===== *)
theory Model_Properties
  imports Shared_Model_Worker Backup_Manifest_Properties Instance_Properties Management_Properties
begin

text \<open>
  Properties of model configuration: the selection that a client stores is the one it reads back,
  and an applied profile is reported as succeeded only when every instance was given it.
\<close>

subsection \<open>The stored selection\<close>

definition plain_texts :: "string list \<Rightarrow> bool" where
  "plain_texts ms \<longleftrightarrow> (\<forall>m \<in> set ms. ValidString m)"

lemma selected_text_parses:
  assumes "ValidString preset" "plain_texts ms"
  shows "selected_of_text (selected_text preset ms) = Some \<lparr>ss_preset = preset, ss_models = ms\<rparr>"
proof -
  let ?v = "VObj [(''providerPresetId'', VStr preset), (''modelIds'', strings_value ms)]"
  have "wf_value ?v" "fits 0 ?v"
    using assms
    by (simp_all add: strings_value_def plain_texts_def ascii_valid list_all_iff maxNestingDepth_def)
  then have "json_parse (selected_text preset ms) = Some ?v"
    unfolding selected_text_def by (rule json_roundtrip)
  then show ?thesis
    by (simp add: selected_of_text_def find_field_def selected_fields_def set_strings_value)
qed

lemma put_get_setting:
  "GetAppSetting (PutAppSetting ts k v now) k = Some v"
  "k' \<noteq> k \<Longrightarrow> GetAppSetting (PutAppSetting ts k v now) k' = GetAppSetting ts k'"
proof -
  have hit: "first_match (\<lambda>t. st_key t = k)
      (map (\<lambda>t. if st_key t = k then t\<lparr>st_value := v, st_updated_at := now\<rparr> else t) ts)
    = map_option (\<lambda>t. t\<lparr>st_value := v, st_updated_at := now\<rparr>) (first_match (\<lambda>t. st_key t = k) ts)"
    by (induction ts) auto
  have miss: "first_match (\<lambda>t. st_key t = k')
      (map (\<lambda>t. if st_key t = k then t\<lparr>st_value := v, st_updated_at := now\<rparr> else t) ts)
    = first_match (\<lambda>t. st_key t = k') ts" if "k' \<noteq> k"
    using that by (induction ts) auto
  have snoc: "first_match P (us @ [x])
    = (case first_match P us of Some y \<Rightarrow> Some y | None \<Rightarrow> if P x then Some x else None)"
    for P us and x :: app_setting
    by (induction us) auto
  have none: "first_match (\<lambda>t. st_key t = k) ts = None \<longleftrightarrow> (\<forall>t \<in> set ts. st_key t \<noteq> k)"
    by (induction ts) auto
  show "GetAppSetting (PutAppSetting ts k v now) k = Some v"
    using none
    by (cases "first_match (\<lambda>t. st_key t = k) ts") (auto simp: GetAppSetting_def PutAppSetting_def hit snoc)
  show "GetAppSetting (PutAppSetting ts k v now) k' = GetAppSetting ts k'" if "k' \<noteq> k"
    using that by (auto simp: GetAppSetting_def PutAppSetting_def miss snoc split: option.splits)
qed

lemma selection_kept:
  assumes "validateSelectedModels admits preset model selected" "ValidString preset" "plain_texts selected"
    and "mf_preset config = preset" "mf_model config = model"
  shows "readSelectedModelIDs admits i config (writeSelectedModelIDs now i preset selected ts) = selected"
  using assms
  by (simp add: readSelectedModelIDs_def writeSelectedModelIDs_def put_get_setting selected_text_parses)

lemma resolve_handle:
  assumes "resolve_model c w mutation own i s = (s1, Inr (row, h, inst))"
  shows "Option.bind (hermes_bundle (mo_inst c)) bn_models = Some h" "ms_settings s1 = ms_settings s"
  using assms
  by (auto simp: resolve_model_def resolveModelTargetForOperation_def Let_def
      split: if_splits sum.splits option.splits prod.splits)

lemma view_fields:
  "vm_preset (fst (modelConfigurationView c now i config failed s)) = mf_preset config"
  "vm_model (fst (modelConfigurationView c now i config failed s)) = mf_model config"
  by (simp_all add: modelConfigurationView_def Let_def split: sum.split option.split)

lemma patch_done:
  assumes "PatchModelConfiguration c w i preset model selected s = (s1, view, None)"
  obtains h where "Option.bind (hermes_bundle (mo_inst c)) bn_models = Some h"
    "validateSelectedModels (md_selection (mo_adapter c) h) preset model selected"
    "ms_settings s1 = writeSelectedModelIDs (wd_now w) i preset selected (ms_settings s)"
proof -
  obtain s0 row h inst where target: "resolve_model c w True [] i s = (s0, Inr (row, h, inst))"
    using assms by (auto simp: PatchModelConfiguration_def split: sum.splits prod.splits)
  show ?thesis
    using assms resolve_handle [OF target] target that [of h]
    by (auto simp: PatchModelConfiguration_def store_selection_def Let_def
        split: prod.splits if_splits option.splits)
qed

lemma get_done:
  assumes "GetModelConfiguration c w i s = (s1, view, None)"
  obtains h config where "Option.bind (hermes_bundle (mo_inst c)) bn_models = Some h"
    "mf_preset config = vm_preset view" "mf_model config = vm_model view"
    "vm_selected view = readSelectedModelIDs (md_selection (mo_adapter c) h) i config (ms_settings s)"
proof -
  obtain s0 row h inst where target: "resolve_model c w False [] i s = (s0, Inr (row, h, inst))"
    using assms by (auto simp: GetModelConfiguration_def split: sum.splits prod.splits)
  obtain config failed where config: "md_read (mo_adapter c) h inst (in_native row) (ms_world s0) = (config, failed)"
    by fastforce
  have "vm_preset view = mf_preset config" "vm_model view = mf_model config"
    "vm_selected view = readSelectedModelIDs (md_selection (mo_adapter c) h) i config (ms_settings s)"
    using assms target config resolve_handle [OF target]
      view_fields [of c "wd_now w" i config failed s0]
    by (auto simp: GetModelConfiguration_def split: prod.splits option.splits)
  then show ?thesis using that [of h config] resolve_handle [OF target] by simp
qed

text \<open>
  C21. A client that changes the model configuration of an instance reads back the selection it
  gave, for as long as the settings table stays and Hermes reports the same Provider and model:
  the selection survives being written as JSON, and the checks that guard the read accept what the
  write let through. The texts are valid UTF-8.
\<close>

theorem selection_is_read_back:
  assumes patched: "PatchModelConfiguration c w i preset model selected s = (s1, view, None)"
    and plain: "ValidString preset" "plain_texts selected"
    and kept: "ms_settings s2 = ms_settings s1"
    and read: "GetModelConfiguration c w' i s2 = (s3, view', None)"
    and same: "vm_preset view' = preset" "vm_model view' = model"
  shows "vm_selected view' = selected"
proof -
  obtain h where h: "Option.bind (hermes_bundle (mo_inst c)) bn_models = Some h"
    and valid: "validateSelectedModels (md_selection (mo_adapter c) h) preset model selected"
    and written: "ms_settings s1 = writeSelectedModelIDs (wd_now w) i preset selected (ms_settings s)"
    by (rule patch_done [OF patched])
  obtain h' config where h': "Option.bind (hermes_bundle (mo_inst c)) bn_models = Some h'"
    and config: "mf_preset config = preset" "mf_model config = model"
    and view': "vm_selected view'
      = readSelectedModelIDs (md_selection (mo_adapter c) h') i config (ms_settings s2)"
    using get_done [OF read] same by metis
  from h h' have "h' = h" by simp
  then show ?thesis using selection_kept [OF valid plain config] view' written kept by simp
qed

subsection \<open>Rows that are not yet successful\<close>

lemma emit_model_inst [simp]: "ms_inst (emitValidationOperation now p nxt b m) = ms_inst m"
  by (simp add: emitValidationOperation_def Let_def)

lemma persist_unsuccessful:
  assumes "persist_validation c now current nxt m = (m', e)" "op_status nxt \<noteq> StatusSucceeded"
  shows "unsuccessful i (model_db m) \<Longrightarrow> unsuccessful i (model_db m')"
  using assms
  by (auto simp: persist_validation_def put_model_db_def put_db_def split: sum.splits
      dest: update_unsuccessful)

lemma finish_unsuccessful:
  assumes "finish_application c now j (st, code, retry) s = s'" "st \<noteq> StatusSucceeded"
  shows "unsuccessful i (shared_db s) \<Longrightarrow> unsuccessful i (shared_db s')"
  using assms
  by (auto simp: finish_application_def finishSharedModelOperation_def finished_application_def Let_def
      split: sum.splits option.splits prod.splits if_splits dest!: persist_unsuccessful)

lemma reconcile_rows:
  "reconcileLocked c w inst s = (s1, r) \<Longrightarrow> db_operations (iz_db s1) = db_operations (iz_db s)"
  by (auto simp: reconcileLocked_def reconcile_inventory_def put_inventory_def
      split: sum.splits option.splits)

lemma resolve_rows:
  "resolveModelTargetForOperation c w mutation own i s = (s1, r) \<Longrightarrow>
     db_operations (iz_db s1) = db_operations (iz_db s)"
  by (auto simp: resolveModelTargetForOperation_def dest: reconcile_rows
      split: if_splits sum.splits option.splits prod.splits)

lemma store_selection_inst [simp]: "ms_inst (fst (store_selection now i p sel r m)) = ms_inst m"
  by (simp add: store_selection_def split: prod.split option.split)

lemma save_rows:
  assumes "saveModelCredentialConfiguration c w i preset model selected secret own m = (m', view, e)"
  shows "db_operations (model_db m') = db_operations (model_db m)"
proof -
  obtain m0 r where target: "resolve_model c w True own i m = (m0, r)" by fastforce
  have rows: "db_operations (model_db m0) = db_operations (model_db m)"
    using target by (auto simp: resolve_model_def dest: resolve_rows split: prod.splits)
  have "ms_inst m' = ms_inst m0"
    using assms target
    by (auto simp: saveModelCredentialConfiguration_def Let_def
        dest!: arg_cong [of _ _ "\<lambda>q. ms_inst (fst q)"]
        split: sum.splits prod.splits if_splits option.splits)
  then show ?thesis using rows by simp
qed

subsection \<open>Bindings of an applied profile\<close>

definition given :: "shared_tables \<Rightarrow> model_profile \<Rightarrow> string \<Rightarrow> bool" where
  "given t profile i \<longleftrightarrow>
     (\<exists>b \<in> set (sh_bindings t). bg_instance b = i \<and> bg_state b = ''SUCCEEDED''
        \<and> bg_profile b = pf_id profile \<and> bg_revision b = pf_revision profile)"

lemma put_binding_models: "sv_models (fst (put_binding v s)) = sv_models s"
  by (simp add: put_binding_def split: sum.split)

lemma upsert_binding_set:
  assumes "UpsertInstanceModelBinding iv v t = Inr t'"
  shows "set (sh_bindings t') = insert v {b \<in> set (sh_bindings t). bg_instance b \<noteq> bg_instance v}"
proof (cases "list_ex (\<lambda>b. bg_instance b = bg_instance v) (sh_bindings t)")
  case True
  then obtain b where "b \<in> set (sh_bindings t)" "bg_instance b = bg_instance v"
    by (auto simp: list_ex_iff)
  then show ?thesis
    using assms True by (auto simp: UpsertInstanceModelBinding_def image_iff split: if_splits)
next
  case False
  then show ?thesis
    using assms by (auto simp: UpsertInstanceModelBinding_def list_ex_iff split: if_splits)
qed

lemma put_binding_given:
  assumes "put_binding (binding_for now profile mode st code i) s = (s', None)"
  shows "given (sv_tables s) profile j \<Longrightarrow> j \<noteq> i \<Longrightarrow> given (sv_tables s') profile j"
    "st = ''SUCCEEDED'' \<Longrightarrow> given (sv_tables s') profile i"
  using assms
  by (auto simp: put_binding_def given_def binding_for_def split: sum.splits dest!: upsert_binding_set)

lemma apply_given:
  assumes "apply_to_instance c w own profile mode preset secret i s = (s', False)"
  shows "given (sv_tables s') profile i"
    "given (sv_tables s) profile j \<Longrightarrow> given (sv_tables s') profile j"
proof -
  obtain m view failed where save: "saveModelCredentialConfiguration (so_model c) w i preset
      (pf_default_model profile) (pf_selected profile) secret own (sv_models s) = (m, view, failed)"
    by (cases "saveModelCredentialConfiguration (so_model c) w i preset (pf_default_model profile)
        (pf_selected profile) secret own (sv_models s)") auto
  have put: "put_binding (binding_for (wd_now w) profile mode ''SUCCEEDED'' [] i) (s\<lparr>sv_models := m\<rparr>)
      = (s', None)"
    using assms save by (auto simp: apply_to_instance_def Let_def split: prod.splits option.splits)
  show "given (sv_tables s') profile i" using put_binding_given(2) [OF put] by simp
  then show "given (sv_tables s') profile j" if "given (sv_tables s) profile j"
    using put_binding_given(1) [OF put, of j] that by (cases "j = i") simp_all
qed

lemma apply_rows:
  assumes "apply_to_instance c w own profile mode preset secret i s = (s', bad)"
  shows "db_operations (shared_db s') = db_operations (shared_db s)"
  using assms
  by (auto simp: apply_to_instance_def Let_def put_binding_def dest!: save_rows
      split: prod.splits sum.splits)

lemma put_bindings_models: "sv_models (put_bindings now profile mode st code ids s) = sv_models s"
  unfolding put_bindings_def by (induction ids arbitrary: s) (simp_all add: put_binding_models)

text \<open>What the other handlers may not do while the worker runs.\<close>

definition leaves_application :: "string \<Rightarrow> (('w, 'x) shared_service \<Rightarrow> ('w, 'x) shared_service) \<Rightarrow> bool" where
  "leaves_application i f \<longleftrightarrow>
     (\<forall>s. sv_tables (f s) = sv_tables s
        \<and> (unsuccessful i (shared_db s) \<longrightarrow> unsuccessful i (shared_db (f s))))"

lemma loop_given:
  assumes "apply_loop c ws ctx others own profile mode preset secret n ids (s, failed) = (s', False)"
    and "\<forall>k. leaves_application own (others k)"
  shows "\<not> failed \<and> (\<forall>i \<in> set ids. given (sv_tables s') profile i)
    \<and> (\<forall>j. given (sv_tables s) profile j \<longrightarrow> given (sv_tables s') profile j)"
  using assms(1)
proof (induction ids arbitrary: n s failed)
  case (Cons i ids)
  define s0 where "s0 = others n s"
  have tables: "sv_tables s0 = sv_tables s" using assms(2) by (simp add: s0_def leaves_application_def)
  have ctx: "ctx n = None" using Cons.prems by (auto simp: Let_def split: if_splits)
  obtain s1 bad where one: "apply_to_instance c (ws n) own profile mode preset secret i s0 = (s1, bad)"
    by fastforce
  have rest: "apply_loop c ws ctx others own profile mode preset secret (Suc n) ids (s1, failed \<or> bad)
      = (s', False)"
    using Cons.prems ctx one by (simp add: Let_def s0_def)
  from Cons.IH [OF this] have "\<not> failed" "\<not> bad" "\<forall>i \<in> set ids. given (sv_tables s') profile i"
    "\<forall>j. given (sv_tables s1) profile j \<longrightarrow> given (sv_tables s') profile j" by auto
  with apply_given [of c "ws n" own profile mode preset secret i s0 s1] one tables show ?case by auto
qed simp

lemma loop_unsuccessful:
  assumes "\<forall>k. leaves_application own (others k)" "unsuccessful own (shared_db s)"
  shows "unsuccessful own
    (shared_db (fst (apply_loop c ws ctx others own profile mode preset secret n ids (s, failed))))"
  using assms(2)
proof (induction ids arbitrary: n s failed)
  case (Cons i ids)
  have "unsuccessful own (shared_db (others n s))"
    using assms(1) Cons.prems by (simp add: leaves_application_def)
  moreover obtain s1 bad where
    one: "apply_to_instance c (ws n) own profile mode preset secret i (others n s) = (s1, bad)"
    by fastforce
  ultimately have "unsuccessful own (shared_db s1)" using unsuccessful_rows [OF apply_rows [OF one]] by simp
  then show ?case
    using Cons.IH [of s1] one \<open>unsuccessful own (shared_db (others n s))\<close>
    by (simp add: Let_def skipRemainingModelBindings_def put_bindings_models)
qed simp

subsection \<open>A successful application reached every instance\<close>

lemma claim_unsuccessful:
  "claim_application c now i s = (s', b) \<Longrightarrow> unsuccessful j (shared_db s) \<Longrightarrow> unsuccessful j (shared_db s')"
  by (auto simp: claim_application_def running_application_def split: if_splits sum.splits prod.splits
      dest: persist_unsuccessful)

lemma stop_rows: "model_db (stop_validation i m) = model_db m"
  by (simp add: stop_validation_def stop_worker_def)

lemma fail_all_rows: "shared_db (failAllModelBindings now profile ids mode code s) = shared_db s"
  by (simp add: failAllModelBindings_def put_bindings_models)

lemma finish_tables: "sv_tables (finish_application c now i r s) = sv_tables s"
  by (auto simp: finish_application_def finishSharedModelOperation_def Let_def
      split: prod.split sum.split option.split)

lemma profile_given:
  assumes run: "apply_profile c now ws ctx others late opened i profile ids mode s = s'"
    and others: "\<forall>k. leaves_application i (others k)"
    and start: "unsuccessful i (shared_db s)" and finish: "\<not> unsuccessful i (shared_db s')"
  shows "\<forall>j \<in> set ids. given (sv_tables s') profile j"
proof -
  let ?lookup = "if late then Inl ErrSharedNoRows
    else GetModelProviderConnection (sv_tables s) (pf_connection profile)"
  have lost: False if "s' = finish_application c now i (StatusFailed, code, True)
      (failAllModelBindings now profile ids mode code s)" for code
    using finish finish_unsuccessful [OF that [symmetric]] start by (simp add: fail_all_rows)
  obtain k connection where "so_secrets c = Some k" "?lookup = Inr connection"
    using run lost unfolding apply_profile_def Let_def by (cases ?lookup; cases "so_secrets c") auto
  define loop where "loop = (\<lambda>secret y.
    apply_loop c ws ctx others i profile mode (pc_preset connection) secret 0 ids y)"
  obtain s1 failed e where used: "models_Use (so_secrets c) opened (pc_secret_ref connection) loop
      (sv_secrets s) (s, False) = ((s1, failed), e)"
    by (metis surj_pair)
  have ran: "(s1, failed) = (s, False) \<and> e \<noteq> None \<or> (\<exists>secret. loop secret (s, False) = (s1, failed))"
    using used by (auto simp: models_Use_def store_Get_def split: option.splits if_splits sum.splits)
  then have mid: "unsuccessful i (shared_db s1)"
    using start loop_unsuccessful [OF others start, of c ws ctx profile mode "pc_preset connection" _ 0 ids False]
    by (auto simp: loop_def) (metis fst_conv)
  have s': "s' = (case e of
        None \<Rightarrow> finish_application c now i (application_outcome (ctx (length ids)) failed) s1
      | Some _ \<Rightarrow> finish_application c now i (application_outcome (ctx (length ids)) True)
          (failAllModelBindings now profile ids mode ErrorModelCredentialQueryFailed s1))"
    using run \<open>?lookup = Inr connection\<close> \<open>so_secrets c = Some k\<close> used
    by (auto simp: apply_profile_def Let_def loop_def split: option.splits)
  have bad: "\<exists>st code. application_outcome x True = (st, code, True) \<and> st \<noteq> StatusSucceeded" for x
    by (auto simp: application_outcome_def split: option.split context_error.split)
  have "e = None \<and> \<not> failed"
  proof (rule ccontr)
    assume "\<not> ?thesis"
    then obtain s2 where "s' = finish_application c now i (application_outcome (ctx (length ids)) True) s2"
      "unsuccessful i (shared_db s2)"
      using s' mid by (cases e) (auto simp: fail_all_rows)
    with bad [of "ctx (length ids)"] finish show False by (metis finish_unsuccessful)
  qed
  with ran obtain secret where "loop secret (s, False) = (s1, False)" by auto
  then have "\<forall>j \<in> set ids. given (sv_tables s1) profile j"
    unfolding loop_def by (blast dest: loop_given [OF _ others])
  with \<open>e = None \<and> \<not> failed\<close> s' show ?thesis by (simp add: finish_tables)
qed


subsection \<open>Samples\<close>

definition model_sample :: model_configuration where
  "model_sample =
     \<lparr>mf_preset = ''p'', mf_model = ''m'', mf_state = ModelConfigurationConfigured, mf_credential = True\<rparr>"

definition adapter_sample :: "(nat, unit) model_adapter" where
  "adapter_sample =
     \<lparr>md_presets = (\<lambda>_. []), md_selection = (\<lambda>_ _ _. True), md_read = (\<lambda>_ _ _ _. (model_sample, None)),
      md_apply = (\<lambda>_ _ _ _ _ x. (x, model_sample, None)),
      md_status = (\<lambda>_ _ _ _ _. (\<lparr>ct_preset = ''p'', ct_configured = True\<rparr>, None)),
      md_set = (\<lambda>_ _ _ _ _ x. (x, \<lparr>ct_preset = ''p'', ct_configured = True\<rparr>, None)),
      md_delete = (\<lambda>_ _ _ _ x. (x, \<lparr>ct_preset = ''p'', ct_configured = False\<rparr>, None)),
      md_validate = (\<lambda>_ _ _ _ _ x. (x, \<lparr>vl_state = ModelValidationPassed, vl_code = []\<rparr>)),
      md_fetch = (\<lambda>_. None)\<rparr>"

definition model_config_sample :: "(nat, unit) model_config" where
  "model_config_sample =
     \<lparr>mo_inst = \<lparr>ic_node_id = ''n'',
        ic_registry = Some [(''hermes'', sample_bundle\<lparr>bn_models := Some 7\<rparr>)], ic_source = True,
        ic_mutator = True, ic_message = (\<lambda>_. []), ic_resolve = (\<lambda>_ _ _. None)\<rparr>,
      mo_adapter = adapter_sample, mo_sha256 = (\<lambda>_. [])\<rparr>"

definition model_world_sample :: inst_world where
  "model_world_sample =
     inst_world_sample [\<lparr>ps_native = ''default'', ps_default = True\<rparr>, \<lparr>ps_native = ''old'', ps_default = False\<rparr>]"

definition application_sample :: operation where
  "application_sample =
     (sample_operation ''op'' TypeModelProfileApply TargetRuntimeInstallation 1)\<lparr>op_target_id := ''rt''\<rparr>"

definition model_service_sample :: "operation list \<Rightarrow> unit model_service" where
  "model_service_sample ops =
     \<lparr>ms_inst = inst_state_sample\<lparr>iz_db := \<lparr>db_operations = ops, db_instances = []\<rparr>\<rparr>,
      ms_settings = [], ms_events = None, ms_world = ()\<rparr>"

lemma get_runs:
  assumes "resolve_model c w False [] i s = (s1, Inr (row, h, inst))"
    and "md_read (mo_adapter c) h inst (in_native row) (ms_world s1) = (config, None)"
    and "LatestCompletedModelValidation (model_db s1) i = Inr None"
  obtains view where "GetModelConfiguration c w i (s\<lparr>ms_settings := ts\<rparr>) = (s1\<lparr>ms_settings := ts\<rparr>, view, None)"
    "vm_preset view = mf_preset config" "vm_model view = mf_model config"
  using assms
  by (auto simp: GetModelConfiguration_def modelConfigurationView_def resolve_model_def Let_def
      split: prod.splits)

lemma sample_resolves:
  "case resolve_model model_config_sample model_world_sample False [] ''inst_b'' (model_service_sample []) of
     (s1, Inl _) \<Rightarrow> False
   | (s1, Inr _) \<Rightarrow>
       (case LatestCompletedModelValidation (model_db s1) ''inst_b'' of Inr None \<Rightarrow> True | _ \<Rightarrow> False)"
  by code_simp

lemma sample_read: "md_read (mo_adapter model_config_sample) h inst native x = (model_sample, None)"
  by (simp add: model_config_sample_def adapter_sample_def)

theorem selection_is_read_back_witness:
  "\<exists>s1 view s3 view'. PatchModelConfiguration model_config_sample model_world_sample ''inst_b'' ''p'' ''m''
       [''k'', ''m''] (model_service_sample []) = (s1, view, None)
     \<and> GetModelConfiguration model_config_sample model_world_sample ''inst_b''
         ((model_service_sample [])\<lparr>ms_settings := ms_settings s1\<rparr>) = (s3, view', None)
     \<and> vm_selected view' = [''k'', ''m'']"
proof -
  let ?patch = "PatchModelConfiguration model_config_sample model_world_sample ''inst_b'' ''p'' ''m''
       [''k'', ''m''] (model_service_sample [])"
  have "snd (snd ?patch) = None" by code_simp
  then obtain s1 view where patched: "?patch = (s1, view, None)" by (metis prod.collapse)
  let ?s2 = "(model_service_sample [])\<lparr>ms_settings := ms_settings s1\<rparr>"
  obtain s0 row h inst where "resolve_model model_config_sample model_world_sample False [] ''inst_b''
      (model_service_sample []) = (s0, Inr (row, h, inst))"
    "LatestCompletedModelValidation (model_db s0) ''inst_b'' = Inr None"
    using sample_resolves by (auto split: prod.splits sum.splits option.splits)
  from get_runs [OF this(1) sample_read this(2), of "ms_settings s1"] obtain view' where
    got: "GetModelConfiguration model_config_sample model_world_sample ''inst_b'' ?s2
        = (s0\<lparr>ms_settings := ms_settings s1\<rparr>, view', None)"
      "vm_preset view' = mf_preset model_sample" "vm_model view' = mf_model model_sample"
    by blast
  have same: "mf_preset model_sample = ''p''" "mf_model model_sample = ''m''"
    by (simp_all add: model_sample_def)
  have "vm_selected view' = [''k'', ''m'']"
    by (rule selection_is_read_back [OF patched _ _ _ got [unfolded same]])
      (simp_all add: plain_texts_def ascii_valid)
  with patched got show ?thesis by blast
qed

definition profile_sample :: model_profile where
  "profile_sample =
     \<lparr>pf_id = ''mpr'', pf_installation = ''rt'', pf_connection = ''mpc'', pf_name = ''n'',
      pf_selected = [''m''], pf_default_model = ''m'', pf_revision = 1, pf_created_at = 1, pf_updated_at = 1\<rparr>"

definition shared_config_sample :: "(nat, unit, unit) shared_config" where
  "shared_config_sample =
     \<lparr>so_model = model_config_sample,
      so_secrets = Some (other_backend\<lparr>bk_get := \<lambda>_ _. Inr ''key''\<rparr>), so_chars = length\<rparr>"

definition shared_service_sample :: "(unit, unit) shared_service" where
  "shared_service_sample =
     \<lparr>sv_models = model_service_sample [application_sample],
      sv_tables = \<lparr>sh_connections = [new_connection 1 ''mpc'' ''rt'' ''p'' ''n'' ''ref''],
                   sh_profiles = [stored_profile profile_sample], sh_defaults = [], sh_bindings = []\<rparr>,
      sv_secrets = ()\<rparr>"


end
