(* ===== verification/Channel_Table.thy ===== *)
theory Channel_Table
  imports Inventory_DB
begin

text \<open>
  Messaging channels of an instance: the domain types (domain/channel/channel.go), the table of
  bindings (persistence/sqlite/channel\_bindings.go, migration 010) as a list of rows, and the broker
  that keeps a QR payload for the session that asked for it (app/channel\_qr.go). The mutex makes a
  call of the broker one step; each reads the clock. Times are read back as they were written.
\<close>

subsection \<open>Types\<close>

definition Weixin :: string where "Weixin = ''weixin''"
definition WeCom :: string where "WeCom = ''wecom''"

definition ChannelNotConfigured :: string where "ChannelNotConfigured = ''NOT_CONFIGURED''"
definition ChannelConnecting :: string where "ChannelConnecting = ''CONNECTING''"
definition ChannelConnected :: string where "ChannelConnected = ''CONNECTED''"
definition ChannelDisconnected :: string where "ChannelDisconnected = ''DISCONNECTED''"
definition ChannelFailed :: string where "ChannelFailed = ''FAILED''"
definition ChannelUnknown :: string where "ChannelUnknown = ''UNKNOWN''"

record channel_binding =
  cb_id :: string
  cb_instance :: string
  cb_type :: string
  cb_state :: string
  cb_label :: string
  cb_external :: string
  cb_checked_at :: "time option"
  cb_created_at :: time
  cb_updated_at :: time

definition ValidType :: "string \<Rightarrow> bool" where
  "ValidType v \<longleftrightarrow> v = Weixin \<or> v = WeCom"

definition ValidState :: "string \<Rightarrow> bool" where
  "ValidState v \<longleftrightarrow>
     v \<in> set [ChannelNotConfigured, ChannelConnecting, ChannelConnected, ChannelDisconnected, ChannelFailed,
              ChannelUnknown]"

subsection \<open>The table\<close>

definition NewChannelBindingID :: "nat list option \<Rightarrow> string option" where
  "NewChannelBindingID rnd = map_option (\<lambda>bs. ''chb_'' @ RawURLEncoding (take 18 bs)) rnd"

definition binding_key :: "channel_binding \<Rightarrow> string \<times> string" where
  "binding_key v = (cb_instance v, cb_type v)"

definition ListChannelBindings :: "channel_binding list \<Rightarrow> string \<Rightarrow> channel_binding list" where
  "ListChannelBindings rows i = sort_key cb_type (filter (\<lambda>r. cb_instance r = i) rows)"

definition GetChannelBinding :: "channel_binding list \<Rightarrow> string \<Rightarrow> string \<Rightarrow> channel_binding option" where
  "GetChannelBinding rows i kind = first_match (\<lambda>r. binding_key r = (i, kind)) rows"

text \<open>
  The checks of the table are those of the function. The conflict clause names the unique key only:
  an identifier that another row has violates the primary key, and a foreign instance the foreign
  key.
\<close>

definition refreshed_binding :: "channel_binding \<Rightarrow> channel_binding \<Rightarrow> channel_binding" where
  "refreshed_binding v r =
     r\<lparr>cb_state := cb_state v, cb_label := cb_label v, cb_external := cb_external v,
       cb_checked_at := cb_checked_at v, cb_updated_at := cb_updated_at v\<rparr>"

definition UpsertChannelBinding ::
  "string list \<Rightarrow> channel_binding list \<Rightarrow> channel_binding \<Rightarrow> channel_binding list option" where
  "UpsertChannelBinding instances rows v =
     (if cb_id v = [] \<or> cb_instance v = [] \<or> \<not> ValidType (cb_type v) \<or> \<not> ValidState (cb_state v) then None
      else if list_ex (\<lambda>r. cb_id r = cb_id v \<and> binding_key r \<noteq> binding_key v) rows then None
      else if cb_instance v \<notin> set instances then None
      else if list_ex (\<lambda>r. binding_key r = binding_key v) rows
      then Some (map (\<lambda>r. if binding_key r = binding_key v then refreshed_binding v r else r) rows)
      else Some (rows @ [v]))"

subsection \<open>The broker of QR payloads\<close>

definition channelQRMaxPayload :: nat where "channelQRMaxPayload = 8 * 1024"
definition channelSessionMin :: nat where "channelSessionMin = 20"
definition channelSessionMax :: nat where "channelSessionMax = 128"

definition validChannelSession :: "string \<Rightarrow> bool" where
  "validChannelSession v \<longleftrightarrow>
     \<not> (length v < channelSessionMin \<or> length v > channelSessionMax)
     \<and> list_all (\<lambda>c. is_alnum c \<or> c = CHR ''-'' \<or> c = CHR ''_'') v"

record qr_entry =
  qe_owner :: string
  qe_payload :: string
  qe_expires_at :: time

type_synonym qr_entries = "(string \<times> qr_entry) list"

datatype qr_error = ErrQRUnavailable | ErrQRSession

definition sweepLocked :: "time \<Rightarrow> qr_entries \<Rightarrow> qr_entries" where
  "sweepLocked now = filter (\<lambda>q. qe_expires_at (snd q) > now)"

definition qr_Publish ::
  "time \<Rightarrow> string \<Rightarrow> string \<Rightarrow> string \<Rightarrow> time \<Rightarrow> qr_entries \<Rightarrow> qr_entries \<times> qr_error option" where
  "qr_Publish now i owner payload expiresAt b =
     (if i = [] \<or> \<not> validChannelSession owner \<or> payload = [] \<or> length payload > channelQRMaxPayload
         \<or> \<not> expiresAt > now
      then (b, Some ErrQRUnavailable)
      else (AList.update i \<lparr>qe_owner = owner, qe_payload = payload, qe_expires_at = expiresAt\<rparr>
              (sweepLocked now b), None))"

definition qr_Get ::
  "time \<Rightarrow> string \<Rightarrow> string \<Rightarrow> qr_entries \<Rightarrow> qr_entries \<times> (qr_error + string \<times> time)" where
  "qr_Get now i owner b =
     (if i = [] \<or> \<not> validChannelSession owner then (b, Inl ErrQRSession)
      else (sweepLocked now b,
            (case map_of (sweepLocked now b) i of
               None \<Rightarrow> Inl ErrQRUnavailable
             | Some e \<Rightarrow>
                 if qe_owner e \<noteq> owner then Inl ErrQRUnavailable
                 else Inr (qe_payload e, qe_expires_at e))))"

definition qr_Delete :: "string \<Rightarrow> qr_entries \<Rightarrow> qr_entries" where
  "qr_Delete i b = (if i = [] then b else AList.delete i b)"

end
