(* ===== verification/Channel_Service.thy ===== *)
theory Channel_Service
  imports Channel_Table Instance_Service Event_Broker
begin

text \<open>
  The channel service (app/channels.go, runtime/channel.go): listing the channels of an instance and
  storing what is safe to show of them, pairing, connecting and disconnecting through operations
  whose worker talks to the Runtime's channel manager, cancelling, and recovery after a restart.
  The manager acts on a world. Connecting is interactive: the manager announces QR payloads to a
  sink and learns whether each was taken, so its run is a tree. The wiping of secrets is not modelled.
\<close>

subsection \<open>The contract of a channel manager\<close>

record channel_installation =
  ci_executable :: string
  ci_version :: string

record channel_status =
  cu_type :: string
  cu_state :: string
  cu_label :: string
  cu_external :: string

record connect_request =
  cq_type :: string
  cq_bot :: string
  cq_secret :: string

record channel_event =
  ce_stage :: string
  ce_payload :: string
  ce_expires_at :: time

datatype channel_error =
    ChannelNotSupported | ChannelStateUnknown | ChannelAuthFailed | ChannelAuthTimeout
  | ChannelDependency | ChannelDisconnectFailed | ChannelPairingQuery | ChannelPairingCode
  | ChannelPairingLocked | ChannelPairingApproval
  | ChannelContext context_error
  | ChannelOther

text \<open>A run of \<open>BeginConnect\<close>; an announcement continues with whether the sink refused it.\<close>

datatype 'w connect_run =
    Finished 'w "channel_error + channel_status"
  | Announce channel_event "bool \<Rightarrow> 'w connect_run"

record ('h, 'w) channel_manager =
  cm_list :: "'h \<Rightarrow> channel_installation \<Rightarrow> string \<Rightarrow> 'w \<Rightarrow> channel_error + channel_status list"
  cm_begin :: "'h \<Rightarrow> channel_installation \<Rightarrow> string \<Rightarrow> connect_request \<Rightarrow> bool \<Rightarrow> 'w \<Rightarrow> 'w connect_run"
    \<comment> \<open>the flag: whether there is a sink\<close>
  cm_disconnect :: "'h \<Rightarrow> channel_installation \<Rightarrow> string \<Rightarrow> string \<Rightarrow> 'w
     \<Rightarrow> 'w \<times> (channel_error + channel_status)"
  cm_pairing :: "'h \<Rightarrow> channel_installation \<Rightarrow> string \<Rightarrow> string \<Rightarrow> 'w \<Rightarrow> channel_error + int"
  cm_approve :: "'h \<Rightarrow> channel_installation \<Rightarrow> string \<Rightarrow> string \<Rightarrow> string \<Rightarrow> 'w
     \<Rightarrow> 'w \<times> channel_error option"

subsection \<open>Configuration, state and errors\<close>

record ('h, 'w) channel_config =
  co_inst :: "'h inst_config"
  co_manager :: "('h, 'w) channel_manager"

record 'w channel_service =
  ch_inst :: inst_state
  ch_bindings :: "channel_binding list"
  ch_qr :: qr_entries
  ch_events :: "broker option"
  ch_world :: 'w

datatype service_error =
    ErrChannelInstance instance_error
  | ErrChannelNotSupported | ErrChannelConflict | ErrChannelSession | ErrChannelStateUnknown
  | ErrChannelManager channel_error
  | ErrChannelBinding | ErrChannelRandom
  | ErrChannelQR qr_error

abbreviation channel_db :: "'w channel_service \<Rightarrow> database" where
  "channel_db s \<equiv> iz_db (ch_inst s)"

abbreviation channel_message :: "('h, 'w) channel_config \<Rightarrow> sql_failure \<Rightarrow> string" where
  "channel_message c \<equiv> ic_message (co_inst c)"

abbreviation channel_db_error :: "db_error \<Rightarrow> service_error" where
  "channel_db_error e \<equiv> ErrChannelInstance (ErrInstanceOperations e)"

definition put_channel_db :: "database \<Rightarrow> 'w channel_service \<Rightarrow> 'w channel_service" where
  "put_channel_db db s = s\<lparr>ch_inst := put_db db (ch_inst s)\<rparr>"

definition isChannelOperation :: "op_type \<Rightarrow> bool" where
  "isChannelOperation t \<longleftrightarrow> t = TypeChannelConnect \<or> t = TypeChannelDisconnect"

definition channelErrorCode :: "channel_error \<Rightarrow> op_type \<Rightarrow> error_code" where
  "channelErrorCode e t =
     (if e = ChannelNotSupported then ErrorChannelNotSupported
      else if e = ChannelAuthTimeout \<or> e = ChannelContext DeadlineExceeded then ErrorChannelAuthTimeout
      else if e = ChannelDependency then ErrorChannelDependencyMissing
      else if e = ChannelStateUnknown then ErrorChannelStateUnknown
      else if t = TypeChannelDisconnect then ErrorChannelDisconnectFailed
      else ErrorChannelAuthFailed)"

definition channelRetryable :: "channel_error \<Rightarrow> bool" where
  "channelRetryable e \<longleftrightarrow> e \<noteq> ChannelNotSupported \<and> e \<noteq> ChannelAuthFailed"

definition emitChannelOperation ::
  "time \<Rightarrow> string \<Rightarrow> operation \<Rightarrow> bool \<Rightarrow> 'w channel_service \<Rightarrow> 'w channel_service" where
  "emitChannelOperation now previous nxt created s =
     s\<lparr>ch_events := Publish now (ch_events s)
         (NewOperationEvent now (TypeForCommittedOperation created previous (status_text (op_status nxt)))
            (operation_payload_of nxt) now)\<rparr>"

text \<open>An update and, when it is committed, its event.\<close>

definition persist_channel ::
  "('h, 'w) channel_config \<Rightarrow> time \<Rightarrow> operation \<Rightarrow> operation \<Rightarrow> 'w channel_service
     \<Rightarrow> 'w channel_service \<times> db_error option" where
  "persist_channel c now current nxt s =
     (case UpdateOperation (channel_message c) (channel_db s) current nxt of
        Inl e \<Rightarrow> (s, Some e)
      | Inr db \<Rightarrow>
          (emitChannelOperation now (status_text (op_status current)) nxt False (put_channel_db db s), None))"

subsection \<open>Resolving the target\<close>

text \<open>\<open>cancelled\<close>: whether the context is done, which fails the read of the row.\<close>

definition resolve_channel ::
  "'h inst_config \<Rightarrow> inst_world \<Rightarrow> bool \<Rightarrow> string \<Rightarrow> inst_state
     \<Rightarrow> inst_state \<times> (service_error + instance_row \<times> 'h \<times> channel_installation)" where
  "resolve_channel c w cancelled i s =
     (if ic_registry c = None \<or> i = [] then (s, Inl (ErrChannelInstance instance_not_found))
      else if cancelled then (s, Inl (ErrChannelInstance (ErrTarget ErrInstanceNotAvailable)))
      else case GetInstance (iz_inventory s) i of
        Inl e \<Rightarrow>
          (s, Inl (ErrChannelInstance
             (if e = ErrNoRows then instance_not_found else ErrTarget ErrInstanceNotAvailable)))
      | Inr row \<Rightarrow>
          if in_availability row \<noteq> Available
          then (s, Inl (ErrChannelInstance (ErrTarget ErrInstanceNotAvailable)))
          else
     (case (case wd_detect w of
              Inl _ \<Rightarrow> None
            | Inr d \<Rightarrow> if di_state d \<noteq> DiscoverySupported then None
                      else map_option (\<lambda>sel. (d, sel)) (di_selected d)) of
        None \<Rightarrow> (s, Inl (ErrChannelInstance runtime_not_supported))
      | Some (d, sel) \<Rightarrow>
     (case ensureInstallation c w d sel s of
        (s1, Inl _) \<Rightarrow> (s1, Inl (ErrChannelInstance (ErrTarget ErrInstanceNotAvailable)))
      | (s1, Inr accepted) \<Rightarrow>
          if ai_id accepted \<noteq> in_installation row
          then (s1, Inl (ErrChannelInstance (ErrTarget ErrInstanceNotAvailable)))
          else (case Option.bind (hermes_bundle c) bn_channels of
                  None \<Rightarrow> (s1, Inl ErrChannelNotSupported)
                | Some h \<Rightarrow>
                    (s1, Inr (row, h, \<lparr>ci_executable = cn_path sel, ci_version = cn_version sel\<rparr>))))))"

definition resolveChannelTarget ::
  "('h, 'w) channel_config \<Rightarrow> inst_world \<Rightarrow> bool \<Rightarrow> string \<Rightarrow> 'w channel_service
     \<Rightarrow> 'w channel_service \<times> (service_error + instance_row \<times> 'h \<times> channel_installation)" where
  "resolveChannelTarget c w cancelled i s =
     (case resolve_channel (co_inst c) w cancelled i (ch_inst s) of (n, r) \<Rightarrow> (s\<lparr>ch_inst := n\<rparr>, r))"

subsection \<open>Listing\<close>

record channel_view =
  vw_type :: string
  vw_state :: string
  vw_label :: string
  vw_external :: string
  vw_checked_at :: time
  vw_active :: "string option"

text \<open>Only material that was authenticated before, and is the same still, is shown as connected.\<close>

definition promote :: "channel_binding option \<Rightarrow> channel_status \<Rightarrow> channel_status" where
  "promote found t =
     (case found of
        None \<Rightarrow> t
      | Some b \<Rightarrow>
          if cu_state t = ChannelUnknown \<and> cb_state b = ChannelConnected \<and> cu_external t \<noteq> []
             \<and> cb_external b = cu_external t
          then t\<lparr>cu_state := ChannelConnected,
                 cu_label := (if cu_label t = [] then cb_label b else cu_label t)\<rparr>
          else t)"

definition fresh_binding :: "string \<Rightarrow> string \<Rightarrow> string \<Rightarrow> time \<Rightarrow> channel_binding" where
  "fresh_binding i inst kind now =
     \<lparr>cb_id = i, cb_instance = inst, cb_type = kind, cb_state = [], cb_label = [], cb_external = [],
      cb_checked_at = None, cb_created_at = now, cb_updated_at = now\<rparr>"

definition observed_binding :: "time \<Rightarrow> channel_status \<Rightarrow> channel_binding \<Rightarrow> channel_binding" where
  "observed_binding now t b =
     b\<lparr>cb_state := cu_state t, cb_label := cu_label t, cb_external := cu_external t,
       cb_checked_at := Some now, cb_updated_at := now\<rparr>"

definition channel_view_of :: "time \<Rightarrow> operation option \<Rightarrow> channel_status \<Rightarrow> channel_view" where
  "channel_view_of now busy t =
     (let view = \<lparr>vw_type = cu_type t, vw_state = cu_state t, vw_label = cu_label t,
                  vw_external = cu_external t, vw_checked_at = now, vw_active = None\<rparr>
      in case busy of
           Some v \<Rightarrow>
             if op_message v = cu_type t \<and> isChannelOperation (op_kind v)
             then view\<lparr>vw_active := Some (op_id v),
                       vw_state := (if op_kind v = TypeChannelConnect then ChannelConnecting else cu_state t)\<rparr>
             else view
         | None \<Rightarrow> view)"

abbreviation instance_ids :: "'w channel_service \<Rightarrow> string list" where
  "instance_ids s \<equiv> map in_id (iv_instances (iz_inventory (ch_inst s)))"

text \<open>\<open>rs\<close>: what the calls of \<open>rand.Read\<close> deliver, one for each binding that is new.\<close>

fun next_random :: "nat list option list \<Rightarrow> nat list option" where
  "next_random [] = None"
| "next_random (r # rs) = r"

fun list_statuses ::
  "time \<Rightarrow> string \<Rightarrow> operation option \<Rightarrow> nat list option list \<Rightarrow> channel_status list \<Rightarrow> 'w channel_service
     \<Rightarrow> 'w channel_service \<times> (service_error + channel_view list)" where
  "list_statuses now inst busy rs [] s = (s, Inr [])"
| "list_statuses now inst busy rs (t # ts) s =
     (if \<not> ValidType (cu_type t) \<or> \<not> ValidState (cu_state t) then (s, Inl ErrChannelNotSupported)
      else let found = GetChannelBinding (ch_bindings s) inst (cu_type t) in
        case (case found of
                Some b \<Rightarrow> Some (b, rs)
              | None \<Rightarrow>
                  map_option (\<lambda>i. (fresh_binding i inst (cu_type t) now, tl rs))
                    (NewChannelBindingID (next_random rs))) of
          None \<Rightarrow> (s, Inl ErrChannelRandom)
        | Some (b, rs') \<Rightarrow>
       (case UpsertChannelBinding (instance_ids s) (ch_bindings s) (observed_binding now (promote found t) b) of
          None \<Rightarrow> (s, Inl ErrChannelBinding)
        | Some rows \<Rightarrow>
       (case list_statuses now inst busy rs' ts (s\<lparr>ch_bindings := rows\<rparr>) of
          (s1, Inl e) \<Rightarrow> (s1, Inl e)
        | (s1, Inr views) \<Rightarrow> (s1, Inr (channel_view_of now busy (promote found t) # views)))))"

definition ListChannels ::
  "('h, 'w) channel_config \<Rightarrow> inst_world \<Rightarrow> nat list option list \<Rightarrow> string \<Rightarrow> 'w channel_service
     \<Rightarrow> 'w channel_service \<times> (service_error + channel_view list)" where
  "ListChannels c w rs i s =
     (case resolveChannelTarget c w False i s of
        (s1, Inl e) \<Rightarrow> (s1, Inl e)
      | (s1, Inr (row, h, inst)) \<Rightarrow>
     (case cm_list (co_manager c) h inst (in_native row) (ch_world s1) of
        Inl e \<Rightarrow>
          (s1, Inl (if e = ChannelNotSupported then ErrChannelNotSupported else ErrChannelStateUnknown))
      | Inr statuses \<Rightarrow>
     (case ActiveInstanceRuntimeMutation (channel_db s1) (in_id row) of
        Inl e \<Rightarrow> (s1, Inl (channel_db_error e))
      | Inr busy \<Rightarrow> list_statuses (wd_now w) (in_id row) busy rs statuses s1)))"

subsection \<open>Pairing\<close>

definition manager_error :: "channel_error \<Rightarrow> service_error" where
  "manager_error e = (if e = ChannelNotSupported then ErrChannelNotSupported else ErrChannelManager e)"

record pairing_view =
  pw_pending :: int
  pw_checked_at :: time

definition GetChannelPairingStatus ::
  "('h, 'w) channel_config \<Rightarrow> inst_world \<Rightarrow> string \<Rightarrow> string \<Rightarrow> 'w channel_service
     \<Rightarrow> 'w channel_service \<times> (service_error + pairing_view)" where
  "GetChannelPairingStatus c w i kind s =
     (case resolveChannelTarget c w False i s of
        (s1, Inl e) \<Rightarrow> (s1, Inl e)
      | (s1, Inr (row, h, inst)) \<Rightarrow>
          (s1, (case cm_pairing (co_manager c) h inst (in_native row) kind (ch_world s1) of
                  Inl e \<Rightarrow> Inl (manager_error e)
                | Inr n \<Rightarrow> Inr \<lparr>pw_pending = n, pw_checked_at = wd_now w\<rparr>)))"

definition ApproveChannelPairing ::
  "('h, 'w) channel_config \<Rightarrow> inst_world \<Rightarrow> string \<Rightarrow> string \<Rightarrow> string \<Rightarrow> 'w channel_service
     \<Rightarrow> 'w channel_service \<times> service_error option" where
  "ApproveChannelPairing c w i kind code s =
     (case resolveChannelTarget c w False i s of
        (s1, Inl e) \<Rightarrow> (s1, Some e)
      | (s1, Inr (row, h, inst)) \<Rightarrow>
          (case cm_approve (co_manager c) h inst (in_native row) kind code (ch_world s1) of
             (x, failed) \<Rightarrow> (s1\<lparr>ch_world := x\<rparr>, map_option manager_error failed)))"

subsection \<open>Starting\<close>

definition newChannelOperation ::
  "inst_world \<Rightarrow> string \<Rightarrow> op_type \<Rightarrow> stage \<Rightarrow> string \<Rightarrow> string \<Rightarrow> operation option" where
  "newChannelOperation w i kind stg type key =
     Option.bind (newOperationID (wd_rnd_id w)) (\<lambda>oid.
       map_option (\<lambda>cor.
         \<lparr>op_id = oid, op_kind = kind, op_target_type = TargetInstance, op_target_id = i,
          op_status = StatusPending, op_stage = stg, op_progress = None, op_message = type,
          op_error_code = [], op_error_message = [], op_retryable = False, op_idempotency_key = key,
          op_correlation_id = cor, op_source_pin = [], op_ownership_nonce = [], op_transaction_id = [],
          op_created_at = wd_now w, op_started_at = None, op_completed_at = None,
          op_updated_at = wd_now w\<rparr>) (newCorrelationID (wd_rnd_correlation w)))"

text \<open>
  Both start handlers share all that follows their checks. Registering the worker is part of the
  step; its run is \<open>startChannelWorker\<close> below, for the installation and the name of \<open>row\<close>.
\<close>

definition start_channel ::
  "('h, 'w) channel_config \<Rightarrow> inst_world \<Rightarrow> op_type \<Rightarrow> stage \<Rightarrow> string \<Rightarrow> string \<Rightarrow> string \<Rightarrow> 'w channel_service
     \<Rightarrow> 'w channel_service \<times> (service_error + started)" where
  "start_channel c w kind stg type i key s =
     (case resolveChannelTarget c w False i s of
        (s1, Inl e) \<Rightarrow> (s1, Inl e)
      | (s1, Inr (row, _, _)) \<Rightarrow>
     (case GetOperationByIdempotencyKey (channel_db s1) key of
        Inl e \<Rightarrow> (s1, Inl (channel_db_error e))
      | Inr (Some existing) \<Rightarrow>
          if op_kind existing \<noteq> kind \<or> op_target_id existing \<noteq> in_id row \<or> op_message existing \<noteq> type
          then (s1, Inl ErrChannelConflict) else (s1, Inr (existing, False))
      | Inr None \<Rightarrow>
     (case ActiveInstanceRuntimeMutation (channel_db s1) (in_id row) of
        Inl e \<Rightarrow> (s1, Inl (channel_db_error e))
      | Inr (Some _) \<Rightarrow> (s1, Inl ErrChannelConflict)
      | Inr None \<Rightarrow>
     (case ActiveInstanceMutation (channel_db s1) (in_installation row) of
        Inl e \<Rightarrow> (s1, Inl (channel_db_error e))
      | Inr (Some _) \<Rightarrow> (s1, Inl ErrChannelConflict)
      | Inr None \<Rightarrow>
     (case newChannelOperation w (in_id row) kind stg type key of
        None \<Rightarrow> (s1, Inl ErrChannelRandom)
      | Some v \<Rightarrow>
     (case CreateOperation (channel_message c) (channel_db s1) v of
        Inl e \<Rightarrow>
          (s1, Inl (if e = ErrDuplicateIdempotency \<or> e = ErrActiveInstanceMutation
                    then ErrChannelConflict else channel_db_error e))
      | Inr db \<Rightarrow>
          (let s2 = emitChannelOperation (wd_now w) [] v True (put_channel_db db s1)
           in (s2\<lparr>ch_inst := start_worker (op_id v) (ch_inst s2)\<rparr>, Inr (v, True)))))))))"

definition StartChannelConnect ::
  "('h, 'w) channel_config \<Rightarrow> inst_world \<Rightarrow> string \<Rightarrow> string \<Rightarrow> string \<Rightarrow> connect_request \<Rightarrow> 'w channel_service
     \<Rightarrow> 'w channel_service \<times> (service_error + started)" where
  "StartChannelConnect c w i key owner input s =
     (if \<not> ValidateIdempotencyKey key then (s, Inl (ErrChannelInstance ErrInstanceKey))
      else if \<not> ValidType (cq_type input) \<or> \<not> validChannelSession owner
              \<or> (cq_type input = Weixin \<and> (cq_bot input \<noteq> [] \<or> length (cq_secret input) \<noteq> 0))
              \<or> (cq_type input = WeCom \<and> (cq_bot input = [] \<or> length (cq_secret input) = 0))
      then (s, Inl ErrChannelSession)
      else start_channel c w TypeChannelConnect StageChannelPreparing (cq_type input) i key s)"

definition StartChannelDisconnect ::
  "('h, 'w) channel_config \<Rightarrow> inst_world \<Rightarrow> string \<Rightarrow> string \<Rightarrow> string \<Rightarrow> 'w channel_service
     \<Rightarrow> 'w channel_service \<times> (service_error + started)" where
  "StartChannelDisconnect c w i key kind s =
     (if \<not> ValidateIdempotencyKey key then (s, Inl (ErrChannelInstance ErrInstanceKey))
      else if \<not> ValidType kind then (s, Inl ErrChannelNotSupported)
      else start_channel c w TypeChannelDisconnect StageChannelDisconnect kind i key s)"

subsection \<open>The QR payload\<close>

definition GetChannelQR ::
  "time \<Rightarrow> string \<Rightarrow> string \<Rightarrow> 'w channel_service
     \<Rightarrow> 'w channel_service \<times> (service_error + string \<times> time)" where
  "GetChannelQR now i owner s =
     (case GetOperation (channel_db s) i of
        Inl _ \<Rightarrow> (s, Inl (ErrChannelQR ErrQRUnavailable))
      | Inr current \<Rightarrow>
          if op_kind current \<noteq> TypeChannelConnect then (s, Inl (ErrChannelQR ErrQRUnavailable))
          else (case qr_Get now i owner (ch_qr s) of
                  (b, Inl e) \<Rightarrow> (s\<lparr>ch_qr := b\<rparr>, Inl (ErrChannelQR e))
                | (b, Inr p) \<Rightarrow> (s\<lparr>ch_qr := b\<rparr>, Inr p)))"

definition updateChannelStage ::
  "('h, 'w) channel_config \<Rightarrow> time \<Rightarrow> string \<Rightarrow> stage \<Rightarrow> 'w channel_service
     \<Rightarrow> 'w channel_service \<times> db_error option" where
  "updateChannelStage c now i stg s =
     (case GetOperation (channel_db s) i of
        Inl e \<Rightarrow> (s, Some e)
      | Inr current \<Rightarrow>
          if IsTerminal (op_status current) then (s, None)
          else persist_channel c now current (current\<lparr>op_stage := stg, op_updated_at := now\<rparr>) s)"

text \<open>The sink of an operation; the result says whether it refused the announcement.\<close>

definition sink_Publish ::
  "('h, 'w) channel_config \<Rightarrow> time \<Rightarrow> string \<Rightarrow> string \<Rightarrow> channel_event \<Rightarrow> 'w channel_service
     \<Rightarrow> 'w channel_service \<times> bool" where
  "sink_Publish c now i owner e s =
     (if ce_stage e \<noteq> ''qr_ready'' \<or> length (ce_payload e) = 0 then (s, True)
      else case qr_Publish now i owner (ce_payload e) (ce_expires_at e) (ch_qr s) of
        (_, Some _) \<Rightarrow> (s, True)
      | (b, None) \<Rightarrow>
     (case updateChannelStage c now i StageChannelQRReady (s\<lparr>ch_qr := b\<rparr>) of
        (s1, Some _) \<Rightarrow> (s1\<lparr>ch_qr := qr_Delete i (ch_qr s1)\<rparr>, True)
      | (s1, None) \<Rightarrow>
          (s1\<lparr>ch_events := Publish now (ch_events s1) (NewChannelQRReadyEvent i (ce_expires_at e) now)\<rparr>,
           False)))"

subsection \<open>The worker\<close>

definition finished_channel :: "time \<Rightarrow> status \<Rightarrow> error_code \<Rightarrow> bool \<Rightarrow> operation \<Rightarrow> operation" where
  "finished_channel now st code retry latest =
     latest\<lparr>op_status := st, op_stage := StageChannelCommitting, op_error_code := code,
            op_retryable := retry, op_completed_at := Some now, op_updated_at := now\<rparr>"

definition finishChannel ::
  "('h, 'w) channel_config \<Rightarrow> time \<Rightarrow> operation \<Rightarrow> status \<Rightarrow> error_code \<Rightarrow> bool \<Rightarrow> 'w channel_service
     \<Rightarrow> 'w channel_service" where
  "finishChannel c now current st code retry s =
     (case GetOperation (channel_db s) (op_id current) of
        Inl _ \<Rightarrow> s
      | Inr latest \<Rightarrow>
          if IsTerminal (op_status latest) then s
          else fst (persist_channel c now latest (finished_channel now st code retry latest) s))"

definition claim_channel ::
  "('h, 'w) channel_config \<Rightarrow> time \<Rightarrow> string \<Rightarrow> 'w channel_service \<Rightarrow> 'w channel_service \<times> operation option" where
  "claim_channel c now i s =
     (if worker_cancelled i (ch_inst s) then (s, None)
      else case GetOperation (channel_db s) i of
        Inl _ \<Rightarrow> (s, None)
      | Inr current \<Rightarrow>
          if IsTerminal (op_status current) then (s, None)
          else (let running = current\<lparr>op_status := StatusRunning, op_started_at := Some now,
                                      op_updated_at := now\<rparr>
                in case persist_channel c now current running s of
                     (s1, Some _) \<Rightarrow> (s1, None)
                   | (s1, None) \<Rightarrow> (s1, Some running)))"

text \<open>
  \<open>others\<close> is what other steps do before each announcement and before the end: a cancellation
  raises the worker's flag, a client reads a payload. \<open>clock\<close> is the time of each announcement.
\<close>

primrec run_connect ::
  "('h, 'w) channel_config \<Rightarrow> (nat \<Rightarrow> time) \<Rightarrow> (nat \<Rightarrow> 'w channel_service \<Rightarrow> 'w channel_service)
     \<Rightarrow> string \<Rightarrow> string \<Rightarrow> 'w connect_run \<Rightarrow> nat \<Rightarrow> 'w channel_service
     \<Rightarrow> 'w channel_service \<times> (channel_error + channel_status)" where
  "run_connect c clock others i owner (Finished x r) n s = ((others n s)\<lparr>ch_world := x\<rparr>, r)"
| "run_connect c clock others i owner (Announce e k) n s =
     (case sink_Publish c (clock n) i owner e (others n s) of
        (s1, refused) \<Rightarrow> run_connect c clock others i owner (k refused) (Suc n) s1)"

definition channel_mutation ::
  "('h, 'w) channel_config \<Rightarrow> (nat \<Rightarrow> time) \<Rightarrow> (nat \<Rightarrow> 'w channel_service \<Rightarrow> 'w channel_service)
     \<Rightarrow> operation \<Rightarrow> 'h \<Rightarrow> channel_installation \<Rightarrow> string \<Rightarrow> string \<Rightarrow> connect_request \<Rightarrow> 'w channel_service
     \<Rightarrow> 'w channel_service \<times> (channel_error + channel_status)" where
  "channel_mutation c clock others v h inst native owner input s =
     (if op_kind v = TypeChannelDisconnect
      then (case cm_disconnect (co_manager c) h inst native (cq_type input) (ch_world s) of
              (x, r) \<Rightarrow> ((others 0 s)\<lparr>ch_world := x\<rparr>, r))
      else run_connect c clock others (op_id v) owner
             (cm_begin (co_manager c) h inst native input (cq_type input = Weixin) (ch_world s)) 0 s)"

text \<open>Storing what the manager reported; \<open>rnd\<close> is drawn when there is no binding yet.\<close>

definition store_channel_binding ::
  "time \<Rightarrow> nat list option \<Rightarrow> string \<Rightarrow> string \<Rightarrow> channel_status \<Rightarrow> 'w channel_service
     \<Rightarrow> 'w channel_service option" where
  "store_channel_binding now rnd inst kind t s =
     (case (case GetChannelBinding (ch_bindings s) inst kind of
              Some b \<Rightarrow> Some b
            | None \<Rightarrow> map_option (\<lambda>i. fresh_binding i inst kind now) (NewChannelBindingID rnd)) of
        None \<Rightarrow> None
      | Some b \<Rightarrow>
          map_option (\<lambda>rows. s\<lparr>ch_bindings := rows\<rparr>)
            (UpsertChannelBinding (instance_ids s) (ch_bindings s) (observed_binding now t b)))"

definition settle_channel ::
  "('h, 'w) channel_config \<Rightarrow> time \<Rightarrow> nat list option \<Rightarrow> operation \<Rightarrow> op_type \<Rightarrow> string \<Rightarrow> string
     \<Rightarrow> channel_error + channel_status \<Rightarrow> 'w channel_service \<Rightarrow> 'w channel_service" where
  "settle_channel c now rnd running kind inst type outcome s =
     (case outcome of
        Inl e \<Rightarrow>
          if worker_cancelled (op_id running) (ch_inst s) then s
          else finishChannel c now running StatusFailed (channelErrorCode e kind) (channelRetryable e) s
      | Inr t \<Rightarrow>
          if (kind = TypeChannelConnect \<and> cu_state t \<noteq> ChannelConnected)
             \<or> (kind = TypeChannelDisconnect \<and> cu_state t \<noteq> ChannelNotConfigured)
          then finishChannel c now running StatusFailed ErrorChannelStateUnknown True s
          else (case store_channel_binding now rnd inst type t s of
                  None \<Rightarrow> finishChannel c now running StatusFailed ErrorChannelStateUnknown True s
                | Some s1 \<Rightarrow> finishChannel c now running StatusSucceeded [] False s1))"

text \<open>
  The worker under the lock of the instance: the row is claimed at the time of \<open>w\<close>; other steps
  (\<open>between\<close>) may cancel before the target is resolved; \<open>done\<close> is the time of the end.
\<close>

definition runChannel ::
  "('h, 'w) channel_config \<Rightarrow> inst_world \<Rightarrow> (nat \<Rightarrow> time) \<Rightarrow> time \<Rightarrow> nat list option
     \<Rightarrow> ('w channel_service \<Rightarrow> 'w channel_service) \<Rightarrow> (nat \<Rightarrow> 'w channel_service \<Rightarrow> 'w channel_service)
     \<Rightarrow> operation \<Rightarrow> string \<Rightarrow> string \<Rightarrow> string \<Rightarrow> connect_request \<Rightarrow> 'w channel_service
     \<Rightarrow> 'w channel_service" where
  "runChannel c w clock finish rnd between others v installation native owner input s =
     (case claim_channel c (wd_now w) (op_id v) s of
        (s1, None) \<Rightarrow> s1
      | (s1, Some running) \<Rightarrow>
     (let s2 = between s1 in
      case resolveChannelTarget c w (worker_cancelled (op_id v) (ch_inst s2)) (op_target_id v) s2 of
        (s3, Inl _) \<Rightarrow> finishChannel c (wd_now w) running StatusFailed ErrorChannelStateUnknown True s3
      | (s3, Inr (row, h, inst)) \<Rightarrow>
          if in_installation row \<noteq> installation \<or> in_native row \<noteq> native
          then finishChannel c (wd_now w) running StatusFailed ErrorChannelStateUnknown True s3
          else (case channel_mutation c clock others v h inst native owner input s3 of
                  (s4, outcome) \<Rightarrow>
                    settle_channel c finish rnd running (op_kind v) (in_id row) (cq_type input) outcome s4)))"

text \<open>The deferred function takes the payload back and forgets the worker.\<close>

definition startChannelWorker ::
  "('h, 'w) channel_config \<Rightarrow> inst_world \<Rightarrow> (nat \<Rightarrow> time) \<Rightarrow> time \<Rightarrow> nat list option
     \<Rightarrow> ('w channel_service \<Rightarrow> 'w channel_service) \<Rightarrow> (nat \<Rightarrow> 'w channel_service \<Rightarrow> 'w channel_service)
     \<Rightarrow> operation \<Rightarrow> string \<Rightarrow> string \<Rightarrow> string \<Rightarrow> connect_request \<Rightarrow> 'w channel_service
     \<Rightarrow> 'w channel_service" where
  "startChannelWorker c w clock finish rnd between others v installation native owner input s =
     (let s1 = runChannel c w clock finish rnd between others v installation native owner input s
      in s1\<lparr>ch_qr := qr_Delete (op_id v) (ch_qr s1), ch_inst := stop_worker (op_id v) (ch_inst s1)\<rparr>)"

subsection \<open>Cancelling\<close>

definition cancelled_channel :: "time \<Rightarrow> operation \<Rightarrow> operation" where
  "cancelled_channel now current =
     current\<lparr>op_status := StatusCancelled, op_error_code := ErrorChannelAuthCancelled,
             op_completed_at := Some now, op_updated_at := now\<rparr>"

text \<open>Raising the worker's flag, and what happens until the lock of the instance is free.\<close>

definition CancelChannel ::
  "('h, 'w) channel_config \<Rightarrow> time \<Rightarrow> ('w channel_service \<Rightarrow> 'w channel_service) \<Rightarrow> string \<Rightarrow> 'w channel_service
     \<Rightarrow> 'w channel_service \<times> (service_error + operation)" where
  "CancelChannel c now wait i s =
     (case GetOperation (channel_db s) i of
        Inl _ \<Rightarrow> (s, Inl (ErrChannelInstance instance_not_found))
      | Inr current \<Rightarrow>
          if \<not> isChannelOperation (op_kind current) then (s, Inl (ErrChannelInstance instance_not_found))
          else if IsTerminal (op_status current) then (s, Inr current)
          else
     (let n = ch_inst s;
          s1 = wait (s\<lparr>ch_inst := n\<lparr>iz_workers := map (\<lambda>(j, b). (j, b \<or> j = i)) (iz_workers n)\<rparr>\<rparr>)
      in case GetOperation (channel_db s1) i of
           Inl e \<Rightarrow> (s1, Inl (channel_db_error e))
         | Inr now_current \<Rightarrow>
             if IsTerminal (op_status now_current) then (s1, Inr now_current)
             else (case persist_channel c now now_current (cancelled_channel now now_current) s1 of
                     (s2, Some e) \<Rightarrow>
                       (case GetOperation (channel_db s2) i of
                          Inr latest \<Rightarrow>
                            if IsTerminal (op_status latest) then (s2, Inr latest)
                            else (s2, Inl (channel_db_error e))
                        | Inl _ \<Rightarrow> (s2, Inl (channel_db_error e)))
                   | (s2, None) \<Rightarrow>
                       (s2\<lparr>ch_qr := qr_Delete i (ch_qr s2)\<rparr>, Inr (cancelled_channel now now_current)))))"

subsection \<open>Recovery\<close>

text \<open>A disconnection is done when the channel is no longer configured; all else is interrupted.\<close>

definition recover_one_channel ::
  "('h, 'w) channel_config \<Rightarrow> inst_world \<Rightarrow> nat list option list \<Rightarrow> operation \<Rightarrow> 'w channel_service
     \<Rightarrow> 'w channel_service" where
  "recover_one_channel c w rs current s =
     (let (s1, completed) =
            (if op_kind current = TypeChannelDisconnect
             then (case ListChannels c w rs (op_target_id current) s of
                     (s1, Inl _) \<Rightarrow> (s1, False)
                   | (s1, Inr views) \<Rightarrow>
                       (s1, list_ex (\<lambda>v. vw_type v = op_message current \<and> vw_state v = ChannelNotConfigured)
                              views))
             else (s, False))
      in if completed then finishChannel c (wd_now w) current StatusSucceeded [] False s1
         else finishChannel c (wd_now w) current StatusFailed ErrorOperationInterrupted True s1)"

fun recover_channels ::
  "('h, 'w) channel_config \<Rightarrow> (string \<Rightarrow> inst_world \<times> nat list option list) \<Rightarrow> operation list
     \<Rightarrow> 'w channel_service \<Rightarrow> 'w channel_service \<times> operation list \<times> db_error option" where
  "recover_channels c w [] s = (s, [], None)"
| "recover_channels c w (v # vs) s =
     (let s1 = recover_one_channel c (fst (w (op_id v))) (snd (w (op_id v))) v s in
      case GetOperation (channel_db s1) (op_id v) of
        Inl e \<Rightarrow> (s1, [], Some e)
      | Inr latest \<Rightarrow>
          (case recover_channels c w vs (s1\<lparr>ch_qr := qr_Delete (op_id v) (ch_qr s1)\<rparr>) of
             (s2, rest, e) \<Rightarrow> (s2, latest # rest, e)))"

definition RecoverChannels ::
  "('h, 'w) channel_config \<Rightarrow> (string \<Rightarrow> inst_world \<times> nat list option list) \<Rightarrow> 'w channel_service
     \<Rightarrow> 'w channel_service \<times> operation list \<times> db_error option" where
  "RecoverChannels c w s =
     (case ListActiveChannelOperations (channel_db s) of
        Inl e \<Rightarrow> (s, [], Some e)
      | Inr ops \<Rightarrow> recover_channels c w ops s)"

end
