(* ===== verification/Channel_Properties.thy ===== *)
theory Channel_Properties
  imports Channel_Service Instance_Properties Management_Properties
begin

text \<open>
  Properties of the channel service: a QR payload is readable by exactly the session that asked for
  it until it expires or is taken back, and a connection is reported as successful only when the
  Runtime's channel manager reported it as connected.
\<close>

subsection \<open>Histories of the QR broker\<close>

datatype qr_call =
    QPublish time string string string time
  | QGet time string string
  | QDelete string

fun qr_step :: "qr_call \<Rightarrow> qr_entries \<Rightarrow> qr_entries" where
  "qr_step (QPublish now i owner payload expiresAt) b = fst (qr_Publish now i owner payload expiresAt b)"
| "qr_step (QGet now i owner) b = fst (qr_Get now i owner b)"
| "qr_step (QDelete i) b = qr_Delete i b"

text \<open>A history lists the last call first.\<close>

fun qr_after :: "qr_call list \<Rightarrow> qr_entries" where
  "qr_after [] = []"
| "qr_after (x # xs) = qr_step x (qr_after xs)"

text \<open>The reference: the last payload accepted for an operation and not taken back since.\<close>

definition qr_accepts :: "time \<Rightarrow> string \<Rightarrow> string \<Rightarrow> string \<Rightarrow> time \<Rightarrow> bool" where
  "qr_accepts now i owner payload expiresAt \<longleftrightarrow>
     i \<noteq> [] \<and> validChannelSession owner \<and> payload \<noteq> [] \<and> length payload \<le> channelQRMaxPayload
     \<and> expiresAt > now"

fun last_published :: "qr_call list \<Rightarrow> string \<Rightarrow> qr_entry option" where
  "last_published [] i = None"
| "last_published (QPublish now j owner payload expiresAt # xs) i =
     (if j = i \<and> qr_accepts now j owner payload expiresAt
      then Some \<lparr>qe_owner = owner, qe_payload = payload, qe_expires_at = expiresAt\<rparr>
      else last_published xs i)"
| "last_published (QGet now j owner # xs) i = last_published xs i"
| "last_published (QDelete j # xs) i = (if j = i \<and> j \<noteq> [] then None else last_published xs i)"

text \<open>The clock does not run backwards, and has not passed \<open>now\<close>.\<close>

fun clock_before :: "time \<Rightarrow> qr_call list \<Rightarrow> bool" where
  "clock_before now [] \<longleftrightarrow> True"
| "clock_before now (QPublish t j owner payload expiresAt # xs) \<longleftrightarrow> t \<le> now \<and> clock_before t xs"
| "clock_before now (QGet t j owner # xs) \<longleftrightarrow> t \<le> now \<and> clock_before t xs"
| "clock_before now (QDelete j # xs) \<longleftrightarrow> clock_before now xs"

lemma clock_later: "clock_before t xs \<Longrightarrow> t \<le> now \<Longrightarrow> clock_before now xs"
  by (induction xs rule: clock_before.induct) auto

lemma map_of_sweep:
  assumes "distinct (map fst b)"
  shows "map_of (sweepLocked now b) i
    = (case map_of b i of None \<Rightarrow> None | Some e \<Rightarrow> if qe_expires_at e > now then Some e else None)"
  using assms
  by (induction b) (auto simp: sweepLocked_def dom_map_of_conv_image_fst [symmetric] map_of_eq_None_iff
      split: option.splits)

lemma distinct_sweep: "distinct (map fst b) \<Longrightarrow> distinct (map fst (sweepLocked now b))"
  unfolding sweepLocked_def by (induction b) auto

lemma qr_distinct: "distinct (map fst (qr_after xs))"
proof (induction xs)
  case (Cons x xs)
  then show ?case
    by (cases x) (auto simp: qr_Publish_def qr_Get_def qr_Delete_def distinct_sweep
        intro!: distinct_update distinct_delete)
qed simp

text \<open>What the broker holds is what the reference says, but for payloads that have expired.\<close>

lemma qr_holds:
  assumes "clock_before now xs"
  shows "(case map_of (qr_after xs) i of
            Some e \<Rightarrow> last_published xs i = Some e
          | None \<Rightarrow> (case last_published xs i of None \<Rightarrow> True | Some e \<Rightarrow> qe_expires_at e \<le> now))"
  using assms
proof (induction xs arbitrary: now)
  case (Cons x xs)
  note sweep = map_of_sweep [OF qr_distinct [of xs]]
  show ?case
  proof (cases x)
    case (QPublish t j owner payload expiresAt)
    with Cons.prems Cons.IH [of t] show ?thesis
      by (auto simp: qr_Publish_def qr_accepts_def map_of_AList_update sweep split: option.splits if_splits)
  next
    case (QGet t j owner)
    with Cons.prems Cons.IH [of t] show ?thesis
      by (auto simp: qr_Get_def sweep split: option.splits if_splits)
  next
    case (QDelete j)
    with Cons.prems Cons.IH [of now] show ?thesis
      by (auto simp: qr_Delete_def map_of_AList_delete split: option.splits if_splits)
  qed
qed simp

text \<open>
  C23. A QR payload is readable by exactly the session that asked for it. After any history of calls
  of the broker whose clock does not run backwards, a read answers the last payload that was
  accepted for the operation and not taken back since, when the reader is its owner and it has not
  expired; every other read of a valid session is refused.
\<close>

theorem qr_is_read_by_its_session_only:
  assumes "clock_before now xs"
  shows "snd (qr_Get now i owner (qr_after xs)) =
    (if i = [] \<or> \<not> validChannelSession owner then Inl ErrQRSession
     else case last_published xs i of
       None \<Rightarrow> Inl ErrQRUnavailable
     | Some e \<Rightarrow>
         if qe_owner e = owner \<and> qe_expires_at e > now then Inr (qe_payload e, qe_expires_at e)
         else Inl ErrQRUnavailable)"
  using qr_holds [OF assms, of i]
  by (cases "map_of (qr_after xs) i"; cases "last_published xs i")
    (simp_all add: qr_Get_def map_of_sweep [OF qr_distinct])

definition session_sample :: string where
  "session_sample = ''abcdefghijklmnopqrst''"

theorem qr_is_read_by_its_session_only_witness:
  "snd (qr_Get 7 ''op'' session_sample
      (qr_after [QGet 6 ''op'' session_sample, QPublish 5 ''op'' session_sample ''qr'' 9]))
    = Inr (''qr'', 9)"
proof -
  let ?h = "[QGet 6 ''op'' session_sample, QPublish 5 ''op'' session_sample ''qr'' 9]"
  have "clock_before 7 ?h" by simp
  moreover have "validChannelSession session_sample" by code_simp
  ultimately show ?thesis
    using qr_is_read_by_its_session_only [of 7 ?h "''op''" session_sample]
    by (simp add: qr_accepts_def channelQRMaxPayload_def)
qed

subsection \<open>A successful connection\<close>

primrec outcomes :: "'w connect_run \<Rightarrow> (channel_error + channel_status) set" where
  "outcomes (Finished x r) = {r}"
| "outcomes (Announce e k) = (\<Union>refused. outcomes (k refused))"

definition leaves_unsettled :: "string \<Rightarrow> ('w channel_service \<Rightarrow> 'w channel_service) \<Rightarrow> bool" where
  "leaves_unsettled i f \<longleftrightarrow> (\<forall>s. unsuccessful i (channel_db s) \<longrightarrow> unsuccessful i (channel_db (f s)))"

lemma emit_channel_fields [simp]:
  "ch_inst (emitChannelOperation now p v b s) = ch_inst s"
  "ch_bindings (emitChannelOperation now p v b s) = ch_bindings s"
  "ch_bindings (put_channel_db db s) = ch_bindings s"
  "channel_db (put_channel_db db s) = db"
  by (simp_all add: emitChannelOperation_def put_channel_db_def)

lemma persist_channel_unsuccessful:
  assumes "persist_channel c now current nxt s = (s', e)" "op_status nxt \<noteq> StatusSucceeded"
  shows "unsuccessful i (channel_db s) \<Longrightarrow> unsuccessful i (channel_db s')"
  using assms by (auto simp: persist_channel_def split: sum.splits dest: update_unsuccessful)

lemma persist_channel_bindings: "ch_bindings (fst (persist_channel c now current nxt s)) = ch_bindings s"
  by (simp add: persist_channel_def split: sum.split)

lemma finish_bindings: "ch_bindings (finishChannel c now v st code retry s) = ch_bindings s"
  by (simp add: finishChannel_def persist_channel_bindings split: sum.split)

lemma finish_failed:
  "unsuccessful i (channel_db s) \<Longrightarrow> unsuccessful i (channel_db (finishChannel c now v StatusFailed code retry s))"
  by (auto simp: finishChannel_def finished_channel_def split: sum.split
      intro!: persist_channel_unsuccessful [OF prod.collapse [symmetric]])

lemma stage_unsuccessful:
  assumes "updateChannelStage c now j stg s = (s', e)" "unsuccessful i (channel_db s)"
    and "\<forall>v. GetOperation (channel_db s) j = Inr v \<longrightarrow> op_status v \<noteq> StatusSucceeded"
  shows "unsuccessful i (channel_db s')"
  using assms
  by (auto simp: updateChannelStage_def split: sum.splits if_splits dest: persist_channel_unsuccessful)

lemma sink_unsuccessful:
  assumes "sink_Publish c now i owner e s = (s', refused)" "unsuccessful i (channel_db s)"
  shows "unsuccessful i (channel_db s')"
  using assms
  by (auto simp: sink_Publish_def split: if_splits prod.splits option.splits
      dest!: stage_unsuccessful [where i = i] dest: unsuccessful_get)

lemma connect_outcome:
  assumes "\<forall>n. leaves_unsettled i (others n)" "unsuccessful i (channel_db s)"
    and "run_connect c clock others i owner p n s = (s', r)"
  shows "r \<in> outcomes p \<and> unsuccessful i (channel_db s')"
  using assms(2,3)
proof (induction p arbitrary: n s)
  case (Finished x r')
  then show ?case using assms(1) by (auto simp: leaves_unsettled_def)
next
  case (Announce e k)
  obtain s1 refused where one: "sink_Publish c (clock n) i owner e (others n s) = (s1, refused)" by fastforce
  have "unsuccessful i (channel_db (others n s))"
    using assms(1) Announce.prems(1) by (simp add: leaves_unsettled_def)
  from sink_unsuccessful [OF one this] Announce.IH [of "k refused" s1 "Suc n"] Announce.prems(2) one
  show ?case by auto
qed

lemma resolve_channel_rows:
  assumes "resolveChannelTarget c w b i s = (s', r)"
  shows "unsuccessful j (channel_db s) \<Longrightarrow> unsuccessful j (channel_db s')"
    "r = Inr (row, h, inst) \<Longrightarrow> in_id row = i"
proof -
  have rows: "db_operations (iz_db n') = db_operations (iz_db n)"
    if "ensureInstallation k w d sel n = (n', a)" for k d sel n n' a
    using that by (auto simp: ensureInstallation_def Let_def split: sum.splits option.splits if_splits)
  have same: "db_operations (channel_db s') = db_operations (channel_db s)"
    using assms
    by (auto simp: resolveChannelTarget_def resolve_channel_def dest: rows
        split: if_splits sum.splits option.splits prod.splits)
  show "unsuccessful j (channel_db s) \<Longrightarrow> unsuccessful j (channel_db s')"
    using unsuccessful_rows [OF same] by blast
  show "in_id row = i" if "r = Inr (row, h, inst)"
    using assms that
    by (auto simp: resolveChannelTarget_def resolve_channel_def GetInstance_def one_row_def
        filter_eq_Cons_iff split: if_splits sum.splits option.splits prod.splits list.splits)
qed

lemma upserted_binding:
  assumes "UpsertChannelBinding instances rows v = Some rows'"
  shows "\<exists>b. GetChannelBinding rows' (cb_instance v) (cb_type v) = Some b
    \<and> cb_state b = cb_state v \<and> cb_label b = cb_label v \<and> cb_external b = cb_external v"
proof -
  have hit: "\<exists>b. first_match (\<lambda>r. binding_key r = binding_key v)
      (map (\<lambda>r. if binding_key r = binding_key v then refreshed_binding v r else r) rs) = Some b
    \<and> cb_state b = cb_state v \<and> cb_label b = cb_label v \<and> cb_external b = cb_external v"
    if "list_ex (\<lambda>r. binding_key r = binding_key v) rs" for rs
    using that by (induction rs) (auto simp: refreshed_binding_def binding_key_def)
  have miss: "first_match (\<lambda>r. binding_key r = binding_key v) (rs @ [v]) = Some v"
    if "\<not> list_ex (\<lambda>r. binding_key r = binding_key v) rs" for rs
    using that by (induction rs) auto
  show ?thesis
    using assms hit [of rows] miss [of rows]
    by (auto simp: UpsertChannelBinding_def GetChannelBinding_def binding_key_def split: if_splits)
qed

lemma stored_channel_binding:
  assumes "store_channel_binding now rnd i kind t s = Some s'"
  shows "\<exists>b. GetChannelBinding (ch_bindings s') i kind = Some b
    \<and> cb_state b = cu_state t \<and> cb_label b = cu_label t \<and> cb_external b = cu_external t"
proof -
  have found: "binding_key b = (i, kind)" if "GetChannelBinding rs i kind = Some b" for rs b
    using that first_match_Some [of _ rs b] unfolding GetChannelBinding_def by fastforce
  obtain b where b: "cb_instance b = i" "cb_type b = kind"
    and up: "map_option (\<lambda>rows. s\<lparr>ch_bindings := rows\<rparr>)
      (UpsertChannelBinding (instance_ids s) (ch_bindings s) (observed_binding now t b)) = Some s'"
  proof (cases "GetChannelBinding (ch_bindings s) i kind")
    case None
    with assms obtain k where "NewChannelBindingID rnd = Some k"
      by (auto simp: store_channel_binding_def split: option.splits)
    with None assms show thesis
      by (intro that [of "fresh_binding k i kind now"]) (simp_all add: store_channel_binding_def fresh_binding_def)
  next
    case (Some b)
    with assms found [OF Some] show thesis
      by (intro that [of b]) (simp_all add: store_channel_binding_def binding_key_def)
  qed
  from up obtain rows where
    up: "UpsertChannelBinding (instance_ids s) (ch_bindings s) (observed_binding now t b) = Some rows"
    and s': "s' = s\<lparr>ch_bindings := rows\<rparr>" by auto
  show ?thesis using upserted_binding [OF up] b by (simp add: s' observed_binding_def)
qed

lemma settle_done:
  assumes start: "unsuccessful i (channel_db s)"
    and ended: "\<not> unsuccessful i
      (channel_db (settle_channel c now rnd running TypeChannelConnect inst type outcome s))"
  obtains t s1 where "outcome = Inr t" "cu_state t = ChannelConnected"
    "store_channel_binding now rnd inst type t s = Some s1"
    "settle_channel c now rnd running TypeChannelConnect inst type outcome s
       = finishChannel c now running StatusSucceeded [] False s1"
proof -
  have failed: "unsuccessful i (channel_db (finishChannel c now running StatusFailed code retry s))" for code retry
    using start by (rule finish_failed)
  show thesis
  proof (cases outcome)
    case (Inl e)
    with ended start failed show thesis by (simp add: settle_channel_def split: if_splits)
  next
    case (Inr t)
    with ended failed that show thesis
      by (cases "store_channel_binding now rnd inst type t s") (simp_all add: settle_channel_def split: if_splits)
  qed
qed

text \<open>
  C24. A connection is reported as successful only when the channel manager authenticated it. When a
  connect worker leaves its operation SUCCEEDED, and no other step settles that operation so, then
  a run of the manager's connect call ended by reporting CONNECTED, and the binding that is
  stored for the instance and channel is CONNECTED with the account that this report names.
\<close>

theorem connected_only_when_authenticated:
  assumes kind: "op_kind v = TypeChannelConnect"
    and start: "unsuccessful (op_id v) (channel_db s)"
    and between: "leaves_unsettled (op_id v) between" and others: "\<forall>n. leaves_unsettled (op_id v) (others n)"
    and run: "startChannelWorker c w clock finish rnd between others v installation native owner input s = s'"
    and got: "GetOperation (channel_db s') (op_id v) = Inr r" "op_status r = StatusSucceeded"
  shows "\<exists>h inst x t b.
    Inr t \<in> outcomes (cm_begin (co_manager c) h inst native input (cq_type input = Weixin) x)
    \<and> cu_state t = ChannelConnected
    \<and> GetChannelBinding (ch_bindings s') (op_target_id v) (cq_type input) = Some b
    \<and> cb_state b = ChannelConnected \<and> cb_external b = cu_external t \<and> cb_label b = cu_label t"
proof -
  let ?i = "op_id v"
  define z where "z = runChannel c w clock finish rnd between others v installation native owner input s"
  have s': "channel_db s' = channel_db z" "ch_bindings s' = ch_bindings z"
    using run by (auto simp: startChannelWorker_def z_def stop_worker_def Let_def)
  have ended: "\<not> unsuccessful ?i (channel_db z)" using unsuccessful_get got s' by metis
  obtain s1 running where claim: "claim_channel c (wd_now w) ?i s = (s1, running)" by fastforce
  have u1: "unsuccessful ?i (channel_db s1)"
    using claim start
    by (auto simp: claim_channel_def Let_def split: if_splits sum.splits prod.splits option.splits
        dest: persist_channel_unsuccessful)
  with ended claim obtain q where q: "running = Some q"
    by (cases running) (auto simp: z_def runChannel_def)
  define s2 where "s2 = between s1"
  have u2: "unsuccessful ?i (channel_db s2)" using between u1 by (simp add: s2_def leaves_unsettled_def)
  obtain s3 target where target: "resolveChannelTarget c w (worker_cancelled ?i (ch_inst s2)) (op_target_id v) s2
      = (s3, target)" by fastforce
  have u3: "unsuccessful ?i (channel_db s3)" by (rule resolve_channel_rows(1) [OF target u2])
  have failed: "unsuccessful ?i (channel_db (finishChannel c n u StatusFailed code retry x))"
    if "unsuccessful ?i (channel_db x)" for n u code retry and x
    using that by (rule finish_failed)
  obtain row h inst where t: "target = Inr (row, h, inst)" "in_native row = native"
  proof (cases target)
    case (Inl e)
    with ended failed [OF u3] show thesis
      by (simp add: z_def runChannel_def claim q target Let_def s2_def [symmetric])
  next
    case (Inr a)
    with ended failed [OF u3] that show thesis
      by (cases a) (auto simp: z_def runChannel_def claim q target Let_def s2_def [symmetric] split: if_splits)
  qed
  obtain s4 outcome where mutation:
    "channel_mutation c clock others v h inst native owner input s3 = (s4, outcome)" by fastforce
  have out: "outcome \<in> outcomes (cm_begin (co_manager c) h inst native input (cq_type input = Weixin) (ch_world s3))"
    and u4: "unsuccessful ?i (channel_db s4)"
    using connect_outcome [OF others u3, of c] mutation by (auto simp: channel_mutation_def kind)
  have z: "z = settle_channel c finish rnd q TypeChannelConnect (in_id row) (cq_type input) outcome s4"
  proof (cases "in_installation row = installation")
    case True
    then show ?thesis
      using mutation t by (simp add: z_def runChannel_def claim q target Let_def s2_def [symmetric] kind)
  next
    case False
    with ended failed [OF u3] t show ?thesis
      by (simp add: z_def runChannel_def claim q target Let_def s2_def [symmetric])
  qed
  from settle_done [OF u4 ended [unfolded z]] obtain st s5 where
    st: "outcome = Inr st" "cu_state st = ChannelConnected"
    and stored: "store_channel_binding finish rnd (in_id row) (cq_type input) st s4 = Some s5"
    and zz: "z = finishChannel c finish q StatusSucceeded [] False s5"
    unfolding z by blast
  show ?thesis
    using stored_channel_binding [OF stored] out st resolve_channel_rows(2) [OF target t(1)]
    unfolding s'(2) zz finish_bindings by metis
qed

definition manager_sample :: "(nat, unit) channel_manager" where
  "manager_sample =
     \<lparr>cm_list = (\<lambda>_ _ _ _. Inr []),
      cm_begin = (\<lambda>_ _ _ _ _ _.
        Announce \<lparr>ce_stage = ''qr_ready'', ce_payload = ''qr'', ce_expires_at = 99\<rparr> (\<lambda>_.
          Finished () (Inr \<lparr>cu_type = Weixin, cu_state = ChannelConnected, cu_label = ''me'', cu_external = ''x''\<rparr>))),
      cm_disconnect = (\<lambda>_ _ _ _ x. (x, Inl ChannelOther)), cm_pairing = (\<lambda>_ _ _ _ _. Inr 0),
      cm_approve = (\<lambda>_ _ _ _ _ x. (x, None))\<rparr>"

definition channel_config_sample :: "(nat, unit) channel_config" where
  "channel_config_sample =
     \<lparr>co_inst = \<lparr>ic_node_id = ''n'',
        ic_registry = Some [(''hermes'', sample_bundle\<lparr>bn_channels := Some 7\<rparr>)], ic_source = True,
        ic_mutator = True, ic_message = (\<lambda>_. []), ic_resolve = (\<lambda>_ _ _. None)\<rparr>,
      co_manager = manager_sample\<rparr>"

definition connect_sample :: operation where
  "connect_sample =
     (sample_operation ''op'' TypeChannelConnect TargetInstance 1)\<lparr>op_target_id := ''inst_b'', op_message := Weixin\<rparr>"

definition channel_service_sample :: "unit channel_service" where
  "channel_service_sample =
     \<lparr>ch_inst = inst_state_sample\<lparr>iz_db := \<lparr>db_operations = [connect_sample], db_instances = []\<rparr>\<rparr>,
      ch_bindings = [], ch_qr = [], ch_events = None, ch_world = ()\<rparr>"

definition request_sample :: connect_request where
  "request_sample = \<lparr>cq_type = Weixin, cq_bot = [], cq_secret = []\<rparr>"

theorem connected_only_when_authenticated_witness:
  "\<exists>s' b. startChannelWorker channel_config_sample (inst_world_sample []) (\<lambda>_. 6) 8 (Some (replicate 18 0))
       (\<lambda>s. s) (\<lambda>_ s. s) connect_sample ''rt'' ''old'' session_sample request_sample channel_service_sample = s'
     \<and> GetChannelBinding (ch_bindings s') ''inst_b'' Weixin = Some b \<and> cb_external b = ''x''"
proof -
  let ?s' = "startChannelWorker channel_config_sample (inst_world_sample []) (\<lambda>_. 6) 8 (Some (replicate 18 0))
       (\<lambda>s. s) (\<lambda>_ s. s) connect_sample ''rt'' ''old'' session_sample request_sample channel_service_sample"
  have "case GetOperation (channel_db ?s') ''op'' of Inl _ \<Rightarrow> False | Inr v \<Rightarrow> op_status v = StatusSucceeded"
    by code_simp
  then obtain v where v: "GetOperation (channel_db ?s') (op_id connect_sample) = Inr v"
      "op_status v = StatusSucceeded"
    by (auto simp: connect_sample_def sample_operation_def split: sum.splits)
  have start: "unsuccessful (op_id connect_sample) (channel_db channel_service_sample)"
    by (simp add: unsuccessful_def channel_service_sample_def connect_sample_def sample_operation_def)
  have kind: "op_kind connect_sample = TypeChannelConnect" by (simp add: connect_sample_def sample_operation_def)
  from connected_only_when_authenticated [OF kind start _ _ refl v] obtain h inst x t b where
    "Inr t \<in> outcomes (cm_begin (co_manager channel_config_sample) h inst ''old'' request_sample
       (cq_type request_sample = Weixin) x)"
    "GetChannelBinding (ch_bindings ?s') (op_target_id connect_sample) (cq_type request_sample) = Some b"
    "cb_external b = cu_external t"
    by (auto simp: leaves_unsettled_def)
  then show ?thesis
    by (auto simp: channel_config_sample_def manager_sample_def connect_sample_def request_sample_def)
qed

end
