(* ===== verification/Discovery_Service.thy ===== *)
theory Discovery_Service
  imports Management_Target
begin

text \<open>
  The service of Runtime discovery (app/runtime\_discovery.go): callers that ask for the same kind
  share one detection (a flight), a supported result is kept for a few seconds, a caller may leave,
  and a flight that all callers left is cancelled. A flight is known by its index, where the code
  has a pointer. Copying a result is the identity here. \<open>Detect\<close> is modelled in its two halves,
  between which other callers and the detection itself run.
\<close>

datatype detect_error = ErrRuntimeKindNotFound | ErrDetectContext context_error | ErrDetectFailed

definition runtimeDiscoveryTimeout :: int where "runtimeDiscoveryTimeout = 35 * 1000000000"
definition runtimeDiscoveryCacheTTL :: int where "runtimeDiscoveryCacheTTL = 5 * 1000000000"

record flight =
  fl_done :: bool
  fl_cancelled :: bool \<comment> \<open>whether its cancel function was called\<close>
  fl_waiters :: int
  fl_result :: discovery
  fl_error :: "detect_error option"

record cached_discovery =
  ca_result :: discovery
  ca_expires_at :: time

record discovery_log =
  dl_kind :: string
  dl_state :: string
  dl_code :: error_code
  dl_candidates :: nat
  dl_warnings :: nat
  dl_timed_out :: bool
  dl_cancelled :: bool

record discovery_service =
  dv_flights :: "flight list"
  dv_current :: "(string \<times> nat) list"
  dv_cache :: "(string \<times> cached_discovery) list"
  dv_log :: "discovery_log list"

definition NewRuntimeDiscovery :: discovery_service where
  "NewRuntimeDiscovery = \<lparr>dv_flights = [], dv_current = [], dv_cache = [], dv_log = []\<rparr>"

definition discovery_state_text :: "discovery_state \<Rightarrow> string" where
  "discovery_state_text t =
     (case t of
        DiscoveryNotInstalled \<Rightarrow> ''NOT_INSTALLED'' | DiscoverySupported \<Rightarrow> ''SUPPORTED''
      | DiscoveryUnsupported \<Rightarrow> ''UNSUPPORTED'' | DiscoveryBrokenExecutable \<Rightarrow> ''BROKEN_EXECUTABLE''
      | DiscoveryMalformedVersion \<Rightarrow> ''MALFORMED_VERSION'' | DiscoveryTimedOut \<Rightarrow> ''TIMED_OUT''
      | DiscoveryAmbiguous \<Rightarrow> ''AMBIGUOUS'' | DiscoveryNone \<Rightarrow> [])"

text \<open>The durations in the records are left out.\<close>

definition logSuccess :: "string \<Rightarrow> discovery \<Rightarrow> discovery_service \<Rightarrow> discovery_service" where
  "logSuccess kind d s =
     s\<lparr>dv_log := dv_log s @
         [\<lparr>dl_kind = kind, dl_state = discovery_state_text (di_state d), dl_code = di_error_code d,
           dl_candidates = length (di_candidates d), dl_warnings = length (di_warnings d),
           dl_timed_out = (di_state d = DiscoveryTimedOut), dl_cancelled = False\<rparr>]\<rparr>"

definition logFailure :: "string \<Rightarrow> detect_error \<Rightarrow> discovery_service \<Rightarrow> discovery_service" where
  "logFailure kind e s =
     (let timedOut = (e = ErrDetectContext DeadlineExceeded); cancelled = (e = ErrDetectContext Canceled);
          (result, code) =
            (if e = ErrRuntimeKindNotFound then (''KIND_NOT_FOUND'', ''RUNTIME_KIND_NOT_FOUND'')
             else if timedOut then (discovery_state_text DiscoveryTimedOut, ErrorRuntimeDiscoveryTimeout)
             else if cancelled then (''CANCELLED'', ErrorRuntimeDiscoveryCancelled)
             else (''FAILED'', ''RUNTIME_DISCOVERY_FAILED''))
      in s\<lparr>dv_log := dv_log s @
             [\<lparr>dl_kind = kind, dl_state = result, dl_code = code, dl_candidates = 0, dl_warnings = 0,
               dl_timed_out = timedOut, dl_cancelled = cancelled\<rparr>]\<rparr>)"

definition update_flight :: "nat \<Rightarrow> (flight \<Rightarrow> flight) \<Rightarrow> discovery_service \<Rightarrow> discovery_service" where
  "update_flight i f s = s\<lparr>dv_flights := (dv_flights s)[i := f (dv_flights s ! i)]\<rparr>"

definition new_flight :: flight where
  "new_flight =
     \<lparr>fl_done = False, fl_cancelled = False, fl_waiters = 1, fl_result = zero_discovery, fl_error = None\<rparr>"

datatype entered =
    Returned "detect_error + discovery"
  | Joined nat
  | Launched nat \<comment> \<open>a flight that this caller starts, and waits for\<close>

text \<open>From the call to the wait; \<open>ctx\<close> is the error of a context that is done.\<close>

definition Detect ::
  "'h runtime_registry \<Rightarrow> context_error option \<Rightarrow> time \<Rightarrow> string \<Rightarrow> discovery_service
     \<Rightarrow> discovery_service \<times> entered" where
  "Detect reg ctx now kind s =
     (if Option.bind (registry_Get reg kind) bn_discoverer = None
      then (logFailure kind ErrRuntimeKindNotFound s, Returned (Inl ErrRuntimeKindNotFound))
      else case ctx of
        Some e \<Rightarrow> (s, Returned (Inl (ErrDetectContext e)))
      | None \<Rightarrow>
     (case (case map_of (dv_cache s) kind of
              None \<Rightarrow> None
            | Some k \<Rightarrow> if now < ca_expires_at k then Some k else None) of
        Some k \<Rightarrow> (s, Returned (Inr (ca_result k)))
      | None \<Rightarrow>
     (case (case map_of (dv_current s) kind of
              None \<Rightarrow> None
            | Some i \<Rightarrow> if fl_waiters (dv_flights s ! i) > 0 then Some i else None) of
        Some i \<Rightarrow> (update_flight i (\<lambda>f. f\<lparr>fl_waiters := fl_waiters f + 1\<rparr>) s, Joined i)
      | None \<Rightarrow>
          (s\<lparr>dv_flights := dv_flights s @ [new_flight],
             dv_current := AList.update kind (length (dv_flights s)) (dv_current s)\<rparr>,
           Launched (length (dv_flights s))))))"

text \<open>The end of a flight; \<open>found\<close> and \<open>failed\<close> are what the discoverer answered.\<close>

definition runFlight ::
  "time \<Rightarrow> string \<Rightarrow> nat \<Rightarrow> discovery \<Rightarrow> detect_error option \<Rightarrow> discovery_service \<Rightarrow> discovery_service" where
  "runFlight now kind i found failed s =
     (let s1 = (case failed of Some e \<Rightarrow> logFailure kind e s | None \<Rightarrow> logSuccess kind found s);
          current = (map_of (dv_current s1) kind = Some i);
          s2 = (if current then s1\<lparr>dv_current := AList.delete kind (dv_current s1)\<rparr> else s1);
          s3 = (if current \<and> fl_waiters (dv_flights s2 ! i) > 0 \<and> failed = None
                   \<and> di_state found = DiscoverySupported
                then s2\<lparr>dv_cache := AList.update kind
                          \<lparr>ca_result = found, ca_expires_at = now + runtimeDiscoveryCacheTTL\<rparr> (dv_cache s2)\<rparr>
                else s2)
      in update_flight i (\<lambda>f. f\<lparr>fl_result := found, fl_error := failed, fl_done := True, fl_cancelled := True\<rparr>) s3)"

text \<open>
  The wait ends when the flight is done, or (\<open>ctx\<close>) when the caller's context is; a caller that
  leaves a flight that is not done takes itself off its count. \<open>None\<close>: it waits on.
\<close>

definition waitForFlight ::
  "context_error option \<Rightarrow> nat \<Rightarrow> discovery_service
     \<Rightarrow> discovery_service \<times> (detect_error + discovery) option" where
  "waitForFlight ctx i s =
     (let f = dv_flights s ! i in
      if fl_done f then (s, Some (case fl_error f of Some e \<Rightarrow> Inl e | None \<Rightarrow> Inr (fl_result f)))
      else case ctx of
        None \<Rightarrow> (s, None)
      | Some e \<Rightarrow>
          (update_flight i
             (\<lambda>f. let n = fl_waiters f - 1
                  in f\<lparr>fl_waiters := n, fl_cancelled := (if n = 0 then True else fl_cancelled f)\<rparr>) s,
           Some (Inl (ErrDetectContext e))))"

subsection \<open>Runs of the service\<close>

text \<open>The service with the flights that callers wait for, and the kind of each flight.\<close>

record discovery_run =
  dr_service :: discovery_service
  dr_waiting :: "nat list"
  dr_kinds :: "string list"

inductive discovery_step :: "'h runtime_registry \<Rightarrow> discovery_run \<Rightarrow> discovery_run \<Rightarrow> bool"
  for reg :: "'h runtime_registry" where
  answered: "Detect reg ctx now kind (dr_service s) = (d, Returned r) \<Longrightarrow>
     discovery_step reg s (s\<lparr>dr_service := d\<rparr>)"
| joined: "Detect reg ctx now kind (dr_service s) = (d, Joined i) \<Longrightarrow>
     discovery_step reg s (s\<lparr>dr_service := d, dr_waiting := i # dr_waiting s\<rparr>)"
| launched: "Detect reg ctx now kind (dr_service s) = (d, Launched i) \<Longrightarrow>
     discovery_step reg s
       (s\<lparr>dr_service := d, dr_waiting := i # dr_waiting s, dr_kinds := dr_kinds s @ [kind]\<rparr>)"
| landed: "i < length (dr_kinds s) \<Longrightarrow> \<not> fl_done (dv_flights (dr_service s) ! i) \<Longrightarrow>
     discovery_step reg s (s\<lparr>dr_service := runFlight now (dr_kinds s ! i) i found failed (dr_service s)\<rparr>)"
| left: "i \<in> set (dr_waiting s) \<Longrightarrow> waitForFlight ctx i (dr_service s) = (d, Some r) \<Longrightarrow>
     discovery_step reg s (s\<lparr>dr_service := d, dr_waiting := remove1 i (dr_waiting s)\<rparr>)"

inductive discovery_reachable :: "'h runtime_registry \<Rightarrow> discovery_run \<Rightarrow> bool"
  for reg :: "'h runtime_registry" where
  start: "discovery_reachable reg \<lparr>dr_service = NewRuntimeDiscovery, dr_waiting = [], dr_kinds = []\<rparr>"
| move: "discovery_reachable reg s \<Longrightarrow> discovery_step reg s s' \<Longrightarrow> discovery_reachable reg s'"

end
