(* ===== verification/Discovery_Properties.thy ===== *)
theory Discovery_Properties
  imports Discovery_Service Management_Properties
begin

text \<open>
  Properties of Runtime discovery: callers of one kind share one detection, which is not cancelled
  while any of them waits.
\<close>

definition flight_ok :: "discovery_run \<Rightarrow> nat \<Rightarrow> bool" where
  "flight_ok s i \<longleftrightarrow>
     (let f = dv_flights (dr_service s) ! i; n = count_list (dr_waiting s) i in
      \<not> fl_done f \<longrightarrow>
        fl_waiters f = int n \<and> fl_cancelled f = (n = 0)
        \<and> (n > 0 \<longrightarrow> map_of (dv_current (dr_service s)) (dr_kinds s ! i) = Some i))"

definition discovery_ok :: "discovery_run \<Rightarrow> bool" where
  "discovery_ok s \<longleftrightarrow>
     length (dv_flights (dr_service s)) = length (dr_kinds s)
     \<and> (\<forall>i \<in> set (dr_waiting s). i < length (dr_kinds s))
     \<and> (\<forall>i < length (dr_kinds s). flight_ok s i)
     \<and> (\<forall>k i. map_of (dv_current (dr_service s)) k = Some i \<longrightarrow>
          i < length (dr_kinds s) \<and> dr_kinds s ! i = k \<and> \<not> fl_done (dv_flights (dr_service s) ! i))"

lemma log_fields [simp]:
  "dv_flights (logFailure k e s) = dv_flights s" "dv_current (logFailure k e s) = dv_current s"
  "dv_flights (logSuccess k d s) = dv_flights s" "dv_current (logSuccess k d s) = dv_current s"
  "dv_cache (logFailure k e s) = dv_cache s" "dv_cache (logSuccess k d s) = dv_cache s"
  by (simp_all add: logFailure_def logSuccess_def Let_def)

lemma update_flight_fields [simp]:
  "dv_current (update_flight i f s) = dv_current s" "dv_cache (update_flight i f s) = dv_cache s"
  "dv_flights (update_flight i f s) = (dv_flights s)[i := f (dv_flights s ! i)]"
  by (simp_all add: update_flight_def)

lemma runFlight_fields:
  "dv_flights (runFlight now k i found failed s) =
     (dv_flights s)[i := (dv_flights s ! i)\<lparr>fl_result := found, fl_error := failed, fl_done := True,
                                            fl_cancelled := True\<rparr>]"
  "dv_current (runFlight now k i found failed s) =
     (if map_of (dv_current s) k = Some i then AList.delete k (dv_current s) else dv_current s)"
  by (simp_all add: runFlight_def Let_def split: option.split)

lemma count_remove1: "i \<in> set xs \<Longrightarrow> count_list (remove1 i xs) j = count_list xs j - (if i = j then 1 else 0)"
  by (induction xs) auto

lemma count_pos: "i \<in> set xs \<longleftrightarrow> count_list xs i > 0"
  by (induction xs) auto

lemma okD:
  assumes "discovery_ok s"
  shows "length (dv_flights (dr_service s)) = length (dr_kinds s)"
    and "i \<in> set (dr_waiting s) \<Longrightarrow> i < length (dr_kinds s)"
    and "i < length (dr_kinds s) \<Longrightarrow> flight_ok s i"
    and "map_of (dv_current (dr_service s)) k = Some i \<Longrightarrow>
      i < length (dr_kinds s) \<and> dr_kinds s ! i = k \<and> \<not> fl_done (dv_flights (dr_service s) ! i)"
  using assms unfolding discovery_ok_def by blast+

lemma okI:
  assumes "length (dv_flights (dr_service s)) = length (dr_kinds s)"
    and "\<And>i. i \<in> set (dr_waiting s) \<Longrightarrow> i < length (dr_kinds s)"
    and "\<And>i. i < length (dr_kinds s) \<Longrightarrow> flight_ok s i"
    and "\<And>k i. map_of (dv_current (dr_service s)) k = Some i \<Longrightarrow>
      i < length (dr_kinds s) \<and> dr_kinds s ! i = k \<and> \<not> fl_done (dv_flights (dr_service s) ! i)"
  shows "discovery_ok s"
  using assms unfolding discovery_ok_def by blast

text \<open>A flight that a step leaves alone stays in order.\<close>

lemma flight_frame:
  assumes "flight_ok s j" "dv_flights (dr_service s') ! j = dv_flights (dr_service s) ! j"
    and "count_list (dr_waiting s') j = count_list (dr_waiting s) j"
    and "map_of (dv_current (dr_service s)) (dr_kinds s ! j) = Some j \<Longrightarrow> count_list (dr_waiting s) j > 0 \<Longrightarrow>
      map_of (dv_current (dr_service s')) (dr_kinds s' ! j) = Some j"
  shows "flight_ok s' j"
  using assms by (simp add: flight_ok_def Let_def)

lemma landed_ok:
  assumes ok: "discovery_ok s" and i: "i < length (dr_kinds s)"
  shows "discovery_ok (s\<lparr>dr_service := runFlight now (dr_kinds s ! i) i found failed (dr_service s)\<rparr>)"
proof (rule okI)
  let ?s' = "s\<lparr>dr_service := runFlight now (dr_kinds s ! i) i found failed (dr_service s)\<rparr>"
  note len = okD(1) [OF ok]
  show "length (dv_flights (dr_service ?s')) = length (dr_kinds ?s')" by (simp add: runFlight_fields len)
  show "j < length (dr_kinds ?s')" if "j \<in> set (dr_waiting ?s')" for j
    using okD(2) [OF ok, of j] that by simp
  show "flight_ok ?s' j" if "j < length (dr_kinds ?s')" for j
  proof (cases "j = i")
    case True
    then show ?thesis using i len by (simp add: flight_ok_def Let_def runFlight_fields)
  next
    case False
    have "flight_ok s j" using okD(3) [OF ok, of j] that by simp
    then show ?thesis
      by (rule flight_frame) (use False in \<open>auto simp: runFlight_fields map_of_AList_delete\<close>)
  qed
  show "j < length (dr_kinds ?s') \<and> dr_kinds ?s' ! j = k \<and> \<not> fl_done (dv_flights (dr_service ?s') ! j)"
    if at: "map_of (dv_current (dr_service ?s')) k = Some j" for k j
  proof -
    have old: "map_of (dv_current (dr_service s)) k = Some j"
      using at by (simp add: runFlight_fields map_of_AList_delete split: if_splits)
    note live = okD(4) [OF ok old]
    have "j \<noteq> i" using at live old by (auto simp: runFlight_fields map_of_AList_delete)
    with live show ?thesis by (simp add: runFlight_fields)
  qed
qed

lemma left_ok:
  assumes ok: "discovery_ok s" and "i \<in> set (dr_waiting s)"
    and wait: "waitForFlight ctx i (dr_service s) = (d, Some r)"
  shows "discovery_ok (s\<lparr>dr_service := d, dr_waiting := remove1 i (dr_waiting s)\<rparr>)"
proof (rule okI)
  let ?s' = "s\<lparr>dr_service := d, dr_waiting := remove1 i (dr_waiting s)\<rparr>"
  note len = okD(1) [OF ok]
  have i: "i < length (dr_kinds s)" using okD(2) [OF ok] assms(2) by blast
  have pos: "count_list (dr_waiting s) i > 0" using assms(2) count_pos by metis
  have cur: "dv_current d = dv_current (dr_service s)"
    and same: "length (dv_flights d) = length (dv_flights (dr_service s))"
    and other: "j \<noteq> i \<Longrightarrow> dv_flights d ! j = dv_flights (dr_service s) ! j"
    and ended: "fl_done (dv_flights d ! j) = fl_done (dv_flights (dr_service s) ! j)" for j
    using wait i len by (cases "j = i"; auto simp: waitForFlight_def Let_def split: if_splits option.splits)+
  show "length (dv_flights (dr_service ?s')) = length (dr_kinds ?s')" by (simp add: same len)
  show "j < length (dr_kinds ?s')" if "j \<in> set (dr_waiting ?s')" for j
    using okD(2) [OF ok, of j] that notin_set_remove1 [of j "dr_waiting s" i] by auto
  show "flight_ok ?s' j" if "j < length (dr_kinds ?s')" for j
  proof (cases "j = i")
    case False
    have "flight_ok s j" using okD(3) [OF ok, of j] that by simp
    then show ?thesis
      by (rule flight_frame) (use False other in \<open>auto simp: cur count_remove1 assms(2)\<close>)
  next
    case True
    have "flight_ok s i" using okD(3) [OF ok i] .
    then show ?thesis
      using wait i len pos True assms(2)
      by (auto simp: flight_ok_def waitForFlight_def Let_def count_remove1 split: if_splits option.splits)
  qed
  show "j < length (dr_kinds ?s') \<and> dr_kinds ?s' ! j = k \<and> \<not> fl_done (dv_flights (dr_service ?s') ! j)"
    if "map_of (dv_current (dr_service ?s')) k = Some j" for k j
    using okD(4) [OF ok, of k j] that by (simp add: cur ended)
qed

lemma joined_ok:
  assumes ok: "discovery_ok s" and "Detect reg ctx now kind (dr_service s) = (d, Joined i)"
  shows "discovery_ok (s\<lparr>dr_service := d, dr_waiting := i # dr_waiting s\<rparr>)"
proof (rule okI)
  let ?s' = "s\<lparr>dr_service := d, dr_waiting := i # dr_waiting s\<rparr>"
  note len = okD(1) [OF ok]
  have cur: "map_of (dv_current (dr_service s)) kind = Some i"
    and d: "d = update_flight i (\<lambda>f. f\<lparr>fl_waiters := fl_waiters f + 1\<rparr>) (dr_service s)"
    and pos: "fl_waiters (dv_flights (dr_service s) ! i) > 0"
    using assms(2) by (auto simp: Detect_def split: if_splits option.splits)
  note i = okD(4) [OF ok cur]
  show "length (dv_flights (dr_service ?s')) = length (dr_kinds ?s')" by (simp add: d len)
  show "j < length (dr_kinds ?s')" if "j \<in> set (dr_waiting ?s')" for j
    using okD(2) [OF ok, of j] that i by auto
  show "flight_ok ?s' j" if "j < length (dr_kinds ?s')" for j
  proof (cases "j = i")
    case False
    have "flight_ok s j" using okD(3) [OF ok, of j] that by simp
    then show ?thesis by (rule flight_frame) (use False in \<open>simp_all add: d\<close>)
  next
    case True
    have "flight_ok s i" using okD(3) [OF ok] i by blast
    then show ?thesis using pos i cur len True by (simp add: flight_ok_def d Let_def)
  qed
  show "j < length (dr_kinds ?s') \<and> dr_kinds ?s' ! j = k \<and> \<not> fl_done (dv_flights (dr_service ?s') ! j)"
    if "map_of (dv_current (dr_service ?s')) k = Some j" for k j
    using okD(4) [OF ok, of k j] that i len by (cases "j = i") (simp_all add: d)
qed

lemma launched_ok:
  assumes ok: "discovery_ok s" and "Detect reg ctx now kind (dr_service s) = (d, Launched i)"
  shows "discovery_ok
    (s\<lparr>dr_service := d, dr_waiting := i # dr_waiting s, dr_kinds := dr_kinds s @ [kind]\<rparr>)"
proof (rule okI)
  let ?fs = "dv_flights (dr_service s)" and ?cur = "dv_current (dr_service s)" and ?n = "length (dr_kinds s)"
  let ?s' = "s\<lparr>dr_service := d, dr_waiting := i # dr_waiting s, dr_kinds := dr_kinds s @ [kind]\<rparr>"
  note len = okD(1) [OF ok]
  have d: "dv_flights d = ?fs @ [new_flight]" "dv_current d = AList.update kind ?n ?cur"
    and i: "i = ?n"
    and old: "\<And>j. map_of ?cur kind = Some j \<Longrightarrow> \<not> fl_waiters (?fs ! j) > 0"
    using assms(2) len by (auto simp: Detect_def split: if_splits option.splits)
  have "?n \<notin> set (dr_waiting s)" using okD(2) [OF ok, of ?n] by auto
  then have none: "count_list (dr_waiting s) ?n = 0" using count_pos [of ?n "dr_waiting s"] by simp
  show "length (dv_flights (dr_service ?s')) = length (dr_kinds ?s')" by (simp add: d len)
  show "j < length (dr_kinds ?s')" if "j \<in> set (dr_waiting ?s')" for j
    using okD(2) [OF ok, of j] that i by auto
  show "flight_ok ?s' j" if "j < length (dr_kinds ?s')" for j
  proof (cases "j = ?n")
    case True
    then show ?thesis
      using none len by (simp add: flight_ok_def d i Let_def new_flight_def map_of_AList_update nth_append)
  next
    case False
    then have j: "j < ?n" using that by simp
    have ok_j: "flight_ok s j" using okD(3) [OF ok j] .
    have "map_of (dv_current d) (dr_kinds s ! j) = Some j"
      if at: "map_of ?cur (dr_kinds s ! j) = Some j" "count_list (dr_waiting s) j > 0"
    proof -
      have "fl_waiters (?fs ! j) > 0"
        using ok_j okD(4) [OF ok at(1)] at(2) by (simp add: flight_ok_def Let_def)
      then have "dr_kinds s ! j \<noteq> kind" using old at(1) by metis
      then show ?thesis using at(1) by (simp add: d map_of_AList_update)
    qed
    then show ?thesis
      using j len i by (intro flight_frame [OF ok_j]) (simp_all add: d nth_append)
  qed
  show "j < length (dr_kinds ?s') \<and> dr_kinds ?s' ! j = k \<and> \<not> fl_done (dv_flights (dr_service ?s') ! j)"
    if "map_of (dv_current (dr_service ?s')) k = Some j" for k j
    using okD(4) [OF ok, of k j] that len
    by (auto simp: d map_of_AList_update nth_append new_flight_def split: if_splits)
qed

lemma step_ok: "discovery_step reg s s' \<Longrightarrow> discovery_ok s \<Longrightarrow> discovery_ok s'"
proof (induction rule: discovery_step.induct)
  case (answered ctx now kind s d r)
  then have same: "dv_flights d = dv_flights (dr_service s)" "dv_current d = dv_current (dr_service s)"
    by (auto simp: Detect_def split: if_splits option.splits)
  note ok = okD [OF answered.prems]
  show ?case by (rule okI) (use ok same in \<open>auto simp: flight_ok_def\<close>)
next
  case (joined ctx now kind s d i) then show ?case by (intro joined_ok)
next
  case (launched ctx now kind s d i) then show ?case by (intro launched_ok)
next
  case (landed i s now found failed) then show ?case by (intro landed_ok)
next
  case (left i s ctx d r) then show ?case by (intro left_ok)
qed

lemma reachable_ok: "discovery_reachable reg s \<Longrightarrow> discovery_ok s"
proof (induction rule: discovery_reachable.induct)
  case start
  then show ?case by (simp add: discovery_ok_def NewRuntimeDiscovery_def)
next
  case (move s s')
  then show ?case using step_ok by metis
qed

text \<open>
  C22. A shared detection serves all who wait for it. In every state that the service reaches, a
  detection that some caller still waits for has not been cancelled unless it is done, and two
  running detections of one kind that have not been cancelled are the same.
\<close>

theorem shared_detection_serves_every_waiter:
  assumes "discovery_reachable reg s"
  shows "(\<forall>i \<in> set (dr_waiting s).
            let f = dv_flights (dr_service s) ! i in fl_cancelled f \<longrightarrow> fl_done f)
    \<and> (\<forall>i < length (dr_kinds s). \<forall>j < length (dr_kinds s).
         dr_kinds s ! i = dr_kinds s ! j
         \<and> (\<forall>k \<in> {i, j}. let f = dv_flights (dr_service s) ! k in \<not> fl_done f \<and> \<not> fl_cancelled f)
         \<longrightarrow> i = j)"
proof -
  note ok = okD [OF reachable_ok [OF assms]]
  have waits: "fl_cancelled (dv_flights (dr_service s) ! i) \<Longrightarrow> fl_done (dv_flights (dr_service s) ! i)"
    if "i \<in> set (dr_waiting s)" for i
    using ok(3) [OF ok(2) [OF that]] that count_pos [of i "dr_waiting s"]
    by (auto simp: flight_ok_def Let_def)
  have current: "map_of (dv_current (dr_service s)) (dr_kinds s ! i) = Some i"
    if "i < length (dr_kinds s)" "\<not> fl_done (dv_flights (dr_service s) ! i)"
      "\<not> fl_cancelled (dv_flights (dr_service s) ! i)" for i
    using ok(3) [OF that(1)] that by (auto simp: flight_ok_def Let_def)
  show ?thesis
    unfolding Let_def using waits current by (intro conjI ballI allI impI) (simp, metis insertCI option.inject)
qed

definition discoverer_sample :: "nat runtime_registry" where
  "discoverer_sample = [(''hermes'', sample_bundle\<lparr>bn_discoverer := Some 1\<rparr>)]"

text \<open>Two callers share a detection; the first leaves, and the second is still served.\<close>

theorem shared_detection_serves_every_waiter_witness:
  "\<exists>s. discovery_reachable discoverer_sample s \<and> dr_waiting s = [0]
     \<and> \<not> fl_done (dv_flights (dr_service s) ! 0) \<and> \<not> fl_cancelled (dv_flights (dr_service s) ! 0)"
proof -
  let ?s0 = "\<lparr>dr_service = NewRuntimeDiscovery, dr_waiting = [], dr_kinds = []\<rparr>"
  let ?f = "\<lambda>n. \<lparr>fl_done = False, fl_cancelled = False, fl_waiters = n, fl_result = zero_discovery,
    fl_error = None\<rparr>"
  let ?d = "\<lambda>n. \<lparr>dv_flights = [?f n], dv_current = [(''hermes'', 0)], dv_cache = [], dv_log = []\<rparr>"
  have get: "Option.bind (registry_Get discoverer_sample ''hermes'') bn_discoverer = Some 1"
    by (simp add: discoverer_sample_def registry_Get_def)
  have d1: "Detect discoverer_sample None 1 ''hermes'' (dr_service ?s0) = (?d 1, Launched 0)"
    by (simp add: Detect_def get NewRuntimeDiscovery_def new_flight_def)
  let ?s1 = "?s0\<lparr>dr_service := ?d 1, dr_waiting := 0 # dr_waiting ?s0, dr_kinds := dr_kinds ?s0 @ [''hermes'']\<rparr>"
  have d2: "Detect discoverer_sample None 2 ''hermes'' (dr_service ?s1) = (?d 2, Joined 0)"
    by (simp add: Detect_def get update_flight_def)
  let ?s2 = "?s1\<lparr>dr_service := ?d 2, dr_waiting := 0 # dr_waiting ?s1\<rparr>"
  have d3: "waitForFlight (Some Canceled) 0 (dr_service ?s2)
      = (?d 1, Some (Inl (ErrDetectContext Canceled)))"
    by (simp add: waitForFlight_def update_flight_def)
  let ?s3 = "?s2\<lparr>dr_service := ?d 1, dr_waiting := remove1 0 (dr_waiting ?s2)\<rparr>"
  have "discovery_reachable discoverer_sample ?s3"
    by (rule discovery_reachable.move [OF discovery_reachable.move [OF discovery_reachable.move
          [OF discovery_reachable.start launched [OF d1]] joined [OF d2]] left [OF _ d3]]) simp
  with shared_detection_serves_every_waiter [OF this] show ?thesis by (intro exI [of _ ?s3]) simp
qed

end
