(* ===== verification/Skill_Bundle.thy ===== *)
theory Skill_Bundle
  imports Install_Store
begin

text \<open>
  Bundles of skill files (managedskills/bundle.go): the inspection of a directory with its limits,
  the digest over its sorted files, and the checked copy of a source. SHA-256, lower-casing
  and the test for alternate data streams are parameters, as is the text of a file that the tree
  holds as a JSON document. Separators are slashes (\<open>filepath.ToSlash\<close> is the identity, volume
  names are empty); the tree answers every system call, and a write fails only when \<open>sk_write\<close>
  says so.
\<close>

definition SkillFileName :: string where "SkillFileName = ''SKILL.md''"
definition ManagedMarkerName :: string where "ManagedMarkerName = ''.yorva-managed.json''"
definition MaxBundleFiles :: nat where "MaxBundleFiles = 128"
definition MaxBundleDepth :: nat where "MaxBundleDepth = 8"
definition MaxBundleFileBytes :: int where "MaxBundleFileBytes = 512 * 2 ^ 10"
definition MaxBundleTotalBytes :: int where "MaxBundleTotalBytes = 2 * 2 ^ 20"

record skill_os =
  sk_sha256 :: "string \<Rightarrow> string" \<comment> \<open>the digest in hexadecimal\<close>
  sk_lower :: "string \<Rightarrow> string"
  sk_text :: "file_bytes \<Rightarrow> string"
  sk_streams :: "path \<Rightarrow> bool" \<comment> \<open>an alternate data stream, or an error of the test\<close>
  sk_write :: "string \<Rightarrow> bool" \<comment> \<open>whether writing (creating, syncing, closing) the file succeeds\<close>

datatype bundle_error =
    ErrBundleInvalid
  | ErrCatalogEntryInvalid
  | ErrCatalogNotFound
  | ErrManagedPathConflict
  | ErrBundleCanceled \<comment> \<open>the error of the context\<close>
  | ErrBundleOS

record skill_bundle =
  bu_files :: "string list"
  bu_sha256 :: string
  bu_total :: int

subsection \<open>Paths\<close>

definition pathDepth :: "string \<Rightarrow> nat" where
  "pathDepth p = length (filter (\<lambda>c. c = CHR ''/'') p) + 1"

definition safe_part :: "string \<Rightarrow> bool" where
  "safe_part c \<longleftrightarrow>
     \<not> (c = [] \<or> c = ''.'' \<or> c = ''..'' \<or> Contains c '':'' \<or> \<not> ValidString c)"

definition safeRelativePath :: "string \<Rightarrow> bool" where
  "safeRelativePath p \<longleftrightarrow>
     \<not> (p = [] \<or> p = ''.'' \<or> HasPrefix p ''/'')
     \<and> \<not> (path_clean p \<noteq> p \<or> path_clean p = ''..'' \<or> HasPrefix (path_clean p) ''../'')
     \<and> list_all safe_part (split_on CHR ''/'' (path_clean p))"

subsection \<open>The digest\<close>

text \<open>\<open>binary.BigEndian\<close>: the last \<open>k\<close> bytes of a number.\<close>

fun be_bytes :: "nat \<Rightarrow> nat \<Rightarrow> string" where
  "be_bytes 0 n = []"
| "be_bytes (Suc k) n = be_bytes k (n div 256) @ [char_of n]"

definition hashFile :: "string \<Rightarrow> string \<Rightarrow> string" where
  "hashFile relative content = be_bytes 4 (length relative) @ relative @ be_bytes 8 (length content) @ content"

definition bundle_text :: "(string \<times> string) list \<Rightarrow> string" where
  "bundle_text files = concat (map (\<lambda>(r, c). hashFile r c) files)"

subsection \<open>Inspection\<close>

record bundle_scan =
  bs_seen :: "(string \<times> string) list" \<comment> \<open>paths by their lower-case form\<close>
  bs_total :: int
  bs_files :: "(string \<times> string) list" \<comment> \<open>path and content\<close>

definition no_scan :: bundle_scan where
  "no_scan = \<lparr>bs_seen = [], bs_total = 0, bs_files = []\<rparr>"

text \<open>
  One call of the function that \<open>filepath.WalkDir\<close> is given; a file is read here, where the code
  reads it after the walk.
\<close>

definition inspect_entry ::
  "skill_os \<Rightarrow> fs \<Rightarrow> path \<Rightarrow> bool \<Rightarrow> path \<Rightarrow> bundle_scan \<Rightarrow> bundle_scan option" where
  "inspect_entry os fs root excludeMarker p sc =
     (case lstat fs p of
        Inl _ \<Rightarrow> None
      | Inr (Link _) \<Rightarrow> None
      | Inr n \<Rightarrow>
     (let relative = rel_text root p; folded = sk_lower os relative in
      if sk_streams os p then None
      else if \<not> safeRelativePath relative then None
      else if pathDepth relative > MaxBundleDepth then None
      else if (case map_of (bs_seen sc) folded of Some previous \<Rightarrow> previous \<noteq> relative | None \<Rightarrow> False) then None
      else (let sc1 = sc\<lparr>bs_seen := (folded, relative) # bs_seen sc\<rparr> in
        case n of
          File b \<Rightarrow>
            (let content = sk_text os b; total = bs_total sc1 + int (length content) in
             if relative = ManagedMarkerName then (if excludeMarker then Some sc1 else None)
             else if int (length content) > MaxBundleFileBytes then None
             else if total > MaxBundleTotalBytes then None
             else if length (bs_files sc1) + 1 > MaxBundleFiles then None
             else Some (sc1\<lparr>bs_total := total, bs_files := bs_files sc1 @ [(relative, content)]\<rparr>))
        | _ \<Rightarrow> Some sc1)))"

fun inspect_entries ::
  "skill_os \<Rightarrow> fs \<Rightarrow> path \<Rightarrow> bool \<Rightarrow> path list \<Rightarrow> bundle_scan \<Rightarrow> bundle_scan option" where
  "inspect_entries os fs root excludeMarker [] sc = Some sc"
| "inspect_entries os fs root excludeMarker (p # ps) sc =
     (if p = root then inspect_entries os fs root excludeMarker ps sc
      else Option.bind (inspect_entry os fs root excludeMarker p sc)
             (inspect_entries os fs root excludeMarker ps))"

text \<open>The files in the order in which they are hashed.\<close>

definition bundle_content :: "skill_os \<Rightarrow> fs \<Rightarrow> path \<Rightarrow> bool \<Rightarrow> (bundle_scan \<times> (string \<times> string) list) option" where
  "bundle_content os fs root excludeMarker =
     (if lstat fs root \<noteq> Inr Dir \<or> sk_streams os root then None
      else map_option (\<lambda>sc. (sc, sort_key fst (bs_files sc)))
             (inspect_entries os fs root excludeMarker (tree_paths fs root) no_scan))"

definition inspectDirectory :: "skill_os \<Rightarrow> fs \<Rightarrow> path \<Rightarrow> bool \<Rightarrow> bundle_error + skill_bundle" where
  "inspectDirectory os fs root excludeMarker =
     (case bundle_content os fs root excludeMarker of
        None \<Rightarrow> Inl ErrBundleInvalid
      | Some (sc, files) \<Rightarrow>
          if SkillFileName \<notin> set (map fst files) then Inl ErrBundleInvalid
          else Inr \<lparr>bu_files = map fst files, bu_sha256 = sk_sha256 os (bundle_text files),
                    bu_total = bs_total sc\<rparr>)"

definition InspectSourceDirectory :: "skill_os \<Rightarrow> fs \<Rightarrow> path \<Rightarrow> bundle_error + skill_bundle" where
  "InspectSourceDirectory os fs root = inspectDirectory os fs root False"

definition InspectProjectedDirectory :: "skill_os \<Rightarrow> fs \<Rightarrow> path \<Rightarrow> bundle_error + skill_bundle" where
  "InspectProjectedDirectory os fs root = inspectDirectory os fs root True"

subsection \<open>Copying\<close>

definition path_of :: "string \<Rightarrow> path" where
  "path_of relative = split_on CHR ''/'' relative"

text \<open>At most \<open>MaxBundleFileBytes + 1\<close> bytes are copied; a failed write leaves an empty file.\<close>

definition copyRegularFile :: "skill_os \<Rightarrow> fs \<Rightarrow> path \<Rightarrow> path \<Rightarrow> string \<Rightarrow> fs \<times> bundle_error option" where
  "copyRegularFile os fs source destination relative =
     (case lstat fs source of
        Inr (File b) \<Rightarrow>
          (case lstat fs destination of
             Inl ErrNotExist \<Rightarrow>
               if \<not> is_dir fs (butlast destination) then (fs, Some ErrBundleInvalid)
               else if \<not> sk_write os relative then (put destination (File (Bytes [])) fs, Some ErrBundleInvalid)
               else (put destination (File (Bytes (take (nat (MaxBundleFileBytes + 1)) (sk_text os b)))) fs, None)
           | _ \<Rightarrow> (fs, Some ErrBundleInvalid))
      | _ \<Rightarrow> (fs, Some ErrBundleInvalid))"

text \<open>\<open>ctx n\<close>: whether the context is done when \<open>n\<close> files are left.\<close>

fun copy_files ::
  "skill_os \<Rightarrow> (nat \<Rightarrow> bool) \<Rightarrow> path \<Rightarrow> path \<Rightarrow> string list \<Rightarrow> fs \<Rightarrow> fs \<times> bundle_error option" where
  "copy_files os ctx source destination [] fs = (fs, None)"
| "copy_files os ctx source destination (r # rs) fs =
     (if ctx (length (r # rs)) then (fs, Some ErrBundleCanceled)
      else let to = destination @ path_of r in
        case mkdir_all fs (butlast to) of
          (fs1, Some _) \<Rightarrow> (fs1, Some ErrBundleInvalid)
        | (fs1, None) \<Rightarrow>
            (case copyRegularFile os fs1 (source @ path_of r) to r of
               (fs2, Some e) \<Rightarrow> (fs2, Some e)
             | (fs2, None) \<Rightarrow> copy_files os ctx source destination rs fs2))"

text \<open>A copy that is not accepted is removed again.\<close>

definition CopySourceDirectory ::
  "skill_os \<Rightarrow> (nat \<Rightarrow> bool) \<Rightarrow> path \<Rightarrow> path \<Rightarrow> fs \<Rightarrow> fs \<times> (bundle_error + skill_bundle)" where
  "CopySourceDirectory os ctx source destination fs =
     (case InspectSourceDirectory os fs source of
        Inl e \<Rightarrow> (fs, Inl e)
      | Inr b \<Rightarrow>
     (case lstat fs destination of
        Inl ErrNotExist \<Rightarrow>
          (case mkdir fs destination of
             (fs1, Some _) \<Rightarrow> (fs1, Inl ErrBundleInvalid)
           | (fs1, None) \<Rightarrow>
               (case copy_files os ctx source destination (bu_files b) fs1 of
                  (fs2, Some e) \<Rightarrow> (fst (remove_all fs2 destination), Inl e)
                | (fs2, None) \<Rightarrow>
                    (case InspectSourceDirectory os fs2 destination of
                       Inl e \<Rightarrow> (fst (remove_all fs2 destination), Inl e)
                     | Inr copied \<Rightarrow>
                         if bu_sha256 copied \<noteq> bu_sha256 b
                         then (fst (remove_all fs2 destination), Inl ErrBundleInvalid)
                         else (fs2, Inr copied))))
      | _ \<Rightarrow> (fs, Inl ErrBundleInvalid)))"

end
