(* ===== verification/Skill_Store.thy ===== *)
theory Skill_Store
  imports Skill_Bundle Backup_Verify
begin

text \<open>
  The store of managed skills (managedskills/store.go, import.go): catalog sources and their
  validation, the managed_copy of a source into its immutable directory, and the import of
  what the desktop staged, from a directory or a zip archive. The YAML decoder and the reader of
  archives are parameters. \<open>ctx n\<close>: whether the context is done when \<open>n\<close> files are left.
\<close>

subsection \<open>Identifiers and data\<close>

definition managedIDPattern :: "string \<Rightarrow> bool" where
  "managedIDPattern =
     class_head_tail is_lower (\<lambda>c. is_lower c \<or> is_digit c \<or> c = CHR ''_'' \<or> c = CHR ''-'') 63"

definition instanceIDPattern :: "string \<Rightarrow> bool" where
  "instanceIDPattern =
     class_head_tail is_alnum (\<lambda>c. is_alnum c \<or> c = CHR ''.'' \<or> c = CHR ''_'' \<or> c = CHR ''-'') 127"

definition LocalImportSourceID :: string where "LocalImportSourceID = ''local-import''"

definition ValidateImportSourceRef :: "string \<Rightarrow> bool" where
  "ValidateImportSourceRef = class_exact (\<lambda>c. is_alnum c \<or> c = CHR ''_'' \<or> c = CHR ''-'') 43"

record source_entry =
  sn_source :: string
  sn_skill :: string
  sn_name :: string
  sn_version :: string
  sn_description :: string

record managed_copy =
  ac_source :: string
  ac_skill :: string
  ac_version :: string
  ac_sha256 :: string
  ac_relative :: path
  ac_absolute :: path

text \<open>A source is a directory of a file tree: the embedded catalog, or the directory of an import.\<close>

record catalog_source =
  cs_descriptor :: source_entry
  cs_tree :: fs
  cs_directory :: path

record skill_frontmatter =
  fm_name :: string
  fm_description :: string
  fm_version :: string
  fm_author :: string
  fm_license :: string
  fm_platforms :: "string list"

record managed_store =
  sk_os :: skill_os
  sk_yaml :: "string \<Rightarrow> skill_frontmatter option" \<comment> \<open>strict decoding: unknown fields are refused\<close>
  sk_zip :: "string \<Rightarrow> zip_member list option"
  sk_root :: path
  sk_sources :: "catalog_source list"

definition catalog_before :: "source_entry \<Rightarrow> string list" where
  "catalog_before e = [sn_source e, sn_skill e]"

definition listCatalog :: "catalog_source list \<Rightarrow> source_entry list" where
  "listCatalog sources = sort_key catalog_before (map cs_descriptor sources)"

definition skill_lookup :: "managed_store \<Rightarrow> string \<Rightarrow> string \<Rightarrow> bundle_error + catalog_source" where
  "skill_lookup st skill source =
     (case filter (\<lambda>c. sn_skill (cs_descriptor c) = skill \<and> sn_source (cs_descriptor c) = source) (sk_sources st) of
        [] \<Rightarrow> Inl ErrCatalogNotFound
      | [c] \<Rightarrow> Inr c
      | _ \<Rightarrow> Inl ErrCatalogEntryInvalid)"

subsection \<open>The front matter\<close>

fun index_of :: "string \<Rightarrow> string \<Rightarrow> nat option" where
  "index_of [] p = (if p = [] then Some 0 else None)"
| "index_of (c # s) p = (if HasPrefix (c # s) p then Some 0 else map_option Suc (index_of s p))"

definition newline :: char where "newline = CHR 0x0A"

definition parseSkillFrontmatter ::
  "(string \<Rightarrow> skill_frontmatter option) \<Rightarrow> string \<Rightarrow> skill_frontmatter option" where
  "parseSkillFrontmatter yaml content =
     (let normalized = ReplaceAll content [CHR 0x0D, newline] [newline] in
      if \<not> HasPrefix normalized (''---'' @ [newline]) then None
      else case index_of (drop 4 normalized) ([newline] @ ''---'' @ [newline]) of
        None \<Rightarrow> None
      | Some n \<Rightarrow> yaml (take n (drop 4 normalized)))"

text \<open>Every platform of the closed set, once.\<close>

fun platforms_once :: "string list \<Rightarrow> string list \<Rightarrow> string list option" where
  "platforms_once [] wanted = Some wanted"
| "platforms_once (p # ps) wanted =
     (if p \<notin> set wanted then None else platforms_once ps (filter (\<lambda>q. q \<noteq> p) wanted))"

definition validateSkillFrontmatter ::
  "(string \<Rightarrow> skill_frontmatter option) \<Rightarrow> string \<Rightarrow> source_entry \<Rightarrow> bool" where
  "validateSkillFrontmatter yaml content d \<longleftrightarrow>
     (case parseSkillFrontmatter yaml content of
        None \<Rightarrow> False
      | Some m \<Rightarrow>
          \<not> (fm_name m \<noteq> sn_skill d \<or> fm_version m \<noteq> sn_version d \<or> TrimSpace (fm_description m) = []
             \<or> TrimSpace (fm_author m) = [] \<or> TrimSpace (fm_license m) = [])
          \<and> platforms_once (fm_platforms m) [''windows'', ''linux'', ''macos''] = Some [])"

subsection \<open>Validating a source\<close>

definition validCatalogRelative :: "string \<Rightarrow> bool" where
  "validCatalogRelative r \<longleftrightarrow>
     \<not> (r = [] \<or> r = ''.'' \<or> HasPrefix r ''/'' \<or> path_clean r \<noteq> r \<or> Contains r [CHR 0x5C]
        \<or> Contains r '':'' \<or> HasPrefix r ''../'' \<or> pathDepth r > MaxBundleDepth)
     \<and> list_all (\<lambda>c. \<not> (c = [] \<or> c = ''.'' \<or> c = ''..'')) (split_on CHR ''/'' r)"

definition prose_file :: "skill_os \<Rightarrow> string \<Rightarrow> bool" where
  "prose_file os r \<longleftrightarrow>
     r = SkillFileName \<or> (HasPrefix r ''references/'' \<and> HasSuffix (sk_lower os r) ''.md'')"

text \<open>
  One call of the function that \<open>fs.WalkDir\<close> is given. An entry of a directory is not followed
  when it is a link, which is then no regular file.
\<close>

definition catalog_walk_entry ::
  "skill_os \<Rightarrow> fs \<Rightarrow> path \<Rightarrow> path \<Rightarrow> bundle_scan \<Rightarrow> bundle_scan option" where
  "catalog_walk_entry os fs root p sc =
     (let relative = rel_text root p; folded = sk_lower os relative in
      if \<not> validCatalogRelative relative then None
      else if (case map_of (bs_seen sc) folded of Some previous \<Rightarrow> previous \<noteq> relative | None \<Rightarrow> False) then None
      else (let sc1 = sc\<lparr>bs_seen := (folded, relative) # bs_seen sc\<rparr> in
        case lstat fs p of
          Inl _ \<Rightarrow> None
        | Inr Dir \<Rightarrow> Some sc1
        | Inr (Link _) \<Rightarrow> None
        | Inr (File b) \<Rightarrow>
            (let content = sk_text os b; total = bs_total sc1 + int (length content) in
             if \<not> prose_file os relative then None
             else if int (length content) > MaxBundleFileBytes \<or> \<not> ValidString content \<or> CHR 0x00 \<in> set content
             then None
             else if total > MaxBundleTotalBytes \<or> length (bs_files sc1) + 1 > MaxBundleFiles then None
             else Some (sc1\<lparr>bs_total := total, bs_files := bs_files sc1 @ [(relative, content)]\<rparr>))))"

fun catalog_walk :: "skill_os \<Rightarrow> fs \<Rightarrow> path \<Rightarrow> path list \<Rightarrow> bundle_scan \<Rightarrow> bundle_scan option" where
  "catalog_walk os fs root [] sc = Some sc"
| "catalog_walk os fs root (p # ps) sc =
     (if p = root then catalog_walk os fs root ps sc
      else Option.bind (catalog_walk_entry os fs root p sc) (catalog_walk os fs root ps))"

definition validateCatalogSource ::
  "managed_store \<Rightarrow> catalog_source \<Rightarrow> bundle_error + (string \<times> string) list \<times> string" where
  "validateCatalogSource st src =
     (let d = cs_descriptor src; os = sk_os st in
      if \<not> managedIDPattern (sn_source d) \<or> \<not> managedIDPattern (sn_skill d) \<or> sn_version d = []
      then Inl ErrCatalogEntryInvalid
      else case (case lstat (cs_tree src) (cs_directory src) of
                   Inl _ \<Rightarrow> None
                 | Inr _ \<Rightarrow>
                     catalog_walk os (cs_tree src) (cs_directory src)
                       (tree_paths (cs_tree src) (cs_directory src)) no_scan) of
        None \<Rightarrow> Inl ErrCatalogEntryInvalid
      | Some sc \<Rightarrow>
          (case sort_key fst (bs_files sc) of
             [] \<Rightarrow> Inl ErrCatalogEntryInvalid
           | (r, content) # rest \<Rightarrow>
               if r \<noteq> SkillFileName then Inl ErrCatalogEntryInvalid
               else if \<not> validateSkillFrontmatter (sk_yaml st) content d then Inl ErrCatalogEntryInvalid
               else Inr ((r, content) # rest, sk_sha256 os (bundle_text ((r, content) # rest)))))"

subsection \<open>Publishing a directory\<close>

text \<open>\<open>filepath.Rel\<close> of clean absolute paths leads upwards unless the child is below the root.\<close>

definition ensureContained :: "path \<Rightarrow> path \<Rightarrow> bundle_error option" where
  "ensureContained root child = (if is_under root child then None else Some ErrCatalogEntryInvalid)"

fun stage_files ::
  "skill_os \<Rightarrow> (nat \<Rightarrow> bool) \<Rightarrow> path \<Rightarrow> (string \<times> string) list \<Rightarrow> fs \<Rightarrow> fs \<times> bundle_error option" where
  "stage_files os ctx staging [] fs = (fs, None)"
| "stage_files os ctx staging ((r, content) # rest) fs =
     (if ctx (length ((r, content) # rest)) then (fs, Some ErrBundleCanceled)
      else let to = staging @ path_of r in
        case mkdir_all fs (butlast to) of
          (fs1, Some _) \<Rightarrow> (fs1, Some ErrBundleOS)
        | (fs1, None) \<Rightarrow>
            (case lstat fs1 to of
               Inr Dir \<Rightarrow> (fs1, Some ErrBundleOS)
             | Inr (Link _) \<Rightarrow> (fs1, Some ErrBundleOS)
             | _ \<Rightarrow>
                 if \<not> sk_write os r then (put to (File (Bytes [])) fs1, Some ErrBundleOS)
                 else stage_files os ctx staging rest (put to (File (Bytes content)) fs1)))"

text \<open>
  The parent directories, a fresh staging directory (\<open>temp\<close> is the name that \<open>os.MkdirTemp\<close> picks),
  and the files in it, inspected.
\<close>

definition prepare_staging ::
  "managed_store \<Rightarrow> (nat \<Rightarrow> bool) \<Rightarrow> string \<Rightarrow> path \<Rightarrow> (string \<times> string) list \<Rightarrow> fs
     \<Rightarrow> fs \<times> (bundle_error + path)" where
  "prepare_staging st ctx temp destination files fs =
     (case mkdir_all fs (butlast destination) of
        (fs1, Some _) \<Rightarrow> (fs1, Inl ErrBundleOS)
      | (fs1, None) \<Rightarrow>
     (case mkdir_all fs1 (sk_root st @ [''.staging'']) of
        (fs2, Some _) \<Rightarrow> (fs2, Inl ErrBundleOS)
      | (fs2, None) \<Rightarrow>
     (let staging = sk_root st @ [''.staging'', temp] in
      case mkdir fs2 staging of
        (fs3, Some _) \<Rightarrow> (fs3, Inl ErrBundleOS)
      | (fs3, None) \<Rightarrow>
          (case stage_files (sk_os st) ctx staging files fs3 of
             (fs4, Some e) \<Rightarrow> (fst (remove_all fs4 staging), Inl e)
           | (fs4, None) \<Rightarrow> (fs4, Inr staging)))))"

definition managed_copy_of ::
  "managed_store \<Rightarrow> string \<Rightarrow> string \<Rightarrow> string \<Rightarrow> string \<Rightarrow> string \<Rightarrow> managed_copy" where
  "managed_copy_of st inst skill source version digest =
     \<lparr>ac_source = source, ac_skill = skill, ac_version = version, ac_sha256 = digest,
      ac_relative = [inst, skill, digest], ac_absolute = sk_root st @ [inst, skill, digest]\<rparr>"

text \<open>\<open>race\<close> is what other processes do to the tree before the rename.\<close>

definition acquire_new ::
  "managed_store \<Rightarrow> (nat \<Rightarrow> bool) \<Rightarrow> string \<Rightarrow> (fs \<Rightarrow> fs) \<Rightarrow> (string \<times> string) list \<Rightarrow> managed_copy \<Rightarrow> fs
     \<Rightarrow> fs \<times> (bundle_error + managed_copy)" where
  "acquire_new st ctx temp race files a fs =
     (case prepare_staging st ctx temp (ac_absolute a) files fs of
        (fs1, Inl e) \<Rightarrow> (fs1, Inl e)
      | (fs1, Inr staging) \<Rightarrow>
     (case InspectSourceDirectory (sk_os st) fs1 staging of
        Inl _ \<Rightarrow> (fst (remove_all fs1 staging), Inl ErrCatalogEntryInvalid)
      | Inr b \<Rightarrow>
          if bu_sha256 b \<noteq> ac_sha256 a then (fst (remove_all fs1 staging), Inl ErrCatalogEntryInvalid)
          else
     (case rename (race fs1) staging (ac_absolute a) of
        (fs2, None) \<Rightarrow> (fst (remove_all fs2 staging), Inr a)
      | (fs2, Some _) \<Rightarrow>
          (fst (remove_all fs2 staging),
           (case InspectSourceDirectory (sk_os st) fs2 (ac_absolute a) of
              Inl _ \<Rightarrow> Inl ErrBundleOS
            | Inr existing \<Rightarrow>
                if bu_sha256 existing = ac_sha256 a then Inr a else Inl ErrBundleOS)))))"

definition AcquireToManaged ::
  "managed_store \<Rightarrow> (nat \<Rightarrow> bool) \<Rightarrow> string \<Rightarrow> (fs \<Rightarrow> fs) \<Rightarrow> string \<Rightarrow> string \<Rightarrow> string \<Rightarrow> fs
     \<Rightarrow> fs \<times> (bundle_error + managed_copy)" where
  "AcquireToManaged st ctx temp race inst skill source fs =
     (if \<not> instanceIDPattern inst \<or> \<not> managedIDPattern skill \<or> \<not> managedIDPattern source
      then (fs, Inl ErrCatalogEntryInvalid)
      else case bind_result (skill_lookup st skill source) (\<lambda>src.
                  bind_result (validateCatalogSource st src) (\<lambda>r. Inr (src, r))) of
        Inl e \<Rightarrow> (fs, Inl e)
      | Inr (src, files, digest) \<Rightarrow>
     (let a = managed_copy_of st inst skill source (sn_version (cs_descriptor src)) digest in
      case ensureContained (sk_root st) (ac_absolute a) of
        Some e \<Rightarrow> (fs, Inl e)
      | None \<Rightarrow>
     (case lstat fs (ac_absolute a) of
        Inr Dir \<Rightarrow>
          (fs, (case InspectSourceDirectory (sk_os st) fs (ac_absolute a) of
                  Inl _ \<Rightarrow> Inl ErrManagedPathConflict
                | Inr b \<Rightarrow> if bu_sha256 b \<noteq> digest then Inl ErrManagedPathConflict else Inr a))
      | Inr _ \<Rightarrow> (fs, Inl ErrManagedPathConflict)
      | Inl e \<Rightarrow>
          if e \<noteq> ErrNotExist then (fs, Inl ErrBundleOS)
          else if ctx (Suc (length files)) then (fs, Inl ErrBundleCanceled)
          else acquire_new st ctx (''acquire-'' @ temp) race files a fs)))"

subsection \<open>Importing\<close>

definition materializeImported ::
  "managed_store \<Rightarrow> (nat \<Rightarrow> bool) \<Rightarrow> string \<Rightarrow> (fs \<Rightarrow> fs) \<Rightarrow> string \<Rightarrow> string \<Rightarrow> string \<Rightarrow> string
     \<Rightarrow> (string \<times> string) list \<Rightarrow> fs \<Rightarrow> fs \<times> (bundle_error + managed_copy)" where
  "materializeImported st ctx temp race inst skill version digest files fs =
     (let a = managed_copy_of st inst skill LocalImportSourceID version digest;
          held = InspectSourceDirectory (sk_os st) fs (ac_absolute a) in
      case ensureContained (sk_root st) (ac_absolute a) of
        Some e \<Rightarrow> (fs, Inl e)
      | None \<Rightarrow>
          if (case held of Inl _ \<Rightarrow> False | Inr b \<Rightarrow> bu_sha256 b = digest) then (fs, Inr a)
          else if (case lstat fs (ac_absolute a) of Inr _ \<Rightarrow> True | Inl _ \<Rightarrow> False)
          then (fs, Inl ErrManagedPathConflict)
          else
     (case prepare_staging st ctx (''import-'' @ temp) (ac_absolute a) files fs of
        (fs1, Inl e) \<Rightarrow> (fs1, Inl e)
      | (fs1, Inr staging) \<Rightarrow>
     (case InspectSourceDirectory (sk_os st) fs1 staging of
        Inl _ \<Rightarrow> (fst (remove_all fs1 staging), Inl ErrBundleInvalid)
      | Inr b \<Rightarrow>
          if bu_sha256 b \<noteq> digest then (fst (remove_all fs1 staging), Inl ErrBundleInvalid)
          else
     (case rename (race fs1) staging (ac_absolute a) of
        (fs2, None) \<Rightarrow> (fst (remove_all fs2 staging), Inr a)
      | (fs2, Some _) \<Rightarrow> (fst (remove_all fs2 staging), Inl ErrBundleOS)))))"

text \<open>What the first pass over an archive finds.\<close>

record zip_prefix =
  zx_direct :: bool
  zx_root :: string
  zx_skill :: bool

definition slashes :: "string \<Rightarrow> string" where
  "slashes v = ReplaceAll v [CHR 0x5C] ''/''"

fun zip_prefix_loop :: "zip_member list \<Rightarrow> zip_prefix \<Rightarrow> zip_prefix option" where
  "zip_prefix_loop [] z = Some z"
| "zip_prefix_loop (m # ms) z =
     (let name = TrimPrefix (slashes (zm_name m)) ''./''; relative = TrimSuffix name ''/'' in
      if relative = [] \<or> \<not> safeRelativePath relative then None
      else
      (let z1 = (if name = SkillFileName then z\<lparr>zx_direct := True\<rparr> else z);
           parts = split_on CHR ''/'' relative;
           z2 = (if length parts > 1
                 then z1\<lparr>zx_root := (if zx_root z1 = [] then parts ! 0
                                     else if zx_root z1 \<noteq> parts ! 0 then ''!multiple'' else zx_root z1),
                         zx_skill := (zx_skill z1 \<or> (length parts = 2 \<and> parts ! 1 = SkillFileName))\<rparr>
                 else z1)
       in zip_prefix_loop ms z2))"

definition zipSkillPrefix :: "zip_member list \<Rightarrow> string option" where
  "zipSkillPrefix ms =
     (case zip_prefix_loop ms \<lparr>zx_direct = False, zx_root = [], zx_skill = False\<rparr> of
        None \<Rightarrow> None
      | Some z \<Rightarrow>
          if zx_direct z then Some []
          else if zx_root z \<noteq> [] \<and> zx_root z \<noteq> ''!multiple'' \<and> zx_skill z then Some (zx_root z @ ''/'')
          else None)"

text \<open>Opening, reading (at most one byte over the limit) and closing a member is one call.\<close>

definition extract_member ::
  "skill_os \<Rightarrow> string \<Rightarrow> path \<Rightarrow> zip_member \<Rightarrow> int \<times> fs \<Rightarrow> (int \<times> fs) \<times> bundle_error option" where
  "extract_member os pre destination m acc =
     (let (total, fs) = acc; name = TrimSuffix (TrimPrefix (slashes (zm_name m)) pre) ''/'' in
      if name = [] then (acc, None)
      else if \<not> safeRelativePath name \<or> pathDepth name > MaxBundleDepth \<or> member_mode m AND ModeSymlink \<noteq> 0
      then (acc, Some ErrBundleInvalid)
      else if member_is_dir m then (acc, None)
      else if \<not> mode_is_regular (member_mode m) \<or> uint (zm_usize m) > MaxBundleFileBytes
      then (acc, Some ErrBundleInvalid)
      else
      (let total' = total + uint (zm_usize m); to = destination @ path_of name in
       if total' > MaxBundleTotalBytes then (acc, Some ErrBundleInvalid)
       else case mkdir_all fs (butlast to) of
         (fs1, Some _) \<Rightarrow> ((total', fs1), Some ErrBundleOS)
       | (fs1, None) \<Rightarrow>
           (case lstat fs1 to of
              Inl ErrNotExist \<Rightarrow>
                (case zm_read m (MaxBundleFileBytes + 1) of
                   None \<Rightarrow> ((total', fs1), Some ErrBundleInvalid)
                 | Some content \<Rightarrow>
                     if \<not> sk_write os name \<or> int (length content) \<noteq> uint (zm_usize m)
                     then ((total', put to (File (Bytes [])) fs1), Some ErrBundleInvalid)
                     else ((total', put to (File (Bytes content)) fs1), None))
            | _ \<Rightarrow> ((total', fs1), Some ErrBundleOS))))"

fun extract_members ::
  "skill_os \<Rightarrow> string \<Rightarrow> path \<Rightarrow> zip_member list \<Rightarrow> int \<times> fs \<Rightarrow> fs \<times> bundle_error option" where
  "extract_members os pre destination [] acc = (snd acc, None)"
| "extract_members os pre destination (m # ms) acc =
     (case extract_member os pre destination m acc of
        (acc', Some e) \<Rightarrow> (snd acc', Some e)
      | (acc', None) \<Rightarrow> extract_members os pre destination ms acc')"

definition extractSkillZIP :: "managed_store \<Rightarrow> path \<Rightarrow> path \<Rightarrow> fs \<Rightarrow> fs \<times> bundle_error option" where
  "extractSkillZIP st zipPath destination fs =
     (case lstat fs zipPath of
        Inr (File b) \<Rightarrow>
          if int (length (sk_text (sk_os st) b)) > MaxBundleTotalBytes * 2 then (fs, Some ErrBundleInvalid)
          else (case sk_zip st (sk_text (sk_os st) b) of
                  None \<Rightarrow> (fs, Some ErrBundleInvalid)
                | Some ms \<Rightarrow>
                    if length ms = 0 \<or> length ms > MaxBundleFiles + MaxBundleDepth
                    then (fs, Some ErrBundleInvalid)
                    else (case zipSkillPrefix ms of
                            None \<Rightarrow> (fs, Some ErrBundleInvalid)
                          | Some pre \<Rightarrow>
                              (case mkdir fs destination of
                                 (fs1, Some _) \<Rightarrow> (fs1, Some ErrBundleOS)
                               | (fs1, None) \<Rightarrow> extract_members (sk_os st) pre destination ms (0, fs1))))
      | _ \<Rightarrow> (fs, Some ErrBundleInvalid))"

text \<open>The directory that holds the source: what was staged as one, or what the archive unpacks to.\<close>

definition import_source :: "managed_store \<Rightarrow> path \<Rightarrow> fs \<Rightarrow> fs \<times> (bundle_error + path)" where
  "import_source st importRoot fs =
     (case lstat fs (importRoot @ [''directory'']) of
        Inr _ \<Rightarrow> (fs, Inr (importRoot @ [''directory'']))
      | Inl e \<Rightarrow>
          if e \<noteq> ErrNotExist then (fs, Inl ErrBundleInvalid)
          else (case extractSkillZIP st (importRoot @ [''source.zip'']) (importRoot @ [''extracted'']) fs of
                  (fs1, Some e') \<Rightarrow> (fs1, Inl e')
                | (fs1, None) \<Rightarrow> (fs1, Inr (importRoot @ [''extracted'']))))"

definition import_from ::
  "managed_store \<Rightarrow> (nat \<Rightarrow> bool) \<Rightarrow> string \<Rightarrow> (fs \<Rightarrow> fs) \<Rightarrow> string \<Rightarrow> string \<Rightarrow> path \<Rightarrow> fs
     \<Rightarrow> fs \<times> (bundle_error + managed_copy)" where
  "import_from st ctx temp race inst skill sourceRoot fs =
     (case read_file fs (sourceRoot @ [SkillFileName]) of
        Inl _ \<Rightarrow> (fs, Inl ErrCatalogEntryInvalid)
      | Inr b \<Rightarrow>
     (case parseSkillFrontmatter (sk_yaml st) (sk_text (sk_os st) b) of
        None \<Rightarrow> (fs, Inl ErrCatalogEntryInvalid)
      | Some m \<Rightarrow>
          if fm_name m \<noteq> skill then (fs, Inl ErrCatalogEntryInvalid)
          else
     (case validateCatalogSource st
             \<lparr>cs_descriptor = \<lparr>sn_source = LocalImportSourceID, sn_skill = skill, sn_name = [],
                              sn_version = fm_version m, sn_description = fm_description m\<rparr>,
              cs_tree = fs, cs_directory = sourceRoot\<rparr> of
        Inl e \<Rightarrow> (fs, Inl e)
      | Inr (files, digest) \<Rightarrow>
          materializeImported st ctx temp race inst skill (fm_version m) digest files fs)))"

definition ImportToManaged ::
  "managed_store \<Rightarrow> (nat \<Rightarrow> bool) \<Rightarrow> string \<Rightarrow> (fs \<Rightarrow> fs) \<Rightarrow> string \<Rightarrow> string \<Rightarrow> string \<Rightarrow> fs
     \<Rightarrow> fs \<times> (bundle_error + managed_copy)" where
  "ImportToManaged st ctx temp race inst skill sourceRef fs =
     (if \<not> instanceIDPattern inst \<or> \<not> managedIDPattern skill \<or> \<not> ValidateImportSourceRef sourceRef
      then (fs, Inl ErrCatalogEntryInvalid)
      else
      (let importsRoot = butlast (sk_root st) @ [''skill-imports'']; importRoot = importsRoot @ [sourceRef] in
       if ensureContained importsRoot importRoot \<noteq> None then (fs, Inl ErrCatalogEntryInvalid)
       else case (case import_source st importRoot fs of
                    (fs1, Inl e) \<Rightarrow> (fs1, Inl e)
                  | (fs1, Inr sourceRoot) \<Rightarrow> import_from st ctx temp race inst skill sourceRoot fs1) of
         (fs2, r) \<Rightarrow> (fst (remove_all fs2 importRoot), r)))"

end
