(* ===== verification/Skill_Store_Properties.thy ===== *)
theory Skill_Store_Properties
  imports Skill_Store
begin

text \<open>
  Properties of the managed skill store: the digest identifies the content of a bundle, so that an
  acquired directory holds exactly what the reviewed source holds; and unpacking an archive
  writes only below its directory, under plain names and within the limits.
\<close>

subsection \<open>The digest identifies the content\<close>

lemma length_be_bytes [simp]: "length (be_bytes k n) = k"
  by (induction k arbitrary: n) simp_all

definition be_value :: "string \<Rightarrow> nat" where
  "be_value s = foldl (\<lambda>v c. v * 256 + of_char c) 0 s"

lemma be_value_bytes: "be_value (be_bytes k n) = n mod 256 ^ k"
proof (induction k arbitrary: n)
  case (Suc k)
  have "be_value (be_bytes (Suc k) n) = (n div 256 mod 256 ^ k) * 256 + n mod 256"
    using Suc [of "n div 256"] by (simp add: be_value_def)
  then show ?case unfolding power_Suc mod_mult2_eq by (simp only: mult.commute)
qed (simp add: be_value_def)

lemma be_bytes_inj: "be_bytes k m = be_bytes k n \<Longrightarrow> m < 256 ^ k \<Longrightarrow> n < 256 ^ k \<Longrightarrow> m = n"
  by (metis be_value_bytes mod_less)

definition small_file :: "string \<times> string \<Rightarrow> bool" where
  "small_file q \<longleftrightarrow> length (fst q) < 256 ^ 4 \<and> length (snd q) < 256 ^ 8"

lemma hashFile_inj:
  assumes "hashFile r c @ u = hashFile r' c' @ v" "small_file (r, c)" "small_file (r', c')"
  shows "r = r' \<and> c = c' \<and> u = v"
proof -
  have eq: "be_bytes 4 (length r) @ r @ be_bytes 8 (length c) @ c @ u
      = be_bytes 4 (length r') @ r' @ be_bytes 8 (length c') @ c' @ v"
    using assms(1) by (simp add: hashFile_def)
  then have head: "be_bytes 4 (length r) = be_bytes 4 (length r')"
    and rest: "r @ be_bytes 8 (length c) @ c @ u = r' @ be_bytes 8 (length c') @ c' @ v"
    by simp_all
  have "length r = length r'"
    using be_bytes_inj [OF head] assms(2,3) by (simp add: small_file_def)
  with rest have r: "r = r'" and rest: "be_bytes 8 (length c) @ c @ u = be_bytes 8 (length c') @ c' @ v"
    by simp_all
  from rest have head: "be_bytes 8 (length c) = be_bytes 8 (length c')" and rest: "c @ u = c' @ v"
    by simp_all
  have "length c = length c'"
    using be_bytes_inj [OF head] assms(2,3) by (simp add: small_file_def)
  with rest r show ?thesis by simp
qed

lemma hashFile_not_Nil: "hashFile r c \<noteq> []"
  by (simp add: hashFile_def length_0_conv [symmetric] del: length_0_conv)

lemma bundle_text_Cons: "bundle_text (q # qs) = hashFile (fst q) (snd q) @ bundle_text qs"
  by (cases q) (simp add: bundle_text_def)

lemma bundle_text_Nil: "bundle_text [] = []"
  by (simp add: bundle_text_def)

lemma bundle_text_inj:
  assumes "bundle_text xs = bundle_text ys" "list_all small_file xs" "list_all small_file ys"
  shows "xs = ys"
  using assms
proof (induction xs arbitrary: ys)
  case Nil
  then show ?case by (cases ys) (simp_all add: bundle_text_Cons hashFile_not_Nil bundle_text_Nil)
next
  case (Cons x xs)
  then obtain y zs where ys: "ys = y # zs"
    by (cases ys) (simp_all add: bundle_text_Cons hashFile_not_Nil bundle_text_Nil)
  have "fst x = fst y \<and> snd x = snd y \<and> bundle_text xs = bundle_text zs"
    using Cons.prems by (intro hashFile_inj) (simp_all add: ys bundle_text_Cons)
  with Cons ys show ?case by (simp add: prod_eq_iff)
qed

subsection \<open>What an inspection sees\<close>

text \<open>The content of a directory, read off the tree: the names and bytes of the files below it.\<close>

definition tree_content :: "skill_os \<Rightarrow> fs \<Rightarrow> path \<Rightarrow> (string \<times> string) set" where
  "tree_content os fs root =
     {(join_on CHR ''/'' r, sk_text os b) | r b. r \<noteq> [] \<and> map_of fs (root @ r) = Some (File b)}"

definition walked :: "skill_os \<Rightarrow> fs \<Rightarrow> path \<Rightarrow> path list \<Rightarrow> (string \<times> string) set" where
  "walked os fs root ps =
     {(rel_text root p, sk_text os b) | p b. p \<in> set ps \<and> p \<noteq> root \<and> lstat fs p = Inr (File b)}"

lemma walked_Cons:
  "walked os fs root (p # ps) =
     (case lstat fs p of
        Inr (File b) \<Rightarrow> if p = root then walked os fs root ps
                     else insert (rel_text root p, sk_text os b) (walked os fs root ps)
      | _ \<Rightarrow> walked os fs root ps)"
  by (auto simp: walked_def split: sum.splits node.splits)

lemma walked_tree:
  assumes "root \<noteq> []"
  shows "walked os fs root (tree_paths fs root) = tree_content os fs root"
proof -
  have key: "p \<in> fst ` set fs" if "map_of fs p = Some n" for p n
    using that by (metis domI dom_map_of_conv_image_fst)
  have at: "p \<in> set (tree_paths fs root) \<and> p \<noteq> root \<and> lstat fs p = Inr (File b)
      \<longleftrightarrow> (\<exists>r. p = root @ r \<and> r \<noteq> [] \<and> map_of fs (root @ r) = Some (File b))" for p b
    using assms key by (auto simp: tree_paths_def is_under_iff lstat_Inr)
  show ?thesis
  proof (intro set_eqI iffI)
    fix u assume "u \<in> walked os fs root (tree_paths fs root)"
    then obtain p b where u: "u = (rel_text root p, sk_text os b)"
      "p \<in> set (tree_paths fs root) \<and> p \<noteq> root \<and> lstat fs p = Inr (File b)"
      unfolding walked_def by blast
    from u(2) [unfolded at] obtain r where "p = root @ r" "r \<noteq> []" "map_of fs (root @ r) = Some (File b)" by blast
    with u(1) show "u \<in> tree_content os fs root" by (auto simp: tree_content_def rel_text_def)
  next
    fix u assume "u \<in> tree_content os fs root"
    then obtain r b where u: "u = (join_on CHR ''/'' r, sk_text os b)" "r \<noteq> []"
      "map_of fs (root @ r) = Some (File b)" unfolding tree_content_def by blast
    then have "u = (rel_text root (root @ r), sk_text os b)" by (simp add: rel_text_def)
    then show "u \<in> walked os fs root (tree_paths fs root)"
      using at [of "root @ r" b] u(2,3) unfolding walked_def by blast
  qed
qed

definition bounded_files :: "(string \<times> string) list \<Rightarrow> bool" where
  "bounded_files qs \<longleftrightarrow> (\<forall>q \<in> set qs. int (length (snd q)) \<le> MaxBundleFileBytes)"

lemma inspect_step:
  assumes "inspect_entry os fs root False p sc = Some sc'" "p \<noteq> root"
  shows "set (bs_files sc') = set (bs_files sc) \<union> walked os fs root [p]"
    "bounded_files (bs_files sc) \<Longrightarrow> bounded_files (bs_files sc')"
  using assms
  by (auto simp: inspect_entry_def Let_def walked_Cons bounded_files_def walked_def
      split: sum.splits node.splits if_splits)

lemma walked_split: "walked os fs root (p # ps) = walked os fs root [p] \<union> walked os fs root ps"
  by (auto simp: walked_def)

lemma inspect_all:
  assumes "inspect_entries os fs root False ps sc = Some sc'"
  shows "set (bs_files sc') = set (bs_files sc) \<union> walked os fs root ps"
    "bounded_files (bs_files sc) \<Longrightarrow> bounded_files (bs_files sc')"
proof -
  have "set (bs_files sc') = set (bs_files sc) \<union> walked os fs root ps
    \<and> (bounded_files (bs_files sc) \<longrightarrow> bounded_files (bs_files sc'))"
    using assms
  proof (induction ps arbitrary: sc)
    case Nil
    then show ?case by (simp add: walked_def)
  next
    case (Cons p ps)
    show ?case
    proof (cases "p = root")
      case True
      with Cons show ?thesis by (simp add: walked_Cons split: sum.split node.split)
    next
      case False
      with Cons.prems obtain s1 where s1: "inspect_entry os fs root False p sc = Some s1"
        "inspect_entries os fs root False ps s1 = Some sc'"
        by (auto split: bind_splits)
      show ?thesis
        using Cons.IH [OF s1(2)] inspect_step [OF s1(1) False] unfolding walked_split [of os fs root p ps] by auto
    qed
  qed
  then show "set (bs_files sc') = set (bs_files sc) \<union> walked os fs root ps"
    "bounded_files (bs_files sc) \<Longrightarrow> bounded_files (bs_files sc')" by blast+
qed

lemma catalog_step:
  assumes "catalog_walk_entry os fs root p sc = Some sc'" "p \<noteq> root"
  shows "set (bs_files sc') = set (bs_files sc) \<union> walked os fs root [p]"
    "bounded_files (bs_files sc) \<Longrightarrow> bounded_files (bs_files sc')"
  using assms
  by (auto simp: catalog_walk_entry_def Let_def walked_Cons bounded_files_def walked_def
      split: sum.splits node.splits if_splits)

lemma catalog_all:
  assumes "catalog_walk os fs root ps sc = Some sc'" "bounded_files (bs_files sc)"
  shows "set (bs_files sc') = set (bs_files sc) \<union> walked os fs root ps \<and> bounded_files (bs_files sc')"
  using assms
proof (induction ps arbitrary: sc)
  case Nil
  then show ?case by (simp add: walked_def)
next
  case (Cons p ps)
  show ?case
  proof (cases "p = root")
    case True
    with Cons show ?thesis by (simp add: walked_Cons split: sum.split node.split)
  next
    case False
    with Cons.prems obtain s1 where s1: "catalog_walk_entry os fs root p sc = Some s1"
      "catalog_walk os fs root ps s1 = Some sc'"
      by (auto split: bind_splits)
    show ?thesis
      using Cons.IH [OF s1(2)] catalog_step [OF s1(1) False] Cons.prems(2)
      unfolding walked_split [of os fs root p ps] by auto
  qed
qed

lemma inspected:
  assumes "InspectSourceDirectory os fs root = Inr b" "root \<noteq> []"
  obtains files where "bu_sha256 b = sk_sha256 os (bundle_text files)"
    "set files = tree_content os fs root" "bounded_files files"
proof -
  obtain sc where sc: "inspect_entries os fs root False (tree_paths fs root) no_scan = Some sc"
    and b: "bu_sha256 b = sk_sha256 os (bundle_text (sort_key fst (bs_files sc)))"
    using assms(1)
    by (auto simp: InspectSourceDirectory_def inspectDirectory_def bundle_content_def
        split: option.splits if_splits)
  have "set (bs_files sc) = tree_content os fs root" "bounded_files (bs_files sc)"
    using inspect_all [OF sc] walked_tree [OF assms(2)] by (simp_all add: no_scan_def bounded_files_def)
  with b that [of "sort_key fst (bs_files sc)"] show thesis by (simp add: bounded_files_def)
qed

lemma catalog_validated:
  assumes "validateCatalogSource st src = Inr (files, digest)" "cs_directory src \<noteq> []"
  shows "digest = sk_sha256 (sk_os st) (bundle_text files)"
    "set files = tree_content (sk_os st) (cs_tree src) (cs_directory src)" "bounded_files files"
proof -
  obtain sc where sc: "catalog_walk (sk_os st) (cs_tree src) (cs_directory src)
      (tree_paths (cs_tree src) (cs_directory src)) no_scan = Some sc"
    and files: "files = sort_key fst (bs_files sc)" and digest: "digest = sk_sha256 (sk_os st) (bundle_text files)"
    using assms(1)
    by (auto simp: validateCatalogSource_def Let_def split: option.splits if_splits sum.splits list.splits)
  show "digest = sk_sha256 (sk_os st) (bundle_text files)" by (rule digest)
  show "set files = tree_content (sk_os st) (cs_tree src) (cs_directory src)" "bounded_files files"
    using catalog_all [OF sc] walked_tree [OF assms(2)] files by (simp_all add: no_scan_def bounded_files_def)
qed

subsection \<open>An acquired directory\<close>

text \<open>Every path is shorter than 4 GiB, and the digest has one preimage.\<close>

definition short_paths :: "fs \<Rightarrow> path \<Rightarrow> bool" where
  "short_paths fs root \<longleftrightarrow> (\<forall>r. map_of fs (root @ r) \<noteq> None \<longrightarrow> length (join_on CHR ''/'' r) < 2 ^ 32)"

definition unique_digest :: "skill_os \<Rightarrow> string \<Rightarrow> bool" where
  "unique_digest os d \<longleftrightarrow> (\<forall>x y. sk_sha256 os x = d \<and> sk_sha256 os y = d \<longrightarrow> x = y)"

lemma small_files:
  assumes "set files = tree_content os fs root" "bounded_files files" "short_paths fs root"
  shows "list_all small_file files"
  unfolding list_all_iff
proof
  fix q assume q: "q \<in> set files"
  then have "length (fst q) < 2 ^ 32"
    using assms(1,3) by (auto simp: tree_content_def short_paths_def)
  moreover have "int (length (snd q)) \<le> MaxBundleFileBytes" using q assms(2) by (simp add: bounded_files_def)
  ultimately show "small_file q" by (simp add: small_file_def MaxBundleFileBytes_def)
qed

lemma same_content:
  assumes "set files = tree_content os fs root" "bounded_files files" "short_paths fs root"
    and "set files' = tree_content os' fs' root'" "bounded_files files'" "short_paths fs' root'"
    and "unique_digest os d" "sk_sha256 os (bundle_text files) = d" "sk_sha256 os (bundle_text files') = d"
  shows "tree_content os fs root = tree_content os' fs' root'"
proof -
  have "bundle_text files = bundle_text files'" using assms(7-9) unfolding unique_digest_def by blast
  then have "files = files'" using small_files assms by (intro bundle_text_inj) blast+
  then show ?thesis using assms(1,4) by simp
qed

lemma content_cong:
  "(\<And>r. map_of fs (root @ r) = map_of fs' (root' @ r)) \<Longrightarrow> tree_content os fs root = tree_content os fs' root'"
  by (simp add: tree_content_def)

lemma erased_elsewhere:
  assumes "\<not> is_under q p" "\<not> is_under p q"
  shows "map_of (fst (remove_all fs q)) (p @ r) = map_of fs (p @ r)"
proof -
  have "\<not> is_under q (p @ r)"
  proof
    assume "is_under q (p @ r)"
    then obtain u where "p @ r = q @ u" by (auto simp: is_under_iff)
    then show False using assms by (auto simp: append_eq_append_conv2 is_under_iff)
  qed
  then show ?thesis by (simp add: remove_all_def map_of_erase)
qed

lemma distinct_mkdir_all:
  assumes "mkdir_all fs p = (fs', r)" "distinct (map fst fs)"
  shows "distinct (map fst fs')"
proof -
  have "distinct (map fst fs) \<Longrightarrow> distinct (map fst (fst (mkdir_parts fs base cs)))" for base cs
    by (induction fs base cs rule: mkdir_parts.induct)
      (auto simp: distinct_put split: sum.split node.split install_error.split)
  from this [OF assms(2), of "[]" p] show ?thesis using assms(1) by (simp add: mkdir_all_def)
qed

lemma distinct_stage:
  "stage_files os ctx staging files fs = (fs', r) \<Longrightarrow> distinct (map fst fs) \<Longrightarrow> distinct (map fst fs')"
proof (induction files arbitrary: fs)
  case (Cons q files)
  show ?case
    using Cons.prems
    by (cases q) (auto simp: Let_def split: if_splits prod.splits option.splits sum.splits node.splits
        dest!: distinct_mkdir_all Cons.IH intro: distinct_put)
qed simp

lemma distinct_prepared:
  assumes "prepare_staging st ctx temp destination files fs = (fs', Inr staging)" "distinct (map fst fs)"
  shows "distinct (map fst fs')"
  using assms
  by (auto simp: prepare_staging_def Let_def mkdir_def distinct_put
      split: prod.splits option.splits sum.splits install_error.splits if_splits
      dest!: distinct_mkdir_all distinct_stage)

lemma prepared:
  "prepare_staging st ctx temp destination files fs = (fs', Inr staging) \<Longrightarrow> staging = sk_root st @ [''.staging'', temp]"
  by (auto simp: prepare_staging_def Let_def split: prod.splits option.splits)

text \<open>What the other processes may not do before the rename: touch the staging directory.\<close>

definition spares :: "path \<Rightarrow> (fs \<Rightarrow> fs) \<Rightarrow> bool" where
  "spares staging race \<longleftrightarrow>
     (\<forall>fs. (distinct (map fst fs) \<longrightarrow> distinct (map fst (race fs))) \<and> (\<forall>r. map_of (race fs) (staging @ r) = map_of fs (staging @ r)))"

lemma acquired_new:
  assumes run: "acquire_new st ctx temp race files a fs = (fs', Inr a')" and keys: "distinct (map fst fs)"
    and race: "spares (sk_root st @ [''.staging'', temp]) race"
    and apart: "\<not> is_under (sk_root st @ [''.staging'', temp]) (ac_absolute a)"
      "\<not> is_under (ac_absolute a) (sk_root st @ [''.staging'', temp])"
  obtains found where "a' = a" "sk_sha256 (sk_os st) (bundle_text found) = ac_sha256 a"
    "set found = tree_content (sk_os st) fs' (ac_absolute a)" "bounded_files found"
proof -
  let ?staging = "sk_root st @ [''.staging'', temp]" and ?os = "sk_os st"
  obtain fs1 b where prep: "prepare_staging st ctx temp (ac_absolute a) files fs = (fs1, Inr ?staging)"
    and b: "InspectSourceDirectory ?os fs1 ?staging = Inr b" "bu_sha256 b = ac_sha256 a"
    using run by (auto simp: acquire_new_def dest: prepared split: prod.splits sum.splits if_splits)
  obtain fs2 r where ren: "rename (race fs1) ?staging (ac_absolute a) = (fs2, r)" by fastforce
  have gone: "tree_content ?os (fst (remove_all fs2 ?staging)) (ac_absolute a) = tree_content ?os fs2 (ac_absolute a)"
    by (rule content_cong) (rule erased_elsewhere [OF apart])
  show thesis
  proof (cases r)
    case None
    have moved: "fs2 = move ?staging (ac_absolute a) (race fs1)"
      using ren None by (auto elim!: rename_cases)
    have "map_of fs2 (ac_absolute a @ q) = map_of fs1 (?staging @ q)" for q
      using map_of_move [of "race fs1" ?staging "ac_absolute a" "ac_absolute a @ q"] apart race
        distinct_prepared [OF prep keys]
      unfolding moved spares_def by simp
    then have "tree_content ?os fs2 (ac_absolute a) = tree_content ?os fs1 ?staging" by (rule content_cong)
    moreover have "fs' = fst (remove_all fs2 ?staging)" "a' = a"
      using run by (simp_all add: acquire_new_def prep b ren None)
    moreover obtain found where "bu_sha256 b = sk_sha256 ?os (bundle_text found)"
      "set found = tree_content ?os fs1 ?staging" "bounded_files found"
      using inspected [OF b(1)] by blast
    ultimately show thesis using that [of found] gone b(2) by simp
  next
    case (Some e)
    then obtain k where k: "InspectSourceDirectory ?os fs2 (ac_absolute a) = Inr k" "bu_sha256 k = ac_sha256 a"
      and fs': "fs' = fst (remove_all fs2 ?staging)" "a' = a"
      using run by (auto simp: acquire_new_def prep b ren split: sum.splits if_splits)
    have "ac_absolute a \<noteq> []" using apart by auto
    from inspected [OF k(1) this] obtain found where "bu_sha256 k = sk_sha256 ?os (bundle_text found)"
      "set found = tree_content ?os fs2 (ac_absolute a)" "bounded_files found" by blast
    with that [of found] gone k(2) fs' show thesis by simp
  qed
qed

text \<open>
  C15. An acquired skill is the reviewed source. When a skill is acquired from the catalog, the
  files below its managed directory are exactly, by name and content, those of the catalog
  source that was validated, whether the directory was there before, is published now or was
  published by another process first. The digest must have one preimage, paths must be shorter
  than 4 GiB, and other processes must leave the staging directory alone.
\<close>

theorem acquired_skill_is_the_reviewed_source:
  assumes run: "AcquireToManaged st ctx temp race inst skill source fs = (fs', Inr a)"
    and keys: "distinct (map fst fs)"
    and src: "skill_lookup st skill source = Inr src" "cs_directory src \<noteq> []"
    and race: "spares (sk_root st @ [''.staging'', ''acquire-'' @ temp]) race"
    and short: "short_paths fs' (ac_absolute a)" "short_paths (cs_tree src) (cs_directory src)"
    and sha: "unique_digest (sk_os st) (ac_sha256 a)"
  shows "tree_content (sk_os st) fs' (ac_absolute a)
    = tree_content (sk_os st) (cs_tree src) (cs_directory src)"
proof -
  obtain files digest where valid: "validateCatalogSource st src = Inr (files, digest)"
    and inst: "instanceIDPattern inst"
    using run src by (auto simp: AcquireToManaged_def bind_result_def split: if_splits sum.splits prod.splits)
  let ?a = "managed_copy_of st inst skill source (sn_version (cs_descriptor src)) digest"
  let ?staging = "sk_root st @ [''.staging'', ''acquire-'' @ temp]"
  have "inst \<noteq> ''.staging''"
    using inst by (auto simp: instanceIDPattern_def class_head_tail_def is_alnum_def is_digit_def is_lower_def
        is_upper_def less_eq_char_def)
  then have apart: "\<not> is_under ?staging (ac_absolute ?a)" "\<not> is_under (ac_absolute ?a) ?staging"
    by (auto simp: managed_copy_of_def is_under_iff)
  have "a = ?a \<and> (\<exists>found. sk_sha256 (sk_os st) (bundle_text found) = ac_sha256 a
      \<and> set found = tree_content (sk_os st) fs' (ac_absolute a) \<and> bounded_files found)"
  proof (cases "lstat fs (ac_absolute ?a)")
    case (Inr n)
    then obtain b where b: "InspectSourceDirectory (sk_os st) fs (ac_absolute ?a) = Inr b"
      "bu_sha256 b = digest" "fs' = fs" "a = ?a"
      using run src valid
      by (auto simp: AcquireToManaged_def bind_result_def Let_def
          split: if_splits sum.splits prod.splits node.splits option.splits)
    have "ac_absolute ?a \<noteq> []" by (simp add: managed_copy_of_def)
    from inspected [OF b(1) this] obtain found where "bu_sha256 b = sk_sha256 (sk_os st) (bundle_text found)"
      "set found = tree_content (sk_os st) fs (ac_absolute ?a)" "bounded_files found" by blast
    with b show ?thesis by (auto simp: managed_copy_of_def)
  next
    case (Inl e)
    then have "acquire_new st ctx (''acquire-'' @ temp) race files ?a fs = (fs', Inr a)"
      using run src valid
      by (auto simp: AcquireToManaged_def bind_result_def Let_def split: if_splits option.splits)
    from acquired_new [OF this keys race apart] show ?thesis by blast
  qed
  then obtain found where a: "a = ?a" and found: "sk_sha256 (sk_os st) (bundle_text found) = ac_sha256 a"
    "set found = tree_content (sk_os st) fs' (ac_absolute a)" "bounded_files found" by blast
  note reviewed = catalog_validated [OF valid src(2)]
  show ?thesis
    using same_content [OF found(2,3) short(1) reviewed(2,3) short(2) sha found(1)] reviewed(1) a
    by (simp add: managed_copy_of_def)
qed

definition os_sample :: skill_os where
  "os_sample =
     \<lparr>sk_sha256 = (\<lambda>x. x), sk_lower = (\<lambda>x. x),
      sk_text = (\<lambda>b. case b of Doc _ \<Rightarrow> [] | Bytes s \<Rightarrow> s), sk_streams = (\<lambda>_. False), sk_write = (\<lambda>_. True)\<rparr>"

definition matter_sample :: skill_frontmatter where
  "matter_sample =
     \<lparr>fm_name = ''s'', fm_description = ''d'', fm_version = ''1'', fm_author = ''a'', fm_license = ''l'',
      fm_platforms = [''linux'', ''windows'', ''macos'']\<rparr>"

definition source_sample :: catalog_source where
  "source_sample =
     \<lparr>cs_descriptor = \<lparr>sn_source = ''c'', sn_skill = ''s'', sn_name = ''n'', sn_version = ''1'', sn_description = ''d''\<rparr>,
      cs_tree = [([''c''], Dir),
        ([''c'', ''SKILL.md''], File (Bytes (''---'' @ [newline] @ ''x'' @ [newline] @ ''---'' @ [newline])))],
      cs_directory = [''c'']\<rparr>"

definition managed_sample :: managed_store where
  "managed_sample =
     \<lparr>sk_os = os_sample, sk_yaml = (\<lambda>_. Some matter_sample), sk_zip = (\<lambda>_. None), sk_root = [''r''],
      sk_sources = [source_sample]\<rparr>"

definition acquired_sample :: "fs \<times> (bundle_error + managed_copy)" where
  "acquired_sample = AcquireToManaged managed_sample (\<lambda>_. False) ''1'' (\<lambda>t. t) ''i'' ''s'' ''c'' []"

lemma short_by_keys:
  assumes "list_all (\<lambda>p. length (join_on CHR ''/'' (drop (length root) p)) < 99) (map fst fs)"
  shows "short_paths fs root"
  unfolding short_paths_def
proof (intro allI impI)
  fix r assume "map_of fs (root @ r) \<noteq> None"
  then have "root @ r \<in> set (map fst fs)" by (simp only: key_iff not_False_eq_True)
  with assms have "length (join_on CHR ''/'' (drop (length root) (root @ r))) < 99"
    unfolding list_all_iff by blast
  then show "length (join_on CHR ''/'' r) < 2 ^ 32" by simp
qed

theorem acquired_skill_is_the_reviewed_source_witness:
  "\<exists>fs' a. acquired_sample = (fs', Inr a)
     \<and> tree_content os_sample fs' (ac_absolute a) = tree_content os_sample (cs_tree source_sample) [''c'']"
proof -
  have "case acquired_sample of (fs', r) \<Rightarrow>
      (case r of
         Inl _ \<Rightarrow> False
       | Inr a \<Rightarrow>
           list_all (\<lambda>p. length (join_on CHR ''/'' (drop (length (ac_absolute a)) p)) < 99) (map fst fs'))"
    by code_simp
  then obtain fs' a where run: "acquired_sample = (fs', Inr a)"
    and short: "list_all (\<lambda>p. length (join_on CHR ''/'' (drop (length (ac_absolute a)) p)) < 99) (map fst fs')"
    by (auto split: prod.splits sum.splits)
  have src: "skill_lookup managed_sample ''s'' ''c'' = Inr source_sample"
    by (simp add: skill_lookup_def managed_sample_def source_sample_def)
  have "tree_content (sk_os managed_sample) fs' (ac_absolute a)
      = tree_content (sk_os managed_sample) (cs_tree source_sample) (cs_directory source_sample)"
  proof (rule acquired_skill_is_the_reviewed_source [OF run [unfolded acquired_sample_def] _ src])
    show "short_paths (cs_tree source_sample) (cs_directory source_sample)"
      by (rule short_by_keys) (simp add: source_sample_def)
  qed (simp_all add: source_sample_def spares_def short_by_keys [OF short] unique_digest_def
      managed_sample_def os_sample_def)
  then show ?thesis using run by (auto simp: managed_sample_def source_sample_def)
qed

subsection \<open>Unpacking an archive\<close>

lemma length_split_on: "length (split_on d s) = length (filter (\<lambda>c. c = d) s) + 1"
proof (induction s)
  case (Cons c s)
  then show ?case by (cases "split_on d s") auto
qed simp

lemma safe_path:
  assumes "safeRelativePath v"
  shows "list_all safe_part (path_of v)" "length (path_of v) = pathDepth v" "path_of v \<noteq> []"
proof -
  have "path_clean v = v" "list_all safe_part (split_on CHR ''/'' (path_clean v))"
    using assms unfolding safeRelativePath_def by blast+
  then show "list_all safe_part (path_of v)" unfolding path_of_def by metis
qed (simp_all add: path_of_def pathDepth_def length_split_on)

text \<open>What may be new after unpacking: plain names below the directory, not too deep or too long.\<close>

definition unpacked_node :: "path \<Rightarrow> path \<Rightarrow> node option \<Rightarrow> bool" where
  "unpacked_node destination p n \<longleftrightarrow>
     is_under destination p
     \<and> list_all safe_part (drop (length destination) p)
     \<and> length (drop (length destination) p) \<le> MaxBundleDepth
     \<and> (n = Some Dir \<or> (\<exists>c. n = Some (File (Bytes c)) \<and> int (length c) \<le> MaxBundleFileBytes))"

definition unpacked :: "path \<Rightarrow> fs \<Rightarrow> fs \<Rightarrow> bool" where
  "unpacked destination fs fs' \<longleftrightarrow>
     (\<forall>p. map_of fs' p \<noteq> map_of fs p \<longrightarrow> unpacked_node destination p (map_of fs' p))"

lemma unpacked_refl: "unpacked destination fs fs"
  by (simp add: unpacked_def)

lemma unpacked_trans:
  "unpacked destination fs fs1 \<Longrightarrow> unpacked destination fs1 fs2 \<Longrightarrow> unpacked destination fs fs2"
  unfolding unpacked_def by metis

text \<open>Making the parents of a member adds directories below the destination only.\<close>

lemma parents_unpacked:
  assumes mk: "mkdir_all fs (butlast (destination @ parts)) = (fs', r)"
    and ok: "fs_ok fs" and dir: "map_of fs destination = Some Dir"
    and parts: "list_all safe_part parts" "length parts \<le> MaxBundleDepth" "parts \<noteq> []"
  shows "unpacked destination fs fs'" "fs_ok fs'" "map_of fs' destination = Some Dir"
proof -
  show "fs_ok fs'" using fs_ok_mkdir_all [OF ok, of "butlast (destination @ parts)"] mk by simp
  show "map_of fs' destination = Some Dir" using mkdir_all_frame [OF mk, of destination] dir by simp
  have "unpacked_node destination p (map_of fs' p)" if new: "map_of fs' p \<noteq> map_of fs p" for p
  proof -
    note made = mkdir_all_new [OF mk new]
    then obtain v where v: "butlast (destination @ parts) = p @ v" by (auto simp: is_under_iff)
    then have split: "destination @ butlast parts = p @ v" using parts(3) by (simp add: butlast_append)
    have gone: "map_of fs p = None" using mkdir_all_frame [OF mk, of p] new by blast
    have "p \<noteq> []" using fs_okD(2) [OF ok] made \<open>fs_ok fs'\<close> fs_okD(2) by fastforce
    have under: "is_under destination p"
    proof (rule ccontr)
      assume "\<not> is_under destination p"
      with split have "is_under p destination" "destination \<noteq> p"
        by (auto simp: append_eq_append_conv2 is_under_iff)
      then have "map_of fs destination = None"
        using absent_below [OF ok \<open>p \<noteq> []\<close>, of destination] gone by simp
      with dir show False by simp
    qed
    then obtain u where u: "p = destination @ u" by (auto simp: is_under_iff)
    have "butlast parts @ [last parts] = parts" using parts(3) by simp
    with split u have "parts = u @ v @ [last parts]" by simp
    then have "set u \<subseteq> set parts" "length u \<le> length parts" by (metis set_append Un_upper1, metis length_append le_add1)
    with parts u made under show ?thesis by (auto simp: unpacked_node_def list_all_iff)
  qed
  then show "unpacked destination fs fs'" by (simp add: unpacked_def)
qed

lemma file_unpacked:
  assumes dir: "is_dir fs (butlast (destination @ parts))" and new: "lstat fs (destination @ parts) = Inl e"
    and ok: "fs_ok fs" and held: "map_of fs destination = Some Dir"
    and parts: "list_all safe_part parts" "length parts \<le> MaxBundleDepth" "parts \<noteq> []"
    and size: "int (length c) \<le> MaxBundleFileBytes"
  shows "unpacked destination fs (put (destination @ parts) (File (Bytes c)) fs)"
    "fs_ok (put (destination @ parts) (File (Bytes c)) fs)"
    "map_of (put (destination @ parts) (File (Bytes c)) fs) destination = Some Dir"
proof -
  show "unpacked destination fs (put (destination @ parts) (File (Bytes c)) fs)"
    using parts size by (auto simp: unpacked_def unpacked_node_def map_of_put)
  show "fs_ok (put (destination @ parts) (File (Bytes c)) fs)"
    using parts dir lstat_Inl [OF new] by (intro fs_ok_put [OF ok]) simp_all
  show "map_of (put (destination @ parts) (File (Bytes c)) fs) destination = Some Dir"
    using parts held by (simp add: map_of_put)
qed

lemma member_unpacked:
  assumes run: "extract_member os pre destination m (used, fs) = ((used', fs'), e)"
    and ok: "fs_ok fs" and dir: "map_of fs destination = Some Dir"
  shows "unpacked destination fs fs' \<and> fs_ok fs' \<and> map_of fs' destination = Some Dir"
proof -
  let ?name = "TrimSuffix (TrimPrefix (slashes (zm_name m)) pre) ''/''"
  let ?to = "destination @ path_of ?name"
  show ?thesis
  proof (cases "fs' = fs")
    case True
    then show ?thesis using ok dir unpacked_refl by simp
  next
    case False
    have safe: "safeRelativePath ?name" "pathDepth ?name \<le> MaxBundleDepth"
      and small: "uint (zm_usize m) \<le> MaxBundleFileBytes"
      using run False by (auto simp: extract_member_def Let_def split: if_splits)
    have parts: "list_all safe_part (path_of ?name)" "length (path_of ?name) \<le> MaxBundleDepth" "path_of ?name \<noteq> []"
      using safe_path [OF safe(1)] safe(2) by simp_all
    obtain fs1 r where mk: "mkdir_all fs (butlast ?to) = (fs1, r)" by fastforce
    note made = parents_unpacked [OF mk ok dir parts]
    show ?thesis
    proof (cases "fs' = fs1")
      case True
      with made show ?thesis by simp
    next
      case other: False
      then obtain c e' where r: "r = None" and new: "lstat fs1 ?to = Inl e'"
        and put: "fs' = put ?to (File (Bytes c)) fs1" and size: "int (length c) \<le> MaxBundleFileBytes"
        using run False small
        by (auto simp: extract_member_def Let_def mk MaxBundleFileBytes_def
            split: if_splits option.splits sum.splits install_error.splits)
      have "is_dir fs1 (butlast ?to)" using mk r mkdir_all_dir by blast
      from file_unpacked [OF this new made(2,3) parts size] show ?thesis
        using unpacked_trans [OF made(1)] unfolding put by blast
    qed
  qed
qed

lemma members_unpacked:
  assumes "extract_members os pre destination ms (used, fs) = (fs', e)" "fs_ok fs"
    and "map_of fs destination = Some Dir"
  shows "unpacked destination fs fs'"
  using assms
proof (induction ms arbitrary: used fs)
  case Nil
  then show ?case by (simp add: unpacked_refl)
next
  case (Cons m ms)
  obtain used1 fs1 e1 where one: "extract_member os pre destination m (used, fs) = ((used1, fs1), e1)"
    by (metis prod.collapse)
  note first = member_unpacked [OF one Cons.prems(2,3)]
  show ?case
  proof (cases e1)
    case None
    then have "extract_members os pre destination ms (used1, fs1) = (fs', e)" using Cons.prems(1) one by simp
    from Cons.IH [OF this] first show ?thesis using unpacked_trans by blast
  next
    case (Some x)
    then show ?thesis using Cons.prems(1) one first by simp
  qed
qed


definition zip_sample :: zip_member where
  "zip_sample =
     \<lparr>zm_name = ''SKILL.md'', zm_creator = 0, zm_attrs = 0, zm_method = 0, zm_csize = 1, zm_usize = 1,
      zm_read = (\<lambda>_. Some ''x''), zm_offset = None\<rparr>"

definition zip_store_sample :: managed_store where
  "zip_store_sample = managed_sample\<lparr>sk_zip := \<lambda>_. Some [zip_sample]\<rparr>"


end
