(* ===== verification/Migration_Run.thy ===== *)
theory Migration_Run
  imports Secret_Store Install_Json Go_Format
begin

text \<open>
  Opening the database (persistence/sqlite/database.go) and the protection of its migration
  (migration\_protection.go): before a migration the database is copied and a state file says that it
  runs; when it fails, or when the daemon finds it unfinished at the next start, the copy is put back.

  A run acts on a world: the data directory, every content that it had on the way (the daemon may
  stop at each of them), and a count of system calls, which names the call that fails, the time a
  call reads and the bytes that it draws. A database file is its logical content; SQLite's work is
  what the code relies on: a transaction is seen whole or not at all, except on disk, where the file
  may be torn while a rollback journal beside it keeps the content to return to. Digests, what a
  torn file holds, and what playing back a journal makes of a file are parameters, and so are the
  scripts. Temporary files are left out: nothing reads them again.
\<close>

subsection \<open>Runs that may fail\<close>

datatype mig_code = MigrationProtectionFailed | MigrationFailedRecovered
  | MigrationRecoveryRequired | MigrationUnsupported

definition mig_code_text :: "mig_code \<Rightarrow> string" where
  "mig_code_text c =
     (case c of
        MigrationProtectionFailed \<Rightarrow> ''DATABASE_MIGRATION_PROTECTION_FAILED''
      | MigrationFailedRecovered \<Rightarrow> ''DATABASE_MIGRATION_FAILED_RECOVERED''
      | MigrationRecoveryRequired \<Rightarrow> ''DATABASE_MIGRATION_RECOVERY_REQUIRED''
      | MigrationUnsupported \<Rightarrow> ''DATABASE_SCHEMA_UNSUPPORTED'')"

datatype mig_error = MigrationError mig_code int int | StepError

record history_row =
  hr_source :: int
  hr_target :: int
  hr_sha :: string
  hr_started :: string
  hr_completed :: string

text \<open>The ledger and the history are tables that may be missing; \<open>db_tables\<close> counts the others.\<close>

record database =
  db_ledger :: "int list option"
  db_tables :: nat
  db_history :: "history_row list option"
  db_body :: string

definition empty_database :: database where
  "empty_database = \<lparr>db_ledger = None, db_tables = 0, db_history = None, db_body = []\<rparr>"

datatype mig_file = DbFile database | NotDb string

datatype mig_entry = Regular mig_file | Special

datatype state_file = StateDoc json | StateBytes string | StateSpecial

record data_dir =
  dd_db :: "mig_file option"
  dd_journal :: "database option"
  dd_wal :: bool
  dd_shm :: bool
  dd_protections :: "(string \<times> mig_entry) list option"
  dd_state :: "state_file option"

record mig_env =
  mv_faulty :: "nat \<Rightarrow> bool"
  mv_clock :: "nat \<Rightarrow> time"
  mv_random :: "nat \<Rightarrow> nat list"
  mv_sha :: "mig_file \<Rightarrow> string"
  mv_size :: "state_file \<Rightarrow> int"
  mv_torn :: "database \<Rightarrow> mig_file list"
  mv_partial :: "database \<Rightarrow> mig_file list"
  mv_rollback :: "database \<Rightarrow> mig_file \<Rightarrow> mig_file"
  mv_quick :: "database \<Rightarrow> bool"
  mv_foreign :: "database \<Rightarrow> bool"

record mig_world =
  mw_disk :: data_dir
  mw_past :: "data_dir list"
  mw_ticks :: nat

type_synonym 'a mig = "mig_world \<Rightarrow> (mig_error + 'a) \<times> mig_world"

definition mig_start :: "data_dir \<Rightarrow> mig_world" where
  "mig_start d = \<lparr>mw_disk = d, mw_past = [d], mw_ticks = 0\<rparr>"

definition mig_ret :: "'a \<Rightarrow> 'a mig" where
  "mig_ret x = (\<lambda>w. (Inr x, w))"

definition mig_raise :: "mig_error \<Rightarrow> 'a mig" where
  "mig_raise e = (\<lambda>w. (Inl e, w))"

definition mig_bind :: "'a mig \<Rightarrow> ('a \<Rightarrow> 'b mig) \<Rightarrow> 'b mig" where
  "mig_bind m k = (\<lambda>w. case m w of (Inl e, w') \<Rightarrow> (Inl e, w') | (Inr x, w') \<Rightarrow> k x w')"

definition mig_catch :: "'a mig \<Rightarrow> (mig_error \<Rightarrow> 'a mig) \<Rightarrow> 'a mig" where
  "mig_catch m h = (\<lambda>w. case m w of (Inl e, w') \<Rightarrow> h e w' | (Inr x, w') \<Rightarrow> (Inr x, w'))"

text \<open>\<open>_ = m\<close>: whatever it returns is dropped.\<close>

definition mig_ignore :: "'a mig \<Rightarrow> unit mig" where
  "mig_ignore m = (\<lambda>w. (Inr (), snd (m w)))"

definition mig_step :: "mig_env \<Rightarrow> unit mig" where
  "mig_step ev = (\<lambda>w. (if mv_faulty ev (mw_ticks w) then Inl StepError else Inr (),
                       w\<lparr>mw_ticks := Suc (mw_ticks w)\<rparr>))"

fun mig_steps :: "mig_env \<Rightarrow> nat \<Rightarrow> unit mig" where
  "mig_steps ev 0 = mig_ret ()"
| "mig_steps ev (Suc n) = mig_bind (mig_step ev) (\<lambda>_. mig_steps ev n)"

definition mig_now :: "mig_env \<Rightarrow> time mig" where
  "mig_now ev = (\<lambda>w. (Inr (mv_clock ev (mw_ticks w)), w\<lparr>mw_ticks := Suc (mw_ticks w)\<rparr>))"

definition mig_read :: "(data_dir \<Rightarrow> 'a) \<Rightarrow> 'a mig" where
  "mig_read f = (\<lambda>w. (Inr (f (mw_disk w)), w))"

definition mig_write :: "(data_dir \<Rightarrow> data_dir) \<Rightarrow> unit mig" where
  "mig_write f = (\<lambda>w. (Inr (), w\<lparr>mw_disk := f (mw_disk w), mw_past := mw_past w @ [f (mw_disk w)]\<rparr>))"

fun mig_each :: "('a \<Rightarrow> unit mig) \<Rightarrow> 'a list \<Rightarrow> unit mig" where
  "mig_each f [] = mig_ret ()"
| "mig_each f (x # xs) = mig_bind (f x) (\<lambda>_. mig_each f xs)"

subsection \<open>SQLite\<close>

text \<open>A database without a file is empty. \<open>None\<close> is an SQL error.\<close>

definition db_content :: "mig_file option \<Rightarrow> database option" where
  "db_content f = (case f of None \<Rightarrow> Some empty_database | Some (DbFile x) \<Rightarrow> Some x | Some (NotDb _) \<Rightarrow> None)"

definition mig_lift :: "'a option \<Rightarrow> 'a mig" where
  "mig_lift r = (case r of None \<Rightarrow> mig_raise StepError | Some x \<Rightarrow> mig_ret x)"

definition db_query :: "mig_env \<Rightarrow> (database \<Rightarrow> 'a option) \<Rightarrow> 'a mig" where
  "db_query ev f =
     mig_bind (mig_step ev) (\<lambda>_. mig_bind (mig_read dd_db) (\<lambda>file.
       mig_lift (Option.bind (db_content file) f)))"

text \<open>
  A transaction of \<open>n\<close> calls. While it runs the file may be torn, with the journal beside it; a
  call that fails rolls back, and the commit deletes the journal.
\<close>

definition db_write :: "mig_env \<Rightarrow> nat \<Rightarrow> (database \<Rightarrow> database option) \<Rightarrow> unit mig" where
  "db_write ev n f =
     mig_bind (mig_read dd_db) (\<lambda>file. mig_bind (mig_lift (db_content file)) (\<lambda>x.
     mig_bind (mig_each (\<lambda>t. mig_write (\<lambda>d. d\<lparr>dd_db := Some t, dd_journal := Some x\<rparr>)) (mv_torn ev x)) (\<lambda>_.
     mig_bind
       (mig_catch (mig_bind (mig_steps ev n) (\<lambda>_. mig_lift (f x)))
         (\<lambda>e. mig_bind (mig_write (\<lambda>d. d\<lparr>dd_db := file, dd_journal := None\<rparr>)) (\<lambda>_. mig_raise e))) (\<lambda>y.
     mig_write (\<lambda>d. d\<lparr>dd_db := Some (DbFile y), dd_journal := None\<rparr>)))))"

text \<open>
  The first access plays back a hot journal; without a database file the journal is deleted.
\<close>

definition db_open :: "mig_env \<Rightarrow> unit mig" where
  "db_open ev =
     mig_bind (mig_steps ev 2) (\<lambda>_. mig_bind (mig_read dd_journal) (\<lambda>j.
       case j of
         None \<Rightarrow> mig_ret ()
       | Some x \<Rightarrow> mig_write (\<lambda>d. d\<lparr>dd_db := map_option (mv_rollback ev x) (dd_db d), dd_journal := None\<rparr>)))"

definition ledger_version :: "int list \<Rightarrow> int" where
  "ledger_version l = (if l = [] then 0 else Max (set l))"

definition currentMigrationVersion :: "mig_env \<Rightarrow> int mig" where
  "currentMigrationVersion ev =
     mig_bind (db_query ev (\<lambda>x. Some (db_ledger x \<noteq> None))) (\<lambda>ledger.
       if \<not> ledger then
         mig_bind (db_query ev (\<lambda>x. Some (db_tables x + (if db_history x = None then 0 else 1)))) (\<lambda>userTables.
           if userTables \<noteq> 0 then mig_raise (MigrationError MigrationUnsupported 0 0) else mig_ret 0)
       else
         mig_bind (db_query ev (\<lambda>x. map_option ledger_version (db_ledger x))) (\<lambda>version.
         mig_bind (db_query ev (\<lambda>x. map_option (\<lambda>l. int (length l)) (db_ledger x))) (\<lambda>count.
           if count \<noteq> version then mig_raise (MigrationError MigrationUnsupported version version)
           else mig_ret version)))"

subsection \<open>The state file\<close>

record migrationRun =
  rn_schema :: int
  rn_state :: string
  rn_source :: int
  rn_target :: int
  rn_protection :: string
  rn_sha :: string
  rn_code :: string
  rn_started :: time
  rn_completed :: "time option"

definition omit_json :: "string \<Rightarrow> string \<Rightarrow> (string \<times> json) list" where
  "omit_json k s = (if s = [] then [] else [(k, json_string s)])"

definition run_json :: "migrationRun \<Rightarrow> json" where
  "run_json r =
     JObj ([(''schemaVersion'', JNum (rn_schema r)),
            (''state'', json_string (rn_state r)),
            (''sourceVersion'', JNum (rn_source r)),
            (''targetVersion'', JNum (rn_target r))]
           @ omit_json ''protectionFile'' (rn_protection r)
           @ omit_json ''protectionSha256'' (rn_sha r)
           @ omit_json ''errorCode'' (rn_code r)
           @ [(''startedAt'', JTime (rn_started r))]
           @ (case rn_completed r of None \<Rightarrow> [] | Some t \<Rightarrow> [(''completedAt'', JTime t)]))"

definition run_fields :: "string list" where
  "run_fields = [''schemaVersion'', ''state'', ''sourceVersion'', ''targetVersion'', ''protectionFile'',
     ''protectionSha256'', ''errorCode'', ''startedAt'', ''completedAt'']"

definition unmarshal_run :: "json \<Rightarrow> migrationRun option" where
  "unmarshal_run v =
     Option.bind (as_struct v) (\<lambda>o'.
     if \<not> list_all (\<lambda>kv. list_ex (names_field (fst kv)) run_fields) o' then None
     else
     Option.bind (int_field ''schemaVersion'' o') (\<lambda>schema.
     Option.bind (str_field ''state'' o') (\<lambda>state.
     Option.bind (int_field ''sourceVersion'' o') (\<lambda>source.
     Option.bind (int_field ''targetVersion'' o') (\<lambda>target.
     Option.bind (str_field ''protectionFile'' o') (\<lambda>protection.
     Option.bind (str_field ''protectionSha256'' o') (\<lambda>sha.
     Option.bind (str_field ''errorCode'' o') (\<lambda>code.
     Option.bind (time_field ''startedAt'' o') (\<lambda>started.
     Option.bind (decode_pointer ''completedAt'' o') (\<lambda>completed.
       Some \<lparr>rn_schema = schema, rn_state = state, rn_source = source, rn_target = target,
             rn_protection = protection, rn_sha = sha, rn_code = code, rn_started = started,
             rn_completed = completed\<rparr>))))))))))"

definition maxMigrationStateBytes :: int where
  "maxMigrationStateBytes = 16 * 1024"

definition readMigrationState :: "mig_env \<Rightarrow> migrationRun option mig" where
  "readMigrationState ev =
     mig_bind (mig_step ev) (\<lambda>_. mig_bind (mig_read dd_state) (\<lambda>file.
       case file of
         None \<Rightarrow> mig_ret None
       | Some StateSpecial \<Rightarrow> mig_raise StepError
       | Some f \<Rightarrow>
           if mv_size ev f \<le> 0 \<or> mv_size ev f > maxMigrationStateBytes then mig_raise StepError
           else mig_bind (mig_step ev) (\<lambda>_.
             case (case f of StateDoc j \<Rightarrow> unmarshal_run j | _ \<Rightarrow> None) of
               None \<Rightarrow> mig_raise StepError
             | Some run \<Rightarrow>
                 if rn_schema run \<noteq> 1 \<or> rn_source run < 0 \<or> rn_target run \<le> rn_source run
                    \<or> rn_started run = 0
                 then mig_raise StepError else mig_ret (Some run))))"

text \<open>Create, restrict, write, flush and close a temporary file, and move it over the old one.\<close>

definition writeMigrationState :: "mig_env \<Rightarrow> migrationRun \<Rightarrow> unit mig" where
  "writeMigrationState ev run =
     (if \<not> (time_encodable (rn_started run) \<and> pointer_encodable (rn_completed run)) then mig_raise StepError
      else mig_bind (mig_steps ev 6) (\<lambda>_. mig_write (\<lambda>d. d\<lparr>dd_state := Some (StateDoc (run_json run))\<rparr>)))"

subsection \<open>Protections\<close>

definition maxProtectionFiles :: nat where
  "maxProtectionFiles = 3"

definition protection_pattern :: "(char \<Rightarrow> bool) list" where
  "protection_pattern =
     map (=) ''schema-'' @ replicate 3 is_digit @ map (=) ''-to-'' @ replicate 3 is_digit
     @ map (=) ''-'' @ replicate 8 is_digit @ map (=) ''T'' @ replicate 9 is_digit
     @ map (=) ''Z-'' @ replicate 12 is_lower_hex @ map (=) ''.db''"

definition protectionNameRE :: "string \<Rightarrow> bool" where
  "protectionNameRE name = list_all2 (\<lambda>p c. p c) protection_pattern name"

definition three_digits :: "int \<Rightarrow> string" where
  "three_digits n = (let s = decimal (nat n) in replicate (3 - length s) (CHR ''0'') @ s)"

text \<open>
  The layout \<open>20060102T150405000Z\<close>. Go reads zeros as a fraction of a second only after a dot or a
  comma, so the three zeros are written as they stand.
\<close>

definition protection_time :: "time \<Rightarrow> string" where
  "protection_time t =
     (let secs = t div 1000000000; (y, m, d) = civil_date (secs div 86400); r = secs mod 86400
      in pad 4 y @ pad 2 m @ pad 2 d @ ''T'' @ pad 2 (r div 3600) @ pad 2 (r div 60 mod 60)
         @ pad 2 (r mod 60) @ ''000Z'')"

definition mig_random :: "mig_env \<Rightarrow> nat list mig" where
  "mig_random ev =
     (\<lambda>w. (if mv_faulty ev (mw_ticks w) then Inl StepError else Inr (mv_random ev (mw_ticks w)),
           w\<lparr>mw_ticks := Suc (mw_ticks w)\<rparr>))"

definition newProtectionName :: "mig_env \<Rightarrow> int \<Rightarrow> int \<Rightarrow> time \<Rightarrow> string mig" where
  "newProtectionName ev source target now =
     mig_bind (mig_random ev) (\<lambda>random.
       mig_ret (''schema-'' @ three_digits source @ ''-to-'' @ three_digits target @ ''-''
                @ protection_time now @ ''-'' @ hex_encode random @ ''.db''))"

definition protection_entries :: "data_dir \<Rightarrow> (string \<times> mig_entry) list" where
  "protection_entries d = (case dd_protections d of None \<Rightarrow> [] | Some es \<Rightarrow> es)"

definition put_protection :: "string \<Rightarrow> mig_entry \<Rightarrow> data_dir \<Rightarrow> data_dir" where
  "put_protection name e d = d\<lparr>dd_protections := Some (AList.update name e (protection_entries d))\<rparr>"

definition drop_protection :: "string \<Rightarrow> data_dir \<Rightarrow> data_dir" where
  "drop_protection name d = d\<lparr>dd_protections := map_option (AList.delete name) (dd_protections d)\<rparr>"

definition mig_fileSHA256 :: "mig_env \<Rightarrow> string \<Rightarrow> (string \<times> mig_file) mig" where
  "mig_fileSHA256 ev name =
     mig_bind (mig_step ev) (\<lambda>_. mig_bind (mig_read (\<lambda>d. map_of (protection_entries d) name)) (\<lambda>e.
       case e of
         Some (Regular f) \<Rightarrow> mig_bind (mig_steps ev 2) (\<lambda>_. mig_ret (mv_sha ev f, f))
       | _ \<Rightarrow> mig_raise StepError))"

text \<open>\<open>VACUUM INTO\<close> fails on a file that exists; while it runs the copy is not complete.\<close>

definition vacuum_into :: "mig_env \<Rightarrow> string \<Rightarrow> unit mig" where
  "vacuum_into ev name =
     mig_bind (mig_read (\<lambda>d. map_of (protection_entries d) name)) (\<lambda>e.
       if e \<noteq> None then mig_raise StepError
       else mig_bind (db_query ev Some) (\<lambda>x.
         mig_bind (mig_each (\<lambda>f. mig_write (put_protection name (Regular f))) (mv_partial ev x)) (\<lambda>_.
         mig_bind (mig_step ev) (\<lambda>_. mig_write (put_protection name (Regular (DbFile x)))))))"

definition remove_protection :: "mig_env \<Rightarrow> string \<Rightarrow> unit mig" where
  "remove_protection ev name = mig_bind (mig_step ev) (\<lambda>_. mig_write (drop_protection name))"

definition protect_source :: "mig_env \<Rightarrow> migrationRun \<Rightarrow> migrationRun mig" where
  "protect_source ev run =
     (if rn_source run > 0 then
        mig_bind (mig_step ev) (\<lambda>_.
        mig_bind (mig_write (\<lambda>d. d\<lparr>dd_protections := Some (protection_entries d)\<rparr>)) (\<lambda>_.
        mig_bind (newProtectionName ev (rn_source run) (rn_target run) (rn_started run)) (\<lambda>name.
        mig_bind (vacuum_into ev name) (\<lambda>_.
        mig_bind (mig_catch (mig_fileSHA256 ev name)
                   (\<lambda>e. mig_bind (mig_ignore (remove_protection ev name)) (\<lambda>_. mig_raise e))) (\<lambda>digest.
        mig_ret (run\<lparr>rn_protection := name, rn_sha := fst digest\<rparr>))))))
      else mig_ret run)"

definition beginMigrationProtection :: "mig_env \<Rightarrow> int \<Rightarrow> int \<Rightarrow> migrationRun mig" where
  "beginMigrationProtection ev source target =
     mig_catch
       (mig_bind (mig_now ev) (\<lambda>started.
        mig_bind (protect_source ev \<lparr>rn_schema = 1, rn_state = ''RUNNING'', rn_source = source,
          rn_target = target, rn_protection = [], rn_sha = [], rn_code = [], rn_started = started,
          rn_completed = None\<rparr>) (\<lambda>run.
        mig_bind (mig_catch (writeMigrationState ev run)
          (\<lambda>e. mig_bind (if rn_protection run \<noteq> [] then mig_ignore (remove_protection ev (rn_protection run))
                         else mig_ret ()) (\<lambda>_. mig_raise e))) (\<lambda>_.
        mig_ret run))))
       (\<lambda>e. mig_raise (MigrationError MigrationProtectionFailed source target))"

definition retainProtections :: "mig_env \<Rightarrow> unit mig" where
  "retainProtections ev =
     mig_bind (mig_read dd_protections) (\<lambda>dir.
       case dir of
         None \<Rightarrow> mig_ret ()
       | Some entries \<Rightarrow>
           mig_bind (mig_step ev) (\<lambda>_.
             let names = rev (sort (map fst (filter (\<lambda>e. snd e \<noteq> Special \<and> protectionNameRE (fst e)) entries)))
             in mig_each (remove_protection ev) (drop maxProtectionFiles names)))"

subsection \<open>Restoring\<close>

text \<open>
  \<open>os.Remove\<close>; a file that does not exist is no failure to its callers. The files of a write-ahead
  log are removed; a rollback journal stays beside the restored file.
\<close>

definition remove_if :: "mig_env \<Rightarrow> (data_dir \<Rightarrow> bool) \<Rightarrow> (data_dir \<Rightarrow> data_dir) \<Rightarrow> unit mig" where
  "remove_if ev there remove =
     mig_bind (mig_step ev) (\<lambda>_. mig_bind (mig_read there) (\<lambda>b.
       if b then mig_write remove else mig_ret ()))"

definition remove_database :: "mig_env \<Rightarrow> unit mig" where
  "remove_database ev = remove_if ev (\<lambda>d. dd_db d \<noteq> None) (\<lambda>d. d\<lparr>dd_db := None\<rparr>)"

definition remove_wal :: "mig_env \<Rightarrow> unit mig" where
  "remove_wal ev = remove_if ev dd_wal (\<lambda>d. d\<lparr>dd_wal := False\<rparr>)"

definition remove_shm :: "mig_env \<Rightarrow> unit mig" where
  "remove_shm ev = remove_if ev dd_shm (\<lambda>d. d\<lparr>dd_shm := False\<rparr>)"

definition restoreMigrationSource :: "mig_env \<Rightarrow> migrationRun \<Rightarrow> unit mig" where
  "restoreMigrationSource ev run =
     (if rn_source run = 0 then
        mig_bind (remove_database ev) (\<lambda>_. mig_bind (remove_wal ev) (\<lambda>_. remove_shm ev))
      else if \<not> protectionNameRE (rn_protection run) \<or> length (rn_sha run) \<noteq> 64 then mig_raise StepError
      else
        mig_bind (mig_fileSHA256 ev (rn_protection run)) (\<lambda>digest.
          if fst digest \<noteq> rn_sha run then mig_raise StepError
          else
            mig_bind (mig_steps ev 7) (\<lambda>_.
            mig_bind (mig_write (\<lambda>d. d\<lparr>dd_db := Some (snd digest)\<rparr>)) (\<lambda>_.
            mig_bind (mig_ignore (remove_wal ev)) (\<lambda>_. mig_ignore (remove_shm ev))))))"

definition finish_run :: "mig_env \<Rightarrow> migrationRun \<Rightarrow> string \<Rightarrow> mig_code \<Rightarrow> migrationRun mig" where
  "finish_run ev run state code =
     mig_bind (mig_now ev) (\<lambda>now.
       mig_ret (run\<lparr>rn_state := state, rn_code := mig_code_text code, rn_completed := Some now\<rparr>))"

definition failRecoveryState :: "mig_env \<Rightarrow> migrationRun \<Rightarrow> 'a mig" where
  "failRecoveryState ev run =
     mig_bind (finish_run ev run ''RECOVERY_REQUIRED'' MigrationRecoveryRequired) (\<lambda>run'.
     mig_bind (mig_ignore (writeMigrationState ev run')) (\<lambda>_.
       mig_raise (MigrationError MigrationRecoveryRequired (rn_source run) (rn_target run))))"

definition failAndRestoreMigration :: "mig_env \<Rightarrow> migrationRun \<Rightarrow> 'a mig" where
  "failAndRestoreMigration ev run =
     mig_bind
       (mig_catch (restoreMigrationSource ev run) (\<lambda>e. failRecoveryState ev run)) (\<lambda>_.
     mig_bind (finish_run ev run ''RESTORED'' MigrationFailedRecovered) (\<lambda>run'.
     mig_bind
       (mig_catch (writeMigrationState ev run')
         (\<lambda>e. mig_raise (MigrationError MigrationRecoveryRequired (rn_source run) (rn_target run)))) (\<lambda>_.
     mig_raise (MigrationError MigrationFailedRecovered (rn_source run) (rn_target run)))))"

definition recoverInterruptedMigration :: "mig_env \<Rightarrow> unit mig" where
  "recoverInterruptedMigration ev =
     mig_bind
       (mig_catch (readMigrationState ev) (\<lambda>e. mig_raise (MigrationError MigrationRecoveryRequired 0 0))) (\<lambda>found.
       case found of
         None \<Rightarrow> mig_ret ()
       | Some run \<Rightarrow>
           if rn_state run = ''SUCCEEDED'' \<or> rn_state run = ''RESTORED'' then mig_ret ()
           else if rn_state run \<noteq> ''RUNNING'' then
             mig_raise (MigrationError MigrationRecoveryRequired (rn_source run) (rn_target run))
           else
             mig_bind (mig_catch (restoreMigrationSource ev run) (\<lambda>e. failRecoveryState ev run)) (\<lambda>_.
             mig_bind (finish_run ev run ''RESTORED'' MigrationFailedRecovered) (\<lambda>run'.
             mig_catch (writeMigrationState ev run') (\<lambda>e. failRecoveryState ev run'))))"

subsection \<open>Migrating\<close>

type_synonym mig_script = "database \<Rightarrow> database option"

definition parse_int :: "string \<Rightarrow> int option" where
  "parse_int s =
     (let neg = (s \<noteq> [] \<and> hd s = CHR ''-'');
          ds = (if s \<noteq> [] \<and> (hd s = CHR ''-'' \<or> hd s = CHR ''+'') then tl s else s);
          v = (if neg then - int (digits_value ds) else int (digits_value ds))
      in if ds = [] \<or> \<not> list_all is_digit ds \<or> v < - (2 ^ 63) \<or> v \<ge> 2 ^ 63 then None else Some v)"

definition migrationVersion :: "string \<Rightarrow> int option" where
  "migrationVersion path =
     (let name = last (split_on (CHR ''/'') path)
      in if CHR ''_'' \<notin> set name then None
         else case parse_int (takeWhile (\<lambda>c. c \<noteq> CHR ''_'') name) of
                None \<Rightarrow> None | Some v \<Rightarrow> if v \<le> 0 then None else Some v)"

fun latest_loop :: "int \<Rightarrow> string list \<Rightarrow> int option" where
  "latest_loop latest [] = Some latest"
| "latest_loop latest (path # paths) =
     (case migrationVersion path of
        None \<Rightarrow> None
      | Some v \<Rightarrow> if v \<noteq> latest + 1 then None else latest_loop v paths)"

definition latestMigrationVersion :: "(string \<times> mig_script) list \<Rightarrow> int option" where
  "latestMigrationVersion files =
     (if files = [] then None else latest_loop 0 (map fst (sort_key fst files)))"

definition create_ledger :: mig_script where
  "create_ledger x = Some (if db_ledger x = None then x\<lparr>db_ledger := Some []\<rparr> else x)"

text \<open>The script of a migration and its row in the ledger, whose key is the version.\<close>

definition apply_script :: "int \<Rightarrow> mig_script \<Rightarrow> mig_script" where
  "apply_script version script x =
     Option.bind (script x) (\<lambda>y. Option.bind (db_ledger y) (\<lambda>l.
       if version \<in> set l then None else Some (y\<lparr>db_ledger := Some (l @ [version])\<rparr>)))"

fun migrate_each :: "mig_env \<Rightarrow> (string \<times> mig_script) list \<Rightarrow> unit mig" where
  "migrate_each ev [] = mig_ret ()"
| "migrate_each ev ((path, script) # files) =
     mig_bind (mig_lift (migrationVersion path)) (\<lambda>version.
     mig_bind (db_query ev (\<lambda>x. map_option (\<lambda>l. version \<in> set l) (db_ledger x))) (\<lambda>applied.
     mig_bind
       (if applied then mig_ret ()
        else mig_bind (mig_steps ev 2) (\<lambda>_. db_write ev 3 (apply_script version script))) (\<lambda>_.
     migrate_each ev files)))"

definition migrate :: "mig_env \<Rightarrow> (string \<times> mig_script) list \<Rightarrow> unit mig" where
  "migrate ev files =
     mig_bind (db_write ev 1 create_ledger) (\<lambda>_. migrate_each ev (sort_key fst files))"

definition verifyMigratedDatabase :: "mig_env \<Rightarrow> int \<Rightarrow> unit mig" where
  "verifyMigratedDatabase ev target =
     mig_bind (currentMigrationVersion ev) (\<lambda>current.
       if current \<noteq> target then mig_raise StepError
       else mig_bind (db_query ev (\<lambda>x. if mv_quick ev x then Some () else None)) (\<lambda>_.
            db_query ev (\<lambda>x. if mv_foreign ev x then Some () else None)))"

definition record_history :: "history_row \<Rightarrow> mig_script" where
  "record_history r x =
     (case db_history x of
        None \<Rightarrow> None
      | Some rows \<Rightarrow>
          if 0 \<le> hr_source r \<and> hr_source r < hr_target r \<and> (length (hr_sha r) = 0 \<or> length (hr_sha r) = 64)
          then Some (x\<lparr>db_history := Some (rows @ [r])\<rparr>) else None)"

definition completeMigration :: "mig_env \<Rightarrow> migrationRun \<Rightarrow> unit mig" where
  "completeMigration ev run =
     mig_bind (mig_now ev) (\<lambda>completed.
     mig_bind (db_write ev 1 (record_history \<lparr>hr_source = rn_source run, hr_target = rn_target run,
       hr_sha = rn_sha run, hr_started = formatTime (rn_started run), hr_completed = formatTime completed\<rparr>)) (\<lambda>_.
     mig_bind (mig_now ev) (\<lambda>now.
     mig_bind (writeMigrationState ev (run\<lparr>rn_state := ''SUCCEEDED'', rn_completed := Some now\<rparr>)) (\<lambda>_.
     retainProtections ev))))"

text \<open>The part of \<open>openWithMigrationFiles\<close> after the versions are known.\<close>

definition run_migration :: "mig_env \<Rightarrow> (string \<times> mig_script) list \<Rightarrow> int \<Rightarrow> int \<Rightarrow> unit mig" where
  "run_migration ev files source target =
     mig_bind
       (if source < target
        then mig_bind (beginMigrationProtection ev source target) (\<lambda>run. mig_ret (Some run))
        else mig_ret None) (\<lambda>run.
     let restore = (\<lambda>e. case run of None \<Rightarrow> mig_raise e | Some r \<Rightarrow> failAndRestoreMigration ev r)
     in mig_bind (mig_catch (migrate ev files) restore) (\<lambda>_.
        mig_bind (mig_catch (verifyMigratedDatabase ev target) restore) (\<lambda>_.
        case run of None \<Rightarrow> mig_ret () | Some r \<Rightarrow> mig_catch (completeMigration ev r) restore)))"

definition openWithMigrationFiles :: "mig_env \<Rightarrow> (string \<times> mig_script) list \<Rightarrow> unit mig" where
  "openWithMigrationFiles ev files =
     mig_bind (mig_step ev) (\<lambda>_.
     mig_bind (recoverInterruptedMigration ev) (\<lambda>_.
     mig_bind (db_open ev) (\<lambda>_.
     mig_bind (mig_lift (latestMigrationVersion files)) (\<lambda>target.
     mig_bind (currentMigrationVersion ev) (\<lambda>source.
       if source > target then mig_raise (MigrationError MigrationUnsupported source target)
       else run_migration ev files source target)))))"

end
