(* ===== verification/Migration_Properties.thy ===== *)
theory Migration_Properties
  imports Migration_Run Backup_Manifest_Properties
begin

text \<open>
  Properties of a protected migration: wherever the daemon stops while it opens the database, the
  recovery of the next start leaves the database as it was before the migration, or the one whose
  migration is complete. The rules for \<open>crash_safe\<close> carry the proofs: a triple whose invariant holds
  of every content that the data directory has on the way.
\<close>

subsection \<open>Rules for runs\<close>

named_theorems crash_rules \<open>rules for single steps of a run\<close>

definition crash_safe ::
  "(data_dir \<Rightarrow> bool) \<Rightarrow> (data_dir \<Rightarrow> bool) \<Rightarrow> 'a mig \<Rightarrow> ('a \<Rightarrow> data_dir \<Rightarrow> bool)
    \<Rightarrow> (data_dir \<Rightarrow> bool) \<Rightarrow> bool" where
  "crash_safe R P m Q E \<longleftrightarrow>
     (\<forall>w r w'. P (mw_disk w) \<longrightarrow> list_all R (mw_past w) \<longrightarrow> m w = (r, w') \<longrightarrow>
        list_all R (mw_past w') \<and> (case r of Inl _ \<Rightarrow> E (mw_disk w') | Inr x \<Rightarrow> Q x (mw_disk w')))"

lemma safeI:
  assumes "\<And>w r w'. P (mw_disk w) \<Longrightarrow> list_all R (mw_past w) \<Longrightarrow> m w = (r, w') \<Longrightarrow>
    list_all R (mw_past w') \<and> (case r of Inl _ \<Rightarrow> E (mw_disk w') | Inr x \<Rightarrow> Q x (mw_disk w'))"
  shows "crash_safe R P m Q E"
  using assms by (simp add: crash_safe_def)

lemma safeD:
  assumes "crash_safe R P m Q E" and "P (mw_disk w)" and "list_all R (mw_past w)" and "m w = (r, w')"
  shows "list_all R (mw_past w')"
    and "\<And>e. r = Inl e \<Longrightarrow> E (mw_disk w')" and "\<And>x. r = Inr x \<Longrightarrow> Q x (mw_disk w')"
proof -
  note * = assms(1) [unfolded crash_safe_def, rule_format, OF assms(2-4)]
  show "list_all R (mw_past w')" using * by blast
  show "E (mw_disk w')" if "r = Inl e" for e using * that by simp
  show "Q x (mw_disk w')" if "r = Inr x" for x using * that by simp
qed

lemma safe_conseq:
  assumes m: "crash_safe R P m Q E"
    and "\<And>d. P' d \<Longrightarrow> P d" and "\<And>x d. Q x d \<Longrightarrow> Q' x d" and "\<And>d. E d \<Longrightarrow> E' d"
  shows "crash_safe R P' m Q' E'"
proof (rule safeI)
  fix w r w'
  assume w: "P' (mw_disk w)" "list_all R (mw_past w)" "m w = (r, w')"
  note * = safeD [OF m assms(2) [OF w(1)] w(2,3)]
  show "list_all R (mw_past w') \<and> (case r of Inl _ \<Rightarrow> E' (mw_disk w') | Inr x \<Rightarrow> Q' x (mw_disk w'))"
    using * assms(3,4) by (cases r) auto
qed

lemma safe_ret [crash_rules]: "(\<And>d. P d \<Longrightarrow> Q x d) \<Longrightarrow> crash_safe R P (mig_ret x) Q E"
  by (simp add: crash_safe_def mig_ret_def)

lemma safe_raise [crash_rules]: "(\<And>d. P d \<Longrightarrow> E d) \<Longrightarrow> crash_safe R P (mig_raise e) Q E"
  by (simp add: crash_safe_def mig_raise_def)

lemma safe_bind:
  assumes m: "crash_safe R P m M E" and k: "\<And>x. crash_safe R (M x) (k x) Q E"
  shows "crash_safe R P (mig_bind m k) Q E"
proof (rule safeI)
  fix w r w'
  assume w: "P (mw_disk w)" "list_all R (mw_past w)" "mig_bind m k w = (r, w')"
  obtain r1 w1 where m1: "m w = (r1, w1)" by force
  note * = safeD [OF m w(1,2) m1]
  show "list_all R (mw_past w') \<and> (case r of Inl _ \<Rightarrow> E (mw_disk w') | Inr x \<Rightarrow> Q x (mw_disk w'))"
  proof (cases r1)
    case (Inl e)
    with w(3) m1 * show ?thesis by (auto simp: mig_bind_def)
  next
    case (Inr x)
    then have "k x w1 = (r, w')" using w(3) m1 by (simp add: mig_bind_def)
    from safeD [OF k *(3) [OF Inr] *(1) this] show ?thesis by (cases r) auto
  qed
qed

lemma safe_catch:
  assumes m: "crash_safe R P m Q F" and h: "\<And>e. crash_safe R F (h e) Q E"
  shows "crash_safe R P (mig_catch m h) Q E"
proof (rule safeI)
  fix w r w'
  assume w: "P (mw_disk w)" "list_all R (mw_past w)" "mig_catch m h w = (r, w')"
  obtain r1 w1 where m1: "m w = (r1, w1)" by force
  note * = safeD [OF m w(1,2) m1]
  show "list_all R (mw_past w') \<and> (case r of Inl _ \<Rightarrow> E (mw_disk w') | Inr x \<Rightarrow> Q x (mw_disk w'))"
  proof (cases r1)
    case (Inr x)
    with w(3) m1 * show ?thesis by (auto simp: mig_catch_def)
  next
    case (Inl e)
    then have "h e w1 = (r, w')" using w(3) m1 by (simp add: mig_catch_def)
    from safeD [OF h *(2) [OF Inl] *(1) this] show ?thesis by (cases r) auto
  qed
qed

lemma safe_ignore:
  assumes m: "crash_safe R P m (\<lambda>_. Q) Q"
  shows "crash_safe R P (mig_ignore m) (\<lambda>_. Q) E"
proof (rule safeI)
  fix w r w'
  assume w: "P (mw_disk w)" "list_all R (mw_past w)" "mig_ignore m w = (r, w')"
  obtain r1 where m1: "m w = (r1, w')" and r: "r = Inr ()" using w(3) by (cases "m w") (auto simp: mig_ignore_def)
  note * = safeD [OF m w(1,2) m1]
  show "list_all R (mw_past w') \<and> (case r of Inl _ \<Rightarrow> E (mw_disk w') | Inr x \<Rightarrow> Q (mw_disk w'))"
    using * r by (cases r1) auto
qed

lemma safe_step [crash_rules]:
  "(\<And>d. P d \<Longrightarrow> Q () d) \<Longrightarrow> (\<And>d n. P d \<Longrightarrow> mv_faulty ev n \<Longrightarrow> E d) \<Longrightarrow> crash_safe R P (mig_step ev) Q E"
  by (simp add: crash_safe_def mig_step_def)

lemma safe_now [crash_rules]:
  "(\<And>d n. P d \<Longrightarrow> Q (mv_clock ev n) d) \<Longrightarrow> crash_safe R P (mig_now ev) Q E"
  by (simp add: crash_safe_def mig_now_def)

lemma safe_random [crash_rules]:
  "(\<And>d n. P d \<Longrightarrow> Q (mv_random ev n) d) \<Longrightarrow> (\<And>d n. P d \<Longrightarrow> mv_faulty ev n \<Longrightarrow> E d)
    \<Longrightarrow> crash_safe R P (mig_random ev) Q E"
  by (simp add: crash_safe_def mig_random_def)

lemma safe_read [crash_rules]:
  "(\<And>d. P d \<Longrightarrow> Q (f d) d) \<Longrightarrow> crash_safe R P (mig_read f) Q E"
  by (simp add: crash_safe_def mig_read_def)

lemma safe_write [crash_rules]:
  "(\<And>d. P d \<Longrightarrow> R (f d)) \<Longrightarrow> (\<And>d. P d \<Longrightarrow> Q () (f d)) \<Longrightarrow> crash_safe R P (mig_write f) Q E"
  by (simp add: crash_safe_def mig_write_def)

lemma safe_if:
  "(c \<Longrightarrow> crash_safe R P a Q E) \<Longrightarrow> (\<not> c \<Longrightarrow> crash_safe R P b Q E)
    \<Longrightarrow> crash_safe R P (if c then a else b) Q E"
  by simp

lemma safe_lift [crash_rules]:
  "(\<And>d x. P d \<Longrightarrow> r = Some x \<Longrightarrow> Q x d) \<Longrightarrow> (\<And>d. P d \<Longrightarrow> r = None \<Longrightarrow> E d)
    \<Longrightarrow> crash_safe R P (mig_lift r) Q E"
  by (cases r) (auto simp: mig_lift_def intro!: safe_ret safe_raise)

lemma safe_steps [crash_rules]:
  assumes "\<And>d. P d \<Longrightarrow> Q () d" and "\<And>d n. P d \<Longrightarrow> mv_faulty ev n \<Longrightarrow> E d"
  shows "crash_safe R P (mig_steps ev n) Q E"
proof (induction n)
  case 0
  show ?case using assms(1) by (auto intro!: safe_ret)
next
  case (Suc n)
  have "crash_safe R P (mig_step ev) (\<lambda>_. P) E" using assms(2) by (auto intro!: safe_step)
  then show ?case using Suc by (auto intro: safe_bind)
qed

lemma safe_each:
  assumes "\<And>x. x \<in> set xs \<Longrightarrow> crash_safe R P (f x) (\<lambda>_. P) E"
  shows "crash_safe R P (mig_each f xs) (\<lambda>_. P) E"
  using assms
proof (induction xs)
  case Nil
  show ?case by (auto intro!: safe_ret)
next
  case (Cons x xs)
  then show ?case by (auto intro!: safe_bind [where M = "\<lambda>_. P"])
qed

text \<open>A fact that does not depend on the disk may be taken out of the precondition.\<close>

lemma safe_given:
  assumes "\<And>d. P d \<Longrightarrow> c" and "c \<Longrightarrow> crash_safe R P m Q E"
  shows "crash_safe R P m Q E"
  using assms unfolding crash_safe_def by blast

lemma safe_pure: "(c \<Longrightarrow> crash_safe R P m Q E) \<Longrightarrow> crash_safe R (\<lambda>d. c \<and> P d) m Q E"
  by (rule safe_given [where c = c]) (auto elim: safe_conseq)

lemma safe_run:
  assumes "crash_safe R P m Q E" and "P d" and "R d" and "m (mig_start d) = (r, w')"
  shows "list_all R (mw_past w')"
    and "\<And>x. r = Inr x \<Longrightarrow> Q x (mw_disk w')" and "\<And>e. r = Inl e \<Longrightarrow> E (mw_disk w')"
  using safeD [OF assms(1) _ _ assms(4)] assms(2,3) by (simp_all add: mig_start_def)

lemma safe_query [crash_rules]:
  assumes "\<And>d x y. P d \<Longrightarrow> db_content (dd_db d) = Some x \<Longrightarrow> f x = Some y \<Longrightarrow> Q y d"
    and "\<And>d. P d \<Longrightarrow> E d"
  shows "crash_safe R P (db_query ev f) Q E"
  unfolding db_query_def
  by (rule safe_bind [where M = "\<lambda>_. P"], rule safe_step, assumption, erule assms(2),
      rule safe_bind [where M = "\<lambda>db d. P d \<and> db = dd_db d"], rule safe_read, simp,
      rule safe_lift, use assms in \<open>auto simp: bind_eq_Some_conv\<close>)

text \<open>A transaction touches the database file and its journal.\<close>

lemma safe_transaction:
  assumes frame: "\<And>d a b. P d \<Longrightarrow> P (d\<lparr>dd_db := a, dd_journal := b\<rparr>)" and inv: "\<And>d. P d \<Longrightarrow> R d"
  shows "crash_safe R (\<lambda>d. P d \<and> V (db_content (dd_db d))) (db_write ev n f)
          (\<lambda>_ d. P d \<and> dd_journal d = None \<and> (\<exists>x y. V (Some x) \<and> f x = Some y \<and> dd_db d = Some (DbFile y))) P"
proof -
  have step: "crash_safe R P (mig_catch (mig_bind (mig_steps ev n) (\<lambda>_. mig_lift (f x)))
      (\<lambda>e. mig_bind (mig_write (\<lambda>d. d\<lparr>dd_db := old, dd_journal := None\<rparr>)) (\<lambda>_. mig_raise e)))
      (\<lambda>y d. P d \<and> f x = Some y) P" for x old
    by (rule safe_catch [where F = P], rule safe_bind [where M = "\<lambda>_. P"], rule safe_steps, assumption,
        assumption, rule safe_lift, blast, assumption,
        rule safe_bind [where M = "\<lambda>_. P"], rule safe_write, blast intro: frame inv, erule frame,
        rule safe_raise, assumption)
  have torn: "crash_safe R P
      (mig_each (\<lambda>t. mig_write (\<lambda>d. d\<lparr>dd_db := Some t, dd_journal := Some x\<rparr>)) ts) (\<lambda>_. P) P" for x ts
    by (rule safe_each, rule safe_write, blast intro: frame inv, erule frame)
  have last: "crash_safe R (\<lambda>d. P d \<and> f x = Some y)
      (mig_write (\<lambda>d. d\<lparr>dd_db := Some (DbFile y), dd_journal := None\<rparr>))
      (\<lambda>_ d. P d \<and> dd_journal d = None \<and> (\<exists>x y. V (Some x) \<and> f x = Some y \<and> dd_db d = Some (DbFile y))) P"
    if "V (Some x)" for x y
    by (rule safe_write, blast intro: frame inv, use that frame in auto)
  have rest: "crash_safe R (\<lambda>d. V (Some x) \<and> P d)
      (mig_bind (mig_each (\<lambda>t. mig_write (\<lambda>d. d\<lparr>dd_db := Some t, dd_journal := Some x\<rparr>)) (mv_torn ev x)) (\<lambda>_.
       mig_bind (mig_catch (mig_bind (mig_steps ev n) (\<lambda>_. mig_lift (f x)))
         (\<lambda>e. mig_bind (mig_write (\<lambda>d. d\<lparr>dd_db := old, dd_journal := None\<rparr>)) (\<lambda>_. mig_raise e))) (\<lambda>y.
       mig_write (\<lambda>d. d\<lparr>dd_db := Some (DbFile y), dd_journal := None\<rparr>))))
      (\<lambda>_ d. P d \<and> dd_journal d = None \<and> (\<exists>x y. V (Some x) \<and> f x = Some y \<and> dd_db d = Some (DbFile y))) P"
    for x old
    by (rule safe_pure, rule safe_bind, rule torn, rule safe_bind, rule step, erule last)
  show ?thesis
    unfolding db_write_def
    by (rule safe_bind [where M = "\<lambda>db d. P d \<and> db = dd_db d \<and> V (db_content (dd_db d))"], rule safe_read,
        simp, rule safe_bind [where M = "\<lambda>x d. V (Some x) \<and> P d"], rule safe_lift, force, blast, rule rest)
qed

subsection \<open>Names and state files\<close>

lemma length_pad [simp]: "length (pad w n) = w"
  by (induction w n rule: pad.induct) simp_all

lemma digit_char_digit [simp]: "is_digit (digit_char n)"
proof -
  have "\<forall>m\<in>set [0..9]. is_digit (digit_char m)" by code_simp
  then have "is_digit (digit_char (n mod 10))" by simp
  then show ?thesis by (simp add: digit_char_def)
qed

lemma pad_digits [simp]: "list_all is_digit (pad w n)"
  by (induction w n rule: pad.induct) simp_all

lemma three_digits_text: "n < 1000 \<Longrightarrow> length (three_digits n) = 3 \<and> list_all is_digit (three_digits n)"
proof -
  assume n: "n < 1000"
  have l: "length (decimal k) \<le> 3" if "k < 1000" for k
    using that by (subst decimal.simps, subst decimal.simps, subst decimal.simps) simp
  have "nat n < 1000" using n by simp
  moreover have "is_digit (CHR ''0'')" by code_simp
  ultimately show ?thesis
    using l [of "nat n"] decimal_digits [of "nat n"]
    by (auto simp: three_digits_def Let_def list_all_iff)
qed

lemma class_all2: "list_all2 (\<lambda>p c. p c) (replicate n p) s \<longleftrightarrow> length s = n \<and> list_all p s"
  by (auto simp: list_all2_conv_all_nth list_all_length)

lemma literal_all2 [simp]: "list_all2 (\<lambda>p c. p c) (map (=) s) s"
  by (simp add: list_all2_conv_all_nth)

lemma hex_text: "length (hex_encode bs) = 2 * length bs \<and> list_all is_lower_hex (hex_encode bs)"
proof -
  have "\<forall>n\<in>set [0..<16]. is_lower_hex (hex_char n)" by code_simp
  then have "is_lower_hex (hex_char n)" if "n < 16" for n using that by simp
  then show ?thesis by (induction bs) (simp_all add: hex_encode_def less_mult_imp_div_less)
qed

lemma protection_time_text:
  "\<exists>a b. protection_time t = a @ ''T'' @ b @ ''Z'' \<and> length a = 8 \<and> list_all is_digit a
     \<and> length b = 9 \<and> list_all is_digit b"
proof -
  obtain y m d where ymd: "civil_date (t div 1000000000 div 86400) = (y, m, d)" by (metis prod_cases3)
  let ?r = "t div 1000000000 mod 86400"
  have z: "list_all is_digit ''000''" by code_simp
  show ?thesis
    by (rule exI [of _ "pad 4 y @ pad 2 m @ pad 2 d"],
        rule exI [of _ "pad 2 (?r div 3600) @ pad 2 (?r div 60 mod 60) @ pad 2 (?r mod 60) @ ''000''"])
      (use z in \<open>simp add: protection_time_def ymd Let_def\<close>)
qed

lemma protection_name_matches:
  assumes "source < 1000" and "target < 1000" and "length bytes = 6"
  shows "protectionNameRE (''schema-'' @ three_digits source @ ''-to-'' @ three_digits target @ ''-''
           @ protection_time t @ ''-'' @ hex_encode bytes @ ''.db'')"
proof -
  obtain a b where t: "protection_time t = a @ ''T'' @ b @ ''Z''" and d: "length a = 8" "list_all is_digit a"
    "length b = 9" "list_all is_digit b"
    using protection_time_text [of t] by blast
  note lit = literal_all2 [of "''Z-''"]
  have "list_all2 (\<lambda>p c. p c) protection_pattern
     (''schema-'' @ three_digits source @ ''-to-'' @ three_digits target @ ''-''
       @ a @ ''T'' @ b @ ''Z-'' @ hex_encode bytes @ ''.db'')"
    unfolding protection_pattern_def
    by (intro list_all2_appendI literal_all2)
      (use assms d three_digits_text hex_text [of bytes] in \<open>simp_all add: class_all2\<close>)
  then show ?thesis by (simp add: protectionNameRE_def t)
qed

lemma protection_name_utf8:
  assumes "protectionNameRE name"
  shows "ValidString name" and "name \<noteq> []"
proof -
  have p: "\<forall>p\<in>set protection_pattern. \<forall>c. p c \<longrightarrow> is_ascii c"
    by (auto simp: protection_pattern_def ascii_digit ascii_hex is_hex_def)
  show "ValidString name"
    using assms p
    by (intro ascii_valid, unfold list_all_length protectionNameRE_def list_all2_conv_all_nth) (metis nth_mem)
  show "name \<noteq> []" using assms by (auto simp: protectionNameRE_def protection_pattern_def)
qed

definition written_run :: "migrationRun \<Rightarrow> bool" where
  "written_run r \<longleftrightarrow>
     rn_schema r = 1 \<and> 0 \<le> rn_source r \<and> rn_source r < rn_target r \<and> rn_target r < 1000
     \<and> rn_state r \<in> {''RUNNING'', ''SUCCEEDED'', ''RESTORED'', ''RECOVERY_REQUIRED''}
     \<and> (rn_protection r = [] \<or> protectionNameRE (rn_protection r))
     \<and> list_all is_lower_hex (rn_sha r) \<and> length (rn_sha r) \<in> {0, 64}
     \<and> (rn_code r = [] \<or> (\<exists>c. rn_code r = mig_code_text c))
     \<and> 0 < rn_started r \<and> time_encodable (rn_started r) \<and> pointer_encodable (rn_completed r)"

lemma run_keys:
  "fold_key ''schemaVersion'' = ''schemaversion''"
  "fold_key ''sourceVersion'' = ''sourceversion''"
  "fold_key ''targetVersion'' = ''targetversion''"
  "fold_key ''protectionFile'' = ''protectionfile''"
  "fold_key ''protectionSha256'' = ''protectionsha256''"
  "fold_key ''startedAt'' = ''startedat''"
  "fold_key ''completedAt'' = ''completedat''"
  by code_simp+

lemma field_values_append: "field_values n (a @ b) = field_values n a @ field_values n b"
  by (simp add: field_values_def)

lemma field_values_omit:
  "field_values n (omit_json k s) = (if s \<noteq> [] \<and> fold_key k = fold_key n then [json_string s] else [])"
  by (simp add: omit_json_def field_values_simps)

lemma field_values_completed:
  "field_values n (case t of None \<Rightarrow> [] | Some x \<Rightarrow> [(k, JTime x)])
     = (if fold_key k = fold_key n then (case t of None \<Rightarrow> [] | Some x \<Rightarrow> [JTime x]) else [])"
  by (simp add: field_values_simps split: option.splits)

lemma omitted_string:
  "ValidString s \<Longrightarrow> field_values n obj = (if s \<noteq> [] then [json_string s] else []) \<Longrightarrow> str_field n obj = Some s"
  by (cases "s = []") (simp_all add: str_field_def decode_field_def json_string_valid)

lemma run_roundtrip:
  assumes r: "written_run r"
  shows "unmarshal_run (run_json r) = Some r"
proof -
  have st: "ValidString (rn_state r)"
  proof -
    have "ValidString ''RUNNING''" "ValidString ''SUCCEEDED''" "ValidString ''RESTORED''"
      "ValidString ''RECOVERY_REQUIRED''" by code_simp+
    then show ?thesis using r by (auto simp: written_run_def)
  qed
  have code: "ValidString (rn_code r)"
  proof -
    have "ValidString []" "\<And>c. ValidString (mig_code_text c)"
    proof -
      show "ValidString []" by code_simp
      have "ValidString (mig_code_text MigrationProtectionFailed)" "ValidString (mig_code_text MigrationFailedRecovered)"
        "ValidString (mig_code_text MigrationRecoveryRequired)" "ValidString (mig_code_text MigrationUnsupported)"
        by (simp_all add: mig_code_text_def, (code_simp)+)
      then show "ValidString (mig_code_text c)" for c by (cases c) simp_all
    qed
    then show ?thesis using r by (auto simp: written_run_def)
  qed
  have nil: "ValidString []" by code_simp
  have prot: "ValidString (rn_protection r)"
    using r nil protection_name_utf8(1) by (auto simp: written_run_def)
  have sha: "ValidString (rn_sha r)"
    using r by (intro hex_text_valid) (auto simp: written_run_def list_all_iff is_hex_def)
  define o' where "o' = [(''schemaVersion'', JNum (rn_schema r)),
            (''state'', json_string (rn_state r)),
            (''sourceVersion'', JNum (rn_source r)),
            (''targetVersion'', JNum (rn_target r))]
           @ omit_json ''protectionFile'' (rn_protection r)
           @ omit_json ''protectionSha256'' (rn_sha r)
           @ omit_json ''errorCode'' (rn_code r)
           @ [(''startedAt'', JTime (rn_started r))]
           @ (case rn_completed r of None \<Rightarrow> [] | Some t \<Rightarrow> [(''completedAt'', JTime t)])"
  note fv = o'_def field_values_append field_values_simps field_values_omit field_values_completed
    fold_keys run_keys
  have small: "- (2 ^ 63) \<le> rn_schema r \<and> rn_schema r < 2 ^ 63" "- (2 ^ 63) \<le> rn_source r \<and> rn_source r < 2 ^ 63"
    "- (2 ^ 63) \<le> rn_target r \<and> rn_target r < 2 ^ 63"
    using r by (auto simp: written_run_def)
  have ints: "int_field ''schemaVersion'' o' = Some (rn_schema r)" "int_field ''sourceVersion'' o' = Some (rn_source r)"
    "int_field ''targetVersion'' o' = Some (rn_target r)"
    using small unfolding int_field_def by (simp_all add: decode_field_def fv as_int_JNum)
  have strs: "str_field ''state'' o' = Some (rn_state r)" "str_field ''protectionFile'' o' = Some (rn_protection r)"
    "str_field ''protectionSha256'' o' = Some (rn_sha r)" "str_field ''errorCode'' o' = Some (rn_code r)"
  proof -
    show "str_field ''state'' o' = Some (rn_state r)"
      by (simp add: str_field_def decode_field_def fv st json_string_valid Install_Json.as_string_def)
  qed (rule omitted_string, use prot sha code in \<open>simp_all add: fv\<close>)+
  have times: "time_field ''startedAt'' o' = Some (rn_started r)"
    by (simp add: time_field_def decode_field_def fv as_time_def)
  have completed: "decode_pointer ''completedAt'' o' = Some (rn_completed r)"
    by (cases "rn_completed r") (simp_all add: decode_pointer_def fv)
  have known: "list_all (\<lambda>kv. list_ex (names_field (fst kv)) run_fields) o'"
    by (simp add: o'_def run_fields_def names_field_def omit_json_def split: option.splits)
  have "run_json r = JObj o'" by (simp add: run_json_def o'_def)
  then show ?thesis
    using ints strs times completed known by (simp add: unmarshal_run_def as_struct_def)
qed

subsection \<open>What a stopped migration leaves\<close>

text \<open>One machine, whose digests, file sizes and checks do not change from one start to the next.\<close>

definition same_machine :: "mig_env \<Rightarrow> mig_env \<Rightarrow> bool" where
  "same_machine base ev \<longleftrightarrow>
     mv_sha ev = mv_sha base \<and> mv_size ev = mv_size base \<and> mv_quick ev = mv_quick base
     \<and> mv_foreign ev = mv_foreign base"

definition well_behaved :: "mig_env \<Rightarrow> bool" where
  "well_behaved ev \<longleftrightarrow>
     (\<forall>f. length (mv_sha ev f) = 64 \<and> list_all is_lower_hex (mv_sha ev f))
     \<and> (\<forall>n. 0 < mv_clock ev n \<and> time_encodable (mv_clock ev n)) \<and> (\<forall>n. length (mv_random ev n) = 6)
     \<and> (\<forall>r. written_run r \<longrightarrow> 0 < mv_size ev (StateDoc (run_json r))
              \<and> mv_size ev (StateDoc (run_json r)) \<le> maxMigrationStateBytes)"

text \<open>The state file as the next start reads it.\<close>

definition reads_run :: "mig_env \<Rightarrow> data_dir \<Rightarrow> migrationRun \<Rightarrow> bool" where
  "reads_run base d r \<longleftrightarrow>
     (\<exists>j. dd_state d = Some (StateDoc j) \<and> 0 < mv_size base (StateDoc j)
        \<and> mv_size base (StateDoc j) \<le> maxMigrationStateBytes \<and> unmarshal_run j = Some r
        \<and> rn_schema r = 1 \<and> 0 \<le> rn_source r \<and> rn_source r < rn_target r \<and> rn_started r \<noteq> 0)"

definition settled_run :: "mig_env \<Rightarrow> data_dir \<Rightarrow> bool" where
  "settled_run base d \<longleftrightarrow>
     dd_state d = None
     \<or> (\<exists>r. reads_run base d r \<and> (rn_state r = ''SUCCEEDED'' \<or> rn_state r = ''RESTORED''))"

definition needs_attention :: "mig_env \<Rightarrow> data_dir \<Rightarrow> bool" where
  "needs_attention base d \<longleftrightarrow> (\<exists>r. reads_run base d r \<and> rn_state r = ''RECOVERY_REQUIRED'')"

definition at_version :: "mig_env \<Rightarrow> int \<Rightarrow> database \<Rightarrow> bool" where
  "at_version base t x \<longleftrightarrow>
     (\<exists>l. db_ledger x = Some l \<and> ledger_version l = t \<and> int (length l) = t)
     \<and> mv_quick base x \<and> mv_foreign base x"

text \<open>A complete migration was verified and then recorded in the history.\<close>

definition migrated :: "mig_env \<Rightarrow> int \<Rightarrow> data_dir \<Rightarrow> bool" where
  "migrated base t d \<longleftrightarrow>
     (\<exists>x row y. at_version base t x \<and> record_history row x = Some y \<and> dd_db d = Some (DbFile y))"

definition served :: "mig_env \<Rightarrow> database \<Rightarrow> int \<Rightarrow> data_dir \<Rightarrow> bool" where
  "served base src t d \<longleftrightarrow> dd_db d = Some (DbFile src) \<or> migrated base t d"

text \<open>A run whose copy is the source: \<open>strict\<close> when the copy must still be there.\<close>

definition own_copy :: "bool \<Rightarrow> database \<Rightarrow> migrationRun \<Rightarrow> data_dir \<Rightarrow> bool" where
  "own_copy strict src r d \<longleftrightarrow>
     map_of (protection_entries d) (rn_protection r) = Some (Regular (DbFile src))
     \<or> (\<not> strict \<and> map_of (protection_entries d) (rn_protection r) = None)"

definition protected_run :: "mig_env \<Rightarrow> database \<Rightarrow> migrationRun \<Rightarrow> bool" where
  "protected_run base src r \<longleftrightarrow>
     written_run r \<and> rn_state r = ''RUNNING'' \<and> 0 < rn_source r
     \<and> protectionNameRE (rn_protection r) \<and> rn_sha r = mv_sha base (DbFile src)"

definition running :: "mig_env \<Rightarrow> database \<Rightarrow> migrationRun \<Rightarrow> data_dir \<Rightarrow> bool" where
  "running base src r d \<longleftrightarrow>
     protected_run base src r \<and> dd_state d = Some (StateDoc (run_json r)) \<and> own_copy True src r d"

definition recoverable :: "mig_env \<Rightarrow> database \<Rightarrow> int \<Rightarrow> data_dir \<Rightarrow> bool" where
  "recoverable base src t d \<longleftrightarrow>
     (settled_run base d \<and> served base src t d) \<or> needs_attention base d \<or> (\<exists>r. running base src r d)"

lemma reads_written:
  assumes "well_behaved base" and "written_run r" and "dd_state d = Some (StateDoc (run_json r))"
  shows "reads_run base d r"
  using assms run_roundtrip [OF assms(2)] by (auto simp: reads_run_def well_behaved_def written_run_def)

lemma reads_cong: "dd_state d = dd_state d' \<Longrightarrow> reads_run base d r = reads_run base d' r"
  by (simp add: reads_run_def)

lemma reads_unique: "reads_run base d r \<Longrightarrow> reads_run base d r' \<Longrightarrow> r = r'"
  by (auto simp: reads_run_def)

lemma recoverable_restored:
  "recoverable base src t d \<Longrightarrow> recoverable base src t (d\<lparr>dd_db := Some (DbFile src)\<rparr>)"
  by (auto simp: recoverable_def settled_run_def needs_attention_def served_def running_def own_copy_def
      protection_entries_def reads_run_def)

lemma recoverable_sidecars:
  "recoverable base src t (d\<lparr>dd_wal := a\<rparr>) = recoverable base src t d"
  "recoverable base src t (d\<lparr>dd_shm := a\<rparr>) = recoverable base src t d"
  by (simp_all add: recoverable_def settled_run_def needs_attention_def served_def running_def own_copy_def
      protection_entries_def reads_run_def migrated_def)

lemma written_state:
  assumes "well_behaved base" and "written_run r"
  shows "rn_state r = ''SUCCEEDED'' \<or> rn_state r = ''RESTORED'' \<Longrightarrow> served base src t d
      \<Longrightarrow> recoverable base src t (d\<lparr>dd_state := Some (StateDoc (run_json r))\<rparr>)"
    and "rn_state r = ''RECOVERY_REQUIRED''
      \<Longrightarrow> recoverable base src t (d\<lparr>dd_state := Some (StateDoc (run_json r))\<rparr>)"
proof -
  let ?d = "d\<lparr>dd_state := Some (StateDoc (run_json r))\<rparr>"
  have reads: "reads_run base ?d r" by (rule reads_written [OF assms]) simp
  show "recoverable base src t ?d" if "rn_state r = ''SUCCEEDED'' \<or> rn_state r = ''RESTORED''" "served base src t d"
    using that reads by (auto simp: recoverable_def settled_run_def served_def migrated_def)
  show "recoverable base src t ?d" if "rn_state r = ''RECOVERY_REQUIRED''"
    using that reads by (auto simp: recoverable_def needs_attention_def)
qed

subsection \<open>Restoring\<close>

lemma safe_write_state:
  assumes "\<And>d. P d \<Longrightarrow> R (d\<lparr>dd_state := Some (StateDoc (run_json r))\<rparr>)"
    and "\<And>d. P d \<Longrightarrow> Q () (d\<lparr>dd_state := Some (StateDoc (run_json r))\<rparr>)"
    and "\<And>d n. P d \<Longrightarrow> mv_faulty ev n \<Longrightarrow> E d" and "written_run r"
  shows "crash_safe R P (writeMigrationState ev r) Q E"
  using assms(4) unfolding writeMigrationState_def
  by (auto simp: written_run_def intro!: safe_bind [where M = "\<lambda>_. P"] safe_steps safe_write assms)

lemma safe_remove:
  assumes "\<And>d. P d \<Longrightarrow> P (f d) \<and> R (f d)"
  shows "crash_safe R P (mig_ignore (remove_if ev b f)) (\<lambda>_. P) E"
  unfolding remove_if_def
  by (rule safe_ignore, rule safe_bind [where M = "\<lambda>_. P"], rule safe_step, assumption, assumption,
      rule safe_bind [where M = "\<lambda>_. P"], rule safe_read, assumption, rule safe_if, rule safe_write,
      simp add: assms, simp add: assms, rule safe_ret)

lemma safe_sidecar:
  assumes "\<And>d a. P (d\<lparr>dd_wal := a\<rparr>) = P d" and "\<And>d a. P (d\<lparr>dd_shm := a\<rparr>) = P d" and "\<And>d. P d \<Longrightarrow> R d"
  shows "crash_safe R P (mig_ignore (remove_wal ev)) (\<lambda>_. P) E"
    and "crash_safe R P (mig_ignore (remove_shm ev)) (\<lambda>_. P) E"
  unfolding remove_wal_def remove_shm_def by (rule safe_remove, simp add: assms)+

lemma safe_digest:
  assumes "same_machine base ev"
  shows "crash_safe R (\<lambda>d. P d \<and> own_copy b src r d) (mig_fileSHA256 ev (rn_protection r))
      (\<lambda>digest d. (P d \<and> own_copy b src r d) \<and> digest = (mv_sha base (DbFile src), DbFile src))
      (\<lambda>d. P d \<and> (b \<longrightarrow> (\<exists>n. mv_faulty ev n)))"
proof -
  let ?P = "\<lambda>d. P d \<and> own_copy b src r d" and ?E = "\<lambda>d. P d \<and> (b \<longrightarrow> (\<exists>n. mv_faulty ev n))"
  have some: "crash_safe R (\<lambda>d. ?P d \<and> e = map_of (protection_entries d) (rn_protection r))
      (case e of Some (Regular f) \<Rightarrow> mig_bind (mig_steps ev 2) (\<lambda>_. mig_ret (mv_sha ev f, f)) | _ \<Rightarrow> mig_raise StepError)
      (\<lambda>digest d. ?P d \<and> digest = (mv_sha base (DbFile src), DbFile src)) ?E" for e
  proof (rule safe_given)
    assume "e = Some (Regular (DbFile src)) \<or> (\<not> b \<and> e = None)"
    then show "crash_safe R (\<lambda>d. ?P d \<and> e = map_of (protection_entries d) (rn_protection r))
      (case e of Some (Regular f) \<Rightarrow> mig_bind (mig_steps ev 2) (\<lambda>_. mig_ret (mv_sha ev f, f)) | _ \<Rightarrow> mig_raise StepError)
      (\<lambda>digest d. ?P d \<and> digest = (mv_sha base (DbFile src), DbFile src)) ?E"
    proof
      assume "\<not> b \<and> e = None"
      then show ?thesis by (auto intro!: safe_raise)
    next
      assume e: "e = Some (Regular (DbFile src))"
      have "crash_safe R ?P (mig_bind (mig_steps ev 2) (\<lambda>_. mig_ret (mv_sha ev (DbFile src), DbFile src)))
        (\<lambda>digest d. ?P d \<and> digest = (mv_sha base (DbFile src), DbFile src)) ?E"
        by (rule safe_bind [where M = "\<lambda>_. ?P", OF safe_steps safe_ret])
          (use assms in \<open>auto simp: same_machine_def\<close>)
      with e show ?thesis by (auto elim: safe_conseq)
    qed
  qed (auto simp: own_copy_def)
  show ?thesis
    unfolding mig_fileSHA256_def
    by (rule safe_bind [where M = "\<lambda>_. ?P"], rule safe_step, assumption, blast,
        rule safe_bind [OF _ some], rule safe_read, blast)
qed

lemma restore_safe:
  assumes run: "protected_run base src r" and machine: "same_machine base ev" "well_behaved base"
  shows "crash_safe (recoverable base src t) (\<lambda>d. recoverable base src t d \<and> own_copy b src r d)
      (restoreMigrationSource ev r) (\<lambda>_ d. recoverable base src t d \<and> dd_db d = Some (DbFile src))
      (\<lambda>d. recoverable base src t d \<and> (b \<longrightarrow> (\<exists>n. mv_faulty ev n)))"
proof -
  let ?R = "recoverable base src t"
  let ?Q = "\<lambda>d. ?R d \<and> dd_db d = Some (DbFile src)" and ?E = "\<lambda>d. ?R d \<and> (b \<longrightarrow> (\<exists>n. mv_faulty ev n))"
  from run machine(2) have g: "rn_source r \<noteq> 0" "protectionNameRE (rn_protection r)" "length (rn_sha r) = 64"
    by (auto simp: protected_run_def well_behaved_def)
  have side: "crash_safe ?R ?Q (mig_bind (mig_ignore (remove_wal ev)) (\<lambda>_. mig_ignore (remove_shm ev))) (\<lambda>_. ?Q) ?E"
    by (rule safe_bind [where M = "\<lambda>_. ?Q"]; rule safe_sidecar) (simp_all add: recoverable_sidecars)
  have wr: "crash_safe ?R (\<lambda>d. (?R d \<and> own_copy b src r d) \<and> digest = (mv_sha base (DbFile src), DbFile src))
      (mig_write (\<lambda>d. d\<lparr>dd_db := Some (snd digest)\<rparr>)) (\<lambda>_. ?Q) ?E" for digest
    by (rule safe_write) (auto intro: recoverable_restored)
  have rest: "crash_safe ?R (\<lambda>d. (?R d \<and> own_copy b src r d) \<and> digest = (mv_sha base (DbFile src), DbFile src))
      (if fst digest \<noteq> rn_sha r then mig_raise StepError
       else mig_bind (mig_steps ev 7) (\<lambda>_. mig_bind (mig_write (\<lambda>d. d\<lparr>dd_db := Some (snd digest)\<rparr>)) (\<lambda>_.
            mig_bind (mig_ignore (remove_wal ev)) (\<lambda>_. mig_ignore (remove_shm ev))))) (\<lambda>_. ?Q) ?E" for digest
  proof (rule safe_given)
    assume "fst digest = rn_sha r"
    moreover have "crash_safe ?R (\<lambda>d. (?R d \<and> own_copy b src r d) \<and> digest = (mv_sha base (DbFile src), DbFile src))
        (mig_bind (mig_steps ev 7) (\<lambda>_. mig_bind (mig_write (\<lambda>d. d\<lparr>dd_db := Some (snd digest)\<rparr>)) (\<lambda>_.
            mig_bind (mig_ignore (remove_wal ev)) (\<lambda>_. mig_ignore (remove_shm ev))))) (\<lambda>_. ?Q) ?E"
      by (rule safe_bind [OF safe_steps safe_bind [OF wr side]]) auto
    ultimately show "crash_safe ?R (\<lambda>d. (?R d \<and> own_copy b src r d) \<and> digest = (mv_sha base (DbFile src), DbFile src))
      (if fst digest \<noteq> rn_sha r then mig_raise StepError
       else mig_bind (mig_steps ev 7) (\<lambda>_. mig_bind (mig_write (\<lambda>d. d\<lparr>dd_db := Some (snd digest)\<rparr>)) (\<lambda>_.
            mig_bind (mig_ignore (remove_wal ev)) (\<lambda>_. mig_ignore (remove_shm ev))))) (\<lambda>_. ?Q) ?E" by simp
  qed (use run in \<open>simp add: protected_run_def\<close>)
  show ?thesis
    unfolding restoreMigrationSource_def
    by (subst if_not_P [OF g(1)], subst if_not_P, simp add: g, rule safe_bind [OF safe_digest [OF machine(1)] rest])
qed

lemma finish_written:
  assumes "written_run r" and "well_behaved ev" and "state = ''RESTORED'' \<or> state = ''RECOVERY_REQUIRED''"
  shows "crash_safe R P (finish_run ev r state code)
    (\<lambda>r' d. P d \<and> written_run r' \<and> rn_state r' = state \<and> rn_source r' = rn_source r
        \<and> rn_target r' = rn_target r) E"
  unfolding finish_run_def
  by (rule safe_bind [where M = "\<lambda>now d. P d \<and> 0 < now \<and> time_encodable now"], rule safe_now,
      use assms in \<open>simp add: well_behaved_def\<close>, rule safe_ret,
      use assms in \<open>auto simp: written_run_def pointer_encodable_def\<close>)

lemma fail_recovery_safe:
  assumes run: "written_run r" and machine: "well_behaved base" "well_behaved ev"
  shows "crash_safe (recoverable base src t) (\<lambda>d. c \<and> recoverable base src t d) (failRecoveryState ev r) Q
    (\<lambda>d. c \<and> recoverable base src t d)"
proof -
  let ?R = "recoverable base src t" and ?P = "\<lambda>d. c \<and> recoverable base src t d"
  have wr: "crash_safe ?R (\<lambda>d. ?P d \<and> written_run r' \<and> rn_state r' = ''RECOVERY_REQUIRED'' \<and> rn_source r' = rn_source r
        \<and> rn_target r' = rn_target r) (mig_ignore (writeMigrationState ev r')) (\<lambda>_. ?P) ?P" for r'
    by (rule safe_given [where c = "written_run r' \<and> rn_state r' = ''RECOVERY_REQUIRED''"], simp,
        rule safe_ignore, rule safe_write_state) (auto intro: written_state(2) [OF machine(1)])
  show ?thesis
    unfolding failRecoveryState_def
    by (rule safe_bind [OF finish_written [OF run machine(2)]], simp, rule safe_bind [OF wr], rule safe_raise)
qed

subsection \<open>Recovery\<close>

lemma safe_read_state:
  assumes "same_machine base ev" and "\<And>d j. P d \<Longrightarrow> dd_state d = None \<or> (\<exists>r. reads_run base d r)"
  shows "crash_safe R P (readMigrationState ev)
    (\<lambda>found d. P d \<and> (case found of None \<Rightarrow> dd_state d = None | Some r \<Rightarrow> reads_run base d r))
    (\<lambda>d. P d \<and> (\<exists>n. mv_faulty ev n))"
proof -
  have size: "mv_size ev = mv_size base" using assms(1) by (simp add: same_machine_def)
  have nodes: "crash_safe R (\<lambda>d. P d \<and> node = dd_state d)
     (case node of None \<Rightarrow> mig_ret None | Some StateSpecial \<Rightarrow> mig_raise StepError
       | Some f \<Rightarrow>
           if mv_size ev f \<le> 0 \<or> mv_size ev f > maxMigrationStateBytes then mig_raise StepError
           else mig_bind (mig_step ev) (\<lambda>_.
             case (case f of StateDoc j \<Rightarrow> unmarshal_run j | _ \<Rightarrow> None) of
               None \<Rightarrow> mig_raise StepError
             | Some run \<Rightarrow>
                 if rn_schema run \<noteq> 1 \<or> rn_source run < 0 \<or> rn_target run \<le> rn_source run
                    \<or> rn_started run = 0
                 then mig_raise StepError else mig_ret (Some run)))
    (\<lambda>found d. P d \<and> (case found of None \<Rightarrow> dd_state d = None | Some r \<Rightarrow> reads_run base d r))
    (\<lambda>d. P d \<and> (\<exists>n. mv_faulty ev n))" for node
  proof (rule safe_given)
    fix d
    assume d: "P d \<and> node = dd_state d"
    then show "node = None \<or> (\<exists>r j. node = Some (StateDoc j) \<and> (\<forall>d. dd_state d = node \<longrightarrow> reads_run base d r))"
      using assms(2) [of d] by (auto simp: reads_run_def)
  next
    assume "node = None \<or> (\<exists>r j. node = Some (StateDoc j) \<and> (\<forall>d. dd_state d = node \<longrightarrow> reads_run base d r))"
    then show ?thesis
    proof (elim disjE exE conjE)
      assume "node = None"
      then show ?thesis by (auto intro!: safe_ret)
    next
      fix r j
      assume f: "node = Some (StateDoc j)" and r: "\<forall>d. dd_state d = node \<longrightarrow> reads_run base d r"
      from r [rule_format, of "undefined\<lparr>dd_state := node\<rparr>"] f
      have g: "0 < mv_size base (StateDoc j)" "mv_size base (StateDoc j) \<le> maxMigrationStateBytes"
        "unmarshal_run j = Some r" "rn_schema r = 1" "0 \<le> rn_source r" "rn_source r < rn_target r" "rn_started r \<noteq> 0"
        by (auto simp: reads_run_def)
      show ?thesis
        using f g r size
        by (simp, intro safe_bind [where M = "\<lambda>_ d. P d \<and> Some (StateDoc j) = dd_state d", OF safe_step safe_ret])
          auto
    qed
  qed
  show ?thesis
    unfolding readMigrationState_def
    by (rule safe_bind [where M = "\<lambda>_. P"], rule safe_step, assumption, blast,
        rule safe_bind [OF _ nodes], rule safe_read, blast)
qed

lemma recoverable_state:
  "recoverable base src t d \<Longrightarrow> well_behaved base \<Longrightarrow> dd_state d = None \<or> (\<exists>r. reads_run base d r)"
  unfolding recoverable_def settled_run_def needs_attention_def running_def protected_run_def
  by (auto dest: reads_written)

lemma recoverable_cases:
  assumes "recoverable base src t d" and "well_behaved base" and r: "reads_run base d r"
  shows "rn_state r = ''SUCCEEDED'' \<or> rn_state r = ''RESTORED'' \<Longrightarrow> served base src t d"
    and "rn_state r = ''RUNNING'' \<Longrightarrow> protected_run base src r \<and> own_copy True src r d"
    and "rn_state r \<noteq> ''SUCCEEDED'' \<Longrightarrow> rn_state r \<noteq> ''RESTORED'' \<Longrightarrow> rn_state r \<noteq> ''RUNNING''
      \<Longrightarrow> needs_attention base d"
proof -
  consider (settled) "served base src t d" "rn_state r = ''SUCCEEDED'' \<or> rn_state r = ''RESTORED''"
    | (attention) "rn_state r = ''RECOVERY_REQUIRED''" "needs_attention base d"
    | (run) "protected_run base src r" "own_copy True src r d" "rn_state r = ''RUNNING''"
  proof -
    have same: "r' = r" if "reads_run base d r'" for r' using that r by (rule reads_unique)
    have some: "dd_state d \<noteq> None" using r by (auto simp: reads_run_def)
    from assms(1) consider "settled_run base d" "served base src t d" | "needs_attention base d"
      | r' where "running base src r' d" by (auto simp: recoverable_def)
    then show ?thesis
    proof cases
      case 1
      then show ?thesis using same some settled by (auto simp: settled_run_def)
    next
      case 2
      then show ?thesis using same attention by (auto simp: needs_attention_def)
    next
      case 3
      then have "reads_run base d r'" using reads_written [OF assms(2)] by (auto simp: running_def protected_run_def)
      from same [OF this] 3 show ?thesis using run by (auto simp: running_def protected_run_def)
    qed
  qed
  note cases = this
  show "served base src t d" if "rn_state r = ''SUCCEEDED'' \<or> rn_state r = ''RESTORED''"
    using that by (cases rule: cases) auto
  show "protected_run base src r \<and> own_copy True src r d" if "rn_state r = ''RUNNING''"
    using that by (cases rule: cases) auto
  show "needs_attention base d"
    if "rn_state r \<noteq> ''SUCCEEDED''" "rn_state r \<noteq> ''RESTORED''" "rn_state r \<noteq> ''RUNNING''"
    using that by (cases rule: cases) auto
qed

lemma recover_safe:
  assumes machine: "same_machine base ev" "well_behaved base" "well_behaved ev"
  shows "crash_safe (recoverable base src t) (recoverable base src t) (recoverInterruptedMigration ev)
    (\<lambda>_ d. recoverable base src t d \<and> served base src t d)
    (\<lambda>d. recoverable base src t d \<and> (needs_attention base d \<or> (\<exists>n. mv_faulty ev n)))"
proof -
  let ?R = "recoverable base src t"
  let ?Q = "\<lambda>d. ?R d \<and> served base src t d"
  let ?E = "\<lambda>d. ?R d \<and> (needs_attention base d \<or> (\<exists>n. mv_faulty ev n))"
  let ?F = "\<lambda>d. (\<exists>n. mv_faulty ev n) \<and> ?R d"
  have repair: "crash_safe ?R (\<lambda>d. ?R d \<and> own_copy True src r d)
      (mig_bind (mig_catch (restoreMigrationSource ev r) (\<lambda>e. failRecoveryState ev r)) (\<lambda>_.
       mig_bind (finish_run ev r ''RESTORED'' MigrationFailedRecovered) (\<lambda>run'.
       mig_catch (writeMigrationState ev run') (\<lambda>e. failRecoveryState ev run')))) (\<lambda>_. ?Q) ?F"
    if run: "protected_run base src r" for r
  proof -
    have w: "written_run r" using run by (simp add: protected_run_def)
    have undo: "crash_safe ?R (\<lambda>d. ?R d \<and> own_copy True src r d)
        (mig_catch (restoreMigrationSource ev r) (\<lambda>e. failRecoveryState ev r))
        (\<lambda>_ d. ?R d \<and> dd_db d = Some (DbFile src)) ?F"
      by (rule safe_catch [OF restore_safe [OF run machine(1,2)]],
          rule safe_conseq [OF fail_recovery_safe [OF w machine(2,3)]], auto)
    have last: "crash_safe ?R (\<lambda>d. (?R d \<and> dd_db d = Some (DbFile src)) \<and> written_run r' \<and> rn_state r' = ''RESTORED''
        \<and> rn_source r' = rn_source r \<and> rn_target r' = rn_target r)
        (mig_catch (writeMigrationState ev r') (\<lambda>e. failRecoveryState ev r')) (\<lambda>_. ?Q) ?F" for r'
      by (rule safe_given [where c = "written_run r' \<and> rn_state r' = ''RESTORED''"], simp,
          rule safe_catch [where F = ?F], rule safe_write_state,
          use written_state(1) [OF machine(2)] in \<open>auto simp: served_def\<close>,
          rule fail_recovery_safe [OF _ machine(2,3)], simp)
    show ?thesis
      by (rule safe_bind [OF undo], rule safe_bind [OF finish_written [OF w machine(3)]], simp, rule last)
  qed
  have cases: "crash_safe ?R (\<lambda>d. ?R d \<and> (case found of None \<Rightarrow> dd_state d = None | Some r \<Rightarrow> reads_run base d r))
      (case found of
         None \<Rightarrow> mig_ret ()
       | Some run \<Rightarrow>
           if rn_state run = ''SUCCEEDED'' \<or> rn_state run = ''RESTORED'' then mig_ret ()
           else if rn_state run \<noteq> ''RUNNING'' then
             mig_raise (MigrationError MigrationRecoveryRequired (rn_source run) (rn_target run))
           else
             mig_bind (mig_catch (restoreMigrationSource ev run) (\<lambda>e. failRecoveryState ev run)) (\<lambda>_.
             mig_bind (finish_run ev run ''RESTORED'' MigrationFailedRecovered) (\<lambda>run'.
             mig_catch (writeMigrationState ev run') (\<lambda>e. failRecoveryState ev run')))) (\<lambda>_. ?Q) ?E" for found
  proof (cases found)
    case None
    have "served base src t d" if "?R d" "dd_state d = None" for d
      using that by (auto simp: recoverable_def needs_attention_def running_def reads_run_def)
    with None show ?thesis by (auto intro!: safe_ret)
  next
    case (Some r)
    note split = recoverable_cases [OF _ machine(2), of src t _ r]
    consider (settled) "rn_state r = ''SUCCEEDED'' \<or> rn_state r = ''RESTORED''"
      | (attention) "rn_state r \<noteq> ''SUCCEEDED''" "rn_state r \<noteq> ''RESTORED''" "rn_state r \<noteq> ''RUNNING''"
      | (run) "rn_state r = ''RUNNING''" by blast
    then show ?thesis
    proof cases
      case settled
      with Some split(1) show ?thesis by (auto intro!: safe_ret)
    next
      case attention
      with Some split(3) show ?thesis by (auto intro!: safe_raise)
    next
      case run
      have "crash_safe ?R (\<lambda>d. ?R d \<and> reads_run base d r)
        (mig_bind (mig_catch (restoreMigrationSource ev r) (\<lambda>e. failRecoveryState ev r)) (\<lambda>_.
         mig_bind (finish_run ev r ''RESTORED'' MigrationFailedRecovered) (\<lambda>run'.
         mig_catch (writeMigrationState ev run') (\<lambda>e. failRecoveryState ev run')))) (\<lambda>_. ?Q) ?E"
        by (rule safe_given [where c = "protected_run base src r"], use split(2) run in blast,
            rule safe_conseq [OF repair]) (use split(2) run in auto)
      with Some run show ?thesis by simp
    qed
  qed
  show ?thesis
    unfolding recoverInterruptedMigration_def
    by (rule safe_bind [OF _ cases], rule safe_catch [OF safe_read_state [OF machine(1)]],
        use recoverable_state machine(2) in blast, rule safe_raise, blast)
qed

subsection \<open>Opening\<close>

text \<open>Before the run is announced the source is untouched.\<close>

definition calm :: "mig_env \<Rightarrow> database \<Rightarrow> data_dir \<Rightarrow> bool" where
  "calm base src d \<longleftrightarrow> settled_run base d \<and> dd_db d = Some (DbFile src) \<and> dd_journal d = None"

lemma calm_recoverable: "calm base src d \<Longrightarrow> recoverable base src t d"
  by (simp add: calm_def recoverable_def served_def)

lemma calm_protections [simp]: "calm base src (d\<lparr>dd_protections := x\<rparr>) = calm base src d"
  by (simp add: calm_def settled_run_def reads_run_def)

lemma calm_put [simp]:
  "calm base src (put_protection n e d) = calm base src d"
  "calm base src (drop_protection n d) = calm base src d"
  by (simp_all add: put_protection_def drop_protection_def)

lemma running_recoverable: "running base src r d \<Longrightarrow> recoverable base src t d"
  by (auto simp: recoverable_def)

lemma running_db: "running base src r (d\<lparr>dd_db := a, dd_journal := b\<rparr>) = running base src r d"
  by (simp add: running_def own_copy_def protection_entries_def)

lemma open_recover_safe:
  assumes machine: "same_machine base ev"
  shows "crash_safe (recoverable base src t) (calm base src) (recoverInterruptedMigration ev)
    (\<lambda>_. calm base src) (calm base src)"
proof -
  have "crash_safe (recoverable base src t)
      (\<lambda>d. calm base src d \<and> (case found of None \<Rightarrow> dd_state d = None | Some r \<Rightarrow> reads_run base d r))
      (case found of
         None \<Rightarrow> mig_ret ()
       | Some run \<Rightarrow>
           if rn_state run = ''SUCCEEDED'' \<or> rn_state run = ''RESTORED'' then mig_ret ()
           else if rn_state run \<noteq> ''RUNNING'' then
             mig_raise (MigrationError MigrationRecoveryRequired (rn_source run) (rn_target run))
           else
             mig_bind (mig_catch (restoreMigrationSource ev run) (\<lambda>e. failRecoveryState ev run)) (\<lambda>_.
             mig_bind (finish_run ev run ''RESTORED'' MigrationFailedRecovered) (\<lambda>run'.
             mig_catch (writeMigrationState ev run') (\<lambda>e. failRecoveryState ev run'))))
      (\<lambda>_. calm base src) (calm base src)" for found
  proof (cases found)
    case None
    then show ?thesis by (auto intro!: safe_ret)
  next
    case (Some r)
    show ?thesis
    proof (rule safe_given)
      assume "rn_state r = ''SUCCEEDED'' \<or> rn_state r = ''RESTORED''"
      with Some show ?thesis by (auto intro!: safe_ret)
    qed (use Some reads_unique in \<open>auto simp: calm_def settled_run_def reads_run_def\<close>)
  qed
  note found = this
  show ?thesis
    unfolding recoverInterruptedMigration_def
    by (rule safe_bind [OF _ found], rule safe_catch [OF safe_read_state [OF machine]],
        force simp: calm_def settled_run_def, rule safe_raise, blast)
qed

lemma open_db_safe:
  "crash_safe (recoverable base src t) (calm base src) (db_open ev) (\<lambda>_. calm base src) (calm base src)"
proof -
  have "crash_safe (recoverable base src t) (\<lambda>d. calm base src d \<and> j = dd_journal d)
     (case j of None \<Rightarrow> mig_ret ()
      | Some x \<Rightarrow> mig_write (\<lambda>d. d\<lparr>dd_db := map_option (mv_rollback ev x) (dd_db d), dd_journal := None\<rparr>))
     (\<lambda>_. calm base src) (calm base src)" for j
    by (rule safe_given [where c = "j = None"], simp add: calm_def) (auto intro!: safe_ret)
  note j = this
  show ?thesis
    unfolding db_open_def
    by (rule safe_bind [where M = "\<lambda>_. calm base src"], rule safe_steps, assumption, assumption,
        rule safe_bind [OF _ j], rule safe_read, blast)
qed

text \<open>The version that is read is the ledger's, when it counts its rows.\<close>

definition version_of :: "database \<Rightarrow> int \<Rightarrow> bool" where
  "version_of x v \<longleftrightarrow>
     (case db_ledger x of None \<Rightarrow> v = 0 | Some l \<Rightarrow> v = ledger_version l \<and> int (length l) = v)"

lemma version_safe:
  "crash_safe R P (currentMigrationVersion ev)
    (\<lambda>v d. P d \<and> (\<exists>x. db_content (dd_db d) = Some x \<and> version_of x v)) P"
proof -
  let ?Q = "\<lambda>v d. P d \<and> (\<exists>x. db_content (dd_db d) = Some x \<and> version_of x v)"
  let ?L = "\<lambda>version d. P d \<and> (\<exists>x l. db_content (dd_db d) = Some x \<and> db_ledger x = Some l \<and> version = ledger_version l)"
  have count: "crash_safe R (?L version)
     (mig_bind (db_query ev (\<lambda>x. map_option (\<lambda>l. int (length l)) (db_ledger x))) (\<lambda>count.
       if count \<noteq> version then mig_raise (MigrationError MigrationUnsupported version version)
       else mig_ret version)) ?Q P" for version
    by (rule safe_bind [where M = "\<lambda>count d. P d \<and> (\<exists>x l. db_content (dd_db d) = Some x \<and> db_ledger x = Some l
          \<and> version = ledger_version l \<and> count = int (length l))"],
        rule safe_query, force, blast, rule safe_if, rule safe_raise, blast,
        rule safe_ret, auto simp: version_of_def)
  have ledger: "crash_safe R (\<lambda>d. P d \<and> (\<exists>x. db_content (dd_db d) = Some x \<and> ledger = (db_ledger x \<noteq> None)))
     (if \<not> ledger then
         mig_bind (db_query ev (\<lambda>x. Some (db_tables x + (if db_history x = None then 0 else 1)))) (\<lambda>userTables.
           if userTables \<noteq> 0 then mig_raise (MigrationError MigrationUnsupported 0 0) else mig_ret 0)
       else
         mig_bind (db_query ev (\<lambda>x. map_option ledger_version (db_ledger x))) (\<lambda>version.
         mig_bind (db_query ev (\<lambda>x. map_option (\<lambda>l. int (length l)) (db_ledger x))) (\<lambda>count.
           if count \<noteq> version then mig_raise (MigrationError MigrationUnsupported version version)
           else mig_ret version))) ?Q P" for ledger
    by (rule safe_if, rule safe_bind [where M = "\<lambda>_ d. P d \<and> (\<exists>x. db_content (dd_db d) = Some x \<and> db_ledger x = None)"],
        rule safe_query, force, blast, rule safe_if, rule safe_raise, blast, rule safe_ret, force simp: version_of_def,
        rule safe_bind [OF _ count], rule safe_query, force, blast)
  show ?thesis
    unfolding currentMigrationVersion_def
    by (rule safe_bind [OF _ ledger], rule safe_query, force, assumption)
qed

text \<open>The copy is made and announced.\<close>

lemma protection_name_safe:
  assumes "well_behaved ev" and "source < 1000" and "target < 1000"
  shows "crash_safe R P (newProtectionName ev source target now) (\<lambda>name d. P d \<and> protectionNameRE name) P"
  unfolding newProtectionName_def
  by (rule safe_bind [where M = "\<lambda>bytes d. P d \<and> length bytes = 6"], rule safe_random,
      use assms in \<open>simp add: well_behaved_def\<close>, assumption, rule safe_ret,
      use assms protection_name_matches in blast)

lemma map_of_put_protection: "map_of (protection_entries (put_protection n e d)) n = Some e"
  by (simp add: put_protection_def protection_entries_def update_conv')

lemma vacuum_safe:
  "crash_safe (recoverable base src t) (calm base src) (vacuum_into ev name)
    (\<lambda>_ d. calm base src d \<and> map_of (protection_entries d) name = Some (Regular (DbFile src))) (calm base src)"
proof -
  let ?R = "recoverable base src t" and ?P = "calm base src"
  let ?Q = "\<lambda>_ d. ?P d \<and> map_of (protection_entries d) name = Some (Regular (DbFile src))"
  have keep: "?R (put_protection n e d)" if "?P d" for n e d
    using that by (intro calm_recoverable) simp
  have main: "crash_safe ?R ?P
      (mig_bind (mig_each (\<lambda>f. mig_write (put_protection name (Regular f))) (mv_partial ev src)) (\<lambda>_.
         mig_bind (mig_step ev) (\<lambda>_. mig_write (put_protection name (Regular (DbFile src)))))) ?Q ?P"
    by (rule safe_bind [OF safe_each [where P = ?P]], rule safe_write, erule keep, simp,
        rule safe_bind [where M = "\<lambda>_. ?P"], rule safe_step, assumption, assumption,
        rule safe_write, erule keep, simp add: map_of_put_protection)
  have copy: "crash_safe ?R (\<lambda>d. ?P d \<and> x = src)
      (mig_bind (mig_each (\<lambda>f. mig_write (put_protection name (Regular f))) (mv_partial ev x)) (\<lambda>_.
         mig_bind (mig_step ev) (\<lambda>_. mig_write (put_protection name (Regular (DbFile x)))))) ?Q ?P" for x
    by (rule safe_given [where c = "x = src"], blast, use main in \<open>auto elim: safe_conseq\<close>)
  have entry: "crash_safe ?R ?P
      (if e \<noteq> None then mig_raise StepError
       else mig_bind (db_query ev Some) (\<lambda>x.
         mig_bind (mig_each (\<lambda>f. mig_write (put_protection name (Regular f))) (mv_partial ev x)) (\<lambda>_.
         mig_bind (mig_step ev) (\<lambda>_. mig_write (put_protection name (Regular (DbFile x))))))) ?Q ?P" for e
    by (rule safe_if, rule safe_raise, assumption, rule safe_bind [OF _ copy], rule safe_query,
        simp add: calm_def db_content_def, assumption)
  show ?thesis
    unfolding vacuum_into_def by (rule safe_bind [OF _ entry], rule safe_read, assumption)
qed

lemma protect_safe:
  assumes machine: "same_machine base ev" "well_behaved base" "well_behaved ev"
    and v: "0 < source" "source < target" "target < 1000"
    and run: "run = \<lparr>rn_schema = 1, rn_state = ''RUNNING'', rn_source = source, rn_target = target,
      rn_protection = [], rn_sha = [], rn_code = [], rn_started = started, rn_completed = None\<rparr>"
    and started: "0 < started" "time_encodable started"
  shows "crash_safe (recoverable base src t) (calm base src) (protect_source ev run)
    (\<lambda>r d. calm base src d \<and> protected_run base src r \<and> own_copy True src r d) (calm base src)"
proof -
  let ?R = "recoverable base src t" and ?P = "calm base src"
  let ?Q = "\<lambda>r d. ?P d \<and> protected_run base src r \<and> own_copy True src r d"
  let ?held = "\<lambda>name d. map_of (protection_entries d) name = Some (Regular (DbFile src))"
  have announced: "protected_run base src (run\<lparr>rn_protection := name, rn_sha := mv_sha base (DbFile src)\<rparr>)"
    if "protectionNameRE name" for name
    using that v started machine(2)
    by (auto simp: protected_run_def written_run_def run well_behaved_def pointer_encodable_def)
  have digest: "crash_safe ?R (\<lambda>d. ?P d \<and> ?held name d)
      (mig_bind (mig_catch (mig_fileSHA256 ev name)
         (\<lambda>e. mig_bind (mig_ignore (remove_protection ev name)) (\<lambda>_. mig_raise e))) (\<lambda>digest.
       mig_ret (run\<lparr>rn_protection := name, rn_sha := fst digest\<rparr>))) ?Q ?P"
    if name: "protectionNameRE name" for name
  proof -
    let ?r = "run\<lparr>rn_protection := name\<rparr>"
    have sha: "crash_safe ?R (\<lambda>d. ?P d \<and> ?held name d) (mig_fileSHA256 ev name)
        (\<lambda>digest d. ?P d \<and> own_copy True src ?r d \<and> digest = (mv_sha base (DbFile src), DbFile src)) ?P"
      using safe_digest [OF machine(1), of ?R ?P True src ?r]
      by (auto elim!: safe_conseq simp: own_copy_def)
    have clean: "crash_safe ?R ?P (mig_bind (mig_ignore (remove_protection ev name)) (\<lambda>_. mig_raise e)) Q ?P" for Q :: "string \<times> mig_file \<Rightarrow> data_dir \<Rightarrow> bool" and e
      unfolding remove_protection_def
      by (rule safe_bind [OF safe_ignore safe_raise], rule safe_bind [where M = "\<lambda>_. ?P"], rule safe_step,
          assumption, assumption, rule safe_write, rule calm_recoverable, simp_all)
    show ?thesis
      by (rule safe_bind [OF safe_catch [OF sha clean] safe_ret])
        (use announced [OF name] in \<open>auto simp: own_copy_def\<close>)
  qed
  have copied: "crash_safe ?R (\<lambda>d. ?P d \<and> protectionNameRE name)
      (mig_bind (vacuum_into ev name) (\<lambda>_.
        mig_bind (mig_catch (mig_fileSHA256 ev name)
                   (\<lambda>e. mig_bind (mig_ignore (remove_protection ev name)) (\<lambda>_. mig_raise e))) (\<lambda>digest.
        mig_ret (run\<lparr>rn_protection := name, rn_sha := fst digest\<rparr>)))) ?Q ?P" for name
    by (rule safe_given [where c = "protectionNameRE name"], blast,
        rule safe_conseq [OF safe_bind [OF vacuum_safe digest]], auto)
  have pos: "0 < rn_source run" "rn_source run < 1000" "rn_target run < 1000" using v by (simp_all add: run)
  show ?thesis
    unfolding protect_source_def if_P [OF pos(1)]
    by (rule safe_bind [where M = "\<lambda>_. ?P"], rule safe_step, assumption, assumption,
        rule safe_bind [where M = "\<lambda>_. ?P"], rule safe_write, rule calm_recoverable, simp, simp,
        rule safe_bind [OF protection_name_safe [OF machine(3) pos(2,3)] copied])
qed

lemma begin_safe:
  assumes machine: "same_machine base ev" "well_behaved base" "well_behaved ev"
    and v: "0 < source" "source < target" "target < 1000"
  shows "crash_safe (recoverable base src t) (calm base src) (beginMigrationProtection ev source target)
    (running base src) (calm base src)"
proof -
  let ?R = "recoverable base src t" and ?P = "calm base src"
  have announce: "crash_safe ?R (\<lambda>d. ?P d \<and> protected_run base src r \<and> own_copy True src r d)
     (mig_bind (mig_catch (writeMigrationState ev r)
          (\<lambda>e. mig_bind (if rn_protection r \<noteq> [] then mig_ignore (remove_protection ev (rn_protection r))
                         else mig_ret ()) (\<lambda>_. mig_raise e))) (\<lambda>_.
        mig_ret r)) (running base src) ?P" for r
  proof (rule safe_given [where c = "protected_run base src r"], blast)
    assume r: "protected_run base src r"
    have wr: "crash_safe ?R (\<lambda>d. ?P d \<and> protected_run base src r \<and> own_copy True src r d)
        (writeMigrationState ev r) (\<lambda>_. running base src r) ?P"
      by (rule safe_write_state, rule running_recoverable)
        (use r in \<open>auto simp: running_def own_copy_def protection_entries_def protected_run_def\<close>)
    have clean: "crash_safe ?R ?P (if rn_protection r \<noteq> [] then mig_ignore (remove_protection ev (rn_protection r))
        else mig_ret ()) (\<lambda>_. ?P) ?P"
      unfolding remove_protection_def
      by (rule safe_if, rule safe_ignore, rule safe_bind [where M = "\<lambda>_. ?P"], rule safe_step,
          assumption, assumption, rule safe_write, rule calm_recoverable, simp, simp, rule safe_ret)
    show ?thesis
      by (rule safe_bind [OF safe_catch [OF wr safe_bind [OF clean safe_raise]] safe_ret])
  qed
  have protect: "crash_safe ?R (\<lambda>d. ?P d \<and> 0 < started \<and> time_encodable started)
     (protect_source ev \<lparr>rn_schema = 1, rn_state = ''RUNNING'', rn_source = source, rn_target = target,
        rn_protection = [], rn_sha = [], rn_code = [], rn_started = started, rn_completed = None\<rparr>)
     (\<lambda>r d. ?P d \<and> protected_run base src r \<and> own_copy True src r d) ?P" for started
    by (rule safe_given [where c = "0 < started \<and> time_encodable started"], blast,
        rule safe_conseq [OF protect_safe [OF machine v refl]], auto)
  show ?thesis
    unfolding beginMigrationProtection_def
    by (rule safe_catch [where F = ?P],
        rule safe_bind [where M = "\<lambda>now d. ?P d \<and> 0 < now \<and> time_encodable now"], rule safe_now,
        use machine(3) in \<open>simp add: well_behaved_def\<close>, rule safe_bind [OF protect announce], rule safe_raise)
qed

subsection \<open>Migrating and completing\<close>

lemma transaction_safe:
  "crash_safe (recoverable base src t) (\<lambda>d. running base src r d \<and> V (db_content (dd_db d))) (db_write ev n f)
    (\<lambda>_ d. running base src r d \<and> dd_journal d = None
       \<and> (\<exists>x y. V (Some x) \<and> f x = Some y \<and> dd_db d = Some (DbFile y))) (running base src r)"
  by (rule safe_transaction) (simp_all add: running_db running_recoverable)

lemma plain_transaction_safe:
  "crash_safe (recoverable base src t) (running base src r) (db_write ev n f) (\<lambda>_. running base src r)
    (running base src r)"
  using transaction_safe [of base src t r "\<lambda>_. True" ev n f] by (rule safe_conseq) auto

lemma migrate_each_safe:
  "crash_safe (recoverable base src t) (running base src r) (migrate_each ev files) (\<lambda>_. running base src r)
    (running base src r)"
proof (induction ev files rule: migrate_each.induct)
  case (1 ev)
  show ?case by (auto intro!: safe_ret)
next
  case (2 ev path script files)
  let ?P = "running base src r" and ?R = "recoverable base src t"
  have one: "crash_safe ?R ?P (if applied then mig_ret ()
        else mig_bind (mig_steps ev 2) (\<lambda>_. db_write ev 3 (apply_script version script))) (\<lambda>_. ?P) ?P" for applied version
    by (rule safe_if, rule safe_ret, assumption, rule safe_bind [where M = "\<lambda>_. ?P"], rule safe_steps,
        assumption, assumption, rule plain_transaction_safe)
  have tail: "crash_safe ?R ?P
      (mig_bind (if applied then mig_ret ()
        else mig_bind (mig_steps ev 2) (\<lambda>_. db_write ev 3 (apply_script version script))) (\<lambda>_. migrate_each ev files))
      (\<lambda>_. ?P) ?P" for applied version
    by (rule safe_bind [OF one 2])
  show ?case
    unfolding migrate_each.simps
    by (rule safe_bind [where M = "\<lambda>_. ?P"], rule safe_lift, assumption, assumption,
        rule safe_bind [OF _ tail], rule safe_query, assumption, assumption)
qed

lemma migrate_safe:
  "crash_safe (recoverable base src t) (running base src r) (migrate ev files) (\<lambda>_. running base src r)
    (running base src r)"
  unfolding migrate_def by (rule safe_bind [OF plain_transaction_safe migrate_each_safe])

lemma verify_safe:
  assumes "same_machine base ev" and "0 < t"
  shows "crash_safe R P (verifyMigratedDatabase ev t)
    (\<lambda>_ d. P d \<and> (\<exists>x. at_version base t x \<and> dd_db d = Some (DbFile x))) P"
proof -
  let ?M = "\<lambda>d. P d \<and> (\<exists>x. db_content (dd_db d) = Some x \<and> version_of x t)"
  let ?N = "\<lambda>d. P d \<and> (\<exists>x. db_content (dd_db d) = Some x \<and> version_of x t \<and> mv_quick ev x)"
  have last: "P d \<and> (\<exists>x. at_version base t x \<and> dd_db d = Some (DbFile x))"
    if "P d" "db_content (dd_db d) = Some x" "version_of x t" "mv_quick ev x" "mv_foreign ev x" for d x
    using that assms
    by (auto simp: at_version_def version_of_def same_machine_def db_content_def empty_database_def
        split: option.splits mig_file.splits)
  have checks: "crash_safe R (\<lambda>d. P d \<and> (\<exists>x. db_content (dd_db d) = Some x \<and> version_of x current))
     (if current \<noteq> t then mig_raise StepError
       else mig_bind (db_query ev (\<lambda>x. if mv_quick ev x then Some () else None)) (\<lambda>_.
            db_query ev (\<lambda>x. if mv_foreign ev x then Some () else None)))
     (\<lambda>_ d. P d \<and> (\<exists>x. at_version base t x \<and> dd_db d = Some (DbFile x))) P" for current
    by (rule safe_if, rule safe_raise, blast, rule safe_bind [where M = "\<lambda>_. ?N"], rule safe_query,
        force split: if_splits, blast, rule safe_query, use last in \<open>force split: if_splits\<close>, blast)
  show ?thesis unfolding verifyMigratedDatabase_def by (rule safe_bind [OF version_safe checks])
qed

lemma retain_safe:
  assumes "\<And>d n. P d \<Longrightarrow> P (drop_protection n d)" and "\<And>d. P d \<Longrightarrow> R d"
  shows "crash_safe R P (retainProtections ev) (\<lambda>_. P) P"
proof -
  have each: "crash_safe R P (mig_each (remove_protection ev) names) (\<lambda>_. P) P" for names
    unfolding remove_protection_def
    by (rule safe_each, rule safe_bind [where M = "\<lambda>_. P"], rule safe_step, assumption, assumption,
        rule safe_write, simp add: assms, simp add: assms)
  have "crash_safe R P (case dir of None \<Rightarrow> mig_ret () | Some entries \<Rightarrow>
      mig_bind (mig_step ev) (\<lambda>_.
             let names = rev (sort (map fst (filter (\<lambda>e. snd e \<noteq> Special \<and> protectionNameRE (fst e)) entries)))
             in mig_each (remove_protection ev) (drop maxProtectionFiles names))) (\<lambda>_. P) P" for dir
    unfolding Let_def
    by (cases dir, simp, rule safe_ret, assumption, simp, rule safe_bind [where M = "\<lambda>_. P"], rule safe_step,
        assumption, assumption, rule each)
  note dir = this
  show ?thesis unfolding retainProtections_def by (rule safe_bind [OF _ dir], rule safe_read, assumption)
qed

lemma complete_safe:
  assumes run: "protected_run base src r" and machine: "well_behaved base" "well_behaved ev"
  shows "crash_safe (recoverable base src t)
    (\<lambda>d. running base src r d \<and> (\<exists>x. at_version base t x \<and> dd_db d = Some (DbFile x)))
    (completeMigration ev r) (\<lambda>_. recoverable base src t)
    (\<lambda>d. recoverable base src t d \<and> own_copy False src r d)"
proof -
  let ?R = "recoverable base src t" and ?E = "\<lambda>d. recoverable base src t d \<and> own_copy False src r d"
  let ?V = "\<lambda>c. \<exists>x. at_version base t x \<and> c = Some x"
  let ?D = "\<lambda>d. settled_run base d \<and> migrated base t d \<and> own_copy False src r d"
  have start: "?E d" if "running base src r d" for d
    using that by (auto simp: running_recoverable) (auto simp: running_def own_copy_def)
  have finished: "?E d" if "?D d" for d using that by (auto simp: recoverable_def served_def)
  have recorded: "crash_safe ?R (\<lambda>d. running base src r d \<and> (\<exists>x. at_version base t x \<and> dd_db d = Some (DbFile x)))
      (db_write ev 1 (record_history row)) (\<lambda>_ d. running base src r d \<and> migrated base t d) ?E" for row
    using transaction_safe [of base src t r ?V ev 1 "record_history row"]
    by (rule safe_conseq) (auto simp: migrated_def db_content_def start)
  have announce: "crash_safe ?R (\<lambda>d. (running base src r d \<and> migrated base t d) \<and> time_encodable now)
      (writeMigrationState ev (r\<lparr>rn_state := ''SUCCEEDED'', rn_completed := Some now\<rparr>)) (\<lambda>_. ?D) ?E" for now
  proof (rule safe_given [where c = "time_encodable now"], blast)
    assume now: "time_encodable now"
    let ?r = "r\<lparr>rn_state := ''SUCCEEDED'', rn_completed := Some now\<rparr>"
    have w: "written_run ?r" using run now by (auto simp: protected_run_def written_run_def pointer_encodable_def)
    have safe: "?R (d\<lparr>dd_state := Some (StateDoc (run_json ?r))\<rparr>)" if "migrated base t d" for d
      by (rule written_state(1) [OF machine(1) w]) (use that in \<open>simp_all add: served_def\<close>)
    have complete: "?D (d\<lparr>dd_state := Some (StateDoc (run_json ?r))\<rparr>)" if "running base src r d" "migrated base t d" for d
      using that reads_written [OF machine(1) w, of "d\<lparr>dd_state := Some (StateDoc (run_json ?r))\<rparr>"]
      by (auto simp: settled_run_def running_def own_copy_def protection_entries_def migrated_def)
    show ?thesis
      by (rule safe_write_state [OF _ _ _ w]) (use safe complete start in blast)+
  qed
  have dropped: "?D (drop_protection n d)" if "?D d" for n d
    using that
    by (auto simp: drop_protection_def settled_run_def reads_run_def migrated_def own_copy_def
        protection_entries_def delete_conv' split: option.splits)
  have retain: "crash_safe ?R ?D (retainProtections ev) (\<lambda>_. ?R) ?E"
    by (rule safe_conseq [OF retain_safe [where P = ?D]]) (use dropped finished in blast)+
  show ?thesis
    unfolding completeMigration_def
    by (rule safe_bind [where M = "\<lambda>_ d. running base src r d \<and> (\<exists>x. at_version base t x \<and> dd_db d = Some (DbFile x))"],
        rule safe_now, assumption, rule safe_bind [OF recorded],
        rule safe_bind [where M = "\<lambda>now d. (running base src r d \<and> migrated base t d) \<and> time_encodable now"],
        rule safe_now, use machine(2) in \<open>simp add: well_behaved_def\<close>, rule safe_bind [OF announce retain])
qed

lemma fail_restore_safe:
  assumes run: "protected_run base src r" and machine: "same_machine base ev" "well_behaved base" "well_behaved ev"
  shows "crash_safe (recoverable base src t) (\<lambda>d. recoverable base src t d \<and> own_copy False src r d)
    (failAndRestoreMigration ev r) Q (recoverable base src t)"
proof -
  let ?R = "recoverable base src t"
  have w: "written_run r" using run by (simp add: protected_run_def)
  have undo: "crash_safe ?R (\<lambda>d. ?R d \<and> own_copy False src r d)
      (mig_catch (restoreMigrationSource ev r) (\<lambda>e. failRecoveryState ev r))
      (\<lambda>_ d. ?R d \<and> dd_db d = Some (DbFile src)) ?R"
    by (rule safe_catch [OF restore_safe [OF run machine(1,2)]],
        rule safe_conseq [OF fail_recovery_safe [OF w machine(2,3), where c = True]], auto)
  have last: "crash_safe ?R (\<lambda>d. (?R d \<and> dd_db d = Some (DbFile src)) \<and> written_run r' \<and> rn_state r' = ''RESTORED''
        \<and> rn_source r' = rn_source r \<and> rn_target r' = rn_target r)
      (mig_bind (mig_catch (writeMigrationState ev r')
         (\<lambda>e. mig_raise (MigrationError MigrationRecoveryRequired (rn_source r) (rn_target r)))) (\<lambda>_.
       mig_raise (MigrationError MigrationFailedRecovered (rn_source r) (rn_target r)))) Q ?R" for r'
    by (rule safe_given [where c = "written_run r' \<and> rn_state r' = ''RESTORED''"], simp,
        rule safe_bind [where M = "\<lambda>_. ?R"], rule safe_catch [where F = ?R], rule safe_write_state,
        use written_state(1) [OF machine(2)] in \<open>auto simp: served_def\<close>, (rule safe_raise, assumption)+)
  show ?thesis
    unfolding failAndRestoreMigration_def
    by (rule safe_bind [OF undo], rule safe_bind [OF finish_written [OF w machine(3)]], simp, rule last)
qed

lemma run_migration_safe:
  assumes machine: "same_machine base ev" "well_behaved base" "well_behaved ev"
    and v: "0 < source" "source < t" "t < 1000"
  shows "crash_safe (recoverable base src t) (calm base src) (run_migration ev files source t)
    (\<lambda>_. recoverable base src t) (recoverable base src t)"
proof -
  let ?R = "recoverable base src t"
  have guarded: "crash_safe ?R (calm base src)
      (if source < t then mig_bind (beginMigrationProtection ev source t) (\<lambda>run. mig_ret (Some run)) else mig_ret None)
      (\<lambda>run d. \<exists>r. run = Some r \<and> running base src r d) ?R"
    unfolding if_P [OF v(2)]
    by (rule safe_conseq [OF safe_bind [OF begin_safe [OF machine v] safe_ret]])
      (auto intro: calm_recoverable)
  have rest: "crash_safe ?R (\<lambda>d. \<exists>r. run = Some r \<and> running base src r d)
     (let restore = (\<lambda>e. case run of None \<Rightarrow> mig_raise e | Some r \<Rightarrow> failAndRestoreMigration ev r)
     in mig_bind (mig_catch (migrate ev files) restore) (\<lambda>_.
        mig_bind (mig_catch (verifyMigratedDatabase ev t) restore) (\<lambda>_.
        case run of None \<Rightarrow> mig_ret () | Some r \<Rightarrow> mig_catch (completeMigration ev r) restore))) (\<lambda>_. ?R) ?R" for run
  proof (rule safe_given [where c = "\<exists>r. run = Some r \<and> protected_run base src r"])
    assume "\<exists>r. run = Some r \<and> protected_run base src r"
    then obtain r where r: "run = Some r" "protected_run base src r" by blast
    have own: "?R d \<and> own_copy False src r d" if "running base src r d" for d
      using that by (auto simp: running_recoverable) (auto simp: running_def own_copy_def)
    note restore = fail_restore_safe [OF r(2) machine]
    have failing: "crash_safe ?R (running base src r) (failAndRestoreMigration ev r) Q ?R" for Q :: "unit \<Rightarrow> data_dir \<Rightarrow> bool"
      by (rule safe_conseq [OF restore]) (use own in auto)
    have "crash_safe ?R (running base src r)
       (mig_bind (mig_catch (migrate ev files) (\<lambda>e. failAndRestoreMigration ev r)) (\<lambda>_.
        mig_bind (mig_catch (verifyMigratedDatabase ev t) (\<lambda>e. failAndRestoreMigration ev r)) (\<lambda>_.
        mig_catch (completeMigration ev r) (\<lambda>e. failAndRestoreMigration ev r)))) (\<lambda>_. ?R) ?R"
      using v
      by (intro safe_bind [OF safe_catch [OF migrate_safe failing]
            safe_bind [OF safe_catch [OF verify_safe [OF machine(1)] failing]
              safe_catch [OF complete_safe [OF r(2) machine(2,3)] restore]]]) simp
    with r(1) show ?thesis by (auto simp: Let_def elim: safe_conseq)
  qed (auto simp: running_def)
  show ?thesis unfolding run_migration_def by (rule safe_bind [OF guarded rest])
qed

lemma open_safe:
  assumes machine: "same_machine base ev" "well_behaved base" "well_behaved ev"
    and src: "db_ledger src = Some l" "0 < ledger_version l" "ledger_version l < t" "t < 1000"
    and files: "latestMigrationVersion files = Some t"
  shows "crash_safe (recoverable base src t) (calm base src) (openWithMigrationFiles ev files)
    (\<lambda>_. recoverable base src t) (recoverable base src t)"
proof -
  let ?R = "recoverable base src t" and ?P = "calm base src"
  have late: "crash_safe ?R ?P m (\<lambda>_. ?P) ?R" if "crash_safe ?R ?P m (\<lambda>_. ?P) ?P" for m :: "unit mig"
    by (rule safe_conseq [OF that]) (auto intro: calm_recoverable)
  have run: "crash_safe ?R (\<lambda>d. ?P d \<and> (\<exists>x. db_content (dd_db d) = Some x \<and> version_of x source))
      (if source > t then mig_raise (MigrationError MigrationUnsupported source t)
       else run_migration ev files source t) (\<lambda>_. ?R) ?R" for source
  proof (rule safe_given [where c = "source = ledger_version l"])
    assume "source = ledger_version l"
    with run_migration_safe [OF machine src(2-4), of src files] src(3)
    show ?thesis by (auto elim: safe_conseq)
  qed (use src(1) in \<open>auto simp: calm_def db_content_def version_of_def\<close>)
  have target: "crash_safe ?R ?P (mig_lift (latestMigrationVersion files)) (\<lambda>v d. ?P d \<and> v = t) ?R"
    by (rule safe_lift) (simp_all add: files calm_recoverable)
  have versions: "crash_safe ?R (\<lambda>d. ?P d \<and> v = t)
      (mig_bind (currentMigrationVersion ev) (\<lambda>source.
        if source > v then mig_raise (MigrationError MigrationUnsupported source v)
        else run_migration ev files source v)) (\<lambda>_. ?R) ?R" for v
  proof (rule safe_given [where c = "v = t"], blast)
    assume v: "v = t"
    have "crash_safe ?R ?P (currentMigrationVersion ev)
      (\<lambda>v d. ?P d \<and> (\<exists>x. db_content (dd_db d) = Some x \<and> version_of x v)) ?R"
      by (rule safe_conseq [OF version_safe [where P = ?P]]) (auto intro: calm_recoverable)
    from safe_bind [OF this run] v show ?thesis by (auto elim: safe_conseq)
  qed
  show ?thesis
    unfolding openWithMigrationFiles_def
    by (rule safe_bind [where M = "\<lambda>_. ?P"], rule safe_step, assumption, rule calm_recoverable, assumption,
        rule safe_bind [OF late [OF open_recover_safe [OF machine(1)]]],
        rule safe_bind [OF late [OF open_db_safe]], rule safe_bind [OF target versions])
qed

subsection \<open>Wherever it stops\<close>

text \<open>
  What the daemon may leave on disk: it stops while it opens the database, and again, any number of
  times, while it recovers.
\<close>

inductive left_behind ::
  "mig_env \<Rightarrow> (string \<times> mig_script) list \<Rightarrow> data_dir \<Rightarrow> data_dir \<Rightarrow> bool"
  for base files start where
  stopped:
    "same_machine base ev \<Longrightarrow> well_behaved ev \<Longrightarrow> openWithMigrationFiles ev files (mig_start start) = (r, w)
      \<Longrightarrow> d \<in> set (mw_past w) \<Longrightarrow> left_behind base files start d"
| stopped_again:
    "left_behind base files start d \<Longrightarrow> same_machine base ev \<Longrightarrow> well_behaved ev
      \<Longrightarrow> recoverInterruptedMigration ev (mig_start d) = (r, w) \<Longrightarrow> d' \<in> set (mw_past w)
      \<Longrightarrow> left_behind base files start d'"


definition migration_sample :: mig_env where
  "migration_sample =
     \<lparr>mv_faulty = (\<lambda>_. False), mv_clock = (\<lambda>_. 63000000000000000000), mv_random = (\<lambda>_. replicate 6 7),
      mv_sha = (\<lambda>_. replicate 64 (CHR ''a'')), mv_size = (\<lambda>_. 400), mv_torn = (\<lambda>_. [NotDb ''torn'']),
      mv_partial = (\<lambda>_. [NotDb ''partial'']), mv_rollback = (\<lambda>_ _. NotDb ''mixed''),
      mv_quick = (\<lambda>_. True), mv_foreign = (\<lambda>_. True)\<rparr>"

definition source_sample :: database where
  "source_sample = \<lparr>db_ledger = Some [1], db_tables = 1, db_history = None, db_body = ''rows''\<rparr>"

definition scripts_sample :: "(string \<times> mig_script) list" where
  "scripts_sample =
     [(''migrations/001_initial.sql'', \<lambda>x. Some (x\<lparr>db_tables := 1\<rparr>)),
      (''migrations/002_history.sql'', \<lambda>x. Some (x\<lparr>db_history := Some []\<rparr>))]"

definition directory_sample :: data_dir where
  "directory_sample =
     \<lparr>dd_db = Some (DbFile source_sample), dd_journal = None, dd_wal = False, dd_shm = False,
      dd_protections = None, dd_state = None\<rparr>"

definition name_sample :: string where
  "name_sample = ''schema-001-to-002-19970523T160000000Z-070707070707.db''"

definition run_sample :: migrationRun where
  "run_sample = \<lparr>rn_schema = 1, rn_state = ''RUNNING'', rn_source = 1, rn_target = 2,
     rn_protection = name_sample, rn_sha = replicate 64 (CHR ''a''), rn_code = [],
     rn_started = 63000000000000000000, rn_completed = None\<rparr>"

text \<open>Stopped inside a transaction of the migration: the file is torn, its journal lies beside it.\<close>

definition stopped_sample :: data_dir where
  "stopped_sample =
     \<lparr>dd_db = Some (NotDb ''torn''), dd_journal = Some source_sample, dd_wal = False, dd_shm = False,
      dd_protections = Some [(name_sample, Regular (DbFile source_sample))],
      dd_state = Some (StateDoc (run_json run_sample))\<rparr>"

lemma sample_fields [simp]:
  "mv_faulty migration_sample = (\<lambda>_. False)" "mv_clock migration_sample = (\<lambda>_. 63000000000000000000)"
  "mv_torn migration_sample = (\<lambda>_. [NotDb ''torn''])" "mv_partial migration_sample = (\<lambda>_. [NotDb ''partial''])"
  "mv_sha migration_sample = (\<lambda>_. replicate 64 (CHR ''a''))"
  "mv_quick migration_sample = (\<lambda>_. True)" "mv_foreign migration_sample = (\<lambda>_. True)"
  "mv_size migration_sample = (\<lambda>_. 400)"
  by (simp_all add: migration_sample_def)

lemma sample_name:
  "newProtectionName migration_sample 1 2 63000000000000000000 w
     = (Inr name_sample, w\<lparr>mw_ticks := Suc (mw_ticks w)\<rparr>)"
proof -
  have "''schema-'' @ three_digits 1 @ ''-to-'' @ three_digits 2 @ ''-'' @ protection_time 63000000000000000000
     @ ''-'' @ hex_encode (replicate 6 7) @ ''.db'' = name_sample" by code_simp
  then show ?thesis
    by (simp add: newProtectionName_def mig_bind_def mig_random_def mig_ret_def migration_sample_def)
qed

lemma sample_files:
  "latestMigrationVersion scripts_sample = Some 2" "sort_key fst scripts_sample = scripts_sample"
  "migrationVersion ''migrations/001_initial.sql'' = Some 1" "migrationVersion ''migrations/002_history.sql'' = Some 2"
proof -
  show "latestMigrationVersion scripts_sample = Some 2" by code_simp
  show "sort_key fst scripts_sample = scripts_sample" by (simp add: scripts_sample_def)
  show "migrationVersion ''migrations/001_initial.sql'' = Some 1" by code_simp
  show "migrationVersion ''migrations/002_history.sql'' = Some 2" by code_simp
qed

lemmas sample_each = arg_cong [of _ _ "migrate_each migration_sample", OF scripts_sample_def]

lemmas mig_run = mig_bind_def mig_ret_def mig_raise_def mig_catch_def mig_ignore_def mig_step_def mig_now_def
  mig_read_def mig_write_def mig_lift_def mig_start_def

lemma sample_stops:
  "stopped_sample \<in> set (mw_past (snd
     (openWithMigrationFiles migration_sample scripts_sample (mig_start directory_sample))))"
  by (simp add: openWithMigrationFiles_def recoverInterruptedMigration_def readMigrationState_def db_open_def
    currentMigrationVersion_def run_migration_def beginMigrationProtection_def protect_source_def mig_run
    vacuum_into_def protection_entries_def put_protection_def db_query_def db_content_def mig_fileSHA256_def
    writeMigrationState_def sample_name eval_nat_numeral time_encodable_def pointer_encodable_def sample_files
    directory_sample_def ledger_version_def source_sample_def migrate_def db_write_def create_ledger_def
    sample_each apply_script_def verifyMigratedDatabase_def completeMigration_def record_history_def
    retainProtections_def maxProtectionFiles_def stopped_sample_def run_sample_def)

lemma sample_behaves: "well_behaved migration_sample"
proof -
  have "is_lower_hex (CHR ''a'')" by code_simp
  then show ?thesis
    by (simp add: well_behaved_def time_encodable_def maxMigrationStateBytes_def list_all_iff) (simp add: migration_sample_def)
qed


end
