(* ===== verification/Hermes_Env.thy ===== *)
theory Hermes_Env
  imports Hermes_Profiles
begin

text \<open>
  Editing the assignments of a profile's \<open>.env\<close> file (runtime/hermes/model\_credential.go): splitting
  it into lines, finding the line that assigns a name, replacing, appending or deleting it, and
  deciding whether it has a value. A file is its bytes.
\<close>

subsection \<open>Lines\<close>

definition line_feed :: char where "line_feed = CHR 0x0A"
definition carriage :: char where "carriage = CHR 0x0D"

definition byte_order_mark :: string where
  "byte_order_mark = [CHR 0xEF, CHR 0xBB, CHR 0xBF]"

definition stripCredentialBOM :: "string \<Rightarrow> string \<times> bool" where
  "stripCredentialBOM data =
     (if HasPrefix data byte_order_mark then (drop (length byte_order_mark) data, True) else (data, False))"

definition restoreCredentialBOM :: "string \<Rightarrow> bool \<Rightarrow> string" where
  "restoreCredentialBOM data present = (if \<not> present then data else byte_order_mark @ data)"

text \<open>A line is its body and its ending.\<close>

function splitCredentialLines :: "string \<Rightarrow> (string \<times> string) list" where
  "splitCredentialLines data =
     (if data = [] then []
      else if line_feed \<notin> set data then [(data, [])]
      else
        (let body = takeWhile (\<lambda>c. c \<noteq> line_feed) data; rest = tl (dropWhile (\<lambda>c. c \<noteq> line_feed) data)
         in (if body \<noteq> [] \<and> last body = carriage then (butlast body, [carriage, line_feed])
             else (body, [line_feed])) # splitCredentialLines rest))"
  by pat_completeness auto
termination
proof (relation "measure length", goal_cases)
  case (2 data body rest)
  then have "dropWhile (\<lambda>c. c \<noteq> line_feed) data \<noteq> []" by auto
  then have "length rest < length (dropWhile (\<lambda>c. c \<noteq> line_feed) data)" using 2(4) by (cases "dropWhile (\<lambda>c. c \<noteq> line_feed) data") auto
  then show ?case using length_dropWhile_le [of "\<lambda>c. c \<noteq> line_feed" data] by simp
qed simp

declare splitCredentialLines.simps [simp del]

definition joinCredentialLines :: "(string \<times> string) list \<Rightarrow> string" where
  "joinCredentialLines lines = concat (map (\<lambda>(body, ending). body @ ending) lines)"

subsection \<open>Assignments\<close>

definition cut_at :: "char \<Rightarrow> string \<Rightarrow> (string \<times> string) option" where
  "cut_at c s = (if c \<in> set s then Some (takeWhile (\<lambda>x. x \<noteq> c) s, tl (dropWhile (\<lambda>x. x \<noteq> c) s)) else None)"

definition credentialAssignment :: "string \<Rightarrow> string \<Rightarrow> string option" where
  "credentialAssignment line name =
     (let trimmed = TrimSpace (TrimPrefix line byte_order_mark);
          trimmed = (if HasPrefix trimmed ''export '' then TrimSpace (drop (length ''export '') trimmed) else trimmed)
      in case cut_at (CHR ''='') trimmed of
           None \<Rightarrow> None
         | Some (key, v) \<Rightarrow> if TrimSpace key \<noteq> name then None else Some (TrimSpace v))"

datatype credential_error =
    errModelCredentialInvalid
  | errModelCredentialUnsafe
  | errModelCredentialConflict
  | errModelCredentialWrite
  | errModelCredentialQuery
  | errCredentialProviderUnsupported

text \<open>
  \<open>strings.ToLower\<close>, as far as a comparison with an ASCII word can see it: besides the capital
  letters two runes become ASCII, U+212A (k) and U+0130 (i).
\<close>

fun lower_text :: "string \<Rightarrow> string" where
  "lower_text [] = []"
| "lower_text (a # s) =
     (if HasPrefix (a # s) [CHR 0xE2, CHR 0x84, CHR 0xAA] then CHR ''k'' # lower_text (drop 2 s)
      else if HasPrefix (a # s) [CHR 0xC4, CHR 0xB0] then CHR ''i'' # lower_text (drop 1 s)
      else ascii_fold a # lower_text s)"

definition placeholders :: "string list" where
  "placeholders =
     [''*'', ''**'', ''***'', ''changeme'', ''your_api_key'', ''your_api_key_here'', ''your-api-key'',
      ''placeholder'', ''example'', ''dummy'', ''null'', ''none'']"

definition isCredentialPlaceholder :: "string \<Rightarrow> bool" where
  "isCredentialPlaceholder v \<longleftrightarrow> lower_text (TrimSpace v) \<in> set placeholders"

definition modelCredentialMaxFile :: nat where "modelCredentialMaxFile = 256 * 1024"
definition modelCredentialMaxValue :: nat where "modelCredentialMaxValue = 16 * 1024"

text \<open>\<open>unicode.IsControl\<close> on some rune of a valid text: C0, delete, and C1 (C2 80 to C2 9F).\<close>

fun has_control :: "string \<Rightarrow> bool" where
  "has_control [] = False"
| "has_control (a # s) =
     (if of_char a < (32::nat) \<or> a = CHR 0x7F then True
      else if a = CHR 0xC2 \<and> s \<noteq> [] \<and> in_range 128 159 (hd s) then True
      else has_control s)"

definition variable_mark :: string where "variable_mark = ''${''"

definition validateModelCredential :: "string \<Rightarrow> credential_error option" where
  "validateModelCredential secret =
     (if length secret < 4 \<or> length secret > modelCredentialMaxValue \<or> \<not> ValidString secret
         \<or> Contains secret variable_mark then Some errModelCredentialInvalid
      else if TrimSpace secret \<noteq> secret \<or> isCredentialPlaceholder secret then Some errModelCredentialInvalid
      else if has_control secret then Some errModelCredentialInvalid
      else None)"

text \<open>The offset of the closing quote in what follows the opening one.\<close>

fun closing_quote :: "char \<Rightarrow> bool \<Rightarrow> string \<Rightarrow> nat option" where
  "closing_quote q escaped [] = None"
| "closing_quote q escaped (c # s) =
     (if q = CHR 0x22 \<and> c = CHR 0x5C \<and> \<not> escaped then map_option Suc (closing_quote q True s)
      else if c = q \<and> \<not> escaped then Some 0
      else map_option Suc (closing_quote q False s))"

text \<open>The text before a comment: a hash at the start or after a blank.\<close>

fun before_comment :: "bool \<Rightarrow> string \<Rightarrow> string" where
  "before_comment blank_before [] = []"
| "before_comment blank_before (c # s) =
     (if c = CHR ''#'' \<and> blank_before then []
      else c # before_comment (c = CHR '' '' \<or> c = CHR 0x09) s)"

definition uncommented :: "string \<Rightarrow> string" where
  "uncommented v = (if before_comment True v = v then v else TrimSpace (before_comment True v))"

definition assignmentHasValue :: "string \<Rightarrow> credential_error + bool" where
  "assignmentHasValue v0 =
     (let v = TrimSpace v0;
          finish = (\<lambda>v. if Contains v variable_mark then Inl errModelCredentialUnsafe
                         else (let cleaned = TrimSpace v in
                               Inr (length cleaned \<ge> 4 \<and> \<not> isCredentialPlaceholder cleaned)))
      in if v = [] then Inr False
         else if hd v = CHR 0x27 \<or> hd v = CHR 0x22 then
           (case closing_quote (hd v) False (tl v) of
              None \<Rightarrow> Inl errModelCredentialUnsafe
            | Some n \<Rightarrow>
                (let tail = TrimSpace (drop (n + 2) v) in
                 if tail \<noteq> [] \<and> hd tail \<noteq> CHR ''#'' then Inl errModelCredentialUnsafe
                 else finish (take n (tl v))))
         else finish (uncommented v))"

fun configured_loop :: "string \<Rightarrow> bool \<Rightarrow> bool \<Rightarrow> (string \<times> string) list \<Rightarrow> credential_error + bool" where
  "configured_loop name found configured [] = Inr configured"
| "configured_loop name found configured ((body, ending) # lines) =
     (case credentialAssignment body name of
        None \<Rightarrow> configured_loop name found configured lines
      | Some v \<Rightarrow>
          if found then Inl errModelCredentialUnsafe
          else (case assignmentHasValue v of
                  Inl e \<Rightarrow> Inl e | Inr parsed \<Rightarrow> configured_loop name True parsed lines))"

definition credentialConfigured :: "string \<Rightarrow> string \<Rightarrow> credential_error + bool" where
  "credentialConfigured data name = configured_loop name False False (splitCredentialLines data)"

subsection \<open>Edits\<close>

text \<open>The index of the only line that assigns the name; two are an error.\<close>

fun assigned_line ::
  "string \<Rightarrow> nat \<Rightarrow> nat option \<Rightarrow> (string \<times> string) list \<Rightarrow> credential_error + nat option" where
  "assigned_line name index found [] = Inr found"
| "assigned_line name index found ((body, ending) # lines) =
     (if credentialAssignment body name \<noteq> None then
        if found \<noteq> None then Inl errModelCredentialUnsafe
        else assigned_line name (Suc index) (Some index) lines
      else assigned_line name (Suc index) found lines)"

definition quoteCredentialValue :: "string \<Rightarrow> string" where
  "quoteCredentialValue secret =
     [CHR 0x22] @ ReplaceAll (ReplaceAll secret [CHR 0x5C] [CHR 0x5C, CHR 0x5C]) [CHR 0x22] [CHR 0x5C, CHR 0x22]
     @ [CHR 0x22]"

definition replaceCredentialAssignment :: "string \<Rightarrow> string \<Rightarrow> string \<Rightarrow> credential_error + string" where
  "replaceCredentialAssignment data name secret =
     (let (content, bom) = stripCredentialBOM data; lines = splitCredentialLines content;
          assignment = name @ ''='' @ quoteCredentialValue secret
      in case assigned_line name 0 None lines of
           Inl e \<Rightarrow> Inl e
         | Inr (Some found) \<Rightarrow>
             Inr (restoreCredentialBOM
                    (joinCredentialLines (lines[found := (assignment, snd (lines ! found))])) bom)
         | Inr None \<Rightarrow>
             (let result = (if content \<noteq> [] \<and> last content \<noteq> line_feed \<and> last content \<noteq> carriage
                            then content @ [line_feed] else content)
              in Inr (restoreCredentialBOM (result @ assignment @ [line_feed]) bom)))"

definition deleteCredentialAssignment :: "string \<Rightarrow> string \<Rightarrow> credential_error + string \<times> bool" where
  "deleteCredentialAssignment data name =
     (let (content, bom) = stripCredentialBOM data; lines = splitCredentialLines content
      in case assigned_line name 0 None lines of
           Inl e \<Rightarrow> Inl e
         | Inr None \<Rightarrow> Inr (data, False)
         | Inr (Some found) \<Rightarrow>
             Inr (restoreCredentialBOM (joinCredentialLines (take found lines @ drop (Suc found) lines)) bom, True))"

text \<open>
  Editing a \<open>.env\<close> file: a credential that is set is found and has a value, every other assignment
  keeps the value that it had, and an assignment that is deleted is gone.
\<close>

subsection \<open>Splitting and joining\<close>

definition line_ok :: "string \<times> string \<Rightarrow> bool" where
  "line_ok l \<longleftrightarrow>
     line_feed \<notin> set (fst l)
     \<and> ((snd l = [line_feed] \<and> (fst l = [] \<or> last (fst l) \<noteq> carriage)) \<or> snd l = [carriage, line_feed])"

lemma line_feed_carriage [simp]: "line_feed \<noteq> carriage" "carriage \<noteq> line_feed"
  by (simp_all add: line_feed_def carriage_def)

lemma split_nothing [simp]: "splitCredentialLines [] = []"
  by (simp add: splitCredentialLines.simps)

lemma split_tail: "line_feed \<notin> set s \<Longrightarrow> splitCredentialLines s = (if s = [] then [] else [(s, [])])"
  by (simp add: splitCredentialLines.simps)

lemma split_line: "line_ok l \<Longrightarrow> splitCredentialLines (fst l @ snd l @ s) = l # splitCredentialLines s"
proof -
  assume l: "line_ok l"
  obtain b e where be: "l = (b, e)" by force
  from l be have nl: "line_feed \<notin> set b" by (simp add: line_ok_def)
  from l be consider "e = [line_feed]" "b = [] \<or> last b \<noteq> carriage" | "e = [carriage, line_feed]"
    by (auto simp: line_ok_def)
  then show ?thesis
  proof cases
    case 1
    have "takeWhile (\<lambda>c. c \<noteq> line_feed) (b @ line_feed # s) = b"
      "dropWhile (\<lambda>c. c \<noteq> line_feed) (b @ line_feed # s) = line_feed # s"
      using nl by (induction b) auto
    with 1 nl be show ?thesis by (subst splitCredentialLines.simps) auto
  next
    case 2
    have "takeWhile (\<lambda>c. c \<noteq> line_feed) (b @ carriage # line_feed # s) = b @ [carriage]"
      "dropWhile (\<lambda>c. c \<noteq> line_feed) (b @ carriage # line_feed # s) = line_feed # s"
      using nl by (induction b) auto
    with 2 nl be show ?thesis by (subst splitCredentialLines.simps) simp
  qed
qed

lemma join_Cons [simp]: "joinCredentialLines (l # ls) = fst l @ snd l @ joinCredentialLines ls"
  by (cases l) (simp add: joinCredentialLines_def)

lemma join_Nil [simp]: "joinCredentialLines [] = []"
  by (simp add: joinCredentialLines_def)

lemma join_append [simp]: "joinCredentialLines (a @ b) = joinCredentialLines a @ joinCredentialLines b"
  by (simp add: joinCredentialLines_def)

lemma split_joined: "list_all line_ok ls \<Longrightarrow> splitCredentialLines (joinCredentialLines ls @ s) = ls @ splitCredentialLines s"
  by (induction ls) (simp_all add: split_line)

definition tail_lines :: "string \<Rightarrow> (string \<times> string) list" where
  "tail_lines s = (if s = [] then [] else [(s, [])])"

lemma join_tail [simp]: "joinCredentialLines (tail_lines s) = s"
  by (simp add: tail_lines_def)

text \<open>Every text is complete lines and a last one without an ending.\<close>

lemma split_parts:
  "\<exists>ls s. splitCredentialLines data = ls @ tail_lines s \<and> list_all line_ok ls \<and> line_feed \<notin> set s
     \<and> data = joinCredentialLines ls @ s"
proof (induction data rule: splitCredentialLines.induct)
  case (1 data)
  show ?case
  proof (cases "line_feed \<in> set data")
    case False
    then show ?thesis by (intro exI [of _ "[]"] exI [of _ data]) (simp add: split_tail tail_lines_def)
  next
    case True
    define body where "body = takeWhile (\<lambda>c. c \<noteq> line_feed) data"
    define rest where "rest = tl (dropWhile (\<lambda>c. c \<noteq> line_feed) data)"
    define l where "l = (if body \<noteq> [] \<and> last body = carriage then (butlast body, [carriage, line_feed]) else (body, [line_feed]))"
    from True have data: "data \<noteq> []" by auto
    from 1 [OF data _ body_def rest_def] True obtain ls s where ls:
      "splitCredentialLines rest = ls @ tail_lines s" "list_all line_ok ls"
      "line_feed \<notin> set s" "rest = joinCredentialLines ls @ s" by auto
    have nl: "line_feed \<notin> set body" by (auto simp: body_def dest: set_takeWhileD)
    then have ok: "line_ok l" by (auto simp: line_ok_def l_def dest: in_set_butlastD)
    have "dropWhile (\<lambda>c. c \<noteq> line_feed) data = line_feed # rest"
    proof -
      have ne: "dropWhile (\<lambda>c. c \<noteq> line_feed) data \<noteq> []" using True by auto
      then obtain c t where ct: "dropWhile (\<lambda>c. c \<noteq> line_feed) data = c # t" by (cases "dropWhile (\<lambda>c. c \<noteq> line_feed) data") auto
      with hd_dropWhile [OF ne] have "c = line_feed" by simp
      with ct show ?thesis by (simp add: rest_def)
    qed
    then have whole: "data = body @ line_feed # rest"
      unfolding body_def by (metis takeWhile_dropWhile_id)
    have l2: "fst l @ snd l = body @ [line_feed]"
    proof (cases "body \<noteq> [] \<and> last body = carriage")
      case True
      then have "body = butlast body @ [carriage]" by (metis append_butlast_last_id)
      with True show ?thesis by (simp add: l_def)
    qed (auto simp: l_def)
    have data_l: "data = fst l @ snd l @ rest"
      unfolding append_assoc [symmetric] l2 by (simp add: whole)
    have "splitCredentialLines data = l # splitCredentialLines rest"
      using split_line [OF ok, of rest] data_l by simp
    with ls ok data_l show ?thesis
      by (intro exI [of _ "l # ls"] exI [of _ s]) simp
  qed
qed

subsection \<open>Which lines assign a name\<close>

definition bodies :: "string \<Rightarrow> string list" where
  "bodies data = map fst (splitCredentialLines data)"

definition assigned :: "string \<Rightarrow> string list \<Rightarrow> string list" where
  "assigned name bs = List.map_filter (\<lambda>b. credentialAssignment b name) bs"

lemma assigned_simps [simp]:
  "assigned name [] = []"
  "assigned name (b # bs) = (case credentialAssignment b name of None \<Rightarrow> assigned name bs | Some v \<Rightarrow> v # assigned name bs)"
  "assigned name (as @ bs) = assigned name as @ assigned name bs"
  by (simp_all add: assigned_def List.map_filter_def split: option.splits)

definition configured_value :: "string list \<Rightarrow> credential_error + bool" where
  "configured_value vs =
     (case vs of
        [] \<Rightarrow> Inr False
      | v # us \<Rightarrow> (case assignmentHasValue v of Inl e \<Rightarrow> Inl e
                  | Inr b \<Rightarrow> if us = [] then Inr b else Inl errModelCredentialUnsafe))"

lemma configured_found:
  "configured_loop name True b lines
     = (if assigned name (map fst lines) = [] then Inr b else Inl errModelCredentialUnsafe)"
  by (induction name True b lines rule: configured_loop.induct) (auto split: option.splits)

lemma configured_loop_value:
  "configured_loop name False False lines = configured_value (assigned name (map fst lines))"
  by (induction lines)
    (auto simp: configured_value_def configured_found split: option.splits sum.splits)

lemma credentialConfigured_value: "credentialConfigured data name = configured_value (assigned name (bodies data))"
  by (simp add: credentialConfigured_def configured_loop_value bodies_def)

lemma assigned_line_found:
  "assigned_line name k (Some i) lines = (if assigned name (map fst lines) = [] then Inr (Some i) else Inl errModelCredentialUnsafe)"
  by (induction lines arbitrary: k) (auto split: option.splits)

lemma assigned_line_spec:
  "assigned_line name k None lines = Inr r \<longleftrightarrow>
     (r = None \<and> assigned name (map fst lines) = [])
     \<or> (\<exists>a l b. lines = a @ l # b \<and> r = Some (k + length a) \<and> credentialAssignment (fst l) name \<noteq> None
          \<and> assigned name (map fst a) = [] \<and> assigned name (map fst b) = [])"
  (is "?L lines k \<longleftrightarrow> ?R lines k")
proof (induction lines arbitrary: k)
  case Nil
  show ?case by auto
next
  case (Cons l lines)
  obtain body ending where l: "l = (body, ending)" by force
  show ?case
  proof (cases "credentialAssignment body name")
    case None
    have "?R (l # lines) k \<longleftrightarrow> ?R lines (Suc k)"
    proof
      assume "?R (l # lines) k"
      then show "?R lines (Suc k)"
      proof (elim disjE exE conjE)
        assume "r = None" "assigned name (map fst (l # lines)) = []"
        with None l show ?thesis by simp
      next
        fix a m b
        assume *: "l # lines = a @ m # b" "r = Some (k + length a)" "credentialAssignment (fst m) name \<noteq> None"
          "assigned name (map fst a) = []" "assigned name (map fst b) = []"
        then obtain a' where a: "a = l # a'" using None l by (cases a) auto
        with * None l show ?thesis by (intro disjI2 exI [of _ a'] exI [of _ m] exI [of _ b]) simp
      qed
    next
      assume "?R lines (Suc k)"
      then show "?R (l # lines) k"
      proof (elim disjE exE conjE)
        assume "r = None" "assigned name (map fst lines) = []"
        with None l show ?thesis by simp
      next
        fix a m b
        assume *: "lines = a @ m # b" "r = Some (Suc k + length a)" "credentialAssignment (fst m) name \<noteq> None"
          "assigned name (map fst a) = []" "assigned name (map fst b) = []"
        with None l show ?thesis by (intro disjI2 exI [of _ "l # a"] exI [of _ m] exI [of _ b]) simp
      qed
    qed
    with Cons [of "Suc k"] None l show ?thesis by simp
  next
    case (Some v)
    have "?R (l # lines) k \<longleftrightarrow> r = Some k \<and> assigned name (map fst lines) = []"
    proof
      assume "?R (l # lines) k"
      then show "r = Some k \<and> assigned name (map fst lines) = []"
      proof (elim disjE exE conjE)
        fix a m b
        assume *: "l # lines = a @ m # b" "r = Some (k + length a)" "credentialAssignment (fst m) name \<noteq> None"
          "assigned name (map fst a) = []" "assigned name (map fst b) = []"
        then have "a = []" using Some l by (cases a) auto
        with * show ?thesis by simp
      qed (use Some l in simp)
    next
      assume "r = Some k \<and> assigned name (map fst lines) = []"
      with Some l show "?R (l # lines) k" by (intro disjI2 exI [of _ "[]"] exI [of _ l] exI [of _ lines]) simp
    qed
    with Some l show ?thesis by (auto simp: assigned_line_found)
  qed
qed

subsection \<open>The byte order mark\<close>

lemma credentialAssignment_marked:
  "\<not> HasPrefix b byte_order_mark \<Longrightarrow> credentialAssignment (byte_order_mark @ b) n = credentialAssignment b n"
  by (simp add: credentialAssignment_def TrimPrefix_def HasPrefix_append)

lemma credentialAssignment_Nil [simp]: "credentialAssignment [] n = None"
  by (simp add: credentialAssignment_def TrimPrefix_def cut_at_def HasPrefix_def byte_order_mark_def)

text \<open>A byte order mark stands at the start of a file only.\<close>

definition marked_once :: "string \<Rightarrow> bool" where
  "marked_once data \<longleftrightarrow> (\<forall>b\<in>set (bodies (fst (stripCredentialBOM data))). \<not> HasPrefix b byte_order_mark)"

lemma line_feed_not_mark: "line_feed \<notin> set byte_order_mark"
  by (simp add: line_feed_def byte_order_mark_def)

lemma bodies_marked:
  "bodies (byte_order_mark @ s) = (case bodies s of [] \<Rightarrow> [byte_order_mark] | b # bs \<Rightarrow> (byte_order_mark @ b) # bs)"
proof -
  obtain ls t where p: "splitCredentialLines s = ls @ tail_lines t" "list_all line_ok ls" "line_feed \<notin> set t"
    "s = joinCredentialLines ls @ t" using split_parts by blast
  show ?thesis
  proof (cases ls)
    case Nil
    with p line_feed_not_mark have "splitCredentialLines (byte_order_mark @ t) = tail_lines (byte_order_mark @ t)"
      by (auto simp: split_tail tail_lines_def)
    with Nil p show ?thesis by (auto simp: bodies_def tail_lines_def byte_order_mark_def)
  next
    case (Cons l ls')
    let ?l = "(byte_order_mark @ fst l, snd l)"
    have "line_ok ?l" using p(2) Cons line_feed_not_mark by (auto simp: line_ok_def byte_order_mark_def carriage_def)
    from split_line [OF this, of "joinCredentialLines ls' @ t"]
    have "splitCredentialLines (byte_order_mark @ s) = ?l # splitCredentialLines (joinCredentialLines ls' @ t)"
      using Cons p by simp
    moreover have "splitCredentialLines s = l # splitCredentialLines (joinCredentialLines ls' @ t)"
      using split_line [of l "joinCredentialLines ls' @ t"] Cons p by simp
    ultimately show ?thesis by (simp add: bodies_def)
  qed
qed

lemma assigned_marked:
  assumes "\<forall>b\<in>set (bodies s). \<not> HasPrefix b byte_order_mark"
  shows "assigned n (bodies (restoreCredentialBOM s present)) = assigned n (bodies s)"
proof (cases present)
  case True
  have "credentialAssignment byte_order_mark n = None"
    using credentialAssignment_marked [of "[]" n] by (simp add: HasPrefix_def byte_order_mark_def)
  with True assms show ?thesis
    by (cases "bodies s") (simp_all add: restoreCredentialBOM_def bodies_marked credentialAssignment_marked)
qed (simp add: restoreCredentialBOM_def)

lemma strip_restore: "stripCredentialBOM data = (s, m) \<Longrightarrow> data = restoreCredentialBOM s m"
  by (auto simp: stripCredentialBOM_def restoreCredentialBOM_def HasPrefix_iff split: if_splits)

lemma configured_stripped:
  assumes "marked_once data" and "stripCredentialBOM data = (s, m)"
  shows "credentialConfigured data n = configured_value (assigned n (bodies s))"
  using assms assigned_marked [of s n m] strip_restore [OF assms(2)]
  by (simp add: marked_once_def credentialConfigured_value)

subsection \<open>Values in quotes\<close>

definition escaped :: "string \<Rightarrow> string" where
  "escaped s = concat (map (\<lambda>c. if c = CHR 0x5C \<or> c = CHR 0x22 then [CHR 0x5C, c] else [c]) s)"

lemma escaped_simps [simp]:
  "escaped [] = []"
  "escaped (c # s) = (if c = CHR 0x5C \<or> c = CHR 0x22 then [CHR 0x5C, c] else [c]) @ escaped s"
  "escaped (s @ t) = escaped s @ escaped t"
  by (simp_all add: escaped_def)

lemma replace_char: "replace_from 0 [c] new s = concat (map (\<lambda>x. if x = c then new else [x]) s)"
  by (induction s) (auto simp: HasPrefix_def)

lemma quoted: "quoteCredentialValue s = CHR 0x22 # escaped s @ [CHR 0x22]"
proof -
  have "concat (map (\<lambda>x. if x = CHR 0x22 then [CHR 0x5C, CHR 0x22] else [x])
      (concat (map (\<lambda>x. if x = CHR 0x5C then [CHR 0x5C, CHR 0x5C] else [x]) s))) = escaped s"
    by (induction s) auto
  then show ?thesis by (simp add: quoteCredentialValue_def ReplaceAll_def replace_char)
qed

lemma closing_escaped: "closing_quote (CHR 0x22) False (escaped s @ [CHR 0x22]) = Some (length (escaped s))"
  by (induction s) auto

lemma escaped_prefix:
  "HasPrefix (escaped s) r \<Longrightarrow> CHR 0x5C \<notin> set r \<Longrightarrow> HasPrefix s r"
proof (induction s arbitrary: r)
  case (Cons c s)
  then show ?case by (cases r) (auto simp: HasPrefix_def split: if_splits)
qed (simp add: HasPrefix_def)

lemma escaped_suffix:
  "HasSuffix (escaped s) r \<Longrightarrow> r \<noteq> [] \<Longrightarrow> CHR 0x5C \<notin> set r \<Longrightarrow> CHR 0x22 \<notin> set r \<Longrightarrow> HasSuffix s r"
proof (induction s arbitrary: r rule: rev_induct)
  case Nil
  then show ?case by (simp add: HasSuffix_def)
next
  case (snoc c s)
  obtain r' d where r: "r = r' @ [d]" using snoc(3) by (cases r rule: rev_cases) auto
  with snoc(2,4,5) have "d = c" "c \<noteq> CHR 0x5C" "c \<noteq> CHR 0x22" "HasSuffix (escaped s) r'"
    by (auto simp: HasSuffix_iff split: if_splits)
  with snoc.IH [of r'] snoc(4,5) r show ?case by (cases "r' = []") (auto simp: HasSuffix_iff)
qed

lemma escaped_variable: "Contains (escaped s) variable_mark \<Longrightarrow> Contains s variable_mark"
proof (induction s)
  case (Cons c s)
  have "HasPrefix (escaped (c # s)) variable_mark \<Longrightarrow> HasPrefix (c # s) variable_mark"
    by (rule escaped_prefix) (simp_all add: variable_mark_def)
  moreover have "\<not> HasPrefix (CHR 0x5C # t) variable_mark" "\<not> HasPrefix (CHR 0x22 # t) variable_mark" for t
    by (simp_all add: HasPrefix_def variable_mark_def)
  ultimately show ?case using Cons by (auto split: if_splits)
qed simp

text \<open>The bytes of white space are not escaped, so white space at an end stands there before.\<close>

lemma space_bytes: "r \<in> set space_runes \<Longrightarrow> CHR 0x5C \<notin> set r \<and> CHR 0x22 \<notin> set r"
  by (auto simp: space_runes_def)

lemma trim_shrinks: "length (trim_left s) \<le> length s" "length (trim_right s) \<le> length s"
proof -
  show "length (trim_left s) \<le> length s"
  proof (induction s rule: trim_left.induct)
    case (1 s)
    then show ?case by (subst trim_left.simps) (auto split: option.splits intro: le_trans)
  qed
  show "length (trim_right s) \<le> length s"
  proof (induction s rule: trim_right.induct)
    case (1 s)
    then show ?case by (subst trim_right.simps) (auto split: option.splits intro: le_trans)
  qed
qed

lemma trimmed: "TrimSpace s = s \<longleftrightarrow> leading_space s = None \<and> trailing_space s = None"
proof
  assume t: "TrimSpace s = s"
  have "leading_space s = None"
  proof (cases "leading_space s")
    case (Some r)
    then have "r \<in> set space_runes" "HasPrefix s r" by (auto simp: leading_space_def dest: first_match_Some)
    then have "0 < length r" "length r \<le> length s" using space_runes_not_Nil by (auto simp: HasPrefix_iff)
    moreover have "trim_left s = trim_left (drop (length r) s)" using Some by (subst trim_left.simps) simp
    moreover have "length (trim_left (drop (length r) s)) \<le> length s - length r"
      using trim_shrinks(1) [of "drop (length r) s"] by simp
    ultimately have "length (trim_left s) < length s" by (metis diff_less le_less_trans less_le_trans)
    with t trim_shrinks(2) [of "trim_left s"] show ?thesis by (simp add: TrimSpace_def)
  qed
  moreover from this t have "trim_right s = s" by (simp add: TrimSpace_def trim_left_id)
  then have "trailing_space s = None" using trailing_trim_right [of s] by simp
  ultimately show "leading_space s = None \<and> trailing_space s = None" by simp
qed (simp add: TrimSpace_def trim_left_id trim_right_id)

lemma no_leading: "s \<noteq> [] \<Longrightarrow> hd s \<notin> hd ` set space_runes \<Longrightarrow> leading_space s = None"
  using space_runes_not_Nil
  by (auto simp: leading_space_def first_match_None HasPrefix_iff)

lemma no_trailing: "s \<noteq> [] \<Longrightarrow> last s \<notin> last ` set space_runes \<Longrightarrow> trailing_space s = None"
  using space_runes_not_Nil
  by (auto simp: trailing_space_def first_match_None HasSuffix_iff)

lemma escaped_trimmed: "TrimSpace s = s \<Longrightarrow> TrimSpace (escaped s) = escaped s"
proof -
  assume s: "TrimSpace s = s"
  have "leading_space (escaped s) = None"
  proof (rule ccontr)
    assume "leading_space (escaped s) \<noteq> None"
    then obtain r where "r \<in> set space_runes" "HasPrefix (escaped s) r"
      unfolding leading_space_def by (auto dest: first_match_Some)
    then have "HasPrefix s r" using escaped_prefix space_bytes by blast
    with \<open>r \<in> set space_runes\<close> have "leading_space s \<noteq> None"
      unfolding leading_space_def by (auto simp: first_match_None)
    with s show False by (simp add: trimmed)
  qed
  moreover have "trailing_space (escaped s) = None"
  proof (rule ccontr)
    assume "trailing_space (escaped s) \<noteq> None"
    then obtain r where "r \<in> set space_runes" "HasSuffix (escaped s) r"
      unfolding trailing_space_def by (auto dest: first_match_Some)
    then have "HasSuffix s r" using escaped_suffix space_bytes space_runes_not_Nil by blast
    with \<open>r \<in> set space_runes\<close> have "trailing_space s \<noteq> None"
      unfolding trailing_space_def by (auto simp: first_match_None)
    with s show False by (simp add: trimmed)
  qed
  ultimately show ?thesis by (simp add: trimmed)
qed

lemma lower_text_keeps: "CHR 0x5C \<in> set s \<Longrightarrow> CHR 0x5C \<in> set (lower_text s)"
proof (induction s rule: lower_text.induct)
  case (2 a s)
  have "ascii_fold (CHR 0x5C) = CHR 0x5C" by code_simp
  with 2 show ?case by (auto simp: HasPrefix_iff)
qed simp

lemma escaped_placeholder:
  assumes "TrimSpace s = s" and "isCredentialPlaceholder (escaped s)"
  shows "isCredentialPlaceholder s"
proof -
  have none: "\<forall>p\<in>set placeholders. CHR 0x5C \<notin> set p" by (simp add: placeholders_def)
  from assms escaped_trimmed have p: "lower_text (escaped s) \<in> set placeholders"
    by (simp add: isCredentialPlaceholder_def)
  with none lower_text_keeps have "CHR 0x5C \<notin> set (escaped s)" by blast
  then have "escaped s = s" by (induction s) (auto split: if_splits)
  with p assms(1) show ?thesis by (simp add: isCredentialPlaceholder_def)
qed

lemma length_escaped: "length s \<le> length (escaped s)"
  by (induction s) auto

lemma quoted_trimmed: "TrimSpace (CHR 0x22 # s @ [CHR 0x22]) = CHR 0x22 # s @ [CHR 0x22]"
proof -
  have "CHR 0x22 \<notin> hd ` set space_runes" "CHR 0x22 \<notin> last ` set space_runes" by (simp_all add: space_runes_def)
  then show ?thesis by (simp add: trimmed no_leading no_trailing)
qed

lemma quoted_has_value:
  assumes "validateModelCredential s = None"
  shows "assignmentHasValue (quoteCredentialValue s) = Inr True"
proof -
  from assms have s: "4 \<le> length s" "\<not> Contains s variable_mark" "TrimSpace s = s" "\<not> isCredentialPlaceholder s"
    by (auto simp: validateModelCredential_def split: if_splits)
  have "\<not> Contains (escaped s) variable_mark" "\<not> isCredentialPlaceholder (escaped s)" "4 \<le> length (escaped s)"
    "TrimSpace (escaped s) = escaped s"
    using s escaped_variable escaped_placeholder length_escaped [of s] escaped_trimmed by auto
  then show ?thesis by (simp add: assignmentHasValue_def quoted quoted_trimmed closing_escaped Let_def)
qed

subsection \<open>A new assignment\<close>

definition env_name :: "string \<Rightarrow> bool" where
  "env_name n \<longleftrightarrow> n \<noteq> [] \<and> list_all (\<lambda>c. is_upper c \<or> is_digit c \<or> c = CHR ''_'') n"

lemma env_name_chars:
  assumes "env_name n" and "c \<in> set n"
  shows "c \<notin> hd ` set space_runes" and "c \<notin> last ` set space_runes" and "c \<noteq> CHR ''=''" and "c \<noteq> CHR ''e''"
    and "c \<noteq> line_feed" and "c \<noteq> CHR 0xEF"
proof -
  have bad: "\<forall>x\<in>set (map hd space_runes @ map last space_runes @ [CHR ''='', CHR ''e'', line_feed, CHR 0xEF]).
      \<not> (is_upper x \<or> is_digit x \<or> x = CHR ''_'')"
    by (simp add: space_runes_def is_upper_def is_digit_def in_range_def line_feed_def)
  have "is_upper c \<or> is_digit c \<or> c = CHR ''_''" using assms by (auto simp: env_name_def list_all_iff)
  with bad have "c \<notin> set (map hd space_runes @ map last space_runes @ [CHR ''='', CHR ''e'', line_feed, CHR 0xEF])"
    by blast
  then show "c \<notin> hd ` set space_runes" "c \<notin> last ` set space_runes" "c \<noteq> CHR ''=''" "c \<noteq> CHR ''e''"
    "c \<noteq> line_feed" "c \<noteq> CHR 0xEF" by simp_all
qed

lemma new_assignment:
  assumes n: "env_name n"
  shows "credentialAssignment (n @ ''='' @ quoteCredentialValue s) m
    = (if m = n then Some (quoteCredentialValue s) else None)"
proof -
  let ?t = "n @ ''='' @ quoteCredentialValue s"
  from n have ne: "n \<noteq> []" "hd n \<in> set n" "last n \<in> set n" by (auto simp: env_name_def)
  note h = env_name_chars [OF n ne(2)] and l = env_name_chars [OF n ne(3)]
  have mark: "TrimPrefix ?t byte_order_mark = ?t"
    using ne h by (cases n) (auto simp: TrimPrefix_def HasPrefix_def byte_order_mark_def)
  have trim: "TrimSpace ?t = ?t"
    using ne h by (simp add: trimmed no_leading) (simp add: quoted no_trailing space_runes_def)
  have export: "\<not> HasPrefix ?t ''export ''"
    using ne h by (cases n) (auto simp: HasPrefix_def)
  have cut: "cut_at (CHR ''='') ?t = Some (n, quoteCredentialValue s)"
  proof -
    have "takeWhile (\<lambda>c. c \<noteq> CHR ''='') ?t = n" "dropWhile (\<lambda>c. c \<noteq> CHR ''='') ?t = ''='' @ quoteCredentialValue s"
      using env_name_chars(3) [OF n] by (auto simp: takeWhile_append2 dropWhile_append2)
    then show ?thesis by (simp add: cut_at_def)
  qed
  have "TrimSpace n = n" using ne h l by (simp add: trimmed no_leading no_trailing)
  then show ?thesis
    by (simp only: credentialAssignment_def mark trim export Let_def cut if_False option.case prod.case)
      (simp add: quoted quoted_trimmed)
qed

text \<open>No value that passes the checks breaks the line.\<close>

lemma valid_secret_line:
  assumes "validateModelCredential s = None" and "env_name n"
  shows "line_feed \<notin> set (n @ ''='' @ quoteCredentialValue s)"
proof -
  have "c \<in> set s \<Longrightarrow> of_char c < (32 :: nat) \<Longrightarrow> has_control s" for c
    by (induction s) (auto split: if_splits)
  moreover have "of_char line_feed < (32 :: nat)" by code_simp
  ultimately have "line_feed \<notin> set s" using assms(1) by (auto simp: validateModelCredential_def split: if_splits)
  then have "line_feed \<notin> set (escaped s)" by (induction s) (auto simp: line_feed_def)
  then show ?thesis using env_name_chars(5) [OF assms(2)] by (auto simp: quoted line_feed_def)
qed

subsection \<open>The edits\<close>

lemma bodies_join: "list_all line_ok ls \<Longrightarrow> line_feed \<notin> set s \<Longrightarrow> bodies (joinCredentialLines ls @ s) = map fst (ls @ tail_lines s)"
  by (simp add: bodies_def split_joined split_tail tail_lines_def)

lemma bodies_replaced:
  assumes line: "line_feed \<notin> set asg" "asg \<noteq> []" "last asg \<noteq> carriage" and i: "i < length (splitCredentialLines s)"
  shows "bodies (joinCredentialLines ((splitCredentialLines s)[i := (asg, snd (splitCredentialLines s ! i))]))
    = (bodies s)[i := asg]"
proof -
  obtain ls t where p: "splitCredentialLines s = ls @ tail_lines t" "list_all line_ok ls" "line_feed \<notin> set t"
    "s = joinCredentialLines ls @ t" using split_parts by blast
  show ?thesis
  proof (cases "i < length ls")
    case True
    let ?ls = "ls[i := (asg, snd (ls ! i))]"
    have "line_ok (asg, snd (ls ! i))" using p(2) True line by (auto simp: line_ok_def list_all_length)
    then have "list_all line_ok ?ls" using p(2) True by (auto simp: list_all_length nth_list_update)
    then show ?thesis
      using bodies_join [of ?ls t] p True
      by (simp add: list_update_append nth_append bodies_def map_update)
  next
    case False
    with i p have "t \<noteq> []" "i = length ls" by (auto simp: tail_lines_def split: if_splits)
    then show ?thesis
      using bodies_join [of ls asg] p line by (simp add: list_update_append nth_append bodies_def tail_lines_def)
  qed
qed

lemma bodies_appended:
  assumes line: "line_feed \<notin> set asg" "last asg \<noteq> carriage" and s: "s = [] \<or> last s \<noteq> carriage"
  shows "bodies ((if s \<noteq> [] \<and> last s \<noteq> line_feed \<and> last s \<noteq> carriage then s @ [line_feed] else s) @ asg @ [line_feed])
    = bodies s @ [asg]"
proof -
  obtain ls t where p: "splitCredentialLines s = ls @ tail_lines t" "list_all line_ok ls" "line_feed \<notin> set t"
    "s = joinCredentialLines ls @ t" using split_parts by blast
  have asg: "line_ok (asg, [line_feed])" using line by (auto simp: line_ok_def)
  show ?thesis
  proof (cases "t = []")
    case True
    have "s = [] \<or> last s = line_feed"
      using p(2,4) True by (cases ls rule: rev_cases) (auto simp: line_ok_def)
    then have "(if s \<noteq> [] \<and> last s \<noteq> line_feed \<and> last s \<noteq> carriage then s @ [line_feed] else s) = s" by auto
    then show ?thesis
      using bodies_join [of "ls @ [(asg, [line_feed])]" "[]"] asg p True by (simp add: bodies_def tail_lines_def)
  next
    case False
    with p s have "last s \<noteq> line_feed" "last s \<noteq> carriage" "last t \<noteq> carriage" by (auto dest: last_in_set)
    with False p have "line_ok (t, [line_feed])" "s \<noteq> []" by (auto simp: line_ok_def)
    then show ?thesis
      using bodies_join [of "ls @ [(t, [line_feed]), (asg, [line_feed])]" "[]"] asg p False
        \<open>last s \<noteq> line_feed\<close> \<open>last s \<noteq> carriage\<close> by (simp add: bodies_def tail_lines_def)
  qed
qed

lemma bodies_deleted:
  assumes "splitCredentialLines s = a @ l # b"
  shows "bodies (joinCredentialLines (a @ b)) = map fst a @ map fst b"
proof -
  obtain ls t where p: "splitCredentialLines s = ls @ tail_lines t" "list_all line_ok ls" "line_feed \<notin> set t"
    using split_parts by blast
  show ?thesis
  proof (cases "length a < length ls")
    case True
    with p(1) assms obtain b' where "ls = a @ l # b'" "b = b' @ tail_lines t"
      by (auto simp: append_eq_append_conv2 Cons_eq_append_conv) 
    with p bodies_join [of "a @ b'" t] show ?thesis by simp
  next
    case False
    have "length a + Suc (length b) = length ls + length (tail_lines t)"
      using p(1) assms by (metis length_Cons length_append)
    moreover have "length (tail_lines t) \<le> 1" by (simp add: tail_lines_def)
    ultimately have "length a = length ls" "length b = 0" using False by linarith+
    then have "a = ls" "b = []" using p(1) assms by (simp_all add: append_eq_append_conv)
    with p bodies_join [of ls "[]"] show ?thesis by (simp add: tail_lines_def)
  qed
qed

subsection \<open>What an edit does\<close>

lemma one_name: "credentialAssignment b n \<noteq> None \<Longrightarrow> k \<noteq> n \<Longrightarrow> credentialAssignment b k = None"
  by (auto simp: credentialAssignment_def Let_def split: option.splits if_splits)

definition assignment_line :: "string \<Rightarrow> string \<Rightarrow> string" where
  "assignment_line n secret = n @ ''='' @ quoteCredentialValue secret"

lemma assignment_line_ends: "assignment_line n secret \<noteq> []" "last (assignment_line n secret) \<noteq> carriage"
  by (simp_all add: assignment_line_def quoted carriage_def)

lemma assignment_line_unmarked: "env_name n \<Longrightarrow> \<not> HasPrefix (assignment_line n secret) byte_order_mark"
  using env_name_chars(6) [of n "hd n"]
  by (cases n) (auto simp: env_name_def assignment_line_def HasPrefix_def byte_order_mark_def)

text \<open>An edit leaves one line that assigns the name, among the lines that do not.\<close>

lemma replaced_bodies:
  assumes r: "replaceCredentialAssignment data n secret = Inr updated"
    and v: "validateModelCredential secret = None" and n: "env_name n"
    and strip: "stripCredentialBOM data = (s, mark)" and s: "s = [] \<or> last s \<noteq> carriage"
  shows "\<exists>s' pre post. updated = restoreCredentialBOM s' mark \<and> bodies s' = pre @ assignment_line n secret # post
    \<and> assigned n (pre @ post) = [] \<and> set (pre @ post) \<subseteq> set (bodies s)
    \<and> (\<forall>k. k \<noteq> n \<longrightarrow> assigned k (pre @ post) = assigned k (bodies s))"
proof -
  let ?lines = "splitCredentialLines s" and ?asg = "assignment_line n secret"
  have line: "line_feed \<notin> set ?asg" using valid_secret_line [OF v n] by (simp add: assignment_line_def)
  from r strip obtain found where found: "assigned_line n 0 None ?lines = Inr found"
    by (auto simp: replaceCredentialAssignment_def Let_def split: sum.splits)
  from iffD1 [OF assigned_line_spec found] show ?thesis
  proof (elim disjE exE conjE)
    assume none: "found = None" "assigned n (map fst ?lines) = []"
    let ?s' = "(if s \<noteq> [] \<and> last s \<noteq> line_feed \<and> last s \<noteq> carriage then s @ [line_feed] else s) @ ?asg @ [line_feed]"
    have "updated = restoreCredentialBOM ?s' mark"
      using r strip found none by (simp add: replaceCredentialAssignment_def assignment_line_def Let_def)
    with bodies_appended [OF line assignment_line_ends(2) s] none show ?thesis
      by - (rule exI [of _ ?s'], rule exI [of _ "bodies s"], rule exI [of _ "[]"], simp add: bodies_def)
  next
    fix a l b
    assume some: "?lines = a @ l # b" "found = Some (0 + length a)" "credentialAssignment (fst l) n \<noteq> None"
      "assigned n (map fst a) = []" "assigned n (map fst b) = []"
    let ?s' = "joinCredentialLines (?lines[length a := (?asg, snd (?lines ! length a))])"
    have "updated = restoreCredentialBOM ?s' mark"
      using r strip found some(2) by (simp add: replaceCredentialAssignment_def assignment_line_def Let_def)
    moreover have "bodies ?s' = map fst a @ ?asg # map fst b"
      using bodies_replaced [OF line assignment_line_ends, of "length a" s] some(1)
      list_update_length [of "map fst a" "fst l" "map fst b" ?asg] by (simp add: bodies_def)
    ultimately show ?thesis using some one_name [OF some(3)]
      by - (rule exI [of _ ?s'], rule exI [of _ "map fst a"], rule exI [of _ "map fst b"], auto simp: bodies_def)
  qed
qed

lemma credential_set:
  assumes r: "replaceCredentialAssignment data n secret = Inr updated"
    and v: "validateModelCredential secret = None" and n: "env_name n" and marked: "marked_once data"
    and s: "last (line_feed # fst (stripCredentialBOM data)) \<noteq> carriage"
  shows "credentialConfigured updated n = Inr True"
    and "k \<noteq> n \<Longrightarrow> credentialConfigured updated k = credentialConfigured data k"
proof -
  obtain t mark where strip: "stripCredentialBOM data = (t, mark)" by force
  have t: "t = [] \<or> last t \<noteq> carriage" using s strip by (cases t) auto
  from replaced_bodies [OF r v n strip t] obtain s' pre post where
    u: "updated = restoreCredentialBOM s' mark" "bodies s' = pre @ assignment_line n secret # post"
      "assigned n (pre @ post) = []" "set (pre @ post) \<subseteq> set (bodies t)"
      "\<forall>k. k \<noteq> n \<longrightarrow> assigned k (pre @ post) = assigned k (bodies t)" by blast
  have "\<forall>b\<in>set (bodies s'). \<not> HasPrefix b byte_order_mark"
    using u(2,4) marked strip assignment_line_unmarked [OF n] by (auto simp: marked_once_def)
  from assigned_marked [OF this] have new: "credentialConfigured updated k
      = configured_value (assigned k pre @ (if k = n then [quoteCredentialValue secret] else []) @ assigned k post)" for k
    using u(1,2) new_assignment [OF n] by (simp add: credentialConfigured_value assignment_line_def)
  show "credentialConfigured updated n = Inr True"
    using new u(3) quoted_has_value [OF v] by (simp add: configured_value_def)
  show "credentialConfigured updated k = credentialConfigured data k" if "k \<noteq> n"
    using new that u(5) configured_stripped [OF marked strip] by simp
qed

lemma credential_deleted:
  assumes d: "deleteCredentialAssignment data n = Inr (updated, True)" and marked: "marked_once data"
  shows "credentialConfigured updated n = Inr False"
    and "k \<noteq> n \<Longrightarrow> credentialConfigured updated k = credentialConfigured data k"
proof -
  obtain s mark where strip: "stripCredentialBOM data = (s, mark)" by force
  let ?lines = "splitCredentialLines s"
  from d strip obtain found where found: "assigned_line n 0 None ?lines = Inr (Some found)"
    and u: "updated = restoreCredentialBOM (joinCredentialLines (take found ?lines @ drop (Suc found) ?lines)) mark"
    by (auto simp: deleteCredentialAssignment_def Let_def split: sum.splits option.splits)
  from iffD1 [OF assigned_line_spec found] obtain a l b where some: "?lines = a @ l # b" "found = length a"
    "credentialAssignment (fst l) n \<noteq> None" "assigned n (map fst a) = []" "assigned n (map fst b) = []" by auto
  let ?s' = "joinCredentialLines (a @ b)"
  have s': "bodies ?s' = map fst a @ map fst b" by (rule bodies_deleted [OF some(1)])
  have "\<forall>b\<in>set (bodies ?s'). \<not> HasPrefix b byte_order_mark"
    using s' marked strip some(1) by (auto simp: marked_once_def bodies_def)
  from assigned_marked [OF this] have new: "credentialConfigured updated k
      = configured_value (assigned k (map fst a) @ assigned k (map fst b))" for k
    using u some(1,2) s' by (simp add: credentialConfigured_value)
  show "credentialConfigured updated n = Inr False"
    using new some(4,5) by (simp add: configured_value_def)
  show "credentialConfigured updated k = credentialConfigured data k" if "k \<noteq> n"
    using new that configured_stripped [OF marked strip] one_name [OF some(3)] some(1)
    by (simp add: bodies_def)
qed


definition example_env :: string where
  "example_env = ''A=four'' @ [line_feed] @ ''export B_K='' @ [CHR 0x27] @ ''null'' @ [CHR 0x27]"

lemma short_secret_valid:
  assumes "4 \<le> length s" and "length s \<le> 100" and "ValidString s" and "\<not> Contains s variable_mark"
    and "TrimSpace s = s" and "\<not> isCredentialPlaceholder s" and "\<not> has_control s"
  shows "validateModelCredential s = None"
  using assms by (simp add: validateModelCredential_def modelCredentialMaxValue_def)

definition example_updated :: string where
  "example_updated =
     example_env @ [line_feed] @ ''C='' @ [CHR 0x22, CHR ''x'', CHR 0x5C, CHR 0x22] @ ''yz'' @ [CHR 0x22, line_feed]"


end
