(* ===== verification/Hermes_Model.thy ===== *)
theory Hermes_Model
  imports Hermes_Env Hermes_Version Model_Service Json_Text_Properties
begin

text \<open>
  The model manager of the Hermes adapter (runtime/hermes: model\_preset.go, model\_contract.go,
  model\_credential.go, model\_config.go, model\_validation.go): the qualified Providers, the store that
  keeps their credentials in a profile's \<open>.env\<close>, and the configuration that the Hermes command
  reads and writes. Running the command is a parameter that acts on a world; what other processes
  do to the disk between two steps of the store is a function per gap. Separators are slashes.
\<close>

subsection \<open>The qualified Providers (model\_preset.go)\<close>

record modelProviderPreset =
  mp_safe :: provider_preset
  mp_hermes :: string
  mp_env :: string
  mp_catalog_url :: string
  mp_catalog_auth :: string
  mp_catalog_shape :: string

definition qualifiedModelProviderPresets :: "modelProviderPreset list" where
  "qualifiedModelProviderPresets =
     [\<lparr>mp_safe = \<lparr>pp_id = ''deepseek'', pp_display_name = ''DeepSeek'', pp_region = ModelRegionChina,
         pp_recommended = [''deepseek-v4-pro'', ''deepseek-v4-flash''], pp_help = []\<rparr>,
       mp_hermes = ''deepseek'', mp_env = ''DEEPSEEK_API_KEY'',
       mp_catalog_url = ''https://api.deepseek.com/models'', mp_catalog_auth = ''bearer'',
       mp_catalog_shape = ''openai''\<rparr>,
      \<lparr>mp_safe = \<lparr>pp_id = ''qwen'', pp_display_name = ''Qwen / Alibaba DashScope'',
         pp_region = ModelRegionChina,
         pp_recommended = [''qwen3.7-max'', ''qwen3.7-plus'', ''qwen3.6-plus''],
         pp_help = ''Hermes uses the qualified DashScope international compatible endpoint.''\<rparr>,
       mp_hermes = ''alibaba'', mp_env = ''DASHSCOPE_API_KEY'',
       mp_catalog_url = ''https://dashscope-intl.aliyuncs.com/api/v1/models?providers=qwen&capabilities=TG&page_no=1&page_size=500'',
       mp_catalog_auth = ''bearer'', mp_catalog_shape = ''dashscope''\<rparr>,
      \<lparr>mp_safe = \<lparr>pp_id = ''kimi'', pp_display_name = ''Kimi / Moonshot (China)'',
         pp_region = ModelRegionChina, pp_recommended = [''kimi-k3'', ''kimi-k2.7-code'', ''kimi-k2.6''],
         pp_help = []\<rparr>,
       mp_hermes = ''kimi-coding-cn'', mp_env = ''KIMI_CN_API_KEY'',
       mp_catalog_url = ''https://api.moonshot.cn/v1/models'', mp_catalog_auth = ''bearer'',
       mp_catalog_shape = ''openai''\<rparr>,
      \<lparr>mp_safe = \<lparr>pp_id = ''minimax'', pp_display_name = ''MiniMax (China)'', pp_region = ModelRegionChina,
         pp_recommended = [''MiniMax-M3'', ''MiniMax-M2.7'', ''MiniMax-M2.5''], pp_help = []\<rparr>,
       mp_hermes = ''minimax-cn'', mp_env = ''MINIMAX_CN_API_KEY'',
       mp_catalog_url = ''https://api.minimaxi.com/v1/models'', mp_catalog_auth = ''bearer'',
       mp_catalog_shape = ''openai''\<rparr>,
      \<lparr>mp_safe = \<lparr>pp_id = ''glm'', pp_display_name = ''GLM / Zhipu'', pp_region = ModelRegionChina,
         pp_recommended = [''glm-5.2'', ''glm-5.1'', ''glm-5''],
         pp_help = ''Hermes selects the qualified Z.AI endpoint for this provider.''\<rparr>,
       mp_hermes = ''zai'', mp_env = ''GLM_API_KEY'',
       mp_catalog_url = ''https://api.z.ai/api/paas/v4/models'', mp_catalog_auth = ''bearer'',
       mp_catalog_shape = ''openai''\<rparr>,
      \<lparr>mp_safe = \<lparr>pp_id = ''openrouter'', pp_display_name = ''OpenRouter'', pp_region = ModelRegionGlobal,
         pp_recommended = [''anthropic/claude-sonnet-4.6'', ''openai/gpt-5.4''], pp_help = []\<rparr>,
       mp_hermes = ''openrouter'', mp_env = ''OPENROUTER_API_KEY'',
       mp_catalog_url = ''https://openrouter.ai/api/v1/models'', mp_catalog_auth = ''bearer'',
       mp_catalog_shape = ''openai''\<rparr>,
      \<lparr>mp_safe = \<lparr>pp_id = ''openai'', pp_display_name = ''OpenAI'', pp_region = ModelRegionGlobal,
         pp_recommended = [''gpt-5.6-sol'', ''gpt-5.6-terra'', ''gpt-5.4''], pp_help = []\<rparr>,
       mp_hermes = ''openai-api'', mp_env = ''OPENAI_API_KEY'',
       mp_catalog_url = ''https://api.openai.com/v1/models'', mp_catalog_auth = ''bearer'',
       mp_catalog_shape = ''openai''\<rparr>,
      \<lparr>mp_safe = \<lparr>pp_id = ''anthropic'', pp_display_name = ''Anthropic'', pp_region = ModelRegionGlobal,
         pp_recommended = [''claude-fable-5'', ''claude-sonnet-5'', ''claude-opus-4-8''], pp_help = []\<rparr>,
       mp_hermes = ''anthropic'', mp_env = ''ANTHROPIC_API_KEY'',
       mp_catalog_url = ''https://api.anthropic.com/v1/models?limit=1000'', mp_catalog_auth = ''anthropic'',
       mp_catalog_shape = ''openai''\<rparr>]"

definition manager_ListProviderPresets :: "provider_preset list" where
  "manager_ListProviderPresets = map mp_safe qualifiedModelProviderPresets"

text \<open>\<open>None\<close> is \<open>errModelProviderUnsupported\<close>.\<close>

definition lookupModelProviderPreset :: "string \<Rightarrow> modelProviderPreset option" where
  "lookupModelProviderPreset i = first_match (\<lambda>p. pp_id (mp_safe p) = i) qualifiedModelProviderPresets"

subsection \<open>The disk\<close>

text \<open>
  What a name shows: a regular file has the size and the permissions that \<open>Lstat\<close> reports and the
  bytes that reading it gives, or no bytes when it cannot be opened or read.
\<close>

datatype disk_entry =
    NoEntry
  | StatFails
  | LinkEntry   \<comment> \<open>a symbolic link or a reparse point\<close>
  | DirEntry
  | OtherEntry
  | FileEntry nat nat "string option"

type_synonym disk = "string \<Rightarrow> disk_entry"

definition path_dir :: "string \<Rightarrow> string" where
  "path_dir p =
     (let d = rev (dropWhile (\<lambda>c. c \<noteq> CHR ''/'') (rev p)) in
      if d = [] then ''.'' else if d = ''/'' then d else butlast d)"

definition join_path :: "string \<Rightarrow> string \<Rightarrow> string" where
  "join_path a b = (if a = ''/'' then a @ b else a @ ''/'' @ b)"

fun guard_reparse :: "nat \<Rightarrow> disk \<Rightarrow> string \<Rightarrow> bool" where
  "guard_reparse 0 d p = True"
| "guard_reparse (Suc n) d p =
     (case d p of
        NoEntry \<Rightarrow> path_dir p = p \<or> guard_reparse n d (path_dir p)
      | StatFails \<Rightarrow> False
      | LinkEntry \<Rightarrow> False
      | _ \<Rightarrow> path_dir p = p \<or> guard_reparse n d (path_dir p))"

text \<open>\<open>rejectReparsePoint\<close> of this package looks at eight names at most.\<close>

definition rejectReparsePoint :: "disk \<Rightarrow> string \<Rightarrow> bool" where
  "rejectReparsePoint d p = (\<not> guard_reparse 8 d p)"

subsection \<open>The credential store (model\_credential.go)\<close>

record credentialSnapshot =
  so_exists :: bool
  so_data :: string
  so_mode :: nat

definition observeCredentialFile :: "disk \<Rightarrow> string \<Rightarrow> credential_error + credentialSnapshot" where
  "observeCredentialFile d p =
     (case d p of
        NoEntry \<Rightarrow> Inr \<lparr>so_exists = False, so_data = [], so_mode = 0\<rparr>
      | StatFails \<Rightarrow> Inl errModelCredentialQuery
      | FileEntry n mode content \<Rightarrow>
          if n > modelCredentialMaxFile then Inl errModelCredentialUnsafe
          else (case map_option (take (modelCredentialMaxFile + 1)) content of
                  None \<Rightarrow> Inl errModelCredentialQuery
                | Some data \<Rightarrow>
                    if length data > modelCredentialMaxFile
                       \<or> \<not> ValidString (TrimPrefix data byte_order_mark)
                    then Inl errModelCredentialUnsafe
                    else Inr \<lparr>so_exists = True, so_data = data, so_mode = mode\<rparr>)
      | _ \<Rightarrow> Inl errModelCredentialUnsafe)"

definition snapshotsEqual :: "credentialSnapshot \<Rightarrow> credentialSnapshot \<Rightarrow> bool" where
  "snapshotsEqual l r \<longleftrightarrow> so_exists l = so_exists r \<and> so_mode l = so_mode r \<and> so_data l = so_data r"

text \<open>
  The outcomes of the system calls of one commit, and what others do to the disk before each of
  its four looks: the first observation, the second (where the store's \<open>beforeReplace\<close> hook runs),
  the replacement and the last observation.
\<close>

record credential_env =
  ce_temp :: "string option"   \<comment> \<open>the random part of the name; \<open>None\<close> when creating fails\<close>
  ce_mode :: nat               \<comment> \<open>what Lstat reports of a file with mode 0600\<close>
  ce_chmod :: bool
  ce_write :: "nat option"     \<comment> \<open>the bytes written before the failure, if it fails\<close>
  ce_sync :: bool
  ce_close :: bool
  ce_replace :: bool
  ce_remove :: bool
  ce_before_first :: "disk \<Rightarrow> disk"
  ce_before_second :: "disk \<Rightarrow> disk"
  ce_before_replace :: "disk \<Rightarrow> disk"
  ce_before_last :: "disk \<Rightarrow> disk"

definition commit_temp ::
  "credential_env \<Rightarrow> string \<Rightarrow> credentialSnapshot \<Rightarrow> string \<Rightarrow> string \<Rightarrow> disk
     \<Rightarrow> disk \<times> credential_error option" where
  "commit_temp e p expected payload t d =
     (if \<not> ce_chmod e then (d, Some errModelCredentialWrite)
      else case ce_write e of
        Some n \<Rightarrow>
          (d(t := FileEntry (min n (length payload)) (ce_mode e) (Some (take n payload))),
           Some errModelCredentialWrite)
      | None \<Rightarrow>
     (let d1 = d(t := FileEntry (length payload) (ce_mode e) (Some payload)) in
      if \<not> ce_sync e \<or> \<not> ce_close e then (d1, Some errModelCredentialWrite)
      else let d2 = ce_before_second e d1 in
      case observeCredentialFile d2 p of
        Inl x \<Rightarrow> (d2, Some x)
      | Inr current \<Rightarrow>
          if \<not> snapshotsEqual current expected then (d2, Some errModelCredentialConflict)
          else let d3 = ce_before_replace e d2 in
          if \<not> ce_replace e \<or> d3 t = NoEntry then (d3, Some errModelCredentialWrite)
          else let d4 = ce_before_last e (d3(p := d3 t, t := NoEntry)) in
          (d4, case observeCredentialFile d4 p of
                 Inl _ \<Rightarrow> Some errModelCredentialWrite
               | Inr o' \<Rightarrow>
                   if \<not> so_exists o' \<or> so_data o' \<noteq> payload then Some errModelCredentialWrite else None)))"

definition temp_path :: "string \<Rightarrow> string \<Rightarrow> string" where
  "temp_path p rnd = join_path (path_dir p) (''.yorva-model-credential-'' @ rnd)"

definition credential_commit ::
  "credential_env \<Rightarrow> string \<Rightarrow> credentialSnapshot \<Rightarrow> string \<Rightarrow> disk \<Rightarrow> disk \<times> credential_error option" where
  "credential_commit e p expected payload d =
     (let d0 = ce_before_first e d in
      case observeCredentialFile d0 p of
        Inl x \<Rightarrow> (d0, Some x)
      | Inr current \<Rightarrow>
          if \<not> snapshotsEqual current expected then (d0, Some errModelCredentialConflict)
          else case ce_temp e of
            None \<Rightarrow> (d0, Some errModelCredentialWrite)
          | Some rnd \<Rightarrow>
              (let t = temp_path p rnd;
                   (d1, r) = commit_temp e p expected payload t (d0(t := FileEntry 0 (ce_mode e) (Some [])))
               in (if ce_remove e then d1(t := NoEntry) else d1, r)))"

record credential_store =
  cs_root :: string
  cs_abs :: "string \<Rightarrow> bool"
  cs_lower :: "string \<Rightarrow> string"

definition modelCredentialFileName :: string where "modelCredentialFileName = ''.env''"

text \<open>\<open>filepath.Rel\<close> between clean names; any other pair gives a name that leads upwards, or an error.\<close>

definition rel_path :: "string \<Rightarrow> string \<Rightarrow> string option" where
  "rel_path root p =
     (if HasPrefix p (join_path root []) then Some (drop (length (join_path root [])) p) else None)"

definition credentialPath :: "credential_store \<Rightarrow> disk \<Rightarrow> string \<Rightarrow> credential_error + string" where
  "credentialPath st d native =
     (if cs_root st = [] \<or> \<not> cs_abs st (cs_root st) then Inl errModelCredentialUnsafe
      else case officialNormalizeProfileName (cs_lower st) native of
        None \<Rightarrow> Inl errModelCredentialUnsafe
      | Some normalized \<Rightarrow>
          if \<not> officialValidateProfileName normalized then Inl errModelCredentialUnsafe
          else (let root = (if normalized \<noteq> ''default''
                            then join_path (join_path (cs_root st) ''profiles'') normalized else cs_root st);
                    p = join_path root modelCredentialFileName in
                if rejectReparsePoint d root then Inl errModelCredentialUnsafe
                else if d root \<noteq> DirEntry then Inl errModelCredentialUnsafe
                else case rel_path (cs_root st) p of
                  None \<Rightarrow> Inl errModelCredentialUnsafe
                | Some rel \<Rightarrow>
                    if rel = ''.'' \<or> rel = ''..'' \<or> HasPrefix rel ''../'' \<or> cs_abs st rel
                    then Inl errModelCredentialUnsafe else Inr p))"

definition credential_Status ::
  "credential_store \<Rightarrow> string \<Rightarrow> string \<Rightarrow> disk \<Rightarrow> credential_error + credential_status" where
  "credential_Status st native preset d =
     (case lookupModelProviderPreset preset of
        None \<Rightarrow> Inl errCredentialProviderUnsupported
      | Some q \<Rightarrow>
     (case credentialPath st d native of
        Inl e \<Rightarrow> Inl e
      | Inr p \<Rightarrow>
     (case observeCredentialFile d p of
        Inl e \<Rightarrow> Inl e
      | Inr snapshot \<Rightarrow>
     (case credentialConfigured (so_data snapshot) (mp_env q) of
        Inl e \<Rightarrow> Inl e
      | Inr configured \<Rightarrow> Inr \<lparr>ct_preset = preset, ct_configured = configured\<rparr>))))"

definition credential_Set ::
  "credential_store \<Rightarrow> credential_env \<Rightarrow> string \<Rightarrow> string \<Rightarrow> string \<Rightarrow> disk
     \<Rightarrow> disk \<times> (credential_error + credential_status)" where
  "credential_Set st e native preset secret d =
     (case lookupModelProviderPreset preset of
        None \<Rightarrow> (d, Inl errCredentialProviderUnsupported)
      | Some q \<Rightarrow>
     (case validateModelCredential secret of
        Some x \<Rightarrow> (d, Inl x)
      | None \<Rightarrow>
     (case credentialPath st d native of
        Inl x \<Rightarrow> (d, Inl x)
      | Inr p \<Rightarrow>
     (case observeCredentialFile d p of
        Inl x \<Rightarrow> (d, Inl x)
      | Inr snapshot \<Rightarrow>
     (case replaceCredentialAssignment (so_data snapshot) (mp_env q) secret of
        Inl x \<Rightarrow> (d, Inl x)
      | Inr updated \<Rightarrow>
          if updated = so_data snapshot then (d, Inr \<lparr>ct_preset = preset, ct_configured = True\<rparr>)
          else (case credential_commit e p snapshot updated d of
                  (d1, Some x) \<Rightarrow> (d1, Inl x)
                | (d1, None) \<Rightarrow> (d1, Inr \<lparr>ct_preset = preset, ct_configured = True\<rparr>)))))))"

definition credential_Delete ::
  "credential_store \<Rightarrow> credential_env \<Rightarrow> string \<Rightarrow> string \<Rightarrow> disk
     \<Rightarrow> disk \<times> (credential_error + credential_status)" where
  "credential_Delete st e native preset d =
     (case lookupModelProviderPreset preset of
        None \<Rightarrow> (d, Inl errCredentialProviderUnsupported)
      | Some q \<Rightarrow>
     (case credentialPath st d native of
        Inl x \<Rightarrow> (d, Inl x)
      | Inr p \<Rightarrow>
     (case observeCredentialFile d p of
        Inl x \<Rightarrow> (d, Inl x)
      | Inr snapshot \<Rightarrow>
     (case deleteCredentialAssignment (so_data snapshot) (mp_env q) of
        Inl x \<Rightarrow> (d, Inl x)
      | Inr (updated, found) \<Rightarrow>
          if \<not> found then (d, Inr \<lparr>ct_preset = preset, ct_configured = False\<rparr>)
          else (case credential_commit e p snapshot updated d of
                  (d1, Some x) \<Rightarrow> (d1, Inl x)
                | (d1, None) \<Rightarrow> (d1, Inr \<lparr>ct_preset = preset, ct_configured = False\<rparr>))))))"

subsection \<open>The arguments of the command (model\_contract.go)\<close>

definition modelConfigRootKey :: string where "modelConfigRootKey = ''model''"
definition modelProviderConfigKey :: string where "modelProviderConfigKey = ''model.provider''"
definition modelDefaultConfigKey :: string where "modelDefaultConfigKey = ''model.default''"
definition contextEngineConfigKey :: string where "contextEngineConfigKey = ''context.engine''"
definition toolsDisabledToolset :: string where "toolsDisabledToolset = ''context_engine''"
definition defaultContextEngine :: string where "defaultContextEngine = ''compressor''"

definition modelValidationPrompt :: string where
  "modelValidationPrompt = ''Reply with exactly YORVA_CONNECTION_OK and do not perform any other action.''"

definition modelConfigGetArgs :: "string \<Rightarrow> string \<Rightarrow> string list" where
  "modelConfigGetArgs native k = [''--profile'', native, ''config'', ''get'', k, ''--json'']"

definition modelConfigSetArgs :: "string \<Rightarrow> string \<Rightarrow> string \<Rightarrow> string list" where
  "modelConfigSetArgs native k v = [''--profile'', native, ''config'', ''set'', k, v]"

definition modelValidationArgs :: "string \<Rightarrow> modelProviderPreset \<Rightarrow> string \<Rightarrow> string list" where
  "modelValidationArgs native q model =
     [''--profile'', native, ''--provider'', mp_hermes q, ''--model'', model,
      ''--toolsets'', toolsDisabledToolset, ''--oneshot'', modelValidationPrompt]"

subsection \<open>Names and output (model\_config.go)\<close>

definition modelIDMaxLength :: nat where "modelIDMaxLength = 200"
definition modelConfigOutputMaxBytes :: nat where "modelConfigOutputMaxBytes = 8 * 1024"

definition modelIDPattern :: "string \<Rightarrow> bool" where
  "modelIDPattern s \<longleftrightarrow>
     (case s of
        [] \<Rightarrow> False
      | c # t \<Rightarrow> is_alnum c \<and> length t \<le> 199
               \<and> list_all (\<lambda>x. is_alnum x \<or> x \<in> set ''._:/-'') t)"

text \<open>A name that matches the pattern is ASCII, so folding its case is folding its letters.\<close>

definition validateModelID :: "string \<Rightarrow> bool" where
  "validateModelID v =
     (if length v = 0 \<or> length v > modelIDMaxLength \<or> \<not> modelIDPattern v \<or> Contains v '':/''
         \<or> Contains v ''..'' \<or> HasSuffix v ''/'' then False
      else if list_ex (\<lambda>k. map ascii_fold v = map ascii_fold k)
                [modelProviderConfigKey, modelDefaultConfigKey, contextEngineConfigKey] then False
      else \<not> list_ex (\<lambda>q. map ascii_fold v = map ascii_fold (mp_env q)) qualifiedModelProviderPresets)"

text \<open>
  The output is a JSON object or the empty JSON string; a member that is there is a string, the
  last one of its name. \<open>None\<close> is an error.
\<close>

definition string_member :: "string \<Rightarrow> (string \<times> jval) list \<Rightarrow> string option" where
  "string_member k kvs =
     (case map_of (rev kvs) k of
        None \<Rightarrow> Some []
      | Some (VStr s) \<Rightarrow> Some s
      | Some _ \<Rightarrow> None)"

record nativeModelConfig =
  nc_provider :: string
  nc_model :: string

definition parseNativeModelConfig :: "string \<Rightarrow> nativeModelConfig option" where
  "parseNativeModelConfig output =
     (let trimmed = TrimSpace output in
      if length trimmed = 0 \<or> length trimmed > modelConfigOutputMaxBytes then None
      else if trimmed = [CHR 0x22, CHR 0x22] then Some \<lparr>nc_provider = [], nc_model = []\<rparr>
      else case json_parse trimmed of
        Some (VObj kvs) \<Rightarrow>
          (case (string_member ''provider'' kvs, string_member ''default'' kvs) of
             (Some p, Some m) \<Rightarrow> Some \<lparr>nc_provider = p, nc_model = m\<rparr>
           | _ \<Rightarrow> None)
      | _ \<Rightarrow> None)"

definition parseModelConfigScalar :: "string \<Rightarrow> string option" where
  "parseModelConfigScalar output =
     (let trimmed = TrimSpace output in
      if length trimmed = 0 \<or> length trimmed > 2048 then None
      else case json_parse trimmed of
        Some (VStr v) \<Rightarrow> if v = [] \<or> TrimSpace v \<noteq> v then None else Some v
      | _ \<Rightarrow> None)"

subsection \<open>The manager\<close>

text \<open>
  The world is the disk and whatever the command keeps elsewhere. A validation has a context of
  its own, whose state at a given world is a parameter.
\<close>

record 'w hermes_world =
  hw_disk :: disk
  hw_rest :: 'w

type_synonym 'w model_command =
  "string \<Rightarrow> string \<Rightarrow> string list \<Rightarrow> bool \<Rightarrow> 'w hermes_world \<Rightarrow> 'w hermes_world \<times> command_result"

record 'w model_manager =
  mm_home :: string
  mm_run :: "'w model_command"
  mm_run_validation :: "'w model_command"
  mm_store :: credential_store
  mm_validation_context :: "'w hermes_world \<Rightarrow> context_error option"

definition ValidateModelSelection :: "string \<Rightarrow> string \<Rightarrow> model_error option" where
  "ValidateModelSelection preset model =
     (if lookupModelProviderPreset preset = None then Some ErrModelProviderUnsupported
      else if \<not> validateModelID model then Some ErrModelConfigInvalid else None)"

definition validateModelTarget :: "'w model_manager \<Rightarrow> model_installation \<Rightarrow> string \<Rightarrow> model_error option" where
  "validateModelTarget m inst native =
     (if \<not> isSupportedHermesVersion (mi_version inst) then Some ErrModelProviderUnsupported
      else if mi_executable inst = [] \<or> \<not> cs_abs (mm_store m) (mi_executable inst)
      then Some ErrModelConfigQueryFailed
      else if officialNormalizeProfileName (cs_lower (mm_store m)) native \<noteq> Some native
              \<or> \<not> officialValidateProfileName native then Some ErrModelConfigInvalid
      else None)"

definition command_failed :: "command_result \<Rightarrow> bool" where
  "command_failed r \<longleftrightarrow> cr_error r \<noteq> None \<or> cr_exit r \<noteq> 0 \<or> cr_limited r \<or> cr_timed_out r"

definition readNativeConfig ::
  "'w model_manager \<Rightarrow> string \<Rightarrow> string \<Rightarrow> 'w hermes_world
     \<Rightarrow> 'w hermes_world \<times> (model_error + nativeModelConfig)" where
  "readNativeConfig m executable native w =
     (case mm_run m executable (mm_home m) (modelConfigGetArgs native modelConfigRootKey) False w of
        (w1, r) \<Rightarrow>
          (w1, if command_failed r then Inl ErrModelConfigQueryFailed
               else case parseNativeModelConfig (cr_stdout r) of
                      None \<Rightarrow> Inl ErrModelConfigQueryFailed | Some c \<Rightarrow> Inr c))"

definition readScalar ::
  "'w model_manager \<Rightarrow> string \<Rightarrow> string \<Rightarrow> string \<Rightarrow> 'w hermes_world
     \<Rightarrow> 'w hermes_world \<times> (model_error + string)" where
  "readScalar m executable native k w =
     (case mm_run m executable (mm_home m) (modelConfigGetArgs native k) False w of
        (w1, r) \<Rightarrow>
          (w1, if command_failed r then Inl ErrModelConfigQueryFailed
               else case parseModelConfigScalar (cr_stdout r) of
                      None \<Rightarrow> Inl ErrModelConfigQueryFailed | Some v \<Rightarrow> Inr v))"

definition setScalar ::
  "'w model_manager \<Rightarrow> string \<Rightarrow> string \<Rightarrow> string \<Rightarrow> string \<Rightarrow> 'w hermes_world
     \<Rightarrow> 'w hermes_world \<times> model_error option" where
  "setScalar m executable native k v w =
     (case mm_run m executable (mm_home m) (modelConfigSetArgs native k v) True w of
        (w1, r) \<Rightarrow>
          (w1, if cr_error r = Some RunCanceled then Some (model_context Canceled)
               else if command_failed r then Some ErrModelConfigApplyFailed else None))"

definition no_model_configuration :: model_configuration where
  "no_model_configuration = \<lparr>mf_preset = [], mf_model = [], mf_state = [], mf_credential = False\<rparr>"

definition normalizeConfig ::
  "'w model_manager \<Rightarrow> string \<Rightarrow> nativeModelConfig \<Rightarrow> 'w hermes_world \<Rightarrow> model_error + model_configuration" where
  "normalizeConfig m native c w =
     (if length (nc_provider c) > modelIDMaxLength \<or> (nc_model c \<noteq> [] \<and> \<not> validateModelID (nc_model c))
      then Inl ErrModelConfigQueryFailed
      else case first_match (\<lambda>q. mp_hermes q = nc_provider c) qualifiedModelProviderPresets of
        None \<Rightarrow> Inr \<lparr>mf_preset = [], mf_model = nc_model c, mf_state = ModelConfigurationUnconfigured,
                     mf_credential = False\<rparr>
      | Some q \<Rightarrow>
          (case credential_Status (mm_store m) native (pp_id (mp_safe q)) (hw_disk w) of
             Inl _ \<Rightarrow> Inl ErrModelConfigQueryFailed
           | Inr t \<Rightarrow>
               Inr \<lparr>mf_preset = pp_id (mp_safe q), mf_model = nc_model c,
                    mf_state = (if ct_configured t \<and> nc_model c \<noteq> [] then ModelConfigurationConfigured
                                else ModelConfigurationUnconfigured),
                    mf_credential = ct_configured t\<rparr>))"

text \<open>What a caller that ignores the error sees.\<close>

definition shown :: "model_error + model_configuration \<Rightarrow> model_configuration" where
  "shown r = (case r of Inl _ \<Rightarrow> no_model_configuration | Inr c \<Rightarrow> c)"

definition answer ::
  "'w hermes_world \<times> (model_error + model_configuration)
     \<Rightarrow> 'w hermes_world \<times> model_configuration \<times> model_error option" where
  "answer r = (case r of (w, Inl e) \<Rightarrow> (w, no_model_configuration, Some e) | (w, Inr c) \<Rightarrow> (w, c, None))"

definition ReadModelConfig ::
  "'w model_manager \<Rightarrow> model_installation \<Rightarrow> string \<Rightarrow> 'w hermes_world
     \<Rightarrow> 'w hermes_world \<times> (model_error + model_configuration)" where
  "ReadModelConfig m inst native w =
     (case validateModelTarget m inst native of
        Some e \<Rightarrow> (w, Inl e)
      | None \<Rightarrow>
          if mm_home m = [] \<or> \<not> cs_abs (mm_store m) (mm_home m) then (w, Inl ErrModelConfigQueryFailed)
          else (case readNativeConfig m (mi_executable inst) native w of
             (w1, Inl e) \<Rightarrow> (w1, Inl e)
           | (w1, Inr first) \<Rightarrow>
          (case readNativeConfig m (mi_executable inst) native w1 of
             (w2, Inl e) \<Rightarrow> (w2, Inl e)
           | (w2, Inr confirmed) \<Rightarrow>
               if confirmed \<noteq> first then (w2, Inl ErrModelConfigQueryFailed)
               else (w2, normalizeConfig m native confirmed w2))))"

text \<open>The model is written, and what stands there then is read back and compared.\<close>

definition apply_confirm ::
  "'w model_manager \<Rightarrow> model_installation \<Rightarrow> string \<Rightarrow> string \<Rightarrow> string \<Rightarrow> 'w hermes_world
     \<Rightarrow> 'w hermes_world \<times> model_configuration \<times> model_error option" where
  "apply_confirm m inst native preset model w =
     (case ReadModelConfig m inst native w of
        (w1, Inl _) \<Rightarrow> (w1, no_model_configuration, Some ErrModelConfigIncomplete)
      | (w1, Inr final) \<Rightarrow>
          if mf_preset final \<noteq> preset \<or> mf_model final \<noteq> model
             \<or> mf_state final \<noteq> ModelConfigurationConfigured
          then (w1, final, Some ErrModelConfigIncomplete) else (w1, final, None))"

definition apply_model ::
  "'w model_manager \<Rightarrow> model_installation \<Rightarrow> string \<Rightarrow> string \<Rightarrow> string \<Rightarrow> nativeModelConfig \<Rightarrow> 'w hermes_world
     \<Rightarrow> 'w hermes_world \<times> model_configuration \<times> model_error option" where
  "apply_model m inst native preset model before w =
     (if nc_model before = model then apply_confirm m inst native preset model w
      else case setScalar m (mi_executable inst) native modelDefaultConfigKey model w of
        (w1, None) \<Rightarrow> apply_confirm m inst native preset model w1
      | (w1, Some _) \<Rightarrow>
          (case ReadModelConfig m inst native w1 of
             (w2, r) \<Rightarrow> (w2, shown r, Some ErrModelConfigIncomplete)))"

definition apply_provider ::
  "'w model_manager \<Rightarrow> model_installation \<Rightarrow> string \<Rightarrow> modelProviderPreset \<Rightarrow> string \<Rightarrow> string
     \<Rightarrow> nativeModelConfig \<Rightarrow> 'w hermes_world \<Rightarrow> 'w hermes_world \<times> model_configuration \<times> model_error option" where
  "apply_provider m inst native q preset model before w =
     (if nc_provider before = mp_hermes q then apply_model m inst native preset model before w
      else case setScalar m (mi_executable inst) native modelProviderConfigKey (mp_hermes q) w of
        (w1, Some e) \<Rightarrow> (w1, no_model_configuration, Some e)
      | (w1, None) \<Rightarrow>
     (case readNativeConfig m (mi_executable inst) native w1 of
        (w2, Inl _) \<Rightarrow> (w2, no_model_configuration, Some ErrModelConfigIncomplete)
      | (w2, Inr observed) \<Rightarrow>
          if nc_provider observed \<noteq> mp_hermes q \<or> nc_model observed \<noteq> nc_model before
          then (w2, shown (normalizeConfig m native observed w2), Some ErrInstanceConfigConflict)
          else apply_model m inst native preset model observed w2))"

definition ApplyModelConfig ::
  "'w model_manager \<Rightarrow> model_installation \<Rightarrow> string \<Rightarrow> string \<Rightarrow> string \<Rightarrow> 'w hermes_world
     \<Rightarrow> 'w hermes_world \<times> model_configuration \<times> model_error option" where
  "ApplyModelConfig m inst native preset model w =
     (case validateModelTarget m inst native of
        Some e \<Rightarrow> (w, no_model_configuration, Some e)
      | None \<Rightarrow>
     (case ValidateModelSelection preset model of
        Some e \<Rightarrow> (w, no_model_configuration, Some e)
      | None \<Rightarrow>
     (case lookupModelProviderPreset preset of
        None \<Rightarrow> (w, no_model_configuration, Some ErrModelProviderUnsupported)
      | Some q \<Rightarrow>
     (case credential_Status (mm_store m) native preset (hw_disk w) of
        Inl _ \<Rightarrow> (w, no_model_configuration, Some ErrModelConfigQueryFailed)
      | Inr t \<Rightarrow>
          if \<not> ct_configured t then (w, no_model_configuration, Some ErrModelCredentialRequired)
          else if mm_home m = [] \<or> \<not> cs_abs (mm_store m) (mm_home m)
          then (w, no_model_configuration, Some ErrModelConfigApplyFailed)
          else
     (case readNativeConfig m (mi_executable inst) native w of
        (w1, Inl e) \<Rightarrow> (w1, no_model_configuration, Some e)
      | (w1, Inr before) \<Rightarrow>
          if nc_provider before = mp_hermes q \<and> nc_model before = model
          then answer (w1, normalizeConfig m native before w1)
          else
     (case readNativeConfig m (mi_executable inst) native w1 of
        (w2, Inl e) \<Rightarrow> (w2, no_model_configuration, Some e)
      | (w2, Inr confirmed) \<Rightarrow>
          if confirmed \<noteq> before
          then (w2, shown (normalizeConfig m native confirmed w2), Some ErrInstanceConfigConflict)
          else apply_provider m inst native q preset model before w2))))))"

subsection \<open>The manager's credential calls\<close>

definition normalizeModelCredentialError :: "credential_error \<Rightarrow> bool \<Rightarrow> model_error" where
  "normalizeModelCredentialError e deleting =
     (case e of
        errCredentialProviderUnsupported \<Rightarrow> ErrModelProviderUnsupported
      | errModelCredentialInvalid \<Rightarrow> ErrModelConfigInvalid
      | errModelCredentialConflict \<Rightarrow> ErrInstanceConfigConflict
      | errModelCredentialQuery \<Rightarrow> ErrModelCredentialQueryFailed
      | errModelCredentialUnsafe \<Rightarrow> ErrModelCredentialQueryFailed
      | errModelCredentialWrite \<Rightarrow>
          if deleting then ErrModelCredentialDeleteFailed else ErrModelCredentialWriteFailed)"

text \<open>\<open>cancelled\<close> is the error of the caller's context.\<close>

definition validateModelCredentialTarget ::
  "'w model_manager \<Rightarrow> context_error option \<Rightarrow> model_installation \<Rightarrow> string \<Rightarrow> model_error option" where
  "validateModelCredentialTarget m cancelled inst native =
     (case cancelled of Some x \<Rightarrow> Some (model_context x) | None \<Rightarrow> validateModelTarget m inst native)"

definition manager_CredentialStatus ::
  "'w model_manager \<Rightarrow> context_error option \<Rightarrow> model_installation \<Rightarrow> string \<Rightarrow> string \<Rightarrow> 'w hermes_world
     \<Rightarrow> model_error + credential_status" where
  "manager_CredentialStatus m cancelled inst native preset w =
     (case validateModelCredentialTarget m cancelled inst native of
        Some e \<Rightarrow> Inl e
      | None \<Rightarrow>
          (case credential_Status (mm_store m) native preset (hw_disk w) of
             Inl e \<Rightarrow> Inl (normalizeModelCredentialError e False) | Inr t \<Rightarrow> Inr t))"

definition manager_SetCredential ::
  "'w model_manager \<Rightarrow> context_error option \<Rightarrow> credential_env \<Rightarrow> model_installation \<Rightarrow> string \<Rightarrow> string
     \<Rightarrow> string \<Rightarrow> 'w hermes_world \<Rightarrow> 'w hermes_world \<times> (model_error + credential_status)" where
  "manager_SetCredential m cancelled e inst native preset secret w =
     (case validateModelCredentialTarget m cancelled inst native of
        Some x \<Rightarrow> (w, Inl x)
      | None \<Rightarrow>
          (case credential_Set (mm_store m) e native preset secret (hw_disk w) of
             (d, Inl x) \<Rightarrow> (w\<lparr>hw_disk := d\<rparr>, Inl (normalizeModelCredentialError x False))
           | (d, Inr t) \<Rightarrow> (w\<lparr>hw_disk := d\<rparr>, Inr t)))"

definition manager_DeleteCredential ::
  "'w model_manager \<Rightarrow> context_error option \<Rightarrow> credential_env \<Rightarrow> model_installation \<Rightarrow> string \<Rightarrow> string
     \<Rightarrow> 'w hermes_world \<Rightarrow> 'w hermes_world \<times> (model_error + credential_status)" where
  "manager_DeleteCredential m cancelled e inst native preset w =
     (case validateModelCredentialTarget m cancelled inst native of
        Some x \<Rightarrow> (w, Inl x)
      | None \<Rightarrow>
          (case credential_Delete (mm_store m) e native preset (hw_disk w) of
             (d, Inl x) \<Rightarrow> (w\<lparr>hw_disk := d\<rparr>, Inl (normalizeModelCredentialError x True))
           | (d, Inr t) \<Rightarrow> (w\<lparr>hw_disk := d\<rparr>, Inr t)))"

subsection \<open>Validation (model\_validation.go)\<close>

definition unknownModelValidation :: "error_code \<Rightarrow> validation_result" where
  "unknownModelValidation code = \<lparr>vl_state = ModelValidationUnknown, vl_code = code\<rparr>"

definition failed_validation :: validation_result where
  "failed_validation = \<lparr>vl_state = ModelValidationFailed, vl_code = ErrorModelValidationFailed\<rparr>"

definition modelValidationContextFailure :: "context_error option \<Rightarrow> error_code \<Rightarrow> validation_result" where
  "modelValidationContextFailure ctx fallback =
     (case ctx of
        Some Canceled \<Rightarrow> unknownModelValidation ErrorModelValidationCancelled
      | Some DeadlineExceeded \<Rightarrow> unknownModelValidation ErrorModelValidationTimedOut
      | None \<Rightarrow> unknownModelValidation fallback)"

definition judge_validation :: "context_error option \<Rightarrow> command_result \<Rightarrow> validation_result" where
  "judge_validation ctx r =
     (if cr_error r = Some RunCanceled \<or> ctx = Some Canceled
      then unknownModelValidation ErrorModelValidationCancelled
      else if cr_timed_out r \<or> cr_error r = Some RunDeadline \<or> ctx = Some DeadlineExceeded
      then unknownModelValidation ErrorModelValidationTimedOut
      else if cr_limited r then unknownModelValidation ErrorModelValidationOutputLimit
      else if cr_error r \<noteq> None \<or> cr_exit r \<noteq> 0 then failed_validation
      else \<lparr>vl_state = ModelValidationPassed, vl_code = []\<rparr>)"

definition manager_ValidateModel ::
  "'w model_manager \<Rightarrow> model_installation \<Rightarrow> string \<Rightarrow> string \<Rightarrow> string \<Rightarrow> 'w hermes_world
     \<Rightarrow> 'w hermes_world \<times> validation_result" where
  "manager_ValidateModel m inst native preset model w =
     (if validateModelTarget m inst native \<noteq> None then (w, unknownModelValidation ErrorModelValidationUnsafe)
      else case lookupModelProviderPreset preset of
        None \<Rightarrow> (w, unknownModelValidation ErrorModelValidationUnsafe)
      | Some q \<Rightarrow>
          if \<not> validateModelID model then (w, unknownModelValidation ErrorModelValidationUnsafe)
          else (case manager_CredentialStatus m (mm_validation_context m w) inst native preset w of
             Inl _ \<Rightarrow> (w, modelValidationContextFailure (mm_validation_context m w) ErrorModelValidationUnsafe)
           | Inr t \<Rightarrow>
               if \<not> ct_configured t then (w, failed_validation)
               else (case readScalar m (mi_executable inst) native contextEngineConfigKey w of
                  (w1, Inl _) \<Rightarrow>
                    (w1, modelValidationContextFailure (mm_validation_context m w1) ErrorModelValidationUnsafe)
                | (w1, Inr engine) \<Rightarrow>
                    if engine \<noteq> defaultContextEngine then (w1, unknownModelValidation ErrorModelValidationUnsafe)
                    else (case mm_run_validation m (mi_executable inst) (mm_home m)
                                 (modelValidationArgs native q model) False w1 of
                       (w2, r) \<Rightarrow> (w2, judge_validation (mm_validation_context m w2) r)))))"

subsection \<open>The Providers are told apart\<close>

lemma presets_distinct:
  "list_all (\<lambda>q. first_match (\<lambda>p. mp_hermes p = mp_hermes q) qualifiedModelProviderPresets = Some q
     \<and> env_name (mp_env q)) qualifiedModelProviderPresets"
  by code_simp

lemma looked_up:
  assumes "lookupModelProviderPreset i = Some q"
  shows "pp_id (mp_safe q) = i" and "env_name (mp_env q)"
    and "first_match (\<lambda>p. mp_hermes p = mp_hermes q) qualifiedModelProviderPresets = Some q"
  using assms presets_distinct
  by (auto simp: lookupModelProviderPreset_def list_all_iff dest: first_match_Some)

subsection \<open>A commit compares and swaps\<close>

lemma snapshotsEqual_iff [simp]: "snapshotsEqual l r \<longleftrightarrow> l = r"
  by (cases l; cases r) (auto simp: snapshotsEqual_def)

lemma path_dir_join: "root \<noteq> [] \<Longrightarrow> path_dir (join_path root modelCredentialFileName) = root"
  by (auto simp: path_dir_def join_path_def modelCredentialFileName_def Let_def)

lemma join_path_not_Nil [simp]: "join_path a b \<noteq> []"
  by (simp add: join_path_def)

lemma credentialPath_below:
  "credentialPath st d native = Inr p \<Longrightarrow> \<exists>root. root \<noteq> [] \<and> p = join_path root modelCredentialFileName"
proof -
  have below: "root \<noteq> [] \<Longrightarrow> \<exists>r. r \<noteq> [] \<and> join_path root f = join_path r f" for root f by blast
  assume "credentialPath st d native = Inr p"
  then show ?thesis
    by (auto simp: credentialPath_def Let_def intro!: below split: if_splits option.splits)
qed

lemma temp_is_another_file: "credentialPath st d native = Inr p \<Longrightarrow> temp_path p rnd \<noteq> p"
  using credentialPath_below [of st d native p]
  by (auto simp: temp_path_def path_dir_join) (auto simp: join_path_def modelCredentialFileName_def split: if_splits)

lemma observe_other: "t \<noteq> p \<Longrightarrow> observeCredentialFile (d(t := x)) p = observeCredentialFile d p"
  by (simp add: observeCredentialFile_def)

lemma commit_temp_done:
  assumes "commit_temp e p snap payload t d = (d', None)" and "t \<noteq> p"
  shows "\<exists>x. x p = d p \<and> observeCredentialFile (ce_before_second e x) p = Inr snap"
    and "\<exists>now. observeCredentialFile d' p = Inr now \<and> so_data now = payload"
proof -
  let ?x = "d(t := FileEntry (length payload) (ce_mode e) (Some payload))"
  from assms have "observeCredentialFile (ce_before_second e ?x) p = Inr snap"
    by (auto simp: commit_temp_def Let_def split: if_splits option.splits sum.splits)
  then show "\<exists>x. x p = d p \<and> observeCredentialFile (ce_before_second e x) p = Inr snap"
    using assms(2) by (intro exI [of _ ?x]) auto
  from assms show "\<exists>now. observeCredentialFile d' p = Inr now \<and> so_data now = payload"
    by (auto simp: commit_temp_def Let_def split: if_splits option.splits sum.splits)
qed

lemma credential_commit_done:
  assumes "credential_commit e p snap payload d = (d', None)" and t: "\<And>rnd. temp_path p rnd \<noteq> p"
  shows "observeCredentialFile (ce_before_first e d) p = Inr snap"
    and "\<exists>x. x p = ce_before_first e d p \<and> observeCredentialFile (ce_before_second e x) p = Inr snap"
    and "\<exists>now. observeCredentialFile d' p = Inr now \<and> so_data now = payload"
proof -
  from assms(1) obtain rnd d1 where rnd: "ce_temp e = Some rnd"
    "observeCredentialFile (ce_before_first e d) p = Inr snap"
    "commit_temp e p snap payload (temp_path p rnd)
       ((ce_before_first e d)(temp_path p rnd := FileEntry 0 (ce_mode e) (Some []))) = (d1, None)"
    "d' = (if ce_remove e then d1(temp_path p rnd := NoEntry) else d1)"
    by (auto simp: credential_commit_def Let_def split: if_splits option.splits sum.splits prod.splits)
  then show "observeCredentialFile (ce_before_first e d) p = Inr snap" by simp
  note c = commit_temp_done [OF rnd(3) t]
  from c(1) t show "\<exists>x. x p = ce_before_first e d p \<and> observeCredentialFile (ce_before_second e x) p = Inr snap"
    by (metis fun_upd_other)
  from c(2) rnd(4) show "\<exists>now. observeCredentialFile d' p = Inr now \<and> so_data now = payload"
    by (auto simp: observe_other [OF t])
qed

lemma credential_Set_done:
  assumes "credential_Set st e native preset secret d = (d', Inr status)"
    and "lookupModelProviderPreset preset = Some q" and "credentialPath st d native = Inr p"
    and "observeCredentialFile d p = Inr snap"
  obtains updated where "validateModelCredential secret = None"
    "replaceCredentialAssignment (so_data snap) (mp_env q) secret = Inr updated"
    "status = \<lparr>ct_preset = preset, ct_configured = True\<rparr>"
    "updated = so_data snap \<and> d' = d \<or> credential_commit e p snap updated d = (d', None)"
  using assms that
  by (auto simp: credential_Set_def split: option.splits sum.splits if_splits prod.splits)


definition example_store :: credential_store where
  "example_store = \<lparr>cs_root = ''/h'', cs_abs = (\<lambda>p. HasPrefix p ''/''), cs_lower = (\<lambda>s. s)\<rparr>"

definition example_disk :: "string \<Rightarrow> disk" where
  "example_disk content p =
     (if p = ''/'' \<or> p = ''/h'' then DirEntry
      else if p = ''/h/.env'' then FileEntry (length content) 384 (Some content) else NoEntry)"

definition example_credential_env :: credential_env where
  "example_credential_env =
     \<lparr>ce_temp = Some ''1'', ce_mode = 384, ce_chmod = True, ce_write = None, ce_sync = True, ce_close = True,
      ce_replace = True, ce_remove = True, ce_before_first = (\<lambda>d. d), ce_before_second = (\<lambda>d. d),
      ce_before_replace = (\<lambda>d. d), ce_before_last = (\<lambda>d. d)\<rparr>"

definition example_snapshot :: credentialSnapshot where
  "example_snapshot = \<lparr>so_exists = True, so_data = ''A=four'', so_mode = 384\<rparr>"

abbreviation example_set :: "disk \<times> (credential_error + credential_status)" where
  "example_set \<equiv> credential_Set example_store example_credential_env ''default'' ''openai'' ''sk-12'' (example_disk ''A=four'')"

lemma observe_file:
  assumes "d p = FileEntry (length c) mode (Some c)" and "length c \<le> modelCredentialMaxFile"
    and "ValidString (TrimPrefix c byte_order_mark)"
  shows "observeCredentialFile d p = Inr \<lparr>so_exists = True, so_data = c, so_mode = mode\<rparr>"
  using assms by (simp add: observeCredentialFile_def)


subsection \<open>A configuration is read back\<close>

lemma normalized:
  assumes "normalizeConfig m native c w = Inr config"
    and "lookupModelProviderPreset preset = Some q" and "nc_provider c = mp_hermes q"
  shows "mf_preset config = preset" and "mf_model config = nc_model c"
    and "credential_Status (mm_store m) native preset (hw_disk w)
      = Inr \<lparr>ct_preset = preset, ct_configured = mf_credential config\<rparr>"
proof -
  have status: "credential_Status (mm_store m) native preset d = Inr t \<Longrightarrow> ct_preset t = preset" for d t
    by (auto simp: credential_Status_def split: option.splits sum.splits)
  from assms looked_up [OF assms(2)] show "mf_preset config = preset" "mf_model config = nc_model c"
    by (auto simp: normalizeConfig_def split: if_splits option.splits sum.splits)
  from assms looked_up [OF assms(2)] obtain t where "credential_Status (mm_store m) native preset (hw_disk w) = Inr t"
    "mf_credential config = ct_configured t"
    by (auto simp: normalizeConfig_def split: if_splits option.splits sum.splits)
  with status [of "hw_disk w" t] show "credential_Status (mm_store m) native preset (hw_disk w)
      = Inr \<lparr>ct_preset = preset, ct_configured = mf_credential config\<rparr>" by simp
qed

text \<open>What is known of a configuration that was just read.\<close>

definition config_read_back ::
  "'w model_manager \<Rightarrow> model_installation \<Rightarrow> string \<Rightarrow> 'w hermes_world \<Rightarrow> model_configuration \<Rightarrow> bool" where
  "config_read_back m inst native w config \<longleftrightarrow>
     (\<exists>w0 c. readNativeConfig m (mi_executable inst) native w0 = (w, Inr c)
        \<and> normalizeConfig m native c w = Inr config)"

lemma ReadModelConfig_read: "ReadModelConfig m inst native w = (w', Inr config) \<Longrightarrow> config_read_back m inst native w' config"
  unfolding config_read_back_def ReadModelConfig_def
  by (auto split: option.splits if_splits prod.splits sum.splits)

lemma confirmed:
  "apply_confirm m inst native preset model w = (w', config, None)
    \<Longrightarrow> config_read_back m inst native w' config \<and> mf_preset config = preset \<and> mf_model config = model
      \<and> mf_state config = ModelConfigurationConfigured"
  using ReadModelConfig_read [of m inst native w w' config]
  by (auto simp: apply_confirm_def split: prod.splits sum.splits if_splits)

lemma applied:
  "apply_provider m inst native q preset model before w = (w', config, None)
    \<Longrightarrow> config_read_back m inst native w' config \<and> mf_preset config = preset \<and> mf_model config = model
      \<and> mf_state config = ModelConfigurationConfigured"
  by (auto simp: apply_provider_def apply_model_def dest: confirmed
      split: prod.splits sum.splits if_splits option.splits)

text \<open>
  C18. A configuration whose application is reported as a success was read back from Hermes: the
  command's last output names the Provider behind the preset and the model, and the answer is
  what that output means at that moment, with the credential looked up then. It is complete
  (state CONFIGURED), except when the first read found that there was nothing to change: then
  nothing was written, and the answer says whether the credential is there.
\<close>

theorem applied_configuration_was_read_back:
  assumes "ApplyModelConfig m inst native preset model w = (w', config, None)"
  shows "mf_preset config = preset \<and> mf_model config = model \<and> config_read_back m inst native w' config
    \<and> (mf_state config = ModelConfigurationConfigured
       \<or> (\<exists>q. lookupModelProviderPreset preset = Some q
            \<and> readNativeConfig m (mi_executable inst) native w
                = (w', Inr \<lparr>nc_provider = mp_hermes q, nc_model = model\<rparr>)))"
proof -
  from assms obtain q w1 before where q: "lookupModelProviderPreset preset = Some q"
    and before: "readNativeConfig m (mi_executable inst) native w = (w1, Inr before)"
    and rest: "nc_provider before = mp_hermes q \<and> nc_model before = model
        \<and> answer (w1, normalizeConfig m native before w1) = (w', config, None)
      \<or> (\<exists>w2. apply_provider m inst native q preset model before w2 = (w', config, None))"
    by (auto simp: ApplyModelConfig_def split: option.splits sum.splits prod.splits if_splits)
  from rest show ?thesis
  proof (elim disjE exE conjE)
    assume c: "nc_provider before = mp_hermes q" "nc_model before = model"
      "answer (w1, normalizeConfig m native before w1) = (w', config, None)"
    then have n: "w1 = w'" "normalizeConfig m native before w' = Inr config"
      by (auto simp: answer_def split: sum.splits)
    from c(1,2) have "before = \<lparr>nc_provider = mp_hermes q, nc_model = model\<rparr>" by (cases before) simp
    with before n normalized [OF n(2) q c(1)] q show ?thesis unfolding config_read_back_def by auto
  qed (auto dest: applied)
qed

definition example_run :: "(string \<times> string) model_command" where
  "example_run executable home args mutation w =
     (let ok = \<lparr>cr_limited = False, cr_timed_out = False, cr_error = None, cr_exit = 0, cr_stdout = []\<rparr> in
      case args of
        [_, _, _, verb, k, v] \<Rightarrow>
          if verb = ''set''
          then (if k = modelProviderConfigKey then w\<lparr>hw_rest := (v, snd (hw_rest w))\<rparr>
                else w\<lparr>hw_rest := (fst (hw_rest w), v)\<rparr>, ok)
          else (w, ok\<lparr>cr_stdout := json_text (VObj [(''provider'', VStr (fst (hw_rest w))),
                                                   (''default'', VStr (snd (hw_rest w)))])\<rparr>)
      | _ \<Rightarrow> (w, ok))"

definition example_manager :: "(string \<times> string) model_manager" where
  "example_manager =
     \<lparr>mm_home = ''/h'', mm_run = example_run, mm_run_validation = example_run, mm_store = example_store,
      mm_validation_context = (\<lambda>_. None)\<rparr>"

abbreviation example_world :: "string \<Rightarrow> string \<Rightarrow> (string \<times> string) hermes_world" where
  "example_world provider model \<equiv>
     \<lparr>hw_disk = example_disk ''OPENAI_API_KEY=sk-12'', hw_rest = (provider, model)\<rparr>"

abbreviation example_installation :: model_installation where
  "example_installation \<equiv> \<lparr>mi_executable = ''/x'', mi_version = ''0.20.2''\<rparr>"

definition example_configuration :: model_configuration where
  "example_configuration =
     \<lparr>mf_preset = ''openai'', mf_model = ''gpt-5.4'', mf_state = ModelConfigurationConfigured, mf_credential = True\<rparr>"

lemma example_status:
  "credential_Status (mm_store example_manager) ''default'' ''openai'' (example_disk ''OPENAI_API_KEY=sk-12'')
     = Inr \<lparr>ct_preset = ''openai'', ct_configured = True\<rparr>"
proof -
  have p: "credentialPath (mm_store example_manager) (example_disk ''OPENAI_API_KEY=sk-12'') ''default'' = Inr ''/h/.env''"
    by code_simp
  have u: "ValidString (TrimPrefix ''OPENAI_API_KEY=sk-12'' byte_order_mark)" by code_simp
  have "observeCredentialFile (example_disk ''OPENAI_API_KEY=sk-12'') ''/h/.env''
      = Inr \<lparr>so_exists = True, so_data = ''OPENAI_API_KEY=sk-12'', so_mode = 384\<rparr>"
    by (rule observe_file [OF _ _ u]) (simp_all add: example_disk_def modelCredentialMaxFile_def)
  moreover have "lookupModelProviderPreset ''openai'' = Some (qualifiedModelProviderPresets ! 6)" by code_simp
  moreover have "credentialConfigured ''OPENAI_API_KEY=sk-12'' (mp_env (qualifiedModelProviderPresets ! 6)) = Inr True"
    by code_simp
  ultimately show ?thesis using p by (simp add: credential_Status_def)
qed

lemma example_model: "validateModelID ''gpt-5.4''"
proof -
  have "list_ex (\<lambda>k. map ascii_fold ''gpt-5.4'' = map ascii_fold k)
      [modelProviderConfigKey, modelDefaultConfigKey, contextEngineConfigKey] = False"
    "list_ex (\<lambda>k. map ascii_fold ''gpt-5.4'' = map ascii_fold k) (map mp_env qualifiedModelProviderPresets) = False"
    "modelIDPattern ''gpt-5.4''" "\<not> Contains ''gpt-5.4'' '':/''" "\<not> Contains ''gpt-5.4'' ''..''"
    "\<not> HasSuffix ''gpt-5.4'' ''/''" by code_simp+
  then show ?thesis by (simp add: validateModelID_def modelIDMaxLength_def list_ex_iff)
qed

abbreviation config_text :: "string \<Rightarrow> string \<Rightarrow> string" where
  "config_text p m \<equiv> json_text (VObj [(''provider'', VStr p), (''default'', VStr m)])"

lemma parse_config_text:
  assumes "ValidString p" and "ValidString m" and "length (config_text p m) \<le> 100"
  shows "parseNativeModelConfig (config_text p m) = Some \<lparr>nc_provider = p, nc_model = m\<rparr>"
proof -
  have "ValidString ''provider''" "ValidString ''default''" by code_simp+
  then have parsed: "json_parse (config_text p m) = Some (VObj [(''provider'', VStr p), (''default'', VStr m)])"
    using assms(1,2) by (intro json_roundtrip) (simp_all add: maxNestingDepth_def)
  have chars: "CHR ''{'' \<notin> hd ` set space_runes" "CHR ''}'' \<notin> last ` set space_runes"
    by (simp_all add: space_runes_def)
  obtain t where t: "config_text p m = CHR ''{'' # t @ ''}''" by simp
  have "TrimSpace (config_text p m) = config_text p m"
    unfolding t using chars by (simp add: trimmed no_leading no_trailing)
  with parsed assms(3) t show ?thesis
    by (simp add: parseNativeModelConfig_def modelConfigOutputMaxBytes_def string_member_def del: json_text.simps)
qed

lemma example_reads:
  "parseNativeModelConfig (config_text ''zai'' ''glm-5'')
     = Some \<lparr>nc_provider = ''zai'', nc_model = ''glm-5''\<rparr>"
  "parseNativeModelConfig (config_text ''openai-api'' ''glm-5'')
     = Some \<lparr>nc_provider = ''openai-api'', nc_model = ''glm-5''\<rparr>"
  "parseNativeModelConfig (config_text ''openai-api'' ''gpt-5.4'')
     = Some \<lparr>nc_provider = ''openai-api'', nc_model = ''gpt-5.4''\<rparr>"
  by (rule parse_config_text, code_simp+)+

lemma example_read:
  "readNativeConfig example_manager e native \<lparr>hw_disk = d, hw_rest = (p, m)\<rparr>
     = (\<lparr>hw_disk = d, hw_rest = (p, m)\<rparr>,
        case parseNativeModelConfig (config_text p m) of
          None \<Rightarrow> Inl ErrModelConfigQueryFailed | Some c \<Rightarrow> Inr c)"
  by (simp add: readNativeConfig_def example_manager_def example_run_def modelConfigGetArgs_def Let_def
      command_failed_def del: json_text.simps split: option.splits)

lemma example_write:
  "setScalar example_manager e native modelProviderConfigKey v \<lparr>hw_disk = d, hw_rest = (p, m)\<rparr>
     = (\<lparr>hw_disk = d, hw_rest = (v, m)\<rparr>, None)"
  "setScalar example_manager e native modelDefaultConfigKey v \<lparr>hw_disk = d, hw_rest = (p, m)\<rparr>
     = (\<lparr>hw_disk = d, hw_rest = (p, v)\<rparr>, None)"
  by (simp_all add: setScalar_def example_manager_def example_run_def modelConfigSetArgs_def Let_def
      command_failed_def modelProviderConfigKey_def modelDefaultConfigKey_def)

lemma example_supported: "isSupportedHermesVersion ''0.20.2''"
proof -
  have "TrimSpace ''0.20.2'' = ''0.20.2''" by code_simp
  moreover have "rx_find_all versionBannerPattern None (''Hermes Agent v'' @ ''0.20.2'') = [[''0'', ''20'', ''2'', []]]"
    by code_simp
  moreover have "version_of_groups [''0'', ''20'', ''2'', []]
      = Some \<lparr>vs_major = 0, vs_minor = 20, vs_patch = 2, vs_prerelease = []\<rparr>"
    by (simp add: version_of_groups_def parseVersionNumber_def TrimPrefix_def HasPrefix_def digits_value_def
        digit_value_def is_digit_def less_eq_char_def)
  ultimately show ?thesis
    by (simp only: isSupportedHermesVersion_def parseVersionBanner_def list.case option.case version_supported_def
        version.select_convs)
      simp
qed

theorem applied_configuration_was_read_back_witness:
  "config_read_back example_manager example_installation ''default'' (example_world ''openai-api'' ''gpt-5.4'') example_configuration"
proof -
  let ?m = example_manager and ?q = "qualifiedModelProviderPresets ! 6"
  have f: "officialNormalizeProfileName (cs_lower (mm_store ?m)) ''default'' = Some ''default''"
    "officialValidateProfileName ''default''" "cs_abs (mm_store ?m) ''/x''" by code_simp+
  then have t: "validateModelTarget ?m example_installation ''default'' = None"
    using example_supported by (simp add: validateModelTarget_def)
  have q: "lookupModelProviderPreset ''openai'' = Some ?q" "mp_hermes ?q = ''openai-api''" by code_simp+
  then have v: "ValidateModelSelection ''openai'' ''gpt-5.4'' = None"
    using example_model by (simp add: ValidateModelSelection_def)
  have s: "credential_Status (mm_store ?m) ''default'' ''openai'' (example_disk ''OPENAI_API_KEY=sk-12'')
      = Inr \<lparr>ct_preset = ''openai'', ct_configured = True\<rparr>" by (rule example_status)
  have h: "mm_home ?m \<noteq> []" "cs_abs (mm_store ?m) (mm_home ?m)" by code_simp+
  have n: "normalizeConfig ?m ''default'' \<lparr>nc_provider = ''openai-api'', nc_model = ''gpt-5.4''\<rparr>
      (example_world ''openai-api'' ''gpt-5.4'') = Inr example_configuration"
  proof -
    have "first_match (\<lambda>p. mp_hermes p = ''openai-api'') qualifiedModelProviderPresets = Some ?q"
      "pp_id (mp_safe ?q) = ''openai''" by code_simp+
    with s example_model show ?thesis by (simp add: normalizeConfig_def modelIDMaxLength_def example_configuration_def)
  qed
  have "ApplyModelConfig ?m example_installation ''default'' ''openai'' ''gpt-5.4'' (example_world ''zai'' ''glm-5'')
      = (example_world ''openai-api'' ''gpt-5.4'', example_configuration, None)"
    using t v q s h n
    by (simp add: ApplyModelConfig_def apply_provider_def apply_model_def apply_confirm_def ReadModelConfig_def
        example_read example_write example_reads del: json_text.simps) (simp add: example_configuration_def)
  from applied_configuration_was_read_back [OF this] show ?thesis by blast
qed

end
