(* ===== verification/Spec2Isabelle.thy ===== *)
theory Spec2Isabelle
  imports Operations_Table Upgrade_Properties Recovery_Run_Properties Event_Broker Operation_Text
    Inventory_Table Install_Start_Properties Management_Properties Backup_Index_Properties
    Backup_Verify_Properties Hermes_Properties Lifecycle_Service Service_Properties Instance_Properties
    Secret_Store_Properties Model_Properties Channel_Properties Discovery_Properties Skill_Store_Properties
    Migration_Properties Hermes_Model
begin

text \<open>
  A verification library for the core logic of the YORVA node daemon (services/node/internal):
  the durable record of operations, the transactional installation of a managed Runtime with its
  crash recovery, the planning of upgrades, and the application services that manage instances,
  models, channels, skills, MCP servers and backups on top of them.

  \<^bold>\<open>The program.\<close> The daemon runs one operation at a time on a target (an installation, an
  instance). Operations are rows of a SQLite table (persistence/sqlite/operations.go); their
  exclusion rests on partial unique indexes and triggers, and their progress on the status
  machine of domain/operation. An installation is a transaction (package install): a record under
  \<open>control/transactions\<close>, a generation directory under \<open>generations\<close>, and the pointer
  \<open>control/active.json\<close> that makes one generation the live one. The manager drives a transaction
  through CREATED, BUILDING, SEALED, PUBLISHED, ACTIVATING and COMMITTED; the daemon may stop at
  any instant, and at the next start recovery observes the disk, decides, executes, and opens
  the admission gate only when the disk is clean. Every other mutation follows one pattern: a
  start handler replays the operation of a known idempotency key or inserts a PENDING row, a
  worker claims it, calls the Runtime's adapter and settles it, a cancellation may win the race,
  and a restart settles what was left active. Adapters (runtime/hermes) drive the Hermes program.

  \<^bold>\<open>The theories: foundations.\<close>
  \<^item> Prelude, Go\_Strings, Go\_Time, Go\_Format: Go values (a string is its bytes, a
    time is a count of nanoseconds since Go's zero time), the functions of the packages strings,
    path, utf8, fmt and time that the code calls, and the locales \<open>ranked_machine\<close> (a
    status machine that only climbs) and \<open>keyed_store\<close> (a store whose save changes one key).
  \<^item> Json\_Text, Json\_Text\_Properties: the text that encoding/json writes and reads.

  \<^bold>\<open>The theories: operations and tables.\<close>
  \<^item> Operation\_Domain: operation.go. Types, stages, \<open>ValidTransition\<close>, \<open>ValidStatusChange\<close>; an
    interpretation of \<open>ranked_machine\<close> bounds every worker's run.
    Operation\_Text: the texts under which its values are stored.
  \<^item> Operations\_DB: operations.go. The rows, the schema's constraints, inserts, compare-and-swap
    updates, every query, and the interruption of installs at start. Operations\_Table: the table
    invariant, its preservation along \<open>db_step\<close>, and the effect of each write, by an
    interpretation of \<open>keyed_store\<close>.
  \<^item> Inventory\_DB, Inventory\_Table: installations.go and instances.go. Backup\_Index (and
    \_Properties): runtime\_backups.go and its reader. Skills\_Table: managed\_skills.go and
    managed\_mcp\_bindings.go. Shared\_Models\_Table: shared\_models.go. Channel\_Table:
    channel\_bindings.go with the broker of QR payloads.
  \<^item> Migration\_Run: database.go and migration\_protection.go, opening and migrating the database over
    a data directory whose every content on the way is recorded. Migration\_Properties has \<open>crash_safe\<close>
    triples: an invariant of all those contents, with a postcondition for each outcome.
  \<^item> Event\_Broker: events/broker.go with events/operation.go, bounded subscriptions and the payload
    of an operation event.

  \<^bold>\<open>The theories: installation.\<close>
  \<^item> Install\_Types, Install\_Json: types.go, ids.go, paths.go, transaction.go, active\_pointer.go
    and generation.go. Records, identifiers, validation, and the JSON codec of each record with
    the encoding/json rules it relies on (unknown and repeated keys, case folding, null).
  \<^item> Install\_Fs: the file tree and the os calls, and atomic.go step by step; every system call may
    fail. Install\_Store: transaction\_store.go, active\_pointer.go, seal.go, verify.go.
    Install\_Store\_Properties: the store as a \<open>keyed_store\<close>, the scan, interruption.
  \<^item> Install\_Env: environment.go and its registry store. Install\_Gc: gc.go.
  \<^item> Install\_Manager: manager.go, publish.go, activate.go, environment\_apply.go.
  \<^item> Recovery\_Decide (recovery\_decide.go) and Recovery\_Run (observe.go, recovery\_execute.go,
    recover.go, lock.go), with their properties in Recovery\_Decide\_Properties and
    Recovery\_Run\_Properties.
  \<^item> Install\_Service: app/runtime\_install.go, runtime\_install\_run.go, runtime\_install\_events.go and
    hermes\_prerequisites.go, the service that ties the tables, the transaction store, the gate
    and the broker together. Install\_Service\_Properties: its step relation and the worker;
    Install\_Start\_Properties: admission, idempotency and the link to the transaction.

  \<^bold>\<open>The theories: Runtime contracts and the Hermes adapter.\<close>
  \<^item> Runtime\_Codes: runtime/discovery.go, the discovery results and the error codes.
    Management\_Contracts: the closed enumerations, records and validators of the management
    contracts and the registry of Runtime bundles. Management\_Target: resolving a target, and
    health, logs and security. Management\_Properties: the registry as a \<open>keyed_store\<close>.
  \<^item> Upgrade\_Plan and Upgrade\_Properties: identity.go, policy.go, plan.go, rollback.go.
  \<^item> Backup\_Manifest and Backup\_Verify (each with \_Properties): the canonical manifest of a backup
    container and the verification of a decrypted one, over the bytes of the container.
  \<^item> Hermes\_Version, Hermes\_Profiles, Hermes\_Protocol, Hermes\_Lifecycle: version.go,
    profile\_contract.go and the profile table, protocol.go, and lifecycle.go with its polling;
    Hermes\_Version also holds the part of regexp that the banner uses. Hermes\_Properties.
  \<^item> Hermes\_Env: the text of a profile's \<open>.env\<close> file and its assignments (model\_credential.go), with
    what an edit changes and what it leaves. Hermes\_Model: the credential store with its
    compare-and-swap commit, and the model manager (model\_preset.go, model\_config.go,
    model\_validation.go), which reads back what it writes.

  \<^bold>\<open>The theories: application services.\<close>
  \<^item> Instance\_Service and Lifecycle\_Service: app/instance\_inventory.go and lifecycle.go;
    Instance\_Properties. Discovery\_Service: app/runtime\_discovery.go; Discovery\_Properties has its
    step relation and invariant.
  \<^item> Operation\_Service: what the management services share. Operation\_Service\_Properties holds
    \<open>op_move\<close>, the moves a handler may make on the table, and the locale \<open>operation_handlers\<close>, the
    contract of a service whose steps are such moves. Upgrade\_Service, Backup\_Service,
    Skill\_Service with Skill\_Worker, MCP\_Service with MCP\_Worker: app/management\_*.go.
    Service\_Steps interprets the locale on each of the four; Service\_Properties.
  \<^item> Model\_Service, Model\_Validation: app/models.go and model\_validation.go.
    Shared\_Model\_Service, Shared\_Model\_Worker: app/shared\_models.go. Model\_Properties.
  \<^item> Channel\_Service: app/channels.go; Channel\_Properties.
  \<^item> Secret\_Store: package secrets, and Secret\_Store\_Properties with the locale \<open>secret_contract\<close>,
    interpreted on the Windows backend and on the refusing one.
  \<^item> Skill\_Bundle, Skill\_Store: package managedskills; Skill\_Store\_Properties.

  \<^bold>\<open>Correspondence.\<close> A Go struct is a record, an enumeration a datatype, an \<open>(x, error)\<close> result
  the sum of an error type and the value, and a function that changes the tree takes the tree and
  returns the new one beside its result, also when it fails (so partial effects are kept). Error
  identities are kept as far as the code compares them; message texts are not. The file tree is
  the list of its paths with their nodes; the contents of a file are either a document (a JSON
  value) or other bytes. A table is the list of its rows in insertion order. A revision is a
  64-bit word. A goroutine that works for an operation is split where other handlers may come in
  between, and a service's \<open>step\<close> relation interleaves the pieces. Recovery's loop is bounded by
  the code's own constant of eight steps, so it needs no fuel; the polling of the gateway is
  bounded by the number of polls the timeouts allow; the JSON parser's fuel is the length of its
  input, and Json\_Text\_Properties proves that it never runs out.

  \<^bold>\<open>What the groups of lemmas show.\<close>
  \<^item> Installation: no step of recovery moves a transaction forward without the proof on disk that
    the state asks for, fails a published one, or goes back; the gate opens only on a clean disk;
    the pointer is only replaced from the exact predecessor recorded; saves and atomic writes are
    all or nothing and compare-and-swap; garbage collection keeps every live tree.
  \<^item> Operations: the table never holds two active mutations of one class for a target; a settled
    row stays settled whatever a handler or a late worker does; a restart settles everything it
    interrupted. A migration that stops anywhere is completed or undone at the next start. An install operation is created only when admitted and at most once per
    idempotency key, is linked to a CREATED transaction, is never failed or cancelled while the
    file system owns it, and is finished by its worker.
  \<^item> Services: a snapshot reconciles the instances of one installation and no other; an outcome
    that is reported as a success was observed at the Runtime (instances, channels, MCP servers,
    model profiles, model configurations, credentials); a QR payload is read by the session that asked for it and no other; a shared
    detection is not cancelled while a caller waits; a subscriber sees what was published while
    its channel had room, in order.
  \<^item> Data: the planner's verdicts are characterised in full; manifests and JSON texts round-trip;
    a verified backup is what its manifest says, and neither it nor a skill archive can name a
    file outside its directory; a secret is written once; a skill's digest identifies its content.
  \<^item> Some theorems state behaviour that is not what the code means to do: the accepted installation
    that is lost to a read between commit and completion, the replay or retry that is refused, the
    textual order of creation times, and the write that is not atomic outside Windows.

  \<^bold>\<open>Parameters.\<close> SHA-256, the size and the JSON text of a document, random bytes, the clock, the
  texts of SQLite's messages, the builder and validator of a candidate, the Data Protection API,
  YAML and archive readers, what the Hermes program and the adapters' calls return, and failures
  of the operating system are arguments of the definitions that use them. Reparse points (Windows
  junctions) have no counterpart in the tree, so \<open>rejectReparse\<close> only fails as a failed
  \<open>Lstat\<close> does.

  \<^bold>\<open>Not modelled.\<close> The HTTP transport, process start, logging and diagnostics (input and
  output); the desktop application, the API description and test support; the part of the Hermes
  adapter that edits Hermes' own YAML configuration and drives its processes (documents and
  process trees the model has no text for), with the catalogue request of a model Provider; and the nodes table.
\<close>

end
